(* ===== verification/Prelude.thy ===== *)
theory Prelude
  imports Main "HOL-Library.Word"
begin

section \<open>Shared vocabulary of the development\<close>

text \<open>
  What every component uses: results of fallible code, the integers of JavaScript, strings as
  sequences of Unicode code points with their UTF-8 encoding, byte sequences, decimal printing
  and rounding-up division. The collection \<open>result_simps\<close> holds the equations that run code
  written with \<open>rbind\<close>; \<open>bytes_simps\<close> holds the lengths of byte sequences.
\<close>

named_theorems result_simps
named_theorems bytes_simps

subsection \<open>Results: a thrown error or a value\<close>

text \<open>
  A source function that may throw returns \<open>'e + 'a\<close>: \<open>Inl e\<close> for the error, \<open>Inr x\<close> for the
  value. \<open>rbind\<close> sequences two such computations, as statements do when an exception leaves
  the function.
\<close>

fun rbind :: "'e + 'a \<Rightarrow> ('a \<Rightarrow> 'e + 'b) \<Rightarrow> 'e + 'b" where
  "rbind (Inl e) k = Inl e"
| "rbind (Inr x) k = k x"

definition ensure :: "bool \<Rightarrow> 'e \<Rightarrow> 'e + unit" where
  "ensure b e = (if b then Inr () else Inl e)"

fun rmap :: "('a \<Rightarrow> 'e + 'b) \<Rightarrow> 'a list \<Rightarrow> 'e + 'b list" where
  "rmap f [] = Inr []"
| "rmap f (x # xs) = rbind (f x) (\<lambda>y. rbind (rmap f xs) (\<lambda>ys. Inr (y # ys)))"

lemma rbind_eq_Inr [result_simps]:
  "rbind m k = Inr y \<longleftrightarrow> (\<exists>x. m = Inr x \<and> k x = Inr y)"
  by (cases m) auto

lemma rbind_eq_Inl [result_simps]:
  "rbind m k = Inl e \<longleftrightarrow> m = Inl e \<or> (\<exists>x. m = Inr x \<and> k x = Inl e)"
  by (cases m) auto

lemma ensure_eq_Inr [result_simps]: "ensure b e = Inr u \<longleftrightarrow> b"
  by (simp add: ensure_def)

lemma ensure_eq_Inl [result_simps]: "ensure b e = Inl e' \<longleftrightarrow> \<not> b \<and> e' = e"
  by (auto simp: ensure_def)

lemma ensure_simps [simp]: "ensure True e = Inr ()" "ensure False e = Inl e"
  by (simp_all add: ensure_def)

lemma rmap_Inr_iff:
  "rmap f xs = Inr ys \<longleftrightarrow> list_all2 (\<lambda>x y. f x = Inr y) xs ys"
proof (induction xs arbitrary: ys)
  case Nil
  then show ?case by auto
next
  case (Cons x xs)
  then show ?case by (cases ys) (auto simp: result_simps)
qed

lemma rmap_length: "rmap f xs = Inr ys \<Longrightarrow> length ys = length xs"
  by (auto simp: rmap_Inr_iff dest: list_all2_lengthD)

subsection \<open>JavaScript integers\<close>

text \<open>
  A JavaScript number that the code uses as a count is an \<open>int\<close>. \<open>Number.isSafeInteger\<close>
  accepts the integers of absolute value below \<open>2 ^ 53\<close>, on which the arithmetic of doubles
  is exact.
\<close>

definition MAX_SAFE_INTEGER :: int where
  "MAX_SAFE_INTEGER = 9007199254740991"

definition is_safe_integer :: "int \<Rightarrow> bool" where
  "is_safe_integer n \<longleftrightarrow> \<bar>n\<bar> \<le> MAX_SAFE_INTEGER"

text \<open>\<open>Math.ceil(a / b)\<close> for a natural number and a positive divisor.\<close>

definition ceil_div :: "nat \<Rightarrow> nat \<Rightarrow> nat" where
  "ceil_div a b = (a + b - 1) div b"

lemma ceil_div_mult_ge: "0 < b \<Longrightarrow> a \<le> ceil_div a b * b"
proof -
  assume b: "0 < b"
  have "a + b - 1 = (a + b - 1) div b * b + (a + b - 1) mod b" by simp
  moreover have "(a + b - 1) mod b < b" using b by simp
  ultimately show ?thesis unfolding ceil_div_def by linarith
qed

lemma ceil_div_pred_less: "0 < b \<Longrightarrow> 0 < a \<Longrightarrow> (ceil_div a b - 1) * b < a"
proof -
  assume b: "0 < b" and a: "0 < a"
  have "(a + b - 1) div b * b \<le> a + b - 1" by simp
  then have "ceil_div a b * b \<le> a + b - 1" by (simp add: ceil_div_def)
  then show ?thesis using a b by (simp add: diff_mult_distrib)
qed

lemma ceil_div_le: "0 < b \<Longrightarrow> a \<le> c * b \<Longrightarrow> ceil_div a b \<le> c"
proof -
  assume b: "0 < b" and le: "a \<le> c * b"
  have "a + b - 1 < (c + 1) * b" using b le by simp
  then have "(a + b - 1) div b < c + 1" using b by (simp add: div_less_iff_less_mult)
  then show ?thesis by (simp add: ceil_div_def)
qed

lemma ceil_div_pos: "0 < b \<Longrightarrow> 0 < a \<Longrightarrow> 0 < ceil_div a b"
  by (simp add: ceil_div_def div_greater_zero_iff)

lemma ceil_div_0 [simp]: "0 < b \<Longrightarrow> ceil_div 0 b = 0"
  by (simp add: ceil_div_def)

subsection \<open>Strings and bytes\<close>

text \<open>
  A JavaScript string is the list of its code points (a lone surrogate counts as one), which is
  how \<open>for ... of\<close> walks it. \<open>TextEncoder\<close> writes UTF-8 and replaces a lone surrogate by
  U+FFFD.
\<close>

type_synonym byte = "8 word"
type_synonym ustring = "nat list"

definition ustr :: "string \<Rightarrow> ustring" where
  "ustr s = map of_char s"

definition utf8_char :: "nat \<Rightarrow> byte list" where
  "utf8_char c0 =
     (let c = (if 0xD800 \<le> c0 \<and> c0 < 0xE000 then 0xFFFD else c0) in
      if c < 0x80 then [word_of_nat c]
      else if c < 0x800 then [word_of_nat (0xC0 + c div 0x40), word_of_nat (0x80 + c mod 0x40)]
      else if c < 0x10000 then
        [word_of_nat (0xE0 + c div 0x1000), word_of_nat (0x80 + c div 0x40 mod 0x40),
         word_of_nat (0x80 + c mod 0x40)]
      else
        [word_of_nat (0xF0 + c div 0x40000), word_of_nat (0x80 + c div 0x1000 mod 0x40),
         word_of_nat (0x80 + c div 0x40 mod 0x40), word_of_nat (0x80 + c mod 0x40)])"

definition utf8 :: "ustring \<Rightarrow> byte list" where
  "utf8 s = concat (map utf8_char s)"

lemma utf8_char_length: "1 \<le> length (utf8_char c) \<and> length (utf8_char c) \<le> 4"
  by (simp add: utf8_char_def Let_def)

lemma utf8_simps [simp, bytes_simps]:
  "utf8 [] = []" "utf8 (c # s) = utf8_char c @ utf8 s" "utf8 (s @ t) = utf8 s @ utf8 t"
  by (simp_all add: utf8_def)

lemma utf8_length_ge: "length s \<le> length (utf8 s)"
proof (induction s)
  case Nil
  then show ?case by simp
next
  case (Cons c s)
  then show ?case using utf8_char_length [of c] by simp
qed

lemma utf8_ascii_length: "(\<forall>c \<in> set s. c < 0x80) \<Longrightarrow> length (utf8 s) = length s"
  by (induction s) (auto simp: utf8_char_def)

subsection \<open>Decimal printing\<close>

text \<open>\<open>String(n)\<close> for a natural number, as code points.\<close>

fun decimal :: "nat \<Rightarrow> ustring" where
  "decimal n = (if n < 10 then [48 + n] else decimal (n div 10) @ [48 + n mod 10])"

declare decimal.simps [simp del]

lemma decimal_digits: "c \<in> set (decimal n) \<Longrightarrow> 48 \<le> c \<and> c < 58"
proof (induction n rule: decimal.induct)
  case (1 n)
  show ?case
  proof (cases "n < 10")
    case True
    with "1.prems" show ?thesis by (simp add: decimal.simps [of n])
  next
    case False
    with "1.prems" have "c \<in> set (decimal (n div 10)) \<or> c = 48 + n mod 10"
      by (auto simp: decimal.simps [of n])
    with False "1.IH" show ?thesis by auto
  qed
qed

fun undecimal :: "nat \<Rightarrow> ustring \<Rightarrow> nat" where
  "undecimal acc [] = acc"
| "undecimal acc (c # cs) = undecimal (10 * acc + (c - 48)) cs"

lemma undecimal_append: "undecimal acc (s @ t) = undecimal (undecimal acc s) t"
  by (induction acc s rule: undecimal.induct) auto

lemma undecimal_decimal: "undecimal 0 (decimal n) = n"
proof (induction n rule: decimal.induct)
  case (1 n)
  then show ?case by (subst decimal.simps) (auto simp: undecimal_append)
qed

lemma decimal_inject [simp]: "decimal m = decimal n \<longleftrightarrow> m = n"
  by (metis undecimal_decimal)

lemma decimal_nonempty [simp]: "decimal n \<noteq> []"
  by (subst decimal.simps) simp

lemma decimal_length: "n < 10 ^ k \<Longrightarrow> 0 < k \<Longrightarrow> length (decimal n) \<le> k"
proof (induction n arbitrary: k rule: decimal.induct)
  case (1 n)
  show ?case
  proof (cases "n < 10")
    case True
    with "1.prems" show ?thesis by (simp add: decimal.simps [of n])
  next
    case False
    then have "k \<noteq> 1" using "1.prems" by auto
    then obtain j where k: "k = Suc j" and j: "0 < j"
      using "1.prems" by (cases k) auto
    then have "n div 10 < 10 ^ j" using "1.prems" by (simp add: div_less_iff_less_mult mult.commute)
    with False j "1.IH" have "length (decimal (n div 10)) \<le> j" by simp
    with False k show ?thesis by (simp add: decimal.simps [of n])
  qed
qed

subsection \<open>Lists\<close>

text \<open>The bytes of a list from one offset on, as many as asked for.\<close>

definition subrange :: "nat \<Rightarrow> nat \<Rightarrow> 'a list \<Rightarrow> 'a list" where
  "subrange off len xs = take len (drop off xs)"

lemma subrange_length [simp]: "length (subrange off len xs) = min len (length xs - off)"
  by (simp add: subrange_def)

lemma subrange_0 [simp]: "subrange off 0 xs = []"
  by (simp add: subrange_def)

lemma subrange_split: "subrange off (m + n) xs = subrange off m xs @ subrange (off + m) n xs"
  by (simp add: subrange_def take_add add.commute)

lemma subrange_whole: "subrange 0 (length xs) xs = xs"
  by (simp add: subrange_def)

lemma sum_list_map_add:
  "(\<Sum>x \<leftarrow> xs. f x + g x) = (\<Sum>x \<leftarrow> xs. f x) + (\<Sum>x \<leftarrow> xs. (g x :: nat))"
  by (induction xs) auto

subsection \<open>Batches\<close>

text \<open>\<open>for (offset = 0; offset < xs.length; offset += n) xs.slice(offset, offset + n)\<close> for a positive \<open>n\<close>.\<close>

function chunks_of :: "nat \<Rightarrow> 'a list \<Rightarrow> 'a list list" where
  "chunks_of n xs = (if n = 0 \<or> xs = [] then [] else take n xs # chunks_of n (drop n xs))"
  by pat_completeness auto
termination
  by (relation "measure (\<lambda>(n, xs). length xs)") auto

declare chunks_of.simps [simp del]

lemma concat_chunks_of: "0 < n \<Longrightarrow> concat (chunks_of n xs) = xs"
proof (induction n xs rule: chunks_of.induct)
  case (1 n xs)
  then show ?case by (subst chunks_of.simps) (simp_all add: concat_eq_Nil_conv)
qed

lemma chunks_of_bound: "ys \<in> set (chunks_of n xs) \<Longrightarrow> length ys \<le> n \<and> ys \<noteq> []"
proof (induction n xs rule: chunks_of.induct)
  case (1 n xs)
  then show ?case by (cases "n = 0 \<or> xs = []") (auto simp: chunks_of.simps [of n xs])
qed

lemma chunks_of_cover: "0 < n \<Longrightarrow> x \<in> set xs \<longleftrightarrow> (\<exists>c \<in> set (chunks_of n xs). x \<in> set c)"
  by (metis concat_chunks_of set_concat UN_iff)

lemma in_set_map_filter: "y \<in> set (List.map_filter f xs) \<longleftrightarrow> (\<exists>x \<in> set xs. f x = Some y)"
  by (force simp: List.map_filter_def image_iff)

lemma foldl_chunks: "foldl (foldl f) a xss = foldl f a (concat xss)"
  by (induction xss arbitrary: a) auto

end
