(* ===== verification/Zip_Names.thy ===== *)
theory Zip_Names
  imports Prelude
begin

section \<open>Entry names of an archive\<close>

text \<open>
  Models the naming half of \<open>apps/client/src/worker/zip.ts\<close>: \<open>truncateUtf8\<close>, \<open>safeZipName\<close>
  and \<open>uniqueZipEntryNames\<close>. The Unicode functions of the JavaScript runtime that the code
  calls (\<open>normalize("NFC")\<close> and \<open>toLocaleLowerCase("en-US")\<close>) are the two fields of
  \<open>text_runtime\<close>, an argument of the definitions. The lemmas show that the renaming loop stops,
  that no two names agree up to case, and that every name fits its 240 bytes.
\<close>

subsection \<open>Failures\<close>

text \<open>A function of the archive code throws an \<open>Error\<close> with a message, or does not return.\<close>

datatype failure = Throws string | Diverges

record text_runtime =
  rt_nfc :: "ustring \<Rightarrow> ustring"
  rt_lower :: "ustring \<Rightarrow> ustring"

subsection \<open>Operations\<close>

fun truncateUtf8_from :: "nat \<Rightarrow> ustring \<Rightarrow> ustring \<Rightarrow> ustring" where
  "truncateUtf8_from maximumBytes result [] = result"
| "truncateUtf8_from maximumBytes result (character # rest) =
     (if length (utf8 (result @ [character])) > maximumBytes then result
      else truncateUtf8_from maximumBytes (result @ [character]) rest)"

definition truncateUtf8 :: "ustring \<Rightarrow> nat \<Rightarrow> ustring" where
  "truncateUtf8 value maximumBytes = truncateUtf8_from maximumBytes [] value"

text \<open>The characters of \<open>/[\0\x00-\x1f\x7f\\:*?"<>|]/\<close>; the slash of a path stays.\<close>

definition unsafe_zip_char :: "nat \<Rightarrow> bool" where
  "unsafe_zip_char c \<longleftrightarrow> c \<le> 0x1F \<or> c = 0x7F \<or> c \<in> {92, 58, 42, 63, 34, 60, 62, 124}"

definition safeZipName :: "text_runtime \<Rightarrow> ustring \<Rightarrow> ustring" where
  "safeZipName rt name =
     (let safe = map (\<lambda>c. if unsafe_zip_char c then 95 else c) (rt_nfc rt name)
      in if safe = [] then ustr ''file'' else safe)"

definition copy_suffix :: "nat \<Rightarrow> ustring" where
  "copy_suffix copy = 126 # decimal copy"

definition copy_candidate :: "ustring \<Rightarrow> nat \<Rightarrow> ustring" where
  "copy_candidate base copy =
     (let suffix = copy_suffix copy
      in truncateUtf8 base (240 - length (utf8 suffix)) @ suffix)"

text \<open>The \<open>for (copy = 2; used.has(...); copy += 1)\<close> loop: \<open>None\<close> when it never stops.\<close>

partial_function (option) next_free ::
  "(ustring \<Rightarrow> ustring) \<Rightarrow> ustring set \<Rightarrow> ustring \<Rightarrow> nat \<Rightarrow> ustring \<Rightarrow> ustring option" where
  "next_free lower used base copy candidate =
     (if lower candidate \<in> used then next_free lower used base (Suc copy) (copy_candidate base copy)
      else Some candidate)"

definition base_name :: "text_runtime \<Rightarrow> ustring \<Rightarrow> ustring" where
  "base_name rt value =
     (let base = truncateUtf8 (safeZipName rt value) 240 in if base = [] then ustr ''file'' else base)"

fun unique_names_from :: "text_runtime \<Rightarrow> ustring set \<Rightarrow> ustring list \<Rightarrow> failure + ustring list" where
  "unique_names_from rt used [] = Inr []"
| "unique_names_from rt used (value # rest) =
     (let base = base_name rt value in
      case next_free (rt_lower rt) used base 2 base of
        None \<Rightarrow> Inl Diverges
      | Some candidate \<Rightarrow>
          rbind (unique_names_from rt (insert (rt_lower rt candidate) used) rest)
            (\<lambda>names. Inr (candidate # names)))"

definition uniqueZipEntryNames :: "text_runtime \<Rightarrow> ustring list \<Rightarrow> failure + ustring list" where
  "uniqueZipEntryNames rt names = unique_names_from rt {} names"

subsection \<open>Truncation keeps a prefix within its bytes\<close>

lemma truncateUtf8_from_bound:
  "length (utf8 r) \<le> n \<Longrightarrow> length (utf8 (truncateUtf8_from n r s)) \<le> n"
  by (induction n r s rule: truncateUtf8_from.induct) auto

lemma truncateUtf8_bound [bytes_simps]: "length (utf8 (truncateUtf8 s n)) \<le> n"
  by (simp add: truncateUtf8_def truncateUtf8_from_bound)

lemma truncateUtf8_from_fits:
  "length (utf8 (r @ s)) \<le> n \<Longrightarrow> truncateUtf8_from n r s = r @ s"
proof (induction n r s rule: truncateUtf8_from.induct)
  case (1 n r)
  then show ?case by simp
next
  case (2 n r c s)
  then have "length (utf8 (r @ [c])) \<le> n" by simp
  with 2 show ?case by simp
qed

lemma truncateUtf8_fits: "length (utf8 s) \<le> n \<Longrightarrow> truncateUtf8 s n = s"
  by (simp add: truncateUtf8_def truncateUtf8_from_fits)

lemma truncateUtf8_from_prefix: "\<exists>t. r @ s = truncateUtf8_from n r s @ t"
  by (induction n r s rule: truncateUtf8_from.induct) auto

lemma truncateUtf8_prefix: "\<exists>t. s = truncateUtf8 s n @ t"
  using truncateUtf8_from_prefix [of "[]" s n] by (simp add: truncateUtf8_def)

subsection \<open>The renaming loop stops\<close>

text \<open>
  What the loop needs of lower-casing: it leaves a trailing copy suffix (a tilde and decimal
  digits, characters without case) as it is. Under it the candidates of one base name have
  pairwise different keys, so a finite set of used keys cannot hold them all.
\<close>

definition keeps_copy_suffix :: "(ustring \<Rightarrow> ustring) \<Rightarrow> bool" where
  "keeps_copy_suffix lower \<longleftrightarrow> (\<forall>s n. \<exists>p. lower (s @ copy_suffix n) = p @ copy_suffix n)"

lemma tilde_digits_unique:
  assumes "p @ 126 # s = q @ 126 # t" and "(126::nat) \<notin> set s" and "126 \<notin> set t"
  shows "s = t"
  using assms
proof (induction p arbitrary: q)
  case Nil
  then show ?case by (cases q) auto
next
  case (Cons a p)
  then show ?case by (cases q) auto
qed

lemma copy_suffix_inject: "p @ copy_suffix m = q @ copy_suffix n \<Longrightarrow> m = n"
proof -
  assume eq: "p @ copy_suffix m = q @ copy_suffix n"
  have "126 \<notin> set (decimal m)" "126 \<notin> set (decimal n)"
    using decimal_digits by fastforce+
  with eq have "decimal m = decimal n"
    unfolding copy_suffix_def by (rule tilde_digits_unique)
  then show ?thesis by simp
qed

lemma candidate_keys_inj:
  assumes "keeps_copy_suffix lower"
  shows "inj (\<lambda>copy. lower (copy_candidate base copy))"
proof (rule injI)
  fix m n
  assume eq: "lower (copy_candidate base m) = lower (copy_candidate base n)"
  obtain p where "lower (copy_candidate base m) = p @ copy_suffix m"
    using assms unfolding keeps_copy_suffix_def copy_candidate_def Let_def by blast
  moreover obtain q where "lower (copy_candidate base n) = q @ copy_suffix n"
    using assms unfolding keeps_copy_suffix_def copy_candidate_def Let_def by blast
  ultimately show "m = n" using eq by (metis copy_suffix_inject)
qed

lemma free_candidate_exists:
  assumes inj: "inj f" and fin: "finite used"
  shows "\<exists>k. c \<le> k \<and> k \<le> c + card used \<and> f k \<notin> (used :: 'a set)"
proof (rule ccontr)
  assume "\<not> ?thesis"
  then have "f ` {c .. c + card used} \<subseteq> used" by auto
  then have "card (f ` {c .. c + card used}) \<le> card used" using fin by (rule card_mono [rotated])
  moreover have "card (f ` {c .. c + card used}) = Suc (card used)"
    using inj by (simp add: card_image inj_on_subset)
  ultimately show False by simp
qed

lemma next_free_later:
  assumes "lower (copy_candidate base k) \<notin> used" and "copy \<le> k"
  shows "\<exists>r. next_free lower used base copy cand = Some r \<and> lower r \<notin> used \<and>
           (r = cand \<or> (\<exists>j. copy \<le> j \<and> j \<le> k \<and> r = copy_candidate base j))"
  using assms(2)
proof (induction "k - copy" arbitrary: copy cand)
  case 0
  then have "copy = k" by simp
  with assms(1) show ?case
    by (subst next_free.simps) (subst next_free.simps, auto)
next
  case (Suc d)
  then have step: "d = k - Suc copy" "Suc copy \<le> k" by simp_all
  show ?case
  proof (cases "lower cand \<in> used")
    case True
    from Suc.hyps(1) [OF step, of "copy_candidate base copy"] True Suc.prems show ?thesis
      by (subst next_free.simps) (auto intro: exI [of _ copy] dest: Suc_leD)
  next
    case False
    then show ?thesis by (subst next_free.simps) auto
  qed
qed

lemma next_free_total:
  assumes "keeps_copy_suffix lower" and "finite used"
  shows "\<exists>r. next_free lower used base 2 base = Some r \<and> lower r \<notin> used \<and>
           (r = base \<or> (\<exists>j. 2 \<le> j \<and> j \<le> 2 + card used \<and> r = copy_candidate base j))"
proof -
  obtain k where k: "2 \<le> k" "k \<le> 2 + card used" "lower (copy_candidate base k) \<notin> used"
    using free_candidate_exists [OF candidate_keys_inj [OF assms(1)] assms(2)] by blast
  from next_free_later [of lower base k used 2 base, OF k(3) k(1)]
  obtain r where r: "next_free lower used base 2 base = Some r" "lower r \<notin> used"
      "r = base \<or> (\<exists>j. 2 \<le> j \<and> j \<le> k \<and> r = copy_candidate base j)"
    by blast
  from r(3) have "r = base \<or> (\<exists>j. 2 \<le> j \<and> j \<le> 2 + card used \<and> r = copy_candidate base j)"
    using order_trans [OF _ k(2)] by blast
  with r show ?thesis by blast
qed

subsection \<open>Every name fits and is not empty\<close>

lemma copy_candidate_bound:
  assumes "copy < 10 ^ 239"
  shows "length (utf8 (copy_candidate base copy)) \<le> 240 \<and> copy_candidate base copy \<noteq> []"
proof -
  have ascii: "\<forall>c \<in> set (copy_suffix copy). c < 0x80"
    using decimal_digits by (fastforce simp: copy_suffix_def)
  have "length (decimal copy) \<le> 239" using decimal_length [OF assms] by simp
  then have "length (utf8 (copy_suffix copy)) \<le> 240"
    unfolding utf8_ascii_length [OF ascii] by (simp add: copy_suffix_def)
  moreover have "length (utf8 (truncateUtf8 base (240 - length (utf8 (copy_suffix copy)))))
      \<le> 240 - length (utf8 (copy_suffix copy))"
    by (rule truncateUtf8_bound)
  ultimately show ?thesis by (simp add: copy_candidate_def Let_def copy_suffix_def)
qed

lemma base_name_bound: "length (utf8 (base_name rt v)) \<le> 240 \<and> base_name rt v \<noteq> []"
proof -
  have "length (utf8 (ustr ''file'')) = 4" and "ustr ''file'' \<noteq> []"
    by (simp_all add: ustr_def utf8_char_def)
  then show ?thesis by (simp add: base_name_def Let_def truncateUtf8_bound)
qed

definition name_fits :: "ustring \<Rightarrow> bool" where
  "name_fits name \<longleftrightarrow> name \<noteq> [] \<and> length (utf8 name) \<le> 240"

lemma unique_names_from_ok:
  assumes "keeps_copy_suffix (rt_lower rt)" and "finite used"
    and "card used + length vals < 2 ^ 32"
  shows "\<exists>names. unique_names_from rt used vals = Inr names \<and> length names = length vals \<and>
           distinct (map (rt_lower rt) names) \<and> set (map (rt_lower rt) names) \<inter> used = {} \<and>
           (\<forall>n \<in> set names. name_fits n)"
  using assms(2,3)
proof (induction vals arbitrary: used)
  case Nil
  then show ?case by simp
next
  case (Cons v vs)
  let ?base = "base_name rt v"
  obtain r where r: "next_free (rt_lower rt) used ?base 2 ?base = Some r"
      "rt_lower rt r \<notin> used"
      "r = ?base \<or> (\<exists>j. 2 \<le> j \<and> j \<le> 2 + card used \<and> r = copy_candidate ?base j)"
    using next_free_total [OF assms(1) Cons.prems(1)] by blast
  have fits: "name_fits r"
  proof (cases "r = ?base")
    case True
    then show ?thesis using base_name_bound by (simp add: name_fits_def)
  next
    case False
    with r(3) obtain j where "j \<le> 2 + card used" "r = copy_candidate ?base j" by blast
    moreover have "(2::nat) ^ 32 + 2 < 10 ^ 239" by simp
    ultimately have "j < 10 ^ 239" using Cons.prems(2) by linarith
    with \<open>r = copy_candidate ?base j\<close> show ?thesis
      using copy_candidate_bound [of j] by (simp add: name_fits_def)
  qed
  let ?used = "insert (rt_lower rt r) used"
  have "card ?used + length vs < 2 ^ 32"
    using Cons.prems r(2) by simp
  from Cons.IH [OF _ this] Cons.prems(1) obtain names where
    names: "unique_names_from rt ?used vs = Inr names" "length names = length vs"
      "distinct (map (rt_lower rt) names)" "set (map (rt_lower rt) names) \<inter> ?used = {}"
      "\<forall>n \<in> set names. name_fits n"
    by blast
  show ?case
    using r names fits by (intro exI [of _ "r # names"]) (auto simp: Let_def)
qed

lemma unique_names_ok:
  assumes "keeps_copy_suffix (rt_lower rt)" and "length vals < 2 ^ 32"
  obtains names where "uniqueZipEntryNames rt vals = Inr names" "length names = length vals"
    "distinct (map (rt_lower rt) names)" "\<forall>n \<in> set names. name_fits n"
  using unique_names_from_ok [OF assms(1), of "{}" vals] assms(2)
  by (auto simp: uniqueZipEntryNames_def)

lemma unique_names_length:
  "uniqueZipEntryNames rt vals = Inr names \<Longrightarrow> length names = length vals"
proof -
  have "unique_names_from rt used vals = Inr names \<Longrightarrow> length names = length vals" for used
    by (induction rt used vals arbitrary: names rule: unique_names_from.induct)
      (auto simp: Let_def result_simps split: option.splits)
  then show "uniqueZipEntryNames rt vals = Inr names \<Longrightarrow> length names = length vals"
    by (simp add: uniqueZipEntryNames_def)
qed

end
