(* ===== verification/Zip_Bytes.thy ===== *)
theory Zip_Bytes
  imports Prelude
begin

unbundle bit_operations_syntax

section \<open>Checksums and little-endian fields\<close>

text \<open>
  The byte-level helpers of \<open>apps/client/src/worker/zip.ts\<close>: the CRC-32 table and \<open>crc32\<close>,
  the field writers \<open>u16\<close>, \<open>u32\<close>, \<open>u64\<close> and \<open>zip64Extra\<close>. The lemmas show that the table-driven
  checksum is the bit-serial one, that it can be computed chunk by chunk, and that a 64-bit field
  reads back as the number written.
\<close>

subsection \<open>CRC-32\<close>

definition crc_bit :: "32 word \<Rightarrow> 32 word" where
  "crc_bit crc = drop_bit 1 crc XOR (if odd crc then 0xEDB88320 else 0)"

definition CRC_TABLE :: "32 word list" where
  "CRC_TABLE = map (\<lambda>v. (crc_bit ^^ 8) (word_of_nat v)) [0..<256]"

fun crc32 :: "byte list \<Rightarrow> 32 word \<Rightarrow> 32 word" where
  "crc32 [] crc = crc"
| "crc32 (b # bs) crc =
     crc32 bs (drop_bit 8 crc XOR CRC_TABLE ! unat ((crc XOR ucast b) AND 0xFF))"

text \<open>The final complement, \<open>(crc ^ 0xffffffff) >>> 0\<close>.\<close>

definition crc_final :: "32 word \<Rightarrow> 32 word" where
  "crc_final crc = crc XOR 0xFFFFFFFF"

text \<open>The bit-serial shift register that the table is meant to speed up.\<close>

fun crc32_bitwise :: "byte list \<Rightarrow> 32 word \<Rightarrow> 32 word" where
  "crc32_bitwise [] crc = crc"
| "crc32_bitwise (b # bs) crc = crc32_bitwise bs ((crc_bit ^^ 8) (crc XOR ucast b))"

lemma shift_step_xor:
  "drop_bit 1 (a XOR b) XOR (if odd (a XOR b) then p else 0) =
   (drop_bit 1 a XOR (if odd a then p else 0)) XOR (drop_bit 1 b XOR (if odd b then p else 0))"
  for a b p :: "32 word"
  by (rule bit_word_eqI) (auto simp: bit_simps even_xor_iff)

lemma crc_bit_xor: "crc_bit (a XOR b) = crc_bit a XOR crc_bit b"
  unfolding crc_bit_def by (rule shift_step_xor)

lemma crc_bit_pow_xor: "(crc_bit ^^ n) (a XOR b) = (crc_bit ^^ n) a XOR (crc_bit ^^ n) b"
  by (induction n arbitrary: a b) (auto simp: crc_bit_xor funpow_Suc_right simp del: funpow.simps)

lemma crc_bit_pow_high:
  "take_bit n (x :: 32 word) = 0 \<Longrightarrow> (crc_bit ^^ n) x = drop_bit n x"
proof (induction n arbitrary: x)
  case 0
  then show ?case by simp
next
  case (Suc n)
  from Suc.prems have low: "\<not> bit x k" if "k < Suc n" for k
    using that by (metis bit_0_eq bit_take_bit_iff bot_apply bot_bool_def)
  have "even x" using low [of 0] by (simp add: bit_0)
  then have "crc_bit x = drop_bit 1 x" by (simp add: crc_bit_def)
  moreover have "take_bit n (drop_bit 1 x) = 0"
    by (rule bit_word_eqI) (auto simp: bit_simps low)
  ultimately show ?case
    using Suc.IH [of "drop_bit 1 x"] by (simp add: funpow_Suc_right del: funpow.simps)
qed

lemma crc_table_step:
  "(crc_bit ^^ 8) x = drop_bit 8 x XOR CRC_TABLE ! unat (x AND 0xFF)"
proof -
  let ?hi = "x AND NOT 0xFF" and ?lo = "x AND 0xFF"
  have mask: "(0xFF :: 32 word) = mask 8" by (simp add: mask_eq_exp_minus_1)
  have split: "x = ?hi XOR ?lo"
    by (rule bit_word_eqI) (auto simp: bit_simps)
  have "take_bit 8 ?hi = 0"
    by (rule bit_word_eqI) (auto simp: bit_simps mask)
  then have hi: "(crc_bit ^^ 8) ?hi = drop_bit 8 ?hi" by (rule crc_bit_pow_high)
  have hi': "drop_bit 8 ?hi = drop_bit 8 x"
    by (rule bit_word_eqI) (auto simp: bit_simps mask dest: bit_imp_le_length)
  have "?lo \<le> 0xFF" by (rule word_and_le1)
  then have "unat ?lo < 256" by (simp add: word_le_nat_alt)
  then have lo: "CRC_TABLE ! unat ?lo = (crc_bit ^^ 8) ?lo"
    by (simp add: CRC_TABLE_def del: funpow.simps)
  have "(crc_bit ^^ 8) x = (crc_bit ^^ 8) ?hi XOR (crc_bit ^^ 8) ?lo"
    by (subst split) (rule crc_bit_pow_xor)
  then show ?thesis by (simp only: hi hi' lo)
qed

lemma drop_byte [simp]: "drop_bit 8 (ucast (b :: byte) :: 32 word) = 0"
  by (rule bit_word_eqI) (auto simp: bit_simps dest: bit_imp_le_length)

lemma crc32_is_bitwise: "crc32 bs crc = crc32_bitwise bs crc"
  by (induction bs crc rule: crc32.induct) (simp_all add: crc_table_step del: funpow.simps)

lemma crc32_append: "crc32 (xs @ ys) crc = crc32 ys (crc32 xs crc)"
  by (induction xs crc rule: crc32.induct) auto

subsection \<open>Little-endian fields\<close>

text \<open>
  A JavaScript number written as bytes: \<open>value & 0xff\<close> is the low byte, \<open>value >>> 8\<close> moves the
  next one down. \<open>u64\<close> loops over a \<open>BigInt\<close>.
\<close>

definition u16 :: "int \<Rightarrow> byte list" where
  "u16 v = [word_of_int v, word_of_int (v div 0x100)]"

definition u32 :: "int \<Rightarrow> byte list" where
  "u32 v = [word_of_int v, word_of_int (v div 0x100), word_of_int (v div 0x10000),
            word_of_int (v div 0x1000000)]"

primrec u64_loop :: "nat \<Rightarrow> int \<Rightarrow> byte list" where
  "u64_loop 0 current = []"
| "u64_loop (Suc n) current = word_of_int current # u64_loop n (current div 0x100)"

definition u64 :: "int \<Rightarrow> byte list" where
  "u64 v = u64_loop 8 v"

definition ZIP64_EXTRA :: int where
  "ZIP64_EXTRA = 0x0001"

definition zip64Extra :: "int \<Rightarrow> int option \<Rightarrow> byte list" where
  "zip64Extra sz offset =
     (let vals = (case offset of None \<Rightarrow> [sz, sz] | Some off \<Rightarrow> [sz, sz, off])
      in u16 ZIP64_EXTRA @ u16 (int (length vals) * 8) @ concat (map u64 vals))"

lemma u64_loop_length: "length (u64_loop n v) = n"
  by (induction n arbitrary: v) auto

lemma field_lengths [simp, bytes_simps]:
  "length (u16 v) = 2" "length (u32 v) = 4" "length (u64 v) = 8"
  by (simp_all add: u16_def u32_def u64_def u64_loop_length)

lemma zip64Extra_length [simp, bytes_simps]:
  "length (zip64Extra sz None) = 20" "length (zip64Extra sz (Some off)) = 28"
  by (simp_all add: zip64Extra_def)

text \<open>Reading a little-endian field.\<close>

primrec le_value :: "byte list \<Rightarrow> int" where
  "le_value [] = 0"
| "le_value (b # bs) = uint b + 0x100 * le_value bs"

lemma le_value_u64_loop: "le_value (u64_loop n v) = v mod (0x100 ^ n)"
proof (induction n arbitrary: v)
  case 0
  then show ?case by simp
next
  case (Suc n)
  have "v mod (0x100 * 0x100 ^ n) = 0x100 * (v div 0x100 mod 0x100 ^ n) + v mod 0x100"
    by (rule zmod_zmult2_eq) simp
  then show ?case by (simp add: Suc.IH uint_word_of_int)
qed

lemma le_value_u64: "0 \<le> v \<Longrightarrow> v < 2 ^ 64 \<Longrightarrow> le_value (u64 v) = v"
  by (simp add: u64_def le_value_u64_loop)

end
