(* ===== verification/One_Pass_Correct.thy ===== *)
theory One_Pass_Correct
  imports One_Pass_Zip
begin

section \<open>Correctness of the one-pass writer\<close>

text \<open>
  The abstract archive prefix of \<open>One_Pass_Zip\<close>, the invariant of the writer's state, and the
  interface \<open>resumable\<close> of a producer that is asked for its bytes in pieces.
\<close>

subsection \<open>The interface: a producer that can be resumed\<close>

text \<open>
  The workflow asks for one part after the other and carries only the state over. What it relies
  on: from a good state with at least \<open>n\<close> bytes left, \<open>produce\<close> returns the next \<open>n\<close> and a good
  state with the others left.
\<close>

locale resumable =
  fixes produce :: "'s \<Rightarrow> nat \<Rightarrow> 'e + ('b list \<times> 's)"
    and rest :: "'s \<Rightarrow> 'b list"
    and ok :: "'s \<Rightarrow> bool"
    and fits :: "nat \<Rightarrow> bool"
  assumes produce_next: "ok s \<Longrightarrow> fits n \<Longrightarrow> n \<le> length (rest s) \<Longrightarrow>
    \<exists>s'. produce s n = Inr (take n (rest s), s') \<and> ok s' \<and> rest s' = drop n (rest s)"
begin

fun produce_all :: "'s \<Rightarrow> nat list \<Rightarrow> 'e + ('b list list \<times> 's)" where
  "produce_all s [] = Inr ([], s)"
| "produce_all s (n # ns) =
     rbind (produce s n) (\<lambda>(piece, s'). rbind (produce_all s' ns) (\<lambda>(pieces, s''). Inr (piece # pieces, s'')))"

lemma produce_all_concat:
  "ok s \<Longrightarrow> (\<forall>n \<in> set ns. fits n) \<Longrightarrow> sum_list ns \<le> length (rest s) \<Longrightarrow>
    \<exists>pieces s'. produce_all s ns = Inr (pieces, s') \<and> map length pieces = ns \<and>
      concat pieces = take (sum_list ns) (rest s) \<and> ok s' \<and> rest s' = drop (sum_list ns) (rest s)"
proof (induction ns arbitrary: s)
  case Nil
  then show ?case by simp
next
  case (Cons n ns)
  then obtain s1 where s1: "produce s n = Inr (take n (rest s), s1)" "ok s1" "rest s1 = drop n (rest s)"
    using produce_next [of s n] by auto
  with Cons obtain pieces s2 where "produce_all s1 ns = Inr (pieces, s2)" "map length pieces = ns"
      "concat pieces = take (sum_list ns) (rest s1)" "ok s2" "rest s2 = drop (sum_list ns) (rest s1)"
    by (metis add_le_imp_le_diff length_drop list.set_intros(2) sum_list.Cons add.commute)
  with s1 Cons.prems show ?case
    by (intro exI [of _ "take n (rest s) # pieces"] exI [of _ s2]) (simp add: take_add add.commute)
qed

end

subsection \<open>The archive prefix and the state invariant\<close>

definition expected_crc :: "(ustring \<Rightarrow> byte list) \<Rightarrow> OnePassZipEntry \<Rightarrow> 32 word" where
  "expected_crc content e =
     (case oe_crc32 e of Some c \<Rightarrow> c
      | None \<Rightarrow> crc_final (crc32 (content (oe_physicalKey e)) 0xFFFFFFFF))"

definition entry_bytes :: "(ustring \<Rightarrow> byte list) \<Rightarrow> OnePassZipEntry \<Rightarrow> ustring \<Rightarrow> byte list" where
  "entry_bytes content e name =
     localHeader e name @ content (oe_physicalKey e) @ descriptor e (expected_crc content e)"

fun prefix_bytes :: "(ustring \<Rightarrow> byte list) \<Rightarrow> OnePassZipEntry list \<Rightarrow> ustring list \<Rightarrow> byte list" where
  "prefix_bytes content (e # es) (n # ns) = entry_bytes content e n @ prefix_bytes content es ns"
| "prefix_bytes content es ns = []"

definition op_current :: "(ustring \<Rightarrow> byte list) \<Rightarrow> OnePassZipEntry \<Rightarrow> ustring \<Rightarrow> OnePassZipState \<Rightarrow> byte list" where
  "op_current content e name st =
     (case os_stage st of
        Stage_header \<Rightarrow> drop (os_segmentOffset st) (localHeader e name) @
          content (oe_physicalKey e) @ descriptor e (expected_crc content e)
      | Stage_data \<Rightarrow> drop (os_sourceOffset st) (content (oe_physicalKey e)) @
          descriptor e (expected_crc content e)
      | Stage_descriptor \<Rightarrow> drop (os_segmentOffset st) (descriptor e (expected_crc content e))
      | Stage_done \<Rightarrow> [])"

definition op_rest ::
  "(ustring \<Rightarrow> byte list) \<Rightarrow> OnePassZipEntry list \<Rightarrow> ustring list \<Rightarrow> OnePassZipState \<Rightarrow> byte list" where
  "op_rest content entries names st =
     (if os_entryIndex st < length entries then
        op_current content (entries ! os_entryIndex st) (names ! os_entryIndex st) st @
        prefix_bytes content (drop (Suc (os_entryIndex st)) entries) (drop (Suc (os_entryIndex st)) names)
      else [])"

definition op_stage_ok :: "(ustring \<Rightarrow> byte list) \<Rightarrow> OnePassZipEntry \<Rightarrow> ustring \<Rightarrow> OnePassZipState \<Rightarrow> bool" where
  "op_stage_ok content e name st \<longleftrightarrow>
     (case os_stage st of
        Stage_header \<Rightarrow> os_segmentOffset st < length (localHeader e name) \<and> os_sourceOffset st = 0 \<and>
          os_crcState st = 0xFFFFFFFF
      | Stage_data \<Rightarrow> os_segmentOffset st = 0 \<and> os_sourceOffset st \<le> length (content (oe_physicalKey e)) \<and>
          (oe_crc32 e = None \<longrightarrow>
             os_crcState st = crc32 (take (os_sourceOffset st) (content (oe_physicalKey e))) 0xFFFFFFFF)
      | Stage_descriptor \<Rightarrow> os_segmentOffset st < 24 \<and> os_entryCrc32 st = Some (expected_crc content e)
      | Stage_done \<Rightarrow> False)"

definition op_state_ok ::
  "(ustring \<Rightarrow> byte list) \<Rightarrow> OnePassZipEntry list \<Rightarrow> ustring list \<Rightarrow> OnePassZipState \<Rightarrow> bool" where
  "op_state_ok content entries names st \<longleftrightarrow>
     length names = length entries \<and> os_completedFiles st = os_entryIndex st \<and>
     os_archiveOffset st + length (op_rest content entries names st) =
       length (prefix_bytes content entries names) \<and>
     (if os_entryIndex st < length entries
      then op_stage_ok content (entries ! os_entryIndex st) (names ! os_entryIndex st) st
      else os_entryIndex st = length entries \<and> (os_stage st = Stage_done \<or> entries = []))"

text \<open>The store: every entry's object has the announced size and serves the ranges asked for.\<close>

definition op_serves :: "OnePassZipBucket \<Rightarrow> (ustring \<Rightarrow> byte list) \<Rightarrow> OnePassZipEntry list \<Rightarrow> bool" where
  "op_serves bucket content entries \<longleftrightarrow>
     (\<forall>e \<in> set entries. int (length (content (oe_physicalKey e))) = oe_size e \<and>
        (\<forall>off n. 0 < n \<longrightarrow> off + n \<le> length (content (oe_physicalKey e)) \<longrightarrow>
           bucket (oe_physicalKey e) off n (oe_etag e) = Some (subrange off n (content (oe_physicalKey e)))))"

lemma prefix_bytes_nth:
  "i < length entries \<Longrightarrow> length names = length entries \<Longrightarrow>
    prefix_bytes content (drop i entries) (drop i names) =
    entry_bytes content (entries ! i) (names ! i) @
    prefix_bytes content (drop (Suc i) entries) (drop (Suc i) names)"
  by (metis Cons_nth_drop_Suc prefix_bytes.simps(1))

lemma prefix_bytes_beyond: "length entries \<le> i \<Longrightarrow> prefix_bytes content (drop i entries) ns = []"
  by simp

lemma initial_state_ok:
  assumes "length names = length entries"
  shows "op_state_ok content entries names initialOnePassZipState"
    and "op_rest content entries names initialOnePassZipState = prefix_bytes content entries names"
proof -
  show rest: "op_rest content entries names initialOnePassZipState = prefix_bytes content entries names"
    using assms prefix_bytes_nth [of 0 entries names content]
    by (auto simp: op_rest_def op_current_def initialOnePassZipState_def entry_bytes_def)
  show "op_state_ok content entries names initialOnePassZipState"
    unfolding op_state_ok_def rest
    using assms by (auto simp: initialOnePassZipState_def op_stage_ok_def)
qed

subsection \<open>One turn of the loop\<close>

text \<open>
  What a turn does to the loop variables: some bytes move from what is left to the output, the
  checksums of the entries finished are appended, and a measure decreases.
\<close>

definition op_measure :: "(ustring \<Rightarrow> byte list) \<Rightarrow> OnePassZipEntry list \<Rightarrow> ustring list \<Rightarrow> OnePassZipState \<Rightarrow> nat" where
  "op_measure content entries names st =
     2 * length (op_rest content entries names st) +
     (if os_stage st = Stage_header \<or> os_stage st = Stage_data then 1 else 0)"

definition op_checksum :: "(ustring \<Rightarrow> byte list) \<Rightarrow> OnePassZipEntry list \<Rightarrow> nat \<Rightarrow> OnePassZipChecksum" where
  "op_checksum content entries i =
     \<lparr>oc_entryIndex = i, oc_crc32 = expected_crc content (entries ! i),
      oc_calculated = (oe_crc32 (entries ! i) = None)\<rparr>"

definition op_advance ::
  "(ustring \<Rightarrow> byte list) \<Rightarrow> OnePassZipEntry list \<Rightarrow> ustring list \<Rightarrow> nat \<Rightarrow> op_loop \<Rightarrow> op_loop \<Rightarrow> bool" where
  "op_advance content entries names len l l' \<longleftrightarrow>
     op_state_ok content entries names (ol_state l') \<and>
     length (ol_output l') \<le> max len (length (ol_output l)) \<and>
     (\<exists>piece. ol_output l' = ol_output l @ piece \<and>
        op_rest content entries names (ol_state l) = piece @ op_rest content entries names (ol_state l')) \<and>
     os_entryIndex (ol_state l) \<le> os_entryIndex (ol_state l') \<and>
     ol_checksums l' = ol_checksums l @
       map (op_checksum content entries) [os_entryIndex (ol_state l)..<os_entryIndex (ol_state l')]"

lemma op_advance_refl:
  "op_state_ok content entries names (ol_state l) \<Longrightarrow> op_advance content entries names len l l"
  by (simp add: op_advance_def)

lemma op_advance_trans:
  assumes "op_advance content entries names len l1 l2" and "op_advance content entries names len l2 l3"
  shows "op_advance content entries names len l1 l3"
proof -
  let ?i = "\<lambda>l. os_entryIndex (ol_state l)"
  have "?i l1 \<le> ?i l2" "?i l2 \<le> ?i l3" using assms by (auto simp: op_advance_def)
  then have "[?i l1..<?i l3] = [?i l1..<?i l2] @ [?i l2..<?i l3]"
    by (metis le_add_diff_inverse upt_add_eq_append)
  then show ?thesis using assms unfolding op_advance_def by auto
qed

lemma copySegment_split:
  assumes "os \<le> length segment"
  shows "drop os segment = copySegment len output segment os @
      drop (os + length (copySegment len output segment os)) segment"
    and "length output + length (copySegment len output segment os) \<le> max len (length output)"
proof -
  let ?k = "min (len - length output) (length segment - os)"
  have len: "length (copySegment len output segment os) = ?k" by (simp add: copySegment_def)
  have drop: "drop (os + ?k) segment = drop ?k (drop os segment)" by (simp add: add.commute)
  show "drop os segment = copySegment len output segment os @
      drop (os + length (copySegment len output segment os)) segment"
    unfolding len drop by (simp only: copySegment_def subrange_def append_take_drop_id)
  show "length output + length (copySegment len output segment os) \<le> max len (length output)"
    unfolding len by linarith
qed

lemma copySegment_progress:
  "os < length segment \<Longrightarrow> length output < len \<Longrightarrow> 0 < length (copySegment len output segment os)"
  by (simp add: copySegment_def)

text \<open>Within one entry it is enough to look at the bytes of that entry.\<close>

lemma op_advance_within:
  assumes ok: "op_state_ok content entries names (ol_state l)"
    and i: "os_entryIndex (ol_state l) < length entries"
    and e: "e = entries ! os_entryIndex (ol_state l)" and n: "n = names ! os_entryIndex (ol_state l)"
    and same: "os_entryIndex (ol_state l') = os_entryIndex (ol_state l)"
      "os_completedFiles (ol_state l') = os_completedFiles (ol_state l)"
      "os_archiveOffset (ol_state l') = os_archiveOffset (ol_state l) + length piece"
      "ol_checksums l' = ol_checksums l" "ol_output l' = ol_output l @ piece"
    and cur: "op_current content e n (ol_state l) = piece @ op_current content e n (ol_state l')"
    and stage: "op_stage_ok content e n (ol_state l')"
    and fit: "length (ol_output l) + length piece \<le> max len (length (ol_output l))"
  shows "op_advance content entries names len l l'"
    and "length (op_rest content entries names (ol_state l)) =
      length piece + length (op_rest content entries names (ol_state l'))"
proof -
  have rest: "op_rest content entries names (ol_state l) = piece @ op_rest content entries names (ol_state l')"
    using i cur e n same by (simp add: op_rest_def)
  then show "length (op_rest content entries names (ol_state l)) =
      length piece + length (op_rest content entries names (ol_state l'))"
    by simp
  show "op_advance content entries names len l l'"
    using ok i same stage fit rest e n by (auto simp: op_advance_def op_state_ok_def)
qed

lemma header_step_advances:
  assumes ok: "op_state_ok content entries names (ol_state l)"
    and i: "os_entryIndex (ol_state l) < length entries"
    and e: "e = entries ! os_entryIndex (ol_state l)" and n: "n = names ! os_entryIndex (ol_state l)"
    and st: "os_stage (ol_state l) = Stage_header" and room: "length (ol_output l) < len"
  defines "l' \<equiv> header_step len e n l"
  shows "op_advance content entries names len l l' \<and>
    op_measure content entries names (ol_state l') < op_measure content entries names (ol_state l)"
proof -
  let ?s = "ol_state l" and ?h = "localHeader e n"
  let ?c = "copySegment len (ol_output l) ?h (os_segmentOffset ?s)"
  have seg: "os_segmentOffset ?s < length ?h" "os_sourceOffset ?s = 0" "os_crcState ?s = 0xFFFFFFFF"
    using ok i e n st by (auto simp: op_state_ok_def op_stage_ok_def)
  have split: "drop (os_segmentOffset ?s) ?h = ?c @ drop (os_segmentOffset ?s + length ?c) ?h"
      and fit: "length (ol_output l) + length ?c \<le> max len (length (ol_output l))"
    using copySegment_split [of "os_segmentOffset ?s" ?h] seg(1) by (auto intro: less_imp_le)
  have "length (drop (os_segmentOffset ?s) ?h) = length ?c + length (drop (os_segmentOffset ?s + length ?c) ?h)"
    using split by (metis length_append)
  then have le: "os_segmentOffset ?s + length ?c \<le> length ?h" using seg(1) by simp
  have adv: "op_advance content entries names len l l'"
    and len: "length (op_rest content entries names ?s) =
      length ?c + length (op_rest content entries names (ol_state l'))"
    using op_advance_within [OF ok i e n, of l' ?c len] split fit le seg st
    by (auto simp: l'_def header_step_def Let_def op_current_def op_stage_ok_def)
  moreover have "0 < length ?c" using copySegment_progress [OF seg(1) room] .
  ultimately show ?thesis using st by (simp add: op_measure_def)
qed


lemma read_source_advances:
  assumes ok: "op_state_ok content entries names (ol_state l)"
    and srv: "op_serves bucket content entries"
    and i: "os_entryIndex (ol_state l) < length entries"
    and e: "e = entries ! os_entryIndex (ol_state l)" and n: "n = names ! os_entryIndex (ol_state l)"
    and st: "os_stage (ol_state l) = Stage_data" and room: "length (ol_output l) < len"
  shows "\<exists>l'. read_source bucket len e l = Inr l' \<and> op_advance content entries names len l l' \<and>
    os_stage (ol_state l') = Stage_data \<and> os_entryIndex (ol_state l') = os_entryIndex (ol_state l) \<and>
    (if os_sourceOffset (ol_state l) < length (content (oe_physicalKey e))
     then length (op_rest content entries names (ol_state l')) < length (op_rest content entries names (ol_state l))
     else l' = l)"
proof -
  let ?s = "ol_state l" and ?c = "content (oe_physicalKey e)"
  have sz: "int (length ?c) = oe_size e" and get: "\<And>off k. 0 < k \<Longrightarrow> off + k \<le> length ?c \<Longrightarrow>
      bucket (oe_physicalKey e) off k (oe_etag e) = Some (subrange off k ?c)"
    using srv i e by (auto simp: op_serves_def)
  have seg: "os_segmentOffset ?s = 0" "os_sourceOffset ?s \<le> length ?c"
    "oe_crc32 e = None \<longrightarrow> os_crcState ?s = crc32 (take (os_sourceOffset ?s) ?c) 0xFFFFFFFF"
    using ok i e n st by (auto simp: op_state_ok_def op_stage_ok_def)
  show ?thesis
  proof (cases "os_sourceOffset ?s < length ?c")
    case False
    then show ?thesis
      using sz seg(2) op_advance_refl [OF ok] st by (simp add: read_source_def Let_def)
  next
    case True
    define k where "k = min (min (nat (oe_size e - int (os_sourceOffset ?s))) (len - length (ol_output l)))
      ZIP_SOURCE_READ_CHUNK"
    have k: "0 < k" "os_sourceOffset ?s + k \<le> length ?c" "length (ol_output l) + k \<le> len"
      using True sz room by (auto simp: k_def ZIP_SOURCE_READ_CHUNK_def)
    let ?b = "subrange (os_sourceOffset ?s) k ?c"
    have lenb: "length ?b = k" using k by simp
    define l' where "l' = l\<lparr>ol_state := ?s\<lparr>
        os_crcState := (if oe_crc32 e = None then crc32 ?b (os_crcState ?s) else os_crcState ?s),
        os_sourceOffset := os_sourceOffset ?s + k, os_archiveOffset := os_archiveOffset ?s + k\<rparr>,
      ol_output := ol_output l @ ?b, ol_read := ol_read l + k\<rparr>"
    have read: "read_source bucket len e l = Inr l'"
      using True sz get [OF k(1,2)] lenb
      by (simp add: read_source_def Let_def l'_def flip: k_def)
    have crc: "crc32 ?b (crc32 (take (os_sourceOffset ?s) ?c) 0xFFFFFFFF) =
        crc32 (take (os_sourceOffset ?s + k) ?c) 0xFFFFFFFF"
      by (simp add: subrange_def take_add crc32_append)
    have "drop (os_sourceOffset ?s) ?c = ?b @ drop (os_sourceOffset ?s + k) ?c"
      by (metis append_take_drop_id add.commute drop_drop subrange_def)
    then have "op_advance content entries names len l l'"
      and "length (op_rest content entries names ?s) = length ?b + length (op_rest content entries names (ol_state l'))"
      using op_advance_within [OF ok i e n, of l' ?b len] seg k st crc lenb
      by (auto simp: l'_def op_current_def op_stage_ok_def)
    then show ?thesis using read st True k(1) lenb by (auto simp: l'_def)
  qed
qed

lemma data_step_advances:
  assumes ok: "op_state_ok content entries names (ol_state l)"
    and srv: "op_serves bucket content entries"
    and i: "os_entryIndex (ol_state l) < length entries"
    and e: "e = entries ! os_entryIndex (ol_state l)"
    and st: "os_stage (ol_state l) = Stage_data" and room: "length (ol_output l) < len"
  shows "\<exists>l'. data_step bucket len e l = Inr l' \<and> op_advance content entries names len l l' \<and>
    op_measure content entries names (ol_state l') < op_measure content entries names (ol_state l)"
proof -
  let ?c = "content (oe_physicalKey e)"
  obtain l1 where l1: "read_source bucket len e l = Inr l1" "op_advance content entries names len l l1"
      "os_stage (ol_state l1) = Stage_data" "os_entryIndex (ol_state l1) = os_entryIndex (ol_state l)"
      "if os_sourceOffset (ol_state l) < length ?c
       then length (op_rest content entries names (ol_state l1)) < length (op_rest content entries names (ol_state l))
       else l1 = l"
    using read_source_advances [OF ok srv i e refl st room] by blast
  have ok1: "op_state_ok content entries names (ol_state l1)" using l1(2) by (simp add: op_advance_def)
  have sz: "int (length ?c) = oe_size e" using srv i e by (auto simp: op_serves_def)
  have i1: "os_entryIndex (ol_state l1) < length entries" and e1: "e = entries ! os_entryIndex (ol_state l1)"
    using i e l1(4) by simp_all
  let ?n = "names ! os_entryIndex (ol_state l1)"
  have seg: "os_segmentOffset (ol_state l1) = 0" "os_sourceOffset (ol_state l1) \<le> length ?c"
    "oe_crc32 e = None \<longrightarrow> os_crcState (ol_state l1) = crc32 (take (os_sourceOffset (ol_state l1)) ?c) 0xFFFFFFFF"
    using ok1 i1 e1 l1(3) by (auto simp: op_state_ok_def op_stage_ok_def)
  show ?thesis
  proof (cases "os_sourceOffset (ol_state l1) = length ?c")
    case False
    then have "os_sourceOffset (ol_state l) < length ?c"
      using l1(5) seg(2) by (auto split: if_splits)
    with l1 False sz st show ?thesis
      by (intro exI [of _ l1]) (auto simp: data_step_def Let_def op_measure_def)
  next
    case True
    define l2 where "l2 = l1\<lparr>ol_state := (ol_state l1)\<lparr>
        os_entryCrc32 := Some (case oe_crc32 e of Some c \<Rightarrow> c | None \<Rightarrow> crc_final (os_crcState (ol_state l1))),
        os_stage := Stage_descriptor, os_segmentOffset := 0\<rparr>\<rparr>"
    have step: "data_step bucket len e l = Inr l2"
      using l1(1) True sz by (simp add: data_step_def Let_def l2_def)
    have adv: "op_advance content entries names len l1 l2"
      and same: "length (op_rest content entries names (ol_state l1)) = length (op_rest content entries names (ol_state l2))"
      using op_advance_within [OF ok1 i1 e1 refl, of l2 "[]" len] seg l1(3) True
      by (auto simp: l2_def op_current_def op_stage_ok_def expected_crc_def split: option.split)
    have "length (op_rest content entries names (ol_state l1)) \<le> length (op_rest content entries names (ol_state l))"
      using l1(5) by (auto split: if_splits)
    then have "op_measure content entries names (ol_state l2) < op_measure content entries names (ol_state l)"
      using same st by (simp add: op_measure_def l2_def)
    then show ?thesis using step op_advance_trans [OF l1(2) adv] by blast
  qed
qed

lemma descriptor_step_advances:
  assumes ok: "op_state_ok content entries names (ol_state l)"
    and i: "os_entryIndex (ol_state l) < length entries"
    and e: "e = entries ! os_entryIndex (ol_state l)"
    and st: "os_stage (ol_state l) = Stage_descriptor" and room: "length (ol_output l) < len"
  defines "l' \<equiv> descriptor_step len entries e l"
  shows "op_advance content entries names len l l' \<and>
    op_measure content entries names (ol_state l') < op_measure content entries names (ol_state l)"
proof -
  let ?s = "ol_state l" and ?d = "descriptor e (expected_crc content e)"
  let ?n = "names ! os_entryIndex ?s" and ?i = "os_entryIndex (ol_state l)"
  let ?c = "copySegment len (ol_output l) ?d (os_segmentOffset ?s)"
  have seg: "os_segmentOffset ?s < length ?d" "os_entryCrc32 ?s = Some (expected_crc content e)"
    and names: "length names = length entries"
    using ok i e st by (auto simp: op_state_ok_def op_stage_ok_def)
  have split: "drop (os_segmentOffset ?s) ?d = ?c @ drop (os_segmentOffset ?s + length ?c) ?d"
      and fit: "length (ol_output l) + length ?c \<le> max len (length (ol_output l))"
    using copySegment_split [of "os_segmentOffset ?s" ?d] seg(1) by (auto intro: less_imp_le)
  have pos: "0 < length ?c" using copySegment_progress [OF seg(1) room] .
  show ?thesis
  proof (cases "os_segmentOffset ?s + length ?c = length ?d")
    case False
    have "length (drop (os_segmentOffset ?s) ?d) = length ?c + length (drop (os_segmentOffset ?s + length ?c) ?d)"
      using split by (metis length_append)
    then have lt: "os_segmentOffset ?s + length ?c < 24" using seg(1) False by simp
    have adv: "op_advance content entries names len l l'"
      and len: "length (op_rest content entries names ?s) = length ?c + length (op_rest content entries names (ol_state l'))"
      using op_advance_within [OF ok i e refl, of l' ?c len] split fit lt seg st False
      by (auto simp: l'_def descriptor_step_def Let_def op_current_def op_stage_ok_def)
    then show ?thesis using st pos False seg
      by (auto simp: op_measure_def l'_def descriptor_step_def Let_def)
  next
    case True
    have l': "l' = l\<lparr>ol_output := ol_output l @ ?c,
        ol_checksums := ol_checksums l @ [op_checksum content entries ?i],
        ol_state := ?s\<lparr>os_archiveOffset := os_archiveOffset ?s + length ?c, os_entryIndex := ?i + 1,
          os_completedFiles := ?i + 1,
          os_stage := (if ?i + 1 = length entries then Stage_done else Stage_header),
          os_segmentOffset := 0, os_sourceOffset := 0, os_crcState := 0xFFFFFFFF, os_entryCrc32 := None\<rparr>\<rparr>"
      using True seg e by (simp add: l'_def descriptor_step_def Let_def op_checksum_def)
    have rest: "op_rest content entries names ?s = ?c @ op_rest content entries names (ol_state l')"
    proof (cases "?i + 1 < length entries")
      case True
      then show ?thesis
        using i e st split \<open>os_segmentOffset ?s + length ?c = length ?d\<close>
          prefix_bytes_nth [OF True [simplified] names, of content]
        by (simp add: l' op_rest_def op_current_def entry_bytes_def)
    next
      case False
      then show ?thesis
        using i e st split \<open>os_segmentOffset ?s + length ?c = length ?d\<close>
        by (simp add: l' op_rest_def op_current_def)
    qed
    have "op_state_ok content entries names (ol_state l')"
      using ok i names rest by (auto simp: op_state_ok_def op_stage_ok_def l')
    then have "op_advance content entries names len l l'"
      using rest fit by (auto simp: op_advance_def l')
    moreover have "2 * length (op_rest content entries names (ol_state l')) + 1 <
        2 * length (op_rest content entries names ?s)"
      using arg_cong [OF rest, of length] pos unfolding length_append by presburger
    ultimately show ?thesis using st by (simp add: op_measure_def)
  qed
qed

subsection \<open>The loop\<close>

lemma op_state_done:
  "op_state_ok content entries names st \<Longrightarrow> entries \<noteq> [] \<Longrightarrow>
    os_stage st = Stage_done \<longleftrightarrow> \<not> os_entryIndex st < length entries"
  by (auto simp: op_state_ok_def op_stage_ok_def split: if_splits)

lemma prefix_turn_advances:
  assumes ok: "op_state_ok content entries names (ol_state l)"
    and srv: "op_serves bucket content entries" and ne: "entries \<noteq> []"
    and run: "os_stage (ol_state l) \<noteq> Stage_done" and room: "length (ol_output l) < len"
  shows "\<exists>l'. prefix_turn bucket entries names len l = Inr l' \<and> op_advance content entries names len l l' \<and>
    op_measure content entries names (ol_state l') < op_measure content entries names (ol_state l)"
proof -
  have i: "os_entryIndex (ol_state l) < length entries" using op_state_done [OF ok ne] run by simp
  show ?thesis
  proof (cases "os_stage (ol_state l)")
    case Stage_header
    then show ?thesis
      using header_step_advances [OF ok i refl refl Stage_header room] i by (simp add: prefix_turn_def Let_def)
  next
    case Stage_data
    then show ?thesis
      using data_step_advances [OF ok srv i refl Stage_data room] i by (simp add: prefix_turn_def Let_def)
  next
    case Stage_descriptor
    then show ?thesis
      using descriptor_step_advances [OF ok i refl Stage_descriptor room] i by (simp add: prefix_turn_def Let_def)
  qed (use run in simp)
qed

text \<open>The loop stops, with the part full or the archive prefix finished.\<close>

lemma prefix_loop_advances:
  assumes srv: "op_serves bucket content entries" and ne: "entries \<noteq> []"
  shows "op_state_ok content entries names (ol_state l) \<Longrightarrow>
    \<exists>l'. prefix_loop bucket entries names len l = Some (Inr l') \<and> op_advance content entries names len l l' \<and>
      (len \<le> length (ol_output l') \<or> os_stage (ol_state l') = Stage_done)"
proof (induction "op_measure content entries names (ol_state l)" arbitrary: l rule: less_induct)
  case less
  show ?case
  proof (cases "length (ol_output l) < len \<and> os_stage (ol_state l) \<noteq> Stage_done")
    case False
    then show ?thesis
      using op_advance_refl [OF less.prems] by (intro exI [of _ l]) (subst prefix_loop.simps, auto)
  next
    case True
    obtain l1 where l1: "prefix_turn bucket entries names len l = Inr l1"
        "op_advance content entries names len l l1"
        "op_measure content entries names (ol_state l1) < op_measure content entries names (ol_state l)"
      using prefix_turn_advances [OF less.prems srv ne] True by blast
    have "op_state_ok content entries names (ol_state l1)" using l1(2) by (simp add: op_advance_def)
    from less.hyps [OF l1(3) this] obtain l2 where "prefix_loop bucket entries names len l1 = Some (Inr l2)"
        "op_advance content entries names len l1 l2"
        "len \<le> length (ol_output l2) \<or> os_stage (ol_state l2) = Stage_done"
      by blast
    then show ?thesis
      using True l1(1) op_advance_trans [OF l1(2)] by (intro exI [of _ l2]) (subst prefix_loop.simps, simp)
  qed
qed

lemma prefix_loop_part:
  assumes srv: "op_serves bucket content entries" and ne: "entries \<noteq> []"
    and ok: "op_state_ok content entries names s"
  shows "\<exists>l'. prefix_loop bucket entries names n
        \<lparr>ol_state = s, ol_output = [], ol_checksums = [], ol_read = 0\<rparr> = Some (Inr l') \<and>
      ol_output l' = take n (op_rest content entries names s) \<and>
      op_rest content entries names (ol_state l') = drop n (op_rest content entries names s) \<and>
      op_state_ok content entries names (ol_state l') \<and>
      ol_checksums l' = map (op_checksum content entries) [os_entryIndex s..<os_entryIndex (ol_state l')]"
proof -
  obtain l' where l': "prefix_loop bucket entries names n
        \<lparr>ol_state = s, ol_output = [], ol_checksums = [], ol_read = 0\<rparr> = Some (Inr l')"
      "op_advance content entries names n \<lparr>ol_state = s, ol_output = [], ol_checksums = [], ol_read = 0\<rparr> l'"
      "n \<le> length (ol_output l') \<or> os_stage (ol_state l') = Stage_done"
    using prefix_loop_advances [OF srv ne, of names "\<lparr>ol_state = s, ol_output = [], ol_checksums = [], ol_read = 0\<rparr>" n]
      ok by auto
  then have adv: "op_state_ok content entries names (ol_state l')" "length (ol_output l') \<le> n"
      "op_rest content entries names s = ol_output l' @ op_rest content entries names (ol_state l')"
      "ol_checksums l' = map (op_checksum content entries) [os_entryIndex s..<os_entryIndex (ol_state l')]"
    by (auto simp: op_advance_def)
  have "length (ol_output l') = n \<or> op_rest content entries names (ol_state l') = []"
    using l'(3) adv(1,2) op_state_done [OF adv(1) ne] by (auto simp: op_rest_def)
  then have "ol_output l' = take n (op_rest content entries names s) \<and>
      op_rest content entries names (ol_state l') = drop n (op_rest content entries names s)"
    using adv(2,3) by auto
  then show ?thesis using l'(1) adv by blast
qed

end
