(* ===== verification/One_Pass_Plan.thy ===== *)
theory One_Pass_Plan
  imports One_Pass_Correct
begin

section \<open>Sizes and the multipart plan\<close>

text \<open>
  The two size computations of \<open>one-pass-zip.ts\<close> against the bytes the writer produces, the
  central directory against the archive prefix, and \<open>planOnePassZipMultipart\<close>: the bounds of
  every plan it returns, and that it returns one.
\<close>

subsection \<open>The prefix\<close>

lemma prefix_size_from_sum:
  "prefix_size_from acc ens = Inr p \<Longrightarrow>
    p = acc + (\<Sum>(e, n) \<leftarrow> ens. 74 + int (length (utf8 n)) + oe_size e) \<and>
    (\<forall>(e, n) \<in> set ens. 0 \<le> oe_size e) \<and> (0 \<le> acc \<longrightarrow> acc \<le> p)"
proof (induction acc ens arbitrary: p rule: prefix_size_from.induct)
  case (1 acc)
  then show ?case by simp
next
  case (2 acc entry name rest)
  then show ?case by (fastforce simp: Let_def split: if_splits)
qed

lemma prefix_bytes_length:
  "length names = length entries \<Longrightarrow>
    (\<forall>e \<in> set entries. int (length (content (oe_physicalKey e))) = oe_size e) \<Longrightarrow>
    int (length (prefix_bytes content entries names)) =
    (\<Sum>(e, n) \<leftarrow> zip entries names. 74 + int (length (utf8 n)) + oe_size e)"
proof (induction entries arbitrary: names)
  case Nil
  then show ?case by simp
next
  case (Cons e es)
  then show ?case by (cases names) (auto simp: entry_bytes_def)
qed

lemma prefix_size_is_length:
  assumes "uniqueZipEntryNames rt (map oe_name entries) = Inr names"
    and "onePassZipPrefixSize rt entries = Inr p" and "op_serves bucket content entries"
  shows "p = int (length (prefix_bytes content entries names))"
proof -
  have len: "length names = length entries" using unique_names_length [OF assms(1)] by simp
  have sizes: "\<forall>e \<in> set entries. int (length (content (oe_physicalKey e))) = oe_size e"
    using assms(3) by (simp add: op_serves_def)
  have "prefix_size_from 0 (zip entries names) = Inr p"
    using assms(1,2) by (simp add: onePassZipPrefixSize_def)
  from prefix_size_from_sum [OF this] show ?thesis
    using prefix_bytes_length [OF len sizes] by simp
qed

subsection \<open>The trailer\<close>

text \<open>The local header of entry \<open>i\<close> starts where the prefix of the entries before it ends.\<close>

definition local_offset :: "(ustring \<Rightarrow> byte list) \<Rightarrow> OnePassZipEntry list \<Rightarrow> ustring list \<Rightarrow> nat \<Rightarrow> nat" where
  "local_offset content entries names i = length (prefix_bytes content (take i entries) (take i names))"

definition central_directory ::
  "(ustring \<Rightarrow> byte list) \<Rightarrow> OnePassZipEntry list \<Rightarrow> ustring list \<Rightarrow> byte list" where
  "central_directory content entries names =
     concat (map (\<lambda>i. op_central_record (entries ! i) (names ! i)
       (case oe_crc32 (entries ! i) of Some c \<Rightarrow> c | None \<Rightarrow> 0) (int (local_offset content entries names i)))
       [0..<length entries])"

lemma central_directory_Cons:
  assumes "length names = length entries"
  shows "concat (map (\<lambda>i. f ((e # entries) ! i) ((n # names) ! i)
      (int (d + length (prefix_bytes content (take i (e # entries)) (take i (n # names)))))) [0..<length (e # entries)]) =
    f e n (int d) @ concat (map (\<lambda>i. f (entries ! i) (names ! i)
      (int (d + length (entry_bytes content e n) + length (prefix_bytes content (take i entries) (take i names)))))
      [0..<length entries])"
proof -
  have "[0..<length (e # entries)] = 0 # map Suc [0..<length entries]"
    by (metis length_Cons map_Suc_upt upt_conv_Cons zero_less_Suc)
  then show ?thesis by (simp add: comp_def add.assoc)
qed

lemma trailer_loop_directory:
  assumes "length names = length entries"
    and "\<forall>e \<in> set entries. int (length (content (oe_physicalKey e))) = oe_size e"
  shows "trailer_loop (int d) (zip entries names) =
    (concat (map (\<lambda>i. op_central_record (entries ! i) (names ! i)
       (case oe_crc32 (entries ! i) of Some c \<Rightarrow> c | None \<Rightarrow> 0)
       (int (d + length (prefix_bytes content (take i entries) (take i names))))) [0..<length entries]),
     int (d + length (prefix_bytes content entries names)))"
  using assms
proof (induction entries arbitrary: names d)
  case Nil
  then show ?case by simp
next
  case (Cons e es)
  then obtain n ns where names: "names = n # ns" "length ns = length es" by (cases names) auto
  have step: "int d + 50 + int (length (utf8 n)) + oe_size e + 24 = int (d + length (entry_bytes content e n))"
    using Cons.prems(2) by (simp add: entry_bytes_def)
  have ih: "trailer_loop (int (d + length (entry_bytes content e n))) (zip es ns) =
      (concat (map (\<lambda>i. op_central_record (es ! i) (ns ! i)
       (case oe_crc32 (es ! i) of Some c \<Rightarrow> c | None \<Rightarrow> 0)
       (int (d + length (entry_bytes content e n) + length (prefix_bytes content (take i es) (take i ns))))) [0..<length es]),
       int (d + length (entry_bytes content e n) + length (prefix_bytes content es ns)))"
    by (rule Cons.IH) (use Cons.prems names in auto)
  show ?case
    unfolding names(1) central_directory_Cons [OF names(2), of "\<lambda>e n. op_central_record e n
      (case oe_crc32 e of Some c \<Rightarrow> c | None \<Rightarrow> 0)"]
    by (simp only: zip_Cons_Cons trailer_loop.simps step ih Let_def split_conv prefix_bytes.simps
        length_append) (simp only: add.assoc)
qed

lemma trailer_is_directory:
  assumes "uniqueZipEntryNames rt (map oe_name entries) = Inr names"
    and "\<forall>e \<in> set entries. int (length (content (oe_physicalKey e))) = oe_size e"
  shows "buildOnePassZipTrailer rt entries =
    Inr (central_directory content entries names @
      end_bytes (int (length entries)) (int (length (central_directory content entries names)))
        (int (length (prefix_bytes content entries names))))"
  using trailer_loop_directory [of names entries content 0] assms unique_names_length [OF assms(1)]
  by (simp add: buildOnePassZipTrailer_def central_directory_def local_offset_def)

text \<open>At that offset of the prefix stands the local header of the entry, then its data.\<close>

lemma prefix_bytes_split:
  "length names = length entries \<Longrightarrow> i \<le> length entries \<Longrightarrow>
    prefix_bytes content entries names = prefix_bytes content (take i entries) (take i names) @
      prefix_bytes content (drop i entries) (drop i names)"
proof (induction i arbitrary: entries names)
  case 0
  then show ?case by simp
next
  case (Suc i)
  then obtain e es where es: "entries = e # es" by (cases entries) auto
  with Suc.prems obtain n ns where ns: "names = n # ns" by (cases names) auto
  from Suc.IH [of ns es] Suc.prems show ?case by (simp add: es ns)
qed

lemma prefix_at_offset:
  assumes "length names = length entries" and "i < length entries"
  shows "take (length (entry_bytes content (entries ! i) (names ! i)))
      (drop (local_offset content entries names i) (prefix_bytes content entries names)) =
    entry_bytes content (entries ! i) (names ! i)"
  using prefix_bytes_split [OF assms(1) less_imp_le [OF assms(2)], of content]
    prefix_bytes_nth [OF assms(2,1), of content]
  by (simp add: local_offset_def)

lemma trailer_size_fold:
  "foldl (\<lambda>acc name. acc + 74 + int (length (utf8 name))) a names =
    a + (\<Sum>n \<leftarrow> names. 74 + int (length (utf8 n)))"
  by (induction names arbitrary: a) auto

lemma trailer_loop_length:
  "length names = length entries \<Longrightarrow>
    int (length (fst (trailer_loop d (zip entries names)))) = (\<Sum>n \<leftarrow> names. 74 + int (length (utf8 n)))"
proof (induction entries arbitrary: names d)
  case Nil
  then show ?case by simp
next
  case (Cons e es)
  then obtain n ns where names: "names = n # ns" "length ns = length es" by (cases names) auto
  from Cons.IH [OF names(2), of "d + 50 + int (length (utf8 n)) + oe_size e + 24"] show ?case
    by (simp add: names(1) Let_def case_prod_beta)
qed

lemma trailer_size_is_length:
  assumes "onePassZipTrailerSize rt entries = Inr t"
  obtains trailer where "buildOnePassZipTrailer rt entries = Inr trailer" "int (length trailer) = t"
proof -
  obtain names where names: "uniqueZipEntryNames rt (map oe_name entries) = Inr names"
      "t = 98 + (\<Sum>n \<leftarrow> names. 74 + int (length (utf8 n)))"
    using assms by (auto simp: onePassZipTrailerSize_def result_simps trailer_size_fold)
  have "length names = length entries" using unique_names_length [OF names(1)] by simp
  from trailer_loop_length [OF this, of 0] names show thesis
    by (intro that [OF _ _]) (auto simp: buildOnePassZipTrailer_def case_prod_beta)
qed

lemma trailer_size_names_only:
  "map oe_name entries = map oe_name entries' \<Longrightarrow>
    onePassZipTrailerSize rt entries = onePassZipTrailerSize rt entries'"
  by (simp add: onePassZipTrailerSize_def)

subsection \<open>The plan\<close>

lemma plan_loop_Some:
  "plan_loop p t c limit = Some plan \<Longrightarrow>
    \<exists>k \<ge> c. k \<le> limit \<and> plan_for_count p t k = Some plan \<and> (\<forall>j. c \<le> j \<and> j < k \<longrightarrow> plan_for_count p t j = None)"
proof (induction p t c limit rule: plan_loop.induct)
  case (1 p t c limit)
  show ?case
  proof (cases "plan_for_count p t c")
    case None
    with 1 have "plan_loop p t (c + 1) limit = Some plan" "c \<le> limit"
      by (auto simp: plan_loop.simps [of p t c] split: if_splits)
    with 1(1) None obtain k where k: "c + 1 \<le> k" "k \<le> limit" "plan_for_count p t k = Some plan"
        "\<forall>j. c + 1 \<le> j \<and> j < k \<longrightarrow> plan_for_count p t j = None"
      by blast
    have "plan_for_count p t j = None" if "c \<le> j" "j < k" for j
      using k(4) None that by (cases "j = c") auto
    with k show ?thesis by (intro exI [of _ k]) auto
  next
    case (Some plan')
    with 1(2) show ?thesis
      by (intro exI [of _ c]) (auto simp: plan_loop.simps [of p t c] split: if_splits)
  qed
qed

lemma plan_loop_finds:
  "plan_for_count p t k \<noteq> None \<Longrightarrow> c \<le> k \<Longrightarrow> k \<le> limit \<Longrightarrow> \<exists>plan. plan_loop p t c limit = Some plan"
proof (induction p t c limit rule: plan_loop.induct)
  case (1 p t c limit)
  show ?case
  proof (cases "plan_for_count p t c")
    case None
    with 1 have "c \<noteq> k" by auto
    with 1 None have "\<exists>plan. plan_loop p t (c + 1) limit = Some plan" by simp
    with None 1(3,4) show ?thesis by (simp add: plan_loop.simps [of p t c limit])
  next
    case (Some plan)
    with 1(3,4) show ?thesis by (simp add: plan_loop.simps [of p t c limit])
  qed
qed

definition plan_ok :: "int \<Rightarrow> int \<Rightarrow> OnePassZipMultipartPlan \<Rightarrow> bool" where
  "plan_ok p t plan \<longleftrightarrow>
     mp_prefixSize plan = p \<and> mp_trailerSize plan = t \<and> mp_archiveSize plan = p + t \<and>
     0 \<le> mp_prefixPartCount plan \<and> mp_partCount plan = mp_prefixPartCount plan + 1 \<and>
     mp_prefixPartCount plan * mp_partSize plan + mp_finalPrefixBytes plan = p \<and>
     0 \<le> mp_finalPrefixBytes plan \<and> mp_finalPrefixBytes plan + t \<le> mp_partSize plan \<and>
     mp_partSize plan \<le> ZIP_MULTIPART_MAX_PART \<and>
     (1 < mp_partCount plan \<longrightarrow> ZIP_MULTIPART_MIN_PART \<le> mp_partSize plan)"

lemma plan_for_count_ok:
  assumes "plan_for_count p t k = Some plan" and "0 \<le> k" and "0 \<le> p"
  shows "plan_ok p t plan \<and> mp_prefixPartCount plan = k"
proof -
  have "0 \<le> p - k * (p div k)"
  proof (cases "k = 0")
    case False
    then show ?thesis using assms(2) by (simp add: minus_mult_div_eq_mod)
  qed (use assms(3) in simp)
  then show ?thesis
    using assms by (auto simp: plan_for_count_def plan_ok_def Let_def split: if_splits)
qed

lemma plan_sizes_ok:
  assumes "plan_sizes p t = Inr plan" and "0 \<le> p" and "0 \<le> t"
  shows "plan_ok p t plan"
proof (cases "p + t \<le> ZIP_MULTIPART_MAX_PART")
  case True
  then have "plan = \<lparr>mp_prefixSize = p, mp_trailerSize = t, mp_archiveSize = p + t, mp_partSize = p + t,
      mp_prefixPartCount = 0, mp_finalPrefixBytes = p, mp_partCount = 1\<rparr>"
    using assms(1) by (simp add: plan_sizes_def Let_def)
  then show ?thesis using True assms(2,3) by (simp add: plan_ok_def)
next
  case False
  let ?c = "(p + ZIP_MULTIPART_MAX_PART - 1) div ZIP_MULTIPART_MAX_PART"
  obtain k where k: "?c \<le> k" "plan_for_count p t k = Some plan"
    using False assms(1) by (auto simp: plan_sizes_def Let_def split: option.splits dest!: plan_loop_Some)
  have "0 \<le> ?c"
    using assms(2) by (simp add: ZIP_MULTIPART_MAX_PART_def pos_imp_zdiv_nonneg_iff)
  with k plan_for_count_ok [OF k(2)] assms(2) show ?thesis by simp
qed

text \<open>
  A trailer of at most 16 MiB less ten thousand bytes (some 200,000 short names) leaves room
  beside the remainder of the division, whatever the prefix.
\<close>

lemma plan_for_count_succeeds:
  assumes c: "c = (p + 33554431) div 33554432" and t: "0 \<le> t" "t \<le> 16767216"
    and p: "33554432 < p + t" "p \<le> 9999 * 33554432"
  shows "plan_for_count p t c \<noteq> None" and "1 \<le> c" and "c \<le> 9999" and "c \<le> p div 5242880"
proof -
  have up: "p \<le> c * 33554432" and low: "(c - 1) * 33554432 < p"
  proof -
    define r where "r = (p + 33554431) mod 33554432"
    have "c * 33554432 + r = p + 33554431" unfolding c r_def by simp
    moreover have "0 \<le> r" "r < 33554432" by (simp_all add: r_def)
    ultimately show "p \<le> c * 33554432" "(c - 1) * 33554432 < p" by simp_all
  qed
  show c1: "1 \<le> c" and c2: "c \<le> 9999" using p t up low by simp_all
  have pd: "c * (p div c) + p mod c = p" by simp
  have md: "0 \<le> p mod c" "p mod c < c" using c1 by simp_all
  have upper: "p div c \<le> 33554432"
  proof -
    have "p div c \<le> (c * 33554432) div c" using up c1 by (intro zdiv_mono1) auto
    then show ?thesis using c1 by simp
  qed
  have lower: "16777216 \<le> p div c"
  proof (cases "c = 1")
    case True
    then show ?thesis using p t by simp
  next
    case False
    then have "16777216 * c \<le> p" using low c1 by simp
    then have "(16777216 * c) div c \<le> p div c" using c1 by (intro zdiv_mono1) auto
    then show ?thesis using c1 by simp
  qed
  have "p - c * (p div c) + t \<le> p div c"
  proof (cases "c = 1")
    case True
    then show ?thesis using lower t by simp
  next
    case False
    then show ?thesis using pd md c2 lower t by linarith
  qed
  then show "plan_for_count p t c \<noteq> None"
    using lower upper by (simp add: plan_for_count_def Let_def ZIP_MULTIPART_MIN_PART_def ZIP_MULTIPART_MAX_PART_def)
  have "c * 5242880 \<le> c * (p div c)" using lower c1 by (intro mult_left_mono) auto
  then have "c * 5242880 \<le> p" using pd md by linarith
  then have "(c * 5242880) div 5242880 \<le> p div 5242880" by (intro zdiv_mono1) auto
  then show "c \<le> p div 5242880" by simp
qed

lemma plan_sizes_total:
  assumes "0 \<le> p" and "0 \<le> t" and "t \<le> 16767216" and "p \<le> 9999 * 33554432"
  shows "\<exists>plan. plan_sizes p t = Inr plan \<and> mp_partCount plan \<le> 10000"
proof (cases "p + t \<le> ZIP_MULTIPART_MAX_PART")
  case True
  then show ?thesis by (simp add: plan_sizes_def Let_def)
next
  case False
  define c where "c = (p + 33554431) div 33554432"
  have big: "33554432 < p + t" using False by (simp add: ZIP_MULTIPART_MAX_PART_def)
  note c = plan_for_count_succeeds [OF c_def assms(2,3) big assms(4)]
  obtain plan where plan: "plan_for_count p t c = Some plan" using c(1) by blast
  have "plan_loop p t c (p div 5242880) = Some plan"
    using plan c(4) by (subst plan_loop.simps) simp
  then have "plan_sizes p t = Inr plan"
    using False by (simp add: plan_sizes_def Let_def ZIP_MULTIPART_MAX_PART_def ZIP_MULTIPART_MIN_PART_def c_def add.commute)
  moreover have "mp_partCount plan \<le> 10000"
    using plan_for_count_ok [OF plan] c assms(1) by (simp add: plan_ok_def)
  ultimately show ?thesis by blast
qed

lemma plan_success:
  assumes "planOnePassZipMultipart rt entries = Inr plan"
  obtains names p t where "uniqueZipEntryNames rt (map oe_name entries) = Inr names"
    "onePassZipPrefixSize rt entries = Inr p" "onePassZipTrailerSize rt entries = Inr t"
    "plan_ok p t plan" "0 \<le> p" "98 \<le> t"
proof -
  obtain p t where pt: "onePassZipPrefixSize rt entries = Inr p" "onePassZipTrailerSize rt entries = Inr t"
      "plan_sizes p t = Inr plan"
    using assms by (auto simp: planOnePassZipMultipart_def result_simps)
  then obtain names where names: "uniqueZipEntryNames rt (map oe_name entries) = Inr names"
      "prefix_size_from 0 (zip entries names) = Inr p"
    by (auto simp: onePassZipPrefixSize_def result_simps)
  have "0 \<le> p" using prefix_size_from_sum [OF names(2)] by simp
  moreover have "98 \<le> t"
    using pt(2) by (auto simp: onePassZipTrailerSize_def result_simps trailer_size_fold intro!: sum_list_nonneg)
  ultimately show thesis using that [OF names(1) pt(1,2)] plan_sizes_ok [OF pt(3)] by simp
qed

end
