(* ===== verification/Bulk_Archive.thy ===== *)
theory Bulk_Archive
  imports One_Pass_Plan
begin

section \<open>Writing an archive: parts, checksums, completion\<close>

text \<open>
  Models the part of \<open>apps/client/src/worker/workflow.ts\<close> that writes one archive: the checksum
  table in D1 (\<open>loadChecksumCache\<close>, \<open>persistCalculatedChecksums\<close>, \<open>completedEntries\<close>), the
  step that writes a prefix part, the loop over the planned parts and the final part with its
  checks. The table \<open>bulk_download_object_checksums\<close> is the list of its rows, with at most one
  row for a key, etag and size (its primary key). Multipart storage is the list of the parts
  uploaded; R2 assembles the object by concatenating them.

  Here a step is run once; its retries, the job rows and the archive cache are in \<open>Bulk_Workflow\<close> and
  \<open>Bulk_Workflow\<close>, and \<open>Bulk_Build\<close> shows that the run carries out what is defined here.
\<close>

subsection \<open>The checksum table\<close>

record ChecksumRow =
  cr_key :: ustring
  cr_etag :: ustring
  cr_size :: int
  cr_crc32 :: int

definition CHECKSUM_SQL_CHUNK :: nat where
  "CHECKSUM_SQL_CHUNK = 100"

definition row_id :: "ChecksumRow \<Rightarrow> ustring \<times> ustring \<times> int" where
  "row_id r = (cr_key r, cr_etag r, cr_size r)"

definition source_id :: "OnePassZipEntry \<Rightarrow> ustring \<times> ustring \<times> int" where
  "source_id e = (oe_physicalKey e, oe_etag e, oe_size e)"

text \<open>\<open>INSERT ... ON CONFLICT(r2_key,etag,size) DO UPDATE SET crc32=excluded.crc32\<close>.\<close>

definition upsert_checksum :: "ChecksumRow list \<Rightarrow> ChecksumRow \<Rightarrow> ChecksumRow list" where
  "upsert_checksum table row =
     (if row_id row \<in> row_id ` set table
      then map (\<lambda>r. if row_id r = row_id row then r\<lparr>cr_crc32 := cr_crc32 row\<rparr> else r) table
      else table @ [row])"

definition persistCalculatedChecksums ::
  "OnePassZipEntry list \<Rightarrow> OnePassZipChecksum list \<Rightarrow> ChecksumRow list \<Rightarrow> ChecksumRow list" where
  "persistCalculatedChecksums sources checksums table =
     foldl (\<lambda>t batch. foldl upsert_checksum t
        (map (\<lambda>value. let source = sources ! oc_entryIndex value in
           \<lparr>cr_key = oe_physicalKey source, cr_etag = oe_etag source, cr_size = oe_size source,
            cr_crc32 = uint (oc_crc32 value)\<rparr>) batch))
       table (chunks_of CHECKSUM_SQL_CHUNK (filter oc_calculated checksums))"

text \<open>\<open>new Map(batch.map(source => [source.physicalKey, source]))\<close>: the last source of a key wins.\<close>

definition expected_source :: "OnePassZipEntry list \<Rightarrow> ustring \<Rightarrow> OnePassZipEntry option" where
  "expected_source batch = map_of (rev (map (\<lambda>s. (oe_physicalKey s, s)) batch))"

definition accept_row :: "OnePassZipEntry list \<Rightarrow> (ustring \<Rightarrow> int option) \<Rightarrow> ChecksumRow \<Rightarrow> ustring \<Rightarrow> int option" where
  "accept_row batch found row =
     (case expected_source batch (cr_key row) of
        Some source \<Rightarrow>
          if cr_etag row = oe_etag source \<and> cr_size row = oe_size source \<and> 0 \<le> cr_crc32 row \<and>
             cr_crc32 row \<le> 0xFFFFFFFF
          then found(cr_key row \<mapsto> cr_crc32 row) else found
      | None \<Rightarrow> found)"

definition loadChecksumCache :: "ChecksumRow list \<Rightarrow> OnePassZipEntry list \<Rightarrow> ustring \<Rightarrow> int option" where
  "loadChecksumCache table sources =
     foldl (\<lambda>found batch. foldl (accept_row batch) found
        (filter (\<lambda>row. cr_key row \<in> oe_physicalKey ` set batch) table))
       Map.empty (chunks_of 100 sources)"

definition resolveSnapshotChecksums :: "ChecksumRow list \<Rightarrow> OnePassZipEntry list \<Rightarrow> OnePassZipEntry list" where
  "resolveSnapshotChecksums table sources =
     (let cached = loadChecksumCache table sources in
      map (\<lambda>source. case cached (oe_physicalKey source) of
             Some c \<Rightarrow> source\<lparr>oe_crc32 := Some (word_of_int c)\<rparr> | None \<Rightarrow> source) sources)"

definition completedEntries :: "ChecksumRow list \<Rightarrow> OnePassZipEntry list \<Rightarrow> failure + OnePassZipEntry list" where
  "completedEntries table sources =
     (let cached = loadChecksumCache table sources in
      rmap (\<lambda>source.
        case (case oe_crc32 source of Some c \<Rightarrow> Some c
              | None \<Rightarrow> map_option word_of_int (cached (oe_physicalKey source))) of
          None \<Rightarrow> Inl (Throws ''checksum-cache-incomplete'')
        | Some checksum \<Rightarrow> Inr (source\<lparr>oe_crc32 := Some checksum\<rparr>)) sources)"

subsection \<open>The parts\<close>

text \<open>The step \<open>write-one-pass-part-n\<close>: build, persist, upload. The piece is what is uploaded.\<close>

type_synonym writer_state = "OnePassZipState \<times> ChecksumRow list"

definition write_prefix_part ::
  "text_runtime \<Rightarrow> OnePassZipBucket \<Rightarrow> OnePassZipEntry list \<Rightarrow> writer_state \<Rightarrow> nat \<Rightarrow>
   failure + (byte list \<times> writer_state)" where
  "write_prefix_part rt bucket sources w n =
     rbind (buildOnePassZipPrefixPart rt bucket sources (fst w) (int n)) (\<lambda>built.
       Inr (pr_bytes built,
            (pr_state built, persistCalculatedChecksums sources (pr_completedChecksums built) (snd w))))"

fun write_prefix_parts ::
  "text_runtime \<Rightarrow> OnePassZipBucket \<Rightarrow> OnePassZipEntry list \<Rightarrow> nat \<Rightarrow> nat \<Rightarrow> writer_state \<Rightarrow>
   failure + (byte list list \<times> writer_state)" where
  "write_prefix_parts rt bucket sources partSize 0 w = Inr ([], w)"
| "write_prefix_parts rt bucket sources partSize (Suc count) w =
     rbind (write_prefix_part rt bucket sources w partSize) (\<lambda>(piece, w').
     rbind (write_prefix_parts rt bucket sources partSize count w') (\<lambda>(pieces, w'').
       Inr (piece # pieces, w'')))"

definition write_final_part ::
  "text_runtime \<Rightarrow> OnePassZipBucket \<Rightarrow> OnePassZipEntry list \<Rightarrow> OnePassZipMultipartPlan \<Rightarrow> writer_state \<Rightarrow>
   failure + (byte list \<times> writer_state)" where
  "write_final_part rt bucket sources plan w =
     rbind (buildOnePassZipPrefixPart rt bucket sources (fst w) (mp_finalPrefixBytes plan)) (\<lambda>built.
     let table = persistCalculatedChecksums sources (pr_completedChecksums built) (snd w) in
     if os_stage (pr_state built) \<noteq> Stage_done \<or> int (os_archiveOffset (pr_state built)) \<noteq> mp_prefixSize plan
     then Inl (Throws ''ZIP prefix did not finish at the planned boundary'')
     else
       rbind (completedEntries table sources) (\<lambda>entries.
       rbind (buildOnePassZipTrailer rt entries) (\<lambda>trailer.
       if int (length trailer) \<noteq> mp_trailerSize plan then Inl (Throws ''ZIP trailer size changed'')
       else
         let bytes = joinZipBytes (pr_bytes built) trailer in
         if int (length bytes) > mp_partSize plan \<or>
            int (length bytes) \<noteq> mp_archiveSize plan - mp_prefixPartCount plan * mp_partSize plan
         then Inl (Throws ''ZIP final part does not match the multipart plan'')
         else Inr (bytes, (pr_state built, table)))))"

definition write_archive ::
  "text_runtime \<Rightarrow> OnePassZipBucket \<Rightarrow> OnePassZipEntry list \<Rightarrow> ChecksumRow list \<Rightarrow>
   failure + (byte list list \<times> ChecksumRow list)" where
  "write_archive rt bucket sources table =
     rbind (planOnePassZipMultipart rt sources) (\<lambda>plan.
     if mp_partCount plan > 10000 then Inl (Throws ''multipart-part-limit'')
     else
       rbind (write_prefix_parts rt bucket sources (nat (mp_partSize plan)) (nat (mp_prefixPartCount plan))
                (initialOnePassZipState, table)) (\<lambda>(pieces, w).
       rbind (write_final_part rt bucket sources plan w) (\<lambda>(bytes, w').
       Inr (pieces @ [bytes], snd w'))))"

subsection \<open>The table as a map\<close>

definition checksum_of :: "ChecksumRow list \<Rightarrow> ustring \<times> ustring \<times> int \<Rightarrow> int option" where
  "checksum_of table = map_of (map (\<lambda>r. (row_id r, cr_crc32 r)) table)"

definition table_ok :: "ChecksumRow list \<Rightarrow> bool" where
  "table_ok table \<longleftrightarrow> distinct (map row_id table)"

lemma row_id_update [simp]: "row_id (r\<lparr>cr_crc32 := c\<rparr>) = row_id r"
  by (simp add: row_id_def)

lemma upsert_row_ids:
  "map row_id (upsert_checksum table row) =
    (if row_id row \<in> row_id ` set table then map row_id table else map row_id table @ [row_id row])"
  by (auto simp: upsert_checksum_def)

lemma upsert_table_ok: "table_ok table \<Longrightarrow> table_ok (upsert_checksum table row)"
  by (auto simp: table_ok_def upsert_row_ids)

lemma checksum_of_overwrite:
  "checksum_of (map (\<lambda>r. if row_id r = i then r\<lparr>cr_crc32 := c\<rparr> else r) table) k =
    (if k = i \<and> i \<in> row_id ` set table then Some c else checksum_of table k)"
  by (induction table) (auto simp: checksum_of_def)

lemma upsert_refines: "checksum_of (upsert_checksum table row) = (checksum_of table)(row_id row \<mapsto> cr_crc32 row)"
proof (cases "row_id row \<in> row_id ` set table")
  case True
  then show ?thesis by (auto simp: upsert_checksum_def checksum_of_overwrite fun_eq_iff)
next
  case False
  then show ?thesis
    by (auto simp: upsert_checksum_def checksum_of_def map_add_def fun_eq_iff image_iff
        split: option.split dest: map_of_SomeD)
qed

lemma upserts_refine:
  "checksum_of (foldl upsert_checksum table rows) =
    checksum_of table ++ map_of (rev (map (\<lambda>r. (row_id r, cr_crc32 r)) rows))"
  by (induction rows arbitrary: table) (auto simp: upsert_refines)

lemma upserts_table_ok: "table_ok table \<Longrightarrow> table_ok (foldl upsert_checksum table rows)"
  by (induction rows arbitrary: table) (auto simp: upsert_table_ok)

definition checksum_row :: "OnePassZipEntry list \<Rightarrow> OnePassZipChecksum \<Rightarrow> ChecksumRow" where
  "checksum_row sources v =
     \<lparr>cr_key = oe_physicalKey (sources ! oc_entryIndex v), cr_etag = oe_etag (sources ! oc_entryIndex v),
      cr_size = oe_size (sources ! oc_entryIndex v), cr_crc32 = uint (oc_crc32 v)\<rparr>"

lemma persist_unchunked:
  "persistCalculatedChecksums sources checksums table =
    foldl upsert_checksum table (map (checksum_row sources) (filter oc_calculated checksums))"
proof -
  have "foldl (\<lambda>t batch. foldl upsert_checksum t (map f batch)) a xss = foldl upsert_checksum a (map f (concat xss))"
    for f :: "OnePassZipChecksum \<Rightarrow> ChecksumRow" and a xss
    by (induction xss arbitrary: a) auto
  then show ?thesis
    by (simp add: persistCalculatedChecksums_def concat_chunks_of CHECKSUM_SQL_CHUNK_def Let_def
        checksum_row_def [abs_def])
qed

text \<open>What \<open>loadChecksumCache\<close> finds for the sources of a job, whose keys differ.\<close>

definition valid_checksum :: "int \<Rightarrow> bool" where
  "valid_checksum c \<longleftrightarrow> 0 \<le> c \<and> c \<le> 0xFFFFFFFF"

definition row_accepted :: "OnePassZipEntry list \<Rightarrow> ChecksumRow \<Rightarrow> (ustring \<times> int) option" where
  "row_accepted batch row =
     (case expected_source batch (cr_key row) of
        Some source \<Rightarrow> if row_id row = source_id source \<and> valid_checksum (cr_crc32 row)
                       then Some (cr_key row, cr_crc32 row) else None
      | None \<Rightarrow> None)"

lemma expected_source_iff:
  assumes "distinct (map oe_physicalKey sources)"
  shows "expected_source sources k = Some s \<longleftrightarrow> s \<in> set sources \<and> oe_physicalKey s = k"
proof -
  have "distinct (map fst (rev (map (\<lambda>s. (oe_physicalKey s, s)) sources)))"
    using assms by (simp add: comp_def rev_map [symmetric])
  then show ?thesis unfolding expected_source_def by (subst map_of_eq_Some_iff) auto
qed

lemma accept_row_accepted:
  "accept_row batch found row =
    (case row_accepted batch row of Some (k, c) \<Rightarrow> found(k \<mapsto> c) | None \<Rightarrow> found)"
proof (cases "expected_source batch (cr_key row)")
  case None
  then show ?thesis by (simp add: accept_row_def row_accepted_def)
next
  case (Some source)
  then have "oe_physicalKey source = cr_key row"
    by (auto simp: expected_source_def dest!: map_of_SomeD)
  with Some show ?thesis
    by (auto simp: accept_row_def row_accepted_def row_id_def source_id_def valid_checksum_def)
qed

lemma foldl_updates:
  "foldl (\<lambda>found row. case f row of Some (k, c) \<Rightarrow> found(k \<mapsto> c) | None \<Rightarrow> found) found rows =
    found ++ map_of (rev (List.map_filter f rows))"
  by (induction rows arbitrary: found) (auto simp: List.map_filter_simps split: option.split prod.split)

lemma map_of_agree:
  assumes "\<And>v'. (k, v') \<in> set ps \<Longrightarrow> v' = v"
  shows "map_of ps k = (if k \<in> fst ` set ps then Some v else None)"
proof (cases "k \<in> fst ` set ps")
  case True
  then obtain v' where "map_of ps k = Some v'" by (metis map_of_eq_None_iff not_Some_eq)
  moreover from this have "v' = v" by (auto dest: map_of_SomeD intro: assms)
  ultimately show ?thesis using True by simp
qed (simp add: map_of_eq_None_iff)

definition accepted_rows :: "ChecksumRow list \<Rightarrow> OnePassZipEntry list \<Rightarrow> (ustring \<times> int) list" where
  "accepted_rows table sources =
     concat (map (\<lambda>batch. List.map_filter (row_accepted batch)
       (filter (\<lambda>row. cr_key row \<in> oe_physicalKey ` set batch) table)) (chunks_of 100 sources))"

lemma load_accepted: "loadChecksumCache table sources = map_of (rev (accepted_rows table sources))"
proof -
  have batch: "foldl (accept_row b) found rows = found ++ map_of (rev (List.map_filter (row_accepted b) rows))"
    for b found rows
    using foldl_updates [of "row_accepted b"] by (simp add: accept_row_accepted [abs_def])
  have "foldl (\<lambda>found batch. foldl (accept_row batch) found (rows batch)) found bs =
      found ++ map_of (rev (concat (map (\<lambda>b. List.map_filter (row_accepted b) (rows b)) bs)))"
    for rows found bs
    by (induction bs arbitrary: found) (simp_all add: batch)
  then show ?thesis by (simp add: loadChecksumCache_def accepted_rows_def)
qed

lemma accepted_rows_iff:
  assumes keys: "distinct (map oe_physicalKey sources)" and table: "table_ok table"
    and s: "s \<in> set sources"
  shows "(oe_physicalKey s, c) \<in> set (accepted_rows table sources) \<longleftrightarrow>
    checksum_of table (source_id s) = Some c \<and> valid_checksum c"
proof -
  have batch: "distinct (map oe_physicalKey b) \<and> set b \<subseteq> set sources" if "b \<in> set (chunks_of 100 sources)" for b
  proof -
    have "distinct (map oe_physicalKey (concat (chunks_of 100 sources)))"
      using keys by (simp add: concat_chunks_of)
    then have "distinct (map oe_physicalKey b)" using that
      by (simp add: map_concat distinct_concat_iff)
    then show ?thesis using that chunks_of_cover [of 100 _ sources] by auto
  qed
  have row: "checksum_of table (source_id s) = Some c \<longleftrightarrow>
      (\<exists>r \<in> set table. row_id r = source_id s \<and> cr_crc32 r = c)"
    using table unfolding checksum_of_def table_ok_def
    by (subst map_of_eq_Some_iff) (auto simp: comp_def image_iff, metis)
  have inj: "t = s" if "t \<in> set sources" "oe_physicalKey t = oe_physicalKey s" for t
    using keys s that by (auto simp: distinct_map inj_on_def)
  have acc: "row_accepted b r = Some (oe_physicalKey s, c) \<longleftrightarrow>
      s \<in> set b \<and> row_id r = source_id s \<and> cr_crc32 r = c \<and> valid_checksum c"
    if b: "b \<in> set (chunks_of 100 sources)" for b r
  proof -
    have "expected_source b (oe_physicalKey s) = (if s \<in> set b then Some s else None)"
    proof (cases "s \<in> set b")
      case True
      then show ?thesis using expected_source_iff batch [OF b] by simp
    next
      case False
      then have "expected_source b (oe_physicalKey s) \<noteq> Some t" for t
        using expected_source_iff [of b "oe_physicalKey s" t] batch [OF b] inj [of t] by auto
      then show ?thesis using False by auto
    qed
    then show ?thesis
      by (cases "cr_key r = oe_physicalKey s")
        (auto simp: row_accepted_def row_id_def source_id_def split: option.splits if_splits)
  qed
  have "(oe_physicalKey s, c) \<in> set (accepted_rows table sources) \<longleftrightarrow>
      (\<exists>b \<in> set (chunks_of 100 sources). \<exists>r \<in> set table. cr_key r \<in> oe_physicalKey ` set b \<and>
         row_accepted b r = Some (oe_physicalKey s, c))"
    by (auto simp: accepted_rows_def in_set_map_filter)
  also have "\<dots> \<longleftrightarrow> (\<exists>b \<in> set (chunks_of 100 sources). s \<in> set b) \<and>
      (\<exists>r \<in> set table. row_id r = source_id s \<and> cr_crc32 r = c) \<and> valid_checksum c"
    using acc by (auto simp: row_id_def source_id_def)
  finally show ?thesis using row chunks_of_cover [of 100 s sources] s by simp
qed

lemma load_finds:
  assumes "distinct (map oe_physicalKey sources)" and "table_ok table" and "s \<in> set sources"
  shows "loadChecksumCache table sources (oe_physicalKey s) = Some c \<longleftrightarrow>
    checksum_of table (source_id s) = Some c \<and> valid_checksum c"
proof -
  note iff = accepted_rows_iff [OF assms]
  show ?thesis
  proof (cases "\<exists>d. checksum_of table (source_id s) = Some d \<and> valid_checksum d")
    case True
    then obtain d where d: "checksum_of table (source_id s) = Some d" "valid_checksum d" by blast
    then have "loadChecksumCache table sources (oe_physicalKey s) = Some d"
      using map_of_agree [of "oe_physicalKey s" "rev (accepted_rows table sources)" d] iff
      by (force simp: load_accepted)
    with d show ?thesis by auto
  next
    case False
    then show ?thesis using iff by (auto simp: load_accepted dest!: map_of_SomeD)
  qed
qed

end
