(* ===== verification/Bulk_Archive_Correct.thy ===== *)
theory Bulk_Archive_Correct
  imports Bulk_Archive
begin

section \<open>A written archive is complete\<close>

text \<open>
  The step that writes a part is a \<open>resumable\<close> producer of the archive prefix: the state it
  resumes from is the writer's state and the checksum table, and its invariant says that the
  checksum of every entry behind the writer is in the table. With the multipart plan this gives
  the archive: the parts uploaded concatenate to the archive prefix followed by the central
  directory over the right checksums and offsets.
\<close>

subsection \<open>One part\<close>

definition job_ok ::
  "text_runtime \<Rightarrow> OnePassZipBucket \<Rightarrow> (ustring \<Rightarrow> byte list) \<Rightarrow> OnePassZipEntry list \<Rightarrow> ustring list \<Rightarrow> bool" where
  "job_ok rt bucket content entries names \<longleftrightarrow>
     uniqueZipEntryNames rt (map oe_name entries) = Inr names \<and> op_serves bucket content entries \<and>
     entries \<noteq> [] \<and> distinct (map oe_physicalKey entries)"

lemma build_part:
  assumes job: "job_ok rt bucket content entries names" and ok: "op_state_ok content entries names st"
    and n: "int n \<le> ZIP_MULTIPART_MAX_PART" "n \<le> length (op_rest content entries names st)"
  obtains r where "buildOnePassZipPrefixPart rt bucket entries st (int n) = Inr r"
    "pr_bytes r = take n (op_rest content entries names st)"
    "op_rest content entries names (pr_state r) = drop n (op_rest content entries names st)"
    "op_state_ok content entries names (pr_state r)"
    "pr_completedChecksums r = map (op_checksum content entries) [os_entryIndex st..<os_entryIndex (pr_state r)]"
proof -
  obtain l' where l': "prefix_loop bucket entries names n
        \<lparr>ol_state = st, ol_output = [], ol_checksums = [], ol_read = 0\<rparr> = Some (Inr l')"
      "ol_output l' = take n (op_rest content entries names st)"
      "op_rest content entries names (ol_state l') = drop n (op_rest content entries names st)"
      "op_state_ok content entries names (ol_state l')"
      "ol_checksums l' = map (op_checksum content entries) [os_entryIndex st..<os_entryIndex (ol_state l')]"
    using prefix_loop_part [OF _ _ ok, of bucket n] job by (auto simp: job_ok_def)
  have "is_safe_integer (int n)"
    using n(1) by (simp add: is_safe_integer_def MAX_SAFE_INTEGER_def ZIP_MULTIPART_MAX_PART_def)
  with l' n job show thesis
    by (intro that [of "\<lparr>pr_bytes = ol_output l', pr_state = ol_state l',
        pr_completedChecksums = ol_checksums l', pr_sourceBytesRead = ol_read l'\<rparr>"])
      (simp_all add: buildOnePassZipPrefixPart_def job_ok_def)
qed

lemma build_part_short:
  assumes job: "job_ok rt bucket content entries names" and ok: "op_state_ok content entries names st"
    and n: "int n \<le> ZIP_MULTIPART_MAX_PART" "length (op_rest content entries names st) < n"
  shows "buildOnePassZipPrefixPart rt bucket entries st (int n) =
    Inl (Throws ''ZIP prefix part was shorter than planned'')"
proof -
  obtain l' where "prefix_loop bucket entries names n
        \<lparr>ol_state = st, ol_output = [], ol_checksums = [], ol_read = 0\<rparr> = Some (Inr l')"
      "ol_output l' = take n (op_rest content entries names st)"
    using prefix_loop_part [OF _ _ ok, of bucket n] job by (auto simp: job_ok_def)
  moreover have "is_safe_integer (int n)"
    using n(1) by (simp add: is_safe_integer_def MAX_SAFE_INTEGER_def ZIP_MULTIPART_MAX_PART_def)
  ultimately show ?thesis using n job by (simp add: buildOnePassZipPrefixPart_def job_ok_def)
qed

subsection \<open>The checksums persisted so far\<close>

definition checksums_known ::
  "(ustring \<Rightarrow> byte list) \<Rightarrow> OnePassZipEntry list \<Rightarrow> nat \<Rightarrow> ChecksumRow list \<Rightarrow> bool" where
  "checksums_known content entries k table \<longleftrightarrow> table_ok table \<and>
     (\<forall>i < k. oe_crc32 (entries ! i) = None \<longrightarrow>
        checksum_of table (source_id (entries ! i)) = Some (uint (expected_crc content (entries ! i))))"

lemma source_id_inj:
  assumes "distinct (map oe_physicalKey entries)" "i < length entries" "j < length entries"
    "source_id (entries ! i) = source_id (entries ! j)"
  shows "i = j"
proof -
  have "map oe_physicalKey entries ! i = map oe_physicalKey entries ! j"
    using assms by (simp add: source_id_def)
  then show ?thesis using assms(1-3) by (subst (asm) nth_eq_iff_index_eq) auto
qed

lemma persist_keeps_known:
  assumes keys: "distinct (map oe_physicalKey entries)" and j: "i \<le> j" "j \<le> length entries"
    and known: "checksums_known content entries i table"
  shows "checksums_known content entries j
    (persistCalculatedChecksums entries (map (op_checksum content entries) [i..<j]) table)"
proof -
  let ?rows = "map (checksum_row entries) (filter oc_calculated (map (op_checksum content entries) [i..<j]))"
  let ?ps = "rev (map (\<lambda>r. (row_id r, cr_crc32 r)) ?rows)"
  have row: "row_id (checksum_row entries (op_checksum content entries k)) = source_id (entries ! k)"
    "cr_crc32 (checksum_row entries (op_checksum content entries k)) = uint (expected_crc content (entries ! k))" for k
    by (simp_all add: checksum_row_def op_checksum_def row_id_def source_id_def)
  have calc: "oc_calculated (op_checksum content entries k) \<longleftrightarrow> oe_crc32 (entries ! k) = None" for k
    by (simp add: op_checksum_def)
  have set_ps: "set ?ps = (\<lambda>k. (source_id (entries ! k), uint (expected_crc content (entries ! k)))) `
      {k. i \<le> k \<and> k < j \<and> oe_crc32 (entries ! k) = None}"
    by (auto simp: filter_map comp_def row calc image_iff)
  have ps: "(source_id (entries ! k), c) \<in> set ?ps \<longleftrightarrow>
      i \<le> k \<and> k < j \<and> oe_crc32 (entries ! k) = None \<and> c = uint (expected_crc content (entries ! k))"
    if len: "k < length entries" for k c
  proof -
    have "k = m" if "m < j" "source_id (entries ! k) = source_id (entries ! m)" for m
      using source_id_inj [OF keys len _ that(2)] that(1) j(2) by simp
    then show ?thesis unfolding set_ps by (auto simp: image_iff)
  qed
  have "checksum_of (foldl upsert_checksum table ?rows) (source_id (entries ! k)) =
      Some (uint (expected_crc content (entries ! k)))" if k: "k < j" "oe_crc32 (entries ! k) = None" for k
  proof -
    have len: "k < length entries" using k j by simp
    have "map_of ?ps (source_id (entries ! k)) =
        (if source_id (entries ! k) \<in> fst ` set ?ps then Some (uint (expected_crc content (entries ! k))) else None)"
      by (rule map_of_agree) (use ps [OF len] in blast)
    moreover have "source_id (entries ! k) \<in> fst ` set ?ps" if "i \<le> k"
      using ps [OF len, of "uint (expected_crc content (entries ! k))"] that k by force
    moreover have "checksum_of table (source_id (entries ! k)) = Some (uint (expected_crc content (entries ! k)))"
      if "k < i" using known that k(2) by (simp add: checksums_known_def)
    ultimately show ?thesis unfolding upserts_refine map_add_def
      by (cases "i \<le> k") (auto split: option.split)
  qed
  then show ?thesis
    using known upserts_table_ok by (simp add: checksums_known_def persist_unchunked)
qed

lemma completed_when_known:
  assumes keys: "distinct (map oe_physicalKey entries)"
    and known: "checksums_known content entries (length entries) table"
  shows "completedEntries table entries =
    Inr (map (\<lambda>e. e\<lparr>oe_crc32 := Some (expected_crc content e)\<rparr>) entries)"
proof -
  have "loadChecksumCache table entries (oe_physicalKey e) = Some (uint (expected_crc content e))"
    if e: "e \<in> set entries" "oe_crc32 e = None" for e
  proof -
    obtain i where "i < length entries" "e = entries ! i" using e(1) by (auto simp: in_set_conv_nth)
    then have "checksum_of table (source_id e) = Some (uint (expected_crc content e))"
      using known e(2) by (simp add: checksums_known_def)
    moreover have "uint (expected_crc content e) < 2 ^ 32" using uint_lt2p [of "expected_crc content e"] by simp
    then have "valid_checksum (uint (expected_crc content e))" by (simp add: valid_checksum_def)
    ultimately show ?thesis using load_finds [OF keys _ e(1)] known by (simp add: checksums_known_def)
  qed
  then show ?thesis
    unfolding completedEntries_def Let_def rmap_Inr_iff list_all2_conv_all_nth
    by (auto simp: expected_crc_def split: option.split dest: nth_mem)
qed

subsection \<open>The part step is resumable\<close>

definition writer_ok ::
  "text_runtime \<Rightarrow> OnePassZipBucket \<Rightarrow> (ustring \<Rightarrow> byte list) \<Rightarrow> OnePassZipEntry list \<Rightarrow> ustring list \<Rightarrow>
   writer_state \<Rightarrow> bool" where
  "writer_ok rt bucket content entries names w \<longleftrightarrow>
     job_ok rt bucket content entries names \<and> op_state_ok content entries names (fst w) \<and>
     checksums_known content entries (os_entryIndex (fst w)) (snd w)"

lemma op_index_bound: "op_state_ok content entries names st \<Longrightarrow> os_entryIndex st \<le> length entries"
  by (auto simp: op_state_ok_def split: if_splits)

interpretation part_writer: resumable
  "write_prefix_part rt bucket entries"
  "\<lambda>w. op_rest content entries names (fst w)"
  "writer_ok rt bucket content entries names"
  "\<lambda>n. int n \<le> ZIP_MULTIPART_MAX_PART"
  for rt bucket content entries names
proof
  fix w n
  assume ok: "writer_ok rt bucket content entries names w" and n: "int n \<le> ZIP_MULTIPART_MAX_PART"
    "n \<le> length (op_rest content entries names (fst w))"
  obtain r where r: "buildOnePassZipPrefixPart rt bucket entries (fst w) (int n) = Inr r"
    "pr_bytes r = take n (op_rest content entries names (fst w))"
    "op_rest content entries names (pr_state r) = drop n (op_rest content entries names (fst w))"
    "op_state_ok content entries names (pr_state r)"
    "pr_completedChecksums r = map (op_checksum content entries) [os_entryIndex (fst w)..<os_entryIndex (pr_state r)]"
    using build_part [OF _ _ n] ok unfolding writer_ok_def by blast
  have "checksums_known content entries (os_entryIndex (pr_state r))
      (persistCalculatedChecksums entries (pr_completedChecksums r) (snd w))"
  proof (cases "os_entryIndex (fst w) \<le> os_entryIndex (pr_state r)")
    case True
    then show ?thesis
      using persist_keeps_known [OF _ True op_index_bound [OF r(4)]] ok
      unfolding r(5) by (simp add: writer_ok_def job_ok_def)
  next
    case False
    then show ?thesis using ok r(5)
      by (auto simp: writer_ok_def checksums_known_def persist_unchunked)
  qed
  then show "\<exists>w'. write_prefix_part rt bucket entries w n =
      Inr (take n (op_rest content entries names (fst w)), w') \<and> writer_ok rt bucket content entries names w' \<and>
      op_rest content entries names (fst w') = drop n (op_rest content entries names (fst w))"
    using r ok by (simp add: write_prefix_part_def writer_ok_def)
qed

lemma write_prefix_parts_resumes:
  "write_prefix_parts rt bucket entries partSize count w =
    part_writer.produce_all rt bucket entries w (replicate count partSize)"
  by (induction count arbitrary: w) (simp_all add: case_prod_beta')

lemma initial_writer_ok:
  assumes "job_ok rt bucket content entries names" and "table_ok table"
  shows "writer_ok rt bucket content entries names (initialOnePassZipState, table)"
proof -
  have "length names = length entries" using assms(1) unique_names_length by (fastforce simp: job_ok_def)
  from initial_state_ok(1) [OF this] show ?thesis
    using assms by (simp add: writer_ok_def checksums_known_def initialOnePassZipState_def)
qed

lemma descriptor_nonempty: "descriptor e c \<noteq> []"
  by (metis op_lengths(2) list.size(3) zero_neq_numeral)

lemma rest_empty_done:
  assumes "op_state_ok content entries names st" and "entries \<noteq> []" and "op_rest content entries names st = []"
  shows "os_stage st = Stage_done" and "os_entryIndex st = length entries"
    and "os_archiveOffset st = length (prefix_bytes content entries names)"
proof -
  have "\<not> os_entryIndex st < length entries"
    using assms(1,3) by (auto simp: op_state_ok_def op_rest_def op_stage_ok_def op_current_def descriptor_nonempty
        split: op_stage.splits)
  with assms show "os_stage st = Stage_done" "os_entryIndex st = length entries"
    "os_archiveOffset st = length (prefix_bytes content entries names)"
    by (auto simp: op_state_ok_def)
qed

subsection \<open>The final part\<close>

lemma final_part:
  assumes w: "writer_ok rt bucket content entries names w"
    and plan: "plan_ok (int (length (prefix_bytes content entries names))) t plan"
    and t: "onePassZipTrailerSize rt entries = Inr t"
    and len: "mp_finalPrefixBytes plan = int (length (op_rest content entries names (fst w)))"
  obtains trailer w' where
    "write_final_part rt bucket entries plan w = Inr (op_rest content entries names (fst w) @ trailer, w')"
    "buildOnePassZipTrailer rt (map (\<lambda>e. e\<lparr>oe_crc32 := Some (expected_crc content e)\<rparr>) entries) = Inr trailer"
    "int (length trailer) = t"
proof -
  let ?rest = "op_rest content entries names (fst w)"
  let ?entries = "map (\<lambda>e. e\<lparr>oe_crc32 := Some (expected_crc content e)\<rparr>) entries"
  have job: "job_ok rt bucket content entries names" and ok: "op_state_ok content entries names (fst w)"
    using w by (auto simp: writer_ok_def)
  obtain trailer where trailer: "buildOnePassZipTrailer rt ?entries = Inr trailer" "int (length trailer) = t"
    using trailer_size_is_length [of rt ?entries t] t trailer_size_names_only [of ?entries entries rt]
    by (auto simp: comp_def)
  have fits: "int (length ?rest) \<le> ZIP_MULTIPART_MAX_PART"
    using plan len trailer(2) by (auto simp: plan_ok_def)
  obtain r where r: "buildOnePassZipPrefixPart rt bucket entries (fst w) (int (length ?rest)) = Inr r"
    "pr_bytes r = ?rest" "op_rest content entries names (pr_state r) = []"
    "op_state_ok content entries names (pr_state r)"
    "pr_completedChecksums r = map (op_checksum content entries) [os_entryIndex (fst w)..<os_entryIndex (pr_state r)]"
    using build_part [OF job ok fits] by auto
  have ne: "entries \<noteq> []" using job by (simp add: job_ok_def)
  note finished = rest_empty_done [OF r(4) ne r(3)]
  let ?table = "persistCalculatedChecksums entries (pr_completedChecksums r) (snd w)"
  have keys: "distinct (map oe_physicalKey entries)" using job by (simp add: job_ok_def)
  have "checksums_known content entries (length entries) ?table"
    using persist_keeps_known [OF keys op_index_bound [OF ok] order_refl, of content "snd w"] w r(5) finished(2)
    by (simp add: writer_ok_def)
  note completed = completed_when_known [OF keys this]
  have "write_final_part rt bucket entries plan w = Inr (?rest @ trailer, (pr_state r, ?table))"
    using r(1,2) finished completed trailer plan len
    by (auto simp: write_final_part_def plan_ok_def joinZipBytes_def Let_def)
  then show thesis using trailer that by blast
qed

subsection \<open>The archive\<close>

lemma write_archive_complete:
  assumes job: "job_ok rt bucket content entries names" and table: "table_ok table"
    and plan: "planOnePassZipMultipart rt entries = Inr plan" "mp_partCount plan \<le> 10000"
  obtains pieces table' trailer where
    "write_archive rt bucket entries table = Inr (pieces, table')"
    "concat pieces = prefix_bytes content entries names @ trailer"
    "buildOnePassZipTrailer rt (map (\<lambda>e. e\<lparr>oe_crc32 := Some (expected_crc content e)\<rparr>) entries) = Inr trailer"
    "int (length (concat pieces)) = mp_archiveSize plan" "int (length pieces) = mp_partCount plan"
    "\<forall>piece \<in> set (butlast pieces). int (length piece) = mp_partSize plan"
    "int (length (last pieces)) \<le> mp_partSize plan"
proof -
  let ?P = "prefix_bytes content entries names"
  obtain p t where pt: "onePassZipPrefixSize rt entries = Inr p" "onePassZipTrailerSize rt entries = Inr t"
      "plan_ok p t plan" "0 \<le> p" "98 \<le> t"
    using plan_success [OF plan(1)] by blast
  have p: "p = int (length ?P)"
    using prefix_size_is_length [OF _ pt(1)] job unfolding job_ok_def by blast
  let ?n = "nat (mp_prefixPartCount plan)" and ?size = "nat (mp_partSize plan)"
  have len: "length names = length entries" using job unique_names_length by (fastforce simp: job_ok_def)
  have start: "op_rest content entries names initialOnePassZipState = ?P"
    using initial_state_ok(2) [OF len] by simp
  have nonneg: "0 \<le> mp_prefixPartCount plan" "0 \<le> mp_partSize plan"
    using pt by (auto simp: plan_ok_def)
  have cover: "mp_prefixPartCount plan * mp_partSize plan + mp_finalPrefixBytes plan = int (length ?P)"
    and fin: "0 \<le> mp_finalPrefixBytes plan" using pt(3) p by (auto simp: plan_ok_def)
  have prod: "int (?n * ?size) = mp_prefixPartCount plan * mp_partSize plan" using nonneg by simp
  have enough: "?n * ?size \<le> length ?P" using cover fin prod by linarith
  obtain pieces w where pw:
    "write_prefix_parts rt bucket entries ?size ?n (initialOnePassZipState, table) = Inr (pieces, w)"
    "map length pieces = replicate ?n ?size" "concat pieces = take (?n * ?size) ?P"
    "writer_ok rt bucket content entries names w"
    "op_rest content entries names (fst w) = drop (?n * ?size) ?P"
    using part_writer.produce_all_concat [OF initial_writer_ok [OF job table], of "replicate ?n ?size"]
      enough pt(3) nonneg
    by (auto simp: write_prefix_parts_resumes start sum_list_replicate plan_ok_def)
  have final: "mp_finalPrefixBytes plan = int (length (op_rest content entries names (fst w)))"
    using cover prod enough by (simp add: pw(5) of_nat_diff)
  obtain trailer w' where fp:
    "write_final_part rt bucket entries plan w = Inr (op_rest content entries names (fst w) @ trailer, w')"
    "buildOnePassZipTrailer rt (map (\<lambda>e. e\<lparr>oe_crc32 := Some (expected_crc content e)\<rparr>) entries) = Inr trailer"
    "int (length trailer) = t"
    using final_part [OF pw(4) pt(3) [unfolded p] pt(2) final] by blast
  let ?all = "pieces @ [op_rest content entries names (fst w) @ trailer]"
  have "write_archive rt bucket entries table = Inr (?all, snd w')"
    using plan pw(1) fp(1) by (simp add: write_archive_def)
  moreover have all: "concat ?all = ?P @ trailer" by (simp add: pw(3,5))
  moreover note fp(2)
  moreover have "int (length (concat ?all)) = mp_archiveSize plan"
    unfolding all using fp(3) pt(3) p by (simp add: plan_ok_def)
  moreover have "int (length ?all) = mp_partCount plan"
  proof -
    have "length pieces = ?n" using arg_cong [OF pw(2), of length] by simp
    then show ?thesis using nonneg pt(3) by (simp add: plan_ok_def)
  qed
  moreover have "\<forall>piece \<in> set (butlast ?all). int (length piece) = mp_partSize plan"
  proof -
    have "set (map length pieces) \<subseteq> {?size}" unfolding pw(2) by auto
    then show ?thesis using nonneg by auto
  qed
  moreover have "int (length (last ?all)) \<le> mp_partSize plan"
    using final fp(3) pt(3) by (simp add: plan_ok_def)
  ultimately show thesis by (rule that)
qed

end
