(* ===== verification/Zip_Stream.thy ===== *)
theory Zip_Stream
  imports Bulk_Archive_Correct
begin

section \<open>The streaming writer\<close>

text \<open>
  Models \<open>streamZip\<close> of \<open>apps/client/src/worker/zip.ts\<close>. A source is its name, announced size
  and the chunks its stream delivers; the result is the chunks enqueued and the error, if any,
  the stream ends with. The lemmas show that it writes the archive of the one-pass writer.
\<close>

record ZipSource =
  zs_name :: ustring
  zs_size :: int
  zs_chunks :: "byte list list"

definition stream_local :: "int \<Rightarrow> ustring \<Rightarrow> byte list" where
  "stream_local sz name =
     (let nb = utf8 name; extra = zip64Extra sz None in
      u32 0x04034B50 @ u16 45 @ u16 0x0808 @ u16 0 @ u16 0 @ u16 0 @ u32 0 @ u32 0xFFFFFFFF @
      u32 0xFFFFFFFF @ u16 (int (length nb)) @ u16 (int (length extra)) @ nb @ extra)"

definition stream_central :: "ustring \<Rightarrow> 32 word \<Rightarrow> int \<Rightarrow> int \<Rightarrow> byte list" where
  "stream_central name crc sz localOffset =
     (let nb = utf8 name; extra = zip64Extra sz (Some localOffset) in
      u32 0x02014B50 @ u16 45 @ u16 45 @ u16 0x0808 @ u16 0 @ u16 0 @ u16 0 @ u32 (uint crc) @
      u32 0xFFFFFFFF @ u32 0xFFFFFFFF @ u16 (int (length nb)) @ u16 (int (length extra)) @ u16 0 @
      u16 0 @ u16 0 @ u32 0 @ u32 0xFFFFFFFF @ nb @ extra)"

text \<open>The inner \<open>while (true)\<close> over the chunks of one source: checksum, size, chunks enqueued.\<close>

fun stream_chunks :: "byte list list \<Rightarrow> 32 word \<Rightarrow> int \<Rightarrow> byte list list \<Rightarrow> 32 word \<times> int \<times> byte list list" where
  "stream_chunks [] crc sz out = (crc, sz, out)"
| "stream_chunks (chunk # chunks) crc sz out =
     (if chunk = [] then stream_chunks chunks crc sz out
      else stream_chunks chunks (crc32 chunk crc) (sz + int (length chunk)) (out @ [chunk]))"

text \<open>The loop over the sources: offset, directory records and entry count so far, chunks enqueued.\<close>

type_synonym stream_result = "byte list list \<times> string option"

definition stream_end :: "int \<Rightarrow> byte list list \<Rightarrow> int \<Rightarrow> byte list list \<Rightarrow> stream_result" where
  "stream_end offset central count out =
     (let directoryOffset = offset;
          zip64Offset = directoryOffset + int (length (concat central));
          directorySize = zip64Offset - directoryOffset in
      (out @ central @
       [u32 0x06064B50 @ u64 44 @ u16 45 @ u16 45 @ u32 0 @ u32 0 @ u64 count @ u64 count @
          u64 directorySize @ u64 directoryOffset,
        u32 0x07064B50 @ u32 0 @ u64 zip64Offset @ u32 1,
        u32 0x06054B50 @ u16 0xFFFF @ u16 0xFFFF @ u16 0xFFFF @ u16 0xFFFF @ u32 0xFFFFFFFF @
          u32 0xFFFFFFFF @ u16 0], None))"

fun stream_sources ::
  "(ZipSource \<times> ustring) list \<Rightarrow> int \<Rightarrow> byte list list \<Rightarrow> int \<Rightarrow> byte list list \<Rightarrow> stream_result" where
  "stream_sources [] offset central count out = stream_end offset central count out"
| "stream_sources ((source, name) # rest) offset central count out =
     (if \<not> is_safe_integer (zs_size source) \<or> zs_size source < 0
      then (out, Some ''ZIP entry size is invalid'')
      else
        let localOffset = offset;
            local = stream_local (zs_size source) name;
            (crc, sz, out') = stream_chunks (zs_chunks source) 0xFFFFFFFF 0 (out @ [local]) in
        if sz \<noteq> zs_size source then (out', Some ''ZIP source changed while reading'')
        else
          let crc' = crc_final crc;
              desc = u32 0x08074B50 @ u32 (uint crc') @ u64 sz @ u64 sz;
              offset' = offset + int (length local) + sz + int (length desc) in
          stream_sources rest offset' (central @ [stream_central name crc' sz localOffset])
            (count + 1) (out' @ [desc]))"

definition streamZip :: "text_runtime \<Rightarrow> ZipSource list \<Rightarrow> failure + stream_result" where
  "streamZip rt sources =
     rbind (uniqueZipEntryNames rt (map zs_name sources)) (\<lambda>names.
       Inr (stream_sources (zip sources names) 0 [] 0 []))"

subsection \<open>It writes the one-pass archive\<close>

lemma stream_chunks_concat:
  "stream_chunks chunks crc sz out = (crc', sz', out') \<Longrightarrow>
    crc' = crc32 (concat chunks) crc \<and> sz' = sz + int (length (concat chunks)) \<and>
    concat out' = concat out @ concat chunks"
  by (induction chunks crc sz out rule: stream_chunks.induct) (auto simp: crc32_append split: if_splits)

definition as_source :: "(ustring \<Rightarrow> byte list list) \<Rightarrow> OnePassZipEntry \<Rightarrow> ZipSource" where
  "as_source chunks e = \<lparr>zs_name = oe_name e, zs_size = oe_size e, zs_chunks = chunks (oe_physicalKey e)\<rparr>"

text \<open>An entry without a cached checksum, whose stream delivers its content.\<close>

definition fresh_entry ::
  "(ustring \<Rightarrow> byte list list) \<Rightarrow> (ustring \<Rightarrow> byte list) \<Rightarrow> OnePassZipEntry \<Rightarrow> bool" where
  "fresh_entry chunks content e \<longleftrightarrow> concat (chunks (oe_physicalKey e)) = content (oe_physicalKey e) \<and>
     oe_crc32 e = None \<and> is_safe_integer (oe_size e) \<and>
     int (length (content (oe_physicalKey e))) = oe_size e"

lemma stream_records [simp]:
  "stream_local (oe_size e) name = localHeader e name"
  "stream_central name crc (oe_size e) off = op_central_record e name crc off"
  by (simp_all add: stream_local_def localHeader_def stream_central_def op_central_record_def)

lemma stream_sources_archive:
  assumes "length names = length entries"
    and "\<forall>e \<in> set entries. fresh_entry chunks content e"
  shows "\<exists>out' . stream_sources (zip (map (as_source chunks) entries) names) offset central count out = (out', None) \<and>
    concat out' = concat out @ prefix_bytes content entries names @ concat central @
      fst (trailer_loop offset (zip (map (\<lambda>e. e\<lparr>oe_crc32 := Some (expected_crc content e)\<rparr>) entries) names)) @
      end_bytes (count + int (length entries))
        (int (length (concat central)) +
         int (length (fst (trailer_loop offset (zip (map (\<lambda>e. e\<lparr>oe_crc32 := Some (expected_crc content e)\<rparr>) entries) names)))))
        (offset + int (length (prefix_bytes content entries names)))"
  using assms
proof (induction entries arbitrary: names offset central count out)
  case Nil
  then show ?case by (simp add: stream_end_def end_bytes_def Let_def)
next
  case (Cons e es)
  obtain n ns where names: "names = n # ns" "length ns = length es" using Cons.prems(1) by (cases names) auto
  let ?c = content and ?u = "\<lambda>e. e\<lparr>oe_crc32 := Some (expected_crc content e)\<rparr>"
  have e: "oe_crc32 e = None" "is_safe_integer (oe_size e)" "int (length (?c (oe_physicalKey e))) = oe_size e"
    using Cons.prems(2) by (auto simp: fresh_entry_def)
  obtain crc sz out1 where sc: "stream_chunks (chunks (oe_physicalKey e)) 0xFFFFFFFF 0 (out @ [localHeader e n]) = (crc, sz, out1)"
    by (metis prod_cases3)
  have "concat (chunks (oe_physicalKey e)) = ?c (oe_physicalKey e)"
    using Cons.prems(2) by (simp add: fresh_entry_def)
  note sc' = stream_chunks_concat [OF sc, unfolded this]
  have sz: "sz = oe_size e" using sc' e(3) by simp
  have crc: "crc_final crc = expected_crc ?c e" using sc' e(1) by (simp add: expected_crc_def)
  let ?d = "u32 0x08074B50 @ u32 (uint (expected_crc ?c e)) @ u64 (oe_size e) @ u64 (oe_size e)"
  have d: "?d = descriptor e (expected_crc ?c e)" by (simp add: descriptor_def)
  let ?off = "offset + int (length (localHeader e n)) + oe_size e + int (length ?d)"
  have off: "?off = offset + 50 + int (length (utf8 n)) + oe_size e + 24" unfolding d by simp
  let ?r = "op_central_record e n (expected_crc ?c e) offset"
  have step: "stream_sources (zip (map (as_source chunks) (e # es)) names) offset central count out =
      stream_sources (zip (map (as_source chunks) es) ns) ?off (central @ [?r]) (count + 1) (out1 @ [?d])"
    using e(2,3) by (simp add: names(1) as_source_def sc sz crc Let_def)
  have fresh: "\<forall>e \<in> set es. fresh_entry chunks content e" using Cons.prems(2) by (meson list.set_intros(2))
  obtain out' where ih: "stream_sources (zip (map (as_source chunks) es) ns) ?off (central @ [?r]) (count + 1) (out1 @ [?d]) = (out', None)"
    "concat out' = concat (out1 @ [?d]) @ prefix_bytes ?c es ns @ concat (central @ [?r]) @
      fst (trailer_loop ?off (zip (map ?u es) ns)) @
      end_bytes (count + 1 + int (length es))
        (int (length (concat (central @ [?r]))) + int (length (fst (trailer_loop ?off (zip (map ?u es) ns)))))
        (?off + int (length (prefix_bytes ?c es ns)))"
    using Cons.IH [OF names(2) fresh, of ?off "central @ [?r]" "count + 1" "out1 @ [?d]"] by blast
  have rec: "op_central_record (?u e) n (expected_crc ?c e) offset = ?r" by (simp add: op_central_record_def)
  have tl: "fst (trailer_loop offset (zip (map ?u (e # es)) names)) = ?r @ fst (trailer_loop ?off (zip (map ?u es) ns))"
    unfolding off by (simp add: names(1) Let_def case_prod_beta rec)
  have pb: "prefix_bytes ?c (e # es) names = localHeader e n @ ?c (oe_physicalKey e) @ ?d @ prefix_bytes ?c es ns"
    by (simp add: names(1) entry_bytes_def descriptor_def)
  have len: "?off + int (length (prefix_bytes ?c es ns)) = offset + int (length (prefix_bytes ?c (e # es) names))"
    unfolding pb using e(3) by simp
  have "concat out' = concat out @ prefix_bytes ?c (e # es) names @ concat central @
      fst (trailer_loop offset (zip (map ?u (e # es)) names)) @
      end_bytes (count + int (length (e # es)))
        (int (length (concat central)) + int (length (fst (trailer_loop offset (zip (map ?u (e # es)) names)))))
        (offset + int (length (prefix_bytes ?c (e # es) names)))"
    unfolding ih(2) len tl unfolding pb using sc' by (simp add: add.assoc)
  with step ih(1) show ?case by auto
qed

lemma streamZip_archive:
  assumes "uniqueZipEntryNames rt (map oe_name entries) = Inr names"
    and "\<forall>e \<in> set entries. fresh_entry chunks content e"
  shows "\<exists>out trailer. streamZip rt (map (as_source chunks) entries) = Inr (out, None) \<and>
    buildOnePassZipTrailer rt (map (\<lambda>e. e\<lparr>oe_crc32 := Some (expected_crc content e)\<rparr>) entries) = Inr trailer \<and>
    concat out = prefix_bytes content entries names @ trailer"
proof -
  let ?c = content and ?u = "\<lambda>e. e\<lparr>oe_crc32 := Some (expected_crc content e)\<rparr>"
  have len: "length names = length entries" using unique_names_length [OF assms(1)] by simp
  have names: "map zs_name (map (as_source chunks) entries) = map oe_name entries"
    "map oe_name (map ?u entries) = map oe_name entries" by (simp_all add: as_source_def)
  have sizes: "\<forall>e \<in> set (map ?u entries). int (length (?c (oe_physicalKey e))) = oe_size e"
    using assms(2) by (auto simp: fresh_entry_def)
  have pb: "prefix_bytes ?c (map ?u es) ns = prefix_bytes ?c es ns" if "\<forall>e \<in> set es. oe_crc32 e = None" for es ns
    using that
    by (induction ?c es ns rule: prefix_bytes.induct)
      (auto simp: entry_bytes_def localHeader_def descriptor_def expected_crc_def)
  have fresh: "\<forall>e \<in> set entries. oe_crc32 e = None" using assms(2) by (simp add: fresh_entry_def)
  obtain out where out: "stream_sources (zip (map (as_source chunks) entries) names) 0 [] 0 [] = (out, None)"
    "concat out = prefix_bytes ?c entries names @ fst (trailer_loop 0 (zip (map ?u entries) names)) @
      end_bytes (int (length entries)) (int (length (fst (trailer_loop 0 (zip (map ?u entries) names)))))
        (int (length (prefix_bytes ?c entries names)))"
    using stream_sources_archive [OF len assms(2), of 0 "[]" 0 "[]"] by auto
  have "snd (trailer_loop 0 (zip (map ?u entries) names)) = int (length (prefix_bytes ?c entries names))"
    using trailer_loop_directory [of names "map ?u entries" ?c 0] len sizes pb [OF fresh] by simp
  then have "buildOnePassZipTrailer rt (map ?u entries) = Inr (fst (trailer_loop 0 (zip (map ?u entries) names)) @
      end_bytes (int (length entries)) (int (length (fst (trailer_loop 0 (zip (map ?u entries) names)))))
        (int (length (prefix_bytes ?c entries names))))"
    unfolding buildOnePassZipTrailer_def names(2) assms(1) by (simp add: case_prod_beta)
  then show ?thesis using out unfolding streamZip_def names(1) assms(1) by auto
qed

end
