(* ===== verification/Zip_Layout.thy ===== *)
theory Zip_Layout
  imports Zip_Names Zip_Bytes
begin

section \<open>Planned archives: layout, size and ranged reads\<close>

text \<open>
  The stored-method ZIP64 writer of \<open>apps/client/src/worker/zip.ts\<close>: \<open>estimateZipArchiveSize\<close>,
  \<open>buildZipLayout\<close> and \<open>readZipPart\<close>. A layout is a list of segments, header bytes or whole
  stored objects; \<open>readZipPart\<close> serves any byte range of the archive from it without building
  the archive. The object store is the argument \<open>bucket\<close>: key, offset, length and expected ETag
  to the bytes it returns, \<open>None\<close> for a missing or changed object.
\<close>

subsection \<open>Data\<close>

record ZipManifestEntry =
  me_key :: ustring
  me_name :: ustring
  me_size :: int
  me_crc32 :: "32 word"
  me_etag :: "ustring option"

datatype zip_segment =
    Bytes_segment (seg_offset: int) (seg_length: int) (seg_bytes: "byte list")
  | Object_segment (seg_offset: int) (seg_length: int) (seg_key: ustring) (seg_etag: "ustring option")

record layout_entry =
  le_entry :: ZipManifestEntry
  le_localOffset :: int
  le_local :: "byte list"

record ZipArchiveLayout =
  zl_entries :: "layout_entry list"
  zl_archiveSize :: int
  zl_centralOffset :: int
  zl_segments :: "zip_segment list"

type_synonym ZipRangeBucket = "ustring \<Rightarrow> int \<Rightarrow> int \<Rightarrow> ustring option \<Rightarrow> byte list option"

subsection \<open>Records of the format\<close>

definition local_record :: "ustring \<Rightarrow> int \<Rightarrow> 32 word \<Rightarrow> byte list" where
  "local_record name sz crc =
     (let nb = utf8 name; extra = zip64Extra sz None in
      u32 0x04034B50 @ u16 45 @ u16 0x0800 @ u16 0 @ u16 0 @ u16 0 @ u32 (uint crc) @
      u32 0xFFFFFFFF @ u32 0xFFFFFFFF @ u16 (int (length nb)) @ u16 (int (length extra)) @ nb @ extra)"

definition central_record :: "ustring \<Rightarrow> int \<Rightarrow> 32 word \<Rightarrow> int \<Rightarrow> byte list" where
  "central_record name sz crc localOffset =
     (let nb = utf8 name; extra = zip64Extra sz (Some localOffset) in
      u32 0x02014B50 @ u16 45 @ u16 45 @ u16 0x0800 @ u16 0 @ u16 0 @ u16 0 @ u32 (uint crc) @
      u32 0xFFFFFFFF @ u32 0xFFFFFFFF @ u16 (int (length nb)) @ u16 (int (length extra)) @
      u16 0 @ u16 0 @ u16 0 @ u32 0 @ u32 0xFFFFFFFF @ nb @ extra)"

definition zip64_end_record :: "int \<Rightarrow> int \<Rightarrow> int \<Rightarrow> byte list" where
  "zip64_end_record count centralSize centralOffset =
     u32 0x06064B50 @ u64 44 @ u16 45 @ u16 45 @ u32 0 @ u32 0 @ u64 count @ u64 count @
     u64 centralSize @ u64 centralOffset"

definition zip64_locator :: "int \<Rightarrow> byte list" where
  "zip64_locator zip64Offset = u32 0x07064B50 @ u32 0 @ u64 zip64Offset @ u32 1"

definition end_record :: "byte list" where
  "end_record = u32 0x06054B50 @ u16 0xFFFF @ u16 0xFFFF @ u16 0xFFFF @ u16 0xFFFF @
     u32 0xFFFFFFFF @ u32 0xFFFFFFFF @ u16 0"

lemma record_lengths [simp, bytes_simps]:
  "length (local_record name sz crc) = 50 + length (utf8 name)"
  "length (central_record name sz crc off) = 74 + length (utf8 name)"
  "length (zip64_end_record n cs co) = 56"
  "length (zip64_locator z) = 20"
  "length end_record = 22"
  by (simp_all add: local_record_def central_record_def zip64_end_record_def zip64_locator_def
      end_record_def Let_def)

subsection \<open>The size known in advance\<close>

fun estimate_from :: "int \<Rightarrow> (ZipManifestEntry \<times> ustring) list \<Rightarrow> failure + int" where
  "estimate_from sz [] = Inr sz"
| "estimate_from sz ((entry, name) # rest) =
     (if \<not> is_safe_integer (me_size entry) \<or> me_size entry < 0
      then Inl (Throws ''ZIP entry size is invalid'')
      else
        let sz' = sz + me_size entry + 124 + int (length (utf8 name)) * 2 in
        if \<not> is_safe_integer sz' then Inl (Throws ''ZIP archive size is invalid'')
        else estimate_from sz' rest)"

definition estimateZipArchiveSize ::
  "text_runtime \<Rightarrow> ZipManifestEntry list \<Rightarrow> failure + int" where
  "estimateZipArchiveSize rt entries =
     rbind (uniqueZipEntryNames rt (map me_name entries))
       (\<lambda>names. estimate_from 98 (zip entries names))"

subsection \<open>Building the layout\<close>

fun layout_entries :: "int \<Rightarrow> (ZipManifestEntry \<times> ustring) list \<Rightarrow> layout_entry list" where
  "layout_entries offset [] = []"
| "layout_entries offset ((entry, name) # rest) =
     (let local = local_record name (me_size entry) (me_crc32 entry) in
      \<lparr>le_entry = entry, le_localOffset = offset, le_local = local\<rparr> #
      layout_entries (offset + int (length local) + me_size entry) rest)"

fun entry_segments :: "int \<Rightarrow> layout_entry list \<Rightarrow> zip_segment list" where
  "entry_segments offset [] = []"
| "entry_segments offset (e # rest) =
     (let n = int (length (le_local e)); sz = me_size (le_entry e) in
      Bytes_segment offset n (le_local e) #
      Object_segment (offset + n) sz (me_key (le_entry e)) (me_etag (le_entry e)) #
      entry_segments (offset + n + sz) rest)"

definition data_size :: "layout_entry list \<Rightarrow> int" where
  "data_size es = (\<Sum>e \<leftarrow> es. int (length (le_local e)) + me_size (le_entry e))"

definition central_bytes :: "(layout_entry \<times> ustring) list \<Rightarrow> byte list" where
  "central_bytes es = concat (map (\<lambda>(e, name).
     central_record name (me_size (le_entry e)) (me_crc32 (le_entry e)) (le_localOffset e)) es)"

definition buildZipLayout :: "text_runtime \<Rightarrow> ZipManifestEntry list \<Rightarrow> failure + ZipArchiveLayout" where
  "buildZipLayout rt entries =
     rbind (uniqueZipEntryNames rt (map me_name entries)) (\<lambda>names.
       let es = layout_entries 0 (zip entries names);
           centralOffset = data_size es;
           centralBytes = central_bytes (zip es names);
           zip64EndOffset = centralOffset + int (length centralBytes);
           zip64End = zip64_end_record (int (length es)) (int (length centralBytes)) centralOffset;
           locatorOffset = zip64EndOffset + int (length zip64End);
           locator = zip64_locator zip64EndOffset;
           endOffset = locatorOffset + int (length locator)
       in Inr \<lparr>zl_entries = es,
               zl_archiveSize = endOffset + int (length end_record),
               zl_centralOffset = centralOffset,
               zl_segments = entry_segments 0 es @
                 [Bytes_segment centralOffset (int (length centralBytes)) centralBytes,
                  Bytes_segment zip64EndOffset (int (length zip64End)) zip64End,
                  Bytes_segment locatorOffset (int (length locator)) locator,
                  Bytes_segment endOffset (int (length end_record)) end_record]\<rparr>)"

subsection \<open>Reading a range\<close>

text \<open>\<open>while (low < high)\<close>: the first segment that ends after \<open>start\<close>.\<close>

function seek :: "zip_segment list \<Rightarrow> int \<Rightarrow> nat \<Rightarrow> nat \<Rightarrow> nat" where
  "seek segs start low high =
     (if low < high then
        let middle = low + (high - low) div 2; segment = segs ! middle in
        if seg_offset segment + seg_length segment \<le> start then seek segs start (middle + 1) high
        else seek segs start low middle
      else low)"
  by pat_completeness auto
termination
  by (relation "measure (\<lambda>(segs, start, low, high). high - low)") auto

declare seek.simps [simp del]

definition set_bytes :: "byte list \<Rightarrow> byte list \<Rightarrow> nat \<Rightarrow> byte list" where
  "set_bytes output bytes offset =
     take offset output @ bytes @ drop (offset + length bytes) output"

fun read_segments ::
  "ZipRangeBucket \<Rightarrow> int \<Rightarrow> int \<Rightarrow> zip_segment list \<Rightarrow> byte list \<Rightarrow> failure + byte list" where
  "read_segments bucket start stop [] output = Inr output"
| "read_segments bucket start stop (segment # rest) output =
     (if seg_offset segment \<ge> stop then Inr output
      else
        let overlapStart = max start (seg_offset segment);
            overlapEnd = min stop (seg_offset segment + seg_length segment) in
        if overlapEnd \<le> overlapStart then read_segments bucket start stop rest output
        else
          let targetOffset = overlapStart - start;
              sourceOffset = overlapStart - seg_offset segment;
              sz = overlapEnd - overlapStart in
          case segment of
            Bytes_segment _ _ bytes \<Rightarrow>
              read_segments bucket start stop rest
                (set_bytes output (subrange (nat sourceOffset) (nat sz) bytes) (nat targetOffset))
          | Object_segment _ _ key etag \<Rightarrow>
              (case bucket key sourceOffset sz etag of
                 None \<Rightarrow> Inl (Throws ''ZIP source changed or disappeared'')
               | Some bytes \<Rightarrow>
                   if int (length bytes) \<noteq> sz
                   then Inl (Throws ''ZIP source returned a short range'')
                   else read_segments bucket start stop rest
                          (set_bytes output bytes (nat targetOffset))))"

definition readZipPart ::
  "ZipRangeBucket \<Rightarrow> ZipArchiveLayout \<Rightarrow> int \<Rightarrow> int \<Rightarrow> failure + byte list" where
  "readZipPart bucket layout start len =
     (let stop = min (zl_archiveSize layout) (start + len);
          output = replicate (nat (max 0 (stop - start))) 0;
          low = seek (zl_segments layout) start 0 (length (zl_segments layout))
      in read_segments bucket start stop (drop low (zl_segments layout)) output)"


subsection \<open>Segments in a row\<close>

text \<open>
  The contract between a layout and its reader: segments follow each other without gap or
  overlap, and each is as long as the bytes it stands for. \<open>content\<close> is the object behind a key.
\<close>

fun contiguous :: "int \<Rightarrow> zip_segment list \<Rightarrow> bool" where
  "contiguous offset [] = True"
| "contiguous offset (s # rest) =
     (seg_offset s = offset \<and> 0 \<le> seg_length s \<and> contiguous (offset + seg_length s) rest)"

fun seg_data :: "(ustring \<Rightarrow> byte list) \<Rightarrow> zip_segment \<Rightarrow> byte list" where
  "seg_data content (Bytes_segment _ _ bytes) = bytes"
| "seg_data content (Object_segment _ _ key _) = content key"

definition segs_data :: "(ustring \<Rightarrow> byte list) \<Rightarrow> zip_segment list \<Rightarrow> byte list" where
  "segs_data content segs = concat (map (seg_data content) segs)"

definition sized :: "(ustring \<Rightarrow> byte list) \<Rightarrow> zip_segment list \<Rightarrow> bool" where
  "sized content segs \<longleftrightarrow> (\<forall>s \<in> set segs. int (length (seg_data content s)) = seg_length s)"

text \<open>The store returns exactly the range asked for of every object of the layout.\<close>

definition serves :: "ZipRangeBucket \<Rightarrow> (ustring \<Rightarrow> byte list) \<Rightarrow> zip_segment list \<Rightarrow> bool" where
  "serves bucket content segs \<longleftrightarrow>
     (\<forall>offset n key etag off sz. Object_segment offset n key etag \<in> set segs \<longrightarrow>
        0 \<le> off \<longrightarrow> 0 < sz \<longrightarrow> off + sz \<le> n \<longrightarrow>
        bucket key off sz etag = Some (subrange (nat off) (nat sz) (content key)))"

lemma servesD:
  "serves bucket content segs \<Longrightarrow> Object_segment offset n key etag \<in> set segs \<Longrightarrow>
     0 \<le> off \<Longrightarrow> 0 < sz \<Longrightarrow> off + sz \<le> n \<Longrightarrow>
     bucket key off sz etag = Some (subrange (nat off) (nat sz) (content key))"
  unfolding serves_def by blast

definition seg_end :: "zip_segment \<Rightarrow> int" where
  "seg_end s = seg_offset s + seg_length s"

lemma segs_data_simps [simp]:
  "segs_data content [] = []"
  "segs_data content (s # rest) = seg_data content s @ segs_data content rest"
  "segs_data content (xs @ ys) = segs_data content xs @ segs_data content ys"
  by (simp_all add: segs_data_def)

lemma contiguous_append:
  "contiguous offset (xs @ ys) \<longleftrightarrow>
     contiguous offset xs \<and> contiguous (offset + (\<Sum>s \<leftarrow> xs. seg_length s)) ys"
  by (induction xs arbitrary: offset) (auto simp: add.assoc)

lemma contiguous_length_nonneg: "contiguous offset segs \<Longrightarrow> 0 \<le> (\<Sum>s \<leftarrow> segs. seg_length s)"
  by (induction segs arbitrary: offset) force+

lemma contiguous_nth:
  "contiguous offset segs \<Longrightarrow> i < length segs \<Longrightarrow>
     seg_offset (segs ! i) = offset + (\<Sum>s \<leftarrow> take i segs. seg_length s) \<and> 0 \<le> seg_length (segs ! i)"
proof (induction segs arbitrary: offset i)
  case Nil
  then show ?case by simp
next
  case (Cons s segs)
  then show ?case by (cases i) auto
qed

lemma contiguous_seg_end:
  assumes "contiguous offset segs" and "i < length segs"
  shows "seg_end (segs ! i) = offset + (\<Sum>s \<leftarrow> take (Suc i) segs. seg_length s)"
  using contiguous_nth [OF assms] assms(2) by (simp add: seg_end_def take_Suc_conv_app_nth)

lemma contiguous_ends_mono:
  assumes "contiguous offset segs" and "i \<le> j" and "j < length segs"
  shows "seg_end (segs ! i) \<le> seg_end (segs ! j)"
  using assms(2,3)
proof (induction j rule: dec_induct)
  case base
  then show ?case by simp
next
  case (step j)
  have "seg_end (segs ! j) \<le> seg_end (segs ! Suc j)"
    using contiguous_seg_end [OF assms(1), of j] contiguous_seg_end [OF assms(1), of "Suc j"]
      contiguous_nth [OF assms(1), of "Suc j"] step.prems
    by (simp add: take_Suc_conv_app_nth)
  with step show ?case by simp
qed

lemma seek_skips_earlier:
  "contiguous offset segs \<Longrightarrow> low \<le> high \<Longrightarrow> high \<le> length segs \<Longrightarrow> (\<forall>i < low. seg_end (segs ! i) \<le> start) \<Longrightarrow>
    seek segs start low high \<le> high \<and> (\<forall>i < seek segs start low high. seg_end (segs ! i) \<le> start)"
proof (induction segs start low high rule: seek.induct)
  case (1 segs start low high)
  let ?m = "low + (high - low) div 2"
  show ?case
  proof (cases "low < high")
    case False
    with "1.prems" show ?thesis by (simp add: seek.simps)
  next
    case True
    then have m: "low \<le> ?m" "?m < high" "?m + 1 \<le> high" by auto
    show ?thesis
    proof (cases "seg_offset (segs ! ?m) + seg_length (segs ! ?m) \<le> start")
      case earlier: True
      have all: "\<forall>i < ?m + 1. seg_end (segs ! i) \<le> start"
      proof (intro allI impI)
        fix i assume "i < ?m + 1"
        then have "seg_end (segs ! i) \<le> seg_end (segs ! ?m)"
          using contiguous_ends_mono [OF "1.prems"(1)] "1.prems"(3) m by simp
        with earlier show "seg_end (segs ! i) \<le> start" by (simp add: seg_end_def)
      qed
      have eq: "seek segs start low high = seek segs start (?m + 1) high"
        using True earlier by (subst seek.simps) (simp only: Let_def if_True)
      show ?thesis
        unfolding eq by (rule "1.IH"(1) [OF True refl refl earlier "1.prems"(1) m(3) "1.prems"(3) all])
    next
      case False
      have eq: "seek segs start low high = seek segs start low ?m"
        using True False by (subst seek.simps) (simp only: Let_def if_True if_False)
      have "seek segs start low ?m \<le> ?m \<and>
          (\<forall>i < seek segs start low ?m. seg_end (segs ! i) \<le> start)"
        by (rule "1.IH"(2) [OF True refl refl False "1.prems"(1) m(1)])
          (use m "1.prems" in linarith, rule "1.prems")
      with m(2) show ?thesis unfolding eq by (meson le_trans less_imp_le)
    qed
  qed
qed


subsection \<open>A ranged read returns that range of the archive\<close>

text \<open>
  \<open>reached start stop offset\<close> is how much of the output is final once every byte of the archive
  before \<open>offset\<close> has been handled.
\<close>

definition reached :: "int \<Rightarrow> int \<Rightarrow> int \<Rightarrow> nat" where
  "reached start stop offset = nat (max start (min stop offset) - start)"

lemma set_bytes_next:
  assumes "piece = subrange n k T" and "n + k \<le> length T" and "r = length T - n"
  shows "set_bytes (take n T @ replicate r 0) piece n = take (n + k) T @ replicate (r - k) 0"
  using assms by (simp add: set_bytes_def subrange_def take_add min_def)

lemma subrange_subrange:
  "n + k \<le> l \<Longrightarrow> subrange n k (subrange m l xs) = subrange (m + n) k xs"
  by (simp add: subrange_def drop_take add.commute min_def)

lemma read_segments_step:
  assumes "seg_offset s < stop" and "lo < hi"
    and "lo = max start (seg_offset s)" and "hi = min stop (seg_offset s + seg_length s)"
    and "piece = subrange (nat (lo - seg_offset s)) (nat (hi - lo)) (seg_data content s)"
    and "length piece = nat (hi - lo)"
    and "\<And>o' n' key etag. s = Object_segment o' n' key etag \<Longrightarrow>
           bucket key (lo - seg_offset s) (hi - lo) etag = Some piece"
  shows "read_segments bucket start stop (s # segs) output =
    read_segments bucket start stop segs (set_bytes output piece (nat (lo - start)))"
proof (cases s)
  case (Bytes_segment o' n' bytes)
  with assms(3,4) have "max start o' = lo" "min stop (o' + n') = hi" by simp_all
  with Bytes_segment assms(1,2,5) show ?thesis by (simp add: Let_def)
next
  case (Object_segment o' n' key etag)
  with assms(7) have "bucket key (lo - seg_offset s) (hi - lo) etag = Some piece" by blast
  moreover from Object_segment assms(3,4) have "max start o' = lo" "min stop (o' + n') = hi" by simp_all
  ultimately show ?thesis using Object_segment assms(1,2,6) by (simp add: Let_def)
qed

lemma read_segments_ok:
  assumes "contiguous offset segs" "sized content segs" "serves bucket content segs"
    and "drop (nat offset) D = segs_data content segs"
    and "0 \<le> offset" "0 \<le> start" "start \<le> stop" "stop \<le> int (length D)"
    and "T = subrange (nat start) (nat (stop - start)) D"
  shows "read_segments bucket start stop segs
    (take (reached start stop offset) T @
     replicate (length T - reached start stop offset) 0) = Inr T"
  using assms(1-5)
proof (induction segs arbitrary: offset)
  case Nil
  have lenT: "length T = nat (stop - start)" using assms by simp
  from Nil have "length D \<le> nat offset" by simp
  then have "reached start stop offset = length T"
    using Nil assms(6-8) lenT by (simp add: reached_def)
  then show ?case by simp
next
  case (Cons s segs)
  have lenT: "length T = nat (stop - start)" using assms by simp
  let ?n = "seg_length s" and ?next = "offset + seg_length s"
  from Cons.prems have off: "seg_offset s = offset" and n: "0 \<le> ?n" and cont: "contiguous ?next segs"
    by auto
  have len: "int (length (seg_data content s)) = ?n" using Cons.prems(2) by (simp add: sized_def)
  have data: "drop (nat offset) D = seg_data content s @ segs_data content segs"
    using Cons.prems(4) by simp
  have rest: "drop (nat ?next) D = segs_data content segs"
  proof -
    have "drop (nat ?next) D = drop (nat ?n) (drop (nat offset) D)"
      using n Cons.prems(5) by (simp add: nat_add_distrib add.commute)
    then show ?thesis using data len by simp
  qed
  have IH: "read_segments bucket start stop segs
      (take (reached start stop ?next) T @ replicate (length T - reached start stop ?next) 0) = Inr T"
    by (rule Cons.IH [OF cont _ _ rest])
      (use Cons.prems n in \<open>auto simp: sized_def serves_def\<close>)
  show ?case
  proof (cases "offset \<ge> stop")
    case True
    then have "reached start stop offset = length T" using assms(7) lenT by (simp add: reached_def)
    then show ?thesis using True off by simp
  next
    case before: False
    let ?lo = "max start offset" and ?hi = "min stop ?next"
    show ?thesis
    proof (cases "?hi \<le> ?lo")
      case True
      then have "reached start stop ?next = reached start stop offset"
        using before n assms(7) by (auto simp: reached_def)
      then show ?thesis using before True off IH by (simp add: Let_def)
    next
      case overlap: False
      let ?r = "reached start stop offset" and ?k = "nat (?hi - ?lo)"
      have r: "?r = nat (?lo - start)" and rk: "reached start stop ?next = ?r + ?k"
        using before overlap n assms(7) by (auto simp: reached_def)
      have "subrange (nat (?lo - offset)) ?k (seg_data content s) = subrange ?r ?k T"
      proof -
        have "seg_data content s = subrange (nat offset) (nat ?n) D"
          using data len by (simp add: subrange_def)
        then have "subrange (nat (?lo - offset)) ?k (seg_data content s) =
            subrange (nat offset + nat (?lo - offset)) ?k D"
          using subrange_subrange [of "nat (?lo - offset)" ?k "nat ?n" "nat offset" D] overlap n by simp
        also have "nat offset + nat (?lo - offset) = nat start + ?r"
          using Cons.prems(5) assms(6) r by linarith
        also have "subrange (nat start + ?r) ?k D = subrange ?r ?k T"
          unfolding assms(9) by (rule subrange_subrange [symmetric]) (use r overlap in linarith)
        finally show ?thesis .
      qed
      then have "set_bytes (take ?r T @ replicate (length T - ?r) 0)
          (subrange (nat (?lo - offset)) ?k (seg_data content s)) ?r =
          take (?r + ?k) T @ replicate (length T - ?r - ?k) 0"
        by (rule set_bytes_next) (use lenT r overlap in linarith, simp)
      moreover have "read_segments bucket start stop (s # segs) (take ?r T @ replicate (length T - ?r) 0) =
          read_segments bucket start stop segs (set_bytes (take ?r T @ replicate (length T - ?r) 0)
            (subrange (nat (?lo - offset)) ?k (seg_data content s)) (nat (?lo - start)))"
      proof (rule read_segments_step)
        show "length (subrange (nat (?lo - offset)) ?k (seg_data content s)) = ?k"
          using len overlap n by simp
        show "bucket key (?lo - seg_offset s) (?hi - ?lo) etag =
            Some (subrange (nat (?lo - offset)) ?k (seg_data content s))"
          if "s = Object_segment o' n' key etag" for o' n' key etag
        proof -
          have "bucket key (?lo - offset) (?hi - ?lo) etag =
              Some (subrange (nat (?lo - offset)) ?k (content key))"
            using that overlap off by (intro servesD [OF Cons.prems(3)]) auto
          then show ?thesis using that off by simp
        qed
      qed (use before overlap off in auto)
      ultimately show ?thesis using IH rk by (simp only: r diff_diff_eq)
    qed
  qed
qed


lemma read_segments_empty: "stop < start \<Longrightarrow> read_segments bucket start stop segs output = Inr output"
  by (induction segs) (auto simp: Let_def)

subsection \<open>What a built layout satisfies\<close>

lemma entry_segments_contiguous:
  "(\<forall>e \<in> set es. 0 \<le> me_size (le_entry e)) \<Longrightarrow> contiguous offset (entry_segments offset es)"
  by (induction es arbitrary: offset) (auto simp: Let_def)

lemma entry_segments_total: "(\<Sum>s \<leftarrow> entry_segments offset es. seg_length s) = data_size es"
  by (induction es arbitrary: offset) (auto simp: Let_def data_size_def)

lemma layout_entries_facts:
  "map le_entry (layout_entries offset ps) = map fst ps"
  "data_size (layout_entries offset ps) =
     (\<Sum>(e, name) \<leftarrow> ps. 50 + int (length (utf8 name)) + me_size e)"
  by (induction offset ps rule: layout_entries.induct) (auto simp: Let_def data_size_def)

lemma layout_entries_nonneg:
  assumes "\<forall>e \<in> set (map fst ps). 0 \<le> me_size e"
  shows "\<forall>e \<in> set (layout_entries offset ps). 0 \<le> me_size (le_entry e)"
proof -
  have "set (map le_entry (layout_entries offset ps)) = set (map fst ps)"
    by (simp only: layout_entries_facts)
  with assms show ?thesis by (metis in_set_conv_nth length_map nth_map nth_mem)
qed

lemma central_bytes_length:
  "length ns = length es \<Longrightarrow>
     length (central_bytes (zip es ns)) = (\<Sum>n \<leftarrow> ns. 74 + length (utf8 n))"
  unfolding central_bytes_def by (induction ns es rule: list_induct2) auto

lemma buildZipLayout_segments:
  assumes "buildZipLayout rt entries = Inr layout" and "\<forall>e \<in> set entries. 0 \<le> me_size e"
  shows "contiguous 0 (zl_segments layout)"
    and "zl_archiveSize layout = (\<Sum>s \<leftarrow> zl_segments layout. seg_length s)"
proof -
  obtain names where names: "uniqueZipEntryNames rt (map me_name entries) = Inr names"
    using assms(1) by (auto simp: buildZipLayout_def result_simps)
  then have "length names = length entries" by (auto dest: unique_names_length)
  then have nonneg: "\<forall>e \<in> set (layout_entries 0 (zip entries names)). 0 \<le> me_size (le_entry e)"
    using assms(2) by (intro layout_entries_nonneg) simp
  show "contiguous 0 (zl_segments layout)"
    using assms(1) names entry_segments_contiguous [OF nonneg]
    by (auto simp: buildZipLayout_def Let_def contiguous_append entry_segments_total)
  show "zl_archiveSize layout = (\<Sum>s \<leftarrow> zl_segments layout. seg_length s)"
    using assms(1) names by (auto simp: buildZipLayout_def Let_def entry_segments_total)
qed

lemma entry_segments_sized:
  assumes "\<forall>e \<in> set es. int (length (content (me_key (le_entry e)))) = me_size (le_entry e)"
  shows "sized content (entry_segments offset es)"
  using assms by (induction es arbitrary: offset) (auto simp: Let_def sized_def)

lemma buildZipLayout_sized:
  assumes "buildZipLayout rt entries = Inr layout"
    and "\<forall>e \<in> set entries. int (length (content (me_key e))) = me_size e"
  shows "sized content (zl_segments layout)"
proof -
  obtain names where names: "uniqueZipEntryNames rt (map me_name entries) = Inr names"
    using assms(1) by (auto simp: buildZipLayout_def result_simps)
  let ?es = "layout_entries 0 (zip entries names)"
  have "set (map le_entry ?es) \<subseteq> set entries"
    by (auto simp: layout_entries_facts dest: set_zip_leftD)
  then have "sized content (entry_segments 0 ?es)"
    using assms(2) by (intro entry_segments_sized) auto
  then show ?thesis
    using assms(1) names by (auto simp: buildZipLayout_def Let_def sized_def)
qed

lemma sized_total: "sized content segs \<Longrightarrow>
    int (length (segs_data content segs)) = (\<Sum>s \<leftarrow> segs. seg_length s)"
  by (induction segs) (auto simp: sized_def)

lemma estimate_from_sum:
  "estimate_from sz ps = Inr n \<Longrightarrow>
     n = sz + (\<Sum>(e, name) \<leftarrow> ps. me_size e + 124 + 2 * int (length (utf8 name)))
     \<and> (\<forall>e \<in> set (map fst ps). 0 \<le> me_size e) \<and> (sz \<le> MAX_SAFE_INTEGER \<longrightarrow> n \<le> MAX_SAFE_INTEGER)"
  by (induction sz ps rule: estimate_from.induct)
    (auto simp: Let_def is_safe_integer_def split: if_splits)

lemma zip_names_sums:
  "length names = length entries \<Longrightarrow>
    (\<Sum>(e, n) \<leftarrow> zip entries names. f e + 124 + 2 * int (length (utf8 n))) =
    (\<Sum>(e, n) \<leftarrow> zip entries names. 50 + int (length (utf8 n)) + f e) +
    (\<Sum>n \<leftarrow> names. 74 + int (length (utf8 n)))"
  by (induction names entries rule: list_induct2) auto

subsection \<open>Properties\<close>

text \<open>the size announced before an archive is built (\<open>estimateZipArchiveSize\<close>) is exactly the
  size of the layout built for the same entries; in particular the estimate succeeds only when the
  layout exists.\<close>

theorem estimate_is_layout_size:
  assumes "estimateZipArchiveSize rt entries = Inr n"
  shows "\<exists>layout. buildZipLayout rt entries = Inr layout \<and> zl_archiveSize layout = n
           \<and> n \<le> MAX_SAFE_INTEGER"
proof -
  obtain names where names: "uniqueZipEntryNames rt (map me_name entries) = Inr names"
      and est: "estimate_from 98 (zip entries names) = Inr n"
    using assms by (auto simp: estimateZipArchiveSize_def result_simps)
  then have len: "length names = length entries" by (auto dest: unique_names_length)
  from names obtain layout where layout: "buildZipLayout rt entries = Inr layout"
    by (simp add: buildZipLayout_def Let_def)
  let ?es = "layout_entries 0 (zip entries names)"
  have "length ?es = length entries"
    using len by (metis layout_entries_facts(1) length_map map_fst_zip)
  then have central: "length (central_bytes (zip ?es names)) = (\<Sum>n \<leftarrow> names. 74 + length (utf8 n))"
    using len by (intro central_bytes_length) simp
  have "int (\<Sum>n \<leftarrow> names. 74 + length (utf8 n)) = (\<Sum>n \<leftarrow> names. 74 + int (length (utf8 n)))"
    by (induction names) auto
  then have "zl_archiveSize layout = 98 + data_size ?es + (\<Sum>n \<leftarrow> names. 74 + int (length (utf8 n)))"
    using layout names central by (auto simp: buildZipLayout_def Let_def)
  then have "zl_archiveSize layout = n"
    using estimate_from_sum [OF est] zip_names_sums [OF len, of me_size] layout_entries_facts(2)
    by simp
  then show ?thesis using layout estimate_from_sum [OF est] by (simp add: MAX_SAFE_INTEGER_def)
qed

lemma seek_cut:
  fixes segs :: "zip_segment list"
  defines "low \<equiv> \<lambda>start. seek segs start 0 (length segs)"
  defines "off \<equiv> \<lambda>start. \<Sum>s \<leftarrow> take (low start) segs. seg_length s"
  assumes segs: "contiguous 0 segs" and sz: "sized content segs" and start: "0 \<le> start"
  shows "0 \<le> off start" and "off start \<le> start" and "contiguous (off start) (drop (low start) segs)"
    and "drop (nat (off start)) (segs_data content segs) = segs_data content (drop (low start) segs)"
proof -
  let ?low = "low start" and ?off = "off start"
  have low: "?low \<le> length segs" "\<forall>i < ?low. seg_end (segs ! i) \<le> start"
    using seek_skips_earlier [OF segs, of 0 "length segs" start] by (simp_all add: low_def)
  show "contiguous ?off (drop ?low segs)" and "0 \<le> ?off"
    using segs contiguous_append [of 0 "take ?low segs" "drop ?low segs"]
      contiguous_length_nonneg by (fastforce simp: off_def)+
  show "?off \<le> start"
  proof (cases ?low)
    case 0
    then show ?thesis using start by (simp add: off_def)
  next
    case (Suc i)
    then have "seg_end (segs ! i) \<le> start" "i < length segs" using low by auto
    then show ?thesis using contiguous_seg_end [OF segs, of i] Suc by (simp add: off_def)
  qed
  have "segs_data content segs = segs_data content (take ?low segs) @ segs_data content (drop ?low segs)"
    by (metis append_take_drop_id segs_data_simps(3))
  moreover have "int (length (segs_data content (take ?low segs))) = ?off"
    unfolding off_def by (rule sized_total) (use sz in \<open>auto simp: sized_def dest: in_set_takeD\<close>)
  ultimately show "drop (nat ?off) (segs_data content segs) = segs_data content (drop ?low segs)"
    by (metis append_eq_conv_conj nat_int)
qed

text \<open>C22: reading any range of a planned archive (\<open>readZipPart\<close>: binary search for the first
  segment, then overlap by overlap, with ranged conditional reads of the stored objects) returns
  exactly that range of the whole archive, whatever the part boundaries.\<close>

theorem readZipPart_is_range:
  assumes "buildZipLayout rt entries = Inr layout"
    and "\<forall>e \<in> set entries. int (length (content (me_key e))) = me_size e"
    and "serves bucket content (zl_segments layout)"
    and "0 \<le> start" and "0 \<le> len"
  shows "readZipPart bucket layout start len =
    Inr (subrange (nat start) (nat len) (segs_data content (zl_segments layout)))"
proof -
  let ?segs = "zl_segments layout" and ?D = "segs_data content (zl_segments layout)"
  let ?stop = "min (zl_archiveSize layout) (start + len)"
  let ?low = "seek ?segs start 0 (length ?segs)"
  let ?off = "\<Sum>s \<leftarrow> take ?low ?segs. seg_length s"
  have "\<forall>e \<in> set entries. 0 \<le> me_size e" using assms(2) by (metis of_nat_0_le_iff)
  note segs = buildZipLayout_segments [OF assms(1) this] and sz = buildZipLayout_sized [OF assms(1,2)]
  have lenD: "int (length ?D) = zl_archiveSize layout" using sized_total [OF sz] segs(2) by simp
  note cut = seek_cut [OF segs(1) sz assms(4)]
  have rest: "sized content (drop ?low ?segs)" "serves bucket content (drop ?low ?segs)"
    using sz assms(3) unfolding sized_def serves_def by (meson in_set_dropD)+
  show ?thesis
  proof (cases "start \<le> ?stop")
    case True
    have stop: "?stop \<le> int (length ?D)" using lenD by simp
    have r0: "reached start ?stop ?off = 0" using cut(2) by (simp add: reached_def)
    have lenT: "length (subrange (nat start) (nat (?stop - start)) ?D) = nat (?stop - start)"
      using stop assms(4) by simp
    have same: "subrange (nat start) (nat (?stop - start)) ?D = subrange (nat start) (nat len) ?D"
      using lenD assms(4,5) True by (auto simp: subrange_def min_def)
    have max: "max 0 (?stop - start) = ?stop - start" using True by simp
    have "read_segments bucket start ?stop (drop ?low ?segs) (replicate (nat (?stop - start)) 0) =
        Inr (subrange (nat start) (nat (?stop - start)) ?D)"
      using read_segments_ok [OF cut(3) rest cut(4,1) assms(4) True stop refl]
      by (simp only: r0 lenT take_0 append_Nil diff_zero)
    then show ?thesis by (simp only: readZipPart_def Let_def max same)
  next
    case False
    then have "zl_archiveSize layout < start" using assms(5) by simp
    then have "subrange (nat start) (nat len) ?D = []" using lenD by (simp add: subrange_def)
    moreover have "?stop < start" using False by linarith
    then have "readZipPart bucket layout start len = Inr []"
      by (simp add: readZipPart_def Let_def read_segments_empty max_def)
    ultimately show ?thesis by simp
  qed
qed

definition sample_runtime :: text_runtime where
  "sample_runtime = \<lparr>rt_nfc = id, rt_lower = id\<rparr>"

definition sample_entries :: "ZipManifestEntry list" where
  "sample_entries =
     [\<lparr>me_key = [1], me_name = ustr ''a'', me_size = 3, me_crc32 = 7, me_etag = None\<rparr>,
      \<lparr>me_key = [2], me_name = ustr ''a'', me_size = 3, me_crc32 = 9, me_etag = Some [5]\<rparr>]"

lemma sample_names: "uniqueZipEntryNames sample_runtime (map me_name sample_entries) =
    Inr [ustr ''a'', ustr ''a~2'']"
  by (simp add: uniqueZipEntryNames_def sample_entries_def sample_runtime_def base_name_def
      safeZipName_def ustr_def unsafe_zip_char_def truncateUtf8_def utf8_char_def Let_def
      copy_candidate_def copy_suffix_def decimal.simps next_free.simps)

theorem estimate_is_layout_size_witness:
  "\<exists>layout. buildZipLayout sample_runtime sample_entries = Inr layout \<and> zl_archiveSize layout = 360
     \<and> 360 \<le> MAX_SAFE_INTEGER"
  by (rule estimate_is_layout_size)
    (simp add: estimateZipArchiveSize_def sample_names, simp add: sample_entries_def
      is_safe_integer_def MAX_SAFE_INTEGER_def Let_def ustr_def utf8_char_def)

definition sample_bucket :: ZipRangeBucket where
  "sample_bucket key off sz etag = Some (subrange (nat off) (nat sz) [10, 20, 30])"

theorem readZipPart_is_range_witness:
  "\<exists>layout. buildZipLayout sample_runtime sample_entries = Inr layout \<and>
     readZipPart sample_bucket layout 40 60 =
       Inr (subrange 40 60 (segs_data (\<lambda>_. [10, 20, 30]) (zl_segments layout)))"
proof -
  obtain layout where layout: "buildZipLayout sample_runtime sample_entries = Inr layout"
    by (simp add: buildZipLayout_def sample_names Let_def)
  have "readZipPart sample_bucket layout 40 60 =
      Inr (subrange (nat 40) (nat 60) (segs_data (\<lambda>_. [10, 20, 30]) (zl_segments layout)))"
    by (rule readZipPart_is_range [OF layout])
      (simp_all add: sample_entries_def serves_def sample_bucket_def)
  with layout show ?thesis by simp
qed

end
