(* ===== verification/Zip_Properties.thy ===== *)
theory Zip_Properties
  imports Zip_Stream Zip_Layout
begin

section \<open>Properties of the archive writer\<close>

text \<open>
  The properties of names, checksums, plan, parts and trailer, stated over the definitions of
  \<open>Zip_Names\<close>, \<open>Zip_Bytes\<close>, \<open>One_Pass_Zip\<close> and \<open>Bulk_Archive\<close>, each with a concrete instance.
\<close>

definition sample_sources :: "OnePassZipEntry list" where
  "sample_sources =
     [\<lparr>oe_key = [1], oe_physicalKey = [1], oe_name = ustr ''a'', oe_size = 3, oe_etag = [9], oe_crc32 = None\<rparr>,
      \<lparr>oe_key = [2], oe_physicalKey = [2], oe_name = ustr ''a'', oe_size = 3, oe_etag = [8], oe_crc32 = Some 0x2677b6f2\<rparr>]"

definition sample_content :: "ustring \<Rightarrow> byte list" where
  "sample_content key = [10, 20, 30]"

definition sample_store :: OnePassZipBucket where
  "sample_store key off n etag = Some (subrange off n (sample_content key))"

lemma sample_serves: "op_serves sample_store sample_content sample_sources"
  by (simp add: op_serves_def sample_store_def sample_sources_def sample_content_def)

lemma sample_keeps_suffix: "keeps_copy_suffix (rt_lower sample_runtime)"
  by (auto simp: keeps_copy_suffix_def sample_runtime_def)

lemma sample_source_names: "uniqueZipEntryNames sample_runtime (map oe_name sample_sources) =
    Inr [ustr ''a'', ustr ''a~2'']"
  using sample_names by (simp add: sample_entries_def sample_sources_def)

definition sample_plan :: OnePassZipMultipartPlan where
  "sample_plan = \<lparr>mp_prefixSize = 158, mp_trailerSize = 250, mp_archiveSize = 408, mp_partSize = 408,
     mp_prefixPartCount = 0, mp_finalPrefixBytes = 158, mp_partCount = 1\<rparr>"

lemma sample_planned: "planOnePassZipMultipart sample_runtime sample_sources = Inr sample_plan"
  unfolding planOnePassZipMultipart_def onePassZipPrefixSize_def onePassZipTrailerSize_def sample_source_names
  by (simp add: sample_sources_def sample_plan_def is_safe_integer_def MAX_SAFE_INTEGER_def Let_def ustr_def
      utf8_char_def plan_sizes_def ZIP_MULTIPART_MAX_PART_def)

text \<open>
  C1: The archive is complete. For a non-empty selection of distinct objects whose store serves the
  announced bytes, and a plan within the part limit of R2, writing the archive succeeds, with the
  planned number of parts, all but the final one of the planned size; the parts concatenate to the local
  entries in order, followed by the central directory, and have together the planned size. The directory
  is built, for each entry, for the checksum recorded for it, which is not checked again, or for the
  CRC-32 of its data when none is recorded. The names are distinct up to case.
\<close>

theorem write_archive_is_complete:
  assumes "keeps_copy_suffix (rt_lower rt)" and "entries \<noteq> []" and "length entries < 2 ^ 32"
    and "distinct (map oe_physicalKey entries)" and "op_serves bucket content entries"
    and "table_ok table"
    and "planOnePassZipMultipart rt entries = Inr plan" and "mp_partCount plan \<le> 10000"
  shows "\<exists>names pieces table' trailer.
    write_archive rt bucket entries table = Inr (pieces, table') \<and>
    concat pieces = prefix_bytes content entries names @ trailer \<and>
    buildOnePassZipTrailer rt (map (\<lambda>e. e\<lparr>oe_crc32 := Some (expected_crc content e)\<rparr>) entries) = Inr trailer \<and>
    uniqueZipEntryNames rt (map oe_name entries) = Inr names \<and> distinct (map (rt_lower rt) names) \<and>
    int (length (concat pieces)) = mp_archiveSize plan \<and> int (length pieces) = mp_partCount plan \<and>
    (\<forall>piece \<in> set (butlast pieces). int (length piece) = mp_partSize plan) \<and>
    int (length (last pieces)) \<le> mp_partSize plan"
proof -
  obtain names where names: "uniqueZipEntryNames rt (map oe_name entries) = Inr names"
      "distinct (map (rt_lower rt) names)"
    using unique_names_ok [OF assms(1), of "map oe_name entries"] assms(3) by auto
  have "job_ok rt bucket content entries names"
    using names(1) assms by (simp add: job_ok_def)
  from write_archive_complete [OF this assms(6-8)] obtain pieces table' trailer where
    "write_archive rt bucket entries table = Inr (pieces, table')"
    "concat pieces = prefix_bytes content entries names @ trailer"
    "buildOnePassZipTrailer rt (map (\<lambda>e. e\<lparr>oe_crc32 := Some (expected_crc content e)\<rparr>) entries) = Inr trailer"
    "int (length (concat pieces)) = mp_archiveSize plan" "int (length pieces) = mp_partCount plan"
    "\<forall>piece \<in> set (butlast pieces). int (length piece) = mp_partSize plan"
    "int (length (last pieces)) \<le> mp_partSize plan" .
  with names show ?thesis by (intro exI conjI)
qed

theorem write_archive_is_complete_witness:
  "\<exists>names pieces table' trailer.
    write_archive sample_runtime sample_store sample_sources [] = Inr (pieces, table') \<and>
    concat pieces = prefix_bytes sample_content sample_sources names @ trailer \<and>
    buildOnePassZipTrailer sample_runtime
      (map (\<lambda>e. e\<lparr>oe_crc32 := Some (expected_crc sample_content e)\<rparr>) sample_sources) = Inr trailer \<and>
    uniqueZipEntryNames sample_runtime (map oe_name sample_sources) = Inr names \<and>
    distinct (map (rt_lower sample_runtime) names) \<and>
    int (length (concat pieces)) = mp_archiveSize sample_plan \<and> int (length pieces) = mp_partCount sample_plan \<and>
    (\<forall>piece \<in> set (butlast pieces). int (length piece) = mp_partSize sample_plan) \<and>
    int (length (last pieces)) \<le> mp_partSize sample_plan"
  by (rule write_archive_is_complete [OF sample_keeps_suffix _ _ _ sample_serves _ sample_planned])
    (simp_all add: sample_sources_def table_ok_def sample_plan_def)

text \<open>
  A part is the next bytes or an error. From any state the writer reaches, a part of \<open>n\<close>
  bytes within the limit is exactly the next \<open>n\<close> bytes of the archive prefix with the writer's
  invariant kept, when that many are left, and the error for a short part when not.
\<close>

theorem prefix_part_is_next_bytes:
  assumes "job_ok rt bucket content entries names" and "op_state_ok content entries names st"
    and "int n \<le> ZIP_MULTIPART_MAX_PART"
  shows "if n \<le> length (op_rest content entries names st)
    then \<exists>r. buildOnePassZipPrefixPart rt bucket entries st (int n) = Inr r \<and>
      pr_bytes r = take n (op_rest content entries names st) \<and>
      op_rest content entries names (pr_state r) = drop n (op_rest content entries names st) \<and>
      op_state_ok content entries names (pr_state r) \<and>
      pr_completedChecksums r = map (op_checksum content entries) [os_entryIndex st..<os_entryIndex (pr_state r)]
    else buildOnePassZipPrefixPart rt bucket entries st (int n) =
      Inl (Throws ''ZIP prefix part was shorter than planned'')"
proof (cases "n \<le> length (op_rest content entries names st)")
  case True
  then show ?thesis using build_part [OF assms True] by auto
next
  case False
  then show ?thesis using build_part_short [OF assms] by simp
qed

lemma sample_job: "job_ok sample_runtime sample_store sample_content sample_sources [ustr ''a'', ustr ''a~2'']"
  using sample_source_names sample_serves by (simp add: job_ok_def sample_sources_def)

lemma sample_prefix_length: "length (prefix_bytes sample_content sample_sources [ustr ''a'', ustr ''a~2'']) = 158"
  by (simp add: sample_sources_def entry_bytes_def sample_content_def ustr_def utf8_char_def)

theorem prefix_part_is_next_bytes_witness:
  "buildOnePassZipPrefixPart sample_runtime sample_store sample_sources initialOnePassZipState 159 =
      Inl (Throws ''ZIP prefix part was shorter than planned'')"
proof -
  have len: "length [ustr ''a'', ustr ''a~2''] = length sample_sources" by (simp add: sample_sources_def)
  note start = initial_state_ok [OF len, of sample_content]
  show ?thesis
    using prefix_part_is_next_bytes [OF sample_job start(1), of 159]
    unfolding start(2) sample_prefix_length by (simp add: ZIP_MULTIPART_MAX_PART_def)
qed

text \<open>
  Every multipart plan fits: the prefix parts and the rest cover the archive prefix exactly,
  the final part holds the rest and the trailer, no part is over 32 MiB, and with more than one
  part each but the last has at least the 5 MiB that R2 asks for.
\<close>

theorem multipart_plan_bounds:
  assumes "planOnePassZipMultipart rt entries = Inr plan"
  shows "mp_prefixPartCount plan * mp_partSize plan + mp_finalPrefixBytes plan = mp_prefixSize plan \<and>
    mp_archiveSize plan = mp_prefixSize plan + mp_trailerSize plan \<and>
    0 \<le> mp_finalPrefixBytes plan \<and> mp_finalPrefixBytes plan + mp_trailerSize plan \<le> mp_partSize plan \<and>
    mp_partSize plan \<le> 32 * 1024 * 1024 \<and> mp_partCount plan = mp_prefixPartCount plan + 1 \<and>
    (1 < mp_partCount plan \<longrightarrow> 5 * 1024 * 1024 \<le> mp_partSize plan)"
proof -
  obtain p t where "plan_ok p t plan" using plan_success [OF assms] by blast
  then show ?thesis
    by (auto simp: plan_ok_def ZIP_MULTIPART_MAX_PART_def ZIP_MULTIPART_MIN_PART_def)
qed

theorem multipart_plan_bounds_witness:
  "planOnePassZipMultipart sample_runtime sample_sources = Inr sample_plan \<and>
   mp_finalPrefixBytes sample_plan + mp_trailerSize sample_plan \<le> mp_partSize sample_plan"
  using multipart_plan_bounds [OF sample_planned] sample_planned by blast

text \<open>
  C32: A plan is found. A selection whose archive prefix is at most 9999 parts of 32 MiB and whose
  trailer is at most 16,767,216 bytes gets a plan of at most 10,000 parts.
\<close>

theorem multipart_plan_exists:
  assumes "onePassZipPrefixSize rt entries = Inr p" and "onePassZipTrailerSize rt entries = Inr t"
    and "p \<le> 9999 * 33554432" and "t \<le> 16767216"
  shows "\<exists>plan. planOnePassZipMultipart rt entries = Inr plan \<and> mp_partCount plan \<le> 10000"
proof -
  obtain names where "prefix_size_from 0 (zip entries names) = Inr p"
    using assms(1) by (auto simp: onePassZipPrefixSize_def result_simps)
  then have "0 \<le> p" using prefix_size_from_sum by fastforce
  moreover have "0 \<le> t"
    using assms(2) by (auto simp: onePassZipTrailerSize_def result_simps trailer_size_fold intro!: sum_list_nonneg add_nonneg_nonneg)
  ultimately show ?thesis
    using plan_sizes_total [of p t] assms by (simp add: planOnePassZipMultipart_def)
qed

definition large_sources :: "OnePassZipEntry list" where
  "large_sources = map (\<lambda>e. e\<lparr>oe_size := 40000000000\<rparr>) sample_sources"

theorem multipart_plan_exists_witness:
  "\<exists>plan. planOnePassZipMultipart sample_runtime large_sources = Inr plan \<and> mp_partCount plan \<le> 10000"
proof -
  have names: "uniqueZipEntryNames sample_runtime (map oe_name large_sources) = Inr [ustr ''a'', ustr ''a~2'']"
    using sample_source_names by (simp add: large_sources_def comp_def)
  have "onePassZipPrefixSize sample_runtime large_sources = Inr 80000000152"
    unfolding onePassZipPrefixSize_def names
    by (simp add: large_sources_def sample_sources_def is_safe_integer_def MAX_SAFE_INTEGER_def Let_def ustr_def utf8_char_def)
  moreover have "onePassZipTrailerSize sample_runtime large_sources = Inr 250"
    unfolding onePassZipTrailerSize_def names by (simp add: ustr_def utf8_char_def)
  ultimately show ?thesis by (rule multipart_plan_exists) simp_all
qed

text \<open>
  The central directory finds every entry: the record of entry \<open>i\<close> holds the offset at which
  the archive prefix has the local header, data and descriptor of that entry, the end records
  hold the size and place of the directory, and the trailer has the announced size.
\<close>

theorem central_directory_points_at_entries:
  assumes "uniqueZipEntryNames rt (map oe_name entries) = Inr names"
    and "\<forall>e \<in> set entries. int (length (content (oe_physicalKey e))) = oe_size e"
  shows "(\<exists>directory. buildOnePassZipTrailer rt entries = Inr (directory @
        end_bytes (int (length entries)) (int (length directory)) (int (length (prefix_bytes content entries names)))) \<and>
      directory = concat (map (\<lambda>i. op_central_record (entries ! i) (names ! i)
        (case oe_crc32 (entries ! i) of Some c \<Rightarrow> c | None \<Rightarrow> 0)
        (int (local_offset content entries names i))) [0..<length entries])) \<and>
    (\<forall>i < length entries. take (length (entry_bytes content (entries ! i) (names ! i)))
        (drop (local_offset content entries names i) (prefix_bytes content entries names)) =
      entry_bytes content (entries ! i) (names ! i))"
  using trailer_is_directory [OF assms] prefix_at_offset [of names entries _ content] unique_names_length [OF assms(1)]
  by (simp add: central_directory_def)

theorem central_directory_points_at_entries_witness:
  "\<exists>trailer. buildOnePassZipTrailer sample_runtime sample_sources = Inr trailer \<and>
    take 78 (drop (local_offset sample_content sample_sources [ustr ''a'', ustr ''a~2''] 0)
      (prefix_bytes sample_content sample_sources [ustr ''a'', ustr ''a~2''])) =
    entry_bytes sample_content (sample_sources ! 0) (ustr ''a'')"
proof -
  have sizes: "\<forall>e \<in> set sample_sources. int (length (sample_content (oe_physicalKey e))) = oe_size e"
    by (simp add: sample_sources_def sample_content_def)
  have len: "0 < length sample_sources" "length (entry_bytes sample_content (sample_sources ! 0) ([ustr ''a'', ustr ''a~2''] ! 0)) = 78"
    by (simp_all add: sample_sources_def entry_bytes_def sample_content_def ustr_def utf8_char_def)
  note points = central_directory_points_at_entries [OF sample_source_names sizes]
  obtain trailer where "buildOnePassZipTrailer sample_runtime sample_sources = Inr trailer"
    using conjunct1 [OF points] by (elim exE conjE)
  with conjunct2 [OF points, rule_format, OF len(1)] show ?thesis
    unfolding len(2) by (intro exI conjI) simp_all
qed

text \<open>
  C33: Archive names are safe: the renaming loop always ends, gives every entry a name that is not
  empty, of at most 240 bytes of UTF-8, and no two names are equal up to case.
\<close>

theorem zip_names_unique:
  assumes "keeps_copy_suffix (rt_lower rt)" and "length vals < 2 ^ 32"
  shows "\<exists>names. uniqueZipEntryNames rt vals = Inr names \<and> length names = length vals \<and>
    distinct (map (rt_lower rt) names) \<and> (\<forall>n \<in> set names. n \<noteq> [] \<and> length (utf8 n) \<le> 240)"
  using unique_names_ok [OF assms] unfolding name_fits_def by metis

theorem zip_names_unique_witness:
  "\<exists>names. uniqueZipEntryNames sample_runtime [ustr ''a'', ustr ''a''] = Inr names \<and> length names = 2 \<and>
    distinct names"
  using zip_names_unique [OF sample_keeps_suffix, of "[ustr ''a'', ustr ''a'']"]
  by (auto simp: sample_runtime_def)

text \<open>
  C34: The table-driven checksum is the bit-serial CRC-32 of the ZIP format, over any bytes and
  from any state, and is computed piecewise.
\<close>

theorem crc32_table_is_bit_serial:
  "crc32 bytes state = crc32_bitwise bytes state \<and>
   crc32 (bytes @ others) state = crc32 others (crc32 bytes state)"
  by (intro conjI crc32_is_bitwise crc32_append)

text \<open>
  C30: Two writers, one archive. For distinct objects without a recorded checksum, which the store
  serves as announced and which have a plan within the part limit, streaming the sources in one go and
  writing them part by part with saved state, checksum table and multipart plan produce the same bytes.
\<close>

theorem streamZip_equals_parts:
  assumes "keeps_copy_suffix (rt_lower rt)" and "entries \<noteq> []" and "length entries < 2 ^ 32"
    and "distinct (map oe_physicalKey entries)" and "op_serves bucket content entries"
    and "table_ok table"
    and "planOnePassZipMultipart rt entries = Inr plan" and "mp_partCount plan \<le> 10000"
    and "\<forall>e \<in> set entries. fresh_entry chunks content e"
  shows "\<exists>out pieces table'. streamZip rt (map (as_source chunks) entries) = Inr (out, None) \<and>
    write_archive rt bucket entries table = Inr (pieces, table') \<and> concat out = concat pieces"
proof -
  obtain names where names: "uniqueZipEntryNames rt (map oe_name entries) = Inr names"
    using unique_names_ok [OF assms(1), of "map oe_name entries"] assms(3) by auto
  then have "job_ok rt bucket content entries names"
    using assms by (simp add: job_ok_def)
  from write_archive_complete [OF this assms(6-8)] obtain pieces table' trailer where
    "write_archive rt bucket entries table = Inr (pieces, table')"
    "concat pieces = prefix_bytes content entries names @ trailer"
    "buildOnePassZipTrailer rt (map (\<lambda>e. e\<lparr>oe_crc32 := Some (expected_crc content e)\<rparr>) entries) = Inr trailer" .
  then show ?thesis using streamZip_archive [OF names assms(9)] by fastforce
qed

definition fresh_sources :: "OnePassZipEntry list" where
  "fresh_sources = map (\<lambda>e. e\<lparr>oe_crc32 := None\<rparr>) sample_sources"

lemma fresh_planned: "planOnePassZipMultipart sample_runtime fresh_sources = Inr sample_plan"
proof -
  have names: "uniqueZipEntryNames sample_runtime (map oe_name fresh_sources) = Inr [ustr ''a'', ustr ''a~2'']"
    using sample_source_names by (simp add: fresh_sources_def comp_def)
  show ?thesis
    unfolding planOnePassZipMultipart_def onePassZipPrefixSize_def onePassZipTrailerSize_def names
    by (simp add: sample_sources_def fresh_sources_def sample_plan_def is_safe_integer_def MAX_SAFE_INTEGER_def
        Let_def ustr_def utf8_char_def plan_sizes_def ZIP_MULTIPART_MAX_PART_def)
qed

theorem streamZip_equals_parts_witness:
  "\<exists>out pieces table'. streamZip sample_runtime (map (as_source (\<lambda>_. [[10], [], [20, 30]])) fresh_sources) = Inr (out, None) \<and>
    write_archive sample_runtime sample_store fresh_sources [] = Inr (pieces, table') \<and> concat out = concat pieces"
  by (rule streamZip_equals_parts [OF sample_keeps_suffix _ _ _ _ _ fresh_planned, of sample_store sample_content])
    (simp_all add: fresh_sources_def sample_sources_def table_ok_def sample_plan_def fresh_entry_def
      sample_content_def is_safe_integer_def MAX_SAFE_INTEGER_def op_serves_def sample_store_def)

end
