(* ===== verification/Native_Authority.thy ===== *)
theory Native_Authority
  imports Prelude
begin

section \<open>Authority over a native project\<close>

text \<open>
  Models the access checks of \<open>apps/operations/src/worker/native-project-lifecycle.ts\<close>:
  \<open>owned\<close> (the project belongs to the owner context of the request) and \<open>requireAuthority\<close>
  (the actor is a current member of staff with explicit project grants and no deny). The SQL
  is modelled on the rows of the tables it reads; \<open>Native_Lifecycle\<close> models the commands.
\<close>

subsection \<open>Rows\<close>

datatype root_kind = Organization | Standalone_client

record LifecycleContext =
  cx_sourceId :: string
  cx_rootKind :: root_kind
  cx_rootPublicId :: string
  cx_contextVersion :: string

record LifecycleActor =
  ac_staffId :: string
  ac_accessSubject :: string
  ac_email :: string
  ac_admissionVersion :: int
  ac_profileVersion :: int
  ac_verifiedUntil :: string

record project_scope =
  sc_kind :: "string option"
  sc_area :: "string option"
  sc_division :: "string option"

record project_head =
  hd_project :: string
  hd_version :: int
  hd_projection :: string
  hd_source_id :: string
  hd_source_instance_id :: string
  hd_application_id :: string
  hd_history_epoch_id :: string
  hd_public_id :: string
  hd_revision :: string
  hd_archived :: bool
  hd_archived_at :: "string option"
  hd_overdue :: bool
  hd_scopes :: "project_scope list"
  hd_organization :: "string option"
  hd_client :: "string option"

record staff_row =
  sr_id :: string
  sr_status :: string
  sr_email :: string
  sr_subject :: string

record admission_row =
  ad_staff :: string
  ad_active :: bool
  ad_subject :: string
  ad_version :: int

record profile_row =
  pf_staff :: string
  pf_email :: string
  pf_version :: int

record area_row =
  ar_id :: string
  ar_active :: bool

record division_row =
  dv_id :: string
  dv_area :: string
  dv_active :: bool

record grant_row =
  gr_staff :: string
  gr_capability :: string
  gr_active :: bool
  gr_effect :: string
  gr_scope_kind :: string
  gr_project :: "string option"
  gr_area :: "string option"
  gr_division :: "string option"

record mapping_row =
  mp_source_id :: string
  mp_source_instance_id :: string
  mp_application_id :: string
  mp_history_epoch_id :: string
  mp_resource_type :: string
  mp_record_id :: string
  mp_public_id :: string

record staff_tables =
  tb_staff :: "staff_row list"
  tb_admissions :: "admission_row list"
  tb_profiles :: "profile_row list"
  tb_areas :: "area_row list"
  tb_divisions :: "division_row list"
  tb_grants :: "grant_row list"
  tb_mappings :: "mapping_row list"
  tb_client_organizations :: "(string \<times> string option) list"
  tb_generations :: "(string \<times> int) list"

text \<open>An error of the worker: refused with a status and a message, or a failed transaction.\<close>

datatype op_error = Refused nat string | Aborted string

text \<open>\<open>=\<close> of SQL on nullable columns, in a \<open>WHERE\<close> clause; the text order of SQLite.\<close>

definition sql_eq :: "'a option \<Rightarrow> 'a option \<Rightarrow> bool" where
  "sql_eq a b \<longleftrightarrow> a \<noteq> None \<and> a = b"

fun text_less :: "string \<Rightarrow> string \<Rightarrow> bool" where
  "text_less [] (y # ys) = True"
| "text_less xs [] = False"
| "text_less (x # xs) (y # ys) =
     ((of_char x :: nat) < of_char y \<or> x = y \<and> text_less xs ys)"

subsection \<open>\<open>owned\<close>\<close>

definition context_kind :: "LifecycleContext \<Rightarrow> string" where
  "context_kind cx = (case cx_rootKind cx of Organization \<Rightarrow> ''organization'' | Standalone_client \<Rightarrow> ''client'')"

definition context_record :: "LifecycleContext \<Rightarrow> project_head \<Rightarrow> string option" where
  "context_record cx h = (case cx_rootKind cx of Organization \<Rightarrow> hd_organization h | Standalone_client \<Rightarrow> hd_client h)"

definition same_source :: "mapping_row \<Rightarrow> project_head \<Rightarrow> bool" where
  "same_source m h \<longleftrightarrow> mp_source_id m = hd_source_id h \<and> mp_source_instance_id m = hd_source_instance_id h \<and>
     mp_application_id m = hd_application_id h \<and> mp_history_epoch_id m = hd_history_epoch_id h"

definition owned :: "staff_tables \<Rightarrow> LifecycleContext \<Rightarrow> project_head \<Rightarrow> op_error + unit" where
  "owned tb cx h =
     (if cx_rootKind cx = Standalone_client \<and>
         (hd_organization h \<noteq> None \<or>
          \<not> list_ex (\<lambda>(client, org). sql_eq (Some client) (hd_client h) \<and> org = None) (tb_client_organizations tb))
      then Inl (Refused 403 ''Native project client is no longer standalone'')
      else if hd_source_id h \<noteq> cx_sourceId cx \<or> context_record cx h = None \<or> context_record cx h = Some '''' \<or>
         \<not> list_ex (\<lambda>m. same_source m h \<and> mp_resource_type m = context_kind cx \<and>
              Some (mp_record_id m) = context_record cx h \<and> mp_record_id m = cx_rootPublicId cx) (tb_mappings tb)
      then Inl (Refused 403 ''Native lifecycle project is outside this exact owner context'')
      else Inr ())"

subsection \<open>\<open>requireAuthority\<close>\<close>

definition active_staff :: "staff_tables \<Rightarrow> LifecycleActor \<Rightarrow> bool" where
  "active_staff tb actor \<longleftrightarrow>
     list_ex (\<lambda>s. sr_id s = ac_staffId actor \<and> sr_status s = ''active'' \<and> sr_email s = ac_email actor \<and>
       sr_subject s = ac_accessSubject actor) (tb_staff tb) \<and>
     list_ex (\<lambda>a. ad_staff a = ac_staffId actor \<and> ad_active a \<and> ad_subject a = ac_accessSubject actor \<and>
       ad_version a = ac_admissionVersion actor) (tb_admissions tb) \<and>
     list_ex (\<lambda>p. pf_staff p = ac_staffId actor \<and> pf_email p = ac_email actor \<and>
       pf_version p = ac_profileVersion actor) (tb_profiles tb)"

definition area_active :: "staff_tables \<Rightarrow> project_scope \<Rightarrow> bool" where
  "area_active tb sc \<longleftrightarrow> list_ex (\<lambda>a. Some (ar_id a) = sc_area sc \<and> ar_active a) (tb_areas tb)"

definition division_active :: "staff_tables \<Rightarrow> project_scope \<Rightarrow> bool" where
  "division_active tb sc \<longleftrightarrow>
     list_ex (\<lambda>a. Some (ar_id a) = sc_area sc \<and> ar_active a \<and>
       list_ex (\<lambda>d. Some (dv_id d) = sc_division sc \<and> dv_area d = ar_id a \<and> dv_active d) (tb_divisions tb)) (tb_areas tb)"

text \<open>A scope is invalid when its area or division is gone or its kind is not one of the two.\<close>

definition scope_invalid :: "staff_tables \<Rightarrow> project_scope \<Rightarrow> bool" where
  "scope_invalid tb sc \<longleftrightarrow> \<not> area_active tb sc \<or>
     (sc_kind sc \<noteq> None \<and> sc_kind sc \<noteq> Some ''business_area'' \<and> sc_kind sc \<noteq> Some ''division'') \<or>
     (sc_kind sc = Some ''division'' \<and> \<not> division_active tb sc)"

definition staff_grant :: "LifecycleActor \<Rightarrow> string \<Rightarrow> grant_row \<Rightarrow> bool" where
  "staff_grant actor effect g \<longleftrightarrow> gr_staff g = ac_staffId actor \<and> gr_capability g = ''project.shared.sync'' \<and>
     gr_active g \<and> gr_effect g = effect"

definition project_wide :: "project_head \<Rightarrow> grant_row \<Rightarrow> bool" where
  "project_wide h g \<longleftrightarrow> gr_scope_kind g = ''global'' \<or>
     gr_scope_kind g = ''exact_project'' \<and> gr_project g = Some (hd_project h)"

definition scope_grant :: "project_scope \<Rightarrow> grant_row \<Rightarrow> bool" where
  "scope_grant sc g \<longleftrightarrow>
     gr_scope_kind g = ''business_area'' \<and> sql_eq (gr_area g) (sc_area sc) \<or>
     gr_scope_kind g = ''division'' \<and> sql_eq (gr_area g) (sc_area sc) \<and> sql_eq (gr_division g) (sc_division sc)"

text \<open>The rows of the query: the actor, the scopes, the allows for every scope, no deny.\<close>

definition authority_granted :: "staff_tables \<Rightarrow> LifecycleActor \<Rightarrow> project_head \<Rightarrow> bool" where
  "authority_granted tb actor h \<longleftrightarrow>
     active_staff tb actor \<and>
     \<not> list_ex (scope_invalid tb) (hd_scopes h) \<and>
     \<not> list_ex (\<lambda>sc. \<not> list_ex (\<lambda>g. staff_grant actor ''allow'' g \<and> (project_wide h g \<or> scope_grant sc g)) (tb_grants tb))
        (hd_scopes h) \<and>
     (hd_scopes h \<noteq> [] \<or> list_ex (\<lambda>g. staff_grant actor ''allow'' g \<and> project_wide h g) (tb_grants tb)) \<and>
     \<not> list_ex (\<lambda>g. staff_grant actor ''deny'' g \<and> (project_wide h g \<or> list_ex (\<lambda>sc. scope_grant sc g) (hd_scopes h)))
        (tb_grants tb)"

text \<open>
  The clock: \<open>Date.parse\<close> and \<open>toISOString\<close> are given; \<open>now\<close> is in milliseconds.
\<close>

record clock =
  ck_parse :: "string \<Rightarrow> int option"
  ck_iso :: "int \<Rightarrow> string"
  ck_now :: int

definition requireAuthority ::
  "clock \<Rightarrow> staff_tables \<Rightarrow> LifecycleActor \<Rightarrow> project_head \<Rightarrow> op_error + unit" where
  "requireAuthority ck tb actor h =
     (case ck_parse ck (ac_verifiedUntil actor) of
        None \<Rightarrow> Inl (Refused 403 ''Current native authentication expiry is required'')
      | Some t \<Rightarrow>
          if ck_iso ck t \<noteq> ac_verifiedUntil actor
          then Inl (Refused 403 ''Current native authentication expiry is required'')
          else if \<not> (text_less (ck_iso ck (ck_now ck)) (ac_verifiedUntil actor) \<and> authority_granted tb actor h)
          then Inl (Refused 403 ''Current explicit native project authority is required'')
          else Inr ())"

end
