(* ===== verification/Sql_Batch.thy ===== *)
theory Sql_Batch
  imports Prelude
begin

section \<open>Tables and atomic batches\<close>

text \<open>
  What the workers use of D1: a table is the list of its rows in insertion order, a write statement changes the database
  and sets the count that SQLite's \<open>changes()\<close> returns, and \<open>batch([...])\<close> runs its statements
  in order as one transaction: the first that fails leaves the database as it was.

  The constraints and triggers of the schema (SQL files) that the code does not repeat are the
  argument \<open>guard\<close>: a predicate on the database before and after a write, which may refuse
  any write. Primary keys and the unique indexes that the code relies on are written out.
\<close>

type_synonym 'db stmt = "'db \<times> nat \<Rightarrow> string + 'db \<times> nat"

definition sql_write :: "('db \<Rightarrow> 'db \<Rightarrow> bool) \<Rightarrow> ('db \<Rightarrow> ('db \<times> nat) option) \<Rightarrow> 'db stmt" where
  "sql_write guard f = (\<lambda>(db, changes).
     case f db of
       None \<Rightarrow> Inl ''constraint failed''
     | Some (db', n) \<Rightarrow> if guard db db' then Inr (db', n) else Inl ''constraint failed'')"

fun run_batch :: "'db stmt list \<Rightarrow> 'db \<times> nat \<Rightarrow> string + 'db" where
  "run_batch [] s = Inr (fst s)"
| "run_batch (st # sts) s = rbind (st s) (run_batch sts)"

definition batch :: "'db stmt list \<Rightarrow> 'db \<Rightarrow> string + 'db" where
  "batch sts db = run_batch sts (db, 0)"

definition update_where :: "('r \<Rightarrow> bool) \<Rightarrow> ('r \<Rightarrow> 'r) \<Rightarrow> 'r list \<Rightarrow> 'r list" where
  "update_where P f rows = map (\<lambda>r. if P r then f r else r) rows"

definition count_where :: "('r \<Rightarrow> bool) \<Rightarrow> 'r list \<Rightarrow> nat" where
  "count_where P rows = length (filter P rows)"

text \<open>\<open>INSERT\<close> into a table with a primary key.\<close>

definition insert_row :: "('r \<Rightarrow> 'k) \<Rightarrow> 'r \<Rightarrow> 'r list \<Rightarrow> 'r list option" where
  "insert_row key r rows = (if key r \<in> key ` set rows then None else Some (rows @ [r]))"

lemma run_batch_Cons_Inr [result_simps]:
  "run_batch (st # sts) s = Inr db \<longleftrightarrow> (\<exists>s'. st s = Inr s' \<and> run_batch sts s' = Inr db)"
  by (simp add: rbind_eq_Inr)

lemma run_batch_append:
  "run_batch (as @ bs) s = Inr db \<longleftrightarrow> (\<exists>s'. foldl (\<lambda>r st. rbind r st) (Inr s) as = Inr s' \<and> run_batch bs s' = Inr db)"
proof (induction as arbitrary: s)
  case Nil
  then show ?case by simp
next
  case (Cons a as)
  have dead: "foldl (\<lambda>r st. rbind r st) (Inl e) as = Inl e" for e :: string and as :: "'a stmt list"
    by (induction as) auto
  show ?case using Cons by (cases "a s") (auto simp: dead)
qed

lemma sql_write_Inr [result_simps]:
  "sql_write guard f (db, n) = Inr s \<longleftrightarrow> f db = Some s \<and> guard db (fst s)"
  by (auto simp: sql_write_def split: option.splits prod.splits)

lemma sql_write_total:
  "sql_write guard f (db, n) = (case f db of Some s \<Rightarrow> if guard db (fst s) then Inr s else Inl ''constraint failed''
     | None \<Rightarrow> Inl ''constraint failed'')"
  by (auto simp: sql_write_def split: option.splits prod.splits)

lemma update_where_Nil [simp]: "update_where P f [] = []"
  by (simp add: update_where_def)

lemma update_where_Cons [simp]: "update_where P f (r # rs) = (if P r then f r else r) # update_where P f rs"
  by (simp add: update_where_def)

lemma in_update_where: "x \<in> set (update_where P f rows) \<longleftrightarrow> (\<exists>r \<in> set rows. x = (if P r then f r else r))"
  by (auto simp: update_where_def)

lemma update_where_none: "(\<And>r. r \<in> set rows \<Longrightarrow> \<not> P r) \<Longrightarrow> update_where P f rows = rows"
  by (simp add: update_where_def map_idI)

lemma map_update_where: "(\<And>r. key (f r) = key r) \<Longrightarrow> map key (update_where P f rows) = map key rows"
  by (simp add: update_where_def)

lemma count_where_pos: "0 < count_where P rows \<longleftrightarrow> (\<exists>r \<in> set rows. P r)"
  by (auto simp: count_where_def filter_empty_conv)

lemma count_where_unique:
  assumes "distinct (map key rows)" and "\<And>r. P r \<Longrightarrow> key r = k"
  shows "count_where P rows \<le> 1"
  using assms
proof (induction rows)
  case Nil
  then show ?case by (simp add: count_where_def)
next
  case (Cons r rs)
  show ?case
  proof (cases "P r")
    case True
    then have "filter P rs = []" using Cons.prems by (force simp: filter_empty_conv)
    then show ?thesis by (simp add: count_where_def True)
  next
    case False
    then show ?thesis using Cons by (simp add: count_where_def)
  qed
qed

lemma insert_row_Some [result_simps]:
  "insert_row key r rows = Some rows' \<longleftrightarrow> key r \<notin> key ` set rows \<and> rows' = rows @ [r]"
  by (auto simp: insert_row_def)

text \<open>A relation that every statement of a batch keeps holds across the batch.\<close>

definition stmt_keeps :: "('db \<Rightarrow> 'db \<Rightarrow> bool) \<Rightarrow> 'db stmt \<Rightarrow> bool" where
  "stmt_keeps R st \<longleftrightarrow> (\<forall>db n s. st (db, n) = Inr s \<longrightarrow> R db (fst s))"

lemma stmt_keepsD: "stmt_keeps R st \<Longrightarrow> st (db, n) = Inr s \<Longrightarrow> R db (fst s)"
  unfolding stmt_keeps_def by blast

lemma run_batch_keeps:
  assumes "\<And>db. R db db" and "\<And>a b c. R a b \<Longrightarrow> R b c \<Longrightarrow> R a c"
  shows "list_all (stmt_keeps R) sts \<Longrightarrow> run_batch sts (db, n) = Inr db' \<Longrightarrow> R db db'"
proof (induction sts arbitrary: db n)
  case Nil
  then show ?case using assms(1) by simp
next
  case (Cons st sts)
  then obtain s where s: "st (db, n) = Inr s" "run_batch sts (fst s, snd s) = Inr db'"
    by (auto simp: result_simps)
  have "R db (fst s)" using Cons.prems(1) s(1) by (intro stmt_keepsD [of R st db n s]) simp_all
  moreover have "R (fst s) db'" using Cons.IH [OF _ s(2)] Cons.prems(1) by simp
  ultimately show ?case by (rule assms(2))
qed

end
