(* ===== verification/Native_Lifecycle.thy ===== *)
theory Native_Lifecycle
  imports Native_Authority Sql_Batch
begin

section \<open>Lifecycle commands of a native project: data and preparation\<close>

text \<open>
  Models \<open>apps/operations/src/worker/native-project-lifecycle.ts\<close>: the ledger of archive and
  restore commands, the checks every operation repeats (\<open>connection\<close>, \<open>head\<close>, \<open>command\<close>,
  \<open>current\<close>, \<open>readPair\<close>), \<open>prepareNativeProjectLifecycle\<close> and the status reads. The network,
  the clock, the hash functions and the random identifiers are arguments. A JSON text the code
  stores and compares is the value it is printed from: \<open>JSON.stringify\<close> of a fixed record is
  injective, and the code builds both sides alike.
\<close>

subsection \<open>Rows\<close>

datatype lifecycle_action = Archive | Restore

datatype command_state =
  Prepared | Sending | Uncertain | Acknowledged | Settled | Activating | Activated | Rejected | Inbound_review

record lifecycle_body =
  lb_commandId :: string
  lb_expectedRevision :: string

record command_row =
  lr_command_id :: string
  lr_project :: string
  lr_action :: lifecycle_action
  lr_source_id :: string
  lr_source_instance_id :: string
  lr_application_id :: string
  lr_history_epoch_id :: string
  lr_origin :: string
  lr_public_id :: string
  lr_context :: LifecycleContext
  lr_context_sha256 :: string
  lr_body :: lifecycle_body
  lr_request_sha256 :: string
  lr_expected_version :: int
  lr_expected_projection :: string
  lr_expected_revision :: string
  lr_prior_head :: project_head
  lr_state :: command_state
  lr_transmissions :: nat
  lr_lease :: "string option"
  lr_lease_expires :: "int option"
  lr_authorization :: "string option"
  lr_expires_at :: string

record refresh_body =
  rb_commandId :: string
  rb_externalId :: string
  rb_expectedPublicId :: string
  rb_expectedPriorRevision :: string
  rb_expectedRevision :: string
  rb_expectedProjection :: string
  rb_expectedGeneration :: string

record refresh_row =
  rf_command_id :: string
  rf_parent :: string
  rf_body :: refresh_body
  rf_request_sha256 :: string
  rf_expected_revision :: string
  rf_expected_projection :: string
  rf_state :: command_state
  rf_transmissions :: nat
  rf_lease :: "string option"
  rf_lease_expires :: "int option"
  rf_authorization :: "string option"
  rf_expires_at :: string

record proof_row =
  prf_command_id :: string
  prf_project :: string
  prf_staff :: string
  prf_subject :: string
  prf_admission_version :: int
  prf_profile_version :: int
  prf_email :: string
  prf_verified_until :: string
  prf_generation :: int
  prf_scopes :: "project_scope list"

record authorization_row =
  au_id :: string
  au_command :: string
  au_proof :: string
  au_purpose :: string

record event_row =
  ev_id :: string
  ev_command :: string
  ev_phase :: string
  ev_sha :: string
  ev_code :: "string option"

record receipt_row =
  rr_command :: string
  rr_json :: string
  rr_sha :: string
  rr_revision :: string
  rr_request_id :: string

record refresh_receipt_row =
  rxr_command :: string
  rxr_json :: string
  rxr_sha :: string

record attempt_row =
  at_lease :: string
  at_command :: string
  at_refresh :: "string option"
  at_sha :: string

record settlement_row =
  st_id :: string
  st_command :: string
  st_refresh :: string
  st_proof :: string
  st_read :: string
  st_read_sha :: string
  st_binding :: string
  st_binding_sha :: string

record fence_row =
  fn_command :: string
  fn_settlement :: string
  fn_proof :: string
  fn_expires :: string

record revision_row =
  rv_project :: string
  rv_version :: int
  rv_read :: string
  rv_settlement :: string

record activation_row =
  ac_command :: string
  ac_settlement :: string
  ac_version :: int

record handoff_row =
  ho_command :: string
  ho_authorization :: string
  ho_read :: string
  ho_sha :: string

record lifecycle_db =
  db_heads :: "project_head list"
  db_revisions :: "revision_row list"
  db_commands :: "command_row list"
  db_refreshes :: "refresh_row list"
  db_proofs :: "proof_row list"
  db_authorizations :: "authorization_row list"
  db_events :: "event_row list"
  db_receipts :: "receipt_row list"
  db_refresh_receipts :: "refresh_receipt_row list"
  db_attempts :: "attempt_row list"
  db_settlements :: "settlement_row list"
  db_fences :: "fence_row list"
  db_activations :: "activation_row list"
  db_handoffs :: "handoff_row list"

subsection \<open>The environment\<close>

record pa_connection =
  cn_enabled :: bool
  cn_instance :: string
  cn_application :: string
  cn_epoch :: "string option"
  cn_origin :: string

record command_envelope =
  en_context :: LifecycleContext
  en_action :: lifecycle_action
  en_project :: string
  en_instance :: string
  en_application :: string
  en_epoch :: string
  en_public_id :: string
  en_body :: lifecycle_body
  en_version :: int
  en_projection :: string

text \<open>
  Configuration, tables and clock; hashes of the JSON texts; the validators of identifiers and of
  the refresh request; \<open>BigInt\<close>; the triggers of the schema; the view of live authorizations.
\<close>

record lifecycle_env =
  le_connection :: "string \<Rightarrow> pa_connection"
  le_tables :: staff_tables
  le_clock :: clock
  le_body_sha :: "lifecycle_body \<Rightarrow> string"
  le_envelope_sha :: "command_envelope \<Rightarrow> string"
  le_refresh_sha :: "refresh_body \<Rightarrow> string"
  le_text_sha :: "string \<Rightarrow> string"
  le_uuid :: "string \<Rightarrow> bool"
  le_external_id :: "string \<Rightarrow> bool"
  le_canonical :: "refresh_body \<Rightarrow> bool"
  le_bigint :: "string \<Rightarrow> int option"
  le_guard :: "lifecycle_db \<Rightarrow> lifecycle_db \<Rightarrow> bool"
  le_live :: "lifecycle_db \<Rightarrow> string \<Rightarrow> bool"

abbreviation now_ms :: "lifecycle_env \<Rightarrow> int" where
  "now_ms env \<equiv> ck_now (le_clock env)"

subsection \<open>Statements\<close>

definition insert_stmt ::
  "lifecycle_env \<Rightarrow> ('r \<Rightarrow> string) \<Rightarrow> 'r \<Rightarrow> (lifecycle_db \<Rightarrow> 'r list) \<Rightarrow>
   (('r list \<Rightarrow> 'r list) \<Rightarrow> lifecycle_db \<Rightarrow> lifecycle_db) \<Rightarrow> lifecycle_db stmt" where
  "insert_stmt env key r get upd =
     sql_write (le_guard env) (\<lambda>db. map_option (\<lambda>rows. (upd (\<lambda>_. rows) db, 1)) (insert_row key r (get db)))"

definition update_stmt ::
  "lifecycle_env \<Rightarrow> ('r \<Rightarrow> bool) \<Rightarrow> ('r \<Rightarrow> 'r) \<Rightarrow> (lifecycle_db \<Rightarrow> 'r list) \<Rightarrow>
   (('r list \<Rightarrow> 'r list) \<Rightarrow> lifecycle_db \<Rightarrow> lifecycle_db) \<Rightarrow> lifecycle_db stmt" where
  "update_stmt env P f get upd =
     sql_write (le_guard env) (\<lambda>db. Some (upd (update_where P f) db, count_where P (get db)))"

definition assertChanged :: "lifecycle_db stmt" where
  "assertChanged = (\<lambda>(db, changes). if changes = 1 then Inr (db, changes) else Inl ''native-lifecycle-cas-failed'')"

definition event_stmt ::
  "lifecycle_env \<Rightarrow> string \<Rightarrow> string \<Rightarrow> string \<Rightarrow> string \<Rightarrow> string option \<Rightarrow> lifecycle_db stmt" where
  "event_stmt env eid command phase sha code =
     insert_stmt env ev_id \<lparr>ev_id = eid, ev_command = command, ev_phase = phase, ev_sha = sha, ev_code = code\<rparr>
       db_events db_events_update"

text \<open>\<open>proof\<close>: the row is selected from the grant generation of the actor, none when there is none.\<close>

definition proof_stmt :: "lifecycle_env \<Rightarrow> string \<Rightarrow> project_head \<Rightarrow> LifecycleActor \<Rightarrow> lifecycle_db stmt" where
  "proof_stmt env pid h actor =
     (case map_of (tb_generations (le_tables env)) (ac_staffId actor) of
        None \<Rightarrow> sql_write (le_guard env) (\<lambda>db. Some (db, 0))
      | Some generation \<Rightarrow>
          insert_stmt env prf_command_id
            \<lparr>prf_command_id = pid, prf_project = hd_project h, prf_staff = ac_staffId actor,
             prf_subject = ac_accessSubject actor, prf_admission_version = ac_admissionVersion actor,
             prf_profile_version = ac_profileVersion actor, prf_email = ac_email actor,
             prf_verified_until = ac_verifiedUntil actor, prf_generation = generation, prf_scopes = hd_scopes h\<rparr>
            db_proofs db_proofs_update)"

definition commit :: "lifecycle_db stmt list \<Rightarrow> lifecycle_db \<Rightarrow> op_error + lifecycle_db" where
  "commit sts db = (case batch sts db of Inl e \<Rightarrow> Inl (Aborted e) | Inr db' \<Rightarrow> Inr db')"

subsection \<open>Checks\<close>

definition refused :: "string \<Rightarrow> op_error + 'a" where
  "refused message = Inl (Refused 409 message)"

definition connection ::
  "lifecycle_env \<Rightarrow> LifecycleContext \<Rightarrow> command_row option \<Rightarrow> op_error + pa_connection" where
  "connection env cx row =
     (let c = le_connection env (cx_sourceId cx) in
      if \<not> cn_enabled c \<or> cn_epoch c = None \<or> cn_epoch c = Some ''''
      then refused ''Native lifecycle source is unavailable''
      else case row of
        None \<Rightarrow> Inr c
      | Some r \<Rightarrow>
          if lr_source_id r \<noteq> cx_sourceId cx \<or> lr_source_instance_id r \<noteq> cn_instance c \<or>
             lr_application_id r \<noteq> cn_application c \<or> Some (lr_history_epoch_id r) \<noteq> cn_epoch c \<or>
             lr_origin r \<noteq> cn_origin c
          then refused ''Native lifecycle destination changed''
          else Inr c)"

definition head :: "lifecycle_db \<Rightarrow> string \<Rightarrow> op_error + project_head" where
  "head db pid =
     (case find (\<lambda>h. hd_project h = pid) (db_heads db) of
        None \<Rightarrow> refused ''Exact native project is required'' | Some h \<Rightarrow> Inr h)"

definition command :: "lifecycle_db \<Rightarrow> string \<Rightarrow> op_error + command_row" where
  "command db cid =
     (case find (\<lambda>r. lr_command_id r = cid) (db_commands db) of
        None \<Rightarrow> refused ''Native lifecycle command is unavailable'' | Some r \<Rightarrow> Inr r)"

definition original_actor :: "lifecycle_env \<Rightarrow> LifecycleActor \<Rightarrow> lifecycle_db \<Rightarrow> string \<Rightarrow> bool" where
  "original_actor env actor db cid \<longleftrightarrow>
     list_ex (\<lambda>p. prf_command_id p = cid \<and> prf_staff p = ac_staffId actor \<and>
       list_ex (\<lambda>s. sr_id s = prf_staff p \<and> sr_status s = ''active'' \<and> sr_subject s = ac_accessSubject actor \<and>
         sr_email s = ac_email actor) (tb_staff (le_tables env))) (db_proofs db)"

definition current ::
  "lifecycle_env \<Rightarrow> LifecycleActor \<Rightarrow> LifecycleContext \<Rightarrow> command_row \<Rightarrow> lifecycle_db \<Rightarrow> op_error + project_head" where
  "current env actor cx row db =
     rbind (connection env cx (Some row)) (\<lambda>_.
     rbind (head db (lr_project row)) (\<lambda>h.
     rbind (owned (le_tables env) cx h) (\<lambda>_.
     rbind (requireAuthority (le_clock env) (le_tables env) actor h) (\<lambda>_.
     if lr_context row \<noteq> cx \<or> hd_version h \<noteq> lr_expected_version row \<or>
        hd_projection h \<noteq> lr_expected_projection row \<or> hd_source_instance_id h \<noteq> lr_source_instance_id row \<or>
        hd_application_id h \<noteq> lr_application_id row \<or> hd_history_epoch_id h \<noteq> lr_history_epoch_id row \<or>
        hd_public_id h \<noteq> lr_public_id row
     then refused ''Native lifecycle context or project changed''
     else if le_body_sha env (lr_body row) \<noteq> lr_request_sha256 row
     then refused ''Native lifecycle request changed''
     else if \<not> original_actor env actor db (lr_command_id row)
     then Inl (Refused 403 ''Native lifecycle requires the original current staff actor'')
     else Inr h))))"

subsection \<open>\<open>readPair\<close>\<close>

record pa_read =
  rd_accepted :: bool
  rd_revision :: string
  rd_projection :: string
  rd_status :: string
  rd_archived :: bool
  rd_archived_at :: "string option"
  rd_overdue :: bool
  rd_organization :: "string option"
  rd_client :: "string option"
  rd_json :: string
  rd_sha :: string

datatype binding_status = Observed | Binding_stale | Binding_other

record pa_binding =
  bi_result :: binding_status
  bi_public_id :: string
  bi_revision :: string
  bi_resource_revision :: string
  bi_resource_projection :: string
  bi_resource_status :: string
  bi_resource_archived :: bool
  bi_generation :: string
  bi_json :: string

text \<open>What the two reads return: whether the transport is enabled, the validated read, the binding.\<close>

record pa_reads =
  re_enabled_read :: bool
  re_read :: "pa_read option"
  re_enabled_binding :: bool
  re_binding :: pa_binding

definition relationship_kept ::
  "staff_tables \<Rightarrow> project_head \<Rightarrow> string \<Rightarrow> string option \<Rightarrow> string option \<Rightarrow> bool" where
  "relationship_kept tb h kind record public_id \<longleftrightarrow>
     (record = None) = (public_id = None) \<and>
     (record \<noteq> None \<and> record \<noteq> Some '''' \<longrightarrow>
        list_ex (\<lambda>m. same_source m h \<and> mp_resource_type m = kind \<and> Some (mp_record_id m) = record \<and>
          Some (mp_public_id m) = public_id) (tb_mappings tb))"

definition readPair ::
  "lifecycle_env \<Rightarrow> LifecycleContext \<Rightarrow> project_head \<Rightarrow> pa_reads \<Rightarrow> op_error + (pa_read \<times> pa_binding)" where
  "readPair env cx h reads =
     rbind (connection env cx None) (\<lambda>_.
     if \<not> re_enabled_read reads then refused ''Native lifecycle connection is unavailable''
     else case re_read reads of
       None \<Rightarrow> refused ''Exact canonical PA project read is required''
     | Some evidence \<Rightarrow>
         if \<not> rd_accepted evidence then refused ''Exact canonical PA project read is required''
         else if \<not> re_enabled_binding reads then refused ''Native lifecycle connection is unavailable''
         else
           let binding = re_binding reads in
           if bi_result binding = Binding_other \<or> bi_public_id binding \<noteq> hd_public_id h \<or>
              bi_resource_revision binding \<noteq> rd_revision evidence \<or>
              bi_resource_projection binding \<noteq> rd_projection evidence
           then refused ''Exact project binding read is required''
           else if bi_result binding = Observed \<and>
              (bi_resource_status binding \<noteq> rd_status evidence \<or> bi_resource_archived binding \<noteq> rd_archived evidence)
           then refused ''Project binding state does not match the canonical read''
           else if \<not> relationship_kept (le_tables env) h ''organization'' (hd_organization h) (rd_organization evidence) \<or>
              \<not> relationship_kept (le_tables env) h ''client'' (hd_client h) (rd_client evidence)
           then refused ''Project owner relationship changed''
           else Inr (evidence, binding))"

subsection \<open>Status\<close>

record status_value =
  sv_command_id :: string
  sv_action :: lifecycle_action
  sv_state :: command_state
  sv_review :: string
  sv_claims :: nat
  sv_expires_at :: string
  sv_activated :: bool

definition statusValue :: "command_row \<Rightarrow> status_value" where
  "statusValue row = \<lparr>sv_command_id = lr_command_id row, sv_action = lr_action row, sv_state = lr_state row,
     sv_review = lr_context_sha256 row, sv_claims = lr_transmissions row, sv_expires_at = lr_expires_at row,
     sv_activated = (lr_state row = Activated)\<rparr>"

definition readNativeProjectLifecycleStatus ::
  "lifecycle_env \<Rightarrow> LifecycleActor \<Rightarrow> LifecycleContext \<Rightarrow> string \<Rightarrow> lifecycle_db \<Rightarrow>
   op_error + (status_value \<times> refresh_row list)" where
  "readNativeProjectLifecycleStatus env actor cx cid db =
     rbind (command db cid) (\<lambda>row.
     rbind (connection env cx (Some row)) (\<lambda>_.
     rbind (head db (lr_project row)) (\<lambda>h.
     rbind (owned (le_tables env) cx h) (\<lambda>_.
     rbind (requireAuthority (le_clock env) (le_tables env) actor h) (\<lambda>_.
     if lr_context row \<noteq> cx then refused ''Lifecycle context changed''
     else
       let original = find (\<lambda>p. prf_command_id p = cid) (db_proofs db) in
       if map_option prf_staff original \<noteq> Some (ac_staffId actor) \<or>
          map_option prf_subject original \<noteq> Some (ac_accessSubject actor)
       then Inl (Refused 403 ''Lifecycle actor changed'')
       else Inr (statusValue row, filter (\<lambda>r. rf_parent r = lr_command_id row) (db_refreshes db)))))))"

subsection \<open>Preparation\<close>

definition unresolved :: "command_state \<Rightarrow> bool" where
  "unresolved s \<longleftrightarrow> s \<noteq> Activated \<and> s \<noteq> Rejected \<and> s \<noteq> Inbound_review"

text \<open>The insert, with the unique index on unresolved commands of a project.\<close>

definition insert_command :: "lifecycle_env \<Rightarrow> command_row \<Rightarrow> lifecycle_db stmt" where
  "insert_command env row =
     sql_write (le_guard env) (\<lambda>db.
       if list_ex (\<lambda>r. lr_project r = lr_project row \<and> unresolved (lr_state r)) (db_commands db) then None
       else map_option (\<lambda>rows. (db\<lparr>db_commands := rows\<rparr>, 1)) (insert_row lr_command_id row (db_commands db)))"

definition command_expiry :: "lifecycle_env \<Rightarrow> LifecycleActor \<Rightarrow> string" where
  "command_expiry env actor =
     ck_iso (le_clock env) (case ck_parse (le_clock env) (ac_verifiedUntil actor) of
       Some t \<Rightarrow> min (now_ms env + 5 * 60000) t | None \<Rightarrow> now_ms env + 5 * 60000)"

definition prepared_row ::
  "lifecycle_env \<Rightarrow> LifecycleActor \<Rightarrow> LifecycleContext \<Rightarrow> pa_connection \<Rightarrow> project_head \<Rightarrow> string \<Rightarrow>
   lifecycle_action \<Rightarrow> command_row" where
  "prepared_row env actor cx c h cid action =
     (let body = \<lparr>lb_commandId = cid, lb_expectedRevision = hd_revision h\<rparr> in
      \<lparr>lr_command_id = cid, lr_project = hd_project h, lr_action = action, lr_source_id = hd_source_id h,
       lr_source_instance_id = hd_source_instance_id h, lr_application_id = hd_application_id h,
       lr_history_epoch_id = hd_history_epoch_id h, lr_origin = cn_origin c, lr_public_id = hd_public_id h,
       lr_context = cx,
       lr_context_sha256 = le_envelope_sha env
         \<lparr>en_context = cx, en_action = action, en_project = hd_project h, en_instance = hd_source_instance_id h,
          en_application = hd_application_id h, en_epoch = hd_history_epoch_id h, en_public_id = hd_public_id h,
          en_body = body, en_version = hd_version h, en_projection = hd_projection h\<rparr>,
       lr_body = body, lr_request_sha256 = le_body_sha env body, lr_expected_version = hd_version h,
       lr_expected_projection = hd_projection h, lr_expected_revision = hd_revision h, lr_prior_head = h,
       lr_state = Prepared, lr_transmissions = 0, lr_lease = None, lr_lease_expires = None,
       lr_authorization = None, lr_expires_at = command_expiry env actor\<rparr>)"

text \<open>The checks of a new command: its project and connection.\<close>

definition prepare_checks ::
  "lifecycle_env \<Rightarrow> LifecycleActor \<Rightarrow> LifecycleContext \<Rightarrow> string \<Rightarrow> lifecycle_action \<Rightarrow> pa_reads \<Rightarrow>
   lifecycle_db \<Rightarrow> op_error + (project_head \<times> pa_connection)" where
  "prepare_checks env actor cx pid action reads db =
     rbind (head db pid) (\<lambda>h.
     rbind (owned (le_tables env) cx h) (\<lambda>_.
     rbind (requireAuthority (le_clock env) (le_tables env) actor h) (\<lambda>_.
     rbind (connection env cx None) (\<lambda>c.
     if hd_source_instance_id h \<noteq> cn_instance c \<or> hd_application_id h \<noteq> cn_application c \<or>
        Some (hd_history_epoch_id h) \<noteq> cn_epoch c \<or> hd_archived h \<noteq> (action = Restore)
     then refused ''Project is not in the required lifecycle state''
     else
       rbind (readPair env cx h reads) (\<lambda>(read, binding).
       if bi_result binding \<noteq> Observed \<or> rd_revision read \<noteq> hd_revision h \<or>
          rd_projection read \<noteq> hd_projection h \<or> rd_archived read \<noteq> (action = Restore)
       then refused ''Project canonical read is stale''
       else Inr (h, c))))))"

definition prepareNativeProjectLifecycle ::
  "lifecycle_env \<Rightarrow> LifecycleActor \<Rightarrow> LifecycleContext \<Rightarrow> string \<Rightarrow> string \<Rightarrow> lifecycle_action \<Rightarrow> pa_reads \<Rightarrow>
   lifecycle_db \<Rightarrow> op_error + (status_value \<times> lifecycle_db)" where
  "prepareNativeProjectLifecycle env actor cx cid pid action reads db =
     (if \<not> le_uuid env cid \<or> \<not> le_external_id env pid then refused ''Invalid lifecycle intent''
      else case find (\<lambda>r. lr_command_id r = cid) (db_commands db) of
        Some prior \<Rightarrow>
          if lr_project prior \<noteq> pid \<or> lr_action prior \<noteq> action \<or> lr_context prior \<noteq> cx
          then refused ''Lifecycle command ID conflicts''
          else rbind (readNativeProjectLifecycleStatus env actor cx (lr_command_id prior) db)
                 (\<lambda>_. Inr (statusValue prior, db))
      | None \<Rightarrow>
          rbind (prepare_checks env actor cx pid action reads db) (\<lambda>(h, c).
          rbind (commit [proof_stmt env cid h actor, insert_command env (prepared_row env actor cx c h cid action)] db)
            (\<lambda>db'. rbind (command db' cid) (\<lambda>row. Inr (statusValue row, db')))))"

subsection \<open>\<open>authorize\<close>\<close>

definition authorize ::
  "lifecycle_env \<Rightarrow> LifecycleActor \<Rightarrow> command_row \<Rightarrow> project_head \<Rightarrow> string \<Rightarrow> string \<Rightarrow> string \<Rightarrow> lifecycle_db stmt list" where
  "authorize env actor row h purpose pid aid =
     [proof_stmt env pid h actor,
      insert_stmt env au_id \<lparr>au_id = aid, au_command = lr_command_id row, au_proof = pid, au_purpose = purpose\<rparr>
        db_authorizations db_authorizations_update]"

end
