(* ===== verification/Native_Submit.thy ===== *)
theory Native_Submit
  imports Native_Lifecycle
begin

section \<open>Transmitting a lifecycle command\<close>

text \<open>
  \<open>submitNativeProjectLifecycle\<close> with its claim, the gate in front of the POST, and the ways a
  claim ends: acknowledged, uncertain, or released unsent; then the binding refresh, a child
  command with the same protocol (\<open>prepareNativeProjectLifecycleRefresh\<close>,
  \<open>submitNativeProjectLifecycleRefresh\<close>). Each database access is a definition of its own, so that
  \<open>Native_Interleaving\<close> can interleave those of several workers.
\<close>

subsection \<open>The gate\<close>

text \<open>
  \<open>gatedPost\<close>: the checks in front of a POST, then the durable attempt. The selected lease must be
  held and its authorization live. \<open>enabled\<close> says whether the connector is enabled. \<open>callback\<close> is
  the awaited \<open>beforePost\<close>: by the time it returns or throws, the clock, the staff tables and the
  database may be others, so it maps the moment of the checks to the moment of the attempt, and what
  is read again after it is read there. The checks in front of it are taken at one moment.
\<close>

definition lease_valid ::
  "lifecycle_env \<Rightarrow> lifecycle_db \<Rightarrow> command_state \<Rightarrow> string option \<Rightarrow> int option \<Rightarrow> string option \<Rightarrow> string \<Rightarrow> bool" where
  "lease_valid env db state lease expires aid token \<longleftrightarrow>
     state = Sending \<and> lease = Some token \<and> (case expires of Some t \<Rightarrow> t > now_ms env | None \<Rightarrow> False) \<and>
     (case aid of Some a \<Rightarrow> list_ex (\<lambda>r. au_id r = a) (db_authorizations db) \<and> le_live env db a | None \<Rightarrow> False)"

definition gate_valid :: "lifecycle_env \<Rightarrow> lifecycle_db \<Rightarrow> string \<Rightarrow> string option \<Rightarrow> string \<Rightarrow> bool" where
  "gate_valid env db cid child token \<longleftrightarrow>
     (case child of
        None \<Rightarrow> list_ex (\<lambda>c. lr_command_id c = cid \<and>
          lease_valid env db (lr_state c) (lr_lease c) (lr_lease_expires c) (lr_authorization c) token) (db_commands db)
      | Some rid \<Rightarrow> list_ex (\<lambda>c. rf_command_id c = rid \<and>
          lease_valid env db (rf_state c) (rf_lease c) (rf_lease_expires c) (rf_authorization c) token) (db_refreshes db))"

definition child :: "lifecycle_db \<Rightarrow> string \<Rightarrow> op_error + refresh_row" where
  "child db parent =
     (case rev (filter (\<lambda>r. rf_parent r = parent \<and> rf_state r \<noteq> Rejected) (db_refreshes db)) of
        [] \<Rightarrow> refused ''Lifecycle binding refresh is not prepared'' | r # rs \<Rightarrow> Inr r)"

definition attempt_stmt :: "lifecycle_env \<Rightarrow> string \<Rightarrow> string \<Rightarrow> string option \<Rightarrow> string \<Rightarrow> lifecycle_db stmt" where
  "attempt_stmt env token cid child_id sha =
     insert_stmt env at_lease \<lparr>at_lease = token, at_command = cid, at_refresh = child_id, at_sha = sha\<rparr>
       db_attempts db_attempts_update"

definition gate_checks ::
  "lifecycle_env \<Rightarrow> LifecycleActor \<Rightarrow> LifecycleContext \<Rightarrow> command_row \<Rightarrow> string \<Rightarrow> string option \<Rightarrow> bool \<Rightarrow>
   lifecycle_db \<Rightarrow> op_error + unit" where
  "gate_checks env actor cx row token child_id enabled db =
     rbind (current env actor cx row db) (\<lambda>_.
     if \<not> enabled then refused ''Native lifecycle connection is unavailable''
     else
       let c = le_connection env (cx_sourceId cx) in
       if cn_instance c \<noteq> lr_source_instance_id row \<or> cn_application c \<noteq> lr_application_id row \<or>
          cn_epoch c \<noteq> Some (lr_history_epoch_id row) \<or> cn_origin c \<noteq> lr_origin row
       then refused ''Lifecycle connector proof changed''
       else if \<not> gate_valid env db (lr_command_id row) child_id token
       then Inl (Refused 403 ''Lifecycle lease or live authorization changed'')
       else Inr ())"

definition gate_attempt ::
  "lifecycle_env \<Rightarrow> LifecycleActor \<Rightarrow> LifecycleContext \<Rightarrow> command_row \<Rightarrow> string \<Rightarrow> string option \<Rightarrow>
   lifecycle_db \<Rightarrow> op_error + lifecycle_db" where
  "gate_attempt env actor cx row token child_id db =
     rbind (current env actor cx row db) (\<lambda>_.
     rbind (case child_id of None \<Rightarrow> Inr (lr_request_sha256 row)
            | Some _ \<Rightarrow> rbind (child db (lr_command_id row)) (\<lambda>ch. Inr (rf_request_sha256 ch))) (\<lambda>sha.
     commit [attempt_stmt env token (lr_command_id row) child_id sha] db))"

definition gatedPost ::
  "lifecycle_env \<Rightarrow> LifecycleActor \<Rightarrow> LifecycleContext \<Rightarrow> command_row \<Rightarrow> string \<Rightarrow> string option \<Rightarrow> bool \<Rightarrow>
   (lifecycle_env \<Rightarrow> lifecycle_db \<Rightarrow> (op_error + unit) \<times> lifecycle_env \<times> lifecycle_db) \<Rightarrow> lifecycle_db \<Rightarrow>
   (op_error + unit) \<times> lifecycle_db" where
  "gatedPost env actor cx row token child_id enabled callback db =
     (case gate_checks env actor cx row token child_id enabled db of
        Inl e \<Rightarrow> (Inl e, db)
      | Inr _ \<Rightarrow>
          (case callback env db of
             (Inl e, _, db1) \<Rightarrow> (Inl e, db1)
           | (Inr _, env1, db1) \<Rightarrow>
               (case gate_attempt env1 actor cx row token child_id db1 of
                  Inl e \<Rightarrow> (Inl e, db1) | Inr db2 \<Rightarrow> (Inr (), db2))))"

subsection \<open>How a claim ends\<close>

definition command_held :: "string \<Rightarrow> string \<Rightarrow> command_row \<Rightarrow> bool" where
  "command_held cid token c \<longleftrightarrow> lr_command_id c = cid \<and> lr_state c = Sending \<and> lr_lease c = Some token"

definition refresh_held :: "string \<Rightarrow> string \<Rightarrow> refresh_row \<Rightarrow> bool" where
  "refresh_held rid token c \<longleftrightarrow> rf_command_id c = rid \<and> rf_state c = Sending \<and> rf_lease c = Some token"

definition end_command :: "command_state \<Rightarrow> command_row \<Rightarrow> command_row" where
  "end_command s c = c\<lparr>lr_state := s, lr_lease := None, lr_lease_expires := None\<rparr>"

definition end_refresh :: "command_state \<Rightarrow> refresh_row \<Rightarrow> refresh_row" where
  "end_refresh s c = c\<lparr>rf_state := s, rf_lease := None, rf_lease_expires := None\<rparr>"

definition end_command_stmt :: "lifecycle_env \<Rightarrow> command_state \<Rightarrow> string \<Rightarrow> string \<Rightarrow> lifecycle_db stmt" where
  "end_command_stmt env s cid token =
     update_stmt env (command_held cid token) (end_command s) db_commands db_commands_update"

definition end_refresh_stmt :: "lifecycle_env \<Rightarrow> command_state \<Rightarrow> string \<Rightarrow> string \<Rightarrow> lifecycle_db stmt" where
  "end_refresh_stmt env s rid token =
     update_stmt env (refresh_held rid token) (end_refresh s) db_refreshes db_refreshes_update"

definition releaseUnsent ::
  "lifecycle_env \<Rightarrow> command_row \<Rightarrow> string \<Rightarrow> command_state \<Rightarrow> string \<Rightarrow> string option \<Rightarrow> string \<Rightarrow> string \<Rightarrow>
   lifecycle_db \<Rightarrow> op_error + lifecycle_db" where
  "releaseUnsent env row token returnState sha child_id code eid db =
     commit
       [case child_id of
          None \<Rightarrow> end_command_stmt env returnState (lr_command_id row) token
        | Some rid \<Rightarrow> end_refresh_stmt env returnState rid token,
        assertChanged,
        event_stmt env eid (lr_command_id row)
          (if child_id = None then ''lifecycle-pre-send-blocked'' else ''refresh-pre-send-blocked'') sha (Some code)] db"

definition uncertain ::
  "lifecycle_env \<Rightarrow> command_row \<Rightarrow> string \<Rightarrow> string \<Rightarrow> string \<Rightarrow> lifecycle_db \<Rightarrow> op_error + lifecycle_db" where
  "uncertain env row token code eid db =
     commit [end_command_stmt env Uncertain (lr_command_id row) token,
             event_stmt env eid (lr_command_id row) ''uncertain'' (lr_request_sha256 row) (Some code)] db"

definition refreshUncertain ::
  "lifecycle_env \<Rightarrow> command_row \<Rightarrow> refresh_row \<Rightarrow> string \<Rightarrow> string \<Rightarrow> string \<Rightarrow> lifecycle_db \<Rightarrow> op_error + lifecycle_db" where
  "refreshUncertain env row ch token code eid db =
     commit [end_refresh_stmt env Uncertain (rf_command_id ch) token,
             event_stmt env eid (lr_command_id row) ''refresh_uncertain'' (rf_request_sha256 ch) (Some code)] db"

subsection \<open>\<open>submitNativeProjectLifecycle\<close>\<close>

text \<open>The identifiers drawn with \<open>crypto.randomUUID\<close> in one submission.\<close>

record submit_ids =
  id_proof :: string
  id_authorization :: string
  id_token :: string
  id_event :: string
  id_outcome :: string
  id_catch :: string

record lifecycle_receipt =
  rc_body :: lifecycle_body
  rc_action :: lifecycle_action
  rc_public_id :: string
  rc_origin :: string
  rc_accepted :: bool
  rc_portal :: bool
  rc_link :: bool
  rc_json :: string
  rc_sha :: string
  rc_revision :: string
  rc_request_id :: string

text \<open>
  What the transport returns: an exception, or an outcome with the receipt validated from it and
  the reason recorded when there is none to accept (\<open>receipt_contract\<close> for an acknowledged one).
\<close>

datatype 'r send_result = Threw | Answered "'r option" string

text \<open>
  The network of one submission: whether the transport reaches the POST, whether the connector is
  enabled there, the callback, and the result, which may depend on whether the POST began.
\<close>

record 'r network =
  nw_posts :: bool
  nw_enabled :: bool
  nw_before :: "op_error + unit"
  nw_result :: "bool \<Rightarrow> 'r send_result"

datatype submit_decision = Already status_value | Submit command_row project_head bool

definition lease_open :: "int option \<Rightarrow> int \<Rightarrow> bool" where
  "lease_open expires now \<longleftrightarrow> (case expires of Some t \<Rightarrow> t > now | None \<Rightarrow> True)"

definition expired :: "clock \<Rightarrow> string \<Rightarrow> bool" where
  "expired ck text \<longleftrightarrow> (case ck_parse ck text of Some t \<Rightarrow> t \<le> ck_now ck | None \<Rightarrow> False)"

definition decide_submit ::
  "lifecycle_env \<Rightarrow> LifecycleActor \<Rightarrow> LifecycleContext \<Rightarrow> string \<Rightarrow> string \<Rightarrow> bool \<Rightarrow> lifecycle_db \<Rightarrow>
   op_error + submit_decision" where
  "decide_submit env actor cx cid review reconcile db =
     rbind (command db cid) (\<lambda>row.
     if review \<noteq> lr_context_sha256 row then refused ''Lifecycle reviewed request changed''
     else if lr_state row \<in> {Acknowledged, Settled, Activated} then
       rbind (readNativeProjectLifecycleStatus env actor cx (lr_command_id row) db) (\<lambda>_. Inr (Already (statusValue row)))
     else
       rbind (current env actor cx row db) (\<lambda>h.
       let recovering = (lr_state row \<in> {Sending, Uncertain}) in
       if lr_state row = Sending \<and> lease_open (lr_lease_expires row) (now_ms env)
       then refused ''Lifecycle transmission is still leased''
       else if recovering \<noteq> reconcile \<or> (\<not> recovering \<and> lr_state row \<noteq> Prepared) \<or>
          (\<not> recovering \<and> expired (le_clock env) (lr_expires_at row))
       then refused ''Lifecycle requires an explicit matching recovery decision''
       else Inr (Submit row h recovering)))"

definition claimable :: "command_row \<Rightarrow> command_row \<Rightarrow> bool" where
  "claimable row c \<longleftrightarrow> lr_command_id c = lr_command_id row \<and> lr_state c = lr_state row \<and> lr_lease c = lr_lease row"

definition claimed :: "lifecycle_env \<Rightarrow> submit_ids \<Rightarrow> command_row \<Rightarrow> command_row" where
  "claimed env ids c = c\<lparr>lr_state := Sending, lr_lease := Some (id_token ids),
     lr_lease_expires := Some (now_ms env + 300000), lr_authorization := Some (id_authorization ids),
     lr_transmissions := lr_transmissions c + 1\<rparr>"

definition claim_command ::
  "lifecycle_env \<Rightarrow> LifecycleActor \<Rightarrow> command_row \<Rightarrow> project_head \<Rightarrow> bool \<Rightarrow> submit_ids \<Rightarrow> lifecycle_db \<Rightarrow>
   op_error + lifecycle_db" where
  "claim_command env actor row h recovering ids db =
     commit
       (authorize env actor row h (if recovering then ''reconcile'' else ''send'') (id_proof ids) (id_authorization ids) @
        [update_stmt env (claimable row) (claimed env ids) db_commands db_commands_update,
         assertChanged,
         event_stmt env (id_event ids) (lr_command_id row)
           (if recovering then ''before-exact-reconciliation-post'' else ''before-action-post'')
           (lr_request_sha256 row) None]) db"

definition receipt_accepted :: "command_row \<Rightarrow> lifecycle_receipt \<Rightarrow> bool" where
  "receipt_accepted row r \<longleftrightarrow>
     rc_body r = lr_body row \<and> rc_action r = lr_action row \<and> rc_public_id r = lr_public_id row \<and>
     rc_origin r = lr_origin row \<and> rc_accepted r \<and> \<not> rc_portal r \<and> \<not> rc_link r"

definition acknowledge ::
  "lifecycle_env \<Rightarrow> command_row \<Rightarrow> string \<Rightarrow> lifecycle_receipt \<Rightarrow> lifecycle_db \<Rightarrow> op_error + lifecycle_db" where
  "acknowledge env row token r db =
     commit
       [insert_stmt env rr_command
          \<lparr>rr_command = lr_command_id row, rr_json = rc_json r, rr_sha = rc_sha r, rr_revision = rc_revision r,
           rr_request_id = rc_request_id r\<rparr> db_receipts db_receipts_update,
        end_command_stmt env Acknowledged (lr_command_id row) token,
        assertChanged] db"

definition return_state :: "bool \<Rightarrow> command_state" where
  "return_state recovering = (if recovering then Uncertain else Prepared)"

text \<open>The body of the \<open>try\<close> after the transport, and the whole with its \<open>catch\<close>.\<close>

definition settle_answer ::
  "lifecycle_env \<Rightarrow> command_row \<Rightarrow> submit_ids \<Rightarrow> bool \<Rightarrow> bool \<Rightarrow> lifecycle_receipt send_result \<Rightarrow> lifecycle_db \<Rightarrow>
   op_error + lifecycle_db" where
  "settle_answer env row ids recovering began result db =
     (case result of
        Threw \<Rightarrow> Inl (Aborted ''transport'')
      | Answered receipt code \<Rightarrow>
          (case receipt of
             Some r \<Rightarrow>
               if receipt_accepted row r then acknowledge env row (id_token ids) r db
               else if began then uncertain env row (id_token ids) code (id_outcome ids) db
               else releaseUnsent env row (id_token ids) (return_state recovering) (lr_request_sha256 row) None code
                      (id_outcome ids) db
           | None \<Rightarrow>
               if began then uncertain env row (id_token ids) code (id_outcome ids) db
               else releaseUnsent env row (id_token ids) (return_state recovering) (lr_request_sha256 row) None code
                      (id_outcome ids) db))"

definition settle_catch ::
  "lifecycle_env \<Rightarrow> command_row \<Rightarrow> submit_ids \<Rightarrow> bool \<Rightarrow> bool \<Rightarrow> lifecycle_db \<Rightarrow> op_error + lifecycle_db" where
  "settle_catch env row ids recovering began db =
     (if began then uncertain env row (id_token ids) ''post_or_local_receipt_unknown'' (id_catch ids) db
      else releaseUnsent env row (id_token ids) (return_state recovering) (lr_request_sha256 row) None
             ''pre_send_failed'' (id_catch ids) db)"

definition settle_submit ::
  "lifecycle_env \<Rightarrow> command_row \<Rightarrow> submit_ids \<Rightarrow> bool \<Rightarrow> bool \<Rightarrow> lifecycle_receipt send_result \<Rightarrow> lifecycle_db \<Rightarrow>
   op_error + lifecycle_db" where
  "settle_submit env row ids recovering began result db =
     (case settle_answer env row ids recovering began result db of
        Inr db' \<Rightarrow> Inr db' | Inl _ \<Rightarrow> settle_catch env row ids recovering began db)"

text \<open>
  One submission without interleaving: the result and the database it leaves. Nothing else happens
  during the callback of such a run; \<open>Native_Interleaving\<close> lets other workers act there.
\<close>

definition run_gate ::
  "lifecycle_env \<Rightarrow> LifecycleActor \<Rightarrow> LifecycleContext \<Rightarrow> command_row \<Rightarrow> string \<Rightarrow> string option \<Rightarrow> 'r network \<Rightarrow>
   lifecycle_db \<Rightarrow> bool \<times> lifecycle_db" where
  "run_gate env actor cx row token child_id net db =
     (if nw_posts net then
        case gatedPost env actor cx row token child_id (nw_enabled net) (\<lambda>env' db'. (nw_before net, env', db')) db of
          (Inl _, db') \<Rightarrow> (False, db') | (Inr _, db') \<Rightarrow> (True, db')
      else (False, db))"

definition submitNativeProjectLifecycle ::
  "lifecycle_env \<Rightarrow> LifecycleActor \<Rightarrow> LifecycleContext \<Rightarrow> string \<Rightarrow> string \<Rightarrow> bool \<Rightarrow> submit_ids \<Rightarrow>
   lifecycle_receipt network \<Rightarrow> lifecycle_db \<Rightarrow> (op_error + status_value) \<times> lifecycle_db" where
  "submitNativeProjectLifecycle env actor cx cid review reconcile ids net db =
     (case decide_submit env actor cx cid review reconcile db of
        Inl e \<Rightarrow> (Inl e, db)
      | Inr (Already status) \<Rightarrow> (Inr status, db)
      | Inr (Submit row h recovering) \<Rightarrow>
          (case claim_command env actor row h recovering ids db of
             Inl e \<Rightarrow> (Inl e, db)
           | Inr db1 \<Rightarrow>
               let (began, db2) = run_gate env actor cx row (id_token ids) None net db1 in
               (case settle_submit env row ids recovering began (nw_result net began) db2 of
                  Inl e \<Rightarrow> (Inl e, db2)
                | Inr db3 \<Rightarrow> (rbind (command db3 (lr_command_id row)) (\<lambda>r. Inr (statusValue r)), db3))))"

end
