(* ===== verification/Native_Refresh.thy ===== *)
theory Native_Refresh
  imports Native_Submit
begin

section \<open>Binding refresh, activation, hand-over and abandonment\<close>

text \<open>
  The remaining operations of \<open>native-project-lifecycle.ts\<close>: the refresh of the project binding as
  a child command, the activation of an acknowledged command in one transaction, the hand-over to
  inbound review and the abandonment of a preparation that was never transmitted.
\<close>

subsection \<open>Refresh\<close>

record refresh_value =
  rfv_command :: string
  rfv_refresh :: string
  rfv_review :: "string option"
  rfv_state :: command_state

definition insert_refresh :: "lifecycle_env \<Rightarrow> refresh_row \<Rightarrow> lifecycle_db stmt" where
  "insert_refresh env row =
     sql_write (le_guard env) (\<lambda>db.
       if list_ex (\<lambda>r. rf_parent r = rf_parent row \<and> rf_state r \<noteq> Rejected) (db_refreshes db) then None
       else map_option (\<lambda>rows. (db\<lparr>db_refreshes := rows\<rparr>, 1)) (insert_row rf_command_id row (db_refreshes db)))"

definition receipt_revision :: "lifecycle_db \<Rightarrow> string \<Rightarrow> string option" where
  "receipt_revision db cid = map_option rr_revision (find (\<lambda>r. rr_command r = cid) (db_receipts db))"

definition refresh_body_of :: "command_row \<Rightarrow> string \<Rightarrow> pa_read \<Rightarrow> pa_binding \<Rightarrow> refresh_body" where
  "refresh_body_of row rid read binding =
     \<lparr>rb_commandId = rid, rb_externalId = lr_project row, rb_expectedPublicId = lr_public_id row,
      rb_expectedPriorRevision = bi_revision binding, rb_expectedRevision = rd_revision read,
      rb_expectedProjection = rd_projection read, rb_expectedGeneration = bi_generation binding\<rparr>"

definition prepared_refresh ::
  "lifecycle_env \<Rightarrow> LifecycleActor \<Rightarrow> command_row \<Rightarrow> refresh_body \<Rightarrow> refresh_row" where
  "prepared_refresh env actor row body =
     \<lparr>rf_command_id = rb_commandId body, rf_parent = lr_command_id row, rf_body = body,
      rf_request_sha256 = le_refresh_sha env body, rf_expected_revision = rb_expectedRevision body,
      rf_expected_projection = rb_expectedProjection body, rf_state = Prepared, rf_transmissions = 0,
      rf_lease = None, rf_lease_expires = None, rf_authorization = None, rf_expires_at = command_expiry env actor\<rparr>"

definition refresh_checks ::
  "lifecycle_env \<Rightarrow> LifecycleActor \<Rightarrow> LifecycleContext \<Rightarrow> string \<Rightarrow> string \<Rightarrow> string \<Rightarrow> pa_reads \<Rightarrow> lifecycle_db \<Rightarrow>
   op_error + (command_row \<times> project_head \<times> pa_read \<times> pa_binding)" where
  "refresh_checks env actor cx cid rid review reads db =
     rbind (command db cid) (\<lambda>row.
     if lr_context_sha256 row \<noteq> review \<or> \<not> le_uuid env rid \<or> lr_state row \<noteq> Acknowledged
     then refused ''Exact acknowledged lifecycle is required''
     else
       rbind (current env actor cx row db) (\<lambda>h.
       rbind (readPair env cx h reads) (\<lambda>(read, binding). Inr (row, h, read, binding))))"

definition prepareNativeProjectLifecycleRefresh ::
  "lifecycle_env \<Rightarrow> LifecycleActor \<Rightarrow> LifecycleContext \<Rightarrow> string \<Rightarrow> string \<Rightarrow> string \<Rightarrow> pa_reads \<Rightarrow> lifecycle_db \<Rightarrow>
   op_error + (refresh_value \<times> lifecycle_db)" where
  "prepareNativeProjectLifecycleRefresh env actor cx cid rid review reads db =
     rbind (refresh_checks env actor cx cid rid review reads db) (\<lambda>(row, h, read, binding).
     case child db (lr_command_id row) of
       Inr prior \<Rightarrow>
         if rf_command_id prior \<noteq> rid then refused ''Lifecycle already owns a different refresh command''
         else Inr (\<lparr>rfv_command = lr_command_id row, rfv_refresh = rf_command_id prior,
                    rfv_review = Some (rf_request_sha256 prior), rfv_state = rf_state prior\<rparr>, db)
     | Inl _ \<Rightarrow>
         if bi_result binding \<noteq> Binding_stale \<or>
            Some (rd_revision read) \<noteq> receipt_revision db (lr_command_id row) \<or>
            rd_archived read \<noteq> (lr_action row = Archive)
         then refused ''Exact stale lifecycle binding is required; no automatic binding change''
         else
           let body = refresh_body_of row rid read binding in
           if \<not> le_canonical env body then refused ''Invalid exact refresh proof''
           else
             rbind (commit [proof_stmt env rid h actor, insert_refresh env (prepared_refresh env actor row body)] db)
               (\<lambda>db'. Inr (\<lparr>rfv_command = lr_command_id row, rfv_refresh = rid,
                            rfv_review = Some (le_refresh_sha env body), rfv_state = Prepared\<rparr>, db')))"

record refresh_receipt =
  rx_refresh_type :: bool
  rx_request_sha :: string
  rx_origin :: string
  rx_public_id :: string
  rx_revision :: string
  rx_projection :: string
  rx_portal :: bool
  rx_link :: bool
  rx_json :: string
  rx_sha :: string

definition refresh_accepted :: "command_row \<Rightarrow> refresh_row \<Rightarrow> refresh_receipt \<Rightarrow> bool" where
  "refresh_accepted row ch r \<longleftrightarrow>
     rx_refresh_type r \<and> rx_request_sha r = rf_request_sha256 ch \<and> rx_origin r = lr_origin row \<and>
     rx_public_id r = lr_public_id row \<and> rx_revision r = rf_expected_revision ch \<and>
     rx_projection r = rf_expected_projection ch \<and> \<not> rx_portal r \<and> \<not> rx_link r"

definition acknowledge_refresh ::
  "lifecycle_env \<Rightarrow> refresh_row \<Rightarrow> string \<Rightarrow> refresh_receipt \<Rightarrow> lifecycle_db \<Rightarrow> op_error + lifecycle_db" where
  "acknowledge_refresh env ch token r db =
     commit
       [insert_stmt env rxr_command
          \<lparr>rxr_command = rf_command_id ch, rxr_json = rx_json r, rxr_sha = rx_sha r\<rparr>
          db_refresh_receipts db_refresh_receipts_update,
        end_refresh_stmt env Acknowledged (rf_command_id ch) token,
        assertChanged] db"

datatype refresh_decision = Refresh_done | Refresh_submit command_row refresh_row project_head bool

definition decide_refresh ::
  "lifecycle_env \<Rightarrow> LifecycleActor \<Rightarrow> LifecycleContext \<Rightarrow> string \<Rightarrow> string \<Rightarrow> string \<Rightarrow> bool \<Rightarrow> pa_reads \<Rightarrow>
   lifecycle_db \<Rightarrow> op_error + (command_row \<times> refresh_row \<times> refresh_decision)" where
  "decide_refresh env actor cx cid rid review reconcile reads db =
     rbind (command db cid) (\<lambda>row.
     rbind (child db (lr_command_id row)) (\<lambda>ch.
     if lr_state row \<noteq> Acknowledged \<or> rid \<noteq> rf_command_id ch \<or> review \<noteq> rf_request_sha256 ch \<or>
        le_refresh_sha env (rf_body ch) \<noteq> rf_request_sha256 ch
     then refused ''Exact reviewed refresh is required''
     else
       rbind (current env actor cx row db) (\<lambda>h.
       if rf_state ch = Acknowledged then Inr (row, ch, Refresh_done)
       else
         let recovering = (rf_state ch \<in> {Sending, Uncertain}) in
         if rf_state ch = Sending \<and> lease_open (rf_lease_expires ch) (now_ms env)
         then refused ''Refresh transmission is still leased''
         else if recovering \<noteq> reconcile \<or> (\<not> recovering \<and> rf_state ch \<noteq> Prepared) \<or>
            (\<not> recovering \<and> expired (le_clock env) (rf_expires_at ch))
         then refused ''Refresh requires explicit exact reconciliation''
         else if recovering then Inr (row, ch, Refresh_submit row ch h True)
         else
           rbind (readPair env cx h reads) (\<lambda>(read, binding).
           let body = rf_body ch in
           if bi_result binding \<noteq> Binding_stale \<or> bi_revision binding \<noteq> rb_expectedPriorRevision body \<or>
              bi_generation binding \<noteq> rb_expectedGeneration body \<or> rd_revision read \<noteq> rb_expectedRevision body \<or>
              rd_projection read \<noteq> rb_expectedProjection body
           then refused ''Reviewed live refresh proof changed''
           else Inr (row, ch, Refresh_submit row ch h False)))))"

definition refresh_claimable :: "refresh_row \<Rightarrow> refresh_row \<Rightarrow> bool" where
  "refresh_claimable ch c \<longleftrightarrow> rf_command_id c = rf_command_id ch \<and> rf_state c = rf_state ch \<and> rf_lease c = rf_lease ch"

definition refresh_claimed :: "lifecycle_env \<Rightarrow> submit_ids \<Rightarrow> refresh_row \<Rightarrow> refresh_row" where
  "refresh_claimed env ids c = c\<lparr>rf_state := Sending, rf_lease := Some (id_token ids),
     rf_lease_expires := Some (now_ms env + 300000), rf_authorization := Some (id_authorization ids),
     rf_transmissions := rf_transmissions c + 1\<rparr>"

definition claim_refresh ::
  "lifecycle_env \<Rightarrow> LifecycleActor \<Rightarrow> command_row \<Rightarrow> refresh_row \<Rightarrow> project_head \<Rightarrow> bool \<Rightarrow> submit_ids \<Rightarrow>
   lifecycle_db \<Rightarrow> op_error + lifecycle_db" where
  "claim_refresh env actor row ch h recovering ids db =
     commit
       (authorize env actor row h (if recovering then ''refresh_reconcile'' else ''refresh'')
          (id_proof ids) (id_authorization ids) @
        [update_stmt env (refresh_claimable ch) (refresh_claimed env ids) db_refreshes db_refreshes_update,
         assertChanged,
         event_stmt env (id_event ids) (lr_command_id row)
           (if recovering then ''before-exact-refresh-reconciliation-post'' else ''before-reviewed-refresh-post'')
           (rf_request_sha256 ch) None]) db"

definition settle_refresh_answer ::
  "lifecycle_env \<Rightarrow> command_row \<Rightarrow> refresh_row \<Rightarrow> submit_ids \<Rightarrow> bool \<Rightarrow> bool \<Rightarrow> refresh_receipt send_result \<Rightarrow>
   lifecycle_db \<Rightarrow> op_error + lifecycle_db" where
  "settle_refresh_answer env row ch ids recovering began result db =
     (case result of
        Threw \<Rightarrow> Inl (Aborted ''transport'')
      | Answered receipt code \<Rightarrow>
          if (case receipt of Some r \<Rightarrow> refresh_accepted row ch r | None \<Rightarrow> False)
          then acknowledge_refresh env ch (id_token ids) (the receipt) db
          else if began then refreshUncertain env row ch (id_token ids) code (id_outcome ids) db
          else releaseUnsent env row (id_token ids) (return_state recovering) (rf_request_sha256 ch)
                 (Some (rf_command_id ch)) code (id_outcome ids) db)"

definition settle_refresh_catch ::
  "lifecycle_env \<Rightarrow> command_row \<Rightarrow> refresh_row \<Rightarrow> submit_ids \<Rightarrow> bool \<Rightarrow> bool \<Rightarrow> lifecycle_db \<Rightarrow> op_error + lifecycle_db" where
  "settle_refresh_catch env row ch ids recovering began db =
     (if began then refreshUncertain env row ch (id_token ids) ''refresh_post_or_receipt_unknown'' (id_catch ids) db
      else releaseUnsent env row (id_token ids) (return_state recovering) (rf_request_sha256 ch)
             (Some (rf_command_id ch)) ''refresh_pre_send_failed'' (id_catch ids) db)"

definition settle_refresh ::
  "lifecycle_env \<Rightarrow> command_row \<Rightarrow> refresh_row \<Rightarrow> submit_ids \<Rightarrow> bool \<Rightarrow> bool \<Rightarrow> refresh_receipt send_result \<Rightarrow>
   lifecycle_db \<Rightarrow> op_error + lifecycle_db" where
  "settle_refresh env row ch ids recovering began result db =
     (case settle_refresh_answer env row ch ids recovering began result db of
        Inr db' \<Rightarrow> Inr db' | Inl _ \<Rightarrow> settle_refresh_catch env row ch ids recovering began db)"

definition submitNativeProjectLifecycleRefresh ::
  "lifecycle_env \<Rightarrow> LifecycleActor \<Rightarrow> LifecycleContext \<Rightarrow> string \<Rightarrow> string \<Rightarrow> string \<Rightarrow> bool \<Rightarrow> pa_reads \<Rightarrow>
   submit_ids \<Rightarrow> refresh_receipt network \<Rightarrow> lifecycle_db \<Rightarrow> (op_error + refresh_value) \<times> lifecycle_db" where
  "submitNativeProjectLifecycleRefresh env actor cx cid rid review reconcile reads ids net db =
     (case decide_refresh env actor cx cid rid review reconcile reads db of
        Inl e \<Rightarrow> (Inl e, db)
      | Inr (row, ch, Refresh_done) \<Rightarrow>
          (Inr \<lparr>rfv_command = lr_command_id row, rfv_refresh = rf_command_id ch, rfv_review = None,
                rfv_state = rf_state ch\<rparr>, db)
      | Inr (_, _, Refresh_submit row ch h recovering) \<Rightarrow>
          (case claim_refresh env actor row ch h recovering ids db of
             Inl e \<Rightarrow> (Inl e, db)
           | Inr db1 \<Rightarrow>
               let (began, db2) = run_gate env actor cx row (id_token ids) (Some (rf_command_id ch)) net db1 in
               (case settle_refresh env row ch ids recovering began (nw_result net began) db2 of
                  Inl e \<Rightarrow> (Inl e, db2)
                | Inr db3 \<Rightarrow> (rbind (child db3 (lr_command_id row)) (\<lambda>c.
                    Inr \<lparr>rfv_command = lr_command_id row, rfv_refresh = rf_command_id ch, rfv_review = None,
                         rfv_state = rf_state c\<rparr>), db3))))"

subsection \<open>Activation\<close>

record activate_ids =
  aid_proof :: string
  aid_settlement :: string
  aid_token :: string

definition set_state_stmt :: "lifecycle_env \<Rightarrow> string \<Rightarrow> command_state \<Rightarrow> (command_row \<Rightarrow> command_row) \<Rightarrow> lifecycle_db stmt" where
  "set_state_stmt env cid s f =
     update_stmt env (\<lambda>c. lr_command_id c = cid \<and> lr_state c = s) f db_commands db_commands_update"

definition advance_head :: "pa_read \<Rightarrow> project_head \<Rightarrow> project_head" where
  "advance_head read h = h\<lparr>hd_version := hd_version h + 1, hd_revision := rd_revision read,
     hd_projection := rd_projection read, hd_archived := rd_archived read, hd_archived_at := rd_archived_at read,
     hd_overdue := rd_overdue read\<rparr>"

definition activation_batch ::
  "lifecycle_env \<Rightarrow> LifecycleActor \<Rightarrow> command_row \<Rightarrow> refresh_row \<Rightarrow> project_head \<Rightarrow> pa_read \<Rightarrow> pa_binding \<Rightarrow>
   activate_ids \<Rightarrow> lifecycle_db stmt list" where
  "activation_batch env actor row ch h read binding ids =
     [proof_stmt env (aid_proof ids) h actor,
      insert_stmt env st_id
        \<lparr>st_id = aid_settlement ids, st_command = lr_command_id row, st_refresh = rf_command_id ch,
         st_proof = aid_proof ids, st_read = rd_json read, st_read_sha = rd_sha read, st_binding = bi_json binding,
         st_binding_sha = le_text_sha env (bi_json binding)\<rparr> db_settlements db_settlements_update,
      set_state_stmt env (lr_command_id row) Acknowledged (lr_state_update (\<lambda>_. Settled)),
      assertChanged,
      set_state_stmt env (lr_command_id row) Settled
        (\<lambda>c. c\<lparr>lr_state := Activating, lr_lease := Some (aid_token ids),
               lr_lease_expires := Some (now_ms env + 300000)\<rparr>),
      assertChanged,
      insert_stmt env fn_command
        \<lparr>fn_command = lr_command_id row, fn_settlement = aid_settlement ids, fn_proof = aid_proof ids,
         fn_expires = ac_verifiedUntil actor\<rparr> db_fences db_fences_update,
      update_stmt env (\<lambda>x. hd_project x = lr_project row \<and> hd_version x = lr_expected_version row \<and>
          hd_projection x = lr_expected_projection row) (advance_head read) db_heads db_heads_update,
      assertChanged,
      sql_write (le_guard env) (\<lambda>db. Some (db\<lparr>db_revisions := db_revisions db @
        [\<lparr>rv_project = lr_project row, rv_version = lr_expected_version row + 1, rv_read = rd_json read,
          rv_settlement = aid_settlement ids\<rparr>]\<rparr>, 1)),
      insert_stmt env ac_command
        \<lparr>ac_command = lr_command_id row, ac_settlement = aid_settlement ids,
         ac_version = lr_expected_version row + 1\<rparr> db_activations db_activations_update,
      update_stmt env (\<lambda>c. lr_command_id c = lr_command_id row \<and> lr_state c = Activating \<and>
          lr_lease c = Some (aid_token ids)) (end_command Activated) db_commands db_commands_update,
      assertChanged]"

definition activate_checks ::
  "lifecycle_env \<Rightarrow> LifecycleActor \<Rightarrow> LifecycleContext \<Rightarrow> command_row \<Rightarrow> pa_reads \<Rightarrow> lifecycle_db \<Rightarrow>
   op_error + (project_head \<times> refresh_row \<times> pa_read \<times> pa_binding)" where
  "activate_checks env actor cx row reads db =
     rbind (current env actor cx row db) (\<lambda>h.
     rbind (child db (lr_command_id row)) (\<lambda>ch.
     if lr_state row \<noteq> Acknowledged \<or> rf_state ch \<noteq> Acknowledged
     then refused ''Explicit refresh receipt is required before canonical activation''
     else
       rbind (readPair env cx h reads) (\<lambda>(read, binding).
       if bi_result binding \<noteq> Observed \<or> rd_revision read \<noteq> rf_expected_revision ch \<or>
          rd_projection read \<noteq> rf_expected_projection ch \<or> rd_archived read \<noteq> (lr_action row = Archive)
       then refused ''Matching refreshed canonical read is required''
       else Inr (h, ch, read, binding))))"

definition activateNativeProjectLifecycle ::
  "lifecycle_env \<Rightarrow> LifecycleActor \<Rightarrow> LifecycleContext \<Rightarrow> string \<Rightarrow> string \<Rightarrow> pa_reads \<Rightarrow> activate_ids \<Rightarrow>
   lifecycle_db \<Rightarrow> op_error + (status_value \<times> lifecycle_db)" where
  "activateNativeProjectLifecycle env actor cx cid review reads ids db =
     rbind (command db cid) (\<lambda>row.
     if lr_context_sha256 row \<noteq> review then refused ''Lifecycle reviewed request changed''
     else if lr_state row = Activated then
       rbind (readNativeProjectLifecycleStatus env actor cx (lr_command_id row) db) (\<lambda>s. Inr (fst s, db))
     else
       rbind (activate_checks env actor cx row reads db) (\<lambda>(h, ch, read, binding).
       rbind (commit (activation_batch env actor row ch h read binding ids) db) (\<lambda>db'.
       rbind (command db' (lr_command_id row)) (\<lambda>r. Inr (statusValue r, db')))))"

subsection \<open>Hand-over to inbound review\<close>

text \<open>A strictly newer revision; \<open>BigInt\<close> of a text that is no number throws.\<close>

definition newer_revision :: "lifecycle_env \<Rightarrow> string \<Rightarrow> string \<Rightarrow> op_error + bool" where
  "newer_revision env newer known =
     (case le_bigint env newer of
        None \<Rightarrow> Inl (Aborted ''Cannot convert to a BigInt'')
      | Some n \<Rightarrow> (case le_bigint env known of
          None \<Rightarrow> Inl (Aborted ''Cannot convert to a BigInt'') | Some k \<Rightarrow> Inr (n > k)))"

definition retire_checks ::
  "lifecycle_env \<Rightarrow> LifecycleActor \<Rightarrow> LifecycleContext \<Rightarrow> command_row \<Rightarrow> bool \<Rightarrow> pa_read option \<Rightarrow> lifecycle_db \<Rightarrow>
   op_error + (project_head \<times> pa_read)" where
  "retire_checks env actor cx row enabled outcome db =
     rbind (current env actor cx row db) (\<lambda>h.
     if receipt_revision db (lr_command_id row) = None \<or>
        list_ex (\<lambda>r. rf_parent r = lr_command_id row \<and> rf_state r \<noteq> Acknowledged \<and> rf_state r \<noteq> Rejected)
          (db_refreshes db)
     then refused ''Unresolved refresh must be reconciled or explicitly abandoned''
     else if \<not> enabled then refused ''Native lifecycle connection is unavailable''
     else case outcome of
       None \<Rightarrow> refused ''Authentic strictly newer PA detail is required for inbound review''
     | Some read \<Rightarrow>
         if \<not> rd_accepted read then refused ''Authentic strictly newer PA detail is required for inbound review''
         else
           rbind (newer_revision env (rd_revision read) (the (receipt_revision db (lr_command_id row)))) (\<lambda>newer.
           if \<not> newer then refused ''Authentic strictly newer PA detail is required for inbound review''
           else rbind (current env actor cx row db) (\<lambda>_. Inr (h, read))))"

definition retire_batch ::
  "lifecycle_env \<Rightarrow> LifecycleActor \<Rightarrow> command_row \<Rightarrow> project_head \<Rightarrow> pa_read \<Rightarrow> submit_ids \<Rightarrow> lifecycle_db stmt list" where
  "retire_batch env actor row h read ids =
     authorize env actor row h ''inbound_review'' (id_proof ids) (id_authorization ids) @
     [insert_stmt env ho_command
        \<lparr>ho_command = lr_command_id row, ho_authorization = id_authorization ids,
         ho_read = rd_json read, ho_sha = rd_sha read\<rparr> db_handoffs db_handoffs_update,
      set_state_stmt env (lr_command_id row) Acknowledged
        (\<lambda>c. c\<lparr>lr_state := Inbound_review, lr_authorization := Some (id_authorization ids)\<rparr>),
      assertChanged,
      event_stmt env (id_event ids) (lr_command_id row)
        ''known-acceptance-retained-for-inbound-review'' (lr_request_sha256 row) None]"

definition retireNativeProjectLifecycleForInboundReview ::
  "lifecycle_env \<Rightarrow> LifecycleActor \<Rightarrow> LifecycleContext \<Rightarrow> string \<Rightarrow> string \<Rightarrow> bool \<Rightarrow> pa_read option \<Rightarrow> submit_ids \<Rightarrow>
   lifecycle_db \<Rightarrow> op_error + (status_value \<times> lifecycle_db)" where
  "retireNativeProjectLifecycleForInboundReview env actor cx cid review enabled outcome ids db =
     rbind (command db cid) (\<lambda>row.
     if lr_context_sha256 row \<noteq> review then refused ''Exact reviewed lifecycle is required''
     else if lr_state row = Inbound_review then
       rbind (readNativeProjectLifecycleStatus env actor cx (lr_command_id row) db) (\<lambda>s. Inr (fst s, db))
     else if lr_state row \<noteq> Acknowledged
     then refused ''Only a known accepted lifecycle may be handed to inbound review''
     else
       rbind (retire_checks env actor cx row enabled outcome db) (\<lambda>(h, read).
       rbind (commit (retire_batch env actor row h read ids) db) (\<lambda>db'.
       rbind (command db' (lr_command_id row)) (\<lambda>r. Inr (statusValue r, db')))))"

subsection \<open>Abandonment\<close>

record abandon_value =
  abv_command :: string
  abv_target :: string

text \<open>\<open>UPDATE ... WHERE state='prepared' AND NOT EXISTS (post attempts)\<close>, on either table.\<close>

definition abandon_command_stmt :: "lifecycle_env \<Rightarrow> string \<Rightarrow> string \<Rightarrow> lifecycle_db stmt" where
  "abandon_command_stmt env cid aid =
     sql_write (le_guard env) (\<lambda>db.
       let P = (\<lambda>c. lr_command_id c = cid \<and> lr_state c = Prepared \<and>
             \<not> list_ex (\<lambda>a. at_command a = cid \<and> at_refresh a = None) (db_attempts db)) in
       Some (db\<lparr>db_commands := update_where P (\<lambda>c. c\<lparr>lr_state := Rejected, lr_authorization := Some aid\<rparr>)
                 (db_commands db)\<rparr>, count_where P (db_commands db)))"

definition abandon_refresh_stmt :: "lifecycle_env \<Rightarrow> string \<Rightarrow> string \<Rightarrow> lifecycle_db stmt" where
  "abandon_refresh_stmt env rid aid =
     sql_write (le_guard env) (\<lambda>db.
       let P = (\<lambda>c. rf_command_id c = rid \<and> rf_state c = Prepared \<and>
             \<not> list_ex (\<lambda>a. at_refresh a = Some rid) (db_attempts db)) in
       Some (db\<lparr>db_refreshes := update_where P (\<lambda>c. c\<lparr>rf_state := Rejected, rf_authorization := Some aid\<rparr>)
                 (db_refreshes db)\<rparr>, count_where P (db_refreshes db)))"

definition abandon_batch ::
  "lifecycle_env \<Rightarrow> LifecycleActor \<Rightarrow> command_row \<Rightarrow> project_head \<Rightarrow> string option \<Rightarrow> string \<Rightarrow> submit_ids \<Rightarrow>
   lifecycle_db \<Rightarrow> op_error + lifecycle_db" where
  "abandon_batch env actor row h refresh sha ids db =
     commit
       (authorize env actor row h (if refresh = None then ''abandon'' else ''abandon_refresh'')
          (id_proof ids) (id_authorization ids) @
        [case refresh of
           None \<Rightarrow> abandon_command_stmt env (lr_command_id row) (id_authorization ids)
         | Some rid \<Rightarrow> abandon_refresh_stmt env rid (id_authorization ids),
         assertChanged,
         event_stmt env (id_event ids) (lr_command_id row)
           (if refresh = None then ''never-transmitted-preparation-abandoned''
            else ''never-transmitted-refresh-abandoned'') sha None]) db"

text \<open>What is abandoned: the refresh (its identifier) or the command, with the request hash for the event.\<close>

definition abandon_checks ::
  "lifecycle_env \<Rightarrow> LifecycleActor \<Rightarrow> LifecycleContext \<Rightarrow> string \<Rightarrow> string \<Rightarrow> string option \<Rightarrow> lifecycle_db \<Rightarrow>
   op_error + (command_row \<times> project_head \<times> string option \<times> string)" where
  "abandon_checks env actor cx cid review refresh db =
     rbind (command db cid) (\<lambda>row.
     rbind (current env actor cx row db) (\<lambda>h.
     let message = ''Only the exact never-transmitted preparation may be abandoned'' in
     if refresh = None \<or> refresh = Some '''' then
       if review \<noteq> lr_context_sha256 row \<or> lr_state row \<noteq> Prepared then refused message
       else Inr (row, h, None, lr_request_sha256 row)
     else
       rbind (child db (lr_command_id row)) (\<lambda>ch.
       if review \<noteq> rf_request_sha256 ch \<or> rf_state ch \<noteq> Prepared \<or> Some (rf_command_id ch) \<noteq> refresh
       then refused message
       else Inr (row, h, Some (rf_command_id ch), rf_request_sha256 ch))))"

definition abandonNativeProjectLifecyclePreparation ::
  "lifecycle_env \<Rightarrow> LifecycleActor \<Rightarrow> LifecycleContext \<Rightarrow> string \<Rightarrow> string \<Rightarrow> string option \<Rightarrow> submit_ids \<Rightarrow>
   lifecycle_db \<Rightarrow> op_error + (abandon_value \<times> lifecycle_db)" where
  "abandonNativeProjectLifecyclePreparation env actor cx cid review refresh ids db =
     rbind (abandon_checks env actor cx cid review refresh db) (\<lambda>(row, h, rid, sha).
     rbind (abandon_batch env actor row h rid sha ids db) (\<lambda>db'.
     Inr (\<lparr>abv_command = lr_command_id row,
           abv_target = (case rid of None \<Rightarrow> lr_command_id row | Some r \<Rightarrow> r)\<rparr>, db')))"

end
