(* ===== verification/Native_Transitions.thy ===== *)
theory Native_Transitions
  imports Native_Refresh
begin

section \<open>State transitions of lifecycle commands\<close>

text \<open>
  The schema of the ledger states which transitions a command may make (trigger
  \<open>native_project_lifecycle_transition\<close>) and that its identity never changes (trigger
  \<open>native_project_lifecycle_immutable\<close>). The lemmas show that every statement of every operation
  respects both by itself, whatever other triggers the schema has.
\<close>

named_theorems sql_simps

lemma insert_stmt_Inr [sql_simps]:
  "insert_stmt env key r get upd (db, n) = Inr s \<longleftrightarrow>
    key r \<notin> key ` set (get db) \<and> s = (upd (\<lambda>_. get db @ [r]) db, 1) \<and> le_guard env db (fst s)"
  by (auto simp: insert_stmt_def sql_write_def insert_row_def)

lemma update_stmt_Inr [sql_simps]:
  "update_stmt env P f get upd (db, n) = Inr s \<longleftrightarrow>
    s = (upd (update_where P f) db, count_where P (get db)) \<and> le_guard env db (fst s)"
  by (auto simp: update_stmt_def sql_write_def)

lemma assertChanged_Inr [sql_simps]: "assertChanged (db, n) = Inr s \<longleftrightarrow> n = 1 \<and> s = (db, n)"
  by (auto simp: assertChanged_def)

lemma commit_Inr: "commit sts db = Inr db' \<longleftrightarrow> run_batch sts (db, 0) = Inr db'"
  by (auto simp: commit_def batch_def split: sum.splits)

lemma checked_Inr [sql_simps]:
  "(if b then refused message else k) = Inr y \<longleftrightarrow> \<not> b \<and> k = Inr y"
  "(if b then Inl e else k) = Inr y \<longleftrightarrow> \<not> b \<and> k = Inr y"
  "refused message = Inr y \<longleftrightarrow> False"
  by (auto simp: refused_def)

lemma checkedE:
  "(if b then refused message else k) = Inr y \<Longrightarrow> (\<not> b \<Longrightarrow> k = Inr y \<Longrightarrow> thesis) \<Longrightarrow> thesis"
  by (auto simp: sql_simps)

lemma rbind_InrE: "rbind m k = Inr y \<Longrightarrow> (\<And>x. m = Inr x \<Longrightarrow> k x = Inr y \<Longrightarrow> thesis) \<Longrightarrow> thesis"
  by (auto simp: result_simps)

lemma proof_stmt_frame:
  "proof_stmt env pid h actor (db, n) = Inr s \<Longrightarrow> \<exists>rows m. s = (db\<lparr>db_proofs := rows\<rparr>, m)"
  by (cases "map_of (tb_generations (le_tables env)) (ac_staffId actor)")
    (auto simp: proof_stmt_def sql_write_def insert_stmt_Inr split: if_splits
      intro: exI [of _ "db_proofs db"] exI)

subsection \<open>What the schema allows\<close>

fun transition_allowed :: "command_state \<Rightarrow> command_state \<Rightarrow> bool" where
  "transition_allowed Prepared s = (s = Sending \<or> s = Rejected)"
| "transition_allowed Sending s = (s = Sending \<or> s = Prepared \<or> s = Uncertain \<or> s = Acknowledged)"
| "transition_allowed Uncertain s = (s = Sending)"
| "transition_allowed Acknowledged s = (s = Settled \<or> s = Inbound_review)"
| "transition_allowed Settled s = (s = Activating)"
| "transition_allowed Activating s = (s = Activated)"
| "transition_allowed _ s = False"

definition row_identity :: "command_row \<Rightarrow> command_row" where
  "row_identity r = r\<lparr>lr_state := Prepared, lr_transmissions := 0, lr_lease := None, lr_lease_expires := None,
     lr_authorization := None\<rparr>"

definition row_moves :: "command_row \<Rightarrow> command_row \<Rightarrow> bool" where
  "row_moves r r' \<longleftrightarrow> row_identity r' = row_identity r \<and>
     (r' = r \<or> transition_allowed (lr_state r) (lr_state r')) \<and>
     lr_transmissions r' = lr_transmissions r + (if lr_state r' = Sending \<and> r' \<noteq> r then 1 else 0)"

definition moves :: "lifecycle_db \<Rightarrow> lifecycle_db \<Rightarrow> bool" where
  "moves db db' \<longleftrightarrow> list_all2 row_moves (db_commands db) (db_commands db') \<or>
     (\<exists>r. db_commands db' = db_commands db @ [r] \<and> lr_state r = Prepared \<and> lr_transmissions r = 0 \<and>
        lr_command_id r \<notin> lr_command_id ` set (db_commands db))"

definition stmt_moves :: "lifecycle_db stmt \<Rightarrow> bool" where
  "stmt_moves st \<longleftrightarrow> (\<forall>db n s. st (db, n) = Inr s \<longrightarrow> moves db (fst s))"

lemma row_moves_refl [simp]: "row_moves r r"
  by (simp add: row_moves_def)

lemma moves_refl [simp]: "moves db db"
  by (simp add: moves_def list_all2_refl)

lemma same_commands_moves: "db_commands db' = db_commands db \<Longrightarrow> moves db db'"
  by (simp add: moves_def list_all2_refl)

lemma stmt_movesD: "stmt_moves st \<Longrightarrow> st (db, n) = Inr s \<Longrightarrow> moves db (fst s)"
  by (cases s) (auto simp: stmt_moves_def)

lemma batch_moves:
  "list_all stmt_moves sts \<Longrightarrow> run_batch sts (db, n) = Inr db' \<Longrightarrow> moves\<^sup>*\<^sup>* db db'"
proof (induction sts arbitrary: db n)
  case Nil
  then show ?case by simp
next
  case (Cons st sts)
  then obtain db1 n1 where "st (db, n) = Inr (db1, n1)" "run_batch sts (db1, n1) = Inr db'"
    by (auto simp: result_simps)
  with Cons stmt_movesD [of st db n] have "moves db db1" "moves\<^sup>*\<^sup>* db1 db'" by auto
  then show ?case by (rule converse_rtranclp_into_rtranclp)
qed

lemma commit_moves: "list_all stmt_moves sts \<Longrightarrow> commit sts db = Inr db' \<Longrightarrow> moves\<^sup>*\<^sup>* db db'"
  by (simp add: commit_Inr batch_moves)

subsection \<open>Statements respect it\<close>

lemma update_moves:
  assumes "\<And>r. P r \<Longrightarrow> row_moves r (f r)"
  shows "stmt_moves (update_stmt env P f db_commands db_commands_update)"
  using assms by (auto simp: stmt_moves_def sql_simps moves_def update_where_def list_all2_conv_all_nth)

lemma frame_moves:
  assumes "\<And>g db. db_commands (upd g db) = db_commands db"
  shows "stmt_moves (update_stmt env P f get upd)" and "stmt_moves (insert_stmt env key r get upd)"
  using assms by (auto simp: stmt_moves_def sql_simps intro!: same_commands_moves)

lemma assert_moves [simp]: "stmt_moves assertChanged"
  by (auto simp: stmt_moves_def sql_simps)

lemma event_moves [simp]: "stmt_moves (event_stmt env eid cid phase sha code)"
  unfolding event_stmt_def by (rule frame_moves) simp

lemma proof_moves [simp]: "stmt_moves (proof_stmt env pid h actor)"
  by (auto simp: stmt_moves_def dest!: proof_stmt_frame intro!: same_commands_moves)

lemma authorize_moves [simp]: "list_all stmt_moves (authorize env actor row h purpose pid aid)"
  by (simp add: authorize_def frame_moves)

lemma end_command_moves: "transition_allowed Sending s \<Longrightarrow> s \<noteq> Sending \<Longrightarrow> stmt_moves (end_command_stmt env s cid token)"
  unfolding end_command_stmt_def
  by (rule update_moves) (auto simp: command_held_def end_command_def row_moves_def row_identity_def)

lemma end_refresh_moves [simp]: "stmt_moves (end_refresh_stmt env s rid token)"
  unfolding end_refresh_stmt_def by (rule frame_moves) simp

lemma claim_stmt_moves:
  "lr_state row \<in> {Prepared, Sending, Uncertain} \<Longrightarrow>
    stmt_moves (update_stmt env (claimable row) (claimed env ids) db_commands db_commands_update)"
proof (rule update_moves)
  fix r
  assume "lr_state row \<in> {Prepared, Sending, Uncertain}" "claimable row r"
  then show "row_moves r (claimed env ids r)"
    by (cases r) (auto simp: claimable_def claimed_def row_moves_def row_identity_def)
qed

lemma insert_command_Inr:
  "insert_command env row (db, n) = Inr s \<longleftrightarrow>
    \<not> list_ex (\<lambda>r. lr_project r = lr_project row \<and> unresolved (lr_state r)) (db_commands db) \<and>
    lr_command_id row \<notin> lr_command_id ` set (db_commands db) \<and>
    s = (db\<lparr>db_commands := db_commands db @ [row]\<rparr>, 1) \<and> le_guard env db (fst s)"
  unfolding insert_command_def sql_write_Inr insert_row_def by auto

lemma insert_refresh_Inr:
  "insert_refresh env row (db, n) = Inr s \<longleftrightarrow>
    \<not> list_ex (\<lambda>r. rf_parent r = rf_parent row \<and> rf_state r \<noteq> Rejected) (db_refreshes db) \<and>
    rf_command_id row \<notin> rf_command_id ` set (db_refreshes db) \<and>
    s = (db\<lparr>db_refreshes := db_refreshes db @ [row]\<rparr>, 1) \<and> le_guard env db (fst s)"
  unfolding insert_refresh_def sql_write_Inr insert_row_def by auto

lemma insert_command_moves: "lr_state row = Prepared \<Longrightarrow> lr_transmissions row = 0 \<Longrightarrow> stmt_moves (insert_command env row)"
  by (simp add: stmt_moves_def insert_command_Inr moves_def)

lemma insert_refresh_moves [simp]: "stmt_moves (insert_refresh env row)"
  unfolding stmt_moves_def insert_refresh_Inr by (auto intro!: same_commands_moves)

lemma set_state_moves:
  "(\<And>c. lr_state c = s \<Longrightarrow> row_moves c (f c)) \<Longrightarrow> stmt_moves (set_state_stmt env cid s f)"
  unfolding set_state_stmt_def by (rule update_moves) simp

lemma abandon_row_moves: "lr_state c = Prepared \<Longrightarrow> row_moves c (c\<lparr>lr_state := Rejected, lr_authorization := Some aid\<rparr>)"
  by (simp add: row_moves_def row_identity_def)

lemma abandon_stmt_moves [simp]:
  shows "stmt_moves (abandon_command_stmt env cid aid)" and "stmt_moves (abandon_refresh_stmt env rid aid)"
proof -
  show "stmt_moves (abandon_command_stmt env cid aid)"
    by (auto simp: stmt_moves_def abandon_command_stmt_def sql_write_Inr Let_def moves_def update_where_def
        list_all2_conv_all_nth intro: abandon_row_moves)
  show "stmt_moves (abandon_refresh_stmt env rid aid)"
    by (auto simp: stmt_moves_def abandon_refresh_stmt_def sql_write_Inr Let_def intro!: same_commands_moves)
qed

lemma revision_insert_moves [simp]:
  "stmt_moves (sql_write (le_guard env) (\<lambda>db. Some (db\<lparr>db_revisions := db_revisions db @ [r]\<rparr>, n)))"
  by (auto simp: stmt_moves_def sql_write_Inr intro!: same_commands_moves)

subsection \<open>Operations respect it\<close>

lemma prepare_moves:
  assumes "prepareNativeProjectLifecycle env actor cx cid pid action reads db = Inr (v, db')"
  shows "moves\<^sup>*\<^sup>* db db'"
proof (cases "find (\<lambda>r. lr_command_id r = cid) (db_commands db)")
  case None
  with assms obtain h c where "commit [proof_stmt env cid h actor,
      insert_command env (prepared_row env actor cx c h cid action)] db = Inr db'"
    by (auto simp: prepareNativeProjectLifecycle_def sql_simps rbind_eq_Inr)
  then show ?thesis
    by (rule commit_moves [rotated]) (simp add: insert_command_moves prepared_row_def Let_def)
next
  case (Some prior)
  with assms show ?thesis
    by (auto simp: prepareNativeProjectLifecycle_def sql_simps rbind_eq_Inr)
qed

lemma prepare_refresh_moves:
  assumes "prepareNativeProjectLifecycleRefresh env actor cx cid rid review reads db = Inr (v, db')"
  shows "moves\<^sup>*\<^sup>* db db'"
proof -
  obtain row h read binding where ok: "refresh_checks env actor cx cid rid review reads db = Inr (row, h, read, binding)"
    using assms by (auto simp: prepareNativeProjectLifecycleRefresh_def rbind_eq_Inr)
  show ?thesis
  proof (cases "child db (lr_command_id row)")
    case (Inr prior)
    with assms ok show ?thesis
      by (auto simp: prepareNativeProjectLifecycleRefresh_def sql_simps)
  next
    case (Inl e)
    with assms ok obtain ch where "commit [proof_stmt env rid h actor, insert_refresh env ch] db = Inr db'"
      by (auto simp: prepareNativeProjectLifecycleRefresh_def sql_simps rbind_eq_Inr Let_def)
    then show ?thesis by (rule commit_moves [rotated]) simp
  qed
qed

lemma claim_command_moves:
  "lr_state row \<in> {Prepared, Sending, Uncertain} \<Longrightarrow> claim_command env actor row h rec ids db = Inr db' \<Longrightarrow> moves\<^sup>*\<^sup>* db db'"
  unfolding claim_command_def by (rule commit_moves [rotated]) (auto simp: claim_stmt_moves)

lemma return_state_ok: "transition_allowed Sending (return_state rec)" "return_state rec \<noteq> Sending"
  by (simp_all add: return_state_def)

lemma release_moves:
  "transition_allowed Sending s \<Longrightarrow> s \<noteq> Sending \<Longrightarrow>
    releaseUnsent env row token s sha child_id code eid db = Inr db' \<Longrightarrow> moves\<^sup>*\<^sup>* db db'"
  unfolding releaseUnsent_def
  by (rule commit_moves [rotated]) (auto simp: end_command_moves split: option.split)

lemma release_return_moves:
  "releaseUnsent env row token (return_state rec) sha child_id code eid db = Inr db' \<Longrightarrow> moves\<^sup>*\<^sup>* db db'"
  by (rule release_moves [OF return_state_ok])

lemma uncertain_moves: "uncertain env row token code eid db = Inr db' \<Longrightarrow> moves\<^sup>*\<^sup>* db db'"
  unfolding uncertain_def by (rule commit_moves [rotated]) (auto simp: end_command_moves)

lemma refresh_uncertain_moves: "refreshUncertain env row ch token code eid db = Inr db' \<Longrightarrow> moves\<^sup>*\<^sup>* db db'"
  unfolding refreshUncertain_def by (rule commit_moves [rotated]) auto

lemma acknowledge_moves: "acknowledge env row token r db = Inr db' \<Longrightarrow> moves\<^sup>*\<^sup>* db db'"
  unfolding acknowledge_def by (rule commit_moves [rotated]) (auto simp: end_command_moves frame_moves)

lemma acknowledge_refresh_moves: "acknowledge_refresh env ch token r db = Inr db' \<Longrightarrow> moves\<^sup>*\<^sup>* db db'"
  unfolding acknowledge_refresh_def by (rule commit_moves [rotated]) (auto simp: frame_moves)

lemma settle_moves:
  "settle_submit env row ids rec began result db = Inr db' \<Longrightarrow> moves\<^sup>*\<^sup>* db db'"
  by (auto simp: settle_submit_def settle_answer_def settle_catch_def
      split: sum.splits send_result.splits option.splits if_splits
      intro: acknowledge_moves uncertain_moves release_return_moves)

lemma settle_refresh_moves:
  "settle_refresh env row ch ids rec began result db = Inr db' \<Longrightarrow> moves\<^sup>*\<^sup>* db db'"
  by (auto simp: settle_refresh_def settle_refresh_answer_def settle_refresh_catch_def
      split: sum.splits send_result.splits if_splits
      intro: acknowledge_refresh_moves refresh_uncertain_moves release_return_moves)

lemma gate_attempt_moves: "gate_attempt env actor cx row token child_id db = Inr db' \<Longrightarrow> moves\<^sup>*\<^sup>* db db'"
  by (auto simp: gate_attempt_def result_simps attempt_stmt_def frame_moves intro!: commit_moves [rotated])

lemma run_gate_moves: "run_gate env actor cx row token child_id net db = (b, db') \<Longrightarrow> moves\<^sup>*\<^sup>* db db'"
  by (auto simp: run_gate_def gatedPost_def result_simps split: if_splits sum.splits intro: gate_attempt_moves)

lemma finish_moves [simp]:
  "stmt_moves (update_stmt env (\<lambda>c. lr_command_id c = cid \<and> lr_state c = Activating \<and> lr_lease c = Some t)
     (end_command Activated) db_commands db_commands_update)"
  by (rule update_moves) (simp add: row_moves_def row_identity_def end_command_def)

lemma activation_moves:
  "commit (activation_batch env actor row ch h read binding ids) db = Inr db' \<Longrightarrow> moves\<^sup>*\<^sup>* db db'"
  by (rule commit_moves [rotated], assumption)
    (simp add: activation_batch_def frame_moves set_state_moves update_moves row_moves_def row_identity_def end_command_def)

lemma retire_moves: "commit (retire_batch env actor row h read ids) db = Inr db' \<Longrightarrow> moves\<^sup>*\<^sup>* db db'"
  by (rule commit_moves [rotated], assumption)
    (simp add: retire_batch_def frame_moves set_state_moves row_moves_def row_identity_def)

lemma abandon_moves: "abandon_batch env actor row h rid sha ids db = Inr db' \<Longrightarrow> moves\<^sup>*\<^sup>* db db'"
  unfolding abandon_batch_def by (rule commit_moves [rotated]) (auto split: option.split)

lemma claim_refresh_moves: "claim_refresh env actor row ch h rec ids db = Inr db' \<Longrightarrow> moves\<^sup>*\<^sup>* db db'"
  unfolding claim_refresh_def by (rule commit_moves [rotated]) (auto simp: frame_moves)

lemma decide_submit_state:
  "decide_submit env actor cx cid review reconcile db = Inr (Submit row h rec) \<Longrightarrow>
    command db cid = Inr row \<and> (if rec then lr_state row \<in> {Sending, Uncertain} else lr_state row = Prepared)"
  by (auto simp: decide_submit_def rbind_eq_Inr sql_simps Let_def split: if_splits)

text \<open>The database after an operation: unchanged when it fails before its transaction commits.\<close>

definition db_after :: "op_error + ('a \<times> lifecycle_db) \<Rightarrow> lifecycle_db \<Rightarrow> lifecycle_db" where
  "db_after result db = (case result of Inr (_, db') \<Rightarrow> db' | Inl _ \<Rightarrow> db)"

lemma db_after_moves: "(\<And>v db'. result = Inr (v, db') \<Longrightarrow> moves\<^sup>*\<^sup>* db db') \<Longrightarrow> moves\<^sup>*\<^sup>* db (db_after result db)"
  by (auto simp: db_after_def split: sum.split)

lemma activate_moves:
  "activateNativeProjectLifecycle env actor cx cid review reads ids db = Inr (v, db') \<Longrightarrow> moves\<^sup>*\<^sup>* db db'"
  by (auto simp: activateNativeProjectLifecycle_def rbind_eq_Inr sql_simps split: if_splits intro: activation_moves)

lemma retire_review_moves:
  "retireNativeProjectLifecycleForInboundReview env actor cx cid review enabled outcome ids db = Inr (v, db') \<Longrightarrow>
    moves\<^sup>*\<^sup>* db db'"
  by (auto simp: retireNativeProjectLifecycleForInboundReview_def rbind_eq_Inr sql_simps split: if_splits intro: retire_moves)

lemma abandon_preparation_moves:
  "abandonNativeProjectLifecyclePreparation env actor cx cid review rid ids db = Inr (v, db') \<Longrightarrow> moves\<^sup>*\<^sup>* db db'"
  by (auto simp: abandonNativeProjectLifecyclePreparation_def rbind_eq_Inr intro: abandon_moves)

lemma submit_moves:
  "moves\<^sup>*\<^sup>* db (snd (submitNativeProjectLifecycle env actor cx cid review reconcile ids net db))"
proof (cases "\<exists>row h rec db1. decide_submit env actor cx cid review reconcile db = Inr (Submit row h rec) \<and>
    claim_command env actor row h rec ids db = Inr db1")
  case False
  then show ?thesis
    by (auto simp: submitNativeProjectLifecycle_def split: sum.split submit_decision.split)
next
  case True
  then obtain row h rec db1 where go: "decide_submit env actor cx cid review reconcile db = Inr (Submit row h rec)"
      "claim_command env actor row h rec ids db = Inr db1"
    by blast
  obtain b db2 where gate: "run_gate env actor cx row (id_token ids) None net db1 = (b, db2)" by fastforce
  have "lr_state row \<in> {Prepared, Sending, Uncertain}" using decide_submit_state [OF go(1)] by (auto split: if_splits)
  from claim_command_moves [OF this go(2)] run_gate_moves [OF gate] have "moves\<^sup>*\<^sup>* db db2" by simp
  then show ?thesis
    using settle_moves [of env row ids rec b "nw_result net b" db2]
    by (auto simp: submitNativeProjectLifecycle_def go gate split: sum.split)
qed

lemma submit_refresh_moves:
  "moves\<^sup>*\<^sup>* db (snd (submitNativeProjectLifecycleRefresh env actor cx cid rid review reconcile reads ids net db))"
proof -
  have "moves\<^sup>*\<^sup>* db (snd (let (began, db2) = run_gate env actor cx row (id_token ids) (Some (rf_command_id ch)) net db1 in
      (case settle_refresh env row ch ids rec began (nw_result net began) db2 of
         Inl e \<Rightarrow> (Inl e, db2) | Inr db3 \<Rightarrow> (k db3, db3))))"
    if "claim_refresh env actor row ch h rec ids db = Inr db1" for row ch h rec db1 k
  proof -
    obtain b db2 where gate: "run_gate env actor cx row (id_token ids) (Some (rf_command_id ch)) net db1 = (b, db2)"
      by fastforce
    have "moves\<^sup>*\<^sup>* db db2" using claim_refresh_moves [OF that] run_gate_moves [OF gate] by simp
    then show ?thesis
      using settle_refresh_moves [of env row ch ids rec b "nw_result net b" db2] by (auto simp: gate split: sum.split)
  qed
  then show ?thesis
    by (auto simp: submitNativeProjectLifecycleRefresh_def split: sum.split refresh_decision.split)
qed

subsection \<open>Final states\<close>

definition final_state :: "command_state \<Rightarrow> bool" where
  "final_state s \<longleftrightarrow> s = Activated \<or> s = Rejected \<or> s = Inbound_review"

lemma final_no_transition: "final_state s \<Longrightarrow> \<not> transition_allowed s s'"
  by (auto simp: final_state_def)

lemma moves_final:
  assumes "moves db db'" and "r \<in> set (db_commands db)" and "final_state (lr_state r)"
  shows "r \<in> set (db_commands db')"
proof -
  obtain i where i: "i < length (db_commands db)" "db_commands db ! i = r" using assms(2) by (auto simp: in_set_conv_nth)
  show ?thesis
  proof (cases "list_all2 row_moves (db_commands db) (db_commands db')")
    case True
    then have "row_moves r (db_commands db' ! i)" "i < length (db_commands db')"
      using i by (auto simp: list_all2_conv_all_nth)
    then have "db_commands db' ! i = r" using final_no_transition [OF assms(3)] by (auto simp: row_moves_def)
    then show ?thesis using \<open>i < length (db_commands db')\<close> by (metis nth_mem)
  next
    case False
    then show ?thesis using assms by (auto simp: moves_def)
  qed
qed

lemma moves_star_final:
  "moves\<^sup>*\<^sup>* db db' \<Longrightarrow> r \<in> set (db_commands db) \<Longrightarrow> final_state (lr_state r) \<Longrightarrow> r \<in> set (db_commands db')"
  by (induction rule: rtranclp_induct) (auto intro: moves_final)

lemma moves_distinct:
  "moves db db' \<Longrightarrow> distinct (map lr_command_id (db_commands db)) \<Longrightarrow> distinct (map lr_command_id (db_commands db'))"
proof -
  assume m: "moves db db'" and d: "distinct (map lr_command_id (db_commands db))"
  have "map lr_command_id (db_commands db') = map lr_command_id (db_commands db)"
    if "list_all2 row_moves (db_commands db) (db_commands db')"
    using that
  proof (induction rule: list_all2_induct)
    case Nil
    then show ?case by simp
  next
    case (Cons x xs y ys)
    then have "lr_command_id (row_identity y) = lr_command_id (row_identity x)" by (simp add: row_moves_def)
    then show ?case using Cons by (simp add: row_identity_def)
  qed
  then show ?thesis using m d by (auto simp: moves_def)
qed

end
