(* ===== verification/Native_Interleaving.thy ===== *)
theory Native_Interleaving
  imports Native_Transitions
begin

section \<open>Workers submitting the same command\<close>

text \<open>
  Requests are served by isolates that interleave at every database access and may die at any
  point. A worker of \<open>submitNativeProjectLifecycle\<close> has read its row (decided), claimed a lease, passed
  the checks of the gate, or failed to record the answer. A step is one database access of one
  worker, a transaction of another operation, or a worker that stops; clock, tables and network
  are arbitrary at each step. The lemmas give an invariant of all reachable states.
\<close>

subsection \<open>Steps\<close>

datatype worker_stage = W_decided | W_claimed | W_checked | W_failing

record worker =
  wk_row :: command_row
  wk_recovering :: bool
  wk_ids :: submit_ids
  wk_stage :: worker_stage
  wk_began :: bool

type_synonym workers = "nat \<Rightarrow> worker option"

abbreviation wk_token :: "worker \<Rightarrow> string" where
  "wk_token k \<equiv> id_token (wk_ids k)"

abbreviation wk_command :: "worker \<Rightarrow> string" where
  "wk_command k \<equiv> lr_command_id (wk_row k)"

text \<open>A random token differs from every other in use.\<close>

definition token_fresh :: "lifecycle_db \<Rightarrow> workers \<Rightarrow> string \<Rightarrow> bool" where
  "token_fresh db ws t \<longleftrightarrow> (\<forall>w k. ws w = Some k \<longrightarrow> wk_token k \<noteq> t) \<and>
     (\<forall>a \<in> set (db_attempts db). at_lease a \<noteq> t)"

text \<open>Writes of the refresh operations: no command changes, attempts only for refreshes.\<close>

definition other_writes :: "lifecycle_db \<Rightarrow> lifecycle_db \<Rightarrow> bool" where
  "other_writes db db' \<longleftrightarrow> db_commands db' = db_commands db \<and>
     (\<exists>new. db_attempts db' = db_attempts db @ new \<and> (\<forall>a \<in> set new. at_refresh a \<noteq> None))"

inductive step :: "lifecycle_db \<times> workers \<Rightarrow> lifecycle_db \<times> workers \<Rightarrow> bool" where
  decide: "ws w = None \<Longrightarrow> token_fresh db ws (id_token ids) \<Longrightarrow>
    decide_submit env actor cx cid review reconcile db = Inr (Submit row h rec) \<Longrightarrow>
    step (db, ws) (db, ws(w \<mapsto> \<lparr>wk_row = row, wk_recovering = rec, wk_ids = ids, wk_stage = W_decided,
      wk_began = False\<rparr>))"
| claim: "ws w = Some k \<Longrightarrow> wk_stage k = W_decided \<Longrightarrow>
    claim_command env actor (wk_row k) h (wk_recovering k) (wk_ids k) db = Inr db' \<Longrightarrow>
    step (db, ws) (db', ws(w \<mapsto> k\<lparr>wk_stage := W_claimed\<rparr>))"
| check: "ws w = Some k \<Longrightarrow> wk_stage k = W_claimed \<Longrightarrow>
    gate_checks env actor cx (wk_row k) (wk_token k) None enabled db = Inr () \<Longrightarrow>
    step (db, ws) (db, ws(w \<mapsto> k\<lparr>wk_stage := W_checked\<rparr>))"
| attempt: "ws w = Some k \<Longrightarrow> wk_stage k = W_checked \<Longrightarrow>
    gate_attempt env actor cx (wk_row k) (wk_token k) None db = Inr db' \<Longrightarrow>
    step (db, ws) (db', ws(w \<mapsto> k\<lparr>wk_stage := W_claimed, wk_began := True\<rparr>))"
| answer: "ws w = Some k \<Longrightarrow> wk_stage k = W_claimed \<or> wk_stage k = W_checked \<Longrightarrow>
    settle_answer env (wk_row k) (wk_ids k) (wk_recovering k) (wk_began k) result db = Inr db' \<Longrightarrow>
    step (db, ws) (db', ws(w := None))"
| answer_fails: "ws w = Some k \<Longrightarrow> wk_stage k = W_claimed \<or> wk_stage k = W_checked \<Longrightarrow>
    settle_answer env (wk_row k) (wk_ids k) (wk_recovering k) (wk_began k) result db = Inl e \<Longrightarrow>
    step (db, ws) (db, ws(w \<mapsto> k\<lparr>wk_stage := W_failing\<rparr>))"
| catch: "ws w = Some k \<Longrightarrow> wk_stage k = W_failing \<Longrightarrow>
    settle_catch env (wk_row k) (wk_ids k) (wk_recovering k) (wk_began k) db = Inr db' \<Longrightarrow>
    step (db, ws) (db', ws(w := None))"
| stop: "step (db, ws) (db, ws(w := None))"
| prepare: "commit [proof_stmt env cid h actor, insert_command env (prepared_row env actor cx c h cid action)] db
      = Inr db' \<Longrightarrow> step (db, ws) (db', ws)"
| abandon: "abandon_batch env actor row h None sha ids db = Inr db' \<Longrightarrow> step (db, ws) (db', ws)"
| activate: "commit (activation_batch env actor row ch h read binding aids) db = Inr db' \<Longrightarrow> step (db, ws) (db', ws)"
| retire: "commit (retire_batch env actor row h read ids) db = Inr db' \<Longrightarrow> step (db, ws) (db', ws)"
| other: "other_writes db db' \<Longrightarrow> step (db, ws) (db', ws)"

definition reachable :: "lifecycle_db \<times> workers \<Rightarrow> bool" where
  "reachable s \<longleftrightarrow> (\<exists>db. db_commands db = [] \<and> db_attempts db = [] \<and> step\<^sup>*\<^sup>* (db, Map.empty) s)"

subsection \<open>What the transactions do to commands and attempts\<close>

definition cmd_at :: "lifecycle_db \<Rightarrow> string \<Rightarrow> command_row option" where
  "cmd_at db i = map_of (map (\<lambda>c. (lr_command_id c, c)) (db_commands db)) i"

definition untransmitted :: "lifecycle_db \<Rightarrow> string \<Rightarrow> bool" where
  "untransmitted db i \<longleftrightarrow> (\<forall>a \<in> set (db_attempts db). at_command a = i \<longrightarrow> at_refresh a \<noteq> None)"

definition rewritten :: "(command_row \<Rightarrow> bool) \<Rightarrow> (command_row \<Rightarrow> command_row) \<Rightarrow> lifecycle_db \<Rightarrow> lifecycle_db \<Rightarrow> bool" where
  "rewritten P f db db' \<longleftrightarrow> db_attempts db' = db_attempts db \<and>
     db_commands db' = update_where P f (db_commands db)"

lemma cmd_at_id: "cmd_at db i = Some c \<Longrightarrow> lr_command_id c = i \<and> c \<in> set (db_commands db)"
  by (auto simp: cmd_at_def dest!: map_of_SomeD)

lemma cmd_at_mem:
  "distinct (map lr_command_id (db_commands db)) \<Longrightarrow> c \<in> set (db_commands db) \<Longrightarrow> cmd_at db (lr_command_id c) = Some c"
  unfolding cmd_at_def by (rule map_of_is_SomeI) (auto simp: comp_def)

lemma cmd_at_rewritten:
  assumes "rewritten P f db db'" and "\<And>c. lr_command_id (f c) = lr_command_id c"
  shows "cmd_at db' i = map_option (\<lambda>c. if P c then f c else c) (cmd_at db i)"
proof -
  have "map_of (map (\<lambda>c. (lr_command_id c, c)) (update_where P f cs)) i =
      map_option (\<lambda>c. if P c then f c else c) (map_of (map (\<lambda>c. (lr_command_id c, c)) cs) i)" for cs
    using assms(2) by (induction cs) auto
  then show ?thesis using assms(1) by (simp add: rewritten_def cmd_at_def)
qed

lemma untransmitted_rewritten: "rewritten P f db db' \<Longrightarrow> untransmitted db' i = untransmitted db i"
  by (simp add: rewritten_def untransmitted_def)

lemma proof_stmt_cases:
  assumes "proof_stmt env pid h actor (db, n) = Inr (db', n')"
  obtains rows where "db' = db\<lparr>db_proofs := rows\<rparr>"
  using proof_stmt_frame [OF assms] by auto

lemma authorize_cases:
  assumes "run_batch (authorize env actor row h purpose pid aid @ sts) (db, n) = Inr db'"
  obtains ps as m where "run_batch sts (db\<lparr>db_proofs := ps, db_authorizations := as\<rparr>, m) = Inr db'"
proof -
  from assms obtain db1 m1 db2 m2 where s: "proof_stmt env pid h actor (db, n) = Inr (db1, m1)"
      "insert_stmt env au_id \<lparr>au_id = aid, au_command = lr_command_id row, au_proof = pid, au_purpose = purpose\<rparr>
        db_authorizations db_authorizations_update (db1, m1) = Inr (db2, m2)"
      "run_batch sts (db2, m2) = Inr db'"
    by (auto simp: authorize_def rbind_eq_Inr)
  from s(1) obtain ps where "db1 = db\<lparr>db_proofs := ps\<rparr>" by (rule proof_stmt_cases)
  with s(2,3) show thesis using that by (auto simp: insert_stmt_Inr)
qed

lemma event_stmt_Inr [sql_simps]:
  "event_stmt env eid cid phase sha code (db, n) = Inr s \<longleftrightarrow>
    eid \<notin> ev_id ` set (db_events db) \<and>
    s = (db\<lparr>db_events := db_events db @
      [\<lparr>ev_id = eid, ev_command = cid, ev_phase = phase, ev_sha = sha, ev_code = code\<rparr>]\<rparr>, 1) \<and>
    le_guard env db (fst s)"
  by (simp add: event_stmt_def insert_stmt_Inr)

lemma claim_rewritten:
  assumes "claim_command env actor row h rec ids db = Inr db'"
  shows "rewritten (claimable row) (claimed env ids) db db' \<and> count_where (claimable row) (db_commands db) = 1"
proof -
  obtain ps as m where "run_batch
      [update_stmt env (claimable row) (claimed env ids) db_commands db_commands_update, assertChanged,
       event_stmt env (id_event ids) (lr_command_id row)
         (if rec then ''before-exact-reconciliation-post'' else ''before-action-post'') (lr_request_sha256 row) None]
      (db\<lparr>db_proofs := ps, db_authorizations := as\<rparr>, m) = Inr db'"
    using assms unfolding claim_command_def commit_Inr by (rule authorize_cases)
  then show ?thesis by (auto simp: rbind_eq_Inr sql_simps rewritten_def)
qed

lemma release_rewritten:
  "releaseUnsent env row token s sha None code eid db = Inr db' \<Longrightarrow>
    rewritten (command_held (lr_command_id row) token) (end_command s) db db'"
  by (auto simp: releaseUnsent_def commit_Inr rbind_eq_Inr sql_simps end_command_stmt_def rewritten_def)

lemma uncertain_rewritten:
  "uncertain env row token code eid db = Inr db' \<Longrightarrow>
    rewritten (command_held (lr_command_id row) token) (end_command Uncertain) db db'"
  by (auto simp: uncertain_def commit_Inr rbind_eq_Inr sql_simps end_command_stmt_def rewritten_def)

lemma acknowledge_rewritten:
  "acknowledge env row token r db = Inr db' \<Longrightarrow>
    rewritten (command_held (lr_command_id row) token) (end_command Acknowledged) db db'"
  by (auto simp: acknowledge_def commit_Inr rbind_eq_Inr sql_simps end_command_stmt_def rewritten_def)

text \<open>However a claim ends, it leaves its command prepared only when it never posted and never recovered.\<close>

lemma settle_rewritten:
  assumes "settle_answer env row ids rec began result db = Inr db' \<or> settle_catch env row ids rec began db = Inr db'"
  shows "\<exists>s. rewritten (command_held (lr_command_id row) (id_token ids)) (end_command s) db db' \<and>
    s \<in> {Prepared, Uncertain, Acknowledged} \<and> (s = Prepared \<longrightarrow> \<not> began \<and> \<not> rec)"
  using assms
  by (auto simp: settle_answer_def settle_catch_def return_state_def
      split: send_result.splits option.splits if_splits
      dest!: release_rewritten uncertain_rewritten acknowledge_rewritten)

lemma attempt_effect:
  assumes "gate_attempt env actor cx row token None db = Inr db'"
  shows "db_commands db' = db_commands db \<and> token \<notin> at_lease ` set (db_attempts db) \<and>
    db_attempts db' = db_attempts db @ [\<lparr>at_lease = token, at_command = lr_command_id row, at_refresh = None,
      at_sha = lr_request_sha256 row\<rparr>]"
  using assms by (auto simp: gate_attempt_def rbind_eq_Inr commit_Inr attempt_stmt_def sql_simps)

lemma abandon_rewritten:
  assumes "abandon_batch env actor row h None sha ids db = Inr db'"
  shows "rewritten (\<lambda>c. lr_command_id c = lr_command_id row \<and> lr_state c = Prepared \<and>
      \<not> list_ex (\<lambda>a. at_command a = lr_command_id row \<and> at_refresh a = None) (db_attempts db))
    (\<lambda>c. c\<lparr>lr_state := Rejected, lr_authorization := Some (id_authorization ids)\<rparr>) db db'"
proof -
  obtain ps as m where "run_batch
      [abandon_command_stmt env (lr_command_id row) (id_authorization ids), assertChanged,
       event_stmt env (id_event ids) (lr_command_id row) ''never-transmitted-preparation-abandoned'' sha None]
      (db\<lparr>db_proofs := ps, db_authorizations := as\<rparr>, m) = Inr db'"
    using assms by (auto simp: abandon_batch_def commit_Inr elim: authorize_cases)
  then show ?thesis
    by (auto simp: rbind_eq_Inr sql_simps abandon_command_stmt_def sql_write_Inr Let_def rewritten_def)
qed

end
