(* ===== verification/Native_Safety.thy ===== *)
theory Native_Safety
  imports Native_Interleaving
begin

section \<open>Invariant of interleaved submissions\<close>

text \<open>
  Every reachable state keeps the invariant below: a command that is prepared or rejected was
  never transmitted and no worker is past its claim; a first submission that holds its lease is
  alone, and has not transmitted before it began; attempts never outnumber claims.
\<close>

definition past :: "worker \<Rightarrow> bool" where
  "past k \<longleftrightarrow> wk_stage k \<noteq> W_decided"

definition inv_rows :: "lifecycle_db \<Rightarrow> workers \<Rightarrow> bool" where
  "inv_rows db ws \<longleftrightarrow> distinct (map lr_command_id (db_commands db)) \<and>
     (\<forall>w k. ws w = Some k \<and> past k \<longrightarrow> cmd_at db (wk_command k) \<noteq> None) \<and>
     (\<forall>a \<in> set (db_attempts db). at_refresh a = None \<longrightarrow> cmd_at db (at_command a) \<noteq> None)"

definition submit_state :: "bool \<Rightarrow> command_state \<Rightarrow> bool" where
  "submit_state rec s \<longleftrightarrow> (if rec then s \<in> {Sending, Uncertain} else s = Prepared)"

definition inv_workers :: "lifecycle_db \<Rightarrow> workers \<Rightarrow> bool" where
  "inv_workers db ws \<longleftrightarrow>
     (\<forall>w k w' k'. ws w = Some k \<and> ws w' = Some k' \<and> wk_token k = wk_token k' \<longrightarrow> w = w') \<and>
     (\<forall>w k. ws w = Some k \<longrightarrow> submit_state (wk_recovering k) (lr_state (wk_row k))) \<and>
     (\<forall>w k. ws w = Some k \<and> wk_began k \<longrightarrow> past k \<and> wk_token k \<in> at_lease ` set (db_attempts db))"

definition inv_idle :: "lifecycle_db \<Rightarrow> workers \<Rightarrow> bool" where
  "inv_idle db ws \<longleftrightarrow> (\<forall>i c. cmd_at db i = Some c \<and> lr_state c \<in> {Prepared, Rejected} \<longrightarrow>
     untransmitted db i \<and> (\<forall>w k. ws w = Some k \<and> past k \<longrightarrow> wk_command k \<noteq> i))"

definition holds_first :: "lifecycle_db \<Rightarrow> worker \<Rightarrow> bool" where
  "holds_first db k \<longleftrightarrow> past k \<and> \<not> wk_recovering k \<and>
     (\<exists>c. cmd_at db (wk_command k) = Some c \<and> command_held (wk_command k) (wk_token k) c)"

definition inv_first :: "lifecycle_db \<Rightarrow> workers \<Rightarrow> bool" where
  "inv_first db ws \<longleftrightarrow> (\<forall>w k. ws w = Some k \<and> holds_first db k \<longrightarrow>
     (\<forall>w' k'. ws w' = Some k' \<and> past k' \<and> wk_command k' = wk_command k \<longrightarrow> w' = w) \<and>
     (\<not> wk_began k \<longrightarrow> untransmitted db (wk_command k)))"

definition inv :: "lifecycle_db \<times> workers \<Rightarrow> bool" where
  "inv s \<longleftrightarrow> inv_rows (fst s) (snd s) \<and> inv_workers (fst s) (snd s) \<and> inv_idle (fst s) (snd s) \<and>
     inv_first (fst s) (snd s)"

lemmas inv_defs = inv_def inv_rows_def inv_workers_def inv_idle_def inv_first_def

subsection \<open>Steps that leave the database alone\<close>

text \<open>The workers past their claim in \<open>ws'\<close> are among those of \<open>ws\<close>.\<close>

definition fewer :: "workers \<Rightarrow> workers \<Rightarrow> bool" where
  "fewer ws ws' \<longleftrightarrow> (\<forall>w k'. ws' w = Some k' \<and> past k' \<longrightarrow>
     (\<exists>k. ws w = Some k \<and> past k \<and> wk_row k = wk_row k' \<and> wk_ids k = wk_ids k' \<and>
        wk_recovering k = wk_recovering k' \<and> wk_began k = wk_began k'))"

lemma fewer_inv:
  assumes "fewer ws ws'"
  shows "inv_rows db ws \<Longrightarrow> inv_rows db ws'" and "inv_idle db ws \<Longrightarrow> inv_idle db ws'"
    and "inv_first db ws \<Longrightarrow> inv_first db ws'"
proof -
  show "inv_rows db ws \<Longrightarrow> inv_rows db ws'"
    using assms unfolding inv_rows_def fewer_def by metis
  show "inv_idle db ws \<Longrightarrow> inv_idle db ws'"
    using assms unfolding inv_idle_def fewer_def by metis
  assume first: "inv_first db ws"
  show "inv_first db ws'"
    unfolding inv_first_def
  proof (intro allI impI)
    fix w k'
    assume k': "ws' w = Some k' \<and> holds_first db k'"
    then obtain k where k: "ws w = Some k" "past k" "wk_row k = wk_row k'" "wk_ids k = wk_ids k'"
        "wk_recovering k = wk_recovering k'" "wk_began k = wk_began k'"
      using assms unfolding fewer_def holds_first_def by metis
    then have "holds_first db k" using k' by (simp add: holds_first_def)
    with first k have alone: "\<forall>w' k'. ws w' = Some k' \<and> past k' \<and> wk_command k' = wk_command k \<longrightarrow> w' = w"
        "\<not> wk_began k \<longrightarrow> untransmitted db (wk_command k)"
      unfolding inv_first_def by blast+
    show "(\<forall>w' k''. ws' w' = Some k'' \<and> past k'' \<and> wk_command k'' = wk_command k' \<longrightarrow> w' = w) \<and>
      (\<not> wk_began k' \<longrightarrow> untransmitted db (wk_command k'))"
      using alone k assms unfolding fewer_def by metis
  qed
qed

lemma fewer_simps:
  "fewer ws (ws(w := None))"
  "ws w = Some k \<Longrightarrow> past k \<Longrightarrow> s \<noteq> W_decided \<Longrightarrow> fewer ws (ws(w \<mapsto> k\<lparr>wk_stage := s\<rparr>))"
  "ws w = None \<Longrightarrow> wk_stage k = W_decided \<Longrightarrow> fewer ws (ws(w \<mapsto> k))"
  by (auto simp: fewer_def past_def)

lemma inv_workers_drop: "inv_workers db ws \<Longrightarrow> inv_workers db (ws(w := None))"
proof -
  have "\<forall>v j. (ws(w := None)) v = Some j \<longrightarrow> ws v = Some j" by simp
  then show "inv_workers db ws \<Longrightarrow> inv_workers db (ws(w := None))"
    unfolding inv_workers_def by blast
qed

lemma inv_workers_stage:
  "inv_workers db ws \<Longrightarrow> ws w = Some k \<Longrightarrow> s \<noteq> W_decided \<Longrightarrow> inv_workers db (ws(w \<mapsto> k\<lparr>wk_stage := s\<rparr>))"
  unfolding inv_workers_def by (auto simp: past_def split: if_splits)

lemma inv_workers_more_attempts:
  "inv_workers db ws \<Longrightarrow> set (db_attempts db) \<subseteq> set (db_attempts db') \<Longrightarrow> inv_workers db' ws"
  unfolding inv_workers_def by blast

subsection \<open>Rewriting commands\<close>

lemma rewritten_rows:
  assumes "rewritten P f db db'" and "\<And>c. lr_command_id (f c) = lr_command_id c"
  shows "inv_rows db ws \<Longrightarrow> inv_rows db' ws" and "inv_workers db ws \<Longrightarrow> inv_workers db' ws"
proof -
  have attempts: "db_attempts db' = db_attempts db" using assms(1) by (simp add: rewritten_def)
  have "map lr_command_id (db_commands db') = map lr_command_id (db_commands db)"
    using assms by (simp add: rewritten_def map_update_where)
  moreover have "cmd_at db' i = None \<longleftrightarrow> cmd_at db i = None" for i
    by (simp add: cmd_at_rewritten [OF assms])
  ultimately show "inv_rows db ws \<Longrightarrow> inv_rows db' ws"
    unfolding inv_rows_def attempts by metis
  show "inv_workers db ws \<Longrightarrow> inv_workers db' ws" unfolding inv_workers_def attempts .
qed

lemma end_command_id [simp]: "lr_command_id (end_command s c) = lr_command_id c"
  "lr_state (end_command s c) = s" "lr_lease (end_command s c) = None"
  by (simp_all add: end_command_def)

lemma claimed_id [simp]: "lr_command_id (claimed env ids c) = lr_command_id c"
  "lr_state (claimed env ids c) = Sending" "lr_lease (claimed env ids c) = Some (id_token ids)"
  by (simp_all add: claimed_def)

lemma settle_keeps_inv:
  assumes inv: "inv (db, ws)" and w: "ws w = Some k" "past k"
    and rw: "rewritten (command_held (wk_command k) (wk_token k)) (end_command s) db db'"
    and s: "s \<in> {Prepared, Uncertain, Acknowledged}" "s = Prepared \<longrightarrow> \<not> wk_began k \<and> \<not> wk_recovering k"
  shows "inv (db', ws(w := None))"
proof -
  note at = cmd_at_rewritten [OF rw end_command_id(1)]
  note un = untransmitted_rewritten [OF rw]
  have parts: "inv_rows db ws" "inv_workers db ws" "inv_idle db ws" "inv_first db ws"
    using inv by (simp_all add: inv_def)
  have less: "fewer ws (ws(w := None))" by (rule fewer_simps)
  have idle: "inv_idle db' (ws(w := None))"
    unfolding inv_idle_def
  proof (intro allI impI)
    fix i c'
    assume c': "cmd_at db' i = Some c' \<and> lr_state c' \<in> {Prepared, Rejected}"
    then obtain c where c: "cmd_at db i = Some c"
      "c' = (if command_held (wk_command k) (wk_token k) c then end_command s c else c)"
      by (auto simp: at)
    show "untransmitted db' i \<and> (\<forall>w' k'. (ws(w := None)) w' = Some k' \<and> past k' \<longrightarrow> wk_command k' \<noteq> i)"
    proof (cases "command_held (wk_command k) (wk_token k) c")
      case True
      then have prep: "\<not> wk_began k" "\<not> wk_recovering k" using s c' c(2) by auto
      have i: "i = wk_command k" using True cmd_at_id [OF c(1)] by (simp add: command_held_def)
      then have "holds_first db k" using True c(1) prep w(2) by (auto simp: holds_first_def)
      with parts(4) w(1) prep(1) show ?thesis
        unfolding inv_first_def i un fun_upd_apply by (metis option.distinct(1))
    next
      case False
      then show ?thesis using parts(3) c c' unfolding inv_idle_def un fun_upd_apply by (metis option.distinct(1))
    qed
  qed
  have first: "inv_first db' ws"
    unfolding inv_first_def
  proof (intro allI impI)
    fix v j
    assume vj: "ws v = Some j \<and> holds_first db' j"
    then obtain c where "cmd_at db' (wk_command j) = Some c" "command_held (wk_command j) (wk_token j) c"
      by (auto simp: holds_first_def)
    then have "holds_first db j"
      using vj s(1) by (auto simp: holds_first_def at command_held_def split: if_splits)
    with parts(4) vj show "(\<forall>w' k'. ws w' = Some k' \<and> past k' \<and> wk_command k' = wk_command j \<longrightarrow> w' = v) \<and>
        (\<not> wk_began j \<longrightarrow> untransmitted db' (wk_command j))"
      unfolding inv_first_def un by blast
  qed
  show ?thesis
    using rewritten_rows [OF rw end_command_id(1)] parts(1,2) idle fewer_inv [OF less] first
    by (simp add: inv_def inv_workers_drop)
qed

lemma claim_keeps_inv:
  assumes inv: "inv (db, ws)" and w: "ws w = Some k" "wk_stage k = W_decided"
    and rw: "rewritten (claimable (wk_row k)) (claimed env (wk_ids k)) db db'"
    and one: "count_where (claimable (wk_row k)) (db_commands db) = 1"
  shows "inv (db', ws(w \<mapsto> k\<lparr>wk_stage := W_claimed\<rparr>))"
proof -
  let ?i = "wk_command k" and ?k = "k\<lparr>wk_stage := W_claimed\<rparr>"
  let ?ws = "ws(w \<mapsto> ?k)"
  note at = cmd_at_rewritten [OF rw claimed_id(1)]
  note un = untransmitted_rewritten [OF rw]
  have parts: "inv_rows db ws" "inv_workers db ws" "inv_idle db ws" "inv_first db ws"
    using inv by (simp_all add: inv_def)
  obtain c where c: "c \<in> set (db_commands db)" "claimable (wk_row k) c"
    using one count_where_pos [of "claimable (wk_row k)" "db_commands db"] by auto
  then have ci: "cmd_at db ?i = Some c"
    using cmd_at_mem [of db c] parts(1) by (simp add: inv_rows_def claimable_def)
  have unique: "\<not> claimable (wk_row k) d \<Longrightarrow> cmd_at db i = Some d \<Longrightarrow> i \<noteq> ?i" for d i
    using ci c(2) by auto
  have rows: "inv_rows db' ?ws"
    using rewritten_rows(1) [OF rw claimed_id(1) parts(1)] ci unfolding inv_rows_def
    by (auto simp: at)
  have workers: "inv_workers db' ?ws"
    using rewritten_rows(2) [OF rw claimed_id(1) parts(2)] w(1) by (rule inv_workers_stage) simp
  have idle: "inv_idle db' ?ws"
    unfolding inv_idle_def
  proof (intro allI impI)
    fix i c'
    assume c': "cmd_at db' i = Some c' \<and> lr_state c' \<in> {Prepared, Rejected}"
    then obtain c0 where c0: "cmd_at db i = Some c0"
        "c' = (if claimable (wk_row k) c0 then claimed env (wk_ids k) c0 else c0)"
      by (auto simp: at)
    then have "\<not> claimable (wk_row k) c0" using c' by auto
    with c0 have same: "cmd_at db i = Some c'" "\<not> claimable (wk_row k) c'" by simp_all
    then have "i \<noteq> ?i" using unique by blast
    moreover have "untransmitted db i \<and> (\<forall>v j. ws v = Some j \<and> past j \<longrightarrow> wk_command j \<noteq> i)"
      using parts(3) same c' unfolding inv_idle_def by blast
    ultimately show "untransmitted db' i \<and> (\<forall>v j. ?ws v = Some j \<and> past j \<longrightarrow> wk_command j \<noteq> i)"
      unfolding un by auto
  qed
  have first: "inv_first db' ?ws"
    unfolding inv_first_def
  proof (intro allI impI)
    fix v j
    assume vj: "?ws v = Some j \<and> holds_first db' j"
    show "(\<forall>w' k'. ?ws w' = Some k' \<and> past k' \<and> wk_command k' = wk_command j \<longrightarrow> w' = v) \<and>
        (\<not> wk_began j \<longrightarrow> untransmitted db' (wk_command j))"
    proof (cases "v = w")
      case True
      then have j: "j = ?k" using vj by simp
      then have "lr_state (wk_row k) = Prepared"
        using vj parts(2) w(1) by (auto simp: inv_workers_def holds_first_def submit_state_def)
      then have "lr_state c = Prepared" using c(2) by (simp add: claimable_def)
      then have "untransmitted db ?i \<and> (\<forall>v j. ws v = Some j \<and> past j \<longrightarrow> wk_command j \<noteq> ?i)"
        using parts(3) ci unfolding inv_idle_def by blast
      then show ?thesis using j True un by auto
    next
      case False
      then have wsv: "ws v = Some j" using vj by simp
      obtain d where d: "cmd_at db' (wk_command j) = Some d" "command_held (wk_command j) (wk_token j) d" "past j"
          "\<not> wk_recovering j"
        using vj by (auto simp: holds_first_def)
      then obtain d0 where d0: "cmd_at db (wk_command j) = Some d0"
          "d = (if claimable (wk_row k) d0 then claimed env (wk_ids k) d0 else d0)"
        by (auto simp: at)
      have "\<not> claimable (wk_row k) d0"
      proof
        assume "claimable (wk_row k) d0"
        then have "wk_token j = wk_token k" using d(2) d0(2) by (simp add: command_held_def)
        then show False using parts(2) wsv w(1) False unfolding inv_workers_def by blast
      qed
      then have "holds_first db j" "wk_command j \<noteq> ?i"
        using d d0 unique by (auto simp: holds_first_def)
      then show ?thesis using parts(4) wsv w(1) unfolding inv_first_def un by (auto split: if_splits)
    qed
  qed
  show ?thesis using rows workers idle first by (simp add: inv_def)
qed

lemma attempt_keeps_inv:
  assumes inv: "inv (db, ws)" and w: "ws w = Some k" "past k"
    and db': "db_commands db' = db_commands db" "db_attempts db' = db_attempts db @ [a]"
    and a: "at_lease a = wk_token k" "at_command a = wk_command k"
  shows "inv (db', ws(w \<mapsto> k\<lparr>wk_stage := W_claimed, wk_began := True\<rparr>))"
proof -
  let ?k = "k\<lparr>wk_stage := W_claimed, wk_began := True\<rparr>" and ?i = "wk_command k"
  let ?ws = "ws(w \<mapsto> ?k)"
  have at: "cmd_at db' i = cmd_at db i" for i by (simp add: cmd_at_def db'(1))
  have un: "untransmitted db' i" if "i \<noteq> ?i" "untransmitted db i" for i
    using that by (simp add: untransmitted_def db'(2) a)
  have parts: "inv_rows db ws" "inv_workers db ws" "inv_idle db ws" "inv_first db ws"
    using inv by (simp_all add: inv_def)
  have pk: "past ?k" by (simp add: past_def)
  have rows: "inv_rows db' ?ws"
    using parts(1) w pk unfolding inv_rows_def at db' by (auto simp: a)
  have workers: "inv_workers db' ?ws"
    using parts(2) w pk unfolding inv_workers_def db'(2) by (auto simp: a split: if_splits)
  have idle: "inv_idle db' ?ws"
    unfolding inv_idle_def at
  proof (intro allI impI)
    fix i c'
    assume "cmd_at db i = Some c' \<and> lr_state c' \<in> {Prepared, Rejected}"
    then have "untransmitted db i \<and> (\<forall>v j. ws v = Some j \<and> past j \<longrightarrow> wk_command j \<noteq> i)"
      using parts(3) unfolding inv_idle_def by blast
    moreover from this w have "i \<noteq> ?i" by blast
    ultimately show "untransmitted db' i \<and> (\<forall>v j. ?ws v = Some j \<and> past j \<longrightarrow> wk_command j \<noteq> i)"
      using un by auto
  qed
  have first: "inv_first db' ?ws"
    unfolding inv_first_def
  proof (intro allI impI)
    fix v j
    assume vj: "?ws v = Some j \<and> holds_first db' j"
    show "(\<forall>w' k'. ?ws w' = Some k' \<and> past k' \<and> wk_command k' = wk_command j \<longrightarrow> w' = v) \<and>
        (\<not> wk_began j \<longrightarrow> untransmitted db' (wk_command j))"
    proof (cases "v = w")
      case True
      then have "holds_first db k" using vj w(2) by (auto simp: holds_first_def at)
      then have "\<forall>w' k'. ws w' = Some k' \<and> past k' \<and> wk_command k' = ?i \<longrightarrow> w' = w"
        using parts(4) w(1) unfolding inv_first_def by blast
      then show ?thesis using True vj by auto
    next
      case False
      then have j: "ws v = Some j" "holds_first db j" using vj by (auto simp: holds_first_def at)
      then have alone: "\<forall>w' k'. ws w' = Some k' \<and> past k' \<and> wk_command k' = wk_command j \<longrightarrow> w' = v"
          "\<not> wk_began j \<longrightarrow> untransmitted db (wk_command j)"
        using parts(4) unfolding inv_first_def by blast+
      then have "wk_command j \<noteq> ?i" using w False by metis
      then show ?thesis using alone un by auto
    qed
  qed
  show ?thesis using rows workers idle first by (simp add: inv_def)
qed

lemma insert_keeps_inv:
  assumes inv: "inv (db, ws)" and db': "db_commands db' = db_commands db @ [r]" "db_attempts db' = db_attempts db"
    and r: "lr_command_id r \<notin> lr_command_id ` set (db_commands db)"
  shows "inv (db', ws)"
proof -
  have parts: "inv_rows db ws" "inv_workers db ws" "inv_idle db ws" "inv_first db ws"
    using inv by (simp_all add: inv_def)
  have old: "cmd_at db' i = Some c" if "cmd_at db i = Some c" for i c
    using that by (simp add: cmd_at_def db'(1) map_add_Some_iff)
  have new: "cmd_at db' i = Some c \<Longrightarrow> cmd_at db i = Some c \<or> cmd_at db i = None \<and> i = lr_command_id r" for i c
    by (auto simp: cmd_at_def db'(1) map_add_Some_iff split: if_splits)
  have un: "untransmitted db' i = untransmitted db i" for i by (simp add: untransmitted_def db'(2))
  have fresh: "untransmitted db i \<and> (\<forall>v j. ws v = Some j \<and> past j \<longrightarrow> wk_command j \<noteq> i)"
    if "cmd_at db i = None" for i
    using parts(1) that unfolding inv_rows_def untransmitted_def by metis
  have "inv_rows db' ws"
    using parts(1) r unfolding inv_rows_def db'
    by (simp add: db'(2)) (metis old not_None_eq)
  moreover have "inv_workers db' ws" using parts(2) unfolding inv_workers_def db'(2) .
  moreover have "inv_idle db' ws"
    unfolding inv_idle_def un using parts(3) fresh new unfolding inv_idle_def by blast
  moreover have "inv_first db' ws"
  proof -
    have "holds_first db j" if j: "holds_first db' j" "ws v = Some j" for v j
    proof -
      have "cmd_at db (wk_command j) \<noteq> None"
        using j parts(1) unfolding inv_rows_def holds_first_def by blast
      then have "cmd_at db' (wk_command j) = cmd_at db (wk_command j)" using old by fastforce
      then show ?thesis using j(1) by (simp add: holds_first_def)
    qed
    then show ?thesis using parts(4) unfolding inv_first_def un by blast
  qed
  ultimately show ?thesis by (simp add: inv_def)
qed

subsection \<open>Transactions of the other operations\<close>

definition posts :: "lifecycle_db \<Rightarrow> attempt_row list" where
  "posts db = filter (\<lambda>a. at_refresh a = None) (db_attempts db)"

definition calm_row :: "command_row \<Rightarrow> command_row \<Rightarrow> bool" where
  "calm_row c c' \<longleftrightarrow> lr_command_id c' = lr_command_id c \<and> lr_transmissions c' = lr_transmissions c \<and>
     (lr_state c' \<in> {Prepared, Rejected} \<longrightarrow> lr_state c \<in> {Prepared, Rejected}) \<and>
     (lr_state c' = Sending \<longrightarrow> c' = c)"

definition calm :: "lifecycle_db \<Rightarrow> lifecycle_db \<Rightarrow> bool" where
  "calm db db' \<longleftrightarrow> posts db' = posts db \<and> set (db_attempts db) \<subseteq> set (db_attempts db') \<and>
     list_all2 calm_row (db_commands db) (db_commands db')"

lemma calm_refl: "calm db db"
  by (simp add: calm_def calm_row_def list_all2_refl)

lemma calm_trans: "calm a b \<Longrightarrow> calm b c \<Longrightarrow> calm a c"
  unfolding calm_def by (auto elim: list_all2_trans [rotated] simp: calm_row_def)

lemma commit_calm: "list_all (stmt_keeps calm) sts \<Longrightarrow> commit sts db = Inr db' \<Longrightarrow> calm db db'"
  unfolding commit_Inr by (rule run_batch_keeps [OF calm_refl calm_trans])

lemma same_calm: "db_commands db' = db_commands db \<Longrightarrow> db_attempts db' = db_attempts db \<Longrightarrow> calm db db'"
  using calm_refl [of db] by (simp add: calm_def posts_def)

lemma frame_calm:
  assumes "\<And>g db. db_commands (upd g db) = db_commands db" "\<And>g db. db_attempts (upd g db) = db_attempts db"
  shows "stmt_keeps calm (update_stmt env P f get upd)" and "stmt_keeps calm (insert_stmt env key r get upd)"
  using assms by (auto simp: stmt_keeps_def sql_simps intro!: same_calm)

lemma update_calm:
  assumes "\<And>r. P r \<Longrightarrow> calm_row r (f r)"
  shows "stmt_keeps calm (update_stmt env P f db_commands db_commands_update)"
proof -
  have "calm_row r r" for r by (simp add: calm_row_def)
  then show ?thesis
    using assms by (auto simp: stmt_keeps_def sql_simps calm_def posts_def update_where_def list_all2_conv_all_nth)
qed

lemma basic_calm [simp]:
  "stmt_keeps calm assertChanged" "stmt_keeps calm (event_stmt env eid cid phase sha code)"
  "stmt_keeps calm (proof_stmt env pid h actor)"
  "stmt_keeps calm (sql_write (le_guard env) (\<lambda>db. Some (db\<lparr>db_revisions := db_revisions db @ [rv]\<rparr>, n)))"
  by (auto simp: stmt_keeps_def sql_simps sql_write_Inr calm_refl dest!: proof_stmt_frame intro!: same_calm)

lemma authorize_calm [simp]: "list_all (stmt_keeps calm) (authorize env actor row h purpose pid aid)"
  by (simp add: authorize_def frame_calm)

lemma set_state_calm:
  "(\<And>c. lr_state c = s \<Longrightarrow> calm_row c (f c)) \<Longrightarrow> stmt_keeps calm (set_state_stmt env cid s f)"
  unfolding set_state_stmt_def by (rule update_calm) simp

lemma finish_calm [simp]:
  "stmt_keeps calm (update_stmt env (\<lambda>c. lr_command_id c = cid \<and> lr_state c = Activating \<and> lr_lease c = Some t)
     (end_command Activated) db_commands db_commands_update)"
  by (rule update_calm) (simp add: calm_row_def end_command_def)

lemma activation_calm: "commit (activation_batch env actor row ch h read binding ids) db = Inr db' \<Longrightarrow> calm db db'"
  by (rule commit_calm [rotated], assumption)
    (simp add: activation_batch_def frame_calm set_state_calm calm_row_def)

lemma retire_calm: "commit (retire_batch env actor row h read ids) db = Inr db' \<Longrightarrow> calm db db'"
  by (rule commit_calm [rotated], assumption)
    (simp add: retire_batch_def frame_calm set_state_calm calm_row_def)

lemma abandon_calm: "abandon_batch env actor row h None sha ids db = Inr db' \<Longrightarrow> calm db db'"
  by (drule abandon_rewritten)
    (auto simp: rewritten_def calm_def posts_def update_where_def list_all2_conv_all_nth calm_row_def)

lemma other_calm: "other_writes db db' \<Longrightarrow> calm db db'"
  by (auto simp: other_writes_def calm_def posts_def calm_row_def list_all2_refl filter_empty_conv)

lemma calm_cmd_at:
  assumes "calm db db'"
  shows "rel_option calm_row (cmd_at db i) (cmd_at db' i)"
proof -
  have "list_all2 calm_row cs cs' \<Longrightarrow> rel_option calm_row
      (map_of (map (\<lambda>c. (lr_command_id c, c)) cs) i) (map_of (map (\<lambda>c. (lr_command_id c, c)) cs') i)" for cs cs'
    by (induction rule: list_all2_induct) (auto simp: calm_row_def)
  then show ?thesis using assms by (simp add: calm_def cmd_at_def)
qed

lemma calm_ids: "calm db db' \<Longrightarrow> map lr_command_id (db_commands db') = map lr_command_id (db_commands db)"
proof -
  have "list_all2 calm_row cs cs' \<Longrightarrow> map lr_command_id cs' = map lr_command_id cs" for cs cs'
    by (induction rule: list_all2_induct) (auto simp: calm_row_def)
  then show "calm db db' \<Longrightarrow> map lr_command_id (db_commands db') = map lr_command_id (db_commands db)"
    by (simp add: calm_def)
qed

lemma untransmitted_posts: "untransmitted db i \<longleftrightarrow> (\<forall>a \<in> set (posts db). at_command a \<noteq> i)"
  by (auto simp: untransmitted_def posts_def)

lemma calm_keeps_inv:
  assumes inv: "inv (db, ws)" and calm: "calm db db'"
  shows "inv (db', ws)"
proof -
  have parts: "inv_rows db ws" "inv_workers db ws" "inv_idle db ws" "inv_first db ws"
    using inv by (simp_all add: inv_def)
  have posts: "posts db' = posts db" using calm by (simp add: calm_def)
  have un: "untransmitted db' i = untransmitted db i" for i by (simp add: untransmitted_posts posts)
  have none: "cmd_at db' i = None \<longleftrightarrow> cmd_at db i = None" for i
    using calm_cmd_at [OF calm, of i] by (auto simp: rel_option_iff split: option.splits)
  have some: "\<exists>c. cmd_at db i = Some c \<and> calm_row c c'" if "cmd_at db' i = Some c'" for i c'
    using calm_cmd_at [OF calm, of i] that by (auto simp: rel_option_iff split: option.splits)
  have rows_posts: "(\<forall>a \<in> set (db_attempts d). at_refresh a = None \<longrightarrow> Q a) \<longleftrightarrow> (\<forall>a \<in> set (posts d). Q a)" for d Q
    by (auto simp: posts_def)
  have "inv_rows db' ws"
    using parts(1) unfolding inv_rows_def rows_posts posts calm_ids [OF calm] none .
  moreover have "inv_workers db' ws"
    using parts(2) calm inv_workers_more_attempts unfolding calm_def by blast
  moreover have "inv_idle db' ws"
    unfolding inv_idle_def un
  proof (intro allI impI)
    fix i c'
    assume "cmd_at db' i = Some c' \<and> lr_state c' \<in> {Prepared, Rejected}"
    then obtain c where "cmd_at db i = Some c" "lr_state c \<in> {Prepared, Rejected}"
      using some [of i c'] by (auto simp: calm_row_def)
    with parts(3) show "untransmitted db i \<and> (\<forall>w k. ws w = Some k \<and> past k \<longrightarrow> wk_command k \<noteq> i)"
      unfolding inv_idle_def by blast
  qed
  moreover have "inv_first db' ws"
  proof -
    have "holds_first db j" if j: "holds_first db' j" for j
    proof -
      obtain c' where "cmd_at db' (wk_command j) = Some c'" "command_held (wk_command j) (wk_token j) c'"
        using j by (auto simp: holds_first_def)
      then have "cmd_at db (wk_command j) = Some c'" using some by (auto simp: calm_row_def command_held_def)
      then show ?thesis using j \<open>command_held (wk_command j) (wk_token j) c'\<close> by (auto simp: holds_first_def)
    qed
    then show ?thesis using parts(4) unfolding inv_first_def un by blast
  qed
  ultimately show ?thesis by (simp add: inv_def)
qed

subsection \<open>Reachable states\<close>

lemma past_stage: "wk_stage k = W_claimed \<or> wk_stage k = W_checked \<or> wk_stage k = W_failing \<Longrightarrow> past k"
  by (auto simp: past_def)

lemma settle_step_inv:
  assumes "inv (db, ws)" "ws w = Some k" "past k"
    and "settle_answer env (wk_row k) (wk_ids k) (wk_recovering k) (wk_began k) result db = Inr db' \<or>
      settle_catch env (wk_row k) (wk_ids k) (wk_recovering k) (wk_began k) db = Inr db'"
  shows "inv (db', ws(w := None))"
  using settle_rewritten [OF assms(4)] settle_keeps_inv [OF assms(1-3)] by blast

lemma fewer_keeps_inv:
  "inv (db, ws) \<Longrightarrow> fewer ws ws' \<Longrightarrow> inv_workers db ws' \<Longrightarrow> inv (db, ws')"
  by (simp add: inv_def fewer_inv)

lemma prepare_effect:
  assumes "commit [proof_stmt env cid h actor, insert_command env row] db = Inr db'"
  shows "db_commands db' = db_commands db @ [row] \<and> db_attempts db' = db_attempts db \<and>
    lr_command_id row \<notin> lr_command_id ` set (db_commands db)"
proof -
  obtain db1 n where "proof_stmt env cid h actor (db, 0) = Inr (db1, n)" "\<exists>m. insert_command env row (db1, n) = Inr (db', m)"
    using assms by (auto simp: commit_Inr rbind_eq_Inr)
  then show ?thesis by (auto elim!: proof_stmt_cases simp: insert_command_Inr)
qed

lemma inv_workers_add:
  assumes ok: "inv_workers db ws" and fresh: "token_fresh db ws (wk_token k)"
    and state: "submit_state (wk_recovering k) (lr_state (wk_row k))"
    and began: "\<not> wk_began k"
  shows "inv_workers db (ws(w \<mapsto> k))"
proof -
  have other: "ws v = Some j \<Longrightarrow> wk_token j \<noteq> wk_token k" for v j
    using fresh unfolding token_fresh_def by blast
  have "v = v'" if "(ws(w \<mapsto> k)) v = Some j \<and> (ws(w \<mapsto> k)) v' = Some j' \<and> wk_token j = wk_token j'" for v j v' j'
  proof (cases "v = w \<or> v' = w")
    case True
    then show ?thesis using that other [of v j] other [of v' j'] by (auto split: if_splits)
  next
    case False
    then have "ws v = Some j" "ws v' = Some j'" "wk_token j = wk_token j'" using that by auto
    then show ?thesis using ok unfolding inv_workers_def by blast
  qed
  moreover have "submit_state (wk_recovering j) (lr_state (wk_row j)) \<and>
      (wk_began j \<longrightarrow> past j \<and> wk_token j \<in> at_lease ` set (db_attempts db))" if "(ws(w \<mapsto> k)) v = Some j" for v j
  proof (cases "v = w")
    case True
    then have "j = k" using that by simp
    then show ?thesis using state began by simp
  next
    case False
    then have "ws v = Some j" using that by simp
    then show ?thesis using ok unfolding inv_workers_def by blast
  qed
  ultimately show ?thesis unfolding inv_workers_def by blast
qed

lemma step_keeps_inv: "step s s' \<Longrightarrow> inv s \<Longrightarrow> inv s'"
proof (induction rule: step.induct)
  case (decide ws w db ids env actor cx cid review reconcile row h rec)
  let ?k = "\<lparr>wk_row = row, wk_recovering = rec, wk_ids = ids, wk_stage = W_decided, wk_began = False\<rparr>"
  have "submit_state rec (lr_state row)"
    using decide_submit_state [OF decide(3)] unfolding submit_state_def by (rule conjunct2)
  moreover have "inv_workers db ws" using decide.prems by (simp add: inv_def)
  ultimately have "inv_workers db (ws(w \<mapsto> ?k))"
    using decide(2) by (intro inv_workers_add) simp_all
  then show ?case using fewer_keeps_inv [OF decide.prems fewer_simps(3) [of ws w ?k]] decide(1) by simp
next
  case (claim ws w k env actor h db db')
  then show ?case using claim_rewritten [OF claim(3)] claim_keeps_inv by blast
next
  case (check ws w k env actor cx enabled db)
  then show ?case
    by (intro fewer_keeps_inv [OF check.prems fewer_simps(2)] inv_workers_stage) (auto simp: inv_def past_def)
next
  case (attempt ws w k env actor cx db db')
  then show ?case
    using attempt_effect [OF attempt(3)] by (intro attempt_keeps_inv [OF attempt.prems attempt(1)]) (auto simp: past_def)
next
  case (answer ws w k env result db db')
  then show ?case by (intro settle_step_inv [OF answer.prems answer(1)]) (auto simp: past_def)
next
  case (answer_fails ws w k env result db e)
  then show ?case
    by (intro fewer_keeps_inv [OF answer_fails.prems fewer_simps(2)] inv_workers_stage) (auto simp: inv_def past_def)
next
  case (catch ws w k env db db')
  then show ?case by (intro settle_step_inv [OF catch.prems catch(1)]) (auto simp: past_def)
next
  case (stop db ws w)
  then show ?case by (intro fewer_keeps_inv [OF stop.prems fewer_simps(1)] inv_workers_drop) (simp add: inv_def)
next
  case (prepare env cid h actor cx c action db db' ws)
  then show ?case using prepare_effect [OF prepare(1)] insert_keeps_inv by blast
next
  case (abandon env actor row h sha ids db db' ws)
  then show ?case using calm_keeps_inv abandon_calm by blast
next
  case (activate env actor row ch h read binding aids db db' ws)
  then show ?case using calm_keeps_inv activation_calm by blast
next
  case (retire env actor row h read ids db db' ws)
  then show ?case using calm_keeps_inv retire_calm by blast
next
  case (other db db' ws)
  then show ?case using calm_keeps_inv other_calm by blast
qed

lemma steps_keep_inv: "step\<^sup>*\<^sup>* s s' \<Longrightarrow> inv s \<Longrightarrow> inv s'"
  by (induction rule: rtranclp_induct) (auto intro: step_keeps_inv)

lemma start_inv: "db_commands db = [] \<Longrightarrow> db_attempts db = [] \<Longrightarrow> inv (db, Map.empty)"
  by (simp add: inv_defs cmd_at_def)

lemma reachable_inv: "reachable s \<Longrightarrow> inv s"
  unfolding reachable_def using start_inv steps_keep_inv by blast

subsection \<open>Attempts never outnumber claims\<close>

definition posts_of :: "lifecycle_db \<Rightarrow> string \<Rightarrow> nat" where
  "posts_of db i = length (filter (\<lambda>a. at_command a = i) (posts db))"

definition waiting :: "workers \<Rightarrow> string \<Rightarrow> nat set" where
  "waiting ws i = {w. \<exists>k. ws w = Some k \<and> past k \<and> \<not> wk_began k \<and> wk_command k = i}"

definition inv_count :: "lifecycle_db \<times> workers \<Rightarrow> bool" where
  "inv_count s \<longleftrightarrow> finite (dom (snd s)) \<and>
     (\<forall>i c. cmd_at (fst s) i = Some c \<longrightarrow> posts_of (fst s) i + card (waiting (snd s) i) \<le> lr_transmissions c)"

lemma waiting_finite: "finite (dom ws) \<Longrightarrow> finite (waiting ws i)"
  by (rule finite_subset [of _ "dom ws"]) (auto simp: waiting_def)

lemma waiting_fewer: "finite (dom ws) \<Longrightarrow> fewer ws ws' \<Longrightarrow> card (waiting ws' i) \<le> card (waiting ws i)"
proof -
  assume fin: "finite (dom ws)" and less: "fewer ws ws'"
  have "waiting ws' i \<subseteq> waiting ws i" using less unfolding fewer_def waiting_def by fastforce
  then show ?thesis using card_mono waiting_finite [OF fin] by blast
qed

lemma fewer_keeps_count:
  assumes "inv_count (db, ws)" "fewer ws ws'" "finite (dom ws')"
    and "\<And>i c'. cmd_at db' i = Some c' \<Longrightarrow> \<exists>c. cmd_at db i = Some c \<and> lr_transmissions c' = lr_transmissions c"
    and "posts db' = posts db"
  shows "inv_count (db', ws')"
proof -
  have "posts_of db' i + card (waiting ws' i) \<le> lr_transmissions c'" if c': "cmd_at db' i = Some c'" for i c'
  proof -
    obtain c where c: "cmd_at db i = Some c" "lr_transmissions c' = lr_transmissions c" using assms(4) [OF c'] by blast
    have "posts_of db i + card (waiting ws i) \<le> lr_transmissions c" using assms(1) c(1) by (simp add: inv_count_def)
    moreover have "card (waiting ws' i) \<le> card (waiting ws i)"
      using waiting_fewer [OF _ assms(2)] assms(1) by (simp add: inv_count_def)
    ultimately show ?thesis using c(2) by (simp add: posts_of_def assms(5))
  qed
  then show ?thesis using assms(3) by (simp add: inv_count_def)
qed

lemma fewer_refl: "fewer ws ws"
  by (auto simp: fewer_def)

lemma calm_keeps_count: "inv_count (db, ws) \<Longrightarrow> calm db db' \<Longrightarrow> inv_count (db', ws)"
proof (rule fewer_keeps_count [OF _ fewer_refl])
  assume calm: "calm db db'"
  show "\<exists>c. cmd_at db i = Some c \<and> lr_transmissions c' = lr_transmissions c" if "cmd_at db' i = Some c'" for i c'
    using calm_cmd_at [OF calm, of i] that by (auto simp: calm_row_def rel_option_iff split: option.splits)
qed (auto simp: calm_def inv_count_def)

lemma settle_keeps_count:
  assumes "inv_count (db, ws)" and "settle_answer env row ids rec began result db = Inr db' \<or>
      settle_catch env row ids rec began db = Inr db'"
  shows "inv_count (db', ws(w := None))"
proof -
  obtain s where rw: "rewritten (command_held (lr_command_id row) (id_token ids)) (end_command s) db db'"
    using settle_rewritten [OF assms(2)] by blast
  have tr: "lr_transmissions (end_command s c) = lr_transmissions c" for c by (simp add: end_command_def)
  show ?thesis
  proof (rule fewer_keeps_count [OF assms(1) fewer_simps(1)])
    show "\<exists>c. cmd_at db i = Some c \<and> lr_transmissions c' = lr_transmissions c" if "cmd_at db' i = Some c'" for i c'
      using that cmd_at_rewritten [OF rw end_command_id(1), of i] by (auto simp: tr split: if_splits)
  qed (use rw assms(1) in \<open>auto simp: rewritten_def posts_def inv_count_def\<close>)
qed

lemma claim_keeps_count:
  assumes inv: "inv (db, ws)" and count: "inv_count (db, ws)" and w: "ws w = Some k" "wk_stage k = W_decided"
    and rw: "rewritten (claimable (wk_row k)) (claimed env (wk_ids k)) db db'"
    and one: "count_where (claimable (wk_row k)) (db_commands db) = 1"
  shows "inv_count (db', ws(w \<mapsto> k\<lparr>wk_stage := W_claimed\<rparr>))"
proof -
  let ?ws = "ws(w \<mapsto> k\<lparr>wk_stage := W_claimed\<rparr>)" and ?i = "wk_command k"
  have fin: "finite (dom ws)" using count by (simp add: inv_count_def)
  have posts: "posts_of db' i = posts_of db i" for i using rw by (simp add: rewritten_def posts_of_def posts_def)
  have wait: "waiting ?ws i \<subseteq> (if i = ?i then insert w (waiting ws i) else waiting ws i)" for i
    by (auto simp: waiting_def)
  obtain d where d: "d \<in> set (db_commands db)" "claimable (wk_row k) d"
    using one count_where_pos [of "claimable (wk_row k)" "db_commands db"] by auto
  then have hit: "cmd_at db ?i = Some d" "claimable (wk_row k) d"
    using cmd_at_mem [of db d] inv by (auto simp: inv_def inv_rows_def claimable_def)
  have "posts_of db' i + card (waiting ?ws i) \<le> lr_transmissions c'" if c': "cmd_at db' i = Some c'" for i c'
  proof -
    obtain c where c: "cmd_at db i = Some c"
        "c' = (if claimable (wk_row k) c then claimed env (wk_ids k) c else c)"
      using c' cmd_at_rewritten [OF rw claimed_id(1), of i] by auto
    have le: "posts_of db i + card (waiting ws i) \<le> lr_transmissions c" using count c(1) by (simp add: inv_count_def)
    show ?thesis
    proof (cases "claimable (wk_row k) c")
      case True
      have "card (waiting ?ws i) \<le> card (insert w (waiting ws i))"
        using wait [of i] waiting_finite [OF fin] by (intro card_mono) (auto split: if_splits)
      also have "\<dots> \<le> Suc (card (waiting ws i))" by (rule card_insert_le_m1) simp_all
      finally show ?thesis using le c(2) True posts by (simp add: claimed_def)
    next
      case False
      then have "i \<noteq> ?i" using hit c(1) by auto
      then have "card (waiting ?ws i) \<le> card (waiting ws i)"
        using wait [of i] waiting_finite [OF fin] by (intro card_mono) auto
      then show ?thesis using le c(2) False posts by simp
    qed
  qed
  then show ?thesis using fin by (simp add: inv_count_def)
qed

lemma attempt_keeps_count:
  assumes inv: "inv (db, ws)" and count: "inv_count (db, ws)" and w: "ws w = Some k" "past k"
    and db': "db_commands db' = db_commands db" "db_attempts db' = db_attempts db @ [a]"
    and a: "at_lease a = wk_token k" "at_command a = wk_command k" "at_refresh a = None"
    and new: "wk_token k \<notin> at_lease ` set (db_attempts db)"
  shows "inv_count (db', ws(w \<mapsto> k\<lparr>wk_stage := W_claimed, wk_began := True\<rparr>))"
proof -
  let ?ws = "ws(w \<mapsto> k\<lparr>wk_stage := W_claimed, wk_began := True\<rparr>)" and ?i = "wk_command k"
  have fin: "finite (dom ws)" using count by (simp add: inv_count_def)
  have "\<not> wk_began k" using inv w(1) new by (auto simp: inv_def inv_workers_def)
  then have member: "w \<in> waiting ws ?i" using w by (auto simp: waiting_def)
  have wait: "waiting ?ws i \<subseteq> waiting ws i - {w}" for i
    by (auto simp: waiting_def split: if_splits)
  have posts: "posts_of db' i = posts_of db i + (if i = ?i then 1 else 0)" for i
    by (simp add: posts_of_def posts_def db'(2) a)
  have "posts_of db' i + card (waiting ?ws i) \<le> lr_transmissions c" if c: "cmd_at db' i = Some c" for i c
  proof -
    have le: "posts_of db i + card (waiting ws i) \<le> lr_transmissions c"
      using count c by (simp add: inv_count_def cmd_at_def db'(1))
    have card: "card (waiting ?ws i) \<le> card (waiting ws i - {w})"
      using wait waiting_finite [OF fin] by (intro card_mono) auto
    show ?thesis
    proof (cases "i = ?i")
      case True
      have "card (waiting ws i) = Suc (card (waiting ws i - {w}))"
        using member True waiting_finite [OF fin] by (simp only: card_Suc_Diff1)
      then show ?thesis using le card True posts [of i] by simp
    next
      case False
      have "card (waiting ws i - {w}) \<le> card (waiting ws i)"
        using waiting_finite [OF fin] by (intro card_mono) auto
      then show ?thesis using le card False posts [of i] by simp
    qed
  qed
  then show ?thesis using fin by (simp add: inv_count_def)
qed

lemma insert_keeps_count:
  assumes inv: "inv (db, ws)" and count: "inv_count (db, ws)"
    and db': "db_commands db' = db_commands db @ [r]" "db_attempts db' = db_attempts db"
  shows "inv_count (db', ws)"
proof -
  have posts: "posts_of db' i = posts_of db i" for i by (simp add: posts_of_def posts_def db'(2))
  have "posts_of db' i + card (waiting ws i) \<le> lr_transmissions c" if c: "cmd_at db' i = Some c" for i c
  proof (cases "cmd_at db i")
    case None
    have "waiting ws i = {}"
      using inv None unfolding inv_def inv_rows_def waiting_def fst_conv snd_conv by blast
    moreover have "posts_of db i = 0"
      using inv None unfolding inv_def inv_rows_def posts_of_def posts_def by (auto simp: filter_empty_conv)
    ultimately show ?thesis using posts by simp
  next
    case (Some d)
    then have "cmd_at db' i = Some d" by (simp add: cmd_at_def db'(1) map_add_Some_iff)
    then show ?thesis using count Some c posts by (simp add: inv_count_def)
  qed
  then show ?thesis using count by (simp add: inv_count_def)
qed

lemma same_db_count: "inv_count (db, ws) \<Longrightarrow> fewer ws ws' \<Longrightarrow> finite (dom ws') \<Longrightarrow> inv_count (db, ws')"
  by (rule fewer_keeps_count) auto

lemma count_finite: "inv_count (db, ws) \<Longrightarrow> finite (dom (ws(w := x)))"
  by (cases x) (auto simp: inv_count_def)

lemma step_keeps_count: "step s s' \<Longrightarrow> inv s \<Longrightarrow> inv_count s \<Longrightarrow> inv_count s'"
proof (induction rule: step.induct)
  case (decide ws w db ids env actor cx cid review reconcile row h rec)
  then show ?case
    by (intro same_db_count [OF decide.prems(2) fewer_simps(3)] count_finite [OF decide.prems(2)]) simp_all
next
  case (claim ws w k env actor h db db')
  then show ?case using claim_rewritten [OF claim(3)] claim_keeps_count by blast
next
  case (check ws w k env actor cx enabled db)
  then show ?case
    by (intro same_db_count [OF check.prems(2) fewer_simps(2)] count_finite [OF check.prems(2)]) (auto simp: past_def)
next
  case (attempt ws w k env actor cx db db')
  then show ?case
    using attempt_effect [OF attempt(3)]
    by (intro attempt_keeps_count [OF attempt.prems attempt(1)]) (auto simp: past_def)
next
  case (answer ws w k env result db db')
  then show ?case by (intro settle_keeps_count [OF answer.prems(2)]) blast
next
  case (answer_fails ws w k env result db e)
  then show ?case
    by (intro same_db_count [OF answer_fails.prems(2) fewer_simps(2)] count_finite [OF answer_fails.prems(2)])
      (auto simp: past_def)
next
  case (catch ws w k env db db')
  then show ?case by (intro settle_keeps_count [OF catch.prems(2)]) blast
next
  case (stop db ws w)
  then show ?case by (intro same_db_count [OF stop.prems(2) fewer_simps(1)] count_finite [OF stop.prems(2)])
next
  case (prepare env cid h actor cx c action db db' ws)
  then show ?case using prepare_effect [OF prepare(1)] insert_keeps_count by blast
next
  case (abandon env actor row h sha ids db db' ws)
  then show ?case using calm_keeps_count abandon_calm by blast
next
  case (activate env actor row ch h read binding aids db db' ws)
  then show ?case using calm_keeps_count activation_calm by blast
next
  case (retire env actor row h read ids db db' ws)
  then show ?case using calm_keeps_count retire_calm by blast
next
  case (other db db' ws)
  then show ?case using calm_keeps_count other_calm by blast
qed

lemma steps_keep_count: "step\<^sup>*\<^sup>* s s' \<Longrightarrow> inv s \<Longrightarrow> inv_count s \<Longrightarrow> inv_count s'"
  by (induction rule: rtranclp_induct) (auto intro: step_keeps_count steps_keep_inv)

lemma reachable_count: "reachable s \<Longrightarrow> inv_count s"
proof -
  assume "reachable s"
  then obtain db where db: "db_commands db = []" "db_attempts db = []" "step\<^sup>*\<^sup>* (db, Map.empty) s"
    by (auto simp: reachable_def)
  have "inv_count (db, Map.empty)" by (simp add: inv_count_def cmd_at_def db)
  then show ?thesis using steps_keep_count [OF db(3) start_inv [OF db(1,2)]] by blast
qed

subsection \<open>Every step respects the schema\<close>

lemma step_moves: "step s s' \<Longrightarrow> inv s \<Longrightarrow> moves\<^sup>*\<^sup>* (fst s) (fst s')"
proof (induction rule: step.induct)
  case (claim ws w k env actor h db db')
  have "lr_state (wk_row k) \<in> {Prepared, Sending, Uncertain}"
    using claim(1) claim.prems unfolding inv_def inv_workers_def submit_state_def fst_conv snd_conv
    by (metis insertCI insertE singletonD)
  from claim_command_moves [OF this claim(3)] show ?case by simp
next
  case (attempt ws w k env actor cx db db')
  then show ?case using gate_attempt_moves by simp
next
  case (answer ws w k env result db db')
  then show ?case using settle_moves [of env "wk_row k" "wk_ids k" "wk_recovering k" "wk_began k" result db db']
    by (simp add: settle_submit_def)
next
  case (catch ws w k env db db')
  then show ?case using settle_moves [of env "wk_row k" "wk_ids k" "wk_recovering k" "wk_began k" Threw db db']
    by (simp add: settle_submit_def settle_answer_def)
next
  case (prepare env cid h actor cx c action db db' ws)
  from prepare(1) have "moves\<^sup>*\<^sup>* db db'"
    by (rule commit_moves [rotated]) (simp add: insert_command_moves prepared_row_def Let_def)
  then show ?case by simp
next
  case (abandon env actor row h sha ids db db' ws)
  then show ?case using abandon_moves by simp
next
  case (activate env actor row ch h read binding aids db db' ws)
  then show ?case using activation_moves by simp
next
  case (retire env actor row h read ids db db' ws)
  then show ?case using retire_moves by simp
next
  case (other db db' ws)
  then show ?case using same_commands_moves [of db' db] by (auto simp: other_writes_def)
qed simp_all

lemma steps_move: "step\<^sup>*\<^sup>* s s' \<Longrightarrow> inv s \<Longrightarrow> moves\<^sup>*\<^sup>* (fst s) (fst s')"
proof (induction rule: rtranclp_induct)
  case base
  then show ?case by simp
next
  case (step t u)
  then show ?case using step_moves [OF step(2) steps_keep_inv [OF step(1) step.prems]] by (meson rtranclp_trans)
qed

end
