(* ===== verification/Native_Properties.thy ===== *)
theory Native_Properties
  imports Native_Safety
begin

section \<open>Properties of lifecycle commands\<close>

text \<open>
  The properties of \<open>native-project-lifecycle.ts\<close>, with a concrete instance of the environment on
  which the operations run.
\<close>

subsection \<open>Effects\<close>

lemma find_update_where:
  "(\<And>r. Q (f r) = Q r) \<Longrightarrow> find Q (update_where P f rows) = map_option (\<lambda>r. if P r then f r else r) (find Q rows)"
  by (induction rows) auto

lemma command_id: "command db cid = Inr row \<Longrightarrow> lr_command_id row = cid"
  by (auto simp: command_def refused_def find_Some_iff split: option.splits)

lemma head_project: "head db pid = Inr h \<Longrightarrow> hd_project h = pid"
  by (auto simp: head_def refused_def find_Some_iff split: option.splits)

lemma current_head:
  "current env actor cx row db = Inr h \<Longrightarrow>
    head db (lr_project row) = Inr h \<and> owned (le_tables env) cx h = Inr () \<and>
    requireAuthority (le_clock env) (le_tables env) actor h = Inr () \<and> lr_context row = cx \<and>
    hd_version h = lr_expected_version row \<and> hd_projection h = lr_expected_projection row \<and>
    le_body_sha env (lr_body row) = lr_request_sha256 row \<and> original_actor env actor db (lr_command_id row)"
  by (auto simp: current_def rbind_eq_Inr sql_simps)

lemma authority_of: "requireAuthority ck tb actor h = Inr () \<Longrightarrow> authority_granted tb actor h"
  by (auto simp: requireAuthority_def split: option.splits if_splits)

lemma activation_effect:
  assumes batch: "commit (activation_batch env actor row ch h read binding ids) db = Inr db'"
    and row: "command db (lr_command_id row) = Inr row" "lr_state row = Acknowledged"
    and h: "head db (lr_project row) = Inr h" "hd_version h = lr_expected_version row"
      "hd_projection h = lr_expected_projection row"
  shows "command db' (lr_command_id row) = Inr (end_command Activated row)"
    and "head db' (lr_project row) = Inr (advance_head read h)"
    and "p \<noteq> lr_project row \<Longrightarrow> head db' p = head db p"
    and "db_revisions db' = db_revisions db @ [\<lparr>rv_project = lr_project row, rv_version = hd_version h + 1,
      rv_read = rd_json read, rv_settlement = aid_settlement ids\<rparr>]"
proof -
  obtain s where s: "proof_stmt env (aid_proof ids) h actor (db, 0) = Inr s"
    and rest: "run_batch (tl (activation_batch env actor row ch h read binding ids)) s = Inr db'"
    using batch unfolding commit_Inr activation_batch_def list.sel run_batch_Cons_Inr [of "proof_stmt _ _ _ _"] by blast
  obtain ps n where ps: "s = (db\<lparr>db_proofs := ps\<rparr>, n)" using proof_stmt_frame [OF s] by blast
  have cmds: "db_commands db' = update_where (\<lambda>c. lr_command_id c = lr_command_id row \<and> lr_state c = Activating \<and>
        lr_lease c = Some (aid_token ids)) (end_command Activated)
      (update_where (\<lambda>c. lr_command_id c = lr_command_id row \<and> lr_state c = Settled)
        (\<lambda>c. c\<lparr>lr_state := Activating, lr_lease := Some (aid_token ids),
               lr_lease_expires := Some (now_ms env + 300000)\<rparr>)
        (update_where (\<lambda>c. lr_command_id c = lr_command_id row \<and> lr_state c = Acknowledged)
          (lr_state_update (\<lambda>_. Settled)) (db_commands db)))"
    and heads: "db_heads db' = update_where (\<lambda>x. hd_project x = lr_project row \<and> hd_version x = lr_expected_version row \<and>
        hd_projection x = lr_expected_projection row) (advance_head read) (db_heads db)"
    and revs: "db_revisions db' = db_revisions db @ [\<lparr>rv_project = lr_project row,
      rv_version = lr_expected_version row + 1, rv_read = rd_json read, rv_settlement = aid_settlement ids\<rparr>]"
    using rest unfolding ps activation_batch_def list.sel
    by (auto simp: run_batch_Cons_Inr sql_simps set_state_stmt_def sql_write_Inr simp del: run_batch.simps(2))
  have found: "find (\<lambda>r. lr_command_id r = lr_command_id row) (db_commands db) = Some row"
    using row(1) by (auto simp: command_def refused_def split: option.splits)
  have "find (\<lambda>r. lr_command_id r = lr_command_id row) (db_commands db') = Some (end_command Activated row)"
    unfolding cmds by (simp add: find_update_where found row(2)) (simp add: end_command_def)
  then show "command db' (lr_command_id row) = Inr (end_command Activated row)" by (simp add: command_def)
  have fp: "find (\<lambda>x. hd_project x = p) (db_heads db') = map_option (\<lambda>x. if hd_project x = lr_project row \<and>
      hd_version x = lr_expected_version row \<and> hd_projection x = lr_expected_projection row
      then advance_head read x else x) (find (\<lambda>x. hd_project x = p) (db_heads db))" for p
    unfolding heads by (rule find_update_where) (simp add: advance_head_def)
  have "find (\<lambda>x. hd_project x = lr_project row) (db_heads db) = Some h"
    using h(1) by (auto simp: head_def refused_def split: option.splits)
  then show "head db' (lr_project row) = Inr (advance_head read h)"
    using h head_project [OF h(1)] by (simp add: head_def fp)
  show "head db' p = head db p" if p: "p \<noteq> lr_project row"
  proof (cases "find (\<lambda>x. hd_project x = p) (db_heads db)")
    case None
    then show ?thesis by (simp add: head_def fp)
  next
    case (Some x)
    then have "hd_project x = p" by (auto simp: find_Some_iff)
    then show ?thesis using Some p by (simp add: head_def fp)
  qed
  show "db_revisions db' = db_revisions db @ [\<lparr>rv_project = lr_project row, rv_version = hd_version h + 1,
      rv_read = rd_json read, rv_settlement = aid_settlement ids\<rparr>]"
    using revs h(2) by simp
qed

subsection \<open>A concrete environment\<close>

definition sample_tables :: staff_tables where
  "sample_tables =
     \<lparr>tb_staff = [\<lparr>sr_id = ''s'', sr_status = ''active'', sr_email = ''e'', sr_subject = ''u''\<rparr>],
      tb_admissions = [\<lparr>ad_staff = ''s'', ad_active = True, ad_subject = ''u'', ad_version = 1\<rparr>],
      tb_profiles = [\<lparr>pf_staff = ''s'', pf_email = ''e'', pf_version = 1\<rparr>],
      tb_areas = [], tb_divisions = [],
      tb_grants = [\<lparr>gr_staff = ''s'', gr_capability = ''project.shared.sync'', gr_active = True,
        gr_effect = ''allow'', gr_scope_kind = ''global'', gr_project = None, gr_area = None, gr_division = None\<rparr>],
      tb_mappings = [\<lparr>mp_source_id = ''x'', mp_source_instance_id = ''i'', mp_application_id = ''a'',
        mp_history_epoch_id = ''h'', mp_resource_type = ''organization'', mp_record_id = ''o'', mp_public_id = ''O''\<rparr>],
      tb_client_organizations = [], tb_generations = [(''s'', 1)]\<rparr>"

definition sample_env :: lifecycle_env where
  "sample_env =
     \<lparr>le_connection = (\<lambda>_. \<lparr>cn_enabled = True, cn_instance = ''i'', cn_application = ''a'', cn_epoch = Some ''h'',
        cn_origin = ''w''\<rparr>),
      le_tables = sample_tables,
      le_clock = \<lparr>ck_parse = (\<lambda>_. Some 10), ck_iso = (\<lambda>t. if t \<ge> 10 then ''9'' else ''1''), ck_now = 5\<rparr>,
      le_body_sha = (\<lambda>_. ''b''), le_envelope_sha = (\<lambda>_. ''v''), le_refresh_sha = (\<lambda>_. ''r''),
      le_text_sha = (\<lambda>_. ''t''), le_uuid = (\<lambda>_. True), le_external_id = (\<lambda>_. True), le_canonical = (\<lambda>_. True),
      le_bigint = (\<lambda>_. Some 1), le_guard = (\<lambda>_ _. True), le_live = (\<lambda>_ _. True)\<rparr>"

definition sample_actor :: LifecycleActor where
  "sample_actor = \<lparr>ac_staffId = ''s'', ac_accessSubject = ''u'', ac_email = ''e'', ac_admissionVersion = 1,
     ac_profileVersion = 1, ac_verifiedUntil = ''9''\<rparr>"

definition sample_context :: LifecycleContext where
  "sample_context = \<lparr>cx_sourceId = ''x'', cx_rootKind = Organization, cx_rootPublicId = ''o'', cx_contextVersion = ''1''\<rparr>"

definition sample_head :: project_head where
  "sample_head = \<lparr>hd_project = ''p'', hd_version = 1, hd_projection = ''q'', hd_source_id = ''x'',
     hd_source_instance_id = ''i'', hd_application_id = ''a'', hd_history_epoch_id = ''h'', hd_public_id = ''P'',
     hd_revision = ''3'', hd_archived = False, hd_archived_at = None, hd_overdue = False, hd_scopes = [],
     hd_organization = Some ''o'', hd_client = None\<rparr>"

definition sample_db :: lifecycle_db where
  "sample_db = \<lparr>db_heads = [sample_head], db_revisions = [], db_commands = [], db_refreshes = [], db_proofs = [],
     db_authorizations = [], db_events = [], db_receipts = [], db_refresh_receipts = [], db_attempts = [],
     db_settlements = [], db_fences = [], db_activations = [], db_handoffs = []\<rparr>"

definition sample_read :: "string \<Rightarrow> bool \<Rightarrow> pa_read" where
  "sample_read revision archived = \<lparr>rd_accepted = True, rd_revision = revision, rd_projection = ''q'',
     rd_status = ''n'', rd_archived = archived, rd_archived_at = None, rd_overdue = False,
     rd_organization = Some ''O'', rd_client = None, rd_json = ''j'', rd_sha = ''k''\<rparr>"

definition sample_reads :: "string \<Rightarrow> bool \<Rightarrow> binding_status \<Rightarrow> pa_reads" where
  "sample_reads revision archived status =
     \<lparr>re_enabled_read = True, re_read = Some (sample_read revision archived), re_enabled_binding = True,
      re_binding = \<lparr>bi_result = status, bi_public_id = ''P'', bi_revision = ''3'', bi_resource_revision = revision,
        bi_resource_projection = ''q'', bi_resource_status = ''n'', bi_resource_archived = archived,
        bi_generation = ''g'', bi_json = ''l''\<rparr>\<rparr>"

definition sample_connection :: pa_connection where
  "sample_connection = le_connection sample_env ''x''"

definition sample_row :: command_row where
  "sample_row = prepared_row sample_env sample_actor sample_context sample_connection sample_head ''c'' Archive"

definition prepared_db :: lifecycle_db where
  "prepared_db = db_after (prepareNativeProjectLifecycle sample_env sample_actor sample_context ''c'' ''p'' Archive
     (sample_reads ''3'' False Observed) sample_db) sample_db"

definition sample_ids :: "string \<Rightarrow> submit_ids" where
  "sample_ids n = \<lparr>id_proof = n @ ''p'', id_authorization = n @ ''a'', id_token = n @ ''t'', id_event = n @ ''e'',
     id_outcome = n @ ''o'', id_catch = n @ ''c''\<rparr>"

definition sample_receipt :: lifecycle_receipt where
  "sample_receipt = \<lparr>rc_body = \<lparr>lb_commandId = ''c'', lb_expectedRevision = ''3''\<rparr>, rc_action = Archive,
     rc_public_id = ''P'', rc_origin = ''w'', rc_accepted = True, rc_portal = False, rc_link = False, rc_json = ''j'',
     rc_sha = ''k'', rc_revision = ''4'', rc_request_id = ''d''\<rparr>"

definition sample_refresh_receipt :: refresh_receipt where
  "sample_refresh_receipt = \<lparr>rx_refresh_type = True, rx_request_sha = ''r'', rx_origin = ''w'', rx_public_id = ''P'',
     rx_revision = ''4'', rx_projection = ''q'', rx_portal = False, rx_link = False, rx_json = ''j'', rx_sha = ''k''\<rparr>"

definition answering :: "'r option \<Rightarrow> 'r network" where
  "answering receipt = \<lparr>nw_posts = True, nw_enabled = True, nw_before = Inr (),
     nw_result = (\<lambda>_. Answered receipt ''code'')\<rparr>"

text \<open>Preparation, submission, refresh and activation, and an abandoned preparation.\<close>

definition abandoned_db :: lifecycle_db where
  "abandoned_db = db_after (abandonNativeProjectLifecyclePreparation sample_env sample_actor sample_context ''c'' ''v''
     None (sample_ids ''1'') prepared_db) prepared_db"

definition submitted_db :: lifecycle_db where
  "submitted_db = snd (submitNativeProjectLifecycle sample_env sample_actor sample_context ''c'' ''v'' False
     (sample_ids ''1'') (answering (Some sample_receipt)) prepared_db)"

definition refresh_db :: lifecycle_db where
  "refresh_db = db_after (prepareNativeProjectLifecycleRefresh sample_env sample_actor sample_context ''c'' ''f'' ''v''
     (sample_reads ''4'' True Binding_stale) submitted_db) submitted_db"

definition refreshed_db :: lifecycle_db where
  "refreshed_db = snd (submitNativeProjectLifecycleRefresh sample_env sample_actor sample_context ''c'' ''f'' ''r'' False
     (sample_reads ''4'' True Binding_stale) (sample_ids ''2'') (answering (Some sample_refresh_receipt)) refresh_db)"

definition sample_aids :: activate_ids where
  "sample_aids = \<lparr>aid_proof = ''3p'', aid_settlement = ''3s'', aid_token = ''3t''\<rparr>"

definition activated_db :: lifecycle_db where
  "activated_db = db_after (activateNativeProjectLifecycle sample_env sample_actor sample_context ''c'' ''v''
     (sample_reads ''4'' True Observed) sample_aids refreshed_db) refreshed_db"

text \<open>The steps of one worker up to its attempt.\<close>

definition claimed_db :: lifecycle_db where
  "claimed_db = (case claim_command sample_env sample_actor sample_row sample_head False (sample_ids ''1'') prepared_db of
     Inr db \<Rightarrow> db | Inl _ \<Rightarrow> sample_db)"

definition attempted_db :: lifecycle_db where
  "attempted_db = (case gate_attempt sample_env sample_actor sample_context sample_row ''1t'' None claimed_db of
     Inr db \<Rightarrow> db | Inl _ \<Rightarrow> sample_db)"

definition sample_worker :: "worker_stage \<Rightarrow> bool \<Rightarrow> worker" where
  "sample_worker stage began = \<lparr>wk_row = sample_row, wk_recovering = False, wk_ids = sample_ids ''1'',
     wk_stage = stage, wk_began = began\<rparr>"

lemma prepared_step: "step (sample_db, Map.empty) (prepared_db, Map.empty)"
proof (rule step.prepare)
  show "commit [proof_stmt sample_env ''c'' sample_head sample_actor, insert_command sample_env
      (prepared_row sample_env sample_actor sample_context sample_connection sample_head ''c'' Archive)] sample_db =
    Inr prepared_db"
    by code_simp
qed

lemma abandoned_step: "step (prepared_db, Map.empty) (abandoned_db, Map.empty)"
proof (rule step.abandon)
  show "abandon_batch sample_env sample_actor sample_row sample_head None ''b'' (sample_ids ''1'') prepared_db =
    Inr abandoned_db"
    by code_simp
qed

lemma decided_step: "step (prepared_db, Map.empty) (prepared_db, [0 \<mapsto> sample_worker W_decided False])"
proof -
  have "db_attempts prepared_db = []" by code_simp
  moreover have "decide_submit sample_env sample_actor sample_context ''c'' ''v'' False prepared_db =
      Inr (Submit sample_row sample_head False)"
    by code_simp
  ultimately show ?thesis unfolding sample_worker_def by (intro step.decide) (simp_all add: token_fresh_def)
qed

lemma claimed_step: "step (prepared_db, [0 \<mapsto> sample_worker W_decided False]) (claimed_db, [0 \<mapsto> sample_worker W_claimed False])"
proof -
  have "claim_command sample_env sample_actor sample_row sample_head False (sample_ids ''1'') prepared_db = Inr claimed_db"
    by code_simp
  then have "step (prepared_db, [0 \<mapsto> sample_worker W_decided False])
      (claimed_db, [0 \<mapsto> sample_worker W_decided False, 0 \<mapsto> (sample_worker W_decided False)\<lparr>wk_stage := W_claimed\<rparr>])"
    by (intro step.claim [where h = sample_head and env = sample_env and actor = sample_actor])
      (simp_all add: sample_worker_def)
  then show ?thesis by (simp add: sample_worker_def)
qed

lemma checked_step: "step (claimed_db, [0 \<mapsto> sample_worker W_claimed False]) (claimed_db, [0 \<mapsto> sample_worker W_checked False])"
proof -
  have "gate_checks sample_env sample_actor sample_context sample_row ''1t'' None True claimed_db = Inr ()" by code_simp
  then have "step (claimed_db, [0 \<mapsto> sample_worker W_claimed False])
      (claimed_db, [0 \<mapsto> sample_worker W_claimed False, 0 \<mapsto> (sample_worker W_claimed False)\<lparr>wk_stage := W_checked\<rparr>])"
    by (intro step.check [where env = sample_env and actor = sample_actor and cx = sample_context and enabled = True])
      (simp_all add: sample_worker_def sample_ids_def)
  then show ?thesis by (simp add: sample_worker_def)
qed

lemma attempted_step: "step (claimed_db, [0 \<mapsto> sample_worker W_checked False]) (attempted_db, [0 \<mapsto> sample_worker W_claimed True])"
proof -
  have "gate_attempt sample_env sample_actor sample_context sample_row ''1t'' None claimed_db = Inr attempted_db"
    by code_simp
  then have "step (claimed_db, [0 \<mapsto> sample_worker W_checked False]) (attempted_db,
      [0 \<mapsto> sample_worker W_checked False, 0 \<mapsto> (sample_worker W_checked False)\<lparr>wk_stage := W_claimed, wk_began := True\<rparr>])"
    by (intro step.attempt [where env = sample_env and actor = sample_actor and cx = sample_context])
      (simp_all add: sample_worker_def sample_ids_def)
  then show ?thesis by (simp add: sample_worker_def)
qed

lemma decided_reachable: "reachable (prepared_db, [0 \<mapsto> sample_worker W_decided False])"
  unfolding reachable_def using prepared_step decided_step
  by (intro exI [of _ sample_db]) (auto simp: sample_db_def intro: rtranclp.rtrancl_into_rtrancl)

lemma abandoned_reachable: "reachable (abandoned_db, Map.empty)"
  unfolding reachable_def using prepared_step abandoned_step
  by (intro exI [of _ sample_db]) (auto simp: sample_db_def intro: rtranclp.rtrancl_into_rtrancl)

lemma attempted_reachable: "reachable (attempted_db, [0 \<mapsto> sample_worker W_claimed True])"
  unfolding reachable_def using prepared_step decided_step claimed_step checked_step attempted_step
  by (intro exI [of _ sample_db]) (auto simp: sample_db_def intro: rtranclp.rtrancl_into_rtrancl)

subsection \<open>Properties\<close>

lemma reachable_steps: "reachable s \<Longrightarrow> step\<^sup>*\<^sup>* s s' \<Longrightarrow> reachable s'"
  unfolding reachable_def by (blast intro: rtranclp_trans)

lemma reachable_cmd_at: "reachable (db, ws) \<Longrightarrow> c \<in> set (db_commands db) \<Longrightarrow> cmd_at db (lr_command_id c) = Some c"
  using reachable_inv [of "(db, ws)"] by (auto simp: inv_defs intro: cmd_at_mem)

lemma idle_posts:
  assumes "reachable (db, ws)" and "c \<in> set (db_commands db)" and "lr_state c \<in> {Prepared, Rejected}"
  shows "posts_of db (lr_command_id c) = 0"
    and "ws w = Some k \<Longrightarrow> wk_command k = lr_command_id c \<Longrightarrow> wk_stage k = W_decided"
proof -
  have "untransmitted db (lr_command_id c) \<and> (\<forall>w k. ws w = Some k \<and> past k \<longrightarrow> wk_command k \<noteq> lr_command_id c)"
    using reachable_inv [OF assms(1)] reachable_cmd_at [OF assms(1,2)] assms(3) unfolding inv_def inv_idle_def by auto
  then show "posts_of db (lr_command_id c) = 0"
    and "ws w = Some k \<Longrightarrow> wk_command k = lr_command_id c \<Longrightarrow> wk_stage k = W_decided"
    by (auto simp: posts_of_def untransmitted_posts filter_empty_conv past_def)
qed

text \<open>
  C9: Whatever the interleaving of submissions, crashes and other operations, a command whose row says \<open>Prepared\<close>
  or \<open>Rejected\<close> has never been transmitted: no POST attempt is recorded for it and no worker is past its claim.
\<close>
theorem idle_command_never_transmitted:
  assumes "reachable (db, ws)" and "c \<in> set (db_commands db)" and "lr_state c = Prepared \<or> lr_state c = Rejected"
  shows "posts_of db (lr_command_id c) = 0 \<and>
    (\<forall>w k. ws w = Some k \<and> wk_command k = lr_command_id c \<longrightarrow> wk_stage k = W_decided)"
  using idle_posts [OF assms(1,2)] assms(3) by blast

theorem idle_command_never_transmitted_witness:
  "posts_of prepared_db ''c'' = 0 \<and> wk_command (sample_worker W_decided False) = ''c'' \<and>
    wk_stage (sample_worker W_decided False) = W_decided"
proof -
  have "sample_row \<in> set (db_commands prepared_db)" and "lr_state sample_row = Prepared \<or> lr_state sample_row = Rejected"
    and c: "lr_command_id sample_row = ''c''" by code_simp+
  then have "posts_of prepared_db ''c'' = 0 \<and> (\<forall>w k. [0 \<mapsto> sample_worker W_decided False] w = Some k \<and>
      wk_command k = ''c'' \<longrightarrow> wk_stage k = W_decided)"
    using idle_command_never_transmitted [OF decided_reachable, of sample_row] by simp
  moreover have w: "wk_command (sample_worker W_decided False) = ''c''" using c by (simp add: sample_worker_def)
  moreover have "[0 \<mapsto> sample_worker W_decided False] 0 = Some (sample_worker W_decided False)" by simp
  ultimately show ?thesis by blast
qed

text \<open>
  C11: A command that is activated, rejected or handed over keeps its row for ever, and one that was
  abandoned is never transmitted afterwards, even by a worker that read the row before.
\<close>
theorem ended_command_stays:
  assumes "reachable (db, ws)" and "c \<in> set (db_commands db)" and "final_state (lr_state c)"
    and "step\<^sup>*\<^sup>* (db, ws) (db', ws')"
  shows "c \<in> set (db_commands db') \<and> (lr_state c = Rejected \<longrightarrow> posts_of db' (lr_command_id c) = 0)"
proof -
  have "moves\<^sup>*\<^sup>* db db'" using steps_move [OF assms(4) reachable_inv [OF assms(1)]] by simp
  then have c: "c \<in> set (db_commands db')" by (rule moves_star_final [OF _ assms(2,3)])
  then show ?thesis using idle_posts(1) [OF reachable_steps [OF assms(1,4)] c] by simp
qed

theorem ended_command_stays_witness:
  "hd (db_commands abandoned_db) \<in> set (db_commands abandoned_db) \<and>
    posts_of abandoned_db (lr_command_id (hd (db_commands abandoned_db))) = 0"
proof -
  have "hd (db_commands abandoned_db) \<in> set (db_commands abandoned_db)" by code_simp
  moreover have "final_state (lr_state (hd (db_commands abandoned_db)))" by code_simp
  moreover have "lr_state (hd (db_commands abandoned_db)) = Rejected" by code_simp
  ultimately show ?thesis using ended_command_stays [OF abandoned_reachable _ _ rtranclp.rtrancl_refl] by blast
qed

text \<open>
  In every reachable state the attempts recorded for a command number at most its claims, so the counter that the
  status shows bounds how often the command can have been transmitted.
\<close>
theorem attempts_within_claims:
  assumes "reachable (db, ws)" and "c \<in> set (db_commands db)"
  shows "posts_of db (lr_command_id c) \<le> lr_transmissions c"
  using reachable_count [OF assms(1)] reachable_cmd_at [OF assms] by (fastforce simp: inv_count_def)

theorem attempts_within_claims_witness:
  "posts_of attempted_db (lr_command_id (hd (db_commands attempted_db))) \<le>
    lr_transmissions (hd (db_commands attempted_db)) \<and>
   posts_of attempted_db (lr_command_id (hd (db_commands attempted_db))) = 1"
proof
  have "hd (db_commands attempted_db) \<in> set (db_commands attempted_db)" by code_simp
  then show "posts_of attempted_db (lr_command_id (hd (db_commands attempted_db))) \<le>
      lr_transmissions (hd (db_commands attempted_db))"
    by (rule attempts_within_claims [OF attempted_reachable])
  show "posts_of attempted_db (lr_command_id (hd (db_commands attempted_db))) = 1" by code_simp
qed

text \<open>
  C25: Every operation changes the rows of commands only as the schema of the ledger allows, whatever
  the network answers and wherever it fails: rows are appended as \<open>Prepared\<close> or take an
  allowed transition, their identity and request never change, and the claim counter grows by one
  exactly when a lease is taken. The rows of refreshes, which have a trigger of their own, and the
  conditions on leases and evidence are not part of it.
\<close>
theorem operations_follow_schema:
  "moves\<^sup>*\<^sup>* db (db_after (prepareNativeProjectLifecycle env actor cx cid pid action reads db) db) \<and>
   moves\<^sup>*\<^sup>* db (snd (submitNativeProjectLifecycle env actor cx cid review reconcile ids net db)) \<and>
   moves\<^sup>*\<^sup>* db (db_after (prepareNativeProjectLifecycleRefresh env actor cx cid rid review reads db) db) \<and>
   moves\<^sup>*\<^sup>* db (snd (submitNativeProjectLifecycleRefresh env actor cx cid rid review reconcile reads ids rnet db)) \<and>
   moves\<^sup>*\<^sup>* db (db_after (activateNativeProjectLifecycle env actor cx cid review reads aids db) db) \<and>
   moves\<^sup>*\<^sup>* db (db_after (retireNativeProjectLifecycleForInboundReview env actor cx cid review enabled outcome ids db) db) \<and>
   moves\<^sup>*\<^sup>* db (db_after (abandonNativeProjectLifecyclePreparation env actor cx cid review orid ids db) db)"
proof -
  note lift = db_after_moves
  show ?thesis
    by (intro conjI submit_moves submit_refresh_moves lift [OF prepare_moves] lift [OF prepare_refresh_moves]
        lift [OF activate_moves] lift [OF retire_review_moves] lift [OF abandon_preparation_moves])
qed

lemma readPair_read: "readPair env cx h reads = Inr (read, binding) \<Longrightarrow> re_read reads = Some read"
  by (auto simp: readPair_def rbind_eq_Inr sql_simps Let_def split: option.splits)

lemma activate_checks_Inr:
  "activate_checks env actor cx row reads db = Inr (h, ch, read, binding) \<Longrightarrow>
    current env actor cx row db = Inr h \<and> lr_state row = Acknowledged \<and> re_read reads = Some read \<and>
    rd_archived read = (lr_action row = Archive) \<and> rd_revision read = rf_expected_revision ch \<and>
    bi_result binding = Observed"
  by (auto simp: activate_checks_def rbind_eq_Inr sql_simps dest: readPair_read split: if_splits)

text \<open>
  C29: A successful activation of a command that is not yet activated ends the command, gives the
  project exactly the canonical state that was read under a version one higher (archived just when the
  command archives), records that version and leaves every other project alone; the actor has authority
  granted over the project. That the sign-in has not expired is checked too, but is not in the
  statement.
\<close>
theorem activation_advances_head_once:
  assumes act: "activateNativeProjectLifecycle env actor cx cid review reads ids db = Inr (v, db')"
    and row: "command db cid = Inr row" and new: "lr_state row \<noteq> Activated"
  shows "\<exists>h read. head db (lr_project row) = Inr h \<and> re_read reads = Some read \<and>
    authority_granted (le_tables env) actor h \<and>
    command db' cid = Inr (end_command Activated row) \<and> v = statusValue (end_command Activated row) \<and>
    head db' (lr_project row) = Inr (advance_head read h) \<and>
    hd_version (advance_head read h) = hd_version h + 1 \<and>
    hd_archived (advance_head read h) = (lr_action row = Archive) \<and>
    (\<forall>p. p \<noteq> lr_project row \<longrightarrow> head db' p = head db p) \<and>
    db_revisions db' = db_revisions db @ [\<lparr>rv_project = lr_project row, rv_version = hd_version h + 1,
      rv_read = rd_json read, rv_settlement = aid_settlement ids\<rparr>]"
proof -
  have cid: "lr_command_id row = cid" by (rule command_id [OF row])
  from act new obtain h ch read binding where
      checks: "activate_checks env actor cx row reads db = Inr (h, ch, read, binding)"
      and batch: "commit (activation_batch env actor row ch h read binding ids) db = Inr db'"
      and v: "rbind (command db' (lr_command_id row)) (\<lambda>r. Inr (statusValue r, db')) = Inr (v, db')"
    by (auto simp: activateNativeProjectLifecycle_def row rbind_eq_Inr sql_simps)
  note c = activate_checks_Inr [OF checks]
  note heads = current_head [OF conjunct1 [OF c]]
  have row': "command db (lr_command_id row) = Inr row" using row cid by simp
  note effect = activation_effect [OF batch row']
  show ?thesis
  proof (intro exI conjI allI impI)
    show "head db (lr_project row) = Inr h" "re_read reads = Some read" using c heads by simp_all
    show "authority_granted (le_tables env) actor h" using heads authority_of by blast
    show "command db' cid = Inr (end_command Activated row)" using effect(1) c heads cid by simp
    then show "v = statusValue (end_command Activated row)" using v cid by simp
    show "head db' (lr_project row) = Inr (advance_head read h)" using effect(2) c heads by simp
    show "hd_version (advance_head read h) = hd_version h + 1"
      "hd_archived (advance_head read h) = (lr_action row = Archive)" using c by (simp_all add: advance_head_def)
    show "head db' p = head db p" if "p \<noteq> lr_project row" for p using effect(3) that c heads by simp
    show "db_revisions db' = db_revisions db @ [\<lparr>rv_project = lr_project row, rv_version = hd_version h + 1,
        rv_read = rd_json read, rv_settlement = aid_settlement ids\<rparr>]" using effect(4) c heads by simp
  qed
qed

theorem activation_advances_head_once_witness:
  "\<exists>h. head refreshed_db ''p'' = Inr h \<and>
    head activated_db ''p'' = Inr (advance_head (sample_read ''4'' True) h) \<and>
    command activated_db ''c'' = Inr (end_command Activated (hd (db_commands refreshed_db)))"
proof -
  have a: "activateNativeProjectLifecycle sample_env sample_actor sample_context ''c'' ''v''
      (sample_reads ''4'' True Observed) sample_aids refreshed_db =
    Inr (statusValue (end_command Activated (hd (db_commands refreshed_db))), activated_db)" by code_simp
  have r: "command refreshed_db ''c'' = Inr (hd (db_commands refreshed_db))" by code_simp
  have n: "lr_state (hd (db_commands refreshed_db)) \<noteq> Activated" by code_simp
  have p: "lr_project (hd (db_commands refreshed_db)) = ''p''" by code_simp
  have "re_read (sample_reads ''4'' True Observed) = Some (sample_read ''4'' True)" by (simp add: sample_reads_def)
  then show ?thesis using activation_advances_head_once [OF a r n] unfolding p by auto
qed

text \<open>What \<open>current\<close> requires at one moment of the actor, the caller, the project and the request.\<close>

definition authorized_now ::
  "lifecycle_env \<Rightarrow> LifecycleActor \<Rightarrow> LifecycleContext \<Rightarrow> command_row \<Rightarrow> lifecycle_db \<Rightarrow> bool" where
  "authorized_now env actor cx row db \<longleftrightarrow>
     lr_context row = cx \<and> le_body_sha env (lr_body row) = lr_request_sha256 row \<and>
     original_actor env actor db (lr_command_id row) \<and>
     text_less (ck_iso (le_clock env) (ck_now (le_clock env))) (ac_verifiedUntil actor) \<and>
     (case head db (lr_project row) of
        Inl _ \<Rightarrow> False
      | Inr h \<Rightarrow> authority_granted (le_tables env) actor h \<and> owned (le_tables env) cx h = Inr () \<and>
          hd_version h = lr_expected_version row \<and> hd_projection h = lr_expected_projection row)"

lemma current_authorized: "current env actor cx row db = Inr h \<Longrightarrow> authorized_now env actor cx row db"
  using current_head [of env actor cx row db h]
  by (auto simp: authorized_now_def requireAuthority_def split: option.splits if_splits)

lemma gate_checks_Inr:
  "gate_checks env actor cx row token child_id enabled db = Inr () \<Longrightarrow>
    authorized_now env actor cx row db \<and> enabled \<and> cn_origin (le_connection env (cx_sourceId cx)) = lr_origin row \<and>
    gate_valid env db (lr_command_id row) child_id token"
  by (auto simp: gate_checks_def rbind_eq_Inr sql_simps Let_def intro: current_authorized)

lemma gate_attempt_Inr:
  assumes "gate_attempt env actor cx row token child_id db = Inr db'"
  shows "authorized_now env actor cx row db \<and> token \<notin> at_lease ` set (db_attempts db) \<and>
    (\<exists>sha. db' = db\<lparr>db_attempts := db_attempts db @
      [\<lparr>at_lease = token, at_command = lr_command_id row, at_refresh = child_id, at_sha = sha\<rparr>]\<rparr>)"
proof -
  from assms obtain h sha where h: "current env actor cx row db = Inr h"
    and c: "commit [attempt_stmt env token (lr_command_id row) child_id sha] db = Inr db'"
    by (auto simp: gate_attempt_def rbind_eq_Inr)
  from c have "token \<notin> at_lease ` set (db_attempts db) \<and> db' = db\<lparr>db_attempts := db_attempts db @
      [\<lparr>at_lease = token, at_command = lr_command_id row, at_refresh = child_id, at_sha = sha\<rparr>]\<rparr>"
    by (auto simp: commit_Inr run_batch_Cons_Inr attempt_stmt_def sql_simps simp del: run_batch.simps(2))
  with current_authorized [OF h] show ?thesis by blast
qed

text \<open>
  C10: Whatever the \<open>beforePost\<close> callback lets happen to the clock, the staff tables and the database, a POST passes the
  gate only if the callback returned and the actor's authority was current twice: before the callback, when the lease
  was also held, unexpired and under a live authorization and the connector enabled with the row's origin, and again
  after it, in the state the callback left. Current means: the sign-in has not expired, the actor is the original one
  with authority granted over the project, the caller owns it, its head is the reviewed one and the request hash
  matches. The only write after the callback is one attempt under that lease, which had none before. The lease and the
  connector are not read again after the callback.
\<close>
theorem post_needs_current_authority:
  assumes "gatedPost env actor cx row token child_id enabled callback db = (Inr (), db')"
  shows "authorized_now env actor cx row db \<and> enabled \<and>
    cn_origin (le_connection env (cx_sourceId cx)) = lr_origin row \<and>
    gate_valid env db (lr_command_id row) child_id token \<and>
    (\<exists>env1 db1 sha. callback env db = (Inr (), env1, db1) \<and> authorized_now env1 actor cx row db1 \<and>
      token \<notin> at_lease ` set (db_attempts db1) \<and>
      db' = db1\<lparr>db_attempts := db_attempts db1 @
        [\<lparr>at_lease = token, at_command = lr_command_id row, at_refresh = child_id, at_sha = sha\<rparr>]\<rparr>)"
proof -
  from assms obtain env1 db1 where checks: "gate_checks env actor cx row token child_id enabled db = Inr ()"
    and returned: "callback env db = (Inr (), env1, db1)"
    and attempt: "gate_attempt env1 actor cx row token child_id db1 = Inr db'"
    by (auto simp: gatedPost_def split: sum.splits prod.splits)
  show ?thesis using gate_checks_Inr [OF checks] gate_attempt_Inr [OF attempt] returned by blast
qed

text \<open>
  A callback that takes one unit of time, during which somebody records an event of the command; and one during which
  the actor's sign-in is revoked, after which the POST is refused.
\<close>

definition busy_callback ::
  "lifecycle_env \<Rightarrow> lifecycle_db \<Rightarrow> (op_error + unit) \<times> lifecycle_env \<times> lifecycle_db" where
  "busy_callback env db =
     (Inr (), env\<lparr>le_clock := (le_clock env)\<lparr>ck_now := ck_now (le_clock env) + 1\<rparr>\<rparr>,
      db\<lparr>db_events := db_events db @ [\<lparr>ev_id = ''9'', ev_command = ''c'', ev_phase = ''note'', ev_sha = ''b'', ev_code = None\<rparr>]\<rparr>)"

definition revoking_callback ::
  "lifecycle_env \<Rightarrow> lifecycle_db \<Rightarrow> (op_error + unit) \<times> lifecycle_env \<times> lifecycle_db" where
  "revoking_callback env db =
     (Inr (), env\<lparr>le_tables := (le_tables env)\<lparr>tb_staff := []\<rparr>\<rparr>, db)"

theorem post_needs_current_authority_witness:
  "authorized_now sample_env sample_actor sample_context sample_row claimed_db \<and>
    gate_valid sample_env claimed_db ''c'' None ''1t'' \<and>
    (\<exists>env1 db1. busy_callback sample_env claimed_db = (Inr (), env1, db1) \<and> db1 \<noteq> claimed_db \<and>
      authorized_now env1 sample_actor sample_context sample_row db1 \<and> ''1t'' \<notin> at_lease ` set (db_attempts db1))"
proof -
  let ?post = "gatedPost sample_env sample_actor sample_context sample_row ''1t'' None True busy_callback claimed_db"
  have "fst ?post = Inr ()" by code_simp
  then have g: "?post = (Inr (), snd ?post)" by (metis prod.collapse)
  have c: "lr_command_id sample_row = ''c''" by code_simp
  have "db_events (snd (snd (busy_callback sample_env claimed_db))) \<noteq> db_events claimed_db"
    by (simp add: busy_callback_def)
  then have n: "snd (snd (busy_callback sample_env claimed_db)) \<noteq> claimed_db" by metis
  show ?thesis using post_needs_current_authority [OF g] n unfolding c by auto
qed

lemma revoked_meanwhile_is_refused:
  "fst (gatedPost sample_env sample_actor sample_context sample_row ''1t'' None True revoking_callback claimed_db) =
    Inl (Refused 403 ''Current explicit native project authority is required'')"
  by code_simp

end
