(* ===== verification/Text_Tools.thy ===== *)
theory Text_Tools
  imports Prelude
begin

section \<open>Text operations of JavaScript\<close>

text \<open>
  The string operations that several components use: \<open>split\<close> and \<open>join\<close> with a one-character
  separator, \<open>startsWith\<close>, \<open>endsWith\<close>, and the text that \<open>JSON.stringify\<close> writes for strings,
  integers and arrays.
\<close>

subsection \<open>Splitting and joining\<close>

fun split_on :: "nat \<Rightarrow> ustring \<Rightarrow> ustring list" where
  "split_on c [] = [[]]"
| "split_on c (x # xs) =
     (if x = c then [] # split_on c xs
      else (case split_on c xs of [] \<Rightarrow> [[x]] | y # ys \<Rightarrow> (x # y) # ys))"

fun join_with :: "nat \<Rightarrow> ustring list \<Rightarrow> ustring" where
  "join_with c [] = []"
| "join_with c [x] = x"
| "join_with c (x # y # ys) = x @ c # join_with c (y # ys)"

lemma split_on_nonempty [simp]: "split_on c s \<noteq> []"
  by (cases s) (auto split: list.splits)

lemma split_on_separate: "p \<in> set (split_on c s) \<Longrightarrow> c \<notin> set p"
  by (induction s arbitrary: p) (auto split: list.splits if_splits)

lemma join_with_Cons: "xs \<noteq> [] \<Longrightarrow> join_with c (x # xs) = x @ c # join_with c xs"
  by (cases xs) auto

lemma join_with_head: "join_with c ((x # y) # ys) = x # join_with c (y # ys)"
  by (cases ys) auto

lemma join_split [simp]: "join_with c (split_on c s) = s"
proof (induction s)
  case Nil
  then show ?case by simp
next
  case (Cons x xs)
  show ?case
  proof (cases "x = c")
    case True
    then show ?thesis using Cons by (simp add: join_with_Cons)
  next
    case False
    then obtain y ys where y: "split_on c xs = y # ys" by (cases "split_on c xs") auto
    then have "join_with c (y # ys) = xs" using Cons by simp
    then show ?thesis using False y by (simp add: join_with_head)
  qed
qed

lemma split_join:
  assumes "ps \<noteq> []" and "\<forall>p \<in> set ps. c \<notin> set p"
  shows "split_on c (join_with c ps) = ps"
  using assms
proof (induction ps rule: join_with.induct)
  case (1 c)
  then show ?case by simp
next
  case (2 c x)
  then have "c \<notin> set x" by simp
  then show ?case by (induction x) auto
next
  case (3 c x y ys)
  have "split_on c (x @ c # rest) = x # split_on c rest" if "c \<notin> set x" for rest :: ustring
    using that by (induction x) auto
  then show ?case using 3 by simp
qed

definition starts_with :: "ustring \<Rightarrow> ustring \<Rightarrow> bool" where
  "starts_with s p \<longleftrightarrow> take (length p) s = p"

definition ends_with :: "ustring \<Rightarrow> ustring \<Rightarrow> bool" where
  "ends_with s p \<longleftrightarrow> length p \<le> length s \<and> drop (length s - length p) s = p"

lemma starts_with_append [simp]: "starts_with (p @ s) p"
  by (simp add: starts_with_def)

lemma starts_withE: "starts_with s p \<Longrightarrow> (\<And>r. s = p @ r \<Longrightarrow> thesis) \<Longrightarrow> thesis"
  by (metis append_take_drop_id starts_with_def)

lemma starts_with_trans: "starts_with s p \<Longrightarrow> starts_with p q \<Longrightarrow> starts_with s q"
  by (auto elim!: starts_withE)

lemma drop_eq_Cons: "drop i xs = y # ys \<Longrightarrow> i < length xs \<and> xs ! i = y \<and> drop (Suc i) xs = ys"
  by (metis drop_all drop_Suc list.discI list.sel(3) not_le_imp_less nth_via_drop tl_drop)

subsection \<open>JSON texts\<close>

definition hex_digit :: "nat \<Rightarrow> nat" where
  "hex_digit d = (if d < 10 then 48 + d else 87 + d)"

text \<open>\<open>JSON.stringify\<close> escapes quotes, backslashes, control characters and lone surrogates.\<close>

definition json_char :: "nat \<Rightarrow> ustring" where
  "json_char c =
     (if c = 34 \<or> c = 92 then [92, c]
      else if c = 8 then [92, 98] else if c = 9 then [92, 116] else if c = 10 then [92, 110]
      else if c = 12 then [92, 102] else if c = 13 then [92, 114]
      else if c < 32 \<or> (0xD800 \<le> c \<and> c < 0xE000) then
        [92, 117, hex_digit (c div 4096), hex_digit (c div 256 mod 16), hex_digit (c div 16 mod 16), hex_digit (c mod 16)]
      else [c])"

definition json_string :: "ustring \<Rightarrow> ustring" where
  "json_string s = 34 # concat (map json_char s) @ [34]"

definition json_int :: "int \<Rightarrow> ustring" where
  "json_int n = (if n < 0 then 45 # decimal (nat (- n)) else decimal (nat n))"

definition json_array :: "ustring list \<Rightarrow> ustring" where
  "json_array items = 91 # join_with 44 items @ [93]"

definition json_object :: "(ustring \<times> ustring) list \<Rightarrow> ustring" where
  "json_object fields = 123 # join_with 44 (map (\<lambda>(k, v). json_string k @ 58 # v) fields) @ [125]"

lemma utf8_append: "utf8 (s @ t) = utf8 s @ utf8 t"
  by (simp add: utf8_def)

lemma json_array_bytes:
  "length (utf8 (json_array items)) = 2 + (\<Sum>i \<leftarrow> items. length (utf8 i)) + (length items - 1)"
proof -
  have "length (utf8 (join_with 44 items)) = (\<Sum>i \<leftarrow> items. length (utf8 i)) + (length items - 1)"
  proof (induction items rule: induct_list012)
    case (3 x y ys)
    then show ?case by (simp add: utf8_append utf8_char_def)
  qed simp_all
  then show ?thesis by (simp add: json_array_def utf8_append utf8_char_def)
qed

text \<open>The elements of a \<open>Set\<close> built from a list: each once, in the order of first occurrence.\<close>

definition set_order :: "'a list \<Rightarrow> 'a list" where
  "set_order xs = rev (remdups (rev xs))"

lemma set_order_simps [simp]: "set (set_order xs) = set xs" "distinct (set_order xs)"
  by (simp_all add: set_order_def)

end
