(* ===== verification/Crc_Plan.thy ===== *)
theory Crc_Plan
  imports Zip_Names Text_Tools
begin

section \<open>Checksum work units and windows\<close>

text \<open>
  \<open>planCrcWorkUnits\<close> and \<open>planCrcWindows\<close> of \<open>apps/client/src/worker/workflow.ts\<close>: small sources are
  gathered in batches, large ones are cut in chunks, and units that may run side by side form
  windows. The lemmas show that the units cover every byte of every source once and in order, and
  that a window never holds two chunks of one source.
\<close>

definition CRC_CHUNK :: int where "CRC_CHUNK = 8 * 1024 * 1024"
definition CRC_PROGRESS_CHECKPOINT :: int where "CRC_PROGRESS_CHECKPOINT = 64 * 1024 * 1024"
definition CRC_FILE_CHECKPOINT :: nat where "CRC_FILE_CHECKPOINT = 25"
definition CRC_BATCH_MAX_FILES :: nat where "CRC_BATCH_MAX_FILES = 64"
definition CRC_CONCURRENCY :: nat where "CRC_CONCURRENCY = 4"

datatype CrcWorkUnit = Batch_unit "nat list" int | Chunk_unit nat int int

subsection \<open>Windows\<close>

text \<open>The variables of the loop: windows, current window, sources of its chunks, next index.\<close>

fun crc_windows :: "nat list list \<Rightarrow> nat list \<Rightarrow> nat list \<Rightarrow> nat \<Rightarrow> CrcWorkUnit list \<Rightarrow> nat list list" where
  "crc_windows ws current sources i [] = (if current \<noteq> [] then ws @ [current] else ws)"
| "crc_windows ws current sources i (u # us) =
     (let close = length current \<ge> CRC_CONCURRENCY \<or>
            (case u of Chunk_unit s _ _ \<Rightarrow> s \<in> set sources | Batch_unit _ _ \<Rightarrow> False);
          ws = (if close then ws @ [current] else ws);
          current = (if close then [] else current);
          sources = (if close then [] else sources)
      in crc_windows ws (current @ [i]) (case u of Chunk_unit s _ _ \<Rightarrow> s # sources | Batch_unit _ _ \<Rightarrow> sources)
           (Suc i) us)"

definition planCrcWindows :: "CrcWorkUnit list \<Rightarrow> nat list list" where
  "planCrcWindows units = crc_windows [] [] [] 0 units"

fun chunk_source :: "CrcWorkUnit \<Rightarrow> nat option" where
  "chunk_source (Batch_unit _ _) = None"
| "chunk_source (Chunk_unit s _ _) = Some s"

definition window_sources :: "CrcWorkUnit list \<Rightarrow> nat list \<Rightarrow> nat list" where
  "window_sources units w = List.map_filter (\<lambda>i. chunk_source (units ! i)) w"

definition window_ok :: "CrcWorkUnit list \<Rightarrow> nat list \<Rightarrow> bool" where
  "window_ok units w \<longleftrightarrow> w \<noteq> [] \<and> length w \<le> CRC_CONCURRENCY \<and> distinct (window_sources units w)"

definition windows_inv :: "CrcWorkUnit list \<Rightarrow> nat list list \<Rightarrow> nat list \<Rightarrow> nat list \<Rightarrow> nat \<Rightarrow> bool" where
  "windows_inv units ws current sources i \<longleftrightarrow>
     concat ws @ current = [0..<i] \<and> (\<forall>w \<in> set ws. window_ok units w) \<and>
     (current \<noteq> [] \<longrightarrow> window_ok units current) \<and> set sources = set (window_sources units current) \<and>
     (0 < i \<longrightarrow> current \<noteq> [])"

lemma window_sources_snoc:
  "window_sources units (w @ [i]) = window_sources units w @ (case chunk_source (units ! i) of None \<Rightarrow> [] | Some s \<Rightarrow> [s])"
  by (simp add: window_sources_def map_filter_def split: option.split)

lemma crc_windows_inv:
  assumes "windows_inv units ws current sources i" and "drop i units = us" and "i \<le> length units"
  shows "concat (crc_windows ws current sources i us) = [0..<length units] \<and>
    (\<forall>w \<in> set (crc_windows ws current sources i us). window_ok units w)"
  using assms
proof (induction us arbitrary: ws current sources i)
  case Nil
  then have "i = length units" by simp
  then show ?case using Nil.prems by (auto simp: windows_inv_def)
next
  case (Cons u us)
  then have i: "i < length units" "units ! i = u" "drop (Suc i) units = us"
    using drop_eq_Cons [OF Cons.prems(2)] by simp_all
  define close where "close \<longleftrightarrow> length current \<ge> CRC_CONCURRENCY \<or>
    (case u of Chunk_unit s _ _ \<Rightarrow> s \<in> set sources | Batch_unit _ _ \<Rightarrow> False)"
  define ws' where "ws' = (if close then ws @ [current] else ws)"
  define cur' where "cur' = (if close then [] else current)"
  define src' where "src' = (if close then [] else sources)"
  have pre: "concat ws' @ cur' = [0..<i] \<and> (\<forall>w \<in> set ws'. window_ok units w) \<and> length cur' < CRC_CONCURRENCY \<and>
      distinct (window_sources units cur') \<and> set src' = set (window_sources units cur') \<and>
      (case u of Chunk_unit s _ _ \<Rightarrow> s \<notin> set src' | Batch_unit _ _ \<Rightarrow> True)"
  proof (cases close)
    case True
    then have "current \<noteq> []"
      using Cons.prems(1) by (auto simp: windows_inv_def close_def CRC_CONCURRENCY_def window_sources_def map_filter_def
          split: CrcWorkUnit.splits)
    then show ?thesis using True Cons.prems(1)
      by (auto simp: windows_inv_def ws'_def cur'_def src'_def CRC_CONCURRENCY_def window_sources_def map_filter_def
          split: CrcWorkUnit.splits)
  next
    case False
    then show ?thesis using Cons.prems(1)
      by (auto simp: windows_inv_def ws'_def cur'_def src'_def close_def window_ok_def window_sources_def map_filter_def
          split: CrcWorkUnit.splits)
  qed
  let ?src = "case u of Chunk_unit s _ _ \<Rightarrow> s # src' | Batch_unit _ _ \<Rightarrow> src'"
  have "windows_inv units ws' (cur' @ [i]) ?src (Suc i)"
    using pre i unfolding windows_inv_def window_ok_def window_sources_snoc
    by (auto split: CrcWorkUnit.splits)
  moreover have "crc_windows ws current sources i (u # us) = crc_windows ws' (cur' @ [i]) ?src (Suc i) us"
    by (simp only: crc_windows.simps Let_def close_def [symmetric] ws'_def cur'_def src'_def)
  ultimately show ?case using Cons.IH [of ws' "cur' @ [i]" ?src "Suc i"] i by simp
qed

lemma planCrcWindows_ok:
  "concat (planCrcWindows units) = [0..<length units] \<and> (\<forall>w \<in> set (planCrcWindows units). window_ok units w)"
  unfolding planCrcWindows_def by (rule crc_windows_inv) (auto simp: windows_inv_def window_sources_def map_filter_def)

subsection \<open>Work units\<close>

record crc_plan =
  cp_units :: "CrcWorkUnit list"
  cp_batch :: "nat list"
  cp_bytes :: int

definition flushBatch :: "crc_plan \<Rightarrow> crc_plan" where
  "flushBatch p =
     \<lparr>cp_units = cp_units p @ (if cp_batch p \<noteq> [] then [Batch_unit (cp_batch p) (cp_bytes p)] else []),
      cp_batch = [], cp_bytes = 0\<rparr>"

function crc_chunks :: "nat \<Rightarrow> int \<Rightarrow> int \<Rightarrow> CrcWorkUnit list" where
  "crc_chunks i sz start =
     (if start < sz then Chunk_unit i start (min CRC_CHUNK (sz - start)) # crc_chunks i sz (start + CRC_CHUNK)
      else [])"
  by pat_completeness auto
termination by (relation "measure (\<lambda>(i, sz, start). nat (sz - start))") (auto simp: CRC_CHUNK_def)

declare crc_chunks.simps [simp del]

definition plan_source :: "nat \<Rightarrow> int \<Rightarrow> crc_plan \<Rightarrow> failure + crc_plan" where
  "plan_source i sz p =
     (if \<not> is_safe_integer sz \<or> sz < 0 then Inl (Throws ''invalid-source-size'')
      else if sz \<le> CRC_CHUNK then
        let p = (if cp_batch p \<noteq> [] \<and> (length (cp_batch p) \<ge> CRC_BATCH_MAX_FILES \<or> cp_bytes p + sz > CRC_CHUNK)
                 then flushBatch p else p)
        in Inr (p\<lparr>cp_batch := cp_batch p @ [i], cp_bytes := cp_bytes p + sz\<rparr>)
      else let p = flushBatch p in Inr (p\<lparr>cp_units := cp_units p @ crc_chunks i sz 0\<rparr>))"

fun plan_sources :: "nat \<Rightarrow> int list \<Rightarrow> crc_plan \<Rightarrow> failure + crc_plan" where
  "plan_sources i [] p = Inr p"
| "plan_sources i (sz # rest) p = rbind (plan_source i sz p) (plan_sources (Suc i) rest)"

definition planCrcWorkUnits :: "int list \<Rightarrow> failure + CrcWorkUnit list" where
  "planCrcWorkUnits sizes =
     rbind (plan_sources 0 sizes \<lparr>cp_units = [], cp_batch = [], cp_bytes = 0\<rparr>) (\<lambda>p. Inr (cp_units (flushBatch p)))"

text \<open>The byte ranges (source, offset, length) a unit reads, and a tiling of one source.\<close>

fun unit_ranges :: "int list \<Rightarrow> CrcWorkUnit \<Rightarrow> (nat \<times> int \<times> int) list" where
  "unit_ranges sizes (Batch_unit ids t) = map (\<lambda>i. (i, 0, sizes ! i)) ids"
| "unit_ranges sizes (Chunk_unit i start n) = [(i, start, n)]"

fun tiles :: "nat \<Rightarrow> int \<Rightarrow> int \<Rightarrow> (nat \<times> int \<times> int) list \<Rightarrow> bool" where
  "tiles i lo hi [] = (lo = hi)"
| "tiles i lo hi ((j, start, n) # rs) = (j = i \<and> start = lo \<and> 0 \<le> n \<and> n \<le> CRC_CHUNK \<and> tiles i (lo + n) hi rs)"

definition unit_ok :: "int list \<Rightarrow> CrcWorkUnit \<Rightarrow> bool" where
  "unit_ok sizes u = (case u of
     Batch_unit is t \<Rightarrow> is \<noteq> [] \<and> length is \<le> CRC_BATCH_MAX_FILES \<and> t = (\<Sum>i \<leftarrow> is. sizes ! i) \<and> t \<le> CRC_CHUNK
   | Chunk_unit i start n \<Rightarrow> 0 < n \<and> n \<le> CRC_CHUNK \<and> start + n \<le> sizes ! i)"

lemma crc_chunks_tile:
  "start \<le> sz \<Longrightarrow> tiles i start sz (concat (map (unit_ranges sizes) (crc_chunks i sz start)))"
proof (induction i sz start rule: crc_chunks.induct)
  case (1 i sz start)
  show ?case
  proof (cases "start + CRC_CHUNK \<le> sz")
    case True
    then show ?thesis using 1 by (subst crc_chunks.simps) (auto simp: CRC_CHUNK_def)
  next
    case False
    then have "crc_chunks i sz (start + CRC_CHUNK) = []" by (subst crc_chunks.simps) simp
    then show ?thesis using 1 False by (subst crc_chunks.simps) (auto simp: CRC_CHUNK_def)
  qed
qed

lemma crc_chunks_ok: "u \<in> set (crc_chunks i sz start) \<Longrightarrow> sizes ! i = sz \<Longrightarrow> unit_ok sizes u"
proof (induction i sz start rule: crc_chunks.induct)
  case (1 i sz start)
  then show ?case by (subst (asm) (2) crc_chunks.simps) (auto simp: unit_ok_def CRC_CHUNK_def split: if_splits)
qed

definition covered :: "int list \<Rightarrow> crc_plan \<Rightarrow> (nat \<times> int \<times> int) list" where
  "covered sizes p = concat (map (unit_ranges sizes) (cp_units p)) @ map (\<lambda>i. (i, 0, sizes ! i)) (cp_batch p)"

definition plan_inv :: "int list \<Rightarrow> nat \<Rightarrow> crc_plan \<Rightarrow> bool" where
  "plan_inv sizes n p \<longleftrightarrow>
     (\<exists>rss. length rss = n \<and> (\<forall>i < n. tiles i 0 (sizes ! i) (rss ! i)) \<and> covered sizes p = concat rss) \<and>
     (\<forall>u \<in> set (cp_units p). unit_ok sizes u) \<and>
     cp_bytes p = (\<Sum>i \<leftarrow> cp_batch p. sizes ! i) \<and> length (cp_batch p) \<le> CRC_BATCH_MAX_FILES \<and> cp_bytes p \<le> CRC_CHUNK"

lemma flush_batch_empty [simp]: "cp_batch (flushBatch p) = []" "cp_bytes (flushBatch p) = 0"
  by (simp_all add: flushBatch_def)

lemma covered_flush [simp]: "covered sizes (flushBatch p) = covered sizes p"
  by (simp add: covered_def flushBatch_def)

lemma plan_inv_flush: "plan_inv sizes n p \<Longrightarrow> plan_inv sizes n (flushBatch p)"
  unfolding plan_inv_def covered_flush by (auto simp: flushBatch_def unit_ok_def CRC_CHUNK_def)

lemma plan_inv_extend:
  assumes "plan_inv sizes n p" and "tiles n 0 (sizes ! n) rs" and "covered sizes p' = covered sizes p @ rs"
    and "\<forall>u \<in> set (cp_units p'). unit_ok sizes u" and "cp_bytes p' = (\<Sum>i \<leftarrow> cp_batch p'. sizes ! i)"
    and "length (cp_batch p') \<le> CRC_BATCH_MAX_FILES" and "cp_bytes p' \<le> CRC_CHUNK"
  shows "plan_inv sizes (Suc n) p'"
proof -
  obtain rss where rss: "length rss = n" "\<forall>i < n. tiles i 0 (sizes ! i) (rss ! i)" "covered sizes p = concat rss"
    using assms(1) by (auto simp: plan_inv_def)
  then have "length (rss @ [rs]) = Suc n \<and> (\<forall>i < Suc n. tiles i 0 (sizes ! i) ((rss @ [rs]) ! i)) \<and>
      covered sizes p' = concat (rss @ [rs])"
    using assms(2,3) by (auto simp: nth_append less_Suc_eq)
  then show ?thesis using assms unfolding plan_inv_def by blast
qed

lemma plan_source_inv:
  assumes inv: "plan_inv sizes n p" and step: "plan_source n (sizes ! n) p = Inr p'"
  shows "plan_inv sizes (Suc n) p'"
proof (cases "sizes ! n \<le> CRC_CHUNK")
  case True
  define q where "q = (if cp_batch p \<noteq> [] \<and> (length (cp_batch p) \<ge> CRC_BATCH_MAX_FILES \<or> cp_bytes p + sizes ! n > CRC_CHUNK)
    then flushBatch p else p)"
  have q: "plan_inv sizes n q" "length (cp_batch q) < CRC_BATCH_MAX_FILES" "cp_bytes q + sizes ! n \<le> CRC_CHUNK"
    using inv plan_inv_flush [OF inv] True by (auto simp: q_def CRC_BATCH_MAX_FILES_def plan_inv_def)
  have p': "p' = q\<lparr>cp_batch := cp_batch q @ [n], cp_bytes := cp_bytes q + sizes ! n\<rparr>" and nn: "0 \<le> sizes ! n"
    using step True by (auto simp: plan_source_def q_def Let_def split: if_splits)
  show ?thesis
  proof (rule plan_inv_extend [OF q(1), of "[(n, 0, sizes ! n)]"])
    show "\<forall>u \<in> set (cp_units p'). unit_ok sizes u" "cp_bytes p' = (\<Sum>i \<leftarrow> cp_batch p'. sizes ! i)"
      using q(1) by (simp_all add: p' plan_inv_def)
  qed (use q(2,3) True nn in \<open>simp_all add: p' covered_def\<close>)
next
  case False
  then have p': "p' = flushBatch p\<lparr>cp_units := cp_units (flushBatch p) @ crc_chunks n (sizes ! n) 0\<rparr>"
    using step by (auto simp: plan_source_def Let_def split: if_splits)
  have pos: "0 \<le> sizes ! n" using False by (simp add: CRC_CHUNK_def)
  show ?thesis
  proof (rule plan_inv_extend [OF plan_inv_flush [OF inv] crc_chunks_tile [OF pos]])
    show "\<forall>u \<in> set (cp_units p'). unit_ok sizes u"
      using plan_inv_flush [OF inv] by (auto simp: p' plan_inv_def intro: crc_chunks_ok)
  qed (simp_all add: p' covered_def CRC_CHUNK_def)
qed

lemma plan_sources_inv:
  "plan_inv sizes n p \<Longrightarrow> drop n sizes = rest \<Longrightarrow> n \<le> length sizes \<Longrightarrow> plan_sources n rest p = Inr p' \<Longrightarrow>
    plan_inv sizes (length sizes) p'"
proof (induction rest arbitrary: n p)
  case Nil
  then show ?case by simp
next
  case (Cons sz rest)
  then have n: "n < length sizes" "sizes ! n = sz" "drop (Suc n) sizes = rest"
    using drop_eq_Cons [OF Cons.prems(2)] by simp_all
  then show ?case using Cons plan_source_inv [of sizes n p] by (auto simp: rbind_eq_Inr)
qed

text \<open>Every source is tiled by consecutive ranges of the units, in the order of the sources.\<close>

lemma planCrcWorkUnits_cover:
  assumes "planCrcWorkUnits sizes = Inr units"
  shows "\<exists>rss. length rss = length sizes \<and> (\<forall>i < length sizes. tiles i 0 (sizes ! i) (rss ! i)) \<and>
      concat (map (unit_ranges sizes) units) = concat rss"
    and "u \<in> set units \<Longrightarrow> unit_ok sizes u"
proof -
  obtain p where p: "plan_sources 0 sizes \<lparr>cp_units = [], cp_batch = [], cp_bytes = 0\<rparr> = Inr p"
      "units = cp_units (flushBatch p)"
    using assms by (auto simp: planCrcWorkUnits_def rbind_eq_Inr)
  have "plan_inv sizes 0 \<lparr>cp_units = [], cp_batch = [], cp_bytes = 0\<rparr>"
    by (simp add: plan_inv_def covered_def CRC_CHUNK_def)
  then have "plan_inv sizes (length sizes) p" using plan_sources_inv [OF _ _ _ p(1)] by simp
  then have "plan_inv sizes (length sizes) (flushBatch p)" by (rule plan_inv_flush)
  then show "\<exists>rss. length rss = length sizes \<and> (\<forall>i < length sizes. tiles i 0 (sizes ! i) (rss ! i)) \<and>
      concat (map (unit_ranges sizes) units) = concat rss"
    and "u \<in> set units \<Longrightarrow> unit_ok sizes u"
    by (simp_all add: plan_inv_def p(2) covered_def)
qed

subsection \<open>Progress\<close>

text \<open>\<open>Math.floor(x * 0.5)\<close> on integers: halving is exact in a double.\<close>

definition crcProgressBytes :: "int \<Rightarrow> int \<Rightarrow> int" where
  "crcProgressBytes totalBytes completedBytes =
     (if totalBytes \<le> 0 then 0 else min (totalBytes div 2) (max 0 completedBytes div 2))"

definition shouldCheckpointCrcChunk :: "int \<Rightarrow> int \<Rightarrow> bool" where
  "shouldCheckpointCrcChunk previousBytes nextBytes \<longleftrightarrow>
     max 0 nextBytes div CRC_PROGRESS_CHECKPOINT > max 0 previousBytes div CRC_PROGRESS_CHECKPOINT"

definition shouldCheckpointCrcFile :: "nat \<Rightarrow> nat \<Rightarrow> nat \<Rightarrow> bool" where
  "shouldCheckpointCrcFile previousFiles completedFiles fileCount \<longleftrightarrow>
     completedFiles = fileCount \<or> completedFiles div CRC_FILE_CHECKPOINT > previousFiles div CRC_FILE_CHECKPOINT"

end
