(* ===== verification/Bulk_Alias.thy ===== *)
theory Bulk_Alias
  imports Zip_Names Text_Tools
begin

section \<open>Display names of a selection\<close>

text \<open>
  \<open>aliasKeysForPhysicalKeys\<close>, \<open>planAliasLookupBatches\<close>, \<open>loadAliases\<close> and \<open>displayPath\<close> of
  \<open>apps/client/src/worker/workflow.ts\<close>: the keys whose aliases are looked up, the batches of bounded
  size in which the database is asked, and the path shown for a file. The lemmas show that batching
  is invisible: every name is the one that the whole alias table gives.
\<close>

definition MANIFEST_MAX_BYTES :: nat where "MANIFEST_MAX_BYTES = 16 * 1024 * 1024"
definition ALIAS_LOOKUP_MAX_JSON_BYTES :: nat where "ALIAS_LOOKUP_MAX_JSON_BYTES = 512 * 1024"

subsection \<open>Keys to look up\<close>

text \<open>The inner loop over the parts of one key, then the outer loop; the byte count runs across keys.\<close>

fun alias_parts ::
  "nat \<Rightarrow> bool \<Rightarrow> ustring \<Rightarrow> ustring list \<Rightarrow> nat \<times> ustring list \<Rightarrow> failure + (nat \<times> ustring list)" where
  "alias_parts cap begun prefix [] st = Inr st"
| "alias_parts cap begun prefix (part # rest) (retained, keys) =
     (let prefix = prefix @ (if begun then [47] else []) @ part;
          aliasKey = prefix @ (if rest \<noteq> [] then [47] else []);
          retained = retained + length (utf8 aliasKey) in
      if retained > cap then Inl (Throws ''manifest-capacity'')
      else alias_parts cap True prefix rest (retained, keys @ [aliasKey]))"

fun alias_keys_loop :: "nat \<Rightarrow> ustring list \<Rightarrow> nat \<times> ustring list \<Rightarrow> failure + (nat \<times> ustring list)" where
  "alias_keys_loop cap [] st = Inr st"
| "alias_keys_loop cap (key # rest) st = rbind (alias_parts cap False [] (split_on 47 key) st) (alias_keys_loop cap rest)"

definition aliasKeysForPhysicalKeys :: "nat \<Rightarrow> ustring list \<Rightarrow> failure + ustring list" where
  "aliasKeysForPhysicalKeys cap physicalKeys = rbind (alias_keys_loop cap physicalKeys (0, [])) (\<lambda>st. Inr (snd st))"

text \<open>The keys of one path: each proper prefix that ends in a slash, then the path.\<close>

fun path_prefixes :: "ustring \<Rightarrow> ustring list \<Rightarrow> ustring list" where
  "path_prefixes prefix [] = []"
| "path_prefixes prefix [p] = [prefix @ p]"
| "path_prefixes prefix (p # q # rest) = (prefix @ p @ [47]) # path_prefixes (prefix @ p @ [47]) (q # rest)"

definition lookup_keys :: "ustring \<Rightarrow> ustring list" where
  "lookup_keys key = path_prefixes [] (split_on 47 key)"

lemma alias_parts_prefixes:
  "alias_parts cap begun prefix parts (r, ks) = Inr st \<Longrightarrow>
    snd st = ks @ path_prefixes (prefix @ (if begun then [47] else [])) parts \<and>
    fst st = r + (\<Sum>k \<leftarrow> path_prefixes (prefix @ (if begun then [47] else [])) parts. length (utf8 k)) \<and>
    (r \<le> cap \<longrightarrow> fst st \<le> cap)"
proof (induction parts arbitrary: begun prefix r ks)
  case Nil
  then show ?case by auto
next
  case (Cons part rest)
  define pre where "pre = prefix @ (if begun then [47] else []) @ part"
  define k where "k = pre @ (if rest \<noteq> [] then [47] else [])"
  have step: "r + length (utf8 k) \<le> cap" "alias_parts cap True pre rest (r + length (utf8 k), ks @ [k]) = Inr st"
    using Cons.prems unfolding alias_parts.simps(2) Let_def pre_def [symmetric] k_def [symmetric]
    by (simp_all split: if_splits)
  have "path_prefixes (prefix @ (if begun then [47] else [])) (part # rest) = k # path_prefixes (pre @ [47]) rest"
    by (cases rest) (simp_all add: k_def pre_def)
  then show ?case using Cons.IH [OF step(2)] step(1) by simp
qed

lemma alias_keys_loop_prefixes:
  "alias_keys_loop cap keys (r, ks) = Inr st \<Longrightarrow> snd st = ks @ concat (map lookup_keys keys) \<and>
    fst st = r + (\<Sum>k \<leftarrow> concat (map lookup_keys keys). length (utf8 k)) \<and> (r \<le> cap \<longrightarrow> fst st \<le> cap)"
proof (induction keys arbitrary: r ks)
  case Nil
  then show ?case by auto
next
  case (Cons key keys)
  then obtain st1 where st1: "alias_parts cap False [] (split_on 47 key) (r, ks) = Inr st1"
      "alias_keys_loop cap keys (fst st1, snd st1) = Inr st"
    by (auto simp: rbind_eq_Inr)
  show ?case using alias_parts_prefixes [OF st1(1)] Cons.IH [OF st1(2)] by (auto simp: lookup_keys_def)
qed

lemma alias_keys_all:
  "aliasKeysForPhysicalKeys cap keys = Inr ks \<Longrightarrow> ks = concat (map lookup_keys keys) \<and>
    (\<Sum>k \<leftarrow> ks. length (utf8 k)) \<le> cap"
  unfolding aliasKeysForPhysicalKeys_def using alias_keys_loop_prefixes [of cap keys 0 "[]"]
  by (auto simp: rbind_eq_Inr)

subsection \<open>Batches\<close>

fun alias_batches :: "ustring list list \<Rightarrow> ustring list \<Rightarrow> nat \<Rightarrow> ustring list \<Rightarrow> ustring list list" where
  "alias_batches batches batch bytes [] = (if batch \<noteq> [] then batches @ [batch] else batches)"
| "alias_batches batches batch bytes (key # rest) =
     (let itemBytes = length (utf8 (json_string key));
          addedBytes = itemBytes + (if batch \<noteq> [] then 1 else 0) in
      if batch \<noteq> [] \<and> bytes + addedBytes > ALIAS_LOOKUP_MAX_JSON_BYTES
      then alias_batches (batches @ [batch]) [key] (2 + itemBytes) rest
      else alias_batches batches (batch @ [key]) (bytes + itemBytes + (if batch \<noteq> [] then 1 else 0)) rest)"

definition planAliasLookupBatches :: "ustring list \<Rightarrow> ustring list list" where
  "planAliasLookupBatches keys = alias_batches [] [] 2 (set_order keys)"

definition batch_json :: "ustring list \<Rightarrow> ustring" where
  "batch_json batch = json_array (map json_string batch)"

definition batch_ok :: "ustring list \<Rightarrow> bool" where
  "batch_ok batch \<longleftrightarrow> batch \<noteq> [] \<and>
     (length batch = 1 \<or> length (utf8 (batch_json batch)) \<le> ALIAS_LOOKUP_MAX_JSON_BYTES)"

lemma batch_json_bytes:
  "length (utf8 (batch_json batch)) = 2 + (\<Sum>k \<leftarrow> batch. length (utf8 (json_string k))) + (length batch - 1)"
  by (simp add: batch_json_def json_array_bytes comp_def)

lemma alias_batches_ok:
  assumes "\<forall>b \<in> set batches. batch_ok b" and "batch \<noteq> [] \<longrightarrow> batch_ok batch"
    and "bytes = length (utf8 (batch_json batch))"
  shows "concat (alias_batches batches batch bytes keys) = concat batches @ batch @ keys \<and>
    (\<forall>b \<in> set (alias_batches batches batch bytes keys). batch_ok b)"
  using assms
proof (induction batches batch bytes keys rule: alias_batches.induct)
  case (1 batches batch bytes)
  then show ?case by auto
next
  case (2 batches batch bytes key rest)
  let ?n = "length (utf8 (json_string key))"
  have single: "batch_ok [key]" "2 + ?n = length (utf8 (batch_json [key]))"
    by (simp_all add: batch_ok_def batch_json_bytes)
  have more: "bytes + ?n + (if batch \<noteq> [] then 1 else 0) = length (utf8 (batch_json (batch @ [key])))"
    using 2(5) by (cases batch) (simp_all add: batch_json_bytes)
  show ?case
  proof (cases "batch \<noteq> [] \<and> bytes + (?n + (if batch \<noteq> [] then 1 else 0)) > ALIAS_LOOKUP_MAX_JSON_BYTES")
    case True
    then have over: "bytes + (?n + 1) > ALIAS_LOOKUP_MAX_JSON_BYTES" by (auto split: if_splits)
    from True have "alias_batches batches batch bytes (key # rest) = alias_batches (batches @ [batch]) [key] (2 + ?n) rest"
      using over conjunct1 [OF True] by (simp add: Let_def)
    moreover have "concat (alias_batches (batches @ [batch]) [key] (2 + ?n) rest) = concat (batches @ [batch]) @ [key] @ rest \<and>
        (\<forall>b \<in> set (alias_batches (batches @ [batch]) [key] (2 + ?n) rest). batch_ok b)"
      using over conjunct1 [OF True] 2(3,4) single by (intro 2(1) [OF refl refl]) simp_all
    ultimately show ?thesis by simp
  next
    case False
    then have "batch_ok (batch @ [key])"
      using more by (cases "batch = []") (auto simp: batch_ok_def)
    moreover define total where "total = bytes + ?n + (if batch \<noteq> [] then 1 else 0)"
    moreover have "alias_batches batches batch bytes (key # rest) = alias_batches batches (batch @ [key]) total rest"
      unfolding alias_batches.simps(2) Let_def if_not_P [OF False] total_def ..
    moreover have "concat (alias_batches batches (batch @ [key]) total rest) = concat batches @ (batch @ [key]) @ rest \<and>
        (\<forall>b \<in> set (alias_batches batches (batch @ [key]) total rest). batch_ok b)"
      unfolding total_def using False 2(3) more \<open>batch_ok (batch @ [key])\<close> by (intro 2(2) [OF refl refl]) simp_all
    ultimately show ?thesis by simp
  qed
qed

lemma planAliasLookupBatches_ok:
  "concat (planAliasLookupBatches keys) = set_order keys \<and> (\<forall>b \<in> set (planAliasLookupBatches keys). batch_ok b)"
  unfolding planAliasLookupBatches_def
  using alias_batches_ok [of "[]" "[]" 2 "set_order keys"] by (simp add: batch_json_bytes)

subsection \<open>Loading aliases\<close>

text \<open>
  The table of aliases, keyed by \<open>physical_key\<close>; a query returns the rows of the requested keys in
  some order, here the order of the table, and each row is put in the map.
\<close>

type_synonym alias_table = "(ustring \<times> ustring) list"

definition query_aliases :: "alias_table \<Rightarrow> ustring list \<Rightarrow> (ustring \<times> ustring) list" where
  "query_aliases table batch = filter (\<lambda>(k, name). k \<in> set batch) table"

definition loadAliases :: "alias_table \<Rightarrow> ustring list \<Rightarrow> ustring \<Rightarrow> ustring option" where
  "loadAliases table keys =
     foldl (\<lambda>aliases batch. foldl (\<lambda>m (k, name). m(k \<mapsto> name)) aliases (query_aliases table batch))
       (\<lambda>_. None) (planAliasLookupBatches keys)"

lemma foldl_updates_alist:
  "foldl (\<lambda>m (k, v). m(k \<mapsto> v)) m0 rows k = (case map_of (rev rows) k of None \<Rightarrow> m0 k | Some v \<Rightarrow> Some v)"
proof (induction rows arbitrary: m0)
  case Nil
  then show ?case by simp
next
  case (Cons row rows)
  obtain a b where "row = (a, b)" by (cases row)
  then show ?case using Cons [of "m0(a \<mapsto> b)"] by (simp add: map_add_def split: option.split)
qed

lemma query_lookup:
  assumes "distinct (map fst table)"
  shows "map_of (rev (query_aliases table batch)) k = (if k \<in> set batch then map_of table k else None)"
proof -
  have d: "distinct (map fst (query_aliases table batch))"
    unfolding query_aliases_def using assms by (rule distinct_map_filter)
  have "map_of (rev (query_aliases table batch)) = map_of (query_aliases table batch)"
    using d by (intro map_of_inject_set [THEN iffD2]) (simp_all add: rev_map [symmetric])
  moreover have "map_of (query_aliases table batch) k = (if k \<in> set batch then map_of table k else None)"
    unfolding query_aliases_def by (induction table) auto
  ultimately show ?thesis by simp
qed

lemma loadAliases_lookup:
  assumes "distinct (map fst table)"
  shows "loadAliases table keys k = (if k \<in> set keys then map_of table k else None)"
proof -
  have loop: "foldl (\<lambda>aliases batch. foldl (\<lambda>m (k, name). m(k \<mapsto> name)) aliases (query_aliases table batch)) m bs k =
      (if k \<in> set (concat bs) \<and> map_of table k \<noteq> None then map_of table k else m k)" for m bs
  proof (induction bs arbitrary: m)
    case Nil
    then show ?case by simp
  next
    case (Cons b bs)
    show ?case unfolding foldl.simps Cons
      by (auto simp: foldl_updates_alist query_lookup [OF assms] split: option.split)
  qed
  have "set (concat (planAliasLookupBatches keys)) = set keys" using planAliasLookupBatches_ok [of keys] by simp
  then show ?thesis unfolding loadAliases_def loop by auto
qed

subsection \<open>Display paths\<close>

fun display_segments :: "(ustring \<Rightarrow> ustring option) \<Rightarrow> ustring \<Rightarrow> ustring list \<Rightarrow> ustring list" where
  "display_segments aliases physical [] = []"
| "display_segments aliases physical (segment # rest) =
     (let physical = physical @ segment;
          alias = aliases (physical @ (if rest = [] then [] else [47]));
          name = (case alias of Some a \<Rightarrow> if a \<noteq> [] then a else segment | None \<Rightarrow> segment)
      in name # display_segments aliases (physical @ [47]) rest)"

definition displayPath :: "ustring \<Rightarrow> ustring \<Rightarrow> (ustring \<Rightarrow> ustring option) \<Rightarrow> ustring" where
  "displayPath key root aliases =
     (let rest = drop (length root) key;
          relative = (if rest \<noteq> [] \<and> List.last rest = 47 then butlast rest else rest)
      in join_with 47 (display_segments aliases root (split_on 47 relative)))"

lemma display_segments_agree:
  "(\<forall>k \<in> set (path_prefixes root segments). f k = g k) \<Longrightarrow>
    display_segments f root segments = display_segments g root segments"
proof (induction f root segments rule: display_segments.induct)
  case (1 aliases physical)
  then show ?case by simp
next
  case (2 aliases physical segment rest)
  then show ?case by (cases rest) (auto simp: Let_def)
qed

lemma path_prefixes_append:
  "ys \<noteq> [] \<Longrightarrow> set (path_prefixes (prefix @ concat (map (\<lambda>p. p @ [47]) xs)) ys) \<subseteq> set (path_prefixes prefix (xs @ ys))"
proof (induction xs arbitrary: prefix)
  case Nil
  then show ?case by simp
next
  case (Cons x xs)
  then obtain z zs where z: "xs @ ys = z # zs" by (cases "xs @ ys") auto
  show ?case using Cons.IH [of "prefix @ x @ [47]"] Cons.prems z by auto
qed

lemma split_append_slash:
  assumes "c \<notin> set x" shows "split_on c (x @ c # rest) = x # split_on c rest"
  using assms by (induction x) auto

lemma split_root:
  "root = concat (map (\<lambda>p. p @ [47]) ps) \<Longrightarrow> \<forall>p \<in> set ps. 47 \<notin> set p \<Longrightarrow>
    split_on 47 (root @ rest) = ps @ split_on 47 rest"
  by (induction ps arbitrary: root) (auto simp: split_append_slash)

text \<open>A root that \<open>normalizeRoot\<close> returns: non-empty segments, each followed by a slash.\<close>

definition root_form :: "ustring \<Rightarrow> bool" where
  "root_form root \<longleftrightarrow> (\<exists>ps. root = concat (map (\<lambda>p. p @ [47]) ps) \<and> (\<forall>p \<in> set ps. 47 \<notin> set p))"

lemma displayPath_agree:
  assumes "root_form root" and "key = root @ rest" and "rest \<noteq> []" and "List.last rest \<noteq> 47"
    and "\<forall>k \<in> set (lookup_keys key). f k = g k"
  shows "displayPath key root f = displayPath key root g"
proof -
  obtain ps where ps: "root = concat (map (\<lambda>p. p @ [47]) ps)" "\<forall>p \<in> set ps. 47 \<notin> set p"
    using assms(1) by (auto simp: root_form_def)
  have "lookup_keys key = path_prefixes [] (ps @ split_on 47 rest)"
    using split_root [OF ps] assms(2) by (simp add: lookup_keys_def)
  then have "set (path_prefixes root (split_on 47 rest)) \<subseteq> set (lookup_keys key)"
    using path_prefixes_append [of "split_on 47 rest" "[]" ps] ps(1) by simp
  then show ?thesis
    unfolding displayPath_def using assms
    by (auto simp: Let_def intro!: arg_cong [where f = "join_with 47"] display_segments_agree)
qed

end
