(* ===== verification/Bulk_Estimate.thy ===== *)
theory Bulk_Estimate
  imports Crc_Plan Bulk_Alias Zip_Layout One_Pass_Plan
begin

section \<open>What the preparation of an archive costs\<close>

text \<open>
  \<open>estimateBulkPreparation\<close>, \<open>estimateOnePassBulkPreparation\<close> and \<open>assertBulkPreparationCapacity\<close>
  of \<open>apps/client/src/worker/workflow.ts\<close>: the reads and completed entries of every part, the
  workflow steps and the database queries, against the limits of the platform.
\<close>

definition ZIP_PART :: nat where "ZIP_PART = 16 * 1024 * 1024"
definition UPLOAD_CONCURRENCY :: nat where "UPLOAD_CONCURRENCY = 2"
definition SUCCESS_FIXED_STEPS :: nat where "SUCCESS_FIXED_STEPS = 8"
definition SQL_CHUNK :: nat where "SQL_CHUNK = 100"
definition CACHE_REUSE_CLAIM_QUERIES :: nat where "CACHE_REUSE_CLAIM_QUERIES = 2"
definition WORKFLOW_STEP_LIMIT :: nat where "WORKFLOW_STEP_LIMIT = 25000"
definition WORKFLOW_STEP_RESERVE :: nat where "WORKFLOW_STEP_RESERVE = 100"
definition WORKER_SUBREQUEST_LIMIT :: nat where "WORKER_SUBREQUEST_LIMIT = 25000"
definition SUBREQUEST_RESERVE :: nat where "SUBREQUEST_RESERVE = 100"
definition D1_QUERY_LIMIT :: nat where "D1_QUERY_LIMIT = 1000"
definition D1_QUERY_RESERVE :: nat where "D1_QUERY_RESERVE = 25"

subsection \<open>Counting per part\<close>

text \<open>\<open>for (part = first; part <= final; part += 1) counts[part] += amount(part)\<close>.\<close>

definition bump_parts :: "nat \<Rightarrow> nat \<Rightarrow> (nat \<Rightarrow> nat) \<Rightarrow> nat list \<Rightarrow> nat list" where
  "bump_parts first final amount counts =
     foldl (\<lambda>xs p. xs[p := xs ! p + amount p]) counts [first..<Suc final]"

lemma bump_loop:
  fixes amount :: "nat \<Rightarrow> nat"
  shows "length (foldl (\<lambda>xs p. xs[p := xs ! p + amount p]) counts ps) = length counts \<and>
   (distinct ps \<longrightarrow> q < length counts \<longrightarrow> foldl (\<lambda>xs p. xs[p := xs ! p + amount p]) counts ps ! q =
      counts ! q + (if q \<in> set ps then amount q else 0))"
  by (induction ps arbitrary: counts) (auto simp: nth_list_update intro!: nth_list_update_neq)

lemma bump_parts_length [simp]: "length (bump_parts a b f xs) = length xs"
  using bump_loop unfolding bump_parts_def by blast

lemma bump_parts_nth:
  "q < length xs \<Longrightarrow> bump_parts a b f xs ! q = xs ! q + (if a \<le> q \<and> q \<le> b then f q else 0)"
  using bump_loop [of f xs "[a..<Suc b]" q] unfolding bump_parts_def by auto

definition maximum :: "nat list \<Rightarrow> nat" where
  "maximum xs = (if xs = [] then 0 else foldl max 0 xs)"

lemma foldl_max_ge: "a \<le> foldl max a (xs :: nat list) \<and> (\<forall>x \<in> set xs. x \<le> foldl max a xs)"
proof (induction xs arbitrary: a)
  case Nil
  then show ?case by simp
next
  case (Cons x xs)
  have "max a x \<le> foldl max (max a x) xs" and "\<forall>y \<in> set xs. y \<le> foldl max (max a x) xs"
    using Cons [of "max a x"] by auto
  then show ?case by auto
qed

lemma maximum_ge: "q < length xs \<Longrightarrow> xs ! q \<le> maximum xs"
  using foldl_max_ge [of 0 xs] by (auto simp: maximum_def)

subsection \<open>The two-pass estimate\<close>

record BulkPreparationEstimate =
  be_archiveSize :: int
  be_crcSteps :: nat
  be_uploadParts :: nat
  be_workflowSteps :: nat
  be_maximumUploadPartSourceReads :: nat

text \<open>Progress over a window: completed bytes and files.\<close>

fun unit_progress :: "int list \<Rightarrow> int \<times> nat \<Rightarrow> CrcWorkUnit \<Rightarrow> int \<times> nat" where
  "unit_progress sizes (bytes, files) (Batch_unit ids t) = (bytes + t, Suc (List.last ids))"
| "unit_progress sizes (bytes, files) (Chunk_unit i start n) =
     (bytes + n, if start + n = sizes ! i then Suc i else files)"

definition window_progress ::
  "int list \<Rightarrow> CrcWorkUnit list \<Rightarrow> (int \<times> nat) \<times> nat \<Rightarrow> nat list \<Rightarrow> (int \<times> nat) \<times> nat" where
  "window_progress sizes units = (\<lambda>(done, steps) w.
     let next = foldl (\<lambda>acc i. unit_progress sizes acc (units ! i)) done w in
     (next, if shouldCheckpointCrcChunk (fst done) (fst next) \<or>
               shouldCheckpointCrcFile (snd done) (snd next) (length sizes)
            then Suc steps else steps))"

fun two_pass_reads :: "nat \<Rightarrow> (int \<times> ustring) list \<Rightarrow> nat list \<Rightarrow> nat list" where
  "two_pass_reads offset [] reads = reads"
| "two_pass_reads offset ((sz, name) # rest) reads =
     (let start = offset + 50 + length (utf8 name) in
      two_pass_reads (start + nat sz) rest
        (if sz > 0 then bump_parts (start div ZIP_PART) ((start + nat sz - 1) div ZIP_PART) (\<lambda>_. 1) reads else reads))"

definition estimateBulkPreparation :: "text_runtime \<Rightarrow> ZipManifestEntry list \<Rightarrow> failure + BulkPreparationEstimate" where
  "estimateBulkPreparation rt sources =
     (let sizes = map me_size sources in
      rbind (estimateZipArchiveSize rt sources) (\<lambda>archiveSize.
      let uploadParts = ceil_div (nat archiveSize) ZIP_PART in
      rbind (planCrcWorkUnits sizes) (\<lambda>units.
      let crcProgressSteps = snd (foldl (window_progress sizes units) ((0, 0), 0) (planCrcWindows units));
          progressSteps = crcProgressSteps + ceil_div uploadParts UPLOAD_CONCURRENCY in
      rbind (uniqueZipEntryNames rt (map me_name sources)) (\<lambda>names.
      let reads = two_pass_reads 0 (zip sizes names) (replicate uploadParts 0) in
      Inr \<lparr>be_archiveSize = archiveSize, be_crcSteps = length units, be_uploadParts = uploadParts,
           be_workflowSteps = SUCCESS_FIXED_STEPS + length units + uploadParts + progressSteps,
           be_maximumUploadPartSourceReads = maximum reads\<rparr>))))"

text \<open>The data of an entry that starts at \<open>start\<close> meets part \<open>q\<close>.\<close>

definition meets :: "nat \<Rightarrow> nat \<Rightarrow> nat \<Rightarrow> nat \<Rightarrow> bool" where
  "meets part start n q \<longleftrightarrow> 0 < n \<and> start < (q + 1) * part \<and> q * part < start + n"

fun data_starts :: "nat \<Rightarrow> nat \<Rightarrow> (nat \<times> ustring) list \<Rightarrow> (nat \<times> nat) list" where
  "data_starts gap offset [] = []"
| "data_starts gap offset ((n, name) # rest) =
     (offset + 50 + length (utf8 name), n) # data_starts gap (offset + 50 + length (utf8 name) + n + gap) rest"

lemma part_of: "0 < part \<Longrightarrow> a div part \<le> q \<longleftrightarrow> a < (q + 1) * (part :: nat)"
  by (simp add: div_less_iff_less_mult flip: less_Suc_eq_le)

lemma part_from: "0 < part \<Longrightarrow> 0 < a \<Longrightarrow> q \<le> (a - 1) div part \<longleftrightarrow> q * part < (a :: nat)"
  by (auto simp: less_eq_div_iff_mult_less_eq)

lemma meets_parts:
  "0 < part \<Longrightarrow> 0 < n \<Longrightarrow> (start div part \<le> q \<and> q \<le> (start + n - 1) div part) = meets part start n q"
  using part_of [of part start q] part_from [of part "start + n" q] by (simp add: meets_def)

lemma two_pass_reads_count:
  "(\<forall>(sz, name) \<in> set es. 0 \<le> sz) \<Longrightarrow> q < length reads \<Longrightarrow>
    two_pass_reads offset es reads ! q = reads ! q +
      length (filter (\<lambda>(start, n). meets ZIP_PART start n q) (data_starts 0 offset (map (\<lambda>(sz, name). (nat sz, name)) es)))"
proof (induction offset es reads rule: two_pass_reads.induct)
  case (1 offset reads)
  then show ?case by simp
next
  case (2 offset sz name rest reads)
  let ?s = "offset + 50 + length (utf8 name)"
  have "0 < ZIP_PART" by (simp add: ZIP_PART_def)
  then have "(?s div ZIP_PART \<le> q \<and> q \<le> (?s + nat sz - 1) div ZIP_PART) = meets ZIP_PART ?s (nat sz) q" if "0 < sz"
    using that by (intro meets_parts) simp_all
  then show ?case using 2 by (auto simp: Let_def bump_parts_nth meets_def)
qed

subsection \<open>The one-pass estimate\<close>

record OnePassBulkPreparationEstimate =
  oe_archiveSize :: int
  oe_uploadParts :: int
  oe_workflowSteps :: int
  oe_maximumUploadPartSourceReads :: nat
  oe_maximumCompletedEntriesPerPart :: nat
  oe_maximumD1QueriesPerStep :: nat
  oe_snapshotAliasQueries :: nat

text \<open>Bytes of the data \<open>[start, start + n)\<close> in part \<open>q\<close>, and the chunk reads they take.\<close>

definition overlap :: "nat \<Rightarrow> nat \<Rightarrow> nat \<Rightarrow> nat \<Rightarrow> nat" where
  "overlap part start n q = min (start + n) ((q + 1) * part) - max start (q * part)"

definition READ_CHUNK :: nat where "READ_CHUNK = 8 * 1024 * 1024"

fun one_pass_counts ::
  "nat \<Rightarrow> nat \<Rightarrow> nat \<Rightarrow> (nat \<times> ustring) list \<Rightarrow> nat list \<times> nat list \<Rightarrow> nat list \<times> nat list" where
  "one_pass_counts part count offset [] counts = counts"
| "one_pass_counts part count offset ((n, name) # rest) (reads, completions) =
     (let start = offset + (50 + length (utf8 name));
          finish = start + n;
          reads' = (if n > 0 then bump_parts (start div part) ((finish - 1) div part)
                      (\<lambda>q. ceil_div (overlap part start n q) READ_CHUNK) reads
                    else reads);
          next = finish + 24;
          home = min (count - 1) ((next - 1) div part)
      in one_pass_counts part count next rest (reads', completions[home := completions ! home + 1]))"

definition estimateOnePassBulkPreparation ::
  "text_runtime \<Rightarrow> OnePassZipEntry list \<Rightarrow> failure + OnePassBulkPreparationEstimate" where
  "estimateOnePassBulkPreparation rt sources =
     rbind (planOnePassZipMultipart rt sources) (\<lambda>plan.
     rbind (uniqueZipEntryNames rt (map oe_name sources)) (\<lambda>names.
     let count = nat (mp_partCount plan);
         (reads, completions) = one_pass_counts (nat (mp_partSize plan)) count 0
           (zip (map (nat \<circ> oe_size) sources) names) (replicate count 0, replicate count 0);
         lookups = ceil_div (length sources) SQL_CHUNK;
         writes = ceil_div (maximum completions) SQL_CHUNK;
         physicalKeys = filter (\<lambda>k. k \<noteq> []) (map oe_physicalKey sources) in
     rbind (if length physicalKeys = length sources
            then rbind (aliasKeysForPhysicalKeys MANIFEST_MAX_BYTES physicalKeys)
                   (\<lambda>keys. Inr (length (planAliasLookupBatches keys) + 3))
            else Inr 0) (\<lambda>aliasQueries.
     Inr \<lparr>oe_archiveSize = mp_archiveSize plan, oe_uploadParts = mp_partCount plan,
          oe_workflowSteps = int SUCCESS_FIXED_STEPS + mp_partCount plan,
          oe_maximumUploadPartSourceReads = maximum reads,
          oe_maximumCompletedEntriesPerPart = maximum completions,
          oe_maximumD1QueriesPerStep =
            max (max (lookups * 2) (writes + lookups + 1)) (max aliasQueries CACHE_REUSE_CLAIM_QUERIES),
          oe_snapshotAliasQueries = aliasQueries\<rparr>)))"

lemma overlap_zero: "\<not> meets part start n q \<Longrightarrow> overlap part start n q = 0"
  by (cases "n = 0") (auto simp: meets_def overlap_def not_less)

lemma one_pass_counts_reads:
  assumes "0 < part"
  shows "q < length reads \<Longrightarrow> fst (one_pass_counts part count offset es (reads, cs)) ! q =
    reads ! q + (\<Sum>(start, n) \<leftarrow> data_starts 24 offset es. ceil_div (overlap part start n q) READ_CHUNK)"
proof (induction es arbitrary: offset reads cs)
  case Nil
  then show ?case by simp
next
  case (Cons e es)
  obtain n name where e: "e = (n, name)" by (cases e)
  let ?s = "offset + (50 + length (utf8 name))"
  have "(if 0 < n \<and> ?s div part \<le> q \<and> q \<le> (?s + n - 1) div part then ceil_div (overlap part ?s n q) READ_CHUNK
      else 0) = ceil_div (overlap part ?s n q) READ_CHUNK"
  proof (cases "meets part ?s n q")
    case True
    then have "0 < n" by (simp add: meets_def)
    then show ?thesis using meets_parts [OF assms, of n ?s q] True by simp
  next
    case False
    have "ceil_div 0 READ_CHUNK = 0" by (simp add: READ_CHUNK_def)
    then show ?thesis unfolding overlap_zero [OF False] by simp
  qed
  then show ?case
    using Cons by (auto simp: e Let_def bump_parts_nth add.assoc split: if_splits)
qed

text \<open>Where the entries end: the offsets after their descriptors.\<close>

definition entry_ends :: "nat \<Rightarrow> (nat \<times> ustring) list \<Rightarrow> nat list" where
  "entry_ends offset es = map (\<lambda>(start, n). start + n + 24) (data_starts 24 offset es)"

lemma one_pass_counts_completions:
  assumes "0 < part"
  shows "q < length cs \<Longrightarrow> \<forall>x \<in> set (entry_ends offset es). (x - 1) div part < count \<Longrightarrow> count \<le> length cs \<Longrightarrow>
    snd (one_pass_counts part count offset es (reads, cs)) ! q =
      cs ! q + length (filter (\<lambda>x. (x - 1) div part = q) (entry_ends offset es))"
proof (induction es arbitrary: offset reads cs)
  case Nil
  then show ?case by (simp add: entry_ends_def)
next
  case (Cons e es)
  obtain n name where e: "e = (n, name)" by (cases e)
  let ?x = "offset + 50 + length (utf8 name) + n + 24"
  have ends: "entry_ends offset (e # es) = ?x # entry_ends ?x es" by (simp add: entry_ends_def e)
  have home: "min (count - 1) ((?x - 1) div part) = (?x - 1) div part" "(?x - 1) div part < length cs"
    using Cons.prems(2,3) by (auto simp: ends)
  let ?cs = "cs[(?x - 1) div part := cs ! ((?x - 1) div part) + 1]"
  have eq: "one_pass_counts part count offset (e # es) (reads, cs) = one_pass_counts part count ?x es
      (if n > 0 then bump_parts ((offset + (50 + length (utf8 name))) div part)
         ((offset + (50 + length (utf8 name)) + n - 1) div part)
         (\<lambda>q. ceil_div (overlap part (offset + (50 + length (utf8 name))) n q) READ_CHUNK) reads else reads, ?cs)"
    using home(1) by (simp add: e Let_def add.assoc)
  show ?case
    unfolding eq using Cons.prems home(2) by (subst Cons.IH) (auto simp: ends nth_list_update)
qed

end
