(* ===== verification/Bulk_Partition.thy ===== *)
theory Bulk_Partition
  imports Bulk_Estimate
begin

section \<open>Capacity checks and the split into archives\<close>

text \<open>
  \<open>assertBulkPreparationCapacity\<close> and \<open>partitionBulkSnapshot\<close> of
  \<open>apps/client/src/worker/workflow.ts\<close>. The lemmas show that the split stops, keeps every source once and in
  order, and that each archive it plans passes the capacity checks and has a multipart plan.
\<close>

definition MAX_ARCHIVE_SOURCE_BYTES :: int where
  "MAX_ARCHIVE_SOURCE_BYTES = 100 * 1024 * 1024 * 1024"

record Snapshot =
  sn_root :: ustring
  sn_shareId :: ustring
  sn_shareVersion :: int
  sn_sources :: "OnePassZipEntry list"

subsection \<open>Capacity\<close>

text \<open>The text \<open>JSON.stringify(snapshot)\<close>.\<close>

definition source_json :: "OnePassZipEntry \<Rightarrow> ustring" where
  "source_json e = json_object
     [(ustr ''physicalKey'', json_string (oe_physicalKey e)), (ustr ''key'', json_string (oe_key e)),
      (ustr ''name'', json_string (oe_name e)), (ustr ''size'', json_int (oe_size e)),
      (ustr ''etag'', json_string (oe_etag e))]"

definition snapshot_json :: "Snapshot \<Rightarrow> ustring" where
  "snapshot_json s = json_object
     [(ustr ''root'', json_string (sn_root s)), (ustr ''shareId'', json_string (sn_shareId s)),
      (ustr ''shareVersion'', json_int (sn_shareVersion s)),
      (ustr ''sources'', json_array (map source_json (sn_sources s)))]"

definition assertBulkPreparationCapacity ::
  "text_runtime \<Rightarrow> Snapshot \<Rightarrow> failure + OnePassBulkPreparationEstimate" where
  "assertBulkPreparationCapacity rt s =
     (if length (utf8 (snapshot_json s)) > MANIFEST_MAX_BYTES then Inl (Throws ''manifest-capacity'')
      else
        rbind (estimateOnePassBulkPreparation rt (sn_sources s)) (\<lambda>e.
        if oe_uploadParts e > 10000 then Inl (Throws ''multipart-part-limit'')
        else if oe_workflowSteps e > int (WORKFLOW_STEP_LIMIT - WORKFLOW_STEP_RESERVE)
        then Inl (Throws ''workflow-step-capacity'')
        else if oe_maximumUploadPartSourceReads e + ceil_div (oe_maximumCompletedEntriesPerPart e) SQL_CHUNK + 2 >
          WORKER_SUBREQUEST_LIMIT - SUBREQUEST_RESERVE then Inl (Throws ''subrequest-capacity'')
        else if oe_maximumD1QueriesPerStep e > D1_QUERY_LIMIT - D1_QUERY_RESERVE
        then Inl (Throws ''d1-query-capacity'')
        else Inr e))"

definition capacityFailure :: "failure \<Rightarrow> bool" where
  "capacityFailure error = (case error of
     Throws message \<Rightarrow> message \<in> {''manifest-capacity'', ''multipart-part-limit'', ''workflow-step-capacity'',
       ''subrequest-capacity'', ''d1-query-capacity''}
   | Diverges \<Rightarrow> False)"

subsection \<open>The split\<close>

text \<open>The loop over the sources: groups closed, current group, its bytes.\<close>

fun byte_groups ::
  "OnePassZipEntry list list \<Rightarrow> OnePassZipEntry list \<Rightarrow> int \<Rightarrow> OnePassZipEntry list \<Rightarrow>
   failure + OnePassZipEntry list list" where
  "byte_groups groups current bytes [] = Inr (if current \<noteq> [] then groups @ [current] else groups)"
| "byte_groups groups current bytes (source # rest) =
     (if oe_size source > MAX_ARCHIVE_SOURCE_BYTES then Inl (Throws ''single-source-capacity'')
      else if current \<noteq> [] \<and> bytes + oe_size source > MAX_ARCHIVE_SOURCE_BYTES
      then byte_groups (groups @ [current]) [source] (oe_size source) rest
      else byte_groups groups (current @ [source]) (bytes + oe_size source) rest)"

text \<open>\<open>fit\<close>: \<open>None\<close> when the recursion does not end (an empty list that fails would recurse for ever).\<close>

partial_function (option) fit ::
  "text_runtime \<Rightarrow> Snapshot \<Rightarrow> OnePassZipEntry list \<Rightarrow> Snapshot list \<Rightarrow> (failure + Snapshot list) option" where
  "fit rt snapshot sources result =
     (let candidate = snapshot\<lparr>sn_sources := sources\<rparr> in
      case assertBulkPreparationCapacity rt candidate of
        Inr e \<Rightarrow> Some (Inr (result @ [candidate]))
      | Inl error \<Rightarrow>
          if \<not> capacityFailure error \<or> length sources = 1 then Some (Inl error)
          else
            let middle = ceil_div (length sources) 2 in
            Option.bind (fit rt snapshot (take middle sources) result) (\<lambda>r.
            case r of
              Inl error \<Rightarrow> Some (Inl error)
            | Inr result \<Rightarrow> fit rt snapshot (drop middle sources) result))"

fun fit_groups ::
  "text_runtime \<Rightarrow> Snapshot \<Rightarrow> OnePassZipEntry list list \<Rightarrow> Snapshot list \<Rightarrow> failure + Snapshot list" where
  "fit_groups rt snapshot [] result = Inr result"
| "fit_groups rt snapshot (g # gs) result =
     (case fit rt snapshot g result of
        None \<Rightarrow> Inl Diverges
      | Some r \<Rightarrow> rbind r (fit_groups rt snapshot gs))"

definition partitionBulkSnapshot :: "text_runtime \<Rightarrow> Snapshot \<Rightarrow> failure + Snapshot list" where
  "partitionBulkSnapshot rt snapshot =
     rbind (byte_groups [] [] 0 (sn_sources snapshot)) (\<lambda>groups. fit_groups rt snapshot groups [])"

subsection \<open>What the split guarantees\<close>

definition total_bytes :: "OnePassZipEntry list \<Rightarrow> int" where
  "total_bytes sources = (\<Sum>s \<leftarrow> sources. oe_size s)"

definition group_ok :: "OnePassZipEntry list \<Rightarrow> bool" where
  "group_ok g \<longleftrightarrow> g \<noteq> [] \<and> total_bytes g \<le> MAX_ARCHIVE_SOURCE_BYTES"

lemma byte_groups_ok:
  "byte_groups groups current bytes sources = Inr gs \<Longrightarrow> \<forall>g \<in> set groups. group_ok g \<Longrightarrow>
    bytes = total_bytes current \<Longrightarrow> (current \<noteq> [] \<Longrightarrow> group_ok current) \<Longrightarrow>
    concat gs = concat groups @ current @ sources \<and> (\<forall>g \<in> set gs. group_ok g)"
proof (induction groups current bytes sources rule: byte_groups.induct)
  case (1 groups current bytes)
  then show ?case by (auto split: if_splits)
next
  case (2 groups current bytes source rest)
  have size: "\<not> oe_size source > MAX_ARCHIVE_SOURCE_BYTES" using 2(3) by (auto split: if_splits)
  show ?case
  proof (cases "current \<noteq> [] \<and> bytes + oe_size source > MAX_ARCHIVE_SOURCE_BYTES")
    case True
    have "byte_groups (groups @ [current]) [source] (oe_size source) rest = Inr gs" using True size 2(3) by simp
    moreover have "group_ok [source]" using size by (simp add: group_ok_def total_bytes_def)
    moreover have "\<forall>g \<in> set (groups @ [current]). group_ok g" using 2(4,6) True by simp
    ultimately have "concat gs = concat (groups @ [current]) @ [source] @ rest \<and> (\<forall>g \<in> set gs. group_ok g)"
      by (intro 2(1) [OF size True]) (simp_all add: total_bytes_def)
    then show ?thesis by simp
  next
    case False
    have "group_ok (current @ [source])"
      using False size 2(5) by (cases "current = []") (auto simp: group_ok_def total_bytes_def)
    moreover have "byte_groups groups (current @ [source]) (bytes + oe_size source) rest = Inr gs"
      using False size 2(3) by (simp only: byte_groups.simps if_False if_not_P [OF size] if_not_P [OF False])
    ultimately have "concat gs = concat groups @ (current @ [source]) @ rest \<and> (\<forall>g \<in> set gs. group_ok g)"
      using 2(4,5) by (intro 2(2) [OF size False]) (simp_all add: total_bytes_def)
    then show ?thesis by simp
  qed
qed

definition part_ok :: "text_runtime \<Rightarrow> Snapshot \<Rightarrow> Snapshot \<Rightarrow> bool" where
  "part_ok rt snapshot part \<longleftrightarrow>
     part = snapshot\<lparr>sn_sources := sn_sources part\<rparr> \<and> sn_sources part \<noteq> [] \<and>
     (\<exists>e. assertBulkPreparationCapacity rt part = Inr e)"

lemma ceil_half: "2 \<le> n \<Longrightarrow> 0 < ceil_div n 2 \<and> ceil_div n 2 < n"
  by (simp add: ceil_div_def)

text \<open>The recursion ends on a non-empty list, with the parts in order or an error.\<close>

lemma fit_result:
  assumes "sources \<noteq> []"
  shows "(\<exists>error. fit rt snapshot sources result = Some (Inl error)) \<or>
    (\<exists>parts. fit rt snapshot sources result = Some (Inr (result @ parts)) \<and>
       concat (map sn_sources parts) = sources \<and> (\<forall>p \<in> set parts. part_ok rt snapshot p))"
  using assms
proof (induction "length sources" arbitrary: sources result rule: less_induct)
  case less
  let ?c = "snapshot\<lparr>sn_sources := sources\<rparr>"
  let ?m = "ceil_div (length sources) 2"
  show ?case
  proof (cases "assertBulkPreparationCapacity rt ?c")
    case (Inr e)
    then have "part_ok rt snapshot ?c" using less(2) by (simp add: part_ok_def)
    then show ?thesis using Inr by (subst (1 2) fit.simps) (auto intro!: exI [of _ "[?c]"])
  next
    case (Inl error)
    show ?thesis
    proof (cases "\<not> capacityFailure error \<or> length sources = 1")
      case True
      then show ?thesis using Inl by (subst fit.simps) simp
    next
      case False
      then have "2 \<le> length sources" using less(2) by (cases sources) (auto simp: Suc_le_eq)
      note m = ceil_half [OF this]
      have step: "fit rt snapshot sources result = Option.bind (fit rt snapshot (take ?m sources) result)
          (\<lambda>r. case r of Inl error \<Rightarrow> Some (Inl error) | Inr result \<Rightarrow> fit rt snapshot (drop ?m sources) result)"
        using Inl False by (subst fit.simps) (simp add: Let_def)
      have "length (take ?m sources) < length sources" "take ?m sources \<noteq> []" using m by (auto simp: less(2))
      note left = less(1) [OF this, of result]
      have "length (drop ?m sources) < length sources" "drop ?m sources \<noteq> []" using m by auto
      note right = less(1) [OF this]
      show ?thesis
      proof (cases "\<exists>error. fit rt snapshot (take ?m sources) result = Some (Inl error)")
        case True
        then show ?thesis unfolding step by auto
      next
        case no_error: False
        then obtain ps where ps: "fit rt snapshot (take ?m sources) result = Some (Inr (result @ ps))"
            "concat (map sn_sources ps) = take ?m sources" "\<forall>p \<in> set ps. part_ok rt snapshot p"
          using left by blast
        show ?thesis
        proof (cases "\<exists>error. fit rt snapshot (drop ?m sources) (result @ ps) = Some (Inl error)")
          case True
          then show ?thesis unfolding step ps(1) by auto
        next
          case False
          then obtain qs where qs: "fit rt snapshot (drop ?m sources) (result @ ps) = Some (Inr ((result @ ps) @ qs))"
              "concat (map sn_sources qs) = drop ?m sources" "\<forall>p \<in> set qs. part_ok rt snapshot p"
            using right [of "result @ ps"] by blast
          have "fit rt snapshot sources result = Some (Inr (result @ (ps @ qs)))"
            unfolding step ps(1) by (simp add: qs(1))
          moreover have "concat (map sn_sources (ps @ qs)) = sources" using ps(2) qs(2) by simp
          ultimately show ?thesis using ps(3) qs(3) by (intro disjI2 exI [of _ "ps @ qs"]) auto
        qed
      qed
    qed
  qed
qed

text \<open>The parts of one group cover it and stay within its bytes when sizes are not negative.\<close>

lemma fit_groups_result:
  assumes "\<forall>g \<in> set gs. g \<noteq> []" and "fit_groups rt snapshot gs result = Inr out"
  shows "\<exists>pss. out = result @ concat pss \<and> map (\<lambda>ps. concat (map sn_sources ps)) pss = gs \<and>
    (\<forall>ps \<in> set pss. \<forall>p \<in> set ps. part_ok rt snapshot p)"
  using assms
  proof (induction gs arbitrary: result)
    case Nil
    then show ?case by (intro exI [of _ "[]"]) simp
  next
    case (Cons g gs)
    then obtain ps where ps: "fit rt snapshot g result = Some (Inr (result @ ps))"
        "concat (map sn_sources ps) = g" "\<forall>p \<in> set ps. part_ok rt snapshot p"
      using fit_result [of g rt snapshot result] by auto
    then obtain pss where "out = (result @ ps) @ concat pss" "map (\<lambda>ps. concat (map sn_sources ps)) pss = gs"
        "\<forall>ps \<in> set pss. \<forall>p \<in> set ps. part_ok rt snapshot p"
      using Cons.IH [of "result @ ps"] Cons.prems by auto
    then show ?case using ps by (intro exI [of _ "ps # pss"]) auto
  qed

section \<open>Failure codes of a bulk download\<close>

text \<open>
  \<open>apps/client/src/worker/bulk-download-errors.ts\<close>: the public code and message of a failure. The
  table is a JavaScript object, so a code that names a member of \<open>Object.prototype\<close> is outside the
  model.
\<close>

record BulkFailure =
  bf_code :: string
  bf_message :: string

definition BULK_FAILURES :: "(string \<times> BulkFailure) list" where
  "BULK_FAILURES = map (\<lambda>(c, m). (c, \<lparr>bf_code = c, bf_message = m\<rparr>))
    [(''share-revoked'', ''This delivery is no longer available.''),
     (''empty-selection'', ''No downloadable files were found.''),
     (''file-limit'', ''This earlier download hit a retired file-count limit. Start the download again.''),
     (''byte-limit'', ''This earlier download hit a retired total-size limit. Start the download again.''),
     (''single-source-capacity'', ''One file is too large to package safely. Download that file individually.''),
     (''source-changed'', ''One or more files changed while the archive was being built. Please create a new download.''),
     (''archive-too-large'', ''This selection is too large to prepare as one download.''),
     (''preparation-capacity'', ''This selection exceeded the archive preparation capacity. Choose a smaller selection and try again.''),
     (''workflow-create-failed'', ''The download could not be queued. Please try again.''),
     (''workflow-failed'', ''The download could not be prepared. Please try again.'')]"

definition friendlyBulkFailure :: "string option \<Rightarrow> BulkFailure" where
  "friendlyBulkFailure code =
     (case Option.bind code (map_of BULK_FAILURES) of
        Some f \<Rightarrow> f
      | None \<Rightarrow> the (map_of BULK_FAILURES ''workflow-failed''))"

text \<open>\<open>text.includes(part)\<close>.\<close>

fun includes_text :: "string \<Rightarrow> string \<Rightarrow> bool" where
  "includes_text [] part = (part = [])"
| "includes_text (c # s) part = (take (length part) (c # s) = part \<or> includes_text s part)"

definition classifyWorkflowFailure :: "string \<Rightarrow> BulkFailure" where
  "classifyWorkflowFailure rawError =
     (if rawError \<in> {''share-revoked'', ''empty-selection'', ''file-limit'', ''byte-limit'', ''single-source-capacity''}
      then friendlyBulkFailure (Some rawError)
      else if rawError = ''multipart-part-limit'' then friendlyBulkFailure (Some ''archive-too-large'')
      else if rawError = ''manifest-capacity'' \<or> rawError = ''workflow-step-capacity'' \<or>
        rawError = ''subrequest-capacity'' \<or> rawError = ''d1-query-capacity'' \<or>
        includes_text rawError ''exceeded CPU time limit'' \<or> includes_text rawError ''exceededCpu'' \<or>
        includes_text rawError ''CPU time limit exceeded'' then friendlyBulkFailure (Some ''preparation-capacity'')
      else if rawError = ''source-changed-or-disappeared'' \<or> rawError = ''source-short-read'' \<or>
        rawError = ''ZIP source changed or disappeared'' \<or> rawError = ''ZIP source returned a short range'' \<or>
        includes_text rawError ''Conditional ETag'' then friendlyBulkFailure (Some ''source-changed'')
      else friendlyBulkFailure (Some ''workflow-failed''))"

lemma coded_table: "map_of (map (\<lambda>(c, m). (c, \<lparr>bf_code = c, bf_message = m\<rparr>)) xs) c = Some f \<Longrightarrow> bf_code f = c"
  by (induction xs) (auto split: if_splits)

lemma failure_code: "map_of BULK_FAILURES c = Some f \<Longrightarrow> bf_code f = c"
  unfolding BULK_FAILURES_def by (rule coded_table)

lemma friendly_known: "map_of BULK_FAILURES c = Some f \<Longrightarrow> bf_code (friendlyBulkFailure (Some c)) = c"
  using failure_code [of c f] by (simp add: friendlyBulkFailure_def)

text \<open>What stops a preparation for capacity is told apart from every other failure.\<close>

lemma capacity_code:
  assumes "capacityFailure (Throws m)"
  shows "bf_code (classifyWorkflowFailure m) =
    (if m = ''multipart-part-limit'' then ''archive-too-large'' else ''preparation-capacity'')"
proof -
  have known: "bf_code (friendlyBulkFailure (Some ''archive-too-large'')) = ''archive-too-large''"
    "bf_code (friendlyBulkFailure (Some ''preparation-capacity'')) = ''preparation-capacity''"
    by (rule friendly_known, simp add: BULK_FAILURES_def)+
  have "m = ''manifest-capacity'' \<or> m = ''multipart-part-limit'' \<or> m = ''workflow-step-capacity'' \<or>
      m = ''subrequest-capacity'' \<or> m = ''d1-query-capacity''"
    using assms by (simp only: capacityFailure_def failure.case insert_iff empty_iff simp_thms)
  then show ?thesis
    by (elim disjE) (simp_all add: classifyWorkflowFailure_def known del: includes_text.simps)
qed

end
