(* ===== verification/Bulk_Properties.thy ===== *)
theory Bulk_Properties
  imports Bulk_Partition Zip_Properties
begin

section \<open>Properties of the planning of bulk downloads\<close>

text \<open>
  The theorems about planning a bulk download: CRC work units and their windows, alias look-ups, the
  capacity estimate, the split of a selection into archives, and the codes of its failures.
\<close>

text \<open>
  The units of checksum work read every byte of every source exactly once, in order: their
  ranges are, source by source, consecutive ranges from zero to its size. A unit reads at most 8 MiB
  and a batch holds at most 64 files.
\<close>

theorem crc_units_cover_sources:
  assumes "planCrcWorkUnits sizes = Inr units"
  shows "(\<exists>rss. length rss = length sizes \<and> (\<forall>i < length sizes. tiles i 0 (sizes ! i) (rss ! i)) \<and>
      concat (map (unit_ranges sizes) units) = concat rss) \<and> (\<forall>u \<in> set units. unit_ok sizes u)"
  using planCrcWorkUnits_cover [OF assms] by blast

lemma sample_units: "planCrcWorkUnits [5, 9000000, 0] = Inr [Batch_unit [0] 5, Chunk_unit 1 0 8388608,
    Chunk_unit 1 8388608 611392, Batch_unit [2] 0]"
  by (simp add: planCrcWorkUnits_def plan_source_def flushBatch_def is_safe_integer_def MAX_SAFE_INTEGER_def
      CRC_CHUNK_def CRC_BATCH_MAX_FILES_def crc_chunks.simps)

theorem crc_units_cover_sources_witness:
  "\<exists>rss. length rss = 3 \<and> tiles 1 0 9000000 (rss ! 1) \<and>
    concat (map (unit_ranges [5, 9000000, 0]) [Batch_unit [0] 5, Chunk_unit 1 0 8388608,
      Chunk_unit 1 8388608 611392, Batch_unit [2] 0]) = concat rss"
proof -
  obtain rss where rss: "length rss = length [5, 9000000, 0 :: int]"
      "\<forall>i < length [5, 9000000, 0 :: int]. tiles i 0 ([5, 9000000, 0] ! i) (rss ! i)"
      "concat (map (unit_ranges [5, 9000000, 0]) [Batch_unit [0] 5, Chunk_unit 1 0 8388608,
      Chunk_unit 1 8388608 611392, Batch_unit [2] 0]) = concat rss"
    using crc_units_cover_sources [OF sample_units] by blast
  have "tiles 1 0 9000000 (rss ! 1)" using rss(2) [rule_format, of 1] by simp
  then show ?thesis using rss(1,3) by (intro exI [of _ rss]) simp
qed

text \<open>
  The windows take the units in order and each once; a window is not empty, holds at most four
  units and never two chunks of one source, so the checksum of a source is continued in order.
\<close>

theorem crc_windows_partition_units:
  "concat (planCrcWindows units) = [0..<length units] \<and> list_all (window_ok units) (planCrcWindows units)"
  using crc_windows_inv [of units "[]" "[]" "[]" 0 units]
  by (simp add: planCrcWindows_def windows_inv_def window_sources_def list_all_iff map_filter_simps)

lemma estimate_parts:
  assumes "estimateOnePassBulkPreparation rt sources = Inr e"
  shows "\<exists>plan. planOnePassZipMultipart rt sources = Inr plan \<and> mp_partCount plan = oe_uploadParts e"
  using assms unfolding estimateOnePassBulkPreparation_def rbind_eq_Inr Let_def case_prod_beta
  by (elim exE conjE) (simp only: sum.inject, drule sym, simp)
lemma capacity_plan:
  assumes "assertBulkPreparationCapacity rt s = Inr e"
  shows "\<exists>plan. planOnePassZipMultipart rt (sn_sources s) = Inr plan \<and> mp_partCount plan \<le> 10000"
proof -
  have "estimateOnePassBulkPreparation rt (sn_sources s) = Inr e \<and> \<not> 10000 < oe_uploadParts e"
    using assms unfolding assertBulkPreparationCapacity_def rbind_eq_Inr
    by (clarsimp simp: rbind_eq_Inr simp del: one_pass_counts.simps split: if_split_asm)
  then show ?thesis using estimate_parts [of rt "sn_sources s" e] by auto
qed
text \<open>
  C14: The split of a selection keeps every source once and in order; every archive has the root and
  share of the selection, is not empty, passes the capacity checks, and so has at most 10,000 upload
  parts of at most 32 MiB that hold it.
\<close>

theorem partition_keeps_sources:
  assumes "partitionBulkSnapshot rt snapshot = Inr parts"
  shows "concat (map sn_sources parts) = sn_sources snapshot \<and>
    (\<forall>p \<in> set parts. part_ok rt snapshot p \<and>
      (\<exists>plan. planOnePassZipMultipart rt (sn_sources p) = Inr plan \<and> mp_partCount plan \<le> 10000))"
proof -
  obtain groups where groups: "byte_groups [] [] 0 (sn_sources snapshot) = Inr groups"
      "fit_groups rt snapshot groups [] = Inr parts"
    using assms by (auto simp: partitionBulkSnapshot_def rbind_eq_Inr)
  have ok: "concat groups = sn_sources snapshot" "\<forall>g \<in> set groups. group_ok g"
    using byte_groups_ok [OF groups(1)] by (simp_all add: total_bytes_def)
  then have "\<forall>g \<in> set groups. g \<noteq> []" by (auto simp: group_ok_def)
  from fit_groups_result [OF this groups(2)] obtain pss where pss: "parts = concat pss"
      "map (\<lambda>ps. concat (map sn_sources ps)) pss = groups" "\<forall>ps \<in> set pss. \<forall>p \<in> set ps. part_ok rt snapshot p"
    by auto
  have "concat (map sn_sources (concat pss)) = concat (map (\<lambda>ps. concat (map sn_sources ps)) pss)"
    by (induction pss) auto
  then have "concat (map sn_sources parts) = sn_sources snapshot" using pss(1,2) ok(1) by simp
  moreover have "part_ok rt snapshot p" if "p \<in> set parts" for p using that pss(1,3) by auto
  moreover have "\<exists>plan. planOnePassZipMultipart rt (sn_sources p) = Inr plan \<and> mp_partCount plan \<le> 10000"
    if "part_ok rt snapshot p" for p
    using that capacity_plan [of rt p] unfolding part_ok_def by blast
  ultimately show ?thesis by blast
qed

definition sample_selection :: Snapshot where
  "sample_selection = \<lparr>sn_root = ustr ''Jobs/a/'', sn_shareId = ustr ''s'', sn_shareVersion = 1, sn_sources = sample_sources\<rparr>"

lemma sample_estimate:
  "\<exists>e. estimateOnePassBulkPreparation sample_runtime sample_sources = Inr e \<and> oe_uploadParts e = 1 \<and>
     oe_workflowSteps e = 9 \<and> oe_maximumUploadPartSourceReads e = 2 \<and> oe_maximumCompletedEntriesPerPart e = 2 \<and>
     oe_maximumD1QueriesPerStep e = 4"
proof -
  have "planAliasLookupBatches [[1], [2]] = [[[1], [2]]]"
    by (simp add: planAliasLookupBatches_def set_order_def ALIAS_LOOKUP_MAX_JSON_BYTES_def json_string_def
        json_char_def utf8_char_def Let_def)
  moreover have "aliasKeysForPhysicalKeys MANIFEST_MAX_BYTES [[1], [2]] = Inr [[1], [2]]"
    by (simp add: aliasKeysForPhysicalKeys_def MANIFEST_MAX_BYTES_def utf8_char_def Let_def)
  moreover have "one_pass_counts 408 1 0 [(3, ustr ''a''), (3, ustr ''a~2'')] ([0], [0]) = ([2], [2])"
    by (simp add: ustr_def utf8_char_def bump_parts_def overlap_def ceil_div_def READ_CHUNK_def)
  ultimately show ?thesis
    unfolding estimateOnePassBulkPreparation_def sample_planned sample_source_names
    by (simp add: sample_plan_def sample_sources_def maximum_def SQL_CHUNK_def SUCCESS_FIXED_STEPS_def
        CACHE_REUSE_CLAIM_QUERIES_def ceil_div_def del: one_pass_counts.simps)
qed

lemma sample_manifest: "length (utf8 (snapshot_json sample_selection)) \<le> MANIFEST_MAX_BYTES"
  by (simp add: snapshot_json_def source_json_def sample_selection_def sample_sources_def MANIFEST_MAX_BYTES_def
      json_object_def json_array_def json_string_def json_char_def json_int_def decimal.simps ustr_def utf8_char_def
      hex_digit_def Let_def)

lemma sample_partition: "partitionBulkSnapshot sample_runtime sample_selection = Inr [sample_selection]"
proof -
  obtain e where e: "estimateOnePassBulkPreparation sample_runtime sample_sources = Inr e" "oe_uploadParts e = 1"
     "oe_workflowSteps e = 9" "oe_maximumUploadPartSourceReads e = 2" "oe_maximumCompletedEntriesPerPart e = 2"
     "oe_maximumD1QueriesPerStep e = 4" using sample_estimate by blast
  have self: "sample_selection\<lparr>sn_sources := sample_sources\<rparr> = sample_selection" by (simp add: sample_selection_def)
  have "assertBulkPreparationCapacity sample_runtime sample_selection = Inr e"
    using e sample_manifest
    by (simp add: assertBulkPreparationCapacity_def sample_selection_def SQL_CHUNK_def ceil_div_def
        WORKFLOW_STEP_LIMIT_def WORKFLOW_STEP_RESERVE_def WORKER_SUBREQUEST_LIMIT_def SUBREQUEST_RESERVE_def
        D1_QUERY_LIMIT_def D1_QUERY_RESERVE_def)
  then have "fit sample_runtime sample_selection sample_sources [] = Some (Inr [sample_selection])"
    by (subst fit.simps) (simp add: self)
  moreover have "byte_groups [] [] 0 sample_sources = Inr [sample_sources]"
    by (simp add: sample_sources_def MAX_ARCHIVE_SOURCE_BYTES_def)
  ultimately show ?thesis by (simp add: partitionBulkSnapshot_def sample_selection_def)
qed

theorem partition_keeps_sources_witness:
  "concat (map sn_sources [sample_selection]) = sample_sources \<and> part_ok sample_runtime sample_selection sample_selection"
  using partition_keeps_sources [OF sample_partition] by (simp add: sample_selection_def)

text \<open>
  The bisection ends: for every non-empty group of sources, \<open>fit\<close> returns, with archives or an
  error, whatever the capacity checks answer.
\<close>

theorem fit_returns: "\<exists>r. fit rt snapshot (source # rest) result = Some r"
  using fit_result [of "source # rest" rt snapshot result] by blast

text \<open>
  A preparation that is refused for capacity, and only after it could not be split, is reported as
  such: the parts limit as an archive that is too large, the others as preparation capacity.
\<close>

theorem capacity_refusals_reported:
  assumes "assertBulkPreparationCapacity rt s = Inl (Throws m)" and "capacityFailure (Throws m)"
  shows "bf_code (classifyWorkflowFailure m) =
      (if m = ''multipart-part-limit'' then ''archive-too-large'' else ''preparation-capacity'') \<and>
    (\<forall>source result. fit rt s [source] result = Some (Inl (Throws m)) \<or> sn_sources s \<noteq> [source])"
proof -
  have "fit rt s [source] result = Some (Inl (Throws m))" if "sn_sources s = [source]" for source result
  proof -
    have "s\<lparr>sn_sources := [source]\<rparr> = s" using that by (cases s) simp
    then show ?thesis using assms(1) by (subst fit.simps) simp
  qed
  then show ?thesis using capacity_code [OF assms(2)] by blast
qed

definition endless_selection :: Snapshot where
  "endless_selection = sample_selection\<lparr>sn_root := replicate 16777217 65\<rparr>"

theorem capacity_refusals_reported_witness:
  "bf_code (classifyWorkflowFailure ''manifest-capacity'') = ''preparation-capacity''"
proof -
  have sum: "length (utf8 s) \<ge> length s" for s
  proof (induction s)
    case (Cons a s)
    then show ?case using utf8_char_length [of a] by simp
  qed simp
  have "16777217 \<le> length (snapshot_json endless_selection)"
    by (simp add: snapshot_json_def endless_selection_def json_object_def json_string_def json_char_def)
  then have "length (utf8 (snapshot_json endless_selection)) > MANIFEST_MAX_BYTES"
    using sum [of "snapshot_json endless_selection"] by (simp add: MANIFEST_MAX_BYTES_def)
  then have "assertBulkPreparationCapacity sample_runtime endless_selection = Inl (Throws ''manifest-capacity'')"
    by (simp add: assertBulkPreparationCapacity_def)
  moreover have "capacityFailure (Throws ''manifest-capacity'')" by (simp add: capacityFailure_def)
  ultimately show ?thesis using capacity_refusals_reported by force
qed

text \<open>
  Batched alias look-ups are invisible: for a file under a normalised root, the path shown with
  the names that \<open>loadAliases\<close> collects batch by batch is the path that the whole alias table gives,
  and each batch is a single key or a JSON text within 512 KiB.
\<close>

theorem batched_names_agree:
  assumes "aliasKeysForPhysicalKeys cap physicalKeys = Inr keys" and "distinct (map fst table)"
    and "key \<in> set physicalKeys" and "root_form root" and "key = root @ rest" and "rest \<noteq> []"
    and "List.last rest \<noteq> 47"
  shows "displayPath key root (loadAliases table keys) = displayPath key root (map_of table) \<and>
    (\<forall>b \<in> set (planAliasLookupBatches keys). batch_ok b)"
proof -
  have "set (lookup_keys key) \<subseteq> set keys" using alias_keys_all [OF assms(1)] assms(3) by auto
  then have "\<forall>k \<in> set (lookup_keys key). loadAliases table keys k = map_of table k"
    using loadAliases_lookup [OF assms(2)] by auto
  then have "displayPath key root (loadAliases table keys) = displayPath key root (map_of table)"
    by (rule displayPath_agree [OF assms(4-7)])
  then show ?thesis using planAliasLookupBatches_ok by blast
qed

theorem batched_names_agree_witness:
  "displayPath (ustr ''J/a/b'') (ustr ''J/'') (loadAliases [(ustr ''J/a/'', ustr ''Photos'')]
      [ustr ''J/'', ustr ''J/a/'', ustr ''J/a/b'']) =
    displayPath (ustr ''J/a/b'') (ustr ''J/'') (map_of [(ustr ''J/a/'', ustr ''Photos'')])"
proof -
  have keys: "aliasKeysForPhysicalKeys 100 [ustr ''J/a/b''] = Inr [ustr ''J/'', ustr ''J/a/'', ustr ''J/a/b'']"
    by (simp add: aliasKeysForPhysicalKeys_def ustr_def utf8_char_def Let_def)
  have "root_form (ustr ''J/'')" unfolding root_form_def by (intro exI [of _ "[ustr ''J'']"]) (simp add: ustr_def)
  then show ?thesis
    by (intro batched_names_agree [OF keys, THEN conjunct1, of _ _ _ "ustr ''a/b''"]) (simp_all add: ustr_def)
qed

end
