(* ===== verification/Path_Tools.thy ===== *)
theory Path_Tools
  imports Text_Tools
begin

section \<open>Object paths\<close>

text \<open>
  What the path validators of the two workers share: failures that carry an HTTP status,
  \<open>trim\<close>, the regular expressions that normalise slashes, and the segments no path may have.
  The runtime's \<open>toLowerCase\<close> is the argument \<open>lower\<close>.
\<close>

datatype fault = Http nat string | Failed string

subsection \<open>Normalising slashes\<close>

definition js_space :: "nat \<Rightarrow> bool" where
  "js_space c \<longleftrightarrow> (9 \<le> c \<and> c \<le> 13) \<or> (0x2000 \<le> c \<and> c \<le> 0x200A) \<or>
     c \<in> {32, 0xA0, 0x1680, 0x2028, 0x2029, 0x202F, 0x205F, 0x3000, 0xFEFF}"

definition js_trim :: "ustring \<Rightarrow> ustring" where
  "js_trim s = rev (dropWhile js_space (rev (dropWhile js_space s)))"

definition control_char :: "nat \<Rightarrow> bool" where
  "control_char c \<longleftrightarrow> c \<le> 0x1F \<or> c = 0x7F"

definition forward_slashes :: "ustring \<Rightarrow> ustring" where
  "forward_slashes s = map (\<lambda>c. if c = 92 then 47 else c) s"

fun collapse_slashes :: "ustring \<Rightarrow> ustring" where
  "collapse_slashes [] = []"
| "collapse_slashes [c] = [c]"
| "collapse_slashes (c # d # s) =
     (if c = 47 \<and> d = 47 then collapse_slashes (d # s) else c # collapse_slashes (d # s))"

definition strip_leading :: "ustring \<Rightarrow> ustring" where
  "strip_leading s = dropWhile (\<lambda>c. c = 47) s"

definition strip_trailing :: "ustring \<Rightarrow> ustring" where
  "strip_trailing s = rev (dropWhile (\<lambda>c. c = 47) (rev s))"

text \<open>\<open>replace(/\/$/, "")\<close>: one slash at the end.\<close>

definition strip_one :: "ustring \<Rightarrow> ustring" where
  "strip_one s = (if s \<noteq> [] \<and> List.last s = 47 then butlast s else s)"

text \<open>A proper segment: not empty, not a dot segment, not reserved by the system.\<close>

definition reservedSegment :: "(ustring \<Rightarrow> ustring) \<Rightarrow> ustring \<Rightarrow> bool" where
  "reservedSegment lower segment \<longleftrightarrow> lower segment \<in> {ustr ''dump'', ustr ''_ltds'', ustr ''.previews''}"

definition bad_segment :: "(ustring \<Rightarrow> ustring) \<Rightarrow> ustring \<Rightarrow> bool" where
  "bad_segment lower segment \<longleftrightarrow>
     segment = [] \<or> segment = [46] \<or> segment = [46, 46] \<or> reservedSegment lower segment"

text \<open>A clean path: segments that are all proper, joined by single slashes.\<close>

definition clean_path :: "(ustring \<Rightarrow> ustring) \<Rightarrow> ustring \<Rightarrow> bool" where
  "clean_path lower p \<longleftrightarrow> list_all (\<lambda>s. \<not> bad_segment lower s) (split_on 47 p)"

lemma clean_path_nonempty: "clean_path lower p \<Longrightarrow> p \<noteq> []"
  by (auto simp: clean_path_def bad_segment_def)

lemma split_on_no_sep: "c \<notin> set s \<Longrightarrow> split_on c s = [s]"
  by (induction s) auto

lemma split_on_append_sep: "split_on c (p @ c # q) = split_on c p @ split_on c q"
  by (induction p) (auto split: list.splits)

lemma clean_path_append:
  "clean_path lower (p @ 47 # q) \<longleftrightarrow> clean_path lower p \<and> clean_path lower q"
  by (simp add: clean_path_def split_on_append_sep)

lemma clean_path_ends: "clean_path lower p \<Longrightarrow> hd p \<noteq> 47 \<and> List.last p \<noteq> 47"
proof
  assume c: "clean_path lower p"
  then have ne: "p \<noteq> []" by (rule clean_path_nonempty)
  have empty: "\<not> clean_path lower []" using clean_path_nonempty by blast
  show "hd p \<noteq> 47"
  proof
    assume "hd p = 47"
    then have "p = [] @ 47 # tl p" using ne by (cases p) auto
    then show False using c empty clean_path_append [of lower "[]" "tl p"] by simp
  qed
  show "List.last p \<noteq> 47"
  proof
    assume "List.last p = 47"
    then have "p = butlast p @ 47 # []" using ne by (metis append_butlast_last_id)
    then show False using c empty clean_path_append [of lower "butlast p" "[]"] by simp
  qed
qed

lemma strip_trailing_fixed: "s \<noteq> [] \<Longrightarrow> List.last s \<noteq> 47 \<Longrightarrow> strip_trailing s = s"
  by (cases s rule: rev_cases) (auto simp: strip_trailing_def)

lemma strip_leading_fixed: "s \<noteq> [] \<Longrightarrow> hd s \<noteq> 47 \<Longrightarrow> strip_leading s = s"
  by (cases s) (auto simp: strip_leading_def)

lemma strip_one_fixed: "s \<noteq> [] \<Longrightarrow> List.last s \<noteq> 47 \<Longrightarrow> strip_one s = s"
  by (simp add: strip_one_def)

lemma strip_one_snoc [simp]: "strip_one (s @ [47]) = s"
  by (simp add: strip_one_def)

text \<open>No two adjacent slashes.\<close>

fun no_double :: "ustring \<Rightarrow> bool" where
  "no_double [] = True"
| "no_double [c] = True"
| "no_double (c # d # s) = (\<not> (c = 47 \<and> d = 47) \<and> no_double (d # s))"

lemma collapse_fixed: "no_double s \<Longrightarrow> collapse_slashes s = s"
  by (induction s rule: no_double.induct) auto

lemma collapse_no_double: "no_double (collapse_slashes s) \<and> (s \<noteq> [] \<longrightarrow> collapse_slashes s \<noteq> [] \<and> hd (collapse_slashes s) = hd s)"
proof (induction s rule: collapse_slashes.induct)
  case (3 c d s)
  have ih: "no_double (collapse_slashes (d # s)) \<and> collapse_slashes (d # s) \<noteq> [] \<and> hd (collapse_slashes (d # s)) = d"
    using 3 by (cases "c = 47 \<and> d = 47") auto
  then obtain xs where "collapse_slashes (d # s) = d # xs" by (cases "collapse_slashes (d # s)") auto
  then show ?case using ih by auto
qed auto

lemma no_double_segments: "no_double (p @ 47 # q) \<Longrightarrow> q \<noteq> [] \<Longrightarrow> hd q \<noteq> 47"
proof (induction p rule: no_double.induct)
  case 1
  then show ?case by (cases q) auto
next
  case (2 c)
  then show ?case by (cases q) auto
next
  case (3 c d s)
  then show ?case by auto
qed

lemma no_double_split: "no_double (a @ 47 # 47 # b) \<Longrightarrow> False"
  using no_double_segments [of a "47 # b"] by simp

lemma no_doubleI: "(\<And>a b. p \<noteq> a @ 47 # 47 # b) \<Longrightarrow> no_double p"
proof (induction p rule: no_double.induct)
  case (3 c d s)
  have "d # s \<noteq> a @ 47 # 47 # b" for a b using 3(2) [of "c # a" b] by simp
  moreover have "\<not> (c = 47 \<and> d = 47)" using 3(2) [of "[]" s] by auto
  ultimately show ?case using 3(1) by simp
qed auto

lemma clean_no_double: "clean_path lower p \<Longrightarrow> no_double p"
proof -
  assume c: "clean_path lower p"
  have "p \<noteq> a @ 47 # 47 # b" for a b
  proof
    assume "p = a @ 47 # 47 # b"
    then have "clean_path lower (47 # b)" using c clean_path_append [of lower a "47 # b"] by simp
    then show False using clean_path_ends [of lower "47 # b"] by simp
  qed
  then show "no_double p" by (rule no_doubleI)
qed

lemma forward_fixed: "92 \<notin> set s \<Longrightarrow> forward_slashes s = s"
  by (induction s) (auto simp: forward_slashes_def)

lemma forward_no_backslash: "92 \<notin> set (forward_slashes s)"
  by (auto simp: forward_slashes_def)

end
