(* ===== verification/Item_Refs.thy ===== *)
theory Item_Refs
  imports Path_Tools
begin

section \<open>Item references and delivery paths\<close>

text \<open>
  The path half of \<open>apps/client/src/worker/files.ts\<close>: item references (base64url of the UTF-8 of a
  path), \<open>validateRelativePath\<close>, \<open>normalizeRoot\<close>, \<open>keyWithinRoot\<close> and \<open>isHiddenKey\<close>. The lemmas
  show that a reference decodes to the path it encodes and that no reference leads outside the root
  or to a reserved path.
\<close>

subsection \<open>UTF-8 with \<open>fatal: true\<close>\<close>

abbreviation cont :: "nat \<Rightarrow> bool" where
  "cont b \<equiv> 0x80 \<le> b \<and> b < 0xC0"

text \<open>The decoder of the encoding standard: no overlong forms, no surrogates, at most U+10FFFF.\<close>

fun utf8_next :: "nat list \<Rightarrow> (nat \<times> nat list) option" where
  "utf8_next [] = None"
| "utf8_next (a # bs) =
     (if a < 0x80 then Some (a, bs)
      else if 0xC2 \<le> a \<and> a < 0xE0 then
        (case bs of b # r \<Rightarrow> if cont b then Some ((a - 0xC0) * 0x40 + (b - 0x80), r) else None | _ \<Rightarrow> None)
      else if 0xE0 \<le> a \<and> a < 0xF0 then
        (case bs of b # c # r \<Rightarrow>
           if cont b \<and> cont c \<and> (a = 0xE0 \<longrightarrow> 0xA0 \<le> b) \<and> (a = 0xED \<longrightarrow> b < 0xA0)
           then Some ((a - 0xE0) * 0x1000 + (b - 0x80) * 0x40 + (c - 0x80), r) else None
         | _ \<Rightarrow> None)
      else if 0xF0 \<le> a \<and> a < 0xF5 then
        (case bs of b # c # d # r \<Rightarrow>
           if cont b \<and> cont c \<and> cont d \<and> (a = 0xF0 \<longrightarrow> 0x90 \<le> b) \<and> (a = 0xF4 \<longrightarrow> b < 0x90)
           then Some ((a - 0xF0) * 0x40000 + (b - 0x80) * 0x1000 + (c - 0x80) * 0x40 + (d - 0x80), r) else None
         | _ \<Rightarrow> None)
      else None)"

lemma utf8_next_shorter: "utf8_next bs = Some (c, r) \<Longrightarrow> length r < length bs"
  by (cases bs) (auto split: if_splits list.splits)

function utf8_decode :: "nat list \<Rightarrow> ustring option" where
  "utf8_decode bs =
     (if bs = [] then Some []
      else case utf8_next bs of None \<Rightarrow> None | Some (c, r) \<Rightarrow> map_option ((#) c) (utf8_decode r))"
  by pat_completeness auto
termination by (relation "measure length") (auto simp: utf8_next_shorter)

declare utf8_decode.simps [simp del]

text \<open>\<open>TextDecoder\<close> drops a byte order mark at the start.\<close>

definition text_decode :: "nat list \<Rightarrow> ustring option" where
  "text_decode bs = map_option (\<lambda>s. case s of c # r \<Rightarrow> if c = 0xFEFF then r else s | [] \<Rightarrow> []) (utf8_decode bs)"

definition scalar :: "nat \<Rightarrow> bool" where
  "scalar c \<longleftrightarrow> c < 0xD800 \<or> (0xE000 \<le> c \<and> c < 0x110000)"

lemma utf8_char_codes:
  assumes "scalar c"
  shows "map unat (utf8_char c) =
    (if c < 0x80 then [c] else if c < 0x800 then [0xC0 + c div 0x40, 0x80 + c mod 0x40]
     else if c < 0x10000 then [0xE0 + c div 0x1000, 0x80 + c div 0x40 mod 0x40, 0x80 + c mod 0x40]
     else [0xF0 + c div 0x40000, 0x80 + c div 0x1000 mod 0x40, 0x80 + c div 0x40 mod 0x40, 0x80 + c mod 0x40])"
proof -
  have unat_byte: "unat (word_of_nat n :: 8 word) = n" if "n < 256" for n
    using that by (simp add: unat_of_nat take_bit_eq_mod)
  have "0xC0 + c div 0x40 < 256" if "c < 0x800" using that by (simp add: less_mult_imp_div_less)
  moreover have "0xE0 + c div 0x1000 < 256" if "c < 0x10000" using that by (simp add: less_mult_imp_div_less)
  moreover have "0xF0 + c div 0x40000 < 256" using assms by (auto simp: scalar_def less_mult_imp_div_less)
  moreover have "0x80 + x mod 0x40 < 256" for x :: nat by simp
  ultimately show ?thesis
    using assms by (auto simp: utf8_char_def unat_byte scalar_def simp del: of_nat_add)
qed

lemma utf8_next_char:
  assumes "scalar c"
  shows "utf8_next (map unat (utf8_char c) @ r) = Some (c, r)"
proof -
  consider "c < 0x80" | "0x80 \<le> c" "c < 0x800" | "0x800 \<le> c" "c < 0x10000" | "0x10000 \<le> c" "c < 0x110000"
    using assms by (cases "c < 0x80"; cases "c < 0x800"; cases "c < 0x10000") (auto simp: scalar_def)
  then show ?thesis
  proof cases
    case 1
    then show ?thesis by (simp add: utf8_char_codes [OF assms])
  next
    case 2
    have b: "2 \<le> c div 64" "c div 64 < 32" "c div 64 * 64 + c mod 64 = c" using 2 by (simp_all add: less_mult_imp_div_less)
    then show ?thesis using 2 by (simp add: utf8_char_codes [OF assms])
  next
    case 3
    have s: "\<not> (0xD800 \<le> c \<and> c < 0xE000)" using assms by (auto simp: scalar_def)
    define x y z where "x = c div 4096" and "y = c div 64 mod 64" and "z = c mod 64"
    have "c = c div 64 * 64 + z" "c div 64 = x * 64 + y"
      unfolding x_def y_def z_def using div_mult2_eq [of c 64 64] by simp_all
    then have c: "c = x * 4096 + y * 64 + z" by simp
    have "y < 64" "z < 64" "x < 16" using 3 by (simp_all add: x_def y_def z_def less_mult_imp_div_less)
    moreover have "x = 0 \<longrightarrow> 32 \<le> y" "x = 13 \<longrightarrow> y < 32" using 3 s c calculation by auto
    ultimately show ?thesis using 3 s by (simp add: utf8_char_codes [OF assms] flip: x_def y_def z_def) (simp add: c)
  next
    case 4
    define w x y z where "w = c div 262144" and "x = c div 4096 mod 64" and "y = c div 64 mod 64" and "z = c mod 64"
    have "c = c div 64 * 64 + z" "c div 64 = c div 4096 * 64 + y" "c div 4096 = w * 64 + x"
      unfolding w_def x_def y_def z_def using div_mult2_eq [of c 64 64] div_mult2_eq [of c 4096 64] by simp_all
    then have c: "c = w * 262144 + x * 4096 + y * 64 + z" by simp
    have "w < 5" "x < 64" "y < 64" "z < 64" using 4 by (simp_all add: w_def x_def y_def z_def less_mult_imp_div_less)
    moreover have "w = 0 \<longrightarrow> 16 \<le> x" "w = 4 \<longrightarrow> x < 16" using 4 c calculation by auto
    ultimately show ?thesis using 4 by (simp add: utf8_char_codes [OF assms] flip: w_def x_def y_def z_def) (simp add: c)
  qed
qed

lemma utf8_char_nonempty [simp]: "utf8_char c \<noteq> []"
  using utf8_char_length [of c] by auto

lemma utf8_decode_encode: "list_all scalar s \<Longrightarrow> utf8_decode (map unat (utf8 s)) = Some s"
proof (induction s)
  case Nil
  then show ?case by (simp add: utf8_decode.simps)
next
  case (Cons c s)
  then show ?case
    by (subst utf8_decode.simps) (simp add: utf8_next_char)
qed

subsection \<open>Base64url\<close>

definition b64_char :: "nat \<Rightarrow> nat" where
  "b64_char n = (if n < 26 then 65 + n else if n < 52 then 71 + n else if n < 62 then n - 4
     else if n = 62 then 45 else 95)"

definition b64_value :: "nat \<Rightarrow> nat option" where
  "b64_value c = (if 65 \<le> c \<and> c < 91 then Some (c - 65) else if 97 \<le> c \<and> c < 123 then Some (c - 71)
     else if 48 \<le> c \<and> c < 58 then Some (c + 4) else if c = 45 then Some 62 else if c = 95 then Some 63 else None)"

lemma b64_value_char: "n < 64 \<Longrightarrow> b64_value (b64_char n) = Some n"
  by (auto simp: b64_char_def b64_value_def)

fun sextets :: "nat list \<Rightarrow> nat list" where
  "sextets [] = []"
| "sextets [a] = [a div 4, a mod 4 * 16]"
| "sextets [a, b] = [a div 4, a mod 4 * 16 + b div 16, b mod 16 * 4]"
| "sextets (a # b # c # r) =
     a div 4 # (a mod 4 * 16 + b div 16) # (b mod 16 * 4 + c div 64) # (c mod 64) # sextets r"

text \<open>\<open>atob\<close>: one sextet left over is an error, the spare bits of a short group are dropped.\<close>

fun octets :: "nat list \<Rightarrow> nat list option" where
  "octets [] = Some []"
| "octets [p] = None"
| "octets [p, q] = Some [p * 4 + q div 16]"
| "octets [p, q, r] = Some [p * 4 + q div 16, q mod 16 * 16 + r div 4]"
| "octets (p # q # r # s # rest) =
     map_option (\<lambda>bs. (p * 4 + q div 16) # (q mod 16 * 16 + r div 4) # (r mod 4 * 64 + s) # bs) (octets rest)"

lemma sextets_bound: "list_all (\<lambda>b. b < 256) bs \<Longrightarrow> list_all (\<lambda>s. s < 64) (sextets bs)"
proof (induction bs rule: sextets.induct)
  case (3 a b)
  then show ?case by simp linarith
next
  case (4 a b c r)
  then show ?case by simp linarith
qed auto

lemma byte_parts:
  "q < 256 \<Longrightarrow> (p mod 4 * 16 + q div 16) div 16 = p mod (4::nat)"
  "q < 256 \<Longrightarrow> (p mod 4 * 16 + q div 16) mod 16 = q div (16::nat)"
  "r < 256 \<Longrightarrow> (q mod 16 * 4 + r div 64) div 4 = q mod (16::nat)"
  "r < 256 \<Longrightarrow> (q mod 16 * 4 + r div 64) mod 4 = r div (64::nat)"
  by (simp_all add: less_mult_imp_div_less)

lemma byte_halves: "b < 256 \<Longrightarrow> b div 16 div 16 = (0::nat)" "(b div 16) mod 16 * 16 + b mod 16 = (b mod 256 :: nat)"
  using mod_mult2_eq [of b 16 16] by simp_all

lemma unat_byte_less: "unat (x :: 8 word) < 256"
  using unsigned_less [of x] by simp

lemma bytes_bound: "list_all (\<lambda>b. b < 256) (map unat (bs :: 8 word list))"
  by (auto simp: list_all_iff intro: unat_byte_less)

lemma octets_sextets: "list_all (\<lambda>b. b < 256) bs \<Longrightarrow> octets (sextets bs) = Some bs"
proof (induction bs rule: sextets.induct)
  case (3 a b)
  then show ?case by (simp add: byte_parts byte_halves)
next
  case (4 a b c r)
  moreover have "c < 256 \<Longrightarrow> c div 64 div 4 = 0 \<and> c div 64 mod 4 * 64 + c mod 64 = c"
    using mod_mult2_eq [of c 64 4] by (simp add: div_mult2_eq [symmetric])
  ultimately show ?case using byte_halves [of b] by (simp add: byte_parts)
qed auto

subsection \<open>\<open>encodeItemRef\<close> and \<open>decodeItemRef\<close>\<close>

definition bytesToBase64Url :: "nat list \<Rightarrow> ustring" where
  "bytesToBase64Url bytes = map b64_char (sextets bytes)"

definition encodeItemRef :: "ustring \<Rightarrow> ustring" where
  "encodeItemRef relativePath = bytesToBase64Url (map unat (utf8 relativePath))"

definition validateRelativePath :: "(ustring \<Rightarrow> ustring) \<Rightarrow> ustring \<Rightarrow> fault + ustring" where
  "validateRelativePath lower value =
     (if value = [] \<or> hd value = 47 \<or> 92 \<in> set value \<or> list_ex control_char value
      then Inl (Http 400 ''Invalid item path'')
      else
        let segments = split_on 47 value in
        if list_ex (bad_segment lower) segments then Inl (Http 404 ''Item not found'')
        else Inr (join_with 47 segments))"

definition base64url_chars :: "ustring \<Rightarrow> nat list option" where
  "base64url_chars value = those (map b64_value value)"

definition decodeItemRef :: "(ustring \<Rightarrow> ustring) \<Rightarrow> ustring \<Rightarrow> fault + ustring" where
  "decodeItemRef lower value =
     (let bad = Inl (Http 400 ''Invalid item reference'') in
      if value = [] then bad
      else case base64url_chars value of
        None \<Rightarrow> bad
      | Some sx \<Rightarrow>
          (case octets sx of
             None \<Rightarrow> bad
           | Some bytes \<Rightarrow>
               (case text_decode bytes of None \<Rightarrow> bad | Some path \<Rightarrow> validateRelativePath lower path)))"

definition normalizeRoot :: "(ustring \<Rightarrow> ustring) \<Rightarrow> ustring \<Rightarrow> fault + ustring" where
  "normalizeRoot lower value =
     (let root = strip_one (collapse_slashes (strip_leading (forward_slashes (js_trim value)))) in
      if root = [] \<or> list_ex (bad_segment lower) (split_on 47 root)
      then Inl (Http 500 ''Delivery folder is invalid'')
      else Inr (if List.last root = 47 then root else root @ [47]))"

definition keyWithinRoot :: "(ustring \<Rightarrow> ustring) \<Rightarrow> ustring \<Rightarrow> ustring \<Rightarrow> fault + ustring" where
  "keyWithinRoot lower rootValue relative =
     rbind (normalizeRoot lower rootValue) (\<lambda>root.
     rbind (validateRelativePath lower relative) (\<lambda>clean.
     let key = root @ clean in
     if \<not> starts_with key root then Inl (Http 404 ''Item not found'') else Inr key))"

definition isHiddenKey :: "(ustring \<Rightarrow> ustring) \<Rightarrow> ustring \<Rightarrow> bool" where
  "isHiddenKey lower key =
     list_ex (reservedSegment lower) (filter (\<lambda>s. s \<noteq> []) (split_on 47 (forward_slashes key)))"

subsection \<open>What they guarantee\<close>

lemma validate_Inr:
  "validateRelativePath lower v = Inr p \<longleftrightarrow>
    p = v \<and> clean_path lower v \<and> 92 \<notin> set v \<and> \<not> list_ex control_char v"
  using clean_path_nonempty [of lower v] clean_path_ends [of lower v]
  by (auto simp: validateRelativePath_def Let_def clean_path_def list_ex_iff list_all_iff)

lemma those_values: "list_all (\<lambda>s. s < 64) xs \<Longrightarrow> those (map b64_value (map b64_char xs)) = Some xs"
  by (induction xs) (auto simp: b64_value_char)

lemma base64url_chars_encode:
  "base64url_chars (encodeItemRef path) = Some (sextets (map unat (utf8 path)))"
  unfolding base64url_chars_def encodeItemRef_def bytesToBase64Url_def
  by (rule those_values, rule sextets_bound, rule bytes_bound)

lemma itemRef_roundtrip:
  assumes "validateRelativePath lower path = Inr path" and "list_all scalar path" and "hd path \<noteq> 0xFEFF"
  shows "decodeItemRef lower (encodeItemRef path) = Inr path"
proof -
  have ne: "path \<noteq> []" using assms(1) by (auto simp: validateRelativePath_def)
  let ?bytes = "map unat (utf8 path)"
  have bytes: "list_all (\<lambda>b. b < 256) ?bytes" by (rule bytes_bound)
  have "?bytes \<noteq> []" using ne by (cases path) auto
  then have enc: "encodeItemRef path \<noteq> []"
    by (cases ?bytes rule: sextets.cases) (auto simp: encodeItemRef_def bytesToBase64Url_def)
  have chars: "base64url_chars (encodeItemRef path) = Some (sextets ?bytes)"
    by (rule base64url_chars_encode)
  have "text_decode ?bytes = Some path"
    using utf8_decode_encode [OF assms(2)] ne assms(3) by (cases path) (auto simp: text_decode_def)
  then show ?thesis
    using enc chars octets_sextets [OF bytes] assms(1) by (simp add: decodeItemRef_def Let_def)
qed

text \<open>A byte order mark at the start of a path is lost.\<close>

lemma itemRef_drops_mark:
  assumes "list_all scalar path" and "path \<noteq> []"
  shows "decodeItemRef lower (encodeItemRef (0xFEFF # path)) = validateRelativePath lower path"
proof -
  let ?path = "0xFEFF # path"
  let ?bytes = "map unat (utf8 ?path)"
  have bytes: "list_all (\<lambda>b. b < 256) ?bytes" by (rule bytes_bound)
  have "?bytes \<noteq> []" by simp
  then have enc: "encodeItemRef ?path \<noteq> []"
    by (cases ?bytes rule: sextets.cases) (auto simp: encodeItemRef_def bytesToBase64Url_def)
  have chars: "base64url_chars (encodeItemRef ?path) = Some (sextets ?bytes)"
    by (rule base64url_chars_encode)
  have "list_all scalar ?path" using assms(1) by (simp add: scalar_def)
  then have "text_decode ?bytes = Some path" using utf8_decode_encode [of ?path] by (simp add: text_decode_def)
  then show ?thesis
    using enc chars octets_sextets [OF bytes] by (simp add: decodeItemRef_def Let_def)
qed

lemma normalizeRoot_Inr:
  assumes "normalizeRoot lower value = Inr root"
  obtains p where "root = p @ [47]" "clean_path lower p" "92 \<notin> set p"
proof -
  let ?p = "strip_one (collapse_slashes (strip_leading (forward_slashes (js_trim value))))"
  have c: "?p \<noteq> []" "clean_path lower ?p" and root: "root = (if List.last ?p = 47 then ?p else ?p @ [47])"
    using assms by (auto simp: normalizeRoot_def Let_def clean_path_def list_ex_iff list_all_iff split: if_splits)
  then have "root = ?p @ [47]" using clean_path_ends [OF c(2)] by simp
  moreover have "92 \<notin> set ?p"
  proof -
    have "set (collapse_slashes s) \<subseteq> set s" for s by (induction s rule: collapse_slashes.induct) auto
    moreover have "set (strip_one s) \<subseteq> set s" for s by (auto simp: strip_one_def dest: in_set_butlastD)
    moreover have "set (strip_leading s) \<subseteq> set s" for s by (auto simp: strip_leading_def dest: set_dropWhileD)
    ultimately show ?thesis using forward_no_backslash [of "js_trim value"] by blast
  qed
  ultimately show thesis using that c(2) by blast
qed

lemma keyWithinRoot_Inr:
  assumes "keyWithinRoot lower rootValue relative = Inr key"
  obtains p where "normalizeRoot lower rootValue = Inr (p @ [47])" "key = p @ 47 # relative"
    "clean_path lower key" "92 \<notin> set key"
proof -
  obtain root clean where r: "normalizeRoot lower rootValue = Inr root" "validateRelativePath lower relative = Inr clean"
      "key = root @ clean"
    using assms by (auto simp: keyWithinRoot_def rbind_eq_Inr Let_def split: if_splits)
  obtain p where p: "root = p @ [47]" "clean_path lower p" "92 \<notin> set p" using normalizeRoot_Inr [OF r(1)] .
  show thesis using that [of p] r p by (auto simp: validate_Inr clean_path_append)
qed

lemma clean_not_hidden: "clean_path lower key \<Longrightarrow> 92 \<notin> set key \<Longrightarrow> \<not> isHiddenKey lower key"
  by (auto simp: isHiddenKey_def forward_fixed clean_path_def list_all_iff list_ex_iff bad_segment_def)

end
