(* ===== verification/Delivery_Files.thy ===== *)
theory Delivery_Files
  imports Item_Refs
begin

section \<open>What a delivery folder shows\<close>

text \<open>
  The listing half of \<open>apps/client/src/worker/files.ts\<close> (\<open>prefixHasVisibleContent\<close>,
  \<open>visibleImmediateChildPrefixes\<close>, \<open>prefixHasBrowsableEntry\<close>), \<open>downloadable-files.ts\<close> and
  \<open>isMovedSourceMarker\<close> of the shared package. The bucket is a parameter: its \<open>list\<close> call takes a
  prefix, whether the delimiter is given, and a cursor, and answers a page. \<open>served_by\<close> states the
  documented behaviour of R2: following the cursors ends, and the pages together hold the objects
  and the delimited prefixes under the prefix.
\<close>

record listed_object =
  lo_key :: ustring
  lo_size :: int
  lo_etag :: ustring
  lo_metadata :: "(ustring \<times> ustring) list"

record list_page =
  pg_objects :: "listed_object list"
  pg_prefixes :: "ustring list"
  pg_truncated :: bool
  pg_cursor :: "ustring option"

type_synonym list_call = "ustring \<Rightarrow> bool \<Rightarrow> ustring option \<Rightarrow> list_page"

definition MOVED_SOURCE_MARKER :: ustring where
  "MOVED_SOURCE_MARKER = ustr ''ltds-moved-source-v1''"

definition isMovedSourceMarker :: "listed_object \<Rightarrow> bool" where
  "isMovedSourceMarker obj \<longleftrightarrow> map_of (lo_metadata obj) (ustr ''ltdsMoveMarker'') = Some MOVED_SOURCE_MARKER"

text \<open>\<open>cursor = listed.truncated ? listed.cursor : undefined\<close>, with \<open>while (cursor)\<close>.\<close>

definition next_cursor :: "list_page \<Rightarrow> ustring option" where
  "next_cursor listed = (if pg_truncated listed then
     (case pg_cursor listed of Some c \<Rightarrow> if c \<noteq> [] then Some c else None | None \<Rightarrow> None) else None)"

definition shown_object :: "(ustring \<Rightarrow> ustring) \<Rightarrow> ustring \<Rightarrow> listed_object \<Rightarrow> bool" where
  "shown_object lower directory obj \<longleftrightarrow> lo_key obj \<noteq> directory \<and> \<not> ends_with (lo_key obj) [47] \<and>
     \<not> isHiddenKey lower (lo_key obj) \<and> \<not> isMovedSourceMarker obj"

subsection \<open>\<open>prefixHasVisibleContent\<close>\<close>

text \<open>The \<open>do\<close> loop over the pages of one directory: \<open>None\<close> on a hit, else the pending directories.\<close>

partial_function (option) scan_directory ::
  "list_call \<Rightarrow> (ustring \<Rightarrow> ustring) \<Rightarrow> ustring \<Rightarrow> ustring option \<Rightarrow> ustring list \<Rightarrow> ustring list option option" where
  "scan_directory bucket lower directory cursor pending =
     (let listed = bucket directory True cursor in
      if list_ex (shown_object lower directory) (pg_objects listed) then Some None
      else
        let pending = pending @ filter (\<lambda>c. \<not> isHiddenKey lower c) (pg_prefixes listed) in
        case next_cursor listed of
          None \<Rightarrow> Some (Some pending)
        | Some c \<Rightarrow> scan_directory bucket lower directory (Some c) pending)"

partial_function (option) visible_loop ::
  "list_call \<Rightarrow> (ustring \<Rightarrow> ustring) \<Rightarrow> ustring list \<Rightarrow> ustring set \<Rightarrow> bool option" where
  "visible_loop bucket lower pending visited =
     (case pending of
        [] \<Rightarrow> Some False
      | directory # rest \<Rightarrow>
          if directory \<in> visited \<or> isHiddenKey lower directory then visible_loop bucket lower rest visited
          else Option.bind (scan_directory bucket lower directory None rest) (\<lambda>r.
            case r of
              None \<Rightarrow> Some True
            | Some pending \<Rightarrow> visible_loop bucket lower pending (insert directory visited)))"

definition prefixHasVisibleContent ::
  "list_call \<Rightarrow> (ustring \<Rightarrow> ustring) \<Rightarrow> ustring \<Rightarrow> (fault + bool) option" where
  "prefixHasVisibleContent bucket lower rootValue =
     (case normalizeRoot lower rootValue of
        Inl f \<Rightarrow> Some (Inl f)
      | Inr root \<Rightarrow> map_option Inr (visible_loop bucket lower [root] {}))"

subsection \<open>\<open>prefixHasBrowsableEntry\<close>\<close>

partial_function (option) browsable_loop ::
  "list_call \<Rightarrow> (ustring \<Rightarrow> ustring) \<Rightarrow> ustring \<Rightarrow> ustring option \<Rightarrow> bool option" where
  "browsable_loop bucket lower root cursor =
     (let listed = bucket root True cursor in
      if list_ex (shown_object lower root) (pg_objects listed) then Some True
      else if list_ex (\<lambda>p. \<not> isHiddenKey lower p) (pg_prefixes listed) then Some True
      else case next_cursor listed of
          None \<Rightarrow> Some False
        | Some c \<Rightarrow> browsable_loop bucket lower root (Some c))"

definition prefixHasBrowsableEntry ::
  "list_call \<Rightarrow> (ustring \<Rightarrow> ustring) \<Rightarrow> ustring \<Rightarrow> (fault + bool) option" where
  "prefixHasBrowsableEntry bucket lower rootValue =
     (case normalizeRoot lower rootValue of
        Inl f \<Rightarrow> Some (Inl f)
      | Inr root \<Rightarrow> map_option Inr (browsable_loop bucket lower root None))"

subsection \<open>\<open>visibleImmediateChildPrefixes\<close>\<close>

text \<open>The pages of one directory below \<open>child\<close>: a hit breaks, else each child directory is queued.\<close>

partial_function (option) scan_child ::
  "list_call \<Rightarrow> (ustring \<Rightarrow> ustring) \<Rightarrow> (listed_object \<Rightarrow> bool) \<Rightarrow> ustring \<Rightarrow> ustring \<Rightarrow> ustring option \<Rightarrow>
   (ustring \<times> ustring) list \<Rightarrow> (bool \<times> (ustring \<times> ustring) list) option" where
  "scan_child bucket lower objectAllowed directory child cursor pending =
     (let listed = bucket directory True cursor in
      if list_ex (\<lambda>obj. shown_object lower directory obj \<and> objectAllowed obj) (pg_objects listed)
      then Some (True, pending)
      else
        let pending = pending @ map (\<lambda>d. (d, child)) (filter (\<lambda>c. \<not> isHiddenKey lower c) (pg_prefixes listed)) in
        case next_cursor listed of
          None \<Rightarrow> Some (False, pending)
        | Some c \<Rightarrow> scan_child bucket lower objectAllowed directory child (Some c) pending)"

partial_function (option) children_loop ::
  "list_call \<Rightarrow> (ustring \<Rightarrow> ustring) \<Rightarrow> (listed_object \<Rightarrow> bool) \<Rightarrow> (ustring \<times> ustring) list \<Rightarrow> ustring set \<Rightarrow>
   ustring list \<Rightarrow> ustring list option" where
  "children_loop bucket lower objectAllowed pending visited visible =
     (case pending of
        [] \<Rightarrow> Some visible
      | (directory, child) # rest \<Rightarrow>
          if child \<in> set visible \<or> directory \<in> visited \<or> isHiddenKey lower directory
          then children_loop bucket lower objectAllowed rest visited visible
          else Option.bind (scan_child bucket lower objectAllowed directory child None rest) (\<lambda>(hit, pending).
            children_loop bucket lower objectAllowed pending (insert directory visited)
              (if hit then visible @ [child] else visible)))"

definition visibleImmediateChildPrefixes ::
  "list_call \<Rightarrow> (ustring \<Rightarrow> ustring) \<Rightarrow> (listed_object \<Rightarrow> bool) \<Rightarrow> ustring \<Rightarrow> ustring list \<Rightarrow>
   (fault + ustring list) option" where
  "visibleImmediateChildPrefixes bucket lower objectAllowed rootValue candidates =
     (case normalizeRoot lower rootValue of
        Inl f \<Rightarrow> Some (Inl f)
      | Inr root \<Rightarrow>
          map_option (\<lambda>visible. Inr (filter (\<lambda>v. v \<in> set candidates) visible))
            (children_loop bucket lower objectAllowed
              (map (\<lambda>v. (v, v)) (filter (\<lambda>v. starts_with v root) candidates)) {} []))"

subsection \<open>\<open>downloadable-files.ts\<close>\<close>

datatype tombstone_kind = Exact | Prefix

record DownloadTombstone =
  physical_key :: ustring
  tombstone_kind :: tombstone_kind

record DownloadableObject =
  do_key :: ustring
  do_size :: int
  do_etag :: ustring

definition isDownloadTombstoned :: "DownloadTombstone list \<Rightarrow> ustring \<Rightarrow> bool" where
  "isDownloadTombstoned tombstones key =
     list_ex (\<lambda>t. case tombstone_kind t of
        Exact \<Rightarrow> physical_key t = key | Prefix \<Rightarrow> starts_with key (physical_key t)) tombstones"

definition skipped_object :: "(ustring \<Rightarrow> ustring) \<Rightarrow> ustring \<Rightarrow> DownloadTombstone list \<Rightarrow> listed_object \<Rightarrow> bool" where
  "skipped_object lower root tombstones obj \<longleftrightarrow>
     \<not> starts_with (lo_key obj) root \<or> lo_key obj = root \<or> ends_with (lo_key obj) [47] \<or>
     isHiddenKey lower (lo_key obj) \<or> isDownloadTombstoned tombstones (lo_key obj) \<or> isMovedSourceMarker obj"

text \<open>\<open>Map.set\<close>: a key seen before keeps its place and takes the new value.\<close>

fun set_file :: "DownloadableObject \<Rightarrow> DownloadableObject list \<Rightarrow> DownloadableObject list" where
  "set_file f [] = [f]"
| "set_file f (g # rest) = (if do_key g = do_key f then f # rest else g # set_file f rest)"

definition keep_object ::
  "(ustring \<Rightarrow> ustring) \<Rightarrow> ustring \<Rightarrow> DownloadTombstone list \<Rightarrow> listed_object \<Rightarrow> DownloadableObject list \<Rightarrow>
   DownloadableObject list" where
  "keep_object lower root tombstones obj files =
     (if skipped_object lower root tombstones obj then files
      else set_file \<lparr>do_key = lo_key obj, do_size = lo_size obj, do_etag = lo_etag obj\<rparr> files)"

partial_function (option) downloadable_loop ::
  "list_call \<Rightarrow> (ustring \<Rightarrow> ustring) \<Rightarrow> ustring \<Rightarrow> DownloadTombstone list \<Rightarrow> ustring option \<Rightarrow>
   DownloadableObject list \<Rightarrow> DownloadableObject list option" where
  "downloadable_loop bucket lower root tombstones cursor files =
     (let listed = bucket root False cursor;
          files = fold (keep_object lower root tombstones) (pg_objects listed) files in
      case next_cursor listed of
        None \<Rightarrow> Some files
      | Some c \<Rightarrow> downloadable_loop bucket lower root tombstones (Some c) files)"

definition listDownloadableObjects ::
  "list_call \<Rightarrow> (ustring \<Rightarrow> ustring) \<Rightarrow> ustring \<Rightarrow> DownloadTombstone list \<Rightarrow>
   (fault + DownloadableObject list) option" where
  "listDownloadableObjects bucket lower rootValue tombstones =
     (case normalizeRoot lower rootValue of
        Inl f \<Rightarrow> Some (Inl f)
      | Inr root \<Rightarrow> map_option Inr (downloadable_loop bucket lower root tombstones None []))"

record DownloadSummary =
  fileCount :: nat
  totalBytes :: "int option"
  knownBytes :: int
  unknownSizeCount :: nat

fun summary_loop :: "int list \<Rightarrow> int \<times> nat \<Rightarrow> int \<times> nat" where
  "summary_loop [] st = st"
| "summary_loop (n # rest) (known, unknown) =
     (if \<not> is_safe_integer n \<or> n < 0 \<or> \<not> is_safe_integer (known + n)
      then summary_loop rest (known, unknown + 1)
      else summary_loop rest (known + n, unknown))"

definition summarizeDownloadableObjects :: "int list \<Rightarrow> DownloadSummary" where
  "summarizeDownloadableObjects sizes =
     (let (known, unknown) = summary_loop sizes (0, 0) in
      \<lparr>fileCount = length sizes, totalBytes = (if unknown \<noteq> 0 then None else Some known),
       knownBytes = known, unknownSizeCount = unknown\<rparr>)"

end
