(* ===== verification/Delivery_Correct.thy ===== *)
theory Delivery_Correct
  imports Delivery_Files
begin

section \<open>The listings show what is stored\<close>

text \<open>
  Against a bucket that serves a list of objects (\<open>served_by\<close>), the page loops end and compute what
  they should: the breadth-first search of \<open>prefixHasVisibleContent\<close> finds a file exactly when one is
  stored under the root that is neither reserved nor the marker of a moved file, the shallow check
  looks one level down, and the download list is the filtered content of the bucket.
\<close>

subsection \<open>A bucket that serves a list of objects\<close>

definition direct_in :: "ustring \<Rightarrow> ustring \<Rightarrow> bool" where
  "direct_in prefix key \<longleftrightarrow> starts_with key prefix \<and> 47 \<notin> set (drop (length prefix) key)"

definition child_dir :: "ustring \<Rightarrow> ustring \<Rightarrow> ustring" where
  "child_dir prefix key = prefix @ takeWhile (\<lambda>c. c \<noteq> 47) (drop (length prefix) key) @ [47]"

fun pages :: "nat \<Rightarrow> (ustring option \<Rightarrow> list_page) \<Rightarrow> ustring option \<Rightarrow> list_page list option" where
  "pages 0 call cursor = None"
| "pages (Suc n) call cursor =
     (let p = call cursor in
      case next_cursor p of None \<Rightarrow> Some [p] | Some c \<Rightarrow> map_option ((#) p) (pages n call (Some c)))"

definition under :: "ustring \<Rightarrow> listed_object list \<Rightarrow> listed_object list" where
  "under prefix objs = filter (\<lambda>x. starts_with (lo_key x) prefix) objs"

definition served_by :: "list_call \<Rightarrow> listed_object list \<Rightarrow> bool" where
  "served_by bucket objs \<longleftrightarrow> (\<forall>prefix delimited. \<exists>n ps.
     pages n (bucket prefix delimited) None = Some ps \<and>
     concat (map pg_objects ps) =
       filter (\<lambda>x. delimited \<longrightarrow> direct_in prefix (lo_key x)) (under prefix objs) \<and>
     set (concat (map pg_prefixes ps)) =
       (if delimited then {child_dir prefix (lo_key x) | x. x \<in> set (under prefix objs) \<and> \<not> direct_in prefix (lo_key x)}
        else {}))"

definition one_page_bucket :: "listed_object list \<Rightarrow> list_call" where
  "one_page_bucket objs prefix delimited cursor =
     \<lparr>pg_objects = filter (\<lambda>x. delimited \<longrightarrow> direct_in prefix (lo_key x)) (under prefix objs),
      pg_prefixes = (if delimited then remdups (map (\<lambda>x. child_dir prefix (lo_key x))
        (filter (\<lambda>x. \<not> direct_in prefix (lo_key x)) (under prefix objs))) else []),
      pg_truncated = False, pg_cursor = None\<rparr>"

lemma one_page_served: "served_by (one_page_bucket objs) objs"
  unfolding served_by_def
proof (intro allI)
  fix prefix delimited
  show "\<exists>n ps. pages n (one_page_bucket objs prefix delimited) None = Some ps \<and>
     concat (map pg_objects ps) =
       filter (\<lambda>x. delimited \<longrightarrow> direct_in prefix (lo_key x)) (under prefix objs) \<and>
     set (concat (map pg_prefixes ps)) =
       (if delimited then {child_dir prefix (lo_key x) | x. x \<in> set (under prefix objs) \<and> \<not> direct_in prefix (lo_key x)}
        else {})"
    by (intro exI [of _ 1] exI [of _ "[one_page_bucket objs prefix delimited None]"])
      (auto simp: one_page_bucket_def next_cursor_def)
qed

lemma served_listing:
  assumes "served_by bucket objs"
  obtains n ps where "pages n (bucket prefix delimited) None = Some ps"
    "concat (map pg_objects ps) = filter (\<lambda>x. delimited \<longrightarrow> direct_in prefix (lo_key x)) (under prefix objs)"
    "set (concat (map pg_prefixes ps)) =
       (if delimited then {child_dir prefix (lo_key x) | x. x \<in> set (under prefix objs) \<and> \<not> direct_in prefix (lo_key x)}
        else {})"
  using assms unfolding served_by_def by blast

lemma pages_Suc:
  assumes "pages (Suc n) call cursor = Some ps"
  obtains "next_cursor (call cursor) = None" "ps = [call cursor]"
  | c rest where "next_cursor (call cursor) = Some c" "pages n call (Some c) = Some rest" "ps = call cursor # rest"
  using assms by (auto simp: Let_def split: option.splits)

subsection \<open>One directory\<close>

definition shown_dir :: "(ustring \<Rightarrow> ustring) \<Rightarrow> ustring list \<Rightarrow> ustring list" where
  "shown_dir lower ps = filter (\<lambda>c. \<not> isHiddenKey lower c) ps"

lemma scan_directory_pages:
  "pages n (bucket directory True) cursor = Some ps \<Longrightarrow>
    scan_directory bucket lower directory cursor pending = Some
      (if list_ex (shown_object lower directory) (concat (map pg_objects ps)) then None
       else Some (pending @ shown_dir lower (concat (map pg_prefixes ps))))"
proof (induction n arbitrary: cursor ps pending)
  case 0
  then show ?case by simp
next
  case (Suc n)
  from Suc.prems show ?case
    by (cases rule: pages_Suc) (subst scan_directory.simps, auto simp: Let_def shown_dir_def Suc.IH)+
qed

lemma browsable_loop_pages:
  "pages n (bucket root True) cursor = Some ps \<Longrightarrow>
    browsable_loop bucket lower root cursor = Some
      (list_ex (shown_object lower root) (concat (map pg_objects ps)) \<or>
       list_ex (\<lambda>p. \<not> isHiddenKey lower p) (concat (map pg_prefixes ps)))"
proof (induction n arbitrary: cursor ps)
  case 0
  then show ?case by simp
next
  case (Suc n)
  from Suc.prems show ?case
    by (cases rule: pages_Suc) (subst browsable_loop.simps, auto simp: Let_def Suc.IH)+
qed

lemma downloadable_loop_pages:
  "pages n (bucket root False) cursor = Some ps \<Longrightarrow>
    downloadable_loop bucket lower root tombstones cursor files = Some
      (fold (keep_object lower root tombstones) (concat (map pg_objects ps)) files)"
proof (induction n arbitrary: cursor ps files)
  case 0
  then show ?case by simp
next
  case (Suc n)
  from Suc.prems show ?case
    by (cases rule: pages_Suc) (subst downloadable_loop.simps, auto simp: Let_def Suc.IH)+
qed

subsection \<open>The search\<close>

definition visible_file :: "(ustring \<Rightarrow> ustring) \<Rightarrow> listed_object \<Rightarrow> bool" where
  "visible_file lower x \<longleftrightarrow> \<not> ends_with (lo_key x) [47] \<and> \<not> isHiddenKey lower (lo_key x) \<and> \<not> isMovedSourceMarker x"

text \<open>What the scan of a directory finds, over the stored objects.\<close>

lemma scan_directory_served:
  assumes "served_by bucket objs" and "ends_with directory [47]"
  obtains x where "x \<in> set objs" "direct_in directory (lo_key x)" "visible_file lower x"
      "scan_directory bucket lower directory None pending = Some None"
  | ds where "scan_directory bucket lower directory None pending = Some (Some (pending @ ds))"
    "\<forall>x \<in> set objs. direct_in directory (lo_key x) \<longrightarrow> \<not> visible_file lower x"
    "set ds = {d. \<not> isHiddenKey lower d \<and> (\<exists>x \<in> set objs. starts_with (lo_key x) directory \<and>
       \<not> direct_in directory (lo_key x) \<and> d = child_dir directory (lo_key x))}"
proof -
  obtain n ps where ps: "pages n (bucket directory True) None = Some ps"
    "concat (map pg_objects ps) = filter (\<lambda>x. direct_in directory (lo_key x)) (under directory objs)"
    "set (concat (map pg_prefixes ps)) =
      {child_dir directory (lo_key x) | x. x \<in> set (under directory objs) \<and> \<not> direct_in directory (lo_key x)}"
    using served_listing [OF assms(1), of directory True] by auto
  note scan = scan_directory_pages [where bucket = bucket and directory = directory, OF ps(1), of lower pending]
  have shown: "shown_object lower directory x \<longleftrightarrow> visible_file lower x" for x
    using assms(2) by (auto simp: shown_object_def visible_file_def)
  show thesis
  proof (cases "list_ex (shown_object lower directory) (concat (map pg_objects ps))")
    case True
    then obtain x where "x \<in> set objs" "direct_in directory (lo_key x)" "visible_file lower x"
      unfolding ps(2) by (auto simp: list_ex_iff under_def shown)
    then show thesis using that(1) scan True by simp
  next
    case False
    then have "\<forall>x \<in> set objs. direct_in directory (lo_key x) \<longrightarrow> \<not> visible_file lower x"
      unfolding ps(2) by (auto simp: list_ex_iff under_def shown direct_in_def)
    moreover have "scan_directory bucket lower directory None pending =
        Some (Some (pending @ shown_dir lower (concat (map pg_prefixes ps))))"
      using scan False by simp
    moreover have "set (shown_dir lower (concat (map pg_prefixes ps))) =
        {d. \<not> isHiddenKey lower d \<and> (\<exists>x \<in> set objs. starts_with (lo_key x) directory \<and>
         \<not> direct_in directory (lo_key x) \<and> d = child_dir directory (lo_key x))}"
      unfolding shown_dir_def set_filter ps(3) by (auto simp: under_def)
    ultimately show thesis using that(2) by blast
  qed
qed

lemma ends_slash [simp]: "ends_with (d @ [47]) [47]"
  by (simp add: ends_with_def)

lemma child_dir_ends [simp]: "ends_with (child_dir d k) [47]"
  unfolding child_dir_def using ends_slash [of "d @ takeWhile (\<lambda>c. c \<noteq> 47) (drop (length d) k)"] by simp

text \<open>The next directory on the way from \<open>d\<close> to a key is longer than \<open>d\<close> and leads to the key.\<close>

lemma child_dir_step:
  assumes "starts_with k d" and "\<not> direct_in d k"
  shows "starts_with k (child_dir d k)" and "length d < length (child_dir d k)"
    and "length (child_dir d k) \<le> length k"
proof -
  obtain r where k: "k = d @ r" using assms(1) by (rule starts_withE)
  then have "47 \<in> set r" using assms by (auto simp: direct_in_def)
  then obtain a b where r: "r = a @ 47 # b" "47 \<notin> set a" by (meson split_list_first)
  then have "child_dir d k = d @ a @ [47]" by (simp add: child_dir_def k takeWhile_append)
  then show "starts_with k (child_dir d k)" "length d < length (child_dir d k)" "length (child_dir d k) \<le> length k"
    using starts_with_append [of "d @ a @ [47]" b] by (simp_all add: k r)
qed

definition leads_to :: "listed_object list \<Rightarrow> ustring \<Rightarrow> bool" where
  "leads_to objs d \<longleftrightarrow> ends_with d [47] \<and> (\<exists>x \<in> set objs. starts_with (lo_key x) d)"

lemma finite_leads_to: "finite {d. leads_to objs d}"
proof -
  have "{d. leads_to objs d} \<subseteq> (\<Union>x \<in> set objs. (\<lambda>n. take n (lo_key x)) ` {..length (lo_key x)})"
  proof clarify
    fix d assume "leads_to objs d"
    then obtain x r where x: "x \<in> set objs" "lo_key x = d @ r" by (auto simp: leads_to_def elim: starts_withE)
    then have "d \<in> (\<lambda>n. take n (lo_key x)) ` {..length (lo_key x)}" by (intro image_eqI [of _ _ "length d"]) simp_all
    then show "d \<in> (\<Union>x \<in> set objs. (\<lambda>n. take n (lo_key x)) ` {..length (lo_key x)})" using x(1) by blast
  qed
  then show ?thesis by (rule finite_subset) simp
qed

text \<open>The invariant: a scanned directory has no visible file of its own, and what is below is queued.\<close>

definition search_inv ::
  "(ustring \<Rightarrow> ustring) \<Rightarrow> listed_object list \<Rightarrow> ustring \<Rightarrow> ustring list \<Rightarrow> ustring set \<Rightarrow> bool" where
  "search_inv lower objs root pending visited \<longleftrightarrow>
     root \<in> set pending \<union> visited \<and> (\<forall>d \<in> set pending \<union> visited. d = root \<or> leads_to objs d) \<and>
     (\<forall>d \<in> set pending. starts_with d root) \<and>
     (\<forall>d \<in> visited. \<forall>x \<in> set objs. starts_with (lo_key x) d \<longrightarrow> visible_file lower x \<longrightarrow>
        \<not> direct_in d (lo_key x) \<and> child_dir d (lo_key x) \<in> set pending \<union> visited)"

lemma search_finished:
  assumes "search_inv lower objs root [] visited" and "x \<in> set objs" and "starts_with (lo_key x) root"
  shows "\<not> visible_file lower x"
proof
  assume vis: "visible_file lower x"
  have "False" if "d \<in> visited" "starts_with (lo_key x) d" for d
    using that
  proof (induction "length (lo_key x) - length d" arbitrary: d rule: less_induct)
    case less
    have step: "\<not> direct_in d (lo_key x)" "child_dir d (lo_key x) \<in> visited"
      using assms(1,2) vis less(2,3) by (auto simp: search_inv_def)
    show False using child_dir_step [OF less(3) step(1)] step(2) less(1) [of "child_dir d (lo_key x)"] by linarith
  qed
  then show False using assms(1,3) by (auto simp: search_inv_def)
qed

lemma hidden_prefix:
  assumes "starts_with k d" and "ends_with d [47]" and "isHiddenKey lower d"
  shows "isHiddenKey lower k"
proof -
  obtain r where k: "k = d @ r" using assms(1) by (rule starts_withE)
  obtain e where d: "d = e @ [47]" using assms(2) by (auto simp: ends_with_def) (metis append_take_drop_id)
  have split: "split_on 47 (forward_slashes (e @ 47 # s)) = split_on 47 (forward_slashes e) @ split_on 47 (forward_slashes s)" for s
    using split_on_append_sep [of 47 "forward_slashes e" "forward_slashes s"] by (simp add: forward_slashes_def)
  show ?thesis using assms(3) split [of r] split [of "[]"]
    by (auto simp: isHiddenKey_def k d reservedSegment_def forward_slashes_def list_ex_iff)
qed

lemma search_skip:
  assumes "search_inv lower objs root (d # rest) visited" and "\<not> isHiddenKey lower root"
    and "d \<in> visited \<or> isHiddenKey lower d"
  shows "search_inv lower objs root rest visited"
proof -
  have "child_dir e (lo_key x) \<noteq> d"
    if "isHiddenKey lower d" "x \<in> set objs" "starts_with (lo_key x) e" "visible_file lower x" "\<not> direct_in e (lo_key x)" for x e
    using hidden_prefix [of "lo_key x" d lower] that child_dir_step(1) [OF that(3,5)]
    by (auto simp: visible_file_def)
  then show ?thesis using assms unfolding search_inv_def by (auto split: if_splits) (metis)+
qed

lemma search_scan:
  assumes inv: "search_inv lower objs root (d # rest) visited"
    and none: "\<forall>x \<in> set objs. direct_in d (lo_key x) \<longrightarrow> \<not> visible_file lower x"
    and ds: "set ds = {e. \<not> isHiddenKey lower e \<and> (\<exists>x \<in> set objs. starts_with (lo_key x) d \<and>
       \<not> direct_in d (lo_key x) \<and> e = child_dir d (lo_key x))}"
  shows "search_inv lower objs root (rest @ ds) (insert d visited)"
proof -
  have "leads_to objs e" "starts_with e root" if e: "e \<in> set ds" for e
  proof -
    obtain x where x: "x \<in> set objs" "starts_with (lo_key x) d" "\<not> direct_in d (lo_key x)" "e = child_dir d (lo_key x)"
      using e ds by blast
    show "leads_to objs e" using child_dir_step(1) [OF x(2,3)] x(1,4) by (auto simp: leads_to_def)
    have "starts_with d root" using inv by (simp add: search_inv_def)
    moreover have "starts_with e d" unfolding x(4) child_dir_def by simp
    ultimately show "starts_with e root" using starts_with_trans by blast
  qed
  moreover have "child_dir d (lo_key x) \<in> set ds"
    if "x \<in> set objs" "starts_with (lo_key x) d" "visible_file lower x" for x
  proof -
    have "\<not> direct_in d (lo_key x)" using none that by blast
    moreover have "\<not> isHiddenKey lower (child_dir d (lo_key x))"
      using hidden_prefix [OF child_dir_step(1) [OF that(2) calculation]] that(3) by (auto simp: visible_file_def)
    ultimately show ?thesis unfolding ds using that by blast
  qed
  ultimately show ?thesis using inv none unfolding search_inv_def by auto
qed

definition to_visit :: "listed_object list \<Rightarrow> ustring \<Rightarrow> ustring set \<Rightarrow> nat" where
  "to_visit objs root visited = card (insert root {d. leads_to objs d} - visited)"

lemma to_visit_less:
  assumes "d = root \<or> leads_to objs d" and "d \<notin> visited"
  shows "to_visit objs root (insert d visited) < to_visit objs root visited"
  unfolding to_visit_def using assms finite_leads_to by (intro psubset_card_mono) auto

lemma visible_loop_result:
  assumes served: "served_by bucket objs" and root: "ends_with root [47]" "\<not> isHiddenKey lower root"
  shows "search_inv lower objs root pending visited \<Longrightarrow>
    visible_loop bucket lower pending visited =
      Some (\<exists>x \<in> set objs. starts_with (lo_key x) root \<and> visible_file lower x)"
proof (induction "(to_visit objs root visited, length pending)" arbitrary: pending visited
    rule: wf_induct_rule [OF wf_lex_prod [OF wf_less_than wf_less_than]])
  case (1 pending visited)
  note IH = 1(1) [rule_format]
  show ?case
  proof (cases pending)
    case Nil
    then show ?thesis using search_finished 1(2) by (subst visible_loop.simps) (auto simp: Nil)
  next
    case (Cons d rest)
    show ?thesis
    proof (cases "d \<in> visited \<or> isHiddenKey lower d")
      case True
      have "visible_loop bucket lower pending visited = visible_loop bucket lower rest visited"
        using True by (subst visible_loop.simps) (simp add: Cons)
      also have "\<dots> = Some (\<exists>x \<in> set objs. starts_with (lo_key x) root \<and> visible_file lower x)"
        by (rule 1(1)) (use search_skip [OF 1(2) [unfolded Cons] root(2) True] Cons in auto)
      finally show ?thesis .
    next
      case False
      have d: "d = root \<or> leads_to objs d" "starts_with d root" using 1(2) Cons by (auto simp: search_inv_def)
      then have "ends_with d [47]" using root(1) by (auto simp: leads_to_def)
      from served this show ?thesis
      proof (cases rule: scan_directory_served [where lower = lower and pending = rest])
        case (1 x)
        then show ?thesis using False d(2) starts_with_trans [of "lo_key x" d root]
          by (subst visible_loop.simps) (auto simp: Cons direct_in_def)
      next
        case (2 ds)
        have "visible_loop bucket lower pending visited = visible_loop bucket lower (rest @ ds) (insert d visited)"
          using False 2(1) by (subst visible_loop.simps) (simp add: Cons)
        also have "\<dots> = Some (\<exists>x \<in> set objs. starts_with (lo_key x) root \<and> visible_file lower x)"
          by (rule IH) (use search_scan [OF \<open>search_inv lower objs root pending visited\<close> [unfolded Cons] 2(2,3)]
              to_visit_less [OF d(1), of visited] False in auto)
        finally show ?thesis .
      qed
    qed
  qed
qed

end
