(* ===== verification/Delivery_Properties.thy ===== *)
theory Delivery_Properties
  imports Delivery_Correct
begin

section \<open>Properties of delivery paths and listings\<close>

text \<open>
  The theorems about item references, the root of a delivery and what its listings show.
\<close>

text \<open>
  An item reference decodes to the path it was made from, for every valid relative path of
  Unicode scalar values that does not start with a byte order mark.
\<close>

theorem item_reference_roundtrip:
  assumes "validateRelativePath lower path = Inr path" and "list_all scalar path" and "hd path \<noteq> 0xFEFF"
  shows "decodeItemRef lower (encodeItemRef path) = Inr path"
  using assms by (rule itemRef_roundtrip)

theorem item_reference_roundtrip_witness:
  "decodeItemRef id (encodeItemRef (ustr ''photos/x.jpg'')) = Inr (ustr ''photos/x.jpg'')"
  by (rule item_reference_roundtrip)
    (simp_all add: validateRelativePath_def ustr_def control_char_def bad_segment_def reservedSegment_def scalar_def)

text \<open>
  A byte order mark at the start of a path is lost on the way: the reference of such a path
  decodes to what follows the mark, so a valid path that starts with one is never reached.
\<close>

theorem leading_mark_is_lost:
  assumes "list_all scalar path" and "path \<noteq> []"
  shows "decodeItemRef lower (encodeItemRef (0xFEFF # path)) = validateRelativePath lower path \<and>
    decodeItemRef lower (encodeItemRef (0xFEFF # path)) \<noteq> Inr (0xFEFF # path)"
proof -
  have "validateRelativePath lower path \<noteq> Inr (0xFEFF # path)" by (auto simp: validate_Inr)
  then show ?thesis using itemRef_drops_mark [OF assms, of lower] by simp
qed

theorem leading_mark_is_lost_witness:
  "validateRelativePath id (0xFEFF # ustr ''x'') = Inr (0xFEFF # ustr ''x'') \<and>
   decodeItemRef id (encodeItemRef (0xFEFF # ustr ''x'')) = Inr (ustr ''x'')"
proof -
  have "decodeItemRef id (encodeItemRef (0xFEFF # ustr ''x'')) = validateRelativePath id (ustr ''x'')"
    by (rule leading_mark_is_lost [THEN conjunct1]) (simp_all add: ustr_def scalar_def)
  then show ?thesis
    by (simp add: validateRelativePath_def ustr_def control_char_def bad_segment_def reservedSegment_def)
qed

lemma decode_errors:
  "decodeItemRef lower r = Inl f \<Longrightarrow>
    f \<in> {Http 400 ''Invalid item reference'', Http 400 ''Invalid item path'', Http 404 ''Item not found''}"
  by (auto simp: decodeItemRef_def validateRelativePath_def Let_def split: if_splits option.splits)

lemma within_errors:
  "keyWithinRoot lower root relative = Inl f \<Longrightarrow>
    f \<in> {Http 400 ''Invalid item path'', Http 404 ''Item not found'', Http 500 ''Delivery folder is invalid''}"
  by (cases "normalizeRoot lower root"; cases "validateRelativePath lower relative")
    (auto simp: keyWithinRoot_def normalizeRoot_def validateRelativePath_def Let_def split: if_splits)

text \<open>
  A reference from outside leads to an object under the root of the delivery, whose path has no
  empty, dot or reserved segment and which is not hidden, or is answered with one of four errors.
\<close>

theorem references_stay_inside:
  "case rbind (decodeItemRef lower reference) (keyWithinRoot lower root) of
     Inl f \<Rightarrow> f \<in> {Http 400 ''Invalid item reference'', Http 400 ''Invalid item path'', Http 404 ''Item not found'',
       Http 500 ''Delivery folder is invalid''}
   | Inr key \<Rightarrow> \<exists>p. normalizeRoot lower root = Inr (p @ [47]) \<and> starts_with key (p @ [47]) \<and> clean_path lower key \<and>
       \<not> isHiddenKey lower key"
proof (cases "decodeItemRef lower reference")
  case (Inl f)
  then show ?thesis using decode_errors [OF Inl] by auto
next
  case (Inr path)
  show ?thesis
  proof (cases "keyWithinRoot lower root path")
    case (Inl f)
    then show ?thesis using within_errors [OF Inl] Inr by auto
  next
    case within: (Inr key)
    obtain p where "normalizeRoot lower root = Inr (p @ [47])" "key = p @ 47 # path" "clean_path lower key" "92 \<notin> set key"
      using keyWithinRoot_Inr [OF within] .
    moreover have "starts_with key (p @ [47])" using starts_with_append [of "p @ [47]" path] calculation(2) by simp
    ultimately show ?thesis using Inr within clean_not_hidden by auto
  qed
qed

text \<open>
  C21: Against a bucket that serves a finite set of objects page by page, the search of a delivery
  folder ends and answers whether a file is stored below the root that is not under a reserved name
  and is not the marker of a moved file; it answers an error exactly when the root is invalid.
\<close>

theorem visible_content_found:
  assumes "served_by bucket objs"
  shows "prefixHasVisibleContent bucket lower rootValue = Some (case normalizeRoot lower rootValue of
      Inl f \<Rightarrow> Inl f
    | Inr root \<Rightarrow> Inr (\<exists>x \<in> set objs. starts_with (lo_key x) root \<and> visible_file lower x))"
proof (cases "normalizeRoot lower rootValue")
  case (Inl f)
  then show ?thesis by (simp add: prefixHasVisibleContent_def)
next
  case (Inr root)
  then obtain p where p: "root = p @ [47]" "clean_path lower p" "92 \<notin> set p" by (rule normalizeRoot_Inr)
  have "isHiddenKey lower root = isHiddenKey lower p"
    using p(3) split_on_append_sep [of 47 p "[]"] by (auto simp: isHiddenKey_def p(1) forward_fixed)
  then have "\<not> isHiddenKey lower root" using clean_not_hidden [OF p(2,3)] by simp
  moreover have "search_inv lower objs root [root] {}" by (simp add: search_inv_def starts_with_def)
  ultimately have "visible_loop bucket lower [root] {} =
      Some (\<exists>x \<in> set objs. starts_with (lo_key x) root \<and> visible_file lower x)"
    using assms by (intro visible_loop_result) (simp_all add: p(1))
  then show ?thesis using Inr by (simp add: prefixHasVisibleContent_def)
qed

definition sample_objects :: "listed_object list" where
  "sample_objects =
     [\<lparr>lo_key = ustr ''J/dump/x'', lo_size = 1, lo_etag = [], lo_metadata = []\<rparr>,
      \<lparr>lo_key = ustr ''J/m'', lo_size = 0, lo_etag = [], lo_metadata = [(ustr ''ltdsMoveMarker'', MOVED_SOURCE_MARKER)]\<rparr>,
      \<lparr>lo_key = ustr ''J/p/q'', lo_size = 4, lo_etag = [], lo_metadata = []\<rparr>]"

theorem visible_content_found_witness:
  "prefixHasVisibleContent (one_page_bucket sample_objects) id (ustr ''J'') = Some (Inr True) \<and>
   prefixHasVisibleContent (one_page_bucket (butlast sample_objects)) id (ustr ''J/'') = Some (Inr False)"
proof -
  have root: "normalizeRoot id (ustr ''J'') = Inr (ustr ''J/'')" "normalizeRoot id (ustr ''J/'') = Inr (ustr ''J/'')"
    by (simp_all add: normalizeRoot_def ustr_def js_trim_def js_space_def forward_slashes_def strip_leading_def
        strip_one_def bad_segment_def reservedSegment_def Let_def)
  have hidden: "isHiddenKey id (ustr ''J/dump/x'')" "\<not> isHiddenKey id (ustr ''J/p/q'')"
    by (simp_all add: isHiddenKey_def forward_slashes_def ustr_def reservedSegment_def)
  have marker: "isMovedSourceMarker (sample_objects ! 1)" "\<not> isMovedSourceMarker (sample_objects ! 2)"
    by (simp_all add: isMovedSourceMarker_def sample_objects_def)
  have key: "starts_with (ustr ''J/p/q'') (ustr ''J/'')" "\<not> ends_with (ustr ''J/p/q'') [47]"
    by (simp_all add: starts_with_def ends_with_def ustr_def)
  have "\<exists>x \<in> set sample_objects. starts_with (lo_key x) (ustr ''J/'') \<and> visible_file id x"
    using marker(2) hidden(2) key by (simp add: sample_objects_def visible_file_def)
  moreover have "\<not> (\<exists>x \<in> set (butlast sample_objects). starts_with (lo_key x) (ustr ''J/'') \<and> visible_file id x)"
    using marker(1) hidden(1) by (simp add: sample_objects_def visible_file_def)
  ultimately show ?thesis
    using visible_content_found [OF one_page_served, of sample_objects id "ustr ''J''"]
      visible_content_found [OF one_page_served, of "butlast sample_objects" id "ustr ''J/''"] root by simp
qed

end
