(* ===== verification/R2_Paths.thy ===== *)
theory R2_Paths
  imports Path_Tools
begin

section \<open>Validation of storage paths and uploads\<close>

text \<open>
  \<open>apps/operations/src/worker/r2-crud-validation.ts\<close> and \<open>multipart-etag.ts\<close>. A value of type
  \<open>unknown\<close> is an option: \<open>None\<close> is anything that is not a string. The runtime gives \<open>toLowerCase\<close>,
  \<open>toUpperCase\<close> and \<open>normalize("NFC")\<close>. The lemmas say where an accepted path may lie.
\<close>

record path_runtime =
  pr_lower :: "ustring \<Rightarrow> ustring"
  pr_upper :: "ustring \<Rightarrow> ustring"
  pr_nfc :: "ustring \<Rightarrow> ustring"

definition MAX_KEY_LENGTH :: nat where "MAX_KEY_LENGTH = 1000"
definition MAX_R2_KEY_BYTES :: nat where "MAX_R2_KEY_BYTES = 1024"
definition MAX_BROWSER_UPLOAD_FILES :: nat where "MAX_BROWSER_UPLOAD_FILES = 100"
definition MAX_BROWSER_UPLOAD_BYTES :: int where "MAX_BROWSER_UPLOAD_BYTES = 500 * 1024 ^ 3"
definition MAX_BROWSER_UPLOAD_FILE_BYTES :: int where "MAX_BROWSER_UPLOAD_FILE_BYTES = 500 * 1024 ^ 3"

text \<open>\<open>value.length\<close> counts UTF-16 code units.\<close>

definition js_length :: "ustring \<Rightarrow> nat" where
  "js_length s = (\<Sum>c \<leftarrow> s. if c \<ge> 0x10000 then 2 else 1)"

subsection \<open>Keys\<close>

text \<open>The common first steps: the length and control checks, then the clean form of the path.\<close>

definition acceptable_text :: "ustring option \<Rightarrow> bool" where
  "acceptable_text v \<longleftrightarrow> (case v of None \<Rightarrow> False
     | Some s \<Rightarrow> js_length s \<le> MAX_KEY_LENGTH \<and> \<not> list_ex control_char s)"

definition clean_form :: "ustring \<Rightarrow> ustring" where
  "clean_form s = strip_trailing (collapse_slashes (strip_leading (forward_slashes (js_trim s))))"

definition finish_key :: "ustring \<Rightarrow> bool \<Rightarrow> fault + ustring" where
  "finish_key clean folder =
     (let result = (if folder then clean @ [47] else clean) in
      if length (utf8 result) > MAX_R2_KEY_BYTES
      then Inl (Http 400 ''The R2 path exceeds the 1,024-byte storage limit'') else Inr result)"

definition normalizeCrudKey :: "path_runtime \<Rightarrow> ustring option \<Rightarrow> bool \<Rightarrow> fault + ustring" where
  "normalizeCrudKey rt v folder =
     (if \<not> acceptable_text v then Inl (Http 400 ''A valid R2 path is required'')
      else
        let clean = clean_form (the v); parts = split_on 47 clean in
        if clean = [] \<or> list_ex (bad_segment (pr_lower rt)) parts
        then Inl (Http 400 ''The R2 path is reserved or invalid'')
        else
          let deliveryRoot = clean = ustr ''Jobs/Clients'' in
          if (deliveryRoot \<and> \<not> folder) \<or> (\<not> deliveryRoot \<and> \<not> starts_with clean (ustr ''Jobs/Clients/''))
          then Inl (Http 400 ''R2 paths must be under Jobs/Clients'')
          else finish_key clean folder)"

definition normalizeAdministratorDeleteKey :: "path_runtime \<Rightarrow> ustring option \<Rightarrow> bool \<Rightarrow> fault + ustring" where
  "normalizeAdministratorDeleteKey rt v folder =
     (if \<not> acceptable_text v then Inl (Http 400 ''A valid R2 path is required'')
      else
        let clean = clean_form (the v); parts = split_on 47 clean in
        if clean = [] \<or> clean = ustr ''Jobs'' \<or> \<not> starts_with clean (ustr ''Jobs/'') \<or>
          list_ex (\<lambda>part. bad_segment (pr_lower rt) part \<or> pr_lower rt part = ustr ''incoming'') parts
        then Inl (Http 400 ''Administrator deletion is limited to non-system content under Jobs/'')
        else finish_key clean folder)"

text \<open>\<open>value.includes("//")\<close>.\<close>

fun has_double_slash :: "ustring \<Rightarrow> bool" where
  "has_double_slash (c # d # s) = ((c = 47 \<and> d = 47) \<or> has_double_slash (d # s))"
| "has_double_slash _ = False"

definition normalizeUploadRelativePath :: "path_runtime \<Rightarrow> ustring option \<Rightarrow> fault + ustring" where
  "normalizeUploadRelativePath rt v =
     (case v of None \<Rightarrow> Inl (Http 400 ''Upload relative path is invalid'')
      | Some s \<Rightarrow>
        if s = [] \<or> js_length s > MAX_KEY_LENGTH \<or> starts_with s [47] \<or> 92 \<in> set s \<or> ends_with s [47] \<or>
          has_double_slash s \<or> list_ex control_char s
        then Inl (Http 400 ''Upload relative path is invalid'')
        else
          let normalized = pr_nfc rt s in
          if list_ex (bad_segment (pr_lower rt)) (split_on 47 normalized)
          then Inl (Http 400 ''Upload relative path is invalid'')
          else Inr normalized)"

subsection \<open>Content types\<close>

definition word_char :: "nat \<Rightarrow> bool" where
  "word_char c \<longleftrightarrow> (65 \<le> c \<and> c \<le> 90) \<or> (97 \<le> c \<and> c \<le> 122) \<or> (48 \<le> c \<and> c \<le> 57)"

definition mime_char :: "nat \<Rightarrow> bool" where
  "mime_char c \<longleftrightarrow> word_char c \<or> c \<in> set (ustr ''!#$&^_.+-'')"

text \<open>\<open>/^[A-Za-z0-9!#$&^_.+-]+\/[A-Za-z0-9!#$&^_.+-]+$/\<close>: the class has no slash.\<close>

definition mime_pattern :: "ustring \<Rightarrow> bool" where
  "mime_pattern s \<longleftrightarrow> (case split_on 47 s of
     [a, b] \<Rightarrow> a \<noteq> [] \<and> b \<noteq> [] \<and> list_all mime_char a \<and> list_all mime_char b | _ \<Rightarrow> False)"

definition active_content :: "ustring list" where
  "active_content = map ustr [''text/html'', ''image/svg+xml'', ''application/xhtml+xml'',
     ''application/javascript'', ''text/javascript'']"

text \<open>The argument: absent (undefined, null), not a string, or a string.\<close>

datatype loose = Absent | Other | Text ustring

definition browserUploadContentType :: "path_runtime \<Rightarrow> loose \<Rightarrow> fault + ustring" where
  "browserUploadContentType rt v =
     (case v of
        Absent \<Rightarrow> Inr (ustr ''application/octet-stream'')
      | Other \<Rightarrow> Inl (Http 400 ''Upload content type is invalid'')
      | Text s \<Rightarrow>
          if s = [] then Inr (ustr ''application/octet-stream'')
          else if js_length s > 200 \<or> \<not> mime_pattern s then Inl (Http 400 ''Upload content type is invalid'')
          else
            let normalized = pr_lower rt s in
            if normalized \<in> set active_content
            then Inl (Http 415 ''Active web content cannot be uploaded to delivery storage'')
            else Inr normalized)"

subsection \<open>Upload keys and destinations\<close>

definition browserUploadObjectKey ::
  "path_runtime \<Rightarrow> ustring option \<Rightarrow> ustring option \<Rightarrow> fault + (ustring \<times> ustring \<times> ustring)" where
  "browserUploadObjectKey rt rootPrefix relativePath =
     rbind (normalizeCrudKey rt rootPrefix True) (\<lambda>root.
     rbind (normalizeUploadRelativePath rt relativePath) (\<lambda>relative.
     rbind (normalizeCrudKey rt (Some (root @ relative)) False) (\<lambda>key.
     if \<not> starts_with key root then Inl (Http 400 ''Upload path escapes the selected folder'')
     else Inr (root, relative, key))))"

definition assertSafeCrudDestination :: "path_runtime \<Rightarrow> ustring \<Rightarrow> ustring \<Rightarrow> bool \<Rightarrow> fault + unit" where
  "assertSafeCrudDestination rt source target folder =
     rbind (normalizeCrudKey rt (Some source) folder) (\<lambda>normalizedSource.
     rbind (normalizeCrudKey rt (Some target) folder) (\<lambda>normalizedTarget.
     if normalizedSource = normalizedTarget then Inl (Http 400 ''Source and destination must differ'')
     else if folder \<and> starts_with normalizedTarget normalizedSource
     then Inl (Http 400 ''A folder cannot be copied, moved, or renamed into one of its own descendants'')
     else Inr ()))"

definition operationsMultipartPartSize :: "nat \<Rightarrow> nat" where
  "operationsMultipartPartSize sz =
     max (32 * 1024 ^ 2) (ceil_div (ceil_div sz 10000) (5 * 1024 ^ 2) * (5 * 1024 ^ 2))"

subsection \<open>Which mutations only an administrator may make\<close>

definition pathParts :: "ustring \<Rightarrow> ustring list" where
  "pathParts path = filter (\<lambda>p. p \<noteq> []) (split_on 47 (hd (split_on 63 path)))"

definition token_char :: "nat \<Rightarrow> bool" where
  "token_char c \<longleftrightarrow> word_char c \<or> c = 95 \<or> c = 45"

text \<open>A part beyond the end is \<open>undefined\<close>; parts are never empty, so it is the empty text here.\<close>

definition part_at :: "ustring list \<Rightarrow> nat \<Rightarrow> ustring" where
  "part_at parts i = (if i < length parts then parts ! i else [])"

definition delegatedRouteToken :: "ustring \<Rightarrow> bool" where
  "delegatedRouteToken v \<longleftrightarrow> v \<noteq> [] \<and> list_all token_char v"

definition native_token :: "ustring \<Rightarrow> bool" where
  "native_token v \<longleftrightarrow> starts_with v (ustr ''nb_'') \<and> 1 \<le> length (drop 3 v) \<and> length (drop 3 v) \<le> 125 \<and>
     list_all token_char (drop 3 v)"

text \<open>A route as the conditions spell it: the method, and per position a literal or a token.\<close>

datatype segment_pattern = Lit string | Token | Native_token | One_of "string list"

fun matches_segment :: "segment_pattern \<Rightarrow> ustring \<Rightarrow> bool" where
  "matches_segment (Lit s) v = (v = ustr s)"
| "matches_segment Token v = delegatedRouteToken v"
| "matches_segment Native_token v = native_token v"
| "matches_segment (One_of ss) v = (v \<in> ustr ` set ss)"

definition route :: "ustring list \<Rightarrow> segment_pattern list \<Rightarrow> bool" where
  "route parts patterns \<longleftrightarrow>
     length parts = length patterns \<and> list_all2 matches_segment patterns parts"

definition route_prefix :: "ustring list \<Rightarrow> segment_pattern list \<Rightarrow> bool" where
  "route_prefix parts patterns \<longleftrightarrow>
     length patterns \<le> length parts \<and> list_all2 matches_segment patterns (take (length patterns) parts)"

definition delegated_routes :: "(string \<times> segment_pattern list) list" where
  "delegated_routes =
    [(''POST'', [Lit ''api'', Lit ''delivery'', Lit ''shares'']),
     (''DELETE'', [Lit ''api'', Lit ''delivery'', Lit ''shares'', Token]),
     (''POST'', [Lit ''api'', Lit ''client-portal'', Lit ''accounts'', Token, Lit ''folder-grants'']),
     (''DELETE'', [Lit ''api'', Lit ''client-portal'', Lit ''accounts'', Token, Lit ''folder-grants'', Token]),
     (''POST'', [Lit ''api'', Lit ''notifications'', Lit ''deliveries'', Token, One_of [''send-now'', ''cancel'']]),
     (''POST'', [Lit ''api'', Lit ''notifications'', Lit ''deliveries'', Lit ''portal_delivery'', Native_token,
        One_of [''send-now'', ''cancel'']]),
     (''POST'', [Lit ''api'', Lit ''notifications'', Lit ''deliveries'', Lit ''authenticated_delivery'', Token,
        One_of [''send-now'', ''cancel'', ''suppress-email'']]),
     (''PUT'', [Lit ''api'', Lit ''delivery'', Lit ''authenticated-grants'', Token, Lit ''notification-policy'']),
     (''POST'', [Lit ''api'', Lit ''operations'', Lit ''feedback'', Token, Lit ''status'']),
     (''POST'', [Lit ''api'', Lit ''delivery'', Lit ''items'', Token, Lit ''stream-ticket'']),
     (''POST'', [Lit ''api'', Lit ''viewer'', Lit ''models'', Token, Lit ''shares'']),
     (''DELETE'', [Lit ''api'', Lit ''viewer'', Lit ''shares'', Token]),
     (''PUT'', [Lit ''api'', Lit ''operations'', Token, Lit ''job-brief'']),
     (''PUT'', [Lit ''api'', Lit ''operations'', Token, Lit ''job-brief'', Lit ''sops'']),
     (''POST'', [Lit ''api'', Lit ''operations'', Token, Lit ''job-brief'', Lit ''attachments'',
        One_of [''upload'', ''reference'']])]"

definition requiresAdministratorForMutation :: "path_runtime \<Rightarrow> ustring \<Rightarrow> ustring \<Rightarrow> bool" where
  "requiresAdministratorForMutation rt method path =
     (let normalizedMethod = pr_upper rt method in
      if normalizedMethod \<notin> set (map ustr [''POST'', ''PUT'', ''PATCH'', ''DELETE'']) then False
      else
        let parts = pathParts path;
            incomingLink = route_prefix parts [Lit ''api'', Lit ''delivery'', Lit ''incoming-link''];
            dropboxImport = length parts \<ge> 3 \<and> part_at parts 0 = ustr ''api'' \<and> part_at parts 1 = ustr ''dropbox-import''
        in \<not> list_ex (\<lambda>(m, r). normalizedMethod = ustr m \<and> route parts r) delegated_routes \<and>
           \<not> incomingLink \<and> \<not> dropboxImport)"

subsection \<open>Multipart entity tags\<close>

definition hex_char :: "nat \<Rightarrow> bool" where
  "hex_char c \<longleftrightarrow> (97 \<le> c \<and> c \<le> 102) \<or> (65 \<le> c \<and> c \<le> 70) \<or> (48 \<le> c \<and> c \<le> 57)"

text \<open>\<open>slice(1, -1)\<close> of a lone quote is empty.\<close>

definition canonicalMultipartEtag :: "path_runtime \<Rightarrow> ustring option \<Rightarrow> ustring option" where
  "canonicalMultipartEtag rt v =
     (case v of None \<Rightarrow> None
      | Some s \<Rightarrow>
        let trimmed = js_trim s;
            unquoted = (if starts_with trimmed [34] \<and> ends_with trimmed [34] then butlast (tl trimmed) else trimmed)
        in if length unquoted = 32 \<and> list_all hex_char unquoted then Some (pr_lower rt unquoted) else None)"

end
