(* ===== verification/Delivery_Index.thy ===== *)
theory Delivery_Index
  imports R2_Paths
begin

section \<open>The delivery index and its fences\<close>

text \<open>
  \<open>apps/operations/src/worker/delivery-index-acceptance.ts\<close>, with the tables \<open>file_index\<close> and
  \<open>delivery_file_index_revisions\<close> and their triggers (migration 0206). A prepared statement is a
  function from the database to the number of changed rows and the database after it. Date parsing,
  \<open>toISOString\<close> and the MIME table are parameters.
\<close>

record index_row =
  ir_provider :: "ustring option"
  ir_notified :: "ustring option"
  ir_etag :: ustring
  ir_size :: int
  ir_uploaded :: ustring
  ir_type :: "ustring option"
  ir_kind :: ustring
  ir_stream_uid :: "ustring option"
  ir_stream_status :: "ustring option"
  ir_stream_error :: "ustring option"
  ir_upload_url :: "ustring option"
  ir_upload_offset :: "int option"
  ir_updated :: int

record index_db =
  ix_rows :: "ustring \<Rightarrow> index_row option"
  ix_revisions :: "ustring \<Rightarrow> nat option"

record index_runtime =
  xr_parse :: "ustring \<Rightarrow> int option"
  xr_iso :: "int \<Rightarrow> ustring"
  xr_mime :: "ustring \<Rightarrow> ustring"

subsection \<open>The tables and their triggers\<close>

definition bump_revision :: "ustring \<Rightarrow> index_db \<Rightarrow> index_db" where
  "bump_revision key db = db\<lparr>ix_revisions := (ix_revisions db)(key \<mapsto>
     (case ix_revisions db key of None \<Rightarrow> 1 | Some n \<Rightarrow> n + 1))\<rparr>"

definition insert_row :: "ustring \<Rightarrow> index_row \<Rightarrow> index_db \<Rightarrow> index_db" where
  "insert_row key row db = bump_revision key (db\<lparr>ix_rows := (ix_rows db)(key \<mapsto> row)\<rparr>)"

text \<open>
  An update also fires the identity trigger: a provider version that stays while etag, size or time
  change is cleared, by an update of its own.
\<close>

definition stale_identity :: "index_row \<Rightarrow> index_row \<Rightarrow> bool" where
  "stale_identity old new \<longleftrightarrow> ir_provider new \<noteq> None \<and> ir_provider new = ir_provider old \<and>
     (ir_etag new \<noteq> ir_etag old \<or> ir_size new \<noteq> ir_size old \<or> ir_uploaded new \<noteq> ir_uploaded old)"

definition update_row :: "ustring \<Rightarrow> index_row \<Rightarrow> index_row \<Rightarrow> index_db \<Rightarrow> index_db" where
  "update_row key old new db =
     (let db1 = bump_revision key (db\<lparr>ix_rows := (ix_rows db)(key \<mapsto> new)\<rparr>) in
      if stale_identity old new
      then bump_revision key (db1\<lparr>ix_rows := (ix_rows db1)(key \<mapsto> new\<lparr>ir_provider := None\<rparr>)\<rparr>)
      else db1)"

definition delete_row :: "ustring \<Rightarrow> index_db \<Rightarrow> index_db" where
  "delete_row key db = bump_revision key (db\<lparr>ix_rows := (ix_rows db)(key := None)\<rparr>)"

definition revision_of :: "index_db \<Rightarrow> ustring \<Rightarrow> nat" where
  "revision_of db key = (case ix_revisions db key of None \<Rightarrow> 0 | Some n \<Rightarrow> n)"

subsection \<open>Observations\<close>

record index_current =
  ic_provider :: "ustring option"
  ic_notified :: "ustring option"
  ic_etag :: ustring
  ic_size :: int
  ic_uploaded :: ustring

record DeliveryIndexObservation =
  dx_key :: ustring
  dx_revision :: nat
  dx_current :: "index_current option"

definition validKey :: "ustring \<Rightarrow> fault + unit" where
  "validKey key = (if key = [] \<or> length (utf8 key) > 1024 then Inl (Failed ''delivery-index-key-invalid'') else Inr ())"

definition readDeliveryIndexObservation :: "index_db \<Rightarrow> ustring \<Rightarrow> fault + DeliveryIndexObservation" where
  "readDeliveryIndexObservation db key =
     rbind (validKey key) (\<lambda>_. Inr
       \<lparr>dx_key = key, dx_revision = revision_of db key,
        dx_current = (case ix_revisions db key of
            None \<Rightarrow> None
          | Some n \<Rightarrow> map_option (\<lambda>r. \<lparr>ic_provider = ir_provider r, ic_notified = ir_notified r, ic_etag = ir_etag r,
              ic_size = ir_size r, ic_uploaded = ir_uploaded r\<rparr>) (ix_rows db key))\<rparr>)"

definition validSnapshot :: "DeliveryIndexObservation \<Rightarrow> fault + unit" where
  "validSnapshot s =
     rbind (validKey (dx_key s)) (\<lambda>_.
     if \<not> is_safe_integer (int (dx_revision s)) \<or> (dx_current s \<noteq> None \<and> dx_revision s = 0)
     then Inl (Failed ''delivery-index-snapshot-invalid'') else Inr ())"

definition deliveryIndexRecoveryEnabled :: "ustring option \<Rightarrow> ustring option \<Rightarrow> bool" where
  "deliveryIndexRecoveryEnabled notifications recovery \<longleftrightarrow>
     notifications = Some (ustr ''true'') \<and> recovery = Some (ustr ''true'')"

text \<open>\<open>/(?:Z|[+-]\d\d:\d\d)$/i\<close> and \<open>replace(" ", "T")\<close>.\<close>

definition digit_char :: "nat \<Rightarrow> bool" where
  "digit_char c \<longleftrightarrow> 48 \<le> c \<and> c \<le> 57"

definition zone_suffix :: "ustring \<Rightarrow> bool" where
  "zone_suffix v \<longleftrightarrow> (v \<noteq> [] \<and> (List.last v = 90 \<or> List.last v = 122)) \<or>
     (case rev v of
        d \<Rightarrow> length d \<ge> 6 \<and> digit_char (d ! 0) \<and> digit_char (d ! 1) \<and> d ! 2 = 58 \<and> digit_char (d ! 3) \<and>
          digit_char (d ! 4) \<and> (d ! 5 = 43 \<or> d ! 5 = 45))"

fun space_to_t :: "ustring \<Rightarrow> ustring" where
  "space_to_t [] = []"
| "space_to_t (c # s) = (if c = 32 then 84 # s else c # space_to_t s)"

definition deliveryIndexStoredUtcTime :: "index_runtime \<Rightarrow> ustring \<Rightarrow> int option" where
  "deliveryIndexStoredUtcTime rt v = xr_parse rt (if zone_suffix v then v else space_to_t v @ [90])"

text \<open>The fields of an R2 object that the index records; \<open>None\<close> is an invalid date.\<close>

record observed_object =
  oo_key :: ustring
  oo_version :: ustring
  oo_http_etag :: ustring
  oo_size :: int
  oo_uploaded :: "int option"

record stream_state =
  ss_uid :: "ustring option"
  ss_status :: "ustring option"
  ss_error :: "ustring option"
  ss_url :: "ustring option option"
  ss_offset :: "int option option"

text \<open>\<open>replace(/^"|"$/g, "")\<close>.\<close>

definition unquote :: "ustring \<Rightarrow> ustring" where
  "unquote s = (let t = (if s \<noteq> [] \<and> hd s = 34 then tl s else s) in
     if t \<noteq> [] \<and> List.last t = 34 then butlast t else t)"

definition streamFieldsInvalid :: "stream_state option \<Rightarrow> bool" where
  "streamFieldsInvalid stream = (case stream of None \<Rightarrow> False
     | Some s \<Rightarrow> ((ss_url s \<noteq> None) \<noteq> (ss_offset s \<noteq> None)) \<or>
         (ss_url s \<noteq> None \<and>
           ((case ss_url s of Some (Some u) \<Rightarrow> js_length u > 2048 | _ \<Rightarrow> False) \<or>
            (case ss_offset s of Some (Some n) \<Rightarrow> \<not> is_safe_integer n \<or> n < 0 | _ \<Rightarrow> False))))"

definition validateObserved ::
  "index_runtime \<Rightarrow> DeliveryIndexObservation \<Rightarrow> observed_object \<Rightarrow> stream_state option \<Rightarrow> fault + unit" where
  "validateObserved rt s obj stream =
     rbind (validSnapshot s) (\<lambda>_.
     if oo_key obj \<noteq> dx_key s \<or> oo_version obj = [] \<or> js_trim (oo_version obj) \<noteq> oo_version obj \<or>
       js_length (oo_version obj) > 512 \<or> oo_http_etag obj = [] \<or> \<not> is_safe_integer (oo_size obj) \<or>
       oo_size obj < 0 \<or> oo_uploaded obj = None
     then Inl (Failed ''delivery-index-observation-invalid'')
     else if (case dx_current s of None \<Rightarrow> False
       | Some c \<Rightarrow> ic_provider c = Some (oo_version obj) \<and>
           (unquote (ic_etag c) \<noteq> unquote (oo_http_etag obj) \<or> ic_size c \<noteq> oo_size obj \<or>
            deliveryIndexStoredUtcTime rt (ic_uploaded c) = None \<or>
            deliveryIndexStoredUtcTime rt (ic_uploaded c) \<noteq> oo_uploaded obj))
     then Inl (Failed ''delivery-index-provider-identity-conflict'')
     else if streamFieldsInvalid stream then Inl (Failed ''delivery-index-stream-invalid'')
     else Inr ())"

text \<open>\<open>mediaKind\<close> of \<open>delivery.ts\<close>.\<close>

definition mediaKind :: "index_runtime \<Rightarrow> ustring \<Rightarrow> ustring" where
  "mediaKind rt key =
     (let v = xr_mime rt key in
      if starts_with v (ustr ''image/'') then ustr ''image''
      else if starts_with v (ustr ''video/'') then ustr ''video''
      else if starts_with v (ustr ''audio/'') then ustr ''audio''
      else if v = ustr ''application/pdf'' then ustr ''pdf''
      else if starts_with v (ustr ''text/'') \<or> starts_with v (ustr ''application/json'') then ustr ''text''
      else ustr ''other'')"

subsection \<open>Statements\<close>

type_synonym index_statement = "index_db \<Rightarrow> nat \<times> index_db"

definition with_stream :: "stream_state option \<Rightarrow> index_row \<Rightarrow> index_row" where
  "with_stream stream r = (case stream of None \<Rightarrow> r
     | Some s \<Rightarrow>
        let r1 = r\<lparr>ir_stream_uid := ss_uid s, ir_stream_status := ss_status s, ir_stream_error := ss_error s\<rparr> in
        (case ss_url s of None \<Rightarrow> r1
         | Some url \<Rightarrow> r1\<lparr>ir_upload_url := url, ir_upload_offset := (case ss_offset s of Some n \<Rightarrow> n | None \<Rightarrow> None)\<rparr>))"

text \<open>The columns set from the observed object, over an old or an empty row.\<close>

definition observed_row :: "index_runtime \<Rightarrow> int \<Rightarrow> observed_object \<Rightarrow> index_row \<Rightarrow> index_row" where
  "observed_row rt now obj r =
     r\<lparr>ir_provider := Some (oo_version obj), ir_etag := oo_http_etag obj, ir_size := oo_size obj,
       ir_uploaded := xr_iso rt (the (oo_uploaded obj)), ir_type := Some (xr_mime rt (oo_key obj)),
       ir_kind := mediaKind rt (oo_key obj), ir_updated := now\<rparr>"

definition empty_row :: index_row where
  "empty_row = \<lparr>ir_provider = None, ir_notified = None, ir_etag = [], ir_size = 0, ir_uploaded = [], ir_type = None,
     ir_kind = [], ir_stream_uid = None, ir_stream_status = None, ir_stream_error = None, ir_upload_url = None,
     ir_upload_offset = None, ir_updated = 0\<rparr>"

text \<open>An update of the row of the key, or an insert of one, each only at the revision of the snapshot.\<close>

definition fenced_update ::
  "DeliveryIndexObservation \<Rightarrow> (index_row \<Rightarrow> bool) \<Rightarrow> (index_row \<Rightarrow> index_row) \<Rightarrow> index_statement" where
  "fenced_update s guard change db =
     (case ix_rows db (dx_key s) of
        Some r \<Rightarrow> if revision_of db (dx_key s) = dx_revision s \<and> guard r
          then (1, update_row (dx_key s) r (change r) db) else (0, db)
      | None \<Rightarrow> (0, db))"

definition fenced_insert :: "DeliveryIndexObservation \<Rightarrow> index_row \<Rightarrow> index_statement" where
  "fenced_insert s row db =
     (if revision_of db (dx_key s) = dx_revision s \<and> ix_rows db (dx_key s) = None
      then (1, insert_row (dx_key s) row db) else (0, db))"

definition prepareDeliveryIndexCreateAcceptance ::
  "index_runtime \<Rightarrow> int \<Rightarrow> DeliveryIndexObservation \<Rightarrow> observed_object \<Rightarrow> stream_state option \<Rightarrow> fault + index_statement" where
  "prepareDeliveryIndexCreateAcceptance rt now s obj stream =
     rbind (validateObserved rt s obj stream) (\<lambda>_.
     let write = (\<lambda>r. with_stream stream ((observed_row rt now obj r)\<lparr>ir_notified := Some (oo_version obj)\<rparr>)) in
     Inr (if dx_current s \<noteq> None
          then fenced_update s (\<lambda>r. ir_notified r \<noteq> Some (oo_version obj)) write
          else fenced_insert s (write empty_row)))"

definition prepareDeliveryIndexRepair ::
  "index_runtime \<Rightarrow> int \<Rightarrow> DeliveryIndexObservation \<Rightarrow> observed_object \<Rightarrow> stream_state option \<Rightarrow> fault + index_statement" where
  "prepareDeliveryIndexRepair rt now s obj stream =
     rbind (validateObserved rt s obj stream) (\<lambda>_.
     let write = (\<lambda>r. with_stream stream (observed_row rt now obj r)) in
     Inr (if dx_current s \<noteq> None
          then fenced_update s (\<lambda>r. ir_provider r \<noteq> Some (oo_version obj) \<or> ir_etag r \<noteq> oo_http_etag obj \<or>
                 ir_size r \<noteq> oo_size obj \<or> ir_uploaded r \<noteq> xr_iso rt (the (oo_uploaded obj)) \<or>
                 ir_type r \<noteq> Some (xr_mime rt (oo_key obj)) \<or> ir_kind r \<noteq> mediaKind rt (oo_key obj) \<or>
                 stream \<noteq> None) write
          else fenced_insert s (write empty_row)))"

definition prepareDeliveryIndexDeleteAcceptance :: "DeliveryIndexObservation \<Rightarrow> fault + index_statement" where
  "prepareDeliveryIndexDeleteAcceptance s =
     rbind (validSnapshot s) (\<lambda>_.
     case dx_current s of
       None \<Rightarrow> Inl (Failed ''delivery-index-removal-identity-unavailable'')
     | Some c \<Rightarrow>
         (case ic_provider c of
            None \<Rightarrow> Inl (Failed ''delivery-index-removal-identity-unavailable'')
          | Some v \<Rightarrow>
              if v = [] then Inl (Failed ''delivery-index-removal-identity-unavailable'')
              else if js_trim v \<noteq> v \<or> js_length v > 512 then Inl (Failed ''delivery-index-removal-identity-invalid'')
              else Inr (\<lambda>db. case ix_rows db (dx_key s) of
                  Some r \<Rightarrow> if ir_provider r = Some v \<and> ir_etag r = ic_etag c \<and>
                      revision_of db (dx_key s) = dx_revision s
                    then (1, delete_row (dx_key s) db) else (0, db)
                | None \<Rightarrow> (0, db))))"

subsection \<open>What the revisions fence\<close>

text \<open>Any writer of the table: each statement inserts, updates or deletes rows, with the triggers.\<close>

inductive index_write :: "index_db \<Rightarrow> index_db \<Rightarrow> bool" where
  Insert: "ix_rows db key = None \<Longrightarrow> index_write db (insert_row key row db)"
| Update: "ix_rows db key = Some old \<Longrightarrow> index_write db (update_row key old new db)"
| Delete: "ix_rows db key = Some old \<Longrightarrow> index_write db (delete_row key db)"

lemma revision_bump: "revision_of (bump_revision key db) k = revision_of db k + (if k = key then 1 else 0)"
  by (auto simp: revision_of_def bump_revision_def split: option.splits)

lemma revision_rows [simp]: "revision_of (db\<lparr>ix_rows := f\<rparr>) k = revision_of db k"
  by (simp add: revision_of_def)

lemma rows_bump [simp]: "ix_rows (bump_revision key db) = ix_rows db"
  by (simp add: bump_revision_def)

lemma write_advances:
  assumes "index_write db db'"
  shows "revision_of db k \<le> revision_of db' k" and "ix_rows db' k \<noteq> ix_rows db k \<Longrightarrow> revision_of db k < revision_of db' k"
  using assms
  by (auto elim!: index_write.cases simp: insert_row_def update_row_def delete_row_def revision_bump Let_def
      split: if_splits)

lemma writes_advance:
  assumes "index_write\<^sup>*\<^sup>* db db'"
  shows "revision_of db k \<le> revision_of db' k \<and>
    (revision_of db' k = revision_of db k \<longrightarrow> ix_rows db' k = ix_rows db k)"
  using assms
proof (induction rule: rtranclp_induct)
  case base
  then show ?case by simp
next
  case (step db1 db2)
  have "revision_of db1 k \<le> revision_of db2 k" using write_advances(1) [OF step.hyps(2)] .
  moreover have "ix_rows db2 k \<noteq> ix_rows db1 k \<Longrightarrow> revision_of db1 k < revision_of db2 k"
    by (rule write_advances(2) [OF step.hyps(2)])
  ultimately show ?case using step.IH by (cases "ix_rows db2 k = ix_rows db1 k") auto
qed

definition index_wf :: "index_db \<Rightarrow> bool" where
  "index_wf db \<longleftrightarrow> (\<forall>k. ix_rows db k \<noteq> None \<longrightarrow> 0 < revision_of db k)"

lemma index_write_wf: "index_write db db' \<Longrightarrow> index_wf db \<Longrightarrow> index_wf db'"
  unfolding index_wf_def
  by (erule index_write.cases) (auto simp: insert_row_def update_row_def delete_row_def revision_bump Let_def)

text \<open>Every prepared statement writes once, at most, and only at the revision of its snapshot.\<close>

definition fenced :: "DeliveryIndexObservation \<Rightarrow> index_statement \<Rightarrow> bool" where
  "fenced s stmt \<longleftrightarrow> (\<forall>db. stmt db = (0, db) \<or>
     (\<exists>db'. stmt db = (1, db') \<and> index_write db db' \<and> revision_of db (dx_key s) = dx_revision s))"

lemma fencedI:
  "fenced s (fenced_update s guard change)" "fenced s (fenced_insert s row)"
  by (auto simp: fenced_def fenced_update_def fenced_insert_def split: option.splits intro: index_write.intros)

lemma fenced_repair: "prepareDeliveryIndexRepair rt now s obj stream = Inr stmt \<Longrightarrow> fenced s stmt"
  unfolding prepareDeliveryIndexRepair_def rbind_eq_Inr Let_def by (auto intro: fencedI)

lemma fenced_create: "prepareDeliveryIndexCreateAcceptance rt now s obj stream = Inr stmt \<Longrightarrow> fenced s stmt"
  unfolding prepareDeliveryIndexCreateAcceptance_def rbind_eq_Inr Let_def by (auto intro: fencedI)

lemma fenced_delete:
  assumes "prepareDeliveryIndexDeleteAcceptance s = Inr stmt"
  shows "fenced s stmt"
proof -
  obtain c :: index_current and v where stmt: "stmt = (\<lambda>db. case ix_rows db (dx_key s) of
      Some r \<Rightarrow> if ir_provider r = Some v \<and> ir_etag r = ic_etag c \<and> revision_of db (dx_key s) = dx_revision s
        then (1, delete_row (dx_key s) db) else (0, db)
    | None \<Rightarrow> (0, db))"
    using assms unfolding prepareDeliveryIndexDeleteAcceptance_def rbind_eq_Inr
    by (auto split: option.splits if_split_asm)
  show ?thesis unfolding fenced_def
  proof
    fix db
    show "stmt db = (0, db) \<or> (\<exists>db'. stmt db = (1, db') \<and> index_write db db' \<and> revision_of db (dx_key s) = dx_revision s)"
      using index_write.Delete [of db "dx_key s"] by (auto simp: stmt split: option.splits)
  qed
qed

end
