(* ===== verification/R2_Store.thy ===== *)
theory R2_Store
  imports Delivery_Index Delivery_Files
begin

section \<open>The bucket, its calls and the effects of a handler\<close>

text \<open>
  What the handlers of \<open>apps/operations/src/worker/r2-crud.ts\<close> work on: the bucket of the Workers
  runtime with its conditional \<open>put\<close> and \<open>get\<close>, the delivery index, the recovery table, and a record
  of the calls made to other components. A handler is a function of the world that returns a value or
  a fault and the world after it. Each awaited call first gives other actors their turn
  (\<open>sv_turn\<close>), and then is served, refused, or served with its answer lost (\<open>sv_outcome\<close>); so a
  theorem over all services is one over all interleavings and failures.
\<close>

record r2_object =
  r2_key :: ustring
  r2_body :: "byte list"
  r2_etag :: ustring
  r2_version :: ustring
  r2_uploaded :: int
  r2_http :: "(ustring \<times> ustring) list"
  r2_meta :: "(ustring \<times> ustring) list"

definition http_etag :: "r2_object \<Rightarrow> ustring" where
  "http_etag obj = 34 # r2_etag obj @ [34]"

definition as_listed :: "r2_object \<Rightarrow> listed_object" where
  "as_listed obj = \<lparr>lo_key = r2_key obj, lo_size = int (length (r2_body obj)), lo_etag = r2_etag obj, lo_metadata = r2_meta obj\<rparr>"

definition moved_marker :: "r2_object \<Rightarrow> bool" where
  "moved_marker obj \<longleftrightarrow> isMovedSourceMarker (as_listed obj)"

definition meta :: "r2_object \<Rightarrow> string \<Rightarrow> ustring option" where
  "meta obj name = map_of (r2_meta obj) (ustr name)"

text \<open>\<open>{ ...a, ...b }\<close>.\<close>

definition spread :: "(ustring \<times> ustring) list \<Rightarrow> (ustring \<times> ustring) list \<Rightarrow> (ustring \<times> ustring) list" where
  "spread a b = b @ filter (\<lambda>(k, v). k \<notin> fst ` set b) a"

definition as_observed :: "r2_object \<Rightarrow> observed_object" where
  "as_observed obj = \<lparr>oo_key = r2_key obj, oo_version = r2_version obj, oo_http_etag = http_etag obj,
     oo_size = int (length (r2_body obj)), oo_uploaded = Some (r2_uploaded obj)\<rparr>"

record r2_page =
  rp_objects :: "r2_object list"
  rp_truncated :: bool
  rp_cursor :: "ustring option"

text \<open>Calls to the thumbnail component, the audit log and the workflow engine.\<close>

datatype effect =
    Enqueue_thumbnail ustring ustring nat
  | Remove_thumbnail ustring "ustring option"
  | Remove_thumbnails ustring
  | Audit string ustring
  | Start_workflow ustring ustring

record recovery_row =
  rr_id :: ustring
  rr_original_key :: ustring
  rr_recovery_key :: ustring
  rr_result_etag :: "ustring option"
  rr_created_at :: int
  rr_purge_after :: int

record world =
  w_bucket :: "ustring \<Rightarrow> r2_object option"
  w_index :: index_db
  w_locations :: "(ustring \<times> ustring) list"
  w_recovery :: "recovery_row list"
  w_suppressions :: "(ustring \<times> int) list"
  w_folders :: "(ustring option \<times> ustring) list"
  w_outbox :: "effect list"
  w_now :: int
  w_calls :: nat
  w_minted :: nat

datatype outcome = Served | Refused string | Lost string

text \<open>
  The services: text functions, the index runtime, entity tags and version identifiers that the bucket
  gives, fresh identifiers, listings, and the environment. \<open>sv_manifest\<close> reads the \<open>sourceKey\<close> of a
  JSON manifest, \<open>sv_rewrite\<close> replaces it; \<open>sv_artifacts\<close> is \<open>artifactDirectory\<close>; \<open>sv_eligible\<close> and
  \<open>sv_supported\<close> are the tests of the thumbnail component. \<open>sv_absent\<close> is what the bucket does with an
  undefined body: it stores some bytes, or throws. \<open>sv_fuel\<close> bounds the loops over pages.
\<close>

record 'w services =
  sv_paths :: path_runtime
  sv_index :: index_runtime
  sv_etag :: "byte list \<Rightarrow> ustring"
  sv_version :: "nat \<Rightarrow> ustring"
  sv_uuid :: "nat \<Rightarrow> ustring"
  sv_list :: "(ustring \<Rightarrow> r2_object option) \<Rightarrow> ustring \<Rightarrow> nat \<Rightarrow> ustring option \<Rightarrow> ustring option \<Rightarrow> r2_page"
  sv_manifest :: "byte list \<Rightarrow> ustring option"
  sv_rewrite :: "byte list \<Rightarrow> ustring \<Rightarrow> byte list"
  sv_artifacts :: "ustring \<Rightarrow> ustring"
  sv_eligible :: "ustring \<Rightarrow> nat \<Rightarrow> ustring option \<Rightarrow> bool"
  sv_supported :: "ustring \<Rightarrow> ustring \<Rightarrow> bool"
  sv_absent :: "byte list option"
  sv_recovery :: bool
  sv_fuel :: nat
  sv_turn :: "nat \<Rightarrow> 'w \<Rightarrow> 'w"
  sv_outcome :: "nat \<Rightarrow> outcome"

subsection \<open>Handlers\<close>

type_synonym ('w, 'a) io = "'w \<Rightarrow> (fault + 'a) \<times> 'w"

definition ret :: "'a \<Rightarrow> ('w, 'a) io" where
  "ret x w = (Inr x, w)"

definition raise :: "fault \<Rightarrow> ('w, 'a) io" where
  "raise f w = (Inl f, w)"

definition bind_io :: "('w, 'a) io \<Rightarrow> ('a \<Rightarrow> ('w, 'b) io) \<Rightarrow> ('w, 'b) io" where
  "bind_io m k w = (case m w of (Inl f, w') \<Rightarrow> (Inl f, w') | (Inr x, w') \<Rightarrow> k x w')"

definition catch_io :: "('w, 'a) io \<Rightarrow> (fault \<Rightarrow> ('w, 'a) io) \<Rightarrow> ('w, 'a) io" where
  "catch_io m h w = (case m w of (Inl f, w') \<Rightarrow> h f w' | (Inr x, w') \<Rightarrow> (Inr x, w'))"

definition lift :: "fault + 'a \<Rightarrow> ('w, 'a) io" where
  "lift r w = (r, w)"

fun for_each :: "'a list \<Rightarrow> ('a \<Rightarrow> ('w, unit) io) \<Rightarrow> ('w, unit) io" where
  "for_each [] body = ret ()"
| "for_each (x # xs) body = bind_io (body x) (\<lambda>_. for_each xs body)"

text \<open>An awaited call.\<close>

definition await ::
  "'x world_scheme services \<Rightarrow> ('x world_scheme \<Rightarrow> 'a \<times> 'x world_scheme) \<Rightarrow> ('x world_scheme, 'a) io" where
  "await sv call w =
     (let n = w_calls w; w1 = (sv_turn sv n w)\<lparr>w_calls := Suc n\<rparr> in
      case sv_outcome sv n of
        Served \<Rightarrow> (let (x, w2) = call w1 in (Inr x, w2))
      | Refused m \<Rightarrow> (Inl (Failed m), w1)
      | Lost m \<Rightarrow> (Inl (Failed m), snd (call w1)))"

text \<open>A call whose statement can itself fail to prepare.\<close>

definition await_prepared ::
  "'x world_scheme services \<Rightarrow> (fault + ('x world_scheme \<Rightarrow> 'a \<times> 'x world_scheme)) \<Rightarrow> ('x world_scheme, 'a) io" where
  "await_prepared sv prepared = bind_io (lift prepared) (\<lambda>call. await sv call)"

definition fresh :: "'x world_scheme services \<Rightarrow> ('x world_scheme, ustring) io" where
  "fresh sv w = (Inr (sv_uuid sv (w_minted w)), w\<lparr>w_minted := Suc (w_minted w)\<rparr>)"

subsection \<open>Bucket calls\<close>

datatype put_condition = Unconditional | Etag_matches ustring | If_match ustring | If_none_match

definition put_allowed :: "put_condition \<Rightarrow> r2_object option \<Rightarrow> bool" where
  "put_allowed cond current = (case cond of
     Unconditional \<Rightarrow> True
   | Etag_matches e \<Rightarrow> (case current of Some obj \<Rightarrow> r2_etag obj = e | None \<Rightarrow> False)
   | If_match h \<Rightarrow> (case current of Some obj \<Rightarrow> http_etag obj = h | None \<Rightarrow> False)
   | If_none_match \<Rightarrow> current = None)"

definition r2_head :: "ustring \<Rightarrow> 'x world_scheme \<Rightarrow> r2_object option \<times> 'x world_scheme" where
  "r2_head key w = (w_bucket w key, w)"

text \<open>A \<open>get\<close> whose condition fails answers the object without a body.\<close>

datatype got = Missing | No_body r2_object | Body r2_object

definition r2_get :: "ustring \<Rightarrow> put_condition \<Rightarrow> 'x world_scheme \<Rightarrow> got \<times> 'x world_scheme" where
  "r2_get key cond w = (case w_bucket w key of
     None \<Rightarrow> (Missing, w)
   | Some obj \<Rightarrow> (if put_allowed cond (Some obj) then Body obj else No_body obj, w))"

definition r2_put ::
  "'x world_scheme services \<Rightarrow> ustring \<Rightarrow> byte list \<Rightarrow> put_condition \<Rightarrow> (ustring \<times> ustring) list \<Rightarrow>
   (ustring \<times> ustring) list \<Rightarrow> 'x world_scheme \<Rightarrow> r2_object option \<times> 'x world_scheme" where
  "r2_put sv key body cond http custom w =
     (if put_allowed cond (w_bucket w key) then
        let obj = \<lparr>r2_key = key, r2_body = body, r2_etag = sv_etag sv body, r2_version = sv_version sv (w_minted w),
              r2_uploaded = w_now w * 1000, r2_http = http, r2_meta = custom\<rparr>
        in (Some obj, w\<lparr>w_bucket := (w_bucket w)(key \<mapsto> obj), w_minted := Suc (w_minted w)\<rparr>)
      else (None, w))"

definition r2_delete :: "ustring \<Rightarrow> 'x world_scheme \<Rightarrow> unit \<times> 'x world_scheme" where
  "r2_delete key w = ((), w\<lparr>w_bucket := (w_bucket w)(key := None)\<rparr>)"

definition r2_list ::
  "'x world_scheme services \<Rightarrow> ustring \<Rightarrow> nat \<Rightarrow> ustring option \<Rightarrow> ustring option \<Rightarrow> 'x world_scheme \<Rightarrow>
   r2_page \<times> 'x world_scheme" where
  "r2_list sv prefix limit cursor startAfter w = (sv_list sv (w_bucket w) prefix limit cursor startAfter, w)"

text \<open>\<open>cursor = page.truncated ? page.cursor : undefined\<close>, with \<open>while (cursor)\<close>.\<close>

definition page_cursor :: "r2_page \<Rightarrow> ustring option" where
  "page_cursor page = (if rp_truncated page then
     (case rp_cursor page of Some c \<Rightarrow> if c \<noteq> [] then Some c else None | None \<Rightarrow> None) else None)"

subsection \<open>Database calls\<close>

definition run_index :: "index_statement \<Rightarrow> 'x world_scheme \<Rightarrow> nat \<times> 'x world_scheme" where
  "run_index stmt w = (case stmt (w_index w) of (n, db) \<Rightarrow> (n, w\<lparr>w_index := db\<rparr>))"

definition insert_recovery :: "recovery_row \<Rightarrow> 'x world_scheme \<Rightarrow> unit \<times> 'x world_scheme" where
  "insert_recovery row w = ((), w\<lparr>w_recovery := w_recovery w @ [row]\<rparr>)"

definition delete_recovery :: "ustring \<Rightarrow> 'x world_scheme \<Rightarrow> unit \<times> 'x world_scheme" where
  "delete_recovery rid w = ((), w\<lparr>w_recovery := filter (\<lambda>r. rr_id r \<noteq> rid) (w_recovery w)\<rparr>)"

definition set_recovery_etag :: "ustring \<Rightarrow> ustring \<Rightarrow> bool \<Rightarrow> 'x world_scheme \<Rightarrow> unit \<times> 'x world_scheme" where
  "set_recovery_etag rid etag only_null w = ((), w\<lparr>w_recovery := map (\<lambda>r.
     if rr_id r = rid \<and> (only_null \<longrightarrow> rr_result_etag r = None) then r\<lparr>rr_result_etag := Some etag\<rparr> else r) (w_recovery w)\<rparr>)"

definition send :: "effect \<Rightarrow> 'x world_scheme \<Rightarrow> unit \<times> 'x world_scheme" where
  "send e w = ((), w\<lparr>w_outbox := w_outbox w @ [e]\<rparr>)"

definition seven_days :: int where
  "seven_days = 7 * 24 * 60 * 60"

subsection \<open>Rules\<close>

named_theorems io_simps \<open>unfolding of handlers\<close>

lemmas io_defs [io_simps] = ret_def raise_def bind_io_def catch_io_def lift_def

lemma bind_lift [simp]:
  "bind_io (lift (Inr x)) k = k x" "bind_io (lift (Inl f)) k = raise f"
  by (simp_all add: io_simps fun_eq_iff)

lemma bind_io_cases:
  "bind_io m k w = (r, w') \<longleftrightarrow>
     (\<exists>f. m w = (Inl f, w') \<and> r = Inl f) \<or> (\<exists>x w1. m w = (Inr x, w1) \<and> k x w1 = (r, w'))"
  by (auto simp: bind_io_def split: prod.splits sum.splits)

text \<open>An invariant of the world that every turn and every served call keeps holds after an awaited call.\<close>

definition keeps :: "('w \<Rightarrow> bool) \<Rightarrow> ('w, 'a) io \<Rightarrow> bool" where
  "keeps P m \<longleftrightarrow> (\<forall>w. P w \<longrightarrow> P (snd (m w)))"

lemma keepsD: "keeps P m \<Longrightarrow> P w \<Longrightarrow> m w = (r, w') \<Longrightarrow> P w'"
  unfolding keeps_def by (drule spec [of _ w]) simp

lemma keeps_snd: "keeps P m \<Longrightarrow> P w \<Longrightarrow> P (snd (m w))"
  by (simp add: keeps_def)

lemma keeps_ret [intro]: "keeps P (ret x)" "keeps P (raise f)" "keeps P (lift r)"
  by (simp_all add: keeps_def io_simps)

lemma keeps_bind [intro]: "keeps P m \<Longrightarrow> (\<And>x. keeps P (k x)) \<Longrightarrow> keeps P (bind_io m k)"
  unfolding keeps_def bind_io_def by (auto split: prod.splits sum.splits dest: spec)

lemma keeps_catch [intro]: "keeps P m \<Longrightarrow> (\<And>f. keeps P (h f)) \<Longrightarrow> keeps P (catch_io m h)"
  unfolding keeps_def catch_io_def by (auto split: prod.splits sum.splits dest: spec)

lemma keeps_for_each: "(\<And>x. x \<in> set xs \<Longrightarrow> keeps P (body x)) \<Longrightarrow> keeps P (for_each xs body)"
  by (induction xs) (auto intro!: keeps_bind)

text \<open>The counter of calls moves on.\<close>

definition tick :: "'x world_scheme services \<Rightarrow> 'x world_scheme \<Rightarrow> 'x world_scheme" where
  "tick sv w = (sv_turn sv (w_calls w) w)\<lparr>w_calls := Suc (w_calls w)\<rparr>"

lemma await_cases:
  "await sv call w = (case sv_outcome sv (w_calls w) of
     Served \<Rightarrow> (Inr (fst (call (tick sv w))), snd (call (tick sv w)))
   | Refused m \<Rightarrow> (Inl (Failed m), tick sv w)
   | Lost m \<Rightarrow> (Inl (Failed m), snd (call (tick sv w))))"
  by (simp add: await_def tick_def Let_def case_prod_beta split: outcome.split)

end
