(* ===== verification/R2_Hoare.thy ===== *)
theory R2_Hoare
  imports R2_Store
begin

section \<open>Triples over the bucket\<close>

text \<open>
  What a handler does to the stored objects when nobody else writes: pre- and postconditions over the
  bucket and the counter of fresh identifiers, one postcondition for a value and one for a fault. Other
  actors may change the databases and the clock, calls may be refused; no answer is lost.
\<close>

type_synonym storage = "(ustring \<Rightarrow> r2_object option) \<times> nat"

definition storage_of :: "'x world_scheme \<Rightarrow> storage" where
  "storage_of w = (w_bucket w, w_minted w)"

definition quiet :: "'x world_scheme services \<Rightarrow> bool" where
  "quiet sv \<longleftrightarrow> (\<forall>n w. storage_of (sv_turn sv n w) = storage_of w) \<and> (\<forall>n m. sv_outcome sv n \<noteq> Lost m)"

definition after ::
  "('a \<Rightarrow> storage \<Rightarrow> bool) \<Rightarrow> (storage \<Rightarrow> bool) \<Rightarrow> (fault + 'a) \<times> 'x world_scheme \<Rightarrow> bool" where
  "after Q E = (\<lambda>(r, w). case r of Inl f \<Rightarrow> E (storage_of w) | Inr x \<Rightarrow> Q x (storage_of w))"

lemma after_simps [simp]:
  "after Q E (Inl f, w) = E (storage_of w)" "after Q E (Inr x, w) = Q x (storage_of w)"
  by (simp_all add: after_def)

definition triple ::
  "(storage \<Rightarrow> bool) \<Rightarrow> ('x world_scheme, 'a) io \<Rightarrow> ('a \<Rightarrow> storage \<Rightarrow> bool) \<Rightarrow> (storage \<Rightarrow> bool) \<Rightarrow> bool" where
  "triple P m Q E \<longleftrightarrow> (\<forall>w. P (storage_of w) \<longrightarrow> after Q E (m w))"

lemma tripleI: "(\<And>w. P (storage_of w) \<Longrightarrow> after Q E (m w)) \<Longrightarrow> triple P m Q E"
  by (simp add: triple_def)

lemma tripleD: "triple P m Q E \<Longrightarrow> P (storage_of w) \<Longrightarrow> after Q E (m w)"
  by (simp add: triple_def)

subsection \<open>Rules\<close>

lemma triple_ret: "(\<And>s. P s \<Longrightarrow> Q x s) \<Longrightarrow> triple P (ret x) Q E"
  by (simp add: triple_def ret_def)

lemma triple_raise: "(\<And>s. P s \<Longrightarrow> E s) \<Longrightarrow> triple P (raise f) Q E"
  by (simp add: triple_def raise_def)

lemma triple_lift:
  "(\<And>s x. P s \<Longrightarrow> r = Inr x \<Longrightarrow> Q x s) \<Longrightarrow> (\<And>s f. P s \<Longrightarrow> r = Inl f \<Longrightarrow> E s) \<Longrightarrow> triple P (lift r) Q E"
  by (cases r) (auto simp: triple_def lift_def)

lemma triple_bind:
  assumes m: "triple P m R E" and k: "\<And>x. triple (R x) (k x) Q E"
  shows "triple P (bind_io m k) Q E"
proof (rule tripleI)
  fix w :: "'a world_scheme" assume P: "P (storage_of w)"
  obtain r w1 where r: "m w = (r, w1)" by (cases "m w")
  with tripleD [OF m P] show "after Q E (bind_io m k w)"
    by (cases r) (auto simp: bind_io_def intro: tripleD [OF k])
qed

lemma triple_catch:
  assumes m: "triple P m Q R" and h: "\<And>f. triple R (h f) Q E"
  shows "triple P (catch_io m h) Q E"
proof (rule tripleI)
  fix w :: "'a world_scheme" assume P: "P (storage_of w)"
  obtain r w1 where r: "m w = (r, w1)" by (cases "m w")
  with tripleD [OF m P] show "after Q E (catch_io m h w)"
    by (cases r) (auto simp: catch_io_def intro: tripleD [OF h])
qed

lemma after_mono: "after Q E x \<Longrightarrow> (\<And>v s. Q v s \<Longrightarrow> Q' v s) \<Longrightarrow> (\<And>s. E s \<Longrightarrow> E' s) \<Longrightarrow> after Q' E' x"
  by (auto simp: after_def split: prod.splits sum.splits)

lemma triple_conseq:
  assumes "triple P m Q E" and "\<And>s. P' s \<Longrightarrow> P s" and "\<And>x s. Q x s \<Longrightarrow> Q' x s" and "\<And>s. E s \<Longrightarrow> E' s"
  shows "triple P' m Q' E'"
proof (rule tripleI)
  fix w :: "'a world_scheme" assume "P' (storage_of w)"
  hence "after Q E (m w)" by (intro tripleD [OF assms(1)] assms(2))
  thus "after Q' E' (m w)" by (rule after_mono) (fact assms(3) assms(4))+
qed

lemma triple_fact: "(\<And>s. P s \<Longrightarrow> c) \<Longrightarrow> (c \<Longrightarrow> triple P m Q E) \<Longrightarrow> triple P m Q E"
  unfolding triple_def by blast

lemma storage_tick: "quiet sv \<Longrightarrow> storage_of (tick sv w) = storage_of w"
  by (simp add: quiet_def tick_def storage_of_def)

lemma triple_await:
  assumes "quiet sv" and "\<And>w. P (storage_of w) \<Longrightarrow> Q (fst (call w)) (storage_of (snd (call w)))" and "\<And>s. P s \<Longrightarrow> E s"
  shows "triple P (await sv call) Q E"
proof (rule tripleI)
  fix w :: "'a world_scheme" assume "P (storage_of w)"
  hence P: "P (storage_of (tick sv w))" by (simp add: storage_tick assms(1))
  show "after Q E (await sv call w)"
  proof (cases "sv_outcome sv (w_calls w)")
    case Served
    thus ?thesis using assms(2) [OF P] by (simp add: await_cases)
  next
    case (Refused m)
    thus ?thesis using assms(3) [OF P] by (simp add: await_cases)
  next
    case (Lost m)
    thus ?thesis using assms(1) unfolding quiet_def by blast
  qed
qed

lemma triple_fresh:
  "(\<And>b n. P (b, n) \<Longrightarrow> Q (sv_uuid sv n) (b, Suc n)) \<Longrightarrow> triple P (fresh sv) Q E"
  by (simp add: triple_def fresh_def storage_of_def)

subsection \<open>Handlers that only read the bucket\<close>

definition reads :: "('x world_scheme, 'a) io \<Rightarrow> bool" where
  "reads m \<longleftrightarrow> (\<forall>w. storage_of (snd (m w)) = storage_of w)"

named_theorems reading \<open>handlers and calls that leave the bucket alone\<close>

lemma reads_intro [reading]:
  "reads (ret x)" "reads (raise f)" "reads (lift r)"
  by (simp_all add: reads_def io_simps)

lemma readsD: "reads m \<Longrightarrow> m w = (r, w') \<Longrightarrow> storage_of w' = storage_of w"
  unfolding reads_def by (drule spec [of _ w]) simp

lemma reads_bind:
  assumes m: "reads m" and k: "\<And>x. reads (k x)"
  shows "reads (bind_io m k)"
  unfolding reads_def
proof
  fix w :: "'a world_scheme"
  obtain r w1 where r: "m w = (r, w1)" by (cases "m w")
  show "storage_of (snd (bind_io m k w)) = storage_of w"
    using readsD [OF m r] k by (cases r) (simp_all add: bind_io_def r reads_def)
qed

lemma reads_catch:
  assumes m: "reads m" and h: "\<And>f. reads (h f)"
  shows "reads (catch_io m h)"
  unfolding reads_def
proof
  fix w :: "'a world_scheme"
  obtain r w1 where r: "m w = (r, w1)" by (cases "m w")
  show "storage_of (snd (catch_io m h w)) = storage_of w"
    using readsD [OF m r] h by (cases r) (simp_all add: catch_io_def r reads_def)
qed

lemma reads_await: "quiet sv \<Longrightarrow> (\<And>w. storage_of (snd (call w)) = storage_of w) \<Longrightarrow> reads (await sv call)"
  by (simp add: reads_def await_cases storage_tick split: outcome.split)

lemma triple_reads:
  assumes m: "reads m" and E: "\<And>s. P s \<Longrightarrow> E s"
  shows "triple P m (\<lambda>_. P) E"
proof (rule tripleI)
  fix w :: "'a world_scheme" assume P: "P (storage_of w)"
  obtain r w1 where r: "m w = (r, w1)" by (cases "m w")
  show "after (\<lambda>_. P) E (m w)"
    using P E readsD [OF m r] by (cases r) (simp_all add: r)
qed

lemma storage_calls [reading, simp]:
  "storage_of (snd (send e w)) = storage_of w"
  "storage_of (snd (r2_head k w)) = storage_of w"
  "storage_of (snd (r2_get k c w)) = storage_of w"
  "storage_of (snd (r2_list sv p l cur st w)) = storage_of w"
  "storage_of (snd (run_index stmt w)) = storage_of w"
  "storage_of (snd (insert_recovery row w)) = storage_of w"
  "storage_of (snd (delete_recovery rid w)) = storage_of w"
  "storage_of (snd (set_recovery_etag rid et b w)) = storage_of w"
  by (simp_all add: storage_of_def send_def r2_head_def r2_get_def r2_list_def run_index_def insert_recovery_def
      delete_recovery_def set_recovery_etag_def split: option.splits prod.splits)

subsection \<open>Rules of the bucket calls\<close>

lemma triple_head:
  assumes "quiet sv" and "\<And>b n. P (b, n) \<Longrightarrow> Q (b key) (b, n)" and "\<And>s. P s \<Longrightarrow> E s"
  shows "triple P (await sv (r2_head key)) Q E"
proof (rule triple_await [OF assms(1)])
  fix w :: "'a world_scheme" assume "P (storage_of w)"
  thus "Q (fst (r2_head key w)) (storage_of (snd (r2_head key w)))"
    using assms(2) by (simp add: r2_head_def storage_of_def)
qed (rule assms(3))

definition got_of :: "put_condition \<Rightarrow> r2_object option \<Rightarrow> got" where
  "got_of cond current = (case current of None \<Rightarrow> Missing
     | Some obj \<Rightarrow> if put_allowed cond (Some obj) then Body obj else No_body obj)"

lemma r2_get_got: "r2_get key cond w = (got_of cond (w_bucket w key), w)"
  by (simp add: r2_get_def got_of_def split: option.split)

lemma triple_get:
  assumes "quiet sv" and "\<And>b n. P (b, n) \<Longrightarrow> Q (got_of cond (b key)) (b, n)" and "\<And>s. P s \<Longrightarrow> E s"
  shows "triple P (await sv (r2_get key cond)) Q E"
proof (rule triple_await [OF assms(1)])
  fix w :: "'a world_scheme" assume "P (storage_of w)"
  thus "Q (fst (r2_get key cond w)) (storage_of (snd (r2_get key cond w)))"
    using assms(2) by (simp add: r2_get_got storage_of_def)
qed (rule assms(3))

text \<open>The object that a put leaves at its key, up to version and time.\<close>

definition stored_as :: "'w services \<Rightarrow> ustring \<Rightarrow> byte list \<Rightarrow> (ustring \<times> ustring) list \<Rightarrow> r2_object \<Rightarrow> bool" where
  "stored_as sv key body custom obj \<longleftrightarrow>
     r2_key obj = key \<and> r2_body obj = body \<and> r2_etag obj = sv_etag sv body \<and> r2_meta obj = custom"

lemma triple_put:
  assumes "quiet sv"
    and "\<And>b n obj. P (b, n) \<Longrightarrow> put_allowed cond (b key) \<Longrightarrow> stored_as sv key body custom obj \<Longrightarrow>
           Q (Some obj) (b(key \<mapsto> obj), Suc n)"
    and "\<And>b n. P (b, n) \<Longrightarrow> \<not> put_allowed cond (b key) \<Longrightarrow> Q None (b, n)"
    and "\<And>s. P s \<Longrightarrow> E s"
  shows "triple P (await sv (r2_put sv key body cond http custom)) Q E"
proof (rule triple_await [OF assms(1)])
  fix w :: "'a world_scheme" assume "P (storage_of w)"
  hence P: "P (w_bucket w, w_minted w)" by (simp add: storage_of_def)
  show "Q (fst (r2_put sv key body cond http custom w)) (storage_of (snd (r2_put sv key body cond http custom w)))"
  proof (cases "put_allowed cond (w_bucket w key)")
    case True
    define obj where "obj = \<lparr>r2_key = key, r2_body = body, r2_etag = sv_etag sv body, r2_version = sv_version sv (w_minted w),
      r2_uploaded = w_now w * 1000, r2_http = http, r2_meta = custom\<rparr>"
    have put: "r2_put sv key body cond http custom w =
        (Some obj, w\<lparr>w_bucket := (w_bucket w)(key \<mapsto> obj), w_minted := Suc (w_minted w)\<rparr>)"
      using True by (simp add: r2_put_def obj_def Let_def)
    have "stored_as sv key body custom obj" by (simp add: stored_as_def obj_def)
    thus ?thesis using assms(2) [OF P True] by (simp add: put storage_of_def)
  next
    case False
    show ?thesis using assms(3) [OF P False] False by (simp add: r2_put_def storage_of_def)
  qed
qed (rule assms(4))

lemma triple_delete:
  assumes "quiet sv" and "\<And>b n. P (b, n) \<Longrightarrow> Q () (b(key := None), n)" and "\<And>s. P s \<Longrightarrow> E s"
  shows "triple P (await sv (r2_delete key)) Q E"
proof (rule triple_await [OF assms(1)])
  fix w :: "'a world_scheme" assume "P (storage_of w)"
  thus "Q (fst (r2_delete key w)) (storage_of (snd (r2_delete key w)))"
    using assms(2) by (simp add: r2_delete_def storage_of_def)
qed (rule assms(3))

lemma triple_run:
  assumes "triple P m Q E" and "P (storage_of w)" and "m w = (r, w')"
  shows "case r of Inr x \<Rightarrow> Q x (storage_of w') | Inl f \<Rightarrow> E (storage_of w')"
  using tripleD [OF assms(1,2)] assms(3) by (simp add: after_def)

end
