(* ===== verification/R2_Copy.thy ===== *)
theory R2_Copy
  imports R2_Store
begin

section \<open>Copying an object\<close>

text \<open>
  \<open>targetName\<close>, \<open>targetFolderName\<close>, \<open>repairProviderAwareFileIndex\<close> and \<open>copyObject\<close> of
  \<open>apps/operations/src/worker/r2-crud.ts\<close>, call by call. A copy is published with a conditional put:
  on an absent destination, or over the very version that was read, after that version was saved.
\<close>

datatype ConflictPolicy = Fail | Skip | Replace | Rename

text \<open>\<open>policy\<close>: the argument is absent or a string, else it is invalid.\<close>

definition policy :: "loose \<Rightarrow> fault + ConflictPolicy" where
  "policy v = (case v of
     Absent \<Rightarrow> Inr Fail
   | Other \<Rightarrow> Inl (Http 400 ''Invalid conflict policy'')
   | Text s \<Rightarrow> if s = ustr ''fail'' then Inr Fail else if s = ustr ''skip'' then Inr Skip
       else if s = ustr ''replace'' then Inr Replace else if s = ustr ''rename'' then Inr Rename
       else Inl (Http 400 ''Invalid conflict policy''))"

definition prefixFor :: "ustring \<Rightarrow> ustring" where
  "prefixFor key = (if ends_with key [47] then key else key @ [47])"

text \<open>\<open>lastIndexOf\<close>: what follows the last \<open>c\<close>, and what ends with it.\<close>

definition after_last :: "nat \<Rightarrow> ustring \<Rightarrow> ustring" where
  "after_last c s = rev (takeWhile (\<lambda>x. x \<noteq> c) (rev s))"

definition until_last :: "nat \<Rightarrow> ustring \<Rightarrow> ustring" where
  "until_last c s = rev (dropWhile (\<lambda>x. x \<noteq> c) (rev s))"

definition leaf :: "ustring \<Rightarrow> ustring" where
  "leaf key = (let l = after_last 47 (strip_one key) in if l = [] then ustr ''item'' else l)"

subsection \<open>What a prefix holds\<close>

text \<open>One page: \<open>None\<close> when a visible object was met, else whether markers were seen.\<close>

fun scan_objects :: "r2_object list \<Rightarrow> bool \<Rightarrow> bool option \<times> bool" where
  "scan_objects [] markers = (Some markers, markers)"
| "scan_objects (obj # rest) markers =
     (if ends_with (r2_key obj) [47] then scan_objects rest markers
      else if moved_marker obj then scan_objects rest True
      else (None, markers))"

fun prefix_pages ::
  "'x world_scheme services \<Rightarrow> ustring \<Rightarrow> nat \<Rightarrow> ustring option \<Rightarrow> bool \<Rightarrow> ('x world_scheme, bool \<times> bool) io" where
  "prefix_pages sv prefix 0 cursor markers = raise (Failed ''fuel'')"
| "prefix_pages sv prefix (Suc n) cursor markers =
     bind_io (await sv (r2_list sv prefix 1000 cursor None)) (\<lambda>page.
     case scan_objects (rp_objects page) markers of
       (None, markers) \<Rightarrow> ret (True, markers)
     | (Some markers, _) \<Rightarrow>
         (case page_cursor page of
            None \<Rightarrow> ret (False, markers)
          | Some c \<Rightarrow> prefix_pages sv prefix n (Some c) markers))"

definition prefixObjectState :: "'x world_scheme services \<Rightarrow> ustring \<Rightarrow> ('x world_scheme, bool \<times> bool) io" where
  "prefixObjectState sv prefix = prefix_pages sv prefix (sv_fuel sv) None False"

definition ensureSource :: "'x world_scheme services \<Rightarrow> ustring \<Rightarrow> bool \<Rightarrow> ('x world_scheme, bool) io" where
  "ensureSource sv key allowMoveMarker =
     bind_io (if ends_with key [47] then ret None else await sv (r2_head key)) (\<lambda>obj.
     if (case obj of None \<Rightarrow> False | Some x \<Rightarrow> \<not> moved_marker x \<or> allowMoveMarker) then ret False
     else
       bind_io (prefixObjectState sv (prefixFor key)) (\<lambda>(visible, markers).
       if \<not> visible \<and> \<not> (allowMoveMarker \<and> markers) then raise (Http 404 ''Source object or folder not found'')
       else ret True))"

subsection \<open>Names\<close>

definition matchingCrudPublication :: "r2_object option \<Rightarrow> ustring option \<Rightarrow> ustring \<Rightarrow> bool" where
  "matchingCrudPublication obj operationId sourceEtag =
     (case (obj, operationId) of
        (Some x, Some op) \<Rightarrow> op \<noteq> [] \<and> meta x ''ltdsCrudOperationId'' = Some op \<and> meta x ''ltdsCrudSourceEtag'' = Some sourceEtag
      | _ \<Rightarrow> False)"

definition numbered_name :: "ustring \<Rightarrow> nat \<Rightarrow> ustring" where
  "numbered_name target i =
     (let parent = until_last 47 target; name = after_last 47 target;
          extension = (if 46 \<in> set name then 46 # after_last 46 name else []);
          stem = take (length name - length extension) name
      in parent @ stem @ ustr '' ('' @ decimal i @ ustr '')'' @ extension)"

fun free_name ::
  "'x world_scheme services \<Rightarrow> ustring \<Rightarrow> ustring option \<Rightarrow> ustring \<Rightarrow> nat list \<Rightarrow> ('x world_scheme, ustring option) io" where
  "free_name sv target operationId sourceEtag [] =
     raise (Http 409 ''Could not find an available destination name'')"
| "free_name sv target operationId sourceEtag (i # rest) =
     (let candidate = numbered_name target i in
      bind_io (await sv (r2_head candidate)) (\<lambda>obj.
      if matchingCrudPublication obj operationId sourceEtag \<or> obj = None then ret (Some candidate)
      else free_name sv target operationId sourceEtag rest))"

definition targetName ::
  "'x world_scheme services \<Rightarrow> ustring \<Rightarrow> ConflictPolicy \<Rightarrow> ustring option \<Rightarrow> ustring \<Rightarrow> ('x world_scheme, ustring option) io" where
  "targetName sv target conflict operationId sourceEtag =
     bind_io (await sv (r2_head target)) (\<lambda>existing.
     if matchingCrudPublication existing operationId sourceEtag then ret (Some target)
     else case existing of
       None \<Rightarrow> ret (Some target)
     | Some obj \<Rightarrow>
         if moved_marker obj then ret (Some target)
         else case conflict of
           Skip \<Rightarrow> ret None
         | Fail \<Rightarrow> raise (Http 409 ''The destination already exists'')
         | Replace \<Rightarrow> ret (Some target)
         | Rename \<Rightarrow> free_name sv target operationId sourceEtag [2..<1002])"

definition folder_taken :: "'x world_scheme services \<Rightarrow> ustring \<Rightarrow> ustring \<Rightarrow> ('x world_scheme, bool) io" where
  "folder_taken sv key prefix =
     bind_io (await sv (r2_head key)) (\<lambda>head.
     bind_io (prefixObjectState sv prefix) (\<lambda>(visible, markers).
     ret ((case head of None \<Rightarrow> False | Some obj \<Rightarrow> \<not> moved_marker obj) \<or> visible)))"

fun free_folder ::
  "'x world_scheme services \<Rightarrow> ustring \<Rightarrow> ustring \<Rightarrow> nat list \<Rightarrow> ('x world_scheme, ustring option) io" where
  "free_folder sv parent name [] = raise (Http 409 ''Could not find an available destination folder name'')"
| "free_folder sv parent name (i # rest) =
     (let candidate = parent @ name @ ustr '' ('' @ decimal i @ ustr '')/'' in
      bind_io (folder_taken sv candidate candidate) (\<lambda>found.
      if \<not> found then ret (Some candidate) else free_folder sv parent name rest))"

definition targetFolderName ::
  "'x world_scheme services \<Rightarrow> ustring \<Rightarrow> ConflictPolicy \<Rightarrow> ('x world_scheme, ustring option) io" where
  "targetFolderName sv target conflict =
     bind_io (folder_taken sv target (prefixFor target)) (\<lambda>exists.
     if \<not> exists then ret (Some (prefixFor target))
     else case conflict of
       Skip \<Rightarrow> ret None
     | Fail \<Rightarrow> raise (Http 409 ''The destination already exists'')
     | Replace \<Rightarrow> ret (Some (prefixFor target))
     | Rename \<Rightarrow>
         let clean = strip_one target in
         free_folder sv (until_last 47 clean) (after_last 47 clean) [2..<1002])"

subsection \<open>Repair of the index\<close>

definition read_observation :: "ustring \<Rightarrow> 'x world_scheme \<Rightarrow> (fault + DeliveryIndexObservation) \<times> 'x world_scheme" where
  "read_observation key w = (readDeliveryIndexObservation (w_index w) key, w)"

definition observe :: "'x world_scheme services \<Rightarrow> ustring \<Rightarrow> ('x world_scheme, DeliveryIndexObservation) io" where
  "observe sv key = bind_io (lift (validKey key)) (\<lambda>_. bind_io (await sv (read_observation key)) lift)"

text \<open>The statement is prepared with the current time of the database.\<close>

definition run_repair ::
  "'x world_scheme services \<Rightarrow> DeliveryIndexObservation \<Rightarrow> r2_object \<Rightarrow> stream_state option \<Rightarrow> ('x world_scheme, nat) io" where
  "run_repair sv snapshot current stream =
     await_prepared sv
       (rbind (validateObserved (sv_index sv) snapshot (as_observed current) stream) (\<lambda>_.
        Inr (\<lambda>w. case prepareDeliveryIndexRepair (sv_index sv) (w_now w) snapshot (as_observed current) stream of
            Inl f \<Rightarrow> (0, w)
          | Inr stmt \<Rightarrow> run_index stmt w)))"

fun repair_attempts ::
  "'x world_scheme services \<Rightarrow> r2_object \<Rightarrow> stream_state option \<Rightarrow> nat \<Rightarrow> ('x world_scheme, r2_object) io" where
  "repair_attempts sv expected stream 0 = raise (Failed ''delivery-index-repair-raced'')"
| "repair_attempts sv expected stream (Suc n) =
     bind_io (observe sv (r2_key expected)) (\<lambda>snapshot.
     bind_io (await sv (r2_head (r2_key expected))) (\<lambda>current.
     case current of
       None \<Rightarrow> raise (Failed ''delivery-index-repair-object-replaced'')
     | Some obj \<Rightarrow>
         if r2_version obj \<noteq> r2_version expected then raise (Failed ''delivery-index-repair-object-replaced'')
         else
           bind_io (run_repair sv snapshot obj stream) (\<lambda>_.
           bind_io (observe sv (r2_key expected)) (\<lambda>confirmed.
           if (case dx_current confirmed of None \<Rightarrow> False
             | Some c \<Rightarrow> ic_provider c = Some (r2_version obj) \<and> ic_etag c = http_etag obj \<and>
                 ic_size c = int (length (r2_body obj)) \<and>
                 deliveryIndexStoredUtcTime (sv_index sv) (ic_uploaded c) = Some (r2_uploaded obj))
           then ret obj else repair_attempts sv expected stream n))))"

definition repairProviderAwareFileIndex ::
  "'x world_scheme services \<Rightarrow> r2_object \<Rightarrow> stream_state option \<Rightarrow> ('x world_scheme, r2_object) io" where
  "repairProviderAwareFileIndex sv expected stream = repair_attempts sv expected stream 2"

text \<open>The write of the index without provider identity: insert, or update on conflict.\<close>

definition legacy_upsert ::
  "ustring \<Rightarrow> index_row \<Rightarrow> (index_row \<Rightarrow> index_row) \<Rightarrow> 'x world_scheme \<Rightarrow> unit \<times> 'x world_scheme" where
  "legacy_upsert key inserted change w =
     ((), w\<lparr>w_index := (case ix_rows (w_index w) key of
        None \<Rightarrow> insert_row key (inserted\<lparr>ir_updated := w_now w\<rparr>) (w_index w)
      | Some r \<Rightarrow> update_row key r ((change r)\<lparr>ir_updated := w_now w\<rparr>) (w_index w))\<rparr>)"

subsection \<open>\<open>copyObject\<close>\<close>

record CopiedObject =
  co_target :: "ustring option"
  co_skipped :: bool
  co_sourceEtag :: ustring
  co_sourceProviderVersion :: "ustring option"
  co_retiredMarkerVersion :: "ustring option"
  co_alreadyRetired :: bool

definition skipped_copy :: "ustring \<Rightarrow> CopiedObject" where
  "skipped_copy sourceEtag = \<lparr>co_target = None, co_skipped = True, co_sourceEtag = sourceEtag,
     co_sourceProviderVersion = None, co_retiredMarkerVersion = None, co_alreadyRetired = False\<rparr>"

text \<open>The source is a marker: the move was finished before, or the source is gone.\<close>

definition copy_from_marker ::
  "'x world_scheme services \<Rightarrow> ustring \<Rightarrow> ustring \<Rightarrow> bool \<Rightarrow> r2_object \<Rightarrow> ('x world_scheme, CopiedObject) io" where
  "copy_from_marker sv source target moving sourceHead =
     (let priorEtag = meta sourceHead ''ltdsMovedSourceEtag'';
          priorTarget = meta sourceHead ''ltdsMoveTargetKey'' in
      bind_io (if priorTarget = Some target then await sv (r2_head target) else ret None) (\<lambda>priorCopy.
      case (priorEtag, priorCopy) of
        (Some e, Some obj) \<Rightarrow>
          if moving \<and> e \<noteq> [] \<and> meta obj ''ltdsMoveSourceKey'' = Some source \<and> meta obj ''ltdsMoveSourceEtag'' = Some e
          then ret \<lparr>co_target = Some target, co_skipped = False, co_sourceEtag = e,
            co_sourceProviderVersion = meta sourceHead ''ltdsMovedSourceProviderVersion'',
            co_retiredMarkerVersion = Some (r2_version sourceHead), co_alreadyRetired = True\<rparr>
          else raise (Failed ''source-moved'')
      | _ \<Rightarrow> raise (Failed ''source-moved'')))"

text \<open>Where the copy goes and what is there: \<open>None\<close> when the copy is skipped.\<close>

definition choose_destination ::
  "'x world_scheme services \<Rightarrow> ustring \<Rightarrow> ConflictPolicy \<Rightarrow> ustring option \<Rightarrow> ustring \<Rightarrow> ustring \<Rightarrow> r2_object option \<Rightarrow>
   ('x world_scheme, (ustring \<times> r2_object option) option) io" where
  "choose_destination sv target conflict operationId sourceEtag resolved resumedCopy =
     bind_io (case resumedCopy of Some obj \<Rightarrow> ret (Some obj) | None \<Rightarrow> await sv (r2_head resolved)) (\<lambda>destination.
     if resumedCopy = None \<and> (case destination of None \<Rightarrow> False | Some obj \<Rightarrow> \<not> moved_marker obj) \<and> conflict \<noteq> Replace
     then
       (case conflict of
          Skip \<Rightarrow> ret None
        | Fail \<Rightarrow> raise (Http 409 ''The destination changed before publication'')
        | _ \<Rightarrow>
            bind_io (targetName sv target Rename operationId sourceEtag) (\<lambda>renamed.
            let resolved = the renamed in
            bind_io (await sv (r2_head resolved)) (\<lambda>destination.
            if (case destination of None \<Rightarrow> False | Some obj \<Rightarrow> \<not> moved_marker obj)
            then raise (Http 409 ''The renamed destination changed before publication'')
            else ret (Some (resolved, destination)))))
     else ret (Some (resolved, destination)))"

definition recovery_key :: "ustring \<Rightarrow> ustring \<Rightarrow> ustring" where
  "recovery_key rid resolved = ustr ''Jobs/Clients/_ltds/replacements/'' @ rid @ [47] @ leaf resolved"

definition recovery_row_of :: "ustring \<Rightarrow> ustring \<Rightarrow> ustring \<Rightarrow> int \<Rightarrow> recovery_row" where
  "recovery_row_of rid original key now = \<lparr>rr_id = rid, rr_original_key = original, rr_recovery_key = key,
     rr_result_etag = None, rr_created_at = now, rr_purge_after = now + seven_days\<rparr>"

text \<open>A body handed to \<open>put\<close>: an undefined one is stored as the bucket likes, or refused.\<close>

definition put_got ::
  "'x world_scheme services \<Rightarrow> ustring \<Rightarrow> byte list option \<Rightarrow> r2_object \<Rightarrow> ('x world_scheme, r2_object option) io" where
  "put_got sv key body existing = (case body of
     None \<Rightarrow> raise (Failed ''undefined body'')
   | Some bytes \<Rightarrow> await sv (r2_put sv key bytes Unconditional (r2_http existing) (r2_meta existing)))"

definition save_existing ::
  "'x world_scheme services \<Rightarrow> ustring \<Rightarrow> byte list option \<Rightarrow> r2_object \<Rightarrow> ('x world_scheme, ustring \<times> ustring) io" where
  "save_existing sv resolved body existing =
     bind_io (fresh sv) (\<lambda>rid.
     let key = recovery_key rid resolved in
     bind_io (put_got sv key body existing) (\<lambda>_.
     catch_io
       (bind_io (await sv (\<lambda>w. insert_recovery (recovery_row_of rid resolved key (w_now w)) w)) (\<lambda>_. ret (rid, key)))
       (\<lambda>f. bind_io (await sv (r2_delete key)) (\<lambda>_. raise f))))"

text \<open>The version to replace and the recovery of what is there.\<close>

definition save_replaced ::
  "'x world_scheme services \<Rightarrow> ConflictPolicy \<Rightarrow> bool \<Rightarrow> ustring \<Rightarrow> r2_object option \<Rightarrow> r2_object option \<Rightarrow>
   ('x world_scheme, ustring option \<times> (ustring \<times> ustring) option) io" where
  "save_replaced sv conflict allowRecovery resolved resumedCopy destination =
     (if conflict = Replace \<and> resumedCopy = None \<and> \<not> (case destination of None \<Rightarrow> False | Some obj \<Rightarrow> moved_marker obj)
      then
        bind_io (await sv (r2_get resolved (case destination of None \<Rightarrow> Unconditional | Some obj \<Rightarrow> Etag_matches (r2_etag obj))))
          (\<lambda>existing.
           case existing of
             Missing \<Rightarrow> ret (None, None)
           | No_body obj \<Rightarrow>
               if allowRecovery
               then bind_io (save_existing sv resolved (sv_absent sv) obj) (\<lambda>r. ret (Some (http_etag obj), Some r))
               else ret (Some (http_etag obj), None)
           | Body obj \<Rightarrow>
               if allowRecovery
               then bind_io (save_existing sv resolved (Some (r2_body obj)) obj) (\<lambda>r. ret (Some (http_etag obj), Some r))
               else ret (Some (http_etag obj), None))
      else ret (map_option http_etag destination, None))"

text \<open>\<open>source.includes(part)\<close>.\<close>

fun contains_text :: "ustring \<Rightarrow> ustring \<Rightarrow> bool" where
  "contains_text [] part = (part = [])"
| "contains_text (c # s) part = (starts_with (c # s) part \<or> contains_text s part)"

text \<open>A manifest of previews has its \<open>sourceKey\<close> moved along.\<close>

definition copied_content ::
  "'x world_scheme services \<Rightarrow> (ustring \<times> ustring) option \<Rightarrow> ustring \<Rightarrow> r2_object \<Rightarrow> byte list \<times> (ustring \<times> ustring) list" where
  "copied_content sv roots source obj =
     (case roots of
        Some (sourceRoot, targetRoot) \<Rightarrow>
          if ends_with source (ustr ''/manifest.json'') \<and> contains_text source (ustr ''/.previews/'')
          then (case sv_manifest sv (r2_body obj) of
              Some key \<Rightarrow>
                if starts_with key sourceRoot
                then (sv_rewrite sv (r2_body obj) (targetRoot @ drop (length sourceRoot) key),
                      spread (r2_http obj) [(ustr ''contentType'', ustr ''application/json'')])
                else (r2_body obj, r2_http obj)
            | None \<Rightarrow> (r2_body obj, r2_http obj))
          else (r2_body obj, r2_http obj)
      | None \<Rightarrow> (r2_body obj, r2_http obj))"

definition destination_metadata ::
  "r2_object \<Rightarrow> (ustring \<times> ustring) option \<Rightarrow> ustring option \<Rightarrow> bool \<Rightarrow> ustring \<Rightarrow> ustring \<Rightarrow> (ustring \<times> ustring) list" where
  "destination_metadata sourceObject recovery operationId moving source sourceEtag =
     spread (spread (spread (r2_meta sourceObject)
       (case recovery of Some (rid, k) \<Rightarrow> [(ustr ''replacementRecoveryId'', rid)] | None \<Rightarrow> []))
       (case operationId of
          Some op \<Rightarrow> if op \<noteq> [] then [(ustr ''ltdsCrudOperationId'', op), (ustr ''ltdsCrudSourceEtag'', sourceEtag)] else []
        | None \<Rightarrow> []))
       (if moving then [(ustr ''ltdsMoveSourceKey'', source), (ustr ''ltdsMoveSourceEtag'', sourceEtag)] else [])"

text \<open>The publication; on a failure before it the recovery copy is dropped again.\<close>

definition publish_copy ::
  "'x world_scheme services \<Rightarrow> ustring \<Rightarrow> byte list \<Rightarrow> ustring option \<Rightarrow> (ustring \<times> ustring) list \<Rightarrow>
   (ustring \<times> ustring) list \<Rightarrow> r2_object option \<Rightarrow> (ustring \<times> ustring) option \<Rightarrow> ('x world_scheme, r2_object) io" where
  "publish_copy sv resolved body baseline http custom resumedCopy recovery =
     bind_io
       (catch_io
         (bind_io (case resumedCopy of
              Some obj \<Rightarrow> ret (Some obj)
            | None \<Rightarrow> await sv (r2_put sv resolved body
                (case baseline of Some h \<Rightarrow> If_match h | None \<Rightarrow> If_none_match) http custom)) (\<lambda>written.
          case written of
            None \<Rightarrow> raise (Http 409 ''The replacement destination changed before publication'')
          | Some obj \<Rightarrow> ret obj))
         (\<lambda>f. case recovery of
            None \<Rightarrow> raise f
          | Some (rid, key) \<Rightarrow>
              bind_io (await sv (r2_delete key)) (\<lambda>_.
              bind_io (await sv (delete_recovery rid)) (\<lambda>_. raise f))))
       (\<lambda>written.
        case (case recovery of Some (rid, key) \<Rightarrow> Some rid | None \<Rightarrow> meta written ''replacementRecoveryId'') of
          None \<Rightarrow> ret written
        | Some rid \<Rightarrow>
            if rid = [] then ret written
            else bind_io (await sv (set_recovery_etag rid (http_etag written) False)) (\<lambda>_. ret written))"

definition content_type_of :: "r2_object \<Rightarrow> ustring option" where
  "content_type_of obj = (case map_of (r2_http obj) (ustr ''contentType'') of
     Some t \<Rightarrow> if t \<noteq> [] then Some t else None | None \<Rightarrow> None)"

text \<open>The index row of the source moves to the copy, and a thumbnail is asked for; its failure is logged.\<close>

definition index_copy ::
  "'x world_scheme services \<Rightarrow> index_row option \<Rightarrow> ustring \<Rightarrow> r2_object \<Rightarrow> ('x world_scheme, unit) io" where
  "index_copy sv indexed resolved written =
     (case indexed of
        None \<Rightarrow> ret ()
      | Some row \<Rightarrow>
          bind_io
            (if sv_recovery sv
             then repairProviderAwareFileIndex sv written
               (Some \<lparr>ss_uid = ir_stream_uid row, ss_status = ir_stream_status row, ss_error = ir_stream_error row,
                  ss_url = None, ss_offset = None\<rparr>)
             else
               let change = (\<lambda>r. r
                \<lparr>ir_etag := http_etag written, ir_size := int (length (r2_body written)),
                 ir_uploaded := xr_iso (sv_index sv) (r2_uploaded written), ir_type := ir_type row, ir_kind := ir_kind row,
                 ir_stream_uid := ir_stream_uid row, ir_stream_status := ir_stream_status row,
                 ir_stream_error := ir_stream_error row\<rparr>) in
               bind_io (await sv (legacy_upsert resolved (change empty_row) change)) (\<lambda>_. ret written))
            (\<lambda>obj.
             let contentType = (case content_type_of obj of Some t \<Rightarrow> Some t
                  | None \<Rightarrow> (case ir_type row of Some t \<Rightarrow> if t \<noteq> [] then Some t else None | None \<Rightarrow> None)) in
             if sv_eligible sv resolved (length (r2_body obj)) contentType
             then catch_io (await sv (send (Enqueue_thumbnail resolved (http_etag obj) (length (r2_body obj))))) (\<lambda>_. ret ())
             else ret ()))"

definition index_lookup :: "ustring \<Rightarrow> 'x world_scheme \<Rightarrow> index_row option \<times> 'x world_scheme" where
  "index_lookup key w = (ix_rows (w_index w) key, w)"

definition resumed_copy ::
  "r2_object option \<Rightarrow> ustring option \<Rightarrow> ustring \<Rightarrow> bool \<Rightarrow> ustring \<Rightarrow> r2_object option" where
  "resumed_copy priorCopy operationId sourceEtag moving source =
     (if matchingCrudPublication priorCopy operationId sourceEtag \<or>
       (moving \<and> (case priorCopy of None \<Rightarrow> False
         | Some obj \<Rightarrow> meta obj ''ltdsMoveSourceKey'' = Some source \<and> meta obj ''ltdsMoveSourceEtag'' = Some sourceEtag))
      then priorCopy else None)"

text \<open>Everything after the destination name is known.\<close>

definition copy_to ::
  "'x world_scheme services \<Rightarrow> ustring \<Rightarrow> ustring \<Rightarrow> ConflictPolicy \<Rightarrow> (ustring \<times> ustring) option \<Rightarrow> bool \<Rightarrow> bool \<Rightarrow>
   ustring option \<Rightarrow> r2_object \<Rightarrow> ustring \<Rightarrow> ustring \<Rightarrow> ('x world_scheme, CopiedObject) io" where
  "copy_to sv source target conflict roots allowRecovery moving operationId sourceHead sourceEtag resolved =
     bind_io (await sv (r2_head resolved)) (\<lambda>priorCopy.
     let resumedCopy = resumed_copy priorCopy operationId sourceEtag moving source in
     bind_io (await sv (index_lookup source)) (\<lambda>indexed.
     bind_io (await sv (r2_get source (Etag_matches (r2_etag sourceHead)))) (\<lambda>sourceObject.
     case sourceObject of
       Body obj \<Rightarrow>
         bind_io (choose_destination sv target conflict operationId sourceEtag resolved resumedCopy) (\<lambda>chosen.
         case chosen of
           None \<Rightarrow> ret (skipped_copy sourceEtag)
         | Some (resolved, destination) \<Rightarrow>
             bind_io (save_replaced sv conflict allowRecovery resolved resumedCopy destination) (\<lambda>(baseline, recovery).
             let (body, http) = copied_content sv roots source obj in
             bind_io (publish_copy sv resolved body baseline http
               (destination_metadata obj recovery operationId moving source sourceEtag) resumedCopy recovery) (\<lambda>written.
             bind_io (index_copy sv indexed resolved written) (\<lambda>_.
             ret \<lparr>co_target = Some resolved, co_skipped = False, co_sourceEtag = sourceEtag,
               co_sourceProviderVersion = (if sv_recovery sv then Some (r2_version sourceHead) else None),
               co_retiredMarkerVersion = None, co_alreadyRetired = False\<rparr>))))
     | _ \<Rightarrow> raise (Failed ''source-changed-before-copy''))))"

definition copyObject ::
  "'x world_scheme services \<Rightarrow> ustring \<Rightarrow> ustring \<Rightarrow> ConflictPolicy \<Rightarrow> (ustring \<times> ustring) option \<Rightarrow> bool \<Rightarrow> bool \<Rightarrow>
   ustring option \<Rightarrow> ('x world_scheme, CopiedObject) io" where
  "copyObject sv source target conflict roots allowRecovery moving operationId =
     bind_io (await sv (r2_head source)) (\<lambda>sourceHead.
     case sourceHead of
       None \<Rightarrow> raise (Failed ''source-disappeared'')
     | Some obj \<Rightarrow>
         if moved_marker obj then copy_from_marker sv source target moving obj
         else
           let sourceEtag = unquote (js_trim (http_etag obj)) in
           bind_io (targetName sv target conflict operationId sourceEtag) (\<lambda>resolved.
           case resolved of
             None \<Rightarrow> ret (skipped_copy sourceEtag)
           | Some r \<Rightarrow>
               if r = [] then ret (skipped_copy sourceEtag)
               else copy_to sv source target conflict roots allowRecovery moving operationId obj sourceEtag r))"

end
