(* ===== verification/R2_Move.thy ===== *)
theory R2_Move
  imports R2_Copy
begin

section \<open>Retiring the source of a move\<close>

text \<open>
  \<open>retireMovedSource\<close>, \<open>cleanupMovedSourceState\<close> and \<open>copyPreparedArtifacts\<close> of
  \<open>apps/operations/src/worker/r2-crud.ts\<close>. A moved object is not deleted: a conditional put leaves a
  marker in its place, and the index state of the old key goes only while that marker stands.
\<close>

record MovedSourceState =
  ms_providerVersion :: "ustring option"
  ms_markerVersion :: "ustring option"
  ms_targetKey :: "ustring option"

definition cleanMovedSourceEtag :: "ustring \<Rightarrow> ustring" where
  "cleanMovedSourceEtag v = unquote (js_trim v)"

definition truthy :: "ustring option \<Rightarrow> bool" where
  "truthy v \<longleftrightarrow> (case v of None \<Rightarrow> False | Some s \<Rightarrow> s \<noteq> [])"

definition isExpectedMovedSourceMarker :: "r2_object option \<Rightarrow> ustring \<Rightarrow> MovedSourceState \<Rightarrow> bool" where
  "isExpectedMovedSourceMarker obj sourceEtag expected =
     (case obj of None \<Rightarrow> False
      | Some x \<Rightarrow> truthy (ms_markerVersion expected) \<and> truthy (ms_providerVersion expected) \<and> truthy (ms_targetKey expected) \<and>
          moved_marker x \<and> Some (r2_version x) = ms_markerVersion expected \<and>
          cleanMovedSourceEtag (case meta x ''ltdsMovedSourceEtag'' of Some e \<Rightarrow> e | None \<Rightarrow> []) = sourceEtag \<and>
          meta x ''ltdsMovedSourceProviderVersion'' = ms_providerVersion expected \<and>
          meta x ''ltdsMoveTargetKey'' = ms_targetKey expected)"

definition repairMovedSourceReplacement :: "'x world_scheme services \<Rightarrow> r2_object \<Rightarrow> ('x world_scheme, unit) io" where
  "repairMovedSourceReplacement sv obj =
     bind_io (repairProviderAwareFileIndex sv obj None) (\<lambda>repaired.
     if sv_eligible sv (r2_key repaired) (length (r2_body repaired)) (map_of (r2_http repaired) (ustr ''contentType''))
     then await sv (send (Enqueue_thumbnail (r2_key repaired) (http_etag repaired) (length (r2_body repaired))))
     else ret ())"

subsection \<open>\<open>cleanupMovedSourceState\<close>\<close>

definition delete_locations :: "ustring \<Rightarrow> ustring \<Rightarrow> 'x world_scheme \<Rightarrow> unit \<times> 'x world_scheme" where
  "delete_locations key etag w = ((), w\<lparr>w_locations := filter (\<lambda>l. l \<noteq> (key, etag)) (w_locations w)\<rparr>)"

text \<open>\<open>trim(etag, '"')\<close> of SQL takes every quote at both ends.\<close>

definition sql_trim_quotes :: "ustring \<Rightarrow> ustring" where
  "sql_trim_quotes s = rev (dropWhile (\<lambda>c. c = 34) (rev (dropWhile (\<lambda>c. c = 34) s)))"

definition delete_index_by_etag :: "ustring \<Rightarrow> ustring \<Rightarrow> 'x world_scheme \<Rightarrow> unit \<times> 'x world_scheme" where
  "delete_index_by_etag key etag w =
     ((), case ix_rows (w_index w) key of
        Some r \<Rightarrow> if sql_trim_quotes (ir_etag r) = etag then w\<lparr>w_index := delete_row key (w_index w)\<rparr> else w
      | None \<Rightarrow> w)"

text \<open>The batch: the locations and the index row of the copied provider version, at the revision read.\<close>

definition delete_moved_state :: "ustring \<Rightarrow> ustring \<Rightarrow> ustring \<Rightarrow> nat \<Rightarrow> 'x world_scheme \<Rightarrow> bool \<times> 'x world_scheme" where
  "delete_moved_state key etag version revision w =
     (case ix_rows (w_index w) key of
        Some r \<Rightarrow>
          if ir_provider r = Some version \<and> revision_of (w_index w) key = revision
          then (True, w\<lparr>w_locations := filter (\<lambda>l. l \<noteq> (key, etag)) (w_locations w),
                        w_index := delete_row key (w_index w)\<rparr>)
          else (False, w)
      | None \<Rightarrow> (False, w))"

definition repair_if_replaced :: "'x world_scheme services \<Rightarrow> r2_object option \<Rightarrow> ('x world_scheme, unit) io" where
  "repair_if_replaced sv obj = (case obj of
     Some x \<Rightarrow> if moved_marker x then ret () else repairMovedSourceReplacement sv x
   | None \<Rightarrow> ret ())"

definition cleanupMovedSourceState ::
  "'x world_scheme services \<Rightarrow> ustring \<Rightarrow> ustring \<Rightarrow> MovedSourceState \<Rightarrow> ('x world_scheme, unit) io" where
  "cleanupMovedSourceState sv sourceKey sourceEtag expected =
     (let etag = cleanMovedSourceEtag sourceEtag in
      if \<not> sv_recovery sv then
        bind_io (await sv (delete_locations sourceKey etag)) (\<lambda>_.
        bind_io (await sv (delete_index_by_etag sourceKey etag)) (\<lambda>_.
        await sv (send (Remove_thumbnail sourceKey (Some etag)))))
      else
        (case (ms_providerVersion expected, ms_markerVersion expected) of
           (Some version, Some markerVersion) \<Rightarrow>
             if version = [] \<or> markerVersion = [] then ret ()
             else
               bind_io (observe sv sourceKey) (\<lambda>seen.
               bind_io (await sv (r2_head sourceKey)) (\<lambda>marker.
               if \<not> isExpectedMovedSourceMarker marker etag expected then repair_if_replaced sv marker
               else
                 bind_io (await sv (delete_moved_state sourceKey etag version (dx_revision seen))) (\<lambda>removed.
                 bind_io (await sv (r2_head sourceKey)) (\<lambda>after.
                 if \<not> isExpectedMovedSourceMarker after etag expected then repair_if_replaced sv after
                 else if \<not> removed then ret ()
                 else
                   bind_io (await sv (send (Remove_thumbnail sourceKey (Some etag)))) (\<lambda>_.
                   bind_io (await sv (r2_head sourceKey)) (\<lambda>latest.
                   if \<not> isExpectedMovedSourceMarker latest etag expected then repair_if_replaced sv latest
                   else ret ()))))))
         | _ \<Rightarrow> ret ()))"

subsection \<open>\<open>retireMovedSource\<close>\<close>

definition marker_metadata :: "ustring \<Rightarrow> ustring \<Rightarrow> ustring option \<Rightarrow> (ustring \<times> ustring) list" where
  "marker_metadata etag targetKey sourceProviderVersion =
     [(ustr ''ltdsMoveMarker'', MOVED_SOURCE_MARKER), (ustr ''ltdsMovedSourceEtag'', etag), (ustr ''ltdsMoveTargetKey'', targetKey)] @
     (case sourceProviderVersion of
        Some v \<Rightarrow> if v \<noteq> [] then [(ustr ''ltdsMovedSourceProviderVersion'', v)] else []
      | None \<Rightarrow> [])"

definition marker_http :: "(ustring \<times> ustring) list" where
  "marker_http = [(ustr ''contentType'', ustr ''application/x-ltds-moved-source''),
     (ustr ''cacheControl'', ustr ''private, no-store'')]"

definition retireMovedSource ::
  "'x world_scheme services \<Rightarrow> ustring \<Rightarrow> ustring \<Rightarrow> ustring \<Rightarrow> ustring option \<Rightarrow> ('x world_scheme, r2_object) io" where
  "retireMovedSource sv sourceKey sourceEtag targetKey sourceProviderVersion =
     (let etag = cleanMovedSourceEtag sourceEtag in
      bind_io
        (if truthy sourceProviderVersion then
           bind_io (await sv (r2_head sourceKey)) (\<lambda>current.
           if (case current of None \<Rightarrow> True | Some obj \<Rightarrow> Some (r2_version obj) \<noteq> sourceProviderVersion)
           then raise (Failed ''source-provider-changed-before-move-retire'') else ret ())
         else ret ())
        (\<lambda>_.
         bind_io (await sv (r2_put sv sourceKey [] (Etag_matches etag) marker_http
           (marker_metadata etag targetKey sourceProviderVersion))) (\<lambda>marker.
         case marker of
           None \<Rightarrow> raise (Failed ''source-changed-before-move-retire'')
         | Some obj \<Rightarrow> ret obj)))"

text \<open>What a moving handler does with the result of a copy: retire the source, then clean its state.\<close>

definition finish_move ::
  "'x world_scheme services \<Rightarrow> ustring \<Rightarrow> ustring \<Rightarrow> CopiedObject \<Rightarrow> ('x world_scheme, unit) io" where
  "finish_move sv source target result =
     (let providerVersion = (if sv_recovery sv then co_sourceProviderVersion result else None) in
      bind_io (if co_alreadyRetired result then ret None
               else bind_io (retireMovedSource sv source (co_sourceEtag result) target providerVersion) (\<lambda>m. ret (Some m)))
        (\<lambda>marker.
         cleanupMovedSourceState sv source (co_sourceEtag result)
           \<lparr>ms_providerVersion = providerVersion,
            ms_markerVersion = (case co_retiredMarkerVersion result of Some v \<Rightarrow> Some v | None \<Rightarrow> map_option r2_version marker),
            ms_targetKey = Some target\<rparr>))"

subsection \<open>\<open>copyPreparedArtifacts\<close>\<close>

definition copy_artifact ::
  "'x world_scheme services \<Rightarrow> ustring \<Rightarrow> ustring \<Rightarrow> ustring \<Rightarrow> ustring \<Rightarrow> bool \<Rightarrow> ustring \<Rightarrow> r2_object \<Rightarrow> ('x world_scheme, unit) io" where
  "copy_artifact sv source target sourcePrefix targetPrefix move operationId obj =
     (if moved_marker obj then ret ()
      else
        let destination = targetPrefix @ drop (length sourcePrefix) (r2_key obj) in
        bind_io (copyObject sv (r2_key obj) destination Replace (Some (source, target)) False move
            (Some (operationId @ ustr '':artifact:'' @ r2_etag obj))) (\<lambda>result.
        if move \<and> \<not> co_skipped result \<and> \<not> co_alreadyRetired result
        then bind_io (retireMovedSource sv (r2_key obj) (co_sourceEtag result) destination
               (if sv_recovery sv then co_sourceProviderVersion result else None)) (\<lambda>_. ret ())
        else ret ()))"

fun artifact_pages ::
  "'x world_scheme services \<Rightarrow> ustring \<Rightarrow> ustring \<Rightarrow> bool \<Rightarrow> ustring \<Rightarrow> nat \<Rightarrow> ustring option \<Rightarrow> ('x world_scheme, unit) io" where
  "artifact_pages sv source target move operationId 0 cursor = raise (Failed ''fuel'')"
| "artifact_pages sv source target move operationId (Suc n) cursor =
     (let sourcePrefix = sv_artifacts sv source; targetPrefix = sv_artifacts sv target in
      bind_io (await sv (r2_list sv sourcePrefix 100 cursor None)) (\<lambda>page.
      bind_io (for_each (rp_objects page) (copy_artifact sv source target sourcePrefix targetPrefix move operationId)) (\<lambda>_.
      case page_cursor page of
        None \<Rightarrow> ret ()
      | Some c \<Rightarrow> artifact_pages sv source target move operationId n (Some c))))"

definition copyPreparedArtifacts ::
  "'x world_scheme services \<Rightarrow> ustring \<Rightarrow> ustring \<Rightarrow> bool \<Rightarrow> ustring \<Rightarrow> ('x world_scheme, unit) io" where
  "copyPreparedArtifacts sv source target move operationId =
     artifact_pages sv source target move operationId (sv_fuel sv) None"

section \<open>Permissions by division and shares under a path\<close>

text \<open>
  \<open>divisionForKey\<close> and \<open>requireCrudPermission\<close> of \<open>apps/operations/src/worker/r2-crud.ts\<close> over the
  table \<open>project_folders\<close> (\<open>w_folders\<close>), and what a move does to the shares at or under its source.
  \<open>requirePermission\<close> of \<open>acl.ts\<close> is the argument \<open>permit\<close>.
\<close>

type_synonym 'w permit = "string \<Rightarrow> ustring option \<Rightarrow> ('w, unit) io"

text \<open>The first row, longest prefix first (a stable sort), whose folder holds the key.\<close>

definition folder_prefix :: "ustring \<Rightarrow> ustring" where
  "folder_prefix r2_prefix = strip_trailing (collapse_slashes (strip_leading (forward_slashes r2_prefix))) @ [47]"

definition folder_holds :: "ustring \<Rightarrow> ustring \<Rightarrow> bool" where
  "folder_holds key r2_prefix \<longleftrightarrow>
     (let prefix = folder_prefix r2_prefix in key = butlast prefix \<or> starts_with key prefix)"

definition divisionForKey :: "'x world_scheme services \<Rightarrow> ustring \<Rightarrow> ('x world_scheme, ustring option) io" where
  "divisionForKey sv key =
     bind_io (await sv (\<lambda>w. (sort_key (\<lambda>(d, p). - int (length p)) (w_folders w), w))) (\<lambda>rows.
     ret (case find (\<lambda>(d, p). folder_holds (forward_slashes key) p) rows of
       Some (d, p) \<Rightarrow> d | None \<Rightarrow> None))"

definition requireCrudPermission ::
  "'x world_scheme services \<Rightarrow> 'x world_scheme permit \<Rightarrow> string \<Rightarrow> ustring \<Rightarrow> ('x world_scheme, unit) io" where
  "requireCrudPermission sv permit required key =
     bind_io (divisionForKey sv key) (\<lambda>division.
     bind_io (permit ''delivery.browse'' division) (\<lambda>_. permit required division))"

subsection \<open>Shares\<close>

record share_row =
  sh_id :: ustring
  sh_project :: ustring
  sh_prefix :: "ustring option"
  sh_revoked :: "(int \<times> string) option"
  sh_version :: nat

record project_row =
  pj_id :: ustring
  pj_active :: bool
  pj_prefix :: ustring
  pj_updated :: int

record share_world = world +
  sw_shares :: "share_row list"
  sw_projects :: "project_row list"

text \<open>\<open>COALESCE(s.r2_prefix, p.r2_prefix)\<close> of the live shares of active projects, by the join.\<close>

definition share_root :: "share_row \<Rightarrow> project_row \<Rightarrow> ustring" where
  "share_root s p = (case sh_prefix s of Some r \<Rightarrow> r | None \<Rightarrow> pj_prefix p)"

definition impacted :: "ustring \<Rightarrow> 'x share_world_scheme \<Rightarrow> (ustring \<times> ustring \<times> ustring) list" where
  "impacted key w =
     (let prefix = prefixFor key in
      concat (map (\<lambda>s. map (\<lambda>p. (sh_id s, sh_project s, share_root s p))
        (filter (\<lambda>p. pj_id p = sh_project s \<and> sh_revoked s = None \<and> pj_active p \<and>
           (share_root s p = key \<or> starts_with (share_root s p) prefix)) (sw_projects w))) (sw_shares w)))"

definition revoke_share :: "ustring \<Rightarrow> 'x share_world_scheme \<Rightarrow> 'x share_world_scheme" where
  "revoke_share sid w = w\<lparr>sw_shares := map (\<lambda>s. if sh_id s = sid \<and> sh_revoked s = None
     then s\<lparr>sh_revoked := Some (w_now w, ''staff_r2_mutation''), sh_version := sh_version s + 1\<rparr> else s) (sw_shares w),
     w_outbox := w_outbox w @ [Audit ''share.auto_revoked'' sid]\<rparr>"

definition revokeImpactedShares ::
  "'x share_world_scheme services \<Rightarrow> ustring \<Rightarrow> ('x share_world_scheme, nat) io" where
  "revokeImpactedShares sv key =
     bind_io (await sv (\<lambda>w. (impacted key w, w))) (\<lambda>rows.
     if rows = [] then ret 0
     else bind_io (await sv (\<lambda>w. ((), fold (\<lambda>(sid, pid, root). revoke_share sid) rows w))) (\<lambda>_. ret (length rows)))"

definition move_share :: "ustring \<Rightarrow> ustring \<Rightarrow> 'x share_world_scheme \<Rightarrow> 'x share_world_scheme" where
  "move_share sid next w = w\<lparr>sw_shares := map (\<lambda>s. if sh_id s = sid \<and> sh_revoked s = None
     then s\<lparr>sh_prefix := Some next, sh_version := sh_version s + 1\<rparr> else s) (sw_shares w)\<rparr>"

definition move_project :: "ustring \<Rightarrow> ustring \<Rightarrow> 'x share_world_scheme \<Rightarrow> 'x share_world_scheme" where
  "move_project pid next w = w\<lparr>sw_projects := map (\<lambda>p. if pj_id p = pid
     then p\<lparr>pj_prefix := next, pj_updated := w_now w\<rparr> else p) (sw_projects w)\<rparr>"

text \<open>\<open>Map.set\<close> keeps the place of a key and takes the last value.\<close>

fun set_assoc :: "ustring \<Rightarrow> ustring \<Rightarrow> (ustring \<times> ustring) list \<Rightarrow> (ustring \<times> ustring) list" where
  "set_assoc k v [] = [(k, v)]"
| "set_assoc k v ((a, b) # rest) = (if a = k then (k, v) # rest else (a, b) # set_assoc k v rest)"

definition moved_root :: "ustring \<Rightarrow> ustring \<Rightarrow> ustring \<Rightarrow> ustring" where
  "moved_root source target root = target @ drop (length source) root"

definition keepImpactedShares ::
  "'x share_world_scheme services \<Rightarrow> ustring \<Rightarrow> ustring \<Rightarrow> ('x share_world_scheme, nat) io" where
  "keepImpactedShares sv source target =
     bind_io (await sv (\<lambda>w. (impacted source w, w))) (\<lambda>rows.
     if rows = [] then ret 0
     else
       let projects = fold (\<lambda>(sid, pid, root). set_assoc pid (moved_root source target root)) rows [] in
       bind_io (await sv (\<lambda>w. ((), fold (\<lambda>(pid, next). move_project pid next) projects
           (fold (\<lambda>(sid, pid, root). move_share sid (moved_root source target root)) rows w)))) (\<lambda>_.
       ret (length rows)))"

definition finalizeMovedShares ::
  "'x share_world_scheme services \<Rightarrow> ustring \<Rightarrow> ustring \<Rightarrow> bool \<Rightarrow> ('x share_world_scheme, unit) io" where
  "finalizeMovedShares sv source target keep =
     bind_io (if keep then keepImpactedShares sv source target else revokeImpactedShares sv source) (\<lambda>_. ret ())"

end
