(* ===== verification/R2_Jobs.thy ===== *)
theory R2_Jobs
  imports R2_Move
begin

section \<open>Copy and move jobs\<close>

text \<open>
  \<open>createJob\<close>, \<open>processJob\<close>, \<open>processR2OperationJobs\<close>, the workflow \<open>R2CrudWorkflow\<close>, \<open>startJob\<close> and the
  routes that queue, cancel and retry jobs, of \<open>apps/operations/src/worker/r2-crud.ts\<close>. The payload is
  kept as data in place of its JSON text; times are seconds.
\<close>

datatype job_kind = Copy_job | Move_job | Batch_job
datatype job_status = Queued | Running | Completed | Failed_job | Cancelled

record batch_operation =
  bo_move :: bool
  bo_source :: ustring
  bo_target :: ustring
  bo_conflict :: ConflictPolicy
  bo_keep :: bool

datatype payload = Operations "batch_operation list" | Folder_payload bool

datatype job_cursor = No_cursor | At_index nat | After_key ustring

record job_row =
  jb_id :: ustring
  jb_kind :: job_kind
  jb_status :: job_status
  jb_requested_by :: ustring
  jb_source :: "ustring option"
  jb_target :: "ustring option"
  jb_conflict :: ConflictPolicy
  jb_payload :: payload
  jb_cursor :: job_cursor
  jb_total :: nat
  jb_processed :: nat
  jb_attempts :: nat
  jb_next_attempt :: "int option"
  jb_lease :: "int option"
  jb_claim :: "ustring option"
  jb_error :: "(string \<times> string) option"
  jb_created :: int
  jb_updated :: int
  jb_completed :: "int option"
  jb_expires :: int

record job_world = share_world +
  jw_jobs :: "job_row list"

definition MAX_BATCH_OPERATIONS :: nat where "MAX_BATCH_OPERATIONS = 25"
definition MAX_JOB_OBJECTS_PER_TURN :: nat where "MAX_JOB_OBJECTS_PER_TURN = 1"
definition MAX_R2_OPERATION_ATTEMPTS :: nat where "MAX_R2_OPERATION_ATTEMPTS = 5"

subsection \<open>Statements\<close>

text \<open>\<open>UPDATE r2_operation_jobs SET change WHERE id=? AND guard\<close>: the number of changed rows.\<close>

definition update_job ::
  "ustring \<Rightarrow> (int \<Rightarrow> job_row \<Rightarrow> bool) \<Rightarrow> (int \<Rightarrow> job_row \<Rightarrow> job_row) \<Rightarrow> 'x job_world_scheme \<Rightarrow> nat \<times> 'x job_world_scheme" where
  "update_job jid guard change w =
     (let hit = (\<lambda>j. jb_id j = jid \<and> guard (w_now w) j) in
      (length (filter hit (jw_jobs w)),
       w\<lparr>jw_jobs := map (\<lambda>j. if hit j then (change (w_now w) j)\<lparr>jb_updated := w_now w\<rparr> else j) (jw_jobs w)\<rparr>))"

definition insert_job :: "job_row \<Rightarrow> 'x job_world_scheme \<Rightarrow> unit \<times> 'x job_world_scheme" where
  "insert_job j w = ((), w\<lparr>jw_jobs := jw_jobs w @ [j]\<rparr>)"

definition find_job :: "ustring \<Rightarrow> 'x job_world_scheme \<Rightarrow> job_row option" where
  "find_job jid w = find (\<lambda>j. jb_id j = jid) (jw_jobs w)"

definition due :: "int \<Rightarrow> int option \<Rightarrow> bool" where
  "due now t = (case t of None \<Rightarrow> True | Some x \<Rightarrow> x \<le> now)"

definition claimable_job :: "int \<Rightarrow> job_row \<Rightarrow> bool" where
  "claimable_job now j \<longleftrightarrow> (jb_status j = Queued \<and> due now (jb_next_attempt j)) \<or>
     (jb_status j = Running \<and> due now (jb_lease j))"

definition claimed_row :: "ustring \<Rightarrow> int \<Rightarrow> job_row \<Rightarrow> job_row" where
  "claimed_row token now j = j\<lparr>jb_status := Running, jb_attempts := jb_attempts j + 1, jb_next_attempt := None,
     jb_claim := Some token, jb_lease := Some (now + 35 * 60)\<rparr>"

text \<open>\<open>RETURNING\<close> gives the claimed row.\<close>

definition claim_job :: "ustring \<Rightarrow> ustring \<Rightarrow> 'x job_world_scheme \<Rightarrow> job_row option \<times> 'x job_world_scheme" where
  "claim_job token jid w =
     (case update_job jid claimable_job (claimed_row token) w of
        (n, w') \<Rightarrow> (if n = 0 then None else find_job jid w', w'))"

definition owned_job :: "ustring \<Rightarrow> int \<Rightarrow> job_row \<Rightarrow> bool" where
  "owned_job token now j \<longleftrightarrow> jb_status j = Running \<and> jb_claim j = Some token"

text \<open>A turn settled: the claim and the error are cleared.\<close>

definition settled_row :: "nat \<Rightarrow> nat \<Rightarrow> job_row \<Rightarrow> job_row" where
  "settled_row processed totals j = j\<lparr>jb_processed := processed, jb_total := totals, jb_attempts := 0, jb_error := None,
     jb_next_attempt := None, jb_claim := None, jb_lease := None\<rparr>"

definition complete_job :: "ustring \<Rightarrow> ustring \<Rightarrow> nat \<Rightarrow> (job_row \<Rightarrow> nat) \<Rightarrow> 'x job_world_scheme \<Rightarrow> nat \<times> 'x job_world_scheme" where
  "complete_job token jid processed totals =
     update_job jid (owned_job token) (\<lambda>now j. (settled_row processed (totals j) j)\<lparr>jb_status := Completed, jb_completed := Some now\<rparr>)"

definition progress_job ::
  "ustring \<Rightarrow> ustring \<Rightarrow> job_cursor \<Rightarrow> nat \<Rightarrow> (job_row \<Rightarrow> nat) \<Rightarrow> 'x job_world_scheme \<Rightarrow> nat \<times> 'x job_world_scheme" where
  "progress_job token jid cursor processed totals =
     update_job jid (owned_job token) (\<lambda>now j. (settled_row processed (totals j) j)\<lparr>jb_cursor := cursor\<rparr>)"

definition fail_job :: "ustring \<Rightarrow> ustring \<Rightarrow> string \<Rightarrow> 'x job_world_scheme \<Rightarrow> nat \<times> 'x job_world_scheme" where
  "fail_job token jid message =
     update_job jid (owned_job token) (\<lambda>now j. j\<lparr>jb_status := Failed_job, jb_error := Some (''r2-operation-failed'', message),
       jb_next_attempt := None, jb_claim := None, jb_lease := None\<rparr>)"

definition requeue_job :: "ustring \<Rightarrow> ustring \<Rightarrow> string \<Rightarrow> int \<Rightarrow> 'x job_world_scheme \<Rightarrow> nat \<times> 'x job_world_scheme" where
  "requeue_job token jid message delay =
     update_job jid (owned_job token) (\<lambda>now j. j\<lparr>jb_status := Queued, jb_error := Some (''r2-operation-retry'', message),
       jb_next_attempt := Some (now + delay), jb_claim := None, jb_lease := None\<rparr>)"

subsection \<open>One object of a job\<close>

definition suffix_op :: "ustring \<Rightarrow> ustring \<Rightarrow> ustring" where
  "suffix_op jid s = jid @ [58] @ s"

definition batch_item ::
  "'x share_world_scheme services \<Rightarrow> ustring \<Rightarrow> nat \<Rightarrow> batch_operation \<Rightarrow> ('x share_world_scheme, unit) io" where
  "batch_item sv jid i op =
     bind_io (lift (normalizeCrudKey (sv_paths sv) (Some (bo_source op)) (ends_with (bo_source op) [47]))) (\<lambda>source.
     bind_io (lift (normalizeCrudKey (sv_paths sv) (Some (bo_target op)) (ends_with (bo_target op) [47]))) (\<lambda>target.
     bind_io (ensureSource sv source True) (\<lambda>folder.
     if folder then raise (Failed ''batch-folder-operation-requires-dedicated-job'')
     else
       bind_io (lift (assertSafeCrudDestination (sv_paths sv) source target False)) (\<lambda>_.
       let operationId = suffix_op jid (decimal i) in
       bind_io (copyObject sv source target (bo_conflict op) None True (bo_move op) (Some operationId)) (\<lambda>result.
       bind_io (case co_target result of
           Some t \<Rightarrow> if t \<noteq> [] \<and> \<not> co_skipped result then copyPreparedArtifacts sv source t (bo_move op) operationId else ret ()
         | None \<Rightarrow> ret ()) (\<lambda>_.
       case co_target result of
         Some t \<Rightarrow>
           if bo_move op \<and> \<not> co_skipped result \<and> t \<noteq> []
           then bind_io (finish_move sv source t result) (\<lambda>_. finalizeMovedShares sv source t (bo_keep op))
           else ret ()
       | None \<Rightarrow> ret ()))))))"

definition folder_item ::
  "'x world_scheme services \<Rightarrow> ustring \<Rightarrow> ustring \<Rightarrow> ustring \<Rightarrow> ConflictPolicy \<Rightarrow> bool \<Rightarrow> r2_object \<Rightarrow> ('x world_scheme, unit) io" where
  "folder_item sv jid source target conflict moving obj =
     (let destination = target @ drop (length source) (r2_key obj) in
      bind_io (copyObject sv (r2_key obj) destination conflict (Some (source, target)) True moving
          (Some (suffix_op jid (r2_etag obj)))) (\<lambda>result.
      if moving \<and> \<not> co_skipped result then finish_move sv (r2_key obj) destination result else ret ()))"

subsection \<open>One turn of a job\<close>

definition batch_turn :: "'x job_world_scheme services \<Rightarrow> ustring \<Rightarrow> job_row \<Rightarrow> ('x job_world_scheme, unit) io" where
  "batch_turn sv token job =
     (let operations = (case jb_payload job of Operations ops \<Rightarrow> ops | _ \<Rightarrow> []);
          start = (case jb_cursor job of At_index i \<Rightarrow> i | _ \<Rightarrow> 0);
          end_index = min (length operations) (start + MAX_JOB_OBJECTS_PER_TURN) in
      bind_io (for_each [start..<end_index] (\<lambda>i. batch_item sv (jb_id job) i (operations ! i))) (\<lambda>_.
      bind_io
        (if end_index \<ge> length operations
         then await sv (complete_job token (jb_id job) end_index (\<lambda>_. length operations))
         else await sv (progress_job token (jb_id job) (At_index end_index) end_index (\<lambda>_. length operations)))
        (\<lambda>_. ret ())))"

definition finish_folder ::
  "'x job_world_scheme services \<Rightarrow> ustring \<Rightarrow> job_row \<Rightarrow> ustring \<Rightarrow> ustring \<Rightarrow> nat \<Rightarrow> ('x job_world_scheme, unit) io" where
  "finish_folder sv token job source target processed =
     bind_io (await sv (\<lambda>w. (find_job (jb_id job) w, w))) (\<lambda>active.
     if (case active of None \<Rightarrow> True | Some j \<Rightarrow> jb_status j \<noteq> Running \<or> jb_claim j \<noteq> Some token) then ret ()
     else
       bind_io (if jb_kind job = Move_job
         then finalizeMovedShares sv source target (case jb_payload job of Folder_payload keep \<Rightarrow> keep | _ \<Rightarrow> False)
         else ret ()) (\<lambda>_.
       bind_io (await sv (complete_job token (jb_id job) processed (\<lambda>j. max (jb_total j) processed))) (\<lambda>_. ret ())))"

definition folder_turn :: "'x job_world_scheme services \<Rightarrow> ustring \<Rightarrow> job_row \<Rightarrow> ('x job_world_scheme, unit) io" where
  "folder_turn sv token job =
     bind_io (lift (normalizeCrudKey (sv_paths sv) (jb_source job) True)) (\<lambda>source.
     bind_io (lift (normalizeCrudKey (sv_paths sv) (jb_target job) True)) (\<lambda>target.
     bind_io (lift (assertSafeCrudDestination (sv_paths sv) source target True)) (\<lambda>_.
     bind_io (await sv (r2_list sv source MAX_JOB_OBJECTS_PER_TURN None
         (case jb_cursor job of After_key k \<Rightarrow> if k \<noteq> [] then Some k else None | _ \<Rightarrow> None))) (\<lambda>page.
     bind_io (for_each (rp_objects page)
         (folder_item sv (jb_id job) source target (jb_conflict job) (jb_kind job = Move_job))) (\<lambda>_.
     let processed = jb_processed job + length (rp_objects page) in
     if \<not> rp_truncated page then finish_folder sv token job source target processed
     else if rp_objects page = [] then raise (Failed ''Cannot read properties of undefined'')
     else
       bind_io (await sv (progress_job token (jb_id job) (After_key (r2_key (List.last (rp_objects page)))) processed
         (\<lambda>j. max (jb_total j) (processed + 1)))) (\<lambda>_. ret ()))))))"

definition permanent_messages :: "string list" where
  "permanent_messages = [''batch-folder-operation-requires-dedicated-job'', ''source-changed-before-copy'',
     ''source-changed-before-move-retire'', ''source-provider-changed-before-move-retire'', ''source-disappeared'',
     ''source-moved'']"

fun fault_message :: "fault \<Rightarrow> string" where
  "fault_message (Http status m) = m"
| "fault_message (Failed m) = m"

definition permanent :: "fault \<Rightarrow> bool" where
  "permanent f \<longleftrightarrow> (case f of Http status m \<Rightarrow> status \<noteq> 429 | Failed m \<Rightarrow> False) \<or>
     take 240 (fault_message f) \<in> set permanent_messages"

definition settle_failure :: "'x job_world_scheme services \<Rightarrow> ustring \<Rightarrow> job_row \<Rightarrow> fault \<Rightarrow> ('x job_world_scheme, unit) io" where
  "settle_failure sv token job f =
     (let message = take 240 (fault_message f) in
      bind_io
        (if permanent f \<or> jb_attempts job \<ge> MAX_R2_OPERATION_ATTEMPTS
         then await sv (fail_job token (jb_id job) message)
         else await sv (requeue_job token (jb_id job) message (min 300 (10 * 2 ^ (jb_attempts job - 1)))))
        (\<lambda>_. ret ()))"

definition processJob :: "'x job_world_scheme services \<Rightarrow> ustring \<Rightarrow> ('x job_world_scheme, unit) io" where
  "processJob sv jid =
     bind_io (fresh sv) (\<lambda>token.
     bind_io (await sv (claim_job token jid)) (\<lambda>claimed.
     case claimed of
       None \<Rightarrow> ret ()
     | Some job \<Rightarrow>
         catch_io (if jb_kind job = Batch_job then batch_turn sv token job else folder_turn sv token job)
           (settle_failure sv token job)))"

subsection \<open>The queue and the workflow\<close>

definition processR2OperationJobs :: "'x job_world_scheme services \<Rightarrow> ('x job_world_scheme, unit) io" where
  "processR2OperationJobs sv =
     bind_io (await sv (\<lambda>w. (take 3 (map jb_id (sort_key jb_created (filter (claimable_job (w_now w)) (jw_jobs w)))), w)))
       (\<lambda>ids. for_each ids (processJob sv))"

text \<open>A durable step runs its body up to four times; \<open>None\<close> is the state \<open>missing\<close>.\<close>

definition workflow_step :: "'x job_world_scheme services \<Rightarrow> ustring \<Rightarrow> ('x job_world_scheme, job_row option) io" where
  "workflow_step sv jid =
     (let body = bind_io (processJob sv jid) (\<lambda>_. await sv (\<lambda>w. (find_job jid w, w))) in
      catch_io body (\<lambda>_. catch_io body (\<lambda>_. catch_io body (\<lambda>_. body))))"

definition ended_status :: "job_status \<Rightarrow> bool" where
  "ended_status s \<longleftrightarrow> s \<in> {Completed, Failed_job, Cancelled}"

definition limit_job :: "ustring \<Rightarrow> 'x job_world_scheme \<Rightarrow> nat \<times> 'x job_world_scheme" where
  "limit_job jid = update_job jid (\<lambda>now j. jb_status j \<in> {Queued, Running}) (\<lambda>now j.
     j\<lparr>jb_status := Failed_job, jb_error := Some (''operation_limit'', ''Operation exceeded 10,000 durable steps'')\<rparr>)"

text \<open>The turns; a sleep is an awaited call, during which the environment has its turn.\<close>

fun workflow_turns :: "'x job_world_scheme services \<Rightarrow> ustring \<Rightarrow> nat \<Rightarrow> ('x job_world_scheme, unit) io" where
  "workflow_turns sv jid 0 = bind_io (await sv (limit_job jid)) (\<lambda>_. ret ())"
| "workflow_turns sv jid (Suc n) =
     bind_io (workflow_step sv jid) (\<lambda>state.
     case state of
       None \<Rightarrow> ret ()
     | Some j \<Rightarrow>
         if ended_status (jb_status j) then ret ()
         else if (jb_status j = Queued \<and> jb_next_attempt j \<noteq> None) \<or> jb_status j = Running
         then bind_io (await sv (\<lambda>w. ((), w))) (\<lambda>_. workflow_turns sv jid n)
         else workflow_turns sv jid n)"

definition R2CrudWorkflow_run :: "'x job_world_scheme services \<Rightarrow> ustring \<Rightarrow> ('x job_world_scheme, unit) io" where
  "R2CrudWorkflow_run sv jid = workflow_turns sv jid 10000"

text \<open>When the workflow cannot be created, the job is processed once in the background.\<close>

definition startJob :: "'x job_world_scheme services \<Rightarrow> ustring \<Rightarrow> ustring \<Rightarrow> ('x job_world_scheme, unit) io" where
  "startJob sv jid instance_id =
     catch_io (await sv (send (Start_workflow instance_id jid)))
       (\<lambda>_. catch_io (processJob sv jid) (\<lambda>_. ret ()))"

subsection \<open>Routes\<close>

definition createJob ::
  "'x job_world_scheme services \<Rightarrow> ustring \<Rightarrow> job_kind \<Rightarrow> payload \<Rightarrow> ustring option \<Rightarrow> ustring option \<Rightarrow> ConflictPolicy \<Rightarrow>
   ('x job_world_scheme, ustring) io" where
  "createJob sv actor kind payload source target conflict =
     bind_io (fresh sv) (\<lambda>jid.
     bind_io (await sv (\<lambda>w. insert_job \<lparr>jb_id = jid, jb_kind = kind, jb_status = Queued, jb_requested_by = actor,
       jb_source = source, jb_target = target, jb_conflict = conflict, jb_payload = payload, jb_cursor = No_cursor,
       jb_total = 0, jb_processed = 0, jb_attempts = 0, jb_next_attempt = None, jb_lease = None, jb_claim = None,
       jb_error = None, jb_created = w_now w, jb_updated = w_now w, jb_completed = None,
       jb_expires = w_now w + seven_days\<rparr> w)) (\<lambda>_. ret jid))"

definition cancel_route ::
  "'x job_world_scheme services \<Rightarrow> 'x job_world_scheme permit \<Rightarrow> ustring \<Rightarrow> ustring \<Rightarrow> ('x job_world_scheme, unit) io" where
  "cancel_route sv permit actor jid =
     bind_io (permit ''delivery.files.batch'' None) (\<lambda>_.
     bind_io (await sv (update_job jid (\<lambda>now j. jb_requested_by j = actor \<and> jb_status j \<in> {Queued, Running})
       (\<lambda>now j. j\<lparr>jb_status := Cancelled, jb_next_attempt := None, jb_claim := None, jb_lease := None\<rparr>))) (\<lambda>n.
     if n \<noteq> 1 then raise (Http 409 ''Operation cannot be cancelled'') else ret ()))"

definition retry_route ::
  "'x job_world_scheme services \<Rightarrow> 'x job_world_scheme permit \<Rightarrow> ustring \<Rightarrow> ustring \<Rightarrow> ('x job_world_scheme, unit) io" where
  "retry_route sv permit actor jid =
     bind_io (permit ''delivery.files.batch'' None) (\<lambda>_.
     bind_io (await sv (update_job jid (\<lambda>now j. jb_requested_by j = actor \<and> jb_status j = Failed_job)
       (\<lambda>now j. j\<lparr>jb_status := Queued, jb_attempts := 0, jb_next_attempt := None, jb_claim := None, jb_error := None,
          jb_lease := None\<rparr>))) (\<lambda>n.
     if n \<noteq> 1 then raise (Http 409 ''Only failed operations can be retried'')
     else
       bind_io (await sv (send (Audit ''delivery.r2.retry'' jid))) (\<lambda>_.
       bind_io (fresh sv) (\<lambda>u. startJob sv jid (jid @ [45] @ u)))))"

text \<open>The routes \<open>copy\<close>, \<open>move\<close> and \<open>rename\<close>: the answer is the job, or \<open>None\<close> when skipped.\<close>

definition required_for :: "job_kind \<Rightarrow> string" where
  "required_for kind = (if kind = Copy_job then ''delivery.files.copy'' else ''delivery.files.move'')"

definition transfer_route ::
  "'x job_world_scheme services \<Rightarrow> 'x job_world_scheme permit \<Rightarrow> ustring \<Rightarrow> job_kind \<Rightarrow> ustring \<Rightarrow> ustring \<Rightarrow> loose \<Rightarrow> bool \<Rightarrow>
   ('x job_world_scheme, ustring option) io" where
  "transfer_route sv permit actor kind sourceKey targetKey conflictValue keep =
     bind_io (lift (normalizeCrudKey (sv_paths sv) (Some sourceKey) (ends_with sourceKey [47]))) (\<lambda>source.
     bind_io (lift (normalizeCrudKey (sv_paths sv) (Some targetKey) (ends_with targetKey [47]))) (\<lambda>target.
     bind_io (requireCrudPermission sv permit (required_for kind) source) (\<lambda>_.
     bind_io (requireCrudPermission sv permit (required_for kind) target) (\<lambda>_.
     bind_io (lift (policy conflictValue)) (\<lambda>conflict.
     bind_io (ensureSource sv source False) (\<lambda>folder.
     let audit = (\<lambda>key. await sv (send (Audit (if kind = Copy_job then ''delivery.copy.queued'' else ''delivery.move.queued'') key))) in
     if folder then
       bind_io (lift (normalizeCrudKey (sv_paths sv) (Some source) True)) (\<lambda>folderSource.
       bind_io (lift (normalizeCrudKey (sv_paths sv) (Some target) True)) (\<lambda>folderTarget.
       bind_io (lift (assertSafeCrudDestination (sv_paths sv) folderSource folderTarget True)) (\<lambda>_.
       bind_io (targetFolderName sv folderTarget conflict) (\<lambda>resolved.
       case resolved of
         None \<Rightarrow> ret None
       | Some resolvedTarget \<Rightarrow>
           bind_io (lift (assertSafeCrudDestination (sv_paths sv) folderSource resolvedTarget True)) (\<lambda>_.
           bind_io (createJob sv actor kind (Folder_payload keep) (Some folderSource) (Some resolvedTarget) conflict) (\<lambda>jid.
           bind_io (startJob sv jid jid) (\<lambda>_.
           bind_io (audit folderSource) (\<lambda>_. ret (Some jid)))))))))
     else
       bind_io (lift (assertSafeCrudDestination (sv_paths sv) source target False)) (\<lambda>_.
       bind_io (createJob sv actor Batch_job
         (Operations [\<lparr>bo_move = (kind = Move_job), bo_source = source, bo_target = target, bo_conflict = conflict, bo_keep = keep\<rparr>])
         (Some source) (Some target) conflict) (\<lambda>jid.
       bind_io (startJob sv jid jid) (\<lambda>_.
       bind_io (audit source) (\<lambda>_. ret (Some jid)))))))))))"

text \<open>The route \<open>batch\<close>: each item is parsed, then checked.\<close>

record batch_request =
  br_kind :: loose
  br_source :: "ustring option"
  br_target :: "ustring option"
  br_conflict :: loose
  br_keep :: bool

definition parse_operation :: "path_runtime \<Rightarrow> batch_request \<Rightarrow> fault + batch_operation" where
  "parse_operation rt r =
     rbind (if br_kind r = Text (ustr ''move'') then Inr True else if br_kind r = Text (ustr ''copy'') then Inr False
            else Inl (Http 400 ''Unsupported batch operation'')) (\<lambda>move.
     rbind (normalizeCrudKey rt (br_source r) False) (\<lambda>source.
     rbind (normalizeCrudKey rt (br_target r) False) (\<lambda>target.
     rbind (policy (br_conflict r)) (\<lambda>conflict.
     Inr \<lparr>bo_move = move, bo_source = source, bo_target = target, bo_conflict = conflict, bo_keep = br_keep r\<rparr>))))"

definition batch_route ::
  "'x job_world_scheme services \<Rightarrow> 'x job_world_scheme permit \<Rightarrow> ustring \<Rightarrow> batch_request list \<Rightarrow> ('x job_world_scheme, ustring) io" where
  "batch_route sv permit actor requests =
     (if length requests < 1 \<or> length requests > MAX_BATCH_OPERATIONS
      then raise (Http 400 ''Batch operations must contain 1-25 items'')
      else
        bind_io (lift (rmap (parse_operation (sv_paths sv)) requests)) (\<lambda>operations.
        bind_io (for_each operations (\<lambda>op.
          bind_io (lift (assertSafeCrudDestination (sv_paths sv) (bo_source op) (bo_target op) False)) (\<lambda>_.
          bind_io (requireCrudPermission sv permit ''delivery.files.batch'' (bo_source op)) (\<lambda>_.
          requireCrudPermission sv permit ''delivery.files.batch'' (bo_target op))))) (\<lambda>_.
        bind_io (createJob sv actor Batch_job (Operations operations) None None Fail) (\<lambda>jid.
        bind_io (startJob sv jid jid) (\<lambda>_.
        bind_io (await sv (send (Audit ''delivery.batch.queued'' jid))) (\<lambda>_. ret jid))))))"

end
