(* ===== verification/R2_Safety.thy ===== *)
theory R2_Safety
  imports R2_Hoare R2_Jobs
begin

section \<open>Copies and moves lose no bytes\<close>

text \<open>
  What \<open>copyObject\<close> and the moves built on it do to the stored bytes. \<open>held c b\<close>: some object of the
  bucket that is no move marker has the bytes \<open>c\<close>. Whatever the conflict policy, whichever calls are
  refused and whatever happens to the databases meanwhile, bytes that were held stay held.
\<close>

definition held :: "byte list \<Rightarrow> (ustring \<Rightarrow> r2_object option) \<Rightarrow> bool" where
  "held c b \<longleftrightarrow> (\<exists>k obj. b k = Some obj \<and> \<not> moved_marker obj \<and> r2_body obj = c)"

definition kept :: "(ustring \<Rightarrow> r2_object option) \<Rightarrow> storage \<Rightarrow> bool" where
  "kept b s \<longleftrightarrow> (\<forall>c. held c b \<longrightarrow> held c (fst s))"

lemma heldI: "b k = Some obj \<Longrightarrow> \<not> moved_marker obj \<Longrightarrow> held (r2_body obj) b"
  by (auto simp: held_def)

lemma keptI: "(\<And>k obj. b k = Some obj \<Longrightarrow> \<not> moved_marker obj \<Longrightarrow> held (r2_body obj) (fst s)) \<Longrightarrow> kept b s"
  unfolding kept_def held_def [of _ b] by blast

lemma kept_refl [simp]: "kept b (b, n)"
  by (simp add: kept_def)

lemma kept_trans: "kept b s \<Longrightarrow> kept (fst s) s' \<Longrightarrow> kept b s'"
  by (simp add: kept_def)

text \<open>Writing where nothing is, or over a marker.\<close>

lemma kept_write:
  assumes "b k = None \<or> (\<exists>old. b k = Some old \<and> moved_marker old)"
  shows "kept b (b(k \<mapsto> obj), n)"
proof (rule keptI)
  fix k' x assume x: "b k' = Some x" "\<not> moved_marker x"
  with assms have "k' \<noteq> k" by auto
  with x show "held (r2_body x) (fst (b(k \<mapsto> obj), n))"
    by (intro heldI [of _ k']) auto
qed

text \<open>Writing over an object whose bytes are at another key.\<close>

lemma kept_replace:
  assumes "b k = Some old" and "b k' = Some copy" and "k' \<noteq> k" and "r2_body copy = r2_body old" and "\<not> moved_marker copy"
  shows "kept b (b(k \<mapsto> obj), n)"
proof (rule keptI)
  fix j x assume x: "b j = Some x" "\<not> moved_marker x"
  show "held (r2_body x) (fst (b(k \<mapsto> obj), n))"
  proof (cases "j = k")
    case True
    with x assms(1,4) have "r2_body x = r2_body copy" by simp
    thus ?thesis using heldI [of "b(k \<mapsto> obj)" k' copy] assms by simp
  next
    case False
    thus ?thesis using x heldI [of "b(k \<mapsto> obj)" j x] by simp
  qed
qed

lemma kept_delete: "b k = None \<Longrightarrow> kept b ((b(k \<mapsto> obj))(k := None), n)"
  by (simp add: fun_upd_idem)

subsection \<open>Handlers that leave the bucket alone\<close>

lemma reads_if [intro]: "(c \<Longrightarrow> reads x) \<Longrightarrow> (\<not> c \<Longrightarrow> reads y) \<Longrightarrow> reads (if c then x else y)"
  by simp

lemma reads_option [intro]: "(v = None \<Longrightarrow> reads x) \<Longrightarrow> (\<And>y. v = Some y \<Longrightarrow> reads (f y)) \<Longrightarrow> reads (case v of None \<Rightarrow> x | Some y \<Rightarrow> f y)"
  by (cases v) auto

lemma reads_prod [intro]: "(\<And>a b. v = (a, b) \<Longrightarrow> reads (f a b)) \<Longrightarrow> reads (case v of (a, b) \<Rightarrow> f a b)"
  by (cases v) auto

lemma storage_read_observation [simp]: "storage_of (snd (read_observation k w)) = storage_of w"
  by (simp add: read_observation_def)

lemma reads_observe: "quiet sv \<Longrightarrow> reads (observe sv key)"
  unfolding observe_def by (intro reads_bind reads_await reading) simp_all

lemma storage_run_repair:
  "storage_of (snd (case prepareDeliveryIndexRepair (sv_index sv) (w_now w) snapshot obs stream of
     Inl f \<Rightarrow> (0, w) | Inr stmt \<Rightarrow> run_index stmt w)) = storage_of w"
  by (simp split: sum.split)

lemma reads_run_repair: "quiet sv \<Longrightarrow> reads (run_repair sv snapshot obj stream)"
  unfolding run_repair_def await_prepared_def
  by (cases "validateObserved (sv_index sv) snapshot (as_observed obj) stream")
    (auto intro!: reading reads_await simp: storage_run_repair)

lemma reads_repair_attempts: "quiet sv \<Longrightarrow> reads (repair_attempts sv expected stream n)"
  by (induction n) (auto intro!: reads_bind reads_observe reads_run_repair reads_await reading)

lemma reads_repair: "quiet sv \<Longrightarrow> reads (repairProviderAwareFileIndex sv expected stream)"
  by (simp add: repairProviderAwareFileIndex_def reads_repair_attempts)

lemma storage_legacy_upsert [simp]: "storage_of (snd (legacy_upsert key r f w)) = storage_of w"
  by (simp add: legacy_upsert_def storage_of_def)

lemma reads_index_copy: "quiet sv \<Longrightarrow> reads (index_copy sv indexed resolved obj)"
  unfolding index_copy_def Let_def
  by (auto intro!: reads_bind reads_catch reads_await reads_repair reading split: option.split)

lemma reads_pages: "quiet sv \<Longrightarrow> reads (prefix_pages sv prefix n cursor markers)"
  by (induction n arbitrary: cursor markers) (auto intro!: reads_bind reads_await reading split: prod.split option.split)


subsection \<open>Destination names\<close>

text \<open>The state is known exactly while a handler only reads.\<close>

abbreviation at :: "storage \<Rightarrow> storage \<Rightarrow> bool" where
  "at s \<equiv> (\<lambda>x. x = s)"

definition free_or_own :: "(ustring \<Rightarrow> r2_object option) \<Rightarrow> ustring option \<Rightarrow> ustring \<Rightarrow> ustring \<Rightarrow> bool" where
  "free_or_own b op e t \<longleftrightarrow> b t = None \<or> matchingCrudPublication (b t) op e"

lemma triple_free_name:
  "quiet sv \<Longrightarrow> triple (at (b, n)) (free_name sv target op e is)
     (\<lambda>r s. s = (b, n) \<and> (\<exists>t. r = Some t \<and> free_or_own b op e t)) (at (b, n))"
proof (induction "is")
  case Nil
  show ?case by (auto intro: triple_raise)
next
  case (Cons i rest)
  show ?case
    unfolding free_name.simps Let_def
    by (rule triple_bind [where R = "\<lambda>r s. s = (b, n) \<and> r = b (numbered_name target i)"])
      (auto intro!: triple_head triple_ret triple_conseq [OF Cons.IH] simp: Cons.prems free_or_own_def)
qed

lemma triple_targetName:
  assumes "quiet sv"
  shows "triple (at (b, n)) (targetName sv target conflict op e)
     (\<lambda>r s. s = (b, n) \<and> (case r of None \<Rightarrow> conflict = Skip | Some t \<Rightarrow> t = target \<or> free_or_own b op e t)) (at (b, n))"
  unfolding targetName_def
proof (rule triple_bind [where R = "\<lambda>r s. s = (b, n) \<and> r = b target"])
  show "triple (at (b, n)) (await sv (r2_head target)) (\<lambda>r s. s = (b, n) \<and> r = b target) (at (b, n))"
    by (auto intro!: triple_head assms)
next
  fix existing
  have rename: "triple (\<lambda>s. s = (b, n) \<and> existing = b target) (free_name sv target op e [2..<1002])
     (\<lambda>r s. s = (b, n) \<and> (case r of None \<Rightarrow> conflict = Skip | Some t \<Rightarrow> t = target \<or> free_or_own b op e t)) (at (b, n))"
    by (rule triple_conseq [OF triple_free_name [OF assms]]) auto
  show "triple (\<lambda>s. s = (b, n) \<and> existing = b target)
     (if matchingCrudPublication existing op e then ret (Some target)
      else case existing of None \<Rightarrow> ret (Some target)
      | Some obj \<Rightarrow> if moved_marker obj then ret (Some target)
          else case conflict of Skip \<Rightarrow> ret None | Fail \<Rightarrow> raise (Http 409 ''The destination already exists'')
            | Replace \<Rightarrow> ret (Some target) | Rename \<Rightarrow> free_name sv target op e [2..<1002])
     (\<lambda>r s. s = (b, n) \<and> (case r of None \<Rightarrow> conflict = Skip | Some t \<Rightarrow> t = target \<or> free_or_own b op e t)) (at (b, n))"
    using rename
    by (auto intro!: triple_ret triple_raise split: option.split ConflictPolicy.split simp del: upt_Suc)
qed

subsection \<open>The destination of a copy\<close>

definition empty_or_marker :: "r2_object option \<Rightarrow> bool" where
  "empty_or_marker v \<longleftrightarrow> (case v of None \<Rightarrow> True | Some obj \<Rightarrow> moved_marker obj)"

definition reachable_name :: "(ustring \<Rightarrow> r2_object option) \<Rightarrow> ustring \<Rightarrow> ustring option \<Rightarrow> ustring \<Rightarrow> ustring \<Rightarrow> bool" where
  "reachable_name b target op e t \<longleftrightarrow> t = target \<or> free_or_own b op e t"

definition chosen ::
  "(ustring \<Rightarrow> r2_object option) \<Rightarrow> ConflictPolicy \<Rightarrow> ustring \<Rightarrow> ustring \<Rightarrow> ustring option \<Rightarrow> ustring \<Rightarrow> r2_object option \<Rightarrow>
   ustring \<Rightarrow> r2_object option \<Rightarrow> bool" where
  "chosen b conflict target resolved op e resumed t d \<longleftrightarrow>
     (t = resolved \<or> reachable_name b target op e t) \<and>
     (case resumed of Some obj \<Rightarrow> t = resolved \<and> d = Some obj
      | None \<Rightarrow> d = b t \<and> (conflict \<noteq> Replace \<longrightarrow> empty_or_marker d))"

lemma triple_choose:
  assumes "quiet sv"
  shows "triple (at (b, n)) (choose_destination sv target conflict op e resolved resumed)
     (\<lambda>r s. s = (b, n) \<and> (\<forall>t d. r = Some (t, d) \<longrightarrow> chosen b conflict target resolved op e resumed t d)) (at (b, n))"
  unfolding choose_destination_def
proof (rule triple_bind [where R = "\<lambda>r s. s = (b, n) \<and> r = (case resumed of Some obj \<Rightarrow> Some obj | None \<Rightarrow> b resolved)"])
  show "triple (at (b, n)) (case resumed of None \<Rightarrow> await sv (r2_head resolved) | Some obj \<Rightarrow> ret (Some obj))
     (\<lambda>r s. s = (b, n) \<and> r = (case resumed of Some obj \<Rightarrow> Some obj | None \<Rightarrow> b resolved)) (at (b, n))"
    by (auto intro!: triple_head triple_ret assms split: option.split)
next
  fix d
  define seen where "seen = (case resumed of Some obj \<Rightarrow> Some obj | None \<Rightarrow> b resolved)"
  let ?Q = "\<lambda>r s. s = (b, n) \<and> (\<forall>t d. r = Some (t, d) \<longrightarrow> chosen b conflict target resolved op e resumed t d)"
  let ?taken = "resumed = None \<and> (case d of None \<Rightarrow> False | Some obj \<Rightarrow> \<not> moved_marker obj) \<and> conflict \<noteq> Replace"
  have renamed: "triple (\<lambda>s. s = (b, n) \<and> d = seen)
     (bind_io (targetName sv target Rename op e) (\<lambda>renamed.
       let resolved = the renamed in
       bind_io (await sv (r2_head resolved)) (\<lambda>destination.
       if (case destination of None \<Rightarrow> False | Some obj \<Rightarrow> \<not> moved_marker obj)
       then raise (Http 409 ''The renamed destination changed before publication'')
       else ret (Some (resolved, destination))))) ?Q (at (b, n))" if "resumed = None"
  proof (rule triple_bind [where R = "\<lambda>r s. s = (b, n) \<and> (\<exists>t. r = Some t \<and> reachable_name b target op e t)"])
    show "triple (\<lambda>s. s = (b, n) \<and> d = seen) (targetName sv target Rename op e)
       (\<lambda>r s. s = (b, n) \<and> (\<exists>t. r = Some t \<and> reachable_name b target op e t)) (at (b, n))"
      by (rule triple_conseq [OF triple_targetName [OF assms]]) (auto simp: reachable_name_def split: option.splits)
  next
    fix r
    show "triple (\<lambda>s. s = (b, n) \<and> (\<exists>t. r = Some t \<and> reachable_name b target op e t))
       (let resolved = the r in
       bind_io (await sv (r2_head resolved)) (\<lambda>destination.
       if (case destination of None \<Rightarrow> False | Some obj \<Rightarrow> \<not> moved_marker obj)
       then raise (Http 409 ''The renamed destination changed before publication'')
       else ret (Some (resolved, destination)))) ?Q (at (b, n))"
      unfolding Let_def
      by (rule triple_bind [where R = "\<lambda>d s. s = (b, n) \<and> d = b (the r) \<and> reachable_name b target op e (the r)"])
        (auto intro!: triple_head triple_ret triple_raise assms
          simp: chosen_def that empty_or_marker_def split: option.splits)
  qed
  show "triple (\<lambda>s. s = (b, n) \<and> d = (case resumed of Some obj \<Rightarrow> Some obj | None \<Rightarrow> b resolved))
     (if ?taken then (case conflict of Skip \<Rightarrow> ret None
          | Fail \<Rightarrow> raise (Http 409 ''The destination changed before publication'')
          | _ \<Rightarrow> bind_io (targetName sv target Rename op e) (\<lambda>renamed.
              let resolved = the renamed in
              bind_io (await sv (r2_head resolved)) (\<lambda>destination.
              if (case destination of None \<Rightarrow> False | Some obj \<Rightarrow> \<not> moved_marker obj)
              then raise (Http 409 ''The renamed destination changed before publication'')
              else ret (Some (resolved, destination)))))
      else ret (Some (resolved, d))) ?Q (at (b, n))"
  proof (cases ?taken)
    case True
    show ?thesis
      unfolding if_P [OF True] seen_def [symmetric] using renamed True
      by (cases conflict) (auto intro!: triple_ret triple_raise)
  next
    case False
    show ?thesis
      unfolding if_not_P [OF False]
      by (rule triple_ret) (use False in \<open>auto simp: chosen_def empty_or_marker_def split: option.splits\<close>)
  qed
qed

subsection \<open>Saving what is replaced\<close>

definition fresh_keys :: "'w services \<Rightarrow> storage \<Rightarrow> bool" where
  "fresh_keys sv s \<longleftrightarrow> (\<forall>k. fst s (recovery_key (sv_uuid sv (snd s)) k) = None)"

text \<open>After the save: nothing was written and the destination is free, or its object lies at a new key too.\<close>

definition saved ::
  "(ustring \<Rightarrow> r2_object option) \<Rightarrow> ustring \<Rightarrow> r2_object option \<Rightarrow> ustring option \<Rightarrow> (ustring \<times> ustring) option \<Rightarrow> storage \<Rightarrow> bool" where
  "saved b t resumed baseline recovery s \<longleftrightarrow> (case recovery of
     None \<Rightarrow> fst s = b \<and> (resumed = None \<longrightarrow> empty_or_marker (b t) \<and> baseline = map_option http_etag (b t))
   | Some (rid, key) \<Rightarrow> resumed = None \<and> (\<exists>old copy. b t = Some old \<and> baseline = Some (http_etag old) \<and>
       b key = None \<and> r2_body copy = r2_body old \<and> \<not> moved_marker copy \<and> fst s = b(key \<mapsto> copy)))"

lemma moved_marker_meta: "r2_meta x = r2_meta y \<Longrightarrow> moved_marker x = moved_marker y"
  by (simp add: moved_marker_def isMovedSourceMarker_def as_listed_def)

lemma triple_save_existing:
  assumes q: "quiet sv" and fresh: "fresh_keys sv (b, n)" and old: "b t = Some old" "\<not> moved_marker old"
  shows "triple (at (b, n)) (save_existing sv t (Some (r2_body old)) old)
     (\<lambda>r. saved b t None (Some (http_etag old)) (Some r)) (kept b)"
proof -
  define rid where "rid = sv_uuid sv n"
  define key where "key = recovery_key rid t"
  have free: "b key = None" using fresh by (simp add: fresh_keys_def key_def rid_def)
  let ?put = "\<lambda>s. \<exists>copy. r2_body copy = r2_body old \<and> \<not> moved_marker copy \<and> fst s = b(key \<mapsto> copy)"
  have kept: "kept b s" if "?put s" for s
    using that kept_write [of b key] free by (cases s) auto
  have dropped: "kept b s" if "fst s = b" for s
    using that by (cases s) auto
  show ?thesis
    unfolding save_existing_def Let_def
  proof (rule triple_bind [where R = "\<lambda>r s. s = (b, Suc n) \<and> r = rid"])
    show "triple (at (b, n)) (fresh sv) (\<lambda>r s. s = (b, Suc n) \<and> r = rid) (kept b)"
      by (rule triple_fresh) (simp add: rid_def)
  next
    fix r
    have insert: "triple ?put (bind_io (await sv (\<lambda>w. insert_recovery (recovery_row_of rid t key (w_now w)) w)) (\<lambda>_. ret (rid, key)))
       (\<lambda>r. saved b t None (Some (http_etag old)) (Some r)) ?put"
      by (rule triple_bind [where R = "\<lambda>_. ?put"], rule triple_await [OF q], simp, assumption)
        (rule triple_ret, auto simp: saved_def old(1) free)
    have undo: "triple ?put (bind_io (await sv (r2_delete key)) (\<lambda>_. raise f)) Q (kept b)" for f and Q :: "ustring \<times> ustring \<Rightarrow> storage \<Rightarrow> bool"
    proof (rule triple_bind [where R = "\<lambda>_. kept b"])
      show "triple ?put (await sv (r2_delete key)) (\<lambda>_. kept b) (kept b)"
        by (rule triple_delete [OF q, OF _ kept]) (auto simp: fun_upd_idem free)
    qed (auto intro: triple_raise)
    show "triple (\<lambda>s. s = (b, Suc n) \<and> r = rid)
       (bind_io (put_got sv (recovery_key r t) (Some (r2_body old)) old) (\<lambda>_.
        catch_io (bind_io (await sv (\<lambda>w. insert_recovery (recovery_row_of r t (recovery_key r t) (w_now w)) w)) (\<lambda>_. ret (r, recovery_key r t)))
          (\<lambda>f. bind_io (await sv (r2_delete (recovery_key r t))) (\<lambda>_. raise f))))
       (\<lambda>r. saved b t None (Some (http_etag old)) (Some r)) (kept b)"
    proof (rule triple_fact [of _ "r = rid"], simp)
      assume r: "r = rid"
      show ?thesis
        unfolding r key_def [symmetric] put_got_def option.case
      proof (rule triple_bind [where R = "\<lambda>_. ?put"])
        show "triple (\<lambda>s. s = (b, Suc n) \<and> rid = rid) (await sv (r2_put sv key (r2_body old) Unconditional (r2_http old) (r2_meta old)))
          (\<lambda>_. ?put) (kept b)"
          by (rule triple_put [OF q])
            (auto simp: stored_as_def old(2) moved_marker_meta [of _ old] put_allowed_def)
      next
        show "triple ?put (catch_io (bind_io (await sv (\<lambda>w. insert_recovery (recovery_row_of rid t key (w_now w)) w)) (\<lambda>_. ret (rid, key)))
          (\<lambda>f. bind_io (await sv (r2_delete key)) (\<lambda>_. raise f)))
          (\<lambda>r. saved b t None (Some (http_etag old)) (Some r)) (kept b)"
          by (rule triple_catch [OF insert undo])
      qed
    qed
  qed
qed

lemma triple_save_replaced:
  assumes q: "quiet sv" and fresh: "fresh_keys sv (b, n)" and d: "chosen b conflict target resolved op e resumed t d"
  shows "triple (at (b, n)) (save_replaced sv conflict True t resumed d)
     (\<lambda>(baseline, recovery). saved b t resumed baseline recovery) (kept b)"
proof (cases "conflict = Replace \<and> resumed = None \<and> \<not> (case d of None \<Rightarrow> False | Some obj \<Rightarrow> moved_marker obj)")
  case True
  hence resumed: "resumed = None" and bt: "d = b t" using d by (auto simp: chosen_def)
  let ?cond = "case d of None \<Rightarrow> Unconditional | Some obj \<Rightarrow> Etag_matches (r2_etag obj)"
  let ?Q = "\<lambda>(baseline, recovery). saved b t resumed baseline recovery"
  show ?thesis
    unfolding save_replaced_def if_P [OF True]
  proof (rule triple_bind [where R = "\<lambda>got s. s = (b, n) \<and> got = got_of ?cond (b t)"])
    show "triple (at (b, n)) (await sv (r2_get t ?cond)) (\<lambda>got s. s = (b, n) \<and> got = got_of ?cond (b t)) (kept b)"
      by (rule triple_get [OF q]) auto
  next
    fix got
    show "triple (\<lambda>s. s = (b, n) \<and> got = got_of ?cond (b t))
       (case got of Missing \<Rightarrow> ret (None, None)
        | No_body obj \<Rightarrow>
            if True then bind_io (save_existing sv t (sv_absent sv) obj) (\<lambda>r. ret (Some (http_etag obj), Some r))
            else ret (Some (http_etag obj), None)
        | Body obj \<Rightarrow>
            if True then bind_io (save_existing sv t (Some (r2_body obj)) obj) (\<lambda>r. ret (Some (http_etag obj), Some r))
            else ret (Some (http_etag obj), None)) ?Q (kept b)"
    proof (rule triple_fact [of _ "got = got_of ?cond (b t)"], simp)
      assume got: "got = got_of ?cond (b t)"
      show ?thesis
      proof (cases "b t")
        case None
        hence "got = Missing" by (simp add: got got_of_def)
        thus ?thesis using None resumed by (auto intro!: triple_ret simp: saved_def empty_or_marker_def)
      next
        case (Some old)
        hence body: "got = Body old" and old: "\<not> moved_marker old"
          using True bt by (simp_all add: got got_of_def put_allowed_def)
        have "triple (at (b, n)) (bind_io (save_existing sv t (Some (r2_body old)) old) (\<lambda>r. ret (Some (http_etag old), Some r))) ?Q (kept b)"
          unfolding resumed
          by (rule triple_bind [OF triple_save_existing [OF q fresh Some old]]) (rule triple_ret, simp)
        thus ?thesis using body by (auto intro: triple_conseq)
      qed
    qed
  qed
next
  case False
  have "saved b t resumed (map_option http_etag d) None (b, n)"
    using d False by (cases resumed) (auto simp: saved_def chosen_def empty_or_marker_def split: option.splits)
  thus ?thesis
    unfolding save_replaced_def if_not_P [OF False] by (auto intro: triple_ret)
qed

subsection \<open>Publication\<close>

definition published ::
  "(ustring \<Rightarrow> r2_object option) \<Rightarrow> ustring \<Rightarrow> r2_object option \<Rightarrow> byte list \<Rightarrow> (ustring \<times> ustring) list \<Rightarrow> r2_object \<Rightarrow> storage \<Rightarrow> bool" where
  "published b t resumed body custom written s \<longleftrightarrow> kept b s \<and> (case resumed of
     Some obj \<Rightarrow> written = obj \<and> fst s = b
   | None \<Rightarrow> fst s t = Some written \<and> r2_body written = body \<and> r2_meta written = custom \<and>
       (\<forall>k. k \<noteq> t \<longrightarrow> b k \<noteq> None \<longrightarrow> fst s k = b k))"

lemma put_publishes:
  assumes before: "saved b t None baseline recovery (b', n')" and w: "stored_as sv t body custom obj"
  shows "published b t None body custom obj (b'(t \<mapsto> obj), n'')"
proof (cases recovery)
  case None
  with before have b': "b' = b" and t: "b t = None \<or> (\<exists>old. b t = Some old \<and> moved_marker old)"
    by (auto simp: saved_def empty_or_marker_def split: option.splits)
  show ?thesis using kept_write [of b t, OF t] w by (simp add: published_def b' stored_as_def)
next
  case (Some rec)
  then obtain rid key where rec: "recovery = Some (rid, key)" by (cases rec) auto
  obtain old copy where s: "b t = Some old" "b key = None" "r2_body copy = r2_body old" "\<not> moved_marker copy"
      "b' = b(key \<mapsto> copy)"
    using before unfolding saved_def rec by auto
  have "key \<noteq> t" using s by auto
  hence "kept b' (b'(t \<mapsto> obj), n'')" using s by (intro kept_replace [of _ _ old key copy]) auto
  moreover have "kept b (b', n')" using kept_write [of b key copy n'] s by simp
  ultimately have "kept b (b'(t \<mapsto> obj), n'')" using kept_trans by (metis fst_conv)
  thus ?thesis using w s \<open>key \<noteq> t\<close> by (auto simp: published_def stored_as_def)
qed

lemma saved_kept: "saved b t resumed baseline recovery s \<Longrightarrow> kept b s"
  using kept_write [of b] by (cases s) (auto simp: saved_def split: option.splits)

lemma saved_undone:
  "saved b t resumed baseline (Some (rid, key)) (b', n') \<Longrightarrow> b'(key := None) = b"
  by (auto simp: saved_def fun_upd_idem)

lemma triple_publish:
  assumes q: "quiet sv"
  shows "triple (saved b t resumed baseline recovery) (publish_copy sv t body baseline http custom resumed recovery)
     (published b t resumed body custom) (kept b)"
  unfolding publish_copy_def
proof (rule triple_bind [where R = "published b t resumed body custom"])
  let ?P = "saved b t resumed baseline recovery"
  let ?cond = "case baseline of Some h \<Rightarrow> If_match h | None \<Rightarrow> If_none_match"
  have put: "triple ?P (await sv (r2_put sv t body ?cond http custom))
     (\<lambda>r s. case r of Some obj \<Rightarrow> published b t None body custom obj s | None \<Rightarrow> ?P s) ?P" if "resumed = None"
    by (rule triple_put [OF q]) (auto intro: put_publishes simp: that)
  have written: "triple ?P (case resumed of Some obj \<Rightarrow> ret (Some obj) | None \<Rightarrow> await sv (r2_put sv t body ?cond http custom))
     (\<lambda>r s. case r of Some obj \<Rightarrow> published b t resumed body custom obj s | None \<Rightarrow> ?P s) ?P"
  proof (cases resumed)
    case None
    show ?thesis using put [OF None] unfolding None option.case .
  next
    case (Some obj)
    have "?P s \<Longrightarrow> published b t resumed body custom obj s" for s
      using saved_kept [of b t resumed baseline recovery s] Some by (auto simp: published_def saved_def split: option.splits)
    thus ?thesis using Some by (auto intro: triple_ret)
  qed
  have drop: "triple ?P (case recovery of None \<Rightarrow> raise f
      | Some (rid, key) \<Rightarrow> bind_io (await sv (r2_delete key)) (\<lambda>_. bind_io (await sv (delete_recovery rid)) (\<lambda>_. raise f)))
     (published b t resumed body custom) (kept b)" for f
  proof (cases recovery)
    case None
    thus ?thesis by (auto intro!: triple_raise saved_kept)
  next
    case (Some rec)
    then obtain rid key where rec: "recovery = Some (rid, key)" by (cases rec) auto
    have del: "triple ?P (await sv (r2_delete key)) (\<lambda>_. kept b) (kept b)"
      by (rule triple_delete [OF q, OF _ saved_kept]) (auto simp: rec dest: saved_undone)
    have row: "triple (kept b) (await sv (delete_recovery rid)) (\<lambda>_. kept b) (kept b)"
      by (rule triple_reads) (auto intro: reads_await q)
    have "triple ?P (bind_io (await sv (r2_delete key)) (\<lambda>_. bind_io (await sv (delete_recovery rid)) (\<lambda>_. raise f)))
       (published b t resumed body custom) (kept b)"
      by (rule triple_bind [OF del], rule triple_bind [OF row], rule triple_raise)
    thus ?thesis unfolding rec option.case prod.case .
  qed
  show "triple ?P (catch_io
      (bind_io (case resumed of Some obj \<Rightarrow> ret (Some obj) | None \<Rightarrow> await sv (r2_put sv t body ?cond http custom)) (\<lambda>written.
        case written of None \<Rightarrow> raise (Http 409 ''The replacement destination changed before publication'') | Some obj \<Rightarrow> ret obj))
      (\<lambda>f. case recovery of None \<Rightarrow> raise f
        | Some (rid, key) \<Rightarrow> bind_io (await sv (r2_delete key)) (\<lambda>_. bind_io (await sv (delete_recovery rid)) (\<lambda>_. raise f))))
     (published b t resumed body custom) (kept b)"
    by (rule triple_catch [OF triple_bind [OF written] drop]) (auto intro: triple_raise triple_ret split: option.split)
next
  fix written
  show "triple (published b t resumed body custom written)
     (case case recovery of Some (rid, key) \<Rightarrow> Some rid | None \<Rightarrow> meta written ''replacementRecoveryId'' of
        None \<Rightarrow> ret written
      | Some rid \<Rightarrow> if rid = [] then ret written
          else bind_io (await sv (set_recovery_etag rid (http_etag written) False)) (\<lambda>_. ret written))
     (published b t resumed body custom) (kept b)"
    by (auto intro!: triple_ret triple_bind [where R = "\<lambda>_. published b t resumed body custom written"]
        triple_reads reads_await q simp: published_def split: option.split)
qed

end
