(* ===== verification/R2_Transfers.thy ===== *)
theory R2_Transfers
  imports R2_Safety
begin

section \<open>Whole transfers\<close>

text \<open>
  From the calls of \<open>copyObject\<close> to one object of a folder job. A resumed copy is trusted by its
  metadata, so the statements on moves assume that the marks in the bucket are honest: an object that
  names the entity tag of some bytes as its source holds those bytes.
\<close>

subsection \<open>The metadata of a copy\<close>

lemma map_of_spread: "map_of (spread a b) k = (case map_of b k of Some v \<Rightarrow> Some v | None \<Rightarrow> map_of a k)"
proof -
  have "map_of (filter (\<lambda>(k, v). k \<notin> fst ` set b) a) k = (if k \<in> fst ` set b then None else map_of a k)"
    by (induction a) (auto simp: case_prod_beta simp del: image_iff split: if_splits)
  moreover have "k \<notin> fst ` set b" if "map_of b k = None"
    using that by (simp add: map_of_eq_None_iff)
  ultimately show ?thesis
    by (cases "map_of b k") (simp_all add: spread_def map_add_def)
qed

definition move_mark :: ustring where
  "move_mark = ustr ''ltdsMoveMarker''"

lemma moved_marker_iff: "moved_marker obj \<longleftrightarrow> map_of (r2_meta obj) move_mark = Some MOVED_SOURCE_MARKER"
  by (simp add: moved_marker_def isMovedSourceMarker_def as_listed_def move_mark_def)

lemma mark_names:
  "ustr ''replacementRecoveryId'' \<noteq> move_mark" "ustr ''ltdsCrudOperationId'' \<noteq> move_mark"
  "ustr ''ltdsCrudSourceEtag'' \<noteq> move_mark" "ustr ''ltdsMoveSourceKey'' \<noteq> move_mark"
  "ustr ''ltdsMoveSourceEtag'' \<noteq> move_mark"
  by (simp_all add: move_mark_def ustr_def)

lemma copy_not_marker:
  assumes "\<not> moved_marker src" and "r2_meta x = destination_metadata src recovery op moving source e"
  shows "\<not> moved_marker x"
  using assms mark_names
  by (auto simp: moved_marker_iff destination_metadata_def map_of_spread split: option.splits if_splits)

subsection \<open>\<open>copyObject\<close>\<close>

definition copy_at ::
  "'x world_scheme services \<Rightarrow> (ustring \<Rightarrow> r2_object option) \<Rightarrow> ustring \<Rightarrow> r2_object \<Rightarrow> (ustring \<times> ustring) option \<Rightarrow> ustring option \<Rightarrow> ustring \<Rightarrow>
   bool \<Rightarrow> ustring \<Rightarrow> r2_object \<Rightarrow> bool" where
  "copy_at sv b source src roots op e moving t x \<longleftrightarrow>
     resumed_copy (b t) op e moving source = Some x \<or>
     (\<exists>recovery. r2_meta x = destination_metadata src recovery op moving source e) \<and>
       r2_body x = fst (copied_content sv roots source src)"

definition copied ::
  "'x world_scheme services \<Rightarrow> (ustring \<Rightarrow> r2_object option) \<Rightarrow> ustring \<Rightarrow> r2_object \<Rightarrow> ustring \<Rightarrow> (ustring \<times> ustring) option \<Rightarrow> ustring option \<Rightarrow>
   ustring \<Rightarrow> bool \<Rightarrow> CopiedObject \<Rightarrow> storage \<Rightarrow> bool" where
  "copied sv b source src target roots op e moving r s \<longleftrightarrow> kept b s \<and>
     (co_skipped r \<or> (\<exists>t x. co_target r = Some t \<and> reachable_name b target op e t \<and> fst s t = Some x \<and>
        (t \<noteq> source \<longrightarrow> fst s source = b source) \<and> co_sourceEtag r = e \<and> \<not> co_alreadyRetired r \<and>
        copy_at sv b source src roots op e moving t x))"

lemma copied_skipped: "kept b s \<Longrightarrow> copied sv b source src target roots op e moving (skipped_copy e') s"
  by (simp add: copied_def skipped_copy_def)

lemma published_copied:
  assumes "chosen b conflict target resolved op e (resumed_copy (b resolved) op e moving source) t d"
    and "reachable_name b target op e resolved" and "b source = Some src"
    and "published b t (resumed_copy (b resolved) op e moving source) (fst (copied_content sv roots source src))
           (destination_metadata src recovery op moving source e) written s"
    and "co_target r = Some t" "co_sourceEtag r = e" "\<not> co_alreadyRetired r"
  shows "copied sv b source src target roots op e moving r s"
proof -
  have kept: "kept b s" using assms(4) by (simp add: published_def)
  have reach: "reachable_name b target op e t" using assms(1,2) by (auto simp: chosen_def)
  have "fst s t = Some written \<and> copy_at sv b source src roots op e moving t written \<and> (t \<noteq> source \<longrightarrow> fst s source = b source)"
  proof (cases "resumed_copy (b resolved) op e moving source")
    case None
    thus ?thesis using assms(3,4) by (auto simp: published_def copy_at_def)
  next
    case (Some obj)
    hence "t = resolved" using assms(1) by (simp add: chosen_def)
    moreover have "b resolved = Some obj" using Some by (auto simp: resumed_copy_def split: if_splits)
    ultimately show ?thesis using assms(4) Some by (simp add: published_def copy_at_def)
  qed
  thus ?thesis using kept reach assms(5-7) unfolding copied_def by blast
qed

text \<open>The last calls of \<open>copy_to\<close>, in three steps.\<close>

abbreviation copy_result :: "'x world_scheme services \<Rightarrow> ustring \<Rightarrow> ustring \<Rightarrow> r2_object \<Rightarrow> CopiedObject" where
  "copy_result sv t e src \<equiv> \<lparr>co_target = Some t, co_skipped = False, co_sourceEtag = e,
     co_sourceProviderVersion = (if sv_recovery sv then Some (r2_version src) else None),
     co_retiredMarkerVersion = None, co_alreadyRetired = False\<rparr>"

lemma triple_publish_result:
  assumes q: "quiet sv" and src: "b source = Some src" and reach: "reachable_name b target op e resolved"
    and resumed: "resumed = resumed_copy (b resolved) op e moving source"
    and ch: "chosen b conflict target resolved op e resumed t d" and body: "body = fst (copied_content sv roots source src)"
  shows "triple (saved b t resumed baseline recovery)
     (bind_io (publish_copy sv t body baseline http (destination_metadata src recovery op moving source e) resumed recovery)
       (\<lambda>written. bind_io (index_copy sv indexed t written) (\<lambda>_. ret (copy_result sv t e src))))
     (copied sv b source src target roots op e moving) (kept b)"
proof (rule triple_bind [OF triple_publish [OF q]])
  fix written
  let ?P = "published b t resumed body (destination_metadata src recovery op moving source e) written"
  have index: "triple ?P (index_copy sv indexed t written) (\<lambda>_. ?P) (kept b)"
    by (rule triple_reads [OF reads_index_copy [OF q]]) (simp add: published_def)
  show "triple ?P (bind_io (index_copy sv indexed t written) (\<lambda>_. ret (copy_result sv t e src)))
     (copied sv b source src target roots op e moving) (kept b)"
    by (rule triple_bind [OF index], rule triple_ret)
      (rule published_copied [OF ch [unfolded resumed] reach src], simp_all add: resumed body)
qed

lemma triple_save_and_publish:
  assumes q: "quiet sv" and fresh: "fresh_keys sv (b, n)" and src: "b source = Some src"
    and reach: "reachable_name b target op e resolved" and resumed: "resumed = resumed_copy (b resolved) op e moving source"
    and ch: "chosen b conflict target resolved op e resumed t d"
  shows "triple (at (b, n)) (bind_io (save_replaced sv conflict True t resumed d) (\<lambda>(baseline, recovery).
       case copied_content sv roots source src of (body, http) \<Rightarrow>
       bind_io (publish_copy sv t body baseline http (destination_metadata src recovery op moving source e) resumed recovery)
         (\<lambda>written. bind_io (index_copy sv indexed t written) (\<lambda>_. ret (copy_result sv t e src)))))
     (copied sv b source src target roots op e moving) (kept b)"
proof (rule triple_bind [OF triple_save_replaced [OF q fresh ch]], goal_cases)
  case (1 x)
  obtain baseline recovery where x: "x = (baseline, recovery)" by (cases x)
  obtain body http where content: "copied_content sv roots source src = (body, http)"
    by (cases "copied_content sv roots source src")
  show ?case
    unfolding x content prod.case
    by (rule triple_publish_result [OF q src reach resumed ch]) (simp add: content)
qed

lemma triple_place_copy:
  assumes q: "quiet sv" and fresh: "fresh_keys sv (b, n)" and src: "b source = Some src"
    and reach: "reachable_name b target op e resolved" and resumed: "resumed = resumed_copy (b resolved) op e moving source"
  shows "triple (at (b, n)) (bind_io (choose_destination sv target conflict op e resolved resumed) (\<lambda>chosen.
       case chosen of None \<Rightarrow> ret (skipped_copy e)
       | Some (resolved, destination) \<Rightarrow>
       bind_io (save_replaced sv conflict True resolved resumed destination) (\<lambda>(baseline, recovery).
       case copied_content sv roots source src of (body, http) \<Rightarrow>
       bind_io (publish_copy sv resolved body baseline http (destination_metadata src recovery op moving source e) resumed recovery)
         (\<lambda>written. bind_io (index_copy sv indexed resolved written) (\<lambda>_. ret (copy_result sv resolved e src))))))
     (copied sv b source src target roots op e moving) (kept b)"
proof -
  have choose: "triple (at (b, n)) (choose_destination sv target conflict op e resolved resumed)
     (\<lambda>r s. s = (b, n) \<and> (\<forall>t d. r = Some (t, d) \<longrightarrow> chosen b conflict target resolved op e resumed t d)) (kept b)"
    by (rule triple_conseq [OF triple_choose [OF q]]) auto
  show ?thesis
  proof (rule triple_bind [OF choose], goal_cases)
    case (1 c)
    show ?case
    proof (cases c)
      case None
      thus ?thesis by (auto intro!: triple_ret copied_skipped)
    next
      case (Some td)
      then obtain t d where c: "c = Some (t, d)" by (cases td) auto
      show ?thesis
        unfolding c option.case prod.case
        by (rule triple_fact [of _ "chosen b conflict target resolved op e resumed t d"], simp)
          (rule triple_conseq [OF triple_save_and_publish [OF q fresh src reach resumed]], auto)
    qed
  qed
qed

lemma triple_copy_to:
  assumes q: "quiet sv" and fresh: "fresh_keys sv (b, n)" and src: "b source = Some src"
    and reach: "reachable_name b target op e resolved"
  shows "triple (at (b, n)) (copy_to sv source target conflict roots True moving op src e resolved)
     (copied sv b source src target roots op e moving) (kept b)"
  unfolding copy_to_def Let_def
proof (rule triple_bind [where R = "\<lambda>r s. s = (b, n) \<and> r = b resolved"],
    goal_cases)
  case 1
  show ?case by (auto intro!: triple_head q)
next
  case (2 prior)
  have lookup: "triple (\<lambda>s. s = (b, n) \<and> prior = b resolved) (await sv (index_lookup source))
     (\<lambda>_ s. s = (b, n) \<and> prior = b resolved) (kept b)"
    by (rule triple_reads) (auto intro: reads_await [OF q] simp: index_lookup_def)
  have got: "triple (\<lambda>s. s = (b, n) \<and> prior = b resolved) (await sv (r2_get source (Etag_matches (r2_etag src))))
     (\<lambda>r s. (s = (b, n) \<and> prior = b resolved) \<and> r = Body src) (kept b)"
    by (rule triple_get [OF q]) (auto simp: got_of_def src put_allowed_def)
  show ?case
  proof (rule triple_bind [OF lookup triple_bind [OF got]], goal_cases)
    case (1 indexed got)
    show ?case
      by (rule triple_fact [of _ "prior = b resolved \<and> got = Body src"], simp, elim conjE, hypsubst, simp only: got.case)
        (rule triple_conseq [OF triple_place_copy [OF q fresh src reach refl]], auto)
  qed
qed

definition source_tag :: "r2_object \<Rightarrow> ustring" where
  "source_tag src = unquote (js_trim (http_etag src))"

definition copy_done ::
  "'x world_scheme services \<Rightarrow> (ustring \<Rightarrow> r2_object option) \<Rightarrow> ustring \<Rightarrow> ustring \<Rightarrow> (ustring \<times> ustring) option \<Rightarrow> ustring option \<Rightarrow>
   bool \<Rightarrow> CopiedObject \<Rightarrow> storage \<Rightarrow> bool" where
  "copy_done sv b source target roots op moving r s \<longleftrightarrow> kept b s \<and> (co_skipped r \<or> co_alreadyRetired r \<or>
     (\<exists>src. b source = Some src \<and> \<not> moved_marker src \<and>
        copied sv b source src target roots op (source_tag src) moving r s))"

lemma triple_from_marker:
  assumes q: "quiet sv"
  shows "triple (at (b, n)) (copy_from_marker sv source target moving src)
     (copy_done sv b source target roots op moving) (kept b)"
  unfolding copy_from_marker_def Let_def
proof (rule triple_bind [where R = "\<lambda>_. at (b, n)"])
  show "triple (at (b, n)) (if meta src ''ltdsMoveTargetKey'' = Some target then await sv (r2_head target) else ret None)
     (\<lambda>_. at (b, n)) (kept b)"
    by (rule triple_reads) (auto intro!: reads_await q reading)
qed (auto intro!: triple_ret triple_raise simp: copy_done_def split: option.split)

lemma triple_copyObject:
  assumes q: "quiet sv" and fresh: "fresh_keys sv (b, n)"
  shows "triple (at (b, n)) (copyObject sv source target conflict roots True moving op)
     (copy_done sv b source target roots op moving) (kept b)"
  unfolding copyObject_def
proof (rule triple_bind [where R = "\<lambda>r s. s = (b, n) \<and> r = b source"], goal_cases)
  case 1
  show ?case by (auto intro!: triple_head q)
next
  case (2 r)
  show ?case
  proof (cases "b source")
    case None
    show ?thesis
      by (rule triple_fact [of _ "r = None"]) (auto simp: None intro: triple_raise)
  next
    case (Some src)
    let ?e = "source_tag src"
    have plain: "triple (at (b, n)) (bind_io (targetName sv target conflict op ?e) (\<lambda>resolved.
        case resolved of None \<Rightarrow> ret (skipped_copy ?e)
        | Some r \<Rightarrow> if r = [] then ret (skipped_copy ?e)
            else copy_to sv source target conflict roots True moving op src ?e r))
       (copy_done sv b source target roots op moving) (kept b)" if nomark: "\<not> moved_marker src"
    proof (rule triple_bind [where R = "\<lambda>r s. s = (b, n) \<and> (\<forall>t. r = Some t \<longrightarrow> reachable_name b target op ?e t)"], goal_cases)
      case 1
      show ?case by (rule triple_conseq [OF triple_targetName [OF q]]) (auto simp: reachable_name_def)
    next
      case (2 resolved)
      have skip: "copy_done sv b source target roots op moving (skipped_copy ?e) (b, n)"
        by (simp add: copy_done_def skipped_copy_def)
      have copy: "triple (at (b, n)) (copy_to sv source target conflict roots True moving op src ?e t)
         (copy_done sv b source target roots op moving) (kept b)" if "reachable_name b target op ?e t" for t
        by (rule triple_conseq [OF triple_copy_to [OF q fresh Some that]])
          (auto simp: copy_done_def Some nomark copied_def)
      show ?case
      proof (cases resolved)
        case None
        thus ?thesis using skip by (auto intro: triple_ret)
      next
        case (Some t)
        show ?thesis
          unfolding Some option.case
          by (rule triple_fact [of _ "reachable_name b target op ?e t"], simp)
            (auto intro!: triple_ret skip intro: triple_conseq [OF copy])
      qed
    qed
    have body: "triple (at (b, n)) (if moved_marker src then copy_from_marker sv source target moving src
        else let sourceEtag = unquote (js_trim (http_etag src)) in
          bind_io (targetName sv target conflict op sourceEtag) (\<lambda>resolved.
          case resolved of None \<Rightarrow> ret (skipped_copy sourceEtag)
          | Some r \<Rightarrow> if r = [] then ret (skipped_copy sourceEtag)
              else copy_to sv source target conflict roots True moving op src sourceEtag r))
       (copy_done sv b source target roots op moving) (kept b)"
      unfolding Let_def source_tag_def [symmetric] using triple_from_marker [OF q] plain by simp
    show ?thesis
      by (rule triple_fact [of _ "r = Some src"], simp add: Some, hypsubst, simp only: option.case)
        (rule triple_conseq [OF body], auto)
  qed
qed

subsection \<open>Retiring the source\<close>

lemma reads_cleanup: "quiet sv \<Longrightarrow> reads (cleanupMovedSourceState sv key e expected)"
proof -
  assume q: "quiet sv"
  have repair: "reads (repair_if_replaced sv v)" for v
    unfolding repair_if_replaced_def repairMovedSourceReplacement_def
    by (auto intro!: reads_bind reads_repair reads_await q reading split: option.split)
  have calls: "storage_of (snd (delete_locations k t w)) = storage_of w"
    "storage_of (snd (delete_index_by_etag k t w)) = storage_of w"
    "storage_of (snd (delete_moved_state k t v n w)) = storage_of w" for k t v n w
    by (auto simp: delete_locations_def delete_index_by_etag_def delete_moved_state_def storage_of_def split: option.split)
  show "reads (cleanupMovedSourceState sv key e expected)"
    unfolding cleanupMovedSourceState_def Let_def
    by (auto intro!: reads_bind reads_observe repair reads_await q reading simp: calls split: option.split)
qed

text \<open>The bytes of the source lie at another key too.\<close>

definition doubled :: "(ustring \<Rightarrow> r2_object option) \<Rightarrow> ustring \<Rightarrow> storage \<Rightarrow> bool" where
  "doubled b source s \<longleftrightarrow> kept b s \<and> (\<exists>src t x. fst s source = Some src \<and> fst s t = Some x \<and> t \<noteq> source \<and>
     r2_body x = r2_body src \<and> \<not> moved_marker x)"

lemma triple_retire:
  assumes q: "quiet sv"
  shows "triple (doubled b source) (retireMovedSource sv source e target version) (\<lambda>_. kept b) (kept b)"
  unfolding retireMovedSource_def Let_def
proof (rule triple_bind [where R = "\<lambda>_. doubled b source"], goal_cases)
  case 1
  show ?case
    by (rule triple_reads) (auto intro!: reads_bind reads_await q reading simp: doubled_def)
next
  case (2 x)
  have kept: "kept b s" if "doubled b source s" for s using that by (simp add: doubled_def)
  have overwritten: "kept b (b'(source \<mapsto> obj), n')" if d: "doubled b source (b', n)" for b' n n' obj
  proof -
    obtain src t x where s: "b' source = Some src" "b' t = Some x" "t \<noteq> source" "r2_body x = r2_body src" "\<not> moved_marker x"
      using d by (auto simp: doubled_def)
    have "kept b' (b'(source \<mapsto> obj), n')" by (rule kept_replace [of b' source src t x]) (use s in auto)
    thus ?thesis using d kept_trans [of b "(b', n)"] by (simp add: doubled_def)
  qed
  show ?case
  proof (rule triple_bind [where R = "\<lambda>_. kept b"], goal_cases)
    case 1
    show ?case
      by (rule triple_put [OF q]) (auto intro: overwritten kept)
  next
    case (2 marker)
    show ?case by (cases marker) (auto intro: triple_ret triple_raise)
  qed
qed

lemma triple_finish_move:
  assumes q: "quiet sv" and "\<And>s. P s \<Longrightarrow> kept b s" and "\<And>s. P s \<Longrightarrow> \<not> co_alreadyRetired r \<Longrightarrow> doubled b source s"
  shows "triple P (finish_move sv source target r) (\<lambda>_. kept b) (kept b)"
  unfolding finish_move_def Let_def
proof (rule triple_bind [where R = "\<lambda>_. kept b"], goal_cases)
  case 1
  show ?case
  proof (cases "co_alreadyRetired r")
    case True
    thus ?thesis using assms(2) by (auto intro: triple_ret)
  next
    case False
    have "triple P (retireMovedSource sv source (co_sourceEtag r) target version) (\<lambda>_. kept b) (kept b)" for version
      by (rule triple_conseq [OF triple_retire [OF q]]) (use assms(3) False in auto)
    thus ?thesis using False by (auto intro!: triple_bind [where R = "\<lambda>_. kept b"] triple_ret)
  qed
next
  case (2 marker)
  show ?case by (rule triple_reads [OF reads_cleanup [OF q]])
qed

subsection \<open>One object of a folder job\<close>

definition honest_marks :: "'x world_scheme services \<Rightarrow> (ustring \<Rightarrow> r2_object option) \<Rightarrow> ustring \<Rightarrow> bool" where
  "honest_marks sv b source \<longleftrightarrow> (\<forall>src k x. b source = Some src \<longrightarrow> b k = Some x \<longrightarrow>
     meta x ''ltdsCrudSourceEtag'' = Some (source_tag src) \<or> meta x ''ltdsMoveSourceEtag'' = Some (source_tag src) \<longrightarrow>
     r2_body x = r2_body src \<and> \<not> moved_marker x)"

text \<open>The source is not itself a publication of the operation that now moves it.\<close>

definition foreign_source :: "(ustring \<Rightarrow> r2_object option) \<Rightarrow> ustring \<Rightarrow> ustring option \<Rightarrow> bool" where
  "foreign_source b source op \<longleftrightarrow> (\<forall>src. b source = Some src \<longrightarrow> op \<noteq> None \<longrightarrow> meta src ''ltdsCrudOperationId'' \<noteq> op)"

definition plain_source :: "'x world_scheme services \<Rightarrow> (ustring \<Rightarrow> r2_object option) \<Rightarrow> ustring \<Rightarrow> bool" where
  "plain_source sv b source \<longleftrightarrow> (\<forall>src. b source = Some src \<longrightarrow> sv_manifest sv (r2_body src) = None)"

lemma copied_content_plain: "sv_manifest sv (r2_body src) = None \<Longrightarrow> fst (copied_content sv roots source src) = r2_body src"
  by (simp add: copied_content_def split: option.split)

lemma other_name:
  assumes "reachable_name b target op e t" and "target \<noteq> source" and "b source = Some src" and "foreign_source b source op"
  shows "t \<noteq> source"
  using assms
  by (auto simp: reachable_name_def free_or_own_def matchingCrudPublication_def foreign_source_def split: option.splits)

lemma copy_at_bytes:
  assumes "copy_at sv b source src roots op (source_tag src) moving t x" and "b source = Some src" and "\<not> moved_marker src"
    and "honest_marks sv b source" and "plain_source sv b source"
  shows "r2_body x = r2_body src \<and> \<not> moved_marker x"
proof (cases "resumed_copy (b t) op (source_tag src) moving source = Some x")
  case True
  hence "b t = Some x" by (auto simp: resumed_copy_def split: if_splits)
  moreover have "meta x ''ltdsCrudSourceEtag'' = Some (source_tag src) \<or> meta x ''ltdsMoveSourceEtag'' = Some (source_tag src)"
    using True by (auto simp: resumed_copy_def matchingCrudPublication_def split: if_splits option.splits)
  ultimately show ?thesis using assms(2,4) unfolding honest_marks_def by blast
next
  case False
  then obtain recovery where m: "r2_meta x = destination_metadata src recovery op moving source (source_tag src)"
      and body: "r2_body x = fst (copied_content sv roots source src)"
    using assms(1) by (auto simp: copy_at_def)
  show ?thesis
    using copy_not_marker [OF assms(3) m] body assms(2,5) by (simp add: plain_source_def copied_content_plain)
qed

lemma copy_done_doubled:
  assumes "copy_done sv b source target roots op moving r s" and "\<not> co_skipped r" and "\<not> co_alreadyRetired r"
    and "target \<noteq> source" and "foreign_source b source op" and "honest_marks sv b source" and "plain_source sv b source"
  shows "doubled b source s"
proof -
  obtain src where src: "b source = Some src" "\<not> moved_marker src"
      and c: "copied sv b source src target roots op (source_tag src) moving r s"
    using assms(1-3) by (auto simp: copy_done_def)
  then obtain t x where t: "reachable_name b target op (source_tag src) t" "fst s t = Some x"
      "t \<noteq> source \<longrightarrow> fst s source = b source" "copy_at sv b source src roots op (source_tag src) moving t x"
    using assms(2) by (auto simp: copied_def)
  have "t \<noteq> source" by (rule other_name [OF t(1) assms(4) src(1) assms(5)])
  moreover have "r2_body x = r2_body src \<and> \<not> moved_marker x"
    by (rule copy_at_bytes [OF t(4) src assms(6,7)])
  ultimately show ?thesis
    using t src c unfolding doubled_def copied_def by auto
qed

lemma triple_folder_item:
  assumes q: "quiet sv" and fresh: "fresh_keys sv (b, n)"
    and "target @ drop (length source) (r2_key obj) \<noteq> r2_key obj"
    and "foreign_source b (r2_key obj) (Some (suffix_op jid (r2_etag obj)))"
    and "honest_marks sv b (r2_key obj)" and "plain_source sv b (r2_key obj)"
  shows "triple (at (b, n)) (folder_item sv jid source target conflict moving obj) (\<lambda>_. kept b) (kept b)"
  unfolding folder_item_def Let_def
proof (rule triple_bind [OF triple_copyObject [OF q fresh]], goal_cases)
  case (1 r)
  let ?P = "copy_done sv b (r2_key obj) (target @ drop (length source) (r2_key obj)) (Some (source, target))
    (Some (suffix_op jid (r2_etag obj))) moving r"
  have kept: "?P s \<Longrightarrow> kept b s" for s by (simp add: copy_done_def)
  have "triple ?P (finish_move sv (r2_key obj) t r) (\<lambda>_. kept b) (kept b)" if "\<not> co_skipped r" for t
    by (rule triple_finish_move [OF q kept]) (auto intro: copy_done_doubled [OF _ that _ assms(3-6)])
  thus ?case using kept by (auto intro: triple_ret)
qed

subsection \<open>The properties\<close>

text \<open>
  C4: Copying an object, with any conflict policy and target, keeps all stored bytes: every byte
  sequence that some object held before is held afterwards, whether the copy succeeds, is skipped or
  fails, when nobody else writes to the bucket, no answer of a call is lost and the recovery keys to be
  drawn are not in use. This is for copies that save what they replace (\<open>allowRecovery\<close>,
  the default); the copies of prepared artifacts are made without it and are not covered.
\<close>

theorem copy_keeps_bytes:
  assumes "quiet sv" and "fresh_keys sv (w_bucket w, w_minted w)" and "held c (w_bucket w)"
  shows "held c (w_bucket (snd (copyObject sv source target conflict roots True moving op w)))"
proof -
  obtain r w' where run: "copyObject sv source target conflict roots True moving op w = (r, w')"
    by (cases "copyObject sv source target conflict roots True moving op w")
  have "kept (w_bucket w) (storage_of w')"
    using triple_run [OF triple_copyObject [OF assms(1,2)] _ run]
    by (cases r) (simp_all add: storage_of_def copy_done_def)
  thus ?thesis using assms(3) by (simp add: run kept_def storage_of_def)
qed

text \<open>
  C7: Moving or copying one object of a folder job keeps all stored bytes, whether it succeeds, is
  skipped or is refused: the source is turned into a marker only when its bytes lie at another key. This
  holds when nobody else writes to the bucket, no answer of a call is lost (a call may fail) and the
  recovery keys to be drawn are not in use; when the target key differs from the source key and the
  source is not itself a publication of this job; when every object that carries the etag of the source
  as the mark of a resumed copy has its bytes; and when the source is not a manifest of previews, whose
  bytes are rewritten on purpose. Without the second condition bytes can be lost, as
  \<open>lost_answer_loses_bytes\<close> shows.
\<close>

theorem move_keeps_bytes:
  assumes "quiet sv" and "fresh_keys sv (w_bucket w, w_minted w)"
    and "target @ drop (length source) (r2_key obj) \<noteq> r2_key obj"
    and "foreign_source (w_bucket w) (r2_key obj) (Some (suffix_op jid (r2_etag obj)))"
    and "honest_marks sv (w_bucket w) (r2_key obj)" and "plain_source sv (w_bucket w) (r2_key obj)"
    and "held c (w_bucket w)"
  shows "held c (w_bucket (snd (folder_item sv jid source target conflict moving obj w)))"
proof -
  obtain r w' where run: "folder_item sv jid source target conflict moving obj w = (r, w')"
    by (cases "folder_item sv jid source target conflict moving obj w")
  have "kept (w_bucket w) (storage_of w')"
    using triple_run [OF triple_folder_item [OF assms(1-6)] _ run]
    by (cases r) (simp_all add: storage_of_def)
  thus ?thesis using assms(7) by (simp add: run kept_def storage_of_def)
qed

end
