(* ===== verification/R2_Frames.thy ===== *)
theory R2_Frames
  imports R2_Jobs
begin

section \<open>Handlers that leave a table alone\<close>

text \<open>
  Most handlers touch only the fields of \<open>world\<close>. The locale names a statement that no such change can
  break; inside it every handler that works on those fields alone is shown to keep the statement, for
  any environment whose turns keep it. Each table with an invariant of its own is an instance.
\<close>

definition turns_keep :: "'x world_scheme services \<Rightarrow> ('x world_scheme \<Rightarrow> bool) \<Rightarrow> bool" where
  "turns_keep sv P \<longleftrightarrow> (\<forall>n w. P w \<longrightarrow> P (sv_turn sv n w))"

named_theorems keeping \<open>handlers that keep a statement\<close>

lemma keeps_if [intro]: "(c \<Longrightarrow> keeps P x) \<Longrightarrow> (\<not> c \<Longrightarrow> keeps P y) \<Longrightarrow> keeps P (if c then x else y)"
  by simp

lemma keeps_option [intro]:
  "(v = None \<Longrightarrow> keeps P x) \<Longrightarrow> (\<And>y. v = Some y \<Longrightarrow> keeps P (f y)) \<Longrightarrow> keeps P (case v of None \<Rightarrow> x | Some y \<Rightarrow> f y)"
  by (cases v) auto

lemma keeps_prod [intro]: "(\<And>a b. v = (a, b) \<Longrightarrow> keeps P (f a b)) \<Longrightarrow> keeps P (case v of (a, b) \<Rightarrow> f a b)"
  by (cases v) auto

lemma keeps_got [intro]:
  "keeps P x \<Longrightarrow> (\<And>y. keeps P (f y)) \<Longrightarrow> (\<And>y. keeps P (g y)) \<Longrightarrow> keeps P (case v of Missing \<Rightarrow> x | No_body y \<Rightarrow> f y | Body y \<Rightarrow> g y)"
  by (cases v) auto

lemma keeps_conflict [intro]:
  "keeps P a \<Longrightarrow> keeps P b \<Longrightarrow> keeps P c \<Longrightarrow> keeps P d \<Longrightarrow>
   keeps P (case v of Fail \<Rightarrow> a | Skip \<Rightarrow> b | Replace \<Rightarrow> c | Rename \<Rightarrow> d)"
  by (cases v) auto

locale bystander =
  fixes P :: "'x world_scheme \<Rightarrow> bool"
  assumes on_bucket: "P w \<Longrightarrow> P (w\<lparr>w_bucket := b\<rparr>)"
    and on_index: "P w \<Longrightarrow> P (w\<lparr>w_index := i\<rparr>)"
    and on_locations: "P w \<Longrightarrow> P (w\<lparr>w_locations := l\<rparr>)"
    and on_recovery: "P w \<Longrightarrow> P (w\<lparr>w_recovery := r\<rparr>)"
    and on_suppressions: "P w \<Longrightarrow> P (w\<lparr>w_suppressions := u\<rparr>)"
    and on_outbox: "P w \<Longrightarrow> P (w\<lparr>w_outbox := e\<rparr>)"
    and on_calls: "P w \<Longrightarrow> P (w\<lparr>w_calls := n\<rparr>)"
    and on_minted: "P w \<Longrightarrow> P (w\<lparr>w_minted := n\<rparr>)"
begin

lemma keeps_await:
  assumes "turns_keep sv P" and "\<And>w. P w \<Longrightarrow> P (snd (call w))"
  shows "keeps P (await sv call)"
  unfolding keeps_def
proof (intro allI impI)
  fix w assume "P w"
  hence "P (tick sv w)" using assms(1) by (simp add: tick_def turns_keep_def on_calls)
  thus "P (snd (await sv call w))" using assms(2) by (simp add: await_cases split: outcome.split)
qed

lemma keeps_fresh: "keeps P (fresh sv)"
  by (simp add: keeps_def fresh_def on_minted)

lemma base_calls:
  assumes "P w"
  shows "P (snd (send e w))" "P (snd (r2_head k w))" "P (snd (r2_get k c w))" "P (snd (r2_delete k w))"
    "P (snd (r2_list sv p l cur st w))" "P (snd (run_index stmt w))" "P (snd (insert_recovery row w))"
    "P (snd (delete_recovery rid w))" "P (snd (set_recovery_etag rid et b w))" "P (snd (read_observation k w))"
    "P (snd (legacy_upsert k r f w))" "P (snd (index_lookup k w))" "P (snd (delete_locations k t w))"
    "P (snd (r2_put sv k body cond http custom w))" "P (snd (delete_index_by_etag k t w))" "P (snd (delete_moved_state k t v m w))"
  using assms
  by (auto simp: send_def r2_head_def r2_get_def r2_delete_def r2_list_def run_index_def insert_recovery_def
      delete_recovery_def set_recovery_etag_def read_observation_def legacy_upsert_def index_lookup_def delete_locations_def
      r2_put_def delete_index_by_etag_def delete_moved_state_def Let_def
      intro: on_bucket on_index on_locations on_recovery on_outbox on_minted
      intro!: on_minted [OF on_bucket] on_index [OF on_locations] split: option.split prod.split)

lemmas keeps_steps = keeps_ret keeps_bind keeps_catch keeps_await keeps_fresh keeps_if keeps_option keeps_prod keeps_got
  keeps_conflict base_calls

lemma keeps_observe: "turns_keep sv P \<Longrightarrow> keeps P (observe sv key)"
  unfolding observe_def by (auto intro!: keeps_steps)

lemma keeps_run_repair: "turns_keep sv P \<Longrightarrow> keeps P (run_repair sv snapshot obj stream)"
  unfolding run_repair_def await_prepared_def
  by (cases "validateObserved (sv_index sv) snapshot (as_observed obj) stream")
    (auto intro!: keeps_ret keeps_await base_calls split: sum.split)

lemma keeps_repair_attempts: "turns_keep sv P \<Longrightarrow> keeps P (repair_attempts sv expected stream n)"
  by (induction n) (auto intro!: keeps_steps keeps_observe keeps_run_repair)

lemma keeps_repair: "turns_keep sv P \<Longrightarrow> keeps P (repairProviderAwareFileIndex sv expected stream)"
  by (simp add: repairProviderAwareFileIndex_def keeps_repair_attempts)

lemma keeps_index_copy: "turns_keep sv P \<Longrightarrow> keeps P (index_copy sv indexed resolved obj)"
  unfolding index_copy_def Let_def by (auto intro!: keeps_steps keeps_repair)

lemma keeps_pages: "turns_keep sv P \<Longrightarrow> keeps P (prefix_pages sv prefix n cursor markers)"
  by (induction n arbitrary: cursor markers) (auto intro!: keeps_steps)

lemma keeps_prefix_state: "turns_keep sv P \<Longrightarrow> keeps P (prefixObjectState sv prefix)"
  by (simp add: prefixObjectState_def keeps_pages)

lemma keeps_ensureSource: "turns_keep sv P \<Longrightarrow> keeps P (ensureSource sv key allow)"
  unfolding ensureSource_def by (auto intro!: keeps_steps keeps_prefix_state)

lemma keeps_free_name: "turns_keep sv P \<Longrightarrow> keeps P (free_name sv target op e is)"
  by (induction "is") (auto simp: Let_def intro!: keeps_steps)

lemma keeps_targetName: "turns_keep sv P \<Longrightarrow> keeps P (targetName sv target conflict op e)"
  unfolding targetName_def by (auto intro!: keeps_steps keeps_free_name)

lemma keeps_folder_taken: "turns_keep sv P \<Longrightarrow> keeps P (folder_taken sv key prefix)"
  unfolding folder_taken_def by (auto intro!: keeps_steps keeps_prefix_state)

lemma keeps_free_folder: "turns_keep sv P \<Longrightarrow> keeps P (free_folder sv parent name is)"
  by (induction "is") (auto simp: Let_def intro!: keeps_steps keeps_folder_taken)

lemma keeps_targetFolderName: "turns_keep sv P \<Longrightarrow> keeps P (targetFolderName sv target conflict)"
  unfolding targetFolderName_def Let_def by (auto intro!: keeps_steps keeps_folder_taken keeps_free_folder)

lemma keeps_save: "turns_keep sv P \<Longrightarrow> keeps P (save_replaced sv conflict allow resolved resumed d)"
  unfolding save_replaced_def save_existing_def put_got_def Let_def by (auto intro!: keeps_steps)

lemma keeps_publish: "turns_keep sv P \<Longrightarrow> keeps P (publish_copy sv t body baseline http custom resumed recovery)"
  unfolding publish_copy_def by (auto intro!: keeps_steps)

lemma keeps_choose: "turns_keep sv P \<Longrightarrow> keeps P (choose_destination sv target conflict op e resolved resumed)"
  unfolding choose_destination_def Let_def by (auto intro!: keeps_steps keeps_targetName)

lemma keeps_copy_to:
  "turns_keep sv P \<Longrightarrow> keeps P (copy_to sv source target conflict roots allow moving op src e resolved)"
  unfolding copy_to_def Let_def by (auto intro!: keeps_steps keeps_choose keeps_save keeps_publish keeps_index_copy)

lemma keeps_copyObject:
  "turns_keep sv P \<Longrightarrow> keeps P (copyObject sv source target conflict roots allow moving op)"
  unfolding copyObject_def copy_from_marker_def Let_def by (auto intro!: keeps_steps keeps_targetName keeps_copy_to)

lemma keeps_retire: "turns_keep sv P \<Longrightarrow> keeps P (retireMovedSource sv source e target version)"
  unfolding retireMovedSource_def Let_def by (auto intro!: keeps_steps)

lemma keeps_repair_if: "turns_keep sv P \<Longrightarrow> keeps P (repair_if_replaced sv obj)"
  unfolding repair_if_replaced_def repairMovedSourceReplacement_def by (auto intro!: keeps_steps keeps_repair)

lemma keeps_cleanup: "turns_keep sv P \<Longrightarrow> keeps P (cleanupMovedSourceState sv source e expected)"
  unfolding cleanupMovedSourceState_def Let_def by (auto intro!: keeps_steps keeps_observe keeps_repair_if)

lemma keeps_finish_move: "turns_keep sv P \<Longrightarrow> keeps P (finish_move sv source target r)"
  unfolding finish_move_def Let_def by (auto intro!: keeps_steps keeps_retire keeps_cleanup)

lemma keeps_copy_artifact: "turns_keep sv P \<Longrightarrow> keeps P (copy_artifact sv source target sp tp move op obj)"
  unfolding copy_artifact_def Let_def by (auto intro!: keeps_steps keeps_copyObject keeps_retire)

lemma keeps_artifact_pages: "turns_keep sv P \<Longrightarrow> keeps P (artifact_pages sv source target move op n cursor)"
  by (induction n arbitrary: cursor) (auto simp: Let_def intro!: keeps_steps keeps_for_each keeps_copy_artifact)

lemma keeps_artifacts: "turns_keep sv P \<Longrightarrow> keeps P (copyPreparedArtifacts sv source target move op)"
  by (simp add: copyPreparedArtifacts_def keeps_artifact_pages)

lemma keeps_folder_item: "turns_keep sv P \<Longrightarrow> keeps P (folder_item sv jid source target conflict moving obj)"
  unfolding folder_item_def Let_def by (auto intro!: keeps_steps keeps_copyObject keeps_finish_move)

lemma keeps_division: "turns_keep sv P \<Longrightarrow> keeps P (divisionForKey sv key)"
  unfolding divisionForKey_def by (auto intro!: keeps_steps)

lemma keeps_permission:
  "turns_keep sv P \<Longrightarrow> (\<And>name d. keeps P (permit name d)) \<Longrightarrow> keeps P (requireCrudPermission sv permit required key)"
  unfolding requireCrudPermission_def by (auto intro!: keeps_steps keeps_division)

end

text \<open>The same for statements that changes of shares and projects cannot break.\<close>

locale share_bystander = bystander P for P :: "'x share_world_scheme \<Rightarrow> bool" +
  assumes on_shares: "P w \<Longrightarrow> P (w\<lparr>sw_shares := s\<rparr>)"
    and on_projects: "P w \<Longrightarrow> P (w\<lparr>sw_projects := p\<rparr>)"
begin

lemma revoke_keep: "P w \<Longrightarrow> P (revoke_share sid w)"
proof -
  assume "P w"
  hence "P (w\<lparr>sw_shares := map (\<lambda>s. if sh_id s = sid \<and> sh_revoked s = None
      then s\<lparr>sh_revoked := Some (w_now w, ''staff_r2_mutation''), sh_version := sh_version s + 1\<rparr> else s) (sw_shares w),
      w_outbox := w_outbox w @ [Audit ''share.auto_revoked'' sid]\<rparr>)"
    by (intro on_outbox on_shares)
  thus ?thesis by (simp add: revoke_share_def)
qed

lemma revoke_keeps: "P w \<Longrightarrow> P (fold (\<lambda>(sid, pid, root). revoke_share sid) rows w)"
  by (rule fold_invariant [where Q = "\<lambda>_. True"]) (auto intro: revoke_keep)

lemma move_shares_keep: "P w \<Longrightarrow> P (fold (\<lambda>(sid, pid, root). move_share sid (f root)) rows w)"
  by (rule fold_invariant [where Q = "\<lambda>_. True"]) (auto simp: move_share_def intro: on_shares)

lemma move_projects_keep: "P w \<Longrightarrow> P (fold (\<lambda>(pid, next). move_project pid next) rows w)"
  by (rule fold_invariant [where Q = "\<lambda>_. True"]) (auto simp: move_project_def intro: on_projects)

lemma keeps_shares: "turns_keep sv P \<Longrightarrow> keeps P (finalizeMovedShares sv source target keep)"
  unfolding finalizeMovedShares_def keepImpactedShares_def revokeImpactedShares_def Let_def
  by (auto intro!: keeps_steps revoke_keeps move_shares_keep move_projects_keep)

lemma keeps_batch_item: "turns_keep sv P \<Longrightarrow> keeps P (batch_item sv jid i op)"
  unfolding batch_item_def Let_def
  by (auto intro!: keeps_steps keeps_ensureSource keeps_copyObject keeps_artifacts keeps_finish_move keeps_shares)

end

end
