(* ===== verification/R2_Job_States.thy ===== *)
theory R2_Job_States
  imports R2_Frames
begin

section \<open>The life of a job\<close>

text \<open>
  What other processors may do to a job. \<open>job_bystander\<close> collects what a statement about the job table
  needs to survive one run of \<open>processJob\<close>; it is used twice: for a job that has ended, and for a job
  under a lease. The environment is arbitrary as long as its turns keep the statement, so the results
  hold for every interleaving with other processors, whichever calls fail.
\<close>

subsection \<open>Updates of the job table\<close>

lemma update_job_other:
  assumes "j \<in> set (jw_jobs w)" and "jb_id j = jid \<Longrightarrow> \<not> guard (w_now w) j"
  shows "j \<in> set (jw_jobs (snd (update_job jid guard change w)))"
  using assms by (force simp: update_job_def Let_def image_iff)

lemma update_job_ids:
  assumes "\<And>now j. jb_id (change now j) = jb_id j"
  shows "map jb_id (jw_jobs (snd (update_job jid guard change w))) = map jb_id (jw_jobs w)"
  by (simp add: update_job_def Let_def assms comp_def if_distrib)

lemma update_job_now [simp]: "w_now (snd (update_job jid guard change w)) = w_now w"
  by (simp add: update_job_def Let_def)

lemma claim_job_world: "snd (claim_job token jid w) = snd (update_job jid claimable_job (claimed_row token) w)"
  by (simp add: claim_job_def split: prod.split)

lemmas settle_defs = complete_job_def progress_job_def fail_job_def requeue_job_def settled_row_def

subsection \<open>One run of a processor\<close>

locale job_bystander = share_bystander P for P :: "'x job_world_scheme \<Rightarrow> bool" +
  fixes mine :: "job_row \<Rightarrow> bool"
  assumes on_claim: "P w \<Longrightarrow> P (snd (claim_job token jid w))"
    and claims_mine: "P w \<Longrightarrow> fst (claim_job token jid w) = Some job \<Longrightarrow> mine job"
    and on_complete: "P w \<Longrightarrow> mine job \<Longrightarrow> P (snd (complete_job token (jb_id job) n f w))"
    and on_progress: "P w \<Longrightarrow> mine job \<Longrightarrow> P (snd (progress_job token (jb_id job) c n f w))"
    and on_fail: "P w \<Longrightarrow> mine job \<Longrightarrow> P (snd (fail_job token (jb_id job) m w))"
    and on_requeue: "P w \<Longrightarrow> mine job \<Longrightarrow> P (snd (requeue_job token (jb_id job) m d w))"
begin

lemma keeps_batch_turn: "turns_keep sv P \<Longrightarrow> mine job \<Longrightarrow> keeps P (batch_turn sv token job)"
  unfolding batch_turn_def Let_def
  by (auto intro!: keeps_steps keeps_for_each keeps_batch_item on_complete on_progress)

lemma keeps_finish_folder: "turns_keep sv P \<Longrightarrow> mine job \<Longrightarrow> keeps P (finish_folder sv token job source target n)"
  unfolding finish_folder_def by (auto intro!: keeps_steps keeps_shares on_complete)

lemma keeps_folder_turn: "turns_keep sv P \<Longrightarrow> mine job \<Longrightarrow> keeps P (folder_turn sv token job)"
  unfolding folder_turn_def Let_def
  by (auto intro!: keeps_steps keeps_for_each keeps_folder_item keeps_finish_folder on_progress)

lemma keeps_settle: "turns_keep sv P \<Longrightarrow> mine job \<Longrightarrow> keeps P (settle_failure sv token job f)"
  unfolding settle_failure_def Let_def by (auto intro!: keeps_steps on_fail on_requeue)

lemma keeps_turn: "turns_keep sv P \<Longrightarrow> mine job \<Longrightarrow>
  keeps P (catch_io (if jb_kind job = Batch_job then batch_turn sv token job else folder_turn sv token job) (settle_failure sv token job))"
  by (auto intro!: keeps_catch keeps_batch_turn keeps_folder_turn keeps_settle)

lemma keeps_await_claim:
  assumes t: "turns_keep sv P" and k: "\<And>job. mine job \<Longrightarrow> keeps P (k (Some job))" "keeps P (k None)"
  shows "keeps P (bind_io (await sv (claim_job token jid)) k)"
  unfolding keeps_def
proof (intro allI impI)
  fix w assume "P w"
  hence tick: "P (tick sv w)" using t by (simp add: tick_def turns_keep_def on_calls)
  have claim: "keeps P (k (fst (claim_job token jid (tick sv w))))"
    using k claims_mine [OF tick] by (cases "fst (claim_job token jid (tick sv w))") auto
  show "P (snd (bind_io (await sv (claim_job token jid)) k w))"
    using tick on_claim [OF tick] claim
    by (simp add: bind_io_def await_cases keeps_def split: outcome.split)
qed

lemma keeps_processJob: "turns_keep sv P \<Longrightarrow> keeps P (processJob sv jid)"
  unfolding processJob_def
  by (rule keeps_bind [OF keeps_fresh keeps_await_claim]) (simp_all only: option.case keeps_turn keeps_ret)

lemma keeps_queue: "turns_keep sv P \<Longrightarrow> keeps P (processR2OperationJobs sv)"
  unfolding processR2OperationJobs_def by (auto intro!: keeps_steps keeps_for_each keeps_processJob)

lemma keeps_step: "turns_keep sv P \<Longrightarrow> keeps P (workflow_step sv jid)"
  unfolding workflow_step_def Let_def by (auto intro!: keeps_steps keeps_processJob)

lemma keeps_startJob: "turns_keep sv P \<Longrightarrow> keeps P (startJob sv jid i)"
  unfolding startJob_def by (auto intro!: keeps_steps keeps_processJob)

end

subsection \<open>Ended jobs\<close>

definition ended_job :: "job_row \<Rightarrow> bool" where
  "ended_job j \<longleftrightarrow> jb_status j \<in> {Completed, Cancelled}"

definition stays :: "job_row \<Rightarrow> 'x job_world_scheme \<Rightarrow> bool" where
  "stays j w \<longleftrightarrow> ended_job j \<and> j \<in> set (jw_jobs w)"

lemma stays_update: "stays j w \<Longrightarrow> (\<And>now. ended_job j \<Longrightarrow> \<not> guard now j) \<Longrightarrow> stays j (snd (update_job jid guard change w))"
  by (simp add: stays_def update_job_other)

lemma stays_guards:
  "ended_job j \<Longrightarrow> \<not> claimable_job now j" "ended_job j \<Longrightarrow> \<not> owned_job token now j"
  by (auto simp: ended_job_def claimable_job_def owned_job_def)

lemma stays_fields [simp]:
  "stays j (w\<lparr>w_bucket := b\<rparr>) = stays j w" "stays j (w\<lparr>w_index := i\<rparr>) = stays j w"
  "stays j (w\<lparr>w_locations := l\<rparr>) = stays j w" "stays j (w\<lparr>w_recovery := r\<rparr>) = stays j w"
  "stays j (w\<lparr>w_suppressions := u\<rparr>) = stays j w" "stays j (w\<lparr>w_outbox := e\<rparr>) = stays j w"
  "stays j (w\<lparr>w_calls := n\<rparr>) = stays j w" "stays j (w\<lparr>w_minted := n\<rparr>) = stays j w"
  "stays j (w\<lparr>sw_shares := s\<rparr>) = stays j w" "stays j (w\<lparr>sw_projects := p\<rparr>) = stays j w"
  by (simp_all add: stays_def)

interpretation ended: job_bystander "stays j" "\<lambda>_. True" for j
  by unfold_locales (auto simp: claim_job_world settle_defs intro!: stays_update dest: stays_guards)

lemma limit_keeps: "stays j w \<Longrightarrow> stays j (snd (limit_job jid w))"
  unfolding limit_job_def by (rule stays_update) (auto simp: ended_job_def)

lemma turns_keep_ended:
  assumes t: "turns_keep sv (stays j)"
  shows "keeps (stays j) (workflow_turns sv jid n)"
proof (induction n)
  case 0
  show ?case by (auto intro!: ended.keeps_steps t limit_keeps)
next
  case (Suc n)
  thus ?case by (auto intro!: ended.keeps_steps ended.keeps_step t)
qed

lemma cancel_keeps:
  assumes t: "turns_keep sv (stays j)" and p: "\<And>name d. keeps (stays j) (permit name d)"
  shows "keeps (stays j) (cancel_route sv permit actor jid)" "keeps (stays j) (retry_route sv permit actor jid)"
proof -
  show "keeps (stays j) (cancel_route sv permit actor jid)"
    unfolding cancel_route_def
    by (auto intro!: ended.keeps_steps t p stays_update simp: ended_job_def)
  show "keeps (stays j) (retry_route sv permit actor jid)"
    unfolding retry_route_def
    by (auto intro!: ended.keeps_steps ended.keeps_startJob t p stays_update simp: ended_job_def)
qed

lemma create_keeps: "turns_keep sv (stays j) \<Longrightarrow> keeps (stays j) (createJob sv actor kind payload source target conflict)"
  unfolding createJob_def by (auto intro!: ended.keeps_steps simp: insert_job_def stays_def)

lemma route_keeps:
  assumes t: "turns_keep sv (stays j)" and p: "\<And>name d. keeps (stays j) (permit name d)"
  shows "keeps (stays j) (transfer_route sv permit actor kind source target conflict keep)"
    and "keeps (stays j) (batch_route sv permit actor requests)"
proof -
  note steps = ended.keeps_steps keeps_for_each ended.keeps_permission ended.keeps_ensureSource ended.keeps_targetFolderName
    ended.keeps_startJob create_keeps t p
  show "keeps (stays j) (transfer_route sv permit actor kind source target conflict keep)"
    unfolding transfer_route_def Let_def by (auto intro!: steps)
  show "keeps (stays j) (batch_route sv permit actor requests)"
    unfolding batch_route_def by (auto intro!: steps)
qed

text \<open>
  C12: A completed or cancelled job keeps its row for ever: no run of the processor, the queue, the
  workflow or a route changes it, in any environment that keeps it; so a cancelled job is never
  completed by a turn that was running, and none is run twice.
\<close>

theorem ended_jobs_stay:
  assumes "turns_keep sv (stays j)" and "\<And>name d. keeps (stays j) (permit name d)" and "stays j w"
  shows "stays j (snd (processJob sv jid w)) \<and> stays j (snd (processR2OperationJobs sv w)) \<and>
    stays j (snd (R2CrudWorkflow_run sv jid w)) \<and> stays j (snd (cancel_route sv permit actor jid w)) \<and>
    stays j (snd (retry_route sv permit actor jid w)) \<and>
    stays j (snd (transfer_route sv permit actor kind source target conflict keep w)) \<and>
    stays j (snd (batch_route sv permit actor requests w))"
  unfolding R2CrudWorkflow_run_def
  by (intro conjI; rule keeps_snd [of "stays j", OF _ assms(3)],
      rule ended.keeps_processJob ended.keeps_queue turns_keep_ended cancel_keeps route_keeps, (rule assms(1,2))+)

subsection \<open>Leased jobs\<close>

text \<open>A running job before the end of its lease, in a table with one row per identifier.\<close>

definition lease_runs :: "job_row \<Rightarrow> int \<Rightarrow> bool" where
  "lease_runs j now \<longleftrightarrow> (case jb_lease j of None \<Rightarrow> False | Some t \<Rightarrow> now < t)"

definition leased :: "job_row \<Rightarrow> 'x job_world_scheme \<Rightarrow> bool" where
  "leased j w \<longleftrightarrow> jb_status j = Running \<and> j \<in> set (jw_jobs w) \<and> distinct (map jb_id (jw_jobs w)) \<and>
     lease_runs j (w_now w)"

lemma leased_fields [simp]:
  "leased j (w\<lparr>w_bucket := b\<rparr>) = leased j w" "leased j (w\<lparr>w_index := i\<rparr>) = leased j w"
  "leased j (w\<lparr>w_locations := l\<rparr>) = leased j w" "leased j (w\<lparr>w_recovery := r\<rparr>) = leased j w"
  "leased j (w\<lparr>w_suppressions := u\<rparr>) = leased j w" "leased j (w\<lparr>w_outbox := e\<rparr>) = leased j w"
  "leased j (w\<lparr>w_calls := n\<rparr>) = leased j w" "leased j (w\<lparr>w_minted := n\<rparr>) = leased j w"
  "leased j (w\<lparr>sw_shares := s\<rparr>) = leased j w" "leased j (w\<lparr>sw_projects := p\<rparr>) = leased j w"
  by (simp_all add: leased_def)

lemma leased_update:
  assumes "leased j w" and "jb_id j = jid \<Longrightarrow> \<not> guard (w_now w) j" and "\<And>now j. jb_id (change now j) = jb_id j"
  shows "leased j (snd (update_job jid guard change w))"
  using assms(1) update_job_other [of j w jid guard, OF _ assms(2)] update_job_ids [of change jid guard w, OF assms(3)]
  by (simp add: leased_def)

lemma leased_not_claimable: "leased j w \<Longrightarrow> \<not> claimable_job (w_now w) j"
  by (auto simp: leased_def lease_runs_def claimable_job_def due_def split: option.splits)

lemma claimed_row_id: "jb_id (claimed_row token now j) = jb_id j"
  by (simp add: claimed_row_def)

lemma claim_of_leased:
  assumes "leased j w" and "fst (claim_job token jid w) = Some job"
  shows "jb_id job \<noteq> jb_id j"
proof
  assume same: "jb_id job = jb_id j"
  let ?hit = "\<lambda>x. jb_id x = jid \<and> claimable_job (w_now w) x"
  have "length (filter ?hit (jw_jobs w)) \<noteq> 0" and job: "find_job jid (snd (claim_job token jid w)) = Some job"
    using assms(2) by (auto simp: claim_job_def update_job_def Let_def split: if_splits prod.splits)
  then obtain x where x: "x \<in> set (jw_jobs w)" "?hit x" by (auto simp: filter_empty_conv)
  have "jb_id job = jid" using job by (auto simp: find_job_def find_Some_iff)
  hence "jb_id x = jb_id j" using x same by simp
  hence "x = j" using x assms(1) by (auto simp: leased_def distinct_map dest: inj_onD)
  thus False using x leased_not_claimable [OF assms(1)] by simp
qed

interpretation lease: job_bystander "leased j" "\<lambda>job. jb_id job \<noteq> jb_id j" for j
  by unfold_locales
    (auto simp: claim_job_world settle_defs claimed_row_id leased_not_claimable dest: claim_of_leased intro!: leased_update)

text \<open>
  C24: While a lease lasts, the job it protects is processed by nobody else: any further run of the
  processor, of the queue or of the start of a job leaves its row alone, in any environment that does so
  and ends within the lease. The statement is not about the end of a workflow run after 10,000 turns,
  which fails the job without looking at the lease.
\<close>

theorem lease_excludes_others:
  assumes "turns_keep sv (leased j)" and "leased j w"
  shows "leased j (snd (processJob sv jid w)) \<and> leased j (snd (processR2OperationJobs sv w)) \<and>
    leased j (snd (startJob sv jid i w))"
  by (intro conjI; rule keeps_snd [of "leased j", OF _ assms(2)],
      rule lease.keeps_processJob lease.keeps_queue lease.keeps_startJob, rule assms(1))

end
