(* ===== verification/R2_Recovery.thy ===== *)
theory R2_Recovery
  imports R2_Move
begin

section \<open>Replaced objects and their restoration\<close>

text \<open>
  \<open>refreshFileIndexAndThumbnail\<close>, \<open>purgeReplacementRecovery\<close> and the routes that list and restore
  replaced objects, of \<open>apps/operations/src/worker/r2-crud.ts\<close>, with \<open>canonicalThumbnailSourceKey\<close> of
  \<open>image-thumbnails.ts\<close>.
\<close>

definition canonicalThumbnailSourceKey :: "path_runtime \<Rightarrow> ustring \<Rightarrow> bool" where
  "canonicalThumbnailSourceKey rt key \<longleftrightarrow>
     starts_with key (ustr ''Jobs/'') \<and> js_length key \<le> 1024 \<and> 92 \<notin> set key \<and> \<not> list_ex control_char key \<and>
     list_all (\<lambda>part. part \<noteq> [] \<and> part \<noteq> [46] \<and> part \<noteq> [46, 46] \<and>
       pr_lower rt part \<notin> {ustr ''_ltds'', ustr ''.previews'', ustr ''dump''}) (split_on 47 key)"

definition video_status :: "ustring \<Rightarrow> ustring option" where
  "video_status kind = (if kind = ustr ''video'' then Some (ustr ''disabled'') else None)"

definition indexed_values :: "'w services \<Rightarrow> r2_object \<Rightarrow> ustring \<Rightarrow> index_row \<Rightarrow> index_row" where
  "indexed_values sv obj contentType r = r
     \<lparr>ir_etag := http_etag obj, ir_size := int (length (r2_body obj)), ir_uploaded := xr_iso (sv_index sv) (r2_uploaded obj),
      ir_type := Some contentType, ir_kind := mediaKind (sv_index sv) (r2_key obj)\<rparr>"

definition refreshFileIndexAndThumbnail ::
  "'x world_scheme services \<Rightarrow> r2_object \<Rightarrow> ustring \<Rightarrow> ('x world_scheme, unit) io" where
  "refreshFileIndexAndThumbnail sv obj contentType =
     bind_io
       (if sv_recovery sv then
          bind_io (repairProviderAwareFileIndex sv obj (Some
            \<lparr>ss_uid = None, ss_status = video_status (mediaKind (sv_index sv) (r2_key obj)), ss_error = None,
             ss_url = Some None, ss_offset = Some (Some 0)\<rparr>)) (\<lambda>indexed.
          ret (indexed, case content_type_of indexed of Some t \<Rightarrow> t | None \<Rightarrow> contentType))
        else
          bind_io (await sv (legacy_upsert (r2_key obj) (indexed_values sv obj contentType empty_row)
            (\<lambda>r. (indexed_values sv obj contentType r)
              \<lparr>ir_stream_uid := None, ir_stream_status := video_status (mediaKind (sv_index sv) (r2_key obj)),
               ir_upload_url := None, ir_upload_offset := Some 0, ir_stream_error := None\<rparr>))) (\<lambda>_.
          ret (obj, contentType)))
       (\<lambda>(indexed, indexedType).
        if canonicalThumbnailSourceKey (sv_paths sv) (r2_key indexed) then
          if sv_supported sv (r2_key indexed) indexedType
          then await sv (send (Enqueue_thumbnail (r2_key indexed) (http_etag indexed) (length (r2_body indexed))))
          else await sv (send (Remove_thumbnail (r2_key indexed) None))
        else ret ())"

subsection \<open>Purging\<close>

definition purge_row :: "'x world_scheme services \<Rightarrow> recovery_row \<Rightarrow> ('x world_scheme, unit) io" where
  "purge_row sv row =
     bind_io (await sv (r2_delete (rr_recovery_key row))) (\<lambda>_. await sv (delete_recovery (rr_id row)))"

definition purgeReplacementRecovery :: "'x world_scheme services \<Rightarrow> ('x world_scheme, nat) io" where
  "purgeReplacementRecovery sv =
     bind_io (await sv (\<lambda>w. (take 25 (sort_key rr_purge_after (filter (\<lambda>r. rr_purge_after r \<le> w_now w) (w_recovery w))), w)))
       (\<lambda>rows.
        bind_io (for_each rows (purge_row sv)) (\<lambda>_.
        bind_io (await sv (\<lambda>w. ((), w\<lparr>w_suppressions := filter (\<lambda>(k, t). \<not> t \<le> w_now w) (w_suppressions w)\<rparr>))) (\<lambda>_.
        ret (length rows))))"

subsection \<open>Routes\<close>

text \<open>The rows a member may see, up to 100; a refusal of status 403 or 404 skips the row.\<close>

fun visible_rows ::
  "'x world_scheme services \<Rightarrow> 'x world_scheme permit \<Rightarrow> recovery_row list \<Rightarrow> recovery_row list \<Rightarrow>
   ('x world_scheme, recovery_row list) io" where
  "visible_rows sv permit [] visible = ret visible"
| "visible_rows sv permit (row # rest) visible =
     bind_io
       (catch_io (bind_io (requireCrudPermission sv permit ''delivery.delete'' (rr_original_key row)) (\<lambda>_. ret True))
         (\<lambda>f. case f of
            Http status m \<Rightarrow> if status = 403 \<or> status = 404 then ret False else raise f
          | Failed m \<Rightarrow> raise f))
       (\<lambda>allowed.
        if allowed then
          let visible = visible @ [row] in
          if length visible \<ge> 100 then ret visible else visible_rows sv permit rest visible
        else visible_rows sv permit rest visible)"

definition replacements_route ::
  "'x world_scheme services \<Rightarrow> 'x world_scheme permit \<Rightarrow> bool \<Rightarrow> ('x world_scheme, recovery_row list) io" where
  "replacements_route sv permit administrator =
     bind_io (if administrator then permit ''delivery.delete'' None else ret ()) (\<lambda>_.
     bind_io (await sv (\<lambda>w. (take 500 (sort_key (\<lambda>r. - rr_created_at r) (w_recovery w)), w))) (\<lambda>rows.
     if administrator then ret (take 100 rows) else visible_rows sv permit rows []))"

text \<open>
  Restoring: only over the very object that replaced the original. The result of the replacement may be
  learnt from the object itself when its entity tag was never recorded.
\<close>

definition learn_result ::
  "'x world_scheme services \<Rightarrow> recovery_row \<Rightarrow> r2_object option \<Rightarrow> ('x world_scheme, ustring option) io" where
  "learn_result sv row current =
     (case current of
        Some obj \<Rightarrow>
          if \<not> truthy (rr_result_etag row) \<and> meta obj ''replacementRecoveryId'' = Some (rr_id row)
          then bind_io (await sv (set_recovery_etag (rr_id row) (http_etag obj) True)) (\<lambda>_. ret (Some (http_etag obj)))
          else ret (rr_result_etag row)
      | None \<Rightarrow> ret (rr_result_etag row))"

definition publish_restored ::
  "'x world_scheme services \<Rightarrow> recovery_row \<Rightarrow> ustring option \<Rightarrow> r2_object option \<Rightarrow> ('x world_scheme, r2_object) io" where
  "publish_restored sv row result current =
     (if \<not> truthy result \<or> (case current of None \<Rightarrow> True | Some obj \<Rightarrow> Some (http_etag obj) \<noteq> result)
      then raise (Http 409 ''The replacement destination changed; recovery was preserved'')
      else
        bind_io (await sv (r2_get (rr_recovery_key row) Unconditional)) (\<lambda>got.
        case got of
          Body obj \<Rightarrow>
            bind_io (await sv (r2_put sv (rr_original_key row) (r2_body obj) (If_match (the result)) (r2_http obj)
              (spread (r2_meta obj) [(ustr ''replacementRecoveryRestore'', rr_id row)]))) (\<lambda>published.
            case published of
              None \<Rightarrow> raise (Http 409 ''The replacement destination changed; recovery was preserved'')
            | Some p \<Rightarrow> ret p)
        | _ \<Rightarrow> raise (Http 410 ''Replacement recovery object is unavailable'')))"

definition restore_route ::
  "'x world_scheme services \<Rightarrow> 'x world_scheme permit \<Rightarrow> ustring \<Rightarrow> ('x world_scheme, ustring) io" where
  "restore_route sv permit rid =
     bind_io (await sv (\<lambda>w. (find (\<lambda>r. rr_id r = rid) (w_recovery w), w))) (\<lambda>found.
     case found of
       None \<Rightarrow> raise (Http 404 ''Replacement recovery item not found'')
     | Some row \<Rightarrow>
         bind_io (requireCrudPermission sv permit ''delivery.files.restore'' (rr_original_key row)) (\<lambda>_.
         bind_io (await sv (r2_head (rr_original_key row))) (\<lambda>current.
         bind_io (learn_result sv row current) (\<lambda>result.
         bind_io
           (case current of
              Some obj \<Rightarrow>
                if meta obj ''replacementRecoveryRestore'' = Some (rr_id row) then ret obj
                else publish_restored sv row result current
            | None \<Rightarrow> publish_restored sv row result current) (\<lambda>restored.
         bind_io (refreshFileIndexAndThumbnail sv restored
           (case content_type_of restored of Some t \<Rightarrow> t | None \<Rightarrow> xr_mime (sv_index sv) (rr_original_key row))) (\<lambda>_.
         bind_io (await sv (r2_delete (rr_recovery_key row))) (\<lambda>_.
         bind_io (await sv (delete_recovery (rr_id row))) (\<lambda>_.
         bind_io (await sv (send (Audit ''delivery.replacement.restored'' (rr_original_key row)))) (\<lambda>_.
         ret (http_etag restored))))))))))"

end
