(* ===== verification/R2_Uploads.thy ===== *)
theory R2_Uploads
  imports R2_Recovery "HOL-Library.List_Lexorder"
begin

section \<open>Browser uploads: data, cleanup and expiry\<close>

text \<open>
  The upload half of \<open>apps/operations/src/worker/r2-crud.ts\<close>: intents, their files, sessions and
  parts, and the operations that finish, clean up and expire sessions. The multipart calls of the
  bucket, the fingerprint of a request and the test for an error code of the bucket are parameters.
  Every session belongs to an intent, as those that this code opens do; older rows are not modelled.
\<close>

subsection \<open>Tables\<close>

datatype session_status = Active | Completing | Session_completed | Aborted | Expired
datatype cleanup_status = Not_due | Cleanup_pending | Cleanup_complete | Cleanup_failed

record session_row =
  us_id :: ustring
  us_upload_id :: ustring
  us_object_key :: ustring
  us_staging_key :: "ustring option"
  us_expected_size :: nat
  us_content_type :: ustring
  us_part_size :: nat
  us_status :: session_status
  us_created_by :: ustring
  us_expires :: int
  us_intent :: ustring
  us_ordinal :: nat
  us_policy :: ConflictPolicy
  us_result_key :: "ustring option"
  us_result_etag :: "ustring option"
  us_claimed_at :: "int option"
  us_baseline :: ustring
  us_recovery_id :: "ustring option"
  us_cleanup :: cleanup_status
  us_cleanup_attempts :: nat
  us_cleanup_next :: "int option"
  us_cleanup_claimed :: "int option"
  us_cleanup_error :: "string option"
  us_completed_at :: "int option"

record part_row =
  pt_session :: ustring
  pt_number :: nat
  pt_etag :: ustring
  pt_size :: nat

datatype intent_status = Intent_active | Intent_completed | Intent_aborted | Intent_expired

record intent_row =
  it_id :: ustring
  it_created_by :: ustring
  it_idempotency :: ustring
  it_fingerprint :: ustring
  it_root :: ustring
  it_file_count :: nat
  it_total :: int
  it_status :: intent_status
  it_expires :: int
  it_completed :: "int option"

datatype file_status = File_pending | File_uploading | File_completed | File_skipped | File_failed | File_aborted

record file_row =
  fl_intent :: ustring
  fl_ordinal :: nat
  fl_relative :: ustring
  fl_key :: ustring
  fl_size :: nat
  fl_type :: ustring
  fl_status :: file_status
  fl_session :: "ustring option"
  fl_resolution :: "ConflictPolicy option"
  fl_result_key :: "ustring option"
  fl_result_etag :: "ustring option"
  fl_error :: "string option"

record upload_world = world +
  uw_sessions :: "session_row list"
  uw_parts :: "part_row list"
  uw_intents :: "intent_row list"
  uw_files :: "file_row list"

text \<open>The multipart interface of the bucket, and what else the uploads take from outside.\<close>

record 'w multipart =
  mp_create :: "ustring \<Rightarrow> (ustring \<times> ustring) list \<Rightarrow> (ustring \<times> ustring) list \<Rightarrow> 'w \<Rightarrow> ustring \<times> 'w"
  mp_complete :: "ustring \<Rightarrow> ustring \<Rightarrow> (nat \<times> ustring) list \<Rightarrow> 'w \<Rightarrow> (fault + r2_object) \<times> 'w"
  mp_abort :: "ustring \<Rightarrow> ustring \<Rightarrow> 'w \<Rightarrow> (fault + unit) \<times> 'w"
  mp_no_such_upload :: "fault \<Rightarrow> bool"
  mp_fingerprint :: "ustring \<Rightarrow> (ustring \<times> nat \<times> ustring) list \<Rightarrow> ustring"

definition DEFAULT_UPLOAD_TTL :: int where "DEFAULT_UPLOAD_TTL = 24 * 60 * 60"
definition MAX_ACTIVE_UPLOAD_SESSIONS :: nat where "MAX_ACTIVE_UPLOAD_SESSIONS = 10"
definition MAX_UPLOAD_CLEANUP_ATTEMPTS :: nat where "MAX_UPLOAD_CLEANUP_ATTEMPTS = 8"

subsection \<open>Statements\<close>

definition update_session ::
  "ustring \<Rightarrow> (int \<Rightarrow> session_row \<Rightarrow> bool) \<Rightarrow> (int \<Rightarrow> session_row \<Rightarrow> session_row) \<Rightarrow> 'x upload_world_scheme \<Rightarrow>
   nat \<times> 'x upload_world_scheme" where
  "update_session sid guard change w =
     (let hit = (\<lambda>s. us_id s = sid \<and> guard (w_now w) s) in
      (length (filter hit (uw_sessions w)),
       w\<lparr>uw_sessions := map (\<lambda>s. if hit s then change (w_now w) s else s) (uw_sessions w)\<rparr>))"

definition update_file ::
  "ustring \<Rightarrow> nat \<Rightarrow> (file_row \<Rightarrow> bool) \<Rightarrow> (file_row \<Rightarrow> file_row) \<Rightarrow> 'x upload_world_scheme \<Rightarrow> nat \<times> 'x upload_world_scheme" where
  "update_file intent i guard change w =
     (let hit = (\<lambda>f. fl_intent f = intent \<and> fl_ordinal f = i \<and> guard f) in
      (length (filter hit (uw_files w)), w\<lparr>uw_files := map (\<lambda>f. if hit f then change f else f) (uw_files w)\<rparr>))"

definition update_intent ::
  "ustring \<Rightarrow> (intent_row \<Rightarrow> bool) \<Rightarrow> (int \<Rightarrow> intent_row \<Rightarrow> intent_row) \<Rightarrow> 'x upload_world_scheme \<Rightarrow> nat \<times> 'x upload_world_scheme" where
  "update_intent intent guard change w =
     (let hit = (\<lambda>i. it_id i = intent \<and> guard i) in
      (length (filter hit (uw_intents w)),
       w\<lparr>uw_intents := map (\<lambda>i. if hit i then change (w_now w) i else i) (uw_intents w)\<rparr>))"

text \<open>An intent is complete once each of its files is completed or skipped.\<close>

definition complete_intent :: "ustring \<Rightarrow> 'x upload_world_scheme \<Rightarrow> nat \<times> 'x upload_world_scheme" where
  "complete_intent intent w = update_intent intent
     (\<lambda>i. it_status i = Intent_active \<and>
        \<not> list_ex (\<lambda>f. fl_intent f = intent \<and> fl_status f \<notin> {File_completed, File_skipped}) (uw_files w))
     (\<lambda>now i. i\<lparr>it_status := Intent_completed, it_completed := Some now\<rparr>) w"

definition find_session :: "ustring \<Rightarrow> 'x upload_world_scheme \<Rightarrow> session_row option" where
  "find_session sid w = find (\<lambda>s. us_id s = sid) (uw_sessions w)"

definition uploadSession ::
  "'x upload_world_scheme services \<Rightarrow> ustring \<Rightarrow> ustring \<Rightarrow> ('x upload_world_scheme, session_row option) io" where
  "uploadSession sv sid actor =
     await sv (\<lambda>w. (find (\<lambda>s. us_id s = sid \<and> us_created_by s = actor) (uw_sessions w), w))"

subsection \<open>Requests\<close>

definition browserConflictResolution :: "loose \<Rightarrow> fault + ConflictPolicy option" where
  "browserConflictResolution v = (case v of
     Absent \<Rightarrow> Inr None
   | Other \<Rightarrow> Inl (Http 400 ''Upload conflict resolution is invalid'')
   | Text s \<Rightarrow> if s = ustr ''skip'' then Inr (Some Skip) else if s = ustr ''rename'' then Inr (Some Rename)
       else if s = ustr ''replace'' then Inr (Some Replace)
       else Inl (Http 400 ''Upload conflict resolution is invalid''))"

text \<open>\<open>/^[A-Za-z0-9_-]{16,128}$/\<close> on the header, absent as the empty text.\<close>

definition browserIdempotencyKey :: "ustring \<Rightarrow> fault + ustring" where
  "browserIdempotencyKey v =
     (if 16 \<le> length v \<and> length v \<le> 128 \<and> list_all token_char v then Inr v
      else Inl (Http 400 ''A valid Idempotency-Key is required''))"

text \<open>The part asked for, \<open>None\<close> when the number is not a safe integer.\<close>

definition browserUploadPart :: "session_row \<Rightarrow> int option \<Rightarrow> fault + (nat \<times> nat)" where
  "browserUploadPart s v =
     (let partCount = ceil_div (us_expected_size s) (us_part_size s) in
      case v of
        None \<Rightarrow> Inl (Http 400 ''Upload part size or number is invalid'')
      | Some n \<Rightarrow>
          if \<not> is_safe_integer n \<or> n < 1 \<or> n > int partCount \<or> n > 10000
          then Inl (Http 400 ''Upload part size or number is invalid'')
          else Inr (nat n, min (us_part_size s) (us_expected_size s - (nat n - 1) * us_part_size s)))"

subsection \<open>Finishing a session\<close>

definition pending_cleanup :: "int \<Rightarrow> session_row \<Rightarrow> session_row" where
  "pending_cleanup now s = s\<lparr>us_claimed_at := None, us_cleanup := Cleanup_pending, us_cleanup_next := Some now,
     us_cleanup_claimed := None, us_cleanup_error := None\<rparr>"

definition completed_row :: "r2_object \<Rightarrow> int \<Rightarrow> session_row \<Rightarrow> session_row" where
  "completed_row obj now s = (pending_cleanup now s)
     \<lparr>us_status := Session_completed, us_result_key := Some (r2_key obj), us_result_etag := Some (http_etag obj),
      us_completed_at := (case us_completed_at s of Some t \<Rightarrow> Some t | None \<Rightarrow> Some now)\<rparr>"

definition finalizeBrowserUpload ::
  "'x upload_world_scheme services \<Rightarrow> session_row \<Rightarrow> r2_object \<Rightarrow> ('x upload_world_scheme, unit) io" where
  "finalizeBrowserUpload sv s obj =
     bind_io (refreshFileIndexAndThumbnail sv obj (us_content_type s)) (\<lambda>_.
     bind_io (await sv (update_session (us_id s) (\<lambda>now r. us_status r = Completing) (completed_row obj))) (\<lambda>changes.
     if changes \<noteq> 1 then raise (Http 409 ''Upload completion no longer owns the session'')
     else
       bind_io (await sv (update_file (us_intent s) (us_ordinal s) (\<lambda>f. True)
         (\<lambda>f. f\<lparr>fl_status := File_completed, fl_result_key := Some (r2_key obj), fl_result_etag := Some (http_etag obj),
            fl_error := None\<rparr>))) (\<lambda>_.
       bind_io (await sv (complete_intent (us_intent s))) (\<lambda>_. ret ()))))"

subsection \<open>Cleanup\<close>

definition ascii_lower :: "string \<Rightarrow> string" where
  "ascii_lower s = map (\<lambda>c. let n = of_char c :: nat in if 65 \<le> n \<and> n \<le> 90 then char_of (n + 32) else c) s"

fun includes_string :: "string \<Rightarrow> string \<Rightarrow> bool" where
  "includes_string [] part = (part = [])"
| "includes_string (c # s) part = (take (length part) (c # s) = part \<or> includes_string s part)"

definition knownTerminalMultipartError :: "'w multipart \<Rightarrow> fault \<Rightarrow> bool" where
  "knownTerminalMultipartError mp f \<longleftrightarrow> mp_no_such_upload mp f \<or>
     list_ex (includes_string (ascii_lower (case f of Http s m \<Rightarrow> m | Failed m \<Rightarrow> m)))
       [''no such upload'', ''unknown multipart upload'', ''already completed'', ''already aborted'', ''not found'']"

text \<open>\<open>replace(/[\r\n\t]+/g, " ").slice(0, 240)\<close>.\<close>

fun squeeze_breaks :: "bool \<Rightarrow> string \<Rightarrow> string" where
  "squeeze_breaks inside [] = []"
| "squeeze_breaks inside (c # s) =
     (if c \<in> {CHR 0x0D, CHR 0x0A, CHR 0x09}
      then (if inside then squeeze_breaks True s else CHR '' '' # squeeze_breaks True s)
      else c # squeeze_breaks False s)"

definition cleanupErrorMessage :: "fault \<Rightarrow> string" where
  "cleanupErrorMessage f = take 240 (squeeze_breaks False (case f of Http s m \<Rightarrow> m | Failed m \<Rightarrow> m))"

definition terminal_session :: "session_row \<Rightarrow> bool" where
  "terminal_session s \<longleftrightarrow> us_status s \<in> {Session_completed, Aborted, Expired}"

definition due_at :: "int \<Rightarrow> int option \<Rightarrow> bool" where
  "due_at now t = (case t of None \<Rightarrow> 0 \<le> now | Some x \<Rightarrow> x \<le> now)"

definition cleanup_due :: "int \<Rightarrow> session_row \<Rightarrow> bool" where
  "cleanup_due now s \<longleftrightarrow> terminal_session s \<and> us_cleanup s = Cleanup_pending \<and>
     us_cleanup_attempts s < MAX_UPLOAD_CLEANUP_ATTEMPTS \<and> due_at now (us_cleanup_next s) \<and>
     (case us_cleanup_claimed s of None \<Rightarrow> True | Some t \<Rightarrow> t \<le> now - 5 * 60)"

definition remove_staging ::
  "'x upload_world_scheme services \<Rightarrow> 'x upload_world_scheme multipart \<Rightarrow> session_row \<Rightarrow> ('x upload_world_scheme, unit) io" where
  "remove_staging sv mp s = (case us_staging_key s of
     None \<Rightarrow> ret ()
   | Some key \<Rightarrow>
       if key = [] then ret ()
       else
         bind_io (catch_io (bind_io (await sv (mp_abort mp key (us_upload_id s))) lift)
             (\<lambda>f. if knownTerminalMultipartError mp f then ret () else raise f)) (\<lambda>_.
         bind_io (await sv (r2_delete key)) (\<lambda>_.
         bind_io (await sv (r2_head key)) (\<lambda>left.
         if left \<noteq> None then raise (Failed ''Upload staging object remained after cleanup'') else ret ()))))"

definition clean_session ::
  "'x upload_world_scheme services \<Rightarrow> 'x upload_world_scheme multipart \<Rightarrow> session_row \<Rightarrow> ('x upload_world_scheme, nat) io" where
  "clean_session sv mp s =
     catch_io
       (bind_io (remove_staging sv mp s) (\<lambda>_.
        bind_io (await sv (update_session (us_id s) (\<lambda>now r. True)
          (\<lambda>now r. r\<lparr>us_cleanup := Cleanup_complete, us_cleanup_next := None, us_cleanup_claimed := None,
             us_cleanup_error := None\<rparr>))) (\<lambda>_. ret 1)))
       (\<lambda>f.
        let terminal = us_cleanup_attempts s \<ge> MAX_UPLOAD_CLEANUP_ATTEMPTS;
            delayMinutes = min 60 (max 1 (us_cleanup_attempts s * 5)) in
        bind_io (await sv (update_session (us_id s) (\<lambda>now r. True)
          (\<lambda>now r. r\<lparr>us_cleanup := (if terminal then Cleanup_failed else Cleanup_pending),
             us_cleanup_next := (if terminal then None else Some (now + int delayMinutes * 60)),
             us_cleanup_claimed := None, us_cleanup_error := Some (cleanupErrorMessage f)\<rparr>))) (\<lambda>_. ret 0))"

definition clean_candidate ::
  "'x upload_world_scheme services \<Rightarrow> 'x upload_world_scheme multipart \<Rightarrow> ustring \<Rightarrow> ('x upload_world_scheme, nat) io" where
  "clean_candidate sv mp sid =
     bind_io (await sv (update_session sid cleanup_due
       (\<lambda>now s. s\<lparr>us_cleanup_claimed := Some now, us_cleanup_attempts := us_cleanup_attempts s + 1\<rparr>))) (\<lambda>changes.
     if changes \<noteq> 1 then ret 0
     else
       bind_io (await sv (\<lambda>w. (find_session sid w, w))) (\<lambda>row.
       case row of None \<Rightarrow> ret 0 | Some s \<Rightarrow> clean_session sv mp s))"

fun clean_all ::
  "'x upload_world_scheme services \<Rightarrow> 'x upload_world_scheme multipart \<Rightarrow> ustring list \<Rightarrow> nat \<Rightarrow> ('x upload_world_scheme, nat) io" where
  "clean_all sv mp [] cleaned = ret cleaned"
| "clean_all sv mp (sid # rest) cleaned =
     bind_io (clean_candidate sv mp sid) (\<lambda>n. clean_all sv mp rest (cleaned + n))"

text \<open>\<open>ORDER BY cleanup_next_attempt_at, id\<close>: NULL comes first. Identifiers are compared as texts.\<close>

definition cleanup_order :: "session_row list \<Rightarrow> session_row list" where
  "cleanup_order rows =
     filter (\<lambda>s. us_cleanup_next s = None) (sort_key us_id rows) @
     sort_key (\<lambda>s. the (us_cleanup_next s)) (filter (\<lambda>s. us_cleanup_next s \<noteq> None) (sort_key us_id rows))"

definition cleanupBrowserUploadSessions ::
  "'x upload_world_scheme services \<Rightarrow> 'x upload_world_scheme multipart \<Rightarrow> nat \<Rightarrow> ustring option \<Rightarrow> ('x upload_world_scheme, nat) io" where
  "cleanupBrowserUploadSessions sv mp limit only =
     bind_io (await sv (\<lambda>w. (case only of
         Some sid \<Rightarrow> take 1 (map us_id (filter (\<lambda>s. us_id s = sid \<and> cleanup_due (w_now w) s) (uw_sessions w)))
       | None \<Rightarrow> take (max 1 (min 100 limit)) (map us_id (cleanup_order (filter (cleanup_due (w_now w)) (uw_sessions w)))), w)))
       (\<lambda>ids. clean_all sv mp ids 0)"

subsection \<open>Expiry\<close>

definition expirable :: "int \<Rightarrow> session_row \<Rightarrow> bool" where
  "expirable now s \<longleftrightarrow> us_expires s \<le> now \<and>
     (us_status s = Active \<or>
      (us_status s = Completing \<and> (case us_claimed_at s of None \<Rightarrow> False | Some t \<Rightarrow> t \<le> now - 5 * 60)))"

definition expire_session ::
  "'x upload_world_scheme services \<Rightarrow> 'x upload_world_scheme multipart \<Rightarrow> session_row \<Rightarrow> ('x upload_world_scheme, nat) io" where
  "expire_session sv mp s =
     bind_io (await sv (update_session (us_id s) expirable (\<lambda>now r. (pending_cleanup now r)\<lparr>us_status := Expired\<rparr>))) (\<lambda>changes.
     if changes = 0 then ret 0
     else
       bind_io (await sv (update_file (us_intent s) (us_ordinal s) (\<lambda>f. fl_status f \<noteq> File_completed)
         (\<lambda>f. f\<lparr>fl_status := File_aborted, fl_error := Some ''expired''\<rparr>))) (\<lambda>_.
       bind_io (cleanupBrowserUploadSessions sv mp 1 (Some (us_id s))) (\<lambda>_. ret 1)))"

fun expire_all ::
  "'x upload_world_scheme services \<Rightarrow> 'x upload_world_scheme multipart \<Rightarrow> session_row list \<Rightarrow> nat \<Rightarrow> ('x upload_world_scheme, nat) io" where
  "expire_all sv mp [] expired = ret expired"
| "expire_all sv mp (s # rest) expired =
     bind_io (expire_session sv mp s) (\<lambda>n. expire_all sv mp rest (expired + n))"

definition expireBrowserUploadSessions ::
  "'x upload_world_scheme services \<Rightarrow> 'x upload_world_scheme multipart \<Rightarrow> nat \<Rightarrow> ('x upload_world_scheme, nat) io" where
  "expireBrowserUploadSessions sv mp limit =
     bind_io (await sv (\<lambda>w. (take (max 1 (min 100 limit)) (sort_key us_expires (filter (expirable (w_now w)) (uw_sessions w))), w)))
       (\<lambda>rows.
        bind_io (expire_all sv mp rows 0) (\<lambda>expired.
        bind_io (await sv (\<lambda>w. ((), w\<lparr>uw_intents := map (\<lambda>i.
          if it_status i = Intent_active \<and> it_expires i \<le> w_now w then i\<lparr>it_status := Intent_expired\<rparr> else i) (uw_intents w)\<rparr>)))
          (\<lambda>_. ret expired)))"

end
