(* ===== verification/R2_Upload_Routes.thy ===== *)
theory R2_Upload_Routes
  imports R2_Uploads
begin

section \<open>Browser uploads: the routes\<close>

text \<open>
  The routes under \<open>/api/delivery/uploads\<close> of \<open>apps/operations/src/worker/r2-crud.ts\<close>: creating an
  intent, opening a session, checkpointing parts, completing, aborting and retrying the cleanup. A
  session is published with a conditional put against the destination seen when it was opened or
  when the conflict was resolved, and only by the holder of the completion claim.
\<close>

datatype upload_answer =
    Session_answer session_row "part_row list"
  | Conflict_answer ustring nat ustring
  | Skipped_answer

subsection \<open>Intents\<close>

record file_request =
  fq_relative :: "ustring option"
  fq_size :: "int option"
  fq_type :: loose

record intent_file =
  nf_ordinal :: nat
  nf_relative :: ustring
  nf_key :: ustring
  nf_size :: nat
  nf_type :: ustring

text \<open>\<open>Number(file.size)\<close>: \<open>None\<close> when it is not an integer.\<close>

definition normalize_file :: "path_runtime \<Rightarrow> ustring option \<Rightarrow> nat \<times> file_request \<Rightarrow> fault + intent_file" where
  "normalize_file rt rootPrefix = (\<lambda>(ordinal, file).
     rbind (browserUploadObjectKey rt rootPrefix (fq_relative file)) (\<lambda>(root, relative, key).
     case fq_size file of
       None \<Rightarrow> Inl (Http 400 ''Upload file size is invalid'')
     | Some n \<Rightarrow>
         if \<not> is_safe_integer n \<or> n \<le> 0 \<or> n > MAX_BROWSER_UPLOAD_FILE_BYTES
         then Inl (Http 400 ''Upload file size is invalid'')
         else
           rbind (browserUploadContentType rt (fq_type file)) (\<lambda>contentType.
           Inr \<lparr>nf_ordinal = ordinal, nf_relative = relative, nf_key = key, nf_size = nat n, nf_type = contentType\<rparr>)))"

definition normalize_request ::
  "path_runtime \<Rightarrow> ustring option \<Rightarrow> file_request list \<Rightarrow> fault + (ustring \<times> intent_file list \<times> int)" where
  "normalize_request rt rootPrefix files =
     (if length files < 1 \<or> length files > MAX_BROWSER_UPLOAD_FILES
      then Inl (Http 400 ''Upload intents require 1-100 files'')
      else
        rbind (rmap (normalize_file rt rootPrefix) (enumerate 0 files)) (\<lambda>normalized.
        if \<not> distinct (map nf_relative normalized) then Inl (Http 400 ''Upload relative paths must be unique'')
        else
          let totalBytes = (\<Sum>f \<leftarrow> normalized. int (nf_size f)) in
          if \<not> is_safe_integer totalBytes \<or> totalBytes > MAX_BROWSER_UPLOAD_BYTES
          then Inl (Http 400 ''Upload batch size is too large'')
          else
            rbind (browserUploadObjectKey rt rootPrefix (Some (nf_relative (hd normalized)))) (\<lambda>(root, relative, key).
            Inr (root, normalized, totalBytes))))"

definition lookup_intent :: "ustring \<Rightarrow> ustring \<Rightarrow> 'x upload_world_scheme \<Rightarrow> intent_row option \<times> 'x upload_world_scheme" where
  "lookup_intent actor key w = (find (\<lambda>i. it_created_by i = actor \<and> it_idempotency i = key) (uw_intents w), w)"

text \<open>The batch fails as a whole when the idempotency key was taken meanwhile.\<close>

definition insert_intent :: "intent_row \<Rightarrow> file_row list \<Rightarrow> 'x upload_world_scheme \<Rightarrow> (fault + unit) \<times> 'x upload_world_scheme" where
  "insert_intent i files w =
     (if list_ex (\<lambda>x. it_id x = it_id i \<or> (it_created_by x = it_created_by i \<and> it_idempotency x = it_idempotency i)) (uw_intents w)
      then (Inl (Failed ''UNIQUE constraint failed''), w)
      else (Inr (), w\<lparr>uw_intents := uw_intents w @ [i], uw_files := uw_files w @ files\<rparr>))"

definition file_row_of :: "ustring \<Rightarrow> intent_file \<Rightarrow> file_row" where
  "file_row_of intent f = \<lparr>fl_intent = intent, fl_ordinal = nf_ordinal f, fl_relative = nf_relative f, fl_key = nf_key f,
     fl_size = nf_size f, fl_type = nf_type f, fl_status = File_pending, fl_session = None, fl_resolution = None,
     fl_result_key = None, fl_result_etag = None, fl_error = None\<rparr>"

definition replay_intent :: "ustring \<Rightarrow> intent_row \<Rightarrow> ('w, ustring \<times> intent_status) io" where
  "replay_intent fingerprint i =
     (if it_fingerprint i \<noteq> fingerprint then raise (Http 409 ''Idempotency-Key was already used for a different upload'')
      else ret (it_id i, it_status i))"

definition intent_route ::
  "'x upload_world_scheme services \<Rightarrow> 'x upload_world_scheme multipart \<Rightarrow> 'x upload_world_scheme permit \<Rightarrow> ustring \<Rightarrow>
   ustring \<Rightarrow> ustring option \<Rightarrow> file_request list \<Rightarrow> ('x upload_world_scheme, ustring \<times> intent_status) io" where
  "intent_route sv mp permit actor header rootPrefix files =
     bind_io (lift (browserIdempotencyKey header)) (\<lambda>key.
     bind_io (lift (normalize_request (sv_paths sv) rootPrefix files)) (\<lambda>(root, normalized, totalBytes).
     bind_io (requireCrudPermission sv permit ''delivery.files.upload'' root) (\<lambda>_.
     bind_io (for_each normalized (\<lambda>f. requireCrudPermission sv permit ''delivery.files.upload'' (nf_key f))) (\<lambda>_.
     let fingerprint = mp_fingerprint mp root (map (\<lambda>f. (nf_relative f, nf_size f, nf_type f)) normalized) in
     bind_io (await sv (lookup_intent actor key)) (\<lambda>existing.
     case existing of
       Some i \<Rightarrow> replay_intent fingerprint i
     | None \<Rightarrow>
         bind_io (fresh sv) (\<lambda>iid.
         bind_io
           (catch_io
             (bind_io (bind_io (await sv (\<lambda>w. insert_intent
                \<lparr>it_id = iid, it_created_by = actor, it_idempotency = key, it_fingerprint = fingerprint, it_root = root,
                 it_file_count = length normalized, it_total = totalBytes, it_status = Intent_active,
                 it_expires = w_now w + DEFAULT_UPLOAD_TTL, it_completed = None\<rparr>
                (map (file_row_of iid) normalized) w)) lift) (\<lambda>_. ret None))
             (\<lambda>f. bind_io (await sv (lookup_intent actor key)) (\<lambda>replay.
               case replay of None \<Rightarrow> raise f | Some i \<Rightarrow> bind_io (replay_intent fingerprint i) (\<lambda>r. ret (Some r)))))
           (\<lambda>replayed.
            case replayed of
              Some r \<Rightarrow> ret r
            | None \<Rightarrow>
                bind_io (await sv (send (Audit ''delivery.upload.intent.created'' iid))) (\<lambda>_.
                ret (iid, Intent_active)))))))))"

subsection \<open>Opening a session\<close>

definition etag_baseline :: "ustring \<Rightarrow> ustring" where
  "etag_baseline h = ustr ''etag:'' @ h"

text \<open>
  The batch: the session row unless ten are open, then the file row that points to it. A second session
  for the same file breaks the unique index and with it the batch.
\<close>

definition open_batch ::
  "session_row \<Rightarrow> ConflictPolicy option \<Rightarrow> 'x upload_world_scheme \<Rightarrow> (fault + nat \<times> nat) \<times> 'x upload_world_scheme" where
  "open_batch s resolution w =
     (let open_count = length (filter (\<lambda>x. us_created_by x = us_created_by s \<and> us_status x \<in> {Active, Completing} \<and>
            w_now w < us_expires x) (uw_sessions w));
          allowed = open_count < MAX_ACTIVE_UPLOAD_SESSIONS in
      if allowed \<and> list_ex (\<lambda>x. us_id x = us_id s \<or> us_upload_id x = us_upload_id s \<or>
           (us_intent x = us_intent s \<and> us_ordinal x = us_ordinal s)) (uw_sessions w)
      then (Inl (Failed ''UNIQUE constraint failed''), w)
      else
        let w1 = (if allowed then w\<lparr>uw_sessions := uw_sessions w @ [s]\<rparr> else w) in
        case update_file (us_intent s) (us_ordinal s)
            (\<lambda>f. fl_session f = None \<and> list_ex (\<lambda>x. us_id x = us_id s \<and> us_created_by x = us_created_by s \<and> us_status x = Active)
               (uw_sessions w1))
            (\<lambda>f. f\<lparr>fl_status := File_uploading, fl_session := Some (us_id s), fl_resolution := resolution\<rparr>) w1 of
          (n, w2) \<Rightarrow> (Inr (if allowed then 1 else 0, n), w2))"

definition find_file :: "ustring \<Rightarrow> nat \<Rightarrow> 'x upload_world_scheme \<Rightarrow> file_row option \<times> 'x upload_world_scheme" where
  "find_file intent i w = (find (\<lambda>f. fl_intent f = intent \<and> fl_ordinal f = i) (uw_files w), w)"

text \<open>The answer for a file that has a session by now, if it is the caller's.\<close>

definition replay_session ::
  "'x upload_world_scheme services \<Rightarrow> ustring \<Rightarrow> ustring \<Rightarrow> nat \<Rightarrow> ('x upload_world_scheme, upload_answer option) io" where
  "replay_session sv actor intent i =
     bind_io (await sv (find_file intent i)) (\<lambda>file.
     case Option.bind file fl_session of
       None \<Rightarrow> ret None
     | Some sid \<Rightarrow>
         if sid = [] then ret None
         else bind_io (uploadSession sv sid actor) (\<lambda>s. ret (map_option (\<lambda>s. Session_answer s []) s)))"

definition skip_open ::
  "'x upload_world_scheme services \<Rightarrow> file_row \<Rightarrow> r2_object \<Rightarrow> ('x upload_world_scheme, upload_answer) io" where
  "skip_open sv file destination =
     bind_io (await sv (update_file (fl_intent file) (fl_ordinal file) (\<lambda>f. fl_session f = None \<and> fl_status f = File_pending)
       (\<lambda>f. f\<lparr>fl_status := File_skipped, fl_resolution := Some Skip, fl_result_key := Some (fl_key file),
          fl_result_etag := Some (http_etag destination), fl_error := None\<rparr>))) (\<lambda>changes.
     if changes \<noteq> 1 then raise (Http 409 ''Upload conflict was already resolved'')
     else
       bind_io (await sv (complete_intent (fl_intent file))) (\<lambda>_.
       bind_io (await sv (send (Audit ''delivery.upload.conflict.skipped'' (fl_key file)))) (\<lambda>_. ret Skipped_answer)))"

definition staging_key :: "ustring \<Rightarrow> ustring \<Rightarrow> ustring" where
  "staging_key intent sid = ustr ''_ltds/browser-uploads/'' @ intent @ [47] @ sid"

text \<open>The part of the route inside \<open>try\<close>: \<open>None\<close> when the session was created.\<close>

definition register_session ::
  "'x upload_world_scheme services \<Rightarrow> 'x upload_world_scheme multipart \<Rightarrow> session_row \<Rightarrow> ConflictPolicy option \<Rightarrow> ustring \<Rightarrow>
   ('x upload_world_scheme, upload_answer option) io" where
  "register_session sv mp s resolution key =
     bind_io (bind_io (await sv (open_batch s resolution)) lift) (\<lambda>(created, linked).
     if created \<noteq> 1 then
       bind_io (bind_io (await sv (mp_abort mp key (us_upload_id s))) lift) (\<lambda>_.
       raise (Http 429 ''Too many active upload sessions''))
     else if linked \<noteq> 1 then
       bind_io (await sv (\<lambda>w. ((), w\<lparr>uw_sessions := filter (\<lambda>x. \<not> (us_id x = us_id s \<and> us_status x = Active)) (uw_sessions w)\<rparr>))) (\<lambda>_.
       bind_io (bind_io (await sv (mp_abort mp key (us_upload_id s))) lift) (\<lambda>_.
       bind_io (replay_session sv (us_created_by s) (us_intent s) (us_ordinal s)) (\<lambda>replay.
       case replay of
         Some a \<Rightarrow> ret (Some a)
       | None \<Rightarrow> raise (Http 409 ''Upload intent item is already associated with another session''))))
     else ret None)"

definition open_session ::
  "'x upload_world_scheme services \<Rightarrow> 'x upload_world_scheme multipart \<Rightarrow> ustring \<Rightarrow> file_row \<Rightarrow> int \<Rightarrow> ustring \<Rightarrow>
   ConflictPolicy \<Rightarrow> ConflictPolicy option \<Rightarrow> r2_object option \<Rightarrow> ('x upload_world_scheme, upload_answer) io" where
  "open_session sv mp actor file expires target conflictPolicy resolution targetAtOpen =
     bind_io (fresh sv) (\<lambda>sid.
     let key = staging_key (fl_intent file) sid in
     bind_io (await sv (mp_create mp key [(ustr ''contentType'', fl_type file)] [(ustr ''browserUploadSession'', sid)])) (\<lambda>uploadId.
     let s = \<lparr>us_id = sid, us_upload_id = uploadId, us_object_key = target, us_staging_key = Some key,
           us_expected_size = fl_size file, us_content_type = fl_type file,
           us_part_size = operationsMultipartPartSize (fl_size file), us_status = Active, us_created_by = actor,
           us_expires = expires, us_intent = fl_intent file, us_ordinal = fl_ordinal file, us_policy = conflictPolicy,
           us_result_key = None, us_result_etag = None, us_claimed_at = None,
           us_baseline = (case targetAtOpen of Some obj \<Rightarrow> etag_baseline (http_etag obj) | None \<Rightarrow> ustr ''absent''),
           us_recovery_id = None, us_cleanup = Not_due, us_cleanup_attempts = 0, us_cleanup_next = None,
           us_cleanup_claimed = None, us_cleanup_error = None, us_completed_at = None\<rparr> in
     bind_io
       (catch_io (register_session sv mp s resolution key)
         (\<lambda>f.
          bind_io (case f of
              Http status m \<Rightarrow> if status = 429 then ret () else bind_io (await sv (mp_abort mp key uploadId)) lift
            | Failed m \<Rightarrow> bind_io (await sv (mp_abort mp key uploadId)) lift) (\<lambda>_.
          bind_io (replay_session sv actor (fl_intent file) (fl_ordinal file)) (\<lambda>replay.
          case replay of Some a \<Rightarrow> ret (Some a) | None \<Rightarrow> raise f))))
       (\<lambda>answer.
        case answer of
          Some a \<Rightarrow> ret a
        | None \<Rightarrow>
            bind_io (uploadSession sv sid actor) (\<lambda>opened.
            bind_io (await sv (send (Audit ''delivery.upload.created'' target))) (\<lambda>_.
            case opened of Some r \<Rightarrow> ret (Session_answer r [])
            | None \<Rightarrow> raise (Failed ''Cannot read properties of null''))))))"

text \<open>The route after the file was found and is not settled.\<close>

definition open_destination ::
  "'x upload_world_scheme services \<Rightarrow> 'x upload_world_scheme multipart \<Rightarrow> ustring \<Rightarrow> file_row \<Rightarrow> int \<Rightarrow> ConflictPolicy option \<Rightarrow>
   ('x upload_world_scheme, upload_answer) io" where
  "open_destination sv mp actor file expires requested =
     bind_io (await sv (r2_head (fl_key file))) (\<lambda>physical.
     let markerAtOpen = (case physical of None \<Rightarrow> False | Some obj \<Rightarrow> moved_marker obj);
         destinationAtOpen = (if markerAtOpen then None else physical) in
     case (destinationAtOpen, requested) of
       (Some obj, None) \<Rightarrow> ret (Conflict_answer (fl_intent file) (fl_ordinal file) (fl_relative file))
     | (Some obj, Some Skip) \<Rightarrow> skip_open sv file obj
     | _ \<Rightarrow>
         let conflictPolicy = (if markerAtOpen then Replace
               else case (destinationAtOpen, requested) of (Some obj, Some r) \<Rightarrow> r | _ \<Rightarrow> Fail) in
         bind_io (if destinationAtOpen \<noteq> None \<and> conflictPolicy = Rename
             then bind_io (targetName sv (fl_key file) Rename None []) (\<lambda>t. ret (the t))
             else ret (fl_key file)) (\<lambda>target.
         bind_io (if target = fl_key file then ret physical else await sv (r2_head target)) (\<lambda>targetAtOpen.
         open_session sv mp actor file expires target conflictPolicy
           (if destinationAtOpen \<noteq> None then requested else None) targetAtOpen)))"

definition open_route ::
  "'x upload_world_scheme services \<Rightarrow> 'x upload_world_scheme multipart \<Rightarrow> 'x upload_world_scheme permit \<Rightarrow> ustring \<Rightarrow>
   ustring option \<Rightarrow> int option \<Rightarrow> loose \<Rightarrow> ('x upload_world_scheme, upload_answer) io" where
  "open_route sv mp permit actor intentId ordinalValue resolutionValue =
     bind_io (lift (browserConflictResolution resolutionValue)) (\<lambda>requested.
     case (intentId, ordinalValue) of
       (Some intent, Some n) \<Rightarrow>
         if \<not> is_safe_integer n \<or> n < 0 \<or> n \<ge> int MAX_BROWSER_UPLOAD_FILES
         then raise (Http 400 ''A valid upload intent item is required'')
         else
           bind_io (await sv (\<lambda>w. ((w_now w, find (\<lambda>i. it_id i = intent \<and> it_created_by i = actor) (uw_intents w),
               find (\<lambda>f. fl_intent f = intent \<and> fl_ordinal f = nat n) (uw_files w)), w))) (\<lambda>(now, found, file).
           case (found, file) of
             (Some i, Some f) \<Rightarrow>
               if it_expires i \<le> now then raise (Http 404 ''Upload intent not found or expired'')
               else
                 bind_io (requireCrudPermission sv permit ''delivery.files.upload'' (fl_key f)) (\<lambda>_.
                 if fl_status f = File_skipped then ret Skipped_answer
                 else
                   bind_io (case fl_session f of
                       Some sid \<Rightarrow> if sid = [] then ret None else uploadSession sv sid actor
                     | None \<Rightarrow> ret None) (\<lambda>existing.
                   case existing of
                     Some s \<Rightarrow> ret (Session_answer s [])
                   | None \<Rightarrow>
                       if it_status i \<noteq> Intent_active then raise (Http 404 ''Upload intent not found or expired'')
                       else open_destination sv mp actor f (it_expires i) requested))
           | _ \<Rightarrow> raise (Http 404 ''Upload intent not found or expired''))
     | _ \<Rightarrow> raise (Http 400 ''A valid upload intent item is required''))"

subsection \<open>Parts\<close>

definition live_session ::
  "'x upload_world_scheme services \<Rightarrow> ustring \<Rightarrow> ustring \<Rightarrow> ('x upload_world_scheme, session_row \<times> int) io" where
  "live_session sv sid actor =
     bind_io (uploadSession sv sid actor) (\<lambda>found.
     bind_io (\<lambda>w. (Inr (w_now w), w)) (\<lambda>now.
     case found of
       None \<Rightarrow> raise (Http 404 ''Upload session not found or expired'')
     | Some s \<Rightarrow>
         if us_status s \<noteq> Active \<or> us_expires s \<le> now then raise (Http 404 ''Upload session not found or expired'')
         else ret (s, now)))"

text \<open>A ticket: the key, upload, part number, length and seconds that the signature covers.\<close>

definition ticket_route ::
  "'x upload_world_scheme services \<Rightarrow> 'x upload_world_scheme permit \<Rightarrow> ustring \<Rightarrow> ustring \<Rightarrow> int option \<Rightarrow>
   ('x upload_world_scheme, ustring \<times> ustring \<times> nat \<times> nat \<times> int) io" where
  "ticket_route sv permit actor sid number =
     bind_io (live_session sv sid actor) (\<lambda>(s, checked).
     bind_io (requireCrudPermission sv permit ''delivery.files.upload'' (us_object_key s)) (\<lambda>_.
     bind_io (lift (browserUploadPart s number)) (\<lambda>(n, sz).
     bind_io (\<lambda>w. (Inr (w_now w), w)) (\<lambda>now.
     let remainingSeconds = us_expires s - now in
     if remainingSeconds < 1 then raise (Http 404 ''Upload session not found or expired'')
     else ret (case us_staging_key s of Some k \<Rightarrow> k | None \<Rightarrow> [], us_upload_id s, n, sz, min 300 remainingSeconds)))))"

definition upsert_part :: "part_row \<Rightarrow> 'x upload_world_scheme \<Rightarrow> unit \<times> 'x upload_world_scheme" where
  "upsert_part p w =
     (let hit = (\<lambda>q. pt_session q = pt_session p \<and> pt_number q = pt_number p) in
      ((), w\<lparr>uw_parts := (if list_ex hit (uw_parts w) then map (\<lambda>q. if hit q then p else q) (uw_parts w)
         else uw_parts w @ [p])\<rparr>))"

definition part_route ::
  "'x upload_world_scheme services \<Rightarrow> 'x upload_world_scheme permit \<Rightarrow> ustring \<Rightarrow> ustring \<Rightarrow> int option \<Rightarrow> ustring option \<Rightarrow>
   int option \<Rightarrow> ('x upload_world_scheme, part_row) io" where
  "part_route sv permit actor sid number etagValue sizeValue =
     bind_io (live_session sv sid actor) (\<lambda>(s, checked).
     bind_io (requireCrudPermission sv permit ''delivery.files.upload'' (us_object_key s)) (\<lambda>_.
     bind_io (lift (browserUploadPart s number)) (\<lambda>(n, sz).
     case canonicalMultipartEtag (sv_paths sv) etagValue of
       None \<Rightarrow> raise (Http 400 ''Invalid part checkpoint'')
     | Some etag \<Rightarrow>
         if etag = [] \<or> sizeValue \<noteq> Some (int sz) then raise (Http 400 ''Invalid part checkpoint'')
         else
           let p = \<lparr>pt_session = us_id s, pt_number = n, pt_etag = etag, pt_size = sz\<rparr> in
           bind_io (await sv (upsert_part p)) (\<lambda>_. ret p))))"

end
