(* ===== verification/R2_Upload_Complete.thy ===== *)
theory R2_Upload_Complete
  imports R2_Upload_Routes
begin

section \<open>Browser uploads: completion, cancellation and cleanup on request\<close>

text \<open>
  The routes \<open>complete\<close>, \<open>delete\<close>, \<open>cleanup/retry\<close> and \<open>get\<close> of a session. The block of \<open>complete\<close>
  between \<open>try\<close> and \<open>catch\<close> reads the variable \<open>recovery\<close> in its handler, so the part of it that runs
  once a copy of the destination was made returns its fault together with that variable.
\<close>

subsection \<open>Faults that carry the saved copy\<close>

record saved_original =
  so_id :: ustring
  so_key :: ustring

type_synonym 'a tried = "(saved_original option \<times> fault) + 'a"

definition try_bind ::
  "saved_original option \<Rightarrow> ('w, 'a) io \<Rightarrow> ('a \<Rightarrow> ('w, 'b tried) io) \<Rightarrow> ('w, 'b tried) io" where
  "try_bind recovery m k w = (case m w of
     (Inl f, w') \<Rightarrow> (Inr (Inl (recovery, f)), w')
   | (Inr x, w') \<Rightarrow> k x w')"

subsection \<open>The claim\<close>

definition stale_claim :: "int \<Rightarrow> session_row \<Rightarrow> bool" where
  "stale_claim now s \<longleftrightarrow> us_status s = Completing \<and>
     (case us_claimed_at s of None \<Rightarrow> False | Some t \<Rightarrow> t \<le> now - 5 * 60)"

definition claimable_session :: "int \<Rightarrow> session_row \<Rightarrow> bool" where
  "claimable_session now s \<longleftrightarrow> now < us_expires s \<and> (us_status s = Active \<or> stale_claim now s)"

definition claim_session :: "ustring \<Rightarrow> 'x upload_world_scheme \<Rightarrow> nat \<times> 'x upload_world_scheme" where
  "claim_session sid = update_session sid claimable_session (\<lambda>now s. s\<lparr>us_status := Completing, us_claimed_at := Some now\<rparr>)"

definition release_claim :: "ustring \<Rightarrow> 'x upload_world_scheme \<Rightarrow> nat \<times> 'x upload_world_scheme" where
  "release_claim sid = update_session sid (\<lambda>now s. us_status s = Completing)
     (\<lambda>now s. s\<lparr>us_status := Active, us_claimed_at := None\<rparr>)"

definition abort_claimed :: "ustring \<Rightarrow> 'x upload_world_scheme \<Rightarrow> nat \<times> 'x upload_world_scheme" where
  "abort_claimed sid = update_session sid (\<lambda>now s. us_status s = Completing)
     (\<lambda>now s. (pending_cleanup now s)\<lparr>us_status := Aborted\<rparr>)"

definition change_claimed ::
  "'x upload_world_scheme services \<Rightarrow> ustring \<Rightarrow> (session_row \<Rightarrow> session_row) \<Rightarrow> string \<Rightarrow> ('x upload_world_scheme, unit) io" where
  "change_claimed sv sid change complaint =
     bind_io (await sv (update_session sid (\<lambda>now s. us_status s = Completing) (\<lambda>now. change))) (\<lambda>changes.
     if changes \<noteq> 1 then raise (Http 409 complaint) else ret ())"

subsection \<open>The parts and the staged object\<close>

definition stored_parts :: "ustring \<Rightarrow> 'x upload_world_scheme \<Rightarrow> part_row list \<times> 'x upload_world_scheme" where
  "stored_parts sid w = (sort_key pt_number (filter (\<lambda>p. pt_session p = sid) (uw_parts w)), w)"

definition parts_complete :: "session_row \<Rightarrow> part_row list \<Rightarrow> bool" where
  "parts_complete s parts \<longleftrightarrow> length parts = ceil_div (us_expected_size s) (us_part_size s) \<and>
     list_all (\<lambda>(i, p). pt_number p = i + 1 \<and> pt_size p = min (us_part_size s) (us_expected_size s - i * us_part_size s))
       (enumerate 0 parts)"

definition staging_of :: "session_row \<Rightarrow> ustring" where
  "staging_of s = (case us_staging_key s of Some k \<Rightarrow> k | None \<Rightarrow> [])"

definition stage_upload ::
  "'x upload_world_scheme services \<Rightarrow> 'x upload_world_scheme multipart \<Rightarrow> session_row \<Rightarrow> ('x upload_world_scheme, unit) io" where
  "stage_upload sv mp s =
     bind_io (await sv (stored_parts (us_id s))) (\<lambda>parts.
     if \<not> parts_complete s parts then
       bind_io (await sv (release_claim (us_id s))) (\<lambda>_. raise (Http 409 ''Upload parts are incomplete''))
     else
       bind_io (await sv (r2_head (staging_of s))) (\<lambda>present.
       bind_io (case present of
           Some obj \<Rightarrow> ret obj
         | None \<Rightarrow> bind_io (await sv (mp_complete mp (staging_of s) (us_upload_id s)
             (map (\<lambda>p. (pt_number p, pt_etag p)) parts))) lift) (\<lambda>staged.
       if length (r2_body staged) \<noteq> us_expected_size s then
         bind_io (await sv (r2_delete (staging_of s))) (\<lambda>_.
         bind_io (await sv (\<lambda>w. update_file (us_intent s) (us_ordinal s) (\<lambda>f. True)
           (\<lambda>f. f\<lparr>fl_status := File_failed, fl_error := Some ''size_mismatch''\<rparr>) (snd (abort_claimed (us_id s) w)))) (\<lambda>_.
         bind_io (cleanupBrowserUploadSessions sv mp 1 (Some (us_id s))) (\<lambda>_.
         raise (Http 422 ''Uploaded bytes do not match the declared size''))))
       else ret ())))"

subsection \<open>The destination\<close>

text \<open>An earlier completion of this session already published the object.\<close>

definition own_publication :: "session_row \<Rightarrow> r2_object \<Rightarrow> bool" where
  "own_publication s obj \<longleftrightarrow> meta obj ''browserUploadSession'' = Some (us_id s) \<and> length (r2_body obj) = us_expected_size s"

definition current_session ::
  "'x upload_world_scheme services \<Rightarrow> session_row \<Rightarrow> ustring \<Rightarrow> ('x upload_world_scheme, upload_answer) io" where
  "current_session sv s actor =
     bind_io (uploadSession sv (us_id s) actor) (\<lambda>row.
     case row of Some r \<Rightarrow> ret (Session_answer r []) | None \<Rightarrow> raise (Failed ''Cannot read properties of null''))"

definition adopt_publication ::
  "'x upload_world_scheme services \<Rightarrow> 'x upload_world_scheme multipart \<Rightarrow> session_row \<Rightarrow> ustring \<Rightarrow> r2_object \<Rightarrow>
   ('x upload_world_scheme, upload_answer) io" where
  "adopt_publication sv mp s actor obj =
     bind_io (case us_recovery_id s of
         Some rid \<Rightarrow> if rid = [] then ret () else await sv (set_recovery_etag rid (http_etag obj) True)
       | None \<Rightarrow> ret ()) (\<lambda>_.
     bind_io (finalizeBrowserUpload sv s obj) (\<lambda>_.
     bind_io (cleanupBrowserUploadSessions sv mp 1 (Some (us_id s))) (\<lambda>_.
     current_session sv s actor)))"

definition is_etag_baseline :: "ustring \<Rightarrow> bool" where
  "is_etag_baseline b \<longleftrightarrow> take 5 b = ustr ''etag:''"

definition baseline_matches :: "ustring \<Rightarrow> r2_object option \<Rightarrow> bool" where
  "baseline_matches b current \<longleftrightarrow>
     (if b = ustr ''absent'' then current = None
      else is_etag_baseline b \<and> (case current of Some obj \<Rightarrow> http_etag obj = drop 5 b | None \<Rightarrow> False))"

definition ask_resolution :: "'x upload_world_scheme services \<Rightarrow> session_row \<Rightarrow> ('x upload_world_scheme, upload_answer) io" where
  "ask_resolution sv s =
     bind_io (await sv (find_file (us_intent s) (us_ordinal s))) (\<lambda>file.
     bind_io (await sv (release_claim (us_id s))) (\<lambda>_.
     ret (Conflict_answer (us_intent s) (us_ordinal s) (case file of
         Some f \<Rightarrow> if fl_relative f \<noteq> [] then fl_relative f else leaf (us_object_key s)
       | None \<Rightarrow> leaf (us_object_key s)))))"

definition skip_completion ::
  "'x upload_world_scheme services \<Rightarrow> 'x upload_world_scheme multipart \<Rightarrow> session_row \<Rightarrow> ('x upload_world_scheme, upload_answer) io" where
  "skip_completion sv mp s =
     bind_io (await sv (\<lambda>w. update_file (us_intent s) (us_ordinal s) (\<lambda>f. fl_session f = Some (us_id s))
       (\<lambda>f. f\<lparr>fl_status := File_skipped, fl_resolution := Some Skip, fl_session := None, fl_result_key := None,
          fl_result_etag := None, fl_error := None\<rparr>) (snd (abort_claimed (us_id s) w)))) (\<lambda>_.
     bind_io (await sv (complete_intent (us_intent s))) (\<lambda>_.
     bind_io (cleanupBrowserUploadSessions sv mp 1 (Some (us_id s))) (\<lambda>_.
     bind_io (await sv (send (Audit ''delivery.upload.conflict.skipped'' (us_object_key s)))) (\<lambda>_.
     ret Skipped_answer))))"

text \<open>What completion does next: answer, or publish over the object it has in view.\<close>

datatype completion_step = Answer upload_answer | Publish session_row "r2_object option"

definition lost_claim :: string where
  "lost_claim = ''Upload completion no longer owns the session''"

definition resolve_destination ::
  "'x upload_world_scheme services \<Rightarrow> 'x upload_world_scheme multipart \<Rightarrow> 'x upload_world_scheme permit \<Rightarrow> session_row \<Rightarrow>
   ConflictPolicy option \<Rightarrow> r2_object \<Rightarrow> ('x upload_world_scheme, completion_step) io" where
  "resolve_destination sv mp permit s requested obj = (case requested of
     None \<Rightarrow> bind_io (ask_resolution sv s) (\<lambda>a. ret (Answer a))
   | Some Skip \<Rightarrow> bind_io (skip_completion sv mp s) (\<lambda>a. ret (Answer a))
   | Some Rename \<Rightarrow>
       bind_io (targetName sv (us_object_key s) Rename None []) (\<lambda>t.
       let renamed = the t; change = (\<lambda>r. r\<lparr>us_object_key := renamed, us_policy := Fail, us_baseline := ustr ''absent''\<rparr>) in
       bind_io (requireCrudPermission sv permit ''delivery.files.upload'' renamed) (\<lambda>_.
       bind_io (change_claimed sv (us_id s) change lost_claim) (\<lambda>_.
       ret (Publish (change s) None))))
   | Some _ \<Rightarrow>
       let change = (\<lambda>r. r\<lparr>us_policy := Replace, us_baseline := etag_baseline (http_etag obj)\<rparr>) in
       bind_io (change_claimed sv (us_id s) change lost_claim) (\<lambda>_.
       ret (Publish (change s) (Some obj))))"

definition examine_destination ::
  "'x upload_world_scheme services \<Rightarrow> 'x upload_world_scheme multipart \<Rightarrow> 'x upload_world_scheme permit \<Rightarrow> session_row \<Rightarrow>
   ustring \<Rightarrow> ConflictPolicy option \<Rightarrow> ('x upload_world_scheme, completion_step) io" where
  "examine_destination sv mp permit s actor requested =
     bind_io (await sv (r2_head (us_object_key s))) (\<lambda>current.
     case current of
       None \<Rightarrow> ret (Publish s None)
     | Some obj \<Rightarrow>
         if own_publication s obj then bind_io (adopt_publication sv mp s actor obj) (\<lambda>a. ret (Answer a))
         else if us_policy s \<noteq> Replace \<or> \<not> baseline_matches (us_baseline s) current
         then resolve_destination sv mp permit s requested obj
         else ret (Publish s current))"

subsection \<open>Saving the object that is replaced\<close>

definition drop_saved :: "'x upload_world_scheme services \<Rightarrow> saved_original \<Rightarrow> ('x upload_world_scheme, unit) io" where
  "drop_saved sv rec =
     bind_io (await sv (r2_delete (so_key rec))) (\<lambda>_. await sv (delete_recovery (so_id rec)))"

definition unlink_saved :: "'x upload_world_scheme services \<Rightarrow> session_row \<Rightarrow> ('x upload_world_scheme, nat) io" where
  "unlink_saved sv s = await sv (update_session (us_id s) (\<lambda>now r. True) (\<lambda>now r. r\<lparr>us_recovery_id := None\<rparr>))"

definition replacement_row :: "saved_original \<Rightarrow> ustring \<Rightarrow> int \<Rightarrow> recovery_row" where
  "replacement_row rec original now = \<lparr>rr_id = so_id rec, rr_original_key = original, rr_recovery_key = so_key rec,
     rr_result_etag = None, rr_created_at = now, rr_purge_after = now + seven_days\<rparr>"

definition store_saved ::
  "'x upload_world_scheme services \<Rightarrow> session_row \<Rightarrow> r2_object \<Rightarrow> saved_original \<Rightarrow> ('x upload_world_scheme, unit) io" where
  "store_saved sv s original rec =
     catch_io
       (bind_io (await sv (r2_put sv (so_key rec) (r2_body original) Unconditional (r2_http original) (r2_meta original))) (\<lambda>_.
        bind_io (await sv (\<lambda>w. insert_recovery (replacement_row rec (us_object_key s) (w_now w)) w)) (\<lambda>_.
        change_claimed sv (us_id s) (\<lambda>r. r\<lparr>us_recovery_id := Some (so_id rec)\<rparr>)
          ''Upload completion no longer owns the recovery'')))
       (\<lambda>f. bind_io (drop_saved sv rec) (\<lambda>_. raise f))"

definition saved_key :: "ustring \<Rightarrow> ustring \<Rightarrow> ustring" where
  "saved_key token key = ustr ''Jobs/Clients/_ltds/replacements/'' @ token @ [47] @ leaf key"

definition needs_saving :: "session_row \<Rightarrow> r2_object option \<Rightarrow> bool" where
  "needs_saving s current \<longleftrightarrow> us_policy s = Replace \<and> (case current of Some obj \<Rightarrow> \<not> moved_marker obj | None \<Rightarrow> False)"

definition save_original ::
  "'x upload_world_scheme services \<Rightarrow> session_row \<Rightarrow> r2_object option \<Rightarrow>
   (saved_original option \<Rightarrow> session_row \<Rightarrow> ('x upload_world_scheme, 'b tried) io) \<Rightarrow> ('x upload_world_scheme, 'b tried) io" where
  "save_original sv s current k =
     (if \<not> needs_saving s current then k None s
      else
        try_bind None (await sv (r2_get (us_object_key s) Unconditional)) (\<lambda>got.
        case got of
          Body original \<Rightarrow>
            if http_etag original \<noteq> drop 5 (us_baseline s)
            then ret (Inl (None, Http 409 ''The upload destination changed before replacement''))
            else
              try_bind None (fresh sv) (\<lambda>rid.
              try_bind None (fresh sv) (\<lambda>token.
              let rec = \<lparr>so_id = rid, so_key = saved_key token (us_object_key s)\<rparr> in
              try_bind (Some rec) (store_saved sv s original rec) (\<lambda>_.
              k (Some rec) (s\<lparr>us_recovery_id := Some rid\<rparr>))))
        | _ \<Rightarrow> ret (Inl (None, Http 409 ''The upload destination changed before replacement''))))"

subsection \<open>Publication\<close>

definition publish_condition :: "session_row \<Rightarrow> put_condition" where
  "publish_condition s =
     (if us_policy s = Replace \<and> is_etag_baseline (us_baseline s) then If_match (drop 5 (us_baseline s)) else If_none_match)"

definition published_metadata :: "session_row \<Rightarrow> saved_original option \<Rightarrow> r2_object \<Rightarrow> (ustring \<times> ustring) list" where
  "published_metadata s recovery staged = spread (spread (r2_meta staged) [(ustr ''browserUploadSession'', us_id s)])
     (case recovery of Some rec \<Rightarrow> [(ustr ''replacementRecoveryId'', so_id rec)] | None \<Rightarrow> [])"

definition publish_upload ::
  "'x upload_world_scheme services \<Rightarrow> session_row \<Rightarrow> saved_original option \<Rightarrow> r2_object \<Rightarrow>
   ('x upload_world_scheme, r2_object option) io" where
  "publish_upload sv s recovery staged =
     await sv (r2_put sv (us_object_key s) (r2_body staged) (publish_condition s)
       (spread (r2_http staged) [(ustr ''contentType'', us_content_type s)]) (published_metadata s recovery staged))"

definition not_published ::
  "'x upload_world_scheme services \<Rightarrow> session_row \<Rightarrow> saved_original option \<Rightarrow> ('x upload_world_scheme, 'b tried) io" where
  "not_published sv s recovery =
     try_bind recovery (case recovery of
         Some rec \<Rightarrow> bind_io (drop_saved sv rec) (\<lambda>_. bind_io (unlink_saved sv s) (\<lambda>_. ret ()))
       | None \<Rightarrow> ret ()) (\<lambda>_.
     try_bind None (await sv (release_claim (us_id s))) (\<lambda>_.
     ret (Inl (None, Http 409 ''The upload destination changed before publication''))))"

definition after_publication ::
  "'x upload_world_scheme services \<Rightarrow> 'x upload_world_scheme multipart \<Rightarrow> session_row \<Rightarrow> saved_original option \<Rightarrow> ustring \<Rightarrow>
   r2_object \<Rightarrow> ('x upload_world_scheme, upload_answer) io" where
  "after_publication sv mp s recovery actor obj =
     bind_io (case recovery of
         Some rec \<Rightarrow> await sv (set_recovery_etag (so_id rec) (http_etag obj) False)
       | None \<Rightarrow> ret ()) (\<lambda>_.
     bind_io (finalizeBrowserUpload sv s obj) (\<lambda>_.
     bind_io (cleanupBrowserUploadSessions sv mp 1 (Some (us_id s))) (\<lambda>_.
     bind_io (await sv (send (Audit ''delivery.upload.completed'' (r2_key obj)))) (\<lambda>_.
     current_session sv s actor))))"

definition publish_step ::
  "'x upload_world_scheme services \<Rightarrow> 'x upload_world_scheme multipart \<Rightarrow> ustring \<Rightarrow> r2_object \<Rightarrow> saved_original option \<Rightarrow>
   session_row \<Rightarrow> ('x upload_world_scheme, upload_answer tried) io" where
  "publish_step sv mp actor staged recovery s =
     try_bind recovery (await sv (\<lambda>w. (list_ex (\<lambda>r. us_id r = us_id s \<and> us_status r = Completing) (uw_sessions w), w)))
       (\<lambda>stillClaimed.
        if \<not> stillClaimed then ret (Inl (recovery, Http 409 lost_claim))
        else
          try_bind recovery (publish_upload sv s recovery staged) (\<lambda>published.
          case published of
            None \<Rightarrow> not_published sv s recovery
          | Some obj \<Rightarrow> try_bind None (after_publication sv mp s recovery actor obj) (\<lambda>a. ret (Inr a))))"

text \<open>The block between \<open>try\<close> and \<open>catch\<close>.\<close>

definition complete_claimed ::
  "'x upload_world_scheme services \<Rightarrow> 'x upload_world_scheme multipart \<Rightarrow> 'x upload_world_scheme permit \<Rightarrow> session_row \<Rightarrow>
   ustring \<Rightarrow> ConflictPolicy option \<Rightarrow> ('x upload_world_scheme, upload_answer tried) io" where
  "complete_claimed sv mp permit s0 actor requested =
     try_bind None (stage_upload sv mp s0) (\<lambda>_.
     try_bind None (examine_destination sv mp permit s0 actor requested) (\<lambda>step.
     case step of
       Answer a \<Rightarrow> ret (Inr a)
     | Publish s current \<Rightarrow>
         try_bind None (await sv (r2_get (staging_of s) Unconditional)) (\<lambda>got.
         case got of
           Body staged \<Rightarrow> save_original sv s current (publish_step sv mp actor staged)
         | _ \<Rightarrow> ret (Inl (None, Http 409 ''Completed upload staging object is unavailable'')))))"

text \<open>The handler.\<close>

definition undo_completion ::
  "'x upload_world_scheme services \<Rightarrow> session_row \<Rightarrow> saved_original option \<Rightarrow> fault \<Rightarrow> ('x upload_world_scheme, upload_answer) io" where
  "undo_completion sv s recovery f =
     bind_io (case recovery of
         Some rec \<Rightarrow> bind_io (drop_saved sv rec) (\<lambda>_. bind_io (unlink_saved sv s) (\<lambda>_. ret ()))
       | None \<Rightarrow> ret ()) (\<lambda>_.
     bind_io (await sv (release_claim (us_id s))) (\<lambda>_. raise f))"

definition already_completing :: fault where
  "already_completing = Http 409 ''Upload completion is already in progress; retry shortly''"

definition complete_route ::
  "'x upload_world_scheme services \<Rightarrow> 'x upload_world_scheme multipart \<Rightarrow> 'x upload_world_scheme permit \<Rightarrow> ustring \<Rightarrow> ustring \<Rightarrow>
   loose \<Rightarrow> ('x upload_world_scheme, upload_answer) io" where
  "complete_route sv mp permit actor sid resolutionValue =
     bind_io (lift (browserConflictResolution resolutionValue)) (\<lambda>requested.
     bind_io (uploadSession sv sid actor) (\<lambda>found.
     case found of
       None \<Rightarrow> raise (Http 404 ''Upload session not found'')
     | Some s \<Rightarrow>
         bind_io (requireCrudPermission sv permit ''delivery.files.upload'' (us_object_key s)) (\<lambda>_.
         bind_io (\<lambda>w. (Inr (w_now w), w)) (\<lambda>now.
         if us_status s = Session_completed then ret (Session_answer s [])
         else if (us_status s \<noteq> Active \<and> \<not> stale_claim now s) \<or> us_expires s \<le> now
         then (if us_status s = Completing then raise already_completing
               else raise (Http 404 ''Upload session not found or expired''))
         else
           bind_io (await sv (claim_session (us_id s))) (\<lambda>changes.
           if changes \<noteq> 1 then raise already_completing
           else
             bind_io (complete_claimed sv mp permit s actor requested) (\<lambda>result.
             case result of
               Inr answer \<Rightarrow> ret answer
             | Inl (recovery, f) \<Rightarrow> undo_completion sv s recovery f))))))"

subsection \<open>Cancellation, retry of the cleanup, and reading\<close>

definition abort_route ::
  "'x upload_world_scheme services \<Rightarrow> 'x upload_world_scheme multipart \<Rightarrow> 'x upload_world_scheme permit \<Rightarrow> ustring \<Rightarrow> ustring \<Rightarrow>
   ('x upload_world_scheme, unit) io" where
  "abort_route sv mp permit actor sid =
     bind_io (uploadSession sv sid actor) (\<lambda>found.
     case found of
       None \<Rightarrow> raise (Http 404 ''Upload session not found'')
     | Some s \<Rightarrow>
         bind_io (requireCrudPermission sv permit ''delivery.files.upload'' (us_object_key s)) (\<lambda>_.
         if us_status s = Aborted then bind_io (cleanupBrowserUploadSessions sv mp 1 (Some (us_id s))) (\<lambda>_. ret ())
         else if us_status s \<noteq> Active then raise (Http 409 ''Upload session cannot be cancelled'')
         else
           bind_io (await sv (update_session (us_id s) (\<lambda>now r. us_status r = Active)
             (\<lambda>now r. (pending_cleanup now r)\<lparr>us_status := Aborted\<rparr>))) (\<lambda>changes.
           if changes \<noteq> 1 then raise (Http 409 ''Upload completion is already in progress'')
           else
             bind_io (cleanupBrowserUploadSessions sv mp 1 (Some (us_id s))) (\<lambda>_.
             bind_io (await sv (\<lambda>w. update_intent (us_intent s) (\<lambda>i. it_status i = Intent_active)
               (\<lambda>now i. i\<lparr>it_status := Intent_aborted\<rparr>)
               (snd (update_file (us_intent s) (us_ordinal s) (\<lambda>f. fl_status f \<noteq> File_completed)
                 (\<lambda>f. f\<lparr>fl_status := File_aborted, fl_error := Some ''cancelled''\<rparr>) w)))) (\<lambda>_.
             await sv (send (Audit ''delivery.upload.aborted'' (us_object_key s))))))))"

definition shown_key :: "session_row \<Rightarrow> ustring" where
  "shown_key s = (case us_result_key s of Some k \<Rightarrow> if k \<noteq> [] then k else us_object_key s | None \<Rightarrow> us_object_key s)"

definition cleanup_retry_route ::
  "'x upload_world_scheme services \<Rightarrow> 'x upload_world_scheme multipart \<Rightarrow> 'x upload_world_scheme permit \<Rightarrow> ustring \<Rightarrow> ustring \<Rightarrow>
   ('x upload_world_scheme, upload_answer) io" where
  "cleanup_retry_route sv mp permit actor sid =
     bind_io (uploadSession sv sid actor) (\<lambda>found.
     case found of
       None \<Rightarrow> raise (Http 404 ''Terminal upload session not found'')
     | Some s \<Rightarrow>
         if \<not> terminal_session s then raise (Http 404 ''Terminal upload session not found'')
         else
           bind_io (requireCrudPermission sv permit ''delivery.files.upload'' (shown_key s)) (\<lambda>_.
           bind_io (await sv (update_session (us_id s) (\<lambda>now r. us_cleanup r = Cleanup_failed)
             (\<lambda>now r. r\<lparr>us_cleanup := Cleanup_pending, us_cleanup_attempts := 0, us_cleanup_next := Some now,
                us_cleanup_claimed := None, us_cleanup_error := None\<rparr>))) (\<lambda>changes.
           if changes \<noteq> 1 then raise (Http 409 ''Upload cleanup is not in a failed state'')
           else
             bind_io (cleanupBrowserUploadSessions sv mp 1 (Some (us_id s))) (\<lambda>_. current_session sv s actor))))"

definition session_route ::
  "'x upload_world_scheme services \<Rightarrow> 'x upload_world_scheme permit \<Rightarrow> ustring \<Rightarrow> ustring \<Rightarrow> ('x upload_world_scheme, upload_answer) io" where
  "session_route sv permit actor sid =
     bind_io (uploadSession sv sid actor) (\<lambda>found.
     case found of
       None \<Rightarrow> raise (Http 404 ''Upload session not found'')
     | Some s \<Rightarrow>
         bind_io (requireCrudPermission sv permit ''delivery.browse'' (shown_key s)) (\<lambda>_.
         bind_io (await sv (stored_parts (us_id s))) (\<lambda>parts. ret (Session_answer s parts))))"

end
