(* ===== verification/R2_Upload_States.thy ===== *)
theory R2_Upload_States
  imports R2_Frames R2_Upload_Complete
begin

section \<open>The life of an upload session\<close>

text \<open>
  The session rows as a state machine. \<open>session_step\<close> lists the changes that a row may undergo;
  \<open>upload_bystander\<close> is what a statement needs to survive them, and inside it every upload handler is
  shown to keep the statement. So each update of the code is a step of the machine, and invariants of
  the machine are invariants of the handlers under every interleaving and every failure.
\<close>

inductive session_step :: "int \<Rightarrow> session_row \<Rightarrow> session_row \<Rightarrow> bool" for now s where
  claim: "claimable_session now s \<Longrightarrow> session_step now s (s\<lparr>us_status := Completing, us_claimed_at := Some now\<rparr>)"
| release: "us_status s = Completing \<Longrightarrow> session_step now s (s\<lparr>us_status := Active, us_claimed_at := None\<rparr>)"
| complete: "us_status s = Completing \<Longrightarrow> session_step now s (completed_row obj now s)"
| abort: "us_status s \<in> {Active, Completing} \<Longrightarrow> session_step now s ((pending_cleanup now s)\<lparr>us_status := Aborted\<rparr>)"
| expire: "expirable now s \<Longrightarrow> session_step now s ((pending_cleanup now s)\<lparr>us_status := Expired\<rparr>)"
| redirect: "us_status s = Completing \<Longrightarrow> session_step now s (s\<lparr>us_object_key := k, us_policy := p, us_baseline := b\<rparr>)"
| link: "session_step now s (s\<lparr>us_recovery_id := r\<rparr>)"
| clean: "cleanup_due now s \<Longrightarrow>
    session_step now s (s\<lparr>us_cleanup_claimed := Some now, us_cleanup_attempts := Suc (us_cleanup_attempts s)\<rparr>)"
| cleaned: "session_step now s (s\<lparr>us_cleanup := c, us_cleanup_next := n, us_cleanup_claimed := None, us_cleanup_error := e\<rparr>)"
| reset: "us_cleanup s = Cleanup_failed \<Longrightarrow> session_step now s
    (s\<lparr>us_cleanup := Cleanup_pending, us_cleanup_attempts := 0, us_cleanup_next := Some now, us_cleanup_claimed := None,
       us_cleanup_error := None\<rparr>)"

lemma rebase: "us_status s = Completing \<Longrightarrow> session_step now s (s\<lparr>us_policy := p, us_baseline := b\<rparr>)"
  using redirect [where k = "us_object_key s" and s = s and now = now and p = p and b = b] by simp

text \<open>What a statement must also survive in the interface of the bucket for multipart uploads.\<close>

definition multipart_keeps :: "'w multipart \<Rightarrow> ('w \<Rightarrow> bool) \<Rightarrow> bool" where
  "multipart_keeps mp P \<longleftrightarrow> (\<forall>w. P w \<longrightarrow> (\<forall>k h c. P (snd (mp_create mp k h c w))) \<and>
     (\<forall>k u ps. P (snd (mp_complete mp k u ps w))) \<and> (\<forall>k u. P (snd (mp_abort mp k u w))))"

locale upload_bystander = bystander P for P :: "'x upload_world_scheme \<Rightarrow> bool" +
  assumes on_parts: "P w \<Longrightarrow> P (w\<lparr>uw_parts := ps\<rparr>)"
    and on_intents: "P w \<Longrightarrow> P (w\<lparr>uw_intents := is\<rparr>)"
    and on_files: "P w \<Longrightarrow> P (w\<lparr>uw_files := fs\<rparr>)"
    and on_open: "P w \<Longrightarrow> us_status s = Active \<Longrightarrow> us_claimed_at s = None \<Longrightarrow> us_cleanup_attempts s = 0 \<Longrightarrow>
      P (w\<lparr>uw_sessions := uw_sessions w @ [s]\<rparr>)"
    and on_drop: "P w \<Longrightarrow> P (w\<lparr>uw_sessions := filter (\<lambda>x. us_id x = sid \<longrightarrow> us_status x \<noteq> Active) (uw_sessions w)\<rparr>)"
    and on_session: "P w \<Longrightarrow> (\<And>s. guard (w_now w) s \<Longrightarrow> session_step (w_now w) s (change (w_now w) s)) \<Longrightarrow>
      P (snd (update_session sid guard change w))"
begin

lemma table_calls:
  assumes "P w"
  shows "P (snd (update_file i n g f w))" "P (snd (update_intent i g' f' w))" "P (snd (complete_intent i w))"
    "P (snd (upsert_part p w))" "P (snd (insert_intent it fls w))" "P (snd (find_file i n w))" "P (snd (lookup_intent a k w))"
    "P (snd (stored_parts sid w))"
  using assms
  by (auto simp: update_file_def update_intent_def complete_intent_def upsert_part_def insert_intent_def find_file_def
      lookup_intent_def stored_parts_def Let_def intro: on_parts on_intents on_files intro!: on_files [OF on_intents])

lemma session_calls:
  assumes "P w"
  shows "P (snd (claim_session sid w))" "P (snd (release_claim sid w))" "P (snd (abort_claimed sid w))"
  using assms unfolding claim_session_def release_claim_def abort_claimed_def
  by (auto intro!: on_session intro: session_step.intros)

lemma keeps_session: "turns_keep sv P \<Longrightarrow> keeps P (uploadSession sv sid actor)"
  unfolding uploadSession_def by (auto intro!: keeps_await)

lemma keeps_refresh: "turns_keep sv P \<Longrightarrow> keeps P (refreshFileIndexAndThumbnail sv obj t)"
  unfolding refreshFileIndexAndThumbnail_def by (auto intro!: keeps_steps keeps_repair)

lemma keeps_finalize: "turns_keep sv P \<Longrightarrow> keeps P (finalizeBrowserUpload sv s obj)"
  unfolding finalizeBrowserUpload_def
  by (auto intro!: keeps_steps keeps_refresh on_session table_calls intro: session_step.intros)

lemma keeps_staging:
  assumes "turns_keep sv P" and "multipart_keeps mp P"
  shows "keeps P (remove_staging sv mp s)"
  using assms unfolding remove_staging_def by (auto intro!: keeps_steps simp: multipart_keeps_def)

lemma keeps_clean_session:
  assumes "turns_keep sv P" and "multipart_keeps mp P"
  shows "keeps P (clean_session sv mp s)"
  using assms unfolding clean_session_def Let_def
  by (auto intro!: keeps_steps keeps_staging on_session intro: session_step.intros)

lemma keeps_clean_all:
  assumes "turns_keep sv P" and "multipart_keeps mp P"
  shows "keeps P (clean_all sv mp sids n)"
  using assms
  by (induction sids arbitrary: n)
    (auto simp: clean_candidate_def intro!: keeps_steps keeps_clean_session on_session intro: session_step.intros)

lemma keeps_cleanup_sessions:
  assumes "turns_keep sv P" and "multipart_keeps mp P"
  shows "keeps P (cleanupBrowserUploadSessions sv mp limit only)"
  using assms unfolding cleanupBrowserUploadSessions_def by (auto intro!: keeps_steps keeps_clean_all)

lemma keeps_expire_all:
  assumes "turns_keep sv P" and "multipart_keeps mp P"
  shows "keeps P (expire_all sv mp rows n)"
  using assms
  by (induction rows arbitrary: n)
    (auto simp: expire_session_def intro!: keeps_steps keeps_cleanup_sessions on_session table_calls intro: session_step.intros)

lemma keeps_expiry:
  assumes "turns_keep sv P" and "multipart_keeps mp P"
  shows "keeps P (expireBrowserUploadSessions sv mp limit)"
  using assms unfolding expireBrowserUploadSessions_def by (auto intro!: keeps_steps keeps_expire_all on_intents)

lemma keeps_replay: "turns_keep sv P \<Longrightarrow> keeps P (replay_session sv actor i n)"
  unfolding replay_session_def by (auto intro!: keeps_steps keeps_session table_calls)

lemma open_batch_keeps:
  assumes "P w" and "us_status s = Active" "us_claimed_at s = None" "us_cleanup_attempts s = 0"
  shows "P (snd (open_batch s r w))"
  unfolding open_batch_def Let_def
  by (auto intro!: table_calls on_open assms split: prod.split dest: arg_cong [of _ _ snd])

lemma keeps_register:
  assumes "turns_keep sv P" and "multipart_keeps mp P"
    and "us_status s = Active" "us_claimed_at s = None" "us_cleanup_attempts s = 0"
  shows "keeps P (register_session sv mp s resolution key)"
  using assms unfolding register_session_def
  by (auto intro!: keeps_steps keeps_replay open_batch_keeps on_drop simp: multipart_keeps_def)

lemma keeps_open_session:
  assumes "turns_keep sv P" and "multipart_keeps mp P"
  shows "keeps P (open_session sv mp actor file expires target conflict resolution obj)"
  using assms unfolding open_session_def Let_def
  by (auto intro!: keeps_steps keeps_register keeps_replay keeps_session simp: multipart_keeps_def split: fault.split)

lemma keeps_open_route:
  assumes "turns_keep sv P" and "multipart_keeps mp P" and "\<And>name d. keeps P (permit name d)"
  shows "keeps P (open_route sv mp permit actor intent ordinal resolution)"
proof -
  have destination: "keeps P (open_destination sv mp actor f expires requested)" for f expires requested
    unfolding open_destination_def skip_open_def Let_def
    by (auto intro!: keeps_steps keeps_targetName keeps_open_session table_calls assms(1,2) split: ConflictPolicy.split option.split)
  show ?thesis
    unfolding open_route_def
    by (auto intro!: keeps_steps keeps_permission keeps_session destination assms split: option.split)
qed

lemma keeps_intent_route:
  assumes "turns_keep sv P" and "\<And>name d. keeps P (permit name d)"
  shows "keeps P (intent_route sv mp permit actor header root files)"
  unfolding intent_route_def replay_intent_def Let_def
  by (auto intro!: keeps_steps keeps_for_each keeps_permission table_calls assms split: option.split)

lemma keeps_now: "keeps P (\<lambda>w. (Inr (w_now w), w))"
  by (simp add: keeps_def)

lemma keeps_part_route:
  assumes "turns_keep sv P" and "\<And>name d. keeps P (permit name d)"
  shows "keeps P (part_route sv permit actor sid number etag sz)" and "keeps P (ticket_route sv permit actor sid number)"
proof -
  have live: "keeps P (live_session sv sid actor)"
    unfolding live_session_def by (auto intro!: keeps_steps keeps_session keeps_now assms)
  show "keeps P (part_route sv permit actor sid number etag sz)"
    unfolding part_route_def Let_def by (auto intro!: keeps_steps live keeps_permission table_calls assms)
  show "keeps P (ticket_route sv permit actor sid number)"
    unfolding ticket_route_def Let_def by (auto intro!: keeps_steps live keeps_permission keeps_now assms)
qed

lemma keeps_try:
  assumes "keeps P m" and "\<And>x. keeps P (k x)"
  shows "keeps P (try_bind rec m k)"
  using assms unfolding keeps_def try_bind_def by (auto split: prod.splits sum.splits dest: spec)

lemma change_claimed_keeps:
  assumes "turns_keep sv P" and "\<And>now s. us_status s = Completing \<Longrightarrow> session_step now s (change s)"
  shows "keeps P (change_claimed sv sid change m)"
  using assms unfolding change_claimed_def by (auto intro!: keeps_steps on_session)

lemma keeps_stage:
  assumes "turns_keep sv P" and "multipart_keeps mp P"
  shows "keeps P (stage_upload sv mp s)"
  using assms unfolding stage_upload_def
  by (auto intro!: keeps_steps keeps_cleanup_sessions table_calls session_calls simp: multipart_keeps_def)

lemma keeps_current: "turns_keep sv P \<Longrightarrow> keeps P (current_session sv s actor)"
  unfolding current_session_def by (auto intro!: keeps_steps keeps_session)

lemma keeps_examine:
  assumes "turns_keep sv P" and "multipart_keeps mp P" and "\<And>name d. keeps P (permit name d)"
  shows "keeps P (examine_destination sv mp permit s actor requested)"
proof -
  have adopt: "keeps P (adopt_publication sv mp s actor obj)" for obj
    unfolding adopt_publication_def
    by (auto intro!: keeps_steps keeps_finalize keeps_cleanup_sessions keeps_current assms)
  have ask: "keeps P (ask_resolution sv s)"
    unfolding ask_resolution_def by (auto intro!: keeps_steps table_calls session_calls assms)
  have skip: "keeps P (skip_completion sv mp s)"
    unfolding skip_completion_def
    by (auto intro!: keeps_steps table_calls session_calls keeps_cleanup_sessions assms)
  have resolve: "keeps P (resolve_destination sv mp permit s requested obj)" for obj
    unfolding resolve_destination_def Let_def
    by (auto intro!: keeps_steps ask skip keeps_targetName keeps_permission change_claimed_keeps assms
        intro: session_step.intros rebase split: option.split ConflictPolicy.split)
  show ?thesis
    unfolding examine_destination_def by (auto intro!: keeps_steps adopt resolve assms)
qed

lemma keeps_drop_saved: "turns_keep sv P \<Longrightarrow> keeps P (drop_saved sv rec)"
  unfolding drop_saved_def by (auto intro!: keeps_steps)

lemma keeps_unlink: "turns_keep sv P \<Longrightarrow> keeps P (unlink_saved sv s)"
  unfolding unlink_saved_def by (auto intro!: keeps_steps on_session intro: session_step.intros)

lemma keeps_store_saved: "turns_keep sv P \<Longrightarrow> keeps P (store_saved sv s obj rec)"
  unfolding store_saved_def
  by (auto intro!: keeps_steps keeps_drop_saved change_claimed_keeps intro: session_step.intros)

lemma keeps_save_original:
  assumes "turns_keep sv P" and "\<And>rec s. keeps P (k rec s)"
  shows "keeps P (save_original sv s current k)"
  unfolding save_original_def Let_def
  by (auto intro!: keeps_steps keeps_try keeps_store_saved assms split: got.split)

lemma keeps_publish_step:
  assumes "turns_keep sv P" and "multipart_keeps mp P"
  shows "keeps P (publish_step sv mp actor staged rec s)"
  unfolding publish_step_def publish_upload_def not_published_def after_publication_def
  by (auto intro!: keeps_steps keeps_try keeps_drop_saved keeps_unlink keeps_finalize keeps_cleanup_sessions keeps_current
      session_calls assms split: option.split)

lemma keeps_complete_route:
  assumes "turns_keep sv P" and "multipart_keeps mp P" and "\<And>name d. keeps P (permit name d)"
  shows "keeps P (complete_route sv mp permit actor sid resolution)"
proof -
  have undo: "keeps P (undo_completion sv s rec f)" for s rec f
    unfolding undo_completion_def
    by (auto intro!: keeps_steps keeps_drop_saved keeps_unlink session_calls assms)
  have answer: "keeps P (case r of Inr answer \<Rightarrow> ret answer | Inl (rec, f) \<Rightarrow> undo_completion sv s rec f)" for s r
    using undo by (auto split: sum.split)
  have claimed: "keeps P (complete_claimed sv mp permit s actor requested)" for s requested
    unfolding complete_claimed_def
    by (auto intro!: keeps_steps keeps_try keeps_stage keeps_examine keeps_save_original keeps_publish_step assms
        split: completion_step.split got.split)
  show ?thesis
    unfolding complete_route_def
    by (auto intro!: keeps_steps keeps_session keeps_permission keeps_now session_calls answer claimed assms)
qed

lemma keeps_closing_routes:
  assumes "turns_keep sv P" and "multipart_keeps mp P" and "\<And>name d. keeps P (permit name d)"
  shows "keeps P (abort_route sv mp permit actor sid)" and "keeps P (cleanup_retry_route sv mp permit actor sid)"
    and "keeps P (session_route sv permit actor sid)"
proof -
  note steps = keeps_steps keeps_session keeps_permission keeps_cleanup_sessions keeps_current table_calls on_session assms
  show "keeps P (abort_route sv mp permit actor sid)"
    unfolding abort_route_def by (auto intro!: steps intro: session_step.intros)
  show "keeps P (cleanup_retry_route sv mp permit actor sid)"
    unfolding cleanup_retry_route_def by (auto intro!: steps intro: session_step.intros)
  show "keeps P (session_route sv permit actor sid)"
    unfolding session_route_def by (auto intro!: steps)
qed

lemmas upload_routes = keeps_intent_route keeps_open_route keeps_part_route keeps_complete_route keeps_closing_routes
  keeps_cleanup_sessions keeps_expiry

end

subsection \<open>Updates as steps\<close>

lemma update_session_rows:
  assumes "\<And>s. guard (w_now w) s \<Longrightarrow> session_step (w_now w) s (change (w_now w) s)"
  shows "list_all2 (\<lambda>s s'. s' = s \<or> session_step (w_now w) s s') (uw_sessions w) (uw_sessions (snd (update_session sid guard change w)))"
  using assms by (auto simp: update_session_def Let_def list_all2_conv_all_nth)

lemma updated_row: "list_all2 R xs ys \<Longrightarrow> y \<in> set ys \<Longrightarrow> \<exists>x \<in> set xs. R x y"
  by (induction rule: list_all2_induct) auto

lemma row_updated: "list_all2 R xs ys \<Longrightarrow> x \<in> set xs \<Longrightarrow> \<exists>y \<in> set ys. R x y"
  by (induction rule: list_all2_induct) auto

subsection \<open>Well-formed rows\<close>

definition wf_session :: "session_row \<Rightarrow> bool" where
  "wf_session s \<longleftrightarrow> us_cleanup_attempts s \<le> MAX_UPLOAD_CLEANUP_ATTEMPTS \<and>
     (us_claimed_at s \<noteq> None \<longleftrightarrow> us_status s = Completing) \<and>
     (us_status s = Session_completed \<longrightarrow> us_result_key s \<noteq> None \<and> us_result_etag s \<noteq> None \<and> us_completed_at s \<noteq> None)"

lemma step_wf: "session_step now s s' \<Longrightarrow> wf_session s \<Longrightarrow> wf_session s'"
  by (induction rule: session_step.induct)
    (auto simp: wf_session_def completed_row_def pending_cleanup_def cleanup_due_def split: option.splits)

definition wf_sessions :: "'x upload_world_scheme \<Rightarrow> bool" where
  "wf_sessions w \<longleftrightarrow> (\<forall>s \<in> set (uw_sessions w). wf_session s)"

lemma wf_update:
  assumes "wf_sessions w" and "\<And>s. guard (w_now w) s \<Longrightarrow> session_step (w_now w) s (change (w_now w) s)"
  shows "wf_sessions (snd (update_session sid guard change w))"
  unfolding wf_sessions_def
proof
  fix s' assume "s' \<in> set (uw_sessions (snd (update_session sid guard change w)))"
  then obtain s where "s \<in> set (uw_sessions w)" "s' = s \<or> session_step (w_now w) s s'"
    using updated_row [OF update_session_rows [of guard w change sid, OF assms(2)]] by blast
  thus "wf_session s'" using assms(1) step_wf by (auto simp: wf_sessions_def)
qed

lemma wf_opened: "us_status s = Active \<Longrightarrow> us_claimed_at s = None \<Longrightarrow> us_cleanup_attempts s = 0 \<Longrightarrow> wf_session s"
  by (simp add: wf_session_def)

lemma wf_fields [simp]:
  "wf_sessions (w\<lparr>w_bucket := b\<rparr>) = wf_sessions w" "wf_sessions (w\<lparr>w_index := i\<rparr>) = wf_sessions w"
  "wf_sessions (w\<lparr>w_locations := l\<rparr>) = wf_sessions w" "wf_sessions (w\<lparr>w_recovery := r\<rparr>) = wf_sessions w"
  "wf_sessions (w\<lparr>w_suppressions := u\<rparr>) = wf_sessions w" "wf_sessions (w\<lparr>w_outbox := e\<rparr>) = wf_sessions w"
  "wf_sessions (w\<lparr>w_calls := n\<rparr>) = wf_sessions w" "wf_sessions (w\<lparr>w_minted := n\<rparr>) = wf_sessions w"
  "wf_sessions (w\<lparr>uw_parts := ps\<rparr>) = wf_sessions w" "wf_sessions (w\<lparr>uw_intents := is\<rparr>) = wf_sessions w"
  "wf_sessions (w\<lparr>uw_files := fs\<rparr>) = wf_sessions w"
  by (simp_all add: wf_sessions_def)

interpretation wf: upload_bystander wf_sessions
proof unfold_locales
  fix w :: "'a upload_world_scheme" and sid guard change
  assume "wf_sessions w" and "\<And>s. guard (w_now w) s \<Longrightarrow> session_step (w_now w) s (change (w_now w) s)"
  thus "wf_sessions (snd (update_session sid guard change w))" by (rule wf_update)
qed (auto simp: wf_opened, auto simp: wf_sessions_def wf_opened)

subsection \<open>Ended sessions\<close>

definition same_end :: "session_row \<Rightarrow> session_row \<Rightarrow> bool" where
  "same_end s s' \<longleftrightarrow> us_id s' = us_id s \<and> us_status s' = us_status s \<and> us_object_key s' = us_object_key s \<and>
     us_result_key s' = us_result_key s \<and> us_result_etag s' = us_result_etag s \<and> us_completed_at s' = us_completed_at s"

lemma step_end: "session_step now s s' \<Longrightarrow> terminal_session s \<Longrightarrow> same_end s s'"
  by (induction rule: session_step.induct)
    (auto simp: same_end_def terminal_session_def claimable_session_def stale_claim_def expirable_def)

definition ended_session :: "session_row \<Rightarrow> 'x upload_world_scheme \<Rightarrow> bool" where
  "ended_session s w \<longleftrightarrow> terminal_session s \<and> (\<exists>s' \<in> set (uw_sessions w). same_end s s')"

lemma same_end_terminal: "same_end s s' \<Longrightarrow> terminal_session s \<Longrightarrow> terminal_session s'"
  by (simp add: same_end_def terminal_session_def)

lemma ended_update:
  assumes e: "ended_session s w" and step: "\<And>s. guard (w_now w) s \<Longrightarrow> session_step (w_now w) s (change (w_now w) s)"
  shows "ended_session s (snd (update_session sid guard change w))"
proof -
  obtain x where x: "x \<in> set (uw_sessions w)" "same_end s x" "terminal_session s" using e by (auto simp: ended_session_def)
  obtain y where y: "y \<in> set (uw_sessions (snd (update_session sid guard change w)))" "y = x \<or> session_step (w_now w) x y"
    using row_updated [OF update_session_rows [of guard w change sid, OF step] x(1)] by blast
  have "same_end s y"
    using y(2) x(2) step_end [OF _ same_end_terminal [OF x(2,3)]] by (auto simp: same_end_def)
  thus ?thesis using x(3) y(1) by (auto simp: ended_session_def)
qed

lemma ended_fields [simp]:
  "ended_session s (w\<lparr>w_bucket := b\<rparr>) = ended_session s w" "ended_session s (w\<lparr>w_index := i\<rparr>) = ended_session s w"
  "ended_session s (w\<lparr>w_locations := l\<rparr>) = ended_session s w" "ended_session s (w\<lparr>w_recovery := r\<rparr>) = ended_session s w"
  "ended_session s (w\<lparr>w_suppressions := u\<rparr>) = ended_session s w" "ended_session s (w\<lparr>w_outbox := e\<rparr>) = ended_session s w"
  "ended_session s (w\<lparr>w_calls := n\<rparr>) = ended_session s w" "ended_session s (w\<lparr>w_minted := n\<rparr>) = ended_session s w"
  "ended_session s (w\<lparr>uw_parts := ps\<rparr>) = ended_session s w" "ended_session s (w\<lparr>uw_intents := is\<rparr>) = ended_session s w"
  "ended_session s (w\<lparr>uw_files := fs\<rparr>) = ended_session s w"
  by (simp_all add: ended_session_def)

interpretation session_end: upload_bystander "ended_session s" for s
proof unfold_locales
  fix w :: "'a upload_world_scheme" and sid guard change
  assume "ended_session s w" and "\<And>s. guard (w_now w) s \<Longrightarrow> session_step (w_now w) s (change (w_now w) s)"
  thus "ended_session s (snd (update_session sid guard change w))" by (rule ended_update)
next
  fix w :: "'a upload_world_scheme" and sid
  assume "ended_session s w"
  then obtain x where "x \<in> set (uw_sessions w)" "same_end s x" "terminal_session s" by (auto simp: ended_session_def)
  moreover from this have "us_status x \<noteq> Active" by (auto simp: same_end_def terminal_session_def)
  ultimately show "ended_session s (w\<lparr>uw_sessions := filter (\<lambda>x. us_id x = sid \<longrightarrow> us_status x \<noteq> Active) (uw_sessions w)\<rparr>)"
    by (auto simp: ended_session_def)
qed (auto, auto simp: ended_session_def)

text \<open>
  C28: Every session row stays well formed under every upload handler: a claim time exactly while the
  session is completing, a result on every completed session, at most eight cleanup attempts. This holds
  in any environment that keeps it, so for all interleavings of handlers, and for all failures.
\<close>

theorem session_rows_wf:
  assumes "turns_keep sv wf_sessions" and "multipart_keeps mp wf_sessions" and "\<And>name d. keeps wf_sessions (permit name d)"
    and "wf_sessions w"
  shows "wf_sessions (snd (open_route sv mp permit actor intent ordinal resolution w)) \<and>
    wf_sessions (snd (part_route sv permit actor sid number etag sz w)) \<and>
    wf_sessions (snd (complete_route sv mp permit actor sid resolution w)) \<and>
    wf_sessions (snd (abort_route sv mp permit actor sid w)) \<and>
    wf_sessions (snd (cleanup_retry_route sv mp permit actor sid w)) \<and>
    wf_sessions (snd (cleanupBrowserUploadSessions sv mp limit only w)) \<and>
    wf_sessions (snd (expireBrowserUploadSessions sv mp limit w))"
  by (intro conjI; rule keeps_snd [of wf_sessions, OF _ assms(4)], rule wf.upload_routes, (rule assms(1-3))+)

text \<open>
  C23: A session that is completed, aborted or expired keeps its status, its destination and its result
  for ever, under every upload handler, every interleaving and every failure; only its cleanup goes on.
\<close>

theorem ended_sessions_stay:
  assumes "turns_keep sv (ended_session s)" and "multipart_keeps mp (ended_session s)"
    and "\<And>name d. keeps (ended_session s) (permit name d)" and "ended_session s w"
  shows "ended_session s (snd (open_route sv mp permit actor intent ordinal resolution w)) \<and>
    ended_session s (snd (part_route sv permit actor sid number etag sz w)) \<and>
    ended_session s (snd (complete_route sv mp permit actor sid resolution w)) \<and>
    ended_session s (snd (abort_route sv mp permit actor sid w)) \<and>
    ended_session s (snd (cleanup_retry_route sv mp permit actor sid w)) \<and>
    ended_session s (snd (cleanupBrowserUploadSessions sv mp limit only w)) \<and>
    ended_session s (snd (expireBrowserUploadSessions sv mp limit w))"
  by (intro conjI; rule keeps_snd [of "ended_session s", OF _ assms(4)], rule session_end.upload_routes, (rule assms(1-3))+)

end
