(* ===== verification/R2_Samples.thy ===== *)
theory R2_Samples
  imports R2_Transfers R2_Job_States R2_Upload_States
begin

section \<open>Sample services and worlds\<close>

text \<open>
  Small concrete services, objects and tables, on which the properties are applied.
\<close>

definition plain_paths :: path_runtime where
  "plain_paths = \<lparr>pr_lower = id, pr_upper = id, pr_nfc = id\<rparr>"

definition plain_index :: index_runtime where
  "plain_index = \<lparr>xr_parse = (\<lambda>_. None), xr_iso = (\<lambda>t. [48]), xr_mime = (\<lambda>_. [])\<rparr>"

definition sample_services :: "(nat \<Rightarrow> outcome) \<Rightarrow> 'x world_scheme services" where
  "sample_services outcomes = \<lparr>sv_paths = plain_paths, sv_index = plain_index, sv_etag = map unat, sv_version = (\<lambda>n. [118, n]),
     sv_uuid = (\<lambda>n. [117, n]), sv_list = (\<lambda>b prefix limit cursor start. \<lparr>rp_objects = [], rp_truncated = False, rp_cursor = None\<rparr>),
     sv_manifest = (\<lambda>_. None), sv_rewrite = (\<lambda>body _. body), sv_artifacts = id, sv_eligible = (\<lambda>_ _ _. False),
     sv_supported = (\<lambda>_ _. False), sv_absent = None, sv_recovery = False, sv_fuel = 10, sv_turn = (\<lambda>_ w. w),
     sv_outcome = outcomes\<rparr>"

definition sample_object :: "ustring \<Rightarrow> byte list \<Rightarrow> r2_object" where
  "sample_object k body = \<lparr>r2_key = k, r2_body = body, r2_etag = map unat body, r2_version = [118], r2_uploaded = 0,
     r2_http = [], r2_meta = []\<rparr>"

definition sample_world :: "(ustring \<times> byte list) list \<Rightarrow> world" where
  "sample_world objs = \<lparr>w_bucket = (\<lambda>k. map_option (sample_object k) (map_of objs k)),
     w_index = \<lparr>ix_rows = (\<lambda>_. None), ix_revisions = (\<lambda>_. None)\<rparr>, w_locations = [], w_recovery = [], w_suppressions = [],
     w_folders = [], w_outbox = [], w_now = 0, w_calls = 0, w_minted = 0\<rparr>"

lemma sample_quiet: "quiet (sample_services (\<lambda>_. Served))"
  by (simp add: quiet_def sample_services_def)

lemma recovery_key_hd: "recovery_key r t \<noteq> [] \<and> hd (recovery_key r t) = 74"
  by (simp add: recovery_key_def ustr_def)

lemma sample_fresh:
  assumes "\<forall>k \<in> fst ` set objs. hd k \<noteq> 74"
  shows "fresh_keys sv (w_bucket (sample_world objs), w_minted (sample_world objs))"
proof -
  have "map_of objs (recovery_key r k) = None" for r k
    using assms recovery_key_hd [of r k] by (auto simp: map_of_eq_None_iff)
  thus ?thesis by (simp add: fresh_keys_def sample_world_def)
qed

definition sample_objects :: "(ustring \<times> byte list) list" where
  "sample_objects = [([115], [1]), ([116], [2])]"

definition sample_row :: "job_status \<Rightarrow> job_row" where
  "sample_row status = \<lparr>jb_id = [106], jb_kind = Batch_job, jb_status = status, jb_requested_by = [97], jb_source = None,
     jb_target = None, jb_conflict = Fail, jb_payload = Operations [], jb_cursor = No_cursor, jb_total = 0, jb_processed = 0,
     jb_attempts = 1, jb_next_attempt = None, jb_lease = Some 100, jb_claim = Some [116], jb_error = None, jb_created = 0,
     jb_updated = 0, jb_completed = None, jb_expires = 1000\<rparr>"

definition sample_job_world :: "job_row list \<Rightarrow> job_world" where
  "sample_job_world jobs = \<lparr>w_bucket = (\<lambda>_. None), w_index = \<lparr>ix_rows = (\<lambda>_. None), ix_revisions = (\<lambda>_. None)\<rparr>,
     w_locations = [], w_recovery = [], w_suppressions = [], w_folders = [], w_outbox = [], w_now = 7, w_calls = 0,
     w_minted = 0, sw_shares = [], sw_projects = [], jw_jobs = jobs\<rparr>"

definition sample_session :: "session_status \<Rightarrow> session_row" where
  "sample_session status = \<lparr>us_id = [115], us_upload_id = [117], us_object_key = [116], us_staging_key = Some [103],
     us_expected_size = 40 * 1024 ^ 2, us_content_type = [], us_part_size = 32 * 1024 ^ 2, us_status = status,
     us_created_by = [97], us_expires = 1000, us_intent = [105], us_ordinal = 0, us_policy = Fail, us_result_key = Some [116],
     us_result_etag = Some [101], us_claimed_at = None, us_baseline = ustr ''absent'', us_recovery_id = None,
     us_cleanup = Cleanup_pending, us_cleanup_attempts = 0, us_cleanup_next = None, us_cleanup_claimed = None,
     us_cleanup_error = None, us_completed_at = Some 5\<rparr>"

definition sample_upload_world :: "session_row list \<Rightarrow> upload_world" where
  "sample_upload_world sessions = \<lparr>w_bucket = (\<lambda>_. None), w_index = \<lparr>ix_rows = (\<lambda>_. None), ix_revisions = (\<lambda>_. None)\<rparr>,
     w_locations = [], w_recovery = [], w_suppressions = [], w_folders = [], w_outbox = [], w_now = 7, w_calls = 0,
     w_minted = 0, uw_sessions = sessions, uw_parts = [], uw_intents = [], uw_files = []\<rparr>"

definition sample_multipart :: "'w multipart" where
  "sample_multipart = \<lparr>mp_create = (\<lambda>k h c w. ([117], w)), mp_complete = (\<lambda>k u ps w. (Inl (Failed ''gone''), w)),
     mp_abort = (\<lambda>k u w. (Inr (), w)), mp_no_such_upload = (\<lambda>_. False), mp_fingerprint = (\<lambda>root files. root)\<rparr>"

definition sample_permit :: "'w permit" where
  "sample_permit name division = ret ()"

lemma sample_turns [simp]: "turns_keep (sample_services outcomes) P"
  by (simp add: turns_keep_def sample_services_def)

lemma sample_permits [simp]: "keeps P (sample_permit name division)"
  by (simp add: sample_permit_def keeps_ret)

lemma sample_multipart_keeps [simp]: "multipart_keeps sample_multipart P"
  by (simp add: multipart_keeps_def sample_multipart_def)

end
