(* ===== verification/R2_Properties.thy ===== *)
theory R2_Properties
  imports R2_Samples
begin

section \<open>Properties of storage paths, uploads, the index and shares\<close>

text \<open>
  Where accepted keys lie, how the parts of an upload tile the file, what the revision fence of the
  delivery index guarantees, and sample runs.
\<close>

subsection \<open>Keys\<close>

lemma collapse_chars: "c \<in> set (collapse_slashes s) \<Longrightarrow> c \<in> set s"
  by (induction s rule: collapse_slashes.induct) (auto split: if_splits)

lemma clean_form_chars:
  assumes "c \<in> set (clean_form s)"
  shows "c \<noteq> 92 \<and> (c = 47 \<or> c \<in> set s)"
proof -
  have "c \<in> set (collapse_slashes (strip_leading (forward_slashes (js_trim s))))"
    using assms by (auto simp: clean_form_def strip_trailing_def dest: set_dropWhileD)
  hence "c \<in> set (forward_slashes (js_trim s))"
    by (auto simp: strip_leading_def dest: collapse_chars set_dropWhileD)
  thus ?thesis
    by (auto simp: forward_slashes_def js_trim_def dest!: set_dropWhileD)
qed

lemma dropWhile_fixed: "s \<noteq> [] \<Longrightarrow> \<not> f (hd s) \<Longrightarrow> dropWhile f s = s"
  by (cases s) auto

lemma trim_fixed: "s \<noteq> [] \<Longrightarrow> \<not> js_space (hd s) \<Longrightarrow> \<not> js_space (List.last s) \<Longrightarrow> js_trim s = s"
  by (simp add: js_trim_def dropWhile_fixed hd_rev)

lemma no_double_slash_end:
  assumes c: "clean_path lower p"
  shows "no_double (p @ [47])"
proof (rule no_doubleI, rule notI)
  fix a b assume p: "p @ [47] = a @ 47 # 47 # b"
  have "List.last p \<noteq> 47" and ne: "p \<noteq> []" using clean_path_ends [OF c] clean_path_nonempty [OF c] by auto
  show False
  proof (cases b rule: rev_cases)
    case Nil
    hence "p = a @ [47]" using p by (metis append.assoc append_Cons append_Nil append1_eq_conv)
    thus False using \<open>List.last p \<noteq> 47\<close> by simp
  next
    case (snoc b' x)
    hence "p = a @ 47 # 47 # b'" using p by simp
    thus False using clean_no_double [OF c] no_double_split by blast
  qed
qed

lemma js_space_47 [simp]: "\<not> js_space 47" "\<not> js_space 74"
  by (simp_all add: js_space_def)

lemma clean_form_fixed:
  assumes "clean_path lower p" and "92 \<notin> set p" and "\<not> js_space (hd p)"
  shows "\<not> js_space (List.last p) \<Longrightarrow> clean_form p = p" and "clean_form (p @ [47]) = p"
proof -
  note ends = clean_path_ends [OF assms(1)] and ne = clean_path_nonempty [OF assms(1)]
  show "clean_form p = p" if "\<not> js_space (List.last p)"
    using that ends ne clean_no_double [OF assms(1)]
    by (simp add: clean_form_def trim_fixed assms forward_fixed strip_leading_fixed collapse_fixed strip_trailing_fixed)
  have "js_trim (p @ [47]) = p @ [47]" by (rule trim_fixed) (simp_all add: assms(3) ne js_space_47)
  moreover have "strip_trailing (p @ [47]) = p"
    using strip_trailing_fixed [OF ne] ends by (simp add: strip_trailing_def)
  ultimately show "clean_form (p @ [47]) = p"
    using ends ne no_double_slash_end [OF assms(1)]
    by (simp add: clean_form_def assms forward_fixed strip_leading_fixed collapse_fixed)
qed

definition delivery_root :: ustring where
  "delivery_root = ustr ''Jobs/Clients''"

lemma starts_hd: "starts_with s p \<Longrightarrow> p \<noteq> [] \<Longrightarrow> hd s = hd p"
  by (metis starts_with_def append_take_drop_id hd_append)

lemma delivery_root_hd: "p = delivery_root \<or> starts_with p (delivery_root @ [47]) \<Longrightarrow> hd p = 74"
  by (auto simp: delivery_root_def ustr_def dest: starts_hd)

text \<open>
  C26: An accepted key lies at or under \<open>Jobs/Clients\<close>, has only proper segments and at
  most 1,024 bytes. Validating it again gives the same key when it has at most 1,000 UTF-16 units and
  does not end with a blank. Both conditions are needed: a folder given by 1,000 units without its slash
  is accepted as a key of 1,001 units, which is refused when a job validates its stored key again, and a
  key that ends with a blank loses it.
\<close>

theorem accepted_keys_confined:
  assumes "normalizeCrudKey rt v folder = Inr k"
  shows "\<exists>p. k = (if folder then p @ [47] else p) \<and> clean_path (pr_lower rt) p \<and>
    (p = delivery_root \<and> folder \<or> starts_with p (delivery_root @ [47])) \<and> length (utf8 k) \<le> 1024 \<and>
    (js_length k \<le> 1000 \<and> (folder \<or> \<not> js_space (List.last p)) \<longrightarrow> normalizeCrudKey rt (Some k) folder = Inr k)"
proof -
  obtain s where v: "v = Some s" and ok: "acceptable_text (Some s)"
    using assms by (cases v) (auto simp: normalizeCrudKey_def acceptable_text_def split: if_splits)
  define p where "p = clean_form s"
  have root: "ustr ''Jobs/Clients/'' = delivery_root @ [47]" by (simp add: delivery_root_def ustr_def)
  have clean: "clean_path (pr_lower rt) p"
    and place: "p = delivery_root \<and> folder \<or> starts_with p (delivery_root @ [47])"
    and fin: "finish_key p folder = Inr k"
    using assms ok
    by (auto simp: normalizeCrudKey_def v p_def Let_def clean_path_def root delivery_root_def list_ex_iff list_all_iff split: if_splits)
  have k: "k = (if folder then p @ [47] else p)" "length (utf8 k) \<le> 1024"
    using fin by (auto simp: finish_key_def MAX_R2_KEY_BYTES_def Let_def split: if_splits)
  have again: "normalizeCrudKey rt (Some k) folder = Inr k" if len: "js_length k \<le> 1000" and e: "folder \<or> \<not> js_space (List.last p)"
  proof -
    have nospace: "\<not> js_space (hd p)" using delivery_root_hd place by auto
    have "92 \<notin> set p" using clean_form_chars [of 92 s] by (auto simp: p_def)
    hence "clean_form k = p" using clean_form_fixed [OF clean _ nospace] e k(1) by auto
    moreover have "\<not> control_char c" if "c \<in> set p" for c
      using clean_form_chars [of c s] that ok
      by (auto simp: p_def acceptable_text_def list_ex_iff) (simp add: control_char_def)
    hence "acceptable_text (Some k)"
      using len by (auto simp: acceptable_text_def MAX_KEY_LENGTH_def list_ex_iff k(1)) (simp add: control_char_def)
    moreover have "\<not> starts_with delivery_root (delivery_root @ [47])" by (simp add: starts_with_def)
    ultimately show ?thesis
      using clean place fin clean_path_nonempty [OF clean]
      by (auto simp: normalizeCrudKey_def Let_def clean_path_def root delivery_root_def list_ex_iff list_all_iff)
  qed
  show ?thesis using k clean place again by blast
qed

subsection \<open>Parts\<close>

lemma sum_parts: "(\<Sum>i \<leftarrow> [0..<c]. min m (n - i * m)) = min n (c * m)" for m n :: nat
  by (induction c) (auto simp: min_def algebra_simps)

lemma part_size_bounds:
  shows "32 * 1024 ^ 2 \<le> operationsMultipartPartSize n" and "n \<le> 10000 * operationsMultipartPartSize n"
    and "n \<le> 500 * 1024 ^ 3 \<Longrightarrow> operationsMultipartPartSize n \<le> 55 * 1024 ^ 2"
proof -
  let ?g = "ceil_div n 10000" and ?m = "5 * 1024 ^ 2 :: nat"
  show "32 * 1024 ^ 2 \<le> operationsMultipartPartSize n" by (simp add: operationsMultipartPartSize_def)
  have "n \<le> ?g * 10000" "?g \<le> ceil_div ?g ?m * ?m" by (simp_all add: ceil_div_mult_ge)
  thus "n \<le> 10000 * operationsMultipartPartSize n" by (simp add: operationsMultipartPartSize_def)
  show "operationsMultipartPartSize n \<le> 55 * 1024 ^ 2" if "n \<le> 500 * 1024 ^ 3"
  proof -
    have "?g \<le> 53687092" by (rule ceil_div_le) (use that in simp_all)
    hence "ceil_div ?g ?m \<le> 11" by - (rule ceil_div_le, simp_all)
    thus ?thesis by (simp add: operationsMultipartPartSize_def)
  qed
qed

definition part_sizes :: "nat \<Rightarrow> nat \<Rightarrow> nat list" where
  "part_sizes n m = map (\<lambda>i. min m (n - i * m)) [0..<ceil_div n m]"

lemma part_sizes_length [simp]: "length (part_sizes n m) = ceil_div n m"
  by (simp add: part_sizes_def)

lemma part_sizes_sum: "0 < m \<Longrightarrow> sum_list (part_sizes n m) = n"
  using ceil_div_mult_ge [of m n] by (simp add: part_sizes_def sum_parts)

lemma part_sizes_nth:
  assumes "0 < m" and "0 < n" and i: "i < ceil_div n m"
  shows "0 < part_sizes n m ! i" and "part_sizes n m ! i \<le> m" and "Suc i < ceil_div n m \<Longrightarrow> part_sizes n m ! i = m"
proof -
  have "(ceil_div n m - 1) * m < n" using ceil_div_pred_less [OF assms(1,2)] .
  moreover have "i * m \<le> (ceil_div n m - 1) * m" using i by (intro mult_right_mono) auto
  ultimately have "i * m < n" by linarith
  thus "0 < part_sizes n m ! i" and "part_sizes n m ! i \<le> m" using assms by (simp_all add: part_sizes_def)
  show "part_sizes n m ! i = m" if "Suc i < ceil_div n m"
  proof -
    have "Suc i * m \<le> (ceil_div n m - 1) * m" using that by (intro mult_right_mono) auto
    hence "m \<le> n - i * m" using \<open>(ceil_div n m - 1) * m < n\<close> by simp
    thus ?thesis using i by (simp add: part_sizes_def)
  qed
qed

lemma parts_complete_sizes:
  assumes "parts_complete s parts"
  shows "map pt_size parts = part_sizes (us_expected_size s) (us_part_size s)" and "map pt_number parts = [1..<Suc (length parts)]"
  using assms
  by (auto intro!: nth_equalityI simp: parts_complete_def part_sizes_def list_all_length nth_enumerate_eq simp del: upt_Suc)

text \<open>
  C27: The parts of an upload session tile the file: at most 10,000 of them, between 32 and 55 MiB but
  for the last, their sizes add up to the file, exactly the numbers of these parts are accepted, and a
  session counts as complete only with exactly these parts checkpointed.
\<close>

theorem upload_parts_cover:
  assumes "0 < us_expected_size s" and "int (us_expected_size s) \<le> MAX_BROWSER_UPLOAD_FILE_BYTES"
    and "us_part_size s = operationsMultipartPartSize (us_expected_size s)"
  defines "sizes \<equiv> part_sizes (us_expected_size s) (us_part_size s)"
  shows "length sizes \<le> 10000 \<and> sum_list sizes = us_expected_size s \<and>
    32 * 1024 ^ 2 \<le> us_part_size s \<and> us_part_size s \<le> 55 * 1024 ^ 2 \<and>
    (\<forall>i < length sizes. 0 < sizes ! i \<and> sizes ! i \<le> us_part_size s \<and> (Suc i < length sizes \<longrightarrow> sizes ! i = us_part_size s)) \<and>
    (\<forall>n. browserUploadPart s (Some n) =
       (if 1 \<le> n \<and> n \<le> int (length sizes) then Inr (nat n, sizes ! (nat n - 1))
        else Inl (Http 400 ''Upload part size or number is invalid''))) \<and>
    (\<forall>parts. parts_complete s parts \<longrightarrow> map pt_size parts = sizes \<and> map pt_number parts = [1..<Suc (length sizes)])"
proof -
  have size: "us_expected_size s \<le> 500 * 1024 ^ 3"
    using assms(2) by (simp add: MAX_BROWSER_UPLOAD_FILE_BYTES_def)
  note bounds = part_size_bounds [of "us_expected_size s", folded assms(3)]
  have m: "0 < us_part_size s" using bounds(1) by (rule less_le_trans [rotated]) simp
  have len: "length sizes = ceil_div (us_expected_size s) (us_part_size s)" by (simp add: sizes_def part_sizes_def)
  have count: "length sizes \<le> 10000" unfolding len by (rule ceil_div_le [OF m bounds(2)])
  have nth: "0 < sizes ! i \<and> sizes ! i \<le> us_part_size s \<and> (Suc i < length sizes \<longrightarrow> sizes ! i = us_part_size s)"
    if "i < length sizes" for i
    using part_sizes_nth [OF m assms(1), of i] that by (simp add: len sizes_def)
  have accept: "browserUploadPart s (Some n) =
       (if 1 \<le> n \<and> n \<le> int (length sizes) then Inr (nat n, sizes ! (nat n - 1))
        else Inl (Http 400 ''Upload part size or number is invalid''))" for n
  proof (cases "1 \<le> n \<and> n \<le> int (length sizes)")
    case True
    hence "nat n - 1 < length sizes" by linarith
    thus ?thesis using True count
      by (auto simp: browserUploadPart_def is_safe_integer_def MAX_SAFE_INTEGER_def Let_def len sizes_def part_sizes_def)
  next
    case False
    thus ?thesis by (auto simp: browserUploadPart_def Let_def len)
  qed
  have complete: "map pt_size parts = sizes \<and> map pt_number parts = [1..<Suc (length sizes)]" if "parts_complete s parts" for parts
    using parts_complete_sizes [OF that] that by (simp add: len sizes_def parts_complete_def)
  show ?thesis
    using count part_sizes_sum [OF m, of "us_expected_size s"] bounds(1) bounds(3) [OF size] nth accept complete
    by (simp add: sizes_def)
qed

subsection \<open>The fence of the index\<close>

definition prepared_from :: "index_runtime \<Rightarrow> int \<Rightarrow> DeliveryIndexObservation \<Rightarrow> observed_object \<Rightarrow> stream_state option \<Rightarrow> index_statement \<Rightarrow> bool" where
  "prepared_from rt now s obj stream stmt \<longleftrightarrow>
     prepareDeliveryIndexCreateAcceptance rt now s obj stream = Inr stmt \<or>
     prepareDeliveryIndexRepair rt now s obj stream = Inr stmt \<or> prepareDeliveryIndexDeleteAcceptance s = Inr stmt"

text \<open>
  C13: A statement prepared from an observation of the index and run after any further writes either
  changes nothing, or writes once over exactly the row that was observed: whatever was inserted,
  updated or deleted in between, even back to the same content, it never overwrites a newer row.
\<close>

theorem stale_statements_write_nothing:
  assumes "readDeliveryIndexObservation db key = Inr s" and "prepared_from rt now s obj stream stmt" and "index_write\<^sup>*\<^sup>* db db'"
  shows "stmt db' = (0, db') \<or>
    (fst (stmt db') = 1 \<and> index_write db' (snd (stmt db')) \<and> ix_rows db' key = ix_rows db key \<and>
     revision_of db' key = revision_of db key)"
proof -
  have s: "dx_key s = key" "dx_revision s = revision_of db key"
    using assms(1) by (auto simp: readDeliveryIndexObservation_def rbind_eq_Inr)
  have "fenced s stmt"
    using assms(2) fenced_create fenced_repair fenced_delete by (auto simp: prepared_from_def)
  hence "stmt db' = (0, db') \<or> (\<exists>db''. stmt db' = (1, db'') \<and> index_write db' db'' \<and> revision_of db' key = revision_of db key)"
    using s by (auto simp: fenced_def)
  thus ?thesis using writes_advance [OF assms(3), of key] by auto
qed

definition lossy_services :: "'x world_scheme services" where
  "lossy_services = sample_services (\<lambda>n. if n = 9 then Lost ''network'' else Served)"

lemmas copy_run = copyObject_def copy_to_def bind_io_def await_cases tick_def sample_services_def sample_world_def
    sample_objects_def r2_head_def sample_object_def moved_marker_iff targetName_def matchingCrudPublication_def ret_def
    resumed_copy_def index_lookup_def r2_get_got got_of_def put_allowed_def choose_destination_def save_replaced_def
    save_existing_def fresh_def put_got_def r2_put_def Let_def catch_io_def insert_recovery_def copied_content_def publish_copy_def
    raise_def r2_delete_def delete_recovery_def http_etag_def recovery_row_of_def

text \<open>
  C40: A run that loses bytes: one object is copied over another, the answer of the publishing put is
  lost although it took effect, and the saved copy of the replaced object is deleted: its bytes are
  gone, and no row of the recovery table is left.
\<close>

theorem lost_answer_loses_bytes:
  "let run = copyObject lossy_services [115] [116] Replace None True False None (sample_world sample_objects) in
   held [2] (w_bucket (sample_world sample_objects)) \<and> fst run = Inl (Failed ''network'') \<and>
   \<not> held [2] (w_bucket (snd run)) \<and> map_option r2_body (w_bucket (snd run) [116]) = Some [1] \<and> w_recovery (snd run) = []"
proof -
  define run where "run = copyObject lossy_services [115] [116] Replace None True False None (sample_world sample_objects)"
  have key: "recovery_key r t \<noteq> [c]" for r t c by (simp add: recovery_key_def ustr_def)
  have fault: "fst run = Inl (Failed ''network'')" and rows: "w_recovery (snd run) = []"
    unfolding run_def lossy_services_def by (simp_all add: copy_run)
  have bucket: "map_option r2_body (w_bucket (snd run) k) =
      (if k = recovery_key [117, 0] [116] then None else if k \<in> {[115], [116]} then Some [1] else None)" for k
    unfolding run_def lossy_services_def by (simp add: copy_run key)
  have "\<not> held [2] (w_bucket (snd run))"
  proof
    assume "held [2] (w_bucket (snd run))"
    then obtain k obj where "w_bucket (snd run) k = Some obj" "r2_body obj = [2]" by (auto simp: held_def)
    thus False using bucket [of k] by (auto split: if_splits)
  qed
  moreover have "held [2] (w_bucket (sample_world sample_objects))"
    by (auto simp: sample_objects_def sample_world_def held_def moved_marker_iff sample_object_def intro!: exI [of _ "[116]"])
  moreover have "map_option r2_body (w_bucket (snd run) [116]) = Some [1]"
    using key [of "[117, 0]" "[116]" 116] by (simp add: bucket)
  ultimately show ?thesis using fault rows by (simp add: Let_def run_def)
qed

subsection \<open>Evaluation of the key checks\<close>

lemmas key_run = normalizeCrudKey_def acceptable_text_def js_length_def MAX_KEY_LENGTH_def control_char_def clean_form_def
  js_trim_def js_space_def forward_slashes_def strip_leading_def strip_trailing_def bad_segment_def reservedSegment_def
  starts_with_def finish_key_def MAX_R2_KEY_BYTES_def utf8_def utf8_char_def ustr_def plain_paths_def Let_def ends_with_def
  browserUploadObjectKey_def normalizeUploadRelativePath_def normalize_request_def normalize_file_def enumerate_eq_zip
  browserUploadContentType_def MAX_BROWSER_UPLOAD_FILE_BYTES_def MAX_BROWSER_UPLOAD_FILES_def is_safe_integer_def
  MAX_SAFE_INTEGER_def MAX_BROWSER_UPLOAD_BYTES_def

subsection \<open>The properties on samples\<close>

definition empty_index :: index_db where
  "empty_index = \<lparr>ix_rows = (\<lambda>_. None), ix_revisions = (\<lambda>_. None)\<rparr>"

definition sample_observation :: DeliveryIndexObservation where
  "sample_observation = \<lparr>dx_key = [107], dx_revision = 0, dx_current = None\<rparr>"

definition sample_statement :: index_statement where
  "sample_statement = (case prepareDeliveryIndexRepair plain_index 0 sample_observation
       (as_observed (sample_object [107] [1])) None of Inr stmt \<Rightarrow> stmt | Inl f \<Rightarrow> (\<lambda>db. (0, db)))"

lemma sample_observed: "readDeliveryIndexObservation empty_index [107] = Inr sample_observation"
  by (simp add: readDeliveryIndexObservation_def validKey_def utf8_def utf8_char_def empty_index_def revision_of_def
      sample_observation_def)

lemma sample_valid: "validateObserved plain_index sample_observation (as_observed (sample_object [107] [1])) None = Inr ()"
  by (simp add: validateObserved_def validSnapshot_def validKey_def utf8_def utf8_char_def sample_observation_def
      as_observed_def sample_object_def is_safe_integer_def MAX_SAFE_INTEGER_def http_etag_def js_trim_def js_space_def
      js_length_def streamFieldsInvalid_def)

lemma sample_prepared:
  "prepared_from plain_index 0 sample_observation (as_observed (sample_object [107] [1])) None sample_statement"
proof -
  obtain stmt where stmt: "prepareDeliveryIndexRepair plain_index 0 sample_observation (as_observed (sample_object [107] [1])) None = Inr stmt"
    by (simp add: prepareDeliveryIndexRepair_def sample_valid Let_def)
  thus ?thesis by (simp add: prepared_from_def sample_statement_def)
qed

lemma key_accepted: "normalizeCrudKey plain_paths (Some (ustr ''Jobs/Clients/a'')) False = Inr (ustr ''Jobs/Clients/a'')"
  by (simp add: key_run)

lemma accepted_keys_confined_witness: "clean_path (pr_lower plain_paths) (ustr ''Jobs/Clients/a'')"
  using accepted_keys_confined [OF key_accepted] by auto

lemma copy_keeps_bytes_witness:
  "held [2] (w_bucket (snd (copyObject (sample_services (\<lambda>_. Served)) [115] [116] Replace None True False None
     (sample_world sample_objects))))"
  by (rule copy_keeps_bytes [OF sample_quiet sample_fresh])
    (auto simp: sample_objects_def sample_world_def held_def moved_marker_iff sample_object_def intro!: exI [of _ "[116]"])

lemma move_keeps_bytes_witness:
  "held [1] (w_bucket (snd (folder_item (sample_services (\<lambda>_. Served)) [106] [97, 47] [98, 47] Fail True
     (sample_object [97, 47, 120] [1]) (sample_world [([97, 47, 120], [1])]))))"
  by (rule move_keeps_bytes [OF sample_quiet sample_fresh])
    (auto simp: sample_world_def held_def moved_marker_iff sample_object_def sample_services_def foreign_source_def meta_def
      honest_marks_def plain_source_def intro!: exI [of _ "[97, 47, 120]"] split: if_splits)

lemma ended_jobs_stay_witness:
  "stays (sample_row Cancelled) (snd (processJob (sample_services (\<lambda>_. Served)) [106] (sample_job_world [sample_row Cancelled])))"
  by (rule ended_jobs_stay [THEN conjunct1])
    (simp_all add: stays_def ended_job_def sample_row_def sample_job_world_def keeps_ret, rule sample_permits)

lemma lease_excludes_others_witness:
  "leased (sample_row Running) (snd (processJob (sample_services (\<lambda>_. Served)) [106] (sample_job_world [sample_row Running])))"
  by (rule lease_excludes_others [THEN conjunct1])
    (simp_all add: leased_def lease_runs_def sample_row_def sample_job_world_def)

lemma session_rows_wf_witness:
  "wf_sessions (snd (complete_route (sample_services (\<lambda>_. Served)) sample_multipart sample_permit [97] [115] Absent
     (sample_upload_world [sample_session Active])))"
  by (rule session_rows_wf [THEN conjunct2, THEN conjunct2, THEN conjunct1])
    (simp_all add: wf_sessions_def wf_session_def sample_session_def sample_upload_world_def)

lemma ended_sessions_stay_witness:
  "ended_session (sample_session Aborted) (snd (complete_route (sample_services (\<lambda>_. Served)) sample_multipart sample_permit
     [97] [115] Absent (sample_upload_world [sample_session Aborted])))"
  by (rule ended_sessions_stay [THEN conjunct2, THEN conjunct2, THEN conjunct1])
    (simp_all add: ended_session_def same_end_def terminal_session_def sample_session_def sample_upload_world_def)

lemma upload_parts_cover_witness:
  "sum_list (part_sizes (40 * 1024 ^ 2) (32 * 1024 ^ 2)) = 40 * 1024 ^ 2"
  using upload_parts_cover [of "sample_session Active", THEN conjunct2, THEN conjunct1]
  by (simp add: sample_session_def MAX_BROWSER_UPLOAD_FILE_BYTES_def operationsMultipartPartSize_def ceil_div_def)

lemma stale_statements_write_nothing_witness:
  "sample_statement (insert_row [107] empty_row empty_index) = (0, insert_row [107] empty_row empty_index)"
proof -
  have raced: "index_write\<^sup>*\<^sup>* empty_index (insert_row [107] empty_row empty_index)"
    by (intro r_into_rtranclp index_write.Insert) (simp add: empty_index_def)
  show ?thesis
    using stale_statements_write_nothing [OF sample_observed sample_prepared raced]
    by (simp add: empty_index_def insert_row_def revision_bump revision_of_def)
qed

end
