(* ===== verification/Staff_Acl.thy ===== *)
theory Staff_Acl
  imports R2_Move
begin

section \<open>Grants, scopes and permissions of staff\<close>

text \<open>
  \<open>apps/operations/src/worker/acl.ts\<close>. A staff member holds grants: permissions of the roles assigned
  to them (synchronised and local) and overrides that allow or deny one permission, each in a scope:
  everywhere, in one division, on assigned work, on own work. \<open>evaluatePermission\<close> decides for one
  resource, \<open>sqlScope\<close> and \<open>buildScopedWhere\<close> turn the grants into the condition of a list query. The
  condition is kept as SQL: text with placeholders and the values bound to them, evaluated over
  nullable columns in three-valued logic.
\<close>

subsection \<open>Tables and rows\<close>

datatype grant_scope = Scope_global | Scope_division | Scope_assigned | Scope_own

datatype grant_effect = Allow | Deny

datatype grant_source = From_role | From_override

record GrantRow =
  gr_permission :: string
  gr_effect :: grant_effect
  gr_scope :: grant_scope
  gr_division :: "ustring option"
  gr_source :: grant_source

record role_assignment =
  ra_staff :: ustring
  ra_role :: string
  ra_scope :: grant_scope
  ra_division :: "ustring option"

record permission_override =
  po_staff :: ustring
  po_permission :: string
  po_effect :: grant_effect
  po_scope :: grant_scope
  po_division :: "ustring option"

record acl_tables =
  at_assignments :: "role_assignment list"
  at_local_assignments :: "role_assignment list"
  at_role_permissions :: "(string \<times> string) list"
  at_overrides :: "permission_override list"

record StaffPrincipal =
  sp_id :: ustring
  sp_email :: ustring
  sp_display :: ustring

text \<open>\<open>ResourceContext\<close>: an absent field and a null are both \<open>None\<close>.\<close>

record ResourceContext =
  rc_division :: "ustring option"
  rc_unknown :: bool
  rc_assigned :: "ustring list"
  rc_owner :: "ustring option"

subsection \<open>Reading the grants\<close>

definition role_grants :: "acl_tables \<Rightarrow> role_assignment list \<Rightarrow> ustring \<Rightarrow> GrantRow list" where
  "role_grants tb assignments staff =
     concat (map (\<lambda>a. map (\<lambda>(role, permission).
         \<lparr>gr_permission = permission, gr_effect = Allow, gr_scope = ra_scope a, gr_division = ra_division a,
          gr_source = From_role\<rparr>)
       (filter (\<lambda>(role, permission). role = ra_role a) (at_role_permissions tb)))
     (filter (\<lambda>a. ra_staff a = staff) assignments))"

definition override_grants :: "acl_tables \<Rightarrow> ustring \<Rightarrow> GrantRow list" where
  "override_grants tb staff =
     map (\<lambda>v. \<lparr>gr_permission = po_permission v, gr_effect = po_effect v, gr_scope = po_scope v,
         gr_division = po_division v, gr_source = From_override\<rparr>)
       (filter (\<lambda>v. po_staff v = staff) (at_overrides tb))"

definition loadGrants :: "acl_tables \<Rightarrow> ustring \<Rightarrow> GrantRow list" where
  "loadGrants tb staff = role_grants tb (at_assignments tb) staff @ role_grants tb (at_local_assignments tb) staff @
     override_grants tb staff"

definition isAdministrator :: "acl_tables \<Rightarrow> StaffPrincipal \<Rightarrow> bool" where
  "isAdministrator tb p \<longleftrightarrow> list_ex (\<lambda>a. ra_staff a = sp_id p \<and> ra_role a \<in> {''role-owner'', ''role-admin''} \<and>
     ra_scope a = Scope_global) (at_assignments tb)"

definition hasLocalGlobalAllow :: "acl_tables \<Rightarrow> StaffPrincipal \<Rightarrow> string \<Rightarrow> bool" where
  "hasLocalGlobalAllow tb p permission \<longleftrightarrow> list_ex (\<lambda>v. po_staff v = sp_id p \<and> po_permission v = permission \<and>
     po_effect v = Allow \<and> po_scope v = Scope_global) (at_overrides tb)"

subsection \<open>Decision for one resource\<close>

definition matches :: "GrantRow \<Rightarrow> StaffPrincipal \<Rightarrow> ResourceContext option \<Rightarrow> bool" where
  "matches g p context = (case context of
     None \<Rightarrow> True
   | Some c \<Rightarrow> (case gr_scope g of
       Scope_global \<Rightarrow> True
     | Scope_division \<Rightarrow> (case rc_division c of None \<Rightarrow> False | Some d \<Rightarrow> d \<noteq> [] \<and> gr_division g = Some d)
     | Scope_assigned \<Rightarrow> sp_id p \<in> set (rc_assigned c)
     | Scope_own \<Rightarrow> rc_owner c = Some (sp_id p)))"

definition override_deny :: "GrantRow \<Rightarrow> bool" where
  "override_deny g \<longleftrightarrow> gr_source g = From_override \<and> gr_effect g = Deny"

definition applicable :: "GrantRow list \<Rightarrow> StaffPrincipal \<Rightarrow> string \<Rightarrow> ResourceContext option \<Rightarrow> GrantRow list" where
  "applicable grants p permission context = filter (\<lambda>g. gr_permission g = permission \<and>
     (matches g p context \<or>
      (case context of None \<Rightarrow> False | Some c \<Rightarrow> rc_unknown c) \<and> gr_scope g = Scope_division \<and> override_deny g)) grants"

definition evaluatePermission ::
  "GrantRow list \<Rightarrow> StaffPrincipal \<Rightarrow> string \<Rightarrow> ResourceContext option \<Rightarrow> bool" where
  "evaluatePermission grants p permission context =
     (let rows = applicable grants p permission context in
      if list_ex override_deny rows then False else list_ex (\<lambda>g. gr_effect g = Allow) rows)"

definition hasPermission :: "acl_tables \<Rightarrow> StaffPrincipal \<Rightarrow> string \<Rightarrow> ResourceContext option \<Rightarrow> bool" where
  "hasPermission tb p permission context = evaluatePermission (loadGrants tb (sp_id p)) p permission context"

definition requirePermission ::
  "acl_tables \<Rightarrow> StaffPrincipal \<Rightarrow> string \<Rightarrow> ResourceContext option \<Rightarrow> bool \<Rightarrow> fault + unit" where
  "requirePermission tb p permission context notFound =
     (if hasPermission tb p permission context then Inr ()
      else if notFound then Inl (Http 404 ''Resource not found'')
      else Inl (Http 403 (''Missing permission: '' @ permission)))"

definition global_deny :: "GrantRow \<Rightarrow> bool" where
  "global_deny g \<longleftrightarrow> override_deny g \<and> gr_scope g = Scope_global"

definition permissionKeys :: "string list \<Rightarrow> acl_tables \<Rightarrow> StaffPrincipal \<Rightarrow> string list" where
  "permissionKeys permissions tb p = filter (\<lambda>permission.
     let rows = filter (\<lambda>g. gr_permission g = permission) (loadGrants tb (sp_id p)) in
     if list_ex global_deny rows then False else list_ex (\<lambda>g. gr_effect g = Allow) rows) permissions"

subsection \<open>The scope of a list query\<close>

record SqlScope =
  ss_global :: bool
  ss_divisions :: "ustring list"
  ss_assigned :: bool
  ss_own :: bool
  ss_deniedDivisions :: "ustring list"
  ss_deniedGlobal :: bool

text \<open>A division that is null or empty is dropped.\<close>

definition named_division :: "GrantRow \<Rightarrow> ustring option" where
  "named_division g = (case gr_division g of Some d \<Rightarrow> if d \<noteq> [] then Some d else None | None \<Rightarrow> None)"

definition division_names :: "(GrantRow \<Rightarrow> bool) \<Rightarrow> GrantRow list \<Rightarrow> ustring list" where
  "division_names P rows = set_order (List.map_filter named_division (filter (\<lambda>g. P g \<and> gr_scope g = Scope_division) rows))"

definition scope_of_rows :: "GrantRow list \<Rightarrow> SqlScope" where
  "scope_of_rows rows =
     (let deniedGlobal = list_ex global_deny rows in
      \<lparr>ss_global = \<not> deniedGlobal \<and> list_ex (\<lambda>g. gr_effect g = Allow \<and> gr_scope g = Scope_global) rows,
       ss_divisions = division_names (\<lambda>g. gr_effect g = Allow) rows,
       ss_assigned = list_ex (\<lambda>g. gr_effect g = Allow \<and> gr_scope g = Scope_assigned) rows,
       ss_own = list_ex (\<lambda>g. gr_effect g = Allow \<and> gr_scope g = Scope_own) rows,
       ss_deniedDivisions = division_names override_deny rows,
       ss_deniedGlobal = deniedGlobal\<rparr>)"

definition sqlScope :: "acl_tables \<Rightarrow> StaffPrincipal \<Rightarrow> string \<Rightarrow> SqlScope" where
  "sqlScope tb p permission = scope_of_rows (filter (\<lambda>g. gr_permission g = permission) (loadGrants tb (sp_id p)))"

text \<open>
  The text of a condition, its placeholders in the order in which values are bound. \<open>Sql_assignment\<close>
  is the caller's condition on the assignments, with one placeholder for the staff member.
\<close>

datatype sql_text =
    Sql_never
  | Sql_always
  | Sql_division_in nat
  | Sql_division_not_in nat
  | Sql_created_by
  | Sql_assignment
  | Sql_or "sql_text list"
  | Sql_and sql_text sql_text

record sql_where =
  wh_sql :: sql_text
  wh_values :: "ustring list"

definition buildScopedWhere :: "SqlScope \<Rightarrow> StaffPrincipal \<Rightarrow> bool \<Rightarrow> sql_where" where
  "buildScopedWhere scope p assignmentSql =
     (if ss_deniedGlobal scope then \<lparr>wh_sql = Sql_never, wh_values = []\<rparr>
      else
        let allowed = (if ss_global scope then [Sql_always] else []) @
              (if ss_divisions scope \<noteq> [] then [Sql_division_in (length (ss_divisions scope))] else []) @
              (if ss_assigned scope \<and> assignmentSql then [Sql_assignment] else []) @
              (if ss_own scope then [Sql_created_by] else []);
            values = (if ss_divisions scope \<noteq> [] then ss_divisions scope else []) @
              (if ss_assigned scope \<and> assignmentSql then [sp_id p] else []) @
              (if ss_own scope then [sp_id p] else []) in
        if allowed = [] then \<lparr>wh_sql = Sql_never, wh_values = []\<rparr>
        else if ss_deniedDivisions scope \<noteq> []
        then \<lparr>wh_sql = Sql_and (Sql_or allowed) (Sql_division_not_in (length (ss_deniedDivisions scope))),
              wh_values = values @ ss_deniedDivisions scope\<rparr>
        else \<lparr>wh_sql = Sql_or allowed, wh_values = values\<rparr>)"

subsection \<open>Evaluating the condition on a row\<close>

text \<open>\<open>None\<close> is SQL's unknown; a row is listed when the condition is true.\<close>

type_synonym truth = "bool option"

fun truth_or :: "truth \<Rightarrow> truth \<Rightarrow> truth" where
  "truth_or (Some True) b = Some True"
| "truth_or (Some False) b = b"
| "truth_or None b = (if b = Some True then Some True else None)"

fun truth_and :: "truth \<Rightarrow> truth \<Rightarrow> truth" where
  "truth_and (Some False) b = Some False"
| "truth_and (Some True) b = b"
| "truth_and None b = (if b = Some False then Some False else None)"

record list_row =
  lw_division :: "ustring option"
  lw_created_by :: "ustring option"
  lw_staff :: "ustring list"

definition column_in :: "ustring option \<Rightarrow> ustring list \<Rightarrow> truth" where
  "column_in c vs = map_option (\<lambda>x. x \<in> set vs) c"

definition column_not_in :: "ustring option \<Rightarrow> ustring list \<Rightarrow> truth" where
  "column_not_in c vs = map_option (\<lambda>x. x \<notin> set vs) c"

text \<open>Each placeholder takes the next value; the values that remain are handed on.\<close>

fun eval_sql :: "sql_text \<Rightarrow> list_row \<Rightarrow> ustring list \<Rightarrow> truth \<times> ustring list"
  and eval_or :: "sql_text list \<Rightarrow> list_row \<Rightarrow> ustring list \<Rightarrow> truth \<times> ustring list" where
  "eval_sql Sql_never r vs = (Some False, vs)"
| "eval_sql Sql_always r vs = (Some True, vs)"
| "eval_sql (Sql_division_in n) r vs = (column_in (lw_division r) (take n vs), drop n vs)"
| "eval_sql (Sql_division_not_in n) r vs = (column_not_in (lw_division r) (take n vs), drop n vs)"
| "eval_sql Sql_created_by r vs = (column_in (lw_created_by r) (take 1 vs), drop 1 vs)"
| "eval_sql Sql_assignment r vs = (Some (set (take 1 vs) \<subseteq> set (lw_staff r)), drop 1 vs)"
| "eval_sql (Sql_or ts) r vs = eval_or ts r vs"
| "eval_sql (Sql_and s t) r vs = (let (a, us) = eval_sql s r vs; (b, ws) = eval_sql t r us in (truth_and a b, ws))"
| "eval_or [] r vs = (Some False, vs)"
| "eval_or (t # ts) r vs = (let (a, us) = eval_sql t r vs; (b, ws) = eval_or ts r us in (truth_or a b, ws))"

definition listed :: "sql_where \<Rightarrow> list_row \<Rightarrow> bool" where
  "listed wh r \<longleftrightarrow> fst (eval_sql (wh_sql wh) r (wh_values wh)) = Some True"

text \<open>The context that a handler gives for the row.\<close>

definition row_context :: "list_row \<Rightarrow> ResourceContext" where
  "row_context r = \<lparr>rc_division = lw_division r, rc_unknown = False, rc_assigned = lw_staff r, rc_owner = lw_created_by r\<rparr>"

subsection \<open>What is listed is what is permitted\<close>

lemma truth_or_true [simp]: "truth_or a b = Some True \<longleftrightarrow> a = Some True \<or> b = Some True"
  by (cases "(a, b)" rule: truth_or.cases) auto

lemma truth_and_true [simp]: "truth_and a b = Some True \<longleftrightarrow> a = Some True \<and> b = Some True"
  by (cases "(a, b)" rule: truth_and.cases) auto

lemma column_in_true [simp]: "column_in c vs = Some True \<longleftrightarrow> (\<exists>x \<in> set vs. c = Some x)"
  by (auto simp: column_in_def)

lemma column_not_in_true [simp]: "column_not_in c vs = Some True \<longleftrightarrow> (\<exists>x. c = Some x \<and> x \<notin> set vs)"
  by (auto simp: column_not_in_def)

text \<open>An optional alternative with the values of its placeholders.\<close>

lemma eval_optional:
  assumes "eval_sql t r (v @ vs) = (a, vs)"
  shows "fst (eval_or ((if c then [t] else []) @ ts) r ((if c then v else []) @ vs)) = Some True \<longleftrightarrow>
      c \<and> a = Some True \<or> fst (eval_or ts r vs) = Some True"
    and "snd (eval_or ((if c then [t] else []) @ ts) r ((if c then v else []) @ vs)) = snd (eval_or ts r vs)"
  using assms by (simp_all add: case_prod_beta)

definition alternatives :: "SqlScope \<Rightarrow> sql_text list" where
  "alternatives scope = (if ss_global scope then [Sql_always] else []) @
     (if ss_divisions scope \<noteq> [] then [Sql_division_in (length (ss_divisions scope))] else []) @
     (if ss_assigned scope then [Sql_assignment] else []) @ (if ss_own scope then [Sql_created_by] else []) @ []"

definition alternative_values :: "SqlScope \<Rightarrow> StaffPrincipal \<Rightarrow> ustring list" where
  "alternative_values scope p = (if ss_global scope then [] else []) @
     (if ss_divisions scope \<noteq> [] then ss_divisions scope else []) @
     (if ss_assigned scope then [sp_id p] else []) @ (if ss_own scope then [sp_id p] else [])"

lemma eval_alternatives:
  "fst (eval_or (alternatives scope) r (alternative_values scope p @ vs)) = Some True \<longleftrightarrow>
     ss_global scope \<or> (\<exists>d \<in> set (ss_divisions scope). lw_division r = Some d) \<or>
     ss_assigned scope \<and> sp_id p \<in> set (lw_staff r) \<or> ss_own scope \<and> lw_created_by r = Some (sp_id p)"
  "snd (eval_or (alternatives scope) r (alternative_values scope p @ vs)) = vs"
  unfolding alternatives_def alternative_values_def append_assoc
  by (subst eval_optional, simp, subst eval_optional, simp, subst eval_optional, simp, subst eval_optional, simp,
      auto)+

lemma listed_iff:
  "listed (buildScopedWhere scope p True) r \<longleftrightarrow> \<not> ss_deniedGlobal scope \<and>
     (ss_global scope \<or> (\<exists>d \<in> set (ss_divisions scope). lw_division r = Some d) \<or>
      ss_assigned scope \<and> sp_id p \<in> set (lw_staff r) \<or> ss_own scope \<and> lw_created_by r = Some (sp_id p)) \<and>
     (ss_deniedDivisions scope = [] \<or> (\<exists>d. lw_division r = Some d \<and> d \<notin> set (ss_deniedDivisions scope)))"
proof -
  have w: "buildScopedWhere scope p True =
      (if ss_deniedGlobal scope then \<lparr>wh_sql = Sql_never, wh_values = []\<rparr>
       else if alternatives scope = [] then \<lparr>wh_sql = Sql_never, wh_values = []\<rparr>
       else if ss_deniedDivisions scope \<noteq> []
       then \<lparr>wh_sql = Sql_and (Sql_or (alternatives scope)) (Sql_division_not_in (length (ss_deniedDivisions scope))),
             wh_values = alternative_values scope p @ ss_deniedDivisions scope\<rparr>
       else \<lparr>wh_sql = Sql_or (alternatives scope), wh_values = alternative_values scope p\<rparr>)"
    by (simp only: buildScopedWhere_def alternatives_def alternative_values_def Let_def append_Nil append_Nil2 if_cancel simp_thms)
  have none: "alternatives scope = [] \<Longrightarrow> \<not> ss_global scope \<and> ss_divisions scope = [] \<and> \<not> ss_assigned scope \<and> \<not> ss_own scope"
    by (simp add: alternatives_def split: if_splits)
  show ?thesis
    using eval_alternatives [of scope r p "[]"] eval_alternatives [of scope r p "ss_deniedDivisions scope"] none
    by (simp add: w listed_def case_prod_beta)
qed

lemma division_names_set:
  "d \<in> set (division_names P rows) \<longleftrightarrow>
     d \<noteq> [] \<and> (\<exists>g \<in> set rows. P g \<and> gr_scope g = Scope_division \<and> gr_division g = Some d)"
proof -
  have "named_division g = Some d \<longleftrightarrow> d \<noteq> [] \<and> gr_division g = Some d" for g
    by (auto simp: named_division_def split: option.split)
  then show ?thesis by (auto simp: division_names_def in_set_map_filter)
qed

lemma matches_by_scope:
  "matches g p (Some (row_context r)) \<longleftrightarrow>
     gr_scope g = Scope_global \<or>
     gr_scope g = Scope_division \<and> (\<exists>d. lw_division r = Some d \<and> d \<noteq> [] \<and> gr_division g = Some d) \<or>
     gr_scope g = Scope_assigned \<and> sp_id p \<in> set (lw_staff r) \<or>
     gr_scope g = Scope_own \<and> lw_created_by r = Some (sp_id p)"
  by (cases "gr_scope g") (auto simp: matches_def row_context_def split: option.split)

lemma row_decision:
  "evaluatePermission grants p permission (Some (row_context r)) \<longleftrightarrow>
     (\<forall>g \<in> set grants. gr_permission g = permission \<longrightarrow> override_deny g \<longrightarrow> \<not> matches g p (Some (row_context r))) \<and>
     (\<exists>g \<in> set grants. gr_permission g = permission \<and> gr_effect g = Allow \<and> matches g p (Some (row_context r)))"
  by (auto simp: evaluatePermission_def applicable_def list_ex_iff row_context_def)

lemma unscoped_decision:
  "evaluatePermission grants p permission None \<longleftrightarrow>
     (\<forall>g \<in> set grants. gr_permission g = permission \<longrightarrow> \<not> override_deny g) \<and>
     (\<exists>g \<in> set grants. gr_permission g = permission \<and> gr_effect g = Allow)"
  by (auto simp: evaluatePermission_def applicable_def list_ex_iff matches_def)

text \<open>Without denies the listed rows are those of an allow that applies to them.\<close>

lemma listed_without_denies:
  assumes "\<forall>g \<in> set rows. \<not> override_deny g"
  shows "listed (buildScopedWhere (scope_of_rows rows) p True) r \<longleftrightarrow>
    (\<exists>g \<in> set rows. gr_effect g = Allow \<and> matches g p (Some (row_context r)))"
proof -
  have "\<not> list_ex global_deny rows" using assms by (auto simp: list_ex_iff global_deny_def)
  moreover have "division_names override_deny rows = []"
    using assms by (auto simp: division_names_def set_order_def List.map_filter_def filter_empty_conv)
  ultimately have "listed (buildScopedWhere (scope_of_rows rows) p True) r \<longleftrightarrow>
      (\<exists>g \<in> set rows. gr_effect g = Allow \<and> gr_scope g = Scope_global) \<or>
      (\<exists>d \<in> set (division_names (\<lambda>g. gr_effect g = Allow) rows). lw_division r = Some d) \<or>
      (\<exists>g \<in> set rows. gr_effect g = Allow \<and> gr_scope g = Scope_assigned) \<and> sp_id p \<in> set (lw_staff r) \<or>
      (\<exists>g \<in> set rows. gr_effect g = Allow \<and> gr_scope g = Scope_own) \<and> lw_created_by r = Some (sp_id p)"
    by (simp add: listed_iff scope_of_rows_def Let_def list_ex_iff)
  also have "\<dots> \<longleftrightarrow> (\<exists>g \<in> set rows. gr_effect g = Allow \<and> matches g p (Some (row_context r)))"
    unfolding matches_by_scope division_names_set by (auto simp: division_names_set)
  finally show ?thesis .
qed

subsection \<open>The permission of a storage handler\<close>

text \<open>
  The permission that the storage routes ask for a key: the grants are read from the database, the
  context is the division of the key, and a refusal is answered as a missing resource.
\<close>

definition acl_permit ::
  "'x world_scheme services \<Rightarrow> ('x world_scheme \<Rightarrow> acl_tables) \<Rightarrow> StaffPrincipal \<Rightarrow> 'x world_scheme permit" where
  "acl_permit sv tables p permission division =
     bind_io (await sv (\<lambda>w. (tables w, w))) (\<lambda>tb.
     lift (requirePermission tb p permission
       (Some \<lparr>rc_division = division, rc_unknown = False, rc_assigned = [], rc_owner = None\<rparr>) True))"

end
