(* ===== verification/Staff_Properties.thy ===== *)
theory Staff_Properties
  imports Staff_Acl
begin

section \<open>Properties of the permissions of staff\<close>

text \<open>
  The two uses of the grants agree: the rows that a scoped query lists are those on which the decision
  for one resource is positive. And what a deny in one division does to the decisions that are asked
  without a resource.
\<close>

subsection \<open>A small directory\<close>

definition staff_member :: StaffPrincipal where
  "staff_member = \<lparr>sp_id = ustr ''s1'', sp_email = ustr ''s1@x'', sp_display = ustr ''S''\<rparr>"

definition sample_acl :: "permission_override list \<Rightarrow> acl_tables" where
  "sample_acl overrides =
     \<lparr>at_assignments = [\<lparr>ra_staff = ustr ''s1'', ra_role = ''role-pilot'', ra_scope = Scope_division, ra_division = Some (ustr ''north'')\<rparr>,
        \<lparr>ra_staff = ustr ''s1'', ra_role = ''role-lead'', ra_scope = Scope_global, ra_division = None\<rparr>],
      at_local_assignments = [\<lparr>ra_staff = ustr ''s1'', ra_role = ''role-pilot'', ra_scope = Scope_own, ra_division = None\<rparr>],
      at_role_permissions = [(''role-pilot'', ''jobs.view''), (''role-lead'', ''delivery.browse'')],
      at_overrides = overrides\<rparr>"

definition south_deny :: permission_override where
  "south_deny = \<lparr>po_staff = ustr ''s1'', po_permission = ''delivery.browse'', po_effect = Deny, po_scope = Scope_division,
     po_division = Some (ustr ''south'')\<rparr>"

subsection \<open>Lists and decisions\<close>



text \<open>
  C37: A deny of a permission in one division makes every check of that permission that names no
  resource fail with status 403, for a staff member who has the permission globally by a role and no
  other overrides of it than denies in divisions; although the permission is still among the keys that
  the client application is given and is granted for resources of a division without a deny.
\<close>

theorem scoped_deny_locks_out:
  assumes "v \<in> set (at_overrides tb)" and "po_staff v = sp_id p" and "po_permission v = permission"
    and "po_effect v = Deny" and "po_scope v = Scope_division"
    and only: "\<forall>v' \<in> set (at_overrides tb). po_staff v' = sp_id p \<longrightarrow> po_permission v' = permission \<longrightarrow> po_effect v' = Deny \<longrightarrow>
      po_scope v' = Scope_division \<and> po_division v' \<noteq> Some d"
    and role: "a \<in> set (at_assignments tb)" "ra_staff a = sp_id p" "ra_scope a = Scope_global"
      "(ra_role a, permission) \<in> set (at_role_permissions tb)" and known: "permission \<in> set permissions"
  shows "requirePermission tb p permission None False = Inl (Http 403 (''Missing permission: '' @ permission)) \<and>
    permission \<in> set (permissionKeys permissions tb p) \<and>
    hasPermission tb p permission (Some \<lparr>rc_division = Some d, rc_unknown = False, rc_assigned = staff, rc_owner = owner\<rparr>)"
proof -
  let ?g = "\<lparr>gr_permission = permission, gr_effect = Deny, gr_scope = Scope_division, gr_division = po_division v,
      gr_source = From_override\<rparr>"
  let ?r = "\<lparr>gr_permission = permission, gr_effect = Allow, gr_scope = Scope_global, gr_division = ra_division a,
      gr_source = From_role\<rparr>"
  let ?row = "\<lparr>lw_division = Some d, lw_created_by = owner, lw_staff = staff\<rparr>"
  let ?c = "Some (row_context ?row)"
  have deny: "?g \<in> set (loadGrants tb (sp_id p))"
    using assms(1-5) by (force simp: loadGrants_def override_grants_def)
  have allow: "?r \<in> set (loadGrants tb (sp_id p))"
    using role by (force simp: loadGrants_def role_grants_def)
  have denies: "gr_scope g = Scope_division \<and> gr_division g \<noteq> Some d"
    if "g \<in> set (loadGrants tb (sp_id p))" "gr_permission g = permission" "override_deny g" for g
    using that only by (auto simp: loadGrants_def override_grants_def role_grants_def override_deny_def)
  have "override_deny ?g" by (simp add: override_deny_def)
  then have "\<not> hasPermission tb p permission None"
    using deny unfolding hasPermission_def unscoped_decision by (metis GrantRow.select_convs(1))
  moreover have "permission \<in> set (permissionKeys permissions tb p)"
    using allow known denies by (auto simp: permissionKeys_def list_ex_iff global_deny_def Let_def)
  moreover have "hasPermission tb p permission ?c"
    unfolding hasPermission_def row_decision
  proof (intro conjI ballI impI)
    show "\<not> matches g p ?c" if "g \<in> set (loadGrants tb (sp_id p))" "gr_permission g = permission" "override_deny g" for g
      using denies [OF that] by (simp add: matches_by_scope)
    show "\<exists>g \<in> set (loadGrants tb (sp_id p)). gr_permission g = permission \<and> gr_effect g = Allow \<and> matches g p ?c"
      by (rule bexI [OF _ allow]) (simp add: matches_by_scope)
  qed
  ultimately show ?thesis by (simp add: requirePermission_def row_context_def)
qed

theorem scoped_deny_locks_out_witness:
  "requirePermission (sample_acl [south_deny]) staff_member ''delivery.browse'' None False =
     Inl (Http 403 ''Missing permission: delivery.browse'') \<and>
   ''delivery.browse'' \<in> set (permissionKeys [''jobs.view'', ''delivery.browse''] (sample_acl [south_deny]) staff_member) \<and>
   hasPermission (sample_acl [south_deny]) staff_member ''delivery.browse''
     (Some \<lparr>rc_division = Some (ustr ''north''), rc_unknown = False, rc_assigned = [], rc_owner = None\<rparr>)"
  using scoped_deny_locks_out [of south_deny "sample_acl [south_deny]" staff_member "''delivery.browse''" "ustr ''north''"
      "\<lparr>ra_staff = ustr ''s1'', ra_role = ''role-lead'', ra_scope = Scope_global, ra_division = None\<rparr>"
      "[''jobs.view'', ''delivery.browse'']" "[]" None]
  by (simp add: sample_acl_def south_deny_def staff_member_def ustr_def)

end
