(* ===== verification/Share_Sessions.thy ===== *)
theory Share_Sessions
  imports R2_Paths Item_Refs
begin

section \<open>Session cookies of public shares\<close>

text \<open>
  \<open>apps/client/src/worker/security.ts\<close>: comparison of secrets, access codes, and the two signed cookies
  with key rotation; and \<open>public-share-lifecycle.ts\<close>. SHA-256, HMAC and PBKDF2 (as the base64url text
  of their result) are arguments, as is \<open>Number\<close> on texts that are not plain decimals. The lemmas show
  that a cookie that was issued is accepted until it expires, and that an accepted cookie names the
  share, version and expiry that its signature was made for.
\<close>

record crypto =
  cr_sha256 :: "ustring \<Rightarrow> ustring"
  cr_hmac :: "ustring \<Rightarrow> ustring \<Rightarrow> ustring"
  cr_pbkdf2 :: "ustring \<Rightarrow> ustring \<Rightarrow> int \<Rightarrow> ustring"
  cr_number :: "ustring \<Rightarrow> int option"

definition hmac :: "crypto \<Rightarrow> ustring \<Rightarrow> ustring \<Rightarrow> fault + ustring" where
  "hmac cr secret value =
     (if js_length secret < 32 then Inl (Failed ''A cryptographic Worker secret is missing or too short'')
      else Inr (cr_hmac cr secret value))"

subsection \<open>Comparison in constant time\<close>

text \<open>\<open>a[index] || 0\<close>, then the loop that collects the differences.\<close>

definition byte_at :: "byte list \<Rightarrow> nat \<Rightarrow> 32 word" where
  "byte_at bs i = (if i < length bs then ucast (bs ! i) else 0)"

unbundle bit_operations_syntax

definition constantTimeEqual :: "ustring \<Rightarrow> ustring \<Rightarrow> bool" where
  "constantTimeEqual left right =
     (let a = utf8 left; b = utf8 right; n = max (length a) (length b);
          start = (word_of_nat (length a) :: 32 word) XOR word_of_nat (length b) in
      foldl (\<lambda>difference i. difference OR (byte_at a i XOR byte_at b i)) start [0..<n] = 0)"


lemma or_fold_zero:
  fixes f :: "nat \<Rightarrow> 32 word"
  shows "foldl (\<lambda>d i. or d (f i)) s xs = 0 \<longleftrightarrow> s = 0 \<and> (\<forall>i \<in> set xs. f i = 0)"
  by (induction xs arbitrary: s) (auto simp: or_eq_0_iff)

lemma xor_zero: "xor a b = (0 :: 'a :: len word) \<longleftrightarrow> a = b"
  by (metis xor_self_eq xor.assoc xor.right_neutral)

subsection \<open>Access codes\<close>

definition access_code_message :: "ustring \<Rightarrow> ustring \<Rightarrow> ustring" where
  "access_code_message salt code = ustr ''access-code:v1:'' @ salt @ [58] @ code"

definition verifyAccessCode ::
  "crypto \<Rightarrow> ustring \<Rightarrow> ustring \<Rightarrow> ustring \<Rightarrow> int \<Rightarrow> ustring option \<Rightarrow> ustring option \<Rightarrow> fault + bool" where
  "verifyAccessCode cr code expected salt iterations algorithm pepper =
     (if js_length code < 8 then Inr False
      else if algorithm = Some (ustr ''hmac-sha256-v1'') then
        (case pepper of
           None \<Rightarrow> Inl (Failed ''DELIVERY_ACCESS_CODE_PEPPER is required'')
         | Some key \<Rightarrow>
             if key = [] then Inl (Failed ''DELIVERY_ACCESS_CODE_PEPPER is required'')
             else rbind (hmac cr key (access_code_message salt code)) (\<lambda>h. Inr (constantTimeEqual h expected)))
      else if algorithm \<noteq> Some (ustr ''pbkdf2-sha256-v1'') \<or> iterations < 50000 \<or> iterations > 1000000 then Inr False
      else Inr (constantTimeEqual (cr_pbkdf2 cr code salt iterations) expected))"

subsection \<open>Cookies\<close>

definition unreserved :: "nat \<Rightarrow> bool" where
  "unreserved c \<longleftrightarrow> word_char c \<or> c \<in> set (ustr ''-_.!~*'') \<or> c \<in> {39, 40, 41}"

definition upper_hex :: "nat \<Rightarrow> nat" where
  "upper_hex n = (if n < 10 then 48 + n else 55 + n)"

definition percent_byte :: "nat \<Rightarrow> ustring" where
  "percent_byte b = (if unreserved b then [b] else [37, upper_hex (b div 16), upper_hex (b mod 16)])"

definition encodeURIComponent :: "ustring \<Rightarrow> ustring" where
  "encodeURIComponent s = concat (map percent_byte (map unat (utf8 s)))"

definition hex_value :: "nat \<Rightarrow> nat option" where
  "hex_value c = (if 48 \<le> c \<and> c < 58 then Some (c - 48) else if 65 \<le> c \<and> c < 71 then Some (c - 55)
     else if 97 \<le> c \<and> c < 103 then Some (c - 87) else None)"

text \<open>The bytes a text stands for: escaped bytes, and the encoding of every other character.\<close>

fun percent_bytes :: "ustring \<Rightarrow> nat list option" where
  "percent_bytes [] = Some []"
| "percent_bytes (c # s) =
     (if c = 37 then
        (case s of a # b # r \<Rightarrow>
           (case (hex_value a, hex_value b) of
              (Some x, Some y) \<Rightarrow> map_option ((#) (16 * x + y)) (percent_bytes r)
            | _ \<Rightarrow> None)
         | _ \<Rightarrow> None)
      else map_option ((@) (map unat (utf8_char c))) (percent_bytes s))"

definition decodeURIComponent :: "ustring \<Rightarrow> fault + ustring" where
  "decodeURIComponent s = (case Option.bind (percent_bytes s) utf8_decode of
     Some v \<Rightarrow> Inr v | None \<Rightarrow> Inl (Failed ''URI malformed''))"

text \<open>The entries of the header in order; the first whose name matches is decoded.\<close>

fun find_cookie :: "ustring \<Rightarrow> ustring list \<Rightarrow> fault + ustring option" where
  "find_cookie name [] = Inr None"
| "find_cookie name (entry # rest) =
     (let parts = split_on 61 (js_trim entry) in
      if hd parts = name then rbind (decodeURIComponent (join_with 61 (tl parts))) (\<lambda>v. Inr (Some v))
      else find_cookie name rest)"

definition parseCookie :: "ustring option \<Rightarrow> ustring \<Rightarrow> fault + ustring option" where
  "parseCookie header name = find_cookie name (split_on 59 (case header of None \<Rightarrow> [] | Some h \<Rightarrow> h))"

definition COOKIE_NAME :: ustring where
  "COOKIE_NAME = ustr ''__Host-ltds_delivery''"

definition dotted :: "ustring list \<Rightarrow> ustring" where
  "dotted = join_with 46"

definition coloned :: "ustring list \<Rightarrow> ustring" where
  "coloned = join_with 58"

definition session_value :: "ustring \<Rightarrow> ustring \<Rightarrow> int \<Rightarrow> int \<Rightarrow> ustring \<Rightarrow> ustring" where
  "session_value keyId shareId shareVersion expiresAt signature =
     dotted [keyId, shareId, json_int shareVersion, json_int expiresAt, signature]"

definition session_payload :: "ustring \<Rightarrow> ustring \<Rightarrow> int \<Rightarrow> int \<Rightarrow> ustring" where
  "session_payload keyId shareId shareVersion expiresAt =
     coloned [keyId, shareId, json_int shareVersion, json_int expiresAt]"

definition max_age :: "int \<Rightarrow> int \<Rightarrow> int" where
  "max_age expiresAt now = max 0 ((expiresAt - now) div 1000)"

definition createSessionCookie ::
  "crypto \<Rightarrow> ustring \<Rightarrow> ustring \<Rightarrow> ustring \<Rightarrow> int \<Rightarrow> int \<Rightarrow> int \<Rightarrow> fault + ustring" where
  "createSessionCookie cr secret keyId shareId shareVersion expiresAt now =
     rbind (hmac cr secret (session_payload keyId shareId shareVersion expiresAt)) (\<lambda>signature.
     Inr (COOKIE_NAME @ [61] @ encodeURIComponent (session_value keyId shareId shareVersion expiresAt signature) @
       ustr ''; Path=/; Max-Age='' @ json_int (max_age expiresAt now) @ ustr ''; HttpOnly; Secure; SameSite=Lax''))"

record delivery_session =
  ds_shareId :: ustring
  ds_shareVersion :: int
  ds_expiresAt :: int

text \<open>\<open>Number(text)\<close>: the plain decimals are written out.\<close>

definition all_digits :: "ustring \<Rightarrow> bool" where
  "all_digits s \<longleftrightarrow> s \<noteq> [] \<and> list_all (\<lambda>c. 48 \<le> c \<and> c < 58) s"

definition js_number :: "crypto \<Rightarrow> ustring \<Rightarrow> int option" where
  "js_number cr s = (if all_digits s then Some (int (undecimal 0 s)) else cr_number cr s)"

text \<open>A part of the value that is present, and a number in the safe range.\<close>

definition part :: "ustring list \<Rightarrow> nat \<Rightarrow> ustring option" where
  "part ps i = (if i < length ps \<and> ps ! i \<noteq> [] then Some (ps ! i) else None)"

definition number_part :: "crypto \<Rightarrow> ustring list \<Rightarrow> nat \<Rightarrow> int option" where
  "number_part cr ps i = (if i < length ps then
     (case js_number cr (ps ! i) of Some n \<Rightarrow> if is_safe_integer n then Some n else None | None \<Rightarrow> None) else None)"

definition verifySessionCookie ::
  "crypto \<Rightarrow> ustring \<Rightarrow> ustring \<Rightarrow> ustring option \<Rightarrow> int \<Rightarrow> fault + delivery_session" where
  "verifySessionCookie cr secret expectedKeyId value now =
     (if value = None \<or> value = Some [] then Inl (Http 401 ''Delivery session required'')
      else
        let ps = split_on 46 (the value) in
        case (part ps 0, part ps 1, number_part cr ps 2, number_part cr ps 3, part ps 4) of
          (Some keyId, Some shareId, Some shareVersion, Some expiresAt, Some signature) \<Rightarrow>
            if keyId \<noteq> expectedKeyId \<or> shareVersion < 1 \<or> expiresAt \<le> now
            then Inl (Http 401 ''Delivery session expired'')
            else rbind (hmac cr secret (session_payload keyId shareId shareVersion expiresAt)) (\<lambda>expected.
              if \<not> constantTimeEqual expected signature then Inl (Http 401 ''Invalid delivery session'')
              else Inr \<lparr>ds_shareId = shareId, ds_shareVersion = shareVersion, ds_expiresAt = expiresAt\<rparr>)
        | _ \<Rightarrow> Inl (Http 401 ''Delivery session expired''))"

record signing_key =
  sk_keyId :: ustring
  sk_secret :: ustring

definition cookie_key :: "ustring option \<Rightarrow> ustring option" where
  "cookie_key value = map_option (\<lambda>v. hd (split_on 46 v)) value"

text \<open>The choice of the key, for either kind of cookie.\<close>

definition rotating ::
  "(ustring \<Rightarrow> ustring \<Rightarrow> fault + 's) \<Rightarrow> string \<Rightarrow> ustring option \<Rightarrow> signing_key \<Rightarrow> signing_key option \<Rightarrow> fault + 's" where
  "rotating verify refusal value current previous =
     (if cookie_key value = Some (sk_keyId current) then verify (sk_secret current) (sk_keyId current)
      else case previous of
        None \<Rightarrow> Inl (Http 401 refusal)
      | Some old \<Rightarrow>
          if sk_keyId old \<noteq> [] \<and> sk_secret old \<noteq> [] \<and> cookie_key value = Some (sk_keyId old)
          then verify (sk_secret old) (sk_keyId old) else Inl (Http 401 refusal))"

definition verifyRotatingSessionCookie ::
  "crypto \<Rightarrow> ustring option \<Rightarrow> signing_key \<Rightarrow> signing_key option \<Rightarrow> int \<Rightarrow> fault + delivery_session" where
  "verifyRotatingSessionCookie cr value current previous now =
     rotating (\<lambda>secret keyId. verifySessionCookie cr secret keyId value now) ''Delivery session expired''
       value current previous"

subsection \<open>Resume cookies of bulk downloads\<close>

definition BULK_DOWNLOAD_RESUME_COOKIE :: ustring where
  "BULK_DOWNLOAD_RESUME_COOKIE = ustr ''__Secure-ltds_bulk_download''"

definition bulkDownloadResumePayload :: "ustring \<Rightarrow> ustring \<Rightarrow> int \<Rightarrow> ustring \<Rightarrow> int \<Rightarrow> ustring" where
  "bulkDownloadResumePayload keyId shareId shareVersion jobId expiresAt =
     coloned [ustr ''bulk-download'', ustr ''v1'', keyId, shareId, json_int shareVersion, jobId, json_int expiresAt]"

definition ref_char :: "nat \<Rightarrow> bool" where
  "ref_char c \<longleftrightarrow> word_char c \<or> c = 95 \<or> c = 45"

definition resume_value :: "ustring \<Rightarrow> ustring \<Rightarrow> int \<Rightarrow> ustring \<Rightarrow> int \<Rightarrow> ustring \<Rightarrow> ustring" where
  "resume_value keyId shareId shareVersion jobId expiresAt signature =
     dotted [keyId, shareId, json_int shareVersion, jobId, json_int expiresAt, signature]"

definition createBulkDownloadResumeCookie ::
  "crypto \<Rightarrow> ustring \<Rightarrow> ustring \<Rightarrow> ustring \<Rightarrow> int \<Rightarrow> ustring \<Rightarrow> ustring \<Rightarrow> int \<Rightarrow> int \<Rightarrow> fault + ustring" where
  "createBulkDownloadResumeCookie cr secret keyId shareId shareVersion publicId jobId expiresAt now =
     (if publicId = [] \<or> \<not> list_all ref_char publicId \<or> jobId = [] \<or> \<not> list_all ref_char jobId
      then Inl (Failed ''Invalid bulk-download resume scope'')
      else rbind (hmac cr secret (bulkDownloadResumePayload keyId shareId shareVersion jobId expiresAt)) (\<lambda>signature.
        Inr (BULK_DOWNLOAD_RESUME_COOKIE @ [61] @
          encodeURIComponent (resume_value keyId shareId shareVersion jobId expiresAt signature) @
          ustr ''; Path=/api/public/shares/'' @ publicId @ ustr ''/bulk-download/'' @ jobId @ ustr ''/file; Max-Age='' @
          json_int (max_age expiresAt now) @ ustr ''; HttpOnly; Secure; SameSite=Lax'')))"

record resume_session = delivery_session +
  rs_jobId :: ustring

definition verifyBulkDownloadResumeCookie ::
  "crypto \<Rightarrow> ustring \<Rightarrow> ustring \<Rightarrow> ustring option \<Rightarrow> int \<Rightarrow> fault + resume_session" where
  "verifyBulkDownloadResumeCookie cr secret expectedKeyId value now =
     (if value = None \<or> value = Some [] then Inl (Http 401 ''Delivery session required'')
      else
        let ps = split_on 46 (the value) in
        case (part ps 0, part ps 1, number_part cr ps 2, part ps 3, number_part cr ps 4, part ps 5) of
          (Some keyId, Some shareId, Some shareVersion, Some jobId, Some expiresAt, Some signature) \<Rightarrow>
            if keyId \<noteq> expectedKeyId \<or> shareVersion < 1 \<or> expiresAt \<le> now
            then Inl (Http 401 ''Download resume authorization expired'')
            else rbind (hmac cr secret (bulkDownloadResumePayload keyId shareId shareVersion jobId expiresAt)) (\<lambda>expected.
              if \<not> constantTimeEqual expected signature then Inl (Http 401 ''Invalid download resume authorization'')
              else Inr \<lparr>ds_shareId = shareId, ds_shareVersion = shareVersion, ds_expiresAt = expiresAt, rs_jobId = jobId\<rparr>)
        | _ \<Rightarrow> Inl (Http 401 ''Download resume authorization expired''))"

definition verifyRotatingBulkDownloadResumeCookie ::
  "crypto \<Rightarrow> ustring option \<Rightarrow> signing_key \<Rightarrow> signing_key option \<Rightarrow> int \<Rightarrow> fault + resume_session" where
  "verifyRotatingBulkDownloadResumeCookie cr value current previous now =
     rotating (\<lambda>secret keyId. verifyBulkDownloadResumeCookie cr secret keyId value now)
       ''Download resume authorization expired'' value current previous"

subsection \<open>Comparison and parsing\<close>

lemma constantTimeEqual_iff:
  assumes "length (utf8 left) < 2 ^ 32" and "length (utf8 right) < 2 ^ 32"
  shows "constantTimeEqual left right \<longleftrightarrow> utf8 left = utf8 right"
proof -
  let ?a = "utf8 left" and ?b = "utf8 right"
  have len: "(word_of_nat (length ?a) :: 32 word) = word_of_nat (length ?b) \<longleftrightarrow> length ?a = length ?b"
    using assms by (simp add: word_of_nat_eq_iff take_bit_eq_mod)
  have byte: "(ucast x :: 32 word) = ucast y \<longleftrightarrow> x = y" for x y :: byte
  proof
    assume "(ucast x :: 32 word) = ucast y"
    then have "unat (ucast x :: 32 word) = unat (ucast y :: 32 word)" by simp
    moreover have "unat (ucast z :: 32 word) = unat z" for z :: byte
    proof -
      have "unat z < 2 ^ LENGTH(8)" by (rule unsigned_less)
      then show ?thesis by (simp add: unsigned_ucast_eq take_bit_eq_mod)
    qed
    ultimately show "x = y" by (simp add: unsigned_word_eqI)
  qed simp
  have "constantTimeEqual left right \<longleftrightarrow>
      length ?a = length ?b \<and> (\<forall>i < max (length ?a) (length ?b). byte_at ?a i = byte_at ?b i)"
    by (auto simp: constantTimeEqual_def Let_def or_fold_zero xor_zero len)
  also have "\<dots> \<longleftrightarrow> length ?a = length ?b \<and> (\<forall>i < length ?a. ?a ! i = ?b ! i)"
    by (auto simp: byte_at_def byte)
  also have "\<dots> \<longleftrightarrow> ?a = ?b" by (auto intro: nth_equalityI)
  finally show ?thesis .
qed

lemma json_int_chars: "c \<in> set (json_int n) \<Longrightarrow> c = 45 \<or> (48 \<le> c \<and> c < 58)"
  by (auto simp: json_int_def dest: decimal_digits split: if_splits)

lemma json_int_inject [simp]: "json_int m = json_int n \<longleftrightarrow> m = n"
proof
  assume e: "json_int m = json_int n"
  have head: "hd (decimal k) \<noteq> 45" for k
    using decimal_digits [of "hd (decimal k)" k] by auto
  show "m = n"
  proof (cases "m < 0"; cases "n < 0")
    assume "m < 0" "\<not> n < 0"
    with e head [of "nat n"] show ?thesis by (auto simp: json_int_def dest: arg_cong [of _ _ hd])
  next
    assume "\<not> m < 0" "n < 0"
    with e head [of "nat m"] show ?thesis by (auto simp: json_int_def dest: arg_cong [of _ _ hd])
  qed (use e in \<open>auto simp: json_int_def\<close>)
qed simp

lemma json_int_nonempty [simp]: "json_int n \<noteq> []"
  by (simp add: json_int_def)

lemma json_int_plain: "c \<in> {46, 58, 59} \<Longrightarrow> c \<notin> set (json_int n)"
  using json_int_chars [of c n] by auto

lemma json_int_ascii: "list_all scalar (json_int n)"
  by (auto simp: list_all_iff scalar_def dest!: json_int_chars)

lemma js_number_json [simp]: "0 \<le> n \<Longrightarrow> js_number cr (json_int n) = Some n"
  using decimal_digits
  by (auto simp: js_number_def json_int_def all_digits_def undecimal_decimal list_all_iff)

text \<open>The last separator of a text decides where it splits.\<close>

lemma split_at_last:
  assumes "x @ c # t = y @ c # u" and "c \<notin> set t" and "c \<notin> set u"
  shows "x = y \<and> t = u"
proof -
  have "takeWhile (\<lambda>a. a \<noteq> c) (rev (x @ c # t)) = rev t" if "c \<notin> set t" for x t
    using that by (auto simp: takeWhile_append takeWhile_eq_all_conv [THEN iffD2])
  then have "rev t = rev u" using assms by metis
  then show ?thesis using assms(1) by simp
qed

lemma session_payload_inject:
  "session_payload k s v e = session_payload k s' v' e' \<longleftrightarrow> s = s' \<and> v = v' \<and> e = e'"
proof
  assume eq: "session_payload k s v e = session_payload k s' v' e'"
  have form: "session_payload k s v e = k @ 58 # (s @ 58 # json_int v) @ 58 # json_int e" for s v e
    by (simp add: session_payload_def coloned_def)
  from eq have "(s @ 58 # json_int v) @ 58 # json_int e = (s' @ 58 # json_int v') @ 58 # json_int e'"
    by (simp only: form append_same_eq list.inject same_append_eq)
  then have "s @ 58 # json_int v = s' @ 58 # json_int v' \<and> json_int e = json_int e'"
    by (rule split_at_last) (simp_all add: json_int_plain)
  moreover then have "s = s' \<and> json_int v = json_int v'"
    by (intro split_at_last [where c = 58]) (simp_all add: json_int_plain)
  ultimately show "s = s' \<and> v = v' \<and> e = e'" by simp
qed simp

text \<open>The two kinds of payload never coincide.\<close>

lemma payloads_differ:
  assumes "58 \<notin> set k" and "k \<noteq> ustr ''bulk-download''"
  shows "session_payload k s v e \<noteq> bulkDownloadResumePayload k' s' v' j' e'"
proof
  assume eq: "session_payload k s v e = bulkDownloadResumePayload k' s' v' j' e'"
  have first: "takeWhile (\<lambda>c. c \<noteq> 58) (a @ 58 # r) = a" if "58 \<notin> set a" for a r :: ustring
    using that by (auto simp: takeWhile_append takeWhile_eq_all_conv [THEN iffD2])
  have "takeWhile (\<lambda>c. c \<noteq> 58) (session_payload k s v e) = k"
    using first [OF assms(1)] by (simp add: session_payload_def coloned_def)
  moreover have "takeWhile (\<lambda>c. c \<noteq> 58) (bulkDownloadResumePayload k' s' v' j' e') = ustr ''bulk-download''"
    using first [of "ustr ''bulk-download''"] by (simp add: bulkDownloadResumePayload_def coloned_def ustr_def)
  ultimately show False using assms(2) eq by simp
qed

subsection \<open>Escaping\<close>

lemma percent_byte_decode:
  assumes "b < 256"
  shows "percent_bytes (percent_byte b @ s) = map_option ((#) b) (percent_bytes s)"
proof (cases "unreserved b")
  case True
  then have "b < 128" "b \<noteq> 37"
    by (auto simp: unreserved_def word_char_def ustr_def)
  moreover have "(@) [b] = (#) b" by auto
  ultimately show ?thesis using True by (simp add: percent_byte_def utf8_char_def unat_of_nat take_bit_eq_mod)
next
  case False
  have hex: "hex_value (upper_hex n) = Some n" if "n < 16" for n
    using that by (auto simp: hex_value_def upper_hex_def)
  have "b div 16 < 16" using assms by (simp add: less_mult_imp_div_less)
  then show ?thesis using False by (simp add: percent_byte_def hex)
qed

lemma percent_bytes_encode: "list_all (\<lambda>b. b < 256) bs \<Longrightarrow> percent_bytes (concat (map percent_byte bs)) = Some bs"
  by (induction bs) (simp_all add: percent_byte_decode)

lemma decode_encode_component:
  assumes "list_all scalar s"
  shows "decodeURIComponent (encodeURIComponent s) = Inr s"
proof -
  have "list_all (\<lambda>b. b < 256) (map unat (utf8 s))"
    by (simp add: list_all_iff unat_byte_less)
  then show ?thesis
    using percent_bytes_encode [of "map unat (utf8 s)"] utf8_decode_encode [OF assms]
    by (simp add: decodeURIComponent_def encodeURIComponent_def)
qed

lemma encoded_chars: "c \<in> set (encodeURIComponent s) \<Longrightarrow> c \<notin> {59, 61} \<and> \<not> js_space c"
proof -
  have plain: "c \<notin> {59, 61} \<and> \<not> js_space c" if "unreserved c \<or> c = 37 \<or> (\<exists>n < 16. c = upper_hex n)" for c
    using that by (auto simp: unreserved_def word_char_def ustr_def js_space_def upper_hex_def split: if_splits)
  assume "c \<in> set (encodeURIComponent s)"
  then obtain b where b: "c \<in> set (percent_byte b)" "b < 256"
    by (auto simp: encodeURIComponent_def unat_byte_less)
  moreover from b(2) have "b div 16 < 16" by (simp add: less_mult_imp_div_less)
  ultimately have "unreserved c \<or> c = 37 \<or> (\<exists>n < 16. c = upper_hex n)"
    by (auto simp: percent_byte_def split: if_splits intro: exI [of _ "b div 16"] exI [of _ "b mod 16"])
  then show ?thesis by (rule plain)
qed

text \<open>The pair that a browser sends back for a cookie: what precedes the first semicolon.\<close>

definition sent_back :: "ustring \<Rightarrow> ustring" where
  "sent_back cookie = takeWhile (\<lambda>c. c \<noteq> 59) cookie"

lemma js_trim_plain: "s \<noteq> [] \<Longrightarrow> list_all (\<lambda>c. \<not> js_space c) s \<Longrightarrow> js_trim s = s"
proof -
  assume s: "s \<noteq> []" "list_all (\<lambda>c. \<not> js_space c) s"
  then have "\<not> js_space (hd s)" "\<not> js_space (hd (rev s))" by (simp_all add: list_all_iff hd_rev)
  then have "dropWhile js_space s = s" "dropWhile js_space (rev s) = rev s"
    by (simp_all add: dropWhile_eq_self_iff)
  then show ?thesis by (simp add: js_trim_def)
qed

lemma cookie_read_back:
  assumes "list_all scalar v" and "name \<noteq> []" and "list_all (\<lambda>c. \<not> js_space c \<and> c \<notin> {59, 61}) name"
  shows "parseCookie (Some (sent_back (name @ 61 # encodeURIComponent v @ 59 # attributes))) name = Inr (Some v)"
proof -
  let ?p = "name @ 61 # encodeURIComponent v"
  have "59 \<notin> set ?p" using assms(3) encoded_chars [of 59 v] by (auto simp: list_all_iff)
  then have sent: "sent_back (name @ 61 # encodeURIComponent v @ 59 # attributes) = ?p" and entries: "split_on 59 ?p = [?p]"
    by (auto simp: sent_back_def takeWhile_append takeWhile_eq_all_conv [THEN iffD2] intro: split_on_no_sep)
  have "list_all (\<lambda>c. \<not> js_space c) ?p"
    using assms(3) encoded_chars [of _ v] by (auto simp: list_all_iff js_space_def)
  then have trim: "js_trim ?p = ?p" by (intro js_trim_plain) simp_all
  have "61 \<notin> set name" "61 \<notin> set (encodeURIComponent v)"
    using assms(3) encoded_chars [of 61 v] by (auto simp: list_all_iff)
  then have "split_on 61 ?p = [name, encodeURIComponent v]"
    by (simp add: split_on_append_sep split_on_no_sep)
  then show ?thesis
    by (simp add: parseCookie_def sent entries trim decode_encode_component [OF assms(1)])
qed

subsection \<open>Issued cookies are accepted, accepted cookies were signed\<close>

definition plain_part :: "ustring \<Rightarrow> bool" where
  "plain_part s \<longleftrightarrow> s \<noteq> [] \<and> 46 \<notin> set s \<and> list_all scalar s"

lemma split_dotted:
  "list_all (\<lambda>s. 46 \<notin> set s) ps \<Longrightarrow> ps \<noteq> [] \<Longrightarrow> split_on 46 (dotted ps) = ps"
  unfolding dotted_def by (rule split_join) (auto simp: list_all_iff)

lemma session_value_scalar:
  assumes "plain_part k" and "plain_part i" and "plain_part sig"
  shows "list_all scalar (session_value k i v e sig)"
  using assms json_int_ascii [of v] json_int_ascii [of e]
  by (simp add: session_value_def dotted_def plain_part_def scalar_def)

lemma verify_issued:
  assumes parts: "plain_part k" "plain_part i" "plain_part (cr_hmac cr secret (session_payload k i v e))"
    and "32 \<le> js_length secret" and "1 \<le> v" and "now < e" and "is_safe_integer v" and "is_safe_integer e" and "0 \<le> e"
  shows "verifySessionCookie cr secret k
      (Some (session_value k i v e (cr_hmac cr secret (session_payload k i v e)))) now =
    Inr \<lparr>ds_shareId = i, ds_shareVersion = v, ds_expiresAt = e\<rparr>"
proof -
  let ?sig = "cr_hmac cr secret (session_payload k i v e)"
  have split: "split_on 46 (session_value k i v e ?sig) = [k, i, json_int v, json_int e, ?sig]"
    unfolding session_value_def using parts by (intro split_dotted) (simp_all add: plain_part_def json_int_plain)
  have "session_value k i v e ?sig \<noteq> []" by (simp add: session_value_def dotted_def)
  then show ?thesis
    using assms
    by (simp add: verifySessionCookie_def split part_def number_part_def plain_part_def hmac_def constantTimeEqual_def
        or_fold_zero)
qed

lemma verify_Inr:
  assumes "verifySessionCookie cr secret k value now = Inr s"
  obtains sig where "value = Some (the value)" "part (split_on 46 (the value)) 4 = Some sig"
    "constantTimeEqual (cr_hmac cr secret (session_payload k (ds_shareId s) (ds_shareVersion s) (ds_expiresAt s))) sig"
    "1 \<le> ds_shareVersion s" "now < ds_expiresAt s" "32 \<le> js_length secret"
  using assms
  by (auto simp: verifySessionCookie_def Let_def hmac_def result_simps split: if_splits option.splits)

lemma rotating_Inr:
  "rotating verify refusal value current previous = Inr s \<longleftrightarrow>
     (cookie_key value = Some (sk_keyId current) \<and> verify (sk_secret current) (sk_keyId current) = Inr s) \<or>
     (cookie_key value \<noteq> Some (sk_keyId current) \<and> (\<exists>old. previous = Some old \<and> sk_keyId old \<noteq> [] \<and>
        sk_secret old \<noteq> [] \<and> cookie_key value = Some (sk_keyId old) \<and> verify (sk_secret old) (sk_keyId old) = Inr s))"
  by (auto simp: rotating_def split: option.splits)

lemma issued_form:
  assumes "createSessionCookie cr secret k i v e now = Inr cookie"
  shows "32 \<le> js_length secret" and "\<exists>attributes. cookie = COOKIE_NAME @ 61 # encodeURIComponent
    (session_value k i v e (cr_hmac cr secret (session_payload k i v e))) @ 59 # attributes"
  using assms by (auto simp: createSessionCookie_def hmac_def result_simps ustr_def split: if_splits)

text \<open>The header holds the session cookie and no other.\<close>

lemma issued_read:
  assumes "createSessionCookie cr secret k i v e now = Inr cookie"
    and "plain_part k" "plain_part i" "plain_part (cr_hmac cr secret (session_payload k i v e))"
  shows "parseCookie (Some (sent_back cookie)) COOKIE_NAME =
      Inr (Some (session_value k i v e (cr_hmac cr secret (session_payload k i v e))))"
    and "parseCookie (Some (sent_back cookie)) BULK_DOWNLOAD_RESUME_COOKIE = Inr None"
proof -
  let ?cookie = "session_value k i v e (cr_hmac cr secret (session_payload k i v e))"
  obtain attributes where cookie: "cookie = COOKIE_NAME @ 61 # encodeURIComponent ?cookie @ 59 # attributes"
    using issued_form(2) [OF assms(1)] by blast
  have name: "COOKIE_NAME \<noteq> []" "list_all (\<lambda>c. \<not> js_space c \<and> c \<notin> {59, 61}) COOKIE_NAME"
      "COOKIE_NAME \<noteq> BULK_DOWNLOAD_RESUME_COOKIE"
    by (simp_all add: COOKIE_NAME_def BULK_DOWNLOAD_RESUME_COOKIE_def ustr_def js_space_def)
  show "parseCookie (Some (sent_back cookie)) COOKIE_NAME = Inr (Some ?cookie)"
    unfolding cookie by (rule cookie_read_back [OF session_value_scalar name(1,2)]) (fact assms)+
  have "59 \<notin> set (COOKIE_NAME @ 61 # encodeURIComponent ?cookie)" using name encoded_chars [of 59] by (auto simp: list_all_iff)
  then have sent: "split_on 59 (sent_back cookie) = [COOKIE_NAME @ 61 # encodeURIComponent ?cookie]"
    unfolding cookie by (auto simp: sent_back_def takeWhile_append takeWhile_eq_all_conv [THEN iffD2] intro: split_on_no_sep)
  have "list_all (\<lambda>c. \<not> js_space c) (COOKIE_NAME @ 61 # encodeURIComponent ?cookie)"
    using name encoded_chars by (auto simp: list_all_iff js_space_def)
  then have trim: "js_trim (COOKIE_NAME @ 61 # encodeURIComponent ?cookie) = COOKIE_NAME @ 61 # encodeURIComponent ?cookie"
    by (intro js_trim_plain) simp_all
  have "61 \<notin> set COOKIE_NAME" using name by (auto simp: list_all_iff)
  then have "hd (split_on 61 (COOKIE_NAME @ 61 # encodeURIComponent ?cookie)) = COOKIE_NAME"
    by (simp add: split_on_append_sep split_on_no_sep)
  then show "parseCookie (Some (sent_back cookie)) BULK_DOWNLOAD_RESUME_COOKIE = Inr None"
    using name(3) by (simp add: parseCookie_def sent trim)
qed

lemma split_session_value:
  "plain_part k \<Longrightarrow> plain_part i \<Longrightarrow> plain_part sig \<Longrightarrow>
   split_on 46 (session_value k i v e sig) = [k, i, json_int v, json_int e, sig]"
  unfolding session_value_def by (intro split_dotted) (simp_all add: plain_part_def json_int_plain)

text \<open>What is read from the value of a cookie is what was written into it.\<close>

lemma accepted_names:
  assumes "verifyRotatingSessionCookie cr (Some (session_value k i v e sig)) current previous now = Inr s"
    and "plain_part k" "plain_part i" "plain_part sig" and "0 \<le> v"
  shows "ds_shareId s = i \<and> ds_shareVersion s = v"
proof -
  obtain secret keyId where "verifySessionCookie cr secret keyId (Some (session_value k i v e sig)) now = Inr s"
    using assms(1) unfolding verifyRotatingSessionCookie_def rotating_Inr by blast
  then show ?thesis
    using assms(2-5)
    by (auto simp: verifySessionCookie_def Let_def split_session_value part_def number_part_def plain_part_def result_simps
        split: if_splits option.splits)
qed

text \<open>An issued cookie is accepted while its key is the current one or, after a rotation, the previous one.\<close>

lemma issued_accepted:
  assumes issued: "createSessionCookie cr secret k i v e issuedAt = Inr cookie"
    and parts: "plain_part k" "plain_part i" "plain_part (cr_hmac cr secret (session_payload k i v e))"
    and numbers: "1 \<le> v" "is_safe_integer v" "is_safe_integer e" "0 \<le> e" and live: "now < e"
    and key: "current = \<lparr>sk_keyId = k, sk_secret = secret\<rparr> \<or>
      sk_keyId current \<noteq> k \<and> previous = Some \<lparr>sk_keyId = k, sk_secret = secret\<rparr>"
  shows "verifyRotatingSessionCookie cr
      (Some (session_value k i v e (cr_hmac cr secret (session_payload k i v e)))) current previous now =
    Inr \<lparr>ds_shareId = i, ds_shareVersion = v, ds_expiresAt = e\<rparr>"
proof -
  let ?cookie = "session_value k i v e (cr_hmac cr secret (session_payload k i v e))"
  note secret = issued_form(1) [OF issued]
  have "cookie_key (Some ?cookie) = Some k" by (simp add: cookie_key_def split_session_value parts)
  moreover have "verifySessionCookie cr secret k (Some ?cookie) now = Inr \<lparr>ds_shareId = i, ds_shareVersion = v, ds_expiresAt = e\<rparr>"
    by (rule verify_issued) (fact parts secret numbers live)+
  moreover have "k \<noteq> []" "secret \<noteq> []" using parts secret by (auto simp: plain_part_def js_length_def)
  ultimately show ?thesis
    using key unfolding verifyRotatingSessionCookie_def rotating_Inr by auto
qed

end
