(* ===== verification/Delivery_Refs.thy ===== *)
theory Delivery_Refs
  imports Staff_Acl Item_Refs
begin

section \<open>References, prefixes and roots of the operations worker\<close>

text \<open>
  The path helpers of \<open>apps/operations/src/worker/delivery.ts\<close>: item references, folder prefixes, the
  roots a staff member may browse and the division that a folder belongs to. They are the worker's own
  copies of the helpers of the client worker; the lemmas say where they agree.
\<close>

definition encodeRef :: "ustring \<Rightarrow> ustring" where
  "encodeRef v = bytesToBase64Url (map unat (utf8 v))"

definition validateRelative :: "(ustring \<Rightarrow> ustring) \<Rightarrow> ustring \<Rightarrow> fault + ustring" where
  "validateRelative lower v =
     (if v = [] \<or> starts_with v [47] \<or> 92 \<in> set v \<or> list_ex control_char v
      then Inl (Http 400 ''Invalid item path'')
      else
        let parts = split_on 47 v in
        if list_ex (bad_segment lower) parts then Inl (Http 404 ''Item not found'') else Inr (join_with 47 parts))"

definition decodeRef :: "(ustring \<Rightarrow> ustring) \<Rightarrow> ustring \<Rightarrow> fault + ustring" where
  "decodeRef lower v =
     (let bad = Inl (Http 400 ''Invalid item reference'') in
      if v = [] then bad
      else case Option.bind (Option.bind (base64url_chars v) octets) text_decode of
        None \<Rightarrow> bad
      | Some path \<Rightarrow> validateRelative lower path)"

definition normalizePrefix :: "(ustring \<Rightarrow> ustring) \<Rightarrow> ustring \<Rightarrow> fault + ustring" where
  "normalizePrefix lower v =
     (let prefix = strip_one (collapse_slashes (strip_leading (forward_slashes (js_trim v)))) in
      if prefix = [] \<or> list_ex (bad_segment lower) (split_on 47 prefix)
      then Inl (Http 400 ''Folder prefix is invalid'') else Inr (prefix @ [47]))"

definition hidden_key :: "(ustring \<Rightarrow> ustring) \<Rightarrow> ustring \<Rightarrow> bool" where
  "hidden_key lower key \<longleftrightarrow>
     list_ex (reservedSegment lower) (filter (\<lambda>part. part \<noteq> []) (split_on 47 (forward_slashes key)))"

text \<open>The rows of \<open>project_folders\<close>: division and prefix.\<close>

record folder_association =
  fa_division :: ustring
  fa_prefix :: ustring

definition normalized_associations ::
  "(ustring \<Rightarrow> ustring) \<Rightarrow> folder_association list \<Rightarrow> fault + (ustring \<times> ustring) list" where
  "normalized_associations lower rows =
     rmap (\<lambda>row. rbind (normalizePrefix lower (fa_prefix row)) (\<lambda>p. Inr (fa_division row, p))) rows"

definition resolveDivisionAssociation ::
  "(ustring \<Rightarrow> ustring) \<Rightarrow> ustring \<Rightarrow> folder_association list \<Rightarrow> fault + ustring option" where
  "resolveDivisionAssociation lower prefix associations =
     rbind (normalized_associations lower associations) (\<lambda>rows.
     let found = filter (\<lambda>(d, p). starts_with prefix p) rows in
     if found = [] then Inr None
     else
       let longest = Max (set (map (\<lambda>(d, p). js_length p) found));
           divisions = set_order (map fst (filter (\<lambda>(d, p). js_length p = longest) found)) in
       if length divisions \<noteq> 1
       then Inl (Http 409 ''Folder is associated with multiple divisions and requires review'')
       else Inr (Some (hd divisions)))"

subsection \<open>Roots\<close>

record browse_access =
  ba_global :: bool
  ba_roots :: "(ustring \<times> ustring) list"

text \<open>
  \<open>browseRoots\<close>: everything, or the folders of the divisions that are allowed and not denied, with
  their division. The rows are the folder associations in the order of the query.
\<close>

definition browseRoots ::
  "(ustring \<Rightarrow> ustring) \<Rightarrow> acl_tables \<Rightarrow> folder_association list \<Rightarrow> StaffPrincipal \<Rightarrow> fault + browse_access" where
  "browseRoots lower tb folders p =
     (let scope = sqlScope tb p ''delivery.browse'' in
      if ss_deniedGlobal scope then Inr \<lparr>ba_global = False, ba_roots = []\<rparr>
      else if ss_global scope \<and> ss_deniedDivisions scope = [] then Inr \<lparr>ba_global = True, ba_roots = []\<rparr>
      else
        let divisions = filter (\<lambda>d. d \<notin> set (ss_deniedDivisions scope)) (ss_divisions scope) in
        if divisions = [] then Inr \<lparr>ba_global = False, ba_roots = []\<rparr>
        else rbind (rmap (\<lambda>row. rbind (normalizePrefix lower (fa_prefix row)) (\<lambda>prefix. Inr (prefix, fa_division row)))
            (filter (\<lambda>row. fa_division row \<in> set divisions) folders)) (\<lambda>roots.
          Inr \<lparr>ba_global = False, ba_roots = roots\<rparr>))"

definition within_roots :: "browse_access \<Rightarrow> ustring \<Rightarrow> bool" where
  "within_roots access key \<longleftrightarrow> ba_global access \<or> list_ex (\<lambda>(prefix, d). starts_with key prefix) (ba_roots access)"

subsection \<open>The two copies agree\<close>

lemma validateRelative_eq [simp]: "validateRelative lower = validateRelativePath lower"
  by (auto simp: fun_eq_iff validateRelative_def validateRelativePath_def starts_with_def neq_Nil_conv)

lemma decodeRef_eq: "decodeRef lower v = decodeItemRef lower v"
  by (auto simp: decodeRef_def decodeItemRef_def Let_def split: option.split Option.bind_split)

text \<open>A decoded key never ends with a slash, so no reference names a folder by its trailing slash.\<close>

lemma clean_path_no_trailing:
  assumes "clean_path lower p"
  shows "\<not> ends_with p [47]"
proof
  assume "ends_with p [47]"
  then obtain q where "p = q @ [47]"
    unfolding ends_with_def by (metis append_take_drop_id)
  then have "split_on 47 p = split_on 47 q @ [[]]" by (simp add: split_on_append_sep)
  then show False using assms by (simp add: clean_path_def bad_segment_def)
qed

lemma decodeRef_clean: "decodeRef lower v = Inr key \<Longrightarrow> clean_path lower key"
  by (auto simp: decodeRef_eq decodeItemRef_def validateRelativePath_def clean_path_def Let_def list_ex_iff list_all_iff
      split: if_splits option.splits)

end
