(* ===== verification/Trash.thy ===== *)
theory Trash
  imports Delivery_Refs "HOL-Library.List_Lexorder"
begin

section \<open>Trash\<close>

text \<open>
  \<open>apps/operations/src/worker/trash.ts\<close>: a deleted item stays in the bucket under a tombstone that
  hides it, with a manifest of the objects it held; it is restored by ending the tombstone, or purged
  after seven days, object by object. Times written by the worker are milliseconds, those written by
  the database are seconds, and the clock of the model has whole seconds. \<open>enqueueThumbnailJob\<close> and
  \<open>removeThumbnailStateForPath\<close> are calls to another component; fresh identifiers come from \<open>sv_uuid\<close>.
\<close>

datatype trash_kind = Exact | Under

record tombstone_row =
  tb_id :: ustring
  tb_key :: ustring
  tb_kind :: trash_kind
  tb_deleted_by :: ustring
  tb_deleted_at :: int
  tb_purge_after :: "int option"
  tb_purging :: "int option"
  tb_restored_by :: "ustring option"
  tb_restored :: "int option"
  tb_manifested :: "int option"
  tb_blocked :: "ustring option"

datatype trash_relation = Source_object | Derived_object

record TrashObjectIdentity =
  ti_key :: ustring
  ti_etag :: ustring
  ti_size :: int
  ti_relation :: trash_relation

record trash_row = TrashObjectIdentity +
  tr_tombstone :: ustring
  tr_purged :: "int option"

text \<open>
  The tables that the handlers share with the rest of the delivery database: aliases (key, name),
  preview artifacts (source, prefix), the recipients of the shares and the notifications (kind, share,
  address), of which the first with a kind and share is kept.
\<close>

record trash_world = share_world +
  tw_tombstones :: "tombstone_row list"
  tw_objects :: "trash_row list"
  tw_aliases :: "(ustring \<times> ustring) list"
  tw_artifacts :: "(ustring \<times> ustring) list"
  tw_recipients :: "ustring \<Rightarrow> ustring option"
  tw_notifications :: "(string \<times> ustring \<times> ustring) list"

subsection \<open>Calls\<close>

text \<open>A statement that the database may refuse, and \<open>new Date()\<close> in milliseconds.\<close>

definition await_db ::
  "'x world_scheme services \<Rightarrow> ('x world_scheme \<Rightarrow> (fault + 'a) \<times> 'x world_scheme) \<Rightarrow> ('x world_scheme, 'a) io" where
  "await_db sv call = bind_io (await sv call) lift"

definition js_now :: "('x world_scheme, int) io" where
  "js_now w = (Inr (w_now w * 1000), w)"

subsection \<open>Snapshots\<close>

text \<open>\<open>new Map(rows)\<close>: the last row of a key counts.\<close>

definition by_object_key :: "'x TrashObjectIdentity_scheme list \<Rightarrow> ustring \<Rightarrow> 'x TrashObjectIdentity_scheme option" where
  "by_object_key rows key = map_of (map (\<lambda>r. (ti_key r, r)) (rev rows)) key"

fun snapshot_block :: "(ustring \<Rightarrow> trash_row option) \<Rightarrow> TrashObjectIdentity list \<Rightarrow> ustring option" where
  "snapshot_block expected [] = None"
| "snapshot_block expected (obj # rest) =
     (case expected (ti_key obj) of
        None \<Rightarrow> Some (ustr ''unmanifested_object:'' @ ti_key obj)
      | Some recorded \<Rightarrow>
          if ti_etag recorded \<noteq> ti_etag obj \<or> ti_size recorded \<noteq> ti_size obj
          then Some (ustr ''object_identity_changed:'' @ ti_key obj) else snapshot_block expected rest)"

definition trashSnapshotBlockReason :: "trash_row list \<Rightarrow> TrashObjectIdentity list \<Rightarrow> ustring option" where
  "trashSnapshotBlockReason manifest current =
     (if manifest = [] then Some (ustr ''legacy_or_empty_manifest'')
      else snapshot_block (by_object_key manifest) current)"

definition tombstoneMatches :: "tombstone_row \<Rightarrow> ustring \<Rightarrow> bool" where
  "tombstoneMatches t key = (case tb_kind t of Exact \<Rightarrow> tb_key t = key | Under \<Rightarrow> starts_with key (tb_key t))"

subsection \<open>Reading tombstones\<close>

definition activeTombstones ::
  "'x trash_world_scheme services \<Rightarrow> ('x trash_world_scheme, tombstone_row list) io" where
  "activeTombstones sv = await sv (\<lambda>w.
     (sort_key (\<lambda>t. - tb_deleted_at t) (filter (\<lambda>t. tb_restored t = None) (tw_tombstones w)), w))"

definition trash_hides :: "tombstone_row \<Rightarrow> ustring \<Rightarrow> bool" where
  "trash_hides t key \<longleftrightarrow> tb_restored t = None \<and> (tb_key t = key \<or> tb_kind t = Under \<and> starts_with key (tb_key t))"

definition assertNotTrashed ::
  "'x trash_world_scheme services \<Rightarrow> ustring \<Rightarrow> ('x trash_world_scheme, unit) io" where
  "assertNotTrashed sv key =
     bind_io (await sv (\<lambda>w. (list_ex (\<lambda>t. trash_hides t key) (tw_tombstones w), w))) (\<lambda>found.
     if found then raise (Http 404 ''File or folder not found'') else ret ())"

subsection \<open>Creating a tombstone\<close>

text \<open>The primary key, and the unique index over the keys of the rows that are not restored.\<close>

definition insert_tombstone :: "tombstone_row \<Rightarrow> 'x trash_world_scheme \<Rightarrow> (fault + unit) \<times> 'x trash_world_scheme" where
  "insert_tombstone row w =
     (if list_ex (\<lambda>t. tb_id t = tb_id row \<or> (tb_restored t = None \<and> tb_restored row = None \<and> tb_key t = tb_key row))
           (tw_tombstones w)
      then (Inl (Failed ''UNIQUE constraint failed: delivery_tombstones''), w)
      else (Inr (), w\<lparr>tw_tombstones := tw_tombstones w @ [row]\<rparr>))"

text \<open>A batch of rows is inserted whole or not at all.\<close>

definition insert_objects :: "trash_row list \<Rightarrow> 'x trash_world_scheme \<Rightarrow> (fault + unit) \<times> 'x trash_world_scheme" where
  "insert_objects rows w =
     (if \<not> list_all (\<lambda>r. tr_tombstone r \<in> tb_id ` set (tw_tombstones w) \<and> 0 \<le> ti_size r) rows \<or>
         \<not> distinct (map (\<lambda>r. (tr_tombstone r, ti_key r)) (tw_objects w @ rows))
      then (Inl (Failed ''constraint failed: delivery_trash_objects''), w)
      else (Inr (), w\<lparr>tw_objects := tw_objects w @ rows\<rparr>))"

definition trash_row_of :: "ustring \<Rightarrow> TrashObjectIdentity \<Rightarrow> trash_row" where
  "trash_row_of tid obj = \<lparr>ti_key = ti_key obj, ti_etag = ti_etag obj, ti_size = ti_size obj,
     ti_relation = ti_relation obj, tr_tombstone = tid, tr_purged = None\<rparr>"

text \<open>\<open>DELETE FROM delivery_tombstones WHERE id=? AND restored_at IS NULL\<close>; the manifest goes with it.\<close>

definition delete_tombstone ::
  "(tombstone_row \<Rightarrow> bool) \<Rightarrow> ustring \<Rightarrow> 'x trash_world_scheme \<Rightarrow> unit \<times> 'x trash_world_scheme" where
  "delete_tombstone also_if tid w =
     (let gone = (\<lambda>t. tb_id t = tid \<and> tb_restored t = None \<and> also_if t) in
      ((), if list_ex gone (tw_tombstones w)
           then w\<lparr>tw_tombstones := filter (\<lambda>t. \<not> gone t) (tw_tombstones w),
                  tw_objects := filter (\<lambda>r. tr_tombstone r \<noteq> tid) (tw_objects w)\<rparr>
           else w))"

definition update_tombstones ::
  "(int \<Rightarrow> tombstone_row \<Rightarrow> bool) \<Rightarrow> (int \<Rightarrow> tombstone_row \<Rightarrow> tombstone_row) \<Rightarrow> 'x trash_world_scheme \<Rightarrow>
   nat \<times> 'x trash_world_scheme" where
  "update_tombstones cond change w =
     (length (filter (cond (w_now w)) (tw_tombstones w)),
      w\<lparr>tw_tombstones := map (\<lambda>t. if cond (w_now w) t then change (w_now w) t else t) (tw_tombstones w)\<rparr>)"

definition retention :: int where
  "retention = 7 * 24 * 60 * 60 * 1000"

definition write_manifest ::
  "'x trash_world_scheme services \<Rightarrow> ustring \<Rightarrow> TrashObjectIdentity list \<Rightarrow> ('x trash_world_scheme, unit) io" where
  "write_manifest sv tid objects =
     catch_io
       (bind_io (for_each (chunks_of 75 objects) (\<lambda>batch. await_db sv (insert_objects (map (trash_row_of tid) batch)))) (\<lambda>_.
        bind_io (await sv (update_tombstones (\<lambda>now t. tb_id t = tid \<and> tb_restored t = None)
          (\<lambda>now t. t\<lparr>tb_manifested := Some now\<rparr>))) (\<lambda>_. ret ())))
       (\<lambda>f. bind_io (await sv (delete_tombstone (\<lambda>_. True) tid)) (\<lambda>_. raise f))"

definition createTombstone ::
  "'x trash_world_scheme services \<Rightarrow> StaffPrincipal \<Rightarrow> ustring \<Rightarrow> bool \<Rightarrow> TrashObjectIdentity list \<Rightarrow>
   ('x trash_world_scheme, tombstone_row) io" where
  "createTombstone sv p key isFolder objects =
     bind_io (lift (if isFolder then normalizePrefix (pr_lower (sv_paths sv)) key else Inr key)) (\<lambda>physicalKey.
     bind_io (fresh sv) (\<lambda>tid.
     bind_io js_now (\<lambda>deletedAt.
     let row = \<lparr>tb_id = tid, tb_key = physicalKey, tb_kind = (if isFolder then Under else Exact), tb_deleted_by = sp_id p,
           tb_deleted_at = deletedAt, tb_purge_after = Some (deletedAt + retention), tb_purging = None, tb_restored_by = None,
           tb_restored = None, tb_manifested = None, tb_blocked = None\<rparr> in
     bind_io (await_db sv (insert_tombstone row)) (\<lambda>_.
     bind_io (write_manifest sv tid objects) (\<lambda>_. ret row)))))"

subsection \<open>Listing\<close>

definition ALIAS_QUERY_BATCH :: nat where "ALIAS_QUERY_BATCH = 75"

text \<open>The rows of \<open>file_aliases\<close>, whose primary key is the physical key.\<close>

fun alias_query_batches ::
  "'x trash_world_scheme services \<Rightarrow> ustring list list \<Rightarrow> (ustring \<Rightarrow> ustring option) \<Rightarrow>
   ('x trash_world_scheme, ustring \<Rightarrow> ustring option) io" where
  "alias_query_batches sv [] names = ret names"
| "alias_query_batches sv (batch # rest) names =
     bind_io (await sv (\<lambda>w. (filter (\<lambda>(k, v). k \<in> set batch) (tw_aliases w), w))) (\<lambda>rows.
     alias_query_batches sv rest (names ++ map_of (rev rows)))"

definition aliasMap ::
  "'x trash_world_scheme services \<Rightarrow> ustring list \<Rightarrow> ('x trash_world_scheme, ustring \<Rightarrow> ustring option) io" where
  "aliasMap sv keys = alias_query_batches sv (chunks_of ALIAS_QUERY_BATCH (set_order keys)) Map.empty"

definition first_text :: "ustring option \<Rightarrow> ustring \<Rightarrow> ustring" where
  "first_text v otherwise = (case v of Some s \<Rightarrow> if s \<noteq> [] then s else otherwise | None \<Rightarrow> otherwise)"

text \<open>\<open>key.replace(/\/$/, "").split("/").pop() || key\<close>.\<close>

definition typed_name :: "ustring \<Rightarrow> ustring" where
  "typed_name key = first_text (Some (after_last 47 (strip_one key))) key"

definition listTrash :: "'x trash_world_scheme services \<Rightarrow> ('x trash_world_scheme, (tombstone_row \<times> ustring) list) io" where
  "listTrash sv =
     bind_io (activeTombstones sv) (\<lambda>rows.
     bind_io (aliasMap sv (map tb_key rows)) (\<lambda>aliases.
     ret (map (\<lambda>row. (row, first_text (aliases (tb_key row)) (typed_name (tb_key row)))) rows)))"

section \<open>Restoring and purging\<close>

text \<open>
  The rest of \<open>trash.ts\<close>: \<open>restoreTombstone\<close>, the listing of what a tombstone covers now, and
  \<open>purgeTrash\<close>, which claims an expired tombstone, compares the bucket with the manifest and deletes
  object by object. The loops over pages take \<open>sv_fuel\<close> pages at most.
\<close>

subsection \<open>Listing objects\<close>

fun listed_pages ::
  "'x world_scheme services \<Rightarrow> (r2_object \<Rightarrow> bool) \<Rightarrow> ustring \<Rightarrow> nat \<Rightarrow> ustring option \<Rightarrow> r2_object list \<Rightarrow>
   ('x world_scheme, r2_object list) io" where
  "listed_pages sv keep prefix 0 cursor objects = raise (Failed ''fuel'')"
| "listed_pages sv keep prefix (Suc n) cursor objects =
     bind_io (await sv (r2_list sv prefix 1000 cursor None)) (\<lambda>page.
     let more = objects @ filter keep (rp_objects page) in
     case page_cursor page of None \<Rightarrow> ret more | Some c \<Rightarrow> listed_pages sv keep prefix n (Some c) more)"

definition no_folder_object :: "r2_object \<Rightarrow> bool" where
  "no_folder_object obj \<longleftrightarrow> \<not> ends_with (r2_key obj) [47]"

definition identity_of :: "trash_relation \<Rightarrow> r2_object \<Rightarrow> TrashObjectIdentity" where
  "identity_of relation obj = \<lparr>ti_key = r2_key obj, ti_etag = r2_etag obj, ti_size = int (length (r2_body obj)),
     ti_relation = relation\<rparr>"

definition listObjects ::
  "'x world_scheme services \<Rightarrow> ustring \<Rightarrow> bool \<Rightarrow> trash_relation \<Rightarrow> ('x world_scheme, TrashObjectIdentity list) io" where
  "listObjects sv prefix exact relation =
     (if exact then
        bind_io (await sv (r2_head prefix)) (\<lambda>obj.
        ret (case obj of Some x \<Rightarrow> [(identity_of relation x)\<lparr>ti_key := prefix\<rparr>] | None \<Rightarrow> []))
      else bind_io (listed_pages sv no_folder_object prefix (sv_fuel sv) None []) (\<lambda>objects.
        ret (map (identity_of relation) objects)))"

text \<open>\<open>byKey.set\<close>: a key keeps its place and takes the last value.\<close>

fun put_identity :: "TrashObjectIdentity \<Rightarrow> TrashObjectIdentity list \<Rightarrow> TrashObjectIdentity list" where
  "put_identity obj [] = [obj]"
| "put_identity obj (x # rest) = (if ti_key x = ti_key obj then obj # rest else x # put_identity obj rest)"

fun add_derived ::
  "'x world_scheme services \<Rightarrow> ustring list \<Rightarrow> TrashObjectIdentity list \<Rightarrow> ('x world_scheme, TrashObjectIdentity list) io" where
  "add_derived sv [] objects = ret objects"
| "add_derived sv (prefix # rest) objects =
     bind_io (listObjects sv prefix False Derived_object) (\<lambda>derived.
     add_derived sv rest (fold put_identity derived objects))"

definition at_or_under :: "ustring \<Rightarrow> ustring \<Rightarrow> ustring \<Rightarrow> bool" where
  "at_or_under physicalKey prefix key \<longleftrightarrow> key = physicalKey \<or> starts_with key prefix"

text \<open>The set of artifact prefixes: those recorded for the source, and the directory of a file.\<close>

definition artifact_prefixes ::
  "'x trash_world_scheme services \<Rightarrow> ustring \<Rightarrow> ustring \<Rightarrow> bool \<Rightarrow> ('x trash_world_scheme, ustring list) io" where
  "artifact_prefixes sv physicalKey prefix isFolder =
     bind_io (await sv (\<lambda>w. (map snd (filter (\<lambda>(source, a). at_or_under physicalKey prefix source) (tw_artifacts w)), w))) (\<lambda>recorded.
     ret (set_order (recorded @ (if isFolder then [] else [sv_artifacts sv physicalKey]))))"

definition currentTrashObjects ::
  "'x trash_world_scheme services \<Rightarrow> tombstone_row \<Rightarrow> ('x trash_world_scheme, TrashObjectIdentity list) io" where
  "currentTrashObjects sv t =
     bind_io (listObjects sv (tb_key t) (tb_kind t = Exact) Source_object) (\<lambda>source.
     bind_io (artifact_prefixes sv (tb_key t) (if tb_kind t = Under then tb_key t else tb_key t @ [47]) (tb_kind t = Under)) (\<lambda>prefixes.
     add_derived sv prefixes (fold put_identity source [])))"

subsection \<open>Restoring\<close>

text \<open>\<open>enqueueThumbnailsForPath\<close> of \<open>image-thumbnails.ts\<close>; its count of queued jobs is not used here.\<close>

definition enqueueThumbnailsForPath ::
  "'x world_scheme services \<Rightarrow> ustring \<Rightarrow> bool \<Rightarrow> ('x world_scheme, unit) io" where
  "enqueueThumbnailsForPath sv sourceKey isPrefix =
     bind_io
       (if \<not> isPrefix then
          bind_io (await sv (r2_head sourceKey)) (\<lambda>obj.
          ret (case obj of Some x \<Rightarrow> if moved_marker x then [] else [x] | None \<Rightarrow> []))
        else listed_pages sv (\<lambda>obj. no_folder_object obj \<and> \<not> moved_marker obj) (prefixFor sourceKey) (sv_fuel sv) None [])
       (\<lambda>objects. for_each objects (\<lambda>obj.
          if sv_eligible sv (r2_key obj) (length (r2_body obj)) (map_of (r2_http obj) (ustr ''contentType''))
          then await sv (send (Enqueue_thumbnail (r2_key obj) (http_etag obj) (length (r2_body obj)))) else ret ()))"

definition not_restorable :: fault where
  "not_restorable = Http 409 ''This item's retention period has expired or purge has started, so it can no longer be restored''"

definition purge_due_after :: "int \<Rightarrow> tombstone_row \<Rightarrow> bool" where
  "purge_due_after t row \<longleftrightarrow> (case tb_purge_after row of Some p \<Rightarrow> t < p | None \<Rightarrow> False)"

definition restoreTombstone ::
  "'x trash_world_scheme services \<Rightarrow> StaffPrincipal \<Rightarrow> ustring \<Rightarrow> ('x trash_world_scheme, unit) io" where
  "restoreTombstone sv p tid =
     bind_io (await sv (\<lambda>w. (find (\<lambda>t. tb_id t = tid) (tw_tombstones w), w))) (\<lambda>found.
     case found of
       None \<Rightarrow> raise (Http 404 ''Trash item not found'')
     | Some t \<Rightarrow>
         if tb_restored t \<noteq> None then ret ()
         else bind_io js_now (\<lambda>restoredAt.
         if tb_purging t \<noteq> None \<or> \<not> purge_due_after restoredAt t then raise not_restorable
         else bind_io (await sv (update_tombstones
             (\<lambda>now r. tb_id r = tid \<and> tb_restored r = None \<and> tb_purging r = None \<and> purge_due_after restoredAt r)
             (\<lambda>now r. r\<lparr>tb_restored_by := Some (sp_id p), tb_restored := Some restoredAt\<rparr>))) (\<lambda>changes.
         if changes \<noteq> 1 then
           bind_io (await sv (\<lambda>w. (find (\<lambda>r. tb_id r = tid) (tw_tombstones w), w))) (\<lambda>current.
           if Option.bind current tb_restored \<noteq> None then ret () else raise not_restorable)
         else
           bind_io (await sv (send (Audit ''delivery.source_restored'' tid))) (\<lambda>_.
           catch_io (enqueueThumbnailsForPath sv (tb_key t) (tb_kind t = Under)) (\<lambda>_. ret ())))))"

subsection \<open>Purging\<close>

definition purge_lease :: int where
  "purge_lease = 30 * 60"

definition purge_claimable :: "int \<Rightarrow> tombstone_row \<Rightarrow> bool" where
  "purge_claimable now t \<longleftrightarrow> tb_restored t = None \<and>
     (case tb_purge_after t of Some p \<Rightarrow> p div 1000 \<le> now | None \<Rightarrow> False) \<and>
     (case tb_purging t of None \<Rightarrow> True | Some s \<Rightarrow> s \<le> now - purge_lease)"

definition release_blocked ::
  "ustring \<Rightarrow> ustring \<Rightarrow> 'x trash_world_scheme \<Rightarrow> nat \<times> 'x trash_world_scheme" where
  "release_blocked tid reason = update_tombstones (\<lambda>now t. tb_id t = tid \<and> tb_restored t = None)
     (\<lambda>now t. t\<lparr>tb_purging := None, tb_blocked := Some reason\<rparr>)"

definition mark_purged :: "ustring \<Rightarrow> ustring \<Rightarrow> 'x trash_world_scheme \<Rightarrow> unit \<times> 'x trash_world_scheme" where
  "mark_purged tid key w = ((), w\<lparr>tw_objects := map (\<lambda>r.
     if tr_tombstone r = tid \<and> ti_key r = key \<and> tr_purged r = None then r\<lparr>tr_purged := Some (w_now w)\<rparr> else r) (tw_objects w)\<rparr>)"

text \<open>The objects of the manifest, one after the other; the answer says whether one had changed.\<close>

fun purge_objects :: "'x trash_world_scheme services \<Rightarrow> ustring \<Rightarrow> trash_row list \<Rightarrow> ('x trash_world_scheme, bool) io" where
  "purge_objects sv tid [] = ret False"
| "purge_objects sv tid (recorded # rest) =
     (if tr_purged recorded \<noteq> None then purge_objects sv tid rest
      else bind_io (await sv (r2_head (ti_key recorded))) (\<lambda>obj.
        if (case obj of Some x \<Rightarrow> r2_etag x \<noteq> ti_etag recorded \<or> int (length (r2_body x)) \<noteq> ti_size recorded | None \<Rightarrow> False)
        then bind_io (await sv (release_blocked tid (ustr ''object_identity_changed:'' @ ti_key recorded))) (\<lambda>_. ret True)
        else
          bind_io (if obj \<noteq> None then await sv (r2_delete (ti_key recorded)) else ret ()) (\<lambda>_.
          bind_io (await sv (mark_purged tid (ti_key recorded))) (\<lambda>_.
          purge_objects sv tid rest))))"

definition delete_index_rows :: "(ustring \<Rightarrow> bool) \<Rightarrow> index_db \<Rightarrow> index_db" where
  "delete_index_rows gone db =
     \<lparr>ix_rows = (\<lambda>k. if gone k then None else ix_rows db k),
      ix_revisions = (\<lambda>k. if gone k \<and> ix_rows db k \<noteq> None then Some (revision_of db k + 1) else ix_revisions db k)\<rparr>"

text \<open>The last batch: everything that was recorded under the path, and the tombstone.\<close>

definition forget_path :: "ustring \<Rightarrow> ustring \<Rightarrow> ustring \<Rightarrow> 'x trash_world_scheme \<Rightarrow> unit \<times> 'x trash_world_scheme" where
  "forget_path tid physicalKey prefix w =
     (let gone = at_or_under physicalKey prefix in
      delete_tombstone (\<lambda>t. tb_purging t \<noteq> None) tid
        (w\<lparr>tw_aliases := filter (\<lambda>(k, v). \<not> gone k) (tw_aliases w),
           w_locations := filter (\<lambda>(k, e). \<not> gone k) (w_locations w),
           w_index := delete_index_rows gone (w_index w),
           tw_artifacts := filter (\<lambda>(source, a). \<not> gone source) (tw_artifacts w)\<rparr>))"

definition purge_claimed :: "'x trash_world_scheme services \<Rightarrow> tombstone_row \<Rightarrow> ('x trash_world_scheme, bool) io" where
  "purge_claimed sv t =
     (let tid = tb_id t in
      bind_io (await sv (\<lambda>w. (sort_key ti_key (filter (\<lambda>r. tr_tombstone r = tid) (tw_objects w)), w))) (\<lambda>manifest.
      bind_io (currentTrashObjects sv t) (\<lambda>current.
      case trashSnapshotBlockReason manifest current of
        Some reason \<Rightarrow>
          bind_io (await sv (release_blocked tid reason)) (\<lambda>_.
          bind_io (await sv (send (Audit ''delivery.source_purge_blocked'' tid))) (\<lambda>_. ret False))
      | None \<Rightarrow>
          bind_io (purge_objects sv tid manifest) (\<lambda>interrupted.
          if interrupted then ret False
          else bind_io (await sv (\<lambda>w. (length (filter (\<lambda>r. tr_tombstone r = tid \<and> tr_purged r = None) (tw_objects w)), w))) (\<lambda>pending.
          if pending > 0 then ret False
          else
            bind_io (await sv (send (if tb_kind t = Under then Remove_thumbnails (tb_key t) else Remove_thumbnail (tb_key t) None))) (\<lambda>_.
            bind_io (await sv (forget_path tid (tb_key t) (if tb_kind t = Under then tb_key t else tb_key t @ [47]))) (\<lambda>_.
            bind_io (await sv (send (Audit ''delivery.source_purged'' tid))) (\<lambda>_. ret True))))))))"

definition purge_tombstone :: "'x trash_world_scheme services \<Rightarrow> tombstone_row \<Rightarrow> ('x trash_world_scheme, bool) io" where
  "purge_tombstone sv t =
     bind_io (await sv (update_tombstones (\<lambda>now r. tb_id r = tb_id t \<and> purge_claimable now r)
       (\<lambda>now r. r\<lparr>tb_purging := Some now\<rparr>))) (\<lambda>claimed.
     if claimed \<noteq> 1 then ret False else purge_claimed sv t)"

fun purge_each :: "'x trash_world_scheme services \<Rightarrow> tombstone_row list \<Rightarrow> nat \<Rightarrow> ('x trash_world_scheme, nat) io" where
  "purge_each sv [] purged = ret purged"
| "purge_each sv (t # rest) purged =
     bind_io (purge_tombstone sv t) (\<lambda>b. purge_each sv rest (if b then purged + 1 else purged))"

definition purgeTrash :: "'x trash_world_scheme services \<Rightarrow> ('x trash_world_scheme, nat) io" where
  "purgeTrash sv =
     bind_io (await sv (\<lambda>w. (take 25 (sort_key (\<lambda>t. the (tb_purge_after t))
       (filter (purge_claimable (w_now w)) (tw_tombstones w))), w))) (\<lambda>rows. purge_each sv rows 0)"

definition r2PurgeEnabled :: "ustring option \<Rightarrow> bool" where
  "r2PurgeEnabled flag \<longleftrightarrow> flag = Some (ustr ''true'')"

end
