(* ===== verification/Share_Access.thy ===== *)
theory Share_Access
  imports Share_Sessions Trash
begin

section \<open>Opening a public share\<close>

text \<open>
  The part of \<open>apps/client/src/worker/index.ts\<close> that decides who sees a public share, and
  \<open>public-share-lifecycle.ts\<close>: the state of a share, the route that opens a session for the holder of
  the link and the access code, and the check that precedes every other request. Limiters, the
  listing of a folder and the hash of the client's address are parameters; events that are written in
  the background are calls whose failure is ignored. Random tokens come from \<open>sv_uuid\<close>. An expiry is
  absent, not a date, or a time in milliseconds.
\<close>

record public_share =
  ps_id :: ustring
  ps_public :: "ustring option"
  ps_project :: ustring
  ps_token_hash :: ustring
  ps_hash :: "ustring option"
  ps_salt :: "ustring option"
  ps_iterations :: "int option"
  ps_algorithm :: "ustring option"
  ps_expires :: "int option option"
  ps_revoked :: "int option"
  ps_reason :: "string option"
  ps_unavailable :: "int option"
  ps_version :: int
  ps_recipient :: "ustring option"
  ps_map :: int
  ps_object :: "ustring option"
  ps_prefix :: "ustring option"
  ps_division :: "ustring option"
  ps_secret :: "ustring option"
  ps_iv :: "ustring option"
  ps_idempotency :: "ustring option"
  ps_created :: int
  ps_creator :: ustring

record delivery_project =
  dr_id :: ustring
  dr_prefix :: ustring
  dr_division :: "ustring option"
  dr_active :: bool
  dr_client :: ustring
  dr_name :: ustring
  dr_created :: int

record delivery_world = world +
  dw_shares :: "public_share list"
  dw_projects :: "delivery_project list"
  dw_events :: "(string \<times> ustring) list"

text \<open>A row of \<open>lifecycleShareSql\<close>: the share with its folder and what is known of its project.\<close>

record share_view = public_share +
  vw_root :: ustring
  vw_project_exists :: bool
  vw_project_active :: bool

record public_env =
  pe_crypto :: crypto
  pe_pepper :: "ustring option"
  pe_previous_pepper :: "ustring option"
  pe_key :: signing_key
  pe_previous_key :: "signing_key option"
  pe_address :: ustring
  pe_limit :: "ustring \<Rightarrow> nat \<Rightarrow> bool"
  pe_list :: "(ustring \<Rightarrow> r2_object option) \<Rightarrow> list_call"

subsection \<open>The state of a share\<close>

definition PUBLIC_SHARE_SESSION_MS :: int where "PUBLIC_SHARE_SESSION_MS = 12 * 60 * 60 * 1000"
definition PUBLIC_SHARE_RENEWAL_WINDOW_MS :: int where "PUBLIC_SHARE_RENEWAL_WINDOW_MS = 2 * 60 * 60 * 1000"

datatype share_lifecycle = Share_active | Share_expired | Share_revoked | Project_inactive | Resource_removed

definition classifyPublicShareLifecycle :: "'x share_view_scheme \<Rightarrow> int \<Rightarrow> share_lifecycle" where
  "classifyPublicShareLifecycle row now =
     (if \<not> vw_project_exists row \<or> ps_reason row = Some ''folder_unavailable'' then Resource_removed
      else if ps_reason row = Some ''project_inactive'' \<or> \<not> vw_project_active row then Project_inactive
      else if ps_reason row = Some ''expired'' then Share_expired
      else if ps_revoked row \<noteq> None then Share_revoked
      else case ps_expires row of
        None \<Rightarrow> Share_active
      | Some None \<Rightarrow> Share_expired
      | Some (Some t) \<Rightarrow> if t \<le> now then Share_expired else Share_active)"

fun lifecycle_fault :: "share_lifecycle \<Rightarrow> fault" where
  "lifecycle_fault Share_expired = Http 410 ''This delivery link has expired.''"
| "lifecycle_fault Share_revoked = Http 410 ''This delivery link has been revoked.''"
| "lifecycle_fault Project_inactive = Http 410 ''This delivery project is no longer active.''"
| "lifecycle_fault Resource_removed = Http 410 ''The shared folder was moved or removed.''"
| "lifecycle_fault Share_active = Failed ''''"

definition temporary_fault :: fault where
  "temporary_fault = Http 503 ''This delivery is temporarily unavailable. Please try again.''"

definition invalid_link :: fault where
  "invalid_link = Http 404 ''This delivery link is invalid.''"

definition require_active :: "'x share_view_scheme \<Rightarrow> int \<Rightarrow> fault + unit" where
  "require_active row now =
     (let lifecycle = classifyPublicShareLifecycle row now in
      if lifecycle \<noteq> Share_active then Inl (lifecycle_fault lifecycle) else Inr ())"

definition publicShareSessionExpiresAt :: "int option option \<Rightarrow> int \<Rightarrow> int" where
  "publicShareSessionExpiresAt shareExpiresAt now =
     (case shareExpiresAt of
        Some (Some t) \<Rightarrow> min (now + PUBLIC_SHARE_SESSION_MS) t
      | _ \<Rightarrow> now + PUBLIC_SHARE_SESSION_MS)"

definition shouldRenewPublicShareSession :: "int \<Rightarrow> ustring option \<Rightarrow> ustring \<Rightarrow> int \<Rightarrow> bool" where
  "shouldRenewPublicShareSession sessionExpiresAt cookieKeyId currentKeyId now \<longleftrightarrow>
     cookieKeyId \<noteq> Some currentKeyId \<or> sessionExpiresAt - now \<le> PUBLIC_SHARE_RENEWAL_WINDOW_MS"

subsection \<open>Queries\<close>

definition view_of :: "delivery_project list \<Rightarrow> public_share \<Rightarrow> share_view" where
  "view_of projects s = (let p = find (\<lambda>p. dr_id p = ps_project s) projects in
     public_share.extend s \<lparr>vw_root = (case ps_prefix s of Some r \<Rightarrow> r | None \<Rightarrow> (case p of Some x \<Rightarrow> dr_prefix x | None \<Rightarrow> [])),
       vw_project_exists = p \<noteq> None, vw_project_active = (case p of Some x \<Rightarrow> dr_active x | None \<Rightarrow> False)\<rparr>)"

definition lifecycleShareQuery ::
  "'x delivery_world_scheme services \<Rightarrow> (public_share \<Rightarrow> bool) \<Rightarrow> ('x delivery_world_scheme, share_view option) io" where
  "lifecycleShareQuery sv cond =
     catch_io (await sv (\<lambda>w. (map_option (view_of (dw_projects w)) (find cond (dw_shares w)), w))) (\<lambda>_. raise temporary_fault)"

definition findByRouteAndSecret ::
  "'x delivery_world_scheme services \<Rightarrow> public_env \<Rightarrow> ustring \<Rightarrow> ustring \<Rightarrow> ('x delivery_world_scheme, share_view option) io" where
  "findByRouteAndSecret sv pe routeId secret =
     (if js_length secret < 32 \<or> js_length secret > 128 then ret None
      else
        let token = cr_sha256 (pe_crypto pe) secret in
        if js_length routeId > 30 then lifecycleShareQuery sv (\<lambda>s. ps_token_hash s = token)
        else lifecycleShareQuery sv (\<lambda>s. ps_public s = Some routeId \<and> ps_token_hash s = token))"

definition update_shares ::
  "('x delivery_world_scheme \<Rightarrow> public_share \<Rightarrow> bool) \<Rightarrow> (int \<Rightarrow> public_share \<Rightarrow> public_share) \<Rightarrow>
   'x delivery_world_scheme \<Rightarrow> nat \<times> 'x delivery_world_scheme" where
  "update_shares cond change w =
     (length (filter (cond w) (dw_shares w)),
      w\<lparr>dw_shares := map (\<lambda>s. if cond w s then change (w_now w) s else s) (dw_shares w)\<rparr>)"

definition active_project :: "'x delivery_world_scheme \<Rightarrow> public_share \<Rightarrow> bool" where
  "active_project w s \<longleftrightarrow> list_ex (\<lambda>p. dr_id p = ps_project s \<and> dr_active p) (dw_projects w)"

definition add_event :: "string \<Rightarrow> ustring \<Rightarrow> 'x delivery_world_scheme \<Rightarrow> unit \<times> 'x delivery_world_scheme" where
  "add_event kind sid w = ((), w\<lparr>dw_events := dw_events w @ [(kind, sid)]\<rparr>)"

definition in_background :: "('w, unit) io \<Rightarrow> ('w, unit) io" where
  "in_background m = catch_io m (\<lambda>_. ret ())"

subsection \<open>Folders that are gone\<close>

definition mark_shares_unavailable ::
  "'x delivery_world_scheme services \<Rightarrow> share_view \<Rightarrow> ('x delivery_world_scheme, unit) io" where
  "mark_shares_unavailable sv share =
     (if ps_revoked share \<noteq> None then ret ()
      else
        bind_io (await sv (update_shares
          (\<lambda>w s. ps_id s = ps_id share \<and> ps_revoked s = None \<and>
             (case ps_unavailable s of Some t \<Rightarrow> t \<le> w_now w - 24 * 60 * 60 | None \<Rightarrow> False))
          (\<lambda>now s. s\<lparr>ps_revoked := Some now, ps_reason := Some ''folder_unavailable''\<rparr>))) (\<lambda>revoked.
        if revoked \<noteq> 0 then await sv (send (Audit ''share.auto_revoked'' (ps_id share)))
        else bind_io (await sv (update_shares (\<lambda>w s. ps_id s = ps_id share \<and> ps_revoked s = None \<and> ps_unavailable s = None)
          (\<lambda>now s. s\<lparr>ps_unavailable := Some now\<rparr>))) (\<lambda>_. ret ())))"

definition markUnavailableFolder ::
  "'x delivery_world_scheme services \<Rightarrow> share_view \<Rightarrow> ('x delivery_world_scheme, unit) io" where
  "markUnavailableFolder sv share =
     bind_io (catch_io (mark_shares_unavailable sv share) (\<lambda>_. raise temporary_fault)) (\<lambda>_.
     raise (lifecycle_fault Resource_removed))"

text \<open>\<open>prefixHasBrowsableEntry\<close>, page by page.\<close>

fun browsable_pages ::
  "'x world_scheme services \<Rightarrow> public_env \<Rightarrow> ustring \<Rightarrow> nat \<Rightarrow> ustring option \<Rightarrow> ('x world_scheme, bool) io" where
  "browsable_pages sv pe root 0 cursor = raise (Failed ''fuel'')"
| "browsable_pages sv pe root (Suc n) cursor =
     bind_io (await sv (\<lambda>w. (pe_list pe (w_bucket w) root True cursor, w))) (\<lambda>listed.
     if list_ex (shown_object (pr_lower (sv_paths sv)) root) (pg_objects listed) then ret True
     else if list_ex (\<lambda>p. \<not> isHiddenKey (pr_lower (sv_paths sv)) p) (pg_prefixes listed) then ret True
     else case next_cursor listed of None \<Rightarrow> ret False | Some c \<Rightarrow> browsable_pages sv pe root n (Some c))"

definition share_browsable :: "'x world_scheme services \<Rightarrow> public_env \<Rightarrow> share_view \<Rightarrow> ('x world_scheme, bool) io" where
  "share_browsable sv pe share =
     (if ps_object share \<notin> {None, Some []}
      then bind_io (await sv (r2_head (the (ps_object share)))) (\<lambda>obj. ret (obj \<noteq> None))
      else bind_io (lift (normalizeRoot (pr_lower (sv_paths sv)) (vw_root share))) (\<lambda>root.
        browsable_pages sv pe root (sv_fuel sv) None))"

definition requireAvailableFolder ::
  "'x delivery_world_scheme services \<Rightarrow> public_env \<Rightarrow> share_view \<Rightarrow> ('x delivery_world_scheme, unit) io" where
  "requireAvailableFolder sv pe share =
     bind_io (catch_io (share_browsable sv pe share) (\<lambda>_. raise temporary_fault)) (\<lambda>browsable.
     bind_io (if \<not> browsable then markUnavailableFolder sv share else ret ()) (\<lambda>_.
     if ps_unavailable share = None then ret ()
     else catch_io (bind_io (await sv (update_shares (\<lambda>w s. ps_id s = ps_id share \<and> ps_revoked s = None)
         (\<lambda>now s. s\<lparr>ps_unavailable := None\<rparr>))) (\<lambda>_. ret ())) (\<lambda>_. raise temporary_fault)))"

end
