(* ===== verification/Share_Routes.thy ===== *)
theory Share_Routes
  imports Share_Access
begin

section \<open>Sessions and requests of public shares\<close>

text \<open>
  The session route and the middleware of \<open>apps/client/src/worker/index.ts\<close>: limits, the access code
  with its upgrade to the current pepper, the public identifier of older links, the cookie, and the
  check of the cookie against the row that the database holds now.
\<close>

subsection \<open>Limits\<close>

definition limited :: "'x world_scheme services \<Rightarrow> public_env \<Rightarrow> ustring \<Rightarrow> ('x world_scheme, bool) io" where
  "limited sv pe key = await sv (\<lambda>w. (pe_limit pe key (w_calls w), w))"

definition enforceRateLimit ::
  "'x world_scheme services \<Rightarrow> public_env \<Rightarrow> ustring \<Rightarrow> ustring option \<Rightarrow> ('x world_scheme, unit) io" where
  "enforceRateLimit sv pe scope share =
     bind_io (limited sv pe (scope @ [58] @ first_text share (ustr ''session'') @ [58] @ pe_address pe)) (\<lambda>success.
     if \<not> success then raise (Http 429 ''Too many requests. Please wait and try again.'') else ret ())"

datatype public_limiter = Manifest_limiter | Media_limiter | Thumbnail_limiter | Download_limiter | Stream_limiter | Bulk_limiter

text \<open>The regular expressions split the path at its slashes; \<open>[^/]+\<close> is a part that is not empty.\<close>

definition bulk_tail :: "ustring \<Rightarrow> ustring list option" where
  "bulk_tail path = (case split_on 47 path of
     a # b # c # d # share # e # tail \<Rightarrow>
       if a = [] \<and> b = ustr ''api'' \<and> c = ustr ''public'' \<and> d = ustr ''shares'' \<and> share \<noteq> [] \<and> e = ustr ''bulk-download''
       then Some tail else None
   | _ \<Rightarrow> None)"

definition bulk_file_job :: "ustring \<Rightarrow> ustring option" where
  "bulk_file_job path = (case bulk_tail path of
     Some [job, file] \<Rightarrow> if job \<noteq> [] \<and> file = ustr ''file'' then Some job else None | _ \<Rightarrow> None)"

definition classifyPublicRateLimit :: "ustring \<Rightarrow> ustring \<Rightarrow> public_limiter \<times> ustring" where
  "classifyPublicRateLimit http_method path =
     (let get = http_method = ustr ''GET''; post = http_method = ustr ''POST''; ends = (\<lambda>s. ends_with path (ustr s)) in
      if post \<and> bulk_tail path = Some [] then (Bulk_limiter, ustr ''bulk-create'')
      else if (get \<or> http_method = ustr ''HEAD'') \<and> bulk_file_job path \<noteq> None then (Download_limiter, ustr ''bulk-file'')
      else if get \<and> (case bulk_tail path of Some [job] \<Rightarrow> job \<noteq> [] | _ \<Rightarrow> False) then (Manifest_limiter, ustr ''bulk-status'')
      else if get \<and> ends ''/download-summary'' then (Manifest_limiter, ustr ''download-summary'')
      else if get \<and> ends ''/locations'' then (Manifest_limiter, ustr ''locations'')
      else if post \<and> ends ''/manifest/media'' then (Manifest_limiter, ustr ''manifest-media'')
      else if ends ''/manifest'' then (Manifest_limiter, ustr ''manifest'')
      else if ends ''/thumbnail'' then (Thumbnail_limiter, ustr ''thumbnail'')
      else if ends ''/stream-ticket'' then (Stream_limiter, ustr ''stream'')
      else if ends ''/download'' \<or> ends ''/download-ticket'' then (Download_limiter, ustr ''download'')
      else (Media_limiter, ustr ''media''))"

subsection \<open>The public identifier\<close>

definition gone_link :: fault where
  "gone_link = Http 404 ''This delivery link is invalid, expired, or revoked''"

definition current_identity ::
  "'x delivery_world_scheme services \<Rightarrow> share_view \<Rightarrow> ('x delivery_world_scheme, (ustring option \<times> int) option) io" where
  "current_identity sv share = await sv (\<lambda>w.
     (map_option (\<lambda>s. (ps_public s, ps_version s)) (find (\<lambda>s. ps_id s = ps_id share \<and> ps_token_hash s = ps_token_hash share \<and>
        ps_revoked s = None \<and> active_project w s) (dw_shares w)), w))"

fun upgrade_attempts ::
  "'x delivery_world_scheme services \<Rightarrow> share_view \<Rightarrow> nat \<Rightarrow> int \<Rightarrow> ('x delivery_world_scheme, ustring \<times> int) io" where
  "upgrade_attempts sv share 0 expected = raise (Http 503 ''Delivery link could not be upgraded'')"
| "upgrade_attempts sv share (Suc n) expected =
     bind_io (fresh sv) (\<lambda>publicId.
     bind_io (await sv (update_shares
         (\<lambda>w s. ps_id s = ps_id share \<and> ps_token_hash s = ps_token_hash share \<and> ps_public s = None \<and> ps_version s = expected \<and>
            ps_revoked s = None \<and> active_project w s)
         (\<lambda>now s. s\<lparr>ps_public := Some publicId, ps_version := ps_version s + 1\<rparr>))) (\<lambda>changes.
     if changes \<noteq> 0 then ret (publicId, expected + 1)
     else bind_io (current_identity sv share) (\<lambda>current.
       case current of
         None \<Rightarrow> raise gone_link
       | Some (p, version) \<Rightarrow>
           if p \<notin> {None, Some []} then ret (the p, version) else upgrade_attempts sv share n version)))"

definition ensurePublicId ::
  "'x delivery_world_scheme services \<Rightarrow> share_view \<Rightarrow> ('x delivery_world_scheme, ustring \<times> int) io" where
  "ensurePublicId sv share =
     (if ps_public share \<notin> {None, Some []} then
        bind_io (current_identity sv share) (\<lambda>current.
        case current of
          Some (p, version) \<Rightarrow> if p \<notin> {None, Some []} then ret (the p, version) else raise gone_link
        | None \<Rightarrow> raise gone_link)
      else upgrade_attempts sv share 3 (ps_version share))"

subsection \<open>The access code\<close>

definition protected :: "'x public_share_scheme \<Rightarrow> bool" where
  "protected share \<longleftrightarrow> ps_hash share \<notin> {None, Some []} \<and> ps_salt share \<notin> {None, Some []} \<and> ps_iterations share \<notin> {None, Some 0}"

definition code_accepted :: "public_env \<Rightarrow> 'x public_share_scheme \<Rightarrow> ustring \<Rightarrow> ustring option \<Rightarrow> fault + bool" where
  "code_accepted pe share code pepper = verifyAccessCode (pe_crypto pe) code (the (ps_hash share)) (the (ps_salt share))
     (the (ps_iterations share)) (ps_algorithm share) pepper"

definition same_credentials :: "'x public_share_scheme \<Rightarrow> 'y public_share_scheme \<Rightarrow> bool" where
  "same_credentials a b \<longleftrightarrow> ps_version a = ps_version b \<and> ps_hash a = ps_hash b \<and> ps_salt a = ps_salt b \<and>
     ps_iterations a = ps_iterations b \<and> ps_algorithm a = ps_algorithm b"

definition present :: "ustring option \<Rightarrow> bool" where
  "present v \<longleftrightarrow> v \<noteq> None \<and> v \<noteq> Some []"

text \<open>The code matched under the previous pepper: it is stored again under the current one.\<close>

definition upgrade_code ::
  "'x delivery_world_scheme services \<Rightarrow> public_env \<Rightarrow> share_view \<Rightarrow> ustring \<Rightarrow> ('x delivery_world_scheme, share_view) io" where
  "upgrade_code sv pe share code =
     bind_io (fresh sv) (\<lambda>nextSalt.
     bind_io (lift (hmac (pe_crypto pe) (case pe_pepper pe of Some k \<Rightarrow> k | None \<Rightarrow> []) (access_code_message nextSalt code))) (\<lambda>nextHash.
     let change = (\<lambda>s. s\<lparr>ps_hash := Some nextHash, ps_salt := Some nextSalt, ps_iterations := Some 1,
           ps_algorithm := Some (ustr ''hmac-sha256-v1''), ps_version := ps_version s + 1\<rparr>) in
     bind_io (await sv (update_shares (\<lambda>w s. ps_id s = ps_id share \<and> ps_hash s = ps_hash share \<and> ps_version s = ps_version share \<and>
         ps_revoked s = None) (\<lambda>now. change))) (\<lambda>changes.
     ret (if changes \<noteq> 0 then share\<lparr>ps_hash := Some nextHash, ps_salt := Some nextSalt, ps_iterations := Some 1,
           ps_algorithm := Some (ustr ''hmac-sha256-v1''), ps_version := ps_version share + 1\<rparr> else share))))"

definition check_code ::
  "'x delivery_world_scheme services \<Rightarrow> public_env \<Rightarrow> share_view \<Rightarrow> ustring \<Rightarrow> ('x delivery_world_scheme, share_view option) io" where
  "check_code sv pe share code =
     bind_io (lift (code_accepted pe share code (pe_pepper pe))) (\<lambda>valid.
     if valid then ret (Some share)
     else if \<not> present (pe_previous_pepper pe) then ret None
     else
       bind_io (lift (code_accepted pe share code (pe_previous_pepper pe))) (\<lambda>validBefore.
       if \<not> validBefore then ret None else bind_io (upgrade_code sv pe share code) (\<lambda>next. ret (Some next))))"

subsection \<open>The session route\<close>

datatype session_answer = Code_required | Code_invalid | Session_opened ustring ustring

definition stale_credentials :: fault where
  "stale_credentials = Http 401 ''The delivery credentials changed. Open the current link and try again.''"

text \<open>The code is bound to the row: it is read again and must be the one that the code was checked against.\<close>

definition confirm_row ::
  "'x delivery_world_scheme services \<Rightarrow> share_view \<Rightarrow> ('x delivery_world_scheme, share_view) io" where
  "confirm_row sv share =
     bind_io (lifecycleShareQuery sv (\<lambda>s. ps_id s = ps_id share \<and> ps_token_hash s = ps_token_hash share)) (\<lambda>current.
     case current of
       None \<Rightarrow> raise stale_credentials
     | Some row \<Rightarrow>
         if \<not> same_credentials row share then raise stale_credentials
         else bind_io js_now (\<lambda>now. bind_io (lift (require_active row now)) (\<lambda>_. ret row)))"

definition unlock ::
  "'x delivery_world_scheme services \<Rightarrow> public_env \<Rightarrow> share_view \<Rightarrow> ustring option \<Rightarrow>
   ('x delivery_world_scheme, session_answer + share_view) io" where
  "unlock sv pe share accessCode =
     (if \<not> protected share then ret (Inr share)
      else if \<not> present accessCode then ret (Inl Code_required)
      else
        bind_io (limited sv pe (ps_id share @ [58] @ pe_address pe)) (\<lambda>shareLimit.
        bind_io (limited sv pe (ustr ''client:'' @ pe_address pe)) (\<lambda>clientLimit.
        if \<not> shareLimit \<or> \<not> clientLimit then raise (Http 429 ''Too many attempts. Please wait before trying again.'')
        else
          bind_io (check_code sv pe share (the accessCode)) (\<lambda>checked.
          case checked of
            None \<Rightarrow> bind_io (in_background (await sv (add_event ''unlock.failed'' (ps_id share)))) (\<lambda>_. ret (Inl Code_invalid))
          | Some row \<Rightarrow> bind_io (confirm_row sv row) (\<lambda>row. ret (Inr row))))))"

definition http_fault :: "fault \<Rightarrow> bool" where
  "http_fault f = (case f of Http s m \<Rightarrow> True | Failed m \<Rightarrow> False)"

definition issue_session ::
  "'x delivery_world_scheme services \<Rightarrow> public_env \<Rightarrow> share_view \<Rightarrow> ('x delivery_world_scheme, session_answer) io" where
  "issue_session sv pe share =
     bind_io (catch_io (ensurePublicId sv share) (\<lambda>f. if http_fault f then raise f else raise temporary_fault)) (\<lambda>(publicId, version).
     bind_io js_now (\<lambda>now.
     bind_io (lift (createSessionCookie (pe_crypto pe) (sk_secret (pe_key pe)) (sk_keyId (pe_key pe)) (ps_id share) version
         (publicShareSessionExpiresAt (ps_expires share) now) now)) (\<lambda>cookie.
     bind_io (in_background (await sv (add_event ''session.created'' (ps_id share)))) (\<lambda>_.
     ret (Session_opened cookie publicId)))))"

definition public_session_route ::
  "'x delivery_world_scheme services \<Rightarrow> public_env \<Rightarrow> ustring \<Rightarrow> ustring option \<Rightarrow> ustring option \<Rightarrow>
   ('x delivery_world_scheme, session_answer) io" where
  "public_session_route sv pe routeId secret accessCode =
     bind_io (enforceRateLimit sv pe (ustr ''session'') None) (\<lambda>_.
     let candidateSecret = first_text secret (if js_length routeId > 30 then routeId else []) in
     bind_io (if candidateSecret \<noteq> [] then findByRouteAndSecret sv pe routeId candidateSecret else ret None) (\<lambda>found.
     case found of
       None \<Rightarrow> raise invalid_link
     | Some share \<Rightarrow>
         bind_io js_now (\<lambda>now.
         bind_io (lift (require_active share now)) (\<lambda>_.
         bind_io (requireAvailableFolder sv pe share) (\<lambda>_.
         bind_io (unlock sv pe share accessCode) (\<lambda>unlocked.
         case unlocked of Inl answer \<Rightarrow> ret answer | Inr row \<Rightarrow> issue_session sv pe row))))))"

subsection \<open>Requests\<close>

definition request_session ::
  "public_env \<Rightarrow> ustring option \<Rightarrow> ustring option \<Rightarrow> ustring option \<Rightarrow> int \<Rightarrow> fault + delivery_session \<times> bool" where
  "request_session pe sessionCookie resumeCookie resumeJob now =
     (let cr = pe_crypto pe;
          session = rbind (verifyRotatingSessionCookie cr sessionCookie (pe_key pe) (pe_previous_key pe) now) (\<lambda>s. Inr (s, False)) in
      if resumeJob \<noteq> None \<and> present resumeCookie then
        (case rbind (verifyRotatingBulkDownloadResumeCookie cr resumeCookie (pe_key pe) (pe_previous_key pe) now) (\<lambda>r.
            if Some (rs_jobId r) \<noteq> resumeJob then Inl (Http 401 ''Invalid download resume authorization'')
            else Inr (delivery_session.truncate r, True)) of
           Inr r \<Rightarrow> Inr r
         | Inl f \<Rightarrow> if \<not> present sessionCookie then Inl f else session)
      else session)"

definition authorize_request ::
  "'x delivery_world_scheme services \<Rightarrow> public_env \<Rightarrow> ustring option \<Rightarrow> ustring \<Rightarrow> ustring \<Rightarrow> ustring \<Rightarrow>
   ('x delivery_world_scheme, share_view \<times> delivery_session \<times> bool) io" where
  "authorize_request sv pe header publicId http_method path =
     bind_io js_now (\<lambda>now.
     bind_io (lift (parseCookie header COOKIE_NAME)) (\<lambda>sessionCookie.
     let resumeJob = (if http_method = ustr ''GET'' \<or> http_method = ustr ''HEAD'' then bulk_file_job path else None) in
     bind_io (lift (if resumeJob \<noteq> None then parseCookie header BULK_DOWNLOAD_RESUME_COOKIE else Inr None)) (\<lambda>resumeCookie.
     bind_io (lift (request_session pe sessionCookie resumeCookie resumeJob now)) (\<lambda>(session, usedResume).
     bind_io (lifecycleShareQuery sv (\<lambda>s. ps_id s = ds_shareId session \<and> ps_public s = Some publicId)) (\<lambda>found.
     case found of
       None \<Rightarrow>
         bind_io (lifecycleShareQuery sv (\<lambda>s. ps_id s = ds_shareId session)) (\<lambda>existing.
         raise (if existing \<noteq> None then invalid_link else lifecycle_fault Resource_removed))
     | Some share \<Rightarrow>
         bind_io js_now (\<lambda>now.
         bind_io (lift (require_active share now)) (\<lambda>_.
         if ps_version share \<noteq> ds_shareVersion session then raise (Http 401 ''This delivery session is stale.'')
         else
           bind_io (enforceRateLimit sv pe (snd (classifyPublicRateLimit http_method path)) (Some (ps_id share))) (\<lambda>_.
           ret (share, session, usedResume)))))))))"

text \<open>The middleware around a handler: the cookie is renewed near its end or under a new key.\<close>

definition public_request ::
  "'x delivery_world_scheme services \<Rightarrow> public_env \<Rightarrow> ustring option \<Rightarrow> ustring \<Rightarrow> ustring \<Rightarrow> ustring \<Rightarrow>
   (share_view \<Rightarrow> ('x delivery_world_scheme, 'a) io) \<Rightarrow> ('x delivery_world_scheme, 'a \<times> ustring option) io" where
  "public_request sv pe header publicId http_method path handler =
     bind_io (authorize_request sv pe header publicId http_method path) (\<lambda>(share, session, usedResume).
     bind_io (handler share) (\<lambda>answer.
     bind_io js_now (\<lambda>now.
     let keyId = (case parseCookie header COOKIE_NAME of Inr (Some v) \<Rightarrow> (let k = hd (split_on 46 v) in if k = [] then None else Some k) | _ \<Rightarrow> None) in
     if \<not> usedResume \<and> shouldRenewPublicShareSession (ds_expiresAt session) keyId (sk_keyId (pe_key pe)) now
     then bind_io (lift (createSessionCookie (pe_crypto pe) (sk_secret (pe_key pe)) (sk_keyId (pe_key pe)) (ps_id share)
         (ps_version share) (publicShareSessionExpiresAt (ps_expires share) now) now)) (\<lambda>cookie. ret (answer, Some cookie))
     else ret (answer, None))))"

text \<open>An item of the share.\<close>

definition keyWithinShare :: "(ustring \<Rightarrow> ustring) \<Rightarrow> share_view \<Rightarrow> ustring \<Rightarrow> fault + ustring" where
  "keyWithinShare lower share itemRef =
     rbind (decodeItemRef lower itemRef) (\<lambda>relative.
     rbind (keyWithinRoot lower (vw_root share) relative) (\<lambda>key.
     if ps_object share \<notin> {None, Some []} \<and> Some key \<noteq> ps_object share then Inl (Http 404 ''File not found'') else Inr key))"

end
