(* ===== verification/Source_Delete.thy ===== *)
theory Source_Delete
  imports Trash
begin

section \<open>Deleting an item\<close>

text \<open>
  \<open>apps/operations/src/worker/source-delete.ts\<close> and the routes that use it: what an item holds, the
  confirmation by its name, the tombstone with its manifest, and the shares under the item. The shares
  are \<open>sw_shares\<close> with their projects, as in the storage handlers.
\<close>

record delete_target =
  tg_key :: ustring
  tg_folder :: bool
  tg_objects :: "TrashObjectIdentity list"

record DeletePreview =
  dp_key :: ustring
  dp_folder :: bool
  dp_typedName :: ustring
  dp_objectCount :: nat
  dp_byteCount :: int
  dp_shareCount :: nat

definition validateDeleteConfirmation :: "loose \<Rightarrow> ustring \<Rightarrow> fault + unit" where
  "validateDeleteConfirmation confirmation typedName =
     (if confirmation = Text typedName then Inr ()
      else Inl (Http 400 ''Type the name exactly to confirm deletion''))"

definition resolveTarget ::
  "'x trash_world_scheme services \<Rightarrow> ustring \<Rightarrow> ('x trash_world_scheme, delete_target) io" where
  "resolveTarget sv itemRef =
     (let lower = pr_lower (sv_paths sv) in
      bind_io (lift (decodeRef lower itemRef)) (\<lambda>decoded.
      bind_io (lift (if ends_with decoded [47] then normalizePrefix lower decoded else Inr decoded)) (\<lambda>key.
      bind_io (assertNotTrashed sv key) (\<lambda>_.
      bind_io (listObjects sv key True Source_object) (\<lambda>exact.
      if exact \<noteq> [] then ret \<lparr>tg_key = key, tg_folder = False, tg_objects = exact\<rparr>
      else bind_io (listObjects sv (prefixFor key) False Source_object) (\<lambda>objects.
        if objects = [] then raise (Http 404 ''Source file or folder not found'')
        else ret \<lparr>tg_key = prefixFor key, tg_folder = True, tg_objects = objects\<rparr>))))))"

definition previewSourceDelete ::
  "'x trash_world_scheme services \<Rightarrow> ustring \<Rightarrow> ('x trash_world_scheme, DeletePreview) io" where
  "previewSourceDelete sv itemRef =
     bind_io (resolveTarget sv itemRef) (\<lambda>target.
     bind_io (await sv (\<lambda>w. (length (impacted (tg_key target) w), w))) (\<lambda>shares.
     ret \<lparr>dp_key = tg_key target, dp_folder = tg_folder target, dp_typedName = typed_name (tg_key target),
          dp_objectCount = length (tg_objects target), dp_byteCount = sum_list (map ti_size (tg_objects target)),
          dp_shareCount = shares\<rparr>))"

subsection \<open>The manifest and the shares\<close>

definition delete_manifest ::
  "'x trash_world_scheme services \<Rightarrow> ustring \<Rightarrow> bool \<Rightarrow> TrashObjectIdentity list \<Rightarrow>
   ('x trash_world_scheme, TrashObjectIdentity list) io" where
  "delete_manifest sv key isFolder objects =
     bind_io (artifact_prefixes sv key (if isFolder then key else key @ [47]) isFolder) (\<lambda>prefixes.
     add_derived sv prefixes (fold put_identity objects []))"

definition revoke_deleted :: "ustring \<Rightarrow> 'x trash_world_scheme \<Rightarrow> 'x trash_world_scheme" where
  "revoke_deleted sid w = w\<lparr>sw_shares := map (\<lambda>s. if sh_id s = sid \<and> sh_revoked s = None
     then s\<lparr>sh_revoked := Some (w_now w, ''staff_deleted_source''), sh_version := sh_version s + 1\<rparr> else s) (sw_shares w),
     w_outbox := w_outbox w @ [Audit ''share.auto_revoked'' sid]\<rparr>"

text \<open>\<open>notificationStatement\<close> of \<open>notifications.ts\<close> for this kind: nothing without an address.\<close>

definition notify_revoked :: "ustring \<Rightarrow> 'x trash_world_scheme \<Rightarrow> 'x trash_world_scheme" where
  "notify_revoked sid w = (case tw_recipients w sid of
     None \<Rightarrow> w
   | Some address \<Rightarrow>
       if address = [] \<or> list_ex (\<lambda>(kind, share, a). kind = ''share_revoked'' \<and> share = sid) (tw_notifications w) then w
       else w\<lparr>tw_notifications := tw_notifications w @ [(''share_revoked'', sid, address)]\<rparr>)"

text \<open>The batch with three statements for each share, if there is any.\<close>

definition revoke_affected ::
  "'x trash_world_scheme services \<Rightarrow> ustring \<Rightarrow> ustring list \<Rightarrow> ('x trash_world_scheme, unit) io" where
  "revoke_affected sv tid shares =
     catch_io
       (if shares = [] then ret ()
        else await sv (\<lambda>w. ((), fold (\<lambda>sid w. notify_revoked sid (revoke_deleted sid w)) shares w)))
       (\<lambda>f. bind_io (await sv (delete_tombstone (\<lambda>_. True) tid)) (\<lambda>_. raise f))"

definition executeSourceDelete ::
  "'x trash_world_scheme services \<Rightarrow> StaffPrincipal \<Rightarrow> ustring \<Rightarrow> loose \<Rightarrow> ('x trash_world_scheme, DeletePreview) io" where
  "executeSourceDelete sv p itemRef confirmation =
     bind_io (previewSourceDelete sv itemRef) (\<lambda>preview.
     bind_io (lift (validateDeleteConfirmation confirmation (dp_typedName preview))) (\<lambda>_.
     bind_io (resolveTarget sv itemRef) (\<lambda>target.
     if tg_key target \<noteq> dp_key preview \<or> tg_folder target \<noteq> dp_folder preview
     then raise (Http 409 ''The source changed while deletion was being confirmed; review it and try again'')
     else
       bind_io (await sv (\<lambda>w. (map fst (impacted (dp_key preview) w), w))) (\<lambda>affected.
       bind_io (delete_manifest sv (dp_key preview) (dp_folder preview) (tg_objects target)) (\<lambda>objects.
       bind_io (createTombstone sv p (dp_key preview) (dp_folder preview) objects) (\<lambda>tombstone.
       bind_io (await sv (send (if dp_folder preview then Remove_thumbnails (dp_key preview)
           else Remove_thumbnail (dp_key preview) None))) (\<lambda>_.
       bind_io (revoke_affected sv (tb_id tombstone) affected) (\<lambda>_.
       bind_io (await sv (send (Audit ''delivery.source_deleted'' (dp_key preview)))) (\<lambda>_.
       ret (preview\<lparr>dp_key := tb_key tombstone\<rparr>))))))))))"

subsection \<open>Routes\<close>

text \<open>\<open>requireGlobal\<close> of \<open>index.ts\<close>: an allow everywhere and no deny everywhere.\<close>

definition requireGlobal ::
  "'x world_scheme services \<Rightarrow> ('x world_scheme \<Rightarrow> acl_tables) \<Rightarrow> StaffPrincipal \<Rightarrow> string \<Rightarrow> ('x world_scheme, unit) io" where
  "requireGlobal sv tables p permission =
     bind_io (await sv (\<lambda>w. (sqlScope (tables w) p permission, w))) (\<lambda>scope.
     if \<not> ss_global scope \<or> ss_deniedGlobal scope
     then raise (Http 403 (''Global '' @ permission @ '' permission required'')) else ret ())"

definition trash_list_route ::
  "'x trash_world_scheme services \<Rightarrow> ('x trash_world_scheme \<Rightarrow> acl_tables) \<Rightarrow> StaffPrincipal \<Rightarrow>
   ('x trash_world_scheme, (tombstone_row \<times> ustring) list) io" where
  "trash_list_route sv tables p = bind_io (requireGlobal sv tables p ''delivery.delete'') (\<lambda>_. listTrash sv)"

definition trash_restore_route ::
  "'x trash_world_scheme services \<Rightarrow> ('x trash_world_scheme \<Rightarrow> acl_tables) \<Rightarrow> StaffPrincipal \<Rightarrow> ustring \<Rightarrow>
   ('x trash_world_scheme, unit) io" where
  "trash_restore_route sv tables p tid =
     bind_io (requireGlobal sv tables p ''delivery.delete'') (\<lambda>_. restoreTombstone sv p tid)"

text \<open>The restore route of the storage handlers, with the check that precedes it.\<close>

definition fs_restore_route ::
  "'x trash_world_scheme services \<Rightarrow> 'x trash_world_scheme permit \<Rightarrow> StaffPrincipal \<Rightarrow> ustring \<Rightarrow>
   ('x trash_world_scheme, unit) io" where
  "fs_restore_route sv permit p tid =
     bind_io (await sv (\<lambda>w. (find (\<lambda>t. tb_id t = tid \<and> tb_restored t = None) (tw_tombstones w), w))) (\<lambda>found.
     case found of
       None \<Rightarrow> raise (Http 404 ''Trash item not found or already restored'')
     | Some t \<Rightarrow>
         bind_io (requireCrudPermission sv permit ''delivery.files.restore'' (tb_key t)) (\<lambda>_.
         bind_io (permit ''delivery.files.restore'' None) (\<lambda>_. restoreTombstone sv p tid)))"

definition confirmation_or :: "loose \<Rightarrow> ustring \<Rightarrow> loose" where
  "confirmation_or confirmation name = (if confirmation \<in> {Absent, Text []} then Text name else confirmation)"

definition delete_item_route ::
  "'x trash_world_scheme services \<Rightarrow> 'x trash_world_scheme permit \<Rightarrow> StaffPrincipal \<Rightarrow> bool \<Rightarrow> ustring \<Rightarrow> loose \<Rightarrow>
   ('x trash_world_scheme, DeletePreview) io" where
  "delete_item_route sv permit p administrator itemRef confirmation =
     bind_io (lift (decodeRef (pr_lower (sv_paths sv)) itemRef)) (\<lambda>decoded.
     let folder = ends_with decoded [47] in
     bind_io (lift (if administrator then normalizeAdministratorDeleteKey (sv_paths sv) (Some decoded) folder
        else normalizeCrudKey (sv_paths sv) (Some decoded) folder)) (\<lambda>key.
     bind_io (requireCrudPermission sv permit ''delivery.delete'' key) (\<lambda>_.
     bind_io (executeSourceDelete sv p itemRef (confirmation_or confirmation (leaf key))) (\<lambda>result.
     bind_io (await sv (send (Audit ''delivery.r2.delete.queued'' key))) (\<lambda>_. ret result)))))"

text \<open>The route that creates a folder; the descriptor is the JSON text of the caller.\<close>

definition create_folder_route ::
  "'x world_scheme services \<Rightarrow> 'x world_scheme permit \<Rightarrow> ustring option \<Rightarrow> byte list \<Rightarrow> ('x world_scheme, ustring \<times> ustring) io" where
  "create_folder_route sv permit requested descriptor =
     bind_io (lift (normalizeCrudKey (sv_paths sv) requested True)) (\<lambda>key.
     bind_io (requireCrudPermission sv permit ''delivery.files.create'' key) (\<lambda>_.
     bind_io (await sv (r2_head key)) (\<lambda>folderHead.
     bind_io (prefixObjectState sv key) (\<lambda>(visible, markers).
     if (case folderHead of Some x \<Rightarrow> \<not> moved_marker x | None \<Rightarrow> False) \<or> visible
     then raise (Http 409 ''The folder already exists'')
     else
       bind_io (await sv (r2_put sv (key @ ustr ''_ltds/folder.json'') descriptor Unconditional
           [(ustr ''contentType'', ustr ''application/json'')] [])) (\<lambda>_.
       bind_io (await sv (send (Audit ''delivery.folder.created'' key))) (\<lambda>_. ret (key, encodeRef key)))))))"

end
