(* ===== verification/Trash_Safety.thy ===== *)
theory Trash_Safety
  imports Source_Delete R2_Frames
begin

section \<open>What a purge may delete\<close>

text \<open>
  An object that no manifest lists with its identity, or only manifests of tombstones that were restored
  or are still within their retention, is in the bucket after every run of the purge, whatever the other
  actors do that leaves it such an object, and whichever calls fail.
\<close>

subsection \<open>Invariants with results\<close>

text \<open>The statement \<open>P\<close> holds after \<open>m\<close>, whatever its outcome, and a value has the property \<open>Q\<close>.\<close>

definition supports :: "('w \<Rightarrow> bool) \<Rightarrow> ('w, 'a) io \<Rightarrow> ('a \<Rightarrow> bool) \<Rightarrow> bool" where
  "supports P m Q \<longleftrightarrow> (\<forall>w. P w \<longrightarrow> P (snd (m w)) \<and> (\<forall>x. fst (m w) = Inr x \<longrightarrow> Q x))"

lemma supportsD: "supports P m Q \<Longrightarrow> P w \<Longrightarrow> m w = (r, w') \<Longrightarrow> P w' \<and> (\<forall>x. r = Inr x \<longrightarrow> Q x)"
  unfolding supports_def by (metis fst_conv snd_conv)

lemma supports_ret: "Q x \<Longrightarrow> supports P (ret x) Q"
  by (simp add: supports_def ret_def)

lemma supports_raise: "supports P (raise f) Q"
  by (simp add: supports_def raise_def)

lemma supports_lift: "(\<And>x. r = Inr x \<Longrightarrow> Q x) \<Longrightarrow> supports P (lift r) Q"
  by (simp add: supports_def lift_def)

lemma supports_bind:
  assumes m: "supports P m Q" and k: "\<And>x. Q x \<Longrightarrow> supports P (k x) R"
  shows "supports P (bind_io m k) R"
  unfolding supports_def
proof (intro allI impI)
  fix w assume P: "P w"
  obtain r w1 where r: "m w = (r, w1)" by (cases "m w")
  with supportsD [OF m P r] show "P (snd (bind_io m k w)) \<and> (\<forall>x. fst (bind_io m k w) = Inr x \<longrightarrow> R x)"
    using k by (cases r) (auto simp: bind_io_def supports_def)
qed

lemma supports_catch:
  assumes m: "supports P m Q" and h: "\<And>f. supports P (h f) Q"
  shows "supports P (catch_io m h) Q"
  unfolding supports_def
proof (intro allI impI)
  fix w assume P: "P w"
  obtain r w1 where r: "m w = (r, w1)" by (cases "m w")
  with supportsD [OF m P r] show "P (snd (catch_io m h w)) \<and> (\<forall>x. fst (catch_io m h w) = Inr x \<longrightarrow> Q x)"
    using h by (cases r) (auto simp: catch_io_def supports_def)
qed

lemma supports_weaken: "supports P m Q \<Longrightarrow> (\<And>x. Q x \<Longrightarrow> R x) \<Longrightarrow> supports P m R"
  unfolding supports_def by blast

lemma supports_for_each: "(\<And>x. x \<in> set xs \<Longrightarrow> supports P (body x) (\<lambda>_. True)) \<Longrightarrow> supports P (for_each xs body) (\<lambda>_. True)"
  by (induction xs) (auto intro!: supports_ret supports_bind)

lemma supports_keeps: "supports P m Q \<Longrightarrow> keeps P m"
  unfolding supports_def keeps_def by blast

locale watched =
  fixes P :: "'x world_scheme \<Rightarrow> bool"
  assumes on_counter: "P w \<Longrightarrow> P (w\<lparr>w_calls := n\<rparr>)"
    and on_sent: "P w \<Longrightarrow> P (w\<lparr>w_outbox := e\<rparr>)"
    and on_identifier: "P w \<Longrightarrow> P (w\<lparr>w_minted := n\<rparr>)"
begin

lemma await:
  assumes "turns_keep sv P" and "\<And>w. P w \<Longrightarrow> P (snd (call w)) \<and> Q (fst (call w))"
  shows "supports P (await sv call) Q"
  unfolding supports_def
proof (intro allI impI)
  fix w assume "P w"
  hence "P (tick sv w)" using assms(1) by (simp add: tick_def turns_keep_def on_counter)
  thus "P (snd (await sv call w)) \<and> (\<forall>x. fst (await sv call w) = Inr x \<longrightarrow> Q x)"
    using assms(2) by (simp add: await_cases split: outcome.split)
qed

lemma reading: "turns_keep sv P \<Longrightarrow> (\<And>w. snd (call w) = w) \<Longrightarrow> supports P (await sv call) (\<lambda>_. True)"
  by (rule await) simp_all

lemma sending: "turns_keep sv P \<Longrightarrow> supports P (await sv (send e)) (\<lambda>_. True)"
  by (rule await) (simp_all add: send_def on_sent)

lemma minting: "supports P (fresh sv) (\<lambda>_. True)"
  by (simp add: supports_def fresh_def on_identifier)

lemma pages: "turns_keep sv P \<Longrightarrow> supports P (listed_pages sv keep prefix n cursor objects) (\<lambda>_. True)"
proof (induction n arbitrary: cursor objects)
  case 0
  then show ?case by (simp add: supports_raise)
next
  case (Suc n)
  then show ?case
    by (auto simp: Let_def r2_list_def intro!: supports_bind [OF reading] supports_ret split: option.split)
qed

lemma listing: "turns_keep sv P \<Longrightarrow> supports P (listObjects sv prefix exact relation) (\<lambda>_. True)"
  by (auto simp: listObjects_def r2_head_def intro!: supports_bind [OF reading] supports_bind [OF pages] supports_ret)

lemma derived: "turns_keep sv P \<Longrightarrow> supports P (add_derived sv prefixes objects) (\<lambda>_. True)"
  by (induction prefixes arbitrary: objects) (auto intro!: supports_bind [OF listing] supports_ret)

lemma thumbnails: "turns_keep sv P \<Longrightarrow> supports P (enqueueThumbnailsForPath sv key b) (\<lambda>_. True)"
  unfolding enqueueThumbnailsForPath_def
  by (auto simp: r2_head_def intro!: supports_bind [where Q = "\<lambda>_. True"] reading pages supports_ret supports_for_each sending)

end

sublocale bystander \<subseteq> watched
  by unfold_locales (auto intro: on_calls on_outbox on_minted)

subsection \<open>Objects that no purge may touch\<close>

definition same_identity :: "r2_object \<Rightarrow> ustring \<Rightarrow> 'x TrashObjectIdentity_scheme \<Rightarrow> bool" where
  "same_identity obj key r \<longleftrightarrow> ti_key r = key \<and> ti_etag r = r2_etag obj \<and> ti_size r = int (length (r2_body obj))"

text \<open>
  The object is at the key; the manifests that list it are those of tombstones in \<open>K\<close>; and each of these
  is restored or stays within its retention up to the second \<open>T\<close>, which has not come.
\<close>

definition spared :: "ustring \<Rightarrow> r2_object \<Rightarrow> ustring set \<Rightarrow> int \<Rightarrow> 'x trash_world_scheme \<Rightarrow> bool" where
  "spared key obj K T w \<longleftrightarrow> w_now w < T \<and> w_bucket w key = Some obj \<and>
     (\<forall>r \<in> set (tw_objects w). same_identity obj key r \<longrightarrow> tr_tombstone r \<in> K) \<and>
     (\<forall>t \<in> set (tw_tombstones w). tb_id t \<in> K \<longrightarrow>
        tb_restored t \<noteq> None \<or> (\<forall>p. tb_purge_after t = Some p \<longrightarrow> T \<le> p div 1000))"

lemma spared_frames [simp]:
  "spared key obj K T (w\<lparr>w_calls := n\<rparr>) = spared key obj K T w"
  "spared key obj K T (w\<lparr>w_outbox := e\<rparr>) = spared key obj K T w"
  "spared key obj K T (w\<lparr>w_minted := n\<rparr>) = spared key obj K T w"
  by (simp_all add: spared_def)

interpretation spared: watched "spared key obj K T :: 'x trash_world_scheme \<Rightarrow> bool" for key obj K T
  by unfold_locales simp_all

lemma spared_update:
  assumes "spared key obj K T w"
    and "\<And>t. t \<in> set (tw_tombstones w) \<Longrightarrow> cond (w_now w) t \<Longrightarrow>
      tb_id (change (w_now w) t) = tb_id t \<and> tb_purge_after (change (w_now w) t) = tb_purge_after t \<and>
      (tb_restored t \<noteq> None \<longrightarrow> tb_restored (change (w_now w) t) \<noteq> None)"
  shows "spared key obj K T (snd (update_tombstones cond change w))"
  using assms unfolding spared_def update_tombstones_def by (auto split: if_splits)

lemma claimed_not_spared:
  assumes "spared key obj K T w"
    and "fst (update_tombstones (\<lambda>now r. tb_id r = tid \<and> purge_claimable now r) change w) \<noteq> 0"
  shows "tid \<notin> K"
proof
  assume K: "tid \<in> K"
  from assms(2) obtain t where t: "t \<in> set (tw_tombstones w)" "tb_id t = tid" "purge_claimable (w_now w) t"
    by (auto simp: update_tombstones_def filter_empty_conv)
  then obtain p where "tb_restored t = None" "tb_purge_after t = Some p" "p div 1000 \<le> w_now w"
    by (auto simp: purge_claimable_def split: option.splits)
  moreover have "tb_restored t \<noteq> None \<or> (\<forall>p. tb_purge_after t = Some p \<longrightarrow> T \<le> p div 1000)" "w_now w < T"
    using assms(1) t K by (auto simp: spared_def)
  ultimately show False by auto
qed

lemma spared_delete_tombstone: "spared key obj K T w \<Longrightarrow> spared key obj K T (snd (delete_tombstone c tid w))"
  by (auto simp: spared_def delete_tombstone_def Let_def)

lemma spared_forget: "spared key obj K T w \<Longrightarrow> spared key obj K T (snd (forget_path tid physicalKey prefix w))"
  unfolding forget_path_def Let_def by (rule spared_delete_tombstone) (simp add: spared_def)

lemma spared_mark: "spared key obj K T w \<Longrightarrow> spared key obj K T (snd (mark_purged tid k w))"
  by (auto simp: spared_def mark_purged_def same_identity_def split: if_splits)

lemma spared_release: "spared key obj K T w \<Longrightarrow> spared key obj K T (snd (release_blocked tid reason w))"
  unfolding release_blocked_def by (rule spared_update) simp_all

lemma spared_delete: "spared key obj K T w \<Longrightarrow> k \<noteq> key \<Longrightarrow> spared key obj K T (snd (r2_delete k w))"
  by (simp add: spared_def r2_delete_def)

subsection \<open>The purge\<close>

lemma supports_head:
  "turns_keep sv (spared key obj K T) \<Longrightarrow> supports (spared key obj K T) (await sv (r2_head k)) (\<lambda>found. k = key \<longrightarrow> found = Some obj)"
  by (rule spared.await) (auto simp: r2_head_def spared_def)

lemma supports_purge_objects:
  assumes turns: "turns_keep sv (spared key obj K T)"
  shows "(\<forall>r \<in> set rows. \<not> same_identity obj key r) \<Longrightarrow>
    supports (spared key obj K T) (purge_objects sv tid rows) (\<lambda>_. True)"
proof (induction rows)
  case Nil
  then show ?case by (simp add: supports_ret)
next
  case (Cons r rows)
  have rest: "supports (spared key obj K T) (purge_objects sv tid rows) (\<lambda>_. True)" using Cons by simp
  have release: "supports (spared key obj K T) (bind_io (await sv (release_blocked tid reason)) (\<lambda>_. ret True)) (\<lambda>_. True)" for reason
    by (auto intro!: supports_bind [OF spared.await [OF turns, where Q = "\<lambda>_. True"]] supports_ret spared_release)
  have delete: "supports (spared key obj K T) (if found \<noteq> None then await sv (r2_delete (ti_key r)) else ret ()) (\<lambda>_. True)"
    if "found \<noteq> None \<longrightarrow> ti_key r \<noteq> key" for found :: "r2_object option"
    using that by (auto intro!: spared.await [OF turns] spared_delete supports_ret)
  have mark: "supports (spared key obj K T) (await sv (mark_purged tid (ti_key r))) (\<lambda>_. True)"
    by (auto intro!: spared.await [OF turns] spared_mark)
  define changed where "changed found \<longleftrightarrow>
      (case found of Some x \<Rightarrow> r2_etag x \<noteq> ti_etag r \<or> int (length (r2_body x)) \<noteq> ti_size r | None \<Rightarrow> False)"
    for found :: "r2_object option"
  have other: "ti_key r \<noteq> key" if "ti_key r = key \<longrightarrow> found = Some obj" "found \<noteq> None" "\<not> changed found" for found
    using that Cons.prems by (auto simp: same_identity_def changed_def)
  have after_head: "supports (spared key obj K T)
      (if changed found then bind_io (await sv (release_blocked tid reason)) (\<lambda>_. ret True)
       else bind_io (if found \<noteq> None then await sv (r2_delete (ti_key r)) else ret ()) (\<lambda>_.
            bind_io (await sv (mark_purged tid (ti_key r))) (\<lambda>_. purge_objects sv tid rows))) (\<lambda>_. True)"
    if found: "ti_key r = key \<longrightarrow> found = Some obj" for found reason
  proof (cases "changed found")
    case True
    then show ?thesis using release by simp
  next
    case False
    have "supports (spared key obj K T) (if found \<noteq> None then await sv (r2_delete (ti_key r)) else ret ()) (\<lambda>_. True)"
      by (rule delete) (use other [OF found _ False] in blast)
    then show ?thesis
      unfolding if_not_P [OF False] by (rule supports_bind) (rule supports_bind [OF mark rest])
  qed
  show ?case
    by (cases "tr_purged r = None") (simp_all add: rest supports_bind [OF supports_head [OF turns] after_head] flip: changed_def)
qed

lemma supports_manifest:
  assumes turns: "turns_keep sv (spared key obj K T)" and tid: "tid \<notin> K"
  shows "supports (spared key obj K T) (await sv (\<lambda>w. (sort_key ti_key (filter (\<lambda>r. tr_tombstone r = tid) (tw_objects w)), w)))
    (\<lambda>rows. \<forall>r \<in> set rows. \<not> same_identity obj key r)"
  by (rule spared.await [OF turns]) (use tid in \<open>auto simp: spared_def\<close>)

lemma supports_current:
  "turns_keep sv (spared key obj K T) \<Longrightarrow> supports (spared key obj K T) (currentTrashObjects sv t) (\<lambda>_. True)"
  unfolding currentTrashObjects_def artifact_prefixes_def
  by (auto intro!: supports_bind [where Q = "\<lambda>_. True"] spared.listing spared.derived spared.reading supports_ret)

lemma supports_purge_claimed:
  assumes turns: "turns_keep sv (spared key obj K T)" and tid: "tb_id t \<notin> K"
  shows "supports (spared key obj K T) (purge_claimed sv t) (\<lambda>_. True)"
proof -
  have release: "supports (spared key obj K T) (await sv (release_blocked tid reason)) (\<lambda>_. True)" for tid reason
    by (rule spared.await [OF turns]) (simp add: spared_release)
  have forget: "supports (spared key obj K T) (await sv (forget_path tid k prefix)) (\<lambda>_. True)" for tid k prefix
    by (rule spared.await [OF turns]) (simp add: spared_forget)
  have count: "supports (spared key obj K T) (await sv (\<lambda>w. (f w, w))) (\<lambda>_. True)" for f :: "'a trash_world_scheme \<Rightarrow> nat"
    by (rule spared.reading [OF turns]) simp
  note send = spared.sending [OF turns]
  have decide: "supports (spared key obj K T)
      (case trashSnapshotBlockReason manifest current of
        Some reason \<Rightarrow>
          bind_io (await sv (release_blocked (tb_id t) reason)) (\<lambda>_.
          bind_io (await sv (send (Audit ''delivery.source_purge_blocked'' (tb_id t)))) (\<lambda>_. ret False))
      | None \<Rightarrow>
          bind_io (purge_objects sv (tb_id t) manifest) (\<lambda>interrupted.
          if interrupted then ret False
          else bind_io (await sv (\<lambda>w. (length (filter (\<lambda>r. tr_tombstone r = tb_id t \<and> tr_purged r = None) (tw_objects w)), w))) (\<lambda>pending.
          if pending > 0 then ret False
          else
            bind_io (await sv (send (if tb_kind t = Under then Remove_thumbnails (tb_key t) else Remove_thumbnail (tb_key t) None))) (\<lambda>_.
            bind_io (await sv (forget_path (tb_id t) (tb_key t) (if tb_kind t = Under then tb_key t else tb_key t @ [47]))) (\<lambda>_.
            bind_io (await sv (send (Audit ''delivery.source_purged'' (tb_id t)))) (\<lambda>_. ret True))))))
      (\<lambda>_. True)"
    if rows: "\<forall>r \<in> set manifest. \<not> same_identity obj key r" for manifest current
  proof (cases "trashSnapshotBlockReason manifest current")
    case None
    have tail: "supports (spared key obj K T)
        (bind_io (await sv (send e)) (\<lambda>_. bind_io (await sv (forget_path i k p)) (\<lambda>_. bind_io (await sv (send e')) (\<lambda>_. ret True))))
        (\<lambda>_. True)" for e i k p e'
      by (intro supports_bind [OF send] supports_bind [OF forget] supports_ret) simp
    have rest: "supports (spared key obj K T)
        (if interrupted then ret False
         else bind_io (await sv (\<lambda>w. (f w, w))) (\<lambda>pending. if pending > 0 then ret False
           else bind_io (await sv (send e)) (\<lambda>_. bind_io (await sv (forget_path i k p)) (\<lambda>_. bind_io (await sv (send e')) (\<lambda>_. ret True)))))
        (\<lambda>_. True)" for interrupted e i k p e' and f :: "'a trash_world_scheme \<Rightarrow> nat"
      by (cases interrupted) (auto intro!: supports_bind [OF count] tail supports_ret)
    show ?thesis
      unfolding None option.case by (rule supports_bind [OF supports_purge_objects [OF turns rows]]) (rule rest)
  next
    case (Some reason)
    show ?thesis
      unfolding Some option.case by (intro supports_bind [OF release] supports_bind [OF send] supports_ret) simp
  qed
  show ?thesis
    unfolding purge_claimed_def Let_def
    by (rule supports_bind [OF supports_manifest [OF turns tid]], rule supports_bind [OF supports_current [OF turns]]) (rule decide)
qed

lemma supports_purge_tombstone:
  assumes turns: "turns_keep sv (spared key obj K T)"
  shows "supports (spared key obj K T) (purge_tombstone sv t) (\<lambda>_. True)"
  unfolding purge_tombstone_def
proof (rule supports_bind [where Q = "\<lambda>n. n \<noteq> 0 \<longrightarrow> tb_id t \<notin> K"])
  show "supports (spared key obj K T) (await sv (update_tombstones (\<lambda>now r. tb_id r = tb_id t \<and> purge_claimable now r)
       (\<lambda>now r. r\<lparr>tb_purging := Some now\<rparr>))) (\<lambda>n. n \<noteq> 0 \<longrightarrow> tb_id t \<notin> K)"
    by (rule spared.await [OF turns]) (auto intro: spared_update dest: claimed_not_spared)
  show "supports (spared key obj K T) (if n \<noteq> 1 then ret False else purge_claimed sv t) (\<lambda>_. True)"
    if "n \<noteq> 0 \<longrightarrow> tb_id t \<notin> K" for n :: nat
    using that by (auto intro: supports_ret supports_purge_claimed [OF turns])
qed

lemma supports_purge_each:
  "turns_keep sv (spared key obj K T) \<Longrightarrow> supports (spared key obj K T) (purge_each sv rows n) (\<lambda>_. True)"
  by (induction rows arbitrary: n) (auto intro!: supports_ret supports_bind [OF supports_purge_tombstone])

lemma supports_purgeTrash:
  "turns_keep sv (spared key obj K T) \<Longrightarrow> supports (spared key obj K T) (purgeTrash sv) (\<lambda>_. True)"
  unfolding purgeTrash_def by (rule supports_bind [OF spared.reading]) (simp_all add: supports_purge_each)

subsection \<open>Restoring\<close>

text \<open>A restoration leaves a spared object spared: what was restored stays so, the rest is untouched.\<close>

lemma supports_restore:
  assumes turns: "turns_keep sv (spared key obj K T)"
  shows "supports (spared key obj K T) (restoreTombstone sv p tid) (\<lambda>_. True)"
proof -
  have clock: "supports (spared key obj K T) js_now (\<lambda>_. True)" by (simp add: supports_def js_now_def)
  have find: "supports (spared key obj K T) (await sv (\<lambda>w. (f w, w))) (\<lambda>_. True)" for f :: "'a trash_world_scheme \<Rightarrow> tombstone_row option"
    by (rule spared.reading [OF turns]) simp
  have update: "supports (spared key obj K T) (await sv (update_tombstones
      (\<lambda>now r. tb_id r = tid \<and> tb_restored r = None \<and> tb_purging r = None \<and> purge_due_after at r)
      (\<lambda>now r. r\<lparr>tb_restored_by := Some who, tb_restored := Some at\<rparr>))) (\<lambda>_. True)" for at who
    by (rule spared.await [OF turns]) (auto intro: spared_update)
  have tail: "supports (spared key obj K T) (bind_io (await sv (send e)) (\<lambda>_.
      catch_io (enqueueThumbnailsForPath sv k b) (\<lambda>_. ret ()))) (\<lambda>_. True)" for e k b
    by (intro supports_bind [OF spared.sending [OF turns]] supports_catch spared.thumbnails [OF turns] supports_ret) simp
  have again: "supports (spared key obj K T) (bind_io (await sv (\<lambda>w. (f w, w))) (\<lambda>current.
      if Option.bind current tb_restored \<noteq> None then ret () else raise not_restorable)) (\<lambda>_. True)"
    for f :: "'a trash_world_scheme \<Rightarrow> tombstone_row option"
    by (rule supports_bind [OF find]) (simp add: supports_ret supports_raise)
  show ?thesis
    unfolding restoreTombstone_def
    by (rule supports_bind [OF find])
      (auto intro!: supports_raise supports_ret supports_bind [OF clock] supports_bind [OF update] again tail split: option.split simp del: not_None_eq)
qed

subsection \<open>What a handler achieves\<close>

text \<open>
  Triples over handlers: from a state with \<open>A\<close>, a handler that fails leaves a state with \<open>F\<close>, and one that
  answers \<open>x\<close> leaves a state with \<open>R x\<close>. The rules follow the combinators; an awaited call also needs \<open>F\<close>
  when it is refused and when only its answer is lost.
\<close>

definition achieves :: "('w \<Rightarrow> bool) \<Rightarrow> ('w, 'a) io \<Rightarrow> ('w \<Rightarrow> bool) \<Rightarrow> ('a \<Rightarrow> 'w \<Rightarrow> bool) \<Rightarrow> bool" where
  "achieves A m F R \<longleftrightarrow> (\<forall>w. A w \<longrightarrow> (case m w of (Inl f, w') \<Rightarrow> F w' | (Inr x, w') \<Rightarrow> R x w'))"

lemma achievesI: "(\<And>w f w'. A w \<Longrightarrow> m w = (Inl f, w') \<Longrightarrow> F w') \<Longrightarrow> (\<And>w x w'. A w \<Longrightarrow> m w = (Inr x, w') \<Longrightarrow> R x w') \<Longrightarrow> achieves A m F R"
  by (auto simp: achieves_def split: prod.splits sum.splits)

lemma achieves_fault: "achieves A m F R \<Longrightarrow> A w \<Longrightarrow> m w = (Inl f, w') \<Longrightarrow> F w'"
  unfolding achieves_def by (drule spec [of _ w]) simp

lemma achieves_value: "achieves A m F R \<Longrightarrow> A w \<Longrightarrow> m w = (Inr x, w') \<Longrightarrow> R x w'"
  unfolding achieves_def by (drule spec [of _ w]) simp

lemma achieves_ret: "(\<And>w. A w \<Longrightarrow> R x w) \<Longrightarrow> achieves A (ret x) F R"
  by (simp add: achieves_def ret_def)

lemma achieves_raise: "(\<And>w. A w \<Longrightarrow> F w) \<Longrightarrow> achieves A (raise f) F R"
  by (simp add: achieves_def raise_def)

lemma achieves_lift: "(\<And>w. A w \<Longrightarrow> F w) \<Longrightarrow> (\<And>x w. r = Inr x \<Longrightarrow> A w \<Longrightarrow> R x w) \<Longrightarrow> achieves A (lift r) F R"
  by (auto simp: achieves_def lift_def split: sum.split)

lemma achieves_bind: "achieves A m F R \<Longrightarrow> (\<And>x. achieves (R x) (k x) F S) \<Longrightarrow> achieves A (bind_io m k) F S"
  by (fastforce simp: achieves_def bind_io_def split: prod.splits sum.splits)

lemma achieves_catch: "achieves A m G R \<Longrightarrow> (\<And>f. achieves G (h f) F R) \<Longrightarrow> achieves A (catch_io m h) F R"
  by (fastforce simp: achieves_def catch_io_def split: prod.splits sum.splits)

lemma achieves_weaken:
  "achieves A m F R \<Longrightarrow> (\<And>w. B w \<Longrightarrow> A w) \<Longrightarrow> (\<And>w. F w \<Longrightarrow> G w) \<Longrightarrow> (\<And>x w. R x w \<Longrightarrow> S x w) \<Longrightarrow> achieves B m G S"
  unfolding achieves_def by (fastforce split: prod.splits sum.splits)

lemma achieves_if: "(c \<Longrightarrow> achieves A m F R) \<Longrightarrow> (\<not> c \<Longrightarrow> achieves A n F R) \<Longrightarrow> achieves A (if c then m else n) F R"
  by simp

lemma achieves_fact: "(P \<Longrightarrow> achieves A m F R) \<Longrightarrow> achieves (\<lambda>w. P \<and> A w) m F R"
  by (auto simp: achieves_def)

lemma achieves_await:
  assumes "\<And>w. A w \<Longrightarrow> A (tick sv w)" and "\<And>w. A w \<Longrightarrow> F w"
    and "\<And>w. A w \<Longrightarrow> F (snd (call w)) \<and> R (fst (call w)) (snd (call w))"
  shows "achieves A (await sv call) F R"
  unfolding achieves_def using assms by (simp add: await_cases split: outcome.split)

lemma achieves_read:
  assumes "\<And>w. A w \<Longrightarrow> A (tick sv w)" and "\<And>w. A w \<Longrightarrow> R (f w) w" and "\<And>w. A w \<Longrightarrow> F w"
  shows "achieves A (await sv (\<lambda>w. (f w, w))) F R"
  by (rule achieves_await) (simp_all add: assms)

lemma achieves_fresh: "(\<And>w. A w \<Longrightarrow> R (sv_uuid sv (w_minted w)) (w\<lparr>w_minted := Suc (w_minted w)\<rparr>)) \<Longrightarrow> achieves A (fresh sv) F R"
  by (simp add: achieves_def fresh_def)

lemma achieves_now: "(\<And>w. A w \<Longrightarrow> R (w_now w * 1000) w) \<Longrightarrow> achieves A js_now F R"
  by (simp add: achieves_def js_now_def)

lemma supports_achieves: "supports P m Q \<longleftrightarrow> achieves P m P (\<lambda>x w. P w \<and> Q x)"
  unfolding supports_def achieves_def by (fastforce split: prod.splits sum.splits)

text \<open>Nobody else acts; calls may still fail.\<close>

definition undisturbed :: "'x world_scheme services \<Rightarrow> bool" where
  "undisturbed sv \<longleftrightarrow> (\<forall>n w. sv_turn sv n w = w)"

lemma undisturbed_tick: "undisturbed sv \<Longrightarrow> tick sv w = w\<lparr>w_calls := Suc (w_calls w)\<rparr>"
  by (simp add: undisturbed_def tick_def)

end
