(* ===== verification/Share_Holder.thy ===== *)
theory Share_Holder
  imports Share_Routes Trash_Safety
begin

section \<open>A session belongs to a holder of the link and the code\<close>

text \<open>
  Between the look-up of a share, the check of its access code, the choice of the version that the
  cookie names, and the request that presents the cookie, other actors change the row: staff replace
  the link or the code, other sessions upgrade the row. The environment is any that keeps three
  statements: identifiers stay unique; while the link of a share stays the same, the code that opens it
  stays so; and a version belongs to one link. The proof follows the calls of the routes.
\<close>

subsection \<open>What the environment keeps\<close>

definition well_kept :: "'x delivery_world_scheme \<Rightarrow> bool" where
  "well_kept w \<longleftrightarrow> distinct (map ps_id (dw_shares w)) \<and> (\<forall>s \<in> set (dw_shares w). plain_part (ps_id s) \<and> 1 \<le> ps_version s)"

text \<open>The share is open to everyone who has the link, or the code is accepted under one of the peppers.\<close>

definition opens :: "public_env \<Rightarrow> ustring option \<Rightarrow> 'y public_share_scheme \<Rightarrow> bool" where
  "opens pe code s \<longleftrightarrow> (protected s \<longrightarrow> (\<exists>c. code = Some c \<and>
     (code_accepted pe s c (pe_pepper pe) = Inr True \<or> code_accepted pe s c (pe_previous_pepper pe) = Inr True)))"

definition holds_link :: "public_env \<Rightarrow> ustring option \<Rightarrow> ustring \<Rightarrow> ustring \<Rightarrow> 'x delivery_world_scheme \<Rightarrow> bool" where
  "holds_link pe code i h w \<longleftrightarrow> (\<forall>s \<in> set (dw_shares w). ps_id s = i \<longrightarrow> ps_token_hash s = h \<longrightarrow> opens pe code s)"

definition generation :: "ustring \<Rightarrow> ustring \<Rightarrow> int \<Rightarrow> 'x delivery_world_scheme \<Rightarrow> bool" where
  "generation i h v w \<longleftrightarrow>
     (\<forall>s \<in> set (dw_shares w). ps_id s = i \<longrightarrow> v \<le> ps_version s \<and> (ps_version s = v \<longrightarrow> ps_token_hash s = h))"

definition honest :: "'x delivery_world_scheme services \<Rightarrow> public_env \<Rightarrow> ustring option \<Rightarrow> ustring \<Rightarrow> bool" where
  "honest sv pe code h \<longleftrightarrow> turns_keep sv well_kept \<and> (\<forall>i. turns_keep sv (holds_link pe code i h)) \<and>
     (\<forall>i v. turns_keep sv (generation i h v))"

text \<open>The statement that a route has reached: the first and, once they hold, the others.\<close>

definition stage ::
  "public_env \<Rightarrow> ustring option \<Rightarrow> ustring \<Rightarrow> ustring \<Rightarrow> bool \<Rightarrow> int option \<Rightarrow> 'x delivery_world_scheme \<Rightarrow> bool" where
  "stage pe code i h held version w \<longleftrightarrow> well_kept w \<and> (held \<longrightarrow> holds_link pe code i h w) \<and>
     (case version of None \<Rightarrow> True | Some v \<Rightarrow> generation i h v w)"

lemma turns_stage: "honest sv pe code h \<Longrightarrow> turns_keep sv (stage pe code i h held version)"
  by (auto simp: honest_def stage_def turns_keep_def split: option.splits)

text \<open>A change of a row that leaves what the statements speak of, or raises the version.\<close>

definition row_keeps :: "bool \<Rightarrow> public_share \<Rightarrow> public_share \<Rightarrow> bool" where
  "row_keeps held s s' \<longleftrightarrow> ps_id s' = ps_id s \<and> ps_token_hash s' = ps_token_hash s \<and> ps_version s \<le> ps_version s' \<and>
     (held \<longrightarrow> ps_hash s' = ps_hash s \<and> ps_salt s' = ps_salt s \<and> ps_iterations s' = ps_iterations s \<and> ps_algorithm s' = ps_algorithm s)"

lemma opens_cong:
  "ps_hash s' = ps_hash s \<Longrightarrow> ps_salt s' = ps_salt s \<Longrightarrow> ps_iterations s' = ps_iterations s \<Longrightarrow> ps_algorithm s' = ps_algorithm s \<Longrightarrow>
   opens pe code s' = opens pe code s"
  by (simp add: opens_def protected_def code_accepted_def)

lemma stage_rows:
  assumes st: "stage pe code i h held version w" and rows: "\<And>s. s \<in> set (dw_shares w) \<Longrightarrow> row_keeps held s (f s)"
    and shares: "dw_shares w' = map f (dw_shares w)"
  shows "stage pe code i h held version w'"
proof -
  have ids: "map ps_id (dw_shares w') = map ps_id (dw_shares w)" using rows by (auto simp: shares row_keeps_def)
  have kept: "well_kept w" "held \<Longrightarrow> holds_link pe code i h w" using st by (simp_all add: stage_def)
  have "plain_part (ps_id s) \<and> 1 \<le> ps_version s" if "s \<in> set (dw_shares w')" for s
    using that rows kept(1) by (fastforce simp: shares row_keeps_def well_kept_def)
  then have "well_kept w'" using kept(1) by (simp add: well_kept_def ids)
  moreover have "holds_link pe code i h w'" if held
    unfolding holds_link_def
  proof (intro ballI impI)
    fix s' assume "s' \<in> set (dw_shares w')" and key: "ps_id s' = i" "ps_token_hash s' = h"
    then obtain s where s: "s \<in> set (dw_shares w)" "s' = f s" by (auto simp: shares)
    have k: "row_keeps held s s'" using rows s by simp
    then have "opens pe code s" using kept(2) that s(1) key by (simp add: holds_link_def row_keeps_def)
    with k that show "opens pe code s'" by (simp add: row_keeps_def opens_cong [of s' s])
  qed
  moreover have "generation i h v w'" if "generation i h v w" for v
    using that rows by (fastforce simp: generation_def shares row_keeps_def)
  ultimately show ?thesis using st by (auto simp: stage_def split: option.splits)
qed

lemma stage_update:
  assumes "stage pe code i h held version w" and "\<And>s now. row_keeps held s (change now s)"
  shows "stage pe code i h held version (snd (update_shares cond change w))"
  by (rule stage_rows [OF assms(1), where f = "\<lambda>s. if cond w s then change (w_now w) s else s"])
    (use assms(2) in \<open>auto simp: update_shares_def row_keeps_def\<close>)

lemma stage_frames:
  assumes "stage pe code i h held version w"
  shows "stage pe code i h held version (w\<lparr>w_calls := n\<rparr>)" "stage pe code i h held version (w\<lparr>w_outbox := e\<rparr>)"
    "stage pe code i h held version (w\<lparr>w_minted := n\<rparr>)" "stage pe code i h held version (w\<lparr>dw_events := v\<rparr>)"
  using assms by (simp_all add: stage_def well_kept_def holds_link_def generation_def split: option.splits)

interpretation stage: watched "stage pe code i h held version :: 'x delivery_world_scheme \<Rightarrow> bool" for pe code i h held version
  by unfold_locales (simp_all add: stage_frames)

subsection \<open>From statement to statement\<close>

text \<open>A handler that answers a value leads from one statement to the next.\<close>

definition leads :: "('w \<Rightarrow> bool) \<Rightarrow> ('w, 'a) io \<Rightarrow> ('a \<Rightarrow> 'w \<Rightarrow> bool) \<Rightarrow> bool" where
  "leads P m Q \<longleftrightarrow> (\<forall>w x w'. P w \<longrightarrow> m w = (Inr x, w') \<longrightarrow> Q x w')"

lemma leadsD: "leads P m Q \<Longrightarrow> P w \<Longrightarrow> m w = (Inr x, w') \<Longrightarrow> Q x w'"
  by (auto simp: leads_def)

lemma leads_ret: "(\<And>w. P w \<Longrightarrow> Q x w) \<Longrightarrow> leads P (ret x) Q"
  by (simp add: leads_def ret_def)

lemma leads_raise: "leads P (raise f) Q"
  by (simp add: leads_def raise_def)

lemma leads_lift: "(\<And>x w. r = Inr x \<Longrightarrow> P w \<Longrightarrow> Q x w) \<Longrightarrow> leads P (lift r) Q"
  by (simp add: leads_def lift_def)

lemma leads_bind: "leads P m R \<Longrightarrow> (\<And>x. leads (R x) (k x) Q) \<Longrightarrow> leads P (bind_io m k) Q"
  unfolding leads_def bind_io_cases by blast

lemma leads_weaken: "leads P m Q \<Longrightarrow> (\<And>w. P' w \<Longrightarrow> P w) \<Longrightarrow> (\<And>x w. Q x w \<Longrightarrow> Q' x w) \<Longrightarrow> leads P' m Q'"
  unfolding leads_def by blast

lemma leads_pre: "leads P m Q \<Longrightarrow> (\<And>w. P' w \<Longrightarrow> P w) \<Longrightarrow> leads P' m Q"
  unfolding leads_def by blast

lemma leads_fact: "(\<And>w. P w \<Longrightarrow> c) \<Longrightarrow> (c \<Longrightarrow> leads P m Q) \<Longrightarrow> leads P m Q"
  unfolding leads_def by blast

lemma leads_supports: "supports P m R \<Longrightarrow> leads P m (\<lambda>x w. R x \<and> P w)"
  unfolding leads_def supports_def by (metis fst_conv snd_conv)

lemma leads_catch:
  assumes "leads P m Q" and "\<And>f w. \<exists>g w'. h f w = (Inl g, w')"
  shows "leads P (catch_io m h) Q"
  unfolding leads_def
proof (intro allI impI)
  fix w x w' assume P: "P w" and run: "catch_io m h w = (Inr x, w')"
  obtain r w1 where r: "m w = (r, w1)" by (cases "m w")
  show "Q x w'"
  proof (cases r)
    case (Inl f)
    then show ?thesis using assms(2) [of f w1] run r by (auto simp: catch_io_def)
  next
    case (Inr y)
    then show ?thesis using leadsD [OF assms(1) P] run r by (auto simp: catch_io_def)
  qed
qed

lemma leads_await:
  assumes "turns_keep sv P" and "\<And>w n. P w \<Longrightarrow> P (w\<lparr>w_calls := n\<rparr>)" and "\<And>w. P w \<Longrightarrow> Q (fst (call w)) (snd (call w))"
  shows "leads P (await sv call) Q"
  unfolding leads_def
proof (intro allI impI)
  fix w x w' assume "P w" and run: "await sv call w = (Inr x, w')"
  hence "P (tick sv w)" using assms(1,2) by (simp add: tick_def turns_keep_def)
  from assms(3) [OF this] show "Q x w'" using run by (auto simp: await_cases split: outcome.splits)
qed

lemma leads_stage:
  "honest sv pe code h \<Longrightarrow>
   (\<And>w. stage pe code i h held version w \<Longrightarrow> Q (fst (call w)) (snd (call w))) \<Longrightarrow>
   leads (stage pe code i h held version) (await sv call) Q"
  by (rule leads_await [OF turns_stage]) (simp_all add: stage_frames)

lemma leads_query:
  assumes "honest sv pe code h"
    and "\<And>w s. stage pe code i h held version w \<Longrightarrow> find cond (dw_shares w) = Some s \<Longrightarrow> Q (Some (view_of (dw_projects w) s)) w"
    and "\<And>w. stage pe code i h held version w \<Longrightarrow> Q None w"
  shows "leads (stage pe code i h held version) (lifecycleShareQuery sv cond) Q"
  unfolding lifecycleShareQuery_def
proof (rule leads_catch)
  show "leads (stage pe code i h held version) (await sv (\<lambda>w. (map_option (view_of (dw_projects w)) (find cond (dw_shares w)), w))) Q"
    by (rule leads_stage [OF assms(1)]) (use assms(2,3) in \<open>auto split: option.split simp: map_option_case\<close>)
qed (simp add: raise_def)

subsection \<open>Calls that keep the statement\<close>

abbreviation upholds :: "('w \<Rightarrow> bool) \<Rightarrow> ('w, 'a) io \<Rightarrow> bool" where
  "upholds P m \<equiv> supports P m (\<lambda>_. True)"

lemmas upholds_bind = supports_bind [where Q = "\<lambda>_. True"]

lemma upholds_js_now: "upholds P js_now"
  by (simp add: supports_def js_now_def)

lemma upholds_catch: "upholds P m \<Longrightarrow> (\<And>f. upholds P (h f)) \<Longrightarrow> upholds P (catch_io m h)"
  by (rule supports_catch)

lemmas upholds_rules = upholds_js_now upholds_bind upholds_catch supports_raise supports_ret supports_lift

lemma supports_check: "(\<And>x. r = Inr x \<Longrightarrow> supports P (k x) R) \<Longrightarrow> supports P (bind_io (lift r) k) R"
  by (rule supports_bind [where Q = "\<lambda>x. r = Inr x"]) (simp_all add: supports_lift)

text \<open>Keeping a statement and leading to it with a fact about the value.\<close>

lemma leads_keeps: "upholds P m \<Longrightarrow> (\<And>x w. P w \<Longrightarrow> Q x w) \<Longrightarrow> leads P m Q"
  by (rule leads_weaken [OF leads_supports [where P = P and R = "\<lambda>_. True"]]) auto

lemma leads_after: "upholds P m \<Longrightarrow> (\<And>x. leads P (k x) Q) \<Longrightarrow> leads P (bind_io m k) Q"
  by (rule leads_bind [OF leads_supports [where R = "\<lambda>_. True"]]) (auto elim: leads_weaken)

lemma leads_check: "(\<And>x. r = Inr x \<Longrightarrow> leads P (k x) Q) \<Longrightarrow> leads P (bind_io (lift r) k) Q"
  unfolding leads_def bind_io_cases by (auto simp: lift_def)

text \<open>The calls of the routes, for an honest environment.\<close>

lemma limited_upholds: "honest sv pe code h \<Longrightarrow> upholds (stage pe code i h held version) (limited sv pe' key)"
  unfolding limited_def by (rule stage.reading [OF turns_stage]) simp_all

lemma enforce_upholds: "honest sv pe code h \<Longrightarrow> upholds (stage pe code i h held version) (enforceRateLimit sv pe' scope share)"
  unfolding enforceRateLimit_def by (auto intro!: upholds_rules limited_upholds)

lemma update_upholds:
  "honest sv pe code h \<Longrightarrow> (\<And>s now. row_keeps held s (change now s)) \<Longrightarrow>
   upholds (stage pe code i h held version) (await sv (update_shares cond change))"
  by (rule stage.await [OF turns_stage]) (simp_all add: stage_update)

lemma event_upholds:
  "honest sv pe code h \<Longrightarrow> upholds (stage pe code i h held version) (in_background (await sv (add_event kind sid)))"
  unfolding in_background_def
  by (intro upholds_rules stage.await [OF turns_stage]) (simp_all add: add_event_def stage_frames)

lemma read_upholds:
  "honest sv pe code h \<Longrightarrow> (\<And>w. snd (call w) = w) \<Longrightarrow> upholds (stage pe code i h held version) (await sv call)"
  by (rule stage.reading [OF turns_stage])

lemma unavailable_upholds: "honest sv pe code h \<Longrightarrow> upholds (stage pe code i h held version) (markUnavailableFolder sv share)"
  unfolding markUnavailableFolder_def mark_shares_unavailable_def
  by (auto intro!: upholds_rules update_upholds stage.sending [OF turns_stage] simp: row_keeps_def)

lemma pages_upholds: "honest sv pe code h \<Longrightarrow> upholds (stage pe code i h held version) (browsable_pages sv pe' root n cursor)"
proof (induction n arbitrary: cursor)
  case (Suc n)
  then show ?case by (auto intro!: upholds_rules read_upholds split: option.split)
qed (simp add: supports_raise)

lemma browsable_upholds: "honest sv pe code h \<Longrightarrow> upholds (stage pe code i h held version) (share_browsable sv pe' share)"
  unfolding share_browsable_def r2_head_def
  by (auto intro!: upholds_rules pages_upholds read_upholds)

lemma folder_upholds: "honest sv pe code h \<Longrightarrow> upholds (stage pe code i h held version) (requireAvailableFolder sv pe' share)"
  unfolding requireAvailableFolder_def
  by (auto intro!: upholds_rules browsable_upholds unavailable_upholds update_upholds simp: row_keeps_def)

subsection \<open>The session route\<close>

lemma opened_row:
  assumes "well_kept w" and "s \<in> set (dw_shares w)" and "s' \<in> set (dw_shares w)" and "ps_id s' = ps_id s"
  shows "s' = s"
  using assms inj_on_eq_iff [of ps_id "set (dw_shares w)"] by (auto simp: well_kept_def distinct_map)

lemma view_fields [simp]:
  "ps_id (view_of ps s) = ps_id s" "ps_token_hash (view_of ps s) = ps_token_hash s" "ps_version (view_of ps s) = ps_version s"
  "ps_hash (view_of ps s) = ps_hash s" "ps_salt (view_of ps s) = ps_salt s" "ps_iterations (view_of ps s) = ps_iterations s"
  "ps_algorithm (view_of ps s) = ps_algorithm s" "ps_public (view_of ps s) = ps_public s"
  by (simp_all add: view_of_def Let_def public_share.defs)

lemma opens_view [simp]: "opens pe code (view_of ps s) = opens pe code s" "protected (view_of ps s) = protected s"
  by (rule opens_cong) (simp_all add: protected_def)

lemma found_in: "find P xs = Some x \<Longrightarrow> x \<in> set xs \<and> P x"
  by (auto simp: find_Some_iff)

text \<open>A row that the holder opens, with the link, is the only one of its identifier.\<close>

lemma held_row:
  assumes "well_kept w" and "s \<in> set (dw_shares w)" and "opens pe code s"
  shows "holds_link pe code (ps_id s) h w"
  using assms opened_row unfolding holds_link_def by metis

lemma stage_held:
  assumes "well_kept w" and "s \<in> set (dw_shares w)" and "held \<Longrightarrow> opens pe code s"
  shows "stage pe code (ps_id s) h held None w"
  using assms held_row unfolding stage_def by auto

text \<open>A row found by its link; without a code it is open to the holder at once.\<close>

definition found_row ::
  "public_env \<Rightarrow> ustring option \<Rightarrow> ustring \<Rightarrow> 'y public_share_scheme option \<Rightarrow> 'x delivery_world_scheme \<Rightarrow> bool" where
  "found_row pe code h found w \<longleftrightarrow> (\<forall>share. found = Some share \<longrightarrow> ps_token_hash share = h \<and> plain_part (ps_id share) \<and>
     stage pe code (ps_id share) h (\<not> protected share) None w)"

lemma lookup_leads:
  assumes env: "honest sv pe code h"
    and cond: "\<And>s. cond s \<Longrightarrow> ps_token_hash s = h"
  shows "leads well_kept (lifecycleShareQuery sv cond) (found_row pe code h)"
proof -
  have "leads (stage pe code [] h False None) (lifecycleShareQuery sv cond) (found_row pe code h)"
  proof (rule leads_query [OF env])
    fix w s assume st: "stage pe code [] h False None w" and found: "find cond (dw_shares w) = Some s"
    then have s: "s \<in> set (dw_shares w)" "cond s" by (auto dest: found_in)
    moreover have "\<not> protected s \<Longrightarrow> opens pe code s" by (simp add: opens_def)
    moreover have "plain_part (ps_id s)" using st s by (simp add: stage_def well_kept_def)
    ultimately show "found_row pe code h (Some (view_of (dw_projects w) s)) w"
      using st cond by (auto simp: found_row_def stage_def held_row)
  qed (simp add: found_row_def)
  then show ?thesis by (rule leads_pre) (simp add: stage_def)
qed

lemma found_leads:
  assumes env: "honest sv pe code h" and h: "h = cr_sha256 (pe_crypto pe) secret"
  shows "leads well_kept (findByRouteAndSecret sv pe routeId secret) (found_row pe code h)"
  unfolding findByRouteAndSecret_def
  by (auto simp: h [symmetric] intro!: leads_ret lookup_leads [OF env]) (simp_all add: found_row_def)

text \<open>A code that was accepted opens the row it was checked against, and the row as it is stored again.\<close>

definition same_link :: "'x public_share_scheme \<Rightarrow> 'y public_share_scheme \<Rightarrow> bool" where
  "same_link a b \<longleftrightarrow> ps_id a = ps_id b \<and> ps_token_hash a = ps_token_hash b"

lemma accepted_again:
  assumes "code_accepted pe share c pepper = Inr True"
    and "hmac (pe_crypto pe) (case pe_pepper pe of Some k \<Rightarrow> k | None \<Rightarrow> []) (access_code_message salt c) = Inr nextHash"
  shows "opens pe (Some c) (share\<lparr>ps_hash := Some nextHash, ps_salt := Some salt, ps_iterations := Some 1,
    ps_algorithm := Some (ustr ''hmac-sha256-v1''), ps_version := v\<rparr>)"
proof -
  have "8 \<le> js_length c" using assms(1) by (auto simp: code_accepted_def verifyAccessCode_def split: if_splits)
  moreover obtain k where "pe_pepper pe = Some k" "k \<noteq> []"
    using assms(2) by (cases "pe_pepper pe"; cases "the (pe_pepper pe) = []") (auto simp: hmac_def js_length_def)
  moreover have "constantTimeEqual nextHash nextHash" by (simp add: constantTimeEqual_def Let_def or_fold_zero)
  ultimately show ?thesis
    using assms(2) by (simp add: opens_def code_accepted_def verifyAccessCode_def)
qed

lemma check_code_leads:
  assumes env: "honest sv pe (Some c) h"
  shows "supports (stage pe (Some c) i h False None) (check_code sv pe share c)
    (\<lambda>checked. \<forall>row. checked = Some row \<longrightarrow> same_link row share \<and> opens pe (Some c) row)"
  unfolding check_code_def
proof (rule supports_check)
  fix valid assume valid: "code_accepted pe share c (pe_pepper pe) = Inr valid"
  have upgrade: "supports (stage pe (Some c) i h False None) (upgrade_code sv pe share c)
      (\<lambda>row. same_link row share \<and> opens pe (Some c) row)"
    if before: "code_accepted pe share c (pe_previous_pepper pe) = Inr True"
    unfolding upgrade_code_def Let_def
  proof (rule upholds_bind [OF stage.minting], rule supports_check)
    fix salt nextHash
    assume "hmac (pe_crypto pe) (case pe_pepper pe of None \<Rightarrow> [] | Some k \<Rightarrow> k) (access_code_message salt c) = Inr nextHash"
    note again = accepted_again [OF before this]
    show "supports (stage pe (Some c) i h False None)
       (bind_io (await sv (update_shares (\<lambda>w s. ps_id s = ps_id share \<and> ps_hash s = ps_hash share \<and>
            ps_version s = ps_version share \<and> ps_revoked s = None)
          (\<lambda>now s. s\<lparr>ps_hash := Some nextHash, ps_salt := Some salt, ps_iterations := Some 1,
             ps_algorithm := Some (ustr ''hmac-sha256-v1''), ps_version := ps_version s + 1\<rparr>)))
        (\<lambda>changes. ret (if changes \<noteq> 0 then share\<lparr>ps_hash := Some nextHash, ps_salt := Some salt, ps_iterations := Some 1,
           ps_algorithm := Some (ustr ''hmac-sha256-v1''), ps_version := ps_version share + 1\<rparr> else share)))
       (\<lambda>row. same_link row share \<and> opens pe (Some c) row)"
      using again before
      by (auto intro!: upholds_bind update_upholds [OF env] supports_ret simp: row_keeps_def same_link_def)
        (simp add: opens_def)
  qed
  show "supports (stage pe (Some c) i h False None)
     (if valid then ret (Some share)
      else if \<not> present (pe_previous_pepper pe) then ret None
      else bind_io (lift (code_accepted pe share c (pe_previous_pepper pe))) (\<lambda>validBefore.
        if \<not> validBefore then ret None else bind_io (upgrade_code sv pe share c) (\<lambda>next. ret (Some next))))
     (\<lambda>checked. \<forall>row. checked = Some row \<longrightarrow> same_link row share \<and> opens pe (Some c) row)"
    using valid by (auto intro!: supports_ret supports_check supports_bind [OF upgrade] simp: same_link_def opens_def)
qed

lemma same_credentials_open: "same_credentials a b \<Longrightarrow> opens pe code b \<Longrightarrow> opens pe code a"
  using opens_cong [of a b] by (simp add: same_credentials_def)

text \<open>The row is read again: its link is held from now on.\<close>

lemma confirm_leads:
  assumes env: "honest sv pe code h" and row: "opens pe code share" "ps_id share = i" "ps_token_hash share = h"
  shows "leads (stage pe code i h False None) (confirm_row sv share)
    (\<lambda>row w. ps_id row = i \<and> ps_token_hash row = h \<and> stage pe code i h True None w)"
  unfolding confirm_row_def
proof (rule leads_bind [OF leads_query [OF env]])
  let ?Q = "\<lambda>found w. \<forall>row. found = Some row \<longrightarrow> same_credentials row share \<longrightarrow>
      ps_id row = i \<and> ps_token_hash row = h \<and> stage pe code i h True None w"
  fix w s assume st: "stage pe code i h False None w"
    and found: "find (\<lambda>s. ps_id s = ps_id share \<and> ps_token_hash s = ps_token_hash share) (dw_shares w) = Some s"
  then have s: "s \<in> set (dw_shares w)" "ps_id s = i" "ps_token_hash s = h" using row by (auto simp: find_Some_iff)
  have "stage pe code i h True None w" if "same_credentials (view_of (dw_projects w) s) share"
    using stage_held [of w s True pe code h] same_credentials_open [OF that row(1)] st s by (simp add: stage_def)
  then show "?Q (Some (view_of (dw_projects w) s)) w" using s by simp
next
  fix found
  show "leads (\<lambda>w. \<forall>row. found = Some row \<longrightarrow> same_credentials row share \<longrightarrow>
      ps_id row = i \<and> ps_token_hash row = h \<and> stage pe code i h True None w)
    (case found of None \<Rightarrow> raise stale_credentials
     | Some row \<Rightarrow> if \<not> same_credentials row share then raise stale_credentials
         else bind_io js_now (\<lambda>now. bind_io (lift (require_active row now)) (\<lambda>_. ret row)))
    (\<lambda>row w. ps_id row = i \<and> ps_token_hash row = h \<and> stage pe code i h True None w)"
    by (auto split: option.split intro!: leads_raise leads_after [OF upholds_js_now] leads_check leads_ret)
qed simp

definition unlocked ::
  "public_env \<Rightarrow> ustring option \<Rightarrow> ustring \<Rightarrow> ustring \<Rightarrow> session_answer + 'y public_share_scheme \<Rightarrow> 'x delivery_world_scheme \<Rightarrow> bool"
  where
  "unlocked pe code i h r w \<longleftrightarrow> (case r of
     Inl answer \<Rightarrow> answer \<in> {Code_required, Code_invalid}
   | Inr row \<Rightarrow> ps_id row = i \<and> ps_token_hash row = h \<and> stage pe code i h True None w)"

lemma unlock_leads:
  assumes env: "honest sv pe code h" and share: "ps_id share = i" "ps_token_hash share = h"
  shows "leads (stage pe code i h (\<not> protected share) None) (unlock sv pe share code)
    (unlocked pe code i h)"
proof (cases "protected share \<and> present code")
  case True
  then obtain c where c: "code = Some c" by (auto simp: present_def)
  have check: "leads (stage pe code i h False None) (check_code sv pe share c)
      (\<lambda>checked w. (\<forall>row. checked = Some row \<longrightarrow> same_link row share \<and> opens pe code row) \<and> stage pe code i h False None w)"
    using leads_supports [OF check_code_leads] env unfolding c by blast
  have handled: "leads (\<lambda>w. (\<forall>row. checked = Some row \<longrightarrow> same_link row share \<and> opens pe code row) \<and> stage pe code i h False None w)
      (case checked of
         None \<Rightarrow> bind_io (in_background (await sv (add_event ''unlock.failed'' (ps_id share)))) (\<lambda>_. ret (Inl Code_invalid))
       | Some row \<Rightarrow> bind_io (confirm_row sv row) (\<lambda>row. ret (Inr row)))
      (unlocked pe code i h)" for checked
  proof (cases checked)
    case None
    then show ?thesis by (auto simp: leads_def bind_io_cases ret_def unlocked_def)
  next
    case (Some row)
    show ?thesis
    proof (rule leads_fact [where c = "same_link row share \<and> opens pe code row"])
      assume "same_link row share \<and> opens pe code row"
      then have "leads (stage pe code i h False None) (confirm_row sv row)
          (\<lambda>row w. ps_id row = i \<and> ps_token_hash row = h \<and> stage pe code i h True None w)"
        using share by (intro confirm_leads [OF env]) (simp_all add: same_link_def)
      then show "leads (\<lambda>w. (\<forall>row. checked = Some row \<longrightarrow> same_link row share \<and> opens pe code row) \<and> stage pe code i h False None w)
          (case checked of
             None \<Rightarrow> bind_io (in_background (await sv (add_event ''unlock.failed'' (ps_id share)))) (\<lambda>_. ret (Inl Code_invalid))
           | Some row \<Rightarrow> bind_io (confirm_row sv row) (\<lambda>row. ret (Inr row)))
          (unlocked pe code i h)"
        unfolding Some option.case
        by (rule leads_bind [OF leads_pre]) (auto intro!: leads_ret simp: unlocked_def)
    qed (simp add: Some)
  qed
  from True show ?thesis
    unfolding unlock_def c
    by (auto simp: c intro!: leads_after [OF limited_upholds [OF env [unfolded c]]] leads_raise
        leads_bind [OF check [unfolded c] handled [unfolded c]])
next
  case False
  then show ?thesis by (auto simp: unlock_def share unlocked_def intro!: leads_ret)
qed

subsection \<open>The version in the cookie\<close>

text \<open>The version that is read or written with the link belongs to the link.\<close>

lemma generation_row:
  assumes "well_kept w" and "s \<in> set (dw_shares w)" and "ps_token_hash s = h"
  shows "generation (ps_id s) h (ps_version s) w \<and> 1 \<le> ps_version s"
  using assms opened_row unfolding generation_def well_kept_def by (metis order_refl)

lemma stage_version:
  "stage pe code (ps_id s) h held None w \<Longrightarrow> s \<in> set (dw_shares w) \<Longrightarrow> ps_token_hash s = h \<Longrightarrow>
   stage pe code (ps_id s) h held (Some (ps_version s)) w \<and> 1 \<le> ps_version s"
  using generation_row [of w s h] by (simp add: stage_def)

lemma identity_leads:
  assumes env: "honest sv pe code h" and share: "ps_id share = i" "ps_token_hash share = h"
  shows "leads (stage pe code i h held None) (current_identity sv share)
    (\<lambda>current w. stage pe code i h held None w \<and>
       (\<forall>p v. current = Some (p, v) \<longrightarrow> stage pe code i h held (Some v) w \<and> 1 \<le> v))"
  unfolding current_identity_def
proof (rule leads_stage [OF env], unfold fst_conv snd_conv, intro conjI allI impI)
  fix w p v
  assume st: "stage pe code i h held None w"
    and found: "map_option (\<lambda>s. (ps_public s, ps_version s)) (find (\<lambda>s. ps_id s = ps_id share \<and>
      ps_token_hash s = ps_token_hash share \<and> ps_revoked s = None \<and> active_project w s) (dw_shares w)) = Some (p, v)"
  then obtain s where s: "s \<in> set (dw_shares w)" "ps_id s = i" "ps_token_hash s = h" "v = ps_version s"
    using share by (auto dest!: found_in)
  show "stage pe code i h held (Some v) w" "1 \<le> v"
    using stage_version [of pe code s h held w] st s by auto
qed simp

lemma update_leads:
  fixes sv :: "'x delivery_world_scheme services"
  assumes env: "honest sv pe code h" and share: "ps_id share = i" "ps_token_hash share = h"
  shows "leads (stage pe code i h held None) (await sv (update_shares
      (\<lambda>w s. ps_id s = ps_id share \<and> ps_token_hash s = ps_token_hash share \<and> ps_public s = None \<and> ps_version s = expected \<and>
        ps_revoked s = None \<and> active_project w s)
      (\<lambda>now s. s\<lparr>ps_public := Some publicId, ps_version := ps_version s + 1\<rparr>)))
    (\<lambda>changes w. stage pe code i h held None w \<and>
       (changes \<noteq> 0 \<longrightarrow> stage pe code i h held (Some (expected + 1)) w \<and> 1 \<le> expected + 1))" (is "leads _ (await sv ?call) _")
proof (rule leads_stage [OF env], intro conjI impI)
  fix w :: "'x delivery_world_scheme" assume st: "stage pe code i h held None w"
  show keep: "stage pe code i h held None (snd (?call w))"
    by (rule stage_update [OF st]) (simp add: row_keeps_def)
  assume "fst (?call w) \<noteq> 0"
  then obtain s where s: "s \<in> set (dw_shares w)" "ps_id s = i" "ps_token_hash s = h" "ps_version s = expected"
      "ps_public s = None" "ps_revoked s = None" "active_project w s"
    using share by (auto simp: update_shares_def filter_empty_conv)
  let ?s = "s\<lparr>ps_public := Some publicId, ps_version := ps_version s + 1\<rparr>"
  have "?s \<in> set (dw_shares (snd (?call w)))" using s share by (auto simp: update_shares_def image_iff)
  from stage_version [OF _ this] keep s
  show "stage pe code i h held (Some (expected + 1)) (snd (?call w))" "1 \<le> expected + 1" by simp_all
qed

lemma attempts_leads:
  assumes env: "honest sv pe code h" and share: "ps_id share = i" "ps_token_hash share = h"
  shows "leads (stage pe code i h held None) (upgrade_attempts sv share n expected)
    (\<lambda>(publicId, v) w. stage pe code i h held (Some v) w \<and> 1 \<le> v)"
proof (induction n arbitrary: expected)
  case 0
  then show ?case by (simp add: leads_raise)
next
  case (Suc n)
  have again: "leads (stage pe code i h held None) (bind_io (current_identity sv share) (\<lambda>current. case current of
        None \<Rightarrow> raise gone_link
      | Some (p, version) \<Rightarrow> if p \<notin> {None, Some []} then ret (the p, version) else upgrade_attempts sv share n version))
      (\<lambda>(publicId, v) w. stage pe code i h held (Some v) w \<and> 1 \<le> v)"
  proof (rule leads_bind [OF identity_leads [OF env share]])
    fix current
    show "leads (\<lambda>w. stage pe code i h held None w \<and>
        (\<forall>p v. current = Some (p, v) \<longrightarrow> stage pe code i h held (Some v) w \<and> 1 \<le> v))
      (case current of
        None \<Rightarrow> raise gone_link
      | Some (p, version) \<Rightarrow> if p \<notin> {None, Some []} then ret (the p, version) else upgrade_attempts sv share n version)
      (\<lambda>(publicId, v) w. stage pe code i h held (Some v) w \<and> 1 \<le> v)"
      by (cases current) (auto intro!: leads_raise leads_ret leads_pre [OF Suc.IH])
  qed
  show ?case
    unfolding upgrade_attempts.simps
  proof (intro leads_after [OF stage.minting] leads_bind [OF update_leads [OF env share]])
    fix publicId and changes :: nat
    show "leads (\<lambda>w. stage pe code i h held None w \<and>
        (changes \<noteq> 0 \<longrightarrow> stage pe code i h held (Some (expected + 1)) w \<and> 1 \<le> expected + 1))
      (if changes \<noteq> 0 then ret (publicId, expected + 1)
       else bind_io (current_identity sv share) (\<lambda>current. case current of
          None \<Rightarrow> raise gone_link
        | Some (p, version) \<Rightarrow> if p \<notin> {None, Some []} then ret (the p, version) else upgrade_attempts sv share n version))
      (\<lambda>(publicId, v) w. stage pe code i h held (Some v) w \<and> 1 \<le> v)"
    proof (cases "changes \<noteq> 0")
      case True
      then show ?thesis by (auto intro!: leads_ret)
    next
      case False
      have "leads (\<lambda>w. stage pe code i h held None w \<and>
          (changes \<noteq> 0 \<longrightarrow> stage pe code i h held (Some (expected + 1)) w \<and> 1 \<le> expected + 1))
        (bind_io (current_identity sv share) (\<lambda>current. case current of
          None \<Rightarrow> raise gone_link
        | Some (p, version) \<Rightarrow> if p \<notin> {None, Some []} then ret (the p, version) else upgrade_attempts sv share n version))
        (\<lambda>(publicId, v) w. stage pe code i h held (Some v) w \<and> 1 \<le> v)"
        by (rule leads_pre [OF again]) (erule conjunct1)
      with False show ?thesis by (simp only: if_False)
    qed
  qed
qed

lemma ensure_leads:
  assumes env: "honest sv pe code h" and share: "ps_id share = i" "ps_token_hash share = h"
  shows "leads (stage pe code i h held None) (ensurePublicId sv share)
    (\<lambda>(publicId, v) w. stage pe code i h held (Some v) w \<and> 1 \<le> v)"
proof -
  have "leads (stage pe code i h held None) (bind_io (current_identity sv share) (\<lambda>current. case current of
        Some (p, version) \<Rightarrow> if p \<notin> {None, Some []} then ret (the p, version) else raise gone_link
      | None \<Rightarrow> raise gone_link)) (\<lambda>(publicId, v) w. stage pe code i h held (Some v) w \<and> 1 \<le> v)"
    by (rule leads_bind [OF identity_leads [OF env share]]) (auto split: option.split intro!: leads_raise leads_ret)
  then show ?thesis
    using attempts_leads [OF env share]
    by (cases "ps_public share \<notin> {None, Some []}") (simp_all only: ensurePublicId_def if_True if_False not_False_eq_True)
qed

subsection \<open>The cookie and the routes\<close>

text \<open>The cookie names a row, and a version, of the link whose holder opens it.\<close>

definition holder_cookie ::
  "public_env \<Rightarrow> ustring option \<Rightarrow> ustring \<Rightarrow> ustring \<Rightarrow> 'x delivery_world_scheme \<Rightarrow> bool" where
  "holder_cookie pe code h cookie w \<longleftrightarrow> (\<exists>i v e now. stage pe code i h True (Some v) w \<and> 1 \<le> v \<and> plain_part i \<and>
     createSessionCookie (pe_crypto pe) (sk_secret (pe_key pe)) (sk_keyId (pe_key pe)) i v e now = Inr cookie)"

definition session_for ::
  "public_env \<Rightarrow> ustring option \<Rightarrow> ustring \<Rightarrow> session_answer \<Rightarrow> 'x delivery_world_scheme \<Rightarrow> bool" where
  "session_for pe code h answer w \<longleftrightarrow> (case answer of Session_opened cookie publicId \<Rightarrow> holder_cookie pe code h cookie w | _ \<Rightarrow> True)"

lemma open_leads:
  assumes env: "honest sv pe code h" and share: "ps_id share = i" "ps_token_hash share = h" and plain: "plain_part i"
  shows "leads (stage pe code i h True None) (issue_session sv pe share) (session_for pe code h)"
  unfolding issue_session_def
proof (rule leads_bind [OF leads_catch [OF ensure_leads [OF env share]]])
  fix answer :: "ustring \<times> int"
  obtain publicId v where answer: "answer = (publicId, v)" by (cases answer)
  have rest: "leads (stage pe code i h True (Some v)) (bind_io js_now (\<lambda>now. bind_io (lift (createSessionCookie (pe_crypto pe)
        (sk_secret (pe_key pe)) (sk_keyId (pe_key pe)) (ps_id share) v (publicShareSessionExpiresAt (ps_expires share) now) now)) (\<lambda>cookie.
      bind_io (in_background (await sv (add_event ''session.created'' (ps_id share)))) (\<lambda>_. ret (Session_opened cookie publicId)))))
      (session_for pe code h)" if "1 \<le> v"
    using that plain
    by (intro leads_after [OF upholds_js_now] leads_check leads_after [OF event_upholds [OF env]] leads_ret)
      (auto simp: session_for_def holder_cookie_def share)
  show "leads ((\<lambda>(publicId, v) w. stage pe code i h True (Some v) w \<and> 1 \<le> v) answer)
    (case answer of (publicId, version) \<Rightarrow> bind_io js_now (\<lambda>now. bind_io (lift (createSessionCookie (pe_crypto pe)
        (sk_secret (pe_key pe)) (sk_keyId (pe_key pe)) (ps_id share) version (publicShareSessionExpiresAt (ps_expires share) now) now)) (\<lambda>cookie.
      bind_io (in_background (await sv (add_event ''session.created'' (ps_id share)))) (\<lambda>_. ret (Session_opened cookie publicId)))))
    (session_for pe code h)"
    unfolding answer prod.case by (rule leads_fact [where c = "1 \<le> v"], simp) (rule leads_pre [OF rest], simp_all)
qed (simp add: raise_def)

lemma unlocked_leads:
  assumes env: "honest sv pe code h" and plain: "plain_part i"
  shows "leads (unlocked pe code i h r) (case r of Inl answer \<Rightarrow> ret answer | Inr row \<Rightarrow> issue_session sv pe row) (session_for pe code h)"
proof (cases r)
  case (Inl answer)
  then show ?thesis by (auto simp: unlocked_def session_for_def intro!: leads_ret split: session_answer.split)
next
  case (Inr row)
  have "leads (unlocked pe code i h (Inr row)) (issue_session sv pe row) (session_for pe code h)"
  proof (rule leads_fact [where c = "ps_id row = i \<and> ps_token_hash row = h"])
    assume "ps_id row = i \<and> ps_token_hash row = h"
    then show "leads (unlocked pe code i h (Inr row)) (issue_session sv pe row) (session_for pe code h)"
      by (intro leads_pre [OF open_leads [OF env _ _ plain]]) (simp_all add: unlocked_def)
  qed (simp add: unlocked_def)
  then show ?thesis by (simp add: Inr)
qed

lemma row_leads:
  assumes env: "honest sv pe code h"
  shows "leads (found_row pe code h (Some share)) (bind_io js_now (\<lambda>now. bind_io (lift (require_active share now)) (\<lambda>_.
      bind_io (requireAvailableFolder sv pe share) (\<lambda>_. bind_io (unlock sv pe share code) (\<lambda>unlocked.
      case unlocked of Inl answer \<Rightarrow> ret answer | Inr row \<Rightarrow> issue_session sv pe row))))) (session_for pe code h)" (is "leads _ ?m _")
proof (rule leads_fact [where c = "ps_token_hash share = h \<and> plain_part (ps_id share)"])
  assume share: "ps_token_hash share = h \<and> plain_part (ps_id share)"
  have "leads (stage pe code (ps_id share) h (\<not> protected share) None) ?m (session_for pe code h)"
    using share by (intro leads_after [OF upholds_js_now] leads_check leads_after [OF folder_upholds [OF env]]
      leads_bind [OF unlock_leads [OF env]] unlocked_leads [OF env]) simp_all
  then show "leads (found_row pe code h (Some share)) ?m (session_for pe code h)"
    by (rule leads_pre) (simp add: found_row_def)
qed (simp add: found_row_def)

lemma route_leads:
  assumes env: "honest sv pe code h"
    and h: "h = cr_sha256 (pe_crypto pe) (first_text secret (if js_length routeId > 30 then routeId else []))"
  shows "leads well_kept (public_session_route sv pe routeId secret code) (session_for pe code h)"
proof -
  let ?candidate = "first_text secret (if js_length routeId > 30 then routeId else [])"
  have limit: "upholds well_kept (enforceRateLimit sv pe scope share)" for scope share
    using enforce_upholds [OF env, of "[]" False None pe scope share] by (simp add: stage_def [abs_def])
  have find: "leads well_kept (if ?candidate \<noteq> [] then findByRouteAndSecret sv pe routeId ?candidate else ret None) (found_row pe code h)"
    using found_leads [OF env h] by (auto simp: found_row_def intro!: leads_ret)
  have rest: "leads (found_row pe code h found) (case found of None \<Rightarrow> raise invalid_link | Some share \<Rightarrow>
      bind_io js_now (\<lambda>now. bind_io (lift (require_active share now)) (\<lambda>_.
      bind_io (requireAvailableFolder sv pe share) (\<lambda>_. bind_io (unlock sv pe share code) (\<lambda>unlocked.
      case unlocked of Inl answer \<Rightarrow> ret answer | Inr row \<Rightarrow> issue_session sv pe row))))) (session_for pe code h)" for found
    by (cases found) (simp_all only: option.case leads_raise row_leads [OF env])
  show ?thesis
    unfolding public_session_route_def Let_def by (rule leads_after [OF limit]) (rule leads_bind [OF find rest])
qed

text \<open>A request with the cookie: the row that answers has the version, so the link, and is live.\<close>

lemma session_read:
  assumes "request_session pe (Some (session_value k i v e sig)) None job now = Inr (session, resumed)"
    and "plain_part k" "plain_part i" "plain_part sig" "0 \<le> v"
  shows "ds_shareId session = i \<and> ds_shareVersion session = v"
  using assms accepted_names [of "pe_crypto pe" k i v e sig "pe_key pe" "pe_previous_key pe" now]
  by (auto simp: request_session_def Let_def present_def result_simps)

lemma active_row:
  "require_active row now = Inr () \<Longrightarrow> ps_revoked row = None \<and> vw_project_active row"
  by (auto simp: require_active_def classifyPublicShareLifecycle_def Let_def split: if_splits)

lemma request_leads:
  assumes env: "honest sv pe code h"
    and read: "parseCookie header COOKIE_NAME = Inr (Some (session_value k i v e sig))"
      "parseCookie header BULK_DOWNLOAD_RESUME_COOKIE = Inr None"
    and parts: "plain_part k" "plain_part i" "plain_part sig" "0 \<le> v"
  shows "leads (stage pe code i h True (Some v)) (authorize_request sv pe' header publicId http_method path)
    (\<lambda>(share, session, resumed) w. ps_token_hash share = h \<and> opens pe code share \<and> ps_revoked share = None \<and> vw_project_active share)"
proof -
  let ?P = "stage pe code i h True (Some v)"
  let ?Q = "\<lambda>(share, session :: delivery_session, resumed :: bool) (w :: 'a delivery_world_scheme).
    ps_token_hash share = h \<and> opens pe code share \<and> ps_revoked share = None \<and> vw_project_active share"
  have query: "leads ?P (lifecycleShareQuery sv (\<lambda>s. ps_id s = ds_shareId session \<and> ps_public s = Some publicId))
      (\<lambda>found w. \<forall>share. found = Some share \<longrightarrow> ps_version share = v \<longrightarrow> ps_token_hash share = h \<and> opens pe code share)"
    if "ds_shareId session = i" for session :: delivery_session
    by (rule leads_query [OF env]) (auto simp: that stage_def holds_link_def generation_def dest!: found_in)
  define F where "F found = (\<lambda>w :: 'a delivery_world_scheme. \<forall>share :: share_view. found = Some share \<longrightarrow>
    ps_version share = v \<longrightarrow> ps_token_hash share = h \<and> opens pe code share)" for found
  have limit: "leads (F (Some share)) (bind_io (enforceRateLimit sv pe' scope (Some (ps_id share))) (\<lambda>_. ret (share, session, resumed))) ?Q"
    if "ps_version share = v" "ps_revoked share = None" "vw_project_active share" for share session resumed scope
    using that by (auto simp: leads_def bind_io_cases ret_def F_def)
  have answer: "leads (F found) (case found of
       None \<Rightarrow>
         bind_io (lifecycleShareQuery sv (\<lambda>s. ps_id s = ds_shareId session)) (\<lambda>existing.
         raise (if existing \<noteq> None then invalid_link else lifecycle_fault Resource_removed))
     | Some share \<Rightarrow>
         bind_io js_now (\<lambda>now.
         bind_io (lift (require_active share now)) (\<lambda>_.
         if ps_version share \<noteq> ds_shareVersion session then raise (Http 401 ''This delivery session is stale.'')
         else
           bind_io (enforceRateLimit sv pe' (snd (classifyPublicRateLimit http_method path)) (Some (ps_id share))) (\<lambda>_.
           ret (share, session, resumed))))) ?Q"
    if "ds_shareVersion session = v" for found session resumed
  proof (cases found)
    case None
    then show ?thesis by (auto simp: leads_def bind_io_cases raise_def)
  next
    case (Some share)
    show ?thesis
      unfolding Some option.case
      by (intro leads_after [OF upholds_js_now] leads_check)
        (auto simp: that leads_raise intro!: limit dest!: active_row)
  qed
  show ?thesis
    unfolding authorize_request_def Let_def
  proof (intro leads_after [OF upholds_js_now] leads_check)
    fix now cookie resume and r :: "delivery_session \<times> bool"
    let ?job = "if http_method = ustr ''GET'' \<or> http_method = ustr ''HEAD'' then bulk_file_job path else None"
    assume "parseCookie header COOKIE_NAME = Inr cookie"
      and "(if ?job \<noteq> None then parseCookie header BULK_DOWNLOAD_RESUME_COOKIE else Inr None) = Inr resume"
      and r: "request_session pe' cookie resume ?job now = Inr r"
    then have "cookie = Some (session_value k i v e sig)" "resume = None"
      using read by (simp_all split: if_splits)
    then have session: "ds_shareId (fst r) = i" "ds_shareVersion (fst r) = v"
      using session_read [of pe' k i v e sig ?job now "fst r" "snd r"] r parts by simp_all
    obtain session resumed where pair: "r = (session, resumed)" by (cases r)
    show "leads ?P (case r of (session, usedResume) \<Rightarrow>
        bind_io (lifecycleShareQuery sv (\<lambda>s. ps_id s = ds_shareId session \<and> ps_public s = Some publicId)) (\<lambda>found. case found of
          None \<Rightarrow>
            bind_io (lifecycleShareQuery sv (\<lambda>s. ps_id s = ds_shareId session)) (\<lambda>existing.
            raise (if existing \<noteq> None then invalid_link else lifecycle_fault Resource_removed))
        | Some share \<Rightarrow>
            bind_io js_now (\<lambda>now.
            bind_io (lift (require_active share now)) (\<lambda>_.
            if ps_version share \<noteq> ds_shareVersion session then raise (Http 401 ''This delivery session is stale.'')
            else
              bind_io (enforceRateLimit sv pe' (snd (classifyPublicRateLimit http_method path)) (Some (ps_id share))) (\<lambda>_.
              ret (share, session, usedResume)))))) ?Q"
      unfolding pair prod.case
      by (rule leads_bind, rule query, use session in \<open>simp add: pair\<close>, rule answer [unfolded F_def])
        (use session in \<open>simp add: pair\<close>)
  qed
qed

end
