(* ===== verification/R2_Alone.thy ===== *)
theory R2_Alone
  imports Trash
begin

section \<open>Handlers that run undisturbed\<close>

text \<open>
  What a handler answers and leaves when every call is served and nobody else acts: then it is a
  function of the world, up to the counter of calls. \<open>outputs\<close> states the answer, a value or a fault,
  and the world after it, and is derived call by call; nothing is left open about termination.
\<close>

definition alone :: "'x world_scheme services \<Rightarrow> bool" where
  "alone sv \<longleftrightarrow> (\<forall>n w. sv_turn sv n w = w) \<and> (\<forall>n. sv_outcome sv n = Served)"

definition outputs ::
  "'x world_scheme \<Rightarrow> ('x world_scheme, 'a) io \<Rightarrow> fault + 'a \<Rightarrow> 'x world_scheme \<Rightarrow> bool" where
  "outputs w m r w' \<longleftrightarrow> (\<forall>n. \<exists>n'. m (w\<lparr>w_calls := n\<rparr>) = (r, w'\<lparr>w_calls := n'\<rparr>))"

lemma outputs_run: "outputs w m r w' \<Longrightarrow> \<exists>n. m w = (r, w'\<lparr>w_calls := n\<rparr>)"
  unfolding outputs_def by (drule spec [of _ "w_calls w"]) simp

lemma outputs_ret: "outputs w (ret x) (Inr x) w"
  by (auto simp: outputs_def ret_def)

lemma outputs_raise: "outputs w (raise f) (Inl f) w"
  by (auto simp: outputs_def raise_def)

lemma outputs_lift: "outputs w (lift r) r w"
  by (auto simp: outputs_def lift_def)

lemma outputs_bind:
  assumes m: "outputs w m (Inr x) w1" and k: "outputs w1 (k x) r w2"
  shows "outputs w (bind_io m k) r w2"
  unfolding outputs_def
proof
  fix n
  obtain n1 where "m (w\<lparr>w_calls := n\<rparr>) = (Inr x, w1\<lparr>w_calls := n1\<rparr>)" using m unfolding outputs_def by blast
  then show "\<exists>n'. bind_io m k (w\<lparr>w_calls := n\<rparr>) = (r, w2\<lparr>w_calls := n'\<rparr>)"
    using k by (simp add: bind_io_def outputs_def)
qed

lemma outputs_bind_fault:
  assumes "outputs w m (Inl f) w1"
  shows "outputs w (bind_io m k) (Inl f) w1"
  unfolding outputs_def
proof
  fix n
  obtain n1 where "m (w\<lparr>w_calls := n\<rparr>) = (Inl f, w1\<lparr>w_calls := n1\<rparr>)" using assms unfolding outputs_def by blast
  then show "\<exists>n'. bind_io m k (w\<lparr>w_calls := n\<rparr>) = (Inl f, w1\<lparr>w_calls := n'\<rparr>)"
    by (simp add: bind_io_def) (rule exI, rule refl)
qed

lemma outputs_catch:
  assumes "outputs w m (Inr x) w1"
  shows "outputs w (catch_io m h) (Inr x) w1"
  unfolding outputs_def
proof
  fix n
  obtain n1 where "m (w\<lparr>w_calls := n\<rparr>) = (Inr x, w1\<lparr>w_calls := n1\<rparr>)" using assms unfolding outputs_def by blast
  then show "\<exists>n'. catch_io m h (w\<lparr>w_calls := n\<rparr>) = (Inr x, w1\<lparr>w_calls := n'\<rparr>)"
    by (simp add: catch_io_def) (rule exI, rule refl)
qed

lemma outputs_await:
  assumes "alone sv" and "\<And>n. call (w\<lparr>w_calls := n\<rparr>) = (x, w'\<lparr>w_calls := n\<rparr>)"
  shows "outputs w (await sv call) (Inr x) w'"
  using assms by (auto simp: outputs_def await_def alone_def Let_def)

lemma outputs_await_db:
  assumes "alone sv" and "\<And>n. call (w\<lparr>w_calls := n\<rparr>) = (r, w'\<lparr>w_calls := n\<rparr>)"
  shows "outputs w (await_db sv call) r w'"
  unfolding await_db_def by (rule outputs_bind [OF outputs_await [OF assms]]) (rule outputs_lift)

lemma outputs_read: "alone sv \<Longrightarrow> (\<And>n. f (w\<lparr>w_calls := n\<rparr>) = x) \<Longrightarrow> outputs w (await sv (\<lambda>w. (f w, w))) (Inr x) w"
  by (rule outputs_await) simp_all

lemma outputs_fresh: "outputs w (fresh sv) (Inr (sv_uuid sv (w_minted w))) (w\<lparr>w_minted := Suc (w_minted w)\<rparr>)"
  unfolding outputs_def fresh_def
proof
  show "\<exists>n'. (Inr (sv_uuid sv (w_minted (w\<lparr>w_calls := n\<rparr>))), w\<lparr>w_calls := n, w_minted := Suc (w_minted (w\<lparr>w_calls := n\<rparr>))\<rparr>) =
      (Inr (sv_uuid sv (w_minted w)), w\<lparr>w_minted := Suc (w_minted w), w_calls := n'\<rparr>)" for n
    by (rule exI [of _ n]) simp
qed

lemma outputs_now: "outputs w js_now (Inr (w_now w * 1000)) w"
  by (auto simp: outputs_def js_now_def)

lemma outputs_head: "alone sv \<Longrightarrow> outputs w (await sv (r2_head k)) (Inr (w_bucket w k)) w"
  by (rule outputs_await) (simp_all add: r2_head_def)

lemma outputs_send: "alone sv \<Longrightarrow> outputs w (await sv (send e)) (Inr ()) (w\<lparr>w_outbox := w_outbox w @ [e]\<rparr>)"
  by (rule outputs_await) (simp_all add: send_def)

subsection \<open>Listings\<close>

text \<open>The objects that the pages from a cursor on hold together, over at most so many pages.\<close>

inductive lists :: "'w services \<Rightarrow> (ustring \<Rightarrow> r2_object option) \<Rightarrow> ustring \<Rightarrow> ustring option \<Rightarrow> nat \<Rightarrow> r2_object list \<Rightarrow> bool"
  for sv b prefix where
  last_page: "page = sv_list sv b prefix 1000 cursor None \<Longrightarrow> page_cursor page = None \<Longrightarrow>
    lists sv b prefix cursor (Suc n) (rp_objects page)"
| next_page: "page = sv_list sv b prefix 1000 cursor None \<Longrightarrow> page_cursor page = Some c \<Longrightarrow>
    lists sv b prefix (Some c) n objs \<Longrightarrow> lists sv b prefix cursor (Suc n) (rp_objects page @ objs)"

text \<open>
  The documented behaviour of the bucket: objects are stored under their own keys, and the pages of a
  listing hold exactly the objects whose keys start with the prefix, within the fuel.
\<close>

definition lists_all :: "'w services \<Rightarrow> (ustring \<Rightarrow> r2_object option) \<Rightarrow> bool" where
  "lists_all sv b \<longleftrightarrow> (\<forall>k obj. b k = Some obj \<longrightarrow> r2_key obj = k) \<and>
     (\<forall>prefix. \<exists>objs. lists sv b prefix None (sv_fuel sv) objs \<and>
        set objs = {obj. \<exists>k. b k = Some obj \<and> starts_with k prefix})"

lemma outputs_pages:
  assumes "alone sv"
  shows "lists sv (w_bucket w) prefix cursor n objs \<Longrightarrow>
    outputs w (listed_pages sv keep prefix n cursor before) (Inr (before @ filter keep objs)) w"
proof (induction arbitrary: before rule: lists.induct)
  case (last_page page cursor n)
  have "outputs w (await sv (r2_list sv prefix 1000 cursor None)) (Inr page) w"
    by (rule outputs_await [OF assms]) (simp add: r2_list_def last_page)
  then show ?case
    by (simp add: Let_def) (erule outputs_bind, simp add: last_page.hyps(2) outputs_ret)
next
  case (next_page page cursor c n objs)
  have "outputs w (await sv (r2_list sv prefix 1000 cursor None)) (Inr page) w"
    by (rule outputs_await [OF assms]) (simp add: r2_list_def next_page)
  moreover have "outputs w (listed_pages sv keep prefix n (Some c) (before @ filter keep (rp_objects page)))
      (Inr (before @ filter keep (rp_objects page @ objs))) w"
    using next_page.IH [of "before @ filter keep (rp_objects page)"] by simp
  ultimately show ?case
    by (simp add: Let_def) (erule outputs_bind, simp add: next_page.hyps(2))
qed

text \<open>The identities of all objects with a prefix, folder objects left out.\<close>

definition covers :: "(ustring \<Rightarrow> r2_object option) \<Rightarrow> (ustring \<Rightarrow> bool) \<Rightarrow> TrashObjectIdentity list \<Rightarrow> bool" where
  "covers b within ids \<longleftrightarrow> (\<forall>k obj. b k = Some obj \<longrightarrow> within k \<longrightarrow> \<not> ends_with k [47] \<longrightarrow>
     (\<exists>i \<in> set ids. ti_key i = k))"

definition genuine :: "(ustring \<Rightarrow> r2_object option) \<Rightarrow> 'x TrashObjectIdentity_scheme \<Rightarrow> bool" where
  "genuine b i \<longleftrightarrow> (case b (ti_key i) of Some obj \<Rightarrow> ti_etag i = r2_etag obj \<and> ti_size i = int (length (r2_body obj)) | None \<Rightarrow> False)"

lemma outputs_listObjects_under:
  assumes "alone sv" and all: "lists_all sv (w_bucket w)"
  shows "\<exists>ids. outputs w (listObjects sv prefix False relation) (Inr ids) w \<and>
    covers (w_bucket w) (\<lambda>k. starts_with k prefix) ids \<and> list_all (genuine (w_bucket w)) ids \<and>
    (\<forall>i \<in> set ids. starts_with (ti_key i) prefix)"
proof -
  obtain objs where objs: "lists sv (w_bucket w) prefix None (sv_fuel sv) objs"
      "set objs = {obj. \<exists>k. w_bucket w k = Some obj \<and> starts_with k prefix}"
    using all unfolding lists_all_def by blast
  have keyed: "w_bucket w k = Some obj \<Longrightarrow> r2_key obj = k" for k obj
    using all by (simp add: lists_all_def)
  let ?ids = "map (identity_of relation) (filter no_folder_object objs)"
  have "outputs w (listObjects sv prefix False relation) (Inr ?ids) w"
    using outputs_pages [OF assms(1) objs(1), of no_folder_object "[]"]
    by (auto simp: listObjects_def intro: outputs_bind outputs_ret)
  moreover have "covers (w_bucket w) (\<lambda>k. starts_with k prefix) ?ids"
    using keyed by (auto simp: covers_def objs(2) no_folder_object_def identity_of_def image_iff)
  moreover have "list_all (genuine (w_bucket w)) ?ids" "\<forall>i \<in> set ?ids. starts_with (ti_key i) prefix"
    using keyed by (auto simp: list_all_iff objs(2) identity_of_def genuine_def)
  ultimately show ?thesis by blast
qed

lemma outputs_listObjects_exact:
  assumes "alone sv"
  shows "outputs w (listObjects sv key True relation)
    (Inr (case w_bucket w key of Some x \<Rightarrow> [(identity_of relation x)\<lparr>ti_key := key\<rparr>] | None \<Rightarrow> [])) w"
  by (simp add: listObjects_def) (rule outputs_bind [OF outputs_head [OF assms]], rule outputs_ret)

end
