(* ===== verification/Share_Properties.thy ===== *)
theory Share_Properties
  imports Share_Holder R2_Alone R2_Samples
begin

section \<open>Properties of public shares\<close>

text \<open>
  Session cookies: what is issued is accepted, also after a rotation of the signing key, and what is
  accepted was signed for the share, version and expiry it names and for nothing else.
\<close>

subsection \<open>A sample service\<close>

definition sample_crypto :: crypto where
  "sample_crypto = \<lparr>cr_sha256 = (\<lambda>s. 104 # s), cr_hmac = (\<lambda>k m. map (\<lambda>c. if c = 46 then 95 else c) m),
     cr_pbkdf2 = (\<lambda>c s n. c @ s), cr_number = (\<lambda>_. None)\<rparr>"

definition sample_secret :: ustring where
  "sample_secret = replicate 32 115"

lemma sample_secret_long: "32 \<le> js_length sample_secret"
  by (simp add: sample_secret_def js_length_def sum_list_replicate)

text \<open>
  C35: The cookie that is issued for a share is read back from the header that the browser sends and is
  accepted for that share, version and expiry until it expires, with its key as the current one and,
  after a rotation to a key of another name, as the previous one. The name of the key, the share and the
  signature must not contain separators, and version and expiry be safe integers.
\<close>

theorem session_cookie_roundtrip:
  assumes issued: "createSessionCookie cr secret k i v e issuedAt = Inr cookie"
    and parts: "plain_part k" "plain_part i" "plain_part (cr_hmac cr secret (session_payload k i v e))"
    and numbers: "1 \<le> v" "is_safe_integer v" "is_safe_integer e" "0 \<le> e" and live: "now < e"
    and key: "current = \<lparr>sk_keyId = k, sk_secret = secret\<rparr> \<or>
      sk_keyId current \<noteq> k \<and> previous = Some \<lparr>sk_keyId = k, sk_secret = secret\<rparr>"
  shows "\<exists>value. parseCookie (Some (sent_back cookie)) COOKIE_NAME = Inr value \<and>
    verifyRotatingSessionCookie cr value current previous now =
      Inr \<lparr>ds_shareId = i, ds_shareVersion = v, ds_expiresAt = e\<rparr>"
  using issued_read(1) [OF issued parts] issued_accepted [OF issued parts numbers live key] by blast

theorem session_cookie_roundtrip_witness:
  "\<exists>cookie value. createSessionCookie sample_crypto sample_secret (ustr ''k1'') (ustr ''share'') 3 9000 5000 = Inr cookie \<and>
     parseCookie (Some (sent_back cookie)) COOKIE_NAME = Inr value \<and>
     verifyRotatingSessionCookie sample_crypto value \<lparr>sk_keyId = ustr ''k2'', sk_secret = sample_secret\<rparr>
       (Some \<lparr>sk_keyId = ustr ''k1'', sk_secret = sample_secret\<rparr>) 8999 =
     Inr \<lparr>ds_shareId = ustr ''share'', ds_shareVersion = 3, ds_expiresAt = 9000\<rparr>"
proof -
  obtain cookie where issued:
      "createSessionCookie sample_crypto sample_secret (ustr ''k1'') (ustr ''share'') 3 9000 5000 = Inr cookie"
    using sample_secret_long by (simp add: createSessionCookie_def hmac_def)
  have parts: "plain_part (ustr ''k1'')" "plain_part (ustr ''share'')"
      "plain_part (cr_hmac sample_crypto sample_secret (session_payload (ustr ''k1'') (ustr ''share'') 3 9000))"
    by (simp_all add: plain_part_def ustr_def scalar_def sample_crypto_def session_payload_def coloned_def json_int_def decimal.simps)
  show ?thesis
    using session_cookie_roundtrip [OF issued parts, of 8999 "\<lparr>sk_keyId = ustr ''k2'', sk_secret = sample_secret\<rparr>"
        "Some \<lparr>sk_keyId = ustr ''k1'', sk_secret = sample_secret\<rparr>"] issued
    by (simp add: is_safe_integer_def MAX_SAFE_INTEGER_def ustr_def)
qed

text \<open>
  C20: An accepted session cookie carries the signature, under the current or the previous key that it
  names, of the payload with exactly the share, version and expiry that are handed on; no other session
  and, unless the name of the key has a colon or is that of the downloads, no resume cookie of a bulk
  download has that payload, and the session has not expired. Signatures, computed and received, are
  texts of less than 4 GiB.
\<close>

theorem accepted_session_was_signed:
  assumes accepted: "verifyRotatingSessionCookie cr value current previous now = Inr s"
    and macs: "\<And>secret m. length (utf8 (cr_hmac cr secret m)) < 2 ^ 32 \<and> list_all scalar (cr_hmac cr secret m)"
    and header: "\<And>sig. part (split_on 46 (the value)) 4 = Some sig \<Longrightarrow> length (utf8 sig) < 2 ^ 32 \<and> list_all scalar sig"
  shows "\<exists>key m. (key = current \<or> previous = Some key) \<and> cookie_key value = Some (sk_keyId key) \<and>
    part (split_on 46 (the value)) 4 = Some (cr_hmac cr (sk_secret key) m) \<and>
    (\<forall>i v e. m = session_payload (sk_keyId key) i v e \<longleftrightarrow> i = ds_shareId s \<and> v = ds_shareVersion s \<and> e = ds_expiresAt s) \<and>
    (58 \<notin> set (sk_keyId key) \<and> sk_keyId key \<noteq> ustr ''bulk-download'' \<longrightarrow>
       (\<forall>k i v j e. m \<noteq> bulkDownloadResumePayload k i v j e)) \<and>
    1 \<le> ds_shareVersion s \<and> now < ds_expiresAt s"
proof -
  obtain key where key: "key = current \<or> previous = Some key" "cookie_key value = Some (sk_keyId key)"
    and ok: "verifySessionCookie cr (sk_secret key) (sk_keyId key) value now = Inr s"
    using accepted unfolding verifyRotatingSessionCookie_def rotating_Inr by blast
  let ?m = "session_payload (sk_keyId key) (ds_shareId s) (ds_shareVersion s) (ds_expiresAt s)"
  obtain sig where sig: "part (split_on 46 (the value)) 4 = Some sig" "constantTimeEqual (cr_hmac cr (sk_secret key) ?m) sig"
    and live: "1 \<le> ds_shareVersion s" "now < ds_expiresAt s"
    using ok by (rule verify_Inr)
  have "utf8 (cr_hmac cr (sk_secret key) ?m) = utf8 sig"
    using sig(2) header [OF sig(1)] macs by (simp add: constantTimeEqual_iff)
  then have "sig = cr_hmac cr (sk_secret key) ?m"
    using utf8_decode_encode header [OF sig(1)] macs by (metis option.inject)
  moreover have "\<forall>i v e. ?m = session_payload (sk_keyId key) i v e \<longleftrightarrow> i = ds_shareId s \<and> v = ds_shareVersion s \<and> e = ds_expiresAt s"
    by (auto simp: session_payload_inject)
  ultimately show ?thesis
    using key sig(1) live by (intro exI [of _ key] exI [of _ ?m] conjI impI allI payloads_differ) simp_all
qed

theorem accepted_session_was_signed_witness:
  "\<exists>value cr. verifyRotatingSessionCookie cr (Some value) \<lparr>sk_keyId = ustr ''k1'', sk_secret = sample_secret\<rparr> None 8999 =
     Inr \<lparr>ds_shareId = ustr ''share'', ds_shareVersion = 3, ds_expiresAt = 9000\<rparr> \<and>
   (\<exists>m. part (split_on 46 value) 4 = Some (cr_hmac cr sample_secret m))"
proof -
  let ?cr = "sample_crypto\<lparr>cr_hmac := (\<lambda>_ _. ustr ''mac'')\<rparr>"
  let ?cookie = "session_value (ustr ''k1'') (ustr ''share'') 3 9000 (ustr ''mac'')"
  have parts: "plain_part (ustr ''k1'')" "plain_part (ustr ''share'')" "plain_part (ustr ''mac'')"
    by (simp_all add: plain_part_def ustr_def scalar_def)
  have split: "split_on 46 ?cookie = [ustr ''k1'', ustr ''share'', json_int 3, json_int 9000, ustr ''mac'']"
    using parts by (rule split_session_value)
  then have keyed: "cookie_key (Some ?cookie) = Some (ustr ''k1'')" by (simp add: cookie_key_def)
  have ok: "verifyRotatingSessionCookie ?cr (Some ?cookie) \<lparr>sk_keyId = ustr ''k1'', sk_secret = sample_secret\<rparr> None 8999 =
      Inr \<lparr>ds_shareId = ustr ''share'', ds_shareVersion = 3, ds_expiresAt = 9000\<rparr>"
    unfolding verifyRotatingSessionCookie_def rotating_Inr
    using verify_issued [of "ustr ''k1''" "ustr ''share''" ?cr sample_secret 3 9000 8999] keyed
    by (simp add: parts sample_secret_long is_safe_integer_def MAX_SAFE_INTEGER_def)
  have part: "part (split_on 46 ?cookie) 4 = Some (ustr ''mac'')" by (simp add: split part_def) (simp add: ustr_def)
  have mac: "length (utf8 (ustr ''mac'')) < 2 ^ 32 \<and> list_all scalar (ustr ''mac'')"
    by (simp add: ustr_def scalar_def utf8_char_def)
  have "\<exists>key m. (key = \<lparr>sk_keyId = ustr ''k1'', sk_secret = sample_secret\<rparr> \<or> None = Some key) \<and>
      part (split_on 46 (the (Some ?cookie))) 4 = Some (cr_hmac ?cr (sk_secret key) m)"
    using accepted_session_was_signed [OF ok] part mac by auto
  with ok show ?thesis by fastforce
qed

subsection \<open>Sessions and the link\<close>

definition guest_env :: public_env where
  "guest_env = \<lparr>pe_crypto = sample_crypto\<lparr>cr_hmac := (\<lambda>_ _. ustr ''mac'')\<rparr>, pe_pepper = None, pe_previous_pepper = None,
     pe_key = \<lparr>sk_keyId = ustr ''k1'', sk_secret = sample_secret\<rparr>, pe_previous_key = None, pe_address = [], pe_limit = (\<lambda>_ _. True),
     pe_list = (\<lambda>_ _ _ _. \<lparr>pg_objects = [], pg_prefixes = [], pg_truncated = False, pg_cursor = None\<rparr>)\<rparr>"

definition guest_share :: public_share where
  "guest_share = \<lparr>ps_id = ustr ''share'', ps_public = Some (ustr ''pub''), ps_project = ustr ''project'',
     ps_token_hash = 104 # replicate 32 116, ps_hash = Some (replicate 8 99 @ [115]), ps_salt = Some [115],
     ps_iterations = Some 100000, ps_algorithm = Some (ustr ''pbkdf2-sha256-v1''), ps_expires = None, ps_revoked = None,
     ps_reason = None, ps_unavailable = None, ps_version = 3, ps_recipient = None, ps_map = 0, ps_object = Some [102],
     ps_prefix = Some [], ps_division = None, ps_secret = None, ps_iv = None, ps_idempotency = None, ps_created = 0,
     ps_creator = []\<rparr>"

definition guest_project :: delivery_project where
  "guest_project = \<lparr>dr_id = ustr ''project'', dr_prefix = [], dr_division = None, dr_active = True, dr_client = [],
     dr_name = [], dr_created = 0\<rparr>"

definition guest_world :: "public_share list \<Rightarrow> delivery_world" where
  "guest_world shares = \<lparr>w_bucket = (\<lambda>k. Some (sample_object k [1])), w_index = \<lparr>ix_rows = (\<lambda>_. None), ix_revisions = (\<lambda>_. None)\<rparr>,
     w_locations = [], w_recovery = [], w_suppressions = [], w_folders = [], w_outbox = [], w_now = 7, w_calls = 0, w_minted = 0,
     dw_shares = shares, dw_projects = [guest_project], dw_events = []\<rparr>"

lemma outputs_query:
  assumes "alone sv"
  shows "outputs w (lifecycleShareQuery sv cond) (Inr (map_option (view_of (dw_projects w)) (find cond (dw_shares w)))) w"
  unfolding lifecycleShareQuery_def by (rule outputs_catch, rule outputs_read [OF assms]) simp

lemma outputs_check: "r = Inr x \<Longrightarrow> outputs w (k x) y w' \<Longrightarrow> outputs w (bind_io (lift r) k) y w'"
  by (simp add: outputs_bind [OF outputs_lift])

lemma outputs_limit: "alone sv \<Longrightarrow> outputs w (enforceRateLimit sv guest_env scope share) (Inr ()) w"
  unfolding enforceRateLimit_def limited_def
  by (rule outputs_bind, rule outputs_read [where x = True]) (simp_all add: guest_env_def outputs_ret)

abbreviation guest_view :: share_view where
  "guest_view \<equiv> view_of [guest_project] guest_share"

lemma guest_fields:
  "ps_id guest_share = ustr ''share''" "protected guest_share" "ps_public guest_share = Some (ustr ''pub'')" "ps_version guest_share = 3"
  "ps_token_hash guest_share = 104 # replicate 32 116" "ps_expires guest_view = None" "ps_object guest_view = Some [102]"
  "ps_unavailable guest_view = None" "require_active guest_view now = Inr ()"
  "ustr ''pub'' \<noteq> []"
  by (simp_all add: view_of_def Let_def public_share.defs guest_share_def guest_project_def protected_def
      require_active_def classifyPublicShareLifecycle_def ustr_def)

lemma guest_code: "code_accepted guest_env guest_view (replicate 8 99) p = Inr True"
  by (simp add: code_accepted_def verifyAccessCode_def view_of_def Let_def public_share.defs guest_share_def js_length_def
      sum_list_replicate guest_env_def sample_crypto_def constantTimeEqual_def or_fold_zero ustr_def)

lemma guest_row: "find cond (dw_shares (guest_world [guest_share])) = (if cond guest_share then Some guest_share else None)"
  "dw_projects (guest_world [guest_share]) = [guest_project]"
  by (simp_all add: guest_world_def)



end
