(* ===== verification/Delete_Correct.thy ===== *)
theory Delete_Correct
  imports Source_Delete R2_Alone
begin

section \<open>A deletion records everything it hides\<close>

text \<open>
  The steps of \<open>executeSourceDelete\<close> when it runs undisturbed: what the manifest holds, what the tables
  are after the tombstone, and which shares are left.
\<close>

subsection \<open>The manifest\<close>

lemma put_identity_keys: "ti_key ` set (put_identity obj xs) = insert (ti_key obj) (ti_key ` set xs)"
  by (induction xs) auto

lemma put_identity_set: "set (put_identity obj xs) \<subseteq> insert obj (set xs)"
  by (induction xs) auto

lemma put_identity_distinct: "distinct (map ti_key xs) \<Longrightarrow> distinct (map ti_key (put_identity obj xs))"
proof (induction xs)
  case (Cons x xs)
  have "ti_key x \<notin> ti_key ` set (put_identity obj xs)" if "ti_key x \<noteq> ti_key obj"
    using Cons.prems that by (simp add: put_identity_keys)
  then show ?case using Cons by auto
qed simp

text \<open>A list of identities without repeated keys, all of objects that are stored.\<close>

definition truthful_snapshot :: "(ustring \<Rightarrow> r2_object option) \<Rightarrow> TrashObjectIdentity list \<Rightarrow> bool" where
  "truthful_snapshot b ids \<longleftrightarrow> distinct (map ti_key ids) \<and> list_all (genuine b) ids"

lemma snapshot_put: "truthful_snapshot b ids \<Longrightarrow> genuine b obj \<Longrightarrow> truthful_snapshot b (put_identity obj ids)"
  using put_identity_set [of obj ids] by (auto simp: truthful_snapshot_def put_identity_distinct list_all_iff)

lemma snapshot_fold:
  "truthful_snapshot b ids \<Longrightarrow> list_all (genuine b) extra \<Longrightarrow>
   truthful_snapshot b (fold put_identity extra ids) \<and> ti_key ` set (fold put_identity extra ids) = ti_key ` set extra \<union> ti_key ` set ids"
  by (induction extra arbitrary: ids) (auto simp: snapshot_put put_identity_keys)

lemma outputs_add_derived:
  assumes "alone sv" and "lists_all sv (w_bucket w)"
  shows "truthful_snapshot (w_bucket w) ids \<Longrightarrow> \<exists>ids'. outputs w (add_derived sv prefixes ids) (Inr ids') w \<and>
    truthful_snapshot (w_bucket w) ids' \<and> ti_key ` set ids \<subseteq> ti_key ` set ids'"
proof (induction prefixes arbitrary: ids)
  case Nil
  then show ?case by (auto intro: outputs_ret)
next
  case (Cons prefix prefixes)
  obtain extra where extra: "outputs w (listObjects sv prefix False Derived_object) (Inr extra) w"
      "list_all (genuine (w_bucket w)) extra"
    using outputs_listObjects_under [OF assms] by blast
  have fold: "truthful_snapshot (w_bucket w) (fold put_identity extra ids)"
      "ti_key ` set ids \<subseteq> ti_key ` set (fold put_identity extra ids)"
    using snapshot_fold [OF Cons.prems extra(2)] by auto
  obtain ids' where ids': "outputs w (add_derived sv prefixes (fold put_identity extra ids)) (Inr ids') w"
      "truthful_snapshot (w_bucket w) ids'" "ti_key ` set (fold put_identity extra ids) \<subseteq> ti_key ` set ids'"
    using Cons.IH [OF fold(1)] by blast
  have "outputs w (add_derived sv (prefix # prefixes) ids) (Inr ids') w"
    unfolding add_derived.simps by (rule outputs_bind, rule extra(1), rule ids'(1))
  with ids'(2) order_trans [OF fold(2) ids'(3)] show ?case by auto
qed

lemma outputs_delete_manifest:
  assumes "alone sv" and "lists_all sv (w_bucket w)" and "list_all (genuine (w_bucket w)) objects"
  shows "\<exists>ids. outputs w (delete_manifest sv key isFolder objects) (Inr ids) w \<and> truthful_snapshot (w_bucket w) ids \<and>
    ti_key ` set objects \<subseteq> ti_key ` set ids"
proof -
  let ?prefix = "if isFolder then key else key @ [47]"
  let ?prefixes = "set_order (map snd (filter (\<lambda>(source, a). at_or_under key ?prefix source) (tw_artifacts w)) @
    (if isFolder then [] else [sv_artifacts sv key]))"
  let ?recorded = "\<lambda>w :: 'a trash_world_scheme. map snd (filter (\<lambda>(source, a). at_or_under key ?prefix source) (tw_artifacts w))"
  have recorded: "outputs w (await sv (\<lambda>w. (?recorded w, w))) (Inr (?recorded w)) w"
    by (rule outputs_read [OF assms(1)]) simp
  have prefixes: "outputs w (artifact_prefixes sv key ?prefix isFolder) (Inr ?prefixes) w"
    unfolding artifact_prefixes_def by (rule outputs_bind, rule recorded, rule outputs_ret)
  have empty: "truthful_snapshot (w_bucket w) []" by (simp add: truthful_snapshot_def)
  note start = snapshot_fold [OF empty assms(3)]
  obtain ids where ids: "outputs w (add_derived sv ?prefixes (fold put_identity objects [])) (Inr ids) w"
      "truthful_snapshot (w_bucket w) ids" "ti_key ` set (fold put_identity objects []) \<subseteq> ti_key ` set ids"
    using outputs_add_derived [OF assms(1,2) conjunct1 [OF start]] by blast
  have "outputs w (delete_manifest sv key isFolder objects) (Inr ids) w"
    unfolding delete_manifest_def by (rule outputs_bind, rule prefixes, rule ids(1))
  then show ?thesis using ids(2,3) start by auto
qed

subsection \<open>What an item holds\<close>

text \<open>The item that a reference names: the file at the key, or the folder of the objects under it.\<close>

definition item_at :: "(ustring \<Rightarrow> r2_object option) \<Rightarrow> ustring \<Rightarrow> ustring \<Rightarrow> bool \<Rightarrow> bool" where
  "item_at b key physical isFolder \<longleftrightarrow>
     (if isFolder then b key = None \<and> physical = key @ [47] \<and>
        (\<exists>k. b k \<noteq> None \<and> starts_with k physical \<and> \<not> ends_with k [47])
      else b key \<noteq> None \<and> physical = key)"

definition held_by :: "ustring \<Rightarrow> bool \<Rightarrow> ustring \<Rightarrow> bool" where
  "held_by physical isFolder k \<longleftrightarrow> (if isFolder then starts_with k physical else k = physical)"

lemma outputs_not_trashed:
  "alone sv \<Longrightarrow> list_all (\<lambda>t. \<not> trash_hides t key) (tw_tombstones w) \<Longrightarrow> outputs w (assertNotTrashed sv key) (Inr ()) w"
  unfolding assertNotTrashed_def
  by (rule outputs_bind [OF outputs_read [where x = False]]) (auto simp: list_ex_iff list_all_iff outputs_ret)

lemma outputs_resolveTarget:
  assumes one: "alone sv" and all: "lists_all sv (w_bucket w)" and key: "decodeRef (pr_lower (sv_paths sv)) itemRef = Inr key"
    and shown: "list_all (\<lambda>t. \<not> trash_hides t key) (tw_tombstones w)" and item: "item_at (w_bucket w) key physical isFolder"
  shows "\<exists>objects. outputs w (resolveTarget sv itemRef)
      (Inr \<lparr>tg_key = physical, tg_folder = isFolder, tg_objects = objects\<rparr>) w \<and>
    list_all (genuine (w_bucket w)) objects \<and> covers (w_bucket w) (held_by physical isFolder) objects"
proof -
  have slash: "\<not> ends_with key [47]" using clean_path_no_trailing [OF decodeRef_clean [OF key]] .
  have prefix: "prefixFor key = key @ [47]" using slash by (simp add: prefixFor_def)
  have decoded: "outputs w (lift (decodeRef (pr_lower (sv_paths sv)) itemRef)) (Inr key) w"
    using outputs_lift [of w "decodeRef (pr_lower (sv_paths sv)) itemRef"] key by simp
  note exact = outputs_listObjects_exact [OF one, of w key Source_object]
  show ?thesis
  proof (cases isFolder)
    case False
    with item obtain x where x: "w_bucket w key = Some x" "physical = key" by (auto simp: item_at_def)
    have "r2_key x = key" using all x by (simp add: lists_all_def)
    then have "list_all (genuine (w_bucket w)) [(identity_of Source_object x)\<lparr>ti_key := key\<rparr>]"
        "covers (w_bucket w) (held_by physical isFolder) [(identity_of Source_object x)\<lparr>ti_key := key\<rparr>]"
      using x False by (auto simp: genuine_def identity_of_def covers_def held_by_def)
    moreover have "outputs w (resolveTarget sv itemRef)
        (Inr \<lparr>tg_key = physical, tg_folder = isFolder, tg_objects = [(identity_of Source_object x)\<lparr>ti_key := key\<rparr>]\<rparr>) w"
      unfolding resolveTarget_def Let_def
      by (rule outputs_bind, rule decoded, simp only: slash if_False bind_lift, rule outputs_bind,
          rule outputs_not_trashed [OF one shown], rule outputs_bind, rule exact, simp add: x False outputs_ret)
    ultimately show ?thesis by blast
  next
    case True
    with item have x: "w_bucket w key = None" "physical = key @ [47]"
        "\<exists>k. w_bucket w k \<noteq> None \<and> starts_with k physical \<and> \<not> ends_with k [47]" by (auto simp: item_at_def)
    obtain ids where ids: "outputs w (listObjects sv physical False Source_object) (Inr ids) w"
        "covers (w_bucket w) (\<lambda>k. starts_with k physical) ids" "list_all (genuine (w_bucket w)) ids"
      using outputs_listObjects_under [OF one all] by blast
    have some: "ids \<noteq> []" using x(3) ids(2) by (auto simp: covers_def)
    have "outputs w (resolveTarget sv itemRef) (Inr \<lparr>tg_key = physical, tg_folder = isFolder, tg_objects = ids\<rparr>) w"
      unfolding resolveTarget_def Let_def
      by (rule outputs_bind, rule decoded, simp only: slash if_False bind_lift, rule outputs_bind,
          rule outputs_not_trashed [OF one shown], rule outputs_bind, rule exact, simp add: x(1) prefix flip: x(2),
          rule outputs_bind, rule ids(1), simp add: True some prefix x(2) outputs_ret)
    moreover have "held_by physical isFolder = (\<lambda>k. starts_with k physical)" using True by (simp add: held_by_def fun_eq_iff)
    ultimately show ?thesis using ids(2,3) by auto
  qed
qed

subsection \<open>The tombstone\<close>

text \<open>What the keys of the two tables ask of a new tombstone.\<close>

definition row_keys :: "trash_row list \<Rightarrow> (ustring \<times> ustring) list" where
  "row_keys rows = map (\<lambda>r. (tr_tombstone r, ti_key r)) rows"

definition accepts :: "ustring \<Rightarrow> ustring \<Rightarrow> 'x trash_world_scheme \<Rightarrow> bool" where
  "accepts tid physical w \<longleftrightarrow> distinct (row_keys (tw_objects w)) \<and>
     (\<forall>r \<in> set (tw_objects w). tr_tombstone r \<noteq> tid) \<and>
     (\<forall>t \<in> set (tw_tombstones w). tb_id t \<noteq> tid \<and> (tb_restored t = None \<longrightarrow> tb_key t \<noteq> physical))"

lemma new_row_keys:
  assumes "distinct (row_keys objs)" and "\<forall>r \<in> set objs. tr_tombstone r \<noteq> tid" and "distinct (map ti_key ids)"
  shows "distinct (row_keys (objs @ map (trash_row_of tid) ids))"
proof -
  have "row_keys (map (trash_row_of tid) ids) = map (Pair tid) (map ti_key ids)"
    by (simp add: row_keys_def trash_row_of_def)
  then have "distinct (row_keys (map (trash_row_of tid) ids))"
    using assms(3) by (simp add: distinct_map inj_on_def)
  then show ?thesis using assms(1,2) by (auto simp: row_keys_def trash_row_of_def)
qed

lemma insert_objects_ok:
  "distinct (row_keys (tw_objects w @ rows)) \<Longrightarrow>
   list_all (\<lambda>r. tr_tombstone r \<in> tb_id ` set (tw_tombstones w) \<and> 0 \<le> ti_size r) rows \<Longrightarrow>
   insert_objects rows w = (Inr (), w\<lparr>tw_objects := tw_objects w @ rows\<rparr>)"
  by (simp only: insert_objects_def row_keys_def simp_thms if_False)

lemma outputs_insert_batches:
  assumes one: "alone sv" and id: "tid \<in> tb_id ` set (tw_tombstones w)"
    and rows: "distinct (row_keys (tw_objects w))" "\<forall>r \<in> set (tw_objects w). tr_tombstone r \<noteq> tid"
  shows "distinct (map ti_key (before @ concat batches)) \<Longrightarrow> list_all (\<lambda>i. 0 \<le> ti_size i) (concat batches) \<Longrightarrow>
    outputs (w\<lparr>tw_objects := tw_objects w @ map (trash_row_of tid) before\<rparr>)
      (for_each batches (\<lambda>batch. await_db sv (insert_objects (map (trash_row_of tid) batch)))) (Inr ())
      (w\<lparr>tw_objects := tw_objects w @ map (trash_row_of tid) (before @ concat batches)\<rparr>)"
proof (induction batches arbitrary: before)
  case Nil
  then show ?case by (simp add: outputs_ret)
next
  case (Cons batch batches)
  have sizes: "list_all (\<lambda>i. 0 \<le> ti_size i) batch" "list_all (\<lambda>i. 0 \<le> ti_size i) (concat batches)" using Cons.prems(2) by auto
  have "distinct (map ti_key (before @ batch))" using Cons.prems(1) by auto
  from new_row_keys [OF rows this]
  have keys: "distinct (row_keys ((tw_objects w @ map (trash_row_of tid) before) @ map (trash_row_of tid) batch))"
    by (simp only: map_append append_assoc)
  have owner: "list_all (\<lambda>r. tr_tombstone r \<in> tb_id ` set (tw_tombstones w) \<and> 0 \<le> ti_size r) (map (trash_row_of tid) batch)"
    using id sizes(1) by (simp add: list_all_iff trash_row_of_def)
  have "outputs (w\<lparr>tw_objects := tw_objects w @ map (trash_row_of tid) before\<rparr>)
      (await_db sv (insert_objects (map (trash_row_of tid) batch))) (Inr ())
      (w\<lparr>tw_objects := tw_objects w @ map (trash_row_of tid) (before @ batch)\<rparr>)"
    by (rule outputs_await_db [OF one], subst insert_objects_ok) (use keys owner in simp_all)
  moreover have "outputs (w\<lparr>tw_objects := tw_objects w @ map (trash_row_of tid) (before @ batch)\<rparr>)
      (for_each batches (\<lambda>batch. await_db sv (insert_objects (map (trash_row_of tid) batch)))) (Inr ())
      (w\<lparr>tw_objects := tw_objects w @ map (trash_row_of tid) ((before @ batch) @ concat batches)\<rparr>)"
    using Cons.IH [of "before @ batch"] Cons.prems(1) sizes(2) by simp
  ultimately show ?case unfolding for_each.simps by (intro outputs_bind) simp_all
qed

definition new_tombstone :: "ustring \<Rightarrow> ustring \<Rightarrow> bool \<Rightarrow> StaffPrincipal \<Rightarrow> int \<Rightarrow> tombstone_row" where
  "new_tombstone tid physical isFolder p now = \<lparr>tb_id = tid, tb_key = physical, tb_kind = (if isFolder then Under else Exact),
     tb_deleted_by = sp_id p, tb_deleted_at = now * 1000, tb_purge_after = Some (now * 1000 + retention), tb_purging = None,
     tb_restored_by = None, tb_restored = None, tb_manifested = Some now, tb_blocked = None\<rparr>"

text \<open>The world after the tombstone.\<close>

definition entombed ::
  "ustring \<Rightarrow> ustring \<Rightarrow> bool \<Rightarrow> StaffPrincipal \<Rightarrow> TrashObjectIdentity list \<Rightarrow> 'x trash_world_scheme \<Rightarrow> 'x trash_world_scheme" where
  "entombed tid physical isFolder p ids w = w\<lparr>w_minted := Suc (w_minted w),
     tw_objects := tw_objects w @ map (trash_row_of tid) ids,
     tw_tombstones := tw_tombstones w @ [new_tombstone tid physical isFolder p (w_now w)]\<rparr>"

lemma outputs_write_manifest:
  assumes one: "alone sv" and id: "tid \<in> tb_id ` set (tw_tombstones w)"
    and rows: "distinct (row_keys (tw_objects w))" "\<forall>r \<in> set (tw_objects w). tr_tombstone r \<noteq> tid"
    and ids: "distinct (map ti_key ids)" "list_all (\<lambda>i. 0 \<le> ti_size i) ids"
    and marked: "map (\<lambda>t. if tb_id t = tid \<and> tb_restored t = None then t\<lparr>tb_manifested := Some (w_now w)\<rparr> else t)
      (tw_tombstones w) = ts"
  shows "outputs w (write_manifest sv tid ids) (Inr ())
    (w\<lparr>tw_objects := tw_objects w @ map (trash_row_of tid) ids, tw_tombstones := ts\<rparr>)"
proof -
  have all: "concat (chunks_of 75 ids) = ids" by (simp add: concat_chunks_of)
  let ?w1 = "w\<lparr>tw_objects := tw_objects w @ map (trash_row_of tid) ids\<rparr>"
  have insert: "outputs w (for_each (chunks_of 75 ids) (\<lambda>batch. await_db sv (insert_objects (map (trash_row_of tid) batch)))) (Inr ()) ?w1"
    using outputs_insert_batches [OF one id rows, of "[]" "chunks_of 75 ids"] ids by (simp add: all)
  have manifested: "outputs ?w1 (await sv (update_tombstones (\<lambda>now t. tb_id t = tid \<and> tb_restored t = None)
      (\<lambda>now t. t\<lparr>tb_manifested := Some now\<rparr>)))
      (Inr (length (filter (\<lambda>t. tb_id t = tid \<and> tb_restored t = None) (tw_tombstones w))))
      (?w1\<lparr>tw_tombstones := ts\<rparr>)"
    by (rule outputs_await [OF one]) (simp add: update_tombstones_def marked [symmetric])
  show ?thesis
    unfolding write_manifest_def
    by (rule outputs_catch, rule outputs_bind, rule insert, rule outputs_bind, rule manifested, rule outputs_ret)
qed

lemma outputs_createTombstone:
  assumes one: "alone sv" and ok: "accepts (sv_uuid sv (w_minted w)) physical w"
    and physical: "(if isFolder then normalizePrefix (pr_lower (sv_paths sv)) key else Inr key) = Inr physical"
    and ids: "distinct (map ti_key ids)" "list_all (\<lambda>i. 0 \<le> ti_size i) ids"
  shows "\<exists>row. outputs w (createTombstone sv p key isFolder ids) (Inr row)
      (entombed (sv_uuid sv (w_minted w)) physical isFolder p ids w) \<and> tb_id row = sv_uuid sv (w_minted w) \<and> tb_key row = physical"
proof -
  let ?tid = "sv_uuid sv (w_minted w)"
  let ?row = "(new_tombstone ?tid physical isFolder p (w_now w))\<lparr>tb_manifested := None\<rparr>"
  let ?w1 = "w\<lparr>w_minted := Suc (w_minted w)\<rparr>"
  let ?w2 = "?w1\<lparr>tw_tombstones := tw_tombstones w @ [?row]\<rparr>"
  have insert: "outputs ?w1 (await_db sv (insert_tombstone ?row)) (Inr ()) ?w2"
    by (rule outputs_await_db [OF one]) (use ok in \<open>auto simp: insert_tombstone_def accepts_def list_ex_iff new_tombstone_def\<close>)
  let ?mark = "\<lambda>t. if tb_id t = ?tid \<and> tb_restored t = None then t\<lparr>tb_manifested := Some (w_now w)\<rparr> else t"
  have "map ?mark (tw_tombstones w) = tw_tombstones w" using ok by (auto simp: accepts_def intro!: map_idI)
  then have marked: "map ?mark (tw_tombstones w @ [?row]) = tw_tombstones w @ [new_tombstone ?tid physical isFolder p (w_now w)]"
    by (simp add: new_tombstone_def)
  have fields: "tw_tombstones ?w2 = tw_tombstones w @ [?row]" "w_now ?w2 = w_now w" "tw_objects ?w2 = tw_objects w" by simp_all
  have manifest: "outputs ?w2 (write_manifest sv ?tid ids) (Inr ()) (entombed ?tid physical isFolder p ids w)"
  proof -
    have "outputs ?w2 (write_manifest sv ?tid ids) (Inr ())
        (?w2\<lparr>tw_objects := tw_objects ?w2 @ map (trash_row_of ?tid) ids,
           tw_tombstones := tw_tombstones w @ [new_tombstone ?tid physical isFolder p (w_now w)]\<rparr>)"
      by (rule outputs_write_manifest [OF one _ _ _ ids], unfold fields)
        (use ok marked in \<open>simp_all only: accepts_def, simp_all add: new_tombstone_def\<close>)
    then show ?thesis by (simp add: entombed_def)
  qed
  have row: "\<lparr>tb_id = ?tid, tb_key = physical, tb_kind = (if isFolder then Under else Exact), tb_deleted_by = sp_id p,
           tb_deleted_at = w_now w * 1000, tb_purge_after = Some (w_now w * 1000 + retention), tb_purging = None, tb_restored_by = None,
           tb_restored = None, tb_manifested = None, tb_blocked = None\<rparr> = ?row"
    by (simp add: new_tombstone_def)
  have now: "outputs ?w1 js_now (Inr (w_now w * 1000)) ?w1" using outputs_now [of ?w1] by simp
  have "outputs w (createTombstone sv p key isFolder ids) (Inr ?row) (entombed ?tid physical isFolder p ids w)"
    unfolding createTombstone_def physical bind_lift Let_def
    by (rule outputs_bind, rule outputs_fresh, rule outputs_bind, rule now, unfold row, rule outputs_bind, rule insert,
        rule outputs_bind, rule manifest, rule outputs_ret)
  then show ?thesis by (rule exI [of _ ?row, OF conjI]) (simp add: new_tombstone_def)
qed

subsection \<open>The shares\<close>

lemma revoke_deleted_shares:
  "sw_shares (notify_revoked sid (revoke_deleted sid w)) = map (\<lambda>s. if sh_id s = sid \<and> sh_revoked s = None
     then s\<lparr>sh_revoked := Some (w_now w, ''staff_deleted_source''), sh_version := sh_version s + 1\<rparr> else s) (sw_shares w)"
  by (simp add: notify_revoked_def revoke_deleted_def split: option.split)

text \<open>What the batch leaves: other tables as they were, and of each share its row or its revoked row.\<close>

definition same_but_shares :: "'x trash_world_scheme \<Rightarrow> 'x trash_world_scheme \<Rightarrow> bool" where
  "same_but_shares w w' \<longleftrightarrow> w_bucket w' = w_bucket w \<and> tw_tombstones w' = tw_tombstones w \<and> tw_objects w' = tw_objects w \<and>
     sw_projects w' = sw_projects w \<and> w_now w' = w_now w"

definition later_share :: "share_row \<Rightarrow> share_row \<Rightarrow> bool" where
  "later_share s s' \<longleftrightarrow> sh_id s' = sh_id s \<and> sh_project s' = sh_project s \<and> sh_prefix s' = sh_prefix s \<and>
     (sh_revoked s \<noteq> None \<longrightarrow> s' = s)"

lemma revoke_fold:
  "same_but_shares w (fold (\<lambda>sid w. notify_revoked sid (revoke_deleted sid w)) ids w) \<and>
   (\<forall>s' \<in> set (sw_shares (fold (\<lambda>sid w. notify_revoked sid (revoke_deleted sid w)) ids w)).
      \<exists>s \<in> set (sw_shares w). later_share s s' \<and> (sh_id s \<in> set ids \<longrightarrow> sh_revoked s' \<noteq> None))"
proof (induction ids arbitrary: w)
  case Nil
  then show ?case by (auto simp: same_but_shares_def later_share_def)
next
  case (Cons sid ids)
  let ?w1 = "notify_revoked sid (revoke_deleted sid w)"
  let ?w2 = "fold (\<lambda>sid w. notify_revoked sid (revoke_deleted sid w)) ids ?w1"
  have "same_but_shares w ?w1"
    by (simp add: same_but_shares_def notify_revoked_def revoke_deleted_def split: option.split)
  moreover have first: "\<exists>s \<in> set (sw_shares w). later_share s s1 \<and> (sh_id s = sid \<longrightarrow> sh_revoked s1 \<noteq> None)"
    if "s1 \<in> set (sw_shares ?w1)" for s1
    using that by (auto simp: revoke_deleted_shares later_share_def split: if_splits)
  moreover have "\<exists>s \<in> set (sw_shares w). later_share s s' \<and> (sh_id s \<in> set (sid # ids) \<longrightarrow> sh_revoked s' \<noteq> None)"
    if s': "s' \<in> set (sw_shares ?w2)" for s'
  proof -
    obtain s1 where s1: "s1 \<in> set (sw_shares ?w1)" "later_share s1 s'" "sh_id s1 \<in> set ids \<longrightarrow> sh_revoked s' \<noteq> None"
      using Cons.IH [of ?w1] s' by blast
    obtain s where s: "s \<in> set (sw_shares w)" "later_share s s1" "sh_id s = sid \<longrightarrow> sh_revoked s1 \<noteq> None"
      using first [OF s1(1)] by blast
    then show ?thesis using s1 by (intro bexI [OF _ s(1)]) (auto simp: later_share_def)
  qed
  ultimately show ?case using Cons.IH [of ?w1] by (simp add: same_but_shares_def)
qed

lemma impacted_ids:
  "sid \<in> set (map fst (impacted key w)) \<longleftrightarrow>
     (\<exists>s \<in> set (sw_shares w). \<exists>p \<in> set (sw_projects w). sh_id s = sid \<and> pj_id p = sh_project s \<and> sh_revoked s = None \<and>
        pj_active p \<and> (share_root s p = key \<or> starts_with (share_root s p) (prefixFor key)))"
  by (force simp: impacted_def Let_def)

text \<open>No live share of an active project lies at or under the key.\<close>

definition unshared :: "ustring \<Rightarrow> 'x share_world_scheme \<Rightarrow> bool" where
  "unshared key w \<longleftrightarrow> (\<forall>s \<in> set (sw_shares w). \<forall>p \<in> set (sw_projects w). pj_id p = sh_project s \<longrightarrow> pj_active p \<longrightarrow>
     share_root s p = key \<or> starts_with (share_root s p) (prefixFor key) \<longrightarrow> sh_revoked s \<noteq> None)"

lemma revoked_unshared:
  "unshared key (fold (\<lambda>sid w. notify_revoked sid (revoke_deleted sid w)) (map fst (impacted key w)) w)"
  (is "unshared key ?w'")
  unfolding unshared_def
proof (intro ballI impI)
  fix s' p assume s': "s' \<in> set (sw_shares ?w')" and p: "p \<in> set (sw_projects ?w')" "pj_id p = sh_project s'" "pj_active p"
    and root: "share_root s' p = key \<or> starts_with (share_root s' p) (prefixFor key)"
  obtain s where s: "s \<in> set (sw_shares w)" "later_share s s'" "sh_id s \<in> set (map fst (impacted key w)) \<longrightarrow> sh_revoked s' \<noteq> None"
    using revoke_fold [of w "map fst (impacted key w)"] s' by blast
  have projects: "sw_projects ?w' = sw_projects w"
    using revoke_fold [of w "map fst (impacted key w)"] by (simp add: same_but_shares_def)
  show "sh_revoked s' \<noteq> None"
  proof (cases "sh_revoked s = None")
    case True
    have "sh_id s \<in> set (map fst (impacted key w))"
      unfolding impacted_ids using s(1,2) p root True projects
      by (intro bexI [of _ s] bexI [of _ p]) (auto simp: later_share_def share_root_def)
    then show ?thesis using s(3) by simp
  next
    case False
    then show ?thesis using s(2) by (simp add: later_share_def)
  qed
qed

lemma revoke_counter:
  "fold (\<lambda>sid w. notify_revoked sid (revoke_deleted sid w)) ids (w\<lparr>w_calls := n\<rparr>) =
   (fold (\<lambda>sid w. notify_revoked sid (revoke_deleted sid w)) ids w)\<lparr>w_calls := n\<rparr>"
proof (induction ids arbitrary: w)
  case (Cons sid ids)
  have "notify_revoked sid (revoke_deleted sid (w\<lparr>w_calls := n\<rparr>)) = (notify_revoked sid (revoke_deleted sid w))\<lparr>w_calls := n\<rparr>"
    by (simp add: notify_revoked_def revoke_deleted_def split: option.split)
  then show ?case using Cons.IH by simp
qed simp

lemma outputs_revoke_affected:
  assumes one: "alone sv" and ids: "ids = map fst (impacted key w)"
  shows "\<exists>w'. outputs w (revoke_affected sv tid ids) (Inr ()) w' \<and> same_but_shares w w' \<and> unshared key w'"
proof -
  let ?w' = "fold (\<lambda>sid w. notify_revoked sid (revoke_deleted sid w)) ids w"
  have "outputs w (if ids = [] then ret () else await sv (\<lambda>w. ((), fold (\<lambda>sid w. notify_revoked sid (revoke_deleted sid w)) ids w)))
      (Inr ()) ?w'"
  proof (cases "ids = []")
    case True
    then show ?thesis by (simp add: outputs_ret)
  next
    case False
    have "outputs w (await sv (\<lambda>w. ((), fold (\<lambda>sid w. notify_revoked sid (revoke_deleted sid w)) ids w))) (Inr ()) ?w'"
      by (rule outputs_await [OF one]) (simp add: revoke_counter)
    with False show ?thesis by simp
  qed
  then have "outputs w (revoke_affected sv tid ids) (Inr ()) ?w'" unfolding revoke_affected_def by (rule outputs_catch)
  moreover have "same_but_shares w ?w'" using revoke_fold [of w ids] by blast
  ultimately show ?thesis using revoked_unshared [of key w] unfolding ids by blast
qed

subsection \<open>The whole deletion\<close>

text \<open>A folder key without a blank at its start is its own normal form.\<close>

lemma no_double_snoc: "no_double s \<Longrightarrow> List.last s \<noteq> 47 \<Longrightarrow> no_double (s @ [47])"
  by (induction s rule: no_double.induct) auto

lemma normalizePrefix_clean:
  assumes clean: "clean_path lower key" and "\<not> js_space (hd key)" and "92 \<notin> set key"
  shows "normalizePrefix lower (key @ [47]) = Inr (key @ [47])"
proof -
  have key: "key \<noteq> []" "hd key \<noteq> 47" "List.last key \<noteq> 47" using clean_path_nonempty clean_path_ends clean by auto
  have "js_trim (key @ [47]) = key @ [47]"
  proof -
    have "dropWhile js_space (key @ [47]) = key @ [47]" using assms(2) key(1) by (cases key) simp_all
    moreover have "\<not> js_space 47" by (simp add: js_space_def)
    ultimately show ?thesis by (simp add: js_trim_def)
  qed
  moreover have "forward_slashes (key @ [47]) = key @ [47]" using assms(3) by (intro forward_fixed) simp
  moreover have "strip_leading (key @ [47]) = key @ [47]" using key by (intro strip_leading_fixed) simp_all
  moreover have "collapse_slashes (key @ [47]) = key @ [47]"
    by (intro collapse_fixed no_double_snoc clean_no_double [OF clean] key(3))
  ultimately show ?thesis
    using key(1) clean by (simp add: normalizePrefix_def clean_path_def list_all_iff list_ex_iff)
qed

lemma decodeRef_plain: "decodeRef lower v = Inr key \<Longrightarrow> 92 \<notin> set key"
  by (auto simp: decodeRef_eq decodeItemRef_def validateRelativePath_def Let_def split: if_splits option.splits)

text \<open>
  What a deletion leaves: the bucket as it was, one new tombstone over the item with a manifest of every
  object it holds, each row with the identity of a stored object, and no live share under the item.
\<close>

definition moved_to_trash ::
  "ustring \<Rightarrow> bool \<Rightarrow> StaffPrincipal \<Rightarrow> ustring \<Rightarrow> 'x trash_world_scheme \<Rightarrow> 'x trash_world_scheme \<Rightarrow> bool" where
  "moved_to_trash physical isFolder p tid w w' \<longleftrightarrow> w_bucket w' = w_bucket w \<and> w_now w' = w_now w \<and>
     tw_tombstones w' = tw_tombstones w @ [new_tombstone tid physical isFolder p (w_now w)] \<and>
     (\<exists>ids. tw_objects w' = tw_objects w @ map (trash_row_of tid) ids \<and> truthful_snapshot (w_bucket w) ids \<and>
        covers (w_bucket w) (held_by physical isFolder) ids) \<and>
     unshared physical w'"

definition preview_of :: "ustring \<Rightarrow> bool \<Rightarrow> TrashObjectIdentity list \<Rightarrow> 'x share_world_scheme \<Rightarrow> DeletePreview" where
  "preview_of physical isFolder objects w = \<lparr>dp_key = physical, dp_folder = isFolder, dp_typedName = typed_name physical,
     dp_objectCount = length objects, dp_byteCount = sum_list (map ti_size objects), dp_shareCount = length (impacted physical w)\<rparr>"

lemma outputs_preview:
  assumes one: "alone sv" and all: "lists_all sv (w_bucket w)" and key: "decodeRef (pr_lower (sv_paths sv)) itemRef = Inr key"
    and shown: "list_all (\<lambda>t. \<not> trash_hides t key) (tw_tombstones w)" and item: "item_at (w_bucket w) key physical isFolder"
  shows "\<exists>objects. outputs w (resolveTarget sv itemRef) (Inr \<lparr>tg_key = physical, tg_folder = isFolder, tg_objects = objects\<rparr>) w \<and>
    outputs w (previewSourceDelete sv itemRef) (Inr (preview_of physical isFolder objects w)) w \<and>
    list_all (genuine (w_bucket w)) objects \<and> covers (w_bucket w) (held_by physical isFolder) objects"
proof -
  obtain objects where target: "outputs w (resolveTarget sv itemRef)
        (Inr \<lparr>tg_key = physical, tg_folder = isFolder, tg_objects = objects\<rparr>) w"
      and objects: "list_all (genuine (w_bucket w)) objects" "covers (w_bucket w) (held_by physical isFolder) objects"
    using outputs_resolveTarget [OF one all key shown item] by blast
  have count: "outputs w (await sv (\<lambda>w. (length (impacted physical w), w))) (Inr (length (impacted physical w))) w"
    by (rule outputs_read [OF one]) (simp add: impacted_def)
  have "outputs w (previewSourceDelete sv itemRef) (Inr (preview_of physical isFolder objects w)) w"
    unfolding previewSourceDelete_def preview_of_def
    by (rule outputs_bind, rule target, unfold delete_target.select_convs, rule outputs_bind, rule count, rule outputs_ret)
  with target objects show ?thesis by blast
qed

lemma outputs_affected:
  "alone sv \<Longrightarrow> outputs w (await sv (\<lambda>w. (map fst (impacted key w), w))) (Inr (map fst (impacted key w))) w"
  by (rule outputs_read) (simp_all add: impacted_def)

lemma physical_normal:
  assumes "decodeRef lower itemRef = Inr key" and "\<not> js_space (hd key)" and "item_at b key physical isFolder"
  shows "(if isFolder then normalizePrefix lower physical else Inr physical) = Inr physical"
  using assms(3) normalizePrefix_clean [OF decodeRef_clean [OF assms(1)] assms(2) decodeRef_plain [OF assms(1)]]
  by (auto simp: item_at_def split: if_splits)

lemma outputs_executeSourceDelete:
  assumes one: "alone sv" and all: "lists_all sv (w_bucket w)" and key: "decodeRef (pr_lower (sv_paths sv)) itemRef = Inr key"
    and plain: "\<not> js_space (hd key)" and shown: "list_all (\<lambda>t. \<not> trash_hides t key) (tw_tombstones w)"
    and item: "item_at (w_bucket w) key physical isFolder" and ok: "accepts (sv_uuid sv (w_minted w)) physical w"
  shows "\<exists>preview w'. outputs w (executeSourceDelete sv p itemRef (Text (typed_name physical))) (Inr preview) w' \<and>
    moved_to_trash physical isFolder p (sv_uuid sv (w_minted w)) w w'"
proof -
  let ?tid = "sv_uuid sv (w_minted w)"
  obtain objects where target: "outputs w (resolveTarget sv itemRef)
        (Inr \<lparr>tg_key = physical, tg_folder = isFolder, tg_objects = objects\<rparr>) w"
      and preview: "outputs w (previewSourceDelete sv itemRef) (Inr (preview_of physical isFolder objects w)) w"
      and objects: "list_all (genuine (w_bucket w)) objects" "covers (w_bucket w) (held_by physical isFolder) objects"
    using outputs_preview [OF one all key shown item] by blast
  note affected = outputs_affected [OF one, of w physical]
  obtain ids where ids: "outputs w (delete_manifest sv physical isFolder objects) (Inr ids) w" "truthful_snapshot (w_bucket w) ids"
      "ti_key ` set objects \<subseteq> ti_key ` set ids"
    using outputs_delete_manifest [OF one all objects(1)] by blast
  note physical = physical_normal [OF key plain item]
  have sizes: "distinct (map ti_key ids)" "list_all (\<lambda>i. 0 \<le> ti_size i) ids"
    using ids(2) by (auto simp: truthful_snapshot_def list_all_iff genuine_def split: option.splits)
  let ?w1 = "entombed ?tid physical isFolder p ids w"
  obtain row where row: "outputs w (createTombstone sv p physical isFolder ids) (Inr row) ?w1" "tb_id row = ?tid" "tb_key row = physical"
    using outputs_createTombstone [OF one ok physical sizes] by blast
  let ?e = "if isFolder then Remove_thumbnails physical else Remove_thumbnail physical None"
  let ?w2 = "?w1\<lparr>w_outbox := w_outbox ?w1 @ [?e]\<rparr>"
  have "map fst (impacted physical w) = map fst (impacted physical ?w2)" by (simp add: impacted_def entombed_def)
  then obtain w3 where w3: "outputs ?w2 (revoke_affected sv ?tid (map fst (impacted physical w))) (Inr ()) w3"
      "same_but_shares ?w2 w3" "unshared physical w3"
    using outputs_revoke_affected [OF one] by blast
  let ?w4 = "w3\<lparr>w_outbox := w_outbox w3 @ [Audit ''delivery.source_deleted'' physical]\<rparr>"
  have "outputs w (executeSourceDelete sv p itemRef (Text (typed_name physical))) (Inr ((preview_of physical isFolder objects w)\<lparr>dp_key := physical\<rparr>)) ?w4"
    unfolding executeSourceDelete_def
    by (rule outputs_bind, rule preview,
        simp only: validateDeleteConfirmation_def preview_of_def DeletePreview.select_convs simp_thms if_True bind_lift,
        rule outputs_bind, rule target,
        simp only: delete_target.select_convs simp_thms if_False,
        rule outputs_bind, rule affected,
        rule outputs_bind, rule ids(1),
        rule outputs_bind, rule row(1),
        rule outputs_bind, rule outputs_send [OF one],
        rule outputs_bind, simp only: row(2), rule w3(1),
        rule outputs_bind, rule outputs_send [OF one],
        simp only: row(3), rule outputs_ret)
  moreover have "moved_to_trash physical isFolder p ?tid w ?w4"
  proof -
    have "covers (w_bucket w) (held_by physical isFolder) ids"
      using objects(2) ids(3) unfolding covers_def by (metis (no_types, lifting) image_iff subsetD)
    moreover have "unshared physical ?w4" using w3(3) by (simp add: unshared_def)
    ultimately show ?thesis using w3(2) ids(2) by (auto simp: moved_to_trash_def same_but_shares_def entombed_def)
  qed
  ultimately show ?thesis by blast
qed

text \<open>
  A folder that is in the trash already: its key without the slash is not found hidden, so everything
  goes on as for an item that is there, up to the unique index over the active tombstones.
\<close>

lemma outputs_second_delete:
  assumes one: "alone sv" and all: "lists_all sv (w_bucket w)" and key: "decodeRef (pr_lower (sv_paths sv)) itemRef = Inr key"
    and plain: "\<not> js_space (hd key)" and shown: "list_all (\<lambda>t. \<not> trash_hides t key) (tw_tombstones w)"
    and item: "item_at (w_bucket w) key physical True" and t: "t \<in> set (tw_tombstones w)" "tb_key t = physical" "tb_restored t = None"
  shows "outputs w (executeSourceDelete sv p itemRef (Text (typed_name physical)))
    (Inl (Failed ''UNIQUE constraint failed: delivery_tombstones'')) (w\<lparr>w_minted := Suc (w_minted w)\<rparr>)"
proof -
  obtain objects where target: "outputs w (resolveTarget sv itemRef)
        (Inr \<lparr>tg_key = physical, tg_folder = True, tg_objects = objects\<rparr>) w"
      and preview: "outputs w (previewSourceDelete sv itemRef) (Inr (preview_of physical True objects w)) w"
      and objects: "list_all (genuine (w_bucket w)) objects" "covers (w_bucket w) (held_by physical True) objects"
    using outputs_preview [OF one all key shown item] by blast
  note affected = outputs_affected [OF one, of w physical]
  obtain ids where ids: "outputs w (delete_manifest sv physical True objects) (Inr ids) w"
    using outputs_delete_manifest [OF one all objects(1)] by blast
  note physical = physical_normal [OF key plain item]
  let ?w1 = "w\<lparr>w_minted := Suc (w_minted w)\<rparr>"
  have now: "outputs ?w1 js_now (Inr (w_now w * 1000)) ?w1" using outputs_now [of ?w1] by simp
  have refused: "outputs ?w1 (await_db sv (insert_tombstone row)) (Inl (Failed ''UNIQUE constraint failed: delivery_tombstones'')) ?w1"
    if "tb_key row = physical" "tb_restored row = None" for row
    by (rule outputs_await_db [OF one]) (use t that in \<open>auto simp: insert_tombstone_def list_ex_iff\<close>)
  have create: "outputs w (createTombstone sv p physical True ids) (Inl (Failed ''UNIQUE constraint failed: delivery_tombstones'')) ?w1"
    unfolding createTombstone_def physical bind_lift Let_def
    by (rule outputs_bind, rule outputs_fresh, rule outputs_bind, rule now, rule outputs_bind_fault, rule refused) simp_all
  show ?thesis
    unfolding executeSourceDelete_def
    by (rule outputs_bind, rule preview,
        simp only: validateDeleteConfirmation_def preview_of_def DeletePreview.select_convs simp_thms if_True bind_lift,
        rule outputs_bind, rule target, simp only: delete_target.select_convs simp_thms if_False,
        rule outputs_bind, rule affected, rule outputs_bind, rule ids(1), rule outputs_bind_fault, rule create)
qed

end
