(* ===== verification/Trash_Properties.thy ===== *)
theory Trash_Properties
  imports Trash_Safety Delete_Correct R2_Samples
begin

section \<open>Properties of deletion and trash\<close>

text \<open>
  A purge deletes nothing but what an expired tombstone lists with its identity; a deletion hides an
  item with everything it holds and revokes what shows it; and a folder in the trash is not noticed.
\<close>

subsection \<open>A small bucket\<close>

definition listing_services :: "ustring list \<Rightarrow> 'x world_scheme services" where
  "listing_services keys = (sample_services (\<lambda>_. Served))\<lparr>sv_list := (\<lambda>b prefix limit cursor start.
     \<lparr>rp_objects = List.map_filter b (filter (\<lambda>k. starts_with k prefix) keys), rp_truncated = False, rp_cursor = None\<rparr>)\<rparr>"

definition trash_sample :: "(ustring \<times> byte list) list \<Rightarrow> tombstone_row list \<Rightarrow> trash_row list \<Rightarrow> trash_world" where
  "trash_sample objs tombstones rows = \<lparr>w_bucket = (\<lambda>k. map_option (sample_object k) (map_of objs k)),
     w_index = \<lparr>ix_rows = (\<lambda>_. None), ix_revisions = (\<lambda>_. None)\<rparr>, w_locations = [], w_recovery = [], w_suppressions = [],
     w_folders = [], w_outbox = [], w_now = 1000000, w_calls = 0, w_minted = 0, sw_shares = [], sw_projects = [],
     tw_tombstones = tombstones, tw_objects = rows, tw_aliases = [], tw_artifacts = [], tw_recipients = (\<lambda>_. None),
     tw_notifications = []\<rparr>"

lemma listing_alone: "alone (listing_services keys)"
  by (simp add: alone_def listing_services_def sample_services_def)

lemma listing_all: "set (map fst objs) \<subseteq> set keys \<Longrightarrow> lists_all (listing_services keys) (w_bucket (trash_sample objs ts rs))"
proof -
  assume keys: "set (map fst objs) \<subseteq> set keys"
  let ?b = "w_bucket (trash_sample objs ts rs)" and ?sv = "listing_services keys"
  have "lists ?sv ?b prefix None (sv_fuel ?sv) (rp_objects (sv_list ?sv ?b prefix 1000 None None))" for prefix
    using lists.last_page [of _ ?sv ?b prefix None 9]
    by (simp add: listing_services_def sample_services_def page_cursor_def)
  moreover have "set (rp_objects (sv_list ?sv ?b prefix 1000 None None)) = {obj. \<exists>k. ?b k = Some obj \<and> starts_with k prefix}" for prefix
    using keys by (force simp: listing_services_def in_set_map_filter trash_sample_def dest: map_of_SomeD)
  ultimately have "\<forall>prefix. \<exists>objs. lists ?sv ?b prefix None (sv_fuel ?sv) objs \<and>
      set objs = {obj. \<exists>k. ?b k = Some obj \<and> starts_with k prefix}" by blast
  moreover have "\<forall>k obj. ?b k = Some obj \<longrightarrow> r2_key obj = k" by (auto simp: trash_sample_def sample_object_def)
  ultimately show ?thesis unfolding lists_all_def by blast
qed

definition old_tombstone :: "ustring \<Rightarrow> trash_kind \<Rightarrow> int option \<Rightarrow> tombstone_row" where
  "old_tombstone key kind restored = \<lparr>tb_id = [116], tb_key = key, tb_kind = kind, tb_deleted_by = [97], tb_deleted_at = 0,
     tb_purge_after = Some 5000, tb_purging = None, tb_restored_by = None, tb_restored = restored, tb_manifested = Some 0,
     tb_blocked = None\<rparr>"

definition deleting_staff :: StaffPrincipal where
  "deleting_staff = \<lparr>sp_id = [115], sp_email = [101], sp_display = [83]\<rparr>"

definition old_row :: "ustring \<Rightarrow> byte list \<Rightarrow> trash_row" where
  "old_row key body = \<lparr>ti_key = key, ti_etag = map unat body, ti_size = int (length body), ti_relation = Source_object,
     tr_tombstone = [116], tr_purged = None\<rparr>"

subsection \<open>What a purge spares\<close>

text \<open>
  C6: An object stays in the bucket through every run of the purge, under every interleaving with other
  actors that leave it alone and under every failure of a call, unless an unrestored tombstone whose
  retention is over lists it with its etag and size; restoring a tombstone keeps it spared as well.
\<close>

theorem purge_spares_objects:
  assumes turns: "turns_keep sv (spared key obj K T)" and start: "spared key obj K T w"
  shows "w_bucket (snd (purgeTrash sv w)) key = Some obj \<and> spared key obj K T (snd (purgeTrash sv w)) \<and>
    spared key obj K T (snd (restoreTombstone sv p tid w))"
proof -
  have "spared key obj K T (snd (purgeTrash sv w))"
    using keeps_snd [OF supports_keeps [OF supports_purgeTrash [OF turns]] start] .
  moreover have "spared key obj K T (snd (restoreTombstone sv p tid w))"
    using keeps_snd [OF supports_keeps [OF supports_restore [OF turns]] start] .
  ultimately show ?thesis by (simp add: spared_def)
qed

theorem purge_spares_objects_witness:
  "\<exists>w :: trash_world. (\<exists>r \<in> set (tw_objects w). ti_key r = [97]) \<and>
     w_bucket (snd (purgeTrash (listing_services [[97]]) w)) [97] = Some (sample_object [97] [1])"
proof -
  let ?w = "trash_sample [([97], [1])] [old_tombstone [97] Exact (Some 4000)] [old_row [97] [1]]"
  have turns: "turns_keep (listing_services [[97]]) (spared [97] (sample_object [97] [1]) {[116]} 2000000)"
    by (simp add: turns_keep_def listing_services_def sample_services_def)
  have "spared [97] (sample_object [97] [1]) {[116]} 2000000 ?w"
    by (simp add: spared_def trash_sample_def old_tombstone_def old_row_def)
  from purge_spares_objects [OF turns this] have
    "w_bucket (snd (purgeTrash (listing_services [[97]]) ?w)) [97] = Some (sample_object [97] [1])" by blast
  moreover have "\<exists>r \<in> set (tw_objects ?w). ti_key r = [97]" by (simp add: trash_sample_def old_row_def)
  ultimately show ?thesis by blast
qed

subsection \<open>What a deletion records\<close>


lemma sample_reference: "decodeRef id (ustr ''ZA'') = Inr [100]"
  by (simp add: decodeRef_def base64url_chars_def ustr_def b64_value_def text_decode_def utf8_decode.simps validateRelativePath_def
      bad_segment_def reservedSegment_def starts_with_def control_char_def)


text \<open>
  C36: When the only tombstone is that of a folder, which is in the trash, and nobody interferes, the
  folder is deleted again up to the insertion of its second tombstone: the check for hidden items
  passes, because it is made for the key without the slash, and the unique index over active tombstones
  refuses the row, an internal error instead of the answer for a missing item.
\<close>

theorem trashed_folder_not_noticed:
  assumes one: "alone sv" and all: "lists_all sv (w_bucket w)" and key: "decodeRef (pr_lower (sv_paths sv)) itemRef = Inr key"
    and plain: "\<not> js_space (hd key)" and item: "item_at (w_bucket w) key (key @ [47]) True"
    and only: "tw_tombstones w = [t]" and t: "tb_key t = key @ [47]" "tb_restored t = None"
  shows "(\<forall>k. starts_with k (key @ [47]) \<longrightarrow> tb_kind t = Under \<longrightarrow> trash_hides t k) \<and>
    fst (assertNotTrashed sv key w) = Inr () \<and>
    fst (executeSourceDelete sv p itemRef (Text (typed_name (key @ [47]))) w) =
      Inl (Failed ''UNIQUE constraint failed: delivery_tombstones'')"
proof -
  have shown: "list_all (\<lambda>t. \<not> trash_hides t key) (tw_tombstones w)"
    using only t by (simp add: trash_hides_def starts_with_def)
  have "outputs w (assertNotTrashed sv key) (Inr ()) w" by (rule outputs_not_trashed [OF one shown])
  moreover have "outputs w (executeSourceDelete sv p itemRef (Text (typed_name (key @ [47]))))
      (Inl (Failed ''UNIQUE constraint failed: delivery_tombstones'')) (w\<lparr>w_minted := Suc (w_minted w)\<rparr>)"
    by (rule outputs_second_delete [OF one all key plain shown item _ t]) (simp add: only)
  ultimately show ?thesis using t by (auto simp: trash_hides_def dest!: outputs_run)
qed

theorem trashed_folder_not_noticed_witness:
  "fst (executeSourceDelete (listing_services [[100, 47, 102]]) deleting_staff (ustr ''ZA'') (Text (typed_name [100, 47]))
     (trash_sample [([100, 47, 102], [1])] [old_tombstone [100, 47] Under None] [old_row [100, 47, 102] [1]])) =
   Inl (Failed ''UNIQUE constraint failed: delivery_tombstones'')"
proof -
  let ?w = "trash_sample [([100, 47, 102], [1])] [old_tombstone [100, 47] Under None] [old_row [100, 47, 102] [1]]"
  let ?sv = "listing_services [[100, 47, 102]] :: trash_world services"
  have all: "lists_all ?sv (w_bucket ?w)" by (rule listing_all) simp
  have key: "decodeRef (pr_lower (sv_paths ?sv)) (ustr ''ZA'') = Inr [100]"
    using sample_reference by (simp add: listing_services_def sample_services_def plain_paths_def)
  have item: "item_at (w_bucket ?w) [100] ([100] @ [47]) True"
    by (auto simp: item_at_def trash_sample_def starts_with_def ends_with_def)
  have "\<not> js_space (hd [100])" by (simp add: js_space_def)
  moreover have "tw_tombstones ?w = [old_tombstone [100, 47] Under None]" by (simp add: trash_sample_def)
  ultimately show ?thesis
    using trashed_folder_not_noticed [OF listing_alone all key _ item, of "old_tombstone [100, 47] Under None" deleting_staff]
    by (simp add: old_tombstone_def)
qed

end
