(* ===== verification/Bulk_Jobs.thy ===== *)
theory Bulk_Jobs
  imports Share_Access Bulk_Archive Bulk_Partition
begin

section \<open>Bulk downloads: tables, archives and their identity\<close>

text \<open>
  The tables of \<open>apps/client/migrations/0007\<close>, \<open>0193\<close> and \<open>0196\<close> that the bulk download of a share
  works on, and the statements of \<open>apps/client/src/worker/workflow.ts\<close> and \<open>index.ts\<close> that read and
  write them: jobs, the cache of archives, the generations of archives (a stored archive is active
  until a cleanup claims it for deletion), checksums with the time of their last use, and the
  multipart uploads of the bucket. Times written by the database are seconds, \<open>expires_at\<close> of a job is
  in milliseconds. The bucket keeps the parts of an upload by number, assembles them in the order of
  the list it is given, and refuses an unknown upload or a part that is not there.
\<close>

subsection \<open>Tables\<close>

datatype bulk_status = Bulk_queued | Bulk_running | Bulk_ready | Bulk_failed | Bulk_expired | Bulk_cancelled

record bulk_job =
  bj_id :: ustring
  bj_share :: ustring
  bj_version :: int
  bj_request :: ustring
  bj_status :: bulk_status
  bj_manifest :: ustring
  bj_archive :: ustring
  bj_fingerprint :: "ustring option"
  bj_upload :: "ustring option"
  bj_files :: int
  bj_processed_files :: int
  bj_total :: int
  bj_processed :: int
  bj_size :: "int option"
  bj_error :: "BulkFailure option"
  bj_updated :: int
  bj_expires :: int
  bj_parent :: "ustring option"
  bj_index :: "nat option"
  bj_count :: nat

record cached_archive =
  ac_rowid :: int
  ac_share :: ustring
  ac_version :: int
  ac_fingerprint :: ustring
  ac_key :: ustring
  ac_etag :: ustring
  ac_size :: int
  ac_files :: int
  ac_total :: int
  ac_expires :: int

record archive_generation =
  ag_key :: ustring
  ag_etag :: ustring
  ag_size :: int
  ag_deleting :: bool
  ag_started :: "int option"

datatype cleanup_scope = Deleting_scope | Expired_scope | Orphan_scope

type_synonym upload_parts = "nat \<Rightarrow> (ustring \<times> byte list) option"

text \<open>
  \<open>bw_instances\<close> are the workflow instances with their \<open>prepared\<close> flag; \<open>bw_tombstones\<close> are the
  tombstones that are not restored; \<open>bw_quota\<close> counts the downloads of a share in an hour.
\<close>

record bulk_world = delivery_world +
  bw_jobs :: "bulk_job list"
  bw_cache :: "cached_archive list"
  bw_generations :: "archive_generation list"
  bw_checksums :: "ChecksumRow list"
  bw_used :: "ustring \<times> ustring \<times> int \<Rightarrow> int"
  bw_cursors :: "cleanup_scope \<Rightarrow> ustring option"
  bw_quota :: "(ustring \<times> int \<times> nat) list"
  bw_uploads :: "ustring \<times> ustring \<Rightarrow> upload_parts option"
  bw_instances :: "(ustring \<times> bool) list"
  bw_tombstones :: "DownloadTombstone list"
  bw_aliases :: alias_table

record Requested =
  rq_all :: bool
  rq_items :: "ustring list"

record ResolvedSnapshot = Snapshot +
  rs_fingerprint :: ustring

text \<open>
  What the code takes from its platform: text functions, SHA-256 in hexadecimal, the collation of
  \<open>localeCompare\<close> as the function that sorts with it, the entity tag of an object that was uploaded in
  parts, and \<open>JSON.parse\<close> for the texts it reads.
\<close>

record bulk_runtime =
  br_text :: text_runtime
  br_digest :: "byte list \<Rightarrow> ustring"
  br_collate :: "ustring list \<Rightarrow> ustring list"
  br_multi_etag :: "byte list list \<Rightarrow> ustring"
  br_request :: "ustring \<Rightarrow> Requested option"
  br_snapshot :: "byte list \<Rightarrow> Snapshot option"
  br_resolved :: "byte list \<Rightarrow> ResolvedSnapshot option"

subsection \<open>Keys and fingerprints\<close>

definition BULK_DOWNLOAD_RETENTION_MS :: int where
  "BULK_DOWNLOAD_RETENTION_MS = 7 * 24 * 60 * 60 * 1000"

definition BULK_DOWNLOAD_CACHE_RETENTION_MS :: int where
  "BULK_DOWNLOAD_CACHE_RETENTION_MS = 30 * 24 * 60 * 60 * 1000"

definition finalBulkManifestKey :: "ustring \<Rightarrow> ustring" where
  "finalBulkManifestKey snapshotKey = snapshotKey @ ustr ''.final.json''"

definition resolvedBulkManifestKey :: "ustring \<Rightarrow> ustring" where
  "resolvedBulkManifestKey snapshotKey = snapshotKey @ ustr ''.resolved.json''"

definition fingerprint_source :: "OnePassZipEntry \<Rightarrow> ustring" where
  "fingerprint_source e = json_object
     [(ustr ''key'', json_string (oe_physicalKey e)), (ustr ''name'', json_string (oe_name e)),
      (ustr ''size'', json_int (oe_size e)), (ustr ''etag'', json_string (oe_etag e))]"

definition selection_canonical :: "Snapshot \<Rightarrow> ustring" where
  "selection_canonical s = json_object
     [(ustr ''format'', json_string (ustr ''ltds-zip64-descriptor-v1'')),
      (ustr ''shareId'', json_string (sn_shareId s)), (ustr ''shareVersion'', json_int (sn_shareVersion s)),
      (ustr ''root'', json_string (sn_root s)),
      (ustr ''sources'', json_array (map fingerprint_source (sn_sources s)))]"

definition bulkSelectionFingerprint :: "bulk_runtime \<Rightarrow> Snapshot \<Rightarrow> ustring" where
  "bulkSelectionFingerprint br s = br_digest br (utf8 (selection_canonical s))"

definition cache_prefix :: ustring where "cache_prefix = ustr ''_ltds/bulk-download-cache/''"
definition temporary_prefix :: ustring where "temporary_prefix = ustr ''_ltds/tmp-downloads/''"

definition bulkCacheArtifactKey :: "ustring \<Rightarrow> ustring \<Rightarrow> ustring \<Rightarrow> ustring" where
  "bulkCacheArtifactKey shareId fingerprint jobId =
     cache_prefix @ ustr ''v1/'' @ encodeURIComponent shareId @ 47 # fingerprint @ 47 # jobId @ ustr ''.zip''"

subsection \<open>Calls on the bucket\<close>

definition r2_delete_all :: "ustring list \<Rightarrow> 'x world_scheme \<Rightarrow> unit \<times> 'x world_scheme" where
  "r2_delete_all keys w = ((), w\<lparr>w_bucket := (\<lambda>k. if k \<in> set keys then None else w_bucket w k)\<rparr>)"

definition create_upload ::
  "'w services \<Rightarrow> ustring \<Rightarrow> 'x bulk_world_scheme \<Rightarrow> ustring \<times> 'x bulk_world_scheme" where
  "create_upload sv key w = (let uploadId = sv_uuid sv (w_minted w) in
     (uploadId, w\<lparr>bw_uploads := (bw_uploads w)((key, uploadId) \<mapsto> Map.empty), w_minted := Suc (w_minted w)\<rparr>))"

definition no_such_upload :: fault where "no_such_upload = Failed ''The specified multipart upload does not exist.''"

definition upload_part ::
  "'w services \<Rightarrow> ustring \<Rightarrow> ustring \<Rightarrow> nat \<Rightarrow> byte list \<Rightarrow> 'x bulk_world_scheme \<Rightarrow> (fault + ustring) \<times> 'x bulk_world_scheme" where
  "upload_part sv key uploadId n bytes w =
     (case bw_uploads w (key, uploadId) of
        None \<Rightarrow> (Inl no_such_upload, w)
      | Some parts \<Rightarrow> (Inr (sv_etag sv bytes),
          w\<lparr>bw_uploads := (bw_uploads w)((key, uploadId) \<mapsto> parts(n \<mapsto> (sv_etag sv bytes, bytes)))\<rparr>))"

fun assemble :: "upload_parts \<Rightarrow> (nat \<times> ustring) list \<Rightarrow> byte list list option" where
  "assemble parts [] = Some []"
| "assemble parts ((n, etag) # rest) =
     (case parts n of
        Some (e, bytes) \<Rightarrow> if e = etag then map_option (\<lambda>pieces. bytes # pieces) (assemble parts rest) else None
      | None \<Rightarrow> None)"

definition archive_object :: "'w services \<Rightarrow> bulk_runtime \<Rightarrow> ustring \<Rightarrow> byte list list \<Rightarrow> 'x world_scheme \<Rightarrow> r2_object" where
  "archive_object sv br key pieces w = \<lparr>r2_key = key, r2_body = concat pieces, r2_etag = br_multi_etag br pieces,
     r2_version = sv_version sv (w_minted w), r2_uploaded = w_now w * 1000,
     r2_http = [(ustr ''contentType'', ustr ''application/zip''), (ustr ''contentDisposition'', ustr ''attachment'')], r2_meta = []\<rparr>"

definition complete_upload ::
  "'w services \<Rightarrow> bulk_runtime \<Rightarrow> ustring \<Rightarrow> ustring \<Rightarrow> (nat \<times> ustring) list \<Rightarrow> 'x bulk_world_scheme \<Rightarrow>
   (fault + r2_object) \<times> 'x bulk_world_scheme" where
  "complete_upload sv br key uploadId parts w =
     (case bw_uploads w (key, uploadId) of
        None \<Rightarrow> (Inl no_such_upload, w)
      | Some stored \<Rightarrow> (case assemble stored parts of
          None \<Rightarrow> (Inl (Failed ''One or more of the specified parts could not be found.''), w)
        | Some pieces \<Rightarrow> (let obj = archive_object sv br key pieces w in
            (Inr obj, w\<lparr>w_bucket := (w_bucket w)(key \<mapsto> obj), bw_uploads := (bw_uploads w)((key, uploadId) := None),
               w_minted := Suc (w_minted w)\<rparr>))))"

definition abort_upload :: "ustring \<Rightarrow> ustring \<Rightarrow> 'x bulk_world_scheme \<Rightarrow> (fault + unit) \<times> 'x bulk_world_scheme" where
  "abort_upload key uploadId w =
     (if bw_uploads w (key, uploadId) = None then (Inl no_such_upload, w)
      else (Inr (), w\<lparr>bw_uploads := (bw_uploads w)((key, uploadId) := None)\<rparr>))"

subsection \<open>Statements on jobs\<close>

definition update_jobs ::
  "('x bulk_world_scheme \<Rightarrow> bulk_job \<Rightarrow> bool) \<Rightarrow> (int \<Rightarrow> bulk_job \<Rightarrow> bulk_job) \<Rightarrow> 'x bulk_world_scheme \<Rightarrow> nat \<times> 'x bulk_world_scheme" where
  "update_jobs cond change w =
     (length (filter (cond w) (bw_jobs w)),
      w\<lparr>bw_jobs := map (\<lambda>j. if cond w j then (change (w_now w) j)\<lparr>bj_updated := w_now w\<rparr> else j) (bw_jobs w)\<rparr>)"

definition find_bulk_job :: "ustring \<Rightarrow> 'x bulk_world_scheme \<Rightarrow> bulk_job option" where
  "find_bulk_job jobId w = find (\<lambda>j. bj_id j = jobId) (bw_jobs w)"

text \<open>\<open>datetime(expires_at)\<close> is a whole second.\<close>

definition expiry_second :: "bulk_job \<Rightarrow> int" where
  "expiry_second j = bj_expires j div 1000"

definition unfinished :: "bulk_job \<Rightarrow> bool" where
  "unfinished j \<longleftrightarrow> bj_status j \<in> {Bulk_queued, Bulk_running}"

definition claims_archive :: "bulk_job \<Rightarrow> bool" where
  "claims_archive j \<longleftrightarrow> unfinished j \<or> bj_status j = Bulk_ready"

text \<open>
  The trigger over parts, the primary key and the unique index over parent and part: an insertion that
  breaks the trigger fails, one that meets a present row is ignored.
\<close>

definition part_refused :: "bulk_job list \<Rightarrow> bulk_job \<Rightarrow> bool" where
  "part_refused jobs j \<longleftrightarrow> (bj_parent j \<noteq> None \<or> bj_index j \<noteq> None) \<and>
     (bj_parent j = None \<or> bj_index j = None \<or> bj_parent j = Some (bj_id j) \<or> bj_count j \<le> 1 \<or>
      the (bj_index j) > bj_count j \<or>
      \<not> list_ex (\<lambda>p. bj_parent j = Some (bj_id p) \<and> bj_parent p = None \<and> bj_share p = bj_share j \<and> bj_version p = bj_version j) jobs)"

definition part_error :: "bulk_job \<Rightarrow> fault" where
  "part_error j = Failed
     (if bj_parent j = None \<or> bj_index j = None \<or> bj_parent j = Some (bj_id j) then ''bulk_download_part_identity_invalid''
      else if bj_count j \<le> 1 \<or> the (bj_index j) > bj_count j then ''bulk_download_part_count_invalid''
      else ''bulk_download_part_parent_invalid'')"

definition same_job :: "bulk_job \<Rightarrow> bulk_job \<Rightarrow> bool" where
  "same_job j k \<longleftrightarrow> bj_id j = bj_id k \<or> (bj_parent j \<noteq> None \<and> bj_parent j = bj_parent k \<and> bj_index j = bj_index k)"

definition insert_job_or_ignore :: "bulk_job \<Rightarrow> 'x bulk_world_scheme \<Rightarrow> (fault + unit) \<times> 'x bulk_world_scheme" where
  "insert_job_or_ignore j w =
     (if part_refused (bw_jobs w) j then (Inl (part_error j), w)
      else if list_ex (same_job j) (bw_jobs w) then (Inr (), w)
      else (Inr (), w\<lparr>bw_jobs := bw_jobs w @ [j]\<rparr>))"

subsection \<open>Statements on cached archives and generations\<close>

definition cache_names :: "ustring \<Rightarrow> int \<Rightarrow> ustring \<Rightarrow> cached_archive \<Rightarrow> bool" where
  "cache_names share version fingerprint c \<longleftrightarrow> ac_share c = share \<and> ac_version c = version \<and> ac_fingerprint c = fingerprint"

definition cache_holds :: "ustring \<Rightarrow> ustring \<Rightarrow> int \<Rightarrow> cached_archive \<Rightarrow> bool" where
  "cache_holds key etag len c \<longleftrightarrow> ac_key c = key \<and> ac_etag c = etag \<and> ac_size c = len"

definition generation_is :: "ustring \<Rightarrow> ustring \<Rightarrow> int \<Rightarrow> archive_generation \<Rightarrow> bool" where
  "generation_is key etag len g \<longleftrightarrow> ag_key g = key \<and> ag_etag g = etag \<and> ag_size g = len"

definition active_generation :: "'x bulk_world_scheme \<Rightarrow> ustring \<Rightarrow> ustring \<Rightarrow> int \<Rightarrow> bool" where
  "active_generation w key etag len \<longleftrightarrow> list_ex (\<lambda>g. generation_is key etag len g \<and> \<not> ag_deleting g) (bw_generations w)"

text \<open>\<open>INSERT ... ON CONFLICT(archive_key) DO UPDATE ... WHERE state='active'\<close>.\<close>

definition upsert_generation :: "ustring \<Rightarrow> ustring \<Rightarrow> int \<Rightarrow> 'x bulk_world_scheme \<Rightarrow> nat \<times> 'x bulk_world_scheme" where
  "upsert_generation key etag len w =
     (if list_ex (\<lambda>g. ag_key g = key) (bw_generations w) then
        (length (filter (\<lambda>g. ag_key g = key \<and> \<not> ag_deleting g) (bw_generations w)),
         w\<lparr>bw_generations := map (\<lambda>g. if ag_key g = key \<and> \<not> ag_deleting g then g\<lparr>ag_etag := etag, ag_size := len\<rparr> else g)
             (bw_generations w)\<rparr>)
      else (1, w\<lparr>bw_generations := bw_generations w @
        [\<lparr>ag_key = key, ag_etag = etag, ag_size = len, ag_deleting = False, ag_started = None\<rparr>]\<rparr>))"

text \<open>
  \<open>INSERT ... ON CONFLICT(share_id,share_version,selection_fingerprint) DO UPDATE\<close>; the key of an archive
  is unique over the rows. A new row has the next row number.
\<close>

definition upsert_cache :: "cached_archive \<Rightarrow> 'x bulk_world_scheme \<Rightarrow> fault + 'x bulk_world_scheme" where
  "upsert_cache c w =
     (let same = cache_names (ac_share c) (ac_version c) (ac_fingerprint c) in
      if list_ex (\<lambda>r. ac_key r = ac_key c \<and> \<not> same r) (bw_cache w)
      then Inl (Failed ''UNIQUE constraint failed: bulk_download_archive_cache.archive_key'')
      else if list_ex same (bw_cache w)
      then Inr (w\<lparr>bw_cache := map (\<lambda>r. if same r then c\<lparr>ac_rowid := ac_rowid r\<rparr> else r) (bw_cache w)\<rparr>)
      else Inr (w\<lparr>bw_cache := bw_cache w @ [c\<lparr>ac_rowid := 1 + foldl max 0 (map ac_rowid (bw_cache w))\<rparr>]\<rparr>))"

subsection \<open>Steps of the workflow engine\<close>

text \<open>
  \<open>step.do\<close>: the body runs, and is run again after an error as often as the limit says; when the engine
  loses the outcome of a body that succeeded, the body runs again as well. The engine's own limit is
  five. A sleep lets the other actors act. The engine does not restart a run.
\<close>

definition DEFAULT_STEP_RETRIES :: nat where "DEFAULT_STEP_RETRIES = 5"

definition checkpointed :: "'x world_scheme services \<Rightarrow> ('x world_scheme, 'a) io \<Rightarrow> ('x world_scheme, 'a) io" where
  "checkpointed sv body = bind_io body (\<lambda>x. bind_io (await sv (\<lambda>w. ((), w))) (\<lambda>_. ret x))"

fun step_do :: "'x world_scheme services \<Rightarrow> nat \<Rightarrow> ('x world_scheme, 'a) io \<Rightarrow> ('x world_scheme, 'a) io" where
  "step_do sv 0 body = checkpointed sv body"
| "step_do sv (Suc n) body = catch_io (checkpointed sv body) (\<lambda>_. step_do sv n body)"

definition step_sleep :: "'x world_scheme services \<Rightarrow> ('x world_scheme, unit) io" where
  "step_sleep sv = await sv (\<lambda>w. ((), w))"

text \<open>The errors of the archive code, and \<open>error.message\<close>.\<close>

definition failing :: "failure + 'a \<Rightarrow> fault + 'a" where
  "failing r = (case r of
     Inr x \<Rightarrow> Inr x | Inl (Throws m) \<Rightarrow> Inl (Failed m) | Inl Diverges \<Rightarrow> Inl (Failed ''fuel''))"

fun error_message :: "fault \<Rightarrow> string" where
  "error_message (Http n m) = m"
| "error_message (Failed m) = m"

definition readJson ::
  "'x world_scheme services \<Rightarrow> (byte list \<Rightarrow> 'a option) \<Rightarrow> ustring \<Rightarrow> ('x world_scheme, 'a) io" where
  "readJson sv parse key =
     bind_io (await sv (r2_get key Unconditional)) (\<lambda>got. case got of
       Body obj \<Rightarrow> (case parse (r2_body obj) of Some v \<Rightarrow> ret v | None \<Rightarrow> raise (Failed ''Unexpected token in JSON''))
     | _ \<Rightarrow> raise (Failed ''workflow-manifest-missing''))"

section \<open>Bulk downloads: what was selected\<close>

text \<open>
  \<open>snapshot\<close> of \<open>apps/client/src/worker/workflow.ts\<close>: the files that a request selects from a share,
  with sizes, entity tags and display paths; and the manifests that a job keeps in the bucket. The
  listing of a whole share and the alias look-ups are each one call here, so they see one state.
\<close>

subsection \<open>The share\<close>

definition unexpired :: "int \<Rightarrow> public_share \<Rightarrow> bool" where
  "unexpired now s \<longleftrightarrow> (case ps_expires s of None \<Rightarrow> True | Some None \<Rightarrow> False | Some (Some t) \<Rightarrow> t div 1000 > now)"

definition share_open :: "'x delivery_world_scheme \<Rightarrow> bulk_job \<Rightarrow> public_share \<Rightarrow> bool" where
  "share_open w job s \<longleftrightarrow> ps_id s = bj_share job \<and> ps_version s = bj_version job \<and> ps_revoked s = None \<and>
     active_project w s \<and> unexpired (w_now w) s"

definition read_share ::
  "'x bulk_world_scheme services \<Rightarrow> bulk_job \<Rightarrow> ('x bulk_world_scheme, public_share) io" where
  "read_share sv job =
     bind_io (await sv (\<lambda>w. (find (share_open w job) (dw_shares w), w))) (\<lambda>found.
     case found of None \<Rightarrow> raise (Failed ''share-revoked'') | Some share \<Rightarrow> ret share)"

subsection \<open>Collecting files\<close>

definition isTrashed :: "DownloadTombstone list \<Rightarrow> ustring \<Rightarrow> bool" where
  "isTrashed tombstones key \<longleftrightarrow> isDownloadTombstoned tombstones key"

definition file_of :: "ustring \<Rightarrow> r2_object \<Rightarrow> DownloadableObject" where
  "file_of key obj = \<lparr>do_key = key, do_size = int (length (r2_body obj)), do_etag = r2_etag obj\<rparr>"

text \<open>The bucket as \<open>listDownloadableObjects\<close> reads it, and the files of the whole share.\<close>

definition list_calls :: "'w services \<Rightarrow> (ustring \<Rightarrow> r2_object option) \<Rightarrow> list_call" where
  "list_calls sv b prefix delimited cursor = (let page = sv_list sv b prefix 1000 cursor None in
     \<lparr>pg_objects = map as_listed (rp_objects page), pg_prefixes = [], pg_truncated = rp_truncated page,
      pg_cursor = rp_cursor page\<rparr>)"

definition whole_share ::
  "'x bulk_world_scheme services \<Rightarrow> ustring \<Rightarrow> DownloadTombstone list \<Rightarrow> ('x bulk_world_scheme, DownloadableObject list) io" where
  "whole_share sv root tombstones =
     bind_io (await sv (\<lambda>w. (listDownloadableObjects (list_calls sv (w_bucket w)) (pr_lower (sv_paths sv)) root tombstones, w))) (\<lambda>found.
     case found of None \<Rightarrow> raise (Failed ''fuel'') | Some r \<Rightarrow> lift r)"

text \<open>The loop over the references: a file is set in the map, anything else is a folder to list.\<close>

fun select_items ::
  "'x bulk_world_scheme services \<Rightarrow> ustring \<Rightarrow> DownloadTombstone list \<Rightarrow> ustring list \<Rightarrow> DownloadableObject list \<times> ustring list \<Rightarrow>
   ('x bulk_world_scheme, DownloadableObject list \<times> ustring list) io" where
  "select_items sv root tombstones [] st = ret st"
| "select_items sv root tombstones (ref # refs) (files, prefixes) =
     bind_io (lift (decodeItemRef (pr_lower (sv_paths sv)) ref)) (\<lambda>relative.
     bind_io (lift (keyWithinRoot (pr_lower (sv_paths sv)) root relative)) (\<lambda>key.
     if isTrashed tombstones key then select_items sv root tombstones refs (files, prefixes)
     else
       bind_io (await sv (r2_head key)) (\<lambda>head.
       let folder = (if ends_with key [47] then key else key @ [47]);
           as_folder = (files, if folder \<in> set prefixes then prefixes else prefixes @ [folder]) in
       select_items sv root tombstones refs
         (case head of
            None \<Rightarrow> as_folder
          | Some obj \<Rightarrow> if \<not> ends_with key [47] \<and> \<not> moved_marker obj then (set_file (file_of key obj) files, prefixes)
                        else as_folder))))"

definition folder_shows :: "(ustring \<Rightarrow> ustring) \<Rightarrow> DownloadTombstone list \<Rightarrow> r2_object \<Rightarrow> bool" where
  "folder_shows lower tombstones obj \<longleftrightarrow> \<not> ends_with (r2_key obj) [47] \<and> \<not> isHiddenKey lower (r2_key obj) \<and>
     \<not> isTrashed tombstones (r2_key obj) \<and> \<not> moved_marker obj"

definition add_page :: "(ustring \<Rightarrow> ustring) \<Rightarrow> DownloadTombstone list \<Rightarrow> r2_page \<Rightarrow> DownloadableObject list \<Rightarrow> DownloadableObject list" where
  "add_page lower tombstones page files =
     fold (\<lambda>obj. set_file (file_of (r2_key obj) obj)) (filter (folder_shows lower tombstones) (rp_objects page)) files"

fun folder_files ::
  "'x bulk_world_scheme services \<Rightarrow> DownloadTombstone list \<Rightarrow> ustring \<Rightarrow> nat \<Rightarrow> ustring option \<Rightarrow> DownloadableObject list \<Rightarrow>
   ('x bulk_world_scheme, DownloadableObject list) io" where
  "folder_files sv tombstones prefix 0 cursor files = raise (Failed ''fuel'')"
| "folder_files sv tombstones prefix (Suc n) cursor files =
     bind_io (await sv (r2_list sv prefix 1000 cursor None)) (\<lambda>page.
     let files = add_page (pr_lower (sv_paths sv)) tombstones page files in
     case page_cursor page of None \<Rightarrow> ret files | Some c \<Rightarrow> folder_files sv tombstones prefix n (Some c) files)"

fun folders_files ::
  "'x bulk_world_scheme services \<Rightarrow> DownloadTombstone list \<Rightarrow> ustring list \<Rightarrow> DownloadableObject list \<Rightarrow>
   ('x bulk_world_scheme, DownloadableObject list) io" where
  "folders_files sv tombstones [] files = ret files"
| "folders_files sv tombstones (prefix # prefixes) files =
     bind_io (folder_files sv tombstones prefix (sv_fuel sv) None files) (folders_files sv tombstones prefixes)"

subsection \<open>The snapshot\<close>

definition file_named :: "DownloadableObject list \<Rightarrow> ustring \<Rightarrow> DownloadableObject" where
  "file_named files key = the (find (\<lambda>f. do_key f = key) files)"

definition source_of :: "DownloadableObject list \<Rightarrow> ustring \<Rightarrow> (ustring \<Rightarrow> ustring option) \<Rightarrow> ustring \<Rightarrow> OnePassZipEntry" where
  "source_of files root aliases key = (let f = file_named files key in
     \<lparr>oe_key = key, oe_physicalKey = key, oe_name = displayPath key root aliases, oe_size = do_size f, oe_etag = do_etag f,
      oe_crc32 = None\<rparr>)"

definition name_sources ::
  "'x bulk_world_scheme services \<Rightarrow> bulk_runtime \<Rightarrow> ustring \<Rightarrow> DownloadableObject list \<Rightarrow> ('x bulk_world_scheme, OnePassZipEntry list) io" where
  "name_sources sv br root files =
     (let keys = br_collate br (map do_key files) in
      if keys = [] then raise (Failed ''empty-selection'')
      else
        bind_io (lift (failing (aliasKeysForPhysicalKeys MANIFEST_MAX_BYTES keys))) (\<lambda>aliasKeys.
        if length (planAliasLookupBatches aliasKeys) + 3 > D1_QUERY_LIMIT - D1_QUERY_RESERVE
        then raise (Failed ''d1-query-capacity'')
        else
          bind_io (await sv (\<lambda>w. (loadAliases (bw_aliases w) aliasKeys, w))) (\<lambda>aliases.
          ret (map (source_of files root aliases) keys))))"

definition selected_files ::
  "'x bulk_world_scheme services \<Rightarrow> ustring \<Rightarrow> DownloadTombstone list \<Rightarrow> Requested \<Rightarrow> ('x bulk_world_scheme, DownloadableObject list) io" where
  "selected_files sv root tombstones request =
     bind_io (if rq_all request then whole_share sv root tombstones else ret []) (\<lambda>files.
     bind_io (select_items sv root tombstones (rq_items request) (files, [])) (\<lambda>(files, prefixes).
     folders_files sv tombstones prefixes files))"

definition snapshot ::
  "'x bulk_world_scheme services \<Rightarrow> bulk_runtime \<Rightarrow> bulk_job \<Rightarrow> ('x bulk_world_scheme, Snapshot) io" where
  "snapshot sv br job =
     bind_io (read_share sv job) (\<lambda>share.
     bind_io (await sv (\<lambda>w. (bw_tombstones w, w))) (\<lambda>tombstones.
     case br_request br (bj_request job) of
       None \<Rightarrow> raise (Failed ''Unexpected token in JSON'')
     | Some request \<Rightarrow>
         (case ps_prefix share of
            None \<Rightarrow> raise (Failed ''Cannot read properties of null'')
          | Some prefix \<Rightarrow>
              bind_io (lift (normalizeRoot (pr_lower (sv_paths sv)) prefix)) (\<lambda>root.
              bind_io (selected_files sv root tombstones request) (\<lambda>files.
              bind_io (name_sources sv br root files) (\<lambda>sources.
              ret \<lparr>sn_root = root, sn_shareId = ps_id share, sn_shareVersion = ps_version share, sn_sources = sources\<rparr>))))))"

subsection \<open>The manifests\<close>

definition resolved_source_json :: "OnePassZipEntry \<Rightarrow> ustring" where
  "resolved_source_json e = json_object
     ([(ustr ''physicalKey'', json_string (oe_physicalKey e)), (ustr ''key'', json_string (oe_key e)),
       (ustr ''name'', json_string (oe_name e)), (ustr ''size'', json_int (oe_size e)), (ustr ''etag'', json_string (oe_etag e))] @
      (case oe_crc32 e of None \<Rightarrow> [] | Some c \<Rightarrow> [(ustr ''crc32'', json_int (uint c))]))"

definition resolved_json :: "ResolvedSnapshot \<Rightarrow> ustring" where
  "resolved_json s = json_object
     [(ustr ''root'', json_string (sn_root s)), (ustr ''shareId'', json_string (sn_shareId s)),
      (ustr ''shareVersion'', json_int (sn_shareVersion s)),
      (ustr ''sources'', json_array (map resolved_source_json (sn_sources s))),
      (ustr ''fingerprint'', json_string (rs_fingerprint s))]"

definition final_json :: "ustring \<Rightarrow> OnePassZipEntry list \<Rightarrow> ustring" where
  "final_json root entries = json_object
     [(ustr ''root'', json_string root), (ustr ''entries'', json_array (map resolved_source_json entries)),
      (ustr ''fileCount'', json_int (int (length entries))), (ustr ''totalBytes'', json_int (total_bytes entries))]"

definition put_json ::
  "'x world_scheme services \<Rightarrow> ustring \<Rightarrow> ustring \<Rightarrow> ('x world_scheme, unit) io" where
  "put_json sv key text = bind_io (await sv (r2_put sv key (utf8 text) Unconditional [] [])) (\<lambda>_. ret ())"

end
