(* ===== verification/Bulk_Workflow.thy ===== *)
theory Bulk_Workflow
  imports Bulk_Jobs
begin

section \<open>Bulk downloads: the workflow of a job\<close>

text \<open>
  \<open>BulkDownloadWorkflow.run\<close> of \<open>apps/client/src/worker/workflow.ts\<close> with the calls it makes: the split
  of a large selection into jobs of their own, the checksum table, the reuse of a stored archive, the
  multipart upload part by part, the rows that record it, retention, and the path of a failed run.
  \<open>prepare\<close> is the run up to the job that is ready. The body of a part reads its sources at one moment;
  progress is computed exactly, where the code divides doubles.
\<close>

subsection \<open>Checksums\<close>

definition read_checksums ::
  "'x bulk_world_scheme services \<Rightarrow> Snapshot \<Rightarrow> ('x bulk_world_scheme, OnePassZipEntry list) io" where
  "read_checksums sv snap = await sv (\<lambda>w. (resolveSnapshotChecksums (bw_checksums w) (sn_sources snap), w))"

definition touched :: "OnePassZipEntry list \<Rightarrow> ChecksumRow \<Rightarrow> bool" where
  "touched sources r \<longleftrightarrow> list_ex (\<lambda>e. row_id r = source_id e \<and> map_option uint (oe_crc32 e) = Some (cr_crc32 r)) sources"

definition touchChecksumCache :: "OnePassZipEntry list \<Rightarrow> 'x bulk_world_scheme \<Rightarrow> unit \<times> 'x bulk_world_scheme" where
  "touchChecksumCache sources w = ((), w\<lparr>bw_used := (\<lambda>i.
     if list_ex (\<lambda>r. row_id r = i \<and> touched sources r) (bw_checksums w) then w_now w else bw_used w i)\<rparr>)"

definition persist_checksums ::
  "OnePassZipEntry list \<Rightarrow> OnePassZipChecksum list \<Rightarrow> 'x bulk_world_scheme \<Rightarrow> unit \<times> 'x bulk_world_scheme" where
  "persist_checksums sources checksums w = ((), w\<lparr>bw_checksums := persistCalculatedChecksums sources checksums (bw_checksums w),
     bw_used := (\<lambda>i. if i \<in> (\<lambda>c. source_id (sources ! oc_entryIndex c)) ` set (filter oc_calculated checksums)
        then w_now w else bw_used w i)\<rparr>)"

definition resolve_snapshot ::
  "'x bulk_world_scheme services \<Rightarrow> bulk_runtime \<Rightarrow> Snapshot \<Rightarrow> ('x bulk_world_scheme, ResolvedSnapshot) io" where
  "resolve_snapshot sv br snap =
     bind_io (read_checksums sv snap) (\<lambda>sources.
     bind_io (await sv (touchChecksumCache sources)) (\<lambda>_.
     ret \<lparr>sn_root = sn_root snap, sn_shareId = sn_shareId snap, sn_shareVersion = sn_shareVersion snap,
          sn_sources = sources, rs_fingerprint = bulkSelectionFingerprint br snap\<rparr>))"

subsection \<open>Reusing an archive\<close>

definition reusable :: "'x bulk_world_scheme \<Rightarrow> bulk_job \<Rightarrow> ustring \<Rightarrow> cached_archive \<Rightarrow> bool" where
  "reusable w job fingerprint c \<longleftrightarrow> cache_names (bj_share job) (bj_version job) fingerprint c \<and> ac_expires c > w_now w \<and>
     active_generation w (ac_key c) (ac_etag c) (ac_size c)"

definition renew_cache :: "bulk_job \<Rightarrow> ustring \<Rightarrow> cached_archive \<Rightarrow> 'x bulk_world_scheme \<Rightarrow> nat \<times> 'x bulk_world_scheme" where
  "renew_cache job fingerprint row w =
     (let hit = (\<lambda>c. reusable w job fingerprint c \<and> cache_holds (ac_key row) (ac_etag row) (ac_size row) c) in
      (length (filter hit (bw_cache w)),
       w\<lparr>bw_cache := map (\<lambda>c. if hit c then c\<lparr>ac_expires := w_now w + 30 * 24 * 60 * 60\<rparr> else c) (bw_cache w)\<rparr>))"

definition attach_archive :: "bulk_job \<Rightarrow> ustring \<Rightarrow> cached_archive \<Rightarrow> 'x bulk_world_scheme \<Rightarrow> nat \<times> 'x bulk_world_scheme" where
  "attach_archive job fingerprint row = update_jobs
     (\<lambda>w j. bj_id j = bj_id job \<and> unfinished j \<and>
        list_ex (\<lambda>c. reusable w job fingerprint c \<and> cache_holds (ac_key row) (ac_etag row) (ac_size row) c) (bw_cache w))
     (\<lambda>now j. j\<lparr>bj_archive := ac_key row, bj_fingerprint := Some fingerprint, bj_size := Some (ac_size row)\<rparr>)"

definition claim_archive ::
  "bulk_job \<Rightarrow> ustring \<Rightarrow> cached_archive \<Rightarrow> 'x bulk_world_scheme \<Rightarrow> (nat \<times> nat) \<times> 'x bulk_world_scheme" where
  "claim_archive job fingerprint row w =
     (case renew_cache job fingerprint row w of (m, w1) \<Rightarrow>
      case attach_archive job fingerprint row w1 of (n, w2) \<Rightarrow> ((m, n), w2))"

definition reuseCachedArchive ::
  "'x bulk_world_scheme services \<Rightarrow> bulk_job \<Rightarrow> ResolvedSnapshot \<Rightarrow> ('x bulk_world_scheme, cached_archive option) io" where
  "reuseCachedArchive sv job resolved =
     bind_io (await sv (\<lambda>w. (find (reusable w job (rs_fingerprint resolved)) (bw_cache w), w))) (\<lambda>found.
     case found of
       None \<Rightarrow> ret None
     | Some row \<Rightarrow>
         bind_io (await sv (r2_head (ac_key row))) (\<lambda>head.
         if \<not> (case head of Some obj \<Rightarrow> r2_etag obj = ac_etag row \<and> int (length (r2_body obj)) = ac_size row | None \<Rightarrow> False)
         then ret None
         else
           bind_io (await sv (claim_archive job (rs_fingerprint resolved) row)) (\<lambda>(renewed, attached).
           ret (if renewed = 0 \<or> attached = 0 then None else Some row))))"

definition may_be_ready :: "ustring \<Rightarrow> ustring \<Rightarrow> ustring \<Rightarrow> int \<Rightarrow> bulk_job \<Rightarrow> bool" where
  "may_be_ready jobId key fingerprint len j \<longleftrightarrow> bj_id j = jobId \<and>
     (unfinished j \<or> bj_status j = Bulk_ready \<and> bj_archive j = key \<and> bj_fingerprint j = Some fingerprint \<and> bj_size j = Some len)"

definition ready_until :: "int \<Rightarrow> int" where
  "ready_until now = (now + 7 * 24 * 60 * 60) * 1000"

definition mark_cached_ready ::
  "'x bulk_world_scheme services \<Rightarrow> ustring \<Rightarrow> ustring \<Rightarrow> cached_archive \<Rightarrow> ('x bulk_world_scheme, unit) io" where
  "mark_cached_ready sv jobId fingerprint c =
     bind_io (await sv (update_jobs (\<lambda>w. may_be_ready jobId (ac_key c) fingerprint (ac_size c))
       (\<lambda>now j. j\<lparr>bj_status := Bulk_ready, bj_archive := ac_key c, bj_fingerprint := Some fingerprint, bj_size := Some (ac_size c),
          bj_files := ac_files c, bj_processed_files := ac_files c, bj_total := ac_total c, bj_processed := ac_total c,
          bj_upload := None, bj_expires := ready_until now\<rparr>))) (\<lambda>changes.
     if changes = 0 then raise (Failed ''job-no-longer-active'') else ret ())"

subsection \<open>The parts of an archive\<close>

definition bucket_of :: "(ustring \<Rightarrow> r2_object option) \<Rightarrow> OnePassZipBucket" where
  "bucket_of b key off n etag = (case b key of
     Some obj \<Rightarrow> if r2_etag obj = etag then Some (subrange off n (r2_body obj)) else None | None \<Rightarrow> None)"

definition build_part ::
  "'x bulk_world_scheme services \<Rightarrow> bulk_runtime \<Rightarrow> OnePassZipEntry list \<Rightarrow> OnePassZipState \<Rightarrow> int \<Rightarrow>
   ('x bulk_world_scheme, OnePassZipPartResult) io" where
  "build_part sv br sources state len =
     bind_io (await sv (\<lambda>w. (buildOnePassZipPrefixPart (br_text br) (bucket_of (w_bucket w)) sources state len, w)))
       (\<lambda>r. lift (failing r))"

definition running_job :: "ustring \<Rightarrow> bulk_job \<Rightarrow> bool" where
  "running_job jobId j \<longleftrightarrow> bj_id j = jobId \<and> bj_status j = Bulk_running"

definition create_multipart ::
  "'x bulk_world_scheme services \<Rightarrow> ustring \<Rightarrow> ustring \<Rightarrow> ustring \<Rightarrow> OnePassZipMultipartPlan \<Rightarrow> ('x bulk_world_scheme, ustring) io" where
  "create_multipart sv jobId archiveKey fingerprint plan =
     bind_io (await sv (create_upload sv archiveKey)) (\<lambda>uploadId.
     bind_io (await sv (update_jobs (\<lambda>w. running_job jobId)
       (\<lambda>now j. j\<lparr>bj_archive := archiveKey, bj_fingerprint := Some fingerprint, bj_upload := Some uploadId,
          bj_size := Some (mp_archiveSize plan)\<rparr>))) (\<lambda>_. ret uploadId))"

definition progress_bytes :: "OnePassZipMultipartPlan \<Rightarrow> int \<Rightarrow> OnePassZipState \<Rightarrow> int" where
  "progress_bytes plan bytes state =
     (if mp_prefixSize plan > 0 then min (bytes - 1) (bytes * int (os_archiveOffset state) div mp_prefixSize plan) else 0)"

definition prefix_part ::
  "'x bulk_world_scheme services \<Rightarrow> bulk_runtime \<Rightarrow> ustring \<Rightarrow> OnePassZipEntry list \<Rightarrow> ustring \<Rightarrow> ustring \<Rightarrow>
   OnePassZipMultipartPlan \<Rightarrow> nat \<Rightarrow> OnePassZipState \<Rightarrow> ('x bulk_world_scheme, OnePassZipState \<times> nat \<times> ustring) io" where
  "prefix_part sv br jobId sources archiveKey uploadId plan n state =
     bind_io (build_part sv br sources state (mp_partSize plan)) (\<lambda>built.
     bind_io (await sv (persist_checksums sources (pr_completedChecksums built))) (\<lambda>_.
     bind_io (await_db sv (upload_part sv archiveKey uploadId n (pr_bytes built))) (\<lambda>etag.
     bind_io (await sv (update_jobs (\<lambda>w. running_job jobId)
       (\<lambda>now j. j\<lparr>bj_processed_files := max (bj_processed_files j) (int (os_completedFiles (pr_state built))),
          bj_processed := max (bj_processed j) (max 0 (progress_bytes plan (total_bytes sources) (pr_state built)))\<rparr>))) (\<lambda>_.
     ret (pr_state built, n, etag)))))"

fun prefix_parts ::
  "'x bulk_world_scheme services \<Rightarrow> bulk_runtime \<Rightarrow> ustring \<Rightarrow> OnePassZipEntry list \<Rightarrow> ustring \<Rightarrow> ustring \<Rightarrow>
   OnePassZipMultipartPlan \<Rightarrow> nat \<Rightarrow> nat \<Rightarrow> OnePassZipState \<Rightarrow> ('x bulk_world_scheme, OnePassZipState \<times> (nat \<times> ustring) list) io" where
  "prefix_parts sv br jobId sources archiveKey uploadId plan n 0 state = ret (state, [])"
| "prefix_parts sv br jobId sources archiveKey uploadId plan n (Suc count) state =
     bind_io (step_do sv 4 (prefix_part sv br jobId sources archiveKey uploadId plan n state)) (\<lambda>(state, part).
     bind_io (prefix_parts sv br jobId sources archiveKey uploadId plan (Suc n) count state) (\<lambda>(state, parts).
     ret (state, part # parts)))"

text \<open>The checks of the step that writes the part with the central directory.\<close>

definition prefix_finished :: "OnePassZipMultipartPlan \<Rightarrow> OnePassZipPartResult \<Rightarrow> bool" where
  "prefix_finished plan built \<longleftrightarrow> os_stage (pr_state built) = Stage_done \<and> int (os_archiveOffset (pr_state built)) = mp_prefixSize plan"

definition final_bytes ::
  "bulk_runtime \<Rightarrow> OnePassZipMultipartPlan \<Rightarrow> OnePassZipPartResult \<Rightarrow> OnePassZipEntry list \<Rightarrow> failure + byte list" where
  "final_bytes br plan built entries =
     rbind (buildOnePassZipTrailer (br_text br) entries) (\<lambda>trailer.
     if int (length trailer) \<noteq> mp_trailerSize plan then Inl (Throws ''ZIP trailer size changed'')
     else
       let bytes = joinZipBytes (pr_bytes built) trailer in
       if int (length bytes) > mp_partSize plan \<or>
          int (length bytes) \<noteq> mp_archiveSize plan - mp_prefixPartCount plan * mp_partSize plan
       then Inl (Throws ''ZIP final part does not match the multipart plan'')
       else Inr bytes)"

definition final_part_step ::
  "'x bulk_world_scheme services \<Rightarrow> bulk_runtime \<Rightarrow> bulk_job \<Rightarrow> ResolvedSnapshot \<Rightarrow> ustring \<Rightarrow> ustring \<Rightarrow>
   OnePassZipMultipartPlan \<Rightarrow> nat \<Rightarrow> OnePassZipState \<Rightarrow> ('x bulk_world_scheme, nat \<times> ustring) io" where
  "final_part_step sv br job resolved archiveKey uploadId plan n state =
     bind_io (build_part sv br (sn_sources resolved) state (mp_finalPrefixBytes plan)) (\<lambda>built.
     bind_io (await sv (persist_checksums (sn_sources resolved) (pr_completedChecksums built))) (\<lambda>_.
     if \<not> prefix_finished plan built then raise (Failed ''ZIP prefix did not finish at the planned boundary'')
     else
       bind_io (await sv (\<lambda>w. (completedEntries (bw_checksums w) (sn_sources resolved), w))) (\<lambda>r.
       bind_io (lift (failing r)) (\<lambda>entries.
       bind_io (put_json sv (finalBulkManifestKey (bj_manifest job)) (final_json (sn_root resolved) entries)) (\<lambda>_.
       bind_io (lift (failing (final_bytes br plan built entries))) (\<lambda>bytes.
       bind_io (await_db sv (upload_part sv archiveKey uploadId n bytes)) (\<lambda>etag.
       bind_io (await sv (update_jobs (\<lambda>w. running_job (bj_id job))
         (\<lambda>now j. j\<lparr>bj_processed_files := bj_files j, bj_processed := max 0 (bj_total j - 1)\<rparr>))) (\<lambda>_.
       ret (n, etag)))))))))"

subsection \<open>Completion\<close>

definition cache_row ::
  "bulk_job \<Rightarrow> ResolvedSnapshot \<Rightarrow> ustring \<Rightarrow> ustring \<Rightarrow> OnePassZipMultipartPlan \<Rightarrow> int \<Rightarrow> cached_archive" where
  "cache_row job resolved archiveKey etag plan now = \<lparr>ac_rowid = 0, ac_share = bj_share job, ac_version = bj_version job,
     ac_fingerprint = rs_fingerprint resolved, ac_key = archiveKey, ac_etag = etag, ac_size = mp_archiveSize plan,
     ac_files = int (length (sn_sources resolved)), ac_total = total_bytes (sn_sources resolved), ac_expires = now + 30 * 24 * 60 * 60\<rparr>"

text \<open>The batch is one transaction: an error undoes the first statement.\<close>

definition record_archive ::
  "bulk_job \<Rightarrow> ResolvedSnapshot \<Rightarrow> ustring \<Rightarrow> ustring \<Rightarrow> OnePassZipMultipartPlan \<Rightarrow> 'x bulk_world_scheme \<Rightarrow>
   (fault + nat) \<times> 'x bulk_world_scheme" where
  "record_archive job resolved archiveKey etag plan w =
     (case upsert_generation archiveKey etag (mp_archiveSize plan) w of (n, w1) \<Rightarrow>
      case upsert_cache (cache_row job resolved archiveKey etag plan (w_now w)) w1 of
        Inl f \<Rightarrow> (Inl f, w)
      | Inr w2 \<Rightarrow> (Inr n, w2))"

definition complete_multipart ::
  "'x bulk_world_scheme services \<Rightarrow> bulk_runtime \<Rightarrow> bulk_job \<Rightarrow> ResolvedSnapshot \<Rightarrow> ustring \<Rightarrow> ustring \<Rightarrow>
   OnePassZipMultipartPlan \<Rightarrow> (nat \<times> ustring) list \<Rightarrow> ('x bulk_world_scheme, unit) io" where
  "complete_multipart sv br job resolved archiveKey uploadId plan parts =
     bind_io (await sv (r2_head archiveKey)) (\<lambda>head.
     bind_io (case head of
         Some obj \<Rightarrow> if int (length (r2_body obj)) = mp_archiveSize plan then ret obj
                     else await_db sv (complete_upload sv br archiveKey uploadId parts)
       | None \<Rightarrow> await_db sv (complete_upload sv br archiveKey uploadId parts)) (\<lambda>obj.
     if int (length (r2_body obj)) \<noteq> mp_archiveSize plan then raise (Failed ''ZIP completed with an unexpected size'')
     else
       bind_io (await_db sv (record_archive job resolved archiveKey (r2_etag obj) plan)) (\<lambda>changes.
       if changes = 0 then raise (Failed ''archive-generation-not-active'') else ret ())))"

definition mark_ready ::
  "'x bulk_world_scheme services \<Rightarrow> ustring \<Rightarrow> ustring \<Rightarrow> ustring \<Rightarrow> OnePassZipMultipartPlan \<Rightarrow> ('x bulk_world_scheme, unit) io" where
  "mark_ready sv jobId archiveKey fingerprint plan =
     bind_io (await sv (update_jobs (\<lambda>w. may_be_ready jobId archiveKey fingerprint (mp_archiveSize plan))
       (\<lambda>now j. j\<lparr>bj_status := Bulk_ready, bj_processed_files := bj_files j, bj_processed := bj_total j, bj_upload := None,
          bj_expires := ready_until now\<rparr>))) (\<lambda>changes.
     if changes = 0 then raise (Failed ''job-no-longer-active'') else ret ())"

definition build_archive ::
  "'x bulk_world_scheme services \<Rightarrow> bulk_runtime \<Rightarrow> bulk_job \<Rightarrow> ResolvedSnapshot \<Rightarrow> ('x bulk_world_scheme, unit) io" where
  "build_archive sv br job resolved =
     bind_io (lift (failing (planOnePassZipMultipart (br_text br) (sn_sources resolved)))) (\<lambda>plan.
     if mp_partCount plan > 10000 then raise (Failed ''multipart-part-limit'')
     else
       let archiveKey = bulkCacheArtifactKey (bj_share job) (rs_fingerprint resolved) (bj_id job);
           prefixes = nat (mp_prefixPartCount plan) in
       bind_io (step_do sv DEFAULT_STEP_RETRIES (create_multipart sv (bj_id job) archiveKey (rs_fingerprint resolved) plan)) (\<lambda>uploadId.
       bind_io (prefix_parts sv br (bj_id job) (sn_sources resolved) archiveKey uploadId plan 1 prefixes initialOnePassZipState) (\<lambda>(state, parts).
       bind_io (step_do sv 4 (final_part_step sv br job resolved archiveKey uploadId plan (prefixes + 1) state)) (\<lambda>part.
       bind_io (step_do sv 3 (complete_multipart sv br job resolved archiveKey uploadId plan (parts @ [part]))) (\<lambda>_.
       step_do sv DEFAULT_STEP_RETRIES (mark_ready sv (bj_id job) archiveKey (rs_fingerprint resolved) plan))))))"

section \<open>Bulk downloads: a run from selection to expiry\<close>

text \<open>
  \<open>BulkDownloadWorkflow.run\<close>: the jobs of a split selection, the run of one archive, its retention, and
  what a failed run leaves. An instance of the workflow is known by its identifier, which is unique.
\<close>

subsection \<open>Selection and split\<close>

definition mark_running :: "ustring \<Rightarrow> OnePassZipEntry list \<Rightarrow> 'x bulk_world_scheme \<Rightarrow> nat \<times> 'x bulk_world_scheme" where
  "mark_running jobId sources = update_jobs (\<lambda>w j. bj_id j = jobId)
     (\<lambda>now j. j\<lparr>bj_status := Bulk_running, bj_files := int (length sources), bj_total := total_bytes sources\<rparr>)"

definition snapshot_selection ::
  "'x bulk_world_scheme services \<Rightarrow> bulk_runtime \<Rightarrow> bulk_job \<Rightarrow> ('x bulk_world_scheme, unit) io" where
  "snapshot_selection sv br job =
     bind_io (snapshot sv br job) (\<lambda>snap.
     bind_io (put_json sv (bj_manifest job) (snapshot_json snap)) (\<lambda>_.
     bind_io (await sv (mark_running (bj_id job) (sn_sources snap))) (\<lambda>_. ret ())))"

definition part_suffix :: "nat \<Rightarrow> nat \<Rightarrow> ustring" where
  "part_suffix parts n = (let width = max 2 (length (decimal parts)) in
     replicate (width - length (decimal n)) 48 @ decimal n)"

definition part_name :: "bulk_job \<Rightarrow> ustring \<Rightarrow> ustring \<Rightarrow> ustring" where
  "part_name job share suffix = temporary_prefix @ share @ 47 # bj_id job @ ustr ''/part-'' @ suffix"

definition part_job :: "bulk_job \<Rightarrow> ustring \<Rightarrow> ustring \<Rightarrow> Snapshot \<Rightarrow> nat \<Rightarrow> nat \<Rightarrow> int \<Rightarrow> int \<Rightarrow> bulk_job" where
  "part_job job share suffix child n parts stamp now =
     \<lparr>bj_id = bj_id job @ ustr ''-p'' @ suffix, bj_share = bj_share job, bj_version = bj_version job, bj_request = ustr ''{}'',
      bj_status = Bulk_queued, bj_manifest = part_name job share suffix @ ustr ''.json'',
      bj_archive = part_name job share suffix @ ustr ''.zip'', bj_fingerprint = None, bj_upload = None,
      bj_files = int (length (sn_sources child)), bj_processed_files = 0, bj_total = total_bytes (sn_sources child),
      bj_processed = 0, bj_size = None, bj_error = None, bj_updated = now,
      bj_expires = stamp + BULK_DOWNLOAD_RETENTION_MS, bj_parent = Some (bj_id job), bj_index = Some n, bj_count = parts\<rparr>"

definition create_instance :: "ustring \<Rightarrow> bool \<Rightarrow> 'x bulk_world_scheme \<Rightarrow> (fault + unit) \<times> 'x bulk_world_scheme" where
  "create_instance i prepared w =
     (if i \<in> fst ` set (bw_instances w) then (Inl (Failed ''(instance.already_exists) Provided id already exists''), w)
      else (Inr (), w\<lparr>bw_instances := bw_instances w @ [(i, prepared)]\<rparr>))"

definition known_instance :: "ustring \<Rightarrow> 'x bulk_world_scheme \<Rightarrow> bool \<times> 'x bulk_world_scheme" where
  "known_instance i w = (i \<in> fst ` set (bw_instances w), w)"

definition start_part :: "'x bulk_world_scheme services \<Rightarrow> ustring \<Rightarrow> ('x bulk_world_scheme, unit) io" where
  "start_part sv childId =
     catch_io (await_db sv (create_instance childId True)) (\<lambda>error.
     bind_io (catch_io (await sv (known_instance childId)) (\<lambda>_. raise error)) (\<lambda>known.
     if known then ret () else raise error))"

definition spawn_part ::
  "'x bulk_world_scheme services \<Rightarrow> bulk_job \<Rightarrow> ustring \<Rightarrow> Snapshot \<Rightarrow> nat \<Rightarrow> nat \<Rightarrow> ('x bulk_world_scheme, unit) io" where
  "spawn_part sv job share child n parts =
     (let suffix = part_suffix parts n in
      bind_io (put_json sv (part_name job share suffix @ ustr ''.json'') (snapshot_json child)) (\<lambda>_.
      bind_io js_now (\<lambda>stamp.
      bind_io (await_db sv (\<lambda>w. insert_job_or_ignore (part_job job share suffix child n parts stamp (w_now w)) w)) (\<lambda>_.
      start_part sv (bj_id job @ ustr ''-p'' @ suffix)))))"

definition mark_split :: "ustring \<Rightarrow> nat \<Rightarrow> 'x bulk_world_scheme \<Rightarrow> nat \<times> 'x bulk_world_scheme" where
  "mark_split jobId parts = update_jobs (\<lambda>w j. bj_id j = jobId) (\<lambda>now j. j\<lparr>bj_count := parts, bj_size := None\<rparr>)"

text \<open>The part of a run that precedes the archive: whether the selection was split.\<close>

definition select_and_split ::
  "'x bulk_world_scheme services \<Rightarrow> bulk_runtime \<Rightarrow> bulk_job \<Rightarrow> ('x bulk_world_scheme, bool) io" where
  "select_and_split sv br job =
     bind_io (step_do sv 3 (snapshot_selection sv br job)) (\<lambda>_.
     bind_io (readJson sv (br_snapshot br) (bj_manifest job)) (\<lambda>complete.
     bind_io (lift (failing (partitionBulkSnapshot (br_text br) complete))) (\<lambda>partitions.
     if length partitions \<le> 1 then ret False
     else
       bind_io (for_each [0..<length partitions] (\<lambda>i.
         step_do sv 5 (spawn_part sv job (sn_shareId complete) (partitions ! i) (i + 1) (length partitions)))) (\<lambda>_.
       bind_io (step_do sv DEFAULT_STEP_RETRIES (await sv (mark_split (bj_id job) (length partitions)))) (\<lambda>_. ret True)))))"

subsection \<open>One archive\<close>

definition resolve_step ::
  "'x bulk_world_scheme services \<Rightarrow> bulk_runtime \<Rightarrow> bulk_job \<Rightarrow> Snapshot \<Rightarrow> ('x bulk_world_scheme, ustring) io" where
  "resolve_step sv br job snap =
     bind_io (resolve_snapshot sv br snap) (\<lambda>resolved.
     bind_io (put_json sv (resolvedBulkManifestKey (bj_manifest job)) (resolved_json resolved)) (\<lambda>_.
     ret (rs_fingerprint resolved)))"

definition prepare ::
  "'x bulk_world_scheme services \<Rightarrow> bulk_runtime \<Rightarrow> bulk_job \<Rightarrow> bool \<Rightarrow> ('x bulk_world_scheme, unit) io" where
  "prepare sv br job prepared =
     bind_io (readJson sv (br_snapshot br) (bj_manifest job)) (\<lambda>snap.
     bind_io (lift (failing (assertBulkPreparationCapacity (br_text br) snap))) (\<lambda>_.
     bind_io (if prepared
         then bind_io (step_do sv DEFAULT_STEP_RETRIES (await sv (mark_running (bj_id job) (sn_sources snap)))) (\<lambda>_. ret ())
         else ret ()) (\<lambda>_.
     bind_io (step_do sv DEFAULT_STEP_RETRIES (resolve_step sv br job snap)) (\<lambda>fingerprint.
     bind_io (readJson sv (br_resolved br) (resolvedBulkManifestKey (bj_manifest job))) (\<lambda>resolved.
     if rs_fingerprint resolved \<noteq> fingerprint then raise (Failed ''resolved-manifest-identity-mismatch'')
     else
       bind_io (step_do sv DEFAULT_STEP_RETRIES (reuseCachedArchive sv job resolved)) (\<lambda>cached.
       case cached of
         Some c \<Rightarrow> step_do sv DEFAULT_STEP_RETRIES (mark_cached_ready sv (bj_id job) (rs_fingerprint resolved) c)
       | None \<Rightarrow> build_archive sv br job resolved))))))"

definition manifest_keys :: "bulk_job \<Rightarrow> ustring list" where
  "manifest_keys job = [bj_manifest job, resolvedBulkManifestKey (bj_manifest job), finalBulkManifestKey (bj_manifest job)]"

definition expire_download :: "'x bulk_world_scheme services \<Rightarrow> bulk_job \<Rightarrow> ('x bulk_world_scheme, unit) io" where
  "expire_download sv job =
     bind_io (await sv (r2_delete_all (manifest_keys job))) (\<lambda>_.
     bind_io (await sv (update_jobs (\<lambda>w j. bj_id j = bj_id job \<and> bj_status j = Bulk_ready) (\<lambda>now j. j\<lparr>bj_status := Bulk_expired\<rparr>)))
       (\<lambda>_. ret ()))"

definition work ::
  "'x bulk_world_scheme services \<Rightarrow> bulk_runtime \<Rightarrow> bulk_job \<Rightarrow> bool \<Rightarrow> ('x bulk_world_scheme, unit) io" where
  "work sv br job prepared =
     bind_io (if prepared then ret False else select_and_split sv br job) (\<lambda>split.
     if split then ret ()
     else
       bind_io (prepare sv br job prepared) (\<lambda>_.
       bind_io (step_sleep sv) (\<lambda>_. step_do sv DEFAULT_STEP_RETRIES (expire_download sv job))))"

subsection \<open>A failed run\<close>

definition abandon_upload :: "'x bulk_world_scheme services \<Rightarrow> bulk_job option \<Rightarrow> ('x bulk_world_scheme, unit) io" where
  "abandon_upload sv current = (case current of
     Some j \<Rightarrow> (case bj_upload j of
        Some uploadId \<Rightarrow> if uploadId = [] then ret () else catch_io (await_db sv (abort_upload (bj_archive j) uploadId)) (\<lambda>_. ret ())
      | None \<Rightarrow> ret ())
   | None \<Rightarrow> ret ())"

definition unnamed_archive :: "bulk_job option \<Rightarrow> ustring list" where
  "unnamed_archive current = (case current of
     Some j \<Rightarrow> if bj_fingerprint j = None \<and> bj_archive j \<noteq> [] then [bj_archive j] else [] | None \<Rightarrow> [])"

definition cleanup_failed ::
  "'x bulk_world_scheme services \<Rightarrow> bulk_job \<Rightarrow> ('x bulk_world_scheme, unit) io" where
  "cleanup_failed sv job =
     bind_io (await sv (\<lambda>w. (find_bulk_job (bj_id job) w, w))) (\<lambda>current.
     bind_io (abandon_upload sv current) (\<lambda>_.
     await sv (r2_delete_all (unnamed_archive current @ manifest_keys job))))"

definition mark_failed :: "ustring \<Rightarrow> BulkFailure \<Rightarrow> 'x bulk_world_scheme \<Rightarrow> nat \<times> 'x bulk_world_scheme" where
  "mark_failed jobId failure = update_jobs (\<lambda>w j. bj_id j = jobId \<and> unfinished j)
     (\<lambda>now j. j\<lparr>bj_status := Bulk_failed, bj_error := Some failure\<rparr>)"

definition on_failure ::
  "'x bulk_world_scheme services \<Rightarrow> bulk_job \<Rightarrow> fault \<Rightarrow> ('x bulk_world_scheme, unit) io" where
  "on_failure sv job error =
     bind_io (step_do sv DEFAULT_STEP_RETRIES (await sv (\<lambda>w. (map_option bj_status (find_bulk_job (bj_id job) w), w)))) (\<lambda>state.
     if state = Some Bulk_ready then ret ()
     else
       bind_io (step_do sv DEFAULT_STEP_RETRIES (cleanup_failed sv job)) (\<lambda>_.
       bind_io (step_do sv DEFAULT_STEP_RETRIES
         (await sv (mark_failed (bj_id job) (classifyWorkflowFailure (error_message error))))) (\<lambda>_.
       raise error)))"

definition run ::
  "'x bulk_world_scheme services \<Rightarrow> bulk_runtime \<Rightarrow> ustring \<Rightarrow> bool \<Rightarrow> ('x bulk_world_scheme, unit) io" where
  "run sv br jobId prepared =
     bind_io (await sv (\<lambda>w. (find_bulk_job jobId w, w))) (\<lambda>found.
     case found of
       None \<Rightarrow> raise (Failed ''job-not-found'')
     | Some job \<Rightarrow> catch_io (work sv br job prepared) (on_failure sv job))"

end
