(* ===== verification/Bulk_Cleanup.thy ===== *)
theory Bulk_Cleanup
  imports Bulk_Workflow "HOL-Library.List_Lexorder"
begin

section \<open>Bulk downloads: cleanup\<close>

text \<open>
  \<open>cleanupTemporaryZips\<close> of \<open>apps/client/src/worker/index.ts\<close>, which runs on a schedule, with the limits of
  \<open>bulk-cache-limits.ts\<close>, and the statement of \<open>apps/operations/src/worker/retention.ts\<close> that drops old
  jobs. It expires jobs, deletes what they and lost jobs left under the temporary prefix, and retires
  archives: one that no current cache row and no current job names is claimed in the database, then
  deleted from the bucket, then forgotten. The times it compares with are those of its start.
\<close>

definition BULK_CACHE_PENDING_DELETE_LIMIT :: nat where "BULK_CACHE_PENDING_DELETE_LIMIT = 50"
definition BULK_CACHE_EXPIRED_ROW_LIMIT :: nat where "BULK_CACHE_EXPIRED_ROW_LIMIT = 50"
definition BULK_CACHE_ORPHAN_CLAIM_LIMIT :: nat where "BULK_CACHE_ORPHAN_CLAIM_LIMIT = 50"

subsection \<open>Cursors\<close>

definition cleanupCursor :: "'x bulk_world_scheme services \<Rightarrow> cleanup_scope \<Rightarrow> ('x bulk_world_scheme, ustring) io" where
  "cleanupCursor sv scope = await sv (\<lambda>w. (case bw_cursors w scope of Some c \<Rightarrow> c | None \<Rightarrow> [], w))"

definition saveCleanupCursor :: "'x bulk_world_scheme services \<Rightarrow> cleanup_scope \<Rightarrow> ustring \<Rightarrow> ('x bulk_world_scheme, unit) io" where
  "saveCleanupCursor sv scope cursor = await sv (\<lambda>w. ((), w\<lparr>bw_cursors := (bw_cursors w)(scope \<mapsto> cursor)\<rparr>))"

subsection \<open>Jobs\<close>

definition expire_jobs :: "int \<Rightarrow> 'x bulk_world_scheme \<Rightarrow> unit \<times> 'x bulk_world_scheme" where
  "expire_jobs now w = ((), w\<lparr>bw_jobs := map (\<lambda>j. if claims_archive j \<and> expiry_second j \<le> now div 1000
     then j\<lparr>bj_status := Bulk_expired, bj_updated := now div 1000\<rparr> else j) (bw_jobs w)\<rparr>)"

definition just_expired :: "int \<Rightarrow> bulk_job \<Rightarrow> bool" where
  "just_expired now j \<longleftrightarrow> bj_status j = Bulk_expired \<and> bj_updated j = now div 1000 \<and> expiry_second j \<le> now div 1000"

definition job_artifacts :: "bulk_job \<Rightarrow> ustring list" where
  "job_artifacts j = filter (\<lambda>k. k \<noteq> [])
     ([bj_manifest j, bj_manifest j @ ustr ''.resolved.json'', bj_manifest j @ ustr ''.final.json''] @
      (if bj_fingerprint j = None then [bj_archive j] else []))"

definition abort_expired :: "'x bulk_world_scheme services \<Rightarrow> bulk_job \<Rightarrow> ('x bulk_world_scheme, unit) io" where
  "abort_expired sv j = (case bj_upload j of
     Some uploadId \<Rightarrow> if uploadId = [] then ret () else catch_io (await_db sv (abort_upload (bj_archive j) uploadId)) (\<lambda>_. ret ())
   | None \<Rightarrow> ret ())"

definition expire_phase :: "'x bulk_world_scheme services \<Rightarrow> int \<Rightarrow> ('x bulk_world_scheme, unit) io" where
  "expire_phase sv now =
     bind_io (await sv (expire_jobs now)) (\<lambda>_.
     bind_io (await sv (\<lambda>w. (filter (just_expired now) (bw_jobs w), w))) (\<lambda>expired.
     bind_io (for_each expired (abort_expired sv)) (\<lambda>_.
     for_each (chunks_of 1000 (set_order (concat (map job_artifacts expired)))) (\<lambda>keys. await sv (r2_delete_all keys)))))"

subsection \<open>The temporary prefix\<close>

definition current_job :: "int \<Rightarrow> bulk_job \<Rightarrow> bool" where
  "current_job now j \<longleftrightarrow> claims_archive j \<and> expiry_second j > now div 1000"

definition protected_keys :: "bulk_job \<Rightarrow> ustring list" where
  "protected_keys j = filter (\<lambda>k. k \<noteq> []) [bj_manifest j, bj_archive j, bj_manifest j @ ustr ''.resolved.json'', bj_manifest j @ ustr ''.final.json'']"

definition sweep_cutoff :: "int \<Rightarrow> int" where
  "sweep_cutoff now = now - 24 * 60 * 60 * 1000"

fun sweep_temporary ::
  "'x bulk_world_scheme services \<Rightarrow> int \<Rightarrow> ustring set \<Rightarrow> nat \<Rightarrow> ustring option \<Rightarrow> ('x bulk_world_scheme, unit) io" where
  "sweep_temporary sv now kept 0 cursor = raise (Failed ''fuel'')"
| "sweep_temporary sv now kept (Suc n) cursor =
     bind_io (await sv (r2_list sv temporary_prefix 1000 cursor None)) (\<lambda>page.
     let orphaned = map r2_key (filter (\<lambda>obj. r2_uploaded obj < sweep_cutoff now \<and> r2_key obj \<notin> kept) (rp_objects page)) in
     bind_io (if orphaned \<noteq> [] then await sv (r2_delete_all orphaned) else ret ()) (\<lambda>_.
     case page_cursor page of None \<Rightarrow> ret () | Some c \<Rightarrow> sweep_temporary sv now kept n (Some c)))"

definition temporary_phase :: "'x bulk_world_scheme services \<Rightarrow> int \<Rightarrow> ('x bulk_world_scheme, unit) io" where
  "temporary_phase sv now =
     bind_io (await sv (\<lambda>w. (filter (current_job now) (bw_jobs w), w))) (\<lambda>active.
     sweep_temporary sv now (set (concat (map protected_keys active))) (sv_fuel sv) None)"

subsection \<open>Retiring archives\<close>

definition forget_generation :: "ustring \<Rightarrow> 'x bulk_world_scheme \<Rightarrow> unit \<times> 'x bulk_world_scheme" where
  "forget_generation key w = ((), w\<lparr>bw_generations := filter (\<lambda>g. \<not> (ag_key g = key \<and> ag_deleting g)) (bw_generations w)\<rparr>)"

definition finishGenerationDeletion :: "'x bulk_world_scheme services \<Rightarrow> ustring \<Rightarrow> ('x bulk_world_scheme, unit) io" where
  "finishGenerationDeletion sv archiveKey =
     catch_io (bind_io (await sv (r2_delete archiveKey)) (\<lambda>_. await sv (forget_generation archiveKey))) (\<lambda>_. ret ())"

text \<open>\<open>ORDER BY CASE WHEN key > cursor THEN 0 ELSE 1 END, key LIMIT n\<close>.\<close>

definition rotated :: "('a \<Rightarrow> 'k::linorder) \<Rightarrow> 'k \<Rightarrow> nat \<Rightarrow> 'a list \<Rightarrow> 'a list" where
  "rotated f cursor n rows = take n (sort_key f (filter (\<lambda>r. f r > cursor) rows) @ sort_key f (filter (\<lambda>r. \<not> f r > cursor) rows))"

definition pending_phase :: "'x bulk_world_scheme services \<Rightarrow> ('x bulk_world_scheme, unit) io" where
  "pending_phase sv =
     bind_io (cleanupCursor sv Deleting_scope) (\<lambda>cursor.
     bind_io (await sv (\<lambda>w. (rotated ag_key cursor BULK_CACHE_PENDING_DELETE_LIMIT (filter ag_deleting (bw_generations w)), w))) (\<lambda>rows.
     bind_io (for_each rows (\<lambda>g. finishGenerationDeletion sv (ag_key g))) (\<lambda>_.
     if rows \<noteq> [] then saveCleanupCursor sv Deleting_scope (ag_key (List.last rows)) else ret ())))"

definition named_by_current :: "int \<Rightarrow> ustring \<Rightarrow> 'x bulk_world_scheme \<Rightarrow> bool" where
  "named_by_current now key w \<longleftrightarrow> list_ex (\<lambda>j. bj_archive j = key \<and> current_job now j) (bw_jobs w)"

definition claim_generation :: "int \<Rightarrow> ustring \<Rightarrow> ustring \<Rightarrow> int \<Rightarrow> 'x bulk_world_scheme \<Rightarrow> nat \<times> 'x bulk_world_scheme" where
  "claim_generation now key etag len w =
     (let hit = (\<lambda>g. generation_is key etag len g \<and> \<not> list_ex (\<lambda>c. ac_key c = key \<and> ac_expires c > now div 1000) (bw_cache w) \<and>
            \<not> named_by_current now key w) in
      (length (filter hit (bw_generations w)),
       w\<lparr>bw_generations := map (\<lambda>g. if hit g then g\<lparr>ag_deleting := True,
           ag_started := (case ag_started g of Some t \<Rightarrow> Some t | None \<Rightarrow> Some (now div 1000))\<rparr> else g) (bw_generations w)\<rparr>))"

definition drop_cached :: "int \<Rightarrow> cached_archive \<Rightarrow> 'x bulk_world_scheme \<Rightarrow> nat \<times> 'x bulk_world_scheme" where
  "drop_cached now row w =
     (let hit = (\<lambda>c. cache_names (ac_share row) (ac_version row) (ac_fingerprint row) c \<and>
            cache_holds (ac_key row) (ac_etag row) (ac_size row) c \<and> ac_expires c = ac_expires row \<and>
            \<not> named_by_current now (ac_key row) w) in
      (length (filter hit (bw_cache w)), w\<lparr>bw_cache := filter (\<lambda>c. \<not> hit c) (bw_cache w)\<rparr>))"

definition claim_cached :: "int \<Rightarrow> cached_archive \<Rightarrow> 'x bulk_world_scheme \<Rightarrow> (nat \<times> nat) \<times> 'x bulk_world_scheme" where
  "claim_cached now row w =
     (case drop_cached now row w of (m, w1) \<Rightarrow>
      case claim_generation now (ac_key row) (ac_etag row) (ac_size row) w1 of (n, w2) \<Rightarrow> ((m, n), w2))"

definition cursor_number :: "ustring \<Rightarrow> int" where
  "cursor_number cursor = (if cursor = [] then 0 else int (undecimal 0 cursor))"

definition expired_cache_phase :: "'x bulk_world_scheme services \<Rightarrow> int \<Rightarrow> ('x bulk_world_scheme, unit) io" where
  "expired_cache_phase sv now =
     bind_io (cleanupCursor sv Expired_scope) (\<lambda>cursor.
     bind_io (await sv (\<lambda>w. (rotated ac_rowid (cursor_number cursor) BULK_CACHE_EXPIRED_ROW_LIMIT
         (filter (\<lambda>c. ac_expires c \<le> now div 1000) (bw_cache w)), w))) (\<lambda>rows.
     bind_io (for_each rows (\<lambda>c. bind_io (await sv (claim_cached now c)) (\<lambda>(dropped, claimed).
         if dropped \<noteq> 0 \<and> claimed \<noteq> 0 then finishGenerationDeletion sv (ac_key c) else ret ()))) (\<lambda>_.
     if rows \<noteq> [] then saveCleanupCursor sv Expired_scope (json_int (ac_rowid (List.last rows))) else ret ())))"

subsection \<open>Stored archives without a row\<close>

definition adopt_generation :: "r2_object \<Rightarrow> 'x bulk_world_scheme \<Rightarrow> 'x bulk_world_scheme" where
  "adopt_generation obj w =
     (if list_ex (\<lambda>g. ag_key g = r2_key obj) (bw_generations w) then w
      else w\<lparr>bw_generations := bw_generations w @ [\<lparr>ag_key = r2_key obj, ag_etag = r2_etag obj,
         ag_size = int (length (r2_body obj)), ag_deleting = False, ag_started = None\<rparr>]\<rparr>)"

definition claim_orphan :: "int \<Rightarrow> r2_object \<Rightarrow> 'x bulk_world_scheme \<Rightarrow> nat \<times> 'x bulk_world_scheme" where
  "claim_orphan now obj w = claim_generation now (r2_key obj) (r2_etag obj) (int (length (r2_body obj))) (adopt_generation obj w)"

text \<open>The objects of a page: where the scan stands, the claims left, and whether the page was scanned to its end.\<close>

fun orphan_page ::
  "'x bulk_world_scheme services \<Rightarrow> int \<Rightarrow> r2_object list \<Rightarrow> ustring \<Rightarrow> nat \<Rightarrow> ('x bulk_world_scheme, ustring \<times> nat \<times> bool) io" where
  "orphan_page sv now [] scanned remaining = ret (scanned, remaining, True)"
| "orphan_page sv now (obj # objects) scanned remaining =
     (if r2_uploaded obj \<ge> sweep_cutoff now then orphan_page sv now objects (r2_key obj) remaining
      else
        bind_io (await sv (claim_orphan now obj)) (\<lambda>claimed.
        bind_io (if claimed \<noteq> 0 then finishGenerationDeletion sv (r2_key obj) else ret ()) (\<lambda>_.
        if remaining - 1 = 0 then ret (r2_key obj, 0, False)
        else orphan_page sv now objects (r2_key obj) (remaining - 1))))"

fun orphan_pages ::
  "'x bulk_world_scheme services \<Rightarrow> int \<Rightarrow> nat \<Rightarrow> nat \<Rightarrow> ustring \<Rightarrow> ('x bulk_world_scheme, ustring) io" where
  "orphan_pages sv now 0 remaining scanned = ret scanned"
| "orphan_pages sv now (Suc pages) remaining scanned =
     (if remaining = 0 then ret scanned
      else
        bind_io (await sv (r2_list sv cache_prefix 1000 None (if scanned \<noteq> [] then Some scanned else None))) (\<lambda>page.
        if rp_objects page = [] then ret []
        else
          bind_io (orphan_page sv now (rp_objects page) scanned remaining) (\<lambda>(scanned, remaining, whole).
          if whole \<and> \<not> rp_truncated page then ret []
          else orphan_pages sv now pages remaining scanned)))"

definition orphan_phase :: "'x bulk_world_scheme services \<Rightarrow> int \<Rightarrow> ('x bulk_world_scheme, unit) io" where
  "orphan_phase sv now =
     bind_io (cleanupCursor sv Orphan_scope) (\<lambda>cursor.
     bind_io (orphan_pages sv now 20 BULK_CACHE_ORPHAN_CLAIM_LIMIT cursor) (saveCleanupCursor sv Orphan_scope))"

subsection \<open>Checksums and quotas\<close>

definition prune_checksums :: "int \<Rightarrow> 'x bulk_world_scheme \<Rightarrow> unit \<times> 'x bulk_world_scheme" where
  "prune_checksums now w = ((), w\<lparr>bw_checksums := filter (\<lambda>r. \<not> bw_used w (row_id r) < now div 1000 - 180 * 24 * 60 * 60) (bw_checksums w)\<rparr>)"

definition prune_quota :: "int \<Rightarrow> 'x bulk_world_scheme \<Rightarrow> unit \<times> 'x bulk_world_scheme" where
  "prune_quota now w = ((), w\<lparr>bw_quota := filter (\<lambda>(share, window, count). \<not> window < now div (60 * 60 * 1000) - 48) (bw_quota w)\<rparr>)"

definition cleanupTemporaryZips :: "'x bulk_world_scheme services \<Rightarrow> int \<Rightarrow> ('x bulk_world_scheme, unit) io" where
  "cleanupTemporaryZips sv now =
     bind_io (expire_phase sv now) (\<lambda>_.
     bind_io (temporary_phase sv now) (\<lambda>_.
     bind_io (pending_phase sv) (\<lambda>_.
     bind_io (expired_cache_phase sv now) (\<lambda>_.
     bind_io (orphan_phase sv now) (\<lambda>_.
     bind_io (await sv (prune_checksums now)) (\<lambda>_.
     await sv (prune_quota now)))))))"

text \<open>\<open>runRetention\<close> drops jobs that ended ninety days ago.\<close>

definition retire_jobs :: "'x bulk_world_scheme \<Rightarrow> unit \<times> 'x bulk_world_scheme" where
  "retire_jobs w = ((), w\<lparr>bw_jobs := filter (\<lambda>j. \<not> (bj_status j \<in> {Bulk_expired, Bulk_failed, Bulk_cancelled} \<and>
     bj_updated j \<le> w_now w - 90 * 24 * 60 * 60)) (bw_jobs w)\<rparr>)"

end
