(* ===== verification/Bulk_Routes.thy ===== *)
theory Bulk_Routes
  imports Bulk_Workflow Share_Routes
begin

section \<open>Bulk downloads: the routes of a share\<close>

text \<open>
  The routes of \<open>apps/client/src/worker/index.ts\<close> that create a bulk download, report on it and serve its
  archive, with \<open>parseRange\<close> of \<open>files.ts\<close> and \<open>matchesEtag\<close> of \<open>prepared-images.ts\<close>. They run inside
  \<open>public_request\<close>, which passes them the share. The title of the share (its project or client) is an
  argument, percentages are computed exactly, and work put off with \<open>waitUntil\<close> runs at once.
\<close>

definition requireFolderShareFeature :: "share_view \<Rightarrow> fault + unit" where
  "requireFolderShareFeature share =
     (if present (ps_object share) then Inl (Http 404 ''This action is not available for a single-file link'') else Inr ())"

subsection \<open>Ranges and entity tags\<close>

definition digit :: "nat \<Rightarrow> bool" where
  "digit c \<longleftrightarrow> 48 \<le> c \<and> c < 58"

definition bad_range :: fault where "bad_range = Http 416 ''Invalid range''"
definition outside_range :: fault where "outside_range = Http 416 ''Range is outside the file''"

text \<open>The two groups of \<open>^bytes=(\d*)-(\d*)$\<close>, after the prefix.\<close>

definition range_groups :: "ustring \<Rightarrow> (ustring \<times> ustring) option" where
  "range_groups s = (case dropWhile digit s of
     [] \<Rightarrow> None
   | c # rest \<Rightarrow> if c = 45 \<and> list_all digit rest then Some (takeWhile digit s, rest) else None)"

definition number_of :: "ustring \<Rightarrow> int" where
  "number_of s = int (undecimal 0 s)"

definition parseRange :: "ustring option \<Rightarrow> int \<Rightarrow> fault + (int \<times> int) option" where
  "parseRange header len =
     (if \<not> present header then Inr None
      else if \<not> starts_with (the header) (ustr ''bytes='') \<or> 44 \<in> set (the header) then Inl (Http 416 ''Unsupported range'')
      else case range_groups (drop 6 (the header)) of
        None \<Rightarrow> Inl bad_range
      | Some (begun, till) \<Rightarrow>
          if begun = [] \<and> till = [] then Inl bad_range
          else if begun = [] then
            let suffix = number_of till in
            if \<not> is_safe_integer suffix \<or> suffix \<le> 0 then Inl (Http 416 '''')
            else Inr (Some (max 0 (len - suffix), min len suffix))
          else
            let start = number_of begun; stop = (if till \<noteq> [] then number_of till else len - 1) in
            if \<not> is_safe_integer start \<or> \<not> is_safe_integer stop \<or> start < 0 \<or> stop < start \<or> start \<ge> len then Inl outside_range
            else Inr (Some (start, min stop (len - 1) - start + 1)))"

text \<open>\<open>replace(/^"|"$/g, "")\<close> after the weakness mark.\<close>

definition unquoted :: "ustring \<Rightarrow> ustring" where
  "unquoted s = (let s = (if s \<noteq> [] \<and> hd s = 34 then tl s else s) in if s \<noteq> [] \<and> List.last s = 34 then butlast s else s)"

definition clean_etag :: "ustring \<Rightarrow> ustring" where
  "clean_etag etag = (let s = js_trim etag in unquoted (if starts_with s (ustr ''W/'') then drop 2 s else s))"

definition matchesEtag :: "ustring option \<Rightarrow> ustring \<Rightarrow> bool" where
  "matchesEtag header current \<longleftrightarrow> present header \<and>
     list_ex (\<lambda>c. js_trim c = ustr ''*'' \<or> clean_etag c = clean_etag current) (split_on 44 (the header))"

subsection \<open>Creating a download\<close>

text \<open>The body of the request: whether \<open>all\<close> is \<open>true\<close>, and \<open>items\<close>, whose members are texts or not.\<close>

datatype items_field = No_items | Other_items | Item_array "ustring option list"

record bulk_body =
  bb_all :: bool
  bb_items :: items_field

definition bad_selection :: fault where
  "bad_selection = Http 400 ''Specify either all=true or a non-empty items selection.''"

definition validateBulkRequest :: "(ustring \<Rightarrow> ustring) \<Rightarrow> bulk_body \<Rightarrow> fault + Requested" where
  "validateBulkRequest lower body =
     (if bb_all body \<and> bb_items body = No_items then Inr \<lparr>rq_all = True, rq_items = []\<rparr>
      else case bb_items body of
        Item_array items \<Rightarrow>
          if items = [] \<or> length items > 2000 \<or> None \<in> set items then Inl bad_selection
          else if \<not> distinct items then Inl (Http 400 ''The selection contains duplicate items.'')
          else rbind (rmap (decodeItemRef lower) (map the items)) (\<lambda>_. Inr \<lparr>rq_all = False, rq_items = map the items\<rparr>)
      | _ \<Rightarrow> Inl bad_selection)"

definition request_json :: "Requested \<Rightarrow> ustring" where
  "request_json r = json_object (if rq_all r then [(ustr ''all'', ustr ''true'')] else [(ustr ''items'', json_array (map json_string (rq_items r)))])"

text \<open>\<open>INSERT ... ON CONFLICT(share_id,window_start) DO UPDATE ... WHERE created_count < 3\<close>.\<close>

definition count_download :: "ustring \<Rightarrow> int \<Rightarrow> 'x bulk_world_scheme \<Rightarrow> nat \<times> 'x bulk_world_scheme" where
  "count_download share window w =
     (let same = (\<lambda>(s, t, n). s = share \<and> t = window) in
      if list_ex same (bw_quota w) then
        (length (filter (\<lambda>q. same q \<and> snd (snd q) < 3) (bw_quota w)),
         w\<lparr>bw_quota := map (\<lambda>q. if same q \<and> snd (snd q) < 3 then (share, window, Suc (snd (snd q))) else q) (bw_quota w)\<rparr>)
      else (1, w\<lparr>bw_quota := bw_quota w @ [(share, window, 1)]\<rparr>))"

definition consumeBulkQuota :: "'x bulk_world_scheme services \<Rightarrow> share_view \<Rightarrow> ('x bulk_world_scheme, unit) io" where
  "consumeBulkQuota sv share =
     bind_io js_now (\<lambda>now.
     bind_io (await sv (count_download (ps_id share) (now div (60 * 60 * 1000)))) (\<lambda>changes.
     if changes = 0 then raise (Http 429 ''This delivery has reached its hourly bulk-download limit.'') else ret ()))"

definition job_folder :: "share_view \<Rightarrow> ustring \<Rightarrow> ustring" where
  "job_folder share jobId = temporary_prefix @ the (ps_public share) @ 47 # jobId @ [47]"

definition new_job :: "share_view \<Rightarrow> ustring \<Rightarrow> Requested \<Rightarrow> int \<Rightarrow> int \<Rightarrow> bulk_job" where
  "new_job share jobId request stamp now =
     \<lparr>bj_id = jobId, bj_share = ps_id share, bj_version = ps_version share, bj_request = request_json request,
      bj_status = Bulk_queued, bj_manifest = job_folder share jobId @ ustr ''manifest.json'',
      bj_archive = job_folder share jobId @ ustr ''archive.zip'', bj_fingerprint = None, bj_upload = None, bj_files = 0,
      bj_processed_files = 0, bj_total = 0, bj_processed = 0, bj_size = None, bj_error = None, bj_updated = now,
      bj_expires = stamp + BULK_DOWNLOAD_RETENTION_MS, bj_parent = None, bj_index = None, bj_count = 1\<rparr>"

definition insert_bulk_job :: "bulk_job \<Rightarrow> 'x bulk_world_scheme \<Rightarrow> (fault + unit) \<times> 'x bulk_world_scheme" where
  "insert_bulk_job j w =
     (if part_refused (bw_jobs w) j then (Inl (part_error j), w)
      else if list_ex (same_job j) (bw_jobs w) then (Inl (Failed ''UNIQUE constraint failed: bulk_download_jobs.id''), w)
      else (Inr (), w\<lparr>bw_jobs := bw_jobs w @ [j]\<rparr>))"

text \<open>The workflow could not be created, or its creation was not confirmed.\<close>

definition creation_failed :: "'x bulk_world_scheme services \<Rightarrow> ustring \<Rightarrow> ('x bulk_world_scheme, unit) io" where
  "creation_failed sv jobId =
     (let failure = friendlyBulkFailure (Some ''workflow-create-failed'') in
      bind_io (await sv (update_jobs (\<lambda>w j. bj_id j = jobId) (\<lambda>now j. j\<lparr>bj_status := Bulk_failed, bj_error := Some failure\<rparr>))) (\<lambda>_.
      raise (Http 503 (bf_message failure))))"

definition create_download ::
  "'x bulk_world_scheme services \<Rightarrow> bulk_body \<Rightarrow> share_view \<Rightarrow> ('x bulk_world_scheme, ustring) io" where
  "create_download sv body share =
     bind_io (lift (requireFolderShareFeature share)) (\<lambda>_.
     bind_io (lift (validateBulkRequest (pr_lower (sv_paths sv)) body)) (\<lambda>request.
     bind_io (consumeBulkQuota sv share) (\<lambda>_.
     bind_io (fresh sv) (\<lambda>jobId.
     bind_io js_now (\<lambda>stamp.
     bind_io (await_db sv (\<lambda>w. insert_bulk_job (new_job share jobId request stamp (w_now w)) w)) (\<lambda>_.
     bind_io (catch_io (await_db sv (create_instance jobId False)) (\<lambda>_. creation_failed sv jobId)) (\<lambda>_.
     bind_io (in_background (await sv (add_event ''download.started'' (ps_id share)))) (\<lambda>_.
     ret jobId))))))))"

subsection \<open>Jobs of a share\<close>

definition of_share :: "share_view \<Rightarrow> bulk_job \<Rightarrow> bool" where
  "of_share share j \<longleftrightarrow> bj_share j = ps_id share \<and> bj_version j = ps_version share"

definition getBulkJob ::
  "'x bulk_world_scheme services \<Rightarrow> share_view \<Rightarrow> ustring \<Rightarrow> ('x bulk_world_scheme, bulk_job option) io" where
  "getBulkJob sv share jobId = await sv (\<lambda>w. (find (\<lambda>j. bj_id j = jobId \<and> of_share share j) (bw_jobs w), w))"

definition getBulkParts ::
  "'x bulk_world_scheme services \<Rightarrow> share_view \<Rightarrow> ustring \<Rightarrow> ('x bulk_world_scheme, bulk_job list) io" where
  "getBulkParts sv share jobId = await sv (\<lambda>w.
     (sort_key (\<lambda>j. case bj_index j of Some i \<Rightarrow> i | None \<Rightarrow> 0) (filter (\<lambda>j. bj_parent j = Some jobId \<and> of_share share j) (bw_jobs w)), w))"

definition readyBulkJobIsExpired :: "bulk_job \<Rightarrow> int \<Rightarrow> bool" where
  "readyBulkJobIsExpired job now \<longleftrightarrow> bj_status job = Bulk_ready \<and> bj_expires job \<le> now"

definition bulkDownloadResumeExpiresAt :: "bulk_job \<Rightarrow> share_view \<Rightarrow> int \<Rightarrow> int option" where
  "bulkDownloadResumeExpiresAt job share now =
     (if bj_expires job \<le> now then None
      else case ps_expires share of
        Some None \<Rightarrow> None
      | Some (Some t) \<Rightarrow> if min (bj_expires job) t > now then Some (min (bj_expires job) t) else None
      | None \<Rightarrow> Some (bj_expires job))"

definition bulkJobProgress :: "bulk_job \<Rightarrow> int option \<times> string option" where
  "bulkJobProgress job =
     (if bj_status job = Bulk_ready then (Some 100, Some ''Download ready'')
      else if bj_status job \<noteq> Bulk_running \<or> bj_total job \<le> 0 then (None, None)
      else (Some (min 99 (max 0 ((200 * bj_processed job + bj_total job) div (2 * bj_total job)))),
            Some (if bj_size job = None then ''Checking files'' else ''Building ZIP'')))"

text \<open>The row as the handler goes on with it.\<close>

definition expireReadyBulkJob :: "'x bulk_world_scheme services \<Rightarrow> bulk_job \<Rightarrow> ('x bulk_world_scheme, bulk_job) io" where
  "expireReadyBulkJob sv job =
     bind_io js_now (\<lambda>now.
     if \<not> readyBulkJobIsExpired job now then ret job
     else
       bind_io (await sv (update_jobs (\<lambda>w j. bj_id j = bj_id job \<and> bj_status j = Bulk_ready \<and> expiry_second j \<le> w_now w)
         (\<lambda>now j. j\<lparr>bj_status := Bulk_expired\<rparr>))) (\<lambda>_.
       bind_io (in_background (await sv (r2_delete_all ((if bj_fingerprint job = None then [bj_archive job] else []) @ manifest_keys job)))) (\<lambda>_.
       ret (job\<lparr>bj_status := Bulk_expired\<rparr>))))"

subsection \<open>The state of a download\<close>

text \<open>The row of a split download is computed from its parts.\<close>

definition joined_status :: "bulk_job \<Rightarrow> bulk_job list \<Rightarrow> bulk_status" where
  "joined_status job parts =
     (if list_ex (\<lambda>p. bj_status p = Bulk_failed) parts then Bulk_failed
      else if list_ex (\<lambda>p. bj_status p = Bulk_expired) parts then Bulk_expired
      else if length parts = bj_count job \<and> list_all (\<lambda>p. bj_status p = Bulk_ready) parts then Bulk_ready
      else Bulk_running)"

definition earliest :: "bulk_job list \<Rightarrow> int \<Rightarrow> int" where
  "earliest parts now = (case parts of [] \<Rightarrow> now | p # rest \<Rightarrow> foldl (\<lambda>e q. if bj_expires q < e then bj_expires q else e) (bj_expires p) rest)"

definition joined_job :: "bulk_job \<Rightarrow> bulk_job list \<Rightarrow> bulk_job" where
  "joined_job job parts = job\<lparr>bj_status := joined_status job parts,
     bj_files := (\<Sum>p \<leftarrow> parts. bj_files p), bj_processed_files := (\<Sum>p \<leftarrow> parts. bj_processed_files p),
     bj_total := (\<Sum>p \<leftarrow> parts. bj_total p), bj_processed := (\<Sum>p \<leftarrow> parts. bj_processed p),
     bj_size := (if joined_status job parts = Bulk_ready then Some (\<Sum>p \<leftarrow> parts. case bj_size p of Some n \<Rightarrow> n | None \<Rightarrow> 0) else None),
     bj_error := Option.bind (find (\<lambda>p. bj_status p = Bulk_failed) parts) bj_error,
     bj_expires := earliest parts (bj_expires job)\<rparr>"

fun expire_each :: "'x bulk_world_scheme services \<Rightarrow> bulk_job list \<Rightarrow> ('x bulk_world_scheme, bulk_job list) io" where
  "expire_each sv [] = ret []"
| "expire_each sv (p # rest) = bind_io (expireReadyBulkJob sv p) (\<lambda>p. bind_io (expire_each sv rest) (\<lambda>rest. ret (p # rest)))"

definition split_job :: "bulk_job \<Rightarrow> bool" where
  "split_job job \<longleftrightarrow> \<not> present (bj_parent job) \<and> bj_count job > 1"

text \<open>The answer: the row, its progress, the jobs to download from, and the cookies that allow resuming.\<close>

record bulk_answer =
  bn_job :: bulk_job
  bn_failure :: "BulkFailure option"
  bn_progress :: "int option"
  bn_message :: "string option"
  bn_downloads :: "(nat \<times> nat \<times> int option \<times> ustring) list"
  bn_cookies :: "ustring list"

fun resume_cookies :: "public_env \<Rightarrow> share_view \<Rightarrow> bulk_job list \<Rightarrow> int \<Rightarrow> fault + ustring list" where
  "resume_cookies pe share [] now = Inr []"
| "resume_cookies pe share (p # rest) now =
     (case bulkDownloadResumeExpiresAt p share now of
        None \<Rightarrow> resume_cookies pe share rest now
      | Some expiresAt \<Rightarrow>
          if expiresAt = 0 then resume_cookies pe share rest now
          else
            rbind (createBulkDownloadResumeCookie (pe_crypto pe) (sk_secret (pe_key pe)) (sk_keyId (pe_key pe)) (ps_id share)
              (ps_version share) (the (ps_public share)) (bj_id p) expiresAt now) (\<lambda>cookie.
            rbind (resume_cookies pe share rest now) (\<lambda>cookies. Inr (cookie # cookies))))"

definition download_entry :: "bulk_job \<Rightarrow> nat \<times> nat \<times> int option \<times> ustring" where
  "download_entry p = (case bj_index p of Some i \<Rightarrow> if i = 0 then 1 else i | None \<Rightarrow> 1, bj_count p, bj_size p, bj_id p)"

definition bulk_answer_of :: "public_env \<Rightarrow> share_view \<Rightarrow> bulk_job \<Rightarrow> bulk_job list \<Rightarrow> int \<Rightarrow> fault + bulk_answer" where
  "bulk_answer_of pe share job parts now =
     (let downloads = (if bj_status job = Bulk_ready then (if parts \<noteq> [] then parts else [job]) else []) in
      rbind (resume_cookies pe share downloads now) (\<lambda>cookies.
      Inr \<lparr>bn_job = job, bn_failure = map_option (\<lambda>f. friendlyBulkFailure (Some (bf_code f))) (bj_error job),
        bn_progress = fst (bulkJobProgress job), bn_message = snd (bulkJobProgress job),
        bn_downloads = map download_entry downloads, bn_cookies = cookies\<rparr>))"

definition download_state ::
  "'x bulk_world_scheme services \<Rightarrow> public_env \<Rightarrow> ustring \<Rightarrow> share_view \<Rightarrow> ('x bulk_world_scheme, bulk_answer) io" where
  "download_state sv pe jobId share =
     bind_io (lift (requireFolderShareFeature share)) (\<lambda>_.
     bind_io (getBulkJob sv share jobId) (\<lambda>found.
     case found of
       None \<Rightarrow> raise (Http 404 ''Download job not found'')
     | Some row \<Rightarrow>
         bind_io (expireReadyBulkJob sv row) (\<lambda>job.
         bind_io (if split_job job then bind_io (getBulkParts sv share (bj_id job)) (expire_each sv) else ret []) (\<lambda>parts.
         bind_io js_now (\<lambda>now.
         lift (bulk_answer_of pe share (if split_job job then joined_job job parts else job) parts now))))))"

subsection \<open>The archive\<close>

record archive_answer =
  an_status :: nat
  an_size :: int
  an_range :: "(int \<times> int) option"
  an_body :: "byte list option"
  an_disposition :: ustring

definition pad2 :: "nat \<Rightarrow> nat \<Rightarrow> ustring" where
  "pad2 count n = (let width = max 2 (length (decimal count)) in replicate (width - length (decimal n)) 48 @ decimal n)"

definition part_label :: "bulk_job \<Rightarrow> ustring" where
  "part_label job = (if present (bj_parent job) \<and> bj_count job > 1
     then ustr ''-part-'' @ (case bj_index job of Some i \<Rightarrow> pad2 (bj_count job) i | None \<Rightarrow> ustr ''null'') @ ustr ''-of-'' @ pad2 (bj_count job) (bj_count job)
     else [])"

text \<open>The expressions replace code units, so a character beyond the basic plane becomes two marks.\<close>

definition ascii_char :: "nat \<Rightarrow> ustring" where
  "ascii_char c = (if c > 0xFFFF then [95, 95] else if c < 32 \<or> c > 126 \<or> c = 34 \<or> c = 92 then [95] else [c])"

definition archive_disposition :: "(ustring \<Rightarrow> ustring) \<Rightarrow> ustring \<Rightarrow> bulk_job \<Rightarrow> ustring" where
  "archive_disposition nfc title job =
     (let normalized = nfc ((if title = [] then ustr ''delivery'' else title) @ part_label job @ ustr ''.zip'');
          plain = take 180 (concat (map ascii_char normalized)) in
      ustr ''attachment; filename='' @ 34 # (if plain = [] then ustr ''delivery.zip'' else plain) @ 34 # ustr ''; filename*=UTF-8'' @
        39 # 39 # encodeURIComponent normalized)"

definition streamArchive ::
  "'x bulk_world_scheme services \<Rightarrow> ustring \<Rightarrow> bool \<Rightarrow> ustring option \<Rightarrow> ustring option \<Rightarrow> bulk_job \<Rightarrow> ('x bulk_world_scheme, archive_answer) io" where
  "streamArchive sv title headOnly rangeHeader ifRange job =
     bind_io (await sv (r2_head (bj_archive job))) (\<lambda>found.
     case found of
       None \<Rightarrow> raise (Http 404 ''Archive not found'')
     | Some head \<Rightarrow>
         let len = int (length (r2_body head)); disposition = archive_disposition (pr_nfc (sv_paths sv)) title job in
         (case parseRange (if \<not> present ifRange \<or> matchesEtag ifRange (http_etag head) then rangeHeader else None) len of
            Inl f \<Rightarrow> ret \<lparr>an_status = 416, an_size = len, an_range = None, an_body = None, an_disposition = []\<rparr>
          | Inr piece \<Rightarrow>
              let status = (if piece = None then 200 else 206) in
              if headOnly then ret \<lparr>an_status = status, an_size = len, an_range = piece, an_body = None, an_disposition = disposition\<rparr>
              else
                bind_io (await sv (r2_get (bj_archive job) Unconditional)) (\<lambda>got. case got of
                  Body obj \<Rightarrow> ret \<lparr>an_status = status, an_size = len, an_range = piece,
                    an_body = Some (case piece of None \<Rightarrow> r2_body obj | Some (off, n) \<Rightarrow> take (nat n) (drop (nat off) (r2_body obj))),
                    an_disposition = disposition\<rparr>
                | _ \<Rightarrow> raise (Http 404 ''Archive not found''))))"

definition download_file ::
  "'x bulk_world_scheme services \<Rightarrow> ustring \<Rightarrow> bool \<Rightarrow> ustring option \<Rightarrow> ustring option \<Rightarrow> ustring \<Rightarrow> share_view \<Rightarrow>
   ('x bulk_world_scheme, archive_answer) io" where
  "download_file sv title headOnly rangeHeader ifRange jobId share =
     bind_io (lift (requireFolderShareFeature share)) (\<lambda>_.
     bind_io (getBulkJob sv share jobId) (\<lambda>found.
     case found of
       None \<Rightarrow> raise (Http 404 ''Download is not ready'')
     | Some row \<Rightarrow>
         bind_io (expireReadyBulkJob sv row) (\<lambda>job.
         if bj_status job \<noteq> Bulk_ready then
           raise (if bj_status job = Bulk_expired then Http 410 ''This prepared download has expired.'' else Http 404 ''Download is not ready'')
         else streamArchive sv title headOnly rangeHeader ifRange job)))"

end
