(* ===== verification/Bulk_Kept.thy ===== *)
theory Bulk_Kept
  imports Bulk_Cleanup Bulk_Routes Trash_Safety
begin

section \<open>Prepared archives are not deleted under their downloads\<close>

text \<open>
  A statement about one ready job and its archive that no cleanup, no request and no run of another job
  can break before the job expires, whatever fails between two calls. Every call is shown to keep it,
  and the rows that the handlers read under it have what the later calls need.
\<close>

subsection \<open>The statement\<close>

definition tidy :: "bulk_job \<Rightarrow> bool" where
  "tidy j \<longleftrightarrow> starts_with (bj_manifest j) temporary_prefix \<and>
     (bj_fingerprint j = None \<longrightarrow> starts_with (bj_archive j) temporary_prefix)"

record ready_archive =
  ra_key :: ustring
  ra_object :: r2_object
  ra_job :: ustring
  ra_share :: ustring
  ra_version :: int
  ra_until :: int

definition serves_archive :: "ready_archive \<Rightarrow> bulk_job \<Rightarrow> bool" where
  "serves_archive a j \<longleftrightarrow> bj_status j = Bulk_ready \<and> bj_archive j = ra_key a \<and> bj_fingerprint j \<noteq> None \<and>
     bj_share j = ra_share a \<and> bj_version j = ra_version a \<and> ra_until a \<le> expiry_second j"

definition row_ok :: "ready_archive \<Rightarrow> bulk_job \<Rightarrow> bool" where
  "row_ok a j \<longleftrightarrow> tidy j \<and> (bj_id j = ra_job a \<longrightarrow> serves_archive a j)"

definition holds_archive :: "ready_archive \<Rightarrow> 'x bulk_world_scheme \<Rightarrow> bool" where
  "holds_archive a w \<longleftrightarrow> w_now w < ra_until a \<and> w_bucket w (ra_key a) = Some (ra_object a) \<and> starts_with (ra_key a) cache_prefix \<and>
     (\<exists>j \<in> set (bw_jobs w). bj_id j = ra_job a) \<and> (\<forall>j \<in> set (bw_jobs w). row_ok a j) \<and>
     (\<forall>g \<in> set (bw_generations w). ag_key g = ra_key a \<longrightarrow> \<not> ag_deleting g)"

text \<open>The documented behaviour of a listing that is used: what it lists has the prefix.\<close>

definition lists_under :: "'w services \<Rightarrow> bool" where
  "lists_under sv \<longleftrightarrow> (\<forall>b p l c s. \<forall>obj \<in> set (rp_objects (sv_list sv b p l c s)). starts_with (r2_key obj) p)"

lemma starts_with_longer: "starts_with s p \<Longrightarrow> starts_with (s @ t) p"
  by (auto elim!: starts_withE)

lemma prefixes_apart: "starts_with k temporary_prefix \<Longrightarrow> \<not> starts_with k cache_prefix"
proof (erule starts_withE)
  show "\<not> starts_with k cache_prefix" if "k = temporary_prefix @ r" for r
    by (simp add: that starts_with_def temporary_prefix_def cache_prefix_def ustr_def)
qed

lemma kept_elsewhere: "holds_archive a w \<Longrightarrow> starts_with k temporary_prefix \<Longrightarrow> k \<noteq> ra_key a"
  using prefixes_apart by (auto simp: holds_archive_def)

lemma tidy_keys: "tidy j \<Longrightarrow> k \<in> set (manifest_keys j) \<Longrightarrow> starts_with k temporary_prefix"
  by (auto simp: tidy_def manifest_keys_def resolvedBulkManifestKey_def finalBulkManifestKey_def intro: starts_with_longer)

lemma kept_frames [simp]:
  "holds_archive a (w\<lparr>w_calls := n\<rparr>) = holds_archive a w" "holds_archive a (w\<lparr>w_outbox := e\<rparr>) = holds_archive a w" "holds_archive a (w\<lparr>w_minted := n\<rparr>) = holds_archive a w"
  "holds_archive a (w\<lparr>bw_checksums := c\<rparr>) = holds_archive a w" "holds_archive a (w\<lparr>bw_used := u\<rparr>) = holds_archive a w" "holds_archive a (w\<lparr>bw_cursors := s\<rparr>) = holds_archive a w"
  "holds_archive a (w\<lparr>bw_quota := q\<rparr>) = holds_archive a w" "holds_archive a (w\<lparr>bw_uploads := l\<rparr>) = holds_archive a w" "holds_archive a (w\<lparr>bw_instances := i\<rparr>) = holds_archive a w"
  "holds_archive a (w\<lparr>bw_cache := r\<rparr>) = holds_archive a w" "holds_archive a (w\<lparr>dw_events := v\<rparr>) = holds_archive a w"
  by (simp_all add: holds_archive_def)

interpretation kept: watched "holds_archive a :: 'x bulk_world_scheme \<Rightarrow> bool" for a
  by unfold_locales simp_all

subsection \<open>Calls\<close>

lemma kept_row: "holds_archive a w \<Longrightarrow> j \<in> set (bw_jobs w) \<Longrightarrow> row_ok a j"
  by (simp add: holds_archive_def)

lemma kept_map_jobs:
  assumes "holds_archive a w" and ok: "\<And>j. j \<in> set (bw_jobs w) \<Longrightarrow> row_ok a (f j) \<and> bj_id (f j) = bj_id j"
  shows "holds_archive a (w\<lparr>bw_jobs := map f (bw_jobs w)\<rparr>)"
proof -
  obtain j where "j \<in> set (bw_jobs w)" "bj_id j = ra_job a" using assms(1) by (auto simp: holds_archive_def)
  then have "\<exists>j \<in> f ` set (bw_jobs w). bj_id j = ra_job a" using ok by (intro bexI [of _ "f j"]) simp_all
  then show ?thesis using assms by (simp add: holds_archive_def)
qed

lemma kept_update:
  assumes "holds_archive a w"
    and "\<And>j. j \<in> set (bw_jobs w) \<Longrightarrow> cond w j \<Longrightarrow> row_ok a j \<Longrightarrow>
      bj_id j \<noteq> ra_job a \<and> bj_id (change (w_now w) j) = bj_id j \<and> tidy ((change (w_now w) j)\<lparr>bj_updated := w_now w\<rparr>)"
  shows "holds_archive a (snd (update_jobs cond change w))"
  unfolding update_jobs_def snd_conv
  by (rule kept_map_jobs [OF assms(1)]) (use assms(2) kept_row [OF assms(1)] in \<open>auto simp: row_ok_def\<close>)

lemma kept_add_job: "holds_archive a w \<Longrightarrow> row_ok a j \<Longrightarrow> holds_archive a (w\<lparr>bw_jobs := bw_jobs w @ [j]\<rparr>)"
  by (auto simp: holds_archive_def)

lemma kept_delete_all: "holds_archive a w \<Longrightarrow> ra_key a \<notin> set keys \<Longrightarrow> holds_archive a (snd (r2_delete_all keys w))"
  by (simp add: holds_archive_def r2_delete_all_def)

lemma kept_removed: "holds_archive a w \<Longrightarrow> k \<noteq> ra_key a \<Longrightarrow> holds_archive a (snd (r2_delete k w))"
  by (simp add: holds_archive_def r2_delete_def)

lemma kept_put: "holds_archive a w \<Longrightarrow> k \<noteq> ra_key a \<Longrightarrow> holds_archive a (snd (r2_put sv k body cond http custom w))"
  by (simp add: holds_archive_def r2_put_def Let_def)

lemma kept_complete: "holds_archive a w \<Longrightarrow> k \<noteq> ra_key a \<Longrightarrow> holds_archive a (snd (complete_upload sv br k u parts w))"
  by (simp add: holds_archive_def complete_upload_def Let_def split: option.split)

lemma kept_uploads: "holds_archive a w \<Longrightarrow> holds_archive a (snd (create_upload sv k w))" "holds_archive a w \<Longrightarrow> holds_archive a (snd (upload_part sv k u n bytes w))"
    "holds_archive a w \<Longrightarrow> holds_archive a (snd (abort_upload k u w))" "holds_archive a w \<Longrightarrow> holds_archive a (snd (create_instance i prepared w))"
  by (simp_all add: create_upload_def upload_part_def abort_upload_def create_instance_def Let_def split: option.split)

lemma kept_upsert_generation: "holds_archive a w \<Longrightarrow> holds_archive a (snd (upsert_generation k e n w))"
  by (auto simp: holds_archive_def upsert_generation_def)

lemma kept_record: "holds_archive a w \<Longrightarrow> holds_archive a (snd (record_archive job resolved k e plan w))"
proof -
  assume kept: "holds_archive a w"
  obtain n w1 where g: "upsert_generation k e (mp_archiveSize plan) w = (n, w1)" by (cases "upsert_generation k e (mp_archiveSize plan) w")
  with kept_upsert_generation [OF kept, of k e "mp_archiveSize plan"] have "holds_archive a w1" by simp
  then show ?thesis using kept by (auto simp: record_archive_def g upsert_cache_def Let_def)
qed

subsection \<open>Claims\<close>

lemma kept_named: "holds_archive a w \<Longrightarrow> now div 1000 < ra_until a \<Longrightarrow> named_by_current now (ra_key a) w"
  by (fastforce simp: holds_archive_def row_ok_def serves_archive_def named_by_current_def list_ex_iff current_job_def claims_archive_def)

lemma kept_claim:
  assumes "holds_archive a w" and "now div 1000 < ra_until a"
  shows "holds_archive a (snd (claim_generation now k e n w)) \<and> (fst (claim_generation now k e n w) \<noteq> 0 \<longrightarrow> k \<noteq> ra_key a)"
proof (cases "k = ra_key a")
  case True
  then show ?thesis using kept_named [OF assms] assms(1) by (simp add: claim_generation_def Let_def)
next
  case False
  then show ?thesis using assms(1) by (auto simp: claim_generation_def Let_def holds_archive_def generation_is_def)
qed

lemma kept_claim_cached:
  assumes "holds_archive a w" and "now div 1000 < ra_until a"
  shows "holds_archive a (snd (claim_cached now c w)) \<and> (snd (fst (claim_cached now c w)) \<noteq> 0 \<longrightarrow> ac_key c \<noteq> ra_key a)"
proof -
  have "holds_archive a (snd (drop_cached now c w))" using assms(1) by (simp add: drop_cached_def Let_def)
  from kept_claim [OF this assms(2)] show ?thesis by (simp add: claim_cached_def case_prod_beta)
qed

lemma kept_claim_orphan:
  assumes "holds_archive a w" and "now div 1000 < ra_until a"
  shows "holds_archive a (snd (claim_orphan now obj w)) \<and> (fst (claim_orphan now obj w) \<noteq> 0 \<longrightarrow> r2_key obj \<noteq> ra_key a)"
proof -
  have "holds_archive a (adopt_generation obj w)" using assms(1) by (auto simp: adopt_generation_def holds_archive_def)
  from kept_claim [OF this assms(2)] show ?thesis by (simp add: claim_orphan_def)
qed

lemma kept_expire:
  assumes "holds_archive a w" and "now div 1000 < ra_until a"
  shows "holds_archive a (snd (expire_jobs now w))"
  unfolding expire_jobs_def snd_conv
  by (rule kept_map_jobs [OF assms(1)])
    (use kept_row [OF assms(1)] assms(2) in \<open>force simp: row_ok_def serves_archive_def tidy_def\<close>)

lemma kept_forget: "holds_archive a w \<Longrightarrow> holds_archive a (snd (forget_generation k w))"
  by (auto simp: holds_archive_def forget_generation_def)

lemma kept_retire: "holds_archive a w \<Longrightarrow> holds_archive a (snd (retire_jobs w))"
  by (fastforce simp: holds_archive_def retire_jobs_def row_ok_def serves_archive_def)

section \<open>Every actor of the bulk downloads leaves a ready archive in place\<close>

text \<open>
  Rules for handlers under an invariant, then one lemma for each handler: the selection, the run of
  another job, the routes of shares and the cleanup keep the statement above, for every
  environment whose turns keep it and whatever calls fail.
\<close>

subsection \<open>Rules\<close>

lemma supports_then:
  "supports P m (\<lambda>_. True) \<Longrightarrow> (\<And>x. supports P (k x) R) \<Longrightarrow> supports P (bind_io m k) R"
  by (rule supports_bind)

lemma supports_any: "supports P m Q \<Longrightarrow> supports P m (\<lambda>_. True)"
  by (rule supports_weaken) simp_all

lemma supports_now: "(\<And>w. P w \<Longrightarrow> Q (w_now w * 1000)) \<Longrightarrow> supports P js_now Q"
  by (simp add: supports_def js_now_def)

lemma supports_if: "(c \<Longrightarrow> supports P x Q) \<Longrightarrow> (\<not> c \<Longrightarrow> supports P y Q) \<Longrightarrow> supports P (if c then x else y) Q"
  by simp

lemma supports_option:
  "(v = None \<Longrightarrow> supports P x Q) \<Longrightarrow> (\<And>y. v = Some y \<Longrightarrow> supports P (f y) Q) \<Longrightarrow>
   supports P (case v of None \<Rightarrow> x | Some y \<Rightarrow> f y) Q"
  by (cases v) auto

lemma supports_prod: "(\<And>x y. v = (x, y) \<Longrightarrow> supports P (f x y) Q) \<Longrightarrow> supports P (case v of (x, y) \<Rightarrow> f x y) Q"
  by (cases v) auto

lemma supports_got:
  "supports P x Q \<Longrightarrow> (\<And>y. supports P (f y) Q) \<Longrightarrow> (\<And>y. supports P (g y) Q) \<Longrightarrow>
   supports P (case v of Missing \<Rightarrow> x | No_body y \<Rightarrow> f y | Body y \<Rightarrow> g y) Q"
  by (cases v) auto

context watched
begin

lemma await_db:
  assumes "turns_keep sv P" and "\<And>w. P w \<Longrightarrow> P (snd (call w)) \<and> (\<forall>x. fst (call w) = Inr x \<longrightarrow> Q x)"
  shows "supports P (await_db sv call) Q"
  unfolding await_db_def
  by (rule supports_bind [OF await [OF assms(1), where Q = "\<lambda>r. \<forall>x. r = Inr x \<longrightarrow> Q x"]]) (use assms(2) in \<open>auto intro: supports_lift\<close>)

lemma calling: "turns_keep sv P \<Longrightarrow> (\<And>w. P w \<Longrightarrow> P (snd (call w))) \<Longrightarrow> supports P (await sv call) (\<lambda>_. True)"
  by (rule await) simp_all

lemma calling_db: "turns_keep sv P \<Longrightarrow> (\<And>w. P w \<Longrightarrow> P (snd (call w))) \<Longrightarrow> supports P (await_db sv call) (\<lambda>_. True)"
  by (rule await_db) simp_all

lemma checkpoint: "turns_keep sv P \<Longrightarrow> supports P body Q \<Longrightarrow> supports P (checkpointed sv body) Q"
  unfolding checkpointed_def by (erule supports_bind) (rule supports_then [OF reading], simp_all add: supports_ret)

lemma stepping: "turns_keep sv P \<Longrightarrow> supports P body Q \<Longrightarrow> supports P (step_do sv n body) Q"
  by (induction n) (simp_all add: checkpoint supports_catch)

lemma sleeping: "turns_keep sv P \<Longrightarrow> supports P (step_sleep sv) (\<lambda>_. True)"
  unfolding step_sleep_def by (rule reading) simp_all

lemma reading_json: "turns_keep sv P \<Longrightarrow> supports P (readJson sv parse key) (\<lambda>_. True)"
  unfolding readJson_def
  by (rule supports_then [OF reading]) (auto simp: r2_get_def split: option.split intro!: supports_got supports_option supports_ret supports_raise)

subsection \<open>Selection\<close>

lemma reading_share:
  fixes call :: "'x world_scheme \<Rightarrow> 'y option \<times> 'x world_scheme"
  shows "turns_keep sv P \<Longrightarrow> (\<And>w. snd (call w) = w) \<Longrightarrow> supports P (bind_io (await sv call) (\<lambda>found.
     case found of None \<Rightarrow> raise f | Some x \<Rightarrow> ret x)) (\<lambda>_. True)"
  by (rule supports_then [OF reading]) (auto intro: supports_option supports_raise supports_ret)

end

lemmas steps = supports_then supports_ret supports_raise supports_lift supports_if supports_option supports_prod kept.reading
  kept.calling kept.calling_db

lemma kept_whole_share: "turns_keep sv (holds_archive a) \<Longrightarrow> supports (holds_archive a) (whole_share sv root tombstones) (\<lambda>_. True)"
  unfolding whole_share_def by (intro steps) simp_all

lemma kept_select_items:
  "turns_keep sv (holds_archive a) \<Longrightarrow> supports (holds_archive a) (select_items sv root tombstones refs st) (\<lambda>_. True)"
proof (induction refs arbitrary: st)
  case Nil
  then show ?case by (simp add: supports_ret)
next
  case (Cons ref refs)
  note rest = Cons.IH [OF Cons.prems]
  obtain files prefixes where st: "st = (files, prefixes)" by (cases st)
  show ?case
    unfolding st select_items.simps Let_def by (intro steps rest Cons.prems) (simp_all add: r2_head_def)
qed

lemma kept_folder_files:
  "turns_keep sv (holds_archive a) \<Longrightarrow> supports (holds_archive a) (folder_files sv tombstones prefix n cursor files) (\<lambda>_. True)"
proof (induction n arbitrary: cursor files)
  case 0
  then show ?case by (simp add: supports_raise)
next
  case (Suc n)
  then show ?case by (auto simp: Let_def r2_list_def intro!: steps)
qed

lemma kept_folders_files:
  "turns_keep sv (holds_archive a) \<Longrightarrow> supports (holds_archive a) (folders_files sv tombstones prefixes files) (\<lambda>_. True)"
  by (induction prefixes arbitrary: files) (auto intro!: steps kept_folder_files)

lemma kept_selected:
  "turns_keep sv (holds_archive a) \<Longrightarrow> supports (holds_archive a) (selected_files sv root tombstones request) (\<lambda>_. True)"
  unfolding selected_files_def by (auto intro!: steps kept_whole_share kept_select_items kept_folders_files)

lemma kept_name_sources: "turns_keep sv (holds_archive a) \<Longrightarrow> supports (holds_archive a) (name_sources sv br root files) (\<lambda>_. True)"
  unfolding name_sources_def Let_def by (auto intro!: steps)

lemma kept_snapshot: "turns_keep sv (holds_archive a) \<Longrightarrow> supports (holds_archive a) (snapshot sv br job) (\<lambda>_. True)"
  unfolding snapshot_def read_share_def by (auto intro!: steps kept_selected kept_name_sources)

lemma kept_put_json:
  "turns_keep sv (holds_archive a) \<Longrightarrow> starts_with key temporary_prefix \<Longrightarrow> supports (holds_archive a) (put_json sv key text) (\<lambda>_. True)"
  unfolding put_json_def by (auto intro!: steps kept_put dest: kept_elsewhere)

subsection \<open>The run of another job\<close>

text \<open>A job that is neither the one whose archive is watched nor the one that built this archive.\<close>

definition stranger :: "ready_archive \<Rightarrow> bulk_job \<Rightarrow> bool" where
  "stranger a job \<longleftrightarrow> tidy job \<and> bj_id job \<noteq> ra_job a \<and> (\<forall>s f. bulkCacheArtifactKey s f (bj_id job) \<noteq> ra_key a)"

lemma stranger_manifests:
  assumes "stranger a job"
  shows "starts_with (bj_manifest job) temporary_prefix" "starts_with (resolvedBulkManifestKey (bj_manifest job)) temporary_prefix"
    "starts_with (finalBulkManifestKey (bj_manifest job)) temporary_prefix"
  using assms by (auto simp: stranger_def resolvedBulkManifestKey_def finalBulkManifestKey_def tidy_def intro: starts_with_longer)

lemma kept_update_other:
  assumes "holds_archive a w" and "\<And>j. cond w j \<Longrightarrow> bj_id j \<noteq> ra_job a"
    and "\<And>j. bj_id (change (w_now w) j) = bj_id j"
    and "\<And>j. tidy j \<Longrightarrow> tidy (change (w_now w) j)"
  shows "holds_archive a (snd (update_jobs cond change w))"
proof (rule kept_update [OF assms(1)])
  fix j assume "cond w j" "row_ok a j"
  then show "bj_id j \<noteq> ra_job a \<and> bj_id (change (w_now w) j) = bj_id j \<and> tidy ((change (w_now w) j)\<lparr>bj_updated := w_now w\<rparr>)"
    using assms(2-4) [of j] by (simp add: row_ok_def tidy_def)
qed

lemma kept_mark_running: "holds_archive a w \<Longrightarrow> jobId \<noteq> ra_job a \<Longrightarrow> holds_archive a (snd (mark_running jobId sources w))"
  unfolding mark_running_def by (rule kept_update_other) (simp_all add: tidy_def)

lemma kept_mark_split: "holds_archive a w \<Longrightarrow> jobId \<noteq> ra_job a \<Longrightarrow> holds_archive a (snd (mark_split jobId parts w))"
  unfolding mark_split_def by (rule kept_update_other) (simp_all add: tidy_def)

lemma kept_mark_failed: "holds_archive a w \<Longrightarrow> jobId \<noteq> ra_job a \<Longrightarrow> holds_archive a (snd (mark_failed jobId failure w))"
  unfolding mark_failed_def by (rule kept_update_other) (auto simp: tidy_def)

lemma kept_attach: "holds_archive a w \<Longrightarrow> bj_id job \<noteq> ra_job a \<Longrightarrow> holds_archive a (snd (attach_archive job fp row w))"
  unfolding attach_archive_def by (rule kept_update_other) (auto simp: tidy_def)

lemma kept_claim_archive: "holds_archive a w \<Longrightarrow> bj_id job \<noteq> ra_job a \<Longrightarrow> holds_archive a (snd (claim_archive job fp row w))"
  by (simp add: claim_archive_def renew_cache_def Let_def case_prod_beta kept_attach)

lemma kept_selection:
  "turns_keep sv (holds_archive a) \<Longrightarrow> stranger a job \<Longrightarrow> supports (holds_archive a) (snapshot_selection sv br job) (\<lambda>_. True)"
  unfolding snapshot_selection_def
  by (auto intro!: steps kept_snapshot kept_put_json stranger_manifests kept_mark_running simp: stranger_def [of a job] tidy_def)

lemma part_name_temporary: "starts_with (part_name job share suffix @ t) temporary_prefix"
  by (simp add: part_name_def)

lemma kept_insert_part: "holds_archive a w \<Longrightarrow> holds_archive a (snd (insert_job_or_ignore (part_job job share suffix child n parts stamp now) w))"
  unfolding insert_job_or_ignore_def
  by (auto simp: row_ok_def tidy_def part_job_def part_name_temporary same_job_def list_ex_iff holds_archive_def intro!: kept_add_job)

lemma kept_start_part: "turns_keep sv (holds_archive a) \<Longrightarrow> supports (holds_archive a) (start_part sv childId) (\<lambda>_. True)"
  unfolding start_part_def by (auto intro!: steps supports_catch kept_uploads simp: known_instance_def)

lemma kept_spawn: "turns_keep sv (holds_archive a) \<Longrightarrow> supports (holds_archive a) (spawn_part sv job share child n parts) (\<lambda>_. True)"
  unfolding spawn_part_def Let_def
  by (auto intro!: steps kept_put_json part_name_temporary supports_now kept_insert_part kept_start_part)

lemma kept_select_and_split:
  "turns_keep sv (holds_archive a) \<Longrightarrow> stranger a job \<Longrightarrow> supports (holds_archive a) (select_and_split sv br job) (\<lambda>_. True)"
  unfolding select_and_split_def
  by (auto intro!: steps kept.stepping kept_selection kept.reading_json supports_for_each kept_spawn kept_mark_split simp: stranger_def [of a job])

lemma kept_resolve: "turns_keep sv (holds_archive a) \<Longrightarrow> stranger a job \<Longrightarrow> supports (holds_archive a) (resolve_step sv br job snap) (\<lambda>_. True)"
  unfolding resolve_step_def resolve_snapshot_def read_checksums_def
  by (auto intro!: steps kept_put_json stranger_manifests simp: touchChecksumCache_def)

lemma kept_reuse: "turns_keep sv (holds_archive a) \<Longrightarrow> bj_id job \<noteq> ra_job a \<Longrightarrow> supports (holds_archive a) (reuseCachedArchive sv job resolved) (\<lambda>_. True)"
  unfolding reuseCachedArchive_def by (auto intro!: steps kept_claim_archive simp: r2_head_def)

lemma kept_mark_cached: "turns_keep sv (holds_archive a) \<Longrightarrow> jobId \<noteq> ra_job a \<Longrightarrow> supports (holds_archive a) (mark_cached_ready sv jobId fp c) (\<lambda>_. True)"
  unfolding mark_cached_ready_def by (intro steps kept_update_other) (auto simp: may_be_ready_def tidy_def)

lemma kept_mark_ready: "turns_keep sv (holds_archive a) \<Longrightarrow> jobId \<noteq> ra_job a \<Longrightarrow> supports (holds_archive a) (mark_ready sv jobId key fp plan) (\<lambda>_. True)"
  unfolding mark_ready_def by (intro steps kept_update_other) (auto simp: may_be_ready_def tidy_def)

lemma kept_create: "turns_keep sv (holds_archive a) \<Longrightarrow> jobId \<noteq> ra_job a \<Longrightarrow> supports (holds_archive a) (create_multipart sv jobId key fp plan) (\<lambda>_. True)"
  unfolding create_multipart_def by (intro steps kept_update_other kept_uploads) (auto simp: running_job_def tidy_def)

lemma kept_build_part: "turns_keep sv (holds_archive a) \<Longrightarrow> supports (holds_archive a) (build_part sv br sources state len) (\<lambda>_. True)"
  unfolding build_part_def by (intro steps) simp_all

lemma kept_persist: "turns_keep sv (holds_archive a) \<Longrightarrow> supports (holds_archive a) (await sv (persist_checksums sources checksums)) (\<lambda>_. True)"
  by (rule kept.calling) (simp_all add: persist_checksums_def)

lemma kept_prefix_part:
  "turns_keep sv (holds_archive a) \<Longrightarrow> jobId \<noteq> ra_job a \<Longrightarrow>
   supports (holds_archive a) (prefix_part sv br jobId sources key uploadId plan n state) (\<lambda>_. True)"
  unfolding prefix_part_def
  by (intro steps kept_build_part kept_persist kept_update_other kept_uploads) (auto simp: running_job_def tidy_def)

lemma kept_prefix_parts:
  "turns_keep sv (holds_archive a) \<Longrightarrow> jobId \<noteq> ra_job a \<Longrightarrow>
   supports (holds_archive a) (prefix_parts sv br jobId sources key uploadId plan n count state) (\<lambda>_. True)"
  by (induction count arbitrary: n state) (auto intro!: steps kept.stepping kept_prefix_part)

lemma kept_final_part:
  assumes turns: "turns_keep sv (holds_archive a)" and job: "stranger a job"
  shows "supports (holds_archive a) (final_part_step sv br job resolved key uploadId plan n state) (\<lambda>_. True)"
proof -
  have "supports (holds_archive a) (await sv (update_jobs (\<lambda>w. running_job (bj_id job))
      (\<lambda>now j. j\<lparr>bj_processed_files := bj_files j, bj_processed := max 0 (bj_total j - 1)\<rparr>))) (\<lambda>_. True)"
    using job by (intro kept.calling [OF turns] kept_update_other) (auto simp: running_job_def tidy_def stranger_def)
  then show ?thesis
    unfolding final_part_step_def
    by (auto intro!: steps kept_build_part kept_persist kept_put_json stranger_manifests kept_uploads turns job)
qed

lemma kept_complete_step:
  assumes "turns_keep sv (holds_archive a)" and "key \<noteq> ra_key a"
  shows "supports (holds_archive a) (complete_multipart sv br job resolved key uploadId plan parts) (\<lambda>_. True)"
  unfolding complete_multipart_def using assms by (auto intro!: steps kept_complete kept_record simp: r2_head_def)

lemma kept_build_archive:
  assumes turns: "turns_keep sv (holds_archive a)" and job: "stranger a job"
  shows "supports (holds_archive a) (build_archive sv br job resolved) (\<lambda>_. True)"
proof -
  have other: "bj_id job \<noteq> ra_job a" "bulkCacheArtifactKey s f (bj_id job) \<noteq> ra_key a" for s f
    using job by (simp_all add: stranger_def)
  note each = kept.stepping [OF turns]
  show ?thesis
    unfolding build_archive_def Let_def
    by (intro steps each kept_create kept_prefix_parts kept_final_part kept_complete_step kept_mark_ready turns job other) simp_all
qed

lemma kept_prepare:
  assumes turns: "turns_keep sv (holds_archive a)" and job: "stranger a job"
  shows "supports (holds_archive a) (prepare sv br job prepared) (\<lambda>_. True)"
proof -
  have other: "bj_id job \<noteq> ra_job a" using job by (simp add: stranger_def)
  show ?thesis
    unfolding prepare_def
    by (intro steps kept.stepping kept.reading_json kept_resolve kept_reuse kept_mark_cached kept_build_archive kept_mark_running
        turns job other) simp_all
qed

lemma kept_manifests: "holds_archive a w \<Longrightarrow> tidy job \<Longrightarrow> ra_key a \<notin> set (manifest_keys job)"
  using tidy_keys kept_elsewhere by blast

lemma kept_expire_download:
  "turns_keep sv (holds_archive a) \<Longrightarrow> tidy job \<Longrightarrow> bj_id job \<noteq> ra_job a \<Longrightarrow> supports (holds_archive a) (expire_download sv job) (\<lambda>_. True)"
  unfolding expire_download_def
  by (intro steps kept_delete_all kept_manifests kept_update_other) (auto simp: tidy_def)

lemma kept_work:
  assumes turns: "turns_keep sv (holds_archive a)" and job: "stranger a job"
  shows "supports (holds_archive a) (work sv br job prepared) (\<lambda>_. True)"
proof -
  have "tidy job" "bj_id job \<noteq> ra_job a" using job by (simp_all add: stranger_def)
  then show ?thesis
    unfolding work_def
    by (intro steps kept.stepping kept_select_and_split kept_prepare kept.sleeping kept_expire_download turns job) simp_all
qed

lemma kept_abandon: "turns_keep sv (holds_archive a) \<Longrightarrow> supports (holds_archive a) (abandon_upload sv current) (\<lambda>_. True)"
  unfolding abandon_upload_def by (auto intro!: steps supports_catch kept_uploads split: option.split)

lemma kept_cleanup_failed:
  assumes turns: "turns_keep sv (holds_archive a)" and job: "stranger a job"
  shows "supports (holds_archive a) (cleanup_failed sv job) (\<lambda>_. True)"
  unfolding cleanup_failed_def
proof (rule supports_bind)
  show "supports (holds_archive a) (await sv (\<lambda>w. (find_bulk_job (bj_id job) w, w))) (\<lambda>current. \<forall>j. current = Some j \<longrightarrow> tidy j)"
    by (rule kept.await [OF turns]) (auto simp: find_bulk_job_def find_Some_iff row_ok_def dest: kept_row [OF _ nth_mem])
  fix current assume tidy: "\<forall>j. current = Some j \<longrightarrow> tidy j"
  have "starts_with k temporary_prefix" if "k \<in> set (unnamed_archive current @ manifest_keys job)" for k
    using that tidy job tidy_keys [of job k]
    by (auto simp: unnamed_archive_def tidy_def stranger_def split: option.splits if_splits)
  then have "ra_key a \<notin> set (unnamed_archive current @ manifest_keys job)" if "holds_archive a w" for w :: "'a bulk_world_scheme"
    using kept_elsewhere [OF that] by blast
  then show "supports (holds_archive a) (bind_io (abandon_upload sv current) (\<lambda>_. await sv (r2_delete_all (unnamed_archive current @ manifest_keys job)))) (\<lambda>_. True)"
    by (intro steps kept_abandon turns kept_delete_all)
qed

lemma kept_on_failure:
  assumes turns: "turns_keep sv (holds_archive a)" and job: "stranger a job"
  shows "supports (holds_archive a) (on_failure sv job error) (\<lambda>_. True)"
proof -
  have "bj_id job \<noteq> ra_job a" using job by (simp add: stranger_def)
  then show ?thesis
    unfolding on_failure_def by (intro steps kept.stepping kept_cleanup_failed kept_mark_failed turns job) simp_all
qed

lemma kept_run:
  assumes turns: "turns_keep sv (holds_archive a)" and other: "jobId \<noteq> ra_job a" "\<forall>s f. bulkCacheArtifactKey s f jobId \<noteq> ra_key a"
  shows "supports (holds_archive a) (run sv br jobId prepared) (\<lambda>_. True)"
  unfolding run_def
proof (rule supports_bind)
  show "supports (holds_archive a) (await sv (\<lambda>w. (find_bulk_job jobId w, w))) (\<lambda>found. \<forall>job. found = Some job \<longrightarrow> stranger a job)"
    by (rule kept.await [OF turns])
      (use other in \<open>auto simp: find_bulk_job_def find_Some_iff row_ok_def stranger_def dest: kept_row [OF _ nth_mem]\<close>)
  show "supports (holds_archive a) (case found of None \<Rightarrow> raise (Failed ''job-not-found'')
      | Some job \<Rightarrow> catch_io (work sv br job prepared) (on_failure sv job)) (\<lambda>_. True)"
    if "\<forall>job. found = Some job \<longrightarrow> stranger a job" for found
    using that by (auto intro!: supports_option supports_raise supports_catch kept_work kept_on_failure turns)
qed

subsection \<open>The routes\<close>

lemma kept_not_expired: "holds_archive a w \<Longrightarrow> row_ok a j \<Longrightarrow> bj_id j = ra_job a \<Longrightarrow> \<not> readyBulkJobIsExpired j (w_now w * 1000)"
  by (auto simp: holds_archive_def row_ok_def serves_archive_def readyBulkJobIsExpired_def expiry_second_def)

lemma kept_expire_ready:
  assumes turns: "turns_keep sv (holds_archive a)" and row: "row_ok a j"
  shows "supports (holds_archive a) (expireReadyBulkJob sv j) (\<lambda>j'. bj_id j = ra_job a \<longrightarrow> j' = j)"
  unfolding expireReadyBulkJob_def
proof (rule supports_bind)
  show "supports (holds_archive a) js_now (\<lambda>now. bj_id j = ra_job a \<longrightarrow> \<not> readyBulkJobIsExpired j now)"
    by (rule supports_now) (use kept_not_expired [OF _ row] in blast)
  fix now assume now: "bj_id j = ra_job a \<longrightarrow> \<not> readyBulkJobIsExpired j now"
  let ?keys = "(if bj_fingerprint j = None then [bj_archive j] else []) @ manifest_keys j"
  have temporary: "starts_with k temporary_prefix" if "k \<in> set ?keys" for k
    using that row tidy_keys [of j k] by (auto simp: row_ok_def tidy_def split: if_splits)
  have keys: "ra_key a \<notin> set ?keys" if "holds_archive a w" for w :: "'a bulk_world_scheme"
    using temporary kept_elsewhere [OF that] by blast
  show "supports (holds_archive a) (if \<not> readyBulkJobIsExpired j now then ret j
     else
       bind_io (await sv (update_jobs (\<lambda>w k. bj_id k = bj_id j \<and> bj_status k = Bulk_ready \<and> expiry_second k \<le> w_now w)
         (\<lambda>now k. k\<lparr>bj_status := Bulk_expired\<rparr>))) (\<lambda>_.
       bind_io (in_background (await sv (r2_delete_all ?keys))) (\<lambda>_.
       ret (j\<lparr>bj_status := Bulk_expired\<rparr>)))) (\<lambda>j'. bj_id j = ra_job a \<longrightarrow> j' = j)"
  proof (cases "readyBulkJobIsExpired j now")
    case False
    then show ?thesis by (simp add: supports_ret)
  next
    case True
    with now have other: "bj_id j \<noteq> ra_job a" by blast
    have update: "supports (holds_archive a) (await sv (update_jobs (\<lambda>w k. bj_id k = bj_id j \<and> bj_status k = Bulk_ready \<and> expiry_second k \<le> w_now w)
         (\<lambda>now k. k\<lparr>bj_status := Bulk_expired\<rparr>))) (\<lambda>_. True)"
      using other by (intro kept.calling [OF turns] kept_update_other) (auto simp: tidy_def)
    have delete: "supports (holds_archive a) (in_background (await sv (r2_delete_all ?keys))) (\<lambda>_. True)"
      unfolding in_background_def by (intro supports_catch kept.calling [OF turns] kept_delete_all keys supports_ret) simp_all
    show ?thesis
      using True other by (simp only: not_True_eq_False if_False) (rule supports_then [OF update supports_then [OF delete supports_ret]], simp)
  qed
qed

lemma kept_expire_each:
  "turns_keep sv (holds_archive a) \<Longrightarrow> (\<forall>p \<in> set parts. row_ok a p) \<Longrightarrow> supports (holds_archive a) (expire_each sv parts) (\<lambda>_. True)"
  by (induction parts) (auto intro!: supports_ret supports_then supports_any [OF kept_expire_ready])

lemma kept_get_job:
  "turns_keep sv (holds_archive a) \<Longrightarrow> supports (holds_archive a) (getBulkJob sv share jobId) (\<lambda>found. \<forall>j. found = Some j \<longrightarrow> row_ok a j \<and> bj_id j = jobId)"
  unfolding getBulkJob_def
  by (rule kept.await) (auto simp: find_Some_iff dest: kept_row [OF _ nth_mem])

lemma kept_get_parts:
  "turns_keep sv (holds_archive a) \<Longrightarrow> supports (holds_archive a) (getBulkParts sv share jobId) (\<lambda>parts. \<forall>p \<in> set parts. row_ok a p)"
  unfolding getBulkParts_def by (rule kept.await) (auto dest: kept_row)

lemma kept_state: 
  assumes turns: "turns_keep sv (holds_archive a)"
  shows "supports (holds_archive a) (download_state sv pe jobId share) (\<lambda>_. True)"
proof -
  have parts: "supports (holds_archive a) (if split_job job then bind_io (getBulkParts sv share (bj_id job)) (expire_each sv) else ret []) (\<lambda>_. True)" for job
    by (auto intro!: supports_ret supports_bind [OF kept_get_parts [OF turns]] kept_expire_each turns)
  have rest: "supports (holds_archive a) (bind_io (expireReadyBulkJob sv row) (\<lambda>job.
         bind_io (if split_job job then bind_io (getBulkParts sv share (bj_id job)) (expire_each sv) else ret []) (\<lambda>parts.
         bind_io js_now (\<lambda>now. lift (f job parts now))))) (\<lambda>_. True)" if "row_ok a row" for row and f :: "bulk_job \<Rightarrow> bulk_job list \<Rightarrow> int \<Rightarrow> fault + bulk_answer"
    by (intro supports_then [OF supports_any [OF kept_expire_ready [OF turns that]]] supports_then [OF parts]
        supports_then [OF supports_now] supports_lift) simp_all
  show ?thesis
    unfolding download_state_def
    by (rule supports_then, simp add: supports_lift, rule supports_bind [OF kept_get_job [OF turns]])
      (auto intro!: supports_option supports_raise rest)
qed

lemma kept_stream: "turns_keep sv (holds_archive a) \<Longrightarrow> supports (holds_archive a) (streamArchive sv title headOnly rangeHeader ifRange job) (\<lambda>_. True)"
  unfolding streamArchive_def Let_def
  by (rule supports_then [OF kept.reading])
    (auto simp: r2_head_def r2_get_def split: sum.split option.split got.split intro!: steps supports_got)

lemma kept_file:
  assumes turns: "turns_keep sv (holds_archive a)"
  shows "supports (holds_archive a) (download_file sv title headOnly rangeHeader ifRange jobId share) (\<lambda>_. True)"
  unfolding download_file_def
  by (rule supports_then, simp add: supports_lift, rule supports_bind [OF kept_get_job [OF turns]])
    (auto intro!: supports_option supports_raise supports_if kept_stream turns supports_then [OF supports_any [OF kept_expire_ready]])

lemma kept_insert: "holds_archive a w \<Longrightarrow> row_ok a j \<Longrightarrow> holds_archive a (snd (insert_bulk_job j w))"
  by (simp add: insert_bulk_job_def kept_add_job)

lemma inserted_other: "holds_archive a w \<Longrightarrow> fst (insert_bulk_job j w) = Inr x \<Longrightarrow> bj_id j \<noteq> ra_job a"
  by (auto simp: insert_bulk_job_def holds_archive_def list_ex_iff same_job_def split: if_splits)

lemma new_job_ok: "jobId \<noteq> ra_job a \<Longrightarrow> row_ok a (new_job share jobId request stamp now)"
  by (simp add: row_ok_def tidy_def new_job_def job_folder_def)

lemma kept_insert_new:
  "turns_keep sv (holds_archive a) \<Longrightarrow>
   supports (holds_archive a) (await_db sv (\<lambda>w. insert_bulk_job (new_job share jobId request stamp (w_now w)) w)) (\<lambda>_. jobId \<noteq> ra_job a)"
proof (rule kept.await_db, assumption)
  fix w :: "'a bulk_world_scheme"
  let ?j = "new_job share jobId request stamp (w_now w)"
  assume kept: "holds_archive a w"
  have "bj_id ?j = jobId" by (simp add: new_job_def)
  moreover have "holds_archive a (snd (insert_bulk_job ?j w))"
  proof (cases "jobId = ra_job a")
    case True
    then have "list_ex (same_job ?j) (bw_jobs w)" using kept by (force simp: holds_archive_def list_ex_iff same_job_def new_job_def)
    then show ?thesis using kept by (simp add: insert_bulk_job_def)
  next
    case False
    then show ?thesis using kept by (simp add: kept_insert new_job_ok)
  qed
  ultimately show "holds_archive a (snd (insert_bulk_job ?j w)) \<and> (\<forall>x. fst (insert_bulk_job ?j w) = Inr x \<longrightarrow> jobId \<noteq> ra_job a)"
    using inserted_other [OF kept, of ?j] by auto
qed

lemma kept_quota: "turns_keep sv (holds_archive a) \<Longrightarrow> supports (holds_archive a) (consumeBulkQuota sv share) (\<lambda>_. True)"
  unfolding consumeBulkQuota_def
  by (intro steps supports_then [OF supports_now]) (simp_all add: count_download_def Let_def)

lemma kept_create_download:
  assumes turns: "turns_keep sv (holds_archive a)"
  shows "supports (holds_archive a) (create_download sv body share) (\<lambda>_. True)"
proof -
  have failed: "supports (holds_archive a) (creation_failed sv jobId) (\<lambda>_. True)" if "jobId \<noteq> ra_job a" for jobId
    unfolding creation_failed_def Let_def by (intro steps turns kept_update_other) (auto simp: that tidy_def)
  have event: "supports (holds_archive a) (in_background (await sv (add_event kind sid))) (\<lambda>_. True)" for kind sid
    unfolding in_background_def by (intro supports_catch kept.calling [OF turns] supports_ret) (simp_all add: add_event_def)
  have start: "supports (holds_archive a) (bind_io (catch_io (await_db sv (create_instance jobId False)) (\<lambda>_. creation_failed sv jobId)) (\<lambda>_.
      bind_io (in_background (await sv (add_event ''download.started'' (ps_id share)))) (\<lambda>_. ret jobId))) (\<lambda>_. True)"
    if "jobId \<noteq> ra_job a" for jobId
    by (intro supports_then supports_catch kept.calling_db [OF turns] kept_uploads failed that event supports_ret) simp_all
  show ?thesis
    unfolding create_download_def
    by (intro supports_then [OF supports_lift] supports_then [OF kept_quota [OF turns]] supports_then [OF kept.minting]
        supports_then [OF supports_now] supports_bind [OF kept_insert_new [OF turns]] start) simp_all
qed

subsection \<open>The cleanup\<close>

lemma tidy_artifacts: "tidy j \<Longrightarrow> k \<in> set (job_artifacts j) \<Longrightarrow> starts_with k temporary_prefix"
proof -
  assume j: "tidy j" and k: "k \<in> set (job_artifacts j)"
  from k have "k \<in> set (manifest_keys j) \<or> bj_fingerprint j = None \<and> k = bj_archive j"
    unfolding job_artifacts_def manifest_keys_def resolvedBulkManifestKey_def finalBulkManifestKey_def
    by (auto split: if_splits)
  then show ?thesis using j tidy_keys [OF j, of k] by (auto simp: tidy_def)
qed

lemma kept_expire_phase:
  assumes turns: "turns_keep sv (holds_archive a)" and now: "now div 1000 < ra_until a"
  shows "supports (holds_archive a) (expire_phase sv now) (\<lambda>_. True)"
  unfolding expire_phase_def
proof (rule supports_then [OF kept.calling [OF turns]], erule kept_expire [OF _ now],
    rule supports_bind [where Q = "\<lambda>rows. \<forall>j \<in> set rows. tidy j"])
  show "supports (holds_archive a) (await sv (\<lambda>w. (filter (just_expired now) (bw_jobs w), w))) (\<lambda>rows. \<forall>j \<in> set rows. tidy j)"
    by (rule kept.await [OF turns]) (auto simp: row_ok_def dest: kept_row)
  fix rows assume rows: "\<forall>j \<in> set rows. tidy j"
  have "starts_with k temporary_prefix" if "k \<in> set keys" "keys \<in> set (chunks_of 1000 (set_order (concat (map job_artifacts rows))))" for k keys
  proof -
    have "k \<in> set (concat (chunks_of 1000 (set_order (concat (map job_artifacts rows)))))" using that by auto
    then obtain j where "j \<in> set rows" "k \<in> set (job_artifacts j)" by (auto simp: concat_chunks_of)
    then show ?thesis using rows tidy_artifacts by blast
  qed
  then have "ra_key a \<notin> set keys"
    if "holds_archive a w" "keys \<in> set (chunks_of 1000 (set_order (concat (map job_artifacts rows))))" for keys and w :: "'a bulk_world_scheme"
    using kept_elsewhere [OF that(1)] that(2) by blast
  then show "supports (holds_archive a) (bind_io (for_each rows (abort_expired sv)) (\<lambda>_.
      for_each (chunks_of 1000 (set_order (concat (map job_artifacts rows)))) (\<lambda>keys. await sv (r2_delete_all keys)))) (\<lambda>_. True)"
    by (intro supports_then supports_for_each kept.calling [OF turns] kept_delete_all)
      (auto simp: abort_expired_def intro!: steps supports_catch kept_uploads turns)
qed

lemma kept_sweep:
  assumes turns: "turns_keep sv (holds_archive a)" and lists: "lists_under sv"
  shows "supports (holds_archive a) (sweep_temporary sv now live n cursor) (\<lambda>_. True)"
proof (induction n arbitrary: cursor)
  case 0
  then show ?case by (simp add: supports_raise)
next
  case (Suc n)
  have page: "supports (holds_archive a) (await sv (r2_list sv temporary_prefix 1000 cursor None))
      (\<lambda>page. \<forall>obj \<in> set (rp_objects page). starts_with (r2_key obj) temporary_prefix)"
    by (rule kept.await [OF turns]) (use lists in \<open>auto simp: r2_list_def lists_under_def\<close>)
  have delete: "supports (holds_archive a) (if keys \<noteq> [] then await sv (r2_delete_all keys) else ret ()) (\<lambda>_. True)"
    if "\<forall>k \<in> set keys. starts_with k temporary_prefix" for keys
    using that by (auto intro!: steps turns kept_delete_all dest: kept_elsewhere)
  show ?case
    unfolding sweep_temporary.simps Let_def
    by (rule supports_bind [OF page], rule supports_then [OF delete]) (auto intro!: supports_option supports_ret Suc)
qed

lemma kept_temporary_phase:
  "turns_keep sv (holds_archive a) \<Longrightarrow> lists_under sv \<Longrightarrow> supports (holds_archive a) (temporary_phase sv now) (\<lambda>_. True)"
  unfolding temporary_phase_def by (intro steps kept_sweep) simp_all

lemma kept_finish:
  "turns_keep sv (holds_archive a) \<Longrightarrow> k \<noteq> ra_key a \<Longrightarrow> supports (holds_archive a) (finishGenerationDeletion sv k) (\<lambda>_. True)"
  unfolding finishGenerationDeletion_def
  by (intro supports_catch supports_then kept.calling kept_removed kept_forget supports_ret) simp_all

lemma kept_cursors:
  "turns_keep sv (holds_archive a) \<Longrightarrow> supports (holds_archive a) (cleanupCursor sv scope) (\<lambda>_. True)"
  "turns_keep sv (holds_archive a) \<Longrightarrow> supports (holds_archive a) (saveCleanupCursor sv scope c) (\<lambda>_. True)"
  unfolding cleanupCursor_def saveCleanupCursor_def by (intro steps; simp)+

lemma set_rotated: "set (rotated f c n rows) \<subseteq> set rows"
  by (auto simp: rotated_def dest!: in_set_takeD)

lemma kept_pending:
  assumes turns: "turns_keep sv (holds_archive a)"
  shows "supports (holds_archive a) (pending_phase sv) (\<lambda>_. True)"
  unfolding pending_phase_def
proof (rule supports_then [OF kept_cursors(1) [OF turns]], rule supports_bind)
  show "supports (holds_archive a) (await sv (\<lambda>w. (rotated ag_key c BULK_CACHE_PENDING_DELETE_LIMIT (filter ag_deleting (bw_generations w)), w)))
      (\<lambda>rows. \<forall>g \<in> set rows. ag_key g \<noteq> ra_key a)" for c
    by (rule kept.await [OF turns]) (auto simp: holds_archive_def dest!: subsetD [OF set_rotated])
  show "supports (holds_archive a) (bind_io (for_each rows (\<lambda>g. finishGenerationDeletion sv (ag_key g))) (\<lambda>_.
     if rows \<noteq> [] then saveCleanupCursor sv Deleting_scope (ag_key (List.last rows)) else ret ())) (\<lambda>_. True)"
    if "\<forall>g \<in> set rows. ag_key g \<noteq> ra_key a" for rows :: "archive_generation list"
    using that by (intro steps supports_for_each kept_finish kept_cursors turns) blast+
qed

lemma kept_expired_cache:
  assumes turns: "turns_keep sv (holds_archive a)" and now: "now div 1000 < ra_until a"
  shows "supports (holds_archive a) (expired_cache_phase sv now) (\<lambda>_. True)"
proof -
  have each: "supports (holds_archive a) (bind_io (await sv (claim_cached now c)) (\<lambda>(dropped, claimed).
         if dropped \<noteq> 0 \<and> claimed \<noteq> 0 then finishGenerationDeletion sv (ac_key c) else ret ())) (\<lambda>_. True)" for c
    by (rule supports_bind [OF kept.await [OF turns, where Q = "\<lambda>r. snd r \<noteq> 0 \<longrightarrow> ac_key c \<noteq> ra_key a"]])
      (use kept_claim_cached [OF _ now] in \<open>auto intro!: kept_finish turns supports_ret\<close>)
  show ?thesis
    unfolding expired_cache_phase_def by (intro steps kept_cursors supports_for_each each turns) simp_all
qed

lemma kept_orphan_page:
  assumes turns: "turns_keep sv (holds_archive a)" and now: "now div 1000 < ra_until a"
  shows "supports (holds_archive a) (orphan_page sv now objects scanned remaining) (\<lambda>_. True)"
proof (induction objects arbitrary: scanned remaining)
  case Nil
  then show ?case by (simp add: supports_ret)
next
  case (Cons obj objects)
  have claim: "supports (holds_archive a) (await sv (claim_orphan now obj)) (\<lambda>n. n \<noteq> 0 \<longrightarrow> r2_key obj \<noteq> ra_key a)"
    by (rule kept.await [OF turns]) (use kept_claim_orphan [OF _ now] in blast)
  have finish: "supports (holds_archive a) (if n \<noteq> 0 then finishGenerationDeletion sv (r2_key obj) else ret ()) (\<lambda>_. True)"
    if "n \<noteq> 0 \<longrightarrow> r2_key obj \<noteq> ra_key a" for n :: nat
    using that by (auto intro: kept_finish turns supports_ret)
  show ?case
    unfolding orphan_page.simps
    by (intro supports_if Cons supports_bind [OF claim] supports_then [OF finish] supports_ret) simp_all
qed

lemma kept_orphan_pages:
  assumes turns: "turns_keep sv (holds_archive a)" and now: "now div 1000 < ra_until a"
  shows "supports (holds_archive a) (orphan_pages sv now pages remaining scanned) (\<lambda>_. True)"
  by (induction pages arbitrary: remaining scanned)
    (auto simp: r2_list_def intro!: steps kept_orphan_page turns now)

theorem kept_cleanup:
  assumes turns: "turns_keep sv (holds_archive a)" and lists: "lists_under sv" and now: "now div 1000 < ra_until a"
  shows "supports (holds_archive a) (cleanupTemporaryZips sv now) (\<lambda>_. True)"
  unfolding cleanupTemporaryZips_def orphan_phase_def
  by (intro steps kept_expire_phase kept_temporary_phase kept_pending kept_expired_cache kept_orphan_pages kept_cursors turns lists now)
    (simp_all add: prune_checksums_def prune_quota_def)

end
