(* ===== verification/Bulk_Schedule.thy ===== *)
theory Bulk_Schedule
  imports Bulk_Kept R2_Alone
begin

section \<open>Bulk downloads: all actors together\<close>

text \<open>
  The operations of the bulk downloads as one datatype and their runs in sequence; what other actors do
  between two calls of one run is the environment of its services. A ready archive survives every
  sequence of them, and its download then gets its bytes.
\<close>

datatype bulk_actor =
    Cleanup_run
  | Retention_run
  | Download_requested bulk_body share_view
  | State_asked public_env ustring share_view
  | File_asked ustring bool "ustring option" "ustring option" ustring share_view
  | Job_run ustring bool

definition act :: "'x bulk_world_scheme services \<Rightarrow> bulk_runtime \<Rightarrow> bulk_actor \<Rightarrow> ('x bulk_world_scheme, unit) io" where
  "act sv br actor = (case actor of
     Cleanup_run \<Rightarrow> bind_io js_now (cleanupTemporaryZips sv)
   | Retention_run \<Rightarrow> await sv retire_jobs
   | Download_requested body share \<Rightarrow> bind_io (create_download sv body share) (\<lambda>_. ret ())
   | State_asked pe jobId share \<Rightarrow> bind_io (download_state sv pe jobId share) (\<lambda>_. ret ())
   | File_asked title headOnly rangeHeader ifRange jobId share \<Rightarrow>
       bind_io (download_file sv title headOnly rangeHeader ifRange jobId share) (\<lambda>_. ret ())
   | Job_run jobId prepared \<Rightarrow> run sv br jobId prepared)"

fun play :: "'x bulk_world_scheme services \<Rightarrow> bulk_runtime \<Rightarrow> bulk_actor list \<Rightarrow> 'x bulk_world_scheme \<Rightarrow> 'x bulk_world_scheme" where
  "play sv br [] w = w"
| "play sv br (actor # actors) w = play sv br actors (snd (act sv br actor w))"

text \<open>The runs of the job itself and of the job that built its archive are over when the job is ready.\<close>

definition not_its_run :: "ready_archive \<Rightarrow> bulk_actor \<Rightarrow> bool" where
  "not_its_run a actor \<longleftrightarrow> (case actor of
     Job_run jobId prepared \<Rightarrow> jobId \<noteq> ra_job a \<and> \<not> ends_with (ra_key a) (47 # jobId @ ustr ''.zip'') | _ \<Rightarrow> True)"

lemma artifact_key_ends: "ends_with (bulkCacheArtifactKey s f jobId) (47 # jobId @ ustr ''.zip'')"
proof -
  have "ends_with (x @ y) y" for x y by (simp add: ends_with_def)
  from this [of "cache_prefix @ ustr ''v1/'' @ encodeURIComponent s @ 47 # f" "47 # jobId @ ustr ''.zip''"] show ?thesis
    by (simp add: bulkCacheArtifactKey_def)
qed

lemma kept_act:
  assumes turns: "turns_keep sv (holds_archive a)" and lists: "lists_under sv" and other: "not_its_run a actor"
  shows "supports (holds_archive a) (act sv br actor) (\<lambda>_. True)"
proof (cases actor)
  case Cleanup_run
  have "supports (holds_archive a) js_now (\<lambda>now. now div 1000 < ra_until a)" by (rule supports_now) (simp add: holds_archive_def)
  then show ?thesis
    unfolding act_def Cleanup_run by simp (rule supports_bind, assumption, rule kept_cleanup [OF turns lists])
next
  case Retention_run
  then show ?thesis by (simp add: act_def kept.calling [OF turns] kept_retire)
next
  case (Job_run jobId prepared)
  have "bulkCacheArtifactKey s f jobId \<noteq> ra_key a" for s f
    using other artifact_key_ends [of s f jobId] by (auto simp: not_its_run_def Job_run)
  moreover have "jobId \<noteq> ra_job a" using other by (simp add: not_its_run_def Job_run)
  ultimately have "jobId \<noteq> ra_job a" "\<forall>s f. bulkCacheArtifactKey s f jobId \<noteq> ra_key a" by blast+
  then show ?thesis using kept_run [OF turns] by (simp add: act_def Job_run)
qed (simp_all add: act_def supports_then [OF kept_create_download [OF turns]] supports_then [OF kept_state [OF turns]]
    supports_then [OF kept_file [OF turns]] supports_ret)

lemma kept_play:
  assumes turns: "turns_keep sv (holds_archive a)" and lists: "lists_under sv"
  shows "\<forall>x \<in> set actors. not_its_run a x \<Longrightarrow> holds_archive a w \<Longrightarrow> holds_archive a (play sv br actors w)"
proof (induction actors arbitrary: w)
  case (Cons x actors)
  have "holds_archive a (snd (act sv br x w))"
    using kept_act [OF turns lists, of x br] Cons.prems by (simp add: supports_def)
  then show ?case using Cons by simp
qed simp

subsection \<open>Serving the archive\<close>

definition kept_row_of :: "ready_archive \<Rightarrow> 'x bulk_world_scheme \<Rightarrow> bulk_job" where
  "kept_row_of a w = the (find (\<lambda>j. bj_id j = ra_job a \<and> bj_share j = ra_share a \<and> bj_version j = ra_version a) (bw_jobs w))"

lemma kept_found:
  assumes "holds_archive a w"
  shows "find (\<lambda>j. bj_id j = ra_job a \<and> bj_share j = ra_share a \<and> bj_version j = ra_version a) (bw_jobs w) = Some (kept_row_of a w)"
    and "row_ok a (kept_row_of a w)" and "bj_id (kept_row_of a w) = ra_job a"
proof -
  let ?c = "\<lambda>j. bj_id j = ra_job a \<and> bj_share j = ra_share a \<and> bj_version j = ra_version a"
  obtain j where j: "j \<in> set (bw_jobs w)" "bj_id j = ra_job a" using assms by (auto simp: holds_archive_def)
  then have "?c j" using kept_row [OF assms j(1)] by (simp add: row_ok_def serves_archive_def)
  then have "find ?c (bw_jobs w) \<noteq> None" using j(1) by (auto simp: find_None_iff)
  then obtain k where k: "find ?c (bw_jobs w) = Some k" by blast
  then show found: "find ?c (bw_jobs w) = Some (kept_row_of a w)" by (simp add: kept_row_of_def)
  then show "row_ok a (kept_row_of a w)" "bj_id (kept_row_of a w) = ra_job a"
    using kept_row [OF assms] by (auto simp: find_Some_iff)
qed

definition range_body :: "byte list \<Rightarrow> (int \<times> int) option \<Rightarrow> byte list" where
  "range_body body piece = (case piece of None \<Rightarrow> body | Some (off, n) \<Rightarrow> take (nat n) (drop (nat off) body))"

lemma outputs_file:
  assumes one: "alone sv" and kept: "holds_archive a w"
    and share: "\<not> present (ps_object share)" "ps_id share = ra_share a" "ps_version share = ra_version a"
    and piece: "parseRange rangeHeader (int (length (r2_body (ra_object a)))) = Inr piece"
  shows "outputs w (download_file sv title False rangeHeader None (ra_job a) share)
    (Inr \<lparr>an_status = (if piece = None then 200 else 206), an_size = int (length (r2_body (ra_object a))), an_range = piece,
          an_body = Some (range_body (r2_body (ra_object a)) piece),
          an_disposition = archive_disposition (pr_nfc (sv_paths sv)) title (kept_row_of a w)\<rparr>) w"
proof -
  let ?j = "kept_row_of a w" and ?obj = "ra_object a"
  have j: "row_ok a ?j" "bj_id ?j = ra_job a" using kept_found [OF kept] by simp_all
  then have ready: "bj_status ?j = Bulk_ready" "bj_archive ?j = ra_key a" by (simp_all add: row_ok_def serves_archive_def)
  have obj: "w_bucket w (ra_key a) = Some ?obj" using kept by (simp add: holds_archive_def)
  have get: "outputs w (getBulkJob sv share (ra_job a)) (Inr (Some ?j)) w"
    unfolding getBulkJob_def of_share_def share by (rule outputs_read [OF one]) (simp add: kept_found [OF kept])
  have fresh: "outputs w (expireReadyBulkJob sv ?j) (Inr ?j) w"
    unfolding expireReadyBulkJob_def
    by (rule outputs_bind [OF outputs_now]) (simp add: kept_not_expired [OF kept j] outputs_ret)
  have stream: "outputs w (streamArchive sv title False rangeHeader None ?j)
      (Inr \<lparr>an_status = (if piece = None then 200 else 206), an_size = int (length (r2_body ?obj)), an_range = piece,
          an_body = Some (range_body (r2_body ?obj) piece),
          an_disposition = archive_disposition (pr_nfc (sv_paths sv)) title ?j\<rparr>) w"
  proof -
    have got: "outputs w (await sv (r2_get (ra_key a) Unconditional)) (Inr (Body ?obj)) w"
      by (rule outputs_await [OF one]) (simp add: r2_get_def put_allowed_def obj)
    show ?thesis
      unfolding streamArchive_def ready
      by (rule outputs_bind [OF outputs_head [OF one]])
        (cases piece, auto simp: obj present_def piece Let_def range_body_def intro!: outputs_bind [OF got] outputs_ret)
  qed
  have folder: "requireFolderShareFeature share = Inr ()" using share(1) by (simp add: requireFolderShareFeature_def)
  show ?thesis
    unfolding download_file_def folder bind_lift
    by (rule outputs_bind [OF get], simp only: option.case, rule outputs_bind [OF fresh], simp only: ready simp_thms if_False, rule stream)
qed

end
