(* ===== verification/Bulk_Build.thy ===== *)
theory Bulk_Build
  imports Bulk_Schedule
begin

section \<open>Bulk downloads: an undisturbed run builds the archive\<close>

text \<open>
  The steps of the workflow carry out \<open>write_archive\<close> of \<open>Bulk_Archive\<close> on the tables and the bucket: when
  it succeeds on what the bucket holds, a run that nobody disturbs uploads its pieces, stores their
  concatenation under the key of the job, records it, and leaves the job ready.
\<close>

subsection \<open>Steps\<close>

lemma outputs_checkpointed: "alone sv \<Longrightarrow> outputs w m (Inr x) w' \<Longrightarrow> outputs w (checkpointed sv m) (Inr x) w'"
  unfolding checkpointed_def by (erule outputs_bind) (rule outputs_bind [OF outputs_read], simp_all add: outputs_ret)

lemma outputs_step: "alone sv \<Longrightarrow> outputs w m (Inr x) w' \<Longrightarrow> outputs w (step_do sv n m) (Inr x) w'"
  by (cases n) (simp_all add: outputs_checkpointed outputs_catch)

text \<open>Rows that differ in their progress only, and worlds that differ in progress, uploads and checksums.\<close>

definition same_row :: "bulk_job \<Rightarrow> bulk_job \<Rightarrow> bool" where
  "same_row j k \<longleftrightarrow> bj_id k = bj_id j \<and> bj_share k = bj_share j \<and> bj_version k = bj_version j \<and> bj_manifest k = bj_manifest j \<and>
     bj_status k = bj_status j \<and> bj_archive k = bj_archive j \<and> bj_fingerprint k = bj_fingerprint j \<and> bj_size k = bj_size j"

definition advanced :: "'x bulk_world_scheme \<Rightarrow> 'x bulk_world_scheme \<Rightarrow> bool" where
  "advanced w w1 \<longleftrightarrow> w_bucket w1 = w_bucket w \<and> w_now w1 = w_now w \<and> bw_cache w1 = bw_cache w \<and>
     bw_generations w1 = bw_generations w \<and> list_all2 same_row (bw_jobs w) (bw_jobs w1)"

lemma same_row_refl [simp]: "same_row j j"
  by (simp add: same_row_def)

lemma same_row_trans: "same_row i j \<Longrightarrow> same_row j k \<Longrightarrow> same_row i k"
  by (simp add: same_row_def)

lemma advanced_refl: "advanced w w"
  by (simp add: advanced_def list_all2_refl)

lemma same_rows_trans: "list_all2 same_row js ks \<Longrightarrow> list_all2 same_row ks ls \<Longrightarrow> list_all2 same_row js ls"
  by (rule list_all2_trans [OF same_row_trans])

lemma advanced_trans: "advanced w w1 \<Longrightarrow> advanced w1 w2 \<Longrightarrow> advanced w w2"
  by (auto simp: advanced_def intro: same_rows_trans)

text \<open>The jobs after an update of their progress.\<close>

definition progressed :: "('x bulk_world_scheme \<Rightarrow> bulk_job \<Rightarrow> bool) \<Rightarrow> (int \<Rightarrow> bulk_job \<Rightarrow> bulk_job) \<Rightarrow> 'x bulk_world_scheme \<Rightarrow> bulk_job list" where
  "progressed cond change w = map (\<lambda>j. if cond w j then (change (w_now w) j)\<lparr>bj_updated := w_now w\<rparr> else j) (bw_jobs w)"

lemma outputs_update:
  assumes "alone sv" and "\<And>n. cond (w\<lparr>w_calls := n\<rparr>) = cond w"
  shows "outputs w (await sv (update_jobs cond change)) (Inr (length (filter (cond w) (bw_jobs w)))) (w\<lparr>bw_jobs := progressed cond change w\<rparr>)"
  by (rule outputs_await [OF assms(1)]) (simp add: update_jobs_def progressed_def assms(2))

lemma progressed_same:
  assumes "\<And>now j. same_row j ((change now j)\<lparr>bj_updated := t\<rparr>)" and "t = w_now w"
  shows "list_all2 same_row (bw_jobs w) (progressed cond change w)"
  using assms by (simp add: progressed_def list_all2_conv_all_nth)

subsection \<open>Parts\<close>

fun with_parts :: "'w services \<Rightarrow> upload_parts \<Rightarrow> nat \<Rightarrow> byte list list \<Rightarrow> upload_parts" where
  "with_parts sv parts n [] = parts"
| "with_parts sv parts n (p # pieces) = with_parts sv (parts(n \<mapsto> (sv_etag sv p, p))) (Suc n) pieces"

fun part_list :: "'w services \<Rightarrow> nat \<Rightarrow> byte list list \<Rightarrow> (nat \<times> ustring) list" where
  "part_list sv n [] = []"
| "part_list sv n (p # pieces) = (n, sv_etag sv p) # part_list sv (Suc n) pieces"

lemma with_parts_below: "i < n \<Longrightarrow> with_parts sv parts n pieces i = parts i"
  by (induction pieces arbitrary: parts n) auto

lemma assemble_parts: "assemble (with_parts sv parts n pieces) (part_list sv n pieces) = Some pieces"
  by (induction pieces arbitrary: parts n) (auto simp: with_parts_below)

lemma with_parts_append:
  "with_parts sv parts n (pieces @ [p]) = (with_parts sv parts n pieces)(n + length pieces \<mapsto> (sv_etag sv p, p))"
  by (induction pieces arbitrary: parts n) auto

lemma part_list_append: "part_list sv n (pieces @ [p]) = part_list sv n pieces @ [(n + length pieces, sv_etag sv p)]"
  by (induction pieces arbitrary: n) auto

lemma outputs_build_part:
  assumes "alone sv" and "buildOnePassZipPrefixPart (br_text br) (bucket_of (w_bucket w)) sources state len = Inr built"
  shows "outputs w (build_part sv br sources state len) (Inr built) w"
  unfolding build_part_def
  by (rule outputs_bind [OF outputs_read [OF assms(1)]], simp add: assms(2)) (simp add: failing_def outputs_lift)

lemma outputs_persist:
  "alone sv \<Longrightarrow> outputs w (await sv (persist_checksums sources cs)) (Inr ()) (snd (persist_checksums sources cs w))"
  by (rule outputs_await) (simp_all add: persist_checksums_def cong: if_cong)

lemma outputs_upload:
  assumes "alone sv" and "bw_uploads w (key, u) = Some parts"
  shows "outputs w (await_db sv (upload_part sv key u n bytes)) (Inr (sv_etag sv bytes))
    (w\<lparr>bw_uploads := (bw_uploads w)((key, u) \<mapsto> parts(n \<mapsto> (sv_etag sv bytes, bytes)))\<rparr>)"
  by (rule outputs_await_db [OF assms(1)]) (simp add: upload_part_def assms(2))

lemma outputs_prefix_part:
  assumes one: "alone sv" and up: "bw_uploads w (key, u) = Some parts"
    and built: "buildOnePassZipPrefixPart (br_text br) (bucket_of (w_bucket w)) sources state (mp_partSize plan) = Inr built"
  shows "\<exists>w1. outputs w (prefix_part sv br jobId sources key u plan n state) (Inr (pr_state built, n, sv_etag sv (pr_bytes built))) w1 \<and>
    advanced w w1 \<and> bw_checksums w1 = persistCalculatedChecksums sources (pr_completedChecksums built) (bw_checksums w) \<and>
    bw_uploads w1 (key, u) = Some (parts(n \<mapsto> (sv_etag sv (pr_bytes built), pr_bytes built)))"
proof -
  let ?w1 = "snd (persist_checksums sources (pr_completedChecksums built) w)"
  let ?parts = "parts(n \<mapsto> (sv_etag sv (pr_bytes built), pr_bytes built))"
  let ?w2 = "?w1\<lparr>bw_uploads := (bw_uploads ?w1)((key, u) \<mapsto> ?parts)\<rparr>"
  let ?change = "\<lambda>(now::int) j. j\<lparr>bj_processed_files := max (bj_processed_files j) (int (os_completedFiles (pr_state built))),
          bj_processed := max (bj_processed j) (max 0 (progress_bytes plan (total_bytes sources) (pr_state built)))\<rparr>"
  let ?w3 = "?w2\<lparr>bw_jobs := progressed (\<lambda>w. running_job jobId) ?change ?w2\<rparr>"
  have up1: "bw_uploads ?w1 (key, u) = Some parts" using up by (simp add: persist_checksums_def)
  have "outputs w (prefix_part sv br jobId sources key u plan n state) (Inr (pr_state built, n, sv_etag sv (pr_bytes built))) ?w3"
    unfolding prefix_part_def
    by (rule outputs_bind [OF outputs_build_part [OF one built]], rule outputs_bind [OF outputs_persist [OF one]],
        rule outputs_bind [OF outputs_upload [OF one up1]], rule outputs_bind [OF outputs_update [OF one]], simp, rule outputs_ret)
  moreover have "list_all2 same_row (bw_jobs ?w2) (progressed (\<lambda>w. running_job jobId) ?change ?w2)"
    by (rule progressed_same [where t = "w_now w"]) (simp_all add: same_row_def persist_checksums_def)
  then have "advanced w ?w3" by (simp add: advanced_def persist_checksums_def)
  ultimately show ?thesis by (intro exI [of _ ?w3] conjI) (assumption | simp add: persist_checksums_def)+
qed

lemma outputs_prefix_parts:
  assumes one: "alone sv" and size: "0 \<le> mp_partSize plan"
  shows "bw_uploads w (key, u) = Some parts \<Longrightarrow>
    write_prefix_parts (br_text br) (bucket_of (w_bucket w)) sources (nat (mp_partSize plan)) count (state, bw_checksums w) =
      Inr (pieces, (state', table')) \<Longrightarrow>
    \<exists>w1. outputs w (prefix_parts sv br jobId sources key u plan n count state) (Inr (state', part_list sv n pieces)) w1 \<and>
      advanced w w1 \<and> bw_checksums w1 = table' \<and> bw_uploads w1 (key, u) = Some (with_parts sv parts n pieces) \<and> length pieces = count"
proof (induction count arbitrary: w parts n state pieces)
  case 0
  then show ?case by (intro exI [of _ w]) (auto simp: outputs_ret advanced_refl)
next
  case (Suc count)
  obtain built pieces' where
    built: "buildOnePassZipPrefixPart (br_text br) (bucket_of (w_bucket w)) sources state (mp_partSize plan) = Inr built" and
    rest: "write_prefix_parts (br_text br) (bucket_of (w_bucket w)) sources (nat (mp_partSize plan)) count
      (pr_state built, persistCalculatedChecksums sources (pr_completedChecksums built) (bw_checksums w)) = Inr (pieces', (state', table'))" and
    pieces: "pieces = pr_bytes built # pieces'"
    using Suc.prems(2) size by (auto simp: write_prefix_part_def result_simps)
  obtain w1 where w1: "outputs w (prefix_part sv br jobId sources key u plan n state) (Inr (pr_state built, n, sv_etag sv (pr_bytes built))) w1"
      "advanced w w1" "bw_checksums w1 = persistCalculatedChecksums sources (pr_completedChecksums built) (bw_checksums w)"
      "bw_uploads w1 (key, u) = Some (parts(n \<mapsto> (sv_etag sv (pr_bytes built), pr_bytes built)))"
    using outputs_prefix_part [OF one Suc.prems(1) built] by blast
  have "w_bucket w1 = w_bucket w" using w1(2) by (simp add: advanced_def)
  then have rest': "write_prefix_parts (br_text br) (bucket_of (w_bucket w1)) sources (nat (mp_partSize plan)) count
      (pr_state built, bw_checksums w1) = Inr (pieces', (state', table'))"
    using rest by (simp only: w1(3))
  obtain w2 where w2: "outputs w1 (prefix_parts sv br jobId sources key u plan (Suc n) count (pr_state built))
      (Inr (state', part_list sv (Suc n) pieces')) w2" "advanced w1 w2" "bw_checksums w2 = table'"
      "bw_uploads w2 (key, u) = Some (with_parts sv (parts(n \<mapsto> (sv_etag sv (pr_bytes built), pr_bytes built))) (Suc n) pieces')"
      "length pieces' = count"
    using Suc.IH [OF w1(4) rest', where n = "Suc n"] by blast
  have "outputs w (prefix_parts sv br jobId sources key u plan n (Suc count) state) (Inr (state', part_list sv n pieces)) w2"
    by (simp add: pieces) (rule outputs_bind [OF outputs_step [OF one w1(1)]], simp, rule outputs_bind [OF w2(1)], simp add: outputs_ret)
  then show ?case
    using w2(3-5) advanced_trans [OF w1(2) w2(2)] by (intro exI [of _ w2]) (simp add: pieces)
qed

text \<open>The part with the central directory, which also stores the final manifest.\<close>

lemma outputs_put_json:
  assumes "alone sv"
  shows "\<exists>obj. outputs w (put_json sv key text) (Inr ()) (w\<lparr>w_bucket := (w_bucket w)(key \<mapsto> obj), w_minted := Suc (w_minted w)\<rparr>)"
proof -
  let ?obj = "\<lparr>r2_key = key, r2_body = utf8 text, r2_etag = sv_etag sv (utf8 text), r2_version = sv_version sv (w_minted w),
     r2_uploaded = w_now w * 1000, r2_http = [], r2_meta = []\<rparr>"
  have put: "outputs w (await sv (r2_put sv key (utf8 text) Unconditional [] [])) (Inr (Some ?obj))
      (w\<lparr>w_bucket := (w_bucket w)(key \<mapsto> ?obj), w_minted := Suc (w_minted w)\<rparr>)"
    by (rule outputs_await [OF assms]) (simp add: r2_put_def put_allowed_def Let_def)
  show ?thesis unfolding put_json_def by (rule exI) (rule outputs_bind [OF put outputs_ret])
qed

definition manifest_written :: "ustring \<Rightarrow> 'x bulk_world_scheme \<Rightarrow> 'x bulk_world_scheme \<Rightarrow> bool" where
  "manifest_written key w w1 \<longleftrightarrow> (\<forall>k. k \<noteq> key \<longrightarrow> w_bucket w1 k = w_bucket w k) \<and> w_now w1 = w_now w \<and> bw_cache w1 = bw_cache w \<and>
     bw_generations w1 = bw_generations w \<and> list_all2 same_row (bw_jobs w) (bw_jobs w1)"

lemma outputs_final_part:
  assumes one: "alone sv" and up: "bw_uploads w (key, u) = Some parts"
    and final: "write_final_part (br_text br) (bucket_of (w_bucket w)) (sn_sources resolved) plan (state, bw_checksums w) = Inr (bytes, writer)"
  shows "\<exists>w1. outputs w (final_part_step sv br job resolved key u plan n state) (Inr (n, sv_etag sv bytes)) w1 \<and>
    manifest_written (finalBulkManifestKey (bj_manifest job)) w w1 \<and>
    bw_uploads w1 (key, u) = Some (parts(n \<mapsto> (sv_etag sv bytes, bytes)))"
proof -
  let ?sources = "sn_sources resolved" and ?manifest = "finalBulkManifestKey (bj_manifest job)"
  obtain built entries where
    built: "buildOnePassZipPrefixPart (br_text br) (bucket_of (w_bucket w)) ?sources state (mp_finalPrefixBytes plan) = Inr built" and
    finished: "prefix_finished plan built" and
    entries: "completedEntries (persistCalculatedChecksums ?sources (pr_completedChecksums built) (bw_checksums w)) ?sources = Inr entries" and
    bytes: "final_bytes br plan built entries = Inr bytes"
    using final by (auto simp: write_final_part_def result_simps Let_def final_bytes_def prefix_finished_def split: if_splits)
  let ?w1 = "snd (persist_checksums ?sources (pr_completedChecksums built) w)"
  obtain obj where put: "outputs ?w1 (put_json sv ?manifest (final_json (sn_root resolved) entries)) (Inr ())
      (?w1\<lparr>w_bucket := (w_bucket ?w1)(?manifest \<mapsto> obj), w_minted := Suc (w_minted ?w1)\<rparr>)"
    using outputs_put_json [OF one] by blast
  let ?w2 = "?w1\<lparr>w_bucket := (w_bucket ?w1)(?manifest \<mapsto> obj), w_minted := Suc (w_minted ?w1)\<rparr>"
  let ?w3 = "?w2\<lparr>bw_uploads := (bw_uploads ?w2)((key, u) \<mapsto> parts(n \<mapsto> (sv_etag sv bytes, bytes)))\<rparr>"
  let ?change = "\<lambda>(now::int) j. j\<lparr>bj_processed_files := bj_files j, bj_processed := max 0 (bj_total j - 1)\<rparr>"
  let ?w4 = "?w3\<lparr>bw_jobs := progressed (\<lambda>w. running_job (bj_id job)) ?change ?w3\<rparr>"
  have up2: "bw_uploads ?w2 (key, u) = Some parts" using up by (simp add: persist_checksums_def)
  have read: "outputs ?w1 (await sv (\<lambda>w. (completedEntries (bw_checksums w) ?sources, w))) (Inr (Inr entries)) ?w1"
    by (rule outputs_read [OF one]) (simp add: persist_checksums_def entries)
  have "outputs w (final_part_step sv br job resolved key u plan n state) (Inr (n, sv_etag sv bytes)) ?w4"
    unfolding final_part_step_def
    by (rule outputs_bind [OF outputs_build_part [OF one built]], rule outputs_bind [OF outputs_persist [OF one]],
        simp only: finished not_True_eq_False if_False, rule outputs_bind [OF read],
        simp only: failing_def sum.case bind_lift bytes, rule outputs_bind [OF put],
        rule outputs_bind [OF outputs_upload [OF one up2]], rule outputs_bind [OF outputs_update [OF one]], simp, rule outputs_ret)
  moreover have "list_all2 same_row (bw_jobs ?w3) (progressed (\<lambda>w. running_job (bj_id job)) ?change ?w3)"
    by (rule progressed_same [where t = "w_now w"]) (simp_all add: same_row_def persist_checksums_def)
  then have "manifest_written ?manifest w ?w4" by (simp add: manifest_written_def persist_checksums_def)
  ultimately show ?thesis by (intro exI [of _ ?w4] conjI) (assumption | simp add: persist_checksums_def)+
qed

subsection \<open>The upload begins\<close>

definition building_row :: "bulk_job \<Rightarrow> ustring \<Rightarrow> ustring \<Rightarrow> int \<Rightarrow> bulk_job \<Rightarrow> bool" where
  "building_row job key fp len j \<longleftrightarrow> tidy j \<and> (bj_id j = bj_id job \<longrightarrow> bj_status j = Bulk_running \<and> bj_share j = bj_share job \<and>
     bj_version j = bj_version job \<and> bj_archive j = key \<and> bj_fingerprint j = Some fp \<and> bj_size j = Some len)"

definition building :: "bulk_job \<Rightarrow> ustring \<Rightarrow> ustring \<Rightarrow> int \<Rightarrow> bulk_job list \<Rightarrow> bool" where
  "building job key fp len js \<longleftrightarrow> (\<exists>j \<in> set js. bj_id j = bj_id job) \<and> (\<forall>j \<in> set js. building_row job key fp len j)"

lemma same_row_building: "same_row j k \<Longrightarrow> building_row job key fp len j \<Longrightarrow> building_row job key fp len k"
  by (auto simp: same_row_def building_row_def tidy_def)

lemma building_same:
  assumes same: "list_all2 same_row js ks" and js: "building job key fp len js"
  shows "building job key fp len ks"
proof -
  obtain j where "j \<in> set js" "bj_id j = bj_id job" using js by (auto simp: building_def)
  then obtain k where "k \<in> set ks" "bj_id k = bj_id job"
    using same by (metis in_set_conv_nth list_all2_conv_all_nth same_row_def)
  moreover have "building_row job key fp len k" if k: "k \<in> set ks" for k
    using same js k same_row_building unfolding building_def by (metis in_set_conv_nth list_all2_conv_all_nth)
  ultimately show ?thesis by (auto simp: building_def)
qed

text \<open>The job is running under its row, and every row is as this code writes rows.\<close>

definition runs :: "bulk_job \<Rightarrow> bulk_job list \<Rightarrow> bool" where
  "runs job js \<longleftrightarrow> (\<exists>j \<in> set js. bj_id j = bj_id job) \<and> (\<forall>j \<in> set js. tidy j \<and>
     (bj_id j = bj_id job \<longrightarrow> bj_status j = Bulk_running \<and> bj_share j = bj_share job \<and> bj_version j = bj_version job))"

lemma outputs_create:
  assumes one: "alone sv" and job: "runs job (bw_jobs w)"
  shows "\<exists>w1 u. outputs w (create_multipart sv (bj_id job) key fp plan) (Inr u) w1 \<and>
    w_bucket w1 = w_bucket w \<and> w_now w1 = w_now w \<and> bw_cache w1 = bw_cache w \<and> bw_generations w1 = bw_generations w \<and>
    bw_checksums w1 = bw_checksums w \<and> bw_uploads w1 (key, u) = Some Map.empty \<and>
    building job key fp (mp_archiveSize plan) (bw_jobs w1)"
proof -
  let ?u = "sv_uuid sv (w_minted w)"
  let ?w1 = "w\<lparr>bw_uploads := (bw_uploads w)((key, ?u) \<mapsto> Map.empty), w_minted := Suc (w_minted w)\<rparr>"
  let ?change = "\<lambda>(now::int) j. j\<lparr>bj_archive := key, bj_fingerprint := Some fp, bj_upload := Some ?u, bj_size := Some (mp_archiveSize plan)\<rparr>"
  let ?w2 = "?w1\<lparr>bw_jobs := progressed (\<lambda>w. running_job (bj_id job)) ?change ?w1\<rparr>"
  have create: "outputs w (await sv (create_upload sv key)) (Inr ?u) ?w1"
    by (rule outputs_await [OF one]) (simp add: create_upload_def Let_def)
  have run: "outputs w (create_multipart sv (bj_id job) key fp plan) (Inr ?u) ?w2"
    unfolding create_multipart_def
    by (rule outputs_bind [OF create], rule outputs_bind [OF outputs_update [OF one]], simp, rule outputs_ret)
  have "building_row job key fp (mp_archiveSize plan) ((?change t j)\<lparr>bj_updated := t\<rparr>)"
    if "j \<in> set (bw_jobs w)" "running_job (bj_id job) j" for j t
    using that job by (simp add: runs_def building_row_def tidy_def running_job_def)
  moreover have "building_row job key fp (mp_archiveSize plan) j" if "j \<in> set (bw_jobs w)" "\<not> running_job (bj_id job) j" for j
    using that job by (auto simp: runs_def building_row_def running_job_def)
  ultimately have "\<forall>j \<in> set (bw_jobs ?w2). building_row job key fp (mp_archiveSize plan) j"
    by (auto simp: progressed_def simp del: fun_upd_apply)
  moreover have "\<exists>j \<in> set (bw_jobs ?w2). bj_id j = bj_id job"
  proof -
    obtain j where j: "j \<in> set (bw_jobs w)" "bj_id j = bj_id job" using job by (auto simp: runs_def)
    let ?f = "\<lambda>j. if running_job (bj_id job) j then (?change (w_now w) j)\<lparr>bj_updated := w_now w\<rparr> else j"
    have "?f j \<in> set (bw_jobs ?w2)" using j(1) by (simp add: progressed_def)
    moreover have "bj_id (?f j) = bj_id job" using j(2) by simp
    ultimately show ?thesis by blast
  qed
  ultimately have "building job key fp (mp_archiveSize plan) (bw_jobs ?w2)" by (simp only: building_def simp_thms)
  with run show ?thesis by (intro exI [of _ ?w2] exI [of _ ?u] conjI) (assumption | simp)+
qed

subsection \<open>The archive is stored and recorded\<close>

definition unused_key :: "ustring \<Rightarrow> 'x bulk_world_scheme \<Rightarrow> bool" where
  "unused_key key w \<longleftrightarrow> w_bucket w key = None \<and> (\<forall>c \<in> set (bw_cache w). ac_key c \<noteq> key) \<and> (\<forall>g \<in> set (bw_generations w). ag_key g \<noteq> key)"

definition recorded :: "bulk_job \<Rightarrow> ustring \<Rightarrow> ustring \<Rightarrow> r2_object \<Rightarrow> 'x bulk_world_scheme \<Rightarrow> bool" where
  "recorded job fp key obj w \<longleftrightarrow> active_generation w key (r2_etag obj) (int (length (r2_body obj))) \<and>
     (\<forall>g \<in> set (bw_generations w). ag_key g = key \<longrightarrow> \<not> ag_deleting g) \<and>
     list_ex (\<lambda>c. cache_names (bj_share job) (bj_version job) fp c \<and> cache_holds key (r2_etag obj) (int (length (r2_body obj))) c \<and>
        ac_expires c = w_now w + 30 * 24 * 60 * 60) (bw_cache w)"

lemma record_archive_unused:
  fixes w :: "'x bulk_world_scheme"
  assumes unused: "\<forall>c \<in> set (bw_cache w). ac_key c \<noteq> key" "\<forall>g \<in> set (bw_generations w). ag_key g \<noteq> key"
    and len: "mp_archiveSize plan = int (length (r2_body obj))"
  shows "\<exists>cache. record_archive job resolved key (r2_etag obj) plan w =
      (Inr 1, w\<lparr>bw_generations := bw_generations w @ [\<lparr>ag_key = key, ag_etag = r2_etag obj, ag_size = mp_archiveSize plan,
         ag_deleting = False, ag_started = None\<rparr>], bw_cache := cache\<rparr>) \<and>
    list_ex (\<lambda>c. cache_names (bj_share job) (bj_version job) (rs_fingerprint resolved) c \<and>
      cache_holds key (r2_etag obj) (int (length (r2_body obj))) c \<and> ac_expires c = w_now w + 30 * 24 * 60 * 60) cache"
proof -
  let ?row = "cache_row job resolved key (r2_etag obj) plan (w_now w)"
  let ?same = "cache_names (bj_share job) (bj_version job) (rs_fingerprint resolved)"
  let ?w1 = "w\<lparr>bw_generations := bw_generations w @ [\<lparr>ag_key = key, ag_etag = r2_etag obj, ag_size = mp_archiveSize plan,
         ag_deleting = False, ag_started = None\<rparr>]\<rparr>"
  have gens: "upsert_generation key (r2_etag obj) (mp_archiveSize plan) w = (1, ?w1)"
    using unused(2) by (auto simp: upsert_generation_def list_ex_iff)
  have no_clash: "\<not> list_ex (\<lambda>r. ac_key r = ac_key ?row \<and> \<not> cache_names (ac_share ?row) (ac_version ?row) (ac_fingerprint ?row) r) (bw_cache ?w1)"
    using unused(1) by (auto simp: list_ex_iff cache_row_def)
  have good: "?same (?row\<lparr>ac_rowid := i\<rparr>)" "cache_holds key (r2_etag obj) (int (length (r2_body obj))) (?row\<lparr>ac_rowid := i\<rparr>)"
      "ac_expires (?row\<lparr>ac_rowid := i\<rparr>) = w_now w + 30 * 24 * 60 * 60" for i
    using len by (simp_all add: cache_row_def cache_names_def cache_holds_def)
  obtain cache where cache: "upsert_cache ?row ?w1 = Inr (?w1\<lparr>bw_cache := cache\<rparr>)"
      "\<exists>i. ?row\<lparr>ac_rowid := i\<rparr> \<in> set cache"
  proof (cases "list_ex (cache_names (ac_share ?row) (ac_version ?row) (ac_fingerprint ?row)) (bw_cache ?w1)")
    case True
    then obtain r where r: "r \<in> set (bw_cache ?w1)" "cache_names (ac_share ?row) (ac_version ?row) (ac_fingerprint ?row) r"
      by (auto simp: list_ex_iff)
    let ?cache = "map (\<lambda>r. if cache_names (ac_share ?row) (ac_version ?row) (ac_fingerprint ?row) r then ?row\<lparr>ac_rowid := ac_rowid r\<rparr> else r) (bw_cache ?w1)"
    have "?row\<lparr>ac_rowid := ac_rowid r\<rparr> \<in> set ?cache" using r by force
    moreover have "upsert_cache ?row ?w1 = Inr (?w1\<lparr>bw_cache := ?cache\<rparr>)"
      using True no_clash by (simp only: upsert_cache_def Let_def if_False if_True)
    ultimately show thesis using that by blast
  next
    case False
    let ?cache = "bw_cache ?w1 @ [?row\<lparr>ac_rowid := 1 + foldl max 0 (map ac_rowid (bw_cache ?w1))\<rparr>]"
    have "upsert_cache ?row ?w1 = Inr (?w1\<lparr>bw_cache := ?cache\<rparr>)"
      using False no_clash by (simp only: upsert_cache_def Let_def if_False)
    then show thesis by (rule that) force
  qed
  have "record_archive job resolved key (r2_etag obj) plan w = (Inr 1, ?w1\<lparr>bw_cache := cache\<rparr>)"
    by (simp only: record_archive_def gens case_prod_conv cache(1) sum.case)
  moreover from cache(2) obtain i where "?row\<lparr>ac_rowid := i\<rparr> \<in> set cache" by blast
  then have "list_ex (\<lambda>c. ?same c \<and> cache_holds key (r2_etag obj) (int (length (r2_body obj))) c \<and>
      ac_expires c = w_now w + 30 * 24 * 60 * 60) cache"
    using good unfolding list_ex_iff by blast
  ultimately show ?thesis by (intro exI [of _ cache]) simp
qed

lemma record_archive_calls:
  assumes "\<forall>c \<in> set (bw_cache w). ac_key c \<noteq> key" "\<forall>g \<in> set (bw_generations w). ag_key g \<noteq> key"
    and "mp_archiveSize plan = int (length (r2_body obj))"
  shows "\<exists>cache. (\<forall>n. record_archive job resolved key (r2_etag obj) plan (w\<lparr>w_calls := n\<rparr>) =
      (Inr 1, w\<lparr>w_calls := n, bw_generations := bw_generations w @ [\<lparr>ag_key = key, ag_etag = r2_etag obj, ag_size = mp_archiveSize plan,
         ag_deleting = False, ag_started = None\<rparr>], bw_cache := cache\<rparr>)) \<and>
    list_ex (\<lambda>c. cache_names (bj_share job) (bj_version job) (rs_fingerprint resolved) c \<and>
      cache_holds key (r2_etag obj) (int (length (r2_body obj))) c \<and> ac_expires c = w_now w + 30 * 24 * 60 * 60) cache"
proof -
  have "record_archive job resolved key etag plan (w\<lparr>w_calls := n\<rparr>) =
      apsnd (\<lambda>w. w\<lparr>w_calls := n\<rparr>) (record_archive job resolved key etag plan w)" for n etag
    by (simp add: record_archive_def upsert_generation_def upsert_cache_def Let_def)
  note calls = this
  obtain cache where cache: "record_archive job resolved key (r2_etag obj) plan w =
      (Inr 1, w\<lparr>bw_generations := bw_generations w @ [\<lparr>ag_key = key, ag_etag = r2_etag obj, ag_size = mp_archiveSize plan,
         ag_deleting = False, ag_started = None\<rparr>], bw_cache := cache\<rparr>)"
    "list_ex (\<lambda>c. cache_names (bj_share job) (bj_version job) (rs_fingerprint resolved) c \<and>
      cache_holds key (r2_etag obj) (int (length (r2_body obj))) c \<and> ac_expires c = w_now w + 30 * 24 * 60 * 60) cache"
    using record_archive_unused [OF assms] by blast
  from cache(2) show ?thesis by (intro exI [of _ cache]) (simp add: calls cache(1))
qed

lemma outputs_complete:
  assumes one: "alone sv" and unused: "unused_key key w" and up: "bw_uploads w (key, u) = Some parts"
    and pieces: "assemble parts ps = Some pieces" and len: "mp_archiveSize plan = int (length (concat pieces))"
  shows "\<exists>w1 obj. outputs w (complete_multipart sv br job resolved key u plan ps) (Inr ()) w1 \<and> r2_body obj = concat pieces \<and>
    w_bucket w1 = (w_bucket w)(key \<mapsto> obj) \<and> w_now w1 = w_now w \<and> bw_jobs w1 = bw_jobs w \<and>
    recorded job (rs_fingerprint resolved) key obj w1"
proof -
  let ?obj = "archive_object sv br key pieces w"
  let ?w1 = "w\<lparr>w_bucket := (w_bucket w)(key \<mapsto> ?obj), bw_uploads := (bw_uploads w)((key, u) := None), w_minted := Suc (w_minted w)\<rparr>"
  let ?gen = "\<lparr>ag_key = key, ag_etag = r2_etag ?obj, ag_size = mp_archiveSize plan, ag_deleting = False, ag_started = None\<rparr>"
  have body: "r2_body ?obj = concat pieces" by (simp add: archive_object_def)
  have size: "mp_archiveSize plan = int (length (r2_body ?obj))" by (simp only: body len)
  have head: "outputs w (await sv (r2_head key)) (Inr None) w"
    using outputs_head [OF one, of w key] unused by (simp add: unused_key_def)
  have complete: "outputs w (await_db sv (complete_upload sv br key u ps)) (Inr ?obj) ?w1"
    by (rule outputs_await_db [OF one]) (simp add: complete_upload_def up pieces Let_def archive_object_def)
  have gone: "\<forall>c \<in> set (bw_cache ?w1). ac_key c \<noteq> key" "\<forall>g \<in> set (bw_generations ?w1). ag_key g \<noteq> key"
    using unused by (simp_all add: unused_key_def)
  obtain cache where cache: "\<forall>n. record_archive job resolved key (r2_etag ?obj) plan (?w1\<lparr>w_calls := n\<rparr>) =
      (Inr 1, ?w1\<lparr>w_calls := n, bw_generations := bw_generations ?w1 @ [?gen], bw_cache := cache\<rparr>)"
    and row: "list_ex (\<lambda>c. cache_names (bj_share job) (bj_version job) (rs_fingerprint resolved) c \<and>
      cache_holds key (r2_etag ?obj) (int (length (r2_body ?obj))) c \<and> ac_expires c = w_now ?w1 + 30 * 24 * 60 * 60) cache"
    using record_archive_calls [OF gone size, of job resolved] by blast
  let ?w2 = "?w1\<lparr>bw_generations := bw_generations ?w1 @ [?gen], bw_cache := cache\<rparr>"
  have rec: "outputs ?w1 (await_db sv (record_archive job resolved key (r2_etag ?obj) plan)) (Inr 1) ?w2"
    by (rule outputs_await_db [OF one]) (rule cache [rule_format, THEN trans], simp)
  have "outputs w (complete_multipart sv br job resolved key u plan ps) (Inr ()) ?w2"
    unfolding complete_multipart_def
    by (rule outputs_bind [OF head], simp only: option.case, rule outputs_bind [OF complete],
        simp only: size [symmetric] not_True_eq_False if_False simp_thms, rule outputs_bind [OF rec], simp add: outputs_ret)
  moreover have "recorded job (rs_fingerprint resolved) key ?obj ?w2"
    using row size gone(2) by (auto simp: recorded_def active_generation_def generation_is_def)
  ultimately show ?thesis using body by (intro exI [of _ ?w2] exI [of _ ?obj]) simp
qed

subsection \<open>The job is ready\<close>

definition archive_of :: "bulk_job \<Rightarrow> ustring \<Rightarrow> r2_object \<Rightarrow> int \<Rightarrow> ready_archive" where
  "archive_of job key obj now = \<lparr>ra_key = key, ra_object = obj, ra_job = bj_id job, ra_share = bj_share job,
     ra_version = bj_version job, ra_until = now + 7 * 24 * 60 * 60\<rparr>"

lemma outputs_ready:
  assumes one: "alone sv" and job: "building job key fp (mp_archiveSize plan) (bw_jobs w)"
    and obj: "w_bucket w key = Some obj" "starts_with key cache_prefix"
    and rec: "recorded job fp key obj w"
  shows "\<exists>w1. outputs w (mark_ready sv (bj_id job) key fp plan) (Inr ()) w1 \<and> holds_archive (archive_of job key obj (w_now w)) w1 \<and>
    w_bucket w1 = w_bucket w \<and> w_now w1 = w_now w \<and> recorded job fp key obj w1"
proof -
  let ?c = "may_be_ready (bj_id job) key fp (mp_archiveSize plan)"
  let ?change = "\<lambda>now j. j\<lparr>bj_status := Bulk_ready, bj_processed_files := bj_files j, bj_processed := bj_total j, bj_upload := None,
          bj_expires := ready_until now\<rparr>"
  let ?f = "\<lambda>j. if ?c j then (?change (w_now w) j)\<lparr>bj_updated := w_now w\<rparr> else j"
  let ?w1 = "w\<lparr>bw_jobs := progressed (\<lambda>w. ?c) ?change w\<rparr>" and ?a = "archive_of job key obj (w_now w)"
  have row: "building_row job key fp (mp_archiveSize plan) j" if "j \<in> set (bw_jobs w)" for j
    using job that by (simp add: building_def)
  obtain j where j: "j \<in> set (bw_jobs w)" "bj_id j = bj_id job" using job by (auto simp: building_def)
  have running: "?c k" if "k \<in> set (bw_jobs w)" "bj_id k = bj_id job" for k
    using row [OF that(1)] that(2) by (simp add: building_row_def may_be_ready_def unfinished_def)
  have ok: "row_ok ?a (?f k)" if k: "k \<in> set (bw_jobs w)" for k
  proof (cases "bj_id k = bj_id job")
    case True
    then have "?c k" using running k by simp
    then show ?thesis
      using row [OF k] True
      by (simp add: building_row_def row_ok_def tidy_def serves_archive_def archive_of_def expiry_second_def ready_until_def)
  next
    case False
    then have "\<not> ?c k" by (simp add: may_be_ready_def)
    then show ?thesis using row [OF k] False by (simp add: building_row_def row_ok_def archive_of_def)
  qed
  have jobs: "bw_jobs ?w1 = map ?f (bw_jobs w)" by (simp add: progressed_def)
  have "?f j \<in> set (bw_jobs ?w1)" unfolding jobs set_map using j(1) by (rule imageI)
  moreover have "bj_id (?f j) = bj_id job" using j(2) by simp
  ultimately have "\<exists>k \<in> set (bw_jobs ?w1). bj_id k = bj_id job" by (rule bexI [rotated])
  moreover have "\<forall>k \<in> set (bw_jobs ?w1). row_ok ?a k" unfolding jobs set_map using ok by (intro ballI) (erule imageE, simp only:)
  ultimately have kept: "holds_archive ?a ?w1"
    using rec obj by (simp only: holds_archive_def bulk_world.select_convs bulk_world.update_convs) (simp add: archive_of_def recorded_def)
  have "filter ?c (bw_jobs w) \<noteq> []" using running [OF j] j(1) by (auto simp: filter_empty_conv)
  then have some: "length (filter ?c (bw_jobs w)) \<noteq> 0" by simp
  have "outputs w (mark_ready sv (bj_id job) key fp plan) (Inr ()) ?w1"
    unfolding mark_ready_def
    by (rule outputs_bind [OF outputs_update [OF one]], simp, simp only: some if_False, rule outputs_ret)
  moreover have "recorded job fp key obj ?w1" using rec by (simp add: recorded_def active_generation_def)
  ultimately show ?thesis using kept by (intro exI [of _ ?w1]) simp
qed

subsection \<open>The whole run\<close>

lemma unused_advanced: "advanced w w1 \<Longrightarrow> unused_key key w1 = unused_key key w"
  by (simp add: advanced_def unused_key_def)

lemma unused_written: "manifest_written m w w1 \<Longrightarrow> key \<noteq> m \<Longrightarrow> unused_key key w1 = unused_key key w"
  by (simp add: manifest_written_def unused_key_def)

lemma archive_key_cached: "starts_with (bulkCacheArtifactKey s f jobId) cache_prefix"
  by (simp add: bulkCacheArtifactKey_def starts_with_def)

lemma manifest_apart: "starts_with m temporary_prefix \<Longrightarrow> starts_with key cache_prefix \<Longrightarrow> key \<noteq> finalBulkManifestKey m"
  using prefixes_apart starts_with_longer unfolding finalBulkManifestKey_def by blast

lemma write_archive_parts:
  assumes "write_archive rt bucket sources table = Inr (pieces, table')" and "planOnePassZipMultipart rt sources = Inr plan"
  obtains front state t bytes w' where "mp_partCount plan \<le> 10000"
    "write_prefix_parts rt bucket sources (nat (mp_partSize plan)) (nat (mp_prefixPartCount plan)) (initialOnePassZipState, table) =
       Inr (front, (state, t))"
    "write_final_part rt bucket sources plan (state, t) = Inr (bytes, w')" "pieces = front @ [bytes]"
  using assms by (auto simp: write_archive_def result_simps split: if_splits)

lemma part_size_nonneg:
  assumes "planOnePassZipMultipart rt sources = Inr plan"
  shows "0 \<le> mp_partSize plan"
proof -
  obtain p t where "plan_ok p t plan" "98 \<le> t" using plan_success [OF assms] by blast
  then show ?thesis by (auto simp: plan_ok_def)
qed

lemma advanced_written: "advanced w w1 \<Longrightarrow> manifest_written m w1 w2 \<Longrightarrow> manifest_written m w w2"
  by (auto simp: advanced_def manifest_written_def intro: same_rows_trans)

text \<open>All parts of the archive are uploaded, in their order.\<close>

lemma outputs_parts:
  assumes one: "alone sv" and plan: "planOnePassZipMultipart (br_text br) (sn_sources resolved) = Inr plan"
    and written: "write_archive (br_text br) (bucket_of (w_bucket w)) (sn_sources resolved) (bw_checksums w) = Inr (pieces, table')"
    and up: "bw_uploads w (key, u) = Some Map.empty"
  shows "\<exists>w1 w2 state parts part. outputs w (prefix_parts sv br (bj_id job) (sn_sources resolved) key u plan 1
        (nat (mp_prefixPartCount plan)) initialOnePassZipState) (Inr (state, parts)) w1 \<and>
      outputs w1 (step_do sv 4 (final_part_step sv br job resolved key u plan (nat (mp_prefixPartCount plan) + 1) state)) (Inr part) w2 \<and>
      parts @ [part] = part_list sv 1 pieces \<and> bw_uploads w2 (key, u) = Some (with_parts sv Map.empty 1 pieces) \<and>
      manifest_written (finalBulkManifestKey (bj_manifest job)) w w2"
proof -
  let ?n = "nat (mp_prefixPartCount plan)" and ?m = "finalBulkManifestKey (bj_manifest job)"
  obtain front state t bytes w' where parts:
    "write_prefix_parts (br_text br) (bucket_of (w_bucket w)) (sn_sources resolved) (nat (mp_partSize plan)) ?n
       (initialOnePassZipState, bw_checksums w) = Inr (front, (state, t))"
    "write_final_part (br_text br) (bucket_of (w_bucket w)) (sn_sources resolved) plan (state, t) = Inr (bytes, w')"
    "pieces = front @ [bytes]"
    using write_archive_parts [OF written plan] by metis
  obtain w1 where w1: "outputs w (prefix_parts sv br (bj_id job) (sn_sources resolved) key u plan 1 ?n initialOnePassZipState)
      (Inr (state, part_list sv 1 front)) w1" "advanced w w1" "bw_checksums w1 = t"
      "bw_uploads w1 (key, u) = Some (with_parts sv Map.empty 1 front)" "length front = ?n"
    using outputs_prefix_parts [OF one part_size_nonneg [OF plan] up parts(1)] by metis
  have final: "write_final_part (br_text br) (bucket_of (w_bucket w1)) (sn_sources resolved) plan (state, bw_checksums w1) = Inr (bytes, w')"
    using parts(2) w1(2,3) by (simp add: advanced_def)
  obtain w2 where w2: "outputs w1 (final_part_step sv br job resolved key u plan (?n + 1) state) (Inr (?n + 1, sv_etag sv bytes)) w2"
      "manifest_written ?m w1 w2" "bw_uploads w2 (key, u) = Some ((with_parts sv Map.empty 1 front)(?n + 1 \<mapsto> (sv_etag sv bytes, bytes)))"
    using outputs_final_part [OF one w1(4) final] by metis
  have "part_list sv 1 front @ [(?n + 1, sv_etag sv bytes)] = part_list sv 1 pieces"
    by (simp add: parts(3) part_list_append w1(5))
  moreover have "bw_uploads w2 (key, u) = Some (with_parts sv Map.empty 1 pieces)"
    using w2(3) by (simp add: parts(3) with_parts_append w1(5))
  ultimately show ?thesis using w1(1) outputs_step [OF one w2(1)] advanced_written [OF w1(2) w2(2)] by blast
qed

lemma outputs_build:
  assumes one: "alone sv" and job: "runs job (bw_jobs w)" "starts_with (bj_manifest job) temporary_prefix"
    and key: "key = bulkCacheArtifactKey (bj_share job) (rs_fingerprint resolved) (bj_id job)" "unused_key key w"
    and plan: "planOnePassZipMultipart (br_text br) (sn_sources resolved) = Inr plan"
    and written: "write_archive (br_text br) (bucket_of (w_bucket w)) (sn_sources resolved) (bw_checksums w) = Inr (pieces, table')"
    and len: "int (length (concat pieces)) = mp_archiveSize plan"
  shows "\<exists>w1 obj. outputs w (build_archive sv br job resolved) (Inr ()) w1 \<and> r2_body obj = concat pieces \<and> w_now w1 = w_now w \<and>
    holds_archive (archive_of job key obj (w_now w)) w1 \<and> recorded job (rs_fingerprint resolved) key obj w1"
proof -
  let ?fp = "rs_fingerprint resolved" and ?size = "mp_archiveSize plan"
  let ?m = "finalBulkManifestKey (bj_manifest job)"
  obtain w1 u where w1: "outputs w (create_multipart sv (bj_id job) key ?fp plan) (Inr u) w1"
    "w_bucket w1 = w_bucket w" "w_now w1 = w_now w" "bw_cache w1 = bw_cache w" "bw_generations w1 = bw_generations w"
    "bw_checksums w1 = bw_checksums w" "bw_uploads w1 (key, u) = Some Map.empty" "building job key ?fp ?size (bw_jobs w1)"
    using outputs_create [OF one job(1)] by metis
  obtain w2 w3 state parts part where w3:
    "outputs w1 (prefix_parts sv br (bj_id job) (sn_sources resolved) key u plan 1 (nat (mp_prefixPartCount plan)) initialOnePassZipState)
       (Inr (state, parts)) w2"
    "outputs w2 (step_do sv 4 (final_part_step sv br job resolved key u plan (nat (mp_prefixPartCount plan) + 1) state)) (Inr part) w3"
    "parts @ [part] = part_list sv 1 pieces" "bw_uploads w3 (key, u) = Some (with_parts sv Map.empty 1 pieces)"
    "manifest_written ?m w1 w3"
    using outputs_parts [OF one plan written [folded w1(2,6)] w1(7)] by metis
  have cached: "starts_with key cache_prefix" by (simp add: key(1) archive_key_cached)
  have "unused_key key w1" using key(2) by (simp add: unused_key_def w1(2,4,5))
  then have unused: "unused_key key w3"
    using unused_written [OF w3(5) manifest_apart [OF job(2) cached]] by blast
  obtain w4 obj where w4: "outputs w3 (complete_multipart sv br job resolved key u plan (parts @ [part])) (Inr ()) w4"
      "r2_body obj = concat pieces" "w_bucket w4 = (w_bucket w3)(key \<mapsto> obj)" "w_now w4 = w_now w3" "bw_jobs w4 = bw_jobs w3"
      "recorded job ?fp key obj w4"
    using outputs_complete [OF one unused w3(4) assemble_parts len [symmetric], folded w3(3)] by metis
  have job4: "building job key ?fp ?size (bw_jobs w4)" and now4: "w_now w4 = w_now w"
    using building_same w1(3,8) w4(4,5) w3(5) unfolding manifest_written_def by metis+
  have "w_bucket w4 key = Some obj" by (simp add: w4(3))
  then obtain w5 where w5: "outputs w4 (mark_ready sv (bj_id job) key ?fp plan) (Inr ()) w5"
      "holds_archive (archive_of job key obj (w_now w4)) w5" "w_now w5 = w_now w4" "recorded job ?fp key obj w5"
    using outputs_ready [OF one job4 _ cached w4(6)] by metis
  have planned: "outputs w (lift (failing (planOnePassZipMultipart (br_text br) (sn_sources resolved)))) (Inr plan) w"
    by (simp add: plan failing_def outputs_lift)
  have few: "\<not> mp_partCount plan > 10000" using write_archive_parts [OF written plan] by fastforce
  have "outputs w (build_archive sv br job resolved) (Inr ()) w5"
    unfolding build_archive_def key(1) [symmetric] Let_def
    by (rule outputs_bind [OF planned], simp only: few if_False, rule outputs_bind [OF outputs_step [OF one w1(1)]],
        rule outputs_bind [OF w3(1)], simp only: prod.case, rule outputs_bind [OF w3(2)],
        rule outputs_bind [OF outputs_step [OF one w4(1)]], rule outputs_step [OF one w5(1)])
  then show ?thesis using w4(2) w5 now4 by metis
qed

end
