(* ===== verification/Download_Properties.thy ===== *)
theory Download_Properties
  imports Bulk_Build Bulk_Properties Share_Properties Trash_Properties
begin

section \<open>Properties of prepared downloads\<close>

text \<open>
  What a run builds, that it stays until it expires, what its download answers, and what a failed run
  and a creation without an answer leave.
\<close>

subsection \<open>Samples\<close>

definition stored :: "(ustring \<Rightarrow> r2_object option) \<Rightarrow> ustring \<Rightarrow> byte list" where
  "stored b key = (case b key of Some obj \<Rightarrow> r2_body obj | None \<Rightarrow> [])"

definition source_stored :: "(ustring \<Rightarrow> r2_object option) \<Rightarrow> OnePassZipEntry \<Rightarrow> bool" where
  "source_stored b e \<longleftrightarrow> (case b (oe_physicalKey e) of
     Some obj \<Rightarrow> r2_etag obj = oe_etag e \<and> int (length (r2_body obj)) = oe_size e | None \<Rightarrow> False)"

lemma stored_serves: "list_all (source_stored b) sources \<Longrightarrow> op_serves (bucket_of b) (stored b) sources"
  by (auto simp: op_serves_def list_all_iff source_stored_def stored_def bucket_of_def split: option.splits)

definition bulk_sample :: "(ustring \<Rightarrow> r2_object option) \<Rightarrow> bulk_job list \<Rightarrow> bulk_world" where
  "bulk_sample b jobs = \<lparr>w_bucket = b, w_index = \<lparr>ix_rows = (\<lambda>_. None), ix_revisions = (\<lambda>_. None)\<rparr>, w_locations = [],
     w_recovery = [], w_suppressions = [], w_folders = [], w_outbox = [], w_now = 7, w_calls = 0, w_minted = 0, dw_shares = [],
     dw_projects = [guest_project], dw_events = [], bw_jobs = jobs, bw_cache = [], bw_generations = [], bw_checksums = [],
     bw_used = (\<lambda>_. 0), bw_cursors = (\<lambda>_. None), bw_quota = [], bw_uploads = (\<lambda>_. None), bw_instances = [], bw_tombstones = [],
     bw_aliases = []\<rparr>"

definition sample_bulk_job :: "bulk_status \<Rightarrow> bulk_job" where
  "sample_bulk_job status = \<lparr>bj_id = [106], bj_share = ustr ''share'', bj_version = 3, bj_request = [], bj_status = status,
     bj_manifest = temporary_prefix @ [109], bj_archive = temporary_prefix @ [97], bj_fingerprint = None, bj_upload = None,
     bj_files = 0, bj_processed_files = 0, bj_total = 0, bj_processed = 0, bj_size = None, bj_error = None, bj_updated = 0,
     bj_expires = 1000000, bj_parent = None, bj_index = None, bj_count = 1\<rparr>"

definition sample_bulk_runtime :: bulk_runtime where
  "sample_bulk_runtime = \<lparr>br_text = sample_runtime, br_digest = (\<lambda>_. [100]), br_collate = id, br_multi_etag = (\<lambda>_. [101]),
     br_request = (\<lambda>_. None), br_snapshot = (\<lambda>_. None), br_resolved = (\<lambda>_. None)\<rparr>"

definition bulk_services :: "ustring list \<Rightarrow> 'x world_scheme services" where
  "bulk_services keys = (sample_services (\<lambda>_. Served))\<lparr>sv_list := (\<lambda>b prefix limit cursor start.
     \<lparr>rp_objects = filter (\<lambda>obj. starts_with (r2_key obj) prefix) (List.map_filter b keys), rp_truncated = False, rp_cursor = None\<rparr>)\<rparr>"

subsection \<open>A run that nobody disturbs\<close>

text \<open>
  C3: What a run builds. When the sources of a job are distinct and in the bucket as the job recorded
  them, they have a plan of at most 10,000 parts, the key of the archive is not in use and nobody
  interferes, building its archive succeeds: one object is stored whose body is the local entry of every
  source in order followed by the central directory, built for the recorded checksum of a source, taken
  unchecked, or for the CRC-32 of its data when none is recorded; the archive is recorded for reuse for
  thirty days, and the job is ready with it for seven days.
\<close>

theorem archive_run_prepares:
  fixes w :: "'x bulk_world_scheme"
  assumes "alone sv" and "runs job (bw_jobs w)" and "starts_with (bj_manifest job) temporary_prefix"
    and "unused_key (bulkCacheArtifactKey (bj_share job) (rs_fingerprint resolved) (bj_id job)) w"
    and "keeps_copy_suffix (rt_lower (br_text br))" and "sn_sources resolved \<noteq> []" and "length (sn_sources resolved) < 2 ^ 32"
    and "distinct (map oe_physicalKey (sn_sources resolved))" and "list_all (source_stored (w_bucket w)) (sn_sources resolved)"
    and "table_ok (bw_checksums w)" and "planOnePassZipMultipart (br_text br) (sn_sources resolved) = Inr plan"
    and "mp_partCount plan \<le> 10000"
  shows "\<exists>names trailer obj w'. outputs w (build_archive sv br job resolved) (Inr ()) w' \<and>
    uniqueZipEntryNames (br_text br) (map oe_name (sn_sources resolved)) = Inr names \<and>
    buildOnePassZipTrailer (br_text br) (map (\<lambda>e. e\<lparr>oe_crc32 := Some (expected_crc (stored (w_bucket w)) e)\<rparr>) (sn_sources resolved)) = Inr trailer \<and>
    r2_body obj = prefix_bytes (stored (w_bucket w)) (sn_sources resolved) names @ trailer \<and>
    holds_archive (archive_of job (bulkCacheArtifactKey (bj_share job) (rs_fingerprint resolved) (bj_id job)) obj (w_now w)) w' \<and>
    recorded job (rs_fingerprint resolved) (bulkCacheArtifactKey (bj_share job) (rs_fingerprint resolved) (bj_id job)) obj w'"
proof -
  obtain names where names: "uniqueZipEntryNames (br_text br) (map oe_name (sn_sources resolved)) = Inr names"
    using unique_names_ok [OF assms(5), of "map oe_name (sn_sources resolved)"] assms(7) by auto
  have "job_ok (br_text br) (bucket_of (w_bucket w)) (stored (w_bucket w)) (sn_sources resolved) names"
    using names assms(6,8) stored_serves [OF assms(9)] by (simp add: job_ok_def)
  from write_archive_complete [OF this assms(10-12)] obtain pieces table' trailer where written:
    "write_archive (br_text br) (bucket_of (w_bucket w)) (sn_sources resolved) (bw_checksums w) = Inr (pieces, table')"
    "concat pieces = prefix_bytes (stored (w_bucket w)) (sn_sources resolved) names @ trailer"
    "buildOnePassZipTrailer (br_text br) (map (\<lambda>e. e\<lparr>oe_crc32 := Some (expected_crc (stored (w_bucket w)) e)\<rparr>) (sn_sources resolved)) = Inr trailer"
    "int (length (concat pieces)) = mp_archiveSize plan" .
  from outputs_build [OF assms(1-3) refl assms(4,11) written(1,4)] obtain w' obj where
    "outputs w (build_archive sv br job resolved) (Inr ()) w'" "r2_body obj = concat pieces"
    "holds_archive (archive_of job (bulkCacheArtifactKey (bj_share job) (rs_fingerprint resolved) (bj_id job)) obj (w_now w)) w'"
    "recorded job (rs_fingerprint resolved) (bulkCacheArtifactKey (bj_share job) (rs_fingerprint resolved) (bj_id job)) obj w'"
    by blast
  with written(2,3) names show ?thesis by (intro exI conjI) (assumption | simp only:)+
qed

definition sample_stored :: "ustring \<Rightarrow> r2_object option" where
  "sample_stored key = (if key = [1] then Some ((sample_object key [10, 20, 30])\<lparr>r2_etag := [9]\<rparr>)
     else if key = [2] then Some ((sample_object key [10, 20, 30])\<lparr>r2_etag := [8]\<rparr>) else None)"

definition sample_resolved :: ResolvedSnapshot where
  "sample_resolved = \<lparr>sn_root = [], sn_shareId = ustr ''share'', sn_shareVersion = 3, sn_sources = sample_sources,
     rs_fingerprint = [102]\<rparr>"

theorem archive_run_prepares_witness:
  "\<exists>names trailer obj w'. outputs (bulk_sample sample_stored [sample_bulk_job Bulk_running])
      (build_archive (sample_services (\<lambda>_. Served)) sample_bulk_runtime (sample_bulk_job Bulk_running) sample_resolved) (Inr ()) w' \<and>
    r2_body obj = prefix_bytes (stored sample_stored) sample_sources names @ trailer \<and>
    holds_archive (archive_of (sample_bulk_job Bulk_running) (bulkCacheArtifactKey (ustr ''share'') [102] [106]) obj 7) w'"
proof -
  let ?w = "bulk_sample sample_stored [sample_bulk_job Bulk_running]"
  have one: "alone (sample_services (\<lambda>_. Served))" by (simp add: alone_def sample_services_def)
  have job: "runs (sample_bulk_job Bulk_running) (bw_jobs ?w)" "starts_with (bj_manifest (sample_bulk_job Bulk_running)) temporary_prefix"
    by (simp_all add: runs_def bulk_sample_def sample_bulk_job_def tidy_def starts_with_def)
  have key: "unused_key (bulkCacheArtifactKey (bj_share (sample_bulk_job Bulk_running)) (rs_fingerprint sample_resolved) (bj_id (sample_bulk_job Bulk_running))) ?w"
    by (simp add: unused_key_def bulk_sample_def sample_stored_def bulkCacheArtifactKey_def cache_prefix_def ustr_def)
  have texts: "br_text sample_bulk_runtime = sample_runtime" by (simp add: sample_bulk_runtime_def)
  have sources: "sn_sources sample_resolved = sample_sources" by (simp add: sample_resolved_def)
  have "list_all (source_stored (w_bucket ?w)) (sn_sources sample_resolved)"
    by (simp add: sources sample_sources_def source_stored_def bulk_sample_def sample_stored_def sample_object_def)
  moreover have "table_ok (bw_checksums ?w)" by (simp add: bulk_sample_def table_ok_def)
  ultimately have "\<exists>names trailer obj w'. outputs ?w (build_archive (sample_services (\<lambda>_. Served)) sample_bulk_runtime
        (sample_bulk_job Bulk_running) sample_resolved) (Inr ()) w' \<and>
      r2_body obj = prefix_bytes (stored (w_bucket ?w)) (sn_sources sample_resolved) names @ trailer \<and>
      holds_archive (archive_of (sample_bulk_job Bulk_running) (bulkCacheArtifactKey (bj_share (sample_bulk_job Bulk_running))
        (rs_fingerprint sample_resolved) (bj_id (sample_bulk_job Bulk_running))) obj (w_now ?w)) w'"
    using archive_run_prepares [OF one job key, of sample_bulk_runtime sample_plan] sample_keeps_suffix sample_planned
    unfolding texts sources by (fastforce simp: sample_sources_def sample_plan_def)
  then show ?thesis
    unfolding sources by (simp add: bulk_sample_def sample_resolved_def sample_bulk_job_def)
qed

subsection \<open>Downloads\<close>

text \<open>
  C2: A prepared archive is there when it is asked for. Once a job is ready with an archive, no sequence of
  cleanups, retention runs, requests for downloads, their states and files, and runs of other jobs, under
  every failure of a call and whatever other actors do between two calls while they leave it, takes the
  archive away before the job expires: its download then answers with exactly the bytes of the archive
  that the range asks for.
\<close>

theorem prepared_download_served:
  fixes w :: "'x bulk_world_scheme"
  assumes "holds_archive a w" and "turns_keep sv (holds_archive a)" and "lists_under sv" and "list_all (not_its_run a) actors"
    and "alone sv'" and "\<not> present (ps_object share)" and "ps_id share = ra_share a" and "ps_version share = ra_version a"
    and "parseRange rangeHeader (int (length (r2_body (ra_object a)))) = Inr piece"
  shows "\<exists>disposition. fst (download_file sv' title False rangeHeader None (ra_job a) share (play sv br actors w)) =
    Inr \<lparr>an_status = (if piece = None then 200 else 206), an_size = int (length (r2_body (ra_object a))), an_range = piece,
         an_body = Some (range_body (r2_body (ra_object a)) piece), an_disposition = disposition\<rparr>"
proof -
  have "holds_archive a (play sv br actors w)" using kept_play [OF assms(2,3) _ assms(1)] assms(4) by (simp add: list_all_iff)
  from outputs_run [OF outputs_file [OF assms(5) this assms(6-9), of title]] show ?thesis by (elim exE) (rule exI, simp)
qed

definition sample_archive :: ready_archive where
  "sample_archive = \<lparr>ra_key = cache_prefix @ [122], ra_object = sample_object (cache_prefix @ [122]) [1, 2, 3], ra_job = [106],
     ra_share = ustr ''share'', ra_version = 3, ra_until = 1000\<rparr>"

definition ready_sample :: bulk_world where
  "ready_sample = bulk_sample (\<lambda>k. if k = cache_prefix @ [122] then Some (sample_object k [1, 2, 3]) else None)
     [(sample_bulk_job Bulk_ready)\<lparr>bj_archive := cache_prefix @ [122], bj_fingerprint := Some [102]\<rparr>]"

theorem prepared_download_served_witness:
  "\<exists>disposition. fst (download_file (sample_services (\<lambda>_. Served)) [] False (Some (ustr ''bytes=1-'')) None [106]
      (view_of [guest_project] (guest_share\<lparr>ps_object := None\<rparr>))
      (play (bulk_services [cache_prefix @ [122]]) sample_bulk_runtime [Cleanup_run, Retention_run, Job_run [107] False] ready_sample)) =
    Inr \<lparr>an_status = 206, an_size = 3, an_range = Some (1, 2), an_body = Some [2, 3], an_disposition = disposition\<rparr>"
proof -
  let ?a = sample_archive and ?share = "view_of [guest_project] (guest_share\<lparr>ps_object := None\<rparr>)"
  have kept: "holds_archive ?a ready_sample"
    by (simp add: holds_archive_def ready_sample_def sample_archive_def bulk_sample_def row_ok_def serves_archive_def tidy_def sample_bulk_job_def
        expiry_second_def starts_with_def)
  have turns: "turns_keep (bulk_services [cache_prefix @ [122]]) (holds_archive ?a)"
    by (simp add: turns_keep_def bulk_services_def sample_services_def)
  have lists: "lists_under (bulk_services [cache_prefix @ [122]])"
    by (simp add: lists_under_def bulk_services_def)
  have runs: "list_all (not_its_run ?a) [Cleanup_run, Retention_run, Job_run [107] False]"
    by (simp add: not_its_run_def sample_archive_def ends_with_def ustr_def)
  have one: "alone (sample_services (\<lambda>_. Served))" by (simp add: alone_def sample_services_def)
  have share: "\<not> present (ps_object ?share)" "ps_id ?share = ra_share ?a" "ps_version ?share = ra_version ?a"
    by (simp_all add: view_of_def Let_def public_share.defs guest_share_def present_def sample_archive_def)
  have piece: "parseRange (Some (ustr ''bytes=1-'')) (int (length (r2_body (ra_object ?a)))) = Inr (Some (1, 2))"
    by (simp add: parseRange_def present_def ustr_def starts_with_def range_groups_def digit_def number_of_def is_safe_integer_def
        MAX_SAFE_INTEGER_def sample_archive_def sample_object_def)
  from prepared_download_served [OF kept turns lists runs one share piece, of "[]" sample_bulk_runtime] show ?thesis
    by (simp add: sample_archive_def sample_object_def range_body_def)
qed

text \<open>
  C31: A range stays in the file. A range that is accepted for a file of a known size lies in it, and it
  is empty only when the file is.
\<close>

theorem range_stays_in_file:
  assumes "parseRange rangeHeader len = Inr (Some (off, n))" and "0 \<le> len"
  shows "0 \<le> off \<and> 0 \<le> n \<and> off + n \<le> len \<and> (n = 0 \<longleftrightarrow> len = 0)"
proof -
  have "0 \<le> number_of s" for s by (simp add: number_of_def)
  with assms show ?thesis by (auto simp: parseRange_def Let_def split: if_splits option.splits)
qed

theorem range_stays_in_file_witness:
  "parseRange (Some (ustr ''bytes=-1'')) 0 = Inr (Some (0, 0)) \<and> 0 \<le> (0::int) \<and> (0::int) + 0 \<le> 0 \<and> ((0::int) = 0 \<longleftrightarrow> (0::int) = 0)"
proof -
  have "parseRange (Some (ustr ''bytes=-1'')) 0 = Inr (Some (0, 0))"
    by (simp add: parseRange_def present_def ustr_def starts_with_def range_groups_def digit_def number_of_def is_safe_integer_def
        MAX_SAFE_INTEGER_def)
  with range_stays_in_file [OF this] show ?thesis by simp
qed

subsection \<open>Failures\<close>

lemma outputs_catch_fault:
  assumes "outputs w m (Inl f) w1" and "outputs w1 (h f) r w2"
  shows "outputs w (catch_io m h) r w2"
  unfolding outputs_def
proof
  fix n
  obtain n1 where "m (w\<lparr>w_calls := n\<rparr>) = (Inl f, w1\<lparr>w_calls := n1\<rparr>)" using assms(1) by (auto simp: outputs_def)
  moreover obtain n2 where "h f (w1\<lparr>w_calls := n1\<rparr>) = (r, w2\<lparr>w_calls := n2\<rparr>)" using assms(2) by (auto simp: outputs_def)
  ultimately show "\<exists>n'. catch_io m h (w\<lparr>w_calls := n\<rparr>) = (r, w2\<lparr>w_calls := n'\<rparr>)"
    by (intro exI [of _ n2]) (simp add: catch_io_def)
qed

lemma outputs_step_fault: "outputs w m (Inl f) w \<Longrightarrow> outputs w (step_do sv n m) (Inl f) w"
  by (induction n) (auto simp: checkpointed_def intro: outputs_bind_fault outputs_catch_fault)

lemma outputs_abandon:
  assumes "alone sv"
  shows "outputs w (abandon_upload sv (Some j)) (Inr ()) (case bj_upload j of
    Some u \<Rightarrow> if u = [] then w else w\<lparr>bw_uploads := (bw_uploads w)((bj_archive j, u) := None)\<rparr> | None \<Rightarrow> w)"
proof (cases "bj_upload j")
  case (Some u)
  show ?thesis
  proof (cases "bw_uploads w (bj_archive j, u)")
    case None
    then have "(bw_uploads w)((bj_archive j, u) := None) = bw_uploads w" by auto
    moreover have "outputs w (await_db sv (abort_upload (bj_archive j) u)) (Inl no_such_upload) w"
      by (rule outputs_await_db [OF assms]) (simp add: abort_upload_def None)
    ultimately show ?thesis
      by (simp add: abandon_upload_def Some outputs_ret) (auto intro: outputs_catch_fault outputs_ret)
  next
    case (Some parts)
    have "outputs w (await_db sv (abort_upload (bj_archive j) u)) (Inr ()) (w\<lparr>bw_uploads := (bw_uploads w)((bj_archive j, u) := None)\<rparr>)"
      by (rule outputs_await_db [OF assms]) (simp add: abort_upload_def Some)
    then show ?thesis using \<open>bj_upload j = Some u\<close> by (auto simp: abandon_upload_def intro: outputs_catch outputs_ret)
  qed
qed (simp add: abandon_upload_def outputs_ret)

text \<open>What a failed run leaves of the world it failed in.\<close>

definition without :: "ustring list \<Rightarrow> (ustring \<Rightarrow> r2_object option) \<Rightarrow> ustring \<Rightarrow> r2_object option" where
  "without keys b k = (if k \<in> set keys then None else b k)"

lemma outputs_delete_all: "alone sv \<Longrightarrow> outputs w (await sv (r2_delete_all keys)) (Inr ()) (w\<lparr>w_bucket := without keys (w_bucket w)\<rparr>)"
proof (rule outputs_await, assumption)
  show "r2_delete_all keys (w\<lparr>w_calls := n\<rparr>) = ((), w\<lparr>w_bucket := without keys (w_bucket w)\<rparr>\<lparr>w_calls := n\<rparr>)" for n
    by (simp add: r2_delete_all_def without_def [abs_def] cong: if_cong)
qed

definition failed_row :: "fault \<Rightarrow> int \<Rightarrow> bulk_job \<Rightarrow> bulk_job" where
  "failed_row error now j = j\<lparr>bj_status := Bulk_failed, bj_error := Some (classifyWorkflowFailure (error_message error)), bj_updated := now\<rparr>"

lemma outputs_cleanup_failed:
  assumes "alone sv" and "find_bulk_job (bj_id job) w = Some j"
  shows "\<exists>w1. outputs w (cleanup_failed sv job) (Inr ()) w1 \<and> w_bucket w1 = without (unnamed_archive (Some j) @ manifest_keys job) (w_bucket w) \<and>
    bw_jobs w1 = bw_jobs w \<and> bw_cache w1 = bw_cache w \<and> bw_generations w1 = bw_generations w \<and> w_now w1 = w_now w \<and>
    (\<forall>u. bj_upload j = Some u \<longrightarrow> u \<noteq> [] \<longrightarrow> bw_uploads w1 (bj_archive j, u) = None)"
proof -
  let ?w1 = "case bj_upload j of
    Some u \<Rightarrow> if u = [] then w else w\<lparr>bw_uploads := (bw_uploads w)((bj_archive j, u) := None)\<rparr> | None \<Rightarrow> w"
  let ?keys = "unnamed_archive (Some j) @ manifest_keys job"
  let ?w2 = "?w1\<lparr>w_bucket := without ?keys (w_bucket ?w1)\<rparr>"
  have read: "outputs w (await sv (\<lambda>w. (find_bulk_job (bj_id job) w, w))) (Inr (Some j)) w"
    by (rule outputs_read [OF assms(1)]) (use assms(2) in \<open>simp add: find_bulk_job_def\<close>)
  have "outputs w (cleanup_failed sv job) (Inr ()) ?w2"
    unfolding cleanup_failed_def
    by (rule outputs_bind [OF read], rule outputs_bind [OF outputs_abandon [OF assms(1)]],
        rule outputs_delete_all [OF assms(1)])
  then show ?thesis by (intro exI [of _ ?w2] conjI) (auto split: option.split)
qed

lemma find_failed:
  assumes "find_bulk_job jobId w = Some j" and "unfinished j"
  shows "find (\<lambda>j. bj_id j = jobId) (map (\<lambda>j. if bj_id j = jobId \<and> unfinished j then failed_row error now j else j) (bw_jobs w)) =
    Some (failed_row error now j)"
proof -
  have "find (\<lambda>j. bj_id j = jobId) js = Some j \<Longrightarrow>
      find (\<lambda>j. bj_id j = jobId) (map (\<lambda>j. if bj_id j = jobId \<and> unfinished j then failed_row error now j else j) js) = Some (failed_row error now j)" for js
    using assms(2) by (induction js) (auto simp: failed_row_def split: if_splits)
  with assms(1) show ?thesis by (simp add: find_bulk_job_def)
qed

text \<open>
  C15: A failed run is reported and cleaned up. When the work of a job fails with an error before the
  job ended and nobody interferes, the run passes the error on; the job is failed with the public code
  of that error, its upload is aborted, and its manifests are deleted, with its archive only if no
  fingerprint names it; every other object and every recorded archive stays.
\<close>

theorem failed_run_is_reported:
  fixes w :: "'x bulk_world_scheme"
  assumes "alone sv" and "find_bulk_job jobId w = Some job" and "outputs w (work sv br job prepared) (Inl error) w1"
    and "find_bulk_job jobId w1 = Some j" and "unfinished j"
  shows "\<exists>w2. outputs w (run sv br jobId prepared) (Inl error) w2 \<and> find_bulk_job jobId w2 = Some (failed_row error (w_now w1) j) \<and>
    w_bucket w2 = without ((if bj_fingerprint j = None \<and> bj_archive j \<noteq> [] then [bj_archive j] else []) @
      [bj_manifest job, resolvedBulkManifestKey (bj_manifest job), finalBulkManifestKey (bj_manifest job)]) (w_bucket w1) \<and> bw_cache w2 = bw_cache w1 \<and>
    bw_generations w2 = bw_generations w1 \<and> (\<forall>u. bj_upload j = Some u \<longrightarrow> u \<noteq> [] \<longrightarrow> bw_uploads w2 (bj_archive j, u) = None)"
proof -
  have id: "bj_id job = jobId" using assms(2) by (auto simp: find_bulk_job_def find_Some_iff)
  obtain w2 where w2: "outputs w1 (cleanup_failed sv job) (Inr ()) w2"
    "w_bucket w2 = without (unnamed_archive (Some j) @ manifest_keys job) (w_bucket w1)" "bw_jobs w2 = bw_jobs w1"
    "bw_cache w2 = bw_cache w1" "bw_generations w2 = bw_generations w1" "w_now w2 = w_now w1"
    "\<forall>u. bj_upload j = Some u \<longrightarrow> u \<noteq> [] \<longrightarrow> bw_uploads w2 (bj_archive j, u) = None"
    using outputs_cleanup_failed [OF assms(1), of job w1 j] assms(4) id by auto
  let ?failed = "\<lambda>j. if bj_id j = jobId \<and> unfinished j then failed_row error (w_now w1) j else j"
  let ?w3 = "w2\<lparr>bw_jobs := map ?failed (bw_jobs w1)\<rparr>"
  have status: "outputs w1 (await sv (\<lambda>w. (map_option bj_status (find_bulk_job (bj_id job) w), w))) (Inr (Some (bj_status j))) w1"
    by (rule outputs_read [OF assms(1)]) (use assms(4) id in \<open>simp add: find_bulk_job_def\<close>)
  have not_ready: "Some (bj_status j) \<noteq> Some Bulk_ready" using assms(5) by (auto simp: unfinished_def)
  have mark: "outputs w2 (await sv (mark_failed (bj_id job) (classifyWorkflowFailure (error_message error))))
      (Inr (length (filter (\<lambda>j. bj_id j = bj_id job \<and> unfinished j) (bw_jobs w2)))) ?w3"
    by (rule outputs_await [OF assms(1)]) (simp add: mark_failed_def update_jobs_def id w2(3,6) failed_row_def [abs_def] cong: if_cong)
  have "outputs w1 (on_failure sv job error) (Inl error) ?w3"
    unfolding on_failure_def
    by (rule outputs_bind [OF outputs_step [OF assms(1) status]], simp only: not_ready if_False,
        rule outputs_bind [OF outputs_step [OF assms(1) w2(1)]], rule outputs_bind [OF outputs_step [OF assms(1) mark]], rule outputs_raise)
  note failing = outputs_catch_fault [where h = "on_failure sv job", OF assms(3) this]
  have read: "outputs w (await sv (\<lambda>w. (find_bulk_job jobId w, w))) (Inr (Some job)) w"
    by (rule outputs_read [OF assms(1)]) (use assms(2) in \<open>simp add: find_bulk_job_def\<close>)
  have "outputs w (run sv br jobId prepared) (Inl error) ?w3"
    unfolding run_def by (rule outputs_bind [OF read]) (simp only: option.case failing)
  moreover have "find_bulk_job jobId ?w3 = Some (failed_row error (w_now w1) j)"
    using find_failed [OF assms(4,5)] by (simp add: find_bulk_job_def)
  ultimately show ?thesis using w2 by (intro exI [of _ ?w3]) (simp add: unnamed_archive_def manifest_keys_def)
qed

theorem failed_run_is_reported_witness:
  "\<exists>w2. outputs (bulk_sample (\<lambda>_. None) [sample_bulk_job Bulk_queued]) (run (sample_services (\<lambda>_. Served)) sample_bulk_runtime [106] False)
      (Inl (Failed ''share-revoked'')) w2 \<and>
    find_bulk_job [106] w2 = Some ((sample_bulk_job Bulk_queued)\<lparr>bj_status := Bulk_failed,
      bj_error := Some \<lparr>bf_code = ''share-revoked'', bf_message = ''This delivery is no longer available.''\<rparr>, bj_updated := 7\<rparr>)"
proof -
  let ?w = "bulk_sample (\<lambda>_. None) [sample_bulk_job Bulk_queued]" and ?job = "sample_bulk_job Bulk_queued"
  let ?sv = "sample_services (\<lambda>_. Served) :: bulk_world services" and ?e = "Failed ''share-revoked''"
  have one: "alone ?sv" by (simp add: alone_def sample_services_def)
  have found: "find_bulk_job [106] ?w = Some ?job" by (simp add: find_bulk_job_def bulk_sample_def sample_bulk_job_def)
  have none: "outputs ?w (await ?sv (\<lambda>w. (find (share_open w ?job) (dw_shares w), w))) (Inr None) ?w"
    by (rule outputs_read [OF one]) (simp add: bulk_sample_def)
  have "outputs ?w (read_share ?sv ?job) (Inl ?e) ?w"
    unfolding read_share_def by (rule outputs_bind [OF none]) (simp add: outputs_raise)
  then have "outputs ?w (snapshot_selection ?sv sample_bulk_runtime ?job) (Inl ?e) ?w"
    unfolding snapshot_selection_def snapshot_def by (intro outputs_bind_fault)
  then have "outputs ?w (work ?sv sample_bulk_runtime ?job False) (Inl ?e) ?w"
    unfolding work_def select_and_split_def by (simp only: if_False) (intro outputs_bind_fault outputs_step_fault)
  from failed_run_is_reported [OF one found this found] have "\<exists>w2. outputs ?w (run ?sv sample_bulk_runtime [106] False) (Inl ?e) w2 \<and>
      find_bulk_job [106] w2 = Some (failed_row ?e (w_now ?w) ?job)"
    by (auto simp: unfinished_def sample_bulk_job_def)
  moreover have "classifyWorkflowFailure ''share-revoked'' = \<lparr>bf_code = ''share-revoked'', bf_message = ''This delivery is no longer available.''\<rparr>"
    by (simp add: classifyWorkflowFailure_def friendlyBulkFailure_def BULK_FAILURES_def)
  ultimately show ?thesis by (simp add: failed_row_def bulk_sample_def)
qed

subsection \<open>A creation without an answer\<close>

definition losing :: "nat \<Rightarrow> string \<Rightarrow> 'x world_scheme services \<Rightarrow> bool" where
  "losing k m sv \<longleftrightarrow> (\<forall>n w. sv_turn sv n w = w) \<and> (\<forall>n. sv_outcome sv n = (if n = k then Lost m else Served))"

lemma losing_await:
  "losing k m sv \<Longrightarrow> await sv call w = (if w_calls w = k
     then (Inl (Failed m), snd (call (w\<lparr>w_calls := Suc (w_calls w)\<rparr>))) else apfst Inr (call (w\<lparr>w_calls := Suc (w_calls w)\<rparr>)))"
  by (simp add: await_def losing_def Let_def case_prod_beta apfst_def map_prod_def)

lemma count_download_frames:
  "fst (count_download s t (w\<lparr>w_calls := n\<rparr>)) = fst (count_download s t w)"
  "bw_jobs (snd (count_download s t w)) = bw_jobs w" "bw_instances (snd (count_download s t w)) = bw_instances w"
  "w_calls (snd (count_download s t w)) = w_calls w" "w_minted (snd (count_download s t w)) = w_minted w"
  by (simp_all add: count_download_def Let_def)

lemma find_updated:
  assumes "find_bulk_job jobId w = Some j" and "cond w j" and "\<And>now k. bj_id (change now k) = bj_id k"
  shows "find_bulk_job jobId (snd (update_jobs cond change w)) = Some ((change (w_now w) j)\<lparr>bj_updated := w_now w\<rparr>)"
proof -
  have "find (\<lambda>j. bj_id j = jobId) js = Some j \<Longrightarrow>
      find (\<lambda>j. bj_id j = jobId) (map (\<lambda>j. if cond w j then (change (w_now w) j)\<lparr>bj_updated := w_now w\<rparr> else j) js) =
      Some ((change (w_now w) j)\<lparr>bj_updated := w_now w\<rparr>)" for js
    using assms(2,3) by (induction js) (auto split: if_splits)
  with assms(1) show ?thesis by (simp add: find_bulk_job_def update_jobs_def)
qed

lemma find_new:
  assumes "\<forall>j \<in> set js. bj_id j \<noteq> i" and "bj_id x = i" and "bj_id (g x) = i"
    and "bw_jobs w = map (\<lambda>j. if bj_id j = i then g j else j) (js @ [x])"
  shows "find (\<lambda>j. bj_id j = i) (bw_jobs w) = Some (if bj_id x = i then g x else x)"
proof -
  have "\<forall>j \<in> set js. bj_id j \<noteq> i \<Longrightarrow> find (\<lambda>j. bj_id j = i) (map (\<lambda>j. if bj_id j = i then g j else j) js @ [g x]) = Some (g x)" for js
    using assms(3) by (induction js) auto
  with assms show ?thesis by simp
qed

text \<open>
  A failed creation may still run. When the platform creates the workflow of a new download but its
  answer is lost, the visitor is told that the download could not be queued and the job is failed with
  that error; yet the instance exists, and its first step marks the failed job running again, its
  error still recorded.
\<close>

theorem lost_creation_runs_failed_job:
  fixes w :: "'x bulk_world_scheme"
  assumes "losing (w_calls w + 2) m sv" and "\<not> present (ps_object share)"
    and "validateBulkRequest (pr_lower (sv_paths sv)) body = Inr request"
    and "fst (count_download (ps_id share) (w_now w * 1000 div (60 * 60 * 1000)) w) \<noteq> 0"
    and "\<forall>j \<in> set (bw_jobs w). bj_id j \<noteq> sv_uuid sv (w_minted w)"
    and "sv_uuid sv (w_minted w) \<notin> fst ` set (bw_instances w)"
  shows "\<exists>w1 j k. create_download sv body share w = (Inl (Http 503 (bf_message (friendlyBulkFailure (Some ''workflow-create-failed'')))), w1) \<and>
    find_bulk_job (sv_uuid sv (w_minted w)) w1 = Some j \<and> bj_status j = Bulk_failed \<and>
    (sv_uuid sv (w_minted w), False) \<in> set (bw_instances w1) \<and>
    find_bulk_job (sv_uuid sv (w_minted w)) (snd (mark_running (sv_uuid sv (w_minted w)) sources w1)) = Some k \<and>
    bj_status k = Bulk_running \<and> bj_error k = Some (friendlyBulkFailure (Some ''workflow-create-failed''))"
proof -
  let ?id = "sv_uuid sv (w_minted w)" and ?failure = "friendlyBulkFailure (Some ''workflow-create-failed'')"
  let ?wa = "snd (count_download (ps_id share) (w_now w * 1000 div (60 * 60 * 1000)) (w\<lparr>w_calls := Suc (w_calls w)\<rparr>))"
  let ?wb = "?wa\<lparr>w_minted := Suc (w_minted ?wa)\<rparr>"
  let ?job = "new_job share ?id request (w_now ?wb * 1000) (w_now ?wb)"
  let ?wc = "?wb\<lparr>w_calls := w_calls w + 2, bw_jobs := bw_jobs w @ [?job]\<rparr>"
  let ?wd = "?wc\<lparr>w_calls := w_calls w + 3, bw_instances := bw_instances w @ [(?id, False)]\<rparr>"
  let ?failed = "\<lambda>j. if bj_id j = ?id then j\<lparr>bj_status := Bulk_failed, bj_error := Some ?failure, bj_updated := w_now ?wd\<rparr> else j"
  let ?we = "?wd\<lparr>w_calls := w_calls w + 4, bw_jobs := map ?failed (bw_jobs ?wd)\<rparr>"
  note frames = count_download_frames
  have quota: "consumeBulkQuota sv share w = (Inr (), ?wa)"
    using assms(4) by (simp add: consumeBulkQuota_def bind_io_def js_now_def losing_await [OF assms(1)] ret_def frames prod.case_eq_if)
  have fresh: "fresh sv ?wa = (Inr ?id, ?wb)" by (simp add: fresh_def frames)
  have insert: "await_db sv (\<lambda>w. insert_bulk_job (new_job share ?id request (w_now ?wb * 1000) (w_now w)) w) ?wb = (Inr (), ?wc)"
    using assms(5) by (auto simp: await_db_def bind_io_def losing_await [OF assms(1)] lift_def frames insert_bulk_job_def part_refused_def
        new_job_def same_job_def list_ex_iff)
  have create: "await_db sv (create_instance ?id False) ?wc = (Inl (Failed m), ?wd)"
    using assms(6) by (simp add: await_db_def bind_io_def losing_await [OF assms(1)] frames create_instance_def)
  have failed: "creation_failed sv ?id ?wd = (Inl (Http 503 (bf_message ?failure)), ?we)"
    by (simp add: creation_failed_def Let_def bind_io_def losing_await [OF assms(1)] update_jobs_def raise_def frames cong: if_cong)
  have folder: "requireFolderShareFeature share = Inr ()" using assms(2) by (simp add: requireFolderShareFeature_def)
  have "create_download sv body share w = (Inl (Http 503 (bf_message ?failure)), ?we)"
    using quota fresh insert create failed
    by (simp add: create_download_def folder assms(3) bind_io_def lift_def js_now_def catch_io_def)
  moreover have new: "find_bulk_job ?id ?we = Some (?failed ?job)"
    unfolding find_bulk_job_def by (rule find_new [OF assms(5)]) (simp_all add: new_job_def)
  moreover have "find_bulk_job ?id (snd (mark_running ?id sources ?we)) =
      Some ((?failed ?job)\<lparr>bj_status := Bulk_running, bj_files := int (length sources), bj_total := total_bytes sources, bj_updated := w_now ?we\<rparr>)"
    unfolding mark_running_def by (rule find_updated [OF new]) (simp_all add: new_job_def)
  ultimately show ?thesis by (intro exI conjI) (assumption | simp add: new_job_def)+
qed

theorem lost_creation_runs_failed_job_witness:
  "\<exists>w1 j k. create_download (sample_services (\<lambda>n. if n = 2 then Lost ''timeout'' else Served)) \<lparr>bb_all = True, bb_items = No_items\<rparr>
      (view_of [guest_project] (guest_share\<lparr>ps_object := None\<rparr>)) (bulk_sample (\<lambda>_. None) []) =
      (Inl (Http 503 ''The download could not be queued. Please try again.''), w1) \<and>
    find_bulk_job [117, 0] w1 = Some j \<and> bj_status j = Bulk_failed \<and> ([117, 0], False) \<in> set (bw_instances w1) \<and>
    find_bulk_job [117, 0] (snd (mark_running [117, 0] [] w1)) = Some k \<and> bj_status k = Bulk_running"
proof -
  let ?sv = "sample_services (\<lambda>n. if n = 2 then Lost ''timeout'' else Served) :: bulk_world services"
  let ?w = "bulk_sample (\<lambda>_. None) []" and ?share = "view_of [guest_project] (guest_share\<lparr>ps_object := None\<rparr>)"
  have lost: "losing (w_calls ?w + 2) ''timeout'' ?sv" by (simp add: losing_def sample_services_def bulk_sample_def)
  have share: "\<not> present (ps_object ?share)"
    by (simp add: view_of_def Let_def public_share.defs guest_share_def present_def)
  have body: "validateBulkRequest (pr_lower (sv_paths ?sv)) \<lparr>bb_all = True, bb_items = No_items\<rparr> = Inr \<lparr>rq_all = True, rq_items = []\<rparr>"
    by (simp add: validateBulkRequest_def)
  have quota: "fst (count_download (ps_id ?share) (w_now ?w * 1000 div (60 * 60 * 1000)) ?w) \<noteq> 0"
    by (simp add: count_download_def bulk_sample_def)
  have new: "sv_uuid ?sv (w_minted ?w) = [117, 0]" by (simp add: sample_services_def bulk_sample_def)
  have unused: "\<forall>j \<in> set (bw_jobs ?w). bj_id j \<noteq> sv_uuid ?sv (w_minted ?w)" "sv_uuid ?sv (w_minted ?w) \<notin> fst ` set (bw_instances ?w)"
    by (simp_all add: bulk_sample_def)
  have message: "bf_message (friendlyBulkFailure (Some ''workflow-create-failed'')) = ''The download could not be queued. Please try again.''"
    by (simp add: friendlyBulkFailure_def BULK_FAILURES_def)
  show ?thesis
    using lost_creation_runs_failed_job [OF lost share body quota unused, of "[]"] unfolding new message by blast
qed

end
