(* ===== verification/Retention.thy ===== *)
theory Retention
  imports Bulk_Cleanup
begin

section \<open>Retention of ledgers\<close>

text \<open>
  \<open>apps/operations/src/worker/retention.ts\<close>: once a day the old rows of six ledgers are written to one
  compressed archive each and deleted, one ledger behind a gate that a trigger checks on every row, and
  rows that nobody needs are dropped. The two databases are tables of one world, as no statement uses
  both. A row of a ledger is its identifier, its instant and its text; instants are milliseconds, which
  the statements compare by the second.
\<close>

subsection \<open>Tables\<close>

datatype ledger_table = Share_events | Audit_log | Content_events | Audit_events | Sync_runs | Event_receipts

record ledger_row =
  lg_id :: ustring
  lg_source :: ustring
  lg_time :: int
  lg_text :: ustring

datatype schema_object = Events_table | Control_table | Delete_guard

record file_request =
  fq_expires :: int
  fq_revoked :: "int option"
  fq_reason :: "string option"
  fq_updated :: int

text \<open>
  \<open>rw_gate\<close> is the row of the gate, \<open>rw_schema\<close> what the migration created; \<open>rw_counted\<close> gives the time
  at which a row of the download quota was updated.
\<close>

record retention_world = bulk_world +
  rw_ledger :: "ledger_table \<Rightarrow> ledger_row list"
  rw_gate :: "(int \<times> int option) option"
  rw_schema :: "schema_object list"
  rw_idempotency :: "int list"
  rw_alerts :: "int list"
  rw_counted :: "ustring \<times> int \<Rightarrow> int"
  rw_limits :: "int list"
  rw_contributors :: "(ustring \<times> int) list"
  rw_uploads :: "(ustring \<times> string) list"
  rw_requests :: "file_request list"

text \<open>
  The platform: compression, the day of an instant, and the number of parameters a statement of the
  database may have.
\<close>

record retention_runtime =
  rr_gzip :: "byte list \<Rightarrow> byte list"
  rr_day :: "int \<Rightarrow> ustring"
  rr_bound :: nat

record ArchiveSpec =
  as_database :: string
  as_table :: ledger_table
  as_days :: int
  as_gated :: bool

definition ARCHIVES :: "ArchiveSpec list" where
  "ARCHIVES =
    [\<lparr>as_database = ''delivery'', as_table = Share_events, as_days = 90, as_gated = False\<rparr>,
     \<lparr>as_database = ''delivery'', as_table = Audit_log, as_days = 365, as_gated = False\<rparr>,
     \<lparr>as_database = ''delivery'', as_table = Content_events, as_days = 365, as_gated = True\<rparr>,
     \<lparr>as_database = ''ops'', as_table = Audit_events, as_days = 365, as_gated = False\<rparr>,
     \<lparr>as_database = ''ops'', as_table = Sync_runs, as_days = 90, as_gated = False\<rparr>,
     \<lparr>as_database = ''ops'', as_table = Event_receipts, as_days = 30, as_gated = False\<rparr>]"

fun table_name :: "ledger_table \<Rightarrow> string" where
  "table_name Share_events = ''share_events''"
| "table_name Audit_log = ''audit_log''"
| "table_name Content_events = ''portal_authenticated_content_events''"
| "table_name Audit_events = ''audit_events''"
| "table_name Sync_runs = ''sync_runs''"
| "table_name Event_receipts = ''integration_event_receipts''"

subsection \<open>The gate\<close>

definition guardedRetentionSchemaAvailable ::
  "'x retention_world_scheme services \<Rightarrow> ArchiveSpec \<Rightarrow> ('x retention_world_scheme, bool) io" where
  "guardedRetentionSchemaAvailable sv spec =
     (if \<not> as_gated spec then ret True
      else
        bind_io (await sv (\<lambda>w. (rw_schema w, w))) (\<lambda>names.
        if length names = 0 then ret False
        else if length names \<noteq> 3 then raise (Failed (''Retention schema for '' @ table_name (as_table spec) @ '' is incomplete''))
        else
          bind_io (await sv (\<lambda>w. (rw_gate w, w))) (\<lambda>control.
          if control \<noteq> Some (0, None) then raise (Failed (''Retention gate for '' @ table_name (as_table spec) @ '' is not safely closed''))
          else ret True)))"

definition open_gate :: "int \<Rightarrow> 'x retention_world_scheme \<Rightarrow> 'x retention_world_scheme" where
  "open_gate before w = (if rw_gate w = Some (0, None) then w\<lparr>rw_gate := Some (1, Some before)\<rparr> else w)"

definition close_gate :: "int \<Rightarrow> 'x retention_world_scheme \<Rightarrow> 'x retention_world_scheme" where
  "close_gate before w = (if rw_gate w = Some (1, Some before) then w\<lparr>rw_gate := Some (0, None)\<rparr> else w)"

text \<open>The trigger before a row of the gated ledger is deleted.\<close>

definition guard_refuses :: "'x retention_world_scheme \<Rightarrow> ledger_row \<Rightarrow> bool" where
  "guard_refuses w r \<longleftrightarrow> (case rw_gate w of
     Some (enabled, Some before) \<Rightarrow> enabled \<noteq> 1 \<or> lg_time r div 1000 \<ge> before div 1000 | _ \<Rightarrow> True)"

subsection \<open>Statements\<close>

definition too_many :: fault where "too_many = Failed ''too many SQL variables''"

definition ledger_without :: "ledger_table \<Rightarrow> (ledger_row \<Rightarrow> bool) \<Rightarrow> 'x retention_world_scheme \<Rightarrow> 'x retention_world_scheme" where
  "ledger_without t gone w = w\<lparr>rw_ledger := (rw_ledger w)(t := filter (\<lambda>r. \<not> gone r) (rw_ledger w t))\<rparr>"

definition delete_ids ::
  "retention_runtime \<Rightarrow> ledger_table \<Rightarrow> ustring list \<Rightarrow> 'x retention_world_scheme \<Rightarrow> (fault + nat) \<times> 'x retention_world_scheme" where
  "delete_ids rr t ids w =
     (if length ids > rr_bound rr then (Inl too_many, w)
      else (Inr (length (filter (\<lambda>r. lg_id r \<in> set ids) (rw_ledger w t))), ledger_without t (\<lambda>r. lg_id r \<in> set ids) w))"

definition delete_receipts ::
  "retention_runtime \<Rightarrow> ledger_row list \<Rightarrow> 'x retention_world_scheme \<Rightarrow> (fault + unit) \<times> 'x retention_world_scheme" where
  "delete_receipts rr rows w =
     (if 2 * length rows > rr_bound rr then (Inl too_many, w)
      else (Inr (), ledger_without Event_receipts
        (\<lambda>r. (lg_source r, lg_id r) \<in> (\<lambda>r. (lg_source r, lg_id r)) ` set rows) w))"

definition guard_error :: fault where
  "guard_error = Failed ''authenticated content event deletion requires an expired retention cutoff''"

fun delete_chunks ::
  "retention_runtime \<Rightarrow> ledger_table \<Rightarrow> ustring list list \<Rightarrow> nat \<Rightarrow> 'x retention_world_scheme \<Rightarrow> fault + (nat \<times> 'x retention_world_scheme)" where
  "delete_chunks rr t [] n w = Inr (n, w)"
| "delete_chunks rr t (ids # chunks) n w =
     (if list_ex (\<lambda>r. lg_id r \<in> set ids \<and> guard_refuses w r) (rw_ledger w t) then Inl guard_error
      else case delete_ids rr t ids w of
        (Inl f, _) \<Rightarrow> Inl f
      | (Inr m, w1) \<Rightarrow> delete_chunks rr t chunks (n + m) w1)"

text \<open>The batch is one transaction.\<close>

definition gated_delete ::
  "retention_runtime \<Rightarrow> ledger_table \<Rightarrow> int \<Rightarrow> ustring list \<Rightarrow> 'x retention_world_scheme \<Rightarrow> (fault + nat) \<times> 'x retention_world_scheme" where
  "gated_delete rr t before ids w =
     (case delete_chunks rr t (chunks_of 40 ids) 0 (open_gate before w) of
        Inl f \<Rightarrow> (Inl f, w)
      | Inr (n, w1) \<Rightarrow> (Inr n, close_gate before w1))"

subsection \<open>One ledger\<close>

definition due_rows :: "ledger_table \<Rightarrow> int \<Rightarrow> 'x retention_world_scheme \<Rightarrow> ledger_row list" where
  "due_rows t before w = take 1000 (sort_key lg_time (filter (\<lambda>r. lg_time r div 1000 < before div 1000) (rw_ledger w t)))"

definition jsonl :: "ledger_row list \<Rightarrow> ustring" where
  "jsonl rows = join_with 10 (map lg_text rows) @ [10]"

definition audit_prefix :: ustring where "audit_prefix = ustr ''_ltds/audit-archive/''"

definition archive_key :: "ArchiveSpec \<Rightarrow> ustring \<Rightarrow> ustring \<Rightarrow> ustring" where
  "archive_key spec day uuid = audit_prefix @ ustr (as_database spec) @ 47 # ustr (table_name (as_table spec)) @ 47 # day @ 45 #
     uuid @ ustr ''.jsonl.gz''"

definition archive_meta :: "ArchiveSpec \<Rightarrow> ledger_row list \<Rightarrow> (ustring \<times> ustring) list" where
  "archive_meta spec rows = [(ustr ''table'', ustr (table_name (as_table spec))), (ustr ''rows'', decimal (length rows)),
     (ustr ''retentionDays'', json_int (as_days spec))]"

definition delete_archived ::
  "'x retention_world_scheme services \<Rightarrow> retention_runtime \<Rightarrow> ArchiveSpec \<Rightarrow> int \<Rightarrow> ledger_row list \<Rightarrow>
   ('x retention_world_scheme, nat) io" where
  "delete_archived sv rr spec before rows =
     (if as_table spec = Event_receipts then
        bind_io (for_each (chunks_of 40 rows) (\<lambda>rows. await_db sv (delete_receipts rr rows))) (\<lambda>_. ret (length rows))
      else if as_gated spec then await_db sv (gated_delete rr (as_table spec) before (map lg_id rows))
      else bind_io (await_db sv (delete_ids rr (as_table spec) (map lg_id rows))) (\<lambda>_. ret (length rows)))"

definition archiveSpec ::
  "'x retention_world_scheme services \<Rightarrow> retention_runtime \<Rightarrow> ArchiveSpec \<Rightarrow> ('x retention_world_scheme, nat) io" where
  "archiveSpec sv rr spec =
     bind_io (guardedRetentionSchemaAvailable sv spec) (\<lambda>available.
     if \<not> available then ret 0
     else
       bind_io js_now (\<lambda>now.
       let before = now - as_days spec * 24 * 60 * 60 * 1000 in
       bind_io (await sv (\<lambda>w. (due_rows (as_table spec) before w, w))) (\<lambda>rows.
       if rows = [] then ret 0
       else
         bind_io js_now (\<lambda>today.
         bind_io (fresh sv) (\<lambda>uuid.
         bind_io (await sv (r2_put sv (archive_key spec (rr_day rr today) uuid) (rr_gzip rr (utf8 (jsonl rows))) Unconditional
           [(ustr ''contentType'', ustr ''application/gzip'')] (archive_meta spec rows))) (\<lambda>_.
         delete_archived sv rr spec before rows))))))"

subsection \<open>The run\<close>

definition drop_ops :: "'x retention_world_scheme \<Rightarrow> unit \<times> 'x retention_world_scheme" where
  "drop_ops w = ((), w\<lparr>rw_idempotency := filter (\<lambda>t. \<not> t \<le> w_now w - 7 * 24 * 60 * 60) (rw_idempotency w),
     rw_alerts := filter (\<lambda>t. \<not> t \<le> w_now w - 365 * 24 * 60 * 60) (rw_alerts w)\<rparr>)"

definition open_contributor :: "'x retention_world_scheme \<Rightarrow> ustring \<Rightarrow> bool" where
  "open_contributor w c \<longleftrightarrow> list_ex (\<lambda>(u, status). u = c \<and> status \<noteq> ''accepted'' \<and> status \<noteq> ''expired'') (rw_uploads w)"

definition expire_request :: "int \<Rightarrow> file_request \<Rightarrow> file_request" where
  "expire_request now q = (if fq_revoked q = None \<and> fq_expires q \<le> now
     then q\<lparr>fq_revoked := Some now, fq_reason := Some ''expired'', fq_updated := now\<rparr> else q)"

definition old_contributor :: "'x retention_world_scheme \<Rightarrow> ustring \<times> int \<Rightarrow> bool" where
  "old_contributor w c \<longleftrightarrow> snd c \<le> w_now w - 90 * 24 * 60 * 60 \<and> \<not> open_contributor w (fst c)"

text \<open>The uploads of a contributor go with it, by the foreign key.\<close>

definition drop_contributors :: "'x retention_world_scheme \<Rightarrow> 'x retention_world_scheme" where
  "drop_contributors w = w\<lparr>rw_contributors := filter (\<lambda>c. \<not> old_contributor w c) (rw_contributors w),
     rw_uploads := filter (\<lambda>u. \<not> list_ex (\<lambda>c. fst c = fst u \<and> old_contributor w c) (rw_contributors w)) (rw_uploads w)\<rparr>"

definition drop_delivery :: "'x retention_world_scheme \<Rightarrow> unit \<times> 'x retention_world_scheme" where
  "drop_delivery w =
     (let w1 = w\<lparr>bw_quota := filter (\<lambda>(s, t, n). \<not> rw_counted w (s, t) \<le> w_now w - 7 * 24 * 60 * 60) (bw_quota w)\<rparr>;
          w2 = snd (retire_jobs w1);
          w3 = drop_contributors (w2\<lparr>rw_limits := filter (\<lambda>t. \<not> t \<le> w_now w) (rw_limits w2)\<rparr>) in
      ((), w3\<lparr>rw_requests := map (expire_request (w_now w)) (rw_requests w3)\<rparr>))"

fun archive_each ::
  "'x retention_world_scheme services \<Rightarrow> retention_runtime \<Rightarrow> ArchiveSpec list \<Rightarrow> nat \<Rightarrow> ('x retention_world_scheme, nat) io" where
  "archive_each sv rr [] archived = ret archived"
| "archive_each sv rr (spec # specs) archived = bind_io (archiveSpec sv rr spec) (\<lambda>n. archive_each sv rr specs (archived + n))"

definition runRetention :: "'x retention_world_scheme services \<Rightarrow> retention_runtime \<Rightarrow> ('x retention_world_scheme, nat) io" where
  "runRetention sv rr =
     bind_io (archive_each sv rr ARCHIVES 0) (\<lambda>archived.
     bind_io (await sv drop_ops) (\<lambda>_.
     bind_io (await sv drop_delivery) (\<lambda>_. ret archived)))"

end
