(* ===== verification/Retention_Properties.thy ===== *)
theory Retention_Properties
  imports Retention Trash_Safety Bulk_Kept R2_Alone R2_Samples Share_Properties
begin

section \<open>Properties of retention\<close>

text \<open>
  No row of a ledger is deleted that is not in an archive, whatever call fails; and a ledger with more due
  rows than a statement has parameters is never pruned, and keeps everything after it from being pruned.
\<close>

subsection \<open>The statement\<close>

definition archived_row :: "retention_runtime \<Rightarrow> ledger_row \<Rightarrow> 'x world_scheme \<Rightarrow> bool" where
  "archived_row rr r w \<longleftrightarrow> (\<exists>k obj rows. w_bucket w k = Some obj \<and> starts_with k audit_prefix \<and>
     r2_body obj = rr_gzip rr (utf8 (jsonl rows)) \<and> r \<in> set rows)"

definition archive_end :: "ustring \<Rightarrow> ustring" where
  "archive_end uuid = 45 # uuid @ ustr ''.jsonl.gz''"

text \<open>
  The identifiers that will be minted have not named an archive yet; the rows of a ledger are those it had
  at first, told apart by their identifiers, and each is still there or in an archive.
\<close>

definition unnamed :: "'w services \<Rightarrow> 'x world_scheme \<Rightarrow> bool" where
  "unnamed sv w \<longleftrightarrow> (\<forall>n \<ge> w_minted w. \<forall>k. starts_with k audit_prefix \<longrightarrow> ends_with k (archive_end (sv_uuid sv n)) \<longrightarrow> w_bucket w k = None)"

definition row_key :: "ledger_table \<Rightarrow> ledger_row \<Rightarrow> ustring \<times> ustring" where
  "row_key t r = (if t = Event_receipts then lg_source r else [], lg_id r)"

definition ledgers_kept ::
  "'w services \<Rightarrow> retention_runtime \<Rightarrow> (ledger_table \<Rightarrow> ledger_row list) \<Rightarrow> ledger_row list \<Rightarrow> 'x retention_world_scheme \<Rightarrow> bool" where
  "ledgers_kept sv rr rows0 done_rows w \<longleftrightarrow> unnamed sv w \<and>
     (\<forall>t. inj_on (row_key t) (set (rows0 t)) \<and> set (rw_ledger w t) \<subseteq> set (rows0 t) \<and>
        (\<forall>r \<in> set (rows0 t). r \<in> set (rw_ledger w t) \<or> archived_row rr r w)) \<and>
     (\<forall>r \<in> set done_rows. archived_row rr r w)"

definition uuids_ok :: "'w services \<Rightarrow> bool" where
  "uuids_ok sv \<longleftrightarrow> inj (sv_uuid sv) \<and> (\<forall>m n. length (sv_uuid sv m) = length (sv_uuid sv n))"

lemma kept_calls: "ledgers_kept sv rr rows0 d (w\<lparr>w_calls := n\<rparr>) = ledgers_kept sv rr rows0 d w"
  by (simp add: ledgers_kept_def unnamed_def archived_row_def)

lemma kept_weaken: "ledgers_kept sv rr rows0 d w \<Longrightarrow> ledgers_kept sv rr rows0 [] w"
  by (simp add: ledgers_kept_def)

subsection \<open>Calls\<close>

lemma supports_call:
  assumes "undisturbed sv" and "\<And>w n. P (w\<lparr>w_calls := n\<rparr>) = P w" and "\<And>w. P w \<Longrightarrow> P (snd (call w)) \<and> Q (fst (call w))"
  shows "supports P (await sv call) Q"
  unfolding supports_def
proof (intro allI impI)
  fix w assume "P w"
  then have "P (tick sv w)" using assms(1,2) by (simp add: tick_def undisturbed_def)
  then show "P (snd (await sv call w)) \<and> (\<forall>x. fst (await sv call w) = Inr x \<longrightarrow> Q x)"
    using assms(3) by (simp add: await_cases split: outcome.split)
qed

lemma supports_call_db:
  assumes "undisturbed sv" and "\<And>w n. P (w\<lparr>w_calls := n\<rparr>) = P w" and "\<And>w. P w \<Longrightarrow> P (snd (call w))"
  shows "supports P (await_db sv call) (\<lambda>_. True)"
  unfolding await_db_def
  by (rule supports_then [OF supports_call [OF assms(1,2)]]) (auto intro: assms(3) supports_lift)

lemma kept_without:
  assumes "ledgers_kept sv rr rows0 d w" and "\<And>r. r \<in> set (rw_ledger w t) \<Longrightarrow> gone r \<Longrightarrow> r \<in> set d"
  shows "ledgers_kept sv rr rows0 d (ledger_without t gone w)"
  using assms by (fastforce simp: ledgers_kept_def ledger_without_def unnamed_def archived_row_def)

text \<open>A row that is deleted with an archived one is that row.\<close>

lemma kept_same_row:
  assumes "ledgers_kept sv rr rows0 d w" and "set d \<subseteq> set (rows0 t)" and "r \<in> set (rw_ledger w t)"
    and "row_key t r \<in> row_key t ` set d"
  shows "r \<in> set d"
  using assms unfolding ledgers_kept_def inj_on_def by blast

lemma kept_delete_ids:
  assumes "ledgers_kept sv rr rows0 d w" and "set d \<subseteq> set (rows0 t)" and "t \<noteq> Event_receipts" and "set ids \<subseteq> lg_id ` set d"
  shows "ledgers_kept sv rr rows0 d (snd (delete_ids rr t ids w))"
proof -
  have "r \<in> set d" if "r \<in> set (rw_ledger w t)" "lg_id r \<in> set ids" for r
    by (rule kept_same_row [OF assms(1,2) that(1)]) (use that(2) assms(3,4) in \<open>auto simp: row_key_def\<close>)
  then show ?thesis using assms(1) by (auto simp: delete_ids_def intro: kept_without)
qed

lemma kept_delete_receipts:
  assumes "ledgers_kept sv rr rows0 d w" and "set d \<subseteq> set (rows0 Event_receipts)" and "set rows \<subseteq> set d"
  shows "ledgers_kept sv rr rows0 d (snd (delete_receipts rr rows w))"
proof -
  have "r \<in> set d" if "r \<in> set (rw_ledger w Event_receipts)" "(lg_source r, lg_id r) \<in> (\<lambda>r. (lg_source r, lg_id r)) ` set rows" for r
    by (rule kept_same_row [OF assms(1,2) that(1)]) (use that(2) assms(3) in \<open>auto simp: row_key_def\<close>)
  then show ?thesis using assms(1) unfolding delete_receipts_def by (auto intro: kept_without simp del: image_iff)
qed

lemma kept_gate: "ledgers_kept sv rr rows0 d (w\<lparr>rw_gate := g\<rparr>) = ledgers_kept sv rr rows0 d w"
  by (simp add: ledgers_kept_def unnamed_def archived_row_def)

lemma kept_delete_chunks:
  assumes "set d \<subseteq> set (rows0 t)" and "t \<noteq> Event_receipts"
  shows "delete_chunks rr t chunks n w = Inr (m, w') \<Longrightarrow> ledgers_kept sv rr rows0 d w \<Longrightarrow> \<forall>c \<in> set chunks. set c \<subseteq> lg_id ` set d \<Longrightarrow>
    ledgers_kept sv rr rows0 d w'"
proof (induction chunks arbitrary: n w)
  case (Cons ids chunks)
  obtain k w1 where w1: "delete_ids rr t ids w = (Inr k, w1)" and rest: "delete_chunks rr t chunks (n + k) w1 = Inr (m, w')"
    using Cons.prems(1) by (auto split: if_splits prod.splits sum.splits)
  have "ledgers_kept sv rr rows0 d w1" using kept_delete_ids [OF Cons.prems(2) assms, of ids] Cons.prems(3) w1 by simp
  then show ?case using Cons.IH [OF rest] Cons.prems(3) by simp
qed simp

lemma kept_gated_delete:
  assumes "ledgers_kept sv rr rows0 d w" and "set d \<subseteq> set (rows0 t)" and "t \<noteq> Event_receipts"
  shows "ledgers_kept sv rr rows0 d (snd (gated_delete rr t before (map lg_id d) w))"
proof -
  have chunks: "\<forall>c \<in> set (chunks_of 40 (map lg_id d)). set c \<subseteq> lg_id ` set d"
  proof
    fix c assume "c \<in> set (chunks_of 40 (map lg_id d))"
    then have "set c \<subseteq> set (concat (chunks_of 40 (map lg_id d)))" by auto
    then show "set c \<subseteq> lg_id ` set d" by (simp add: concat_chunks_of)
  qed
  have "ledgers_kept sv rr rows0 d (open_gate before w)" using assms(1) by (simp add: open_gate_def kept_gate)
  from kept_delete_chunks [OF assms(2,3) _ this chunks] have "ledgers_kept sv rr rows0 d w1"
    if "delete_chunks rr t (chunks_of 40 (map lg_id d)) 0 (open_gate before w) = Inr (n, w1)" for n w1
    using that by blast
  then show ?thesis
    using assms(1) by (auto simp: gated_delete_def close_gate_def kept_gate split: sum.split)
qed

text \<open>The archive is stored.\<close>

lemma archive_key_parts:
  "starts_with (archive_key spec day uuid) audit_prefix" "ends_with (archive_key spec day uuid) (archive_end uuid)"
proof -
  show "starts_with (archive_key spec day uuid) audit_prefix" by (simp add: archive_key_def starts_with_def)
  have "ends_with (x @ archive_end uuid) (archive_end uuid)" for x by (simp add: ends_with_def)
  from this [of "audit_prefix @ ustr (as_database spec) @ 47 # ustr (table_name (as_table spec)) @ 47 # day"]
  show "ends_with (archive_key spec day uuid) (archive_end uuid)" by (simp add: archive_key_def archive_end_def)
qed

lemma archive_ends_differ:
  assumes "ends_with k (archive_end u)" and "ends_with k (archive_end v)" and "length u = length v"
  shows "u = v"
proof -
  have "length (archive_end u) = length (archive_end v)" using assms(3) by (simp add: archive_end_def)
  then have "archive_end u = archive_end v" using assms(1,2) by (metis ends_with_def)
  then show ?thesis by (simp add: archive_end_def)
qed

definition minted :: "'w services \<Rightarrow> ustring \<Rightarrow> 'x world_scheme \<Rightarrow> bool" where
  "minted sv uuid w \<longleftrightarrow> (\<exists>n < w_minted w. uuid = sv_uuid sv n) \<and>
     (\<forall>k. starts_with k audit_prefix \<longrightarrow> ends_with k (archive_end uuid) \<longrightarrow> w_bucket w k = None)"

lemma archived_put:
  assumes "archived_row rr r w" and "w_bucket w key = None" and "w_bucket w1 = (w_bucket w)(key \<mapsto> obj)"
  shows "archived_row rr r w1"
  using assms unfolding archived_row_def by (metis fun_upd_other option.distinct(1))

lemma kept_put_archive:
  assumes ids: "uuids_ok sv" and kept: "ledgers_kept sv rr rows0 [] w" and uuid: "minted sv uuid w"
  shows "ledgers_kept sv rr rows0 rows (snd (r2_put sv (archive_key spec day uuid) (rr_gzip rr (utf8 (jsonl rows))) Unconditional http custom w))"
proof -
  let ?k = "archive_key spec day uuid"
  let ?w1 = "snd (r2_put sv ?k (rr_gzip rr (utf8 (jsonl rows))) Unconditional http custom w)"
  note key = archive_key_parts [of spec day uuid]
  have free: "w_bucket w ?k = None" using uuid key by (simp add: minted_def)
  obtain obj where obj: "w_bucket ?w1 = (w_bucket w)(?k \<mapsto> obj)" "r2_body obj = rr_gzip rr (utf8 (jsonl rows))"
    by (simp add: r2_put_def put_allowed_def Let_def)
  have same: "rw_ledger ?w1 = rw_ledger w" and more_ids: "w_minted ?w1 = Suc (w_minted w)"
    by (simp_all add: r2_put_def put_allowed_def Let_def)
  obtain n0 where n0: "n0 < w_minted w" "uuid = sv_uuid sv n0" using uuid by (auto simp: minted_def)
  have "w_bucket ?w1 k = None" if n: "n \<ge> Suc (w_minted w)" and k: "starts_with k audit_prefix" "ends_with k (archive_end (sv_uuid sv n))" for n k
  proof -
    have "k \<noteq> ?k"
    proof
      assume "k = ?k"
      then have "sv_uuid sv n = uuid"
        using archive_ends_differ [OF k(2) [unfolded \<open>k = ?k\<close>] key(2)] ids n0(2) by (simp add: uuids_ok_def)
      then show False using ids n0 n by (auto simp: uuids_ok_def dest: injD)
    qed
    moreover have "w_bucket w k = None" using kept n k unfolding ledgers_kept_def unnamed_def by (metis Suc_leD)
    ultimately show ?thesis by (simp add: obj(1))
  qed
  then have "unnamed sv ?w1" by (simp add: unnamed_def more_ids)
  moreover have "archived_row rr r ?w1" if "r \<in> set rows" for r
    unfolding archived_row_def by (intro exI [of _ ?k] exI [of _ obj] exI [of _ rows]) (simp add: obj key that)
  moreover have "archived_row rr r ?w1" if "archived_row rr r w" for r using archived_put [OF that free obj(1)] .
  ultimately show ?thesis using kept unfolding ledgers_kept_def same by blast
qed

subsection \<open>No row is lost\<close>

lemma chunks_subset: "c \<in> set (chunks_of n xs) \<Longrightarrow> 0 < n \<Longrightarrow> set c \<subseteq> set xs"
proof -
  assume "c \<in> set (chunks_of n xs)" "0 < n"
  then have "set c \<subseteq> set (concat (chunks_of n xs))" by auto
  then show "set c \<subseteq> set xs" using \<open>0 < n\<close> by (simp add: concat_chunks_of)
qed

lemma supports_delete_archived:
  assumes "undisturbed sv" and rows: "set rows \<subseteq> set (rows0 (as_table spec))" and "as_gated spec \<Longrightarrow> as_table spec \<noteq> Event_receipts"
  shows "supports (ledgers_kept sv rr rows0 rows) (delete_archived sv rr spec before rows) (\<lambda>_. True)"
proof -
  note call = supports_call_db [OF assms(1), where P = "ledgers_kept sv rr rows0 rows", OF kept_calls]
  show ?thesis
  proof (cases "as_table spec = Event_receipts")
    case True
    have "supports (ledgers_kept sv rr rows0 rows) (await_db sv (delete_receipts rr part)) (\<lambda>_. True)"
      if "part \<in> set (chunks_of 40 rows)" for part
      by (rule call, rule kept_delete_receipts) (use rows True chunks_subset [OF that] in simp_all)
    then have "supports (ledgers_kept sv rr rows0 rows) (bind_io (for_each (chunks_of 40 rows) (\<lambda>rows. await_db sv (delete_receipts rr rows)))
        (\<lambda>_. ret (length rows))) (\<lambda>_. True)"
      by (intro supports_then [OF supports_for_each] supports_ret) simp_all
    then show ?thesis by (simp add: delete_archived_def True)
  next
    case False
    have "supports (ledgers_kept sv rr rows0 rows) (await_db sv (gated_delete rr (as_table spec) before (map lg_id rows))) (\<lambda>_. True)"
      "supports (ledgers_kept sv rr rows0 rows) (await_db sv (delete_ids rr (as_table spec) (map lg_id rows))) (\<lambda>_. True)"
      by (rule call, rule kept_gated_delete, (use rows False in simp_all)[3], rule call, rule kept_delete_ids, (use rows False in simp_all)[4])
    then show ?thesis using False by (auto simp: delete_archived_def intro: supports_then supports_ret)
  qed
qed

lemma supports_archive:
  assumes still: "undisturbed sv" and ids: "uuids_ok sv" and gate: "as_gated spec \<Longrightarrow> as_table spec \<noteq> Event_receipts"
  shows "supports (ledgers_kept sv rr rows0 []) (archiveSpec sv rr spec) (\<lambda>_. True)"
proof -
  let ?I = "ledgers_kept sv rr rows0 []"
  have reads: "supports ?I (await sv (\<lambda>w. (f w, w))) (\<lambda>_. True)" for f :: "_ \<Rightarrow> 'b"
    by (rule supports_call [OF still kept_calls]) simp
  have available: "supports ?I (guardedRetentionSchemaAvailable sv spec) (\<lambda>_. True)"
    unfolding guardedRetentionSchemaAvailable_def
    by (intro supports_if supports_ret supports_then [OF supports_call [OF still kept_calls]] supports_raise) simp_all
  have due: "supports ?I (await sv (\<lambda>w. (due_rows (as_table spec) before w, w))) (\<lambda>rows. set rows \<subseteq> set (rows0 (as_table spec)))" for before
  proof (rule supports_call [OF still kept_calls])
    fix w :: "'a retention_world_scheme" assume "?I w"
    then have "set (rw_ledger w (as_table spec)) \<subseteq> set (rows0 (as_table spec))" by (simp add: ledgers_kept_def)
    then show "?I (snd (due_rows (as_table spec) before w, w)) \<and> set (fst (due_rows (as_table spec) before w, w)) \<subseteq> set (rows0 (as_table spec))"
      using \<open>?I w\<close> by (auto simp: due_rows_def dest!: in_set_takeD)
  qed
  have store: "supports ?I (bind_io (fresh sv) (\<lambda>uuid.
      bind_io (await sv (r2_put sv (archive_key spec day uuid) (rr_gzip rr (utf8 (jsonl rows))) Unconditional http custom)) (\<lambda>_.
        delete_archived sv rr spec before rows))) (\<lambda>_. True)" if rows: "set rows \<subseteq> set (rows0 (as_table spec))" for day rows http custom before
    unfolding supports_achieves
  proof (rule achieves_bind [where R = "\<lambda>uuid w. ?I w \<and> minted sv uuid w"])
    show "achieves ?I (fresh sv) ?I (\<lambda>uuid w. ?I w \<and> minted sv uuid w)"
      by (rule achieves_fresh) (auto simp: ledgers_kept_def unnamed_def archived_row_def minted_def dest: Suc_leD)
    fix uuid
    let ?put = "r2_put sv (archive_key spec day uuid) (rr_gzip rr (utf8 (jsonl rows))) Unconditional http custom"
    have put: "achieves (\<lambda>w. ?I w \<and> minted sv uuid w) (await sv ?put) ?I (\<lambda>x. ledgers_kept sv rr rows0 rows)"
    proof (rule achieves_await)
      fix w :: "'a retention_world_scheme" assume w: "?I w \<and> minted sv uuid w"
      then have "ledgers_kept sv rr rows0 rows (snd (?put w))" using kept_put_archive [OF ids] by blast
      then show "?I (snd (?put w)) \<and> ledgers_kept sv rr rows0 rows (snd (?put w))" using kept_weaken by blast
    qed (simp_all add: undisturbed_tick [OF still] kept_calls minted_def)
    have tail: "achieves (ledgers_kept sv rr rows0 rows) (delete_archived sv rr spec before rows) ?I (\<lambda>x w. ?I w \<and> True)"
      using supports_delete_archived [where rows = rows and ?rows0.0 = rows0 and spec = spec, OF still rows gate] unfolding supports_achieves
      by (rule achieves_weaken) (auto intro: kept_weaken)
    show "achieves (\<lambda>w. ?I w \<and> minted sv uuid w) (bind_io (await sv ?put) (\<lambda>_. delete_archived sv rr spec before rows)) ?I (\<lambda>x w. ?I w \<and> True)"
      by (rule achieves_bind [OF put tail])
  qed
  show ?thesis
    unfolding archiveSpec_def Let_def
    by (intro supports_then [OF available] supports_if supports_ret supports_then [OF supports_now] supports_bind [OF due] store) simp_all
qed

lemma kept_drop_ops: "ledgers_kept sv rr rows0 d w \<Longrightarrow> ledgers_kept sv rr rows0 d (snd (drop_ops w))"
  by (simp add: drop_ops_def ledgers_kept_def unnamed_def archived_row_def)

lemma kept_drop_delivery: "ledgers_kept sv rr rows0 d w \<Longrightarrow> ledgers_kept sv rr rows0 d (snd (drop_delivery w))"
  by (simp add: drop_delivery_def drop_contributors_def retire_jobs_def Let_def ledgers_kept_def unnamed_def archived_row_def)

lemma supports_archives:
  assumes "undisturbed sv" and "uuids_ok sv"
  shows "\<forall>spec \<in> set specs. as_gated spec \<longrightarrow> as_table spec \<noteq> Event_receipts \<Longrightarrow>
    supports (ledgers_kept sv rr rows0 []) (archive_each sv rr specs n) (\<lambda>_. True)"
  by (induction specs arbitrary: n) (auto intro!: supports_ret supports_then [OF supports_archive [OF assms]])

lemma supports_run:
  assumes "undisturbed sv" and "uuids_ok sv"
  shows "supports (ledgers_kept sv rr rows0 []) (runRetention sv rr) (\<lambda>_. True)"
proof -
  have specs: "\<forall>spec \<in> set ARCHIVES. as_gated spec \<longrightarrow> as_table spec \<noteq> Event_receipts" by (simp add: ARCHIVES_def)
  show ?thesis
    unfolding runRetention_def
    by (intro supports_then [OF supports_archives [OF assms specs]] supports_then [OF supports_call [OF assms(1) kept_calls]] supports_ret)
      (simp_all add: kept_drop_ops kept_drop_delivery)
qed

text \<open>
  C8: No row of a ledger is lost. When nobody else writes, the identifiers drawn are new ones of one
  length, no archive has their names yet, and the rows of a ledger differ in their keys, a run of the
  retention leaves every row of every ledger either in its table or in an archive in the bucket,
  whichever calls fail or lose their answer.
\<close>

theorem retention_loses_no_row:
  fixes w :: "'x retention_world_scheme"
  assumes "undisturbed sv" and "uuids_ok sv" and "unnamed sv w" and "\<And>t. inj_on (row_key t) (set (rw_ledger w t))"
    and "r \<in> set (rw_ledger w t)"
  shows "r \<in> set (rw_ledger (snd (runRetention sv rr w)) t) \<or> archived_row rr r (snd (runRetention sv rr w))"
proof -
  have "ledgers_kept sv rr (rw_ledger w) [] w" using assms(3,4) by (simp add: ledgers_kept_def)
  then have "ledgers_kept sv rr (rw_ledger w) [] (snd (runRetention sv rr w))"
    using supports_run [OF assms(1,2), of rr "rw_ledger w"] by (simp add: supports_def)
  then show ?thesis using assms(5) by (simp add: ledgers_kept_def)
qed

definition retention_sample :: "ledger_row list \<Rightarrow> retention_world" where
  "retention_sample rows = \<lparr>w_bucket = (\<lambda>_. None), w_index = \<lparr>ix_rows = (\<lambda>_. None), ix_revisions = (\<lambda>_. None)\<rparr>, w_locations = [],
     w_recovery = [], w_suppressions = [], w_folders = [], w_outbox = [], w_now = 10000000, w_calls = 0, w_minted = 0, dw_shares = [],
     dw_projects = [], dw_events = [], bw_jobs = [], bw_cache = [], bw_generations = [], bw_checksums = [],
     bw_used = (\<lambda>_. 0), bw_cursors = (\<lambda>_. None), bw_quota = [], bw_uploads = (\<lambda>_. None), bw_instances = [], bw_tombstones = [],
     bw_aliases = [], rw_ledger = (\<lambda>t. if t = Share_events then rows else []), rw_gate = Some (0, None),
     rw_schema = [Events_table, Control_table, Delete_guard], rw_idempotency = [], rw_alerts = [], rw_counted = (\<lambda>_. 0), rw_limits = [],
     rw_contributors = [], rw_uploads = [], rw_requests = []\<rparr>"

definition sample_limits :: retention_runtime where
  "sample_limits = \<lparr>rr_gzip = id, rr_day = (\<lambda>_. [100]), rr_bound = 100\<rparr>"

definition share_event :: "nat \<Rightarrow> ledger_row" where
  "share_event n = \<lparr>lg_id = [n], lg_source = [], lg_time = int n, lg_text = [123, 125]\<rparr>"

theorem retention_loses_no_row_witness:
  "share_event 7 \<in> set (rw_ledger (snd (runRetention (sample_services (\<lambda>n. if n = 2 then Lost ''timeout'' else Served)) sample_limits
      (retention_sample [share_event 7]))) Share_events) \<or>
    archived_row sample_limits (share_event 7) (snd (runRetention (sample_services (\<lambda>n. if n = 2 then Lost ''timeout'' else Served)) sample_limits
      (retention_sample [share_event 7])))"
proof (rule retention_loses_no_row)
  let ?sv = "sample_services (\<lambda>n. if n = 2 then Lost ''timeout'' else Served) :: retention_world services"
  show "undisturbed ?sv" "uuids_ok ?sv" by (simp_all add: undisturbed_def uuids_ok_def sample_services_def inj_def)
  show "unnamed ?sv (retention_sample [share_event 7])" by (simp add: unnamed_def retention_sample_def)
  show "inj_on (row_key t) (set (rw_ledger (retention_sample [share_event 7]) t))" for t
    by (auto simp: retention_sample_def inj_on_def)
  show "share_event 7 \<in> set (rw_ledger (retention_sample [share_event 7]) Share_events)" by (simp add: retention_sample_def)
qed

subsection \<open>A ledger with many due rows\<close>

lemma outputs_fault_db:
  assumes "alone sv" and "\<And>n. call (w\<lparr>w_calls := n\<rparr>) = (Inl f, w\<lparr>w_calls := n\<rparr>)"
  shows "outputs w (await_db sv call) (Inl f) w"
  by (rule outputs_await_db [OF assms])

lemma outputs_store:
  assumes "alone sv"
  shows "\<exists>obj. outputs w (await sv (r2_put sv key body Unconditional http custom)) (Inr (Some obj))
    (w\<lparr>w_bucket := (w_bucket w)(key \<mapsto> obj), w_minted := Suc (w_minted w)\<rparr>)"
proof -
  let ?obj = "\<lparr>r2_key = key, r2_body = body, r2_etag = sv_etag sv body, r2_version = sv_version sv (w_minted w),
     r2_uploaded = w_now w * 1000, r2_http = http, r2_meta = custom\<rparr>"
  have "outputs w (await sv (r2_put sv key body Unconditional http custom)) (Inr (Some ?obj))
      (w\<lparr>w_bucket := (w_bucket w)(key \<mapsto> ?obj), w_minted := Suc (w_minted w)\<rparr>)"
    by (rule outputs_await [OF assms]) (simp add: r2_put_def put_allowed_def Let_def)
  then show ?thesis by blast
qed

text \<open>
  C39: A ledger that fell behind is never pruned again. The rows of a ledger without a gate are deleted by
  one statement with a parameter for each. When more of the oldest ledger are due than a statement may have
  parameters, an undisturbed run stores one more archive of them and fails: no row of any ledger is
  deleted, and nothing else is dropped, run after run.
\<close>

theorem overdue_ledger_stops_retention:
  fixes w :: "'x retention_world_scheme"
  assumes "alone sv" and "rr_bound rr < length (due_rows Share_events ((w_now w - 90 * 24 * 60 * 60) * 1000) w)"
  shows "\<exists>w'. outputs w (runRetention sv rr) (Inl too_many) w' \<and> rw_ledger w' = rw_ledger w \<and> rw_idempotency w' = rw_idempotency w \<and>
    bw_jobs w' = bw_jobs w \<and> rw_requests w' = rw_requests w \<and>
    (\<exists>k obj. w_bucket w' = (w_bucket w)(k \<mapsto> obj) \<and> starts_with k audit_prefix)"
proof -
  let ?spec = "hd ARCHIVES" and ?rows = "due_rows Share_events ((w_now w - 90 * 24 * 60 * 60) * 1000) w"
  let ?w1 = "w\<lparr>w_minted := Suc (w_minted w)\<rparr>" and ?uuid = "sv_uuid sv (w_minted w)"
  let ?key = "archive_key ?spec (rr_day rr (w_now w * 1000)) ?uuid" and ?http = "[(ustr ''contentType'', ustr ''application/gzip'')]"
  let ?put = "r2_put sv ?key (rr_gzip rr (utf8 (jsonl ?rows))) Unconditional ?http (archive_meta ?spec ?rows)"
  have spec: "as_table ?spec = Share_events" "as_gated ?spec = False" "as_days ?spec = 90" by (simp_all add: ARCHIVES_def)
  have first: "ARCHIVES = ?spec # tl ARCHIVES" by (simp add: ARCHIVES_def)
  have read: "outputs w (await sv (\<lambda>w'. (due_rows Share_events (w_now w * 1000 - 90 * 24 * 60 * 60 * 1000) w', w'))) (Inr ?rows) w"
    by (rule outputs_read [OF assms(1)]) (simp add: due_rows_def algebra_simps)
  have some: "?rows \<noteq> []" using assms(2) by auto
  obtain obj where put: "outputs ?w1 (await sv ?put) (Inr (Some obj)) (?w1\<lparr>w_bucket := (w_bucket ?w1)(?key \<mapsto> obj), w_minted := Suc (w_minted ?w1)\<rparr>)"
    using outputs_store [OF assms(1)] by blast
  let ?w2 = "?w1\<lparr>w_bucket := (w_bucket ?w1)(?key \<mapsto> obj), w_minted := Suc (w_minted ?w1)\<rparr>"
  have fails: "outputs ?w2 (delete_archived sv rr ?spec before ?rows) (Inl too_many) ?w2" for before
  proof -
    have "outputs ?w2 (await_db sv (delete_ids rr Share_events (map lg_id ?rows))) (Inl too_many) ?w2"
      by (rule outputs_fault_db [OF assms(1)]) (use assms(2) in \<open>simp add: delete_ids_def\<close>)
    then show ?thesis unfolding delete_archived_def spec by simp (rule outputs_bind_fault)
  qed
  have "outputs w (archiveSpec sv rr ?spec) (Inl too_many) ?w2"
    unfolding archiveSpec_def guardedRetentionSchemaAvailable_def spec Let_def
    by (simp only: not_False_eq_True if_True, rule outputs_bind [OF outputs_ret], simp only: not_True_eq_False if_False,
        rule outputs_bind [OF outputs_now], rule outputs_bind [OF read], simp only: some if_False,
        rule outputs_bind [OF outputs_now], rule outputs_bind [OF outputs_fresh], rule outputs_bind [OF put], rule fails)
  then have "outputs w (runRetention sv rr) (Inl too_many) ?w2"
    unfolding runRetention_def by (subst first) (simp only: archive_each.simps, intro outputs_bind_fault)
  then show ?thesis by (intro exI [of _ ?w2]) (auto simp: archive_key_parts)
qed

theorem overdue_ledger_stops_retention_witness:
  "\<exists>w'. outputs (retention_sample (map share_event [0..<101])) (runRetention (sample_services (\<lambda>_. Served)) sample_limits) (Inl too_many) w' \<and>
    rw_ledger w' Share_events = map share_event [0..<101]"
proof -
  let ?w = "retention_sample (map share_event [0..<101])"
  have one: "alone (sample_services (\<lambda>_. Served))" by (simp add: alone_def sample_services_def)
  have "\<forall>r \<in> set (map share_event [0..<101]). lg_time r div 1000 < (w_now ?w - 90 * 24 * 60 * 60) * 1000 div 1000"
    by (simp add: share_event_def retention_sample_def)
  then have all: "filter (\<lambda>r. lg_time r div 1000 < (w_now ?w - 90 * 24 * 60 * 60) * 1000 div 1000) (map share_event [0..<101]) = map share_event [0..<101]"
    by (rule filter_True)
  have "rw_ledger ?w Share_events = map share_event [0..<101]" by (simp add: retention_sample_def)
  then have due: "length (due_rows Share_events ((w_now ?w - 90 * 24 * 60 * 60) * 1000) ?w) = 101"
    unfolding due_rows_def by (simp only: all) simp
  have "rr_bound sample_limits < length (due_rows Share_events ((w_now ?w - 90 * 24 * 60 * 60) * 1000) ?w)"
    unfolding due by (simp add: sample_limits_def)
  from overdue_ledger_stops_retention [OF one this] show ?thesis by (auto simp: retention_sample_def)
qed

end
