(* ===== verification/Cloud_Jobs.thy ===== *)
theory Cloud_Jobs
  imports Bulk_Workflow
begin

section \<open>Cloud copies: tables and statements\<close>

text \<open>
  The tables of \<open>apps/client/migrations/0094_cloud_transfers.sql\<close> and the operations of
  \<open>apps/client/src/worker/cloud-transfer/repository.ts\<close> and \<open>errors.ts\<close>: a visitor of a share copies a
  selection of its files to an account at Dropbox or Google Drive. A job has one item for each file.
  Times of the database are seconds, \<open>expires_at\<close>, \<open>retry_at\<close> and the expiry of a grant are ISO texts and
  are kept in milliseconds. Columns that are written together only are one field: code and message of
  an error, ciphertext and initialisation vector, and the four columns of a source grant.
\<close>

subsection \<open>Tables\<close>

datatype CloudProvider = Dropbox | Google

datatype ConflictMode = Autorename | Skip

datatype CloudJobStatus =
  Cloud_queued | Cloud_running | Cloud_cancelling | Cloud_completed | Cloud_partial | Cloud_failed | Cloud_cancelled | Cloud_expired

datatype CloudItemStatus =
  Item_queued | Item_running | Item_retrying | Item_completed | Item_failed | Item_cancelled | Item_skipped

record CloudTransferFailure =
  cf_code :: string
  cf_message :: string
  cf_retryable :: bool

type_synonym cloud_error = "string \<times> string"
type_synonym sealed = "ustring \<times> ustring"

record cloud_authorization =
  ca_id :: ustring
  ca_share :: ustring
  ca_version :: int
  ca_provider :: CloudProvider
  ca_credential :: sealed
  ca_key_id :: ustring
  ca_token_expires :: "int option"
  ca_expires :: int
  ca_revoked :: "int option"
  ca_used :: "int option"

record CloudTransferJob =
  cj_id :: ustring
  cj_share :: ustring
  cj_version :: int
  cj_authorization :: ustring
  cj_provider :: CloudProvider
  cj_selection :: ustring
  cj_destination :: ustring
  cj_conflict :: ConflictMode
  cj_status :: CloudJobStatus
  cj_files :: int
  cj_processed_files :: int
  cj_succeeded :: int
  cj_failed :: int
  cj_total :: int
  cj_processed :: int
  cj_cancel :: "int option"
  cj_error :: "cloud_error option"
  cj_updated :: int
  cj_started :: "int option"
  cj_completed :: "int option"
  cj_expires :: int

record source_grant =
  sg_hash :: ustring
  sg_sealed :: sealed
  sg_expires :: int

record CloudTransferItem =
  ci_id :: ustring
  ci_job :: ustring
  ci_ordinal :: nat
  ci_source :: ustring
  ci_path :: ustring
  ci_etag :: ustring
  ci_size :: int
  ci_destination :: ustring
  ci_status :: CloudItemStatus
  ci_attempts :: nat
  ci_uploaded :: int
  ci_file :: "ustring option"
  ci_provider_job :: "ustring option"
  ci_state :: "sealed option"
  ci_grant :: "source_grant option"
  ci_error :: "cloud_error option"
  ci_retry :: "int option"
  ci_updated :: int
  ci_completed :: "int option"

record TransferSource =
  ts_physicalKey :: ustring
  ts_relativePath :: ustring
  ts_destinationPath :: ustring
  ts_size :: int
  ts_etag :: ustring

text \<open>An authorization that was asked for: the hash of its state, and what the job will be made from.\<close>

record oauth_state =
  os_hash :: ustring
  os_provider :: CloudProvider
  os_share :: ustring
  os_version :: int
  os_selection :: ustring
  os_destination :: ustring
  os_conflict :: ConflictMode
  os_pkce :: sealed
  os_key_id :: ustring
  os_expires :: int
  os_consumed :: "int option"

record oauth_secret =
  ot_verifier :: ustring
  ot_nonce :: ustring
  ot_origin :: "ustring option"

text \<open>The state of an upload that is kept between attempts: the session at Dropbox, or its address at Google.\<close>

record upload_state =
  us_provider :: "ustring option"
  us_session :: "ustring option"
  us_url :: "ustring option"

record cloud_tables = bulk_world +
  cw_jobs :: "CloudTransferJob list"
  cw_items :: "CloudTransferItem list"
  cw_authorizations :: "cloud_authorization list"
  cw_oauth :: "oauth_state list"
  cw_instances :: "ustring list"
  cw_hourly :: "(ustring \<times> int \<times> nat) list"

record CloudCredential =
  cc_access :: ustring
  cc_refresh :: "ustring option"
  cc_expires :: "int option"
  cc_scope :: "ustring option"

record cloud_destination =
  cd_path :: "ustring option"
  cd_folder :: "ustring option"

text \<open>
  What the code takes from its platform: AES-GCM under the key derived from a secret with the
  associated data of a purpose, in base64url, with what it opens read as UTF-8; the base64url text of
  SHA-256; \<open>JSON.parse\<close> for the texts that are read, and \<open>JSON.stringify\<close> of a credential.
\<close>

record cloud_runtime =
  cl_seal :: "ustring \<Rightarrow> ustring \<Rightarrow> ustring \<Rightarrow> ustring \<Rightarrow> ustring"
  cl_open :: "ustring \<Rightarrow> ustring \<Rightarrow> ustring \<Rightarrow> ustring \<Rightarrow> ustring option"
  cl_digest :: "ustring \<Rightarrow> ustring"
  cl_credential :: "ustring \<Rightarrow> CloudCredential option"
  cl_credential_text :: "CloudCredential \<Rightarrow> ustring"
  cl_state :: "ustring \<Rightarrow> upload_state option"
  cl_secret :: "ustring \<Rightarrow> oauth_secret option"
  cl_pending :: "ustring \<Rightarrow> bool"
  cl_destination :: "ustring \<Rightarrow> cloud_destination option"

subsection \<open>Reading\<close>

definition find_cloud_job :: "ustring \<Rightarrow> 'x cloud_tables_scheme \<Rightarrow> CloudTransferJob option" where
  "find_cloud_job jobId w = find (\<lambda>j. cj_id j = jobId) (cw_jobs w)"

definition find_cloud_item :: "ustring \<Rightarrow> 'x cloud_tables_scheme \<Rightarrow> CloudTransferItem option" where
  "find_cloud_item itemId w = find (\<lambda>i. ci_id i = itemId) (cw_items w)"

definition getCloudJob :: "'x cloud_tables_scheme services \<Rightarrow> ustring \<Rightarrow> ('x cloud_tables_scheme, CloudTransferJob option) io" where
  "getCloudJob sv jobId = await sv (\<lambda>w. (find_cloud_job jobId w, w))"

definition getAuthorizedCloudJob ::
  "'x cloud_tables_scheme services \<Rightarrow> ustring \<Rightarrow> ustring \<Rightarrow> int \<Rightarrow> ('x cloud_tables_scheme, CloudTransferJob option) io" where
  "getAuthorizedCloudJob sv jobId shareId shareVersion =
     await sv (\<lambda>w. (find (\<lambda>j. cj_id j = jobId \<and> cj_share j = shareId \<and> cj_version j = shareVersion) (cw_jobs w), w))"

definition job_items :: "ustring \<Rightarrow> 'x cloud_tables_scheme \<Rightarrow> CloudTransferItem list" where
  "job_items jobId w = sort_key ci_ordinal (filter (\<lambda>i. ci_job i = jobId) (cw_items w))"

definition listCloudItems ::
  "'x cloud_tables_scheme services \<Rightarrow> ustring \<Rightarrow> ('x cloud_tables_scheme, CloudTransferItem list) io" where
  "listCloudItems sv jobId = await sv (\<lambda>w. (job_items jobId w, w))"

definition pending_job :: "cloud_runtime \<Rightarrow> CloudTransferJob \<Rightarrow> bool" where
  "pending_job cl j \<longleftrightarrow> cj_status j = Cloud_queued \<and> cl_pending cl (cj_destination j)"

definition live_authorization :: "int \<Rightarrow> cloud_authorization \<Rightarrow> bool" where
  "live_authorization now a \<longleftrightarrow> ca_revoked a = None \<and> ca_expires a div 1000 > now"

definition picker_authorization ::
  "cloud_runtime \<Rightarrow> ustring \<Rightarrow> ustring \<Rightarrow> int \<Rightarrow> 'x cloud_tables_scheme \<Rightarrow> cloud_authorization \<Rightarrow> bool" where
  "picker_authorization cl authorizationId shareId shareVersion w a \<longleftrightarrow>
     ca_id a = authorizationId \<and> ca_share a = shareId \<and> ca_version a = shareVersion \<and> ca_provider a = Google \<and>
     live_authorization (w_now w) a \<and> list_ex (\<lambda>j. cj_authorization j = ca_id a \<and> pending_job cl j) (cw_jobs w)"

definition getGooglePickerAuthorization ::
  "'x cloud_tables_scheme services \<Rightarrow> cloud_runtime \<Rightarrow> ustring \<Rightarrow> ustring \<Rightarrow> int \<Rightarrow>
   ('x cloud_tables_scheme, cloud_authorization option) io" where
  "getGooglePickerAuthorization sv cl authorizationId shareId shareVersion =
     await sv (\<lambda>w. (find (picker_authorization cl authorizationId shareId shareVersion w) (cw_authorizations w), w))"

definition url_char :: "nat \<Rightarrow> bool" where
  "url_char c \<longleftrightarrow> (65 \<le> c \<and> c \<le> 90) \<or> (97 \<le> c \<and> c \<le> 122) \<or> (48 \<le> c \<and> c \<le> 57) \<or> c = 95 \<or> c = 45"

definition validGoogleFolderId :: "ustring \<Rightarrow> bool" where
  "validGoogleFolderId s \<longleftrightarrow> list_all url_char s \<and> 1 \<le> length s \<and> length s \<le> 256"

subsection \<open>Writing\<close>

definition write_jobs ::
  "('x cloud_tables_scheme \<Rightarrow> CloudTransferJob \<Rightarrow> bool) \<Rightarrow> (int \<Rightarrow> CloudTransferJob \<Rightarrow> CloudTransferJob) \<Rightarrow>
   'x cloud_tables_scheme \<Rightarrow> nat \<times> 'x cloud_tables_scheme" where
  "write_jobs cond change w = (length (filter (cond w) (cw_jobs w)),
     w\<lparr>cw_jobs := map (\<lambda>j. if cond w j then change (w_now w) j else j) (cw_jobs w)\<rparr>)"

definition write_items ::
  "('x cloud_tables_scheme \<Rightarrow> CloudTransferItem \<Rightarrow> bool) \<Rightarrow> (int \<Rightarrow> CloudTransferItem \<Rightarrow> CloudTransferItem) \<Rightarrow>
   'x cloud_tables_scheme \<Rightarrow> nat \<times> 'x cloud_tables_scheme" where
  "write_items cond change w = (length (filter (cond w) (cw_items w)),
     w\<lparr>cw_items := map (\<lambda>i. if cond w i then change (w_now w) i else i) (cw_items w)\<rparr>)"

definition write_authorizations ::
  "('x cloud_tables_scheme \<Rightarrow> cloud_authorization \<Rightarrow> bool) \<Rightarrow> (int \<Rightarrow> cloud_authorization \<Rightarrow> cloud_authorization) \<Rightarrow>
   'x cloud_tables_scheme \<Rightarrow> nat \<times> 'x cloud_tables_scheme" where
  "write_authorizations cond change w = (length (filter (cond w) (cw_authorizations w)),
     w\<lparr>cw_authorizations := map (\<lambda>a. if cond w a then change (w_now w) a else a) (cw_authorizations w)\<rparr>)"

definition coalesce :: "'a option \<Rightarrow> 'a \<Rightarrow> 'a option" where
  "coalesce old new = (case old of None \<Rightarrow> Some new | Some x \<Rightarrow> Some x)"

definition folder_json :: "ustring \<Rightarrow> ustring" where
  "folder_json folderId = json_object [(ustr ''folderId'', json_string folderId)]"

definition activatePendingGoogleJob ::
  "'x cloud_tables_scheme services \<Rightarrow> cloud_runtime \<Rightarrow> ustring \<Rightarrow> ustring \<Rightarrow> int \<Rightarrow> ustring \<Rightarrow>
   ('x cloud_tables_scheme, CloudTransferJob option) io" where
  "activatePendingGoogleJob sv cl authorizationId shareId shareVersion folderId =
     (if \<not> validGoogleFolderId folderId then ret None
      else
        bind_io (await sv (\<lambda>w. (find (\<lambda>j. cj_authorization j = authorizationId \<and> cj_share j = shareId \<and> cj_version j = shareVersion \<and>
            cj_provider j = Google \<and> pending_job cl j \<and>
            list_ex (\<lambda>a. ca_id a = cj_authorization j \<and> live_authorization (w_now w) a) (cw_authorizations w)) (cw_jobs w), w))) (\<lambda>job.
        case job of
          None \<Rightarrow> ret None
        | Some job \<Rightarrow>
            bind_io (await sv (write_jobs (\<lambda>w j. cj_id j = cj_id job \<and> pending_job cl j)
              (\<lambda>now j. j\<lparr>cj_destination := folder_json folderId, cj_updated := now\<rparr>))) (\<lambda>changes.
            ret (if changes > 0 then Some (job\<lparr>cj_destination := folder_json folderId\<rparr>) else None))))"

text \<open>The rows of a selection: identifier, job and position, and the source are unique, and the job exists.\<close>

definition new_item :: "ustring \<Rightarrow> CloudTransferJob \<Rightarrow> nat \<Rightarrow> TransferSource \<Rightarrow> int \<Rightarrow> CloudTransferItem" where
  "new_item itemId job n source now =
     \<lparr>ci_id = itemId, ci_job = cj_id job, ci_ordinal = n, ci_source = ts_physicalKey source, ci_path = ts_relativePath source,
      ci_etag = ts_etag source, ci_size = ts_size source, ci_destination = ts_destinationPath source, ci_status = Item_queued,
      ci_attempts = 0, ci_uploaded = 0, ci_file = None, ci_provider_job = None, ci_state = None, ci_grant = None, ci_error = None,
      ci_retry = None, ci_updated = now, ci_completed = None\<rparr>"

definition clashes :: "CloudTransferItem \<Rightarrow> CloudTransferItem \<Rightarrow> bool" where
  "clashes i k \<longleftrightarrow> ci_id i = ci_id k \<or> (ci_job i = ci_job k \<and> (ci_ordinal i = ci_ordinal k \<or> ci_source i = ci_source k))"

definition insert_cloud_item :: "CloudTransferItem \<Rightarrow> 'x cloud_tables_scheme \<Rightarrow> fault + 'x cloud_tables_scheme" where
  "insert_cloud_item i w =
     (if list_ex (clashes i) (cw_items w) then Inl (Failed ''UNIQUE constraint failed: cloud_transfer_items'')
      else if find_cloud_job (ci_job i) w = None then Inl (Failed ''FOREIGN KEY constraint failed'')
      else Inr (w\<lparr>cw_items := cw_items w @ [i]\<rparr>))"

fun insert_cloud_items :: "CloudTransferItem list \<Rightarrow> 'x cloud_tables_scheme \<Rightarrow> fault + 'x cloud_tables_scheme" where
  "insert_cloud_items [] w = Inr w"
| "insert_cloud_items (i # is) w = (case insert_cloud_item i w of Inl f \<Rightarrow> Inl f | Inr w1 \<Rightarrow> insert_cloud_items is w1)"

fun number_sources :: "'x world_scheme services \<Rightarrow> nat \<Rightarrow> TransferSource list \<Rightarrow> ('x world_scheme, (ustring \<times> nat \<times> TransferSource) list) io" where
  "number_sources sv n [] = ret []"
| "number_sources sv n (s # ss) =
     bind_io (fresh sv) (\<lambda>itemId. bind_io (number_sources sv (Suc n) ss) (\<lambda>rows. ret ((itemId, n, s) # rows)))"

definition start_job :: "TransferSource list \<Rightarrow> int \<Rightarrow> CloudTransferJob \<Rightarrow> CloudTransferJob" where
  "start_job sources now j = j\<lparr>cj_status := Cloud_running, cj_files := int (length sources), cj_total := (\<Sum>s \<leftarrow> sources. ts_size s),
     cj_processed_files := 0, cj_succeeded := 0, cj_failed := 0, cj_processed := 0,
     cj_started := coalesce (cj_started j) now, cj_updated := now\<rparr>"

definition replace_rows ::
  "CloudTransferJob \<Rightarrow> TransferSource list \<Rightarrow> (ustring \<times> nat \<times> TransferSource) list \<Rightarrow> 'x cloud_tables_scheme \<Rightarrow>
   (fault + unit) \<times> 'x cloud_tables_scheme" where
  "replace_rows job sources rows w =
     (case insert_cloud_items (map (\<lambda>(itemId, n, s). new_item itemId job n s (w_now w)) rows)
         (w\<lparr>cw_items := filter (\<lambda>i. ci_job i \<noteq> cj_id job) (cw_items w)\<rparr>) of
        Inl f \<Rightarrow> (Inl f, w)
      | Inr w1 \<Rightarrow> (Inr (), snd (write_jobs (\<lambda>w j. cj_id j = cj_id job \<and> cj_status j = Cloud_queued) (start_job sources) w1)))"

definition replaceCloudItems ::
  "'x cloud_tables_scheme services \<Rightarrow> CloudTransferJob \<Rightarrow> TransferSource list \<Rightarrow> ('x cloud_tables_scheme, unit) io" where
  "replaceCloudItems sv job sources =
     bind_io (number_sources sv 0 sources) (\<lambda>rows. await_db sv (replace_rows job sources rows))"

definition cancels :: "CloudTransferJob \<Rightarrow> bool" where
  "cancels j \<longleftrightarrow> cj_status j = Cloud_cancelling \<or> cj_status j = Cloud_cancelled \<or> cj_cancel j \<noteq> None"

definition cloudJobCancelled :: "'x cloud_tables_scheme services \<Rightarrow> ustring \<Rightarrow> ('x cloud_tables_scheme, bool) io" where
  "cloudJobCancelled sv jobId =
     await sv (\<lambda>w. (case find_cloud_job jobId w of None \<Rightarrow> True | Some j \<Rightarrow> cancels j, w))"

definition requestCloudCancellation ::
  "'x cloud_tables_scheme services \<Rightarrow> ustring \<Rightarrow> ustring \<Rightarrow> int \<Rightarrow> ('x cloud_tables_scheme, bool) io" where
  "requestCloudCancellation sv jobId shareId shareVersion =
     bind_io (await sv (write_jobs (\<lambda>w j. cj_id j = jobId \<and> cj_share j = shareId \<and> cj_version j = shareVersion \<and>
         cj_status j \<in> {Cloud_queued, Cloud_running, Cloud_cancelling})
       (\<lambda>now j. j\<lparr>cj_status := Cloud_cancelling, cj_cancel := coalesce (cj_cancel j) now, cj_updated := now\<rparr>)))
     (\<lambda>changes. ret (changes > 0))"

subsection \<open>Outcomes of an item\<close>

definition markCloudItemRunning :: "'x cloud_tables_scheme services \<Rightarrow> ustring \<Rightarrow> ('x cloud_tables_scheme, unit) io" where
  "markCloudItemRunning sv itemId =
     bind_io (await sv (write_items (\<lambda>w i. ci_id i = itemId \<and> ci_status i \<in> {Item_queued, Item_retrying})
       (\<lambda>now i. i\<lparr>ci_status := Item_running, ci_attempts := ci_attempts i + 1, ci_error := None, ci_updated := now\<rparr>)))
     (\<lambda>_. ret ())"

record CloudProviderTransferResult =
  tr_skipped :: bool
  tr_file :: "ustring option"
  tr_job :: "ustring option"
  tr_uploaded :: int

definition truthy_text :: "ustring option \<Rightarrow> ustring option" where
  "truthy_text s = (if s = Some [] then None else s)"

definition result_status :: "CloudProviderTransferResult \<Rightarrow> CloudItemStatus" where
  "result_status r = (if tr_skipped r then Item_skipped else Item_completed)"

definition store_result ::
  "CloudTransferItem \<Rightarrow> CloudProviderTransferResult \<Rightarrow> 'x cloud_tables_scheme \<Rightarrow> unit \<times> 'x cloud_tables_scheme" where
  "store_result item r w =
     ((), snd (write_jobs (\<lambda>w j. cj_id j = ci_job item \<and> cj_status j \<in> {Cloud_running, Cloud_cancelling})
         (\<lambda>now j. j\<lparr>cj_processed_files := cj_processed_files j + 1, cj_succeeded := cj_succeeded j + 1,
            cj_processed := min (cj_total j) (cj_processed j + ci_size item), cj_updated := now\<rparr>)
       (snd (write_items (\<lambda>w i. ci_id i = ci_id item)
         (\<lambda>now i. i\<lparr>ci_status := result_status r, ci_uploaded := tr_uploaded r, ci_file := truthy_text (tr_file r),
            ci_provider_job := truthy_text (tr_job r), ci_error := None, ci_state := None, ci_grant := None,
            ci_completed := Some now, ci_updated := now\<rparr>) w))))"

definition markCloudItemResult ::
  "'x cloud_tables_scheme services \<Rightarrow> CloudTransferItem \<Rightarrow> CloudProviderTransferResult \<Rightarrow> ('x cloud_tables_scheme, unit) io" where
  "markCloudItemResult sv item r = await sv (store_result item r)"

definition failed_status :: "CloudTransferItem \<Rightarrow> CloudTransferFailure \<Rightarrow> CloudItemStatus" where
  "failed_status item failure = (if cf_retryable failure \<and> ci_attempts item < 4 then Item_retrying else Item_failed)"

definition store_failure ::
  "CloudTransferItem \<Rightarrow> CloudTransferFailure \<Rightarrow> int \<Rightarrow> 'x cloud_tables_scheme \<Rightarrow> unit \<times> 'x cloud_tables_scheme" where
  "store_failure item failure stamp w =
     (let status = failed_status item failure;
          retryAt = (if status = Item_retrying then Some (stamp + min 300000 (5000 * 2 ^ ci_attempts item)) else None);
          w1 = snd (write_items (\<lambda>w i. ci_id i = ci_id item)
            (\<lambda>now i. i\<lparr>ci_status := status, ci_error := Some (cf_code failure, cf_message failure), ci_retry := retryAt, ci_updated := now\<rparr>) w) in
      ((), if status = Item_failed
           then snd (write_jobs (\<lambda>w j. cj_id j = ci_job item \<and> cj_status j \<in> {Cloud_running, Cloud_cancelling})
             (\<lambda>now j. j\<lparr>cj_processed_files := cj_processed_files j + 1, cj_failed := cj_failed j + 1, cj_updated := now\<rparr>) w1)
           else w1))"

definition markCloudItemFailure ::
  "'x cloud_tables_scheme services \<Rightarrow> CloudTransferItem \<Rightarrow> CloudTransferFailure \<Rightarrow> ('x cloud_tables_scheme, unit) io" where
  "markCloudItemFailure sv item failure = bind_io js_now (\<lambda>stamp. await sv (store_failure item failure stamp))"

subsection \<open>Retrying and ending a job\<close>

definition retryFailedCloudItems ::
  "'x cloud_tables_scheme services \<Rightarrow> ustring \<Rightarrow> ustring \<Rightarrow> int \<Rightarrow> ('x cloud_tables_scheme, nat) io" where
  "retryFailedCloudItems sv jobId shareId shareVersion =
     bind_io (getAuthorizedCloudJob sv jobId shareId shareVersion) (\<lambda>job.
     if \<not> (case job of None \<Rightarrow> False | Some j \<Rightarrow> cj_status j \<in> {Cloud_partial, Cloud_failed}) then ret 0
     else
       bind_io (await sv (write_items (\<lambda>w i. ci_job i = jobId \<and> ci_status i = Item_failed)
         (\<lambda>now i. i\<lparr>ci_status := Item_retrying, ci_attempts := 0, ci_retry := None, ci_error := None, ci_updated := now\<rparr>))) (\<lambda>changes.
       bind_io (if changes > 0
         then bind_io (await sv (write_jobs (\<lambda>w j. cj_id j = jobId)
           (\<lambda>now j. j\<lparr>cj_status := Cloud_running, cj_processed_files := cj_succeeded j, cj_failed := 0, cj_error := None,
              cj_completed := None, cj_updated := now\<rparr>))) (\<lambda>_. ret ())
         else ret ()) (\<lambda>_. ret changes)))"

definition final_status :: "bool \<Rightarrow> CloudTransferJob \<Rightarrow> CloudJobStatus" where
  "final_status cancelled job =
     (if cancelled then Cloud_cancelled
      else if cj_failed job > 0 then (if cj_succeeded job > 0 then Cloud_partial else Cloud_failed)
      else Cloud_completed)"

definition unsettled :: "CloudTransferItem \<Rightarrow> bool" where
  "unsettled i \<longleftrightarrow> ci_status i \<in> {Item_queued, Item_running, Item_retrying}"

definition cancelled_error :: cloud_error where
  "cancelled_error = (''cancelled'', ''The remaining files were cancelled.'')"

definition drop_item :: "int \<Rightarrow> CloudTransferItem \<Rightarrow> CloudTransferItem" where
  "drop_item now i = i\<lparr>ci_status := Item_cancelled, ci_error := Some cancelled_error, ci_state := None, ci_grant := None, ci_updated := now\<rparr>"

definition erase_authorization :: "int \<Rightarrow> cloud_authorization \<Rightarrow> cloud_authorization" where
  "erase_authorization now a = a\<lparr>ca_credential := ([], []), ca_revoked := coalesce (ca_revoked a) now\<rparr>"

definition settled_count :: "ustring \<Rightarrow> 'x cloud_tables_scheme \<Rightarrow> int" where
  "settled_count jobId w = int (length (filter (\<lambda>i. ci_job i = jobId \<and>
     ci_status i \<in> {Item_completed, Item_skipped, Item_failed, Item_cancelled}) (cw_items w)))"

definition end_job :: "ustring \<Rightarrow> CloudJobStatus \<Rightarrow> 'x cloud_tables_scheme \<Rightarrow> unit \<times> 'x cloud_tables_scheme" where
  "end_job jobId status w =
     (let w1 = snd (write_items (\<lambda>w i. ci_job i = jobId \<and> unsettled i) drop_item w);
          w2 = snd (write_jobs (\<lambda>w j. cj_id j = jobId \<and> cj_status j \<in> {Cloud_queued, Cloud_running, Cloud_cancelling})
            (\<lambda>now j. j\<lparr>cj_status := status, cj_processed_files := settled_count jobId w1, cj_completed := Some now, cj_updated := now\<rparr>) w1) in
      ((), if status \<in> {Cloud_completed, Cloud_cancelled}
           then snd (write_authorizations (\<lambda>w a. Some (ca_id a) = map_option cj_authorization (find_cloud_job jobId w)) erase_authorization w2)
           else w2))"

definition finalizeCloudJob :: "'x cloud_tables_scheme services \<Rightarrow> ustring \<Rightarrow> ('x cloud_tables_scheme, CloudTransferJob option) io" where
  "finalizeCloudJob sv jobId =
     bind_io (getCloudJob sv jobId) (\<lambda>job.
     case job of
       None \<Rightarrow> ret None
     | Some job \<Rightarrow>
         bind_io (cloudJobCancelled sv jobId) (\<lambda>cancelled.
         bind_io (await sv (end_job jobId (final_status cancelled job))) (\<lambda>_.
         getCloudJob sv jobId)))"

section \<open>Cloud copies: failures, secrets and source grants\<close>

text \<open>
  \<open>errors.ts\<close> and \<open>grants.ts\<close> of \<open>apps/client/src/worker/cloud-transfer\<close>: the public code of a failure,
  found by the patterns that its message matches_any; the encryption of credentials and upload states under
  the current or the previous secret; and the grant that lets a provider read one source. The table
  of failures is a JavaScript object, so a message that names a member of \<open>Object.prototype\<close> is outside
  the model.
\<close>

subsection \<open>Failures\<close>

definition FAILURES :: "(string \<times> CloudTransferFailure) list" where
  "FAILURES = map (\<lambda>(c, m, r). (c, \<lparr>cf_code = c, cf_message = m, cf_retryable = r\<rparr>))
    [(''authorization-required'', ''Connect your cloud account to continue.'', False),
     (''authorization-expired'', ''Your cloud authorization expired. Connect your account again.'', False),
     (''share-revoked'', ''This delivery is no longer available.'', False),
     (''empty-selection'', ''No transferable files were found.'', False),
     (''file-limit'', ''This delivery contains too many files. Choose a smaller selection.'', False),
     (''byte-limit'', ''This delivery is too large to copy in one job. Choose a smaller selection.'', False),
     (''source-changed'', ''The source file changed while it was being copied. Start a new transfer.'', False),
     (''source-missing'', ''The source file is no longer available.'', False),
     (''provider-rate-limited'', ''The cloud provider is busy. The transfer will retry automatically.'', True),
     (''provider-unavailable'', ''The cloud provider is temporarily unavailable.'', True),
     (''provider-quota'', ''The destination account does not have enough available storage.'', False),
     (''destination-unavailable'', ''The selected destination is no longer available.'', False),
     (''cancelled'', ''The remaining files were cancelled.'', False),
     (''transfer-failed'', ''The file could not be copied. Please try again.'', True)]"

definition known_failure :: "string \<Rightarrow> CloudTransferFailure" where
  "known_failure code = the (map_of FAILURES code)"

definition friendlyCloudFailure :: "string option \<Rightarrow> CloudTransferFailure" where
  "friendlyCloudFailure code =
     (case Option.bind code (map_of FAILURES) of Some f \<Rightarrow> f | None \<Rightarrow> known_failure ''transfer-failed'')"

text \<open>
  The regular expressions of the classification: letters without regard to case, any character, a
  digit, at most one character, any number of characters. A pattern is searched at every position.
\<close>

datatype rx_atom = Letter nat | Any_char | Digit_char | Maybe_char | Any_chars

definition lower_char :: "nat \<Rightarrow> nat" where
  "lower_char c = (if 65 \<le> c \<and> c \<le> 90 then c + 32 else c)"

definition line_char :: "nat \<Rightarrow> bool" where
  "line_char c \<longleftrightarrow> c \<notin> {0x0A, 0x0D, 0x2028, 0x2029}"

fun rx_here :: "rx_atom list \<Rightarrow> ustring \<Rightarrow> bool" where
  "rx_here [] s = True"
| "rx_here (Letter c # r) s = (case s of [] \<Rightarrow> False | x # t \<Rightarrow> lower_char x = c \<and> rx_here r t)"
| "rx_here (Any_char # r) s = (case s of [] \<Rightarrow> False | x # t \<Rightarrow> line_char x \<and> rx_here r t)"
| "rx_here (Digit_char # r) s = (case s of [] \<Rightarrow> False | x # t \<Rightarrow> 48 \<le> x \<and> x \<le> 57 \<and> rx_here r t)"
| "rx_here (Maybe_char # r) s = (rx_here r s \<or> (case s of [] \<Rightarrow> False | x # t \<Rightarrow> line_char x \<and> rx_here r t))"
| "rx_here (Any_chars # r) s = (rx_here r s \<or> (case s of [] \<Rightarrow> False | x # t \<Rightarrow> line_char x \<and> rx_here (Any_chars # r) t))"

fun rx_search :: "rx_atom list \<Rightarrow> ustring \<Rightarrow> bool" where
  "rx_search r [] = rx_here r []"
| "rx_search r (c # s) = (rx_here r (c # s) \<or> rx_search r s)"

definition letters :: "string \<Rightarrow> rx_atom list" where
  "letters s = map Letter (ustr s)"

definition matches_any :: "rx_atom list list \<Rightarrow> ustring \<Rightarrow> bool" where
  "matches_any rs s \<longleftrightarrow> list_ex (\<lambda>r. rx_search r s) rs"

definition classifyCloudFailure :: "string \<Rightarrow> CloudTransferFailure" where
  "classifyCloudFailure raw = (case map_of FAILURES raw of
     Some f \<Rightarrow> f
   | None \<Rightarrow> known_failure
      (if matches_any [letters ''etag'', letters ''precondition'', letters ''source'' @ [Any_char] @ letters ''changed''] (ustr raw)
       then ''source-changed''
       else if matches_any [letters ''not'' @ [Any_char] @ letters ''found'', letters ''source'' @ [Any_char] @ letters ''missing''] (ustr raw)
       then ''source-missing''
       else if matches_any [letters ''429'', letters ''rate'' @ [Maybe_char] @ letters ''limit'', letters ''retry'' @ [Any_char] @ letters ''after''] (ustr raw)
       then ''provider-rate-limited''
       else if matches_any [letters ''quota'', letters ''insufficient'' @ [Any_char] @ letters ''storage''] (ustr raw)
       then ''provider-quota''
       else if matches_any [letters ''destination'', letters ''folder'' @ [Any_chars] @ letters ''not'' @ [Any_char] @ letters ''found''] (ustr raw)
       then ''destination-unavailable''
       else if matches_any [letters ''401'', letters ''invalid'' @ [Any_char] @ letters ''grant'', letters ''expired'' @ [Any_chars] @ letters ''token'',
           letters ''authorization''] (ustr raw)
       then ''authorization-expired''
       else if matches_any [letters ''5'' @ [Digit_char, Digit_char], letters ''temporar'', letters ''unavailable'', letters ''network''] (ustr raw)
       then ''provider-unavailable''
       else ''transfer-failed''))"

subsection \<open>Secrets\<close>

record cloud_env =
  ce_secret :: ustring
  ce_previous :: "ustring option"
  ce_key_id :: "ustring option"
  ce_previous_id :: "ustring option"

definition SECRET_TOO_SHORT :: fault where
  "SECRET_TOO_SHORT = Failed ''CLOUD_TRANSFER_TOKEN_SECRET must contain at least 32 characters''"

definition encryptCloudSecret ::
  "'x world_scheme services \<Rightarrow> cloud_runtime \<Rightarrow> ustring \<Rightarrow> ustring \<Rightarrow> ustring \<Rightarrow> ('x world_scheme, sealed) io" where
  "encryptCloudSecret sv cl plaintext secret purpose =
     bind_io (fresh sv) (\<lambda>iv.
     if js_length secret < 32 then raise SECRET_TOO_SHORT else ret (cl_seal cl secret iv purpose plaintext, iv))"

definition EXPIRED :: fault where "EXPIRED = Failed ''authorization-expired''"

definition decryptCloudSecret ::
  "cloud_runtime \<Rightarrow> (ustring \<Rightarrow> 'a option) \<Rightarrow> sealed \<Rightarrow> ustring \<Rightarrow> ustring \<Rightarrow> fault + 'a" where
  "decryptCloudSecret cl parse sealed secret purpose =
     (if js_length secret < 32 then Inl EXPIRED
      else case Option.bind (cl_open cl secret (snd sealed) purpose (fst sealed)) parse of Some x \<Rightarrow> Inr x | None \<Rightarrow> Inl EXPIRED)"

definition current_key_id :: "cloud_env \<Rightarrow> ustring" where
  "current_key_id env = (case truthy_text (ce_key_id env) of Some k \<Rightarrow> k | None \<Rightarrow> ustr ''v1'')"

definition decryptWithRotation ::
  "cloud_runtime \<Rightarrow> (ustring \<Rightarrow> 'a option) \<Rightarrow> sealed \<Rightarrow> ustring \<Rightarrow> cloud_env \<Rightarrow> ustring \<Rightarrow> fault + 'a" where
  "decryptWithRotation cl parse sealed keyId env purpose =
     (if keyId = current_key_id env then decryptCloudSecret cl parse sealed (ce_secret env) purpose
      else case truthy_text (ce_previous env) of
        Some previous \<Rightarrow> if Some keyId = ce_previous_id env then decryptCloudSecret cl parse sealed previous purpose else Inl EXPIRED
      | None \<Rightarrow> Inl EXPIRED)"

definition authorization_purpose :: "ustring \<Rightarrow> CloudProvider \<Rightarrow> ustring" where
  "authorization_purpose authorizationId provider =
     ustr ''authorization:'' @ authorizationId @ 58 # (case provider of Dropbox \<Rightarrow> ustr ''dropbox'' | Google \<Rightarrow> ustr ''google'')"

subsection \<open>Source grants\<close>

definition grant_json :: "CloudTransferItem \<Rightarrow> ustring" where
  "grant_json item = json_object
     [(ustr ''itemId'', json_string (ci_id item)), (ustr ''jobId'', json_string (ci_job item)),
      (ustr ''key'', json_string (ci_source item)), (ustr ''etag'', json_string (ci_etag item))]"

definition grant_expiry :: "int \<Rightarrow> int \<Rightarrow> int" where
  "grant_expiry now ttlSeconds = now + min 1800 (max 60 ttlSeconds) * 1000"

definition createSourceGrant ::
  "'x cloud_tables_scheme services \<Rightarrow> cloud_runtime \<Rightarrow> cloud_env \<Rightarrow> CloudTransferItem \<Rightarrow> int \<Rightarrow>
   ('x cloud_tables_scheme, ustring \<times> int) io" where
  "createSourceGrant sv cl env item ttlSeconds =
     bind_io (fresh sv) (\<lambda>token.
     bind_io js_now (\<lambda>now.
     bind_io (encryptCloudSecret sv cl (grant_json item) (ce_secret env) (ustr ''source-grant:'' @ ci_id item)) (\<lambda>encrypted.
     bind_io (await sv (write_items (\<lambda>w i. ci_id i = ci_id item \<and> ci_job i = ci_job item)
       (\<lambda>second i. i\<lparr>ci_grant := Some \<lparr>sg_hash = cl_digest cl token, sg_sealed = encrypted, sg_expires = grant_expiry now ttlSeconds\<rparr>,
          ci_updated := second\<rparr>))) (\<lambda>_.
     ret (token, grant_expiry now ttlSeconds)))))"

definition grant_token :: "ustring \<Rightarrow> bool" where
  "grant_token token \<longleftrightarrow> list_all url_char token \<and> length token \<ge> 40"

definition share_serves :: "'x cloud_tables_scheme \<Rightarrow> int \<Rightarrow> CloudTransferJob \<Rightarrow> bool" where
  "share_serves w now j \<longleftrightarrow> list_ex (\<lambda>s. ps_id s = cj_share j \<and> ps_version s = cj_version j \<and> ps_revoked s = None \<and>
     active_project w s \<and> unexpired now s) (dw_shares w)"

definition granted :: "'x cloud_tables_scheme \<Rightarrow> ustring \<Rightarrow> int \<Rightarrow> CloudTransferItem \<Rightarrow> bool" where
  "granted w hash now i \<longleftrightarrow>
     (case ci_grant i of None \<Rightarrow> False | Some g \<Rightarrow> sg_hash g = hash \<and> sg_expires g div 1000 > now div 1000) \<and> unsettled i \<and>
     list_ex (\<lambda>j. cj_id j = ci_job i \<and> cj_status j \<in> {Cloud_queued, Cloud_running} \<and> share_serves w (now div 1000) j) (cw_jobs w)"

definition validateSourceGrant ::
  "'x cloud_tables_scheme services \<Rightarrow> cloud_runtime \<Rightarrow> ustring \<Rightarrow> int \<Rightarrow>
   ('x cloud_tables_scheme, CloudTransferItem \<times> r2_object) io" where
  "validateSourceGrant sv cl token now =
     (if \<not> grant_token token then raise (Failed ''source-grant-invalid'')
      else
        bind_io (await sv (\<lambda>w. (find (granted w (cl_digest cl token) now) (cw_items w), w))) (\<lambda>found.
        case found of
          None \<Rightarrow> raise (Failed ''source-grant-invalid'')
        | Some item \<Rightarrow>
            bind_io (await sv (r2_head (ci_source item))) (\<lambda>head.
            case head of
              None \<Rightarrow> raise (Failed ''source-missing'')
            | Some obj \<Rightarrow>
                if moved_marker obj then raise (Failed ''source-missing'')
                else if r2_etag obj \<noteq> ci_etag item \<or> int (length (r2_body obj)) \<noteq> ci_size item then raise (Failed ''source-changed'')
                else ret (item, obj))))"

definition ranged :: "(nat \<times> nat) option \<Rightarrow> byte list \<Rightarrow> byte list" where
  "ranged part_of bytes = (case part_of of None \<Rightarrow> bytes | Some (off, n) \<Rightarrow> subrange off n bytes)"

definition readGrantedSource ::
  "'x cloud_tables_scheme services \<Rightarrow> cloud_runtime \<Rightarrow> ustring \<Rightarrow> (nat \<times> nat) option \<Rightarrow>
   ('x cloud_tables_scheme, r2_object \<times> byte list) io" where
  "readGrantedSource sv cl token part_of =
     bind_io js_now (\<lambda>now.
     bind_io (validateSourceGrant sv cl token now) (\<lambda>(item, checked).
     bind_io (await sv (r2_get (ci_source item) (Etag_matches (ci_etag item)))) (\<lambda>found.
     case found of Body obj \<Rightarrow> ret (obj, ranged part_of (r2_body obj)) | _ \<Rightarrow> raise (Failed ''source-changed''))))"

end
