(* ===== verification/Cloud_Providers.thy ===== *)
theory Cloud_Providers
  imports Cloud_Jobs
begin

section \<open>Cloud copies: the clients of the providers\<close>

text \<open>
  \<open>provider.ts\<close>, \<open>dropbox.ts\<close> and \<open>google-drive.ts\<close> of
  \<open>apps/client/src/worker/cloud-transfer/providers\<close>, with the token requests of \<open>oauth.ts\<close>. A provider is
  a parameter: a function from the calls it has served and the next call to its response, so the
  history of calls is its state. A call carries the values that the client puts into address, header
  and body; the response has a status, the parsed body when there is one, and the headers that are
  read. A connection that fails is an awaited call that is refused, or that loses its answer. Numbers
  in a body are integers; \<open>Retry-After\<close> is not modelled, since nothing reads the field it sets.
\<close>

subsection \<open>Calls and responses\<close>

datatype json = Json_null | Json_bool bool | Json_number int | Json_text ustring | Json_list "json list" | Json_record "(ustring \<times> json) list"

record provider_response =
  hr_status :: nat
  hr_body :: "json option"
  hr_range :: "ustring option"
  hr_location :: "ustring option"

datatype provider_call =
    Dropbox_create_folder ustring
  | Dropbox_metadata ustring
  | Dropbox_save_url ustring ustring
  | Dropbox_save_status ustring
  | Dropbox_start "byte list"
  | Dropbox_append "ustring option" int "byte list" bool
  | Dropbox_finish "ustring option" int ustring "byte list" bool
  | Dropbox_revoke
  | Drive_create_folder ustring ustring ustring
  | Drive_find ustring ustring
  | Drive_start ustring ustring ustring int ustring
  | Drive_chunk ustring int int "byte list"
  | Drive_status ustring int
  | Token_exchange CloudProvider ustring ustring ustring
  | Token_refresh CloudProvider ustring

type_synonym served_call = "ustring \<times> provider_call"
type_synonym provider = "served_call list \<Rightarrow> served_call \<Rightarrow> provider_response"

record cloud_world = cloud_tables +
  cw_served :: "served_call list"

definition provider_serve :: "provider \<Rightarrow> served_call \<Rightarrow> 'x cloud_world_scheme \<Rightarrow> provider_response \<times> 'x cloud_world_scheme" where
  "provider_serve pv call w = (pv (cw_served w) call, w\<lparr>cw_served := cw_served w @ [call]\<rparr>)"

text \<open>Fields of a body; a field of \<open>null\<close> is a type error.\<close>

definition record_field :: "json \<Rightarrow> string \<Rightarrow> json option" where
  "record_field v name = (case v of Json_record fs \<Rightarrow> map_of fs (ustr name) | _ \<Rightarrow> None)"

definition as_text :: "json option \<Rightarrow> ustring option" where
  "as_text v = (case v of Some (Json_text s) \<Rightarrow> Some s | _ \<Rightarrow> None)"

definition read_field :: "json \<Rightarrow> string \<Rightarrow> fault + json option" where
  "read_field v name = (if v = Json_null then Inl (Failed ''Cannot read properties of null'') else Inr (record_field v name))"

subsection \<open>Requests\<close>

record ProviderHttpError =
  he_operation :: string
  he_status :: nat
  he_retryable :: bool
  he_code :: "ustring option"
  he_offset :: "int option"

definition given :: "json option \<Rightarrow> json option" where
  "given v = (if v = Some Json_null then None else v)"

definition first_given :: "json option list \<Rightarrow> json option" where
  "first_given vs = (case filter (\<lambda>v. given v \<noteq> None) vs of [] \<Rightarrow> None | v # _ \<Rightarrow> v)"

definition providerCode :: "json option \<Rightarrow> ustring option" where
  "providerCode body =
     (case body of
        Some (Json_record fs) \<Rightarrow>
          (case first_given (map (\<lambda>n. map_of fs (ustr n)) [''error_summary'', ''error'', ''reason'']) of
             Some (Json_text s) \<Rightarrow> Some (take 120 s)
           | Some v \<Rightarrow> map_option (take 120) (as_text (record_field v ''.tag''))
           | None \<Rightarrow> None)
      | _ \<Rightarrow> None)"

definition offset_number :: "json option \<Rightarrow> int option" where
  "offset_number v = (case v of Some (Json_number n) \<Rightarrow> if is_safe_integer n \<and> 0 \<le> n then Some n else None | _ \<Rightarrow> None)"

definition providerCorrectOffset :: "json option \<Rightarrow> int option" where
  "providerCorrectOffset body =
     (case body of
        None \<Rightarrow> None
      | Some record \<Rightarrow>
          let error = record_field record ''error''; reason = Option.bind error (\<lambda>e. record_field e ''reason'');
              found = filter (\<lambda>n. n \<noteq> None) (map (\<lambda>v. offset_number (Option.bind v (\<lambda>r. record_field r ''correct_offset'')))
                [Some record, error, reason]) in
          (case found of [] \<Rightarrow> None | n # _ \<Rightarrow> n))"

text \<open>A request of a client: its outcome is a value or a \<open>ProviderHttpError\<close>, apart from other faults.\<close>

type_synonym ('w, 'a) http = "('w, ProviderHttpError + 'a) io"

definition then_http :: "('w, 'a) http \<Rightarrow> ('a \<Rightarrow> ('w, 'b) http) \<Rightarrow> ('w, 'b) http" where
  "then_http m k = bind_io m (\<lambda>r. case r of Inl e \<Rightarrow> ret (Inl e) | Inr x \<Rightarrow> k x)"

definition status_error :: "string \<Rightarrow> provider_response \<Rightarrow> ProviderHttpError" where
  "status_error operation r = \<lparr>he_operation = operation, he_status = hr_status r,
     he_retryable = (hr_status r = 408 \<or> hr_status r = 409 \<or> hr_status r = 429 \<or> hr_status r \<ge> 500),
     he_code = providerCode (hr_body r), he_offset = providerCorrectOffset (hr_body r)\<rparr>"

definition providerFetch ::
  "'x cloud_world_scheme services \<Rightarrow> provider \<Rightarrow> ustring \<Rightarrow> provider_call \<Rightarrow> nat set \<Rightarrow> string \<Rightarrow>
   ('x cloud_world_scheme, provider_response) http" where
  "providerFetch sv pv token call accepted operation =
     catch_io
       (bind_io (await sv (provider_serve pv (token, call))) (\<lambda>r.
          ret (if hr_status r \<in> accepted then Inr r else Inl (status_error operation r))))
       (\<lambda>_. ret (Inl \<lparr>he_operation = operation, he_status = 0, he_retryable = True, he_code = None, he_offset = None\<rparr>))"

definition responseJson :: "provider_response \<Rightarrow> string \<Rightarrow> ProviderHttpError + json" where
  "responseJson r operation = (case hr_body r of
     Some v \<Rightarrow> Inr v
   | None \<Rightarrow> Inl \<lparr>he_operation = operation, he_status = hr_status r, he_retryable = False,
       he_code = Some (ustr ''invalid-response''), he_offset = None\<rparr>)"

definition http_json ::
  "'x cloud_world_scheme services \<Rightarrow> provider \<Rightarrow> ustring \<Rightarrow> provider_call \<Rightarrow> string \<Rightarrow> ('x cloud_world_scheme, json) http" where
  "http_json sv pv token call operation =
     then_http (providerFetch sv pv token call {200} operation) (\<lambda>r. ret (responseJson r operation))"

text \<open>\<open>throw\<close>: the message of a \<open>ProviderHttpError\<close>.\<close>

definition digits_of :: "nat \<Rightarrow> string" where
  "digits_of n = map char_of (decimal n)"

definition http_message :: "ProviderHttpError \<Rightarrow> string" where
  "http_message e = he_operation e @ '' failed ('' @ digits_of (he_status e) @ '')''"

definition demand :: "('w, 'a) http \<Rightarrow> ('w, 'a) io" where
  "demand m = bind_io m (\<lambda>r. case r of Inl e \<Rightarrow> raise (Failed (http_message e)) | Inr x \<Rightarrow> ret x)"

subsection \<open>Dropbox\<close>

definition parsed :: "(json \<Rightarrow> fault + 'a) \<Rightarrow> json \<Rightarrow> ('w, 'a) http" where
  "parsed read v = bind_io (lift (read v)) (\<lambda>x. ret (Inr x))"

definition text_field :: "string \<Rightarrow> json \<Rightarrow> fault + ustring option" where
  "text_field name v = (case read_field v name of Inl f \<Rightarrow> Inl f | Inr x \<Rightarrow> Inr (as_text x))"

definition inner_text :: "string \<Rightarrow> string \<Rightarrow> json \<Rightarrow> fault + ustring option" where
  "inner_text outer name v = (case read_field v outer of Inl f \<Rightarrow> Inl f | Inr x \<Rightarrow> Inr (as_text (Option.bind x (\<lambda>m. record_field m name))))"

definition dropbox_createFolder ::
  "'x cloud_world_scheme services \<Rightarrow> provider \<Rightarrow> ustring \<Rightarrow> ustring \<Rightarrow>
   ('x cloud_world_scheme, ustring option \<times> ustring option) http" where
  "dropbox_createFolder sv pv token path =
     then_http (http_json sv pv token (Dropbox_create_folder path) ''dropbox-create-folder'') (parsed (\<lambda>v.
       case inner_text ''metadata'' ''id'' v of Inl f \<Rightarrow> Inl f
       | Inr i \<Rightarrow> (case inner_text ''metadata'' ''path_display'' v of Inl f \<Rightarrow> Inl f | Inr p \<Rightarrow> Inr (i, p))))"

definition code_segment :: "string \<Rightarrow> ProviderHttpError \<Rightarrow> bool" where
  "code_segment s e \<longleftrightarrow> (case he_code e of None \<Rightarrow> False | Some c \<Rightarrow> ustr s \<in> set (split_on 47 c))"

fun code_contains :: "ustring \<Rightarrow> ustring \<Rightarrow> bool" where
  "code_contains [] sub = (sub = [])"
| "code_contains (c # s) sub = (starts_with (c # s) sub \<or> code_contains s sub)"

definition code_matches :: "string list \<Rightarrow> ProviderHttpError \<Rightarrow> bool" where
  "code_matches parts e \<longleftrightarrow> (case he_code e of None \<Rightarrow> False | Some c \<Rightarrow> list_ex (\<lambda>s. code_contains c (ustr s)) parts)"

definition dropbox_getMetadata ::
  "'x cloud_world_scheme services \<Rightarrow> provider \<Rightarrow> ustring \<Rightarrow> ustring \<Rightarrow> ('x cloud_world_scheme, ustring option option) http" where
  "dropbox_getMetadata sv pv token path =
     bind_io (then_http (http_json sv pv token (Dropbox_metadata path) ''dropbox-get-metadata'') (parsed (text_field ''id''))) (\<lambda>r.
     case r of
       Inr i \<Rightarrow> ret (Inr (Some i))
     | Inl e \<Rightarrow> ret (if he_status e = 409 \<and> code_segment ''not_found'' e then Inr None else Inl e))"

datatype save_url_result = Save_async ustring | Save_complete "ustring option"

definition dropbox_saveUrl ::
  "'x cloud_world_scheme services \<Rightarrow> provider \<Rightarrow> ustring \<Rightarrow> ustring \<Rightarrow> ustring \<Rightarrow> ('x cloud_world_scheme, save_url_result) http" where
  "dropbox_saveUrl sv pv token path url =
     then_http (http_json sv pv token (Dropbox_save_url path url) ''dropbox-save-url'') (parsed (\<lambda>v.
       case text_field ''async_job_id'' v of
         Inl f \<Rightarrow> Inl f
       | Inr (Some j) \<Rightarrow> Inr (Save_async j)
       | Inr None \<Rightarrow> Inr (Save_complete (as_text (Option.bind (Option.bind (record_field v ''complete'') (\<lambda>c. record_field c ''metadata''))
           (\<lambda>m. record_field m ''id''))))))"

datatype save_url_status = Save_in_progress | Save_done "ustring option" | Save_failed ustring

definition dropbox_saveUrlStatus ::
  "'x cloud_world_scheme services \<Rightarrow> provider \<Rightarrow> ustring \<Rightarrow> ustring \<Rightarrow> ('x cloud_world_scheme, save_url_status) http" where
  "dropbox_saveUrlStatus sv pv token jobId =
     then_http (http_json sv pv token (Dropbox_save_status jobId) ''dropbox-save-url-status'') (parsed (\<lambda>v.
       case text_field ''.tag'' v of
         Inl f \<Rightarrow> Inl f
       | Inr None \<Rightarrow> Inr (Save_failed (ustr ''save-url-failed''))
       | Inr (Some tag) \<Rightarrow>
           Inr (if tag = ustr ''in_progress'' then Save_in_progress
             else if tag = ustr ''complete'' then Save_done (as_text (Option.bind (record_field v ''metadata'') (\<lambda>m. record_field m ''id'')))
             else Save_failed tag)))"

definition uploadSessionStart ::
  "'x cloud_world_scheme services \<Rightarrow> provider \<Rightarrow> ustring \<Rightarrow> byte list \<Rightarrow> ('x cloud_world_scheme, ustring option) http" where
  "uploadSessionStart sv pv token chunk =
     then_http (http_json sv pv token (Dropbox_start chunk) ''dropbox-upload-start'') (parsed (text_field ''session_id''))"

definition uploadSessionAppend ::
  "'x cloud_world_scheme services \<Rightarrow> provider \<Rightarrow> ustring \<Rightarrow> ustring option \<Rightarrow> int \<Rightarrow> byte list \<Rightarrow> bool \<Rightarrow>
   ('x cloud_world_scheme, int) http" where
  "uploadSessionAppend sv pv token sessionId offset chunk close =
     bind_io (providerFetch sv pv token (Dropbox_append sessionId offset chunk close) {200} ''dropbox-upload-append'') (\<lambda>r.
     ret (case r of
       Inr _ \<Rightarrow> Inr (offset + int (length chunk))
     | Inl e \<Rightarrow> (case he_offset e of
         Some n \<Rightarrow> if code_matches [''incorrect_offset''] e then Inr n else Inl e
       | None \<Rightarrow> Inl e)))"

definition uploadSessionFinish ::
  "'x cloud_world_scheme services \<Rightarrow> provider \<Rightarrow> ustring \<Rightarrow> ustring option \<Rightarrow> int \<Rightarrow> ustring \<Rightarrow> byte list \<Rightarrow> bool \<Rightarrow>
   ('x cloud_world_scheme, json) http" where
  "uploadSessionFinish sv pv token sessionId offset path chunk autorename =
     http_json sv pv token (Dropbox_finish sessionId offset path chunk autorename) ''dropbox-upload-finish''"

definition dropbox_revoke :: "'x cloud_world_scheme services \<Rightarrow> provider \<Rightarrow> ustring \<Rightarrow> ('x cloud_world_scheme, unit) http" where
  "dropbox_revoke sv pv token =
     then_http (providerFetch sv pv token Dropbox_revoke {200} ''dropbox-token-revoke'') (\<lambda>_. ret (Inr ()))"

definition isDropboxConflict :: "ProviderHttpError \<Rightarrow> bool" where
  "isDropboxConflict e \<longleftrightarrow> he_status e = 409 \<and> code_segment ''conflict'' e"

definition isDropboxSessionUnavailable :: "ProviderHttpError \<Rightarrow> bool" where
  "isDropboxSessionUnavailable e \<longleftrightarrow> he_status e = 409 \<and> code_matches [''not_found'', ''closed'', ''lookup_failed''] e"

subsection \<open>Google Drive\<close>

record GoogleUploadStatus =
  gs_complete :: bool
  gs_committed :: int
  gs_file :: "ustring option"

definition is_digit :: "nat \<Rightarrow> bool" where
  "is_digit c \<longleftrightarrow> 48 \<le> c \<and> c \<le> 57"

fun range_end :: "ustring \<Rightarrow> nat option" where
  "range_end [] = None"
| "range_end (c # s) =
     (let digits = takeWhile is_digit (drop 8 (c # s)) in
      if starts_with (c # s) (ustr ''bytes=0-'') \<and> digits \<noteq> [] then Some (undecimal 0 digits) else range_end s)"

definition committedBytes :: "provider_response \<Rightarrow> int" where
  "committedBytes r = (case Option.bind (hr_range r) range_end of Some n \<Rightarrow> int n + 1 | None \<Rightarrow> 0)"

definition drive_createFolder ::
  "'x cloud_world_scheme services \<Rightarrow> provider \<Rightarrow> ustring \<Rightarrow> ustring \<Rightarrow> ustring \<Rightarrow> ustring \<Rightarrow> ('x cloud_world_scheme, json) http" where
  "drive_createFolder sv pv token name parentId transferId =
     http_json sv pv token (Drive_create_folder name parentId transferId) ''google-create-folder''"

definition findByTransferId ::
  "'x cloud_world_scheme services \<Rightarrow> provider \<Rightarrow> ustring \<Rightarrow> ustring \<Rightarrow> ustring \<Rightarrow> ('x cloud_world_scheme, json option) http" where
  "findByTransferId sv pv token parentId transferId =
     then_http (http_json sv pv token (Drive_find parentId transferId) ''google-find-transfer-file'') (parsed (\<lambda>v.
       case read_field v ''files'' of Inl f \<Rightarrow> Inl f | Inr (Some (Json_list (x # _))) \<Rightarrow> Inr (Some x) | Inr _ \<Rightarrow> Inr None))"

definition startResumableUpload ::
  "'x cloud_world_scheme services \<Rightarrow> provider \<Rightarrow> ustring \<Rightarrow> ustring \<Rightarrow> ustring \<Rightarrow> ustring \<Rightarrow> int \<Rightarrow> ustring \<Rightarrow>
   ('x cloud_world_scheme, ustring) http" where
  "startResumableUpload sv pv token name parentId mimeType len transferId =
     then_http (providerFetch sv pv token (Drive_start name parentId mimeType len transferId) {200} ''google-upload-start'') (\<lambda>r.
     case truthy_text (hr_location r) of
       None \<Rightarrow> raise (Failed ''google-upload-session-missing'')
     | Some l \<Rightarrow> ret (Inr l))"

definition drive_answer :: "int \<Rightarrow> string \<Rightarrow> provider_response \<Rightarrow> ('w, GoogleUploadStatus) http" where
  "drive_answer len operation r =
     (if hr_status r = 308 then ret (Inr \<lparr>gs_complete = False, gs_committed = committedBytes r, gs_file = None\<rparr>)
      else then_http (ret (responseJson r operation)) (parsed (\<lambda>v. case text_field ''id'' v of
        Inl f \<Rightarrow> Inl f | Inr i \<Rightarrow> Inr \<lparr>gs_complete = True, gs_committed = len, gs_file = i\<rparr>)))"

definition uploadChunk ::
  "'x cloud_world_scheme services \<Rightarrow> provider \<Rightarrow> ustring \<Rightarrow> ustring \<Rightarrow> int \<Rightarrow> int \<Rightarrow> byte list \<Rightarrow>
   ('x cloud_world_scheme, GoogleUploadStatus) http" where
  "uploadChunk sv pv token sessionUrl offset len chunk =
     then_http (providerFetch sv pv token (Drive_chunk sessionUrl offset len chunk) {200, 201, 308} ''google-upload-chunk'')
       (drive_answer len ''google-upload-complete'')"

definition queryUploadStatus ::
  "'x cloud_world_scheme services \<Rightarrow> provider \<Rightarrow> ustring \<Rightarrow> ustring \<Rightarrow> int \<Rightarrow> ('x cloud_world_scheme, GoogleUploadStatus) http" where
  "queryUploadStatus sv pv token sessionUrl len =
     then_http (providerFetch sv pv token (Drive_status sessionUrl len) {200, 201, 308} ''google-upload-status'')
       (drive_answer len ''google-upload-status'')"

subsection \<open>Tokens\<close>

definition token_expiry :: "json option \<Rightarrow> int \<Rightarrow> int option" where
  "token_expiry v now = (case v of Some (Json_number n) \<Rightarrow> if n > 0 then Some (now + n * 1000) else None | _ \<Rightarrow> None)"

definition tokenRequest ::
  "'x cloud_world_scheme services \<Rightarrow> provider \<Rightarrow> provider_call \<Rightarrow> string \<Rightarrow> ('x cloud_world_scheme, json) io" where
  "tokenRequest sv pv call operation =
     bind_io (demand (http_json sv pv [] call operation)) (\<lambda>v.
     bind_io (lift (text_field ''access_token'' v)) (\<lambda>a.
     if truthy_text a = None then raise (Failed ''authorization-token-invalid'') else ret v))"

definition normalizeToken :: "json \<Rightarrow> int \<Rightarrow> CloudCredential" where
  "normalizeToken v now = \<lparr>cc_access = the (as_text (record_field v ''access_token'')),
     cc_refresh = as_text (record_field v ''refresh_token''), cc_expires = token_expiry (record_field v ''expires_in'') now,
     cc_scope = as_text (record_field v ''scope'')\<rparr>"

definition exchange_operation :: "CloudProvider \<Rightarrow> string" where
  "exchange_operation p = (case p of Dropbox \<Rightarrow> ''dropbox-oauth-exchange'' | Google \<Rightarrow> ''google-oauth-exchange'')"

definition refresh_operation :: "CloudProvider \<Rightarrow> string" where
  "refresh_operation p = (case p of Dropbox \<Rightarrow> ''dropbox-oauth-refresh'' | Google \<Rightarrow> ''google-oauth-refresh'')"

definition exchange_code ::
  "'x cloud_world_scheme services \<Rightarrow> provider \<Rightarrow> CloudProvider \<Rightarrow> ustring \<Rightarrow> ustring \<Rightarrow> ustring \<Rightarrow>
   ('x cloud_world_scheme, CloudCredential) io" where
  "exchange_code sv pv p redirectUri code verifier =
     bind_io (tokenRequest sv pv (Token_exchange p redirectUri code verifier) (exchange_operation p)) (\<lambda>v.
     bind_io js_now (\<lambda>now. ret (normalizeToken v now)))"

definition refresh_token ::
  "'x cloud_world_scheme services \<Rightarrow> provider \<Rightarrow> CloudProvider \<Rightarrow> ustring \<Rightarrow> ('x cloud_world_scheme, CloudCredential) io" where
  "refresh_token sv pv p refreshToken =
     bind_io (tokenRequest sv pv (Token_refresh p refreshToken) (refresh_operation p)) (\<lambda>v.
     bind_io js_now (\<lambda>now. ret ((normalizeToken v now)\<lparr>cc_refresh := Some refreshToken\<rparr>)))"

section \<open>Cloud copies: the transfer of one file\<close>

text \<open>
  \<open>providers/index.ts\<close> of \<open>apps/client/src/worker/cloud-transfer\<close>: the adapter of each provider copies one
  source object, chunk by chunk, into an upload session, resumes a session that an earlier attempt has
  stored, and looks at the cancellation of the job before each chunk. A range of an object that begins
  at or beyond its end is refused by the bucket. The loops run on \<open>sv_fuel\<close>.
\<close>

subsection \<open>The source and the destination\<close>

definition CHUNK_SIZE :: int where "CHUNK_SIZE = 8 * 1024 * 1024"

definition accessToken :: "CloudCredential \<Rightarrow> fault + ustring" where
  "accessToken credential = (if cc_access credential = [] then Inl EXPIRED else Inr (cc_access credential))"

definition sourceChunk ::
  "'x world_scheme services \<Rightarrow> CloudTransferItem \<Rightarrow> int \<Rightarrow> int \<Rightarrow> ('x world_scheme, byte list) io" where
  "sourceChunk sv item offset len =
     bind_io (await sv (r2_get (ci_source item) (Etag_matches (ci_etag item)))) (\<lambda>found.
     case found of
       Body obj \<Rightarrow> if nat offset < length (r2_body obj) then ret (subrange (nat offset) (nat len) (r2_body obj))
         else raise (Failed ''get: The requested range is not satisfiable (10039)'')
     | _ \<Rightarrow> raise (Failed ''source-changed''))"

definition dropboxPath :: "CloudTransferItem \<Rightarrow> cloud_destination \<Rightarrow> ustring" where
  "dropboxPath item destination =
     (let prefix = (case cd_path destination of None \<Rightarrow> [] | Some root \<Rightarrow> strip_trailing root) in
      collapse_slashes (prefix @ 47 # strip_leading (ci_destination item)))"

definition googleParent :: "cloud_destination \<Rightarrow> fault + ustring" where
  "googleParent destination =
     (case truthy_text (cd_folder destination) of Some i \<Rightarrow> Inr i | None \<Rightarrow> Inl (Failed ''destination-unavailable''))"

definition basename :: "ustring \<Rightarrow> ustring" where
  "basename path = (case rev (filter (\<lambda>s. s \<noteq> []) (split_on 47 (forward_slashes path))) of [] \<Rightarrow> ustr ''LTDS file'' | s # _ \<Rightarrow> s)"

text \<open>What an adapter is given besides the item, its credential and the destination.\<close>

record 'w upload_port =
  up_cancelled :: "('w, bool) io"
  up_load :: "('w, (upload_state \<times> int) option) io"
  up_save :: "upload_state \<Rightarrow> int \<Rightarrow> ('w, unit) io"

subsection \<open>Dropbox\<close>

definition dropbox_state :: "ustring option \<Rightarrow> upload_state" where
  "dropbox_state sessionId = \<lparr>us_provider = Some (ustr ''dropbox''), us_session = sessionId, us_url = None\<rparr>"

definition dropbox_resume :: "CloudTransferItem \<Rightarrow> (upload_state \<times> int) option \<Rightarrow> (ustring \<times> int) option" where
  "dropbox_resume item saved =
     (case saved of
        None \<Rightarrow> None
      | Some (state, uploaded) \<Rightarrow>
          (case truthy_text (us_session state) of
             None \<Rightarrow> None
           | Some sessionId \<Rightarrow>
               if us_provider state = Some (ustr ''dropbox'') \<and> is_safe_integer uploaded \<and> 0 \<le> uploaded \<and> uploaded \<le> ci_size item
               then Some (sessionId, uploaded) else None))"

fun dropbox_chunks ::
  "'x cloud_world_scheme services \<Rightarrow> provider \<Rightarrow> 'x cloud_world_scheme upload_port \<Rightarrow> ustring \<Rightarrow> CloudTransferItem \<Rightarrow> nat \<Rightarrow>
   ustring option \<Rightarrow> int \<Rightarrow> bool \<Rightarrow> ('x cloud_world_scheme, ustring option \<times> int) io" where
  "dropbox_chunks sv pv up token item 0 sessionId offset restarted = raise (Failed ''fuel'')"
| "dropbox_chunks sv pv up token item (Suc n) sessionId offset restarted =
     (if ci_size item \<le> offset then ret (sessionId, offset)
      else
        bind_io (up_cancelled up) (\<lambda>cancelled.
        if cancelled then raise (Failed ''cancelled'')
        else
          bind_io (sourceChunk sv item offset (min CHUNK_SIZE (ci_size item - offset))) (\<lambda>chunk.
          bind_io (uploadSessionAppend sv pv token sessionId offset chunk False) (\<lambda>r.
          case r of
            Inr nextOffset \<Rightarrow>
              if nextOffset > ci_size item then raise (Failed ''source-changed'')
              else bind_io (up_save up (dropbox_state sessionId) nextOffset) (\<lambda>_.
                dropbox_chunks sv pv up token item n sessionId nextOffset restarted)
          | Inl e \<Rightarrow>
              if \<not> restarted \<and> isDropboxSessionUnavailable e then
                bind_io (demand (uploadSessionStart sv pv token [])) (\<lambda>sessionId.
                bind_io (up_save up (dropbox_state sessionId) 0) (\<lambda>_.
                dropbox_chunks sv pv up token item n sessionId 0 True))
              else raise (Failed (http_message e))))))"

definition dropbox_finish ::
  "'x cloud_world_scheme services \<Rightarrow> provider \<Rightarrow> ustring \<Rightarrow> ConflictMode \<Rightarrow> ustring \<Rightarrow> ustring option \<Rightarrow> int \<Rightarrow>
   ('x cloud_world_scheme, CloudProviderTransferResult) io" where
  "dropbox_finish sv pv token mode path sessionId offset =
     bind_io (uploadSessionFinish sv pv token sessionId offset path [] (mode = Autorename)) (\<lambda>r.
     case r of
       Inr v \<Rightarrow> bind_io (lift (text_field ''id'' v)) (\<lambda>i. ret \<lparr>tr_skipped = False, tr_file = i, tr_job = None, tr_uploaded = offset\<rparr>)
     | Inl e \<Rightarrow>
         if mode = Skip \<and> isDropboxConflict e then ret \<lparr>tr_skipped = True, tr_file = None, tr_job = None, tr_uploaded = 0\<rparr>
         else raise (Failed (http_message e)))"

definition dropbox_upload ::
  "'x cloud_world_scheme services \<Rightarrow> provider \<Rightarrow> 'x cloud_world_scheme upload_port \<Rightarrow> ustring \<Rightarrow> CloudTransferItem \<Rightarrow> ConflictMode \<Rightarrow>
   ustring \<Rightarrow> ('x cloud_world_scheme, CloudProviderTransferResult) io" where
  "dropbox_upload sv pv up token item mode path =
     bind_io (up_load up) (\<lambda>saved.
     bind_io (case dropbox_resume item saved of
         Some (sessionId, uploaded) \<Rightarrow> ret (Some sessionId, uploaded)
       | None \<Rightarrow>
           bind_io (demand (uploadSessionStart sv pv token [])) (\<lambda>sessionId.
           bind_io (up_save up (dropbox_state sessionId) 0) (\<lambda>_. ret (sessionId, 0)))) (\<lambda>(sessionId, offset).
     bind_io (dropbox_chunks sv pv up token item (sv_fuel sv) sessionId offset False) (\<lambda>(sessionId, offset).
     dropbox_finish sv pv token mode path sessionId offset)))"

definition dropbox_transfer ::
  "'x cloud_world_scheme services \<Rightarrow> provider \<Rightarrow> 'x cloud_world_scheme upload_port \<Rightarrow> CloudTransferItem \<Rightarrow> CloudCredential \<Rightarrow>
   cloud_destination \<Rightarrow> ConflictMode \<Rightarrow> ('x cloud_world_scheme, CloudProviderTransferResult) io" where
  "dropbox_transfer sv pv up item credential destination mode =
     bind_io (lift (accessToken credential)) (\<lambda>token.
     let path = dropboxPath item destination in
     bind_io (if mode = Skip then demand (dropbox_getMetadata sv pv token path) else ret None) (\<lambda>existing.
     case existing of
       Some i \<Rightarrow> ret \<lparr>tr_skipped = True, tr_file = i, tr_job = None, tr_uploaded = 0\<rparr>
     | None \<Rightarrow> dropbox_upload sv pv up token item mode path))"

subsection \<open>Google Drive\<close>

definition google_state :: "ustring \<Rightarrow> upload_state" where
  "google_state sessionUrl = \<lparr>us_provider = Some (ustr ''google''), us_session = None, us_url = Some sessionUrl\<rparr>"

definition google_url :: "ustring \<Rightarrow> bool" where
  "google_url u \<longleftrightarrow> starts_with u (ustr ''https://googleapis.com/'') \<or> starts_with u (ustr ''https://www.googleapis.com/'')"

definition google_resume :: "(upload_state \<times> int) option \<Rightarrow> ustring option" where
  "google_resume saved =
     (case saved of
        None \<Rightarrow> None
      | Some (state, uploaded) \<Rightarrow>
          (case us_url state of
             Some u \<Rightarrow> if us_provider state = Some (ustr ''google'') \<and> google_url u then Some u else None
           | None \<Rightarrow> None))"

definition google_done :: "GoogleUploadStatus \<Rightarrow> CloudProviderTransferResult" where
  "google_done s = \<lparr>tr_skipped = False, tr_file = gs_file s, tr_job = None, tr_uploaded = gs_committed s\<rparr>"

fun google_chunks ::
  "'x cloud_world_scheme services \<Rightarrow> provider \<Rightarrow> 'x cloud_world_scheme upload_port \<Rightarrow> ustring \<Rightarrow> CloudTransferItem \<Rightarrow> nat \<Rightarrow>
   ustring \<Rightarrow> int \<Rightarrow> ('x cloud_world_scheme, CloudProviderTransferResult) io" where
  "google_chunks sv pv up token item 0 sessionUrl offset = raise (Failed ''fuel'')"
| "google_chunks sv pv up token item (Suc n) sessionUrl offset =
     (if ci_size item \<le> offset then
        bind_io (demand (queryUploadStatus sv pv token sessionUrl (ci_size item))) (\<lambda>status.
        if gs_complete status then ret (google_done status) else raise (Failed ''provider-unavailable''))
      else
        bind_io (up_cancelled up) (\<lambda>cancelled.
        if cancelled then raise (Failed ''cancelled'')
        else
          bind_io (sourceChunk sv item offset (min CHUNK_SIZE (ci_size item - offset))) (\<lambda>chunk.
          bind_io (demand (uploadChunk sv pv token sessionUrl offset (ci_size item) chunk)) (\<lambda>status.
          bind_io (up_save up (google_state sessionUrl) (gs_committed status)) (\<lambda>_.
          if gs_complete status then ret (google_done status)
          else google_chunks sv pv up token item n sessionUrl (gs_committed status))))))"

definition google_upload ::
  "'x cloud_world_scheme services \<Rightarrow> provider \<Rightarrow> 'x cloud_world_scheme upload_port \<Rightarrow> ustring \<Rightarrow> CloudTransferItem \<Rightarrow> ustring \<Rightarrow>
   ('x cloud_world_scheme, CloudProviderTransferResult) io" where
  "google_upload sv pv up token item parentId =
     bind_io (up_load up) (\<lambda>saved.
     case google_resume saved of
       Some sessionUrl \<Rightarrow>
         bind_io (demand (queryUploadStatus sv pv token sessionUrl (ci_size item))) (\<lambda>status.
         if gs_complete status then ret (google_done status)
         else google_chunks sv pv up token item (sv_fuel sv) sessionUrl (gs_committed status))
     | None \<Rightarrow>
         bind_io (demand (startResumableUpload sv pv token (basename (ci_destination item)) parentId
           (ustr ''application/octet-stream'') (ci_size item) (ci_id item))) (\<lambda>sessionUrl.
         bind_io (up_save up (google_state sessionUrl) 0) (\<lambda>_.
         google_chunks sv pv up token item (sv_fuel sv) sessionUrl 0)))"

definition google_transfer ::
  "'x cloud_world_scheme services \<Rightarrow> provider \<Rightarrow> 'x cloud_world_scheme upload_port \<Rightarrow> CloudTransferItem \<Rightarrow> CloudCredential \<Rightarrow>
   cloud_destination \<Rightarrow> ('x cloud_world_scheme, CloudProviderTransferResult) io" where
  "google_transfer sv pv up item credential destination =
     bind_io (lift (accessToken credential)) (\<lambda>token.
     bind_io (lift (googleParent destination)) (\<lambda>parentId.
     bind_io (demand (findByTransferId sv pv token parentId (ci_id item))) (\<lambda>existing.
     case given existing of
       Some v \<Rightarrow> bind_io (lift (text_field ''id'' v)) (\<lambda>i.
         ret \<lparr>tr_skipped = False, tr_file = i, tr_job = None, tr_uploaded = ci_size item\<rparr>)
     | None \<Rightarrow> google_upload sv pv up token item parentId)))"

definition adapter_transfer ::
  "'x cloud_world_scheme services \<Rightarrow> provider \<Rightarrow> 'x cloud_world_scheme upload_port \<Rightarrow> CloudProvider \<Rightarrow> CloudTransferItem \<Rightarrow>
   CloudCredential \<Rightarrow> cloud_destination \<Rightarrow> ConflictMode \<Rightarrow> ('x cloud_world_scheme, CloudProviderTransferResult) io" where
  "adapter_transfer sv pv up provider item credential destination mode =
     (case provider of
        Dropbox \<Rightarrow> dropbox_transfer sv pv up item credential destination mode
      | Google \<Rightarrow> google_transfer sv pv up item credential destination)"

definition adapter_revoke ::
  "'x cloud_world_scheme services \<Rightarrow> provider \<Rightarrow> CloudCredential \<Rightarrow> ('x cloud_world_scheme, unit) http" where
  "adapter_revoke sv pv credential =
     bind_io (lift (accessToken credential)) (\<lambda>token. dropbox_revoke sv pv token)"

end
