(* ===== verification/Cloud_Workflow.thy ===== *)
theory Cloud_Workflow
  imports Cloud_Providers
begin

section \<open>Cloud copies: the workflow of a job\<close>

text \<open>
  \<open>runCloudTransferJob\<close> of \<open>apps/client/src/worker/cloud-transfer/workflow.ts\<close>: the selection is stored as
  items, every item is transferred in at most four attempts, and the job is ended. The files of the
  selection are those of \<open>snapshot\<close>, as for a bulk download; of the row it is given it reads the share,
  its version and the request. A run of the code from its beginning is one run here, whether the
  engine starts it or starts it again.
\<close>

subsection \<open>Credentials and upload states\<close>

definition own_authorization :: "CloudTransferJob \<Rightarrow> cloud_authorization \<Rightarrow> bool" where
  "own_authorization job a \<longleftrightarrow> ca_id a = cj_authorization job \<and> ca_share a = cj_share job \<and> ca_version a = cj_version job \<and>
     ca_provider a = cj_provider job"

definition store_credential ::
  "ustring \<Rightarrow> sealed \<Rightarrow> ustring \<Rightarrow> int option \<Rightarrow> 'x cloud_tables_scheme \<Rightarrow> nat \<times> 'x cloud_tables_scheme" where
  "store_credential authorizationId encrypted keyId expires = write_authorizations
     (\<lambda>w a. ca_id a = authorizationId \<and> ca_revoked a = None)
     (\<lambda>now a. a\<lparr>ca_credential := encrypted, ca_key_id := keyId, ca_token_expires := expires, ca_used := Some now\<rparr>)"

definition renew_credential ::
  "'x cloud_world_scheme services \<Rightarrow> cloud_runtime \<Rightarrow> cloud_env \<Rightarrow> provider \<Rightarrow> ustring \<Rightarrow> CloudProvider \<Rightarrow> ustring \<Rightarrow>
   ('x cloud_world_scheme, CloudCredential) io" where
  "renew_credential sv cl env pv authorizationId provider refreshToken =
     bind_io (refresh_token sv pv provider refreshToken) (\<lambda>refreshed.
     bind_io (encryptCloudSecret sv cl (cl_credential_text cl refreshed) (ce_secret env) (authorization_purpose authorizationId provider)) (\<lambda>encrypted.
     bind_io (await sv (store_credential authorizationId encrypted (current_key_id env) (cc_expires refreshed))) (\<lambda>_.
     ret refreshed)))"

definition loadCredential ::
  "'x cloud_world_scheme services \<Rightarrow> cloud_runtime \<Rightarrow> cloud_env \<Rightarrow> provider \<Rightarrow> CloudTransferJob \<Rightarrow>
   ('x cloud_world_scheme, CloudCredential) io" where
  "loadCredential sv cl env pv job =
     bind_io (await sv (\<lambda>w. (find (own_authorization job) (cw_authorizations w), w))) (\<lambda>row.
     bind_io js_now (\<lambda>now.
     case row of
       None \<Rightarrow> raise EXPIRED
     | Some a \<Rightarrow>
         if ca_revoked a \<noteq> None \<or> fst (ca_credential a) = [] \<or> ca_expires a \<le> now then raise EXPIRED
         else
           bind_io (lift (decryptWithRotation cl (cl_credential cl) (ca_credential a) (ca_key_id a) env
             (authorization_purpose (cj_authorization job) (cj_provider job)))) (\<lambda>credential.
           if (case cc_expires credential of None \<Rightarrow> False | Some e \<Rightarrow> e \<le> now + 120000) then
             (case truthy_text (cc_refresh credential) of
                None \<Rightarrow> raise EXPIRED
              | Some refreshToken \<Rightarrow> renew_credential sv cl env pv (cj_authorization job) (cj_provider job) refreshToken)
           else ret credential)))"

definition state_purpose :: "ustring \<Rightarrow> CloudProvider \<Rightarrow> ustring" where
  "state_purpose itemId provider =
     ustr ''upload-state:'' @ itemId @ 58 # (case provider of Dropbox \<Rightarrow> ustr ''dropbox'' | Google \<Rightarrow> ustr ''google'')"

definition loadUploadState ::
  "cloud_runtime \<Rightarrow> cloud_env \<Rightarrow> CloudTransferJob \<Rightarrow> CloudTransferItem \<Rightarrow> (upload_state \<times> int) option" where
  "loadUploadState cl env job item =
     (case ci_state item of
        None \<Rightarrow> None
      | Some sealed \<Rightarrow>
          if fst sealed = [] \<or> snd sealed = [] then None
          else
            let opened = (\<lambda>secret. decryptCloudSecret cl (cl_state cl) sealed secret (state_purpose (ci_id item) (cj_provider job)));
                with_bytes = (\<lambda>r. case r of Inr state \<Rightarrow> Some (state, ci_uploaded item) | Inl f \<Rightarrow> None) in
            (case with_bytes (opened (ce_secret env)) of
               Some s \<Rightarrow> Some s
             | None \<Rightarrow> (case truthy_text (ce_previous env) of None \<Rightarrow> None | Some previous \<Rightarrow> with_bytes (opened previous))))"

definition upload_state_json :: "upload_state \<Rightarrow> ustring" where
  "upload_state_json s = json_object (List.map_filter (\<lambda>(name, value). map_option (\<lambda>t. (ustr name, json_string t)) value)
     [(''provider'', us_provider s), (''sessionId'', us_session s), (''sessionUrl'', us_url s)])"

definition store_state :: "ustring \<Rightarrow> sealed \<Rightarrow> int \<Rightarrow> 'x cloud_tables_scheme \<Rightarrow> nat \<times> 'x cloud_tables_scheme" where
  "store_state itemId encrypted bytes = write_items (\<lambda>w i. ci_id i = itemId)
     (\<lambda>now i. i\<lparr>ci_state := Some encrypted, ci_uploaded := bytes, ci_updated := now\<rparr>)"

definition saveUploadState ::
  "'x cloud_tables_scheme services \<Rightarrow> cloud_runtime \<Rightarrow> cloud_env \<Rightarrow> CloudTransferJob \<Rightarrow> ustring \<Rightarrow> upload_state \<Rightarrow> int \<Rightarrow>
   ('x cloud_tables_scheme, unit) io" where
  "saveUploadState sv cl env job itemId state bytes =
     bind_io (encryptCloudSecret sv cl (upload_state_json state) (ce_secret env) (state_purpose itemId (cj_provider job))) (\<lambda>encrypted.
     bind_io (await sv (store_state itemId encrypted bytes)) (\<lambda>_. ret ()))"

definition item_port ::
  "'x cloud_world_scheme services \<Rightarrow> cloud_runtime \<Rightarrow> cloud_env \<Rightarrow> CloudTransferJob \<Rightarrow> CloudTransferItem \<Rightarrow>
   'x cloud_world_scheme upload_port" where
  "item_port sv cl env job item =
     \<lparr>up_cancelled = cloudJobCancelled sv (cj_id job), up_load = ret (loadUploadState cl env job item),
      up_save = saveUploadState sv cl env job (ci_id item)\<rparr>"

subsection \<open>One item\<close>

definition shareActive :: "'x cloud_tables_scheme services \<Rightarrow> CloudTransferJob \<Rightarrow> ('x cloud_tables_scheme, bool) io" where
  "shareActive sv job = await sv (\<lambda>w. (share_serves w (w_now w) job, w))"

text \<open>The row of the item as the step reads it; when the row is gone, the handler of the failure fails too.\<close>

definition transfer_row ::
  "'x cloud_world_scheme services \<Rightarrow> cloud_runtime \<Rightarrow> cloud_env \<Rightarrow> provider \<Rightarrow> CloudTransferJob \<Rightarrow> cloud_destination \<Rightarrow>
   CloudTransferItem \<Rightarrow> ('x cloud_world_scheme, bool) io" where
  "transfer_row sv cl env pv job destination current =
     catch_io
       (bind_io (loadCredential sv cl env pv job) (\<lambda>credential.
        bind_io (adapter_transfer sv pv (item_port sv cl env job current) (cj_provider job) current credential destination (cj_conflict job)) (\<lambda>result.
        bind_io (markCloudItemResult sv current result) (\<lambda>_. ret True))))
       (\<lambda>error. let failure = classifyCloudFailure (error_message error) in
        bind_io (markCloudItemFailure sv current failure) (\<lambda>_. ret (\<not> cf_retryable failure)))"

definition transfer_attempt ::
  "'x cloud_world_scheme services \<Rightarrow> cloud_runtime \<Rightarrow> cloud_env \<Rightarrow> provider \<Rightarrow> CloudTransferJob \<Rightarrow> cloud_destination \<Rightarrow>
   ustring \<Rightarrow> ('x cloud_world_scheme, bool) io" where
  "transfer_attempt sv cl env pv job destination itemId =
     bind_io (markCloudItemRunning sv itemId) (\<lambda>_.
     bind_io (await sv (\<lambda>w. (find_cloud_item itemId w, w))) (\<lambda>found.
     case found of
       None \<Rightarrow>
         bind_io (catch_io (bind_io (loadCredential sv cl env pv job) (\<lambda>_. ret ())) (\<lambda>_. ret ())) (\<lambda>_.
         raise (Failed ''Cannot read properties of null''))
     | Some current \<Rightarrow> transfer_row sv cl env pv job destination current))"

fun attempt_item ::
  "'x cloud_world_scheme services \<Rightarrow> cloud_runtime \<Rightarrow> cloud_env \<Rightarrow> provider \<Rightarrow> CloudTransferJob \<Rightarrow> cloud_destination \<Rightarrow>
   ustring \<Rightarrow> nat \<Rightarrow> ('x cloud_world_scheme, unit) io" where
  "attempt_item sv cl env pv job destination itemId 0 = ret ()"
| "attempt_item sv cl env pv job destination itemId (Suc n) =
     bind_io (step_do sv DEFAULT_STEP_RETRIES (transfer_attempt sv cl env pv job destination itemId)) (\<lambda>terminal.
     if terminal then ret ()
     else
       bind_io (step_sleep sv) (\<lambda>_.
       bind_io (await sv (\<lambda>w. (find_cloud_item itemId w, w))) (\<lambda>_.
       attempt_item sv cl env pv job destination itemId n)))"

subsection \<open>The items of a job\<close>

definition begin_cancelling :: "ustring \<Rightarrow> 'x cloud_tables_scheme \<Rightarrow> nat \<times> 'x cloud_tables_scheme" where
  "begin_cancelling jobId = write_jobs (\<lambda>w j. cj_id j = jobId)
     (\<lambda>now j. j\<lparr>cj_status := Cloud_cancelling, cj_cancel := coalesce (cj_cancel j) now\<rparr>)"

definition stops ::
  "'x cloud_tables_scheme services \<Rightarrow> CloudTransferJob \<Rightarrow> ('x cloud_tables_scheme, bool) io" where
  "stops sv job =
     bind_io (cloudJobCancelled sv (cj_id job)) (\<lambda>cancelled.
     if cancelled then ret True else bind_io (shareActive sv job) (\<lambda>active. ret (\<not> active)))"

fun transfer_items ::
  "'x cloud_world_scheme services \<Rightarrow> cloud_runtime \<Rightarrow> cloud_env \<Rightarrow> provider \<Rightarrow> CloudTransferJob \<Rightarrow> cloud_destination \<Rightarrow>
   CloudTransferItem list \<Rightarrow> ('x cloud_world_scheme, unit) io" where
  "transfer_items sv cl env pv job destination [] = ret ()"
| "transfer_items sv cl env pv job destination (item # items) =
     (if ci_status item \<notin> {Item_queued, Item_retrying} then transfer_items sv cl env pv job destination items
      else
        bind_io (stops sv job) (\<lambda>stop.
        if stop then bind_io (await sv (begin_cancelling (cj_id job))) (\<lambda>_. ret ())
        else
          bind_io (attempt_item sv cl env pv job destination (ci_id item) (4 - ci_attempts item)) (\<lambda>_.
          transfer_items sv cl env pv job destination items)))"

subsection \<open>The run\<close>

definition request_of :: "CloudTransferJob \<Rightarrow> bulk_job" where
  "request_of job = \<lparr>bj_id = cj_id job, bj_share = cj_share job, bj_version = cj_version job, bj_request = cj_selection job,
     bj_status = Bulk_queued, bj_manifest = [], bj_archive = [], bj_fingerprint = None, bj_upload = None, bj_files = 0,
     bj_processed_files = 0, bj_total = 0, bj_processed = 0, bj_size = None, bj_error = None, bj_updated = 0, bj_expires = 0,
     bj_parent = None, bj_index = None, bj_count = 1\<rparr>"

definition transfer_source :: "OnePassZipEntry \<Rightarrow> TransferSource" where
  "transfer_source e = \<lparr>ts_physicalKey = oe_physicalKey e, ts_relativePath = oe_name e, ts_destinationPath = oe_name e,
     ts_size = oe_size e, ts_etag = oe_etag e\<rparr>"

definition snapshotCloudTransfer ::
  "'x cloud_tables_scheme services \<Rightarrow> bulk_runtime \<Rightarrow> CloudTransferJob \<Rightarrow> ('x cloud_tables_scheme, TransferSource list) io" where
  "snapshotCloudTransfer sv br job =
     bind_io (snapshot sv br (request_of job)) (\<lambda>snap. ret (map transfer_source (sn_sources snap)))"

definition store_selection ::
  "'x cloud_tables_scheme services \<Rightarrow> bulk_runtime \<Rightarrow> CloudTransferJob \<Rightarrow> ('x cloud_tables_scheme, unit) io" where
  "store_selection sv br job =
     bind_io (step_do sv DEFAULT_STEP_RETRIES (snapshotCloudTransfer sv br job)) (\<lambda>sources.
     step_do sv DEFAULT_STEP_RETRIES (replaceCloudItems sv job sources))"

definition transfer_job ::
  "'x cloud_world_scheme services \<Rightarrow> cloud_runtime \<Rightarrow> cloud_env \<Rightarrow> provider \<Rightarrow> CloudTransferJob \<Rightarrow> ('x cloud_world_scheme, unit) io" where
  "transfer_job sv cl env pv job =
     bind_io (lift (case cl_destination cl (cj_destination job) of
       None \<Rightarrow> Inl (Failed ''Unexpected token in JSON'') | Some d \<Rightarrow> Inr d)) (\<lambda>destination.
     bind_io (listCloudItems sv (cj_id job)) (\<lambda>items.
     bind_io (transfer_items sv cl env pv job destination items) (\<lambda>_.
     step_do sv DEFAULT_STEP_RETRIES (bind_io (finalizeCloudJob sv (cj_id job)) (\<lambda>_. ret ())))))"

definition run_cloud_steps ::
  "'x cloud_world_scheme services \<Rightarrow> bulk_runtime \<Rightarrow> cloud_runtime \<Rightarrow> cloud_env \<Rightarrow> provider \<Rightarrow> CloudTransferJob \<Rightarrow>
   ('x cloud_world_scheme, unit) io" where
  "run_cloud_steps sv br cl env pv initial =
     bind_io (if cj_status initial = Cloud_queued then store_selection sv br initial else ret ()) (\<lambda>_.
     bind_io (getCloudJob sv (cj_id initial)) (\<lambda>found.
     case found of
       None \<Rightarrow> ret ()
     | Some job \<Rightarrow> if cj_status job \<in> {Cloud_running, Cloud_cancelling} then transfer_job sv cl env pv job else ret ()))"

definition fail_run :: "ustring \<Rightarrow> CloudTransferFailure \<Rightarrow> 'x cloud_tables_scheme \<Rightarrow> nat \<times> 'x cloud_tables_scheme" where
  "fail_run jobId failure = write_jobs (\<lambda>w j. cj_id j = jobId \<and> cj_status j \<in> {Cloud_queued, Cloud_running})
     (\<lambda>now j. j\<lparr>cj_status := Cloud_failed, cj_error := Some (cf_code failure, cf_message failure), cj_completed := Some now, cj_updated := now\<rparr>)"

definition runCloudTransferJob ::
  "'x cloud_world_scheme services \<Rightarrow> bulk_runtime \<Rightarrow> cloud_runtime \<Rightarrow> cloud_env \<Rightarrow> provider \<Rightarrow> ustring \<Rightarrow>
   ('x cloud_world_scheme, unit) io" where
  "runCloudTransferJob sv br cl env pv jobId =
     bind_io (getCloudJob sv jobId) (\<lambda>found.
     case found of
       None \<Rightarrow> raise (Failed ''job-not-found'')
     | Some initial \<Rightarrow>
         catch_io (run_cloud_steps sv br cl env pv initial) (\<lambda>error.
         bind_io (await sv (fail_run jobId (classifyCloudFailure (error_message error)))) (\<lambda>_. raise error)))"

section \<open>Cloud copies: the scheduled cleanup\<close>

text \<open>
  \<open>apps/client/src/worker/cloud-transfer/cleanup.ts\<close>: jobs and items that are overdue, authorizations
  that have expired and are revoked at their provider, consumed requests for an authorization, and
  the history of ninety days. Google has no revocation. The time is an argument in milliseconds.
\<close>

definition HISTORY_DAYS :: int where "HISTORY_DAYS = 90"

definition revoked_code :: "ustring \<Rightarrow> bool" where
  "revoked_code c \<longleftrightarrow> matches_any
     [letters a @ [Any_chars] @ letters b. a \<leftarrow> [''invalid'', ''expired''], b \<leftarrow> [''token'', ''grant'']] c \<or>
     matches_any [letters b @ [Any_chars] @ letters a. b \<leftarrow> [''token'', ''grant''], a \<leftarrow> [''invalid'', ''expired'']] c"

definition revocationDefinitivelyExpired :: "ProviderHttpError \<Rightarrow> bool" where
  "revocationDefinitivelyExpired e \<longleftrightarrow> he_status e \<in> {400, 401} \<and>
     revoked_code (case he_code e of None \<Rightarrow> [] | Some c \<Rightarrow> c)"

definition eraseCloudAuthorization :: "'x cloud_tables_scheme services \<Rightarrow> ustring \<Rightarrow> ('x cloud_tables_scheme, unit) io" where
  "eraseCloudAuthorization sv authorizationId =
     bind_io (await sv (write_authorizations (\<lambda>w a. ca_id a = authorizationId) erase_authorization)) (\<lambda>_. ret ())"

definition expire_transfers :: "int \<Rightarrow> 'x cloud_tables_scheme \<Rightarrow> nat \<times> 'x cloud_tables_scheme" where
  "expire_transfers second = write_jobs
     (\<lambda>w j. cj_status j \<in> {Cloud_queued, Cloud_running, Cloud_cancelling} \<and> cj_expires j div 1000 \<le> second)
     (\<lambda>_ j. j\<lparr>cj_status := Cloud_expired, cj_cancel := coalesce (cj_cancel j) second, cj_updated := second\<rparr>)"

definition expire_items :: "int \<Rightarrow> 'x cloud_tables_scheme \<Rightarrow> nat \<times> 'x cloud_tables_scheme" where
  "expire_items second = write_items
     (\<lambda>w i. list_ex (\<lambda>j. cj_id j = ci_job i \<and> cj_status j = Cloud_expired) (cw_jobs w) \<and> unsettled i)
     (\<lambda>_ i. drop_item second i)"

text \<open>An authorization is erased when nothing is stored for it, when it is revoked, or when the provider says it is no longer valid.\<close>

definition release_authorization ::
  "'x cloud_world_scheme services \<Rightarrow> cloud_runtime \<Rightarrow> cloud_env \<Rightarrow> provider \<Rightarrow> cloud_authorization \<Rightarrow> ('x cloud_world_scheme, unit) io" where
  "release_authorization sv cl env pv a =
     (if fst (ca_credential a) = [] then eraseCloudAuthorization sv (ca_id a)
      else if ca_provider a = Google then ret ()
      else
        bind_io (catch_io
          (bind_io (lift (decryptWithRotation cl (cl_credential cl) (ca_credential a) (ca_key_id a) env
             (authorization_purpose (ca_id a) (ca_provider a)))) (\<lambda>credential.
           bind_io (adapter_revoke sv pv credential) (\<lambda>r.
           case r of
             Inr _ \<Rightarrow> bind_io (eraseCloudAuthorization sv (ca_id a)) (\<lambda>_. ret False)
           | Inl e \<Rightarrow> ret (revocationDefinitivelyExpired e))))
          (\<lambda>_. ret False)) (\<lambda>expired.
        if expired then eraseCloudAuthorization sv (ca_id a) else ret ()))"

definition clear_settled :: "int \<Rightarrow> 'x cloud_tables_scheme \<Rightarrow> nat \<times> 'x cloud_tables_scheme" where
  "clear_settled second = write_items
     (\<lambda>w i. list_ex (\<lambda>j. cj_id j = ci_job i \<and> list_ex (\<lambda>a. ca_id a = cj_authorization j \<and>
        (cj_status j \<in> {Cloud_completed, Cloud_cancelled, Cloud_expired} \<or> ca_revoked a \<noteq> None \<or> ca_expires a div 1000 \<le> second))
          (cw_authorizations w)) (cw_jobs w))
     (\<lambda>_ i. i\<lparr>ci_state := None, ci_grant := None\<rparr>)"

text \<open>The deletion of a job takes its items with it.\<close>

definition forget_jobs :: "int \<Rightarrow> 'x cloud_tables_scheme \<Rightarrow> unit \<times> 'x cloud_tables_scheme" where
  "forget_jobs cutoff w =
     (let old = (\<lambda>j. cj_status j \<in> {Cloud_completed, Cloud_partial, Cloud_failed, Cloud_cancelled, Cloud_expired} \<and> cj_updated j \<le> cutoff) in
      ((), w\<lparr>cw_jobs := filter (\<lambda>j. \<not> old j) (cw_jobs w),
             cw_items := filter (\<lambda>i. \<not> list_ex (\<lambda>j. old j \<and> cj_id j = ci_job i) (cw_jobs w)) (cw_items w)\<rparr>))"

definition cleanupCloudTransfers ::
  "'x cloud_world_scheme services \<Rightarrow> cloud_runtime \<Rightarrow> cloud_env \<Rightarrow> provider \<Rightarrow> int \<Rightarrow> ('x cloud_world_scheme, unit) io" where
  "cleanupCloudTransfers sv cl env pv now =
     (let second = now div 1000 in
      bind_io (await sv (expire_transfers second)) (\<lambda>_.
      bind_io (await sv (expire_items second)) (\<lambda>_.
      bind_io (await sv (\<lambda>w. (filter (\<lambda>a. ca_revoked a = None \<and> ca_expires a div 1000 \<le> second) (cw_authorizations w), w))) (\<lambda>authorizations.
      bind_io (for_each authorizations (release_authorization sv cl env pv)) (\<lambda>_.
      bind_io (await sv (\<lambda>w. ((), w\<lparr>cw_oauth := filter (\<lambda>s. os_consumed s = None \<and> os_expires s > second) (cw_oauth w)\<rparr>))) (\<lambda>_.
      bind_io (await sv (clear_settled second)) (\<lambda>_.
      bind_io (await sv (forget_jobs ((now - HISTORY_DAYS * 86400000) div 1000))) (\<lambda>_.
      await sv (\<lambda>w. ((), w\<lparr>cw_hourly := filter (\<lambda>(s, window, n). \<not> window < now div 3600000 - 48) (cw_hourly w)\<rparr>))))))))))"

end
