(* ===== verification/Cloud_Copy.thy ===== *)
theory Cloud_Copy
  imports Cloud_Workflow Trash_Safety
begin

section \<open>Cloud copies: what a copy to Dropbox writes\<close>

text \<open>
  The bytes of an upload session follow from the history of calls: a start opens it, an accepted append
  adds to it. Of Dropbox it is assumed that a session has a name of its own and that an append or a
  finish is accepted only at the end of its session. Then every session that the code has stored for
  an item holds a prefix of the source, whatever call fails or loses its answer, and a finish that is
  accepted commits the whole source.
\<close>

subsection \<open>Sessions\<close>

definition started :: "provider_response \<Rightarrow> ustring option" where
  "started r = (if hr_status r = 200 then Option.bind (hr_body r) (\<lambda>v. as_text (record_field v ''session_id'')) else None)"

text \<open>The history, latest call first.\<close>

fun session_of :: "provider \<Rightarrow> ustring \<Rightarrow> served_call list \<Rightarrow> byte list option" where
  "session_of pv s [] = None"
| "session_of pv s ((token, call) # older) =
     (let before = session_of pv s older; r = pv (rev older) (token, call) in
      case call of
        Dropbox_start bytes \<Rightarrow> if started r = Some s then Some bytes else before
      | Dropbox_append i off chunk close \<Rightarrow>
          if i = Some s \<and> hr_status r = 200 then map_option (\<lambda>c. c @ chunk) before else before
      | _ \<Rightarrow> before)"

definition session_bytes :: "provider \<Rightarrow> served_call list \<Rightarrow> ustring \<Rightarrow> byte list option" where
  "session_bytes pv h s = session_of pv s (rev h)"

definition ends_at :: "provider \<Rightarrow> served_call list \<Rightarrow> ustring option \<Rightarrow> int \<Rightarrow> bool" where
  "ends_at pv h i off \<longleftrightarrow> (case Option.bind i (session_bytes pv h) of None \<Rightarrow> False | Some c \<Rightarrow> off = int (length c))"

definition checks_offsets :: "provider \<Rightarrow> bool" where
  "checks_offsets pv \<longleftrightarrow> (\<forall>h t.
     (\<forall>bytes s. started (pv h (t, Dropbox_start bytes)) = Some s \<longrightarrow> session_bytes pv h s = None) \<and>
     (\<forall>i off chunk close. hr_status (pv h (t, Dropbox_append i off chunk close)) = 200 \<longrightarrow> ends_at pv h i off) \<and>
     (\<forall>i off path chunk auto. hr_status (pv h (t, Dropbox_finish i off path chunk auto)) = 200 \<longrightarrow> ends_at pv h i off))"

lemma checks_start: "checks_offsets pv \<Longrightarrow> started (pv h (t, Dropbox_start bytes)) = Some s \<Longrightarrow> session_bytes pv h s = None"
  unfolding checks_offsets_def by blast

lemma checks_append: "checks_offsets pv \<Longrightarrow> hr_status (pv h (t, Dropbox_append i off chunk close)) = 200 \<Longrightarrow> ends_at pv h i off"
  unfolding checks_offsets_def by blast

lemma checks_finish: "checks_offsets pv \<Longrightarrow> hr_status (pv h (t, Dropbox_finish i off path chunk auto)) = 200 \<Longrightarrow> ends_at pv h i off"
  unfolding checks_offsets_def by blast

text \<open>A session that holds a prefix of the source keeps one under every call that appends bytes of the source at its offset.\<close>

definition holds_prefix :: "provider \<Rightarrow> byte list \<Rightarrow> served_call list \<Rightarrow> ustring \<Rightarrow> bool" where
  "holds_prefix pv body h s \<longleftrightarrow> (\<exists>n. session_bytes pv h s = Some (take n body))"

definition appends_source :: "byte list \<Rightarrow> provider_call \<Rightarrow> bool" where
  "appends_source body call \<longleftrightarrow> (case call of
     Dropbox_append i off chunk close \<Rightarrow> 0 \<le> off \<and> (\<exists>n. chunk = subrange (nat off) n body) | _ \<Rightarrow> True)"

lemma session_snoc:
  "session_bytes pv (h @ [(token, call)]) s = (case call of
     Dropbox_start bytes \<Rightarrow> if started (pv h (token, call)) = Some s then Some bytes else session_bytes pv h s
   | Dropbox_append i off chunk close \<Rightarrow>
       if i = Some s \<and> hr_status (pv h (token, call)) = 200 then map_option (\<lambda>c. c @ chunk) (session_bytes pv h s) else session_bytes pv h s
   | _ \<Rightarrow> session_bytes pv h s)"
  by (cases call) (auto simp: session_bytes_def Let_def)

lemma take_subrange: "take n xs @ subrange (length (take n xs)) m xs = take (length (take n xs) + m) xs"
  by (cases "n \<le> length xs") (simp_all add: subrange_def min_def take_add)

lemma holds_prefix_call:
  assumes checks: "checks_offsets pv" and call: "appends_source body call" and held: "holds_prefix pv body h s"
  shows "holds_prefix pv body (h @ [(token, call)]) s"
proof -
  obtain n where n: "session_bytes pv h s = Some (take n body)" using held by (auto simp: holds_prefix_def)
  show ?thesis
  proof (cases call)
    case (Dropbox_start bytes)
    then have "started (pv h (token, call)) \<noteq> Some s" using checks_start [OF checks] n by fastforce
    then show ?thesis using n Dropbox_start by (simp add: holds_prefix_def session_snoc) blast
  next
    case (Dropbox_append i off chunk close)
    obtain m where m: "0 \<le> off" "chunk = subrange (nat off) m body" using call Dropbox_append by (auto simp: appends_source_def)
    have "take n body @ chunk = take (nat off + m) body" if "i = Some s" "hr_status (pv h (token, call)) = 200"
    proof -
      have "ends_at pv h i off" using checks_append [OF checks] that(2) Dropbox_append by simp
      then have "nat off = length (take n body)" using n that(1) by (simp add: ends_at_def)
      then show ?thesis using take_subrange [of n body m] m(2) by (simp only:)
    qed
    then show ?thesis using n Dropbox_append by (auto simp: holds_prefix_def session_snoc)
  qed (use n in \<open>auto simp: holds_prefix_def session_snoc\<close>)
qed

lemma started_holds: "started (pv h (token, Dropbox_start [])) = Some s \<Longrightarrow> holds_prefix pv body (h @ [(token, Dropbox_start [])]) s"
  unfolding holds_prefix_def by (rule exI [of _ 0]) (simp add: session_snoc)

lemma ended_whole:
  assumes "checks_offsets pv" and "holds_prefix pv body (h @ [(token, call)]) s" and "call = Dropbox_finish (Some s) off path chunk auto"
    and "hr_status (pv h (token, call)) = 200" and "int (length body) \<le> off"
  shows "session_bytes pv h s = Some body"
proof -
  obtain n where n: "session_bytes pv h s = Some (take n body)" using assms(2,3) by (auto simp: holds_prefix_def session_snoc)
  have "ends_at pv h (Some s) off" using checks_finish [OF assms(1)] assms(3,4) by simp
  then have "int (length (take n body)) = off" using n by (simp add: ends_at_def)
  then show ?thesis using n assms(5) by simp
qed

subsection \<open>The state that is kept\<close>

definition stored_sound :: "provider \<Rightarrow> cloud_runtime \<Rightarrow> cloud_env \<Rightarrow> CloudTransferJob \<Rightarrow> byte list \<Rightarrow> served_call list \<Rightarrow> CloudTransferItem \<Rightarrow> bool" where
  "stored_sound pv cl env job body h item \<longleftrightarrow> (case loadUploadState cl env job item of
     None \<Rightarrow> True | Some (state, n) \<Rightarrow> (case us_session state of None \<Rightarrow> True | Some s \<Rightarrow> holds_prefix pv body h s))"

definition pinned_source :: "CloudTransferItem \<Rightarrow> byte list \<Rightarrow> 'x world_scheme \<Rightarrow> bool" where
  "pinned_source item body w \<longleftrightarrow> (\<forall>obj. w_bucket w (ci_source item) = Some obj \<longrightarrow> r2_etag obj = ci_etag item \<longrightarrow> r2_body obj = body)"

definition copy_sound ::
  "provider \<Rightarrow> cloud_runtime \<Rightarrow> cloud_env \<Rightarrow> CloudTransferJob \<Rightarrow> CloudTransferItem \<Rightarrow> byte list \<Rightarrow> 'x cloud_world_scheme \<Rightarrow> bool" where
  "copy_sound pv cl env job item body w \<longleftrightarrow> pinned_source item body w \<and>
     (\<forall>i \<in> set (cw_items w). ci_id i = ci_id item \<longrightarrow> stored_sound pv cl env job body (cw_served w) i)"

text \<open>Others neither call the provider nor write the state of the item, and the entity tag names its content.\<close>

definition leaves_copy :: "'x cloud_world_scheme services \<Rightarrow> CloudTransferItem \<Rightarrow> byte list \<Rightarrow> bool" where
  "leaves_copy sv item body \<longleftrightarrow> (\<forall>n w. let w1 = sv_turn sv n w in
     cw_served w1 = cw_served w \<and> (pinned_source item body w \<longrightarrow> pinned_source item body w1) \<and>
     (\<forall>i1 \<in> set (cw_items w1). ci_id i1 = ci_id item \<longrightarrow> ci_state i1 = None \<or>
        (\<exists>i \<in> set (cw_items w). ci_id i = ci_id item \<and> ci_state i1 = ci_state i \<and> ci_uploaded i1 = ci_uploaded i)))"

text \<open>What was sealed is opened unchanged or not at all, under whatever secret, and so is a stored state.\<close>

definition opens_sealed :: "cloud_runtime \<Rightarrow> bool" where
  "opens_sealed cl \<longleftrightarrow>
     (\<forall>secret key iv purpose t u. cl_open cl key iv purpose (cl_seal cl secret iv purpose t) = Some u \<longrightarrow> u = t) \<and>
     (\<forall>s state. cl_state cl (upload_state_json (dropbox_state s)) = Some state \<longrightarrow> state = dropbox_state s)"

lemma opened_state:
  assumes "opens_sealed cl" and "ci_state i = Some (cl_seal cl secret iv (state_purpose (ci_id i) (cj_provider job)) (upload_state_json (dropbox_state s)), iv)"
    and "loadUploadState cl env job i = Some (state, n)"
  shows "state = dropbox_state s"
proof -
  let ?sealed = "(cl_seal cl secret iv (state_purpose (ci_id i) (cj_provider job)) (upload_state_json (dropbox_state s)), iv)"
  have opened: "decryptCloudSecret cl (cl_state cl) ?sealed key (state_purpose (ci_id i) (cj_provider job)) = Inr st \<Longrightarrow> st = dropbox_state s" for key st
    using assms(1) unfolding opens_sealed_def decryptCloudSecret_def
    by (auto split: if_splits option.splits bind_splits) metis
  then show ?thesis
    using assms(2,3) by (auto simp: loadUploadState_def Let_def split: if_splits sum.splits option.splits)
qed

lemma stored_sound_state:
  "stored_sound pv cl env job body h i \<Longrightarrow> ci_id i1 = ci_id i \<Longrightarrow> ci_state i1 = ci_state i \<Longrightarrow> ci_uploaded i1 = ci_uploaded i \<Longrightarrow>
   stored_sound pv cl env job body h i1"
proof -
  assume same: "ci_id i1 = ci_id i" "ci_state i1 = ci_state i" "ci_uploaded i1 = ci_uploaded i"
  have "loadUploadState cl env job i1 = loadUploadState cl env job i" unfolding loadUploadState_def same ..
  then show "stored_sound pv cl env job body h i \<Longrightarrow> stored_sound pv cl env job body h i1" by (simp add: stored_sound_def)
qed

lemma stored_sound_none: "ci_state i = None \<Longrightarrow> stored_sound pv cl env job body h i"
  by (simp add: stored_sound_def loadUploadState_def)

lemma stored_sound_call:
  "checks_offsets pv \<Longrightarrow> appends_source body call \<Longrightarrow> stored_sound pv cl env job body h i \<Longrightarrow>
   stored_sound pv cl env job body (h @ [(token, call)]) i"
  by (auto simp: stored_sound_def intro: holds_prefix_call split: option.splits)

lemma copy_sound_frames [simp]:
  "copy_sound pv cl env job item body (w\<lparr>w_calls := n\<rparr>) = copy_sound pv cl env job item body w"
  "copy_sound pv cl env job item body (w\<lparr>w_minted := n\<rparr>) = copy_sound pv cl env job item body w"
  by (simp_all add: copy_sound_def pinned_source_def)

lemma copy_sound_tick:
  assumes "leaves_copy sv item body" and "copy_sound pv cl env job item body w"
  shows "copy_sound pv cl env job item body (tick sv w) \<and> cw_served (tick sv w) = cw_served w"
proof -
  let ?w1 = "sv_turn sv (w_calls w) w"
  have turn: "cw_served ?w1 = cw_served w" "pinned_source item body ?w1"
    "\<forall>i1 \<in> set (cw_items ?w1). ci_id i1 = ci_id item \<longrightarrow> ci_state i1 = None \<or>
        (\<exists>i \<in> set (cw_items w). ci_id i = ci_id item \<and> ci_state i1 = ci_state i \<and> ci_uploaded i1 = ci_uploaded i)"
    using assms by (simp_all add: leaves_copy_def copy_sound_def Let_def)
  have "stored_sound pv cl env job body (cw_served w) i" if "i \<in> set (cw_items ?w1)" "ci_id i = ci_id item" for i
    using turn(3) that assms(2) by (metis copy_sound_def stored_sound_none stored_sound_state)
  then show ?thesis using turn by (simp add: tick_def copy_sound_def pinned_source_def)
qed

lemma copy_sound_call:
  "checks_offsets pv \<Longrightarrow> appends_source body call \<Longrightarrow> copy_sound pv cl env job item body w \<Longrightarrow>
   copy_sound pv cl env job item body (w\<lparr>cw_served := cw_served w @ [(token, call)]\<rparr>)"
  by (simp add: copy_sound_def pinned_source_def stored_sound_call)

subsection \<open>Requests\<close>

definition fetched :: "provider \<Rightarrow> ustring \<Rightarrow> provider_call \<Rightarrow> nat set \<Rightarrow> ProviderHttpError + provider_response \<Rightarrow> 'x cloud_world_scheme \<Rightarrow> bool" where
  "fetched pv token call accepted x w \<longleftrightarrow> (case x of
     Inl e \<Rightarrow> (case he_offset e of None \<Rightarrow> True | Some n \<Rightarrow> 0 \<le> n)
   | Inr r \<Rightarrow> hr_status r \<in> accepted \<and> (\<exists>h. cw_served w = h @ [(token, call)] \<and> r = pv h (token, call)))"

lemma first_number: "(case filter (\<lambda>n. n \<noteq> None) xs of [] \<Rightarrow> None | n # _ \<Rightarrow> n) = Some m \<Longrightarrow> Some m \<in> set xs"
  by (induction xs) (auto split: if_splits)

lemma offset_number_nonneg: "offset_number v = Some n \<Longrightarrow> 0 \<le> n"
  by (auto simp: offset_number_def split: option.splits json.splits if_splits)

lemma offset_nonneg:
  assumes "providerCorrectOffset body = Some n"
  shows "0 \<le> n"
proof (cases body)
  case None
  then show ?thesis using assms by (simp add: providerCorrectOffset_def)
next
  case (Some r)
  let ?number = "\<lambda>v. offset_number (Option.bind v (\<lambda>r. record_field r ''correct_offset''))"
  let ?fields = "[Some r, record_field r ''error'', Option.bind (record_field r ''error'') (\<lambda>e. record_field e ''reason'')]"
  have "(case filter (\<lambda>n. n \<noteq> None) (map ?number ?fields) of [] \<Rightarrow> None | n # _ \<Rightarrow> n) = Some n"
    using assms unfolding Some providerCorrectOffset_def Let_def option.case .
  then have "Some n \<in> set (map ?number ?fields)" by (rule first_number)
  then have "\<exists>v. ?number v = Some n" unfolding set_map by (rule imageE) metis
  then obtain v where "?number v = Some n" ..
  then show ?thesis by (rule offset_number_nonneg)
qed

lemma achieves_fetch:
  assumes tick: "\<And>w. A w \<Longrightarrow> A (tick sv w)" and call: "\<And>w. A w \<Longrightarrow> A (w\<lparr>cw_served := cw_served w @ [(token, call)]\<rparr>)"
  shows "achieves A (providerFetch sv pv token call accepted operation) F (\<lambda>x w. A w \<and> fetched pv token call accepted x w)"
  unfolding providerFetch_def
proof (rule achieves_catch)
  show "achieves A (bind_io (await sv (provider_serve pv (token, call))) (\<lambda>r.
      ret (if hr_status r \<in> accepted then Inr r else Inl (status_error operation r)))) A (\<lambda>x w. A w \<and> fetched pv token call accepted x w)"
  proof (rule achieves_bind)
    show "achieves A (await sv (provider_serve pv (token, call))) A
        (\<lambda>r w. A w \<and> (\<exists>h. cw_served w = h @ [(token, call)] \<and> r = pv h (token, call)))"
      by (rule achieves_await) (simp_all add: tick call provider_serve_def)
    show "achieves (\<lambda>w. A w \<and> (\<exists>h. cw_served w = h @ [(token, call)] \<and> r = pv h (token, call)))
        (ret (if hr_status r \<in> accepted then Inr r else Inl (status_error operation r))) A (\<lambda>x w. A w \<and> fetched pv token call accepted x w)" for r
      by (rule achieves_ret) (auto simp: fetched_def status_error_def dest: offset_nonneg split: option.split)
  qed
  show "achieves A (ret (Inl \<lparr>he_operation = operation, he_status = 0, he_retryable = True, he_code = None, he_offset = None\<rparr>)) F
      (\<lambda>x w. A w \<and> fetched pv token call accepted x w)" for f
    by (rule achieves_ret) (simp add: fetched_def)
qed

lemma achieves_then:
  assumes "achieves A m F R" and "\<And>x. achieves (R (Inr x)) (k x) F S" and "\<And>e w. R (Inl e) w \<Longrightarrow> S (Inl e) w"
  shows "achieves A (then_http m k) F S"
  unfolding then_http_def by (rule achieves_bind [OF assms(1)]) (use assms(2,3) in \<open>auto intro: achieves_ret split: sum.split\<close>)

lemma achieves_demand:
  assumes "achieves A m F R" and "\<And>e w. R (Inl e) w \<Longrightarrow> F w"
  shows "achieves A (demand m) F (\<lambda>x. R (Inr x))"
  unfolding demand_def by (rule achieves_bind [OF assms(1)]) (use assms(2) in \<open>auto intro: achieves_ret achieves_raise split: sum.split\<close>)

lemma achieves_parsed:
  assumes "\<And>w. A w \<Longrightarrow> F w" and "\<And>x w. read v = Inr x \<Longrightarrow> A w \<Longrightarrow> R (Inr x) w"
  shows "achieves A (parsed read v) F R"
  unfolding parsed_def by (rule achieves_bind [OF achieves_lift [where R = "\<lambda>x w. R (Inr x) w"]]) (use assms in \<open>auto intro: achieves_ret\<close>)

definition answered :: "provider \<Rightarrow> ustring \<Rightarrow> provider_call \<Rightarrow> json \<Rightarrow> 'x cloud_world_scheme \<Rightarrow> bool" where
  "answered pv token call v w \<longleftrightarrow>
     (\<exists>h. cw_served w = h @ [(token, call)] \<and> hr_status (pv h (token, call)) = 200 \<and> hr_body (pv h (token, call)) = Some v)"

lemma achieves_json:
  assumes "\<And>w. A w \<Longrightarrow> A (tick sv w)" and "\<And>w. A w \<Longrightarrow> A (w\<lparr>cw_served := cw_served w @ [(token, call)]\<rparr>)"
  shows "achieves A (http_json sv pv token call operation) F (\<lambda>x w. A w \<and> (case x of Inl e \<Rightarrow> True | Inr v \<Rightarrow> answered pv token call v w))"
  unfolding http_json_def
  by (rule achieves_then [OF achieves_fetch [OF assms]])
    (auto intro!: achieves_ret simp: fetched_def answered_def responseJson_def split: option.split)

subsection \<open>A transfer\<close>

definition session_ok ::
  "provider \<Rightarrow> cloud_runtime \<Rightarrow> cloud_env \<Rightarrow> CloudTransferJob \<Rightarrow> CloudTransferItem \<Rightarrow> byte list \<Rightarrow> ustring option \<Rightarrow>
   'x cloud_world_scheme \<Rightarrow> bool" where
  "session_ok pv cl env job item body i w \<longleftrightarrow> copy_sound pv cl env job item body w \<and>
     (\<forall>s. i = Some s \<longrightarrow> holds_prefix pv body (cw_served w) s)"

lemma session_ok_sound: "session_ok pv cl env job item body i w \<Longrightarrow> copy_sound pv cl env job item body w"
  by (simp add: session_ok_def)

lemma session_ok_minted [simp]: "session_ok pv cl env job item body i (w\<lparr>w_minted := n\<rparr>) = session_ok pv cl env job item body i w"
  by (simp add: session_ok_def)

lemma session_ok_tick:
  "leaves_copy sv item body \<Longrightarrow> session_ok pv cl env job item body i w \<Longrightarrow> session_ok pv cl env job item body i (tick sv w)"
  using copy_sound_tick by (fastforce simp: session_ok_def)

lemma session_ok_call:
  "checks_offsets pv \<Longrightarrow> appends_source body call \<Longrightarrow> session_ok pv cl env job item body i w \<Longrightarrow>
   session_ok pv cl env job item body i (w\<lparr>cw_served := cw_served w @ [(token, call)]\<rparr>)"
  by (simp add: session_ok_def copy_sound_call holds_prefix_call)

lemma text_field_Inr: "text_field name v = Inr x \<Longrightarrow> x = as_text (record_field v name)"
  by (auto simp: text_field_def read_field_def split: if_splits sum.splits)

lemma achieves_start:
  assumes "checks_offsets pv" and "leaves_copy sv item body"
  shows "achieves (copy_sound pv cl env job item body) (demand (uploadSessionStart sv pv token []))
    (copy_sound pv cl env job item body) (session_ok pv cl env job item body)"
proof -
  let ?I = "copy_sound pv cl env job item body"
  have "achieves ?I (uploadSessionStart sv pv token []) ?I (\<lambda>x w. ?I w \<and> (\<forall>i. x = Inr i \<longrightarrow> session_ok pv cl env job item body i w))"
    unfolding uploadSessionStart_def
  proof (rule achieves_then [OF achieves_json])
    show "?I w \<Longrightarrow> ?I (tick sv w)" for w using copy_sound_tick [OF assms(2)] by blast
    show "?I w \<Longrightarrow> ?I (w\<lparr>cw_served := cw_served w @ [(token, Dropbox_start [])]\<rparr>)" for w
      by (rule copy_sound_call [OF assms(1)]) (simp_all add: appends_source_def)
    show "achieves (\<lambda>w. ?I w \<and> (case Inr v of Inl e \<Rightarrow> True | Inr v \<Rightarrow> answered pv token (Dropbox_start []) v w))
        (parsed (text_field ''session_id'') v) ?I (\<lambda>x w. ?I w \<and> (\<forall>i. x = Inr i \<longrightarrow> session_ok pv cl env job item body i w))" for v
    proof (rule achieves_parsed)
      fix i w assume "text_field ''session_id'' v = Inr i"
        and w: "?I w \<and> (case Inr v of Inl e \<Rightarrow> True | Inr v \<Rightarrow> answered pv token (Dropbox_start []) v w)"
      then have i: "i = as_text (record_field v ''session_id'')" by (simp add: text_field_Inr)
      obtain h where h: "cw_served w = h @ [(token, Dropbox_start [])]" "hr_status (pv h (token, Dropbox_start [])) = 200"
        "hr_body (pv h (token, Dropbox_start [])) = Some v" using w by (auto simp: answered_def)
      have "holds_prefix pv body (cw_served w) s" if "i = Some s" for s
        using started_holds [of pv h token s body] h i that by (simp add: started_def)
      then show "?I w \<and> (\<forall>j. Inr i = Inr j \<longrightarrow> session_ok pv cl env job item body j w)" using w by (simp add: session_ok_def)
    qed simp
  qed simp
  then have "achieves ?I (demand (uploadSessionStart sv pv token [])) ?I
      (\<lambda>x w. ?I w \<and> (\<forall>i. (Inr x :: ProviderHttpError + ustring option) = Inr i \<longrightarrow> session_ok pv cl env job item body i w))"
    by (rule achieves_demand [where R = "\<lambda>x w. ?I w \<and> (\<forall>i. x = Inr i \<longrightarrow> session_ok pv cl env job item body i w)"]) simp
  then show ?thesis by (rule achieves_weaken) simp_all
qed

lemma achieves_append:
  assumes "checks_offsets pv" and "leaves_copy sv item body" and "0 \<le> off" and "chunk = subrange (nat off) n body"
  shows "achieves (session_ok pv cl env job item body i) (uploadSessionAppend sv pv token i off chunk close)
    (copy_sound pv cl env job item body) (\<lambda>x w. session_ok pv cl env job item body i w \<and> (\<forall>m. x = Inr m \<longrightarrow> 0 \<le> m))"
  unfolding uploadSessionAppend_def
proof (rule achieves_bind [OF achieves_fetch])
  show "session_ok pv cl env job item body i w \<Longrightarrow> session_ok pv cl env job item body i (tick sv w)" for w
    by (rule session_ok_tick [OF assms(2)])
  show "session_ok pv cl env job item body i w \<Longrightarrow>
      session_ok pv cl env job item body i (w\<lparr>cw_served := cw_served w @ [(token, Dropbox_append i off chunk close)]\<rparr>)" for w
    by (rule session_ok_call [OF assms(1)]) (use assms(3,4) in \<open>auto simp: appends_source_def\<close>)
qed (rule achieves_ret, use assms(3) in \<open>auto simp: fetched_def split: sum.splits option.splits if_splits\<close>)

lemma achieves_save:
  assumes "opens_sealed cl" and "leaves_copy sv item body"
  shows "achieves (session_ok pv cl env job item body i) (saveUploadState sv cl env job (ci_id item) (dropbox_state i) n)
    (copy_sound pv cl env job item body) (\<lambda>_. session_ok pv cl env job item body i)"
proof -
  let ?A = "session_ok pv cl env job item body i" and ?I = "copy_sound pv cl env job item body"
  let ?sealed = "\<lambda>e. \<exists>iv. e = (cl_seal cl (ce_secret env) iv (state_purpose (ci_id item) (cj_provider job)) (upload_state_json (dropbox_state i)), iv)"
  have seal: "achieves ?A (encryptCloudSecret sv cl (upload_state_json (dropbox_state i)) (ce_secret env) (state_purpose (ci_id item) (cj_provider job)))
      ?I (\<lambda>e w. ?sealed e \<and> ?A w)"
    unfolding encryptCloudSecret_def
    by (rule achieves_bind [where R = "\<lambda>iv. ?A", OF achieves_fresh])
      (auto intro!: achieves_ret achieves_raise simp: session_ok_sound)
  have store: "?A (snd (store_state (ci_id item) e n w))" if e: "?sealed e" and w: "?A w" for e w
  proof -
    obtain iv where iv: "e = (cl_seal cl (ce_secret env) iv (state_purpose (ci_id item) (cj_provider job)) (upload_state_json (dropbox_state i)), iv)"
      using e by blast
    have new: "stored_sound pv cl env job body (cw_served w) k" if "ci_id k = ci_id item" "ci_state k = Some e" for k
      unfolding stored_sound_def
      using opened_state [OF assms(1), where i = k and iv = iv and secret = "ce_secret env" and s = i and job = job and env = env] that iv w
      by (auto simp: session_ok_def dropbox_state_def split: option.split)
    show ?thesis using w new by (auto simp: store_state_def write_items_def session_ok_def copy_sound_def pinned_source_def)
  qed
  have "achieves ?A (await sv (store_state (ci_id item) e n)) ?I (\<lambda>_. ?A)" if "?sealed e" for e
    by (rule achieves_await) (use store [OF that] in \<open>auto simp: session_ok_sound intro: session_ok_tick [OF assms(2)] session_ok_sound\<close>)
  then show ?thesis unfolding saveUploadState_def
    by (intro achieves_bind [OF seal] achieves_fact achieves_bind [where R = "\<lambda>_. ?A"] achieves_ret) auto
qed

lemma achieves_chunk:
  assumes "leaves_copy sv item body"
  shows "achieves (session_ok pv cl env job item body i) (sourceChunk sv item off len) (copy_sound pv cl env job item body)
    (\<lambda>chunk w. (\<exists>n. chunk = subrange (nat off) n body) \<and> session_ok pv cl env job item body i w)"
proof -
  let ?A = "session_ok pv cl env job item body i"
  have got: "achieves ?A (await sv (r2_get (ci_source item) (Etag_matches (ci_etag item)))) (copy_sound pv cl env job item body)
      (\<lambda>found w. (\<forall>obj. found = Body obj \<longrightarrow> r2_body obj = body) \<and> ?A w)"
  proof (rule achieves_await)
    show "?A w \<Longrightarrow> ?A (tick sv w)" for w by (rule session_ok_tick [OF assms])
    fix w assume w: "?A w"
    have "r2_body obj = body" if "fst (r2_get (ci_source item) (Etag_matches (ci_etag item)) w) = Body obj" for obj
      using that w by (auto simp: r2_get_def put_allowed_def session_ok_def copy_sound_def pinned_source_def split: option.splits if_splits)
    moreover have "snd (r2_get (ci_source item) (Etag_matches (ci_etag item)) w) = w" by (simp add: r2_get_def split: option.split)
    ultimately show "copy_sound pv cl env job item body (snd (r2_get (ci_source item) (Etag_matches (ci_etag item)) w)) \<and>
        (\<forall>obj. fst (r2_get (ci_source item) (Etag_matches (ci_etag item)) w) = Body obj \<longrightarrow> r2_body obj = body) \<and>
        ?A (snd (r2_get (ci_source item) (Etag_matches (ci_etag item)) w))" using w by (simp add: session_ok_sound)
  qed (rule session_ok_sound)
  show ?thesis
    unfolding sourceChunk_def
    by (rule achieves_bind [OF got]) (auto intro!: achieves_fact achieves_ret achieves_raise simp: session_ok_sound split: got.split)
qed

lemma item_port_simps [simp]:
  "up_cancelled (item_port sv cl env job item) = cloudJobCancelled sv (cj_id job)"
  "up_load (item_port sv cl env job item) = ret (loadUploadState cl env job item)"
  "up_save (item_port sv cl env job item) = saveUploadState sv cl env job (ci_id item)"
  by (simp_all add: item_port_def)

lemma achieves_chunks:
  assumes checks: "checks_offsets pv" and leaves: "leaves_copy sv item body" and opens: "opens_sealed cl"
  shows "0 \<le> offset \<Longrightarrow> achieves (session_ok pv cl env job item body i)
    (dropbox_chunks sv pv (item_port sv cl env job item) token item n i offset restarted) (copy_sound pv cl env job item body)
    (\<lambda>(i, off) w. ci_size item \<le> off \<and> session_ok pv cl env job item body i w)"
proof (induction n arbitrary: i offset restarted)
  case 0
  then show ?case by (simp add: achieves_raise session_ok_sound)
next
  case (Suc n)
  let ?A = "session_ok pv cl env job item body" and ?I = "copy_sound pv cl env job item body"
  let ?R = "\<lambda>(i, off) w. ci_size item \<le> off \<and> ?A i w" and ?up = "item_port sv cl env job item"
  have cancelled: "achieves (?A i) (cloudJobCancelled sv (cj_id job)) ?I (\<lambda>_. ?A i)"
    unfolding cloudJobCancelled_def by (rule achieves_read) (auto intro: session_ok_tick [OF leaves] session_ok_sound)
  have save: "achieves (?A i) (saveUploadState sv cl env job (ci_id item) (dropbox_state i) m) ?I (\<lambda>_. ?A i)" for i m
    by (rule achieves_save [OF opens leaves])
  have appended: "achieves (?A i) (uploadSessionAppend sv pv token i offset chunk False) ?I (\<lambda>x w. ?A i w \<and> (\<forall>m. x = Inr m \<longrightarrow> 0 \<le> m))"
    if "\<exists>n. chunk = subrange (nat offset) n body" for chunk
    using that achieves_append [OF checks leaves Suc.prems] by blast
  have restart: "achieves (?A i) (bind_io (demand (uploadSessionStart sv pv token [])) (\<lambda>s. bind_io (up_save ?up (dropbox_state s) 0) (\<lambda>_.
      dropbox_chunks sv pv ?up token item n s 0 True))) ?I ?R" for i
    by (rule achieves_bind [OF achieves_weaken [OF achieves_start [OF checks leaves]]], erule session_ok_sound, assumption, assumption)
      (auto intro!: achieves_bind [OF save] Suc.IH)
  have onwards: "achieves (\<lambda>w. ?A i w \<and> (\<forall>m. r = Inr m \<longrightarrow> 0 \<le> m)) (case r of
            Inr nextOffset \<Rightarrow>
              if nextOffset > ci_size item then raise (Failed ''source-changed'')
              else bind_io (up_save ?up (dropbox_state i) nextOffset) (\<lambda>_. dropbox_chunks sv pv ?up token item n i nextOffset restarted)
          | Inl e \<Rightarrow>
              if \<not> restarted \<and> isDropboxSessionUnavailable e then
                bind_io (demand (uploadSessionStart sv pv token [])) (\<lambda>s. bind_io (up_save ?up (dropbox_state s) 0) (\<lambda>_.
                  dropbox_chunks sv pv ?up token item n s 0 True))
              else raise (Failed (http_message e))) ?I ?R" for r
  proof (cases r)
    case (Inl e)
    then show ?thesis using restart [of i] by (auto intro: achieves_raise simp: session_ok_sound)
  next
    case (Inr m)
    have "achieves (?A i) (bind_io (up_save ?up (dropbox_state i) m) (\<lambda>_. dropbox_chunks sv pv ?up token item n i m restarted)) ?I ?R" if "0 \<le> m"
      unfolding item_port_simps by (rule achieves_bind [OF save]) (rule Suc.IH [OF that])
    then have "achieves (\<lambda>w. 0 \<le> m \<and> ?A i w) (bind_io (up_save ?up (dropbox_state i) m) (\<lambda>_. dropbox_chunks sv pv ?up token item n i m restarted)) ?I ?R"
      by (rule achieves_fact)
    then show ?thesis using Inr by (auto intro: achieves_raise simp: session_ok_sound conj_commute)
  qed
  show ?case
  proof (cases "ci_size item \<le> offset")
    case True
    then show ?thesis by (simp add: achieves_ret)
  next
    case False
    have "achieves (?A i) (bind_io (cloudJobCancelled sv (cj_id job)) (\<lambda>cancelled. if cancelled then raise (Failed ''cancelled'')
        else bind_io (sourceChunk sv item offset (min CHUNK_SIZE (ci_size item - offset))) (\<lambda>chunk.
          bind_io (uploadSessionAppend sv pv token i offset chunk False) (\<lambda>r. case r of
            Inr nextOffset \<Rightarrow>
              if nextOffset > ci_size item then raise (Failed ''source-changed'')
              else bind_io (up_save ?up (dropbox_state i) nextOffset) (\<lambda>_. dropbox_chunks sv pv ?up token item n i nextOffset restarted)
          | Inl e \<Rightarrow>
              if \<not> restarted \<and> isDropboxSessionUnavailable e then
                bind_io (demand (uploadSessionStart sv pv token [])) (\<lambda>s. bind_io (up_save ?up (dropbox_state s) 0) (\<lambda>_.
                  dropbox_chunks sv pv ?up token item n s 0 True))
              else raise (Failed (http_message e)))))) ?I ?R"
      by (intro achieves_bind [OF cancelled] achieves_if achieves_raise achieves_bind [OF achieves_chunk [OF leaves]] achieves_fact
          achieves_bind [OF appended] onwards) (auto simp: session_ok_sound)
    then show ?thesis using False by simp
  qed
qed

text \<open>The latest call of the history is a finish that was accepted, of a session with these bytes.\<close>

definition commits :: "provider \<Rightarrow> byte list \<Rightarrow> ustring \<Rightarrow> bool \<Rightarrow> served_call list \<Rightarrow> bool" where
  "commits pv body path autorename served \<longleftrightarrow> (\<exists>h token s off.
     served = h @ [(token, Dropbox_finish (Some s) off path [] autorename)] \<and>
     hr_status (pv h (token, Dropbox_finish (Some s) off path [] autorename)) = 200 \<and> session_bytes pv h s = Some body)"

lemma achieves_finish:
  assumes checks: "checks_offsets pv" and leaves: "leaves_copy sv item body" and off: "int (length body) \<le> off"
  shows "achieves (session_ok pv cl env job item body i) (dropbox_finish sv pv token mode path i off) (copy_sound pv cl env job item body)
    (\<lambda>r w. copy_sound pv cl env job item body w \<and> (\<not> tr_skipped r \<longrightarrow> commits pv body path (mode = Autorename) (cw_served w)))"
proof -
  let ?A = "session_ok pv cl env job item body i" and ?I = "copy_sound pv cl env job item body"
  let ?call = "Dropbox_finish i off path [] (mode = Autorename)"
  have committed: "commits pv body path (mode = Autorename) (cw_served w)" if w: "?A w" and v: "answered pv token ?call v w" for v w
  proof -
    obtain h where h: "cw_served w = h @ [(token, ?call)]" "hr_status (pv h (token, ?call)) = 200" using v by (auto simp: answered_def)
    obtain s where s: "i = Some s" using checks_finish [OF checks h(2)] by (cases i) (auto simp: ends_at_def)
    have "session_bytes pv h s = Some body"
      by (rule ended_whole [OF checks _ _ h(2) off]) (use w h(1) s in \<open>auto simp: session_ok_def\<close>)
    then show ?thesis using h s unfolding commits_def by blast
  qed
  have call: "achieves ?A (uploadSessionFinish sv pv token i off path [] (mode = Autorename)) ?I
      (\<lambda>x w. ?A w \<and> (case x of Inl e \<Rightarrow> True | Inr v \<Rightarrow> answered pv token ?call v w))"
    unfolding uploadSessionFinish_def
    by (rule achieves_json) (auto intro: session_ok_tick [OF leaves] session_ok_call [OF checks] simp: appends_source_def)
  show ?thesis
    unfolding dropbox_finish_def
  proof (rule achieves_bind [OF call])
    fix r
    show "achieves (\<lambda>w. ?A w \<and> (case r of Inl e \<Rightarrow> True | Inr v \<Rightarrow> answered pv token ?call v w)) (case r of
         Inr v \<Rightarrow> bind_io (lift (text_field ''id'' v)) (\<lambda>i. ret \<lparr>tr_skipped = False, tr_file = i, tr_job = None, tr_uploaded = off\<rparr>)
       | Inl e \<Rightarrow> if mode = Skip \<and> isDropboxConflict e then ret \<lparr>tr_skipped = True, tr_file = None, tr_job = None, tr_uploaded = 0\<rparr>
           else raise (Failed (http_message e))) ?I
       (\<lambda>r w. ?I w \<and> (\<not> tr_skipped r \<longrightarrow> commits pv body path (mode = Autorename) (cw_served w)))"
    proof (cases r)
      case (Inl e)
      then show ?thesis by (auto intro: achieves_ret achieves_raise simp: session_ok_sound)
    next
      case (Inr v)
      have "achieves (\<lambda>w. ?A w \<and> answered pv token ?call v w) (bind_io (lift (text_field ''id'' v))
          (\<lambda>i. ret \<lparr>tr_skipped = False, tr_file = i, tr_job = None, tr_uploaded = off\<rparr>)) ?I
          (\<lambda>r w. ?I w \<and> (\<not> tr_skipped r \<longrightarrow> commits pv body path (mode = Autorename) (cw_served w)))"
        by (rule achieves_bind [OF achieves_lift [where R = "\<lambda>_ w. ?A w \<and> answered pv token ?call v w"]])
          (auto intro!: achieves_ret simp: session_ok_sound committed)
      then show ?thesis using Inr by simp
    qed
  qed
qed

lemma bind_ret: "bind_io (ret x) k = k x"
  by (simp add: fun_eq_iff io_simps)

lemma achieves_upload:
  assumes "checks_offsets pv" and "leaves_copy sv item body" and "opens_sealed cl" and "int (length body) = ci_size item"
  shows "achieves (\<lambda>w. stored_sound pv cl env job body (cw_served w) item \<and> copy_sound pv cl env job item body w)
    (dropbox_upload sv pv (item_port sv cl env job item) token item mode path) (copy_sound pv cl env job item body)
    (\<lambda>r w. copy_sound pv cl env job item body w \<and> (\<not> tr_skipped r \<longrightarrow> commits pv body path (mode = Autorename) (cw_served w)))"
proof -
  let ?A = "session_ok pv cl env job item body" and ?I = "copy_sound pv cl env job item body"
  let ?pre = "\<lambda>w. stored_sound pv cl env job body (cw_served w) item \<and> ?I w"
  let ?opening = "\<lambda>saved. case dropbox_resume item saved of
      Some (sessionId, uploaded) \<Rightarrow> ret (Some sessionId, uploaded)
    | None \<Rightarrow> bind_io (demand (uploadSessionStart sv pv token [])) (\<lambda>sessionId.
        bind_io (saveUploadState sv cl env job (ci_id item) (dropbox_state sessionId) 0) (\<lambda>_. ret (sessionId, 0)))"
  have begun: "achieves ?pre (?opening (loadUploadState cl env job item)) ?I (\<lambda>(i, off) w. 0 \<le> off \<and> ?A i w)"
  proof (cases "dropbox_resume item (loadUploadState cl env job item)")
    case None
    have "achieves ?I (bind_io (demand (uploadSessionStart sv pv token [])) (\<lambda>sessionId.
        bind_io (saveUploadState sv cl env job (ci_id item) (dropbox_state sessionId) 0) (\<lambda>_. ret (sessionId, 0 :: int)))) ?I
        (\<lambda>(i, off) w. 0 \<le> off \<and> ?A i w)"
      by (rule achieves_bind [OF achieves_start [OF assms(1,2)]], rule achieves_bind [OF achieves_save [OF assms(3,2)]], rule achieves_ret) simp
    then show ?thesis using None by (simp add: achieves_def)
  next
    case (Some p)
    obtain s n where p: "p = (s, n)" by (cases p)
    obtain st where st: "loadUploadState cl env job item = Some (st, n)" "us_session st = Some s" "0 \<le> n"
      using Some p by (auto simp: dropbox_resume_def truthy_text_def split: option.splits if_splits)
    then have "?pre w \<Longrightarrow> ?A (Some s) w" for w by (simp add: stored_sound_def session_ok_def)
    then show ?thesis using Some p st(3) by (auto intro!: achieves_ret)
  qed
  have rest: "achieves (\<lambda>w. 0 \<le> off \<and> ?A i w) (bind_io (dropbox_chunks sv pv (item_port sv cl env job item) token item (sv_fuel sv) i off False)
      (\<lambda>(i, off). dropbox_finish sv pv token mode path i off)) ?I
      (\<lambda>r w. ?I w \<and> (\<not> tr_skipped r \<longrightarrow> commits pv body path (mode = Autorename) (cw_served w)))" for i off
  proof (rule achieves_fact, rule achieves_bind [OF achieves_chunks [OF assms(1-3)]])
    fix x
    show "achieves ((\<lambda>(i, off) w. ci_size item \<le> off \<and> ?A i w) x) ((\<lambda>(i, off). dropbox_finish sv pv token mode path i off) x) ?I
        (\<lambda>r w. ?I w \<and> (\<not> tr_skipped r \<longrightarrow> commits pv body path (mode = Autorename) (cw_served w)))"
      by (cases x) (auto intro!: achieves_fact achieves_finish [OF assms(1,2)] simp: assms(4))
  qed
  have "achieves ?pre (bind_io (?opening (loadUploadState cl env job item)) (\<lambda>(i, off).
      bind_io (dropbox_chunks sv pv (item_port sv cl env job item) token item (sv_fuel sv) i off False)
        (\<lambda>(i, off). dropbox_finish sv pv token mode path i off))) ?I
      (\<lambda>r w. ?I w \<and> (\<not> tr_skipped r \<longrightarrow> commits pv body path (mode = Autorename) (cw_served w)))"
    by (rule achieves_bind [OF begun]) (use rest in \<open>auto split: prod.split\<close>)
  then show ?thesis unfolding dropbox_upload_def item_port_simps bind_ret .
qed

end
