(* ===== verification/Cloud_Routes.thy ===== *)
theory Cloud_Routes
  imports Cloud_Workflow Bulk_Routes
begin

section \<open>Cloud copies: the routes of a share\<close>

text \<open>
  The routes of \<open>apps/client/src/worker/index.ts\<close> for cloud copies: the request for an authorization and
  its callback, the token for the Google picker, the choice of a folder, the state of a job, its
  cancellation and retry, and the reading of a granted source. They run inside \<open>public_request\<close>, which
  passes them the share, except the callback and the source. What they send back is the data of the
  JSON body or of the redirect; the addresses of the providers are not modelled. A secret from
  \<open>crypto.getRandomValues\<close> is a fresh identifier.
\<close>

record cloud_config =
  cg_env :: cloud_env
  cg_workflow :: bool
  cg_dropbox :: bool
  cg_google :: bool
  cg_google_client :: bool
  cg_origins :: "ustring list option"
  cg_redirect :: "CloudProvider \<Rightarrow> fault + ustring"

text \<open>\<open>requireSameOrigin\<close>: the origin of the address, when it can be read, and the header.\<close>

record request_origin =
  ro_url :: "ustring option"
  ro_header :: "ustring option"

definition not_allowed :: fault where "not_allowed = Http 403 ''This request is not allowed''"

definition requireSameOrigin :: "request_origin \<Rightarrow> cloud_config \<Rightarrow> fault + unit" where
  "requireSameOrigin request cg =
     (case (ro_url request, cg_origins cg) of
        (Some origin, Some allowed) \<Rightarrow> if ro_header request = Some origin \<and> origin \<in> set allowed then Inr () else Inl not_allowed
      | _ \<Rightarrow> Inl not_allowed)"

definition cloudEnv :: "cloud_config \<Rightarrow> fault + cloud_env" where
  "cloudEnv cg = (if ce_secret (cg_env cg) = [] then Inl (Http 503 ''Cloud copy is not configured'') else Inr (cg_env cg))"

definition cloudProvider :: "ustring \<Rightarrow> fault + CloudProvider" where
  "cloudProvider s = (if s = ustr ''dropbox'' then Inr Dropbox
     else if s = ustr ''google'' \<or> s = ustr ''google-drive'' then Inr Google else Inl (Http 404 ''Cloud provider not found''))"

definition cloudProviderEnabled :: "cloud_config \<Rightarrow> CloudProvider \<Rightarrow> bool" where
  "cloudProviderEnabled cg p \<longleftrightarrow> ce_secret (cg_env cg) \<noteq> [] \<and> cg_workflow cg \<and>
     (case p of Dropbox \<Rightarrow> cg_dropbox cg | Google \<Rightarrow> cg_google cg)"

definition cloudStatus :: "CloudJobStatus \<Rightarrow> CloudJobStatus" where
  "cloudStatus s = (if s = Cloud_partial then Cloud_failed else s)"

subsection \<open>Asking for an authorization\<close>

record start_body =
  sb_selection :: bulk_body
  sb_destination :: "ustring option"
  sb_skip :: bool
  sb_nonce :: "ustring option"

definition callback_nonce :: "start_body \<Rightarrow> fault + ustring" where
  "callback_nonce body = (case sb_nonce body of
     Some n \<Rightarrow> if list_all url_char n \<and> 24 \<le> length n \<and> length n \<le> 128 then Inr n else Inl (Http 400 ''Invalid callback nonce'')
   | None \<Rightarrow> Inl (Http 400 ''Invalid callback nonce''))"

text \<open>\<open>INSERT ... ON CONFLICT(share_id,window_start) DO UPDATE ... WHERE created_count < 3\<close>.\<close>

definition count_transfer :: "ustring \<Rightarrow> int \<Rightarrow> 'x cloud_tables_scheme \<Rightarrow> nat \<times> 'x cloud_tables_scheme" where
  "count_transfer share window w =
     (let same = (\<lambda>(s, t, n). s = share \<and> t = window) in
      if list_ex same (cw_hourly w) then
        (length (filter (\<lambda>q. same q \<and> snd (snd q) < 3) (cw_hourly w)),
         w\<lparr>cw_hourly := map (\<lambda>q. if same q \<and> snd (snd q) < 3 then (share, window, Suc (snd (snd q))) else q) (cw_hourly w)\<rparr>)
      else (1, w\<lparr>cw_hourly := cw_hourly w @ [(share, window, 1)]\<rparr>))"

definition destination_json :: "CloudProvider \<Rightarrow> ustring option \<Rightarrow> ustring \<Rightarrow> ustring" where
  "destination_json p chosen nonce = (let given = truthy_text chosen in json_object
     [(case p of
         Google \<Rightarrow> (ustr ''folderId'', json_string (case given of Some d \<Rightarrow> d | None \<Rightarrow> ustr ''root''))
       | Dropbox \<Rightarrow> (ustr ''path'', json_string (case given of Some d \<Rightarrow> d | None \<Rightarrow> ustr ''/LTDS Delivery''))),
      (ustr ''callbackNonce'', json_string nonce)])"

definition secret_json :: "ustring \<Rightarrow> ustring \<Rightarrow> ustring \<Rightarrow> ustring" where
  "secret_json verifier nonce origin = json_object
     [(ustr ''verifier'', json_string verifier), (ustr ''callbackNonce'', json_string nonce), (ustr ''requestOrigin'', json_string origin)]"

definition state_secret_purpose :: "ustring \<Rightarrow> CloudProvider \<Rightarrow> ustring" where
  "state_secret_purpose stateHash p =
     ustr ''oauth-state:'' @ stateHash @ 58 # (case p of Dropbox \<Rightarrow> ustr ''dropbox'' | Google \<Rightarrow> ustr ''google'')"

definition insert_oauth :: "oauth_state \<Rightarrow> 'x cloud_tables_scheme \<Rightarrow> (fault + unit) \<times> 'x cloud_tables_scheme" where
  "insert_oauth s w =
     (if list_ex (\<lambda>t. os_hash t = os_hash s) (cw_oauth w) then (Inl (Failed ''UNIQUE constraint failed: cloud_oauth_states.state_hash''), w)
      else if \<not> list_ex (\<lambda>p. ps_id p = os_share s) (dw_shares w) then (Inl (Failed ''FOREIGN KEY constraint failed''), w)
      else (Inr (), w\<lparr>cw_oauth := cw_oauth w @ [s]\<rparr>))"

text \<open>The state and the challenge that the address of the authorization carries.\<close>

definition start_route ::
  "'x cloud_tables_scheme services \<Rightarrow> cloud_runtime \<Rightarrow> cloud_config \<Rightarrow> crypto \<Rightarrow> request_origin \<Rightarrow> ustring \<Rightarrow> start_body \<Rightarrow> share_view \<Rightarrow>
   ('x cloud_tables_scheme, ustring \<times> ustring) io" where
  "start_route sv cl cg cr request provider body share =
     bind_io (lift (requireSameOrigin request cg)) (\<lambda>_.
     bind_io (lift (requireFolderShareFeature share)) (\<lambda>_.
     bind_io (lift (cloudProvider provider)) (\<lambda>p.
     if \<not> cloudProviderEnabled cg p then raise (Http 503 ''This cloud provider is not available yet'')
     else
       bind_io (lift (validateBulkRequest (pr_lower (sv_paths sv)) (sb_selection body))) (\<lambda>selection.
       bind_io (lift (callback_nonce body)) (\<lambda>nonce.
       bind_io js_now (\<lambda>now.
       bind_io (await sv (count_transfer (ps_id share) (now div 3600000))) (\<lambda>changes.
       if changes = 0 then raise (Http 429 ''This delivery has reached its hourly cloud-copy limit.'')
       else
         bind_io (fresh sv) (\<lambda>verifier.
         bind_io (fresh sv) (\<lambda>state.
         bind_io (lift (cloudEnv cg)) (\<lambda>env.
         let stateHash = cr_sha256 cr state in
         bind_io (encryptCloudSecret sv cl (secret_json verifier nonce (the (ro_url request))) (ce_secret env)
           (state_secret_purpose stateHash p)) (\<lambda>encrypted.
         bind_io (await_db sv (\<lambda>w. insert_oauth
           \<lparr>os_hash = stateHash, os_provider = p, os_share = ps_id share, os_version = ps_version share,
            os_selection = request_json selection, os_destination = destination_json p (sb_destination body) nonce,
            os_conflict = (if sb_skip body then Skip else Autorename), os_pkce = encrypted, os_key_id = current_key_id env,
            os_expires = w_now w + 600, os_consumed = None\<rparr> w)) (\<lambda>_.
         bind_io (lift (cg_redirect cg p)) (\<lambda>_.
         ret (state, cl_digest cl verifier))))))))))))))"

subsection \<open>The callback\<close>

definition waiting_state :: "ustring \<Rightarrow> CloudProvider \<Rightarrow> int \<Rightarrow> oauth_state \<Rightarrow> bool" where
  "waiting_state stateHash p second s \<longleftrightarrow> os_hash s = stateHash \<and> os_provider s = p \<and> os_consumed s = None \<and> os_expires s > second"

definition consume_state :: "ustring \<Rightarrow> 'x cloud_tables_scheme \<Rightarrow> nat \<times> 'x cloud_tables_scheme" where
  "consume_state stateHash w =
     (let hit = (\<lambda>s. os_hash s = stateHash \<and> os_consumed s = None) in
      (length (filter hit (cw_oauth w)),
       w\<lparr>cw_oauth := map (\<lambda>s. if hit s then s\<lparr>os_consumed := Some (w_now w)\<rparr> else s) (cw_oauth w)\<rparr>))"

definition pending_json :: ustring where
  "pending_json = json_object [(ustr ''pendingPicker'', ustr ''true'')]"

definition queued_job ::
  "ustring \<Rightarrow> ustring \<Rightarrow> share_view \<Rightarrow> oauth_state \<Rightarrow> int \<Rightarrow> int \<Rightarrow> CloudTransferJob" where
  "queued_job jobId authorizationId share row stamp now =
     \<lparr>cj_id = jobId, cj_share = ps_id share, cj_version = ps_version share, cj_authorization = authorizationId,
      cj_provider = os_provider row, cj_selection = os_selection row,
      cj_destination = (if os_provider row = Google then pending_json else os_destination row), cj_conflict = os_conflict row,
      cj_status = Cloud_queued, cj_files = 0, cj_processed_files = 0, cj_succeeded = 0, cj_failed = 0, cj_total = 0, cj_processed = 0,
      cj_cancel = None, cj_error = None, cj_updated = now, cj_started = None, cj_completed = None, cj_expires = stamp\<rparr>"

definition new_authorization ::
  "ustring \<Rightarrow> share_view \<Rightarrow> CloudProvider \<Rightarrow> sealed \<Rightarrow> ustring \<Rightarrow> int option \<Rightarrow> int \<Rightarrow> cloud_authorization" where
  "new_authorization authorizationId share p encrypted keyId tokenExpires stamp =
     \<lparr>ca_id = authorizationId, ca_share = ps_id share, ca_version = ps_version share, ca_provider = p, ca_credential = encrypted,
      ca_key_id = keyId, ca_token_expires = tokenExpires, ca_expires = stamp, ca_revoked = None, ca_used = None\<rparr>"

definition insert_transfer ::
  "cloud_authorization \<Rightarrow> (int \<Rightarrow> CloudTransferJob) \<Rightarrow> 'x cloud_tables_scheme \<Rightarrow> (fault + unit) \<times> 'x cloud_tables_scheme" where
  "insert_transfer a job w =
     (let j = job (w_now w) in
      if list_ex (\<lambda>b. ca_id b = ca_id a) (cw_authorizations w) \<or> list_ex (\<lambda>k. cj_id k = cj_id j) (cw_jobs w)
      then (Inl (Failed ''UNIQUE constraint failed: cloud_transfer_jobs.id''), w)
      else if \<not> list_ex (\<lambda>p. ps_id p = ca_share a) (dw_shares w) then (Inl (Failed ''FOREIGN KEY constraint failed''), w)
      else (Inr (), w\<lparr>cw_authorizations := cw_authorizations w @ [a], cw_jobs := cw_jobs w @ [j]\<rparr>))"

definition create_transfer :: "ustring \<Rightarrow> 'x cloud_tables_scheme \<Rightarrow> (fault + unit) \<times> 'x cloud_tables_scheme" where
  "create_transfer i w =
     (if i \<in> set (cw_instances w) then (Inl (Failed ''(instance.already_exists) Provided id already exists''), w)
      else (Inr (), w\<lparr>cw_instances := cw_instances w @ [i]\<rparr>))"

text \<open>What is stored when the creation of a workflow was refused or not confirmed.\<close>

definition not_queued :: "ustring \<Rightarrow> 'x cloud_tables_scheme \<Rightarrow> nat \<times> 'x cloud_tables_scheme" where
  "not_queued jobId = write_jobs (\<lambda>w j. cj_id j = jobId)
     (\<lambda>now j. j\<lparr>cj_status := Cloud_failed, cj_error := Some (''transfer-failed'', cf_message (friendlyCloudFailure (Some ''transfer-failed''))),
        cj_updated := now\<rparr>)"

definition active_share_row :: "oauth_state \<Rightarrow> 'x delivery_world_scheme \<Rightarrow> public_share \<Rightarrow> bool" where
  "active_share_row row w s \<longleftrightarrow> ps_id s = os_share row \<and> ps_version s = os_version row \<and> ps_revoked s = None \<and> active_project w s \<and>
     unexpired (w_now w) s"

text \<open>The callback answers the job, or the authorization for the picker, with the nonce of the page that asked.\<close>

definition callback_route ::
  "'x cloud_world_scheme services \<Rightarrow> cloud_runtime \<Rightarrow> cloud_config \<Rightarrow> crypto \<Rightarrow> provider \<Rightarrow>
   ustring \<Rightarrow> ustring \<Rightarrow> ustring \<Rightarrow> ('x cloud_world_scheme, CloudProvider \<times> ustring \<times> ustring) io" where
  "callback_route sv cl cg cr pv provider state code =
     bind_io (lift (cloudProvider provider)) (\<lambda>p.
     if state = [] \<or> code = [] then raise (Http 400 ''Cloud authorization was not completed'')
     else
       bind_io js_now (\<lambda>now.
       let stateHash = cr_sha256 cr state in
       bind_io (await sv (\<lambda>w. (find (waiting_state stateHash p (now div 1000)) (cw_oauth w), w))) (\<lambda>found.
       case found of
         None \<Rightarrow> raise (Http 400 ''Cloud authorization expired'')
       | Some row \<Rightarrow>
           bind_io (await sv (consume_state stateHash)) (\<lambda>consumed.
           if consumed = 0 then raise (Http 400 ''Cloud authorization was already used'')
           else
             bind_io (lift (cloudEnv cg)) (\<lambda>env.
             bind_io (lift (decryptCloudSecret cl (cl_secret cl) (os_pkce row) (ce_secret env) (state_secret_purpose stateHash p))) (\<lambda>secret.
             bind_io (await sv (\<lambda>w. (map_option (view_of (dw_projects w)) (find (active_share_row row w) (dw_shares w)), w))) (\<lambda>share.
             case share of
               None \<Rightarrow> raise (Http 404 ''This delivery is no longer available'')
             | Some share \<Rightarrow>
                 if truthy_text (ps_public share) = None then raise (Http 404 ''This delivery is no longer available'')
                 else
                   bind_io (lift (requireFolderShareFeature share)) (\<lambda>_.
                   bind_io (lift (cg_redirect cg p)) (\<lambda>redirectUri.
                   bind_io (exchange_code sv pv p redirectUri code (ot_verifier secret)) (\<lambda>token.
                   bind_io (fresh sv) (\<lambda>authorizationId.
                   bind_io (fresh sv) (\<lambda>jobId.
                   bind_io (encryptCloudSecret sv cl (cl_credential_text cl token) (ce_secret env) (authorization_purpose authorizationId p)) (\<lambda>credential.
                   bind_io js_now (\<lambda>now.
                   let stamp = now + 24 * 3600000 in
                   bind_io (await_db sv (insert_transfer
                     (new_authorization authorizationId share p credential (current_key_id env) (cc_expires token) stamp)
                     (queued_job jobId authorizationId share row stamp))) (\<lambda>_.
                   bind_io (if p = Google then ret ()
                     else catch_io (await_db sv (create_transfer jobId)) (\<lambda>_.
                       bind_io (await sv (not_queued jobId)) (\<lambda>_. ret ()))) (\<lambda>_.
                   ret (p, if p = Google then authorizationId else jobId, ot_nonce secret)))))))))))))))))"

subsection \<open>The Google picker\<close>

definition googlePickerCredential ::
  "'x cloud_world_scheme services \<Rightarrow> cloud_runtime \<Rightarrow> cloud_config \<Rightarrow> provider \<Rightarrow> cloud_authorization \<Rightarrow>
   ('x cloud_world_scheme, CloudCredential) io" where
  "googlePickerCredential sv cl cg pv a =
     bind_io (lift (decryptWithRotation cl (cl_credential cl) (ca_credential a) (ca_key_id a) (cg_env cg) (authorization_purpose (ca_id a) Google))) (\<lambda>credential.
     bind_io js_now (\<lambda>now.
     if (case cc_expires credential of None \<Rightarrow> False | Some e \<Rightarrow> e \<le> now + 120000) then
       (case truthy_text (cc_refresh credential) of
          None \<Rightarrow> raise (Http 401 ''Google authorization expired'')
        | Some refreshToken \<Rightarrow>
            if \<not> cg_google_client cg then raise (Http 401 ''Google authorization expired'')
            else renew_credential sv cl (cg_env cg) pv (ca_id a) Google refreshToken)
     else ret credential))"

definition picker_token_route ::
  "'x cloud_world_scheme services \<Rightarrow> cloud_runtime \<Rightarrow> cloud_config \<Rightarrow> provider \<Rightarrow> request_origin \<Rightarrow> ustring \<Rightarrow> share_view \<Rightarrow>
   ('x cloud_world_scheme, ustring \<times> int option) io" where
  "picker_token_route sv cl cg pv request authorizationId share =
     bind_io (lift (requireSameOrigin request cg)) (\<lambda>_.
     bind_io (lift (requireFolderShareFeature share)) (\<lambda>_.
     bind_io (lift (cloudEnv cg)) (\<lambda>env.
     bind_io (getGooglePickerAuthorization sv cl authorizationId (ps_id share) (ps_version share)) (\<lambda>row.
     case row of
       None \<Rightarrow> raise (Http 404 ''Google authorization not found'')
     | Some a \<Rightarrow>
         bind_io (googlePickerCredential sv cl cg pv a) (\<lambda>credential.
         if cc_access credential = [] then raise (Http 401 ''Google authorization expired'')
         else ret (cc_access credential, cc_expires credential))))))"

definition picker_id :: "ustring \<Rightarrow> bool" where
  "picker_id s \<longleftrightarrow> list_all url_char s \<and> 16 \<le> length s \<and> length s \<le> 128"

definition activate_route ::
  "'x cloud_tables_scheme services \<Rightarrow> cloud_runtime \<Rightarrow> cloud_config \<Rightarrow> request_origin \<Rightarrow> ustring option \<Rightarrow> ustring option \<Rightarrow> share_view \<Rightarrow>
   ('x cloud_tables_scheme, ustring) io" where
  "activate_route sv cl cg request authorizationId folderId share =
     bind_io (lift (requireSameOrigin request cg)) (\<lambda>_.
     bind_io (lift (requireFolderShareFeature share)) (\<lambda>_.
     bind_io (lift (cloudEnv cg)) (\<lambda>env.
     case (authorizationId, folderId) of
       (Some a, Some f) \<Rightarrow>
         if \<not> picker_id a \<or> \<not> validGoogleFolderId f then raise (Http 400 ''A valid Google Drive destination is required'')
         else
           bind_io (activatePendingGoogleJob sv cl a (ps_id share) (ps_version share) f) (\<lambda>job.
           case job of
             None \<Rightarrow> raise (Http 404 ''Google authorization not found or already used'')
           | Some job \<Rightarrow>
               bind_io (catch_io (await_db sv (create_transfer (cj_id job))) (\<lambda>_.
                 bind_io (await sv (not_queued (cj_id job))) (\<lambda>_. raise (Http 503 ''The cloud transfer could not be queued'')))) (\<lambda>_.
               ret (cj_id job)))
     | _ \<Rightarrow> raise (Http 400 ''A valid Google Drive destination is required''))))"

subsection \<open>Jobs of a share\<close>

definition job_route ::
  "'x cloud_tables_scheme services \<Rightarrow> cloud_config \<Rightarrow> ustring \<Rightarrow> share_view \<Rightarrow>
   ('x cloud_tables_scheme, CloudTransferJob \<times> CloudTransferItem list) io" where
  "job_route sv cg jobId share =
     bind_io (lift (requireFolderShareFeature share)) (\<lambda>_.
     bind_io (lift (cloudEnv cg)) (\<lambda>_.
     bind_io (getAuthorizedCloudJob sv jobId (ps_id share) (ps_version share)) (\<lambda>job.
     case job of
       None \<Rightarrow> raise (Http 404 ''Cloud transfer not found'')
     | Some job \<Rightarrow>
         bind_io (listCloudItems sv (cj_id job)) (\<lambda>items. ret (job\<lparr>cj_status := cloudStatus (cj_status job)\<rparr>, items)))))"

definition cancel_cloud_route ::
  "'x cloud_tables_scheme services \<Rightarrow> cloud_config \<Rightarrow> request_origin \<Rightarrow> ustring \<Rightarrow> share_view \<Rightarrow> ('x cloud_tables_scheme, ustring) io" where
  "cancel_cloud_route sv cg request jobId share =
     bind_io (lift (requireSameOrigin request cg)) (\<lambda>_.
     bind_io (lift (requireFolderShareFeature share)) (\<lambda>_.
     bind_io (lift (cloudEnv cg)) (\<lambda>_.
     bind_io (requestCloudCancellation sv jobId (ps_id share) (ps_version share)) (\<lambda>cancelled.
     if \<not> cancelled then raise (Http 409 ''This transfer can no longer be cancelled'')
     else
       bind_io (getAuthorizedCloudJob sv jobId (ps_id share) (ps_version share)) (\<lambda>job.
       case job of None \<Rightarrow> raise (Failed ''Cannot read properties of null'') | Some j \<Rightarrow> ret (cj_id j))))))"

definition retry_name :: "ustring \<Rightarrow> ustring \<Rightarrow> ustring" where
  "retry_name jobId secret = jobId @ ustr ''-retry-'' @ secret"

definition retry_cloud_route ::
  "'x cloud_tables_scheme services \<Rightarrow> cloud_config \<Rightarrow> request_origin \<Rightarrow> ustring \<Rightarrow> share_view \<Rightarrow> ('x cloud_tables_scheme, ustring) io" where
  "retry_cloud_route sv cg request jobId share =
     bind_io (lift (requireSameOrigin request cg)) (\<lambda>_.
     bind_io (lift (requireFolderShareFeature share)) (\<lambda>_.
     bind_io (lift (cloudEnv cg)) (\<lambda>_.
     bind_io (retryFailedCloudItems sv jobId (ps_id share) (ps_version share)) (\<lambda>count.
     if count = 0 then raise (Http 409 ''There are no failed files to retry'')
     else
       bind_io (fresh sv) (\<lambda>secret.
       bind_io (await_db sv (create_transfer (retry_name jobId secret))) (\<lambda>_.
       bind_io (getAuthorizedCloudJob sv jobId (ps_id share) (ps_version share)) (\<lambda>job.
       case job of None \<Rightarrow> raise (Failed ''Cannot read properties of null'') | Some j \<Rightarrow> ret (cj_id j))))))))"

definition source_route ::
  "'x cloud_tables_scheme services \<Rightarrow> cloud_runtime \<Rightarrow> cloud_config \<Rightarrow> bool \<Rightarrow> ustring \<Rightarrow>
   ('x cloud_tables_scheme, r2_object \<times> byte list option) io" where
  "source_route sv cl cg head grant =
     bind_io (lift (cloudEnv cg)) (\<lambda>_.
     bind_io (readGrantedSource sv cl grant None) (\<lambda>(obj, bytes). ret (obj, if head then None else Some bytes)))"

end
