(* ===== verification/Cloud_Properties.thy ===== *)
theory Cloud_Properties
  imports Cloud_Copy Cloud_Routes Download_Properties
begin

section \<open>Properties of cloud copies\<close>

text \<open>
  A copy to Dropbox writes the source and nothing else; a job that an undisturbed run ends as completed
  has copied every file; and a job with an item that an interrupted attempt left as running is ended
  as completed although that file was not copied.
\<close>

subsection \<open>Calls that are served\<close>

lemma achieves_served:
  assumes "alone sv" and "\<And>w n. A w \<Longrightarrow> A (w\<lparr>w_calls := n\<rparr>)" and "\<And>w. A w \<Longrightarrow> R (fst (call w)) (snd (call w))"
  shows "achieves A (await sv call) F R"
  using assms by (simp add: achieves_def await_cases alone_def tick_def)

lemma achieves_False: "achieves (\<lambda>_. False) m F R"
  by (simp add: achieves_def)

lemma achieves_checkpoint:
  assumes "alone sv" and "achieves A m F R" and "\<And>x w n. R x w \<Longrightarrow> R x (w\<lparr>w_calls := n\<rparr>)"
  shows "achieves A (checkpointed sv m) F R"
  unfolding checkpointed_def
proof (rule achieves_bind [OF assms(2)])
  show "achieves (R x) (bind_io (await sv (\<lambda>w. ((), w))) (\<lambda>_. ret x)) F R" for x
    by (rule achieves_bind [where R = "\<lambda>_. R x", OF achieves_served [OF assms(1)]]) (auto intro: achieves_ret assms(3))
qed

lemma achieves_step:
  assumes "alone sv" and "achieves A m (\<lambda>_. False) R" and "\<And>x w n. R x w \<Longrightarrow> R x (w\<lparr>w_calls := n\<rparr>)"
  shows "achieves A (step_do sv n m) F R"
proof (cases n)
  case 0
  have "achieves A (checkpointed sv m) (\<lambda>_. False) R" by (rule achieves_checkpoint [OF assms])
  then show ?thesis unfolding 0 step_do.simps by (rule achieves_weaken) simp_all
next
  case (Suc m')
  show ?thesis unfolding Suc step_do.simps by (rule achieves_catch [OF achieves_checkpoint [OF assms] achieves_False])
qed

lemma achieves_keeps: "keeps P m \<Longrightarrow> achieves P m P (\<lambda>_. P)"
  unfolding keeps_def achieves_def by (metis (no_types, lifting) case_prod_beta sum.case_eq_if)

lemma keeps_served: "alone sv \<Longrightarrow> (\<And>w n. P w \<Longrightarrow> P (w\<lparr>w_calls := n\<rparr>)) \<Longrightarrow> (\<And>w. P w \<Longrightarrow> P (snd (call w))) \<Longrightarrow> keeps P (await sv call)"
  by (simp add: keeps_def await_cases alone_def tick_def)

subsection \<open>What a transfer leaves alone\<close>

definition row_shape :: "CloudTransferItem \<Rightarrow> ustring \<times> ustring \<times> CloudItemStatus \<times> nat" where
  "row_shape i = (ci_id i, ci_job i, ci_status i, ci_attempts i)"

definition shapes :: "'x cloud_tables_scheme \<Rightarrow> (ustring \<times> ustring \<times> CloudItemStatus \<times> nat) list" where
  "shapes w = map row_shape (cw_items w)"

definition steady :: "'x cloud_world_scheme \<Rightarrow> 'x cloud_world_scheme \<Rightarrow> bool" where
  "steady w0 w \<longleftrightarrow> cw_jobs w = cw_jobs w0 \<and> shapes w = shapes w0"

lemma steady_frames [simp]:
  "steady w0 (w\<lparr>w_calls := n\<rparr>) = steady w0 w" "steady w0 (w\<lparr>w_minted := n\<rparr>) = steady w0 w"
  "steady w0 (w\<lparr>cw_served := h\<rparr>) = steady w0 w" "steady w0 (w\<lparr>cw_authorizations := a\<rparr>) = steady w0 w"
  by (simp_all add: steady_def shapes_def)

lemma steady_state: "steady w0 w \<Longrightarrow> steady w0 (snd (store_state k e n w))"
proof -
  have "map row_shape (map (\<lambda>i. if ci_id i = k then i\<lparr>ci_state := Some e, ci_uploaded := n, ci_updated := t\<rparr> else i) is) = map row_shape is" for t "is"
    by (simp add: row_shape_def)
  then show "steady w0 w \<Longrightarrow> steady w0 (snd (store_state k e n w))"
    by (simp add: steady_def shapes_def store_state_def write_items_def del: map_map)
qed

lemma steady_read: "alone sv \<Longrightarrow> keeps (steady w0) (await sv (\<lambda>w. (f w, w)))"
  by (rule keeps_served) simp_all

lemma steady_get: "alone sv \<Longrightarrow> keeps (steady w0) (await sv (r2_get key c))"
  by (rule keeps_served) (simp_all add: r2_get_def split: option.split)

lemma steady_serve: "alone sv \<Longrightarrow> keeps (steady w0) (await sv (provider_serve pv call))"
  by (rule keeps_served) (simp_all add: provider_serve_def)

lemma steady_credential: "alone sv \<Longrightarrow> keeps (steady w0) (await sv (store_credential a e k x))"
  by (rule keeps_served) (simp_all add: store_credential_def write_authorizations_def)

lemma steady_store: "alone sv \<Longrightarrow> keeps (steady w0) (await sv (store_state k e n))"
  by (rule keeps_served) (simp_all add: steady_state)

lemma steady_fresh: "keeps (steady w0) (fresh sv)" "keeps (steady w0) js_now"
  by (simp_all add: keeps_def fresh_def js_now_def)

lemma steady_fetch: "alone sv \<Longrightarrow> keeps (steady w0) (providerFetch sv pv token call accepted op)"
  unfolding providerFetch_def by (intro keeps_catch keeps_bind keeps_ret steady_serve)

lemma keeps_then: "keeps P m \<Longrightarrow> (\<And>x. keeps P (k x)) \<Longrightarrow> keeps P (then_http m k)"
  unfolding then_http_def by (rule keeps_bind) (auto split: sum.split)

lemma keeps_demand: "keeps P m \<Longrightarrow> keeps P (demand m)"
  unfolding demand_def by (rule keeps_bind) (auto split: sum.split)

lemma keeps_parsed: "keeps P (parsed read v)"
  unfolding parsed_def by (intro keeps_bind keeps_ret)

lemma steady_json: "alone sv \<Longrightarrow> keeps (steady w0) (http_json sv pv token call op)"
  unfolding http_json_def by (intro keeps_then steady_fetch keeps_ret)

lemma steady_clients:
  assumes "alone sv"
  shows "keeps (steady w0) (dropbox_getMetadata sv pv token path)" "keeps (steady w0) (uploadSessionStart sv pv token b)"
    "keeps (steady w0) (uploadSessionAppend sv pv token i off b c)" "keeps (steady w0) (uploadSessionFinish sv pv token i off path b a)"
    "keeps (steady w0) (findByTransferId sv pv token p t)" "keeps (steady w0) (startResumableUpload sv pv token name p m n t)"
    "keeps (steady w0) (uploadChunk sv pv token u off n b)" "keeps (steady w0) (queryUploadStatus sv pv token u n)"
    "keeps (steady w0) (tokenRequest sv pv call op)"
  unfolding dropbox_getMetadata_def uploadSessionStart_def uploadSessionAppend_def uploadSessionFinish_def findByTransferId_def
    startResumableUpload_def uploadChunk_def queryUploadStatus_def tokenRequest_def drive_answer_def
  by (auto intro!: keeps_bind keeps_then keeps_demand keeps_parsed keeps_ret steady_json [OF assms] steady_fetch [OF assms]
      split: sum.split option.split)

lemma steady_save: "alone sv \<Longrightarrow> keeps (steady w0) (saveUploadState sv cl env job k st n)"
  unfolding saveUploadState_def encryptCloudSecret_def by (intro keeps_bind keeps_ret steady_fresh steady_store) (simp add: keeps_ret)

lemma steady_source: "alone sv \<Longrightarrow> keeps (steady w0) (sourceChunk sv item off n)"
  unfolding sourceChunk_def by (rule keeps_bind [OF steady_get]) (auto split: got.split)

lemma steady_cancelled: "alone sv \<Longrightarrow> keeps (steady w0) (cloudJobCancelled sv k)"
  unfolding cloudJobCancelled_def by (rule steady_read)

lemma steady_dropbox_chunks:
  "alone sv \<Longrightarrow> keeps (steady w0) (dropbox_chunks sv pv (item_port sv cl env job item) token item n i off restarted)"
  by (induction n arbitrary: i off restarted)
    (auto intro!: keeps_bind keeps_ret keeps_demand steady_cancelled steady_source steady_clients steady_save split: sum.split)

lemma steady_google_chunks:
  "alone sv \<Longrightarrow> keeps (steady w0) (google_chunks sv pv (item_port sv cl env job item) token item n u off)"
  by (induction n arbitrary: u off)
    (auto intro!: keeps_bind keeps_ret keeps_demand steady_cancelled steady_source steady_clients steady_save)

lemma steady_transfer:
  assumes "alone sv"
  shows "keeps (steady w0) (adapter_transfer sv pv (item_port sv cl env job item) p item credential destination mode)"
  unfolding adapter_transfer_def dropbox_transfer_def google_transfer_def dropbox_upload_def google_upload_def dropbox_finish_def Let_def
  by (auto intro!: keeps_bind keeps_ret keeps_demand steady_clients [OF assms] steady_save [OF assms] steady_dropbox_chunks [OF assms]
      steady_google_chunks [OF assms] split: CloudProvider.split option.split sum.split prod.split)

lemma steady_load: "alone sv \<Longrightarrow> keeps (steady w0) (loadCredential sv cl env pv job)"
  unfolding loadCredential_def renew_credential_def refresh_token_def encryptCloudSecret_def
  by (auto intro!: keeps_bind keeps_ret steady_read steady_fresh steady_clients steady_credential split: option.split)

subsection \<open>The rows of a job\<close>

definition item_waits :: "CloudItemStatus \<Rightarrow> bool" where
  "item_waits st \<longleftrightarrow> st \<in> {Item_queued, Item_retrying}"

definition ended :: "CloudItemStatus \<Rightarrow> bool" where
  "ended st \<longleftrightarrow> st \<in> {Item_completed, Item_skipped, Item_failed}"

text \<open>The job runs, nobody has cancelled it, and a failed item has been counted.\<close>

definition job_live :: "ustring \<Rightarrow> 'x cloud_tables_scheme \<Rightarrow> bool" where
  "job_live jobId w \<longleftrightarrow> (\<exists>j. find_cloud_job jobId w = Some j \<and> cj_status j = Cloud_running \<and> cj_cancel j = None \<and> 0 \<le> cj_failed j \<and>
     ((\<exists>i a. (i, jobId, Item_failed, a) \<in> set (shapes w)) \<longrightarrow> 0 < cj_failed j))"

text \<open>Every item of the job has ended, or waits, and the waiting ones are these, with their attempts.\<close>

definition rows_at :: "ustring \<Rightarrow> (ustring \<times> nat) list \<Rightarrow> ustring set \<Rightarrow> 'x cloud_tables_scheme \<Rightarrow> bool" where
  "rows_at jobId pend apart w \<longleftrightarrow> distinct (map fst (shapes w)) \<and> distinct (map fst pend) \<and> apart \<inter> fst ` set pend = {} \<and>
     (\<forall>i st a. (i, jobId, st, a) \<in> set (shapes w) \<longrightarrow> i \<notin> apart \<longrightarrow> ended st \<or> (i, a) \<in> set pend \<and> item_waits st \<and> a < 4) \<and>
     (\<forall>i a. (i, a) \<in> set pend \<longrightarrow> (\<exists>st. item_waits st \<and> (i, jobId, st, a) \<in> set (shapes w)))"

definition job_at :: "ustring \<Rightarrow> (ustring \<times> nat) list \<Rightarrow> 'x cloud_tables_scheme \<Rightarrow> bool" where
  "job_at jobId pend w \<longleftrightarrow> job_live jobId w \<and> rows_at jobId pend {} w"

definition running_at :: "ustring \<Rightarrow> ustring \<Rightarrow> nat \<Rightarrow> (ustring \<times> nat) list \<Rightarrow> 'x cloud_tables_scheme \<Rightarrow> bool" where
  "running_at jobId k a pend w \<longleftrightarrow> job_live jobId w \<and> rows_at jobId pend {k} w \<and> (k, jobId, Item_running, a) \<in> set (shapes w)"

lemma job_at_calls [simp]: "job_at jobId pend (w\<lparr>w_calls := n\<rparr>) = job_at jobId pend w" "running_at jobId k a pend (w\<lparr>w_calls := n\<rparr>) = running_at jobId k a pend w"
  by (simp_all add: job_at_def running_at_def job_live_def rows_at_def shapes_def find_cloud_job_def)

lemma running_steady: "steady w0 w \<Longrightarrow> running_at jobId k a pend w = running_at jobId k a pend w0"
  by (simp add: running_at_def job_live_def rows_at_def steady_def find_cloud_job_def)

lemma shapes_write:
  "(\<And>i. row_shape (if c i then ch (w_now w) i else i) = g (row_shape i)) \<Longrightarrow> shapes (snd (write_items (\<lambda>w. c) ch w)) = map g (shapes w)"
  by (simp add: shapes_def write_items_def)

lemma find_write:
  assumes "\<And>now j. cj_id (ch now j) = cj_id j"
  shows "find_cloud_job k (snd (write_jobs cond ch w)) = map_option (\<lambda>j. if cond w j then ch (w_now w) j else j) (find_cloud_job k w)"
proof -
  have "find (\<lambda>j. cj_id j = k) (map (\<lambda>j. if cond w j then ch (w_now w) j else j) js) =
      map_option (\<lambda>j. if cond w j then ch (w_now w) j else j) (find (\<lambda>j. cj_id j = k) js)" for js
    by (induction js) (simp_all add: assms)
  then show ?thesis by (simp add: find_cloud_job_def write_jobs_def)
qed

lemma find_job_id: "find_cloud_job k w = Some j \<Longrightarrow> cj_id j = k"
  by (auto simp: find_cloud_job_def find_Some_iff)

lemma shapes_jobs [simp]: "shapes (snd (write_jobs cond ch w)) = shapes w"
  by (simp add: shapes_def write_jobs_def)

lemma find_items [simp]: "find_cloud_job k (snd (write_items cond ch w)) = find_cloud_job k w"
  by (simp add: find_cloud_job_def write_items_def)

lemma now_items [simp]: "w_now (snd (write_items cond ch w)) = w_now w"
  by (simp add: write_items_def)

text \<open>The rows after one of them has another status.\<close>

definition with_status :: "ustring \<Rightarrow> CloudItemStatus \<Rightarrow> ustring \<times> ustring \<times> CloudItemStatus \<times> nat \<Rightarrow> ustring \<times> ustring \<times> CloudItemStatus \<times> nat" where
  "with_status k st s = (case s of (i, b, st0, a) \<Rightarrow> if i = k then (i, b, st, a) else s)"

lemma with_status_fst: "map fst (map (with_status k st) ss) = map fst ss"
  by (induction ss) (auto simp: with_status_def split: prod.split)

lemma with_status_mem:
  "(i, b, st, a) \<in> set (map (with_status k st1) ss) \<longleftrightarrow>
     (if i = k then st = st1 \<and> (\<exists>st0. (k, b, st0, a) \<in> set ss) else (i, b, st, a) \<in> set ss)"
proof (induction ss)
  case Nil
  show ?case by simp
next
  case (Cons s ss)
  obtain i0 b0 st0 a0 where s: "s = (i0, b0, st0, a0)" by (cases s)
  show ?case unfolding list.map set_simps insert_iff Cons.IH by (auto simp: s with_status_def)
qed

lemma distinct_shape: "distinct (map fst ss) \<Longrightarrow> (k, x) \<in> set ss \<Longrightarrow> (k, y) \<in> set ss \<Longrightarrow> x = y"
  by (meson eq_key_imp_eq_value)

lemma rows_atD:
  assumes "rows_at jobId pend apart w"
  shows "distinct (map fst (shapes w))" and "distinct (map fst pend)" and "i \<in> apart \<Longrightarrow> (i, a) \<notin> set pend"
    and "(i, jobId, st, a) \<in> set (shapes w) \<Longrightarrow> i \<notin> apart \<Longrightarrow> ended st \<or> (i, a) \<in> set pend \<and> item_waits st \<and> a < 4"
    and "(i, a) \<in> set pend \<Longrightarrow> \<exists>st. item_waits st \<and> (i, jobId, st, a) \<in> set (shapes w)"
  using assms unfolding rows_at_def by (blast, blast, force, blast, blast)

lemma rows_ended:
  assumes rows: "rows_at jobId pend {k} w" and w1: "shapes w1 = map (with_status k st) (shapes w)" and st: "ended st"
  shows "rows_at jobId pend {} w1"
  unfolding rows_at_def w1 with_status_fst
proof (intro conjI allI impI)
  show "ended st1 \<or> (i, a) \<in> set pend \<and> item_waits st1 \<and> a < 4"
    if "(i, jobId, st1, a) \<in> set (map (with_status k st) (shapes w))" for i st1 a
    using that rows_atD(4) [OF rows] st unfolding with_status_mem by (cases "i = k") auto
  show "\<exists>st1. item_waits st1 \<and> (i, jobId, st1, a) \<in> set (map (with_status k st) (shapes w))" if "(i, a) \<in> set pend" for i a
    using that rows_atD(3,5) [OF rows] unfolding with_status_mem by fastforce
qed (use rows_atD(1,2) [OF rows] in simp_all)

lemma rows_waiting:
  assumes rows: "rows_at jobId pend {k} w" and k: "(k, jobId, Item_running, a) \<in> set (shapes w)"
    and w1: "shapes w1 = map (with_status k Item_retrying) (shapes w)" and a: "a < 4"
  shows "rows_at jobId ((k, a) # pend) {} w1"
  unfolding rows_at_def w1 with_status_fst
proof (intro conjI allI impI)
  have same: "b = a" if "(k, jobId, st, b) \<in> set (shapes w)" for st b
    using distinct_shape [OF rows_atD(1) [OF rows] that k] by simp
  have retrying: "item_waits Item_retrying" by (simp add: item_waits_def)
  show "ended st1 \<or> (i, b) \<in> set ((k, a) # pend) \<and> item_waits st1 \<and> b < 4"
    if "(i, jobId, st1, b) \<in> set (map (with_status k Item_retrying) (shapes w))" for i st1 b
    using that rows_atD(4) [OF rows] same a retrying unfolding with_status_mem by (cases "i = k") auto
  show "\<exists>st1. item_waits st1 \<and> (i, jobId, st1, b) \<in> set (map (with_status k Item_retrying) (shapes w))" if "(i, b) \<in> set ((k, a) # pend)" for i b
  proof (cases "i = k")
    case True
    then have "b = a" using that rows_atD(3) [OF rows] by auto
    then show ?thesis using True k retrying unfolding with_status_mem by auto
  next
    case False
    then show ?thesis using that rows_atD(5) [OF rows] unfolding with_status_mem by auto
  qed
  show "distinct (map fst ((k, a) # pend))" using rows_atD(2,3) [OF rows] by force
qed (use rows_atD(1) [OF rows] in simp_all)

text \<open>An item starts, and ends or waits again.\<close>

definition started_shape :: "ustring \<Rightarrow> ustring \<times> ustring \<times> CloudItemStatus \<times> nat \<Rightarrow> ustring \<times> ustring \<times> CloudItemStatus \<times> nat" where
  "started_shape k s = (case s of (i, b, st, a) \<Rightarrow> if i = k \<and> item_waits st then (i, b, Item_running, Suc a) else s)"

lemma started_shape_fst: "map fst (map (started_shape k) ss) = map fst ss"
  by (induction ss) (auto simp: started_shape_def split: prod.split)

lemma started_shape_mem:
  "(i, b, st, a) \<in> set (map (started_shape k) ss) \<longleftrightarrow>
     (if i = k \<and> st = Item_running then (\<exists>st0 a0. item_waits st0 \<and> a = Suc a0 \<and> (i, b, st0, a0) \<in> set ss) \<or> (i, b, st, a) \<in> set ss
      else (i = k \<longrightarrow> \<not> item_waits st) \<and> (i, b, st, a) \<in> set ss)"
proof (induction ss)
  case Nil
  show ?case by simp
next
  case (Cons s ss)
  obtain i0 b0 st0 a0 where s: "s = (i0, b0, st0, a0)" by (cases s)
  show ?case unfolding list.map set_simps insert_iff Cons.IH by (auto simp: s started_shape_def item_waits_def)
qed

lemma rows_started:
  assumes rows: "rows_at jobId ((k, a) # pend) {} w" and w1: "shapes w1 = map (started_shape k) (shapes w)"
  shows "rows_at jobId pend {k} w1" and "(k, jobId, Item_running, Suc a) \<in> set (shapes w1)"
proof -
  obtain st0 where k: "item_waits st0" "(k, jobId, st0, a) \<in> set (shapes w)" using rows_atD(5) [OF rows, of k a] by auto
  show "(k, jobId, Item_running, Suc a) \<in> set (shapes w1)" unfolding w1 started_shape_mem using k by auto
  have fresh_k: "k \<notin> fst ` set pend" "distinct (map fst pend)" using rows_atD(2) [OF rows] by simp_all
  show "rows_at jobId pend {k} w1"
    unfolding rows_at_def w1 started_shape_fst
  proof (intro conjI allI impI)
    show "ended st \<or> (i, b) \<in> set pend \<and> item_waits st \<and> b < 4"
      if "(i, jobId, st, b) \<in> set (map (started_shape k) (shapes w))" "i \<notin> {k}" for i st b
      using that rows_atD(4) [OF rows, of i st b] unfolding started_shape_mem by auto
    show "\<exists>st. item_waits st \<and> (i, jobId, st, b) \<in> set (map (started_shape k) (shapes w))" if "(i, b) \<in> set pend" for i b
    proof -
      have "i \<noteq> k" using that fresh_k by force
      then show ?thesis using rows_atD(5) [OF rows, of i b] that unfolding started_shape_mem by auto
    qed
  qed (use rows_atD(1) [OF rows] fresh_k in auto)
qed

subsection \<open>One attempt\<close>

lemma find_shape:
  assumes "running_at jobId k a pend w"
  shows "\<exists>i. find_cloud_item k w = Some i \<and> row_shape i = (k, jobId, Item_running, a)"
proof -
  have rows: "distinct (map fst (shapes w))" "(k, jobId, Item_running, a) \<in> set (shapes w)"
    using assms rows_atD(1) unfolding running_at_def by blast+
  obtain i0 where i0: "i0 \<in> set (cw_items w)" "row_shape i0 = (k, jobId, Item_running, a)"
    using rows(2) unfolding shapes_def by auto
  have "find_cloud_item k w \<noteq> None" using i0 by (auto simp: find_cloud_item_def find_None_iff row_shape_def)
  then obtain i where i: "find_cloud_item k w = Some i" by blast
  then have i1: "i \<in> set (cw_items w)" "ci_id i = k" by (auto simp: find_cloud_item_def find_Some_iff)
  then have "(k, snd (row_shape i)) \<in> set (shapes w)" unfolding shapes_def by (force simp: row_shape_def)
  then have "snd (row_shape i) = (jobId, Item_running, a)" using distinct_shape [OF rows(1)] rows(2) by blast
  then show ?thesis using i i1 by (auto simp: row_shape_def)
qed

lemma live_shapes:
  assumes "job_live jobId w" and "find_cloud_job jobId w1 = find_cloud_job jobId w"
    and "\<And>i a. (i, jobId, Item_failed, a) \<in> set (shapes w1) \<Longrightarrow> (i, jobId, Item_failed, a) \<in> set (shapes w)"
  shows "job_live jobId w1"
  using assms unfolding job_live_def by metis

lemma item_marked:
  assumes "alone sv"
  shows "achieves (job_at jobId ((k, a) # pend)) (markCloudItemRunning sv k) F (\<lambda>_. running_at jobId k (Suc a) pend)"
proof -
  let ?mark = "write_items (\<lambda>w i. ci_id i = k \<and> ci_status i \<in> {Item_queued, Item_retrying})
       (\<lambda>now i. i\<lparr>ci_status := Item_running, ci_attempts := ci_attempts i + 1, ci_error := None, ci_updated := now\<rparr>)"
  have shapes: "shapes (snd (?mark w)) = map (started_shape k) (shapes w)" for w :: "'a cloud_tables_scheme"
    by (rule shapes_write) (auto simp: row_shape_def started_shape_def item_waits_def)
  have "running_at jobId k (Suc a) pend (snd (?mark w))" if w: "job_at jobId ((k, a) # pend) w" for w :: "'a cloud_tables_scheme"
  proof -
    have "job_live jobId (snd (?mark w))"
    proof (rule live_shapes)
      show "job_live jobId w" using w by (simp add: job_at_def)
      show "(i, jobId, Item_failed, b) \<in> set (shapes w)" if "(i, jobId, Item_failed, b) \<in> set (shapes (snd (?mark w)))" for i b
        using that unfolding shapes started_shape_mem by simp
    qed simp
    moreover have "rows_at jobId ((k, a) # pend) {} w" using w by (simp add: job_at_def)
    ultimately show ?thesis unfolding running_at_def using rows_started [OF _ shapes] by blast
  qed
  then show ?thesis unfolding markCloudItemRunning_def
    by (intro achieves_bind [OF achieves_served [OF assms, where R = "\<lambda>_. running_at jobId k (Suc a) pend"]] achieves_ret) simp_all
qed

definition row_of :: "ustring \<Rightarrow> ustring \<Rightarrow> nat \<Rightarrow> CloudTransferItem \<Rightarrow> bool" where
  "row_of jobId k a i \<longleftrightarrow> ci_id i = k \<and> ci_job i = jobId \<and> ci_attempts i = a"

lemma stored_result:
  assumes w: "running_at jobId k a pend w" and i: "row_of jobId k a i"
  shows "job_at jobId pend (snd (store_result i r w))"
proof -
  let ?w1 = "snd (write_items (\<lambda>w i1. ci_id i1 = ci_id i)
         (\<lambda>now i. i\<lparr>ci_status := result_status r, ci_uploaded := tr_uploaded r, ci_file := truthy_text (tr_file r),
            ci_provider_job := truthy_text (tr_job r), ci_error := None, ci_state := None, ci_grant := None,
            ci_completed := Some now, ci_updated := now\<rparr>) w)"
  have shapes1: "shapes ?w1 = map (with_status k (result_status r)) (shapes w)"
    by (rule shapes_write) (use i in \<open>auto simp: row_shape_def with_status_def row_of_def\<close>)
  have st: "ended (result_status r)" "result_status r \<noteq> Item_failed" by (simp_all add: result_status_def ended_def)
  have shapes2: "shapes (snd (store_result i r w)) = shapes ?w1" by (simp add: store_result_def)
  have rows: "rows_at jobId pend {k} w" and live: "job_live jobId w" using w by (simp_all add: running_at_def)
  obtain j where j: "find_cloud_job jobId w = Some j" "cj_status j = Cloud_running" "cj_cancel j = None" "0 \<le> cj_failed j"
    "(\<exists>i a. (i, jobId, Item_failed, a) \<in> set (shapes w)) \<longrightarrow> 0 < cj_failed j" using live unfolding job_live_def by blast
  have "\<exists>j1. find_cloud_job jobId (snd (store_result i r w)) = Some j1 \<and> cj_status j1 = cj_status j \<and> cj_cancel j1 = cj_cancel j \<and> cj_failed j1 = cj_failed j"
    using j(1) by (simp add: store_result_def find_write)
  moreover have "(i1, jobId, Item_failed, b) \<in> set (shapes w)" if "(i1, jobId, Item_failed, b) \<in> set (shapes (snd (store_result i r w)))" for i1 b
    using that st(2) unfolding shapes2 shapes1 with_status_mem by (auto split: if_splits)
  ultimately have "job_live jobId (snd (store_result i r w))" using j unfolding job_live_def by metis
  then show ?thesis using rows_ended [OF rows, of _ "result_status r"] shapes1 shapes2 st(1) by (simp add: job_at_def)
qed

definition attempts_left :: "ustring \<Rightarrow> nat \<Rightarrow> (ustring \<times> nat) list \<Rightarrow> (ustring \<times> nat) list" where
  "attempts_left k a pend = (if a < 4 then (k, a) # pend else pend)"

lemma stored_failure:
  assumes w: "running_at jobId k a pend w" and i: "row_of jobId k a i"
  shows "job_at jobId (if cf_retryable failure then attempts_left k a pend else pend) (snd (store_failure i failure stamp w))"
proof -
  let ?st = "failed_status i failure"
  let ?w1 = "snd (write_items (\<lambda>w i1. ci_id i1 = ci_id i)
      (\<lambda>now i1. i1\<lparr>ci_status := ?st, ci_error := Some (cf_code failure, cf_message failure),
         ci_retry := if ?st = Item_retrying then Some (stamp + min 300000 (5000 * 2 ^ ci_attempts i)) else None, ci_updated := now\<rparr>) w)"
  have shapes1: "shapes ?w1 = map (with_status k ?st) (shapes w)"
    by (rule shapes_write) (use i in \<open>auto simp: row_shape_def with_status_def row_of_def\<close>)
  have shapes2: "shapes (snd (store_failure i failure stamp w)) = shapes ?w1" by (simp add: store_failure_def Let_def)
  have rows: "rows_at jobId pend {k} w" and live: "job_live jobId w" and k: "(k, jobId, Item_running, a) \<in> set (shapes w)"
    using w by (simp_all add: running_at_def)
  obtain j where j: "find_cloud_job jobId w = Some j" "cj_status j = Cloud_running" "cj_cancel j = None" "0 \<le> cj_failed j"
    "(\<exists>i a. (i, jobId, Item_failed, a) \<in> set (shapes w)) \<longrightarrow> 0 < cj_failed j" using live unfolding job_live_def by blast
  show ?thesis
  proof (cases "?st = Item_failed")
    case True
    have "\<exists>j1. find_cloud_job jobId (snd (store_failure i failure stamp w)) = Some j1 \<and> cj_status j1 = Cloud_running \<and> cj_cancel j1 = None \<and> 0 < cj_failed j1"
      using j(1-4) find_job_id [OF j(1)] True i by (simp add: store_failure_def find_write row_of_def)
    then have "job_live jobId (snd (store_failure i failure stamp w))" unfolding job_live_def by force
    moreover have "\<not> (cf_retryable failure \<and> a < 4)" using True i by (simp add: failed_status_def row_of_def split: if_splits)
    ultimately show ?thesis using rows_ended [OF rows, of _ ?st] shapes1 shapes2 True by (auto simp: job_at_def ended_def attempts_left_def)
  next
    case False
    then have retrying: "?st = Item_retrying" "cf_retryable failure" "a < 4" using i by (auto simp: failed_status_def row_of_def split: if_splits)
    have "job_live jobId (snd (store_failure i failure stamp w))"
    proof (rule live_shapes [OF live])
      show "find_cloud_job jobId (snd (store_failure i failure stamp w)) = find_cloud_job jobId w"
        using retrying(1) by (simp add: store_failure_def)
      show "(i1, jobId, Item_failed, b) \<in> set (shapes w)" if "(i1, jobId, Item_failed, b) \<in> set (shapes (snd (store_failure i failure stamp w)))" for i1 b
        using that retrying(1) unfolding shapes2 shapes1 with_status_mem by (auto split: if_splits)
    qed
    then show ?thesis using rows_waiting [OF rows k _ retrying(3)] shapes1 shapes2 retrying by (simp add: job_at_def attempts_left_def)
  qed
qed

lemma achieves_steady:
  assumes "\<And>w0. keeps (steady w0) m"
  shows "achieves (running_at jobId k a pend) m (running_at jobId k a pend) (\<lambda>_. running_at jobId k a pend)"
proof -
  have "running_at jobId k a pend (snd (m w)) = running_at jobId k a pend w" for w :: "'a cloud_world_scheme"
  proof (rule running_steady)
    show "steady w (snd (m w))" using assms [of w] unfolding keeps_def by (simp add: steady_def case_prod_beta)
  qed
  then show ?thesis unfolding achieves_def by (metis (no_types, lifting) case_prod_beta sum.case_eq_if)
qed

text \<open>Rows after an attempt: the item has ended, or it waits with its attempts.\<close>

definition attempted :: "ustring \<Rightarrow> ustring \<Rightarrow> nat \<Rightarrow> (ustring \<times> nat) list \<Rightarrow> bool \<Rightarrow> 'x cloud_tables_scheme \<Rightarrow> bool" where
  "attempted jobId k a pend terminal w \<longleftrightarrow> job_at jobId (if terminal then pend else attempts_left k a pend) w"

lemma attempted_calls [simp]: "attempted jobId k a pend terminal (w\<lparr>w_calls := n\<rparr>) = attempted jobId k a pend terminal w"
  by (simp add: attempted_def)

lemma transfer_row_step:
  assumes "alone sv" and "row_of jobId k a current"
  shows "achieves (running_at jobId k a pend) (transfer_row sv cl env pv job destination current) F (attempted jobId k a pend)"
  unfolding transfer_row_def Let_def
proof (rule achieves_catch)
  let ?A = "running_at jobId k a pend"
  have result: "achieves ?A (bind_io (markCloudItemResult sv current r) (\<lambda>_. ret True)) ?A (attempted jobId k a pend)" for r
    unfolding markCloudItemResult_def
    by (intro achieves_bind [OF achieves_served [OF assms(1), where R = "\<lambda>_. job_at jobId pend"]] achieves_ret)
      (simp_all add: stored_result [OF _ assms(2)] attempted_def)
  show "achieves ?A (bind_io (loadCredential sv cl env pv job) (\<lambda>credential.
      bind_io (adapter_transfer sv pv (item_port sv cl env job current) (cj_provider job) current credential destination (cj_conflict job)) (\<lambda>result.
      bind_io (markCloudItemResult sv current result) (\<lambda>_. ret True)))) ?A (attempted jobId k a pend)"
    by (rule achieves_bind [OF achieves_steady [OF steady_load [OF assms(1)]]],
        rule achieves_bind [OF achieves_steady [OF steady_transfer [OF assms(1)]] result])
  have stamped: "achieves ?A js_now F (\<lambda>_. ?A)" by (rule achieves_now)
  have failure: "achieves ?A (bind_io (markCloudItemFailure sv current failure) (\<lambda>_. ret (\<not> cf_retryable failure))) F (attempted jobId k a pend)" for failure
  proof -
    have "achieves ?A (await sv (store_failure current failure stamp)) F (\<lambda>_. attempted jobId k a pend (\<not> cf_retryable failure))" for stamp
    proof (rule achieves_served [OF assms(1)])
      show "attempted jobId k a pend (\<not> cf_retryable failure) (snd (store_failure current failure stamp w))" if "?A w" for w
        using stored_failure [OF that assms(2), of failure stamp] by (cases "cf_retryable failure") (simp_all add: attempted_def)
    qed simp
    then show ?thesis unfolding markCloudItemFailure_def
      by (rule achieves_bind [OF achieves_bind [OF stamped]]) (rule achieves_ret)
  qed
  show "achieves ?A (bind_io (markCloudItemFailure sv current (classifyCloudFailure (error_message error)))
      (\<lambda>_. ret (\<not> cf_retryable (classifyCloudFailure (error_message error))))) F (attempted jobId k a pend)" for error
    by (rule failure)
qed

lemma transfer_attempt_step:
  assumes "alone sv"
  shows "achieves (job_at jobId ((k, a) # pend)) (transfer_attempt sv cl env pv job destination k) F (attempted jobId k (Suc a) pend)"
  unfolding transfer_attempt_def
proof (rule achieves_bind [OF item_marked [OF assms]])
  let ?A = "running_at jobId k (Suc a) pend"
  fix u :: unit
  have read: "achieves ?A (await sv (\<lambda>w. (find_cloud_item k w, w))) F (\<lambda>found w. (\<exists>i. found = Some i \<and> row_of jobId k (Suc a) i) \<and> ?A w)"
  proof (rule achieves_served [OF assms])
    show "(\<exists>i. fst (find_cloud_item k w, w) = Some i \<and> row_of jobId k (Suc a) i) \<and> ?A (snd (find_cloud_item k w, w))" if "?A w" for w
      using find_shape [OF that] that by (auto simp: row_shape_def row_of_def)
  qed simp
  show "achieves ?A (bind_io (await sv (\<lambda>w. (find_cloud_item k w, w))) (\<lambda>found. case found of
      None \<Rightarrow> bind_io (catch_io (bind_io (loadCredential sv cl env pv job) (\<lambda>_. ret ())) (\<lambda>_. ret ())) (\<lambda>_. raise (Failed ''Cannot read properties of null''))
    | Some current \<Rightarrow> transfer_row sv cl env pv job destination current)) F (attempted jobId k (Suc a) pend)"
    by (rule achieves_bind [OF read], rule achieves_fact) (auto intro: transfer_row_step [OF assms])
qed

lemma job_at_attempts: "job_at jobId ((k, a) # pend) w \<Longrightarrow> a < 4"
proof -
  assume "job_at jobId ((k, a) # pend) w"
  then have rows: "rows_at jobId ((k, a) # pend) {} w" by (simp add: job_at_def)
  obtain st where "item_waits st" "(k, jobId, st, a) \<in> set (shapes w)" using rows_atD(5) [OF rows, of k a] by auto
  then show "a < 4" using rows_atD(4) [OF rows, of k st a] by (auto simp: item_waits_def ended_def)
qed

lemma attempt_item_step:
  assumes "alone sv"
  shows "n \<le> 4 \<Longrightarrow> achieves (job_at jobId ((k, 4 - n) # pend)) (attempt_item sv cl env pv job destination k n) F (\<lambda>_. job_at jobId pend)"
proof (induction n)
  case 0
  have "\<not> job_at jobId ((k, 4) # pend) w" for w :: "'a cloud_world_scheme" using job_at_attempts [of jobId k 4 pend w] by blast
  then show ?case by (simp add: achieves_def)
next
  case (Suc n)
  have left: "4 - Suc n + 1 = 4 - n" "Suc (4 - Suc n) = 4 - n" using Suc.prems by simp_all
  have attempt: "achieves (job_at jobId ((k, 4 - Suc n) # pend)) (step_do sv DEFAULT_STEP_RETRIES (transfer_attempt sv cl env pv job destination k)) F
      (attempted jobId k (4 - n) pend)"
    by (rule achieves_step [OF assms]) (use transfer_attempt_step [OF assms, of jobId k "4 - Suc n"] left in simp_all)
  have again: "achieves (attempted jobId k (4 - n) pend False) (attempt_item sv cl env pv job destination k n) F (\<lambda>_. job_at jobId pend)"
  proof (cases n)
    case 0
    then show ?thesis by (auto intro: achieves_ret simp: attempted_def attempts_left_def)
  next
    case (Suc m)
    then have "4 - n < 4" using \<open>Suc n \<le> 4\<close> by simp
    then show ?thesis using Suc.prems by (intro achieves_weaken [OF Suc.IH]) (simp_all add: attempted_def attempts_left_def)
  qed
  have sleep: "achieves (attempted jobId k (4 - n) pend False) (step_sleep sv) F (\<lambda>_. attempted jobId k (4 - n) pend False)"
    and read: "achieves (attempted jobId k (4 - n) pend False) (await sv (\<lambda>w. (find_cloud_item k w, w))) F (\<lambda>_. attempted jobId k (4 - n) pend False)"
    unfolding step_sleep_def by (rule achieves_served [OF assms], simp_all)+
  show ?case
    unfolding attempt_item.simps
  proof (rule achieves_bind [OF attempt])
    show "achieves (attempted jobId k (4 - n) pend terminal) (if terminal then ret () else bind_io (step_sleep sv) (\<lambda>_.
        bind_io (await sv (\<lambda>w. (find_cloud_item k w, w))) (\<lambda>_. attempt_item sv cl env pv job destination k n))) F (\<lambda>_. job_at jobId pend)" for terminal
      by (cases terminal) (auto intro!: achieves_ret achieves_bind [OF sleep] achieves_bind [OF read] again simp: attempted_def)
  qed
qed

subsection \<open>The items of a job\<close>

definition pend_of :: "CloudTransferItem list \<Rightarrow> (ustring \<times> nat) list" where
  "pend_of items = map (\<lambda>i. (ci_id i, ci_attempts i)) (filter (\<lambda>i. item_waits (ci_status i)) items)"

definition halted :: "ustring \<Rightarrow> 'x cloud_tables_scheme \<Rightarrow> bool" where
  "halted jobId w \<longleftrightarrow> (\<exists>j. find_cloud_job jobId w = Some j \<and> cj_status j = Cloud_cancelling)"

lemma halted_calls [simp]: "halted jobId (w\<lparr>w_calls := n\<rparr>) = halted jobId w"
  by (simp add: halted_def find_cloud_job_def)

lemma achieves_given: "(\<And>w. A w \<Longrightarrow> P) \<Longrightarrow> (P \<Longrightarrow> achieves A m F R) \<Longrightarrow> achieves A m F R"
proof (cases P)
  case False
  then show "(\<And>w. A w \<Longrightarrow> P) \<Longrightarrow> achieves A m F R" by (auto simp: achieves_def)
qed

lemma job_at_open: "job_at jobId pend w \<Longrightarrow> \<exists>j. find_cloud_job jobId w = Some j \<and> \<not> cancels j"
  by (auto simp: job_at_def job_live_def cancels_def)

lemma stops_step:
  assumes "alone sv" and "cj_id job = jobId"
  shows "achieves (job_at jobId pend) (stops sv job) F (\<lambda>_. job_at jobId pend)"
  unfolding stops_def cloudJobCancelled_def shareActive_def
  by (rule achieves_bind [OF achieves_served [OF assms(1), where R = "\<lambda>_. job_at jobId pend"]])
    (auto intro!: achieves_ret achieves_bind [OF achieves_served [OF assms(1), where R = "\<lambda>_. job_at jobId pend"]])

lemma begin_cancelling_step:
  assumes "alone sv"
  shows "achieves (job_at jobId pend) (await sv (begin_cancelling jobId)) F (\<lambda>_. halted jobId)"
proof (rule achieves_served [OF assms])
  show "halted jobId (snd (begin_cancelling jobId w))" if w: "job_at jobId pend w" for w
  proof -
    obtain j where j: "find_cloud_job jobId w = Some j" using job_at_open [OF w] by blast
    then show ?thesis using find_job_id [OF j] by (simp add: halted_def begin_cancelling_def find_write)
  qed
qed simp

lemma transfer_items_step:
  assumes "alone sv" and "cj_id job = jobId"
  shows "achieves (job_at jobId (pend_of items)) (transfer_items sv cl env pv job destination items) F
    (\<lambda>_ w. job_at jobId [] w \<or> halted jobId w)"
proof (induction items)
  case Nil
  then show ?case by (auto intro: achieves_ret simp: pend_of_def)
next
  case (Cons item items)
  show ?case
  proof (cases "item_waits (ci_status item)")
    case False
    then have "pend_of (item # items) = pend_of items" "ci_status item \<notin> {Item_queued, Item_retrying}" by (simp_all add: pend_of_def item_waits_def)
    then show ?thesis using Cons.IH by simp
  next
    case True
    then have pend: "pend_of (item # items) = (ci_id item, ci_attempts item) # pend_of items" "ci_status item \<in> {Item_queued, Item_retrying}"
      by (simp_all add: pend_of_def item_waits_def)
    show ?thesis unfolding pend(1)
    proof (rule achieves_given [OF job_at_attempts])
      assume less: "ci_attempts item < 4"
      have one: "achieves (job_at jobId ((ci_id item, ci_attempts item) # pend_of items))
          (attempt_item sv cl env pv job destination (ci_id item) (4 - ci_attempts item)) F (\<lambda>_. job_at jobId (pend_of items))"
        using attempt_item_step [OF assms(1), of "4 - ci_attempts item" jobId "ci_id item" "pend_of items"] less by simp
      have stopped: "achieves (job_at jobId ((ci_id item, ci_attempts item) # pend_of items))
          (bind_io (await sv (begin_cancelling (cj_id job))) (\<lambda>_. ret ())) F (\<lambda>_ w. job_at jobId [] w \<or> halted jobId w)"
        unfolding assms(2) by (rule achieves_bind [OF begin_cancelling_step [OF assms(1)]]) (auto intro: achieves_ret)
      show "achieves (job_at jobId ((ci_id item, ci_attempts item) # pend_of items))
          (transfer_items sv cl env pv job destination (item # items)) F (\<lambda>_ w. job_at jobId [] w \<or> halted jobId w)"
        using pend(2)
        by (auto intro!: achieves_bind [OF stops_step [OF assms]] achieves_if stopped achieves_bind [OF one] Cons.IH)
    qed
  qed
qed

definition ready_job :: "ustring \<Rightarrow> 'x cloud_tables_scheme \<Rightarrow> bool" where
  "ready_job jobId w \<longleftrightarrow> job_live jobId w \<and> distinct (map fst (shapes w)) \<and>
     (\<forall>i st a. (i, jobId, st, a) \<in> set (shapes w) \<longrightarrow> ended st \<or> item_waits st \<and> a < 4)"

lemma ready_calls [simp]: "ready_job jobId (w\<lparr>w_calls := n\<rparr>) = ready_job jobId w"
  by (simp add: ready_job_def job_live_def shapes_def find_cloud_job_def)

lemma ids_shapes: "map fst (shapes w) = map ci_id (cw_items w)"
  by (simp add: shapes_def row_shape_def)

lemma listed_ids:
  assumes "distinct (map ci_id (cw_items w))"
  shows "distinct (map fst (pend_of (job_items jobId w)))"
proof -
  have "set (job_items jobId w) \<subseteq> set (cw_items w)" by (auto simp: job_items_def)
  then have "inj_on ci_id (set (job_items jobId w))" using assms by (auto simp: distinct_map intro: inj_on_subset)
  moreover have "distinct (job_items jobId w)" using assms by (simp add: job_items_def distinct_map)
  ultimately have "distinct (map ci_id (job_items jobId w))" by (simp add: distinct_map)
  then show ?thesis by (simp add: pend_of_def comp_def distinct_map_filter)
qed

lemma ready_listed:
  assumes "ready_job jobId w"
  shows "job_at jobId (pend_of (job_items jobId w)) w"
proof -
  have pend: "(i, a) \<in> set (pend_of (job_items jobId w)) \<longleftrightarrow> (\<exists>st. item_waits st \<and> (i, jobId, st, a) \<in> set (shapes w))" for i a
    by (auto simp: pend_of_def job_items_def shapes_def row_shape_def)
  have "rows_at jobId (pend_of (job_items jobId w)) {} w"
    unfolding rows_at_def
  proof (intro conjI allI impI)
    show "distinct (map fst (pend_of (job_items jobId w)))"
      using assms by (intro listed_ids) (simp add: ready_job_def ids_shapes)
    show "ended st \<or> (i, a) \<in> set (pend_of (job_items jobId w)) \<and> item_waits st \<and> a < 4" if "(i, jobId, st, a) \<in> set (shapes w)" for i st a
      using that assms unfolding pend ready_job_def by blast
  qed (use assms pend in \<open>auto simp: ready_job_def\<close>)
  then show ?thesis using assms by (simp add: job_at_def ready_job_def)
qed

subsection \<open>The end of a run\<close>

text \<open>The job has ended, none of its items is left, and as a completed job it has copied or skipped each.\<close>

definition settled :: "ustring \<Rightarrow> 'x cloud_tables_scheme \<Rightarrow> bool" where
  "settled jobId w \<longleftrightarrow> (\<exists>j. find_cloud_job jobId w = Some j \<and>
     cj_status j \<in> {Cloud_completed, Cloud_partial, Cloud_failed, Cloud_cancelled} \<and>
     (\<forall>i \<in> set (cw_items w). ci_job i = jobId \<longrightarrow> \<not> unsettled i \<and>
        (cj_status j = Cloud_completed \<longrightarrow> ci_status i \<in> {Item_completed, Item_skipped})))"

lemma settled_calls [simp]: "settled jobId (w\<lparr>w_calls := n\<rparr>) = settled jobId w"
  by (simp add: settled_def find_cloud_job_def)

lemma end_job_items:
  "cw_items (snd (end_job jobId st w)) = map (\<lambda>i. if ci_job i = jobId \<and> unsettled i then drop_item (w_now w) i else i) (cw_items w)"
  by (simp add: end_job_def Let_def write_items_def write_jobs_def write_authorizations_def)

lemma end_job_status:
  assumes "find_cloud_job jobId w = Some j" and "cj_status j \<in> {Cloud_queued, Cloud_running, Cloud_cancelling}"
  shows "\<exists>j1. find_cloud_job jobId (snd (end_job jobId st w)) = Some j1 \<and> cj_status j1 = st"
proof -
  have same: "find_cloud_job jobId (snd (write_authorizations c ch v)) = find_cloud_job jobId v" for c ch v
    by (simp add: write_authorizations_def find_cloud_job_def)
  show ?thesis using assms find_job_id [OF assms(1)] by (simp add: end_job_def Let_def same find_write)
qed

lemma dropped: "\<not> unsettled (drop_item now i)"
  by (simp add: drop_item_def unsettled_def)

lemma end_settled:
  assumes w: "job_at jobId [] w \<or> halted jobId w" and j: "find_cloud_job jobId w = Some j"
  shows "settled jobId (snd (end_job jobId (final_status (cancels j) j) w))"
proof -
  let ?st = "final_status (cancels j) j"
  have open_job: "cj_status j \<in> {Cloud_queued, Cloud_running, Cloud_cancelling}"
    using w j by (auto simp: job_at_def job_live_def halted_def)
  obtain j1 where j1: "find_cloud_job jobId (snd (end_job jobId ?st w)) = Some j1" "cj_status j1 = ?st"
    using end_job_status [OF j open_job] by blast
  have done_items: "ci_status i \<in> {Item_completed, Item_skipped}" if st: "?st = Cloud_completed" and i: "i \<in> set (cw_items w)" "ci_job i = jobId" for i
  proof -
    have counted: "\<not> cancels j" "\<not> 0 < cj_failed j" using st by (auto simp: final_status_def split: if_splits)
    then have at: "job_at jobId [] w" using w j by (auto simp: halted_def cancels_def)
    have shape: "(ci_id i, jobId, ci_status i, ci_attempts i) \<in> set (shapes w)" using i by (force simp: shapes_def row_shape_def)
    have "ended (ci_status i)" using at rows_atD(4) [OF _ shape] by (fastforce simp: job_at_def)
    moreover have "ci_status i \<noteq> Item_failed" using at counted(2) shape j by (auto simp: job_at_def job_live_def)
    ultimately show ?thesis by (simp add: ended_def)
  qed
  have "\<not> unsettled i1 \<and> (?st = Cloud_completed \<longrightarrow> ci_status i1 \<in> {Item_completed, Item_skipped})"
    if mem: "i1 \<in> set (cw_items (snd (end_job jobId ?st w)))" and own: "ci_job i1 = jobId" for i1
  proof -
    obtain i where i: "i \<in> set (cw_items w)" "i1 = (if ci_job i = jobId \<and> unsettled i then drop_item (w_now w) i else i)"
      using mem unfolding end_job_items set_map by (elim imageE) blast
    then have "ci_job i = jobId" using own by (auto simp: drop_item_def split: if_splits)
    then show ?thesis using i done_items [OF _ i(1)] dropped by (auto simp: unsettled_def)
  qed
  moreover have "?st \<in> {Cloud_completed, Cloud_partial, Cloud_failed, Cloud_cancelled}" by (simp add: final_status_def)
  ultimately show ?thesis using j1 unfolding settled_def by metis
qed

lemma job_found: "job_at jobId [] w \<or> halted jobId w \<Longrightarrow> \<exists>j. find_cloud_job jobId w = Some j"
  using job_at_open by (fastforce simp: halted_def)

lemma finalize_step:
  assumes "alone sv"
  shows "achieves (\<lambda>w. job_at jobId [] w \<or> halted jobId w) (finalizeCloudJob sv jobId) F (\<lambda>_. settled jobId)"
  unfolding finalizeCloudJob_def getCloudJob_def
proof (rule achieves_bind)
  let ?A = "\<lambda>w. job_at jobId [] w \<or> halted jobId w"
  show "achieves ?A (await sv (\<lambda>w. (find_cloud_job jobId w, w))) F (\<lambda>x w. (\<exists>j. x = Some j \<and> find_cloud_job jobId w = Some j) \<and> ?A w)"
    by (rule achieves_served [OF assms]) (simp_all add: job_found)
  fix x
  have ending: "achieves (\<lambda>w. find_cloud_job jobId w = Some j \<and> ?A w) (bind_io (cloudJobCancelled sv jobId) (\<lambda>cancelled.
      bind_io (await sv (end_job jobId (final_status cancelled j))) (\<lambda>_. await sv (\<lambda>w. (find_cloud_job jobId w, w))))) F (\<lambda>_. settled jobId)" for j
  proof (rule achieves_bind)
    show "achieves (\<lambda>w. find_cloud_job jobId w = Some j \<and> ?A w) (cloudJobCancelled sv jobId) F
        (\<lambda>c w. c = cancels j \<and> find_cloud_job jobId w = Some j \<and> ?A w)"
      unfolding cloudJobCancelled_def by (rule achieves_served [OF assms]) (simp_all add: find_cloud_job_def)
    have "achieves (\<lambda>w. find_cloud_job jobId w = Some j \<and> ?A w) (bind_io (await sv (end_job jobId (final_status (cancels j) j)))
        (\<lambda>_. await sv (\<lambda>w. (find_cloud_job jobId w, w)))) F (\<lambda>_. settled jobId)"
      by (rule achieves_bind [OF achieves_served [OF assms, where R = "\<lambda>_. settled jobId"] achieves_served [OF assms]])
        (use end_settled in \<open>auto simp: find_cloud_job_def\<close>)
    then show "achieves (\<lambda>w. c = cancels j \<and> find_cloud_job jobId w = Some j \<and> ?A w) (bind_io (await sv (end_job jobId (final_status c j)))
        (\<lambda>_. await sv (\<lambda>w. (find_cloud_job jobId w, w)))) F (\<lambda>_. settled jobId)" for c
      by (intro achieves_fact) simp
  qed
  show "achieves (\<lambda>w. (\<exists>j. x = Some j \<and> find_cloud_job jobId w = Some j) \<and> ?A w) (case x of None \<Rightarrow> ret None
      | Some job \<Rightarrow> bind_io (cloudJobCancelled sv jobId) (\<lambda>cancelled. bind_io (await sv (end_job jobId (final_status cancelled job)))
          (\<lambda>_. await sv (\<lambda>w. (find_cloud_job jobId w, w))))) F (\<lambda>_. settled jobId)"
    by (cases x) (use ending in \<open>auto simp: achieves_def\<close>)
qed

lemma transfer_job_step:
  assumes "alone sv" and "cj_id job = jobId"
  shows "achieves (ready_job jobId) (transfer_job sv cl env pv job) (\<lambda>_. True) (\<lambda>_. settled jobId)"
  unfolding transfer_job_def listCloudItems_def assms(2)
proof (rule achieves_bind [OF achieves_lift [where R = "\<lambda>_. ready_job jobId", OF TrueI]])
  have listing: "achieves (ready_job jobId) (await sv (\<lambda>w. (job_items jobId w, w))) (\<lambda>_. True) (\<lambda>items. job_at jobId (pend_of items))"
    by (rule achieves_served [OF assms(1)]) (simp_all add: ready_listed)
  have ending: "achieves (\<lambda>w. job_at jobId [] w \<or> halted jobId w) (step_do sv DEFAULT_STEP_RETRIES (bind_io (finalizeCloudJob sv jobId) (\<lambda>_. ret ())))
      (\<lambda>_. True) (\<lambda>_. settled jobId)"
    by (intro achieves_step [OF assms(1)] achieves_bind [OF finalize_step [OF assms(1)]] achieves_ret) simp_all
  show "achieves (ready_job jobId) (bind_io (await sv (\<lambda>w. (job_items jobId w, w))) (\<lambda>items.
      bind_io (transfer_items sv cl env pv job d items) (\<lambda>_. step_do sv DEFAULT_STEP_RETRIES (bind_io (finalizeCloudJob sv jobId) (\<lambda>_. ret ())))))
      (\<lambda>_. True) (\<lambda>_. settled jobId)" for d
    by (intro achieves_bind [OF listing] achieves_bind [OF transfer_items_step [OF assms]] ending)
qed

subsection \<open>The selection of a job\<close>

text \<open>A selection only reads; the rows that replace those of the job are queued, and no two rows share an identifier.\<close>

lemma keeps_reads: "alone sv \<Longrightarrow> (\<And>w n. P w \<Longrightarrow> P (w\<lparr>w_calls := n\<rparr>)) \<Longrightarrow> (\<And>w. snd (call w) = w) \<Longrightarrow> keeps P (await sv call)"
  by (rule keeps_served) simp_all

lemma keeps_select_items:
  assumes "alone sv" and "\<And>w n. P w \<Longrightarrow> P (w\<lparr>w_calls := n\<rparr>)"
  shows "keeps P (select_items sv root tombstones refs st)"
proof (induction refs arbitrary: st)
  case Nil
  then show ?case by (simp add: keeps_ret)
next
  case (Cons ref refs)
  obtain files prefixes where st: "st = (files, prefixes)" by (cases st)
  show ?case unfolding st select_items.simps Let_def
    by (auto intro!: keeps_bind keeps_ret Cons.IH keeps_reads assms simp: r2_head_def split: option.split)
qed

lemma keeps_folder_files:
  assumes "alone sv" and "\<And>w n. P w \<Longrightarrow> P (w\<lparr>w_calls := n\<rparr>)"
  shows "keeps P (folder_files sv tombstones prefix n cursor files)"
  by (induction n arbitrary: cursor files) (auto simp: Let_def r2_list_def intro!: keeps_bind keeps_ret keeps_reads assms split: option.split)

lemma keeps_snapshot:
  assumes "alone sv" and "\<And>w n. P w \<Longrightarrow> P (w\<lparr>w_calls := n\<rparr>)"
  shows "keeps P (snapshot sv br job)"
proof -
  have folders: "keeps P (folders_files sv tombstones prefixes files)" for tombstones prefixes files
    by (induction prefixes arbitrary: files) (auto intro!: keeps_bind keeps_ret keeps_folder_files assms)
  have "keeps P (selected_files sv root tombstones request)" for root tombstones request
    unfolding selected_files_def whole_share_def
    by (auto intro!: keeps_bind keeps_ret keeps_select_items folders keeps_reads assms split: option.split prod.split)
  moreover have "keeps P (name_sources sv br root files)" for root files
    unfolding name_sources_def Let_def by (auto intro!: keeps_bind keeps_ret keeps_reads assms split: option.split)
  ultimately show ?thesis
    unfolding snapshot_def read_share_def by (auto intro!: keeps_bind keeps_ret keeps_reads assms split: option.split)
qed

definition untouched_job :: "ustring \<Rightarrow> 'x cloud_tables_scheme \<Rightarrow> bool" where
  "untouched_job jobId w \<longleftrightarrow> distinct (map ci_id (cw_items w)) \<and>
     (\<exists>j. find_cloud_job jobId w = Some j \<and> cj_status j = Cloud_queued \<and> cj_cancel j = None)"

lemma new_frames [simp]: "untouched_job jobId (w\<lparr>w_calls := n\<rparr>) = untouched_job jobId w" "untouched_job jobId (w\<lparr>w_minted := n\<rparr>) = untouched_job jobId w"
  by (simp_all add: untouched_job_def find_cloud_job_def)

lemma inserted_items:
  "insert_cloud_items is w = Inr w1 \<Longrightarrow> distinct (map ci_id (cw_items w)) \<Longrightarrow>
   cw_items w1 = cw_items w @ is \<and> cw_jobs w1 = cw_jobs w \<and> distinct (map ci_id (cw_items w1))"
proof (induction "is" arbitrary: w)
  case Nil
  then show ?case by simp
next
  case (Cons i "is")
  then obtain w2 where w2: "insert_cloud_item i w = Inr w2" "insert_cloud_items is w2 = Inr w1" by (auto split: sum.splits)
  have step: "cw_items w2 = cw_items w @ [i]" "cw_jobs w2 = cw_jobs w" "\<not> list_ex (clashes i) (cw_items w)"
    using w2(1) by (auto simp: insert_cloud_item_def split: if_splits)
  have "distinct (map ci_id (cw_items w2))" using step(1,3) Cons.prems(2) by (auto simp: list_ex_iff clashes_def)
  note rest = Cons.IH [OF w2(2) this]
  have "cw_items w1 = cw_items w @ i # is" "cw_jobs w1 = cw_jobs w" using rest step(1,2) by simp_all
  then show ?case using rest by blast
qed

lemma replaced_ready:
  assumes "untouched_job (cj_id job) w" and "replace_rows job sources rows w = (Inr u, w')"
  shows "ready_job (cj_id job) w'"
proof -
  let ?w0 = "w\<lparr>cw_items := filter (\<lambda>i. ci_job i \<noteq> cj_id job) (cw_items w)\<rparr>"
  let ?new = "map (\<lambda>(itemId, n, s). new_item itemId job n s (w_now w)) rows"
  obtain w1 where w1: "insert_cloud_items ?new ?w0 = Inr w1"
    "w' = snd (write_jobs (\<lambda>w j. cj_id j = cj_id job \<and> cj_status j = Cloud_queued) (start_job sources) w1)"
    using assms(2) by (auto simp: replace_rows_def split: sum.splits)
  have "distinct (map ci_id (cw_items ?w0))" using assms(1) by (simp add: untouched_job_def distinct_map_filter)
  note inserted = inserted_items [OF w1(1) this]
  have items: "cw_items w1 = filter (\<lambda>i. ci_job i \<noteq> cj_id job) (cw_items w) @ ?new" "cw_jobs w1 = cw_jobs w"
    and ids: "distinct (map ci_id (cw_items w1))"
    using inserted by (simp, simp, blast)
  obtain j where j: "find_cloud_job (cj_id job) w = Some j" "cj_status j = Cloud_queued" "cj_cancel j = None"
    using assms(1) by (auto simp: untouched_job_def)
  have found: "find_cloud_job (cj_id job) w' = Some (start_job sources (w_now w1) j)"
    using j find_job_id [OF j(1)] items(2) unfolding w1(2)
    by (subst find_write) (simp_all add: start_job_def find_cloud_job_def)
  have shape: "st = Item_queued \<and> a = 0" if "(i, cj_id job, st, a) \<in> set (shapes w')" for i st a
    using that unfolding w1(2) shapes_jobs unfolding shapes_def items(1) by (auto simp: row_shape_def new_item_def)
  have "distinct (map fst (shapes w'))" using ids unfolding w1(2) shapes_jobs ids_shapes .
  then show ?thesis using found j(3) shape unfolding ready_job_def job_live_def
    by (fastforce simp: start_job_def item_waits_def)
qed

lemma achieves_retry:
  assumes "alone sv" and "achieves A m A R" and "\<And>x w n. R x w \<Longrightarrow> R x (w\<lparr>w_calls := n\<rparr>)"
  shows "achieves A (step_do sv n m) A R"
  by (induction n) (auto intro!: achieves_checkpoint assms intro: achieves_catch)

lemma store_selection_step:
  assumes "alone sv"
  shows "achieves (untouched_job (cj_id job)) (store_selection sv br job) (\<lambda>_. True) (\<lambda>_. ready_job (cj_id job))"
proof -
  let ?A = "untouched_job (cj_id job)"
  have snap: "achieves ?A (step_do sv DEFAULT_STEP_RETRIES (snapshotCloudTransfer sv br job)) ?A (\<lambda>_. ?A)"
    unfolding snapshotCloudTransfer_def
    by (intro achieves_retry [OF assms] achieves_keeps keeps_bind keeps_snapshot [OF assms] keeps_ret) simp_all
  have numbered: "keeps ?A (number_sources sv n sources)" for n sources
  proof (induction sources arbitrary: n)
    case (Cons s ss)
    have "keeps ?A (fresh sv)" by (simp add: keeps_def fresh_def)
    then show ?case by (auto intro!: keeps_bind keeps_ret Cons.IH)
  qed (simp add: keeps_ret)
  have served: "achieves ?A (await sv (replace_rows job sources rows)) ?A (\<lambda>r w. case r of Inl f \<Rightarrow> ?A w | Inr u \<Rightarrow> ready_job (cj_id job) w)"
    for sources rows
  proof (rule achieves_served [OF assms])
    fix w assume w: "?A w"
    show "case fst (replace_rows job sources rows w) of Inl f \<Rightarrow> ?A (snd (replace_rows job sources rows w))
        | Inr u \<Rightarrow> ready_job (cj_id job) (snd (replace_rows job sources rows w))"
      using w replaced_ready [OF w, of sources rows] by (auto simp: replace_rows_def split: sum.split)
  qed simp
  have answer: "achieves (\<lambda>w. case r of Inl f \<Rightarrow> ?A w | Inr u \<Rightarrow> ready_job (cj_id job) w) (lift r) ?A (\<lambda>_. ready_job (cj_id job))"
    for r :: "fault + unit"
    by (cases r) (auto simp: achieves_def lift_def)
  have rows: "achieves ?A (replaceCloudItems sv job sources) ?A (\<lambda>_. ready_job (cj_id job))" for sources
    unfolding replaceCloudItems_def await_db_def
    by (rule achieves_bind [OF achieves_keeps [OF numbered]], rule achieves_bind [OF served answer])
  show ?thesis
    unfolding store_selection_def
    by (rule achieves_weaken [OF achieves_bind [OF snap achieves_retry [OF assms rows]]]) simp_all
qed

subsection \<open>The whole run\<close>

lemma ready_found: "ready_job jobId w \<Longrightarrow> \<exists>j. find_cloud_job jobId w = Some j \<and> cj_id j = jobId \<and> cj_status j = Cloud_running"
  using find_job_id by (fastforce simp: ready_job_def job_live_def)

lemma startable_found: "untouched_job jobId w \<or> ready_job jobId w \<Longrightarrow> \<exists>j. find_cloud_job jobId w = Some j"
  using ready_found by (fastforce simp: untouched_job_def)

lemma run_steps:
  assumes "alone sv"
  shows "achieves (\<lambda>w. find_cloud_job jobId w = Some j \<and> (untouched_job jobId w \<or> ready_job jobId w)) (run_cloud_steps sv br cl env pv j)
    (\<lambda>_. True) (\<lambda>_. settled jobId)"
proof -
  let ?A = "\<lambda>w. find_cloud_job jobId w = Some j \<and> (untouched_job jobId w \<or> ready_job jobId w)"
  have first: "achieves ?A (if cj_status j = Cloud_queued then store_selection sv br j else ret ()) (\<lambda>_. True) (\<lambda>_. ready_job jobId)"
  proof (cases "cj_status j = Cloud_queued")
    case True
    have "achieves ?A (store_selection sv br j) (\<lambda>_. True) (\<lambda>_. ready_job jobId)"
    proof (rule achieves_given)
      show "?A w \<Longrightarrow> cj_id j = jobId" for w :: "'a cloud_world_scheme" using find_job_id by blast
      assume own: "cj_id j = jobId"
      show "achieves ?A (store_selection sv br j) (\<lambda>_. True) (\<lambda>_. ready_job jobId)"
        by (rule achieves_weaken [OF store_selection_step [OF assms, of j, unfolded own]])
          (use True in \<open>auto simp: ready_job_def job_live_def\<close>)
    qed
    then show ?thesis using True by simp
  next
    case False
    then show ?thesis by (auto intro!: achieves_ret simp: untouched_job_def)
  qed
  have found: "achieves (ready_job jobId) (getCloudJob sv jobId) (\<lambda>_. True)
      (\<lambda>x w. (\<exists>j1. x = Some j1 \<and> cj_id j1 = jobId \<and> cj_status j1 = Cloud_running) \<and> ready_job jobId w)"
    unfolding getCloudJob_def
    by (rule achieves_served [OF assms]) (simp_all add: ready_found)
  show ?thesis
  proof (rule achieves_given)
    show "?A w \<Longrightarrow> cj_id j = jobId" for w :: "'a cloud_world_scheme" using find_job_id by blast
    assume own: "cj_id j = jobId"
    show "achieves ?A (run_cloud_steps sv br cl env pv j) (\<lambda>_. True) (\<lambda>_. settled jobId)"
      unfolding run_cloud_steps_def own
      by (rule achieves_bind [OF first], rule achieves_bind [OF found], rule achieves_fact)
        (auto intro!: transfer_job_step [OF assms])
  qed
qed

section \<open>The theorems about cloud copies\<close>

subsection \<open>Samples\<close>

text \<open>
  A Dropbox with one upload session, that checks offsets: its content follows from the history, latest
  call first.
\<close>

definition the_session :: ustring where
  "the_session = [115]"

fun only_session :: "served_call list \<Rightarrow> byte list option" where
  "only_session [] = None"
| "only_session ((token, call) # older) =
     (case call of
        Dropbox_start bytes \<Rightarrow> (case only_session older of None \<Rightarrow> Some bytes | Some c \<Rightarrow> Some c)
      | Dropbox_append i off chunk close \<Rightarrow>
          (case only_session older of None \<Rightarrow> None
           | Some c \<Rightarrow> Some (if i = Some the_session \<and> off = int (length c) then c @ chunk else c))
      | _ \<Rightarrow> only_session older)"

definition plain_answer :: "nat \<Rightarrow> json option \<Rightarrow> provider_response" where
  "plain_answer status body = \<lparr>hr_status = status, hr_body = body, hr_range = None, hr_location = None\<rparr>"

definition at_end :: "served_call list \<Rightarrow> ustring option \<Rightarrow> int \<Rightarrow> bool" where
  "at_end older i off \<longleftrightarrow> i = Some the_session \<and> map_option (\<lambda>c. int (length c)) (only_session older) = Some off"

definition sample_dropbox :: provider where
  "sample_dropbox h c = (case snd c of
     Dropbox_start bytes \<Rightarrow> if only_session (rev h) = None then plain_answer 200 (Some (Json_record [(ustr ''session_id'', Json_text the_session)]))
       else plain_answer 503 None
   | Dropbox_append i off chunk close \<Rightarrow> plain_answer (if at_end (rev h) i off then 200 else 409) None
   | Dropbox_finish i off path chunk autorename \<Rightarrow>
       if at_end (rev h) i off then plain_answer 200 (Some (Json_record [(ustr ''id'', Json_text [105])])) else plain_answer 409 None
   | _ \<Rightarrow> plain_answer 404 None)"

lemma sample_answers:
  "started (sample_dropbox h (t, Dropbox_start bytes)) = (if only_session (rev h) = None then Some the_session else None)"
  "hr_status (sample_dropbox h (t, Dropbox_append i off chunk close)) = (if at_end (rev h) i off then 200 else 409)"
  "hr_status (sample_dropbox h (t, Dropbox_finish i off path chunk autorename)) = (if at_end (rev h) i off then 200 else 409)"
  by (simp_all add: sample_dropbox_def started_def plain_answer_def record_field_def as_text_def)

lemma dropbox_session: "session_of sample_dropbox s h = (if s = the_session then only_session h else None)"
proof (induction h)
  case Nil
  then show ?case by simp
next
  case (Cons c h)
  obtain token call where c: "c = (token, call)" by (cases c)
  show ?case
  proof (cases call)
    case (Dropbox_append i off chunk close)
    then show ?thesis by (cases "only_session h") (auto simp: c Cons.IH sample_answers at_end_def)
  qed (auto simp: c Cons.IH sample_answers split: option.split)
qed

lemma sample_checks: "checks_offsets sample_dropbox"
proof -
  have "session_bytes sample_dropbox h s = (if s = the_session then only_session (rev h) else None)" for h s
    by (simp add: session_bytes_def dropbox_session)
  then show ?thesis
    by (auto simp: checks_offsets_def ends_at_def sample_answers at_end_def split: if_splits)
qed

text \<open>A cipher that leaves texts as they are, and no state that is stored.\<close>

definition sample_cloud :: cloud_runtime where
  "sample_cloud = \<lparr>cl_seal = (\<lambda>secret iv purpose t. t), cl_open = (\<lambda>secret iv purpose t. Some t), cl_digest = id,
     cl_credential = (\<lambda>_. Some \<lparr>cc_access = [116], cc_refresh = None, cc_expires = None, cc_scope = None\<rparr>),
     cl_credential_text = cc_access, cl_state = (\<lambda>_. None), cl_secret = (\<lambda>_. None), cl_pending = (\<lambda>_. False),
     cl_destination = (\<lambda>_. Some \<lparr>cd_path = None, cd_folder = None\<rparr>)\<rparr>"

lemma sample_opens: "opens_sealed sample_cloud"
  by (simp add: opens_sealed_def sample_cloud_def)

definition sample_secrets :: cloud_env where
  "sample_secrets = \<lparr>ce_secret = replicate 32 97, ce_previous = None, ce_key_id = None, ce_previous_id = None\<rparr>"

definition sample_cloud_job :: "CloudJobStatus \<Rightarrow> CloudTransferJob" where
  "sample_cloud_job status = \<lparr>cj_id = [106], cj_share = ustr ''share'', cj_version = 3, cj_authorization = [97], cj_provider = Dropbox,
     cj_selection = [], cj_destination = [], cj_conflict = Autorename, cj_status = status, cj_files = 1, cj_processed_files = 0,
     cj_succeeded = 0, cj_failed = 0, cj_total = 3, cj_processed = 0, cj_cancel = None, cj_error = None, cj_updated = 0,
     cj_started = None, cj_completed = None, cj_expires = 1000000\<rparr>"

definition sample_cloud_item :: "CloudItemStatus \<Rightarrow> CloudTransferItem" where
  "sample_cloud_item status = \<lparr>ci_id = [105], ci_job = [106], ci_ordinal = 0, ci_source = [107], ci_path = [102], ci_etag = [1, 2, 3],
     ci_size = 3, ci_destination = [102], ci_status = status,
     ci_attempts = (if status = Item_queued then 0 else 1), ci_uploaded = 0, ci_file = None, ci_provider_job = None,
     ci_state = None, ci_grant = None, ci_error = None, ci_retry = None, ci_updated = 7, ci_completed = None\<rparr>"

definition sample_authorization :: cloud_authorization where
  "sample_authorization = \<lparr>ca_id = [97], ca_share = ustr ''share'', ca_version = 3, ca_provider = Dropbox, ca_credential = ([120], [105]),
     ca_key_id = ustr ''v1'', ca_token_expires = None, ca_expires = 1000000, ca_revoked = None, ca_used = None\<rparr>"

definition cloud_sample :: "CloudTransferJob list \<Rightarrow> CloudTransferItem list \<Rightarrow> cloud_world" where
  "cloud_sample jobs items = \<lparr>w_bucket = [[107] \<mapsto> sample_object [107] [1, 2, 3]], w_index = \<lparr>ix_rows = (\<lambda>_. None), ix_revisions = (\<lambda>_. None)\<rparr>,
     w_locations = [], w_recovery = [], w_suppressions = [], w_folders = [], w_outbox = [], w_now = 7, w_calls = 0, w_minted = 0,
     dw_shares = [guest_share], dw_projects = [guest_project], dw_events = [], bw_jobs = [], bw_cache = [], bw_generations = [], bw_checksums = [],
     bw_used = (\<lambda>_. 0), bw_cursors = (\<lambda>_. None), bw_quota = [], bw_uploads = (\<lambda>_. None), bw_instances = [], bw_tombstones = [],
     bw_aliases = [], cw_jobs = jobs, cw_items = items, cw_authorizations = [sample_authorization], cw_oauth = [], cw_instances = [], cw_hourly = [],
     cw_served = []\<rparr>"

lemma sample_await: "await (sample_services (\<lambda>_. Served)) call w =
   (let x = call (w\<lparr>w_calls := Suc (w_calls w)\<rparr>) in (Inr (fst x), snd x))"
  by (simp add: await_cases tick_def sample_services_def Let_def)

definition copying :: "nat \<Rightarrow> nat \<Rightarrow> CloudTransferItem \<Rightarrow> served_call list \<Rightarrow> cloud_world" where
  "copying calls minted item served = (cloud_sample [sample_cloud_job Cloud_running] [item])
     \<lparr>w_calls := calls, w_minted := minted, cw_served := served\<rparr>"

lemma copying_begins: "cloud_sample [sample_cloud_job Cloud_running] [item] = copying 0 0 item []"
  by (simp add: copying_def cloud_sample_def)

abbreviation copy_services :: "cloud_world services" where
  "copy_services \<equiv> sample_services (\<lambda>_. Served)"

lemma copying_serve:
  "providerFetch copy_services sample_dropbox token call {200} operation (copying n m item h) =
    (let r = sample_dropbox h (token, call) in (Inr (if hr_status r = 200 then Inr r else Inl (status_error operation r)), copying (Suc n) m item (h @ [(token, call)])))"
  by (simp add: providerFetch_def io_simps catch_io_def sample_await Let_def provider_serve_def copying_def)

lemma sample_mint: "fresh (sample_services (\<lambda>_. Served)) w = (Inr [117, w_minted w], w\<lparr>w_minted := Suc (w_minted w)\<rparr>)"
  by (simp add: fresh_def sample_services_def)

definition saved_item :: "nat \<Rightarrow> int \<Rightarrow> CloudTransferItem \<Rightarrow> CloudTransferItem" where
  "saved_item m bytes item = item\<lparr>ci_state := Some (upload_state_json (dropbox_state (Some the_session)), [117, m]), ci_uploaded := bytes, ci_updated := 7\<rparr>"

lemma copying_save:
  "ci_id item = [105] \<Longrightarrow> saveUploadState copy_services sample_cloud sample_secrets job [105] (dropbox_state (Some the_session)) bytes (copying n m item h) =
    (Inr (), copying (Suc n) (Suc m) (saved_item m bytes item) h)"
  by (simp add: saveUploadState_def encryptCloudSecret_def io_simps sample_await sample_mint Let_def sample_secrets_def sample_cloud_def js_length_def
      sum_list_replicate store_state_def write_items_def copying_def cloud_sample_def saved_item_def)

lemma copying_cancelled: "cloudJobCancelled copy_services [106] (copying n m item h) = (Inr False, copying (Suc n) m item h)"
  by (simp add: cloudJobCancelled_def sample_await Let_def copying_def cloud_sample_def find_cloud_job_def sample_cloud_job_def cancels_def)

lemma copying_chunk: "sourceChunk copy_services (sample_cloud_item st) 0 3 (copying n m item h) = (Inr [1, 2, 3], copying (Suc n) m item h)"
  by (simp add: sourceChunk_def sample_await Let_def io_simps r2_get_def put_allowed_def copying_def cloud_sample_def sample_cloud_item_def
      sample_object_def subrange_def)

abbreviation dropbox_result :: "fault + CloudProviderTransferResult" where
  "dropbox_result \<equiv> Inr \<lparr>tr_skipped = False, tr_file = Some [105], tr_job = None, tr_uploaded = 3\<rparr>"

text \<open>A transfer of the sample item, from the first call to the last.\<close>

definition sample_transfer :: "(fault + CloudProviderTransferResult) \<times> cloud_world" where
  "sample_transfer = adapter_transfer copy_services sample_dropbox
     (item_port copy_services sample_cloud sample_secrets (sample_cloud_job Cloud_running) (sample_cloud_item Item_running))
     Dropbox (sample_cloud_item Item_running) \<lparr>cc_access = [116], cc_refresh = None, cc_expires = None, cc_scope = None\<rparr>
     \<lparr>cd_path = None, cd_folder = None\<rparr> Autorename (cloud_sample [sample_cloud_job Cloud_running] [sample_cloud_item Item_running])"

lemma sample_fuel: "\<exists>n. sv_fuel copy_services = Suc (Suc n)"
  by (rule exI [of _ 8]) (simp add: sample_services_def)

lemma copying_upload:
  "\<exists>n' m' h. dropbox_upload copy_services sample_dropbox
     (item_port copy_services sample_cloud sample_secrets (sample_cloud_job Cloud_running) (sample_cloud_item Item_running))
     [116] (sample_cloud_item Item_running) Autorename path (copying n m (sample_cloud_item Item_running) []) =
   (dropbox_result, copying n' m' (saved_item (Suc m) 3 (sample_cloud_item Item_running)) h)"
proof -
  have ids: "cj_id (sample_cloud_job st) = [106]" "ci_id (sample_cloud_item st1) = [105]" "ci_size (sample_cloud_item st1) = 3" for st st1
    by (simp_all add: sample_cloud_job_def sample_cloud_item_def)
  have none: "loadUploadState sample_cloud sample_secrets job (sample_cloud_item Item_running) = None" for job
    by (simp add: loadUploadState_def sample_cloud_item_def)
  have again: "ci_id (saved_item m n1 i) = ci_id i" "saved_item m1 n1 (saved_item m2 n2 i) = saved_item m1 n1 i" for m n1 m1 m2 n2 i
    by (simp_all add: saved_item_def)
  obtain fuel where fuel: "sv_fuel copy_services = Suc (Suc fuel)" using sample_fuel by blast
  show ?thesis
    by (simp add: dropbox_upload_def ids none again fuel bind_ret dropbox_resume_def demand_def uploadSessionStart_def http_json_def then_http_def
      copying_serve copying_save copying_cancelled copying_chunk io_simps responseJson_def parsed_def text_field_def read_field_def
      record_field_def as_text_def Let_def sample_dropbox_def plain_answer_def CHUNK_SIZE_def uploadSessionAppend_def
      at_end_def dropbox_finish_def uploadSessionFinish_def) blast
qed

lemma sample_adapter:
  "\<exists>n' m' h. adapter_transfer copy_services sample_dropbox
     (item_port copy_services sample_cloud sample_secrets (sample_cloud_job Cloud_running) (sample_cloud_item Item_running))
     Dropbox (sample_cloud_item Item_running) \<lparr>cc_access = [116], cc_refresh = None, cc_expires = None, cc_scope = None\<rparr>
     \<lparr>cd_path = None, cd_folder = None\<rparr> Autorename (copying n m (sample_cloud_item Item_running) []) =
   (dropbox_result, copying n' m' (saved_item (Suc m) 3 (sample_cloud_item Item_running)) h)"
  using copying_upload by (simp add: adapter_transfer_def dropbox_transfer_def accessToken_def bind_ret Let_def)

lemma sample_transfer_copied: "fst sample_transfer = dropbox_result"
  using sample_adapter [of 0 0] unfolding sample_transfer_def copying_begins by auto

text \<open>A run of the sample job.\<close>

lemma copying_job: "getCloudJob copy_services [106] (copying n m item h) = (Inr (Some (sample_cloud_job Cloud_running)), copying (Suc n) m item h)"
  by (simp add: getCloudJob_def sample_await Let_def copying_def cloud_sample_def find_cloud_job_def sample_cloud_job_def)

lemma copying_list: "ci_job item = [106] \<Longrightarrow> listCloudItems copy_services [106] (copying n m item h) = (Inr [item], copying (Suc n) m item h)"
  by (simp add: listCloudItems_def sample_await Let_def copying_def cloud_sample_def job_items_def)

lemma copying_stops: "stops copy_services (sample_cloud_job Cloud_running) (copying n m item h) = (Inr False, copying (Suc (Suc n)) m item h)"
proof -
  have "cj_id (sample_cloud_job Cloud_running) = [106]" by (simp add: sample_cloud_job_def)
  moreover have "shareActive copy_services (sample_cloud_job Cloud_running) (copying n m item h) = (Inr True, copying (Suc n) m item h)" for n
    by (simp add: shareActive_def sample_await Let_def copying_def cloud_sample_def share_serves_def sample_cloud_job_def guest_share_def
        guest_project_def active_project_def unexpired_def)
  ultimately show ?thesis by (simp add: stops_def copying_cancelled io_simps)
qed

lemma copying_mark: "markCloudItemRunning copy_services [105] (copying n m (sample_cloud_item Item_queued) h) =
    (Inr (), copying (Suc n) m (sample_cloud_item Item_running) h)"
  by (simp add: markCloudItemRunning_def sample_await Let_def copying_def cloud_sample_def write_items_def sample_cloud_item_def io_simps)

lemma copying_item: "ci_id item = [105] \<Longrightarrow> await copy_services (\<lambda>w. (find_cloud_item [105] w, w)) (copying n m item h) = (Inr (Some item), copying (Suc n) m item h)"
  by (simp add: sample_await Let_def copying_def cloud_sample_def find_cloud_item_def)

lemma copying_credential: "loadCredential copy_services sample_cloud sample_secrets pv (sample_cloud_job Cloud_running) (copying n m item h) =
    (Inr \<lparr>cc_access = [116], cc_refresh = None, cc_expires = None, cc_scope = None\<rparr>, copying (Suc n) m item h)"
  by (simp add: loadCredential_def sample_await Let_def copying_def cloud_sample_def io_simps own_authorization_def sample_authorization_def
      sample_cloud_job_def js_now_def decryptWithRotation_def decryptCloudSecret_def current_key_id_def sample_secrets_def sample_cloud_def
      js_length_def sum_list_replicate truthy_text_def)

definition copied_all :: "cloud_world \<Rightarrow> bool" where
  "copied_all w \<longleftrightarrow> (\<exists>j i. cw_jobs w = [j] \<and> cw_items w = [i] \<and> cj_id j = [106] \<and> cj_status j = Cloud_running \<and>
     cj_cancel j = None \<and> cj_failed j = 0 \<and> ci_job i = [106] \<and> ci_status i = Item_completed)"

lemma copying_result: "\<exists>w'. markCloudItemResult copy_services (sample_cloud_item Item_running)
     \<lparr>tr_skipped = False, tr_file = Some [105], tr_job = None, tr_uploaded = 3\<rparr>
     (copying n m (saved_item k b (sample_cloud_item Item_running)) h) = (Inr (), w') \<and> copied_all w'"
  by (simp add: markCloudItemResult_def sample_await Let_def copying_def cloud_sample_def store_result_def write_items_def write_jobs_def
    saved_item_def sample_cloud_item_def sample_cloud_job_def result_status_def copied_all_def)

lemma copying_row:
  "\<exists>w'. transfer_row copy_services sample_cloud sample_secrets sample_dropbox (sample_cloud_job Cloud_running)
     \<lparr>cd_path = None, cd_folder = None\<rparr> (sample_cloud_item Item_running) (copying n m (sample_cloud_item Item_running) []) =
     (Inr True, w') \<and> copied_all w'"
proof -
  have fields: "cj_provider (sample_cloud_job Cloud_running) = Dropbox" "cj_conflict (sample_cloud_job Cloud_running) = Autorename"
    by (simp_all add: sample_cloud_job_def)
  obtain n1 m1 h1 where up: "adapter_transfer copy_services sample_dropbox
     (item_port copy_services sample_cloud sample_secrets (sample_cloud_job Cloud_running) (sample_cloud_item Item_running))
     Dropbox (sample_cloud_item Item_running) \<lparr>cc_access = [116], cc_refresh = None, cc_expires = None, cc_scope = None\<rparr>
     \<lparr>cd_path = None, cd_folder = None\<rparr> Autorename (copying (Suc n) m (sample_cloud_item Item_running) []) =
     (dropbox_result, copying n1 m1 (saved_item (Suc m) 3 (sample_cloud_item Item_running)) h1)" using sample_adapter by blast
  show ?thesis using copying_result [of n1 m1 "Suc m" 3 h1] unfolding transfer_row_def Let_def fields
    by (auto simp: io_simps copying_credential up)
qed

lemma copied_calls: "copied_all w \<Longrightarrow> copied_all (w\<lparr>w_calls := n\<rparr>)"
  by (simp add: copied_all_def)

lemma step_served: "m w = (Inr x, w') \<Longrightarrow> step_do copy_services n m w = (Inr x, w'\<lparr>w_calls := Suc (w_calls w')\<rparr>)"
  by (cases n) (simp_all add: checkpointed_def io_simps sample_await Let_def)

lemma copying_attempt:
  "\<exists>w'. attempt_item copy_services sample_cloud sample_secrets sample_dropbox (sample_cloud_job Cloud_running)
     \<lparr>cd_path = None, cd_folder = None\<rparr> [105] (Suc left) (copying n m (sample_cloud_item Item_queued) []) = (Inr (), w') \<and> copied_all w'"
proof -
  have ids: "ci_id (sample_cloud_item Item_running) = [105]" by (simp add: sample_cloud_item_def)
  obtain w1 where "transfer_row copy_services sample_cloud sample_secrets sample_dropbox (sample_cloud_job Cloud_running)
     \<lparr>cd_path = None, cd_folder = None\<rparr> (sample_cloud_item Item_running) (copying (Suc (Suc n)) m (sample_cloud_item Item_running) []) =
     (Inr True, w1)" and w1: "copied_all w1" using copying_row by blast
  then have "transfer_attempt copy_services sample_cloud sample_secrets sample_dropbox (sample_cloud_job Cloud_running)
     \<lparr>cd_path = None, cd_folder = None\<rparr> [105] (copying n m (sample_cloud_item Item_queued) []) = (Inr True, w1)"
    by (simp add: transfer_attempt_def io_simps copying_mark copying_item ids)
  then have "step_do copy_services DEFAULT_STEP_RETRIES (transfer_attempt copy_services sample_cloud sample_secrets sample_dropbox
     (sample_cloud_job Cloud_running) \<lparr>cd_path = None, cd_folder = None\<rparr> [105]) (copying n m (sample_cloud_item Item_queued) []) =
     (Inr True, w1\<lparr>w_calls := Suc (w_calls w1)\<rparr>)" by (rule step_served)
  then show ?thesis unfolding attempt_item.simps by (simp add: io_simps copied_calls [OF w1])
qed

lemma copied_end:
  assumes "copied_all w"
  shows "\<exists>w'. step_do copy_services DEFAULT_STEP_RETRIES (bind_io (finalizeCloudJob copy_services [106]) (\<lambda>_. ret ())) w = (Inr (), w') \<and>
    (\<exists>j'. find_cloud_job [106] w' = Some j' \<and> cj_status j' = Cloud_completed)"
proof -
  obtain j i where w: "cw_jobs w = [j]" "cw_items w = [i]" "cj_id j = [106]" "cj_status j = Cloud_running"
    "cj_cancel j = None" "cj_failed j = 0" "ci_job i = [106]" "ci_status i = Item_completed" using assms by (auto simp: copied_all_def)
  have "\<exists>w'. finalizeCloudJob copy_services [106] w = (Inr (find_cloud_job [106] w'), w') \<and>
      (\<exists>j'. find_cloud_job [106] w' = Some j' \<and> cj_status j' = Cloud_completed)"
    by (simp add: finalizeCloudJob_def getCloudJob_def cloudJobCancelled_def w io_simps sample_await Let_def find_cloud_job_def cancels_def
      final_status_def end_job_def write_items_def write_jobs_def write_authorizations_def unsettled_def)
  then obtain w' where w': "finalizeCloudJob copy_services [106] w = (Inr (find_cloud_job [106] w'), w')"
    "\<exists>j'. find_cloud_job [106] w' = Some j' \<and> cj_status j' = Cloud_completed" by blast
  then have "bind_io (finalizeCloudJob copy_services [106]) (\<lambda>_. ret ()) w = (Inr (), w')" by (simp add: io_simps)
  then have "step_do copy_services DEFAULT_STEP_RETRIES (bind_io (finalizeCloudJob copy_services [106]) (\<lambda>_. ret ())) w =
      (Inr (), w'\<lparr>w_calls := Suc (w_calls w')\<rparr>)" by (rule step_served)
  then show ?thesis using w'(2) by (simp add: find_cloud_job_def)
qed

lemma sample_run:
  "\<exists>w'. runCloudTransferJob copy_services sample_bulk_runtime sample_cloud sample_secrets sample_dropbox [106]
     (cloud_sample [sample_cloud_job Cloud_running] [sample_cloud_item Item_queued]) = (Inr (), w') \<and>
    (\<exists>j'. find_cloud_job [106] w' = Some j' \<and> cj_status j' = Cloud_completed)"
proof -
  have fields: "cj_id (sample_cloud_job Cloud_running) = [106]" "cj_status (sample_cloud_job Cloud_running) = Cloud_running"
    "ci_job (sample_cloud_item Item_queued) = [106]" "ci_status (sample_cloud_item Item_queued) = Item_queued"
    "ci_id (sample_cloud_item Item_queued) = [105]" "ci_attempts (sample_cloud_item Item_queued) = 0"
    "cl_destination sample_cloud x = Some \<lparr>cd_path = None, cd_folder = None\<rparr>" for x
    by (simp_all add: sample_cloud_job_def sample_cloud_item_def sample_cloud_def)
  obtain w1 where run: "attempt_item copy_services sample_cloud sample_secrets sample_dropbox (sample_cloud_job Cloud_running)
     \<lparr>cd_path = None, cd_folder = None\<rparr> [105] 4 (copying (Suc (Suc (Suc (Suc (Suc 0))))) 0 (sample_cloud_item Item_queued) []) = (Inr (), w1)" "copied_all w1"
    using copying_attempt [of 3 "Suc (Suc (Suc (Suc (Suc 0))))" 0] by auto
  show ?thesis
    using copied_end [OF run(2)] run(1) unfolding copying_begins runCloudTransferJob_def run_cloud_steps_def transfer_job_def
    by (auto simp: io_simps copying_job copying_list copying_stops fields simp del: step_do.simps)
qed

subsection \<open>What is written\<close>

lemma achieves_metadata:
  fixes cl env job
  assumes checks: "checks_offsets pv" and leaves: "leaves_copy sv item body"
    and A: "A = (\<lambda>w. stored_sound pv cl env job body (cw_served w) item \<and> copy_sound pv cl env job item body w)"
  shows "achieves A (demand (dropbox_getMetadata sv pv token path)) A (\<lambda>_. A)"
proof -
  have tick: "A w \<Longrightarrow> A (tick sv w)" for w using copy_sound_tick [OF leaves, of pv cl env job w] by (simp add: A)
  have call: "A w \<Longrightarrow> A (w\<lparr>cw_served := cw_served w @ [(token, Dropbox_metadata path)]\<rparr>)" for w
    by (auto simp: A appends_source_def intro: copy_sound_call [OF checks] stored_sound_call [OF checks])
  have answer: "achieves A (then_http (http_json sv pv token (Dropbox_metadata path) ''dropbox-get-metadata'') (parsed (text_field ''id''))) A (\<lambda>_. A)"
    by (rule achieves_then [OF achieves_json [OF tick call]]) (auto intro: achieves_parsed)
  have "achieves A (dropbox_getMetadata sv pv token path) A (\<lambda>_. A)"
    unfolding dropbox_getMetadata_def by (rule achieves_bind [OF answer]) (auto intro: achieves_ret split: sum.split)
  then show ?thesis by (rule achieves_demand)
qed

lemma achieves_dropbox:
  assumes "checks_offsets pv" and "opens_sealed cl" and "leaves_copy sv item body" and "int (length body) = ci_size item"
  shows "achieves (\<lambda>w. stored_sound pv cl env job body (cw_served w) item \<and> copy_sound pv cl env job item body w)
    (adapter_transfer sv pv (item_port sv cl env job item) Dropbox item credential destination mode) (copy_sound pv cl env job item body)
    (\<lambda>r w. copy_sound pv cl env job item body w \<and>
       (\<not> tr_skipped r \<longrightarrow> commits pv body (dropboxPath item destination) (mode = Autorename) (cw_served w)))"
proof -
  let ?A = "\<lambda>w. stored_sound pv cl env job body (cw_served w) item \<and> copy_sound pv cl env job item body w"
  let ?I = "copy_sound pv cl env job item body" and ?path = "dropboxPath item destination"
  let ?R = "\<lambda>r w. ?I w \<and> (\<not> tr_skipped r \<longrightarrow> commits pv body ?path (mode = Autorename) (cw_served w))"
  have existing: "achieves ?A (if mode = Skip then demand (dropbox_getMetadata sv pv token ?path) else ret None) ?I (\<lambda>_. ?A)" for token
    by (auto intro: achieves_ret achieves_weaken [OF achieves_metadata [OF assms(1,3) refl]])
  have rest: "achieves ?A (case existing of Some i \<Rightarrow> ret \<lparr>tr_skipped = True, tr_file = i, tr_job = None, tr_uploaded = 0\<rparr>
      | None \<Rightarrow> dropbox_upload sv pv (item_port sv cl env job item) token item mode ?path) ?I ?R" for token existing
    using achieves_upload [OF assms(1,3,2,4)] by (auto intro: achieves_ret split: option.split)
  show ?thesis
    unfolding adapter_transfer_def CloudProvider.case dropbox_transfer_def Let_def
    by (rule achieves_bind [OF achieves_lift [where R = "\<lambda>_. ?A"]], simp, simp, rule achieves_bind [OF existing rest])
qed



text \<open>
  C17: A job that is reported as completed has copied its files. When nobody interferes and every call is
  served, a run of a job that is new, or that runs with items that wait or have ended, ends it with no
  item left, and as completed only if each of its files was copied or skipped.
\<close>

theorem completed_job_copied_all:
  assumes "alone sv" and "untouched_job jobId w \<or> ready_job jobId w"
    and "runCloudTransferJob sv br cl env pv jobId w = (Inr (), w')"
  shows "\<exists>j. find_cloud_job jobId w' = Some j \<and>
    cj_status j \<in> {Cloud_completed, Cloud_partial, Cloud_failed, Cloud_cancelled} \<and>
    (\<forall>i \<in> set (cw_items w'). ci_job i = jobId \<longrightarrow> \<not> unsettled i \<and>
       (cj_status j = Cloud_completed \<longrightarrow> ci_status i \<in> {Item_completed, Item_skipped}))"
proof -
  let ?A = "\<lambda>w. untouched_job jobId w \<or> ready_job jobId w"
  have found: "achieves ?A (getCloudJob sv jobId) (\<lambda>_. True) (\<lambda>x w. (\<exists>j. x = Some j \<and> find_cloud_job jobId w = Some j) \<and> ?A w)"
    unfolding getCloudJob_def
    by (rule achieves_served [OF assms(1)]) (simp_all add: startable_found)
  have failing: "achieves (\<lambda>_. True) (bind_io (await sv (fail_run jobId f)) (\<lambda>_. raise e)) (\<lambda>_. True) (\<lambda>_. settled jobId)" for f e
    by (rule achieves_bind [where R = "\<lambda>_ _. True"]) (auto intro: achieves_served [OF assms(1)] achieves_raise)
  have "achieves ?A (runCloudTransferJob sv br cl env pv jobId) (\<lambda>_. True) (\<lambda>_. settled jobId)"
    unfolding runCloudTransferJob_def
  proof (rule achieves_bind [OF found])
    show "achieves (\<lambda>w. (\<exists>j. x = Some j \<and> find_cloud_job jobId w = Some j) \<and> ?A w) (case x of None \<Rightarrow> raise (Failed ''job-not-found'')
        | Some initial \<Rightarrow> catch_io (run_cloud_steps sv br cl env pv initial) (\<lambda>error.
            bind_io (await sv (fail_run jobId (classifyCloudFailure (error_message error)))) (\<lambda>_. raise error)))
        (\<lambda>_. True) (\<lambda>_. settled jobId)" for x
      by (cases x) (auto intro!: achieves_catch [OF achieves_weaken [OF run_steps [OF assms(1)]] failing] intro: achieves_raise)
  qed
  from achieves_value [OF this assms(2,3)] show ?thesis unfolding settled_def .
qed

theorem completed_job_copied_all_witness:
  "\<exists>w' j. runCloudTransferJob copy_services sample_bulk_runtime sample_cloud sample_secrets sample_dropbox [106]
     (cloud_sample [sample_cloud_job Cloud_running] [sample_cloud_item Item_queued]) = (Inr (), w') \<and>
     find_cloud_job [106] w' = Some j \<and> cj_status j = Cloud_completed \<and>
     ci_status ` {i \<in> set (cw_items w'). ci_job i = [106]} \<subseteq> {Item_completed, Item_skipped}"
proof -
  let ?w = "cloud_sample [sample_cloud_job Cloud_running] [sample_cloud_item Item_queued]"
  have alone: "alone copy_services" by (simp add: alone_def sample_services_def)
  have ready: "untouched_job [106] ?w \<or> ready_job [106] ?w"
    by (simp add: ready_job_def job_live_def find_cloud_job_def shapes_def row_shape_def cloud_sample_def sample_cloud_job_def
        sample_cloud_item_def item_waits_def)
  obtain w' j where run: "runCloudTransferJob copy_services sample_bulk_runtime sample_cloud sample_secrets sample_dropbox [106] ?w = (Inr (), w')"
    "find_cloud_job [106] w' = Some j" "cj_status j = Cloud_completed" using sample_run by blast
  then show ?thesis using completed_job_copied_all [OF alone ready run(1)] by auto
qed

lemma transfer_none: "\<forall>i \<in> set items. \<not> item_waits (ci_status i) \<Longrightarrow> transfer_items sv cl env pv job destination items = ret ()"
  by (induction items) (auto simp: item_waits_def)

lemma finalize_passed:
  fixes w :: "'x cloud_world_scheme"
  assumes "alone sv" and j: "find_cloud_job jobId w = Some j" "cj_status j = Cloud_running" "cj_cancel j = None" "cj_failed j = 0"
    and i: "i \<in> set (cw_items w)" "ci_job i = jobId" "ci_status i = Item_running"
  defines "A \<equiv> \<lambda>v :: 'x cloud_world_scheme. cw_jobs v = cw_jobs w \<and> cw_items v = cw_items w \<and> cw_served v = cw_served w"
  defines "R \<equiv> \<lambda>v :: 'x cloud_world_scheme. (\<exists>j'. find_cloud_job jobId v = Some j' \<and> cj_status j' = Cloud_completed) \<and> cw_served v = cw_served w \<and>
    (\<exists>i1 \<in> set (cw_items v). ci_id i1 = ci_id i \<and> ci_job i1 = jobId \<and> ci_status i1 = Item_cancelled)"
  shows "achieves A (step_do sv n (bind_io (finalizeCloudJob sv jobId) (\<lambda>_. ret ()))) (\<lambda>_. False) (\<lambda>_. R)"
proof -
  have calls: "A (v\<lparr>w_calls := n\<rparr>) = A v" "R (v\<lparr>w_calls := n\<rparr>) = R v" for v n by (simp_all add: A_def R_def find_cloud_job_def)
  have job: "find_cloud_job jobId v = Some j" if "A v" for v using that j(1) by (simp add: A_def find_cloud_job_def)
  have open_job: "\<not> cancels j" "final_status False j = Cloud_completed" using j by (simp_all add: cancels_def final_status_def)
  have end_all: "R (snd (end_job jobId Cloud_completed v))" if v: "A v" for v
  proof -
    have "\<exists>j'. find_cloud_job jobId (snd (end_job jobId Cloud_completed v)) = Some j' \<and> cj_status j' = Cloud_completed"
      using end_job_status [OF job [OF v]] j(2) by simp
    moreover have "cw_served (snd (end_job jobId Cloud_completed v)) = cw_served w"
      using v by (simp add: A_def end_job_def Let_def write_items_def write_jobs_def write_authorizations_def)
    moreover have "drop_item (w_now v) i \<in> set (cw_items (snd (end_job jobId Cloud_completed v)))"
      unfolding end_job_items set_map using v i by (intro image_eqI [of _ _ i]) (simp_all add: A_def unsettled_def)
    moreover have "ci_id (drop_item (w_now v) i) = ci_id i \<and> ci_job (drop_item (w_now v) i) = jobId \<and>
        ci_status (drop_item (w_now v) i) = Item_cancelled" using i(2) by (simp add: drop_item_def)
    ultimately show ?thesis unfolding R_def by blast
  qed
  have read: "achieves A (getCloudJob sv jobId) F (\<lambda>x v. x = Some j \<and> A v)" for F
    unfolding getCloudJob_def by (rule achieves_served [OF assms(1)]) (simp_all add: calls job)
  have uncancelled: "achieves A (cloudJobCancelled sv jobId) F (\<lambda>c v. c = False \<and> A v)" for F
    unfolding cloudJobCancelled_def by (rule achieves_served [OF assms(1)]) (simp_all add: calls job open_job)
  have ending: "achieves A (bind_io (cloudJobCancelled sv jobId) (\<lambda>cancelled. bind_io (await sv (end_job jobId (final_status cancelled j)))
      (\<lambda>_. getCloudJob sv jobId))) F (\<lambda>_. R)" for F
  proof (rule achieves_bind [OF uncancelled], rule achieves_fact)
    show "achieves A (bind_io (await sv (end_job jobId (final_status c j))) (\<lambda>_. getCloudJob sv jobId)) F (\<lambda>_. R)" if "c = False" for c
      unfolding getCloudJob_def that open_job(2)
      by (rule achieves_bind [OF achieves_served [OF assms(1), where R = "\<lambda>_. R"] achieves_served [OF assms(1)]])
        (simp_all add: calls end_all)
  qed
  have "achieves A (finalizeCloudJob sv jobId) (\<lambda>_. False) (\<lambda>_. R)"
    unfolding finalizeCloudJob_def by (rule achieves_bind [OF read], rule achieves_fact) (simp add: ending)
  then show ?thesis
    by (intro achieves_step [OF assms(1)] achieves_bind achieves_ret) (simp_all add: calls)
qed

text \<open>
  C38: An interrupted file is lost. When a run is started again after an attempt that was interrupted,
  the item that this attempt left as running is passed over: a job without another failure ends as
  completed, and that item as cancelled, although no call to the provider was made.
\<close>

theorem interrupted_item_reported_completed:
  assumes "alone sv" and "find_cloud_job jobId w = Some j" and "cj_status j = Cloud_running" and "cj_cancel j = None"
    and "cj_failed j = 0" and "cl_destination cl (cj_destination j) \<noteq> None"
    and "\<forall>i \<in> set (cw_items w). ci_job i = jobId \<longrightarrow> ci_status i \<notin> {Item_queued, Item_retrying}"
    and "i \<in> set (cw_items w)" and "ci_job i = jobId" and "ci_status i = Item_running"
  shows "\<exists>w'. runCloudTransferJob sv br cl env pv jobId w = (Inr (), w') \<and>
    (\<exists>j'. find_cloud_job jobId w' = Some j' \<and> cj_status j' = Cloud_completed) \<and> cw_served w' = cw_served w \<and>
    (\<exists>i1 \<in> set (cw_items w'). ci_id i1 = ci_id i \<and> ci_job i1 = jobId \<and> ci_status i1 = Item_cancelled)"
proof -
  let ?A = "\<lambda>v. cw_jobs v = cw_jobs w \<and> cw_items v = cw_items w \<and> cw_served v = cw_served w"
  let ?R = "\<lambda>v. (\<exists>j'. find_cloud_job jobId v = Some j' \<and> cj_status j' = Cloud_completed) \<and> cw_served v = cw_served w \<and>
    (\<exists>i1 \<in> set (cw_items v). ci_id i1 = ci_id i \<and> ci_job i1 = jobId \<and> ci_status i1 = Item_cancelled)"
  obtain d where d: "cl_destination cl (cj_destination j) = Some d" using assms(6) by blast
  have own: "cj_id j = jobId" using find_job_id [OF assms(2)] .
  have read: "achieves ?A (getCloudJob sv jobId) F (\<lambda>x v. x = Some j \<and> ?A v)" for F
    unfolding getCloudJob_def by (rule achieves_served [OF assms(1)]) (use assms(2) in \<open>simp_all add: find_cloud_job_def\<close>)
  have list: "achieves ?A (listCloudItems sv jobId) F (\<lambda>items v. (\<forall>i \<in> set items. \<not> item_waits (ci_status i)) \<and> ?A v)" for F
    unfolding listCloudItems_def by (rule achieves_served [OF assms(1)]) (use assms(7) in \<open>simp_all add: job_items_def item_waits_def\<close>)
  have "achieves ?A (transfer_job sv cl env pv j) (\<lambda>_. False) (\<lambda>_. ?R)"
    unfolding transfer_job_def own d option.case bind_lift sum.case
    by (rule achieves_bind [OF list], rule achieves_fact)
      (simp add: transfer_none bind_ret finalize_passed [OF assms(1-5,8-10)])
  then have "achieves ?A (run_cloud_steps sv br cl env pv j) (\<lambda>_. False) (\<lambda>_. ?R)"
    unfolding run_cloud_steps_def own using assms(3)
    by (simp add: bind_ret) (rule achieves_bind [OF read], rule achieves_fact, simp)
  then have "achieves ?A (catch_io (run_cloud_steps sv br cl env pv j) h) (\<lambda>_. False) (\<lambda>_. ?R)" for h
    by (rule achieves_catch) (rule achieves_False)
  then have "achieves ?A (runCloudTransferJob sv br cl env pv jobId) (\<lambda>_. False) (\<lambda>_. ?R)"
    unfolding runCloudTransferJob_def by (intro achieves_bind [OF read] achieves_fact) simp
  then show ?thesis unfolding achieves_def by (drule_tac spec [of _ w]) (auto split: prod.splits sum.splits)
qed

theorem interrupted_item_reported_completed_witness:
  "\<exists>w' j' i1. runCloudTransferJob copy_services sample_bulk_runtime sample_cloud sample_secrets sample_dropbox [106]
     (cloud_sample [sample_cloud_job Cloud_running] [sample_cloud_item Item_running]) = (Inr (), w') \<and>
    find_cloud_job [106] w' = Some j' \<and> cj_status j' = Cloud_completed \<and> cw_served w' = [] \<and>
    i1 \<in> set (cw_items w') \<and> ci_id i1 = [105] \<and> ci_status i1 = Item_cancelled"
proof -
  let ?w = "cloud_sample [sample_cloud_job Cloud_running] [sample_cloud_item Item_running]"
  have alone: "alone copy_services" by (simp add: alone_def sample_services_def)
  have job: "find_cloud_job [106] ?w = Some (sample_cloud_job Cloud_running)" "cj_status (sample_cloud_job Cloud_running) = Cloud_running"
    "cj_cancel (sample_cloud_job Cloud_running) = None" "cj_failed (sample_cloud_job Cloud_running) = 0"
    by (simp_all add: find_cloud_job_def cloud_sample_def sample_cloud_job_def)
  have destination: "cl_destination sample_cloud (cj_destination (sample_cloud_job Cloud_running)) \<noteq> None"
    by (simp add: sample_cloud_def)
  have items: "\<forall>i \<in> set (cw_items ?w). ci_job i = [106] \<longrightarrow> ci_status i \<notin> {Item_queued, Item_retrying}"
    "sample_cloud_item Item_running \<in> set (cw_items ?w)" "ci_job (sample_cloud_item Item_running) = [106]"
    "ci_status (sample_cloud_item Item_running) = Item_running" "ci_id (sample_cloud_item Item_running) = [105]" "cw_served ?w = []"
    by (simp_all add: cloud_sample_def sample_cloud_item_def)
  from interrupted_item_reported_completed [OF alone job destination items(1-4)] show ?thesis unfolding items(5,6) by blast
qed

end
