(* ===== verification/Spec2Isabelle.thy ===== *)
theory Spec2Isabelle
  imports Zip_Properties Native_Properties Bulk_Properties Delivery_Properties R2_Properties Staff_Properties
    Share_Properties Trash_Properties Delivery_Refs Download_Properties
    Retention_Properties Cloud_Properties
begin

text \<open>
  A verification library for LedgeTop Ops.

  The program. LedgeTop Ops delivers the files of a drone services company. Two Cloudflare Workers share an
  object store (R2) and two SQL databases (D1). The client worker (\<open>apps/client/src/worker\<close>) serves public
  shares: it opens a session for the holder of a link, lists the shared folder, prepares ZIP archives of
  selections in a workflow, and copies selections to the holder's account at Dropbox or Google Drive in another. The operations worker (\<open>apps/operations/src/worker\<close>) lets staff copy, move,
  upload, delete and restore objects, keeps an index of them, manages the shares, and hands the lifecycle of
  projects to another system by signed commands. Handlers run concurrently in many isolates, any awaited call
  can fail, and a batch of SQL statements is the only transaction. The library models the code that must stay
  right under these conditions.

  Parts and theories. Names of definitions are those of the source wherever HOL allows it.

  \<^item> Shared: \<open>Prelude\<close> (results as sums, integers and code point strings of JavaScript, UTF-8),
    \<open>Text_Tools\<close>, \<open>Path_Tools\<close>, \<open>Sql_Batch\<close> (tables as lists of rows, atomic batches, triggers as a guard).
  \<^item> Archives, \<open>zip.ts\<close> and \<open>one-pass-zip.ts\<close>: \<open>Zip_Bytes\<close> (CRC-32, little-endian fields, 32-bit
    words), \<open>Zip_Names\<close>, \<open>Zip_Layout\<close> (layout and ranged reads), \<open>Zip_Stream\<close>, \<open>One_Pass_Zip\<close> (the
    resumable writer as a state machine over its record), \<open>One_Pass_Plan\<close>, \<open>One_Pass_Correct\<close>.
  \<^item> Bulk downloads, \<open>workflow.ts\<close> and \<open>bulk-download-errors.ts\<close>: \<open>Bulk_Archive\<close> with
    \<open>Bulk_Archive_Correct\<close>, \<open>Crc_Plan\<close>, \<open>Bulk_Alias\<close>, \<open>Bulk_Estimate\<close>, \<open>Bulk_Partition\<close> (with the
    failure codes) are the pure code; \<open>Bulk_Jobs\<close> (tables, keys, multipart calls, steps of the engine, the
    files a request selects) and \<open>Bulk_Workflow\<close> (reuse, parts, completion, split, run, failure path) the
    workflow; \<open>Bulk_Cleanup\<close> and \<open>Bulk_Routes\<close> the scheduled
    cleanup and the routes of \<open>index.ts\<close> with \<open>parseRange\<close> of \<open>files.ts\<close>. Proofs:
    \<open>Bulk_Kept\<close> (every call and every handler keeps a ready archive), \<open>Bulk_Schedule\<close> (sequences of actors),
    \<open>Bulk_Build\<close> (the steps of a run carry out \<open>write_archive\<close>).
  \<^item> Cloud copies, \<open>cloud-transfer\<close> with its \<open>providers\<close>, and their routes: \<open>Cloud_Jobs\<close> (tables, the
    statements of \<open>repository.ts\<close>, \<open>errors.ts\<close>, \<open>grants.ts\<close>), \<open>Cloud_Providers\<close> (clients, tokens,
    adapters), \<open>Cloud_Workflow\<close> (run and cleanup), \<open>Cloud_Routes\<close>; \<open>Cloud_Copy\<close> proves what a copy writes.
  \<^item> Delivery paths, \<open>files.ts\<close>, \<open>downloadable-files.ts\<close>: \<open>Item_Refs\<close>, \<open>Delivery_Files\<close>,
    \<open>Delivery_Correct\<close>; the copies of the operations worker, \<open>delivery.ts\<close>: \<open>Delivery_Refs\<close>.
  \<^item> Public shares, \<open>security.ts\<close>, \<open>public-share-lifecycle.ts\<close> and \<open>index.ts\<close> of the client worker:
    \<open>Share_Sessions\<close> (signed cookies, access codes), \<open>Share_Access\<close> (rows, state of a share, availability
    of the folder), \<open>Share_Routes\<close> (opening a session, authorising a request), \<open>Share_Holder\<close>.
  \<^item> Project lifecycle, \<open>native-project-lifecycle.ts\<close>: \<open>Native_Authority\<close>, \<open>Native_Lifecycle\<close>,
    \<open>Native_Submit\<close>, \<open>Native_Refresh\<close>; the transition system of the schema in \<open>Native_Transitions\<close>; the
    interleaving of workers in \<open>Native_Interleaving\<close> and its invariant in \<open>Native_Safety\<close>.
  \<^item> Storage operations, \<open>r2-crud.ts\<close>, \<open>r2-crud-validation.ts\<close>, \<open>multipart-etag.ts\<close>,
    \<open>delivery-index-acceptance.ts\<close>: \<open>R2_Paths\<close>, \<open>Delivery_Index\<close>, \<open>R2_Store\<close>,
    \<open>R2_Copy\<close>, \<open>R2_Move\<close>, \<open>R2_Recovery\<close>, \<open>R2_Jobs\<close>, \<open>R2_Uploads\<close>, \<open>R2_Upload_Routes\<close>,
    \<open>R2_Upload_Complete\<close>; proofs in \<open>R2_Hoare\<close>, \<open>R2_Safety\<close>, \<open>R2_Transfers\<close>, \<open>R2_Frames\<close>,
    \<open>R2_Job_States\<close>, \<open>R2_Upload_States\<close>.
  \<^item> Retention, \<open>retention.ts\<close>: \<open>Retention\<close> (ledgers, archives, the gate and its trigger).
  \<^item> Permissions, \<open>acl.ts\<close>: \<open>Staff_Acl\<close>.
  \<^item> Deletion and trash, \<open>trash.ts\<close>, \<open>source-delete.ts\<close> and their routes: \<open>Trash\<close>,
    \<open>Source_Delete\<close>; proofs in \<open>Trash_Safety\<close>, \<open>R2_Alone\<close>, \<open>Delete_Correct\<close>.

  The properties, each with a concrete instance, are in the theories \<open>..._Properties\<close>; sample data is in
  \<open>R2_Samples\<close> and in those theories.

  How state is modelled. Pure code is a function. The archive writer is a function of its state record, as
  in the source. A handler of the workers is a value of type \<open>io\<close> (\<open>R2_Store\<close>): a function of the world,
  the record of all tables and of the bucket, that returns a fault with its HTTP status or a value. Each
  component extends the world by its tables (\<open>share_world\<close>, \<open>job_world\<close>, \<open>upload_world\<close>, \<open>trash_world\<close>,
  \<open>delivery_world\<close>, \<open>bulk_world\<close>, \<open>cloud_world\<close>, \<open>retention_world\<close>). Every awaited call first gives the environment its turn (\<open>sv_turn\<close>), an arbitrary
  change of the world, and then is served, refused, or served with its answer lost (\<open>sv_outcome\<close>); so a
  theorem about all services is one about all interleavings with other requests and all failures. The
  lifecycle commands, whose workers may also die, are an inductive step relation over the databases and the
  positions of all workers; the theorems hold in every reachable state.

  Interfaces. Locales state what a client relies on, and are instantiated by the models:

  \<^item> \<open>resumable\<close> (a producer asked for its bytes in pieces), by the writer of archive parts: the parts of a
    workflow, each from the state the one before left, concatenate to the archive.
  \<^item> \<open>watched\<close> (a statement that no counter, outbox or fresh identifier can break), by \<open>spared\<close> for the
    purge, by \<open>stage\<close> for the session of a share and by \<open>kept\<close> for a ready archive.
  \<^item> \<open>bystander\<close> extends it (\<open>sublocale\<close>) to all fields of the plain world: every storage handler keeps such
    a statement. \<open>share_bystander\<close> and \<open>job_bystander\<close> add the shares and the jobs, instantiated for a job
    that ended and a job under a lease; \<open>upload_bystander\<close> adds the sessions, instantiated for their
    well-formedness and for a session that ended.

  What the lemmas show. Archives: every part written from a reachable state is the next bytes of one fixed
  archive, whose central directory points at its entries; ranged reads, the streaming writer, the size
  estimate and the multipart plan agree with it. Planning: splits, work units and windows keep every source
  once and in order within the limits of the platform. Downloads: a run stores and records the archive of its
  selection, nothing takes a ready archive away before its job expires, and its file route then answers its
  bytes; a failed run is reported and cleaned up. Cloud copies: what is committed at Dropbox is the source,
  and a job that an undisturbed run ends as completed has copied every file. Delivery: references and prefixes never leave their
  root, and the page-by-page searches end and see exactly what is stored. Lifecycle: operations refine the
  schema's transitions, nothing is transmitted without authority that is current before and after the
  callback in front of the POST, and what is not transmitted can be
  abandoned. Storage: copies and moves keep every byte sequence on every outcome while nobody else
  writes and no answer is lost (a run in which one is lost shows the difference), index statements are fenced,
  ended jobs and sessions stay. Shares: a cookie is what was signed, and a session is of use only to a holder of
  the link and the code, however staff change the row in between. Permissions: list queries and decisions for
  one resource agree. Trash: a deletion records all that it hides, and a purge deletes nothing else. Retention: no row of a ledger is
  lost. Some
  theorems state behaviour that is probably not meant; they are the findings of the manifest.

  Bounds. Loops over the pages of a listing take at most \<open>sv_fuel\<close> pages; the safety theorems hold for every
  fuel, running out being one more failure, and the theorems that a handler succeeds assume that the listing
  ends within it (\<open>lists_all\<close>, which every finite bucket satisfies for a large enough fuel). The job workflow
  has the 10,000 turns of the source, a step of a workflow the retries the source gives it (or the five of the
  engine), and the cleanup of archives the 20 pages and 50 claims of the source. The chunks of a cloud copy run on
  \<open>sv_fuel\<close>; a transfer that runs out has failed like one whose call failed, and an item has its four attempts. Searches of the client worker over a listing without a bound are
  proved to end for every bucket that serves its objects page by page (\<open>served_by\<close>). Other loops are
  structural or have a termination proof.

  Parameters. Code outside the repository is an argument: case mapping and normalisation of text, hashes and
  signatures, MIME tables, date parsing, entity tags and listings of the bucket, multipart calls, rate
  limiters, the network, and the two cloud providers as functions from the calls they have served. Hypotheses about them state their documented behaviour.

  Not modelled. The React applications, the 3D viewer (JavaScript over WebGL) and the Blender, CI and
  database scripts; SQL schema files, except for the constraints that the code relies on, which appear as the
  guard of batches or as conditions of statements; the signing of storage URLs, which only the provider
  checks; notifications, audit details and log lines, of which only the fact that they were sent is kept;
  the portal of authenticated clients and the remaining routes of the two entry files, which mostly read and
  format rows; of the engine of workflows its restarts and the delays between retries (\<open>step_do\<close> repeats a body
  at once, also one whose outcome was lost); rounding in doubles of percentages that are only shown.
\<close>

end
